(* ===== verification/Dbal_Errors.thy ===== *)
theory Dbal_Errors
  imports Dbal_Prelude
begin

text \<open>
  The error values of the program (\<^verbatim>\<open>include/dbal/core/error_codes.hpp\<close>,
  \<^verbatim>\<open>error.hpp\<close>, \<^verbatim>\<open>error_result.hpp\<close>, \<^verbatim>\<open>src/errors.cpp\<close>).
  \<^verbatim>\<open>Result<T>\<close> is a sum: \<^const>\<open>Inl\<close> carries the error, \<^const>\<open>Inr\<close> the value.
\<close>

datatype error_code =
    NotFound | Conflict | Unauthorized | Forbidden | ValidationError | RateLimitExceeded
  | InternalError | Timeout | DatabaseError | CapabilityNotSupported | SandboxViolation
  | MaliciousCodeDetected

fun http_status :: "error_code \<Rightarrow> int" where
  "http_status NotFound = 404"
| "http_status Conflict = 409"
| "http_status Unauthorized = 401"
| "http_status Forbidden = 403"
| "http_status ValidationError = 422"
| "http_status RateLimitExceeded = 429"
| "http_status InternalError = 500"
| "http_status Timeout = 504"
| "http_status DatabaseError = 503"
| "http_status CapabilityNotSupported = 501"
| "http_status SandboxViolation = 406"
| "http_status MaliciousCodeDetected = 451"

record error =
  err_code :: error_code
  err_what :: string

type_synonym 'a result = "error + 'a"

definition not_found :: "string \<Rightarrow> error" where
  "not_found msg = \<lparr>err_code = NotFound, err_what = msg\<rparr>"

definition conflict :: "string \<Rightarrow> error" where
  "conflict msg = \<lparr>err_code = Conflict, err_what = msg\<rparr>"

definition unauthorized :: "string \<Rightarrow> error" where
  "unauthorized msg = \<lparr>err_code = Unauthorized, err_what = msg\<rparr>"

definition forbidden :: "string \<Rightarrow> error" where
  "forbidden msg = \<lparr>err_code = Forbidden, err_what = msg\<rparr>"

definition validation_error :: "string \<Rightarrow> error" where
  "validation_error msg = \<lparr>err_code = ValidationError, err_what = msg\<rparr>"

definition internal_error :: "string \<Rightarrow> error" where
  "internal_error msg = \<lparr>err_code = InternalError, err_what = msg\<rparr>"

definition sandbox_violation :: "string \<Rightarrow> error" where
  "sandbox_violation msg = \<lparr>err_code = SandboxViolation, err_what = msg\<rparr>"

definition malicious_code :: "string \<Rightarrow> error" where
  "malicious_code msg = \<lparr>err_code = MaliciousCodeDetected, err_what = msg\<rparr>"

lemmas error_defs = not_found_def conflict_def unauthorized_def forbidden_def
  validation_error_def internal_error_def sandbox_violation_def malicious_code_def

text \<open>The guard of an operation: a failed check is the early return of its error.\<close>

definition is_ok :: "'a result \<Rightarrow> bool" where
  "is_ok r = (case r of Inl e \<Rightarrow> False | Inr v \<Rightarrow> True)"

lemma is_ok_simps [simp]: "is_ok (Inr v)" "\<not> is_ok (Inl e)"
  by (auto simp: is_ok_def)

lemma err_code_simps [simp]:
  "err_code (not_found m) = NotFound" "err_code (conflict m) = Conflict"
  "err_code (unauthorized m) = Unauthorized" "err_code (forbidden m) = Forbidden"
  "err_code (validation_error m) = ValidationError"
  "err_code (internal_error m) = InternalError"
  by (simp_all add: error_defs)

lemma http_status_inject: "http_status a = http_status b \<longleftrightarrow> a = b"
  by (cases a; cases b) simp_all

end
