(* ===== verification/Cpp_Sort.thy ===== *)
theory Cpp_Sort
  imports Dbal_Prelude "HOL-Library.Multiset"
begin

text \<open>
  \<^verbatim>\<open>std::sort\<close> and the page slices that the list operations cut from its result.
  \<^verbatim>\<open>std::sort\<close> is not stable: where the comparator does not separate two elements
  their order is unspecified.  The operations of the model therefore take the sorting
  function as an argument, and the locale \<open>cpp_sort\<close> states all that the standard
  promises about it.  An insertion sort is an instance.
\<close>

section \<open>The contract of std::sort\<close>

definition strict_weak :: "('a \<Rightarrow> 'a \<Rightarrow> bool) \<Rightarrow> bool" where
  "strict_weak lt \<longleftrightarrow> (\<forall>x. \<not> lt x x) \<and> (\<forall>x y z. lt x y \<longrightarrow> lt y z \<longrightarrow> lt x z)
     \<and> (\<forall>x y z. \<not> lt x y \<and> \<not> lt y x \<longrightarrow> \<not> lt y z \<and> \<not> lt z y \<longrightarrow> \<not> lt x z \<and> \<not> lt z x)"

definition sorted_by :: "('a \<Rightarrow> 'a \<Rightarrow> bool) \<Rightarrow> 'a list \<Rightarrow> bool" where
  "sorted_by lt xs \<longleftrightarrow> sorted_wrt (\<lambda>x y. \<not> lt y x) xs"

lemma strict_weak_not_trans:
  "strict_weak lt \<Longrightarrow> \<not> lt y x \<Longrightarrow> \<not> lt z y \<Longrightarrow> \<not> lt z x"
  unfolding strict_weak_def by blast

lemma strict_weak_key: "strict_weak (\<lambda>x y. f x < (f y :: 'k::linorder))"
  by (auto simp: strict_weak_def)

locale cpp_sort =
  fixes srt :: "('a \<Rightarrow> 'a \<Rightarrow> bool) \<Rightarrow> 'a list \<Rightarrow> 'a list"
  assumes srt_perm: "strict_weak lt \<Longrightarrow> mset (srt lt xs) = mset xs"
    and srt_sorted: "strict_weak lt \<Longrightarrow> sorted_by lt (srt lt xs)"
begin

lemma srt_set: "strict_weak lt \<Longrightarrow> set (srt lt xs) = set xs"
  using srt_perm by (metis set_mset_mset)

lemma srt_length: "strict_weak lt \<Longrightarrow> length (srt lt xs) = length xs"
  using srt_perm by (metis size_mset)

lemma srt_distinct: "strict_weak lt \<Longrightarrow> distinct (srt lt xs) = distinct xs"
  using srt_perm by (metis mset_eq_imp_distinct_iff)

lemma srt_Nil: "strict_weak lt \<Longrightarrow> srt lt [] = []"
  using srt_length [of lt "[]"] by simp

text \<open>A key that separates the elements leaves the sort no choice.\<close>

lemma srt_unique_key:
  fixes f :: "'a \<Rightarrow> 'k::linorder"
  assumes "inj_on f (set xs)"
  shows "srt (\<lambda>x y. f x < f y) xs = sort_key f xs"
proof (rule properties_for_sort_key [symmetric])
  show "mset (srt (\<lambda>x y. f x < f y) xs) = mset xs" by (rule srt_perm) (rule strict_weak_key)
  show "sorted (map f (srt (\<lambda>x y. f x < f y) xs))"
    using srt_sorted [OF strict_weak_key, of f xs]
    by (simp add: sorted_by_def sorted_wrt_map not_less)
  fix k
  assume "k \<in> set (srt (\<lambda>x y. f x < f y) xs)"
  then have k: "k \<in> set xs" using srt_set [OF strict_weak_key, of f xs] by simp
  have "filter (\<lambda>x. f k = f x) ys = filter (\<lambda>x. x = k) ys" if "set ys = set xs" for ys
    using assms k that by (intro filter_cong) (auto dest: inj_onD)
  moreover have "filter (\<lambda>x. x = k) ys = replicate (count (mset ys) k) k" for ys :: "'a list"
    by (induction ys) auto
  ultimately show "filter (\<lambda>x. f k = f x) (srt (\<lambda>x y. f x < f y) xs) = filter (\<lambda>x. f k = f x) xs"
    using srt_perm [OF strict_weak_key, of f xs] srt_set [OF strict_weak_key, of f xs] by simp
qed

end

section \<open>An instance\<close>

fun ins_by :: "('a \<Rightarrow> 'a \<Rightarrow> bool) \<Rightarrow> 'a \<Rightarrow> 'a list \<Rightarrow> 'a list" where
  "ins_by lt x [] = [x]"
| "ins_by lt x (y # ys) = (if lt y x then y # ins_by lt x ys else x # y # ys)"

fun isort_by :: "('a \<Rightarrow> 'a \<Rightarrow> bool) \<Rightarrow> 'a list \<Rightarrow> 'a list" where
  "isort_by lt [] = []"
| "isort_by lt (x # xs) = ins_by lt x (isort_by lt xs)"

lemma mset_ins_by: "mset (ins_by lt x ys) = add_mset x (mset ys)"
  by (induction ys) auto

lemma set_ins_by: "set (ins_by lt x ys) = insert x (set ys)"
  by (induction ys) auto

lemma sorted_ins_by: "strict_weak lt \<Longrightarrow> sorted_by lt ys \<Longrightarrow> sorted_by lt (ins_by lt x ys)"
proof (induction ys)
  case Nil
  then show ?case by (simp add: sorted_by_def)
next
  case (Cons y ys)
  then have tail: "sorted_by lt ys" and above: "\<forall>z \<in> set ys. \<not> lt z y"
    by (auto simp: sorted_by_def)
  show ?case
  proof (cases "lt y x")
    case True
    then have "\<not> lt x y" using Cons.prems(1) unfolding strict_weak_def by blast
    with True above Cons.IH [OF Cons.prems(1) tail] show ?thesis
      by (auto simp: sorted_by_def set_ins_by)
  next
    case False
    then have "\<forall>z \<in> set ys. \<not> lt z x"
      using above strict_weak_not_trans [OF Cons.prems(1)] by blast
    with False Cons.prems(2) show ?thesis by (auto simp: sorted_by_def)
  qed
qed

lemma mset_isort_by: "mset (isort_by lt xs) = mset xs"
  by (induction xs) (auto simp: mset_ins_by)

lemma sorted_isort_by: "strict_weak lt \<Longrightarrow> sorted_by lt (isort_by lt xs)"
  by (induction xs) (auto simp: sorted_ins_by, simp add: sorted_by_def)

interpretation isort: cpp_sort isort_by
  by unfold_locales (simp_all add: mset_isort_by sorted_isort_by)

section \<open>Cutting a page out of a list\<close>

text \<open>
  A C++ expression that has no defined behaviour, or that throws something other than the
  program's own error, is a value of its own.
\<close>

datatype exn = Undefined | Std_exception string

text \<open>The range constructor \<^verbatim>\<open>vector(begin + s, begin + e)\<close>: outside the vector, undefined.\<close>

definition vec_range :: "int \<Rightarrow> int \<Rightarrow> 'a list \<Rightarrow> exn + 'a list" where
  "vec_range s e xs =
     (if 0 \<le> s \<and> s \<le> e \<and> e \<le> int (length xs)
      then Inr (take (nat (e - s)) (drop (nat s) xs)) else Inl Undefined)"

text \<open>
  The tail every \<^verbatim>\<open>list\<close> operation shares: \<^verbatim>\<open>start = (page - 1) * limit\<close>,
  \<^verbatim>\<open>end = min(start + limit, size)\<close>, and the range between them.
\<close>

definition page_slice :: "int \<Rightarrow> int \<Rightarrow> 'a list \<Rightarrow> exn + 'a list" where
  "page_slice page limit xs =
     (case Option.bind (checked (page - 1)) (\<lambda>p. checked (p * limit)) of
        None \<Rightarrow> Inl Undefined
      | Some start \<Rightarrow>
          (case checked (start + limit) of
             None \<Rightarrow> Inl Undefined
           | Some stop \<Rightarrow>
               (let n = size_to_int (length xs); e = min stop n in
                if start < n then vec_range start e xs else Inr [])))"

lemma page_slice_ok:
  assumes "1 \<le> page" "0 \<le> limit" "in_int32 (page - 1)" "in_int32 (page * limit)"
    and "length xs < 2 ^ 31"
  shows "page_slice page limit xs = Inr (take (nat limit) (drop (nat ((page - 1) * limit)) xs))"
proof -
  have lo: "0 \<le> (page - 1) * limit" and le: "(page - 1) * limit \<le> page * limit"
    using assms(1,2) by (auto simp: mult_right_mono)
  then have start: "in_int32 ((page - 1) * limit)"
    using assms(4) by (auto simp: in_int32_def)
  have stop: "(page - 1) * limit + limit = page * limit" by (simp add: algebra_simps)
  have n: "size_to_int (length xs) = int (length xs)" using assms(5) by simp
  show ?thesis
  proof (cases "(page - 1) * limit < int (length xs)")
    case False
    then have "nat ((page - 1) * limit) \<ge> length xs" by linarith
    then have "drop (nat ((page - 1) * limit)) xs = []" by simp
    with False show ?thesis
      using assms(3,4) start stop n by (simp add: page_slice_def)
  next
    case True
    have "take (nat (min (page * limit) (int (length xs)) - (page - 1) * limit))
            (drop (nat ((page - 1) * limit)) xs)
        = take (nat limit) (drop (nat ((page - 1) * limit)) xs)"
    proof (cases "page * limit \<le> int (length xs)")
      case True
      then show ?thesis using stop by (simp add: min_absorb1) (metis add_diff_cancel_left')
    next
      case False
      with lo stop have "length (drop (nat ((page - 1) * limit)) xs) \<le> nat limit"
        and "length (drop (nat ((page - 1) * limit)) xs) \<le> nat (int (length xs) - (page - 1) * limit)"
        by (simp_all add: nat_diff_distrib)
      with False show ?thesis by (simp add: min_absorb2)
    qed
    with True assms(2,3,4) lo le start stop n show ?thesis
      by (simp add: page_slice_def vec_range_def)
  qed
qed

lemma page_slice_length:
  "page_slice page limit xs = Inr ys \<Longrightarrow> 0 \<le> limit \<Longrightarrow> length ys \<le> nat limit"
  by (auto simp: page_slice_def vec_range_def checked_def Let_def bind_eq_Some_conv
      split: option.splits if_splits)

lemma page_slice_set: "page_slice page limit xs = Inr ys \<Longrightarrow> set ys \<subseteq> set xs"
  by (auto simp: page_slice_def vec_range_def Let_def split: option.splits if_splits
      dest!: in_set_takeD in_set_dropD)

text \<open>A page below the first one starts before the vector.\<close>

lemma page_slice_page_zero:
  assumes "page < 1" "0 < limit" "in_int32 (page - 1)" "in_int32 ((page - 1) * limit)"
    and "length xs < 2 ^ 31"
  shows "page_slice page limit xs = Inl Undefined"
proof -
  have neg: "(page - 1) * limit < 0" using assms(1,2) by (simp add: mult_neg_pos)
  then have "in_int32 ((page - 1) * limit + limit)"
    using assms(2,4) mult_right_mono [of page 0 limit] assms(1)
    by (auto simp: in_int32_def algebra_simps)
  with neg assms show ?thesis
    by (simp add: page_slice_def vec_range_def Let_def)
qed

text \<open>The pages \<open>1 \<dots> k\<close> of a list, put together, are its first \<open>k * limit\<close> elements.\<close>

lemma pages_concat:
  "concat (map (\<lambda>i. take l (drop (i * l) xs)) [0..<k]) = take (k * l) xs"
proof (induction k)
  case 0
  then show ?case by simp
next
  case (Suc k)
  have "take (k * l + l) xs = take (k * l) xs @ take l (drop (k * l) xs)"
    by (rule take_add)
  with Suc show ?case by (simp add: add.commute)
qed

end
