(* ===== verification/Entity_Store.thy ===== *)
theory Entity_Store
  imports Dbal_Errors Cpp_Sort "HOL-Library.Option_ord"
begin

text \<open>
  The in-memory store (\<^verbatim>\<open>src/store/in_memory_store.hpp\<close>): the entity records, the
  collections and their secondary indexes, id generation, and the snapshot transactions.
  The entity records carry the fields that \<^verbatim>\<open>shared/tools/codegen/gen_types.py\<close>
  generates from the JSON schemas under \<^verbatim>\<open>shared/api/schema/entities\<close>; a field that
  the schema marks optional or nullable is an option.  A timestamp is its tick count.
\<close>

section \<open>Entities\<close>

record user =
  us_id :: string
  us_username :: string
  us_email :: string
  us_role :: string
  us_profilePicture :: "string option"
  us_bio :: "string option"
  us_createdAt :: "int option"
  us_tenantId :: "string option"
  us_isInstanceOwner :: "bool option"
  us_passwordChangeTimestamp :: "int option"
  us_firstLogin :: "bool option"

record page_config =
  pg_id :: string
  pg_tenantId :: "string option"
  pg_packageId :: "string option"
  pg_path :: string
  pg_title :: string
  pg_description :: "string option"
  pg_icon :: "string option"
  pg_component :: "string option"
  pg_pageTreeId :: "string option"
  pg_level :: int
  pg_requiresAuth :: bool
  pg_requiredRole :: "string option"
  pg_parentPath :: "string option"
  pg_sortOrder :: int
  pg_isPublished :: bool
  pg_params :: "string option"
  pg_meta :: "string option"
  pg_createdAt :: "int option"
  pg_updatedAt :: "int option"

record workflow =
  wk_id :: string
  wk_tenantId :: "string option"
  wk_name :: string
  wk_description :: "string option"
  wk_enabled :: "bool option"
  wk_status :: "string option"
  wk_category :: "string option"
  wk_triggerEvent :: "string option"
  wk_formName :: "string option"
  wk_isPublished :: "bool option"
  wk_isArchived :: "bool option"
  wk_version :: int
  wk_createdAt :: "int option"
  wk_updatedAt :: "int option"
  wk_createdBy :: "string option"
  wk_updatedBy :: "string option"

record session =
  se_id :: string
  se_userId :: string
  se_token :: string
  se_expiresAt :: int
  se_createdAt :: "int option"
  se_lastActivity :: "int option"
  se_ipAddress :: "string option"
  se_userAgent :: "string option"
  se_tenantId :: "string option"

record installed_package =
  pk_id :: string
  pk_packageId :: string
  pk_tenantId :: "string option"
  pk_installedAt :: "int option"
  pk_version :: string
  pk_enabled :: bool

record credential =
  cr_id :: string
  cr_passwordHash :: string
  cr_salt :: "string option"
  cr_tenantId :: "string option"
  cr_email :: "string option"

record component_node =
  cn_id :: string
  cn_pageId :: string
  cn_parentId :: "string option"
  cn_type :: string
  cn_childIds :: string
  cn_order :: int

text \<open>\<^verbatim>\<open>ListOptions\<close> of \<^verbatim>\<open>include/dbal/core/types.hpp\<close>, the part the store's operations read.\<close>

record list_options =
  lo_filter :: "(string, string) omap"
  lo_sort :: "(string, string) omap"
  lo_page :: int
  lo_limit :: int

definition default_list_options :: list_options where
  "default_list_options = \<lparr>lo_filter = [], lo_sort = [], lo_page = 1, lo_limit = 20\<rparr>"

text \<open>A test of the filter: it passes when the option is absent.\<close>

definition filter_passes :: "list_options \<Rightarrow> string \<Rightarrow> (string \<Rightarrow> bool) \<Rightarrow> bool" where
  "filter_passes opts k p = (case map_of (lo_filter opts) k of None \<Rightarrow> True | Some v \<Rightarrow> p v)"

definition sorts_on :: "list_options \<Rightarrow> string \<Rightarrow> bool" where
  "sorts_on opts k \<longleftrightarrow> map_of (lo_sort opts) k \<noteq> None"

text \<open>\<^verbatim>\<open>if (input.f.has_value()) x.f = input.f.value();\<close>\<close>

definition apply_opt :: "('v \<Rightarrow> 'r \<Rightarrow> 'r) \<Rightarrow> 'v option \<Rightarrow> 'r \<Rightarrow> 'r" where
  "apply_opt f ov x = (case ov of None \<Rightarrow> x | Some v \<Rightarrow> f v x)"

text \<open>\<^verbatim>\<open>matches.resize(limit)\<close> where a positive limit is exceeded.\<close>

definition truncate_to :: "int \<Rightarrow> 'a list \<Rightarrow> 'a list" where
  "truncate_to limit xs = (if limit > 0 \<and> size_to_int (length xs) > limit then take (nat limit) xs else xs)"

text \<open>
  \<^verbatim>\<open>std::stoi\<close>: leading white space, a sign, the longest run of digits; an exception when
  there is none or the value does not fit.
\<close>

definition stoi :: "string \<Rightarrow> exn + int" where
  "stoi s =
     (let t = dropWhile is_space s;
          neg = (t \<noteq> [] \<and> hd t = CHR ''-'');
          u = (if t \<noteq> [] \<and> (hd t = CHR ''-'' \<or> hd t = CHR ''+'') then tl t else t);
          ds = takeWhile is_digit u;
          v = (if neg then - int (digits_val ds) else int (digits_val ds))
      in if ds = [] then Inl (Std_exception ''stoi: invalid_argument'')
         else if \<not> in_int32 v then Inl (Std_exception ''stoi: out_of_range'')
         else Inr v)"

section \<open>The store\<close>

record store =
  users :: "(string, user) omap"
  pages :: "(string, page_config) omap"
  workflows :: "(string, workflow) omap"
  sessions :: "(string, session) omap"
  packages :: "(string, installed_package) omap"
  credentials :: "(string, credential) omap"
  page_paths :: "(string, string) omap"
  workflow_names :: "(string, string) omap"
  session_tokens :: "(string, string) omap"
  package_keys :: "(string, string) omap"
  user_counter :: int
  page_counter :: int
  workflow_counter :: int
  session_counter :: int
  package_counter :: int
  credential_counter :: int
  components :: "(string, component_node) omap"
  components_by_page :: "(string, string list) omap"
  components_by_parent :: "(string, string list) omap"
  component_counter :: int

definition empty_store :: store where
  "empty_store = \<lparr>users = [], pages = [], workflows = [], sessions = [], packages = [],
     credentials = [], page_paths = [], workflow_names = [], session_tokens = [], package_keys = [],
     user_counter = 0, page_counter = 0, workflow_counter = 0, session_counter = 0,
     package_counter = 0, credential_counter = 0, components = [], components_by_page = [],
     components_by_parent = [], component_counter = 0\<rparr>"

subsection \<open>Identifiers\<close>

text \<open>
  \<^verbatim>\<open>snprintf(buffer, 64, "%s_%08d", prefix.c_str(), counter)\<close>: the prefix up to a NUL,
  the counter padded with zeros to eight columns, and at most 63 characters of it all.
\<close>

definition pad_zero :: "nat \<Rightarrow> string \<Rightarrow> string" where
  "pad_zero w s = replicate (w - length s) (CHR ''0'') @ s"

definition pad8 :: "int \<Rightarrow> string" where
  "pad8 i = (if i < 0 then ''-'' @ pad_zero 7 (nat_digits (nat (- i)))
             else pad_zero 8 (nat_digits (nat i)))"

definition generate_id :: "string \<Rightarrow> int \<Rightarrow> string" where
  "generate_id pfx counter =
     take 63 (takeWhile (\<lambda>c. c \<noteq> CHR 0x00) pfx @ ''_'' @ pad8 counter)"

subsection \<open>clear and the snapshot transactions\<close>

definition store_clear :: "store \<Rightarrow> store" where
  "store_clear s = s\<lparr>users := [], pages := [], page_paths := [], workflows := [],
     workflow_names := [], sessions := [], session_tokens := [], packages := [],
     package_keys := [], credentials := [], components := [], components_by_page := [],
     components_by_parent := [], user_counter := 0, page_counter := 0,
     workflow_counter := 0, session_counter := 0, package_counter := 0,
     credential_counter := 0, component_counter := 0\<rparr>"

text \<open>\<^verbatim>\<open>copyTo\<close> assigns field by field, in the order of the source.\<close>

definition copy_to :: "store \<Rightarrow> store \<Rightarrow> store" where
  "copy_to src target = target\<lparr>
     users := users src, pages := pages src, workflows := workflows src,
     sessions := sessions src, packages := packages src, credentials := credentials src,
     page_paths := page_paths src, workflow_names := workflow_names src,
     session_tokens := session_tokens src, package_keys := package_keys src,
     user_counter := user_counter src, page_counter := page_counter src,
     workflow_counter := workflow_counter src, session_counter := session_counter src,
     package_counter := package_counter src, credential_counter := credential_counter src,
     components := components src, components_by_page := components_by_page src,
     components_by_parent := components_by_parent src,
     component_counter := component_counter src\<rparr>"

record tx_store =
  live :: store
  snapshot :: "store option"
  transaction_active :: bool

definition begin_transaction :: "tx_store \<Rightarrow> bool \<times> tx_store" where
  "begin_transaction t =
     (if transaction_active t then (False, t)
      else (True, t\<lparr>snapshot := Some (copy_to (live t) empty_store), transaction_active := True\<rparr>))"

definition commit_transaction :: "tx_store \<Rightarrow> bool \<times> tx_store" where
  "commit_transaction t =
     (if \<not> transaction_active t then (False, t)
      else (True, t\<lparr>snapshot := None, transaction_active := False\<rparr>))"

definition rollback_transaction :: "tx_store \<Rightarrow> bool \<times> tx_store" where
  "rollback_transaction t =
     (case (transaction_active t, snapshot t) of
        (True, Some snap) \<Rightarrow>
          (True, t\<lparr>live := copy_to snap (live t), snapshot := None, transaction_active := False\<rparr>)
      | _ \<Rightarrow> (False, t))"

definition is_transaction_active :: "tx_store \<Rightarrow> bool" where
  "is_transaction_active t = transaction_active t"

section \<open>Lemmas\<close>

lemma apply_opt_simps [simp]: "apply_opt f None x = x" "apply_opt f (Some v) x = f v x"
  by (simp_all add: apply_opt_def)

lemma apply_opt_keeps: "(\<And>v y. g (f v y) = g y) \<Longrightarrow> g (apply_opt f ov x) = g x"
  by (simp add: apply_opt_def split: option.split)

lemma truncate_to_set: "set (truncate_to limit xs) \<subseteq> set xs"
  by (auto simp: truncate_to_def dest: in_set_takeD)

lemma truncate_to_length:
  "0 < limit \<Longrightarrow> length xs < 2 ^ 31 \<Longrightarrow> length (truncate_to limit xs) \<le> nat limit"
  by (auto simp: truncate_to_def)

lemma stoi_in_int32: "stoi s = Inr v \<Longrightarrow> in_int32 v"
  by (auto simp: stoi_def Let_def split: if_splits)

lemma copy_to_eq [simp]: "copy_to src target = src"
  by (simp add: copy_to_def)

lemma store_clear_eq: "store_clear s = empty_store"
  by (simp add: store_clear_def empty_store_def)

text \<open>The padded counter is read back, so distinct counters give distinct ids.\<close>

lemma digits_val_pad_zero: "digits_val (pad_zero w (nat_digits n)) = n"
  unfolding pad_zero_def by (metis digits_val_nat_digits digits_val_replicate0)

lemma pad8_inject: "0 \<le> i \<Longrightarrow> 0 \<le> j \<Longrightarrow> pad8 i = pad8 j \<longleftrightarrow> i = j"
  by (auto simp: pad8_def simp flip: nat_0_le) (metis digits_val_pad_zero eq_nat_nat_iff)

lemma length_pad8: "0 \<le> i \<Longrightarrow> in_int32 i \<Longrightarrow> length (pad8 i) \<le> 10"
proof -
  assume i: "0 \<le> i" "in_int32 i"
  then have "nat i < 10 ^ 10" by (simp add: in_int32_def)
  then have "length (nat_digits (nat i)) \<le> 10" by (rule length_nat_digits) simp
  with i show ?thesis by (simp add: pad8_def pad_zero_def)
qed

text \<open>The prefixes the store passes are short and free of NUL.\<close>

definition id_prefix :: "string \<Rightarrow> bool" where
  "id_prefix p \<longleftrightarrow> CHR 0x00 \<notin> set p \<and> length p \<le> 52"

lemma generate_id_exact:
  assumes "id_prefix p" "0 \<le> i" "in_int32 i"
  shows "generate_id p i = p @ ''_'' @ pad8 i"
proof -
  have tw: "takeWhile (\<lambda>c. c \<noteq> CHR 0x00) p = p"
    using assms(1) by (auto simp: id_prefix_def takeWhile_eq_all_conv)
  have "length (p @ ''_'' @ pad8 i) \<le> 63"
    using assms length_pad8 [of i] by (simp add: id_prefix_def)
  then show ?thesis unfolding generate_id_def tw by (rule take_all)
qed

lemma generate_id_inject:
  assumes "id_prefix p" "0 \<le> i" "in_int32 i" "0 \<le> j" "in_int32 j"
  shows "generate_id p i = generate_id p j \<longleftrightarrow> i = j"
  using assms by (simp add: generate_id_exact pad8_inject)

lemma generate_id_nonempty: "id_prefix p \<Longrightarrow> 0 \<le> i \<Longrightarrow> in_int32 i \<Longrightarrow> generate_id p i \<noteq> []"
  by (simp add: generate_id_exact)

text \<open>Ids handed out by a counter: every id in use is a past value of it.\<close>

definition ids_below :: "string \<Rightarrow> int \<Rightarrow> string set \<Rightarrow> bool" where
  "ids_below p n ids \<longleftrightarrow> (\<forall>k \<in> ids. \<exists>i. 1 \<le> i \<and> i \<le> n \<and> k = generate_id p i)"

lemma ids_below_fresh:
  assumes "ids_below p n ids" "id_prefix p" "0 \<le> n" "in_int32 (n + 1)"
  shows "generate_id p (n + 1) \<notin> ids"
proof
  assume "generate_id p (n + 1) \<in> ids"
  then obtain i where "1 \<le> i" "i \<le> n" "generate_id p (n + 1) = generate_id p i"
    using assms(1) by (auto simp: ids_below_def)
  moreover have "in_int32 i" using \<open>1 \<le> i\<close> \<open>i \<le> n\<close> assms(4) by (simp add: in_int32_def)
  ultimately show False using generate_id_inject [OF assms(2), of "n + 1" i] assms(3,4) by simp
qed

lemma ids_below_insert:
  "ids_below p n ids \<Longrightarrow> 0 \<le> n \<Longrightarrow> ids_below p (n + 1) (insert (generate_id p (n + 1)) ids)"
  unfolding ids_below_def by (auto intro: exI [of _ "n + 1"]) (metis add_increasing2 zero_le_one)

lemma ids_below_mono: "ids_below p n ids \<Longrightarrow> ids' \<subseteq> ids \<Longrightarrow> n \<le> n' \<Longrightarrow> ids_below p n' ids'"
  unfolding ids_below_def by force

section \<open>A collection with a unique secondary index\<close>

text \<open>
  Pages, sessions, packages and workflows are each a map from ids to entities beside a map
  from a unique field to the id.  The index is exact when it holds the field of every
  entity and nothing else.
\<close>

definition index_exact ::
  "('e \<Rightarrow> string) \<Rightarrow> (string \<Rightarrow> 'e option) \<Rightarrow> (string \<Rightarrow> string option) \<Rightarrow> bool" where
  "index_exact key ents idx \<longleftrightarrow>
     (\<forall>k id. idx k = Some id \<longleftrightarrow> (\<exists>e. ents id = Some e \<and> key e = k))"

lemma index_exactD: "index_exact key E I \<Longrightarrow> E i = Some e \<Longrightarrow> I (key e) = Some i"
  by (auto simp: index_exact_def)

lemma index_exactE:
  assumes "index_exact key E I" "I k = Some i"
  obtains e where "E i = Some e" "key e = k"
  using assms by (auto simp: index_exact_def)

lemma index_exactI:
  assumes "\<And>i e. E i = Some e \<Longrightarrow> I (key e) = Some i"
    and "\<And>k i. I k = Some i \<Longrightarrow> \<exists>e. E i = Some e \<and> key e = k"
  shows "index_exact key E I"
  using assms unfolding index_exact_def by blast

lemma index_exact_insert:
  assumes ex: "index_exact key E I" and "E i = None" "I (key e) = None"
  shows "index_exact key (E(i \<mapsto> e)) (I(key e \<mapsto> i))"
proof (rule index_exactI)
  fix j f
  assume "(E(i \<mapsto> e)) j = Some f"
  with assms show "(I(key e \<mapsto> i)) (key f) = Some j"
    by (auto split: if_splits dest: index_exactD [OF ex])
next
  fix k j
  assume "(I(key e \<mapsto> i)) k = Some j"
  with assms show "\<exists>f. (E(i \<mapsto> e)) j = Some f \<and> key f = k"
    by (auto split: if_splits elim: index_exactE [OF ex])
qed

lemma index_exact_remove:
  assumes ex: "index_exact key E I" and i: "E i = Some e"
  shows "index_exact key (E(i := None)) (I(key e := None))"
proof (rule index_exactI)
  fix j f
  assume "(E(i := None)) j = Some f"
  then have "j \<noteq> i" "E j = Some f" by (auto split: if_splits)
  with i show "(I(key e := None)) (key f) = Some j"
    using index_exactD [OF ex i] index_exactD [OF ex \<open>E j = Some f\<close>] by auto
next
  fix k j
  assume "(I(key e := None)) k = Some j"
  then have "k \<noteq> key e" "I k = Some j" by (auto split: if_splits)
  with i show "\<exists>f. (E(i := None)) j = Some f \<and> key f = k"
    by (auto elim: index_exactE [OF ex])
qed

lemma index_exact_rekey:
  assumes ex: "index_exact key E I" and i: "E i = Some old"
    and k: "I (key new) = None \<or> I (key new) = Some i"
  shows "index_exact key (E(i \<mapsto> new)) ((I(key old := None))(key new \<mapsto> i))"
proof -
  have free: "(I(key old := None)) (key new) = None"
    using k index_exactD [OF ex i] by (auto elim: index_exactE [OF ex] simp: i)
  have "(E(i := None)) i = None" by simp
  from index_exact_insert [OF index_exact_remove [OF ex i] this free] show ?thesis
    by (simp only: fun_upd_upd)
qed

lemma index_exact_same_key:
  assumes ex: "index_exact key E I" and i: "E i = Some old" and "key new = key old"
  shows "index_exact key (E(i \<mapsto> new)) I"
  using index_exact_rekey [OF ex i, of new] index_exactD [OF ex i] assms(3)
  by (simp add: fun_upd_idem)

text \<open>
  The operations a collection offers its handlers, and the laws of the two maps.
\<close>

locale indexed_collection =
  fixes key :: "'e \<Rightarrow> string"
    and ents :: "'s \<Rightarrow> string \<Rightarrow> 'e option"
    and idx :: "'s \<Rightarrow> string \<Rightarrow> string option"
    and put_ent :: "string \<Rightarrow> 'e \<Rightarrow> 's \<Rightarrow> 's"
    and del_ent :: "string \<Rightarrow> 's \<Rightarrow> 's"
    and put_idx :: "string \<Rightarrow> string \<Rightarrow> 's \<Rightarrow> 's"
    and del_idx :: "string \<Rightarrow> 's \<Rightarrow> 's"
  assumes ents_put_ent: "ents (put_ent i e s) = (ents s)(i \<mapsto> e)"
    and ents_del_ent: "ents (del_ent i s) = (ents s)(i := None)"
    and ents_put_idx: "ents (put_idx k i s) = ents s"
    and ents_del_idx: "ents (del_idx k s) = ents s"
    and idx_put_ent: "idx (put_ent i e s) = idx s"
    and idx_del_ent: "idx (del_ent i s) = idx s"
    and idx_put_idx: "idx (put_idx k i s) = (idx s)(k \<mapsto> i)"
    and idx_del_idx: "idx (del_idx k s) = (idx s)(k := None)"
begin

lemmas collection_simps = ents_put_ent ents_del_ent ents_put_idx ents_del_idx
  idx_put_ent idx_del_ent idx_put_idx idx_del_idx

abbreviation exact :: "'s \<Rightarrow> bool" where
  "exact s \<equiv> index_exact key (ents s) (idx s)"

lemma exact_insert:
  "exact s \<Longrightarrow> ents s i = None \<Longrightarrow> idx s (key e) = None \<Longrightarrow>
   exact (put_idx (key e) i (put_ent i e s))"
  by (simp add: collection_simps index_exact_insert)

lemma exact_remove: "exact s \<Longrightarrow> ents s i = Some e \<Longrightarrow> exact (del_ent i (del_idx (key e) s))"
  by (simp add: collection_simps index_exact_remove)

lemma exact_rekey:
  "exact s \<Longrightarrow> ents s i = Some old \<Longrightarrow> idx s (key new) = None \<or> idx s (key new) = Some i \<Longrightarrow>
   exact (put_ent i new (put_idx (key new) i (del_idx (key old) s)))"
  by (simp add: collection_simps index_exact_rekey)

lemma exact_same_key:
  "exact s \<Longrightarrow> ents s i = Some old \<Longrightarrow> key new = key old \<Longrightarrow> exact (put_ent i new s)"
  by (simp add: collection_simps index_exact_same_key)

lemma exact_unique:
  "exact s \<Longrightarrow> ents s i = Some e \<Longrightarrow> ents s j = Some f \<Longrightarrow> key e = key f \<Longrightarrow> i = j"
  by (metis index_exactD option.inject)

lemma exact_lookup: "exact s \<Longrightarrow> ents s i = Some e \<Longrightarrow> idx s (key e) = Some i"
  by (rule index_exactD)

end

end
