(* ===== verification/Cpp_Regex.thy ===== *)
theory Cpp_Regex
  imports Dbal_Prelude
begin

text \<open>
  \<^verbatim>\<open>std::regex_match\<close> for the patterns the program uses (character classes,
  concatenation, alternation, \<open>*\<close>, \<open>+\<close> and \<open>{n,}\<close>): a whole-string match is
  membership in the language of the pattern, decided here by derivatives.  The anchors
  \<open>^\<close> and \<open>$\<close> at the ends of a pattern add nothing to a whole-string match.
\<close>

datatype regex =
    RNone
  | REps
  | RClass "char \<Rightarrow> bool"
  | RAlt regex regex
  | RSeq regex regex
  | RStar regex

definition RChar :: "char \<Rightarrow> regex" where
  "RChar c = RClass (\<lambda>d. d = c)"

definition RPlus :: "regex \<Rightarrow> regex" where
  "RPlus r = RSeq r (RStar r)"

inductive lang :: "regex \<Rightarrow> string \<Rightarrow> bool" where
  eps: "lang REps []"
| cls: "p c \<Longrightarrow> lang (RClass p) [c]"
| alt1: "lang r s \<Longrightarrow> lang (RAlt r q) s"
| alt2: "lang q s \<Longrightarrow> lang (RAlt r q) s"
| seq: "lang r s \<Longrightarrow> lang q t \<Longrightarrow> lang (RSeq r q) (s @ t)"
| star0: "lang (RStar r) []"
| star1: "lang r (c # s) \<Longrightarrow> lang (RStar r) t \<Longrightarrow> lang (RStar r) (c # s @ t)"

inductive_cases lang_noneE [elim!]: "lang RNone s"
inductive_cases lang_epsE [elim!]: "lang REps s"
inductive_cases lang_clsE [elim!]: "lang (RClass p) s"
inductive_cases lang_altE [elim!]: "lang (RAlt r q) s"
inductive_cases lang_seqE: "lang (RSeq r q) s"
inductive_cases lang_star_ConsE: "lang (RStar r) (c # s)"

inductive_simps lang_none_simp [simp]: "lang RNone s"
inductive_simps lang_eps_simp [simp]: "lang REps s"
inductive_simps lang_alt_simp [simp]: "lang (RAlt r q) s"
inductive_simps lang_seq_simp: "lang (RSeq r q) s"
inductive_simps lang_cls_simp: "lang (RClass p) s"

fun nullable :: "regex \<Rightarrow> bool" where
  "nullable RNone = False"
| "nullable REps = True"
| "nullable (RClass p) = False"
| "nullable (RAlt r q) = (nullable r \<or> nullable q)"
| "nullable (RSeq r q) = (nullable r \<and> nullable q)"
| "nullable (RStar r) = True"

fun deriv :: "char \<Rightarrow> regex \<Rightarrow> regex" where
  "deriv c RNone = RNone"
| "deriv c REps = RNone"
| "deriv c (RClass p) = (if p c then REps else RNone)"
| "deriv c (RAlt r q) = RAlt (deriv c r) (deriv c q)"
| "deriv c (RSeq r q) =
     (if nullable r then RAlt (RSeq (deriv c r) q) (deriv c q) else RSeq (deriv c r) q)"
| "deriv c (RStar r) = RSeq (deriv c r) (RStar r)"

fun regex_match :: "regex \<Rightarrow> string \<Rightarrow> bool" where
  "regex_match r [] = nullable r"
| "regex_match r (c # s) = regex_match (deriv c r) s"

lemma nullable_lang: "nullable r \<longleftrightarrow> lang r []"
proof (induction r)
  case (RClass p)
  then show ?case by (simp add: lang_cls_simp)
next
  case (RSeq r q)
  then show ?case by (auto simp: lang_seq_simp intro: lang.seq [of _ "[]" _ "[]", simplified])
next
  case (RStar r)
  then show ?case by (simp add: lang.star0)
qed auto

lemma lang_seq_Cons:
  "lang (RSeq r q) (c # s) \<longleftrightarrow>
     (lang r [] \<and> lang q (c # s)) \<or> (\<exists>u v. s = u @ v \<and> lang r (c # u) \<and> lang q v)"
  by (auto simp: lang_seq_simp Cons_eq_append_conv)

lemma lang_star_Cons:
  "lang (RStar r) (c # s) \<longleftrightarrow> (\<exists>u v. s = u @ v \<and> lang r (c # u) \<and> lang (RStar r) v)"
  by (rule iffI, erule lang_star_ConsE, blast) (auto intro: lang.star1)

lemma deriv_lang: "lang (deriv c r) s \<longleftrightarrow> lang r (c # s)"
proof (induction r arbitrary: s)
  case (RClass p)
  then show ?case by (auto simp: lang_cls_simp)
next
  case (RSeq r q)
  have step: "lang (RSeq (deriv c r) q) s \<longleftrightarrow> (\<exists>u v. s = u @ v \<and> lang r (c # u) \<and> lang q v)"
    by (simp add: lang_seq_simp RSeq.IH)
  then show ?case by (simp add: lang_seq_Cons nullable_lang RSeq.IH) blast
next
  case (RStar r)
  then show ?case by (auto simp: lang_star_Cons lang_seq_simp)
qed auto

lemma regex_match_lang: "regex_match r s \<longleftrightarrow> lang r s"
  by (induction s arbitrary: r) (simp_all add: nullable_lang deriv_lang)

text \<open>The shapes the properties need: one or more characters of a class.\<close>

lemma lang_star_class: "lang (RStar (RClass p)) s \<longleftrightarrow> (\<forall>c \<in> set s. p c)"
proof (induction s)
  case Nil
  then show ?case by (simp add: lang.star0)
next
  case (Cons c s)
  have "lang (RStar (RClass p)) (c # s) \<longleftrightarrow> p c \<and> lang (RStar (RClass p)) s"
    by (auto simp: lang_star_Cons lang_cls_simp)
  with Cons.IH show ?case by simp
qed

lemma lang_plus_class: "lang (RPlus (RClass p)) s \<longleftrightarrow> s \<noteq> [] \<and> (\<forall>c \<in> set s. p c)"
proof (cases s)
  case Nil
  then show ?thesis by (simp add: RPlus_def lang_seq_simp lang_cls_simp)
next
  case (Cons c t)
  then show ?thesis
    by (simp add: RPlus_def lang_seq_Cons lang_star_class lang_cls_simp)
qed

lemma lang_char: "lang (RChar c) s \<longleftrightarrow> s = [c]"
  by (auto simp: RChar_def lang_cls_simp)

lemma lang_seq_class: "lang (RSeq (RClass p) r) s \<longleftrightarrow> (\<exists>c t. s = c # t \<and> p c \<and> lang r t)"
  by (cases s) (simp_all add: lang_seq_Cons lang_cls_simp lang_seq_simp [of _ _ "[]"])

lemma lang_seq_char: "lang (RSeq (RChar c) r) s \<longleftrightarrow> (\<exists>t. s = c # t \<and> lang r t)"
  by (auto simp: lang_seq_simp lang_char)

end
