(* ===== verification/Entity_Validation.thy ===== *)
theory Entity_Validation
  imports Cpp_Regex
begin

text \<open>
  The validation functions of the entities (\<^verbatim>\<open>src/validation/entity\<close>) and of the
  security suite (\<^verbatim>\<open>src/security/validation\<close>, \<^verbatim>\<open>sanitize_string.hpp\<close>,
  \<^verbatim>\<open>contains_sql_keyword.hpp\<close>, \<^verbatim>\<open>util/uuid\<close>), with what each accepts.
\<close>

section \<open>Entities\<close>

definition is_valid_component_type :: "string \<Rightarrow> bool" where
  "is_valid_component_type t \<longleftrightarrow> t \<noteq> [] \<and> length t \<le> 100"

definition is_valid_component_order :: "int \<Rightarrow> bool" where
  "is_valid_component_order v \<longleftrightarrow> v \<ge> 0"

definition is_valid_credential_password :: "string \<Rightarrow> bool" where
  "is_valid_credential_password pw \<longleftrightarrow>
     (if length pw < 8 then False else if length pw > 128 then False
      else list_ex (\<lambda>c. \<not> is_space c) pw)"

definition is_valid_package_id :: "string \<Rightarrow> bool" where
  "is_valid_package_id p \<longleftrightarrow> p \<noteq> [] \<and> length p \<le> 255"

text \<open>\<^verbatim>\<open>^(0|[1-9]\d*)\.(0|[1-9]\d*)\.(0|[1-9]\d*)$\<close>\<close>

definition semver_number :: regex where
  "semver_number = RAlt (RChar (CHR ''0''))
     (RSeq (RClass (\<lambda>c. 49 \<le> byte c \<and> byte c \<le> 57)) (RStar (RClass is_digit)))"

definition semver_pattern :: regex where
  "semver_pattern = RSeq semver_number (RSeq (RChar (CHR ''.''))
     (RSeq semver_number (RSeq (RChar (CHR ''.'')) semver_number)))"

definition is_valid_semver :: "string \<Rightarrow> bool" where
  "is_valid_semver v = regex_match semver_pattern v"

definition package_key :: "string \<Rightarrow> string" where
  "package_key p = p"

definition is_valid_path :: "string \<Rightarrow> bool" where
  "is_valid_path p \<longleftrightarrow> (if p = [] \<or> length p > 255 then False else True)"

text \<open>\<^verbatim>\<open>[a-zA-Z0-9._%+-]+@[a-zA-Z0-9.-]+\.[a-zA-Z]{2,}\<close>\<close>

definition email_local_char :: "char \<Rightarrow> bool" where
  "email_local_char c \<longleftrightarrow> is_alnum c \<or> c \<in> set ''._%+-''"

definition email_domain_char :: "char \<Rightarrow> bool" where
  "email_domain_char c \<longleftrightarrow> is_alnum c \<or> c \<in> set ''.-''"

definition email_pattern :: regex where
  "email_pattern = RSeq (RPlus (RClass email_local_char)) (RSeq (RChar (CHR ''@''))
     (RSeq (RPlus (RClass email_domain_char)) (RSeq (RChar (CHR ''.''))
       (RSeq (RClass is_alpha) (RSeq (RClass is_alpha) (RStar (RClass is_alpha)))))))"

definition is_valid_email :: "string \<Rightarrow> bool" where
  "is_valid_email e = regex_match email_pattern e"

definition username_char :: "char \<Rightarrow> bool" where
  "username_char c \<longleftrightarrow> is_alnum c \<or> c = CHR ''_'' \<or> c = CHR ''-''"

definition is_valid_username :: "string \<Rightarrow> bool" where
  "is_valid_username u \<longleftrightarrow>
     (if length u < 3 \<or> length u > 50 then False
      else regex_match (RPlus (RClass username_char)) u)"

definition is_valid_workflow_name :: "string \<Rightarrow> bool" where
  "is_valid_workflow_name n \<longleftrightarrow> n \<noteq> [] \<and> length n \<le> 255"

section \<open>The security suite\<close>

definition is_safe_filename :: "string \<Rightarrow> bool" where
  "is_safe_filename f \<longleftrightarrow>
     (if f = [] then False
      else if CHR ''/'' \<in> set f then False
      else if CHR 0x5C \<in> set f then False
      else if f = ''.'' \<or> f = ''..'' then False
      else if CHR 0x00 \<in> set f then False
      else list_all (\<lambda>c. \<not> byte c < 32) f)"

definition is_valid_identifier :: "nat \<Rightarrow> string \<Rightarrow> bool" where
  "is_valid_identifier max_length s \<longleftrightarrow>
     (case s of
        [] \<Rightarrow> False
      | first # _ \<Rightarrow>
          if length s > max_length then False
          else if \<not> is_alpha first \<and> first \<noteq> CHR ''_'' then False
          else list_all (\<lambda>c. \<not> (\<not> is_alnum c \<and> c \<noteq> CHR ''_'')) s)"

text \<open>The scan of \<^verbatim>\<open>security::is_valid_uuid\<close>, from position \<open>i\<close>.\<close>

fun uuid_v4_from :: "nat \<Rightarrow> string \<Rightarrow> bool" where
  "uuid_v4_from i [] = True"
| "uuid_v4_from i (c # s) =
     (if i = 8 \<or> i = 13 \<or> i = 18 \<or> i = 23
      then (if c \<noteq> CHR ''-'' then False else uuid_v4_from (Suc i) s)
      else if i = 14
      then (if c \<noteq> CHR ''4'' then False else uuid_v4_from (Suc i) s)
      else if i = 19
      then (let d = lower_char c in
            if d \<noteq> CHR ''8'' \<and> d \<noteq> CHR ''9'' \<and> d \<noteq> CHR ''a'' \<and> d \<noteq> CHR ''b'' then False
            else uuid_v4_from (Suc i) s)
      else (if \<not> is_xdigit c then False else uuid_v4_from (Suc i) s))"

definition is_valid_uuid :: "string \<Rightarrow> bool" where
  "is_valid_uuid u \<longleftrightarrow> (if length u \<noteq> 36 then False else uuid_v4_from 0 u)"

text \<open>\<^verbatim>\<open>util::uuid_is_valid\<close>: the same shape without the version and variant digits.\<close>

fun uuid_from :: "nat \<Rightarrow> string \<Rightarrow> bool" where
  "uuid_from i [] = True"
| "uuid_from i (c # s) =
     (if i = 8 \<or> i = 13 \<or> i = 18 \<or> i = 23
      then (if c \<noteq> CHR ''-'' then False else uuid_from (Suc i) s)
      else (if \<not> is_xdigit c then False else uuid_from (Suc i) s))"

definition uuid_is_valid :: "string \<Rightarrow> bool" where
  "uuid_is_valid u \<longleftrightarrow> (if length u \<noteq> 36 then False else uuid_from 0 u)"

text \<open>\<^verbatim>\<open>validate_length\<close> throws a message, or returns.\<close>

definition validate_length :: "string \<Rightarrow> nat \<Rightarrow> nat \<Rightarrow> string \<Rightarrow> string + unit" where
  "validate_length value min_len max_len field_name =
     (if length value < min_len
      then Inl (field_name @ '' too short (min '' @ nat_digits min_len @ '')'')
      else if length value > max_len
      then Inl (field_name @ '' too long (max '' @ nat_digits max_len @ '')'')
      else Inr ())"

fun sanitize_string :: "bool \<Rightarrow> string \<Rightarrow> string" where
  "sanitize_string allow_newlines [] = []"
| "sanitize_string allow_newlines (c # s) =
     (if c = CHR 0x00 then sanitize_string allow_newlines s
      else if byte c < 32
      then (if allow_newlines \<and> (c = CHR 0x0A \<or> c = CHR 0x0D \<or> c = CHR 0x09)
            then c # sanitize_string allow_newlines s else sanitize_string allow_newlines s)
      else c # sanitize_string allow_newlines s)"

definition sql_keywords :: "string list" where
  "sql_keywords = [''SELECT'', ''INSERT'', ''UPDATE'', ''DELETE'', ''DROP'', ''CREATE'', ''ALTER'',
     ''TRUNCATE'', ''GRANT'', ''REVOKE'', ''UNION'', ''JOIN'', ''WHERE'', ''FROM'',
     ''TABLE'', ''DATABASE'', ''INDEX'', ''VIEW'', ''PROCEDURE'', ''FUNCTION'',
     ''TRIGGER'', ''EXEC'', ''EXECUTE'', ''SCHEMA'']"

definition contains_sql_keyword :: "string \<Rightarrow> bool" where
  "contains_sql_keyword v \<longleftrightarrow> list_ex (\<lambda>kw. to_upper v = kw) sql_keywords"

section \<open>Lemmas\<close>

text \<open>A canonical decimal number: no sign, no leading zero.\<close>

definition canonical_number :: "string \<Rightarrow> bool" where
  "canonical_number s \<longleftrightarrow> s \<noteq> [] \<and> list_all is_digit s \<and> (hd s = CHR ''0'' \<longrightarrow> s = ''0'')"

lemma semver_number_lang: "lang semver_number s \<longleftrightarrow> canonical_number s"
proof (cases s)
  case Nil
  then show ?thesis
    by (simp add: canonical_number_def semver_number_def lang_char lang_seq_class)
next
  case (Cons c t)
  have lead: "49 \<le> byte c \<and> byte c \<le> 57 \<longleftrightarrow> is_digit c \<and> c \<noteq> CHR ''0''"
    using byte_inject [of c "CHR ''0''"] by (auto simp: is_digit_def byte_def)
  have zero: "is_digit (CHR ''0'')" by (simp add: is_digit_def byte_def)
  have "lang semver_number s \<longleftrightarrow> s = ''0'' \<or> (is_digit c \<and> c \<noteq> CHR ''0'') \<and> (\<forall>d \<in> set t. is_digit d)"
    using lead by (auto simp: semver_number_def Cons lang_char lang_seq_class lang_star_class)
  with zero show ?thesis
    by (auto simp: canonical_number_def Cons list_all_iff)
qed

lemma is_valid_semver_iff:
  "is_valid_semver v \<longleftrightarrow>
     (\<exists>a b c. v = a @ ''.'' @ b @ ''.'' @ c \<and>
        canonical_number a \<and> canonical_number b \<and> canonical_number c)"
  unfolding is_valid_semver_def regex_match_lang semver_pattern_def
  by (auto simp: lang_seq_simp lang_char semver_number_lang) metis+

lemma is_valid_username_iff:
  "is_valid_username u \<longleftrightarrow> 3 \<le> length u \<and> length u \<le> 50 \<and> (\<forall>c \<in> set u. username_char c)"
  unfolding is_valid_username_def regex_match_lang lang_plus_class by auto

lemma is_valid_email_iff:
  "is_valid_email e \<longleftrightarrow>
     (\<exists>l d t. e = l @ ''@'' @ d @ ''.'' @ t \<and> l \<noteq> [] \<and> d \<noteq> [] \<and> 2 \<le> length t \<and>
        (\<forall>c \<in> set l. email_local_char c) \<and> (\<forall>c \<in> set d. email_domain_char c) \<and>
        (\<forall>c \<in> set t. is_alpha c))" (is "_ = ?R")
proof -
  have tld: "lang (RSeq (RClass is_alpha) (RSeq (RClass is_alpha) (RStar (RClass is_alpha)))) t
      \<longleftrightarrow> 2 \<le> length t \<and> (\<forall>c \<in> set t. is_alpha c)" for t
    by (cases t; cases "tl t") (simp_all add: lang_seq_class lang_star_class)
  show ?thesis
    unfolding is_valid_email_def regex_match_lang email_pattern_def
    by (auto simp: lang_seq_simp [of "RPlus r" for r] lang_seq_char lang_plus_class tld) metis+
qed

lemma is_safe_filename_iff:
  "is_safe_filename f \<longleftrightarrow> f \<noteq> [] \<and> f \<noteq> ''.'' \<and> f \<noteq> ''..'' \<and>
     (\<forall>c \<in> set f. 32 \<le> byte c \<and> c \<noteq> CHR ''/'' \<and> c \<noteq> CHR 0x5C)"
proof -
  have nul: "byte (CHR 0x00) = 0" by (simp add: byte_def)
  have "is_safe_filename f \<longleftrightarrow> f \<noteq> [] \<and> CHR ''/'' \<notin> set f \<and> CHR 0x5C \<notin> set f \<and> f \<noteq> ''.'' \<and>
      f \<noteq> ''..'' \<and> CHR 0x00 \<notin> set f \<and> (\<forall>c \<in> set f. 32 \<le> byte c)"
    by (simp add: is_safe_filename_def list_all_iff not_less)
  also have "\<dots> \<longleftrightarrow> f \<noteq> [] \<and> f \<noteq> ''.'' \<and> f \<noteq> ''..'' \<and>
      (\<forall>c \<in> set f. 32 \<le> byte c \<and> c \<noteq> CHR ''/'' \<and> c \<noteq> CHR 0x5C)"
    using nul by (metis not_numeral_le_zero)
  finally show ?thesis .
qed

lemma xdigit_variant:
  assumes "lower_char c \<in> {CHR ''8'', CHR ''9'', CHR ''a'', CHR ''b''}"
  shows "is_xdigit c"
proof -
  have "byte (lower_char c) \<in> {56, 57, 97, 98}" using assms by (auto simp: byte_def)
  then show ?thesis
    by (auto simp: lower_char_def is_upper_def is_xdigit_def is_digit_def byte_char_of
        split: if_splits)
qed

lemma uuid_v4_from_imp: "uuid_v4_from i s \<Longrightarrow> uuid_from i s"
proof (induction i s rule: uuid_v4_from.induct)
  case (2 i c s)
  have four: "is_xdigit (CHR ''4'')" by (simp add: is_xdigit_def is_digit_def byte_def)
  consider (dash) "i = 8 \<or> i = 13 \<or> i = 18 \<or> i = 23" | (version) "i = 14" | (variant) "i = 19"
    | (hex) "i \<notin> {8, 13, 18, 23, 14, 19}" by blast
  then show ?case
  proof cases
    case dash
    with 2 show ?thesis by (auto split: if_splits)
  next
    case version
    with 2 four show ?thesis by (auto split: if_splits)
  next
    case variant
    with 2 xdigit_variant [of c] show ?thesis by (simp add: Let_def split: if_splits)
  next
    case hex
    with 2 show ?thesis by (simp split: if_splits)
  qed
qed simp

lemma sanitize_string_set:
  "c \<in> set (sanitize_string nl s) \<longleftrightarrow>
     c \<in> set s \<and> (32 \<le> byte c \<or> nl \<and> (c = CHR 0x0A \<or> c = CHR 0x0D \<or> c = CHR 0x09))"
  by (induction nl s rule: sanitize_string.induct) (auto simp: byte_def)

lemma sanitize_string_idem: "sanitize_string nl (sanitize_string nl s) = sanitize_string nl s"
  by (induction nl s rule: sanitize_string.induct) auto

lemma sanitize_string_id: "\<forall>c \<in> set s. 32 \<le> byte c \<Longrightarrow> sanitize_string nl s = s"
  by (induction s) (auto simp: byte_def)

end
