(* ===== verification/Entity_Pages.thy ===== *)
theory Entity_Pages
  imports Entity_Store Entity_Validation
begin

text \<open>
  Pages (\<^verbatim>\<open>src/entities/page\<close>): create, get, get by path, update, remove, list and
  search over the store, and the invariant that ties \<^verbatim>\<open>pages\<close> to \<^verbatim>\<open>page_paths\<close>.
\<close>

section \<open>Inputs\<close>

record create_page_input =
  cpi_tenantId :: "string option"
  cpi_packageId :: "string option"
  cpi_path :: string
  cpi_title :: string
  cpi_description :: "string option"
  cpi_icon :: "string option"
  cpi_component :: "string option"
  cpi_level :: int
  cpi_requiresAuth :: bool
  cpi_requiredRole :: "string option"
  cpi_parentPath :: "string option"
  cpi_sortOrder :: int
  cpi_isPublished :: bool
  cpi_params :: "string option"
  cpi_meta :: "string option"

record update_page_input =
  upi_tenantId :: "string option"
  upi_packageId :: "string option"
  upi_path :: "string option"
  upi_title :: "string option"
  upi_description :: "string option"
  upi_icon :: "string option"
  upi_component :: "string option"
  upi_level :: "int option"
  upi_requiresAuth :: "bool option"
  upi_requiredRole :: "string option"
  upi_parentPath :: "string option"
  upi_sortOrder :: "int option"
  upi_isPublished :: "bool option"
  upi_params :: "string option"
  upi_meta :: "string option"

section \<open>Operations\<close>

definition put_page :: "string \<Rightarrow> page_config \<Rightarrow> store \<Rightarrow> store" where
  "put_page i p s = s\<lparr>pages := om_put i p (pages s)\<rparr>"

definition del_page :: "string \<Rightarrow> store \<Rightarrow> store" where
  "del_page i s = s\<lparr>pages := om_erase i (pages s)\<rparr>"

definition put_page_path :: "string \<Rightarrow> string \<Rightarrow> store \<Rightarrow> store" where
  "put_page_path k i s = s\<lparr>page_paths := om_put k i (page_paths s)\<rparr>"

definition del_page_path :: "string \<Rightarrow> store \<Rightarrow> store" where
  "del_page_path k s = s\<lparr>page_paths := om_erase k (page_paths s)\<rparr>"

definition new_page :: "int \<Rightarrow> string \<Rightarrow> create_page_input \<Rightarrow> page_config" where
  "new_page now i inp = \<lparr>pg_id = i, pg_tenantId = cpi_tenantId inp,
     pg_packageId = cpi_packageId inp, pg_path = cpi_path inp, pg_title = cpi_title inp,
     pg_description = cpi_description inp, pg_icon = cpi_icon inp,
     pg_component = cpi_component inp, pg_pageTreeId = None, pg_level = cpi_level inp,
     pg_requiresAuth = cpi_requiresAuth inp, pg_requiredRole = cpi_requiredRole inp,
     pg_parentPath = cpi_parentPath inp, pg_sortOrder = cpi_sortOrder inp,
     pg_isPublished = cpi_isPublished inp, pg_params = cpi_params inp, pg_meta = cpi_meta inp,
     pg_createdAt = Some now, pg_updatedAt = None\<rparr>"

definition page_create ::
  "int \<Rightarrow> store \<Rightarrow> create_page_input \<Rightarrow> page_config result \<times> store" where
  "page_create now s inp =
     (if \<not> is_valid_path (cpi_path inp)
      then (Inl (validation_error ''Invalid path format''), s)
      else if cpi_title inp = [] \<or> length (cpi_title inp) > 255
      then (Inl (validation_error ''Title must be between 1 and 255 characters''), s)
      else if cpi_level inp < 1 \<or> cpi_level inp > 6
      then (Inl (validation_error ''Level must be between 1 and 6''), s)
      else if map_of (page_paths s) (cpi_path inp) \<noteq> None
      then (Inl (conflict (''Page with path already exists: '' @ cpi_path inp)), s)
      else
        let s1 = s\<lparr>page_counter := page_counter s + 1\<rparr>;
            page = new_page now (generate_id ''page'' (page_counter s1)) inp
        in (Inr page, put_page_path (pg_path page) (pg_id page) (put_page (pg_id page) page s1)))"

definition page_get :: "store \<Rightarrow> string \<Rightarrow> page_config result" where
  "page_get s i =
     (if i = [] then Inl (validation_error ''Page ID cannot be empty'')
      else case map_of (pages s) i of
        None \<Rightarrow> Inl (not_found (''Page not found: '' @ i))
      | Some p \<Rightarrow> Inr p)"

definition page_get_by_path :: "store \<Rightarrow> string \<Rightarrow> page_config result" where
  "page_get_by_path s path =
     (if path = [] then Inl (validation_error ''Path cannot be empty'')
      else case map_of (page_paths s) path of
        None \<Rightarrow> Inl (not_found (''Page not found with path: '' @ path))
      | Some i \<Rightarrow> page_get s i)"

text \<open>
  The update writes through a reference into the store, so a field that fails its check
  leaves the fields before it written.  The three stages are the parts between the checks:
  the path with its index, the title, and the rest.
\<close>

definition page_update_path ::
  "store \<Rightarrow> string \<Rightarrow> page_config \<Rightarrow> update_page_input \<Rightarrow> error + page_config \<times> store" where
  "page_update_path s i page inp =
     (case upi_path inp of
        None \<Rightarrow> Inr (page, s)
      | Some path \<Rightarrow>
          if \<not> is_valid_path path then Inl (validation_error ''Invalid path format'')
          else if (case map_of (page_paths s) path of None \<Rightarrow> False | Some j \<Rightarrow> j \<noteq> i)
          then Inl (conflict (''Path already exists: '' @ path))
          else
            let page1 = page\<lparr>pg_path := path\<rparr>
            in Inr (page1, put_page i page1 (put_page_path path i (del_page_path (pg_path page) s))))"

definition page_update_middle :: "update_page_input \<Rightarrow> page_config \<Rightarrow> page_config" where
  "page_update_middle inp page =
     apply_opt (\<lambda>v p. p\<lparr>pg_component := Some v\<rparr>) (upi_component inp)
     (apply_opt (\<lambda>v p. p\<lparr>pg_icon := Some v\<rparr>) (upi_icon inp)
     (apply_opt (\<lambda>v p. p\<lparr>pg_description := Some v\<rparr>) (upi_description inp) page))"

definition page_update_rest :: "update_page_input \<Rightarrow> page_config \<Rightarrow> page_config" where
  "page_update_rest inp page =
     apply_opt (\<lambda>v p. p\<lparr>pg_tenantId := Some v\<rparr>) (upi_tenantId inp)
     (apply_opt (\<lambda>v p. p\<lparr>pg_packageId := Some v\<rparr>) (upi_packageId inp)
     (apply_opt (\<lambda>v p. p\<lparr>pg_meta := Some v\<rparr>) (upi_meta inp)
     (apply_opt (\<lambda>v p. p\<lparr>pg_params := Some v\<rparr>) (upi_params inp)
     (apply_opt (\<lambda>v p. p\<lparr>pg_isPublished := v\<rparr>) (upi_isPublished inp)
     (apply_opt (\<lambda>v p. p\<lparr>pg_sortOrder := v\<rparr>) (upi_sortOrder inp)
     (apply_opt (\<lambda>v p. p\<lparr>pg_parentPath := Some v\<rparr>) (upi_parentPath inp)
     (apply_opt (\<lambda>v p. p\<lparr>pg_requiredRole := Some v\<rparr>) (upi_requiredRole inp)
     (apply_opt (\<lambda>v p. p\<lparr>pg_requiresAuth := v\<rparr>) (upi_requiresAuth inp) page))))))))"

definition page_update ::
  "store \<Rightarrow> string \<Rightarrow> update_page_input \<Rightarrow> page_config result \<times> store" where
  "page_update s i inp =
     (if i = [] then (Inl (validation_error ''Page ID cannot be empty''), s)
      else case map_of (pages s) i of
        None \<Rightarrow> (Inl (not_found (''Page not found: '' @ i)), s)
      | Some page \<Rightarrow>
          (case page_update_path s i page inp of
             Inl e \<Rightarrow> (Inl e, s)
           | Inr (page1, s1) \<Rightarrow>
               if (case upi_title inp of None \<Rightarrow> False | Some t \<Rightarrow> t = [] \<or> length t > 255)
               then (Inl (validation_error ''Title must be between 1 and 255 characters''), s1)
               else
                 let page2 = page_update_middle inp
                       (apply_opt (\<lambda>v p. p\<lparr>pg_title := v\<rparr>) (upi_title inp) page1)
                 in if (case upi_level inp of None \<Rightarrow> False | Some l \<Rightarrow> l < 1 \<or> l > 6)
                    then (Inl (validation_error ''Level must be between 1 and 6''),
                          put_page i page2 s1)
                    else
                      let page3 = page_update_rest inp
                            (apply_opt (\<lambda>v p. p\<lparr>pg_level := v\<rparr>) (upi_level inp) page2)
                      in (Inr page3, put_page i page3 s1)))"

definition page_remove :: "store \<Rightarrow> string \<Rightarrow> bool result \<times> store" where
  "page_remove s i =
     (if i = [] then (Inl (validation_error ''Page ID cannot be empty''), s)
      else case map_of (pages s) i of
        None \<Rightarrow> (Inl (not_found (''Page not found: '' @ i)), s)
      | Some p \<Rightarrow> (Inr True, del_page i (del_page_path (pg_path p) s)))"

text \<open>
  The filter of \<^verbatim>\<open>list\<close>: the level is parsed with \<^verbatim>\<open>std::stoi\<close> for every page
  visited, and what it throws leaves the function.
\<close>

definition page_matches :: "list_options \<Rightarrow> page_config \<Rightarrow> exn + bool" where
  "page_matches opts p =
     (let published_ok = filter_passes opts ''isPublished'' (\<lambda>v. pg_isPublished p = (v = ''true''))
      in case map_of (lo_filter opts) ''level'' of
           None \<Rightarrow> Inr published_ok
         | Some v \<Rightarrow>
             (case stoi v of
                Inl e \<Rightarrow> Inl e
              | Inr l \<Rightarrow> Inr (published_ok \<and> pg_level p = l)))"

fun page_collect :: "list_options \<Rightarrow> page_config list \<Rightarrow> exn + page_config list" where
  "page_collect opts [] = Inr []"
| "page_collect opts (p # ps) =
     (case page_matches opts p of
        Inl e \<Rightarrow> Inl e
      | Inr m \<Rightarrow>
          (case page_collect opts ps of
             Inl e \<Rightarrow> Inl e
           | Inr qs \<Rightarrow> Inr (if m then p # qs else qs)))"

definition page_list ::
  "((page_config \<Rightarrow> page_config \<Rightarrow> bool) \<Rightarrow> page_config list \<Rightarrow> page_config list) \<Rightarrow>
   store \<Rightarrow> list_options \<Rightarrow> exn + page_config list" where
  "page_list srt s opts =
     (case page_collect opts (map snd (pages s)) of
        Inl e \<Rightarrow> Inl e
      | Inr ps \<Rightarrow>
          let sorted_ps =
            (if sorts_on opts ''title'' then srt (\<lambda>a b. pg_title a < pg_title b) ps
             else if sorts_on opts ''createdAt'' then srt (\<lambda>a b. pg_createdAt a < pg_createdAt b) ps
             else ps)
          in page_slice (lo_page opts) (lo_limit opts) sorted_ps)"

definition contains_insensitive :: "string \<Rightarrow> string \<Rightarrow> bool" where
  "contains_insensitive text query \<longleftrightarrow> contains_sub (to_lower text) (to_lower query)"

definition page_search ::
  "((page_config \<Rightarrow> page_config \<Rightarrow> bool) \<Rightarrow> page_config list \<Rightarrow> page_config list) \<Rightarrow>
   store \<Rightarrow> string \<Rightarrow> int \<Rightarrow> page_config list result" where
  "page_search srt s query limit =
     (if query = [] then Inl (validation_error ''search query is required'')
      else
        let matches = filter (\<lambda>p. contains_insensitive (pg_path p) query
                                 \<or> contains_insensitive (pg_title p) query) (map snd (pages s))
        in Inr (truncate_to limit (srt (\<lambda>a b. pg_path a < pg_path b) matches)))"

section \<open>The collection\<close>

lemmas page_ops = put_page_def del_page_def put_page_path_def del_page_path_def

interpretation page_ix: indexed_collection pg_path "\<lambda>s. map_of (pages s)"
    "\<lambda>s. map_of (page_paths s)" put_page del_page put_page_path del_page_path
  by unfold_locales (simp_all add: page_ops)

text \<open>A page that passed the checks of create and update.\<close>

definition valid_page :: "page_config \<Rightarrow> bool" where
  "valid_page p \<longleftrightarrow> is_valid_path (pg_path p) \<and> pg_title p \<noteq> [] \<and> length (pg_title p) \<le> 255
     \<and> 1 \<le> pg_level p \<and> pg_level p \<le> 6"

definition pages_inv :: "store \<Rightarrow> bool" where
  "pages_inv s \<longleftrightarrow> om_wf (pages s) \<and> om_wf (page_paths s)
     \<and> index_exact pg_path (map_of (pages s)) (map_of (page_paths s))
     \<and> (\<forall>i p. map_of (pages s) i = Some p \<longrightarrow> pg_id p = i \<and> i \<noteq> [] \<and> valid_page p)
     \<and> 0 \<le> page_counter s \<and> ids_below ''page'' (page_counter s) (dom (map_of (pages s)))"

lemma id_prefix_page: "id_prefix ''page''"
  by (simp add: id_prefix_def)

lemma page_fresh:
  "pages_inv s \<Longrightarrow> in_int32 (page_counter s + 1) \<Longrightarrow>
   map_of (pages s) (generate_id ''page'' (page_counter s + 1)) = None"
  using ids_below_fresh [OF _ id_prefix_page, of "page_counter s" "dom (map_of (pages s))"]
  by (auto simp: pages_inv_def)

lemma pages_inv_empty: "pages_inv empty_store"
  by (simp add: pages_inv_def empty_store_def index_exact_def ids_below_def)

lemma page_create_ok:
  "page_create now s inp = (Inr p, s') \<longleftrightarrow>
     is_valid_path (cpi_path inp) \<and> cpi_title inp \<noteq> [] \<and> length (cpi_title inp) \<le> 255
     \<and> 1 \<le> cpi_level inp \<and> cpi_level inp \<le> 6 \<and> map_of (page_paths s) (cpi_path inp) = None
     \<and> p = new_page now (generate_id ''page'' (page_counter s + 1)) inp
     \<and> s' = put_page_path (pg_path p) (pg_id p)
              (put_page (pg_id p) p (s\<lparr>page_counter := page_counter s + 1\<rparr>))"
  by (auto simp: page_create_def Let_def)

lemma page_create_error: "page_create now s inp = (Inl e, s') \<Longrightarrow> s' = s"
  by (auto simp: page_create_def Let_def split: if_splits)

lemma new_page_simps [simp]:
  "pg_id (new_page now i inp) = i" "pg_path (new_page now i inp) = cpi_path inp"
  "pg_title (new_page now i inp) = cpi_title inp" "pg_level (new_page now i inp) = cpi_level inp"
  by (simp_all add: new_page_def)

lemma page_create_inv:
  assumes inv: "pages_inv s" and fits: "in_int32 (page_counter s + 1)"
    and run: "page_create now s inp = (r, s')"
  shows "pages_inv s'"
proof (cases r)
  case (Inl e)
  with run inv show ?thesis by (auto dest: page_create_error)
next
  case (Inr p)
  let ?i = "generate_id ''page'' (page_counter s + 1)"
  let ?s1 = "s\<lparr>page_counter := page_counter s + 1\<rparr>"
  have p: "p = new_page now ?i inp" and valid: "valid_page p"
    and free: "map_of (page_paths s) (cpi_path inp) = None"
    and s': "s' = put_page_path (pg_path p) ?i (put_page ?i p ?s1)"
    using run [unfolded Inr page_create_ok] by (auto simp: valid_page_def)
  have fresh: "map_of (pages s) ?i = None" using inv fits by (rule page_fresh)
  have exact: "index_exact pg_path (map_of (pages s')) (map_of (page_paths s'))"
    unfolding s' using inv fresh free by (intro page_ix.exact_insert) (auto simp: pages_inv_def p)
  have nonempty: "?i \<noteq> []"
    using inv fits by (intro generate_id_nonempty id_prefix_page) (simp_all add: pages_inv_def)
  show ?thesis
    using inv exact valid nonempty ids_below_insert [of "''page''" "page_counter s"]
    by (auto simp: pages_inv_def s' page_ops p)
qed

subsection \<open>Update\<close>

lemma page_update_middle_simps [simp]:
  "pg_id (page_update_middle inp p) = pg_id p" "pg_path (page_update_middle inp p) = pg_path p"
  "pg_title (page_update_middle inp p) = pg_title p" "pg_level (page_update_middle inp p) = pg_level p"
  by (simp_all add: page_update_middle_def apply_opt_keeps)

lemma page_update_rest_simps [simp]:
  "pg_id (page_update_rest inp p) = pg_id p" "pg_path (page_update_rest inp p) = pg_path p"
  "pg_title (page_update_rest inp p) = pg_title p" "pg_level (page_update_rest inp p) = pg_level p"
  by (simp_all add: page_update_rest_def apply_opt_keeps)

lemma put_page_inv:
  assumes "pages_inv s" "map_of (pages s) i = Some old" "pg_id new = i" "valid_page new"
    and "pg_path new = pg_path old"
  shows "pages_inv (put_page i new s)"
proof -
  have "index_exact pg_path (map_of (pages (put_page i new s))) (map_of (page_paths (put_page i new s)))"
    using assms by (intro page_ix.exact_same_key) (auto simp: pages_inv_def)
  moreover have "dom (map_of (pages (put_page i new s))) = dom (map_of (pages s))"
    using assms(2) by (auto simp: page_ops)
  ultimately show ?thesis using assms by (auto simp: pages_inv_def page_ops)
qed

lemma page_update_path_inv:
  assumes inv: "pages_inv s" and i: "map_of (pages s) i = Some page"
    and run: "page_update_path s i page inp = Inr (page1, s1)"
  shows "pages_inv s1 \<and> map_of (pages s1) i = Some page1 \<and> pg_id page1 = i \<and> valid_page page1"
proof (cases "upi_path inp")
  case None
  with inv i run show ?thesis by (auto simp: page_update_path_def pages_inv_def)
next
  case (Some path)
  with run have ok: "is_valid_path path"
      "map_of (page_paths s) path = None \<or> map_of (page_paths s) path = Some i"
    and page1: "page1 = page\<lparr>pg_path := path\<rparr>"
    and s1: "s1 = put_page i page1 (put_page_path (pg_path page1) i (del_page_path (pg_path page) s))"
    by (auto simp: page_update_path_def Let_def split: if_splits option.splits)
  have "valid_page page" "pg_id page = i" "i \<noteq> []" using inv i by (auto simp: pages_inv_def)
  then have valid: "valid_page page1" "pg_id page1 = i" using ok page1 by (simp_all add: valid_page_def)
  have exact: "index_exact pg_path (map_of (pages s1)) (map_of (page_paths s1))"
    unfolding s1 using inv i ok page1 by (intro page_ix.exact_rekey) (auto simp: pages_inv_def)
  have doms: "dom (map_of (pages s1)) = dom (map_of (pages s))"
    using i by (auto simp: s1 page_ops)
  show ?thesis
    using inv i exact valid doms \<open>i \<noteq> []\<close> by (auto simp: pages_inv_def s1 page_ops)
qed

text \<open>Every way an update can end keeps the invariant, the failures after a write included.\<close>

lemma page_update_inv:
  assumes inv: "pages_inv s" and run: "page_update s i inp = (r, s')"
  shows "pages_inv s'"
proof (cases "i = [] \<or> map_of (pages s) i = None")
  case True
  with run inv show ?thesis by (auto simp: page_update_def split: if_splits)
next
  case False
  then obtain page where ne: "i \<noteq> []" and i: "map_of (pages s) i = Some page" by auto
  show ?thesis
  proof (cases "page_update_path s i page inp")
    case (Inl e)
    with run inv ne i show ?thesis by (simp add: page_update_def)
  next
    case (Inr ps)
    obtain page1 s1 where ps: "ps = (page1, s1)" by (cases ps)
    note stage = page_update_path_inv [OF inv i Inr [unfolded ps]]
    have keep: "pages_inv (put_page (pg_id page1) q s1)"
      if "pg_id q = pg_id page1" "pg_path q = pg_path page1" "pg_title q \<noteq> []" "length (pg_title q) \<le> 255"
        "1 \<le> pg_level q" "pg_level q \<le> 6" for q
      using stage that by (intro put_page_inv [of s1 _ page1]) (auto simp: valid_page_def)
    show ?thesis
      using run stage
      by (auto simp: page_update_def ne i Inr ps Let_def valid_page_def intro!: keep
          split: if_splits option.splits)
  qed
qed

lemma page_update_ok_fields:
  assumes "page_update s i inp = (Inr p, s')"
  shows "map_of (pages s') i = Some p"
  using assms
  by (auto simp: page_update_def Let_def page_ops split: if_splits option.splits sum.splits)

subsection \<open>Removal and lookup\<close>

lemma page_remove_inv:
  assumes inv: "pages_inv s" and run: "page_remove s i = (r, s')"
  shows "pages_inv s'"
proof (cases "i = [] \<or> map_of (pages s) i = None")
  case True
  with run inv show ?thesis by (auto simp: page_remove_def split: if_splits)
next
  case False
  then obtain p where i: "map_of (pages s) i = Some p" and s': "s' = del_page i (del_page_path (pg_path p) s)"
    using run by (auto simp: page_remove_def)
  have exact: "index_exact pg_path (map_of (pages s')) (map_of (page_paths s'))"
    unfolding s' using inv i by (intro page_ix.exact_remove) (auto simp: pages_inv_def)
  have "dom (map_of (pages s')) \<subseteq> dom (map_of (pages s))" by (auto simp: s' page_ops)
  with inv exact show ?thesis
    by (auto simp: pages_inv_def s' page_ops split: if_splits intro: ids_below_mono)
qed

lemma page_get_by_path_iff:
  assumes inv: "pages_inv s"
  shows "page_get_by_path s path = Inr p \<longleftrightarrow>
    (\<exists>i. map_of (pages s) i = Some p \<and> pg_path p = path)"
proof
  assume "page_get_by_path s path = Inr p"
  then obtain i where "map_of (page_paths s) path = Some i" "map_of (pages s) i = Some p"
    by (auto simp: page_get_by_path_def page_get_def split: if_splits option.splits)
  with inv show "\<exists>i. map_of (pages s) i = Some p \<and> pg_path p = path"
    by (auto simp: pages_inv_def elim!: index_exactE [of pg_path])
next
  assume "\<exists>i. map_of (pages s) i = Some p \<and> pg_path p = path"
  then obtain i where i: "map_of (pages s) i = Some p" "pg_path p = path" by blast
  with inv have "map_of (page_paths s) path = Some i" "i \<noteq> []" "path \<noteq> []"
    by (auto simp: pages_inv_def valid_page_def is_valid_path_def dest: index_exactD split: if_splits)
  with i show "page_get_by_path s path = Inr p"
    by (simp add: page_get_by_path_def page_get_def)
qed

text \<open>After its removal a page is gone under its id and under its path.\<close>

lemma page_remove_gone:
  assumes inv: "pages_inv s" and run: "page_remove s i = (Inr b, s')"
    and p: "map_of (pages s) i = Some p"
  shows "\<not> is_ok (page_get s' i) \<and> \<not> is_ok (page_get_by_path s' (pg_path p))"
proof -
  have s': "s' = del_page i (del_page_path (pg_path p) s)" and "i \<noteq> []"
    using run p by (auto simp: page_remove_def split: if_splits)
  then show ?thesis by (simp add: page_get_def page_get_by_path_def page_ops)
qed

subsection \<open>List and search\<close>

lemma page_collect_no_level:
  assumes "map_of (lo_filter opts) ''level'' = None"
  shows "page_collect opts ps =
    Inr (filter (\<lambda>p. filter_passes opts ''isPublished'' (\<lambda>v. pg_isPublished p = (v = ''true''))) ps)"
  by (induction ps) (simp_all add: page_matches_def assms)

lemma page_collect_level:
  assumes "map_of (lo_filter opts) ''level'' = Some v" "stoi v = Inr l"
  shows "page_collect opts ps =
    Inr (filter (\<lambda>p. filter_passes opts ''isPublished'' (\<lambda>v. pg_isPublished p = (v = ''true''))
                    \<and> pg_level p = l) ps)"
  by (induction ps) (simp_all add: page_matches_def assms)

lemma page_collect_bad_level:
  assumes "map_of (lo_filter opts) ''level'' = Some v" "stoi v = Inl e" "ps \<noteq> []"
  shows "page_collect opts ps = Inl e"
  using assms by (cases ps) (simp_all add: page_matches_def)

lemma page_collect_subset: "page_collect opts ps = Inr qs \<Longrightarrow> set qs \<subseteq> set ps"
  by (induction ps arbitrary: qs) (auto split: sum.splits if_splits)

text \<open>Paths are unique, so a search is sorted by path with no tie to break.\<close>

lemma pages_inj_path:
  assumes "pages_inv s"
  shows "inj_on pg_path (set (map snd (pages s)))"
proof (rule inj_onI)
  fix p q
  assume "p \<in> set (map snd (pages s))" "q \<in> set (map snd (pages s))" and eq: "pg_path p = pg_path q"
  then obtain i j where "(i, p) \<in> set (pages s)" "(j, q) \<in> set (pages s)" by auto
  with assms have i: "map_of (pages s) i = Some p" and j: "map_of (pages s) j = Some q"
    by (simp_all add: pages_inv_def om_find_in)
  with assms eq have "i = j" by (auto simp: pages_inv_def intro: page_ix.exact_unique [of s])
  with i j show "p = q" by simp
qed

lemma page_search_result:
  assumes inv: "pages_inv s" and srt: "cpp_sort srt" and q: "query \<noteq> []"
  shows "page_search srt s query limit =
    Inr (truncate_to limit (sort_key pg_path (filter (\<lambda>p. contains_insensitive (pg_path p) query
           \<or> contains_insensitive (pg_title p) query) (map snd (pages s)))))"
proof -
  have inj: "inj_on pg_path (set (filter f (map snd (pages s))))" for f
    using pages_inj_path [OF inv] by (rule inj_on_subset) auto
  show ?thesis
    using q by (simp add: page_search_def Let_def cpp_sort.srt_unique_key [OF srt inj] del: set_filter)
qed

end
