(* ===== verification/Entity_Sessions.thy ===== *)
theory Entity_Sessions
  imports Entity_Store
begin

text \<open>
  Sessions (\<^verbatim>\<open>src/entities/session\<close>): create, get, get by token, update, remove,
  list and the expiry sweep.  The clock the code reads is an argument, \<open>now\<close>.
  At the end, \<^verbatim>\<open>setFirstLogin\<close> and \<^verbatim>\<open>getFirstLogin\<close>
  (\<^verbatim>\<open>src/entities/credential\<close>), which scan the users.
\<close>

section \<open>Inputs\<close>

record create_session_input =
  csi_userId :: string
  csi_token :: string
  csi_expiresAt :: int
  csi_createdAt :: "int option"
  csi_lastActivity :: "int option"
  csi_ipAddress :: "string option"
  csi_userAgent :: "string option"

record update_session_input =
  usi_userId :: "string option"
  usi_token :: "string option"
  usi_expiresAt :: "int option"
  usi_lastActivity :: "int option"
  usi_ipAddress :: "string option"
  usi_userAgent :: "string option"

section \<open>Operations\<close>

definition put_session :: "string \<Rightarrow> session \<Rightarrow> store \<Rightarrow> store" where
  "put_session i x s = s\<lparr>sessions := om_put i x (sessions s)\<rparr>"

definition del_session :: "string \<Rightarrow> store \<Rightarrow> store" where
  "del_session i s = s\<lparr>sessions := om_erase i (sessions s)\<rparr>"

definition put_session_token :: "string \<Rightarrow> string \<Rightarrow> store \<Rightarrow> store" where
  "put_session_token k i s = s\<lparr>session_tokens := om_put k i (session_tokens s)\<rparr>"

definition del_session_token :: "string \<Rightarrow> store \<Rightarrow> store" where
  "del_session_token k s = s\<lparr>session_tokens := om_erase k (session_tokens s)\<rparr>"

definition value_or :: "'a option \<Rightarrow> 'a \<Rightarrow> 'a" where
  "value_or ov d = (case ov of None \<Rightarrow> d | Some v \<Rightarrow> v)"

definition new_session :: "int \<Rightarrow> string \<Rightarrow> create_session_input \<Rightarrow> session" where
  "new_session now i inp =
     (let created = Some (value_or (csi_createdAt inp) now)
      in \<lparr>se_id = i, se_userId = csi_userId inp, se_token = csi_token inp,
          se_expiresAt = csi_expiresAt inp, se_createdAt = created,
          se_lastActivity = (if csi_lastActivity inp \<noteq> None then csi_lastActivity inp else created),
          se_ipAddress = csi_ipAddress inp, se_userAgent = csi_userAgent inp, se_tenantId = None\<rparr>)"

definition session_create ::
  "int \<Rightarrow> store \<Rightarrow> create_session_input \<Rightarrow> session result \<times> store" where
  "session_create now s inp =
     (if csi_userId inp = [] then (Inl (validation_error ''userId is required''), s)
      else if csi_token inp = [] then (Inl (validation_error ''token is required''), s)
      else if map_of (users s) (csi_userId inp) = None
      then (Inl (validation_error (''User not found: '' @ csi_userId inp)), s)
      else if map_of (session_tokens s) (csi_token inp) \<noteq> None
      then (Inl (conflict (''Session token already exists: '' @ csi_token inp)), s)
      else
        let s1 = s\<lparr>session_counter := session_counter s + 1\<rparr>;
            x = new_session now (generate_id ''session'' (session_counter s1)) inp
        in (Inr x, put_session_token (se_token x) (se_id x) (put_session (se_id x) x s1)))"

definition session_get :: "int \<Rightarrow> store \<Rightarrow> string \<Rightarrow> session result \<times> store" where
  "session_get now s i =
     (if i = [] then (Inl (validation_error ''Session ID cannot be empty''), s)
      else case map_of (sessions s) i of
        None \<Rightarrow> (Inl (not_found (''Session not found: '' @ i)), s)
      | Some x \<Rightarrow>
          if se_expiresAt x \<le> now
          then (Inl (not_found (''Session expired: '' @ i)),
                del_session i (del_session_token (se_token x) s))
          else (Inr x, s))"

definition session_get_by_token :: "int \<Rightarrow> store \<Rightarrow> string \<Rightarrow> session result \<times> store" where
  "session_get_by_token now s token =
     (if token = [] then (Inl (validation_error ''Token cannot be empty''), s)
      else case map_of (session_tokens s) token of
        None \<Rightarrow> (Inl (not_found ''Session not found for token''), s)
      | Some i \<Rightarrow> session_get now s i)"

definition session_update_rest :: "update_session_input \<Rightarrow> session \<Rightarrow> session" where
  "session_update_rest inp x =
     apply_opt (\<lambda>v y. y\<lparr>se_userAgent := Some v\<rparr>) (usi_userAgent inp)
     (apply_opt (\<lambda>v y. y\<lparr>se_ipAddress := Some v\<rparr>) (usi_ipAddress inp)
     (apply_opt (\<lambda>v y. y\<lparr>se_lastActivity := Some v\<rparr>) (usi_lastActivity inp)
     (apply_opt (\<lambda>v y. y\<lparr>se_expiresAt := v\<rparr>) (usi_expiresAt inp) x)))"

text \<open>A new user id is written into the session before the new token is checked.\<close>

definition session_update_user ::
  "store \<Rightarrow> session \<Rightarrow> update_session_input \<Rightarrow> session result" where
  "session_update_user s x inp =
     (case usi_userId inp of
        None \<Rightarrow> Inr x
      | Some u \<Rightarrow>
          if u = [] then Inl (validation_error ''userId is required'')
          else if map_of (users s) u = None
          then Inl (validation_error (''User not found: '' @ u))
          else Inr (x\<lparr>se_userId := u\<rparr>))"

definition session_update_token ::
  "store \<Rightarrow> string \<Rightarrow> session \<Rightarrow> update_session_input \<Rightarrow> (session \<times> store) result" where
  "session_update_token s i x inp =
     (case usi_token inp of
        None \<Rightarrow> Inr (x, s)
      | Some t \<Rightarrow>
          if t = [] then Inl (validation_error ''token is required'')
          else if (case map_of (session_tokens s) t of None \<Rightarrow> False | Some j \<Rightarrow> j \<noteq> i)
          then Inl (conflict (''Session token already exists: '' @ t))
          else Inr (x\<lparr>se_token := t\<rparr>,
                    put_session_token t i (del_session_token (se_token x) s)))"

definition session_update ::
  "store \<Rightarrow> string \<Rightarrow> update_session_input \<Rightarrow> session result \<times> store" where
  "session_update s i inp =
     (if i = [] then (Inl (validation_error ''Session ID cannot be empty''), s)
      else case map_of (sessions s) i of
        None \<Rightarrow> (Inl (not_found (''Session not found: '' @ i)), s)
      | Some x \<Rightarrow>
          (case session_update_user s x inp of
             Inl e \<Rightarrow> (Inl e, s)
           | Inr x1 \<Rightarrow>
               (case session_update_token s i x1 inp of
                  Inl e \<Rightarrow> (Inl e, put_session i x1 s)
                | Inr (x2, s2) \<Rightarrow>
                    let x3 = session_update_rest inp x2
                    in (Inr x3, put_session i x3 s2))))"

definition session_remove :: "store \<Rightarrow> string \<Rightarrow> bool result \<times> store" where
  "session_remove s i =
     (if i = [] then (Inl (validation_error ''Session ID cannot be empty''), s)
      else case map_of (sessions s) i of
        None \<Rightarrow> (Inl (not_found (''Session not found: '' @ i)), s)
      | Some x \<Rightarrow> (Inr True, del_session i (del_session_token (se_token x) s)))"

text \<open>The sweep first collects the expired ids, then drops them one by one.\<close>

definition expired_ids :: "int \<Rightarrow> store \<Rightarrow> string list" where
  "expired_ids now s = map fst (filter (\<lambda>(i, x). se_expiresAt x \<le> now) (sessions s))"

fun drop_sessions :: "string list \<Rightarrow> store \<Rightarrow> store" where
  "drop_sessions [] s = s"
| "drop_sessions (i # is) s =
     drop_sessions is
       (case map_of (sessions s) i of
          None \<Rightarrow> s
        | Some x \<Rightarrow> del_session i (del_session_token (se_token x) s))"

definition clean_expired :: "int \<Rightarrow> store \<Rightarrow> int result \<times> store" where
  "clean_expired now s =
     (let ids = expired_ids now s
      in (Inr (size_to_int (length ids)), drop_sessions ids s))"

definition session_matches :: "list_options \<Rightarrow> session \<Rightarrow> bool" where
  "session_matches opts x \<longleftrightarrow>
     filter_passes opts ''userId'' (\<lambda>v. se_userId x = v)
     \<and> filter_passes opts ''token'' (\<lambda>v. se_token x = v)"

definition session_list ::
  "((session \<Rightarrow> session \<Rightarrow> bool) \<Rightarrow> session list \<Rightarrow> session list) \<Rightarrow> int \<Rightarrow>
   store \<Rightarrow> list_options \<Rightarrow> (exn + session list) \<times> store" where
  "session_list srt now s opts =
     (let s1 = snd (clean_expired now s);
          xs = filter (session_matches opts) (map snd (sessions s1));
          sorted_xs =
            (if sorts_on opts ''createdAt'' then srt (\<lambda>a b. se_createdAt a < se_createdAt b) xs
             else if sorts_on opts ''expiresAt'' then srt (\<lambda>a b. se_expiresAt a < se_expiresAt b) xs
             else xs)
      in (page_slice (lo_page opts) (lo_limit opts) sorted_xs, s1))"

subsection \<open>The first-login flag of a user\<close>

text \<open>The first user in id order with the name is the one written or read.\<close>

fun set_first_login_users :: "string \<Rightarrow> bool \<Rightarrow> (string, user) omap \<Rightarrow> (string, user) omap option" where
  "set_first_login_users name flag [] = None"
| "set_first_login_users name flag ((i, u) # us) =
     (if us_username u = name then Some ((i, u\<lparr>us_firstLogin := Some flag\<rparr>) # us)
      else map_option (\<lambda>us'. (i, u) # us') (set_first_login_users name flag us))"

definition set_first_login :: "store \<Rightarrow> string \<Rightarrow> bool \<Rightarrow> bool result \<times> store" where
  "set_first_login s name flag =
     (if name = [] then (Inl (validation_error ''username is required''), s)
      else case set_first_login_users name flag (users s) of
        Some us \<Rightarrow> (Inr True, s\<lparr>users := us\<rparr>)
      | None \<Rightarrow> (Inl (not_found (''User not found: '' @ name)), s))"

definition get_first_login :: "store \<Rightarrow> string \<Rightarrow> bool result" where
  "get_first_login s name =
     (if name = [] then Inl (validation_error ''username is required'')
      else case find (\<lambda>u. us_username u = name) (map snd (users s)) of
        Some u \<Rightarrow> Inr (value_or (us_firstLogin u) False)
      | None \<Rightarrow> Inl (not_found (''User not found: '' @ name)))"

section \<open>The collection\<close>

lemmas session_ops = put_session_def del_session_def put_session_token_def del_session_token_def

interpretation session_ix: indexed_collection se_token "\<lambda>s. map_of (sessions s)"
    "\<lambda>s. map_of (session_tokens s)" put_session del_session put_session_token del_session_token
  by unfold_locales (simp_all add: session_ops)

definition sessions_inv :: "store \<Rightarrow> bool" where
  "sessions_inv s \<longleftrightarrow> om_wf (sessions s) \<and> om_wf (session_tokens s)
     \<and> index_exact se_token (map_of (sessions s)) (map_of (session_tokens s))
     \<and> (\<forall>i x. map_of (sessions s) i = Some x \<longrightarrow> se_id x = i \<and> i \<noteq> [] \<and> se_token x \<noteq> [])
     \<and> 0 \<le> session_counter s
     \<and> ids_below ''session'' (session_counter s) (dom (map_of (sessions s)))"

lemma id_prefix_session: "id_prefix ''session''"
  by (simp add: id_prefix_def)

lemma sessions_inv_empty: "sessions_inv empty_store"
  by (simp add: sessions_inv_def empty_store_def index_exact_def ids_below_def)

lemma new_session_simps [simp]:
  "se_id (new_session now i inp) = i" "se_token (new_session now i inp) = csi_token inp"
  "se_userId (new_session now i inp) = csi_userId inp"
  "se_expiresAt (new_session now i inp) = csi_expiresAt inp"
  by (simp_all add: new_session_def Let_def)

lemma session_create_ok:
  "session_create now s inp = (Inr x, s') \<longleftrightarrow>
     csi_userId inp \<noteq> [] \<and> csi_token inp \<noteq> [] \<and> map_of (users s) (csi_userId inp) \<noteq> None
     \<and> map_of (session_tokens s) (csi_token inp) = None
     \<and> x = new_session now (generate_id ''session'' (session_counter s + 1)) inp
     \<and> s' = put_session_token (se_token x) (se_id x)
              (put_session (se_id x) x (s\<lparr>session_counter := session_counter s + 1\<rparr>))"
  by (auto simp: session_create_def Let_def)

lemma session_create_error: "session_create now s inp = (Inl e, s') \<Longrightarrow> s' = s"
  by (auto simp: session_create_def Let_def split: if_splits)

lemma session_create_inv:
  assumes inv: "sessions_inv s" and fits: "in_int32 (session_counter s + 1)"
    and run: "session_create now s inp = (r, s')"
  shows "sessions_inv s'"
proof (cases r)
  case (Inl e)
  with run inv show ?thesis by (auto dest: session_create_error)
next
  case (Inr x)
  let ?i = "generate_id ''session'' (session_counter s + 1)"
  let ?s1 = "s\<lparr>session_counter := session_counter s + 1\<rparr>"
  have x: "x = new_session now ?i inp" and tok: "csi_token inp \<noteq> []"
    and free: "map_of (session_tokens s) (csi_token inp) = None"
    and s': "s' = put_session_token (se_token x) ?i (put_session ?i x ?s1)"
    using run [unfolded Inr session_create_ok] by auto
  have fresh: "map_of (sessions s) ?i = None"
    using ids_below_fresh [OF _ id_prefix_session, of "session_counter s" "dom (map_of (sessions s))"]
      inv fits by (auto simp: sessions_inv_def)
  have exact: "index_exact se_token (map_of (sessions s')) (map_of (session_tokens s'))"
    unfolding s' using inv fresh free by (intro session_ix.exact_insert) (auto simp: sessions_inv_def x)
  have nonempty: "?i \<noteq> []"
    using inv fits by (intro generate_id_nonempty id_prefix_session) (simp_all add: sessions_inv_def)
  show ?thesis
    using inv exact tok nonempty ids_below_insert [of "''session''" "session_counter s"]
    by (auto simp: sessions_inv_def s' session_ops x)
qed

lemma del_session_inv:
  assumes inv: "sessions_inv s" and i: "map_of (sessions s) i = Some x"
  shows "sessions_inv (del_session i (del_session_token (se_token x) s))" (is "sessions_inv ?s'")
proof -
  have exact: "index_exact se_token (map_of (sessions ?s')) (map_of (session_tokens ?s'))"
    using inv i by (intro session_ix.exact_remove) (auto simp: sessions_inv_def)
  have "dom (map_of (sessions ?s')) \<subseteq> dom (map_of (sessions s))" by (auto simp: session_ops)
  with inv exact show ?thesis
    by (auto simp: sessions_inv_def session_ops split: if_splits intro: ids_below_mono)
qed

lemma session_get_inv: "sessions_inv s \<Longrightarrow> session_get now s i = (r, s') \<Longrightarrow> sessions_inv s'"
  by (auto simp: session_get_def del_session_inv split: if_splits option.splits)

lemma session_get_by_token_inv:
  "sessions_inv s \<Longrightarrow> session_get_by_token now s t = (r, s') \<Longrightarrow> sessions_inv s'"
  by (auto simp: session_get_by_token_def session_get_inv split: if_splits option.splits)

lemma session_remove_inv: "sessions_inv s \<Longrightarrow> session_remove s i = (r, s') \<Longrightarrow> sessions_inv s'"
  by (auto simp: session_remove_def del_session_inv split: if_splits option.splits)

lemma drop_sessions_inv: "sessions_inv s \<Longrightarrow> sessions_inv (drop_sessions is s)"
  by (induction "is" s rule: drop_sessions.induct) (auto simp: del_session_inv split: option.splits)

lemma clean_expired_inv: "sessions_inv s \<Longrightarrow> clean_expired now s = (r, s') \<Longrightarrow> sessions_inv s'"
  by (auto simp: clean_expired_def Let_def drop_sessions_inv)

subsection \<open>Update\<close>

lemma session_update_rest_simps [simp]:
  "se_id (session_update_rest inp x) = se_id x" "se_token (session_update_rest inp x) = se_token x"
  "se_userId (session_update_rest inp x) = se_userId x"
  by (simp_all add: session_update_rest_def apply_opt_keeps)

lemma put_session_inv:
  assumes "sessions_inv s" "map_of (sessions s) i = Some old" "se_id new = i"
    and "se_token new = se_token old"
  shows "sessions_inv (put_session i new s)"
proof -
  have "index_exact se_token (map_of (sessions (put_session i new s)))
          (map_of (session_tokens (put_session i new s)))"
    using assms by (intro session_ix.exact_same_key) (auto simp: sessions_inv_def)
  moreover have "dom (map_of (sessions (put_session i new s))) = dom (map_of (sessions s))"
    using assms(2) by (auto simp: session_ops)
  ultimately show ?thesis using assms by (auto simp: sessions_inv_def session_ops)
qed

lemma session_update_user_keeps:
  "session_update_user s x inp = Inr x1 \<Longrightarrow> se_id x1 = se_id x \<and> se_token x1 = se_token x"
  by (auto simp: session_update_user_def split: option.splits if_splits)

lemma session_rekey_inv:
  assumes inv: "sessions_inv s" and i: "map_of (sessions s) i = Some old"
    and run: "session_update_token s i x1 inp = Inr (x2, s2)"
    and x1: "se_id x1 = i" "se_token x1 = se_token old" and new: "se_id y = i" "se_token y = se_token x2"
  shows "sessions_inv (put_session i y s2)"
proof (cases "usi_token inp")
  case None
  with run have "x2 = x1" "s2 = s" by (simp_all add: session_update_token_def)
  with inv i x1 new show ?thesis by (intro put_session_inv) auto
next
  case (Some t)
  with run have t: "t \<noteq> []" "map_of (session_tokens s) t = None \<or> map_of (session_tokens s) t = Some i"
    and s2: "s2 = put_session_token t i (del_session_token (se_token x1) s)" and x2: "se_token x2 = t"
    by (auto simp: session_update_token_def split: if_splits option.splits)
  have y: "se_token y = t" using new(2) x2 by simp
  have exact: "index_exact se_token (map_of (sessions (put_session i y s2)))
      (map_of (session_tokens (put_session i y s2)))"
    using session_ix.exact_rekey [of s i old y] inv i t(2)
    by (simp add: sessions_inv_def s2 x1(2) y)
  have "dom (map_of (sessions (put_session i y s2))) = dom (map_of (sessions s))"
    using i by (auto simp: s2 session_ops)
  with inv i exact new t(1) y show ?thesis
    by (auto simp: sessions_inv_def s2 session_ops)
qed

lemma session_update_inv:
  assumes inv: "sessions_inv s" and run: "session_update s i inp = (r, s')"
  shows "sessions_inv s'"
proof (cases "i = [] \<or> map_of (sessions s) i = None")
  case True
  with run inv show ?thesis by (auto simp: session_update_def split: if_splits)
next
  case False
  then obtain x where ne: "i \<noteq> []" and i: "map_of (sessions s) i = Some x" by auto
  have xid: "se_id x = i" using inv i by (simp add: sessions_inv_def)
  show ?thesis
  proof (cases "session_update_user s x inp")
    case (Inl e)
    with run inv ne i show ?thesis by (simp add: session_update_def)
  next
    case (Inr x1)
    note x1 = session_update_user_keeps [OF Inr]
    show ?thesis
    proof (cases "session_update_token s i x1 inp")
      case (Inl e)
      with run ne i Inr x1 xid inv show ?thesis
        by (auto simp: session_update_def intro: put_session_inv)
    next
      case Inr': (Inr ys)
      obtain x2 s2 where ys: "ys = (x2, s2)" by (cases ys)
      have "se_id x2 = se_id x1"
        using Inr' ys by (auto simp: session_update_token_def split: option.splits if_splits)
      then have "sessions_inv (put_session i (session_update_rest inp x2) s2)"
        using inv i Inr' x1 xid by (intro session_rekey_inv [of s i x x1 inp x2]) (simp_all add: ys)
      with run ne i Inr Inr' ys show ?thesis by (simp add: session_update_def Let_def)
    qed
  qed
qed

subsection \<open>Expiry\<close>

text \<open>No read hands out a session at or past its expiry.\<close>

lemma session_get_live: "session_get now s i = (Inr x, s') \<Longrightarrow> now < se_expiresAt x"
  by (auto simp: session_get_def split: if_splits option.splits)

lemma session_get_by_token_live:
  "session_get_by_token now s t = (Inr x, s') \<Longrightarrow> now < se_expiresAt x"
  by (auto simp: session_get_by_token_def session_get_live split: if_splits option.splits)

lemma drop_sessions_find:
  "map_of (sessions (drop_sessions is s)) i = (if i \<in> set is then None else map_of (sessions s) i)"
proof (induction "is" s rule: drop_sessions.induct)
  case (2 j js s)
  have "map_of (sessions (case map_of (sessions s) j of None \<Rightarrow> s
          | Some x \<Rightarrow> del_session j (del_session_token (se_token x) s))) i
      = (if i = j then None else map_of (sessions s) i)"
    by (auto simp: session_ops split: option.split)
  with 2 show ?case by auto
qed simp

lemma clean_expired_find:
  assumes wf: "om_wf (sessions s)" and run: "clean_expired now s = (r, s')"
  shows "map_of (sessions s') i = Some x \<longleftrightarrow> map_of (sessions s) i = Some x \<and> now < se_expiresAt x"
proof -
  have s': "s' = drop_sessions (expired_ids now s) s" using run by (simp add: clean_expired_def Let_def)
  have ids: "i \<in> set (expired_ids now s) \<longleftrightarrow> (\<exists>x. map_of (sessions s) i = Some x \<and> se_expiresAt x \<le> now)"
    using om_find_in [OF wf] by (force simp: expired_ids_def)
  show ?thesis unfolding s' drop_sessions_find ids by auto
qed

lemma session_list_live:
  assumes inv: "sessions_inv s" and srt: "cpp_sort srt"
    and run: "session_list srt now s opts = (Inr xs, s')" and x: "x \<in> set xs"
  shows "now < se_expiresAt x \<and> session_matches opts x \<and> map_of (sessions s) (se_id x) = Some x"
proof -
  obtain r s1 where ce: "clean_expired now s = (r, s1)" by (cases "clean_expired now s")
  have inv1: "sessions_inv s1" using inv ce by (rule clean_expired_inv)
  note sorts = cpp_sort.srt_set [OF srt strict_weak_key]
  have "set xs \<subseteq> set (filter (session_matches opts) (map snd (sessions s1)))"
    using run by (auto simp: session_list_def Let_def ce sorts dest!: page_slice_set split: if_splits)
  with x obtain i where i: "(i, x) \<in> set (sessions s1)" and m: "session_matches opts x" by force
  then have "map_of (sessions s1) i = Some x" using inv1 by (simp add: sessions_inv_def om_find_in)
  moreover have "se_id x = i" using inv1 calculation by (simp add: sessions_inv_def)
  ultimately show ?thesis
    using clean_expired_find [OF _ ce] inv m by (auto simp: sessions_inv_def)
qed

text \<open>A token names at most one session, and a live one is found by it.\<close>

lemma session_get_by_token_iff:
  assumes inv: "sessions_inv s"
  shows "(\<exists>s'. session_get_by_token now s t = (Inr x, s')) \<longleftrightarrow>
    (\<exists>i. map_of (sessions s) i = Some x) \<and> se_token x = t \<and> now < se_expiresAt x"
proof
  assume "\<exists>s'. session_get_by_token now s t = (Inr x, s')"
  then obtain i where "map_of (session_tokens s) t = Some i" "map_of (sessions s) i = Some x"
      "now < se_expiresAt x"
    by (auto simp: session_get_by_token_def session_get_def split: if_splits option.splits)
  with inv show "(\<exists>i. map_of (sessions s) i = Some x) \<and> se_token x = t \<and> now < se_expiresAt x"
    by (auto simp: sessions_inv_def elim!: index_exactE [of se_token])
next
  assume a: "(\<exists>i. map_of (sessions s) i = Some x) \<and> se_token x = t \<and> now < se_expiresAt x"
  then obtain i where i: "map_of (sessions s) i = Some x" by blast
  with inv a have "map_of (session_tokens s) t = Some i" "i \<noteq> []" "t \<noteq> []"
    by (auto simp: sessions_inv_def dest: index_exactD)
  with i a show "\<exists>s'. session_get_by_token now s t = (Inr x, s')"
    by (auto simp: session_get_by_token_def session_get_def)
qed

subsection \<open>First login\<close>

lemma set_first_login_users_Some:
  "set_first_login_users name flag us = Some us' \<Longrightarrow>
     \<exists>u. find (\<lambda>u. us_username u = name) (map snd us') = Some u \<and> us_firstLogin u = Some flag"
  by (induction us arbitrary: us') (auto split: if_splits)

lemma set_first_login_users_None:
  "set_first_login_users name flag us = None \<longleftrightarrow>
     find (\<lambda>u. us_username u = name) (map snd us) = None"
  by (induction us) (auto split: if_splits)

lemma set_get_first_login:
  "set_first_login s name flag = (Inr b, s') \<Longrightarrow> get_first_login s' name = Inr flag"
  by (auto simp: set_first_login_def get_first_login_def value_or_def
      dest!: set_first_login_users_Some split: if_splits option.splits)

end
