(* ===== verification/Entity_Packages.thy ===== *)
theory Entity_Packages
  imports Entity_Store Entity_Validation
begin

text \<open>
  Installed packages (\<^verbatim>\<open>src/entities/package\<close>): create, get, update, remove, list,
  and the batch operations, of which only the batch create undoes its work on an error.
\<close>

section \<open>Inputs\<close>

record create_package_input =
  cki_packageId :: string
  cki_tenantId :: "string option"
  cki_installedAt :: "int option"
  cki_version :: string
  cki_enabled :: bool

record update_package_input =
  uki_tenantId :: "string option"
  uki_installedAt :: "int option"
  uki_version :: "string option"
  uki_enabled :: "bool option"

section \<open>Operations\<close>

definition put_package :: "string \<Rightarrow> installed_package \<Rightarrow> store \<Rightarrow> store" where
  "put_package i x s = s\<lparr>packages := om_put i x (packages s)\<rparr>"

definition del_package :: "string \<Rightarrow> store \<Rightarrow> store" where
  "del_package i s = s\<lparr>packages := om_erase i (packages s)\<rparr>"

definition put_package_key :: "string \<Rightarrow> string \<Rightarrow> store \<Rightarrow> store" where
  "put_package_key k i s = s\<lparr>package_keys := om_put k i (package_keys s)\<rparr>"

definition del_package_key :: "string \<Rightarrow> store \<Rightarrow> store" where
  "del_package_key k s = s\<lparr>package_keys := om_erase k (package_keys s)\<rparr>"

definition new_package :: "int \<Rightarrow> create_package_input \<Rightarrow> installed_package" where
  "new_package now inp = \<lparr>pk_id = [], pk_packageId = cki_packageId inp,
     pk_tenantId = cki_tenantId inp,
     pk_installedAt = Some (case cki_installedAt inp of None \<Rightarrow> now | Some t \<Rightarrow> t),
     pk_version = cki_version inp, pk_enabled = cki_enabled inp\<rparr>"

definition package_create ::
  "int \<Rightarrow> store \<Rightarrow> create_package_input \<Rightarrow> installed_package result \<times> store" where
  "package_create now s inp =
     (if \<not> is_valid_package_id (cki_packageId inp)
      then (Inl (validation_error ''Package ID must be 1-255 characters''), s)
      else if \<not> is_valid_semver (cki_version inp)
      then (Inl (validation_error ''Version must be valid semver''), s)
      else
        let key = package_key (cki_packageId inp) in
        if map_of (package_keys s) key \<noteq> None
        then (Inl (conflict (''Package ID already exists: '' @ key)), s)
        else
          let p = new_package now inp
          in (Inr p, put_package_key key (pk_packageId p) (put_package (pk_packageId p) p s)))"

definition package_get :: "store \<Rightarrow> string \<Rightarrow> installed_package result" where
  "package_get s i =
     (if i = [] then Inl (validation_error ''Package ID cannot be empty'')
      else case map_of (packages s) i of
        None \<Rightarrow> Inl (not_found (''Package not found: '' @ i))
      | Some p \<Rightarrow> Inr p)"

definition package_get_by_package_id :: "store \<Rightarrow> string \<Rightarrow> installed_package result" where
  "package_get_by_package_id s key =
     (if key = [] then Inl (validation_error ''Package key cannot be empty'')
      else case map_of (package_keys s) key of
        None \<Rightarrow> Inl (not_found (''Package not found: '' @ key))
      | Some i \<Rightarrow> package_get s i)"

definition package_update ::
  "store \<Rightarrow> string \<Rightarrow> update_package_input \<Rightarrow> installed_package result \<times> store" where
  "package_update s i inp =
     (if i = [] then (Inl (validation_error ''Package ID cannot be empty''), s)
      else case map_of (packages s) i of
        None \<Rightarrow> (Inl (not_found (''Package not found: '' @ i)), s)
      | Some p \<Rightarrow>
          let next_version = (case uki_version inp of None \<Rightarrow> pk_version p | Some v \<Rightarrow> v) in
          if \<not> is_valid_semver next_version
          then (Inl (validation_error ''Version must be valid semver''), s)
          else
            let p' = apply_opt (\<lambda>v q. q\<lparr>pk_enabled := v\<rparr>) (uki_enabled inp)
                  (apply_opt (\<lambda>v q. q\<lparr>pk_installedAt := Some v\<rparr>) (uki_installedAt inp)
                  (apply_opt (\<lambda>v q. q\<lparr>pk_tenantId := Some v\<rparr>) (uki_tenantId inp)
                  (p\<lparr>pk_version := next_version\<rparr>)))
            in (Inr p', put_package i p' s))"

definition package_remove :: "store \<Rightarrow> string \<Rightarrow> bool result \<times> store" where
  "package_remove s i =
     (if i = [] then (Inl (validation_error ''Package ID cannot be empty''), s)
      else case map_of (packages s) i of
        None \<Rightarrow> (Inl (not_found (''Package not found: '' @ i)), s)
      | Some p \<Rightarrow> (Inr True, del_package i (del_package_key (package_key (pk_packageId p)) s)))"

definition package_matches :: "list_options \<Rightarrow> installed_package \<Rightarrow> bool" where
  "package_matches opts p \<longleftrightarrow>
     filter_passes opts ''packageId'' (\<lambda>v. pk_packageId p = v)
     \<and> filter_passes opts ''version'' (\<lambda>v. pk_version p = v)
     \<and> filter_passes opts ''tenantId'' (\<lambda>v. pk_tenantId p = Some v)
     \<and> filter_passes opts ''enabled'' (\<lambda>v. pk_enabled p = (v = ''true''))"

definition package_list ::
  "((installed_package \<Rightarrow> installed_package \<Rightarrow> bool) \<Rightarrow> installed_package list \<Rightarrow> installed_package list) \<Rightarrow>
   store \<Rightarrow> list_options \<Rightarrow> exn + installed_package list" where
  "package_list srt s opts =
     (let ps = filter (package_matches opts) (map snd (packages s));
          sorted_ps =
            (if sorts_on opts ''packageId'' then srt (\<lambda>a b. pk_packageId a < pk_packageId b) ps
             else if sorts_on opts ''installedAt''
             then srt (\<lambda>a b. pk_installedAt a < pk_installedAt b) ps
             else ps)
      in page_slice (lo_page opts) (lo_limit opts) sorted_ps)"

subsection \<open>Batches\<close>

text \<open>\<open>clock n\<close> is the time at the \<open>n\<close>-th create of the batch.\<close>

fun undo_packages :: "string list \<Rightarrow> store \<Rightarrow> store" where
  "undo_packages [] s = s"
| "undo_packages (i # is) s =
     undo_packages is
       (case map_of (packages s) i of
          None \<Rightarrow> s
        | Some p \<Rightarrow> del_package i (del_package_key (package_key (pk_packageId p)) s))"

fun batch_create_from ::
  "(nat \<Rightarrow> int) \<Rightarrow> store \<Rightarrow> string list \<Rightarrow> create_package_input list \<Rightarrow> int result \<times> store" where
  "batch_create_from clock s created [] = (Inr (size_to_int (length created)), s)"
| "batch_create_from clock s created (inp # inps) =
     (case package_create (clock (length created)) s inp of
        (Inl e, s1) \<Rightarrow> (Inl e, undo_packages created s1)
      | (Inr p, s1) \<Rightarrow> batch_create_from clock s1 (created @ [pk_packageId p]) inps)"

definition batch_create ::
  "(nat \<Rightarrow> int) \<Rightarrow> store \<Rightarrow> create_package_input list \<Rightarrow> int result \<times> store" where
  "batch_create clock s inputs =
     (if inputs = [] then (Inr 0, s) else batch_create_from clock s [] inputs)"

fun batch_update_from ::
  "store \<Rightarrow> int \<Rightarrow> (string \<times> update_package_input) list \<Rightarrow> int result \<times> store" where
  "batch_update_from s updated [] = (Inr updated, s)"
| "batch_update_from s updated ((i, inp) # items) =
     (case package_update s i inp of
        (Inl e, s1) \<Rightarrow> (Inl e, s1)
      | (Inr p, s1) \<Rightarrow> batch_update_from s1 (updated + 1) items)"

definition batch_update ::
  "store \<Rightarrow> (string \<times> update_package_input) list \<Rightarrow> int result \<times> store" where
  "batch_update s updates =
     (if updates = [] then (Inr 0, s) else batch_update_from s 0 updates)"

fun batch_delete_from :: "store \<Rightarrow> int \<Rightarrow> string list \<Rightarrow> int result \<times> store" where
  "batch_delete_from s deleted [] = (Inr deleted, s)"
| "batch_delete_from s deleted (i # is) =
     (case package_remove s i of
        (Inl e, s1) \<Rightarrow> (Inl e, s1)
      | (Inr b, s1) \<Rightarrow> batch_delete_from s1 (deleted + 1) is)"

definition batch_delete :: "store \<Rightarrow> string list \<Rightarrow> int result \<times> store" where
  "batch_delete s ids = (if ids = [] then (Inr 0, s) else batch_delete_from s 0 ids)"

section \<open>The collection\<close>

lemmas package_ops = put_package_def del_package_def put_package_key_def del_package_key_def

interpretation package_ix: indexed_collection "\<lambda>p. package_key (pk_packageId p)"
    "\<lambda>s. map_of (packages s)" "\<lambda>s. map_of (package_keys s)"
    put_package del_package put_package_key del_package_key
  by unfold_locales (simp_all add: package_ops)

definition packages_inv :: "store \<Rightarrow> bool" where
  "packages_inv s \<longleftrightarrow> om_wf (packages s) \<and> om_wf (package_keys s)
     \<and> index_exact (\<lambda>p. package_key (pk_packageId p)) (map_of (packages s)) (map_of (package_keys s))
     \<and> (\<forall>i p. map_of (packages s) i = Some p \<longrightarrow>
          pk_packageId p = i \<and> is_valid_package_id i \<and> is_valid_semver (pk_version p))"

lemma packages_inv_empty: "packages_inv empty_store"
  by (simp add: packages_inv_def empty_store_def index_exact_def)

lemma new_package_simps [simp]:
  "pk_packageId (new_package now inp) = cki_packageId inp"
  "pk_version (new_package now inp) = cki_version inp"
  by (simp_all add: new_package_def)

lemma package_create_ok:
  "package_create now s inp = (Inr p, s') \<longleftrightarrow>
     is_valid_package_id (cki_packageId inp) \<and> is_valid_semver (cki_version inp)
     \<and> map_of (package_keys s) (cki_packageId inp) = None \<and> p = new_package now inp
     \<and> s' = put_package_key (cki_packageId inp) (cki_packageId inp) (put_package (cki_packageId inp) p s)"
  by (auto simp: package_create_def package_key_def Let_def)

lemma package_create_error: "package_create now s inp = (Inl e, s') \<Longrightarrow> s' = s"
  by (auto simp: package_create_def Let_def split: if_splits)

text \<open>The key is the id, so an absent key is an absent package.\<close>

lemma package_absent:
  "packages_inv s \<Longrightarrow> map_of (package_keys s) i = None \<Longrightarrow> map_of (packages s) i = None"
  by (cases "map_of (packages s) i")
     (auto simp: packages_inv_def package_key_def dest!: index_exactD [of _ _ _ i])

lemma package_create_inv:
  assumes inv: "packages_inv s" and run: "package_create now s inp = (r, s')"
  shows "packages_inv s'"
proof (cases r)
  case (Inl e)
  with run inv show ?thesis by (auto dest: package_create_error)
next
  case (Inr p)
  let ?i = "cki_packageId inp"
  have ok: "is_valid_package_id ?i" "is_valid_semver (cki_version inp)"
    and p: "p = new_package now inp" and free: "map_of (package_keys s) ?i = None"
    and s': "s' = put_package_key ?i ?i (put_package ?i p s)"
    using run [unfolded Inr package_create_ok] by auto
  have "index_exact (\<lambda>p. package_key (pk_packageId p)) (map_of (packages s')) (map_of (package_keys s'))"
    using package_ix.exact_insert [of s ?i p] inv free package_absent [OF inv free]
    by (simp add: s' p package_key_def packages_inv_def)
  with inv ok show ?thesis by (auto simp: packages_inv_def s' package_ops p)
qed

lemma package_update_error: "package_update s i inp = (Inl e, s') \<Longrightarrow> s' = s"
  by (auto simp: package_update_def Let_def split: if_splits option.splits)

lemma package_update_inv:
  assumes inv: "packages_inv s" and run: "package_update s i inp = (r, s')"
  shows "packages_inv s'"
proof (cases r)
  case (Inl e)
  with run inv show ?thesis by (auto dest: package_update_error)
next
  case (Inr q)
  then obtain p where i: "map_of (packages s) i = Some p" and s': "s' = put_package i q s"
    and q: "pk_packageId q = pk_packageId p" "is_valid_semver (pk_version q)"
    using run by (auto simp: package_update_def Let_def apply_opt_keeps split: if_splits option.splits)
  have "index_exact (\<lambda>p. package_key (pk_packageId p)) (map_of (packages s')) (map_of (package_keys s'))"
    unfolding s' using inv i q(1) by (intro package_ix.exact_same_key) (auto simp: packages_inv_def)
  with inv i q show ?thesis by (auto simp: packages_inv_def s' package_ops)
qed

lemma package_remove_inv:
  assumes inv: "packages_inv s" and run: "package_remove s i = (r, s')"
  shows "packages_inv s'"
proof (cases "i = [] \<or> map_of (packages s) i = None")
  case True
  with run inv show ?thesis by (auto simp: package_remove_def split: if_splits)
next
  case False
  then obtain p where i: "map_of (packages s) i = Some p"
    and s': "s' = del_package i (del_package_key (package_key (pk_packageId p)) s)"
    using run by (auto simp: package_remove_def)
  have "index_exact (\<lambda>p. package_key (pk_packageId p)) (map_of (packages s')) (map_of (package_keys s'))"
    unfolding s' using inv i by (intro package_ix.exact_remove [of s i p]) (auto simp: packages_inv_def)
  with inv show ?thesis by (auto simp: packages_inv_def s' package_ops split: if_splits)
qed

section \<open>Batch create is all or nothing\<close>

text \<open>Undoing a create gives the store back, entry for entry.\<close>

lemma package_create_undo:
  assumes inv: "packages_inv s" and run: "package_create now s inp = (Inr p, s1)"
  shows "undo_packages [pk_packageId p] s1 = s"
proof -
  let ?i = "cki_packageId inp"
  have p: "p = new_package now inp" and free: "map_of (package_keys s) ?i = None"
    and s1: "s1 = put_package_key ?i ?i (put_package ?i p s)"
    using run [unfolded package_create_ok] by auto
  have absent: "map_of (packages s) ?i = None" by (rule package_absent [OF inv free])
  have "om_erase ?i (om_put ?i p (packages s)) = packages s"
    using inv absent by (intro om_ext) (auto simp: packages_inv_def fun_eq_iff)
  moreover have "om_erase ?i (om_put ?i ?i (package_keys s)) = package_keys s"
    using inv free by (intro om_ext) (auto simp: packages_inv_def fun_eq_iff)
  ultimately show ?thesis by (simp add: s1 p package_ops package_key_def)
qed

text \<open>
  The undo runs in the order of creation. It may, because the keys are distinct: what it
  leaves depends only on the set of ids it takes out.
\<close>

lemma undo_step_inv:
  assumes inv: "packages_inv s" and i: "map_of (packages s) i = Some p"
  shows "packages_inv (del_package i (del_package_key (package_key (pk_packageId p)) s))"
proof -
  have "index_exact (\<lambda>p. package_key (pk_packageId p))
      (map_of (packages (del_package i (del_package_key (package_key (pk_packageId p)) s))))
      (map_of (package_keys (del_package i (del_package_key (package_key (pk_packageId p)) s))))"
    using inv i by (intro package_ix.exact_remove [of s i p]) (auto simp: packages_inv_def)
  with inv show ?thesis by (auto simp: packages_inv_def package_ops split: if_splits)
qed

lemma om_drop_absent: "map_of m i = None \<Longrightarrow> filter (\<lambda>e. fst e \<noteq> i) m = m"
  by (rule filter_True) (auto simp: map_of_eq_None_iff image_iff)

lemma undo_packages_eq:
  "packages_inv s \<Longrightarrow> undo_packages is s =
     s\<lparr>packages := filter (\<lambda>e. fst e \<notin> set is) (packages s),
       package_keys := filter (\<lambda>e. fst e \<notin> set is) (package_keys s)\<rparr>"
proof (induction "is" arbitrary: s)
  case Nil
  then show ?case by simp
next
  case (Cons i "is")
  have comm: "filter (\<lambda>e. fst e \<notin> set (i # is)) m =
      filter (\<lambda>e. fst e \<notin> set is) (filter (\<lambda>e. fst e \<noteq> i) m)" for m :: "(string \<times> 'b) list"
    by (simp add: conj_commute)
  show ?case
  proof (cases "map_of (packages s) i")
    case None
    then have "map_of (package_keys s) i = None"
      using Cons.prems
      by (cases "map_of (package_keys s) i")
         (auto simp: packages_inv_def package_key_def dest: index_exactE)
    with None Cons show ?thesis by (simp only: undo_packages.simps comm om_drop_absent option.case)
  next
    case (Some p)
    then have "pk_packageId p = i" using Cons.prems by (auto simp: packages_inv_def)
    with Some Cons.IH [OF undo_step_inv [OF Cons.prems Some]] show ?thesis
      by (simp only: undo_packages.simps option.case comm)
         (simp add: package_ops package_key_def om_erase_def)
  qed
qed

lemma undo_packages_snoc:
  "packages_inv s \<Longrightarrow> undo_packages (is @ [i]) s = undo_packages is (undo_packages [i] s)"
proof -
  assume inv: "packages_inv s"
  have "undo_packages (is @ [i]) s = undo_packages (i # is) s"
    by (simp only: undo_packages_eq [OF inv]) simp
  then show ?thesis by simp
qed

lemma batch_create_from_error:
  "packages_inv s \<Longrightarrow> undo_packages created s = s0 \<Longrightarrow>
   batch_create_from clock s created inps = (Inl e, s') \<Longrightarrow> s' = s0"
proof (induction inps arbitrary: s created)
  case Nil
  then show ?case by simp
next
  case (Cons inp inps)
  obtain r s1 where run: "package_create (clock (length created)) s inp = (r, s1)" by fastforce
  show ?case
  proof (cases r)
    case (Inl e1)
    with run have "s1 = s" using package_create_error by blast
    with Cons.prems run Inl show ?thesis by auto
  next
    case (Inr p)
    have inv1: "packages_inv s1" using package_create_inv [OF Cons.prems(1) run] .
    have "undo_packages (created @ [pk_packageId p]) s1 = s0"
      using undo_packages_snoc [OF inv1] package_create_undo [OF Cons.prems(1) run [unfolded Inr]]
        Cons.prems(2) by simp
    then show ?thesis using Cons.IH [OF inv1] Cons.prems(3) run Inr by simp
  qed
qed

lemma batch_create_from_ok:
  "batch_create_from clock s created inps = (Inr n, s') \<Longrightarrow>
     n = size_to_int (length created + length inps)"
  by (induction inps arbitrary: s created) (force split: prod.splits sum.splits)+

lemma batch_create_from_inv:
  "packages_inv s \<Longrightarrow> batch_create_from clock s created inps = (Inr n, s') \<Longrightarrow> packages_inv s'"
  by (induction inps arbitrary: s created)
     (auto split: prod.splits sum.splits dest: package_create_inv)

lemma batch_create_error:
  assumes inv: "packages_inv s" and run: "batch_create clock s inputs = (Inl e, s')"
  shows "s' = s"
proof -
  have "batch_create_from clock s [] inputs = (Inl e, s')"
    using run by (simp add: batch_create_def split: if_splits)
  then show ?thesis using batch_create_from_error [OF inv, of "[]" s] by simp
qed

lemma batch_create_inv:
  assumes inv: "packages_inv s" and run: "batch_create clock s inputs = (r, s')"
  shows "packages_inv s'"
proof (cases r)
  case (Inl e)
  with batch_create_error [OF inv] run inv show ?thesis by blast
next
  case (Inr n)
  with run inv show ?thesis
    by (auto simp: batch_create_def split: if_splits dest: batch_create_from_inv)
qed

lemma batch_update_from_inv:
  "packages_inv s \<Longrightarrow> batch_update_from s n items = (r, s') \<Longrightarrow> packages_inv s'"
  by (induction s n items rule: batch_update_from.induct)
     (auto split: prod.splits sum.splits dest: package_update_inv)

lemma batch_update_inv:
  "packages_inv s \<Longrightarrow> batch_update s items = (r, s') \<Longrightarrow> packages_inv s'"
  by (auto simp: batch_update_def split: if_splits dest: batch_update_from_inv)

lemma batch_delete_from_inv:
  "packages_inv s \<Longrightarrow> batch_delete_from s n is = (r, s') \<Longrightarrow> packages_inv s'"
  by (induction s n "is" rule: batch_delete_from.induct)
     (auto split: prod.splits sum.splits dest: package_remove_inv)

lemma batch_delete_inv:
  "packages_inv s \<Longrightarrow> batch_delete s is = (r, s') \<Longrightarrow> packages_inv s'"
  by (auto simp: batch_delete_def split: if_splits dest: batch_delete_from_inv)

end
