(* ===== verification/Entity_Workflows.thy ===== *)
theory Entity_Workflows
  imports Entity_Store Entity_Validation
begin

text \<open>
  Workflows (\<^verbatim>\<open>src/entities/workflow\<close>): create, get, update, remove and list, and the
  invariant that ties \<^verbatim>\<open>workflows\<close> to \<^verbatim>\<open>workflow_names\<close>.
\<close>

section \<open>Inputs\<close>

record create_workflow_input =
  cwi_tenantId :: "string option"
  cwi_name :: string
  cwi_description :: "string option"
  cwi_enabled :: bool
  cwi_version :: int
  cwi_createdAt :: "int option"
  cwi_updatedAt :: "int option"
  cwi_createdBy :: "string option"

record update_workflow_input =
  uwi_tenantId :: "string option"
  uwi_name :: "string option"
  uwi_description :: "string option"
  uwi_enabled :: "bool option"
  uwi_version :: "int option"
  uwi_createdAt :: "int option"
  uwi_updatedAt :: "int option"
  uwi_createdBy :: "string option"

section \<open>Operations\<close>

definition put_workflow :: "string \<Rightarrow> workflow \<Rightarrow> store \<Rightarrow> store" where
  "put_workflow i w s = s\<lparr>workflows := om_put i w (workflows s)\<rparr>"

definition del_workflow :: "string \<Rightarrow> store \<Rightarrow> store" where
  "del_workflow i s = s\<lparr>workflows := om_erase i (workflows s)\<rparr>"

definition put_workflow_name :: "string \<Rightarrow> string \<Rightarrow> store \<Rightarrow> store" where
  "put_workflow_name k i s = s\<lparr>workflow_names := om_put k i (workflow_names s)\<rparr>"

definition del_workflow_name :: "string \<Rightarrow> store \<Rightarrow> store" where
  "del_workflow_name k s = s\<lparr>workflow_names := om_erase k (workflow_names s)\<rparr>"

definition new_workflow :: "int \<Rightarrow> string \<Rightarrow> create_workflow_input \<Rightarrow> workflow" where
  "new_workflow now i inp = \<lparr>wk_id = i, wk_tenantId = cwi_tenantId inp, wk_name = cwi_name inp,
     wk_description = cwi_description inp, wk_enabled = Some (cwi_enabled inp), wk_status = None,
     wk_category = None, wk_triggerEvent = None, wk_formName = None, wk_isPublished = None,
     wk_isArchived = None, wk_version = cwi_version inp,
     wk_createdAt = Some (case cwi_createdAt inp of None \<Rightarrow> now | Some t \<Rightarrow> t),
     wk_updatedAt = cwi_updatedAt inp, wk_createdBy = cwi_createdBy inp, wk_updatedBy = None\<rparr>"

definition workflow_create ::
  "int \<Rightarrow> store \<Rightarrow> create_workflow_input \<Rightarrow> workflow result \<times> store" where
  "workflow_create now s inp =
     (if \<not> is_valid_workflow_name (cwi_name inp)
      then (Inl (validation_error ''Workflow name must be 1-255 characters''), s)
      else if map_of (workflow_names s) (cwi_name inp) \<noteq> None
      then (Inl (conflict (''Workflow name already exists: '' @ cwi_name inp)), s)
      else
        let s1 = s\<lparr>workflow_counter := workflow_counter s + 1\<rparr>;
            w = new_workflow now (generate_id ''workflow'' (workflow_counter s1)) inp
        in (Inr w, put_workflow_name (wk_name w) (wk_id w) (put_workflow (wk_id w) w s1)))"

definition workflow_get :: "store \<Rightarrow> string \<Rightarrow> workflow result" where
  "workflow_get s i =
     (if i = [] then Inl (validation_error ''Workflow ID cannot be empty'')
      else case map_of (workflows s) i of
        None \<Rightarrow> Inl (not_found (''Workflow not found: '' @ i))
      | Some w \<Rightarrow> Inr w)"

text \<open>The fields after the name, none of which is checked.\<close>

definition workflow_update_rest :: "update_workflow_input \<Rightarrow> workflow \<Rightarrow> workflow" where
  "workflow_update_rest inp w =
     apply_opt (\<lambda>v x. x\<lparr>wk_tenantId := Some v\<rparr>) (uwi_tenantId inp)
    (apply_opt (\<lambda>v x. x\<lparr>wk_updatedAt := Some v\<rparr>) (uwi_updatedAt inp)
    (apply_opt (\<lambda>v x. x\<lparr>wk_createdAt := Some v\<rparr>) (uwi_createdAt inp)
    (apply_opt (\<lambda>v x. x\<lparr>wk_createdBy := Some v\<rparr>) (uwi_createdBy inp)
    (apply_opt (\<lambda>v x. x\<lparr>wk_version := v\<rparr>) (uwi_version inp)
    (apply_opt (\<lambda>v x. x\<lparr>wk_enabled := Some v\<rparr>) (uwi_enabled inp)
    (apply_opt (\<lambda>v x. x\<lparr>wk_description := Some v\<rparr>) (uwi_description inp) w))))))"

definition workflow_update ::
  "store \<Rightarrow> string \<Rightarrow> update_workflow_input \<Rightarrow> workflow result \<times> store" where
  "workflow_update s i inp =
     (if i = [] then (Inl (validation_error ''Workflow ID cannot be empty''), s)
      else case map_of (workflows s) i of
        None \<Rightarrow> (Inl (not_found (''Workflow not found: '' @ i)), s)
      | Some w \<Rightarrow>
         (case uwi_name inp of
            None \<Rightarrow>
              let w' = workflow_update_rest inp w in (Inr w', put_workflow i w' s)
          | Some name \<Rightarrow>
              if \<not> is_valid_workflow_name name
              then (Inl (validation_error ''Workflow name must be 1-255 characters''), s)
              else if (case map_of (workflow_names s) name of None \<Rightarrow> False | Some j \<Rightarrow> j \<noteq> i)
              then (Inl (conflict (''Workflow name already exists: '' @ name)), s)
              else
                let s1 = put_workflow_name name i (del_workflow_name (wk_name w) s);
                    w' = workflow_update_rest inp (w\<lparr>wk_name := name\<rparr>)
                in (Inr w', put_workflow i w' s1)))"

definition workflow_remove :: "store \<Rightarrow> string \<Rightarrow> bool result \<times> store" where
  "workflow_remove s i =
     (if i = [] then (Inl (validation_error ''Workflow ID cannot be empty''), s)
      else case map_of (workflows s) i of
        None \<Rightarrow> (Inl (not_found (''Workflow not found: '' @ i)), s)
      | Some w \<Rightarrow> (Inr True, del_workflow i (del_workflow_name (wk_name w) s)))"

definition workflow_matches :: "list_options \<Rightarrow> workflow \<Rightarrow> bool" where
  "workflow_matches opts w \<longleftrightarrow>
     filter_passes opts ''enabled'' (\<lambda>v. wk_enabled w = Some (v = ''true''))
     \<and> filter_passes opts ''tenantId'' (\<lambda>v. wk_tenantId w = Some v)
     \<and> filter_passes opts ''createdBy'' (\<lambda>v. wk_createdBy w = Some v)"

text \<open>\<^verbatim>\<open>createdAt.value_or(time_point())\<close>: the epoch is 0.\<close>

definition created_or_epoch :: "workflow \<Rightarrow> int" where
  "created_or_epoch w = (case wk_createdAt w of None \<Rightarrow> 0 | Some t \<Rightarrow> t)"

definition workflow_list ::
  "((workflow \<Rightarrow> workflow \<Rightarrow> bool) \<Rightarrow> workflow list \<Rightarrow> workflow list) \<Rightarrow>
   store \<Rightarrow> list_options \<Rightarrow> exn + workflow list" where
  "workflow_list srt s opts =
     (let ws = filter (workflow_matches opts) (map snd (workflows s));
          sorted_ws =
            (if sorts_on opts ''name'' then srt (\<lambda>a b. wk_name a < wk_name b) ws
             else if sorts_on opts ''createdAt''
             then srt (\<lambda>a b. created_or_epoch a < created_or_epoch b) ws
             else ws)
      in page_slice (lo_page opts) (lo_limit opts) sorted_ws)"

section \<open>The collection\<close>

lemmas workflow_ops = put_workflow_def del_workflow_def put_workflow_name_def del_workflow_name_def

interpretation workflow_ix: indexed_collection wk_name
    "\<lambda>s. map_of (workflows s)" "\<lambda>s. map_of (workflow_names s)"
    put_workflow del_workflow put_workflow_name del_workflow_name
  by unfold_locales (simp_all add: workflow_ops)

definition workflows_inv :: "store \<Rightarrow> bool" where
  "workflows_inv s \<longleftrightarrow> om_wf (workflows s) \<and> om_wf (workflow_names s)
     \<and> index_exact wk_name (map_of (workflows s)) (map_of (workflow_names s))
     \<and> (\<forall>i w. map_of (workflows s) i = Some w \<longrightarrow>
          wk_id w = i \<and> i \<noteq> [] \<and> is_valid_workflow_name (wk_name w))
     \<and> 0 \<le> workflow_counter s
     \<and> ids_below ''workflow'' (workflow_counter s) (dom (map_of (workflows s)))"

lemma workflows_inv_empty: "workflows_inv empty_store"
  by (simp add: workflows_inv_def empty_store_def index_exact_def ids_below_def)

lemma id_prefix_workflow: "id_prefix ''workflow''"
  by (simp add: id_prefix_def)

lemma workflow_fresh:
  "workflows_inv s \<Longrightarrow> in_int32 (workflow_counter s + 1) \<Longrightarrow>
   map_of (workflows s) (generate_id ''workflow'' (workflow_counter s + 1)) = None"
  using ids_below_fresh [OF _ id_prefix_workflow, of "workflow_counter s" "dom (map_of (workflows s))"]
  by (auto simp: workflows_inv_def)

lemma new_workflow_simps [simp]:
  "wk_id (new_workflow now i inp) = i" "wk_name (new_workflow now i inp) = cwi_name inp"
  by (simp_all add: new_workflow_def)

lemma workflow_create_ok:
  "workflow_create now s inp = (Inr w, s') \<longleftrightarrow>
     is_valid_workflow_name (cwi_name inp) \<and> map_of (workflow_names s) (cwi_name inp) = None
     \<and> w = new_workflow now (generate_id ''workflow'' (workflow_counter s + 1)) inp
     \<and> s' = put_workflow_name (wk_name w) (wk_id w)
              (put_workflow (wk_id w) w (s\<lparr>workflow_counter := workflow_counter s + 1\<rparr>))"
  by (auto simp: workflow_create_def Let_def)

lemma workflow_create_error: "workflow_create now s inp = (Inl e, s') \<Longrightarrow> s' = s"
  by (auto simp: workflow_create_def Let_def split: if_splits)

lemma workflow_create_inv:
  assumes inv: "workflows_inv s" and fits: "in_int32 (workflow_counter s + 1)"
    and run: "workflow_create now s inp = (r, s')"
  shows "workflows_inv s'"
proof (cases r)
  case (Inl e)
  with run inv show ?thesis by (auto dest: workflow_create_error)
next
  case (Inr w)
  let ?i = "generate_id ''workflow'' (workflow_counter s + 1)"
  let ?s1 = "s\<lparr>workflow_counter := workflow_counter s + 1\<rparr>"
  have w: "w = new_workflow now ?i inp" and valid: "is_valid_workflow_name (cwi_name inp)"
    and free: "map_of (workflow_names s) (cwi_name inp) = None"
    and s': "s' = put_workflow_name (wk_name w) ?i (put_workflow ?i w ?s1)"
    using run [unfolded Inr workflow_create_ok] by auto
  have fresh: "map_of (workflows s) ?i = None" using inv fits by (rule workflow_fresh)
  have exact: "index_exact wk_name (map_of (workflows s')) (map_of (workflow_names s'))"
    unfolding s' using inv fresh free by (intro workflow_ix.exact_insert) (auto simp: workflows_inv_def w)
  have nonempty: "?i \<noteq> []"
    using inv fits by (intro generate_id_nonempty id_prefix_workflow) (simp_all add: workflows_inv_def)
  show ?thesis
    using inv exact valid nonempty ids_below_insert [of "''workflow''" "workflow_counter s"]
    by (auto simp: workflows_inv_def s' workflow_ops w)
qed

subsection \<open>Update and remove\<close>

lemma workflow_update_rest_simps [simp]:
  "wk_id (workflow_update_rest inp w) = wk_id w" "wk_name (workflow_update_rest inp w) = wk_name w"
  by (simp_all add: workflow_update_rest_def apply_opt_keeps)

text \<open>The update checks before it writes: an error leaves the store alone.\<close>

lemma workflow_update_error: "workflow_update s i inp = (Inl e, s') \<Longrightarrow> s' = s"
  by (auto simp: workflow_update_def Let_def split: if_splits option.splits)

lemma workflow_update_inv:
  assumes inv: "workflows_inv s" and run: "workflow_update s i inp = (r, s')"
  shows "workflows_inv s'"
proof (cases r)
  case (Inl e)
  with run inv show ?thesis by (auto dest: workflow_update_error)
next
  case (Inr w')
  then obtain w where i: "map_of (workflows s) i = Some w"
    using run by (auto simp: workflow_update_def split: if_splits option.splits)
  have keep: "wk_id w = i" "i \<noteq> []" "is_valid_workflow_name (wk_name w)"
    using inv i by (auto simp: workflows_inv_def)
  have s': "(uwi_name inp = None \<and> s' = put_workflow i w' s \<and> wk_name w' = wk_name w) \<or>
    (map_of (workflow_names s) (wk_name w') \<in> {None, Some i} \<and> is_valid_workflow_name (wk_name w') \<and>
     s' = put_workflow i w' (put_workflow_name (wk_name w') i (del_workflow_name (wk_name w) s)))"
    and id': "wk_id w' = i"
    using run Inr i keep by (auto simp: workflow_update_def Let_def split: if_splits option.splits)
  have "index_exact wk_name (map_of (workflows s')) (map_of (workflow_names s'))"
    using s' inv i
    by (auto simp: workflows_inv_def intro: workflow_ix.exact_same_key [of s i w] workflow_ix.exact_rekey [of s i w])
  moreover have "dom (map_of (workflows s')) = dom (map_of (workflows s))"
    using s' i by (auto simp: workflow_ops split: if_splits)
  ultimately show ?thesis
    using s' inv keep id' by (auto simp: workflows_inv_def workflow_ops split: if_splits)
qed

lemma workflow_remove_inv:
  assumes inv: "workflows_inv s" and run: "workflow_remove s i = (r, s')"
  shows "workflows_inv s'"
proof (cases "i = [] \<or> map_of (workflows s) i = None")
  case True
  with run inv show ?thesis by (auto simp: workflow_remove_def split: if_splits)
next
  case False
  then obtain w where i: "map_of (workflows s) i = Some w"
    and s': "s' = del_workflow i (del_workflow_name (wk_name w) s)"
    using run by (auto simp: workflow_remove_def)
  have exact: "index_exact wk_name (map_of (workflows s')) (map_of (workflow_names s'))"
    unfolding s' using inv i by (intro workflow_ix.exact_remove) (auto simp: workflows_inv_def)
  have "dom (map_of (workflows s')) \<subseteq> dom (map_of (workflows s))" by (auto simp: s' workflow_ops)
  with inv exact show ?thesis
    by (auto simp: workflows_inv_def s' workflow_ops split: if_splits intro: ids_below_mono)
qed

subsection \<open>List\<close>

text \<open>Names are unique, so a listing by name does not depend on the sort.\<close>

lemma workflows_inj_name:
  assumes "workflows_inv s"
  shows "inj_on wk_name (set (map snd (workflows s)))"
proof (rule inj_onI)
  fix v w
  assume "v \<in> set (map snd (workflows s))" "w \<in> set (map snd (workflows s))" and eq: "wk_name v = wk_name w"
  then obtain i j where "(i, v) \<in> set (workflows s)" "(j, w) \<in> set (workflows s)" by auto
  with assms have i: "map_of (workflows s) i = Some v" and j: "map_of (workflows s) j = Some w"
    by (simp_all add: workflows_inv_def om_find_in)
  with assms eq have "i = j" by (auto simp: workflows_inv_def intro: workflow_ix.exact_unique [of s])
  with i j show "v = w" by simp
qed

lemma workflow_list_by_name:
  assumes inv: "workflows_inv s" and srt: "cpp_sort srt" and n: "sorts_on opts ''name''"
  shows "workflow_list srt s opts = page_slice (lo_page opts) (lo_limit opts)
    (sort_key wk_name (filter (workflow_matches opts) (map snd (workflows s))))"
proof -
  have inj: "inj_on wk_name (set (filter (workflow_matches opts) (map snd (workflows s))))"
    using workflows_inj_name [OF inv] by (rule inj_on_subset) auto
  show ?thesis
    using n by (simp add: workflow_list_def Let_def cpp_sort.srt_unique_key [OF srt inj] del: set_filter)
qed

end
