(* ===== verification/Entity_Components.thy ===== *)
theory Entity_Components
  imports Entity_Store Entity_Validation "HOL-Library.Product_Lexorder"
begin

text \<open>
  Component nodes (\<^verbatim>\<open>src/entities/component\<close>): the forest of components of each page,
  with its two indexes, one from a page to its components and one from a component to its
  children.  The walks over the forest (\<^verbatim>\<open>hasDescendant\<close>, \<^verbatim>\<open>cascadeDeleteComponent\<close>,
  \<^verbatim>\<open>buildTree\<close>) recurse over the children index, which nothing in the type keeps from
  being cyclic; they take fuel and return \<^const>\<open>None\<close> when it runs out.  The invariant
  bounds their depth by the number of components.
\<close>

section \<open>Inputs\<close>

record create_component_input =
  cci_pageId :: string
  cci_parentId :: "string option"
  cci_type :: string
  cci_childIds :: string
  cci_order :: int

record update_component_input =
  uci_parentId :: "string option"
  uci_type :: "string option"
  uci_childIds :: "string option"
  uci_order :: "int option"

record component_order_update =
  cou_id :: string
  cou_order :: int

record move_component_input =
  mci_id :: string
  mci_newParentId :: string
  mci_order :: int

section \<open>The two list-valued indexes\<close>

definition list_push :: "'k::linorder \<Rightarrow> 'v \<Rightarrow> ('k, 'v list) omap \<Rightarrow> ('k, 'v list) omap" where
  "list_push k x m = om_put k ((case map_of m k of None \<Rightarrow> [] | Some xs \<Rightarrow> xs) @ [x]) m"

definition list_drop :: "'k::linorder \<Rightarrow> 'v \<Rightarrow> ('k, 'v list) omap \<Rightarrow> ('k, 'v list) omap" where
  "list_drop k x m =
     (case map_of m k of
        None \<Rightarrow> m
      | Some xs \<Rightarrow>
          let entries = filter (\<lambda>y. y \<noteq> x) xs
          in if entries = [] then om_erase k m else om_put k entries m)"

definition add_component_to_page :: "store \<Rightarrow> string \<Rightarrow> string \<Rightarrow> store" where
  "add_component_to_page s pageId i =
     s\<lparr>components_by_page := list_push pageId i (components_by_page s)\<rparr>"

definition remove_component_from_page :: "store \<Rightarrow> string \<Rightarrow> string \<Rightarrow> store" where
  "remove_component_from_page s pageId i =
     s\<lparr>components_by_page := list_drop pageId i (components_by_page s)\<rparr>"

definition add_component_to_parent :: "store \<Rightarrow> string \<Rightarrow> string \<Rightarrow> store" where
  "add_component_to_parent s parentId i =
     s\<lparr>components_by_parent := list_push parentId i (components_by_parent s)\<rparr>"

definition remove_component_from_parent :: "store \<Rightarrow> string \<Rightarrow> string \<Rightarrow> store" where
  "remove_component_from_parent s parentId i =
     s\<lparr>components_by_parent := list_drop parentId i (components_by_parent s)\<rparr>"

definition put_component :: "string \<Rightarrow> component_node \<Rightarrow> store \<Rightarrow> store" where
  "put_component i c s = s\<lparr>components := om_put i c (components s)\<rparr>"

section \<open>Walks over the forest\<close>

fun any_opt :: "('a \<Rightarrow> bool option) \<Rightarrow> 'a list \<Rightarrow> bool option" where
  "any_opt f [] = Some False"
| "any_opt f (x # xs) =
     (case f x of None \<Rightarrow> None | Some True \<Rightarrow> Some True | Some False \<Rightarrow> any_opt f xs)"

primrec has_descendant :: "nat \<Rightarrow> store \<Rightarrow> string \<Rightarrow> string \<Rightarrow> bool option" where
  "has_descendant 0 s ancestor candidate = None"
| "has_descendant (Suc n) s ancestor candidate =
     (case map_of (components_by_parent s) ancestor of
        None \<Rightarrow> Some False
      | Some cs \<Rightarrow>
          any_opt (\<lambda>c. if c = candidate then Some True else has_descendant n s c candidate) cs)"

fun fold_opt :: "('a \<Rightarrow> 's \<Rightarrow> 's option) \<Rightarrow> 'a list \<Rightarrow> 's \<Rightarrow> 's option" where
  "fold_opt f [] s = Some s"
| "fold_opt f (x # xs) s = (case f x s of None \<Rightarrow> None | Some s' \<Rightarrow> fold_opt f xs s')"

text \<open>The last part of a cascade, once the children are gone.\<close>

definition unlink_component :: "string \<Rightarrow> component_node \<Rightarrow> store \<Rightarrow> store" where
  "unlink_component i c s =
     (let s1 = (case cn_parentId c of None \<Rightarrow> s | Some p \<Rightarrow> remove_component_from_parent s p i);
          s2 = remove_component_from_page s1 (cn_pageId c) i
      in s2\<lparr>components := om_erase i (components s2)\<rparr>)"

primrec cascade_delete :: "nat \<Rightarrow> string \<Rightarrow> store \<Rightarrow> store option" where
  "cascade_delete 0 i s = None"
| "cascade_delete (Suc n) i s =
     (case map_of (components s) i of
        None \<Rightarrow> Some s
      | Some c \<Rightarrow>
         (case map_of (components_by_parent s) i of
            None \<Rightarrow> Some (unlink_component i c s)
          | Some cs \<Rightarrow>
             (case fold_opt (cascade_delete n) cs s of
                None \<Rightarrow> None
              | Some s1 \<Rightarrow>
                  Some (unlink_component i c
                    (s1\<lparr>components_by_parent := om_erase i (components_by_parent s1)\<rparr>)))))"

section \<open>Create, get, update, remove\<close>

definition new_component :: "string \<Rightarrow> create_component_input \<Rightarrow> component_node" where
  "new_component i inp = \<lparr>cn_id = i, cn_pageId = cci_pageId inp, cn_parentId = cci_parentId inp,
     cn_type = cci_type inp, cn_childIds = cci_childIds inp, cn_order = cci_order inp\<rparr>"

definition component_parent_error :: "store \<Rightarrow> create_component_input \<Rightarrow> error option" where
  "component_parent_error s inp =
     (case cci_parentId inp of
        None \<Rightarrow> None
      | Some p \<Rightarrow>
         (case map_of (components s) p of
            None \<Rightarrow> Some (not_found (''Parent component not found: '' @ p))
          | Some pc \<Rightarrow>
              if cn_pageId pc \<noteq> cci_pageId inp
              then Some (validation_error ''Parent component must belong to the same page'')
              else None))"

definition component_create ::
  "store \<Rightarrow> create_component_input \<Rightarrow> component_node result \<times> store" where
  "component_create s inp =
     (if cci_pageId inp = [] then (Inl (validation_error ''pageId is required''), s)
      else if \<not> is_valid_component_type (cci_type inp)
      then (Inl (validation_error ''type must be 1-100 characters''), s)
      else if \<not> is_valid_component_order (cci_order inp)
      then (Inl (validation_error ''order must be a non-negative integer''), s)
      else if map_of (pages s) (cci_pageId inp) = None
      then (Inl (not_found (''Page not found: '' @ cci_pageId inp)), s)
      else
        case component_parent_error s inp of
          Some e \<Rightarrow> (Inl e, s)
        | None \<Rightarrow>
            let s1 = s\<lparr>component_counter := component_counter s + 1\<rparr>;
                c = new_component (generate_id ''component'' (component_counter s1)) inp;
                s2 = add_component_to_page (put_component (cn_id c) c s1) (cn_pageId c) (cn_id c);
                s3 = (case cn_parentId c of
                        None \<Rightarrow> s2
                      | Some p \<Rightarrow> add_component_to_parent s2 p (cn_id c))
            in (Inr c, s3))"

definition component_get :: "store \<Rightarrow> string \<Rightarrow> component_node result" where
  "component_get s i =
     (if i = [] then Inl (validation_error ''Component ID cannot be empty'')
      else case map_of (components s) i of
        None \<Rightarrow> Inl (not_found (''Component not found: '' @ i))
      | Some c \<Rightarrow> Inr c)"

text \<open>
  The update writes each field before it checks the next one.  \<open>c\<close> is the component as
  written so far.
\<close>

definition component_update_parent ::
  "nat \<Rightarrow> store \<Rightarrow> string \<Rightarrow> component_node \<Rightarrow> string option \<Rightarrow>
   (component_node result \<times> store) option" where
  "component_update_parent n s i c new_parent =
     (case new_parent of
        None \<Rightarrow> Some (Inr c, s)
      | Some p \<Rightarrow>
          if p = [] then Some (Inl (validation_error ''parentId cannot be empty''), s)
          else if p = i
          then Some (Inl (validation_error ''Component cannot be its own parent''), s)
          else
           (case map_of (components s) p of
              None \<Rightarrow> Some (Inl (not_found (''Parent component not found: '' @ p)), s)
            | Some pc \<Rightarrow>
                if cn_pageId pc \<noteq> cn_pageId c
                then Some (Inl (validation_error ''Parent component must belong to the same page''), s)
                else
                 (case has_descendant n s i p of
                    None \<Rightarrow> None
                  | Some True \<Rightarrow>
                      Some (Inl (validation_error ''Cannot move component under its descendant''), s)
                  | Some False \<Rightarrow>
                      let s1 = (case cn_parentId c of
                                  None \<Rightarrow> s
                                | Some q \<Rightarrow> remove_component_from_parent s q i);
                          c1 = c\<lparr>cn_parentId := Some p\<rparr>
                      in Some (Inr c1, add_component_to_parent (put_component i c1 s1) p i))))"

definition component_update ::
  "nat \<Rightarrow> store \<Rightarrow> string \<Rightarrow> update_component_input \<Rightarrow>
   (component_node result \<times> store) option" where
  "component_update n s i inp =
     (if i = [] then Some (Inl (validation_error ''Component ID cannot be empty''), s)
      else case map_of (components s) i of
        None \<Rightarrow> Some (Inl (not_found (''Component not found: '' @ i)), s)
      | Some c \<Rightarrow>
          if (case uci_type inp of None \<Rightarrow> False | Some t \<Rightarrow> \<not> is_valid_component_type t)
          then Some (Inl (validation_error ''type must be 1-100 characters''), s)
          else
            let c1 = apply_opt (\<lambda>v x. x\<lparr>cn_type := v\<rparr>) (uci_type inp) c in
            if (case uci_order inp of None \<Rightarrow> False | Some v \<Rightarrow> \<not> is_valid_component_order v)
            then Some (Inl (validation_error ''order must be a non-negative integer''),
                       put_component i c1 s)
            else
              let c2 = apply_opt (\<lambda>v x. x\<lparr>cn_order := v\<rparr>) (uci_order inp) c1;
                  c3 = apply_opt (\<lambda>v x. x\<lparr>cn_childIds := v\<rparr>) (uci_childIds inp) c2
              in component_update_parent n (put_component i c3 s) i c3 (uci_parentId inp))"

definition component_remove :: "nat \<Rightarrow> store \<Rightarrow> string \<Rightarrow> (bool result \<times> store) option" where
  "component_remove n s i =
     (if i = [] then Some (Inl (validation_error ''Component ID cannot be empty''), s)
      else case map_of (components s) i of
        None \<Rightarrow> Some (Inl (not_found (''Component not found: '' @ i)), s)
      | Some c \<Rightarrow> map_option (\<lambda>s'. (Inr True, s')) (cascade_delete n i s))"

section \<open>Move and reorder\<close>

definition move_component_to :: "store \<Rightarrow> component_node \<Rightarrow> move_component_input \<Rightarrow>
   component_node result \<times> store" where
  "move_component_to s c inp =
     (let p = mci_newParentId inp;
          s1 = (case cn_parentId c of
                  None \<Rightarrow> s
                | Some q \<Rightarrow> remove_component_from_parent s q (cn_id c));
          s2 = (if p \<noteq> [] then add_component_to_parent s1 p (cn_id c) else s1);
          c1 = c\<lparr>cn_parentId := (if p \<noteq> [] then Some p else None), cn_order := mci_order inp\<rparr>
      in (Inr c1, put_component (mci_id inp) c1 s2))"

definition component_move ::
  "nat \<Rightarrow> store \<Rightarrow> move_component_input \<Rightarrow> (component_node result \<times> store) option" where
  "component_move n s inp =
     (if mci_id inp = [] then Some (Inl (validation_error ''Component ID is required''), s)
      else if mci_order inp < 0
      then Some (Inl (validation_error ''Order must be a non-negative integer''), s)
      else case map_of (components s) (mci_id inp) of
        None \<Rightarrow> Some (Inl (not_found (''Component not found: '' @ mci_id inp)), s)
      | Some c \<Rightarrow>
          if mci_newParentId inp = cn_id c
          then Some (Inl (validation_error ''Component cannot be its own parent''), s)
          else if mci_newParentId inp = [] then Some (move_component_to s c inp)
          else
           (case map_of (components s) (mci_newParentId inp) of
              None \<Rightarrow>
                Some (Inl (not_found (''Parent component not found: '' @ mci_newParentId inp)), s)
            | Some pc \<Rightarrow>
                if cn_pageId pc \<noteq> cn_pageId c
                then Some (Inl (validation_error ''New parent must belong to the same page''), s)
                else
                 (case has_descendant n s (cn_id c) (mci_newParentId inp) of
                    None \<Rightarrow> None
                  | Some True \<Rightarrow>
                      Some (Inl (validation_error ''Cannot move component under its descendant''), s)
                  | Some False \<Rightarrow> Some (move_component_to s c inp))))"

text \<open>\<open>scope\<close> is the parent of the first component, once there is one.\<close>

fun reorder_check ::
  "store \<Rightarrow> string option option \<Rightarrow> component_order_update list \<Rightarrow> error option" where
  "reorder_check s scope [] = None"
| "reorder_check s scope (u # us) =
     (if cou_id u = [] then Some (validation_error ''Component ID is required'')
      else if cou_order u < 0
      then Some (validation_error ''Order must be a non-negative integer'')
      else case map_of (components s) (cou_id u) of
        None \<Rightarrow> Some (not_found (''Component not found: '' @ cou_id u))
      | Some c \<Rightarrow>
         (case scope of
            None \<Rightarrow> reorder_check s (Some (cn_parentId c)) us
          | Some p \<Rightarrow>
              if p \<noteq> cn_parentId c
              then Some (validation_error ''All components must share the same parent'')
              else reorder_check s scope us))"

fun reorder_apply :: "store \<Rightarrow> component_order_update list \<Rightarrow> store" where
  "reorder_apply s [] = s"
| "reorder_apply s (u # us) =
     reorder_apply
       (case map_of (components s) (cou_id u) of
          None \<Rightarrow> s
        | Some c \<Rightarrow> put_component (cou_id u) (c\<lparr>cn_order := cou_order u\<rparr>) s) us"

definition component_reorder ::
  "store \<Rightarrow> component_order_update list \<Rightarrow> bool result \<times> store" where
  "component_reorder s updates =
     (if updates = [] then (Inr True, s)
      else case reorder_check s None updates of
        Some e \<Rightarrow> (Inl e, s)
      | None \<Rightarrow> (Inr True, reorder_apply s updates))"

section \<open>Children, tree, list, search\<close>

text \<open>
  The sort compares \<^verbatim>\<open>store.components.at(a).order\<close>, and the loop after it reads every
  id through \<^verbatim>\<open>at\<close>: an id with no component throws in one or the other.
\<close>

definition order_of :: "store \<Rightarrow> string \<Rightarrow> int" where
  "order_of s i = (case map_of (components s) i of None \<Rightarrow> 0 | Some c \<Rightarrow> cn_order c)"

definition sort_children ::
  "((string \<Rightarrow> string \<Rightarrow> bool) \<Rightarrow> string list \<Rightarrow> string list) \<Rightarrow> store \<Rightarrow> string list \<Rightarrow>
   exn + string list" where
  "sort_children srt s ids =
     (if \<exists>i \<in> set ids. map_of (components s) i = None
      then Inl (Std_exception ''map::at'')
      else Inr (srt (\<lambda>a b. order_of s a < order_of s b) ids))"

definition get_children ::
  "((string \<Rightarrow> string \<Rightarrow> bool) \<Rightarrow> string list \<Rightarrow> string list) \<Rightarrow>
   store \<Rightarrow> string \<Rightarrow> string option \<Rightarrow> int \<Rightarrow> exn + component_node list result" where
  "get_children srt s parentId type_filter limit =
     (if parentId = [] then Inr (Inl (validation_error ''parentId is required''))
      else if map_of (components s) parentId = None
      then Inr (Inl (not_found (''Component not found: '' @ parentId)))
      else case map_of (components_by_parent s) parentId of
        None \<Rightarrow> Inr (Inr [])
      | Some ids \<Rightarrow>
         (case sort_children srt s ids of
            Inl e \<Rightarrow> Inl e
          | Inr sorted_ids \<Rightarrow>
              let cs = filter (\<lambda>c. case type_filter of None \<Rightarrow> True | Some t \<Rightarrow> cn_type c = t)
                         (map (\<lambda>i. the (map_of (components s) i)) sorted_ids)
              in Inr (Inr (if limit > 0 then take (nat limit) cs else cs))))"

definition collect_children ::
  "((string \<Rightarrow> string \<Rightarrow> bool) \<Rightarrow> string list \<Rightarrow> string list) \<Rightarrow>
   store \<Rightarrow> string option \<Rightarrow> string \<Rightarrow> exn + string list" where
  "collect_children srt s parentId pageId =
     sort_children srt s
       (case parentId of
          Some p \<Rightarrow> (case map_of (components_by_parent s) p of None \<Rightarrow> [] | Some ids \<Rightarrow> ids)
        | None \<Rightarrow> map fst (filter (\<lambda>(i, c). cn_pageId c = pageId \<and> cn_parentId c = None)
                             (components s)))"

fun visit_all ::
  "store \<Rightarrow> (string \<Rightarrow> (exn + component_node list) option) \<Rightarrow> string list \<Rightarrow>
   (exn + component_node list) option" where
  "visit_all s f [] = Some (Inr [])"
| "visit_all s f (i # is) =
     (case map_of (components s) i of
        None \<Rightarrow> Some (Inl (Std_exception ''map::at''))
      | Some c \<Rightarrow>
         (case f i of
            None \<Rightarrow> None
          | Some (Inl e) \<Rightarrow> Some (Inl e)
          | Some (Inr sub) \<Rightarrow>
             (case visit_all s f is of
                None \<Rightarrow> None
              | Some (Inl e) \<Rightarrow> Some (Inl e)
              | Some (Inr rest) \<Rightarrow> Some (Inr (c # sub @ rest)))))"

primrec build_tree ::
  "((string \<Rightarrow> string \<Rightarrow> bool) \<Rightarrow> string list \<Rightarrow> string list) \<Rightarrow>
   store \<Rightarrow> string \<Rightarrow> nat \<Rightarrow> string option \<Rightarrow> (exn + component_node list) option" where
  "build_tree srt s pageId 0 parentId = None"
| "build_tree srt s pageId (Suc n) parentId =
     (case collect_children srt s parentId pageId of
        Inl e \<Rightarrow> Some (Inl e)
      | Inr ids \<Rightarrow> visit_all s (\<lambda>i. build_tree srt s pageId n (Some i)) ids)"

definition get_tree ::
  "((string \<Rightarrow> string \<Rightarrow> bool) \<Rightarrow> string list \<Rightarrow> string list) \<Rightarrow>
   nat \<Rightarrow> store \<Rightarrow> string \<Rightarrow> (exn + component_node list result) option" where
  "get_tree srt n s pageId =
     (if pageId = [] then Some (Inr (Inl (validation_error ''pageId is required'')))
      else if map_of (pages s) pageId = None
      then Some (Inr (Inl (not_found (''Page not found: '' @ pageId))))
      else map_option (map_sum id Inr) (build_tree srt s pageId n None))"

definition component_matches :: "list_options \<Rightarrow> component_node \<Rightarrow> bool" where
  "component_matches opts c \<longleftrightarrow>
     filter_passes opts ''pageId'' (\<lambda>v. v = [] \<or> cn_pageId c = v)
     \<and> filter_passes opts ''parentId'' (\<lambda>v. cn_parentId c = Some v)
     \<and> filter_passes opts ''type'' (\<lambda>v. cn_type c = v)"

definition component_before :: "component_node \<Rightarrow> component_node \<Rightarrow> bool" where
  "component_before a b =
     (if cn_pageId a \<noteq> cn_pageId b then cn_pageId a < cn_pageId b
      else if (cn_parentId a \<noteq> None) \<noteq> (cn_parentId b \<noteq> None)
      then (cn_parentId a \<noteq> None) < (cn_parentId b \<noteq> None)
      else if cn_parentId a \<noteq> cn_parentId b then cn_parentId a < cn_parentId b
      else if cn_order a \<noteq> cn_order b then cn_order a < cn_order b
      else cn_id a < cn_id b)"

definition component_list ::
  "((component_node \<Rightarrow> component_node \<Rightarrow> bool) \<Rightarrow> component_node list \<Rightarrow> component_node list) \<Rightarrow>
   store \<Rightarrow> list_options \<Rightarrow> exn + component_node list" where
  "component_list srt s opts =
     (let cs = srt component_before (filter (component_matches opts) (map snd (components s)));
          size = size_to_int (length cs);
          page = (if lo_page opts > 1 then lo_page opts else 1);
          limit = (if lo_limit opts > 0 then lo_limit opts else size)
      in if limit = 0 \<or> cs = [] then Inr []
         else case checked ((page - 1) * limit) of
           None \<Rightarrow> Inl Undefined
         | Some start \<Rightarrow>
             if start \<ge> size then Inr []
             else case checked (start + limit) of
               None \<Rightarrow> Inl Undefined
             | Some stop \<Rightarrow> vec_range start (min stop size) cs)"

definition component_contains :: "string \<Rightarrow> string \<Rightarrow> bool" where
  "component_contains text query \<longleftrightarrow>
     (if query = [] then False else contains_sub (to_lower text) (to_lower query))"

definition component_search ::
  "((component_node \<Rightarrow> component_node \<Rightarrow> bool) \<Rightarrow> component_node list \<Rightarrow> component_node list) \<Rightarrow>
   store \<Rightarrow> string \<Rightarrow> string option \<Rightarrow> int \<Rightarrow> component_node list result" where
  "component_search srt s query pageId limit =
     (if query = [] then Inl (validation_error ''search query is required'')
      else
        let matches = filter (\<lambda>c. (case pageId of None \<Rightarrow> True | Some p \<Rightarrow> cn_pageId c = p)
                         \<and> (component_contains (cn_type c) query
                            \<or> component_contains (cn_childIds c) query))
                       (map snd (components s))
        in Inr (truncate_to limit
             (srt (\<lambda>a b. if cn_type a \<noteq> cn_type b then cn_type a < cn_type b
                         else cn_order a < cn_order b) matches)))"

end
