(* ===== verification/Component_Forest.thy ===== *)
theory Component_Forest
  imports Entity_Components
begin

text \<open>
  The forest the component operations keep: the two indexes list every component exactly
  once, the parent relation is acyclic and stays on one page, and the walks over it end.
\<close>

section \<open>Grouping indexes\<close>

text \<open>
  A grouping index holds, under each key, the ids of the entities with that key, each once,
  and no empty list.
\<close>

definition list_at :: "(string \<Rightarrow> string list option) \<Rightarrow> string \<Rightarrow> string list" where
  "list_at G k = (case G k of None \<Rightarrow> [] | Some xs \<Rightarrow> xs)"

definition group_exact ::
  "('e \<Rightarrow> string option) \<Rightarrow> (string \<Rightarrow> 'e option) \<Rightarrow> (string \<Rightarrow> string list option) \<Rightarrow> bool" where
  "group_exact key E G \<longleftrightarrow>
     (\<forall>k. distinct (list_at G k) \<and> G k \<noteq> Some []
        \<and> set (list_at G k) = {i. \<exists>e. E i = Some e \<and> key e = Some k})"

definition grp_add :: "string option \<Rightarrow> string \<Rightarrow> (string \<Rightarrow> string list option) \<Rightarrow> (string \<Rightarrow> string list option)" where
  "grp_add ko i G = (case ko of None \<Rightarrow> G | Some k \<Rightarrow> G(k \<mapsto> list_at G k @ [i]))"

definition grp_del :: "string option \<Rightarrow> string \<Rightarrow> (string \<Rightarrow> string list option) \<Rightarrow> (string \<Rightarrow> string list option)" where
  "grp_del ko i G = (case ko of None \<Rightarrow> G | Some k \<Rightarrow>
     (let xs = filter (\<lambda>y. y \<noteq> i) (list_at G k) in
      if G k = None then G else if xs = [] then G(k := None) else G(k \<mapsto> xs)))"

lemma map_of_list_push: "map_of (list_push k x m) = grp_add (Some k) x (map_of m)"
  by (simp add: list_push_def grp_add_def list_at_def)

lemma map_of_list_drop: "map_of (list_drop k x m) = grp_del (Some k) x (map_of m)"
  by (auto simp: list_drop_def grp_del_def list_at_def Let_def split: option.splits)

lemma om_wf_list_push [simp]: "om_wf m \<Longrightarrow> om_wf (list_push k x m)"
  by (simp add: list_push_def)

lemma om_wf_list_drop [simp]: "om_wf m \<Longrightarrow> om_wf (list_drop k x m)"
  by (auto simp: list_drop_def Let_def split: option.splits)

lemma grp_add_None [simp]: "grp_add None i G = G"
  by (simp add: grp_add_def)

lemma grp_del_None [simp]: "grp_del None i G = G"
  by (simp add: grp_del_def)

lemma list_at_add: "list_at (grp_add ko i G) k = (if ko = Some k then list_at G k @ [i] else list_at G k)"
  by (auto simp: grp_add_def list_at_def split: option.splits)

lemma list_at_del:
  "list_at (grp_del ko i G) k = (if ko = Some k then filter (\<lambda>y. y \<noteq> i) (list_at G k) else list_at G k)"
  by (auto simp: grp_del_def list_at_def Let_def split: option.splits)

lemma grp_add_nonempty: "(\<forall>k. G k \<noteq> Some []) \<Longrightarrow> grp_add ko i G k \<noteq> Some []"
  by (auto simp: grp_add_def split: option.splits)

lemma grp_del_nonempty: "(\<forall>k. G k \<noteq> Some []) \<Longrightarrow> grp_del ko i G k \<noteq> Some []"
  by (auto simp: grp_del_def Let_def split: option.splits)

lemma group_exact_set: "group_exact key E G \<Longrightarrow> i \<in> set (list_at G k) \<longleftrightarrow> (\<exists>e. E i = Some e \<and> key e = Some k)"
  by (auto simp: group_exact_def)

lemma group_exact_absent: "group_exact key E G \<Longrightarrow> G k = None \<longleftrightarrow> list_at G k = []"
  by (auto simp: group_exact_def list_at_def split: option.splits)

lemma group_exact_insert:
  assumes ex: "group_exact key E G" and new: "E i = None"
  shows "group_exact key (E(i \<mapsto> e)) (grp_add (key e) i G)"
proof -
  have "i \<notin> set (list_at G k)" for k using group_exact_set [OF ex] new by auto
  with ex new show ?thesis
    by (auto simp: group_exact_def list_at_add grp_add_nonempty split: if_splits)
qed

lemma group_exact_remove:
  assumes ex: "group_exact key E G" and i: "E i = Some e"
  shows "group_exact key (E(i := None)) (grp_del (key e) i G)"
  using assms by (auto simp: group_exact_def list_at_del grp_del_nonempty)

lemma group_exact_rekey:
  assumes ex: "group_exact key E G" and i: "E i = Some old"
  shows "group_exact key (E(i \<mapsto> new)) (grp_add (key new) i (grp_del (key old) i G))"
  using group_exact_insert [OF group_exact_remove [OF ex i], of i new] by simp

lemma group_exact_same_key:
  assumes ex: "group_exact key E G" and i: "E i = Some old" and k: "key new = key old"
  shows "group_exact key (E(i \<mapsto> new)) G"
proof -
  have "{j. \<exists>e. (E(i \<mapsto> new)) j = Some e \<and> key e = Some k} = {j. \<exists>e. E j = Some e \<and> key e = Some k}" for k
    using i assms(3) by auto
  with ex show ?thesis by (simp add: group_exact_def)
qed

section \<open>The parent relation\<close>

definition parent_rel :: "(string \<Rightarrow> component_node option) \<Rightarrow> (string \<times> string) set" where
  "parent_rel E = {(i, p). \<exists>c. E i = Some c \<and> cn_parentId c = Some p}"

definition below :: "(string \<Rightarrow> component_node option) \<Rightarrow> string \<Rightarrow> string set" where
  "below E i = {j. (j, i) \<in> (parent_rel E)\<^sup>*}"

definition tree_ok :: "(string \<Rightarrow> component_node option) \<Rightarrow> bool" where
  "tree_ok E \<longleftrightarrow> finite (dom E) \<and> acyclic (parent_rel E)
     \<and> (\<forall>i c p. E i = Some c \<longrightarrow> cn_parentId c = Some p \<longrightarrow>
          (\<exists>d. E p = Some d \<and> cn_pageId d = cn_pageId c))"

lemma parent_rel_iff: "(i, p) \<in> parent_rel E \<longleftrightarrow> (\<exists>c. E i = Some c \<and> cn_parentId c = Some p)"
  by (simp add: parent_rel_def)

lemma below_self [simp]: "i \<in> below E i"
  by (simp add: below_def)

lemma below_subset: "below E i \<subseteq> insert i (dom E)"
proof
  fix j
  assume "j \<in> below E i"
  then have "(j, i) \<in> (parent_rel E)\<^sup>*" by (simp add: below_def)
  then show "j \<in> insert i (dom E)"
    by (cases rule: converse_rtranclE) (auto simp: parent_rel_def)
qed

lemma finite_below: "finite (dom E) \<Longrightarrow> finite (below E i)"
  using below_subset [of E i] by (auto intro: finite_subset)

lemma below_closed: "(j, p) \<in> parent_rel E \<Longrightarrow> p \<in> below E i \<Longrightarrow> j \<in> below E i"
  by (auto simp: below_def intro: converse_rtrancl_into_rtrancl)

lemma below_trans: "k \<in> below E j \<Longrightarrow> j \<in> below E i \<Longrightarrow> k \<in> below E i"
  by (auto simp: below_def)

lemma below_children: "below E i = insert i (\<Union>c \<in> {c. (c, i) \<in> parent_rel E}. below E c)"
proof -
  have "j = i \<or> (\<exists>c. (c, i) \<in> parent_rel E \<and> j \<in> below E c)" if "j \<in> below E i" for j
    using that by (auto simp: below_def elim: rtranclE)
  moreover have "j \<in> below E i" if "(c, i) \<in> parent_rel E" "j \<in> below E c" for j c
    using that by (auto simp: below_def intro: rtrancl_into_rtrancl)
  ultimately show ?thesis by auto
qed

lemma below_strict:
  assumes "tree_ok E" "(c, i) \<in> parent_rel E"
  shows "i \<notin> below E c"
proof
  assume "i \<in> below E c"
  with assms(2) have "(i, i) \<in> (parent_rel E)\<^sup>+"
    by (auto simp: below_def intro: rtrancl_into_trancl1)
  with assms(1) show False by (simp add: tree_ok_def acyclic_def)
qed

lemma card_below_child:
  assumes ok: "tree_ok E" and c: "(c, i) \<in> parent_rel E"
  shows "card (below E c) < card (below E i)"
proof (rule psubset_card_mono)
  show "finite (below E i)" using ok by (intro finite_below) (simp add: tree_ok_def)
  show "below E c \<subset> below E i"
    using below_strict [OF ok c] below_children [of E i] c by auto
qed

lemma below_disjoint:
  assumes ok: "tree_ok E" and c: "(c, i) \<in> parent_rel E" and d: "(d, i) \<in> parent_rel E" and ne: "c \<noteq> d"
  shows "below E c \<inter> below E d = {}"
proof (rule ccontr)
  have sv: "single_valued (parent_rel E)" by (auto simp: single_valued_def parent_rel_def)
  assume "below E c \<inter> below E d \<noteq> {}"
  then obtain x where "(x, c) \<in> (parent_rel E)\<^sup>*" "(x, d) \<in> (parent_rel E)\<^sup>*"
    by (auto simp: below_def)
  then have "(c, d) \<in> (parent_rel E)\<^sup>* \<or> (d, c) \<in> (parent_rel E)\<^sup>*"
    by (rule single_valued_confluent [OF sv])
  then have "(c, d) \<in> (parent_rel E)\<^sup>+ \<or> (d, c) \<in> (parent_rel E)\<^sup>+"
    using ne by (auto simp: rtrancl_eq_or_trancl)
  then have "i \<in> below E c \<or> i \<in> below E d"
  proof
    assume "(c, d) \<in> (parent_rel E)\<^sup>+"
    then obtain y where "(c, y) \<in> parent_rel E" "(y, d) \<in> (parent_rel E)\<^sup>*" by (blast dest: tranclD)
    moreover from this(1) c have "y = i" by (auto simp: parent_rel_def)
    ultimately show ?thesis by (simp add: below_def)
  next
    assume "(d, c) \<in> (parent_rel E)\<^sup>+"
    then obtain y where "(d, y) \<in> parent_rel E" "(y, c) \<in> (parent_rel E)\<^sup>*" by (blast dest: tranclD)
    moreover from this(1) d have "y = i" by (auto simp: parent_rel_def)
    ultimately show ?thesis by (simp add: below_def)
  qed
  with below_strict [OF ok c] below_strict [OF ok d] show False by blast
qed

text \<open>Taking out a set of components closed under descendants.\<close>

lemma parent_rel_restrict: "parent_rel (E |` (- X)) = {(j, p) \<in> parent_rel E. j \<notin> X}"
  by (auto simp: parent_rel_def restrict_map_def split: if_splits)

lemma below_restrict:
  assumes closed: "\<And>j p. (j, p) \<in> parent_rel E \<Longrightarrow> p \<in> X \<Longrightarrow> j \<in> X" and i: "i \<notin> X"
  shows "below (E |` (- X)) i = below E i - X"
proof
  have "j \<in> below E i - X" if "(j, i) \<in> (parent_rel (E |` (- X)))\<^sup>*" for j
    using that
  proof (induction rule: converse_rtrancl_induct)
    case base
    with i show ?case by simp
  next
    case (step y z)
    then show ?case by (auto simp: parent_rel_restrict below_def intro: converse_rtrancl_into_rtrancl)
  qed
  then show "below (E |` (- X)) i \<subseteq> below E i - X" by (auto simp: below_def)
  have "j \<notin> X \<longrightarrow> j \<in> below (E |` (- X)) i" if "(j, i) \<in> (parent_rel E)\<^sup>*" for j
    using that
  proof (induction rule: converse_rtrancl_induct)
    case base
    show ?case by simp
  next
    case (step y z)
    show ?case
    proof
      assume y: "y \<notin> X"
      with step closed have "z \<in> below (E |` (- X)) i" by blast
      moreover from y step.hyps(1) have "(y, z) \<in> parent_rel (E |` (- X))"
        by (simp add: parent_rel_restrict)
      ultimately show "y \<in> below (E |` (- X)) i" by (rule below_closed [rotated])
    qed
  qed
  then show "below E i - X \<subseteq> below (E |` (- X)) i" by (auto simp: below_def)
qed

lemma acyclic_reparent:
  assumes ac: "acyclic r" and nd: "(p, i) \<notin> r\<^sup>+" and ne: "p \<noteq> i" and sub: "r' \<subseteq> insert (i, p) r"
  shows "acyclic r'"
proof -
  have "(p, i) \<notin> r\<^sup>*" using nd ne by (simp add: rtrancl_eq_or_trancl)
  with ac have "acyclic (insert (i, p) r)" by simp
  then show ?thesis using sub by (rule acyclic_subset)
qed

end
