(* ===== verification/Component_Invariant.thy ===== *)
theory Component_Invariant
  imports Component_Forest
begin

text \<open>
  The invariant of the component operations, that each of them keeps it, and that it gives
  the walks over the forest enough fuel: the number of components, and one more for a tree.
\<close>

definition component_ok :: "string \<Rightarrow> component_node \<Rightarrow> bool" where
  "component_ok i c \<longleftrightarrow> cn_id c = i \<and> i \<noteq> [] \<and> cn_pageId c \<noteq> []
     \<and> is_valid_component_type (cn_type c) \<and> is_valid_component_order (cn_order c)"

definition forest_ok ::
  "(string \<Rightarrow> component_node option) \<Rightarrow> (string \<Rightarrow> string list option) \<Rightarrow>
   (string \<Rightarrow> string list option) \<Rightarrow> int \<Rightarrow> bool" where
  "forest_ok E P G n \<longleftrightarrow>
     group_exact (\<lambda>c. Some (cn_pageId c)) E P \<and> group_exact cn_parentId E G \<and> tree_ok E
     \<and> (\<forall>i c. E i = Some c \<longrightarrow> component_ok i c)
     \<and> 0 \<le> n \<and> ids_below ''component'' n (dom E)"

definition components_inv :: "store \<Rightarrow> bool" where
  "components_inv s \<longleftrightarrow>
     om_wf (components s) \<and> om_wf (components_by_page s) \<and> om_wf (components_by_parent s)
     \<and> forest_ok (map_of (components s)) (map_of (components_by_page s))
         (map_of (components_by_parent s)) (component_counter s)"

lemmas component_defs = add_component_to_page_def remove_component_from_page_def
  add_component_to_parent_def remove_component_from_parent_def put_component_def

lemma components_inv_empty: "components_inv empty_store"
  by (auto simp: components_inv_def empty_store_def forest_ok_def group_exact_def list_at_def
      tree_ok_def parent_rel_def ids_below_def acyclic_def)

section \<open>Forest steps\<close>

lemma tree_okD:
  "tree_ok E \<Longrightarrow> E i = Some c \<Longrightarrow> cn_parentId c = Some p \<Longrightarrow>
     \<exists>d. E p = Some d \<and> cn_pageId d = cn_pageId c"
  by (simp add: tree_ok_def)

lemma tree_ok_update:
  assumes ok: "tree_ok E" and ac: "acyclic (parent_rel (E(i \<mapsto> c)))"
    and page: "\<And>e. E i = Some e \<Longrightarrow> cn_pageId e = cn_pageId c"
    and parent: "\<And>p. cn_parentId c = Some p \<Longrightarrow> \<exists>d. E p = Some d \<and> cn_pageId d = cn_pageId c"
  shows "tree_ok (E(i \<mapsto> c))"
proof -
  have "\<exists>d. (E(i \<mapsto> c)) p = Some d \<and> cn_pageId d = cn_pageId x"
    if x: "(E(i \<mapsto> c)) j = Some x" "cn_parentId x = Some p" for j x p
  proof -
    have "\<exists>d. E p = Some d \<and> cn_pageId d = cn_pageId x"
      using x parent tree_okD [OF ok] by (cases "j = i") auto
    with page show ?thesis by (cases "p = i") auto
  qed
  moreover have "finite (dom (E(i \<mapsto> c)))" using ok by (simp add: tree_ok_def)
  ultimately show ?thesis using ac unfolding tree_ok_def by blast
qed

lemma forest_put:
  assumes ok: "forest_ok E P G n" and i: "E i = Some c" and c': "component_ok i c'"
    and same: "cn_pageId c' = cn_pageId c" "cn_parentId c' = cn_parentId c"
  shows "forest_ok (E(i \<mapsto> c')) P G n"
proof -
  have rel: "parent_rel (E(i \<mapsto> c')) = parent_rel E"
    using i same(2) by (auto simp: parent_rel_def split: if_splits)
  have dom: "dom (E(i \<mapsto> c')) = dom E" using i by auto
  have tree: "tree_ok E" using ok by (simp add: forest_ok_def)
  then have "tree_ok (E(i \<mapsto> c'))"
    using i same by (intro tree_ok_update) (auto simp: rel tree_ok_def)
  then show ?thesis
    using ok i c' same dom unfolding forest_ok_def
    by (auto intro!: group_exact_same_key [of _ E _ i c] split: if_splits)
qed

lemma forest_reparent:
  assumes ok: "forest_ok E P G n" and i: "E i = Some c" and c': "component_ok i c'"
    and page: "cn_pageId c' = cn_pageId c"
    and parent: "\<And>p. cn_parentId c' = Some p \<Longrightarrow> p \<noteq> i \<and> (p, i) \<notin> (parent_rel E)\<^sup>+
                   \<and> (\<exists>d. E p = Some d \<and> cn_pageId d = cn_pageId c)"
  shows "forest_ok (E(i \<mapsto> c')) P (grp_add (cn_parentId c') i (grp_del (cn_parentId c) i G)) n"
proof -
  have dom: "dom (E(i \<mapsto> c')) = dom E" using i by auto
  have ac: "acyclic (parent_rel E)" using ok by (simp add: forest_ok_def tree_ok_def)
  have ac': "acyclic (parent_rel (E(i \<mapsto> c')))"
  proof (cases "cn_parentId c'")
    case None
    then have "parent_rel (E(i \<mapsto> c')) \<subseteq> parent_rel E" by (auto simp: parent_rel_def split: if_splits)
    with ac show ?thesis by (rule acyclic_subset)
  next
    case (Some p)
    then have "parent_rel (E(i \<mapsto> c')) \<subseteq> insert (i, p) (parent_rel E)"
      by (auto simp: parent_rel_def split: if_splits)
    with parent [OF Some] ac show ?thesis by (blast intro: acyclic_reparent)
  qed
  have "tree_ok (E(i \<mapsto> c'))"
    using ok ac' i page parent by (intro tree_ok_update) (auto simp: forest_ok_def)
  then show ?thesis
    using ok i c' page dom unfolding forest_ok_def
    by (auto intro!: group_exact_same_key [of _ E _ i c] group_exact_rekey split: if_splits)
qed

lemma forest_insert:
  assumes ok: "forest_ok E P G n" and i: "i = generate_id ''component'' (n + 1)"
    and fits: "in_int32 (n + 1)" and c: "component_ok i c"
    and parent: "\<And>p. cn_parentId c = Some p \<Longrightarrow> \<exists>d. E p = Some d \<and> cn_pageId d = cn_pageId c"
  shows "E i = None"
    and "forest_ok (E(i \<mapsto> c)) (grp_add (Some (cn_pageId c)) i P) (grp_add (cn_parentId c) i G) (n + 1)"
proof -
  have "id_prefix ''component''" by (simp add: id_prefix_def)
  then have "i \<notin> dom E"
    unfolding i using ok fits by (intro ids_below_fresh) (auto simp: forest_ok_def)
  then show new: "E i = None" by auto
  have leaf: "cn_parentId x \<noteq> Some i" if "E j = Some x" for j x
    using ok that new by (fastforce simp: forest_ok_def tree_ok_def)
  have noedge: "(p, i) \<notin> (parent_rel E)\<^sup>+" for p
    using leaf by (auto simp: parent_rel_def dest!: tranclD2)
  have sub: "parent_rel (E(i \<mapsto> c)) \<subseteq> (case cn_parentId c of None \<Rightarrow> parent_rel E | Some p \<Rightarrow> insert (i, p) (parent_rel E))"
    by (auto simp: parent_rel_def split: option.splits if_splits)
  have ac: "acyclic (parent_rel E)" using ok by (simp add: forest_ok_def tree_ok_def)
  have "acyclic (parent_rel (E(i \<mapsto> c)))"
  proof (cases "cn_parentId c")
    case None
    with sub ac show ?thesis by (auto intro: acyclic_subset)
  next
    case (Some p)
    with parent new have "p \<noteq> i" by force
    with Some sub noedge ac show ?thesis by (auto intro: acyclic_reparent)
  qed
  then have "tree_ok (E(i \<mapsto> c))"
    using ok parent new by (intro tree_ok_update) (auto simp: forest_ok_def)
  moreover have "dom (E(i \<mapsto> c)) = insert i (dom E)" by auto
  ultimately show "forest_ok (E(i \<mapsto> c)) (grp_add (Some (cn_pageId c)) i P) (grp_add (cn_parentId c) i G) (n + 1)"
    using ok c new ids_below_insert [of "''component''" n "dom E"]
      group_exact_insert [of "\<lambda>c. Some (cn_pageId c)" E P i c]
    unfolding forest_ok_def by (auto intro!: group_exact_insert simp: i split: if_splits)
qed

lemma forest_unlink:
  assumes ok: "forest_ok E P G n" and i: "E i = Some c"
    and leaf: "\<And>j. (j, i) \<notin> parent_rel E"
  shows "forest_ok (E(i := None)) (grp_del (Some (cn_pageId c)) i P) (grp_del (cn_parentId c) i G) n"
proof -
  have "parent_rel (E(i := None)) \<subseteq> parent_rel E" by (auto simp: parent_rel_def split: if_splits)
  then have "acyclic (parent_rel (E(i := None)))"
    using ok acyclic_subset unfolding forest_ok_def tree_ok_def by blast
  moreover have "\<exists>d. (E(i := None)) p = Some d \<and> cn_pageId d = cn_pageId x"
    if "(E(i := None)) j = Some x" "cn_parentId x = Some p" for j x p
    using ok that leaf [of j] by (auto simp: forest_ok_def tree_ok_def parent_rel_iff split: if_splits)
  ultimately have "tree_ok (E(i := None))"
    using ok unfolding tree_ok_def forest_ok_def by auto
  moreover have "dom (E(i := None)) \<subseteq> dom E" by auto
  ultimately show ?thesis
    using ok i group_exact_remove [of "\<lambda>c. Some (cn_pageId c)" E P i c] ids_below_mono
    unfolding forest_ok_def by (auto intro!: group_exact_remove split: if_splits)
qed

section \<open>hasDescendant\<close>

lemma any_opt_total:
  "(\<And>x. x \<in> set xs \<Longrightarrow> f x = Some (Q x)) \<Longrightarrow> any_opt f xs = Some (\<exists>x \<in> set xs. Q x)"
  by (induction xs) (auto split: bool.splits)

lemma forest_children:
  "forest_ok E P G n \<Longrightarrow> c \<in> set (list_at G i) \<longleftrightarrow> (c, i) \<in> parent_rel E"
  by (auto simp: forest_ok_def group_exact_set parent_rel_iff)

lemma has_descendant_eq:
  assumes ok: "forest_ok (map_of (components s)) P (map_of (components_by_parent s)) m"
  shows "card (below (map_of (components s)) i) \<le> n \<Longrightarrow>
    has_descendant n s i j = Some ((j, i) \<in> (parent_rel (map_of (components s)))\<^sup>+)"
proof (induction n arbitrary: i)
  case 0
  have "finite (below (map_of (components s)) i)" by (intro finite_below finite_dom_map_of)
  with 0 have "below (map_of (components s)) i = {}" by simp
  with below_self [of i] show ?case by blast
next
  case (Suc n)
  let ?r = "parent_rel (map_of (components s))"
  let ?f = "\<lambda>c. if c = j then Some True else has_descendant n s c j"
  have tree: "tree_ok (map_of (components s))" using ok by (simp add: forest_ok_def)
  have "?f c = Some ((j, c) \<in> ?r\<^sup>*)" if c: "c \<in> set (list_at (map_of (components_by_parent s)) i)" for c
  proof -
    have "(c, i) \<in> ?r" using c forest_children [OF ok] by blast
    then have "card (below (map_of (components s)) c) \<le> n"
      using card_below_child [OF tree] Suc.prems by fastforce
    from Suc.IH [OF this] show ?thesis by (auto simp: rtrancl_eq_or_trancl)
  qed
  then have any: "any_opt ?f (list_at (map_of (components_by_parent s)) i) =
      Some (\<exists>c \<in> set (list_at (map_of (components_by_parent s)) i). (j, c) \<in> ?r\<^sup>*)"
    by (rule any_opt_total)
  have "(\<exists>c \<in> set (list_at (map_of (components_by_parent s)) i). (j, c) \<in> ?r\<^sup>*) \<longleftrightarrow> (j, i) \<in> ?r\<^sup>+"
    using forest_children [OF ok] by (blast dest: tranclD2 intro: rtrancl_into_trancl1)
  with any show ?case
    by (cases "map_of (components_by_parent s) i") (simp_all add: list_at_def)
qed

text \<open>The number of components is enough fuel from any component.\<close>

lemma card_below_le:
  "map_of m i = Some c \<Longrightarrow> card (below (map_of m) i) \<le> length m"
proof -
  assume "map_of m i = Some c"
  then have "below (map_of m) i \<subseteq> dom (map_of m)" using below_subset [of "map_of m" i] by auto
  then have "card (below (map_of m) i) \<le> card (dom (map_of m))" by (intro card_mono finite_dom_map_of)
  also have "\<dots> \<le> length m" using card_length [of "map fst m"] by (simp add: dom_map_of_conv_image_fst)
  finally show ?thesis .
qed

lemma has_descendant_inv:
  assumes inv: "components_inv s" and i: "map_of (components s) i = Some c" and n: "length (components s) \<le> n"
  shows "has_descendant n s i j = Some ((j, i) \<in> (parent_rel (map_of (components s)))\<^sup>+)"
  using inv n card_below_le [OF i] unfolding components_inv_def by (intro has_descendant_eq) auto

section \<open>Operations\<close>

lemma component_create_error: "component_create s inp = (Inl e, s') \<Longrightarrow> s' = s"
  by (auto simp: component_create_def Let_def split: if_splits option.splits)

lemma component_create_ok:
  "component_create s inp = (Inr c, s') \<Longrightarrow>
     cci_pageId inp \<noteq> [] \<and> is_valid_component_type (cci_type inp) \<and> is_valid_component_order (cci_order inp)
     \<and> map_of (pages s) (cci_pageId inp) \<noteq> None \<and> component_parent_error s inp = None
     \<and> c = new_component (generate_id ''component'' (component_counter s + 1)) inp
     \<and> s' = s\<lparr>component_counter := component_counter s + 1,
             components := om_put (cn_id c) c (components s),
             components_by_page := list_push (cn_pageId c) (cn_id c) (components_by_page s),
             components_by_parent := (case cn_parentId c of None \<Rightarrow> components_by_parent s
                | Some p \<Rightarrow> list_push p (cn_id c) (components_by_parent s))\<rparr>"
  by (auto simp: component_create_def Let_def component_defs split: if_splits option.splits)

lemma new_component_simps [simp]:
  "cn_id (new_component i inp) = i" "cn_pageId (new_component i inp) = cci_pageId inp"
  "cn_parentId (new_component i inp) = cci_parentId inp" "cn_type (new_component i inp) = cci_type inp"
  "cn_order (new_component i inp) = cci_order inp"
  by (simp_all add: new_component_def)

lemma map_of_push_opt:
  "map_of (case ko of None \<Rightarrow> m | Some k \<Rightarrow> list_push k x m) = grp_add ko x (map_of m)"
  by (simp add: map_of_list_push split: option.split)

lemma map_of_drop_opt:
  "map_of (case ko of None \<Rightarrow> m | Some k \<Rightarrow> list_drop k x m) = grp_del ko x (map_of m)"
  by (simp add: map_of_list_drop split: option.split)

lemma om_wf_push_opt: "om_wf m \<Longrightarrow> om_wf (case ko of None \<Rightarrow> m | Some k \<Rightarrow> list_push k x m)"
  by (simp split: option.split)

lemma om_wf_drop_opt: "om_wf m \<Longrightarrow> om_wf (case ko of None \<Rightarrow> m | Some k \<Rightarrow> list_drop k x m)"
  by (simp split: option.split)

lemmas group_om = map_of_push_opt map_of_drop_opt om_wf_push_opt om_wf_drop_opt
  map_of_list_push map_of_list_drop

lemma component_parent_error_None:
  "component_parent_error s inp = None \<Longrightarrow> cci_parentId inp = Some p \<Longrightarrow>
     \<exists>d. map_of (components s) p = Some d \<and> cn_pageId d = cci_pageId inp"
  by (auto simp: component_parent_error_def split: option.splits if_splits)

lemma component_create_inv:
  assumes inv: "components_inv s" and fits: "in_int32 (component_counter s + 1)"
    and run: "component_create s inp = (r, s')"
  shows "components_inv s'"
proof (cases r)
  case (Inl e)
  with run inv show ?thesis by (auto dest: component_create_error)
next
  case (Inr c)
  note ok = component_create_ok [OF run [unfolded Inr]]
  let ?i = "generate_id ''component'' (component_counter s + 1)"
  have "?i \<noteq> []"
    using inv fits by (intro generate_id_nonempty) (simp_all add: id_prefix_def components_inv_def forest_ok_def)
  then have "component_ok ?i c" using ok by (simp add: component_ok_def)
  moreover have "\<exists>d. map_of (components s) p = Some d \<and> cn_pageId d = cn_pageId c"
    if "cn_parentId c = Some p" for p
    using component_parent_error_None [of s inp p] ok that by simp
  ultimately have "forest_ok ((map_of (components s))(?i \<mapsto> c))
      (grp_add (Some (cn_pageId c)) ?i (map_of (components_by_page s)))
      (grp_add (cn_parentId c) ?i (map_of (components_by_parent s))) (component_counter s + 1)"
    using inv fits by (intro forest_insert(2)) (auto simp: components_inv_def)
  with inv ok show ?thesis by (simp add: components_inv_def group_om)
qed

subsection \<open>Update and move\<close>

text \<open>Writing fields other than the page and the parent.\<close>

lemma put_component_inv:
  assumes inv: "components_inv s" and i: "map_of (components s) i = Some c" and c': "component_ok i c'"
    and same: "cn_pageId c' = cn_pageId c" "cn_parentId c' = cn_parentId c"
  shows "components_inv (put_component i c' s)"
  using inv forest_put [where E = "map_of (components s)", OF _ i c' same] by (simp add: components_inv_def put_component_def)

lemma components_inv_ok:
  "components_inv s \<Longrightarrow> map_of (components s) i = Some c \<Longrightarrow> component_ok i c"
  by (simp add: components_inv_def forest_ok_def)

lemma component_okD: "component_ok i c \<Longrightarrow> cn_id c = i"
  by (simp add: component_ok_def)

text \<open>Both operations that change a parent do it with this step.\<close>

definition reparent :: "string \<Rightarrow> component_node \<Rightarrow> component_node \<Rightarrow> store \<Rightarrow> store" where
  "reparent i c c' s = s\<lparr>components := om_put i c' (components s),
     components_by_parent :=
       (let m = (case cn_parentId c of None \<Rightarrow> components_by_parent s
                 | Some q \<Rightarrow> list_drop q i (components_by_parent s))
        in case cn_parentId c' of None \<Rightarrow> m | Some p \<Rightarrow> list_push p i m)\<rparr>"

lemma reparent_inv:
  assumes inv: "components_inv s" and i: "map_of (components s) i = Some c" and c': "component_ok i c'"
    and page: "cn_pageId c' = cn_pageId c"
    and parent: "\<And>p. cn_parentId c' = Some p \<Longrightarrow>
        p \<noteq> i \<and> (p, i) \<notin> (parent_rel (map_of (components s)))\<^sup>+
        \<and> (\<exists>d. map_of (components s) p = Some d \<and> cn_pageId d = cn_pageId c)"
  shows "components_inv (reparent i c c' s)"
  using inv forest_reparent [where E = "map_of (components s)", OF _ i c' page parent]
  by (simp add: components_inv_def reparent_def group_om Let_def)

lemma component_update_parent_inv:
  assumes inv: "components_inv s" and i: "map_of (components s) i = Some c"
    and n: "length (components s) \<le> n"
  shows "\<exists>r s'. component_update_parent n s i c po = Some (r, s') \<and> components_inv s'
    \<and> (\<forall>e. r = Inl e \<longrightarrow> s' = s)"
proof (cases po)
  case None
  with inv show ?thesis by (simp add: component_update_parent_def)
next
  case (Some p)
  have ok: "component_ok i (c\<lparr>cn_parentId := Some p\<rparr>)"
    using components_inv_ok [OF inv i] by (simp add: component_ok_def)
  let ?s1 = "case cn_parentId c of None \<Rightarrow> s | Some q \<Rightarrow> remove_component_from_parent s q i"
  let ?s2 = "add_component_to_parent (put_component i (c\<lparr>cn_parentId := Some p\<rparr>) ?s1) p i"
  have "?s2 = reparent i c (c\<lparr>cn_parentId := Some p\<rparr>) s"
    by (simp add: component_defs reparent_def split: option.split)
  then have step: "components_inv ?s2" if "p \<noteq> i" "(p, i) \<notin> (parent_rel (map_of (components s)))\<^sup>+"
      "map_of (components s) p = Some d" "cn_pageId d = cn_pageId c" for d
    using reparent_inv [OF inv i ok] that by simp
  show ?thesis
    using inv step
    by (cases "cn_parentId c")
       (simp_all add: component_update_parent_def Some Let_def has_descendant_inv [OF inv i n]
        split: option.split bool.split)
qed

text \<open>
  The outcome of an update: on every branch the forest invariant holds, the failures after
  a write included.
\<close>

lemma length_om_put_present:
  "map_of m i = Some c \<Longrightarrow> om_wf m \<Longrightarrow> length (om_put i v m) = length m"
proof -
  assume i: "map_of m i = Some c" and wf: "om_wf m"
  have "length (om_put i v m) = card (fst ` set (om_put i v m))"
    using om_wf_distinct [OF om_wf_put [OF wf]] by (metis distinct_card length_map set_map)
  also have "\<dots> = card (fst ` set m)"
    using i by (simp add: set_keys_om_put insert_absorb domIff flip: dom_map_of_conv_image_fst)
  also have "\<dots> = length m"
    using om_wf_distinct [OF wf] by (metis distinct_card length_map set_map)
  finally show ?thesis .
qed

lemma component_update_inv:
  assumes inv: "components_inv s" and n: "length (components s) \<le> n"
  shows "\<exists>r s'. component_update n s i inp = Some (r, s') \<and> components_inv s'"
proof (cases "i = [] \<or> map_of (components s) i = None")
  case True
  with inv show ?thesis by (auto simp: component_update_def)
next
  case False
  then obtain c where ne: "i \<noteq> []" and i: "map_of (components s) i = Some c" by auto
  define c1 where "c1 = apply_opt (\<lambda>v x. x\<lparr>cn_type := v\<rparr>) (uci_type inp) c"
  define c3 where "c3 = apply_opt (\<lambda>v x. x\<lparr>cn_childIds := v\<rparr>) (uci_childIds inp)
    (apply_opt (\<lambda>v x. x\<lparr>cn_order := v\<rparr>) (uci_order inp) c1)"
  note c_ok = components_inv_ok [OF inv i]
  have same: "cn_pageId c1 = cn_pageId c" "cn_parentId c1 = cn_parentId c"
      "cn_pageId c3 = cn_pageId c" "cn_parentId c3 = cn_parentId c"
    by (simp_all add: c1_def c3_def apply_opt_keeps)
  show ?thesis
  proof (cases "\<exists>t. uci_type inp = Some t \<and> \<not> is_valid_component_type t")
    case True
    with ne i inv show ?thesis by (auto simp: component_update_def)
  next
    case False
    note type_good = this
    have ok1: "component_ok i c1"
      using c_ok type_good by (cases "uci_type inp") (auto simp: c1_def component_ok_def)
    show ?thesis
    proof (cases "\<exists>v. uci_order inp = Some v \<and> \<not> is_valid_component_order v")
      case True
      with type_good ne i put_component_inv [OF inv i ok1 same(1,2)] show ?thesis
        by (auto simp: component_update_def c1_def [symmetric] split: option.splits)
    next
      case False
      note ord = this
      have ok3: "component_ok i c3"
        using ok1 ord by (cases "uci_order inp"; cases "uci_childIds inp") (auto simp: c3_def component_ok_def)
      let ?s3 = "put_component i c3 s"
      have inv3: "components_inv ?s3" by (rule put_component_inv [OF inv i ok3 same(3,4)])
      have "length (components ?s3) \<le> n"
        using n i inv by (simp add: put_component_def length_om_put_present components_inv_def)
      moreover have "map_of (components ?s3) i = Some c3" by (simp add: put_component_def)
      ultimately obtain r s' where "component_update_parent n ?s3 i c3 (uci_parentId inp) = Some (r, s')"
          "components_inv s'"
        using component_update_parent_inv [OF inv3] by blast
      then show ?thesis
        using type_good ord ne i
        by (auto simp: component_update_def c1_def [symmetric] c3_def [symmetric] split: option.splits)
    qed
  qed
qed

lemma move_component_to_eq:
  assumes "cn_id c = mci_id inp"
  shows "move_component_to s c inp = (let p = mci_newParentId inp;
     c' = c\<lparr>cn_parentId := (if p \<noteq> [] then Some p else None), cn_order := mci_order inp\<rparr>
     in (Inr c', reparent (mci_id inp) c c' s))"
  using assms by (simp add: move_component_to_def reparent_def component_defs Let_def split: option.split)

lemma move_component_to_inv:
  assumes inv: "components_inv s" and i: "map_of (components s) (mci_id inp) = Some c"
    and ord: "0 \<le> mci_order inp"
    and parent: "mci_newParentId inp \<noteq> [] \<Longrightarrow> mci_newParentId inp \<noteq> mci_id inp
        \<and> (mci_newParentId inp, mci_id inp) \<notin> (parent_rel (map_of (components s)))\<^sup>+
        \<and> (\<exists>d. map_of (components s) (mci_newParentId inp) = Some d \<and> cn_pageId d = cn_pageId c)"
    and run: "move_component_to s c inp = (r, s')"
  shows "components_inv s'"
proof -
  note ok = components_inv_ok [OF inv i]
  let ?c = "c\<lparr>cn_parentId := (if mci_newParentId inp \<noteq> [] then Some (mci_newParentId inp) else None),
    cn_order := mci_order inp\<rparr>"
  have "component_ok (mci_id inp) ?c"
    using ok ord by (simp add: component_ok_def is_valid_component_order_def)
  then have "components_inv (reparent (mci_id inp) c ?c s)"
    using parent by (intro reparent_inv [OF inv i]) (auto split: if_splits)
  with run component_okD [OF ok] show ?thesis by (auto simp: move_component_to_eq Let_def)
qed

lemma component_move_inv:
  assumes inv: "components_inv s" and n: "length (components s) \<le> n"
  shows "\<exists>r s'. component_move n s inp = Some (r, s') \<and> components_inv s' \<and> (\<forall>e. r = Inl e \<longrightarrow> s' = s)"
proof (cases "mci_id inp = [] \<or> mci_order inp < 0 \<or> map_of (components s) (mci_id inp) = None")
  case True
  with inv show ?thesis by (auto simp: component_move_def)
next
  case False
  then obtain c where pre: "mci_id inp \<noteq> []" "0 \<le> mci_order inp"
    and i: "map_of (components s) (mci_id inp) = Some c" by auto
  have id': "cn_id c = mci_id inp" using component_okD [OF components_inv_ok [OF inv i]] .
  obtain c' s' where mv: "move_component_to s c inp = (Inr c', s')"
    by (simp add: move_component_to_def Let_def)
  note keep = move_component_to_inv [OF inv i pre(2) _ mv]
  note desc = has_descendant_inv [OF inv i n, of "mci_newParentId inp"]
  show ?thesis
    using pre i id' mv keep inv desc
    by (simp add: component_move_def split: option.split bool.split)
qed

lemma reorder_apply_inv:
  "components_inv s \<Longrightarrow> (\<forall>u \<in> set us. 0 \<le> cou_order u) \<Longrightarrow> components_inv (reorder_apply s us)"
proof (induction us arbitrary: s)
  case Nil
  then show ?case by simp
next
  case (Cons u us)
  show ?case
  proof (cases "map_of (components s) (cou_id u)")
    case None
    with Cons show ?thesis by simp
  next
    case (Some c)
    have "component_ok (cou_id u) (c\<lparr>cn_order := cou_order u\<rparr>)"
      using components_inv_ok [OF Cons.prems(1) Some] Cons.prems(2)
      by (simp add: component_ok_def is_valid_component_order_def)
    then have "components_inv (put_component (cou_id u) (c\<lparr>cn_order := cou_order u\<rparr>) s)"
      by (intro put_component_inv [OF Cons.prems(1) Some]) simp_all
    with Cons Some show ?thesis by simp
  qed
qed

lemma reorder_check_None:
  "reorder_check s scope us = None \<Longrightarrow>
     (\<forall>u \<in> set us. 0 \<le> cou_order u \<and> (\<exists>c. map_of (components s) (cou_id u) = Some c
        \<and> (\<forall>p. scope = Some p \<longrightarrow> cn_parentId c = p)))"
  by (induction s scope us rule: reorder_check.induct) (auto split: if_splits option.splits)

lemma component_reorder_inv:
  assumes inv: "components_inv s" and run: "component_reorder s us = (r, s')"
  shows "components_inv s' \<and> (\<forall>e. r = Inl e \<longrightarrow> s' = s)"
  using run inv reorder_check_None [of s None us]
  by (auto simp: component_reorder_def reorder_apply_inv split: if_splits option.splits)

text \<open>Without duplicate ids, each component named gets its order and no other one changes.\<close>

lemma reorder_apply_find:
  assumes "distinct (map cou_id us)"
  shows "map_of (components (reorder_apply s us)) i =
    (case map_of (components s) i of
       None \<Rightarrow> None
     | Some c \<Rightarrow> Some (case find (\<lambda>u. cou_id u = i) us of None \<Rightarrow> c | Some u \<Rightarrow> c\<lparr>cn_order := cou_order u\<rparr>))"
  using assms
proof (induction us arbitrary: s)
  case Nil
  then show ?case by (simp split: option.split)
next
  case (Cons u us)
  from Cons.prems have "\<forall>v \<in> set us. cou_id v \<noteq> cou_id u" by (auto simp: image_iff)
  then have other: "find (\<lambda>v. cou_id v = cou_id u) us = None" by (auto simp: find_None_iff)
  show ?case
    using Cons other by (auto simp: put_component_def split: option.split)
qed

end
