(* ===== verification/Component_Walks.thy ===== *)
theory Component_Walks
  imports Component_Invariant
begin

text \<open>
  What the walks compute: a cascade takes out exactly the component and all that is below
  it, the children of a component come in order, the tree of a page lists each of its
  components once with parents first, and the listing is sorted.
\<close>

abbreviation ents :: "store \<Rightarrow> string \<Rightarrow> component_node option" where
  "ents s \<equiv> map_of (components s)"

section \<open>Fuel\<close>

text \<open>A walk that ends with some fuel ends in the same way with more.\<close>

lemma any_opt_mono:
  "(\<And>x b. x \<in> set xs \<Longrightarrow> f x = Some b \<Longrightarrow> g x = Some b) \<Longrightarrow> any_opt f xs = Some b \<Longrightarrow>
     any_opt g xs = Some b"
  by (induction xs) (auto split: option.splits bool.splits)

lemma has_descendant_mono:
  "has_descendant n s i j = Some b \<Longrightarrow> n \<le> m \<Longrightarrow> has_descendant m s i j = Some b"
proof (induction n arbitrary: i b m)
  case 0
  then show ?case by simp
next
  case (Suc n)
  obtain m' where m: "m = Suc m'" "n \<le> m'" using Suc.prems(2) by (cases m) auto
  show ?case
  proof (cases "map_of (components_by_parent s) i")
    case None
    with Suc.prems m show ?thesis by simp
  next
    case (Some cs)
    have "any_opt (\<lambda>c. if c = j then Some True else has_descendant m' s c j) cs = Some b"
    proof (rule any_opt_mono)
      show "any_opt (\<lambda>c. if c = j then Some True else has_descendant n s c j) cs = Some b"
        using Suc.prems(1) Some by simp
      fix c b'
      assume "(if c = j then Some True else has_descendant n s c j) = Some b'"
      then show "(if c = j then Some True else has_descendant m' s c j) = Some b'"
        using Suc.IH [OF _ m(2)] by (simp split: if_split_asm)
    qed
    with Some m show ?thesis by simp
  qed
qed

lemma fold_opt_mono:
  "(\<And>x t u. x \<in> set xs \<Longrightarrow> f x t = Some u \<Longrightarrow> g x t = Some u) \<Longrightarrow> fold_opt f xs s = Some s' \<Longrightarrow>
     fold_opt g xs s = Some s'"
proof (induction xs arbitrary: s)
  case Nil
  then show ?case by simp
next
  case (Cons x xs)
  then obtain t where "f x s = Some t" "fold_opt f xs t = Some s'" by (auto split: option.splits)
  with Cons show ?case by auto
qed

lemma cascade_delete_mono:
  "cascade_delete n i s = Some s' \<Longrightarrow> n \<le> m \<Longrightarrow> cascade_delete m i s = Some s'"
proof (induction n arbitrary: i s s' m)
  case 0
  then show ?case by simp
next
  case (Suc n)
  obtain m' where m: "m = Suc m'" "n \<le> m'" using Suc.prems(2) by (cases m) auto
  have "fold_opt (cascade_delete m') cs s = Some t" if "fold_opt (cascade_delete n) cs s = Some t" for cs t
    using Suc.IH [OF _ m(2)] that by (rule fold_opt_mono)
  with Suc.prems m show ?case by (fastforce split: option.splits)
qed

lemma component_update_parent_mono:
  assumes "component_update_parent n s i c po = Some x" "n \<le> m"
  shows "component_update_parent m s i c po = Some x"
proof -
  have "component_update_parent m s i c po = component_update_parent n s i c po"
    if "has_descendant n s i p = Some b" "po = Some p" for p b
    using has_descendant_mono [OF that(1) assms(2)] that
    by (simp add: component_update_parent_def split: option.split)
  moreover have "component_update_parent m s i c po = Some x"
    if "\<forall>p. po = Some p \<longrightarrow> has_descendant n s i p = None"
    using assms(1) that by (cases po) (simp_all add: component_update_parent_def split: if_split_asm option.split_asm)
  ultimately show ?thesis using assms(1) by (metis not_None_eq)
qed

text \<open>The fuel of an update matters only when it comes to the parent.\<close>

lemma component_update_stages:
  "(\<exists>x. \<forall>k. component_update k s i inp = Some x) \<or>
   (\<exists>t c po. \<forall>k. component_update k s i inp = component_update_parent k t i c po)"
proof (cases "i = [] \<or> ents s i = None")
  case True
  then show ?thesis by (cases "i = []") (simp_all add: component_update_def)
next
  case False
  then obtain c where c: "i \<noteq> []" "ents s i = Some c" by auto
  let ?bad_type = "case uci_type inp of None \<Rightarrow> False | Some t \<Rightarrow> \<not> is_valid_component_type t"
  let ?bad_order = "case uci_order inp of None \<Rightarrow> False | Some v \<Rightarrow> \<not> is_valid_component_order v"
  consider "?bad_type" | "\<not> ?bad_type" "?bad_order" | "\<not> ?bad_type" "\<not> ?bad_order" by blast
  then show ?thesis
    by cases (simp_all only: component_update_def c Let_def if_True if_False simp_thms option.case, blast+)
qed

lemma component_update_mono:
  "component_update n s i inp = Some x \<Longrightarrow> n \<le> m \<Longrightarrow> component_update m s i inp = Some x"
  using component_update_stages [of s i inp] component_update_parent_mono [of n _ i _ _ x m] by metis

lemma component_move_mono:
  assumes "component_move n s inp = Some x" "n \<le> m"
  shows "component_move m s inp = Some x"
proof (cases "map_of (components s) (mci_id inp)")
  case None
  with assms show ?thesis by (simp add: component_move_def split: if_split_asm)
next
  case (Some c)
  show ?thesis
  proof (cases "has_descendant n s (cn_id c) (mci_newParentId inp)")
    case None
    with assms Some show ?thesis by (simp add: component_move_def split: if_split_asm option.split_asm)
  next
    case (Some b)
    have "component_move m s inp = component_move n s inp"
      using \<open>map_of (components s) (mci_id inp) = Some c\<close> Some has_descendant_mono [OF Some assms(2)]
      by (simp add: component_move_def split: option.split)
    with assms show ?thesis by simp
  qed
qed

lemma component_remove_mono:
  "component_remove n s i = Some x \<Longrightarrow> n \<le> m \<Longrightarrow> component_remove m s i = Some x"
  by (auto simp: component_remove_def dest: cascade_delete_mono split: if_splits option.splits)

section \<open>Cascading delete\<close>

text \<open>The parts of the store a cascade leaves alone.\<close>

definition only_components :: "store \<Rightarrow> store \<Rightarrow> bool" where
  "only_components s s' \<longleftrightarrow>
     s' = s\<lparr>components := components s', components_by_page := components_by_page s',
            components_by_parent := components_by_parent s'\<rparr>"

lemma only_components_refl [simp]: "only_components s s"
  by (simp add: only_components_def)

lemma only_components_trans:
  "only_components s t \<Longrightarrow> only_components t u \<Longrightarrow> only_components s u"
  by (cases s; cases t; cases u) (simp add: only_components_def)

text \<open>A cascade that took out the components \<open>X\<close>.\<close>

definition pruned :: "string set \<Rightarrow> store \<Rightarrow> store \<Rightarrow> bool" where
  "pruned X s s' \<longleftrightarrow> components_inv s' \<and> only_components s s'
     \<and> map_of (components s') = map_of (components s) |` (- X)"

lemma pruned_trans: "pruned X s t \<Longrightarrow> pruned Y t u \<Longrightarrow> pruned (X \<union> Y) s u"
  by (auto simp: pruned_def intro: only_components_trans)

lemma components_inv_tree: "components_inv s \<Longrightarrow> tree_ok (ents s)"
  by (simp add: components_inv_def forest_ok_def)

lemma components_inv_children:
  "components_inv s \<Longrightarrow>
     c \<in> set (list_at (map_of (components_by_parent s)) i) \<longleftrightarrow> (c, i) \<in> parent_rel (ents s)"
  by (auto simp: components_inv_def forest_children)

lemma unlink_leaf:
  assumes inv: "components_inv s" and i: "ents s i = Some c" and leaf: "\<And>j. (j, i) \<notin> parent_rel (ents s)"
  shows "pruned {i} s (unlink_component i c s)"
proof -
  let ?s = "unlink_component i c s"
  have eq: "?s = s\<lparr>components := om_erase i (components s),
      components_by_page := list_drop (cn_pageId c) i (components_by_page s),
      components_by_parent := (case cn_parentId c of None \<Rightarrow> components_by_parent s
          | Some p \<Rightarrow> list_drop p i (components_by_parent s))\<rparr>"
    by (simp add: unlink_component_def component_defs Let_def split: option.split)
  have "forest_ok ((ents s)(i := None)) (grp_del (Some (cn_pageId c)) i (map_of (components_by_page s)))
      (grp_del (cn_parentId c) i (map_of (components_by_parent s))) (component_counter s)"
    using inv leaf by (intro forest_unlink i) (auto simp: components_inv_def)
  then have "components_inv ?s" using inv by (simp add: eq components_inv_def group_om)
  moreover have "ents s |` (- {i}) = (ents s)(i := None)" by (auto simp: restrict_map_def)
  ultimately show ?thesis by (simp add: pruned_def only_components_def eq)
qed

lemma om_erase_absent: "map_of m i = None \<Longrightarrow> om_erase i m = m"
  unfolding om_erase_def by (rule filter_True) (auto simp: map_of_eq_None_iff image_iff)

text \<open>The loop over the children of \<open>p\<close>, given that each child's cascade works.\<close>

lemma cascade_children:
  assumes step: "\<And>t j. components_inv t \<Longrightarrow> ents t j \<noteq> None \<Longrightarrow> card (below (ents t) j) \<le> n \<Longrightarrow>
      \<exists>t'. f j t = Some t' \<and> pruned (below (ents t) j) t t'"
  shows "components_inv t \<Longrightarrow> \<forall>c \<in> set cs. (c, p) \<in> parent_rel (ents t) \<and> card (below (ents t) c) \<le> n \<Longrightarrow>
      distinct cs \<Longrightarrow> \<exists>t'. fold_opt f cs t = Some t' \<and> pruned (\<Union>c \<in> set cs. below (ents t) c) t t'"
proof (induction cs arbitrary: t)
  case Nil
  then show ?case by (simp add: pruned_def restrict_map_def fun_eq_iff)
next
  case (Cons c cs)
  have "ents t c \<noteq> None" using Cons.prems(2) by (auto simp: parent_rel_def)
  with step [OF Cons.prems(1), of c] Cons.prems(2)
  obtain t1 where f: "f c t = Some t1" and cut1: "pruned (below (ents t) c) t t1" by auto
  then have inv1: "components_inv t1" and ents1: "ents t1 = ents t |` (- below (ents t) c)"
    by (auto simp: pruned_def)
  have same: "below (ents t1) d = below (ents t) d \<and> (d, p) \<in> parent_rel (ents t1)" if d: "d \<in> set cs" for d
  proof -
    have dp: "(d, p) \<in> parent_rel (ents t)" and cp: "(c, p) \<in> parent_rel (ents t)" and ne: "c \<noteq> d"
      using Cons.prems(2,3) d by auto
    note disj = below_disjoint [OF components_inv_tree [OF Cons.prems(1)] cp dp ne]
    then have out: "d \<notin> below (ents t) c" using below_self [of d "ents t"] by blast
    have "below (ents t1) d = below (ents t) d - below (ents t) c"
      unfolding ents1 by (rule below_restrict [OF _ out]) (rule below_closed)
    with disj out dp show ?thesis by (auto simp: ents1 parent_rel_restrict)
  qed
  with Cons.prems have "\<forall>d \<in> set cs. (d, p) \<in> parent_rel (ents t1) \<and> card (below (ents t1) d) \<le> n" by simp
  from Cons.IH [OF inv1 this] Cons.prems(3)
  obtain t2 where "fold_opt f cs t1 = Some t2" "pruned (\<Union>d \<in> set cs. below (ents t1) d) t1 t2" by auto
  with f pruned_trans [OF cut1] same show ?case by fastforce
qed

lemma cascade_delete_pruned:
  "components_inv s \<Longrightarrow> ents s i \<noteq> None \<Longrightarrow> card (below (ents s) i) \<le> n \<Longrightarrow>
   \<exists>s'. cascade_delete n i s = Some s' \<and> pruned (below (ents s) i) s s'"
proof (induction n arbitrary: s i)
  case 0
  have "finite (below (ents s) i)" by (intro finite_below finite_dom_map_of)
  with 0 have "below (ents s) i = {}" by simp
  with below_self [of i] show ?case by blast
next
  case (Suc n)
  let ?cs = "list_at (map_of (components_by_parent s)) i"
  note inv = Suc.prems(1) and tree = components_inv_tree [OF Suc.prems(1)]
  note mem = components_inv_children [OF inv]
  obtain c where c: "ents s i = Some c" using Suc.prems(2) by auto
  have "\<forall>d \<in> set ?cs. (d, i) \<in> parent_rel (ents s) \<and> card (below (ents s) d) \<le> n"
    using mem card_below_child [OF tree, of _ i] Suc.prems(3) by fastforce
  moreover have "distinct ?cs" using inv by (simp add: components_inv_def forest_ok_def group_exact_def)
  ultimately obtain s1 where fold: "fold_opt (cascade_delete n) ?cs s = Some s1"
    and cut1: "pruned (\<Union>d \<in> set ?cs. below (ents s) d) s s1"
    using cascade_children [of n "cascade_delete n" s ?cs i] Suc.IH inv by blast
  have X: "below (ents s) i = insert i (\<Union>d \<in> set ?cs. below (ents s) d)"
    using mem by (subst below_children) auto
  have out: "i \<notin> (\<Union>d \<in> set ?cs. below (ents s) d)" using below_strict [OF tree] mem by auto
  have inv1: "components_inv s1" and ents1: "ents s1 = ents s |` (- (\<Union>d \<in> set ?cs. below (ents s) d))"
    using cut1 by (auto simp: pruned_def)
  have leaf: "(j, i) \<notin> parent_rel (ents s1)" for j
    using mem [of j i] below_self [of j "ents s"] unfolding ents1 parent_rel_restrict by blast
  then have "map_of (components_by_parent s1) i = None"
    using components_inv_children [OF inv1, of _ i] inv1 group_exact_absent
    unfolding components_inv_def forest_ok_def by (metis list.set_sel(1) set_empty)
  then have erase: "s1\<lparr>components_by_parent := om_erase i (components_by_parent s1)\<rparr> = s1"
    by (simp add: om_erase_absent)
  have "ents s1 i = Some c" using c out by (simp add: ents1)
  with pruned_trans [OF cut1 unlink_leaf [OF inv1 _ leaf]]
  have done': "pruned (below (ents s) i) s (unlink_component i c s1)" by (simp add: X)
  show ?case
    using fold erase done' c
    by (cases "map_of (components_by_parent s) i") (simp_all add: list_at_def)
qed

lemma component_remove_pruned:
  assumes inv: "components_inv s" and i: "ents s i = Some c" and n: "length (components s) \<le> n"
  shows "\<exists>s'. component_remove n s i = Some (Inr True, s') \<and> pruned (below (ents s) i) s s'"
proof -
  have "i \<noteq> []" using components_inv_ok [OF inv i] by (simp add: component_ok_def)
  moreover have "card (below (ents s) i) \<le> n" using card_below_le [OF i] n by simp
  ultimately show ?thesis using cascade_delete_pruned [OF inv, of i n] i by (auto simp: component_remove_def)
qed

lemma component_remove_inv:
  assumes inv: "components_inv s" and n: "length (components s) \<le> n"
  shows "\<exists>r s'. component_remove n s i = Some (r, s') \<and> components_inv s' \<and> only_components s s'"
proof (cases "i = [] \<or> ents s i = None")
  case True
  with inv show ?thesis by (auto simp: component_remove_def)
next
  case False
  then obtain c where "ents s i = Some c" by auto
  from component_remove_pruned [OF inv this n] show ?thesis by (auto simp: pruned_def)
qed

section \<open>Children\<close>

lemma sort_children_ok:
  assumes "\<And>i. i \<in> set ids \<Longrightarrow> ents s i \<noteq> None"
  shows "sort_children srt s ids = Inr (srt (\<lambda>a b. order_of s a < order_of s b) ids)"
  using assms by (auto simp: sort_children_def)

text \<open>
  Without a filter or a limit the children of a component are the components whose parent
  it is, each once, by ascending order.
\<close>

definition siblings :: "store \<Rightarrow> string option \<Rightarrow> string list \<Rightarrow> bool" where
  "siblings s po ids \<longleftrightarrow> distinct ids
     \<and> (\<forall>i \<in> set ids. \<exists>c. ents s i = Some c \<and> cn_id c = i \<and> cn_parentId c = po)"

lemma component_id: "components_inv s \<Longrightarrow> ents s i = Some c \<Longrightarrow> cn_id c = i"
  using components_inv_ok component_okD by blast

lemma children_siblings:
  assumes "components_inv s"
  shows "siblings s (Some p) (list_at (map_of (components_by_parent s)) p)"
  using assms components_inv_children [OF assms] component_id [OF assms]
  by (auto simp: siblings_def parent_rel_iff components_inv_def forest_ok_def group_exact_def)

lemma sort_siblings:
  assumes srt: "cpp_sort srt" and ids: "siblings s po ids"
  shows "\<exists>ids'. sort_children srt s ids = Inr ids' \<and> siblings s po ids' \<and> set ids' = set ids
    \<and> sorted (map (order_of s) ids')"
proof -
  let ?lt = "\<lambda>a b. order_of s a < order_of s b"
  have weak: "strict_weak ?lt" by (rule strict_weak_key)
  have "sort_children srt s ids = Inr (srt ?lt ids)"
    using ids by (intro sort_children_ok) (auto simp: siblings_def)
  moreover have "sorted (map (order_of s) (srt ?lt ids))"
    using cpp_sort.srt_sorted [OF srt weak, of ids] by (simp add: sorted_by_def sorted_wrt_map not_less)
  ultimately show ?thesis
    using ids cpp_sort.srt_set [OF srt weak, of ids] cpp_sort.srt_distinct [OF srt weak, of ids]
    by (simp add: siblings_def)
qed

lemma siblings_map_order:
  "siblings s po ids \<Longrightarrow> map cn_order (map (\<lambda>i. the (ents s i)) ids) = map (order_of s) ids"
  by (auto simp: siblings_def order_of_def)

lemma siblings_distinct: "siblings s po ids \<Longrightarrow> distinct (map (\<lambda>i. the (ents s i)) ids)"
  by (auto simp: siblings_def distinct_map intro!: inj_onI) (metis option.sel)

lemma get_children_result:
  assumes inv: "components_inv s" and srt: "cpp_sort srt" and p: "ents s p = Some pc"
  shows "\<exists>cs. get_children srt s p None 0 = Inr (Inr cs)
    \<and> set cs = {c. \<exists>i. ents s i = Some c \<and> cn_parentId c = Some p}
    \<and> distinct cs \<and> sorted (map cn_order cs)"
proof -
  let ?ids = "list_at (map_of (components_by_parent s)) p"
  note sib = children_siblings [OF inv, of p]
  have mem: "i \<in> set ?ids \<longleftrightarrow> (\<exists>c. ents s i = Some c \<and> cn_parentId c = Some p)" for i
    using components_inv_children [OF inv] by (simp add: parent_rel_iff)
  obtain ids' where ids': "sort_children srt s ?ids = Inr ids'" "siblings s (Some p) ids'"
      "set ids' = set ?ids" "sorted (map (order_of s) ids')"
    using sort_siblings [OF srt sib] by blast
  let ?cs = "map (\<lambda>i. the (ents s i)) ids'"
  have "p \<noteq> []" using components_inv_ok [OF inv p] by (simp add: component_ok_def)
  then have "get_children srt s p None 0 = Inr (Inr ?cs)"
    using ids'(1) p ids'(3)
    by (cases "map_of (components_by_parent s) p") (simp_all add: get_children_def list_at_def)
  moreover have "set ?cs = {c. \<exists>i. ents s i = Some c \<and> cn_parentId c = Some p}"
    unfolding set_map ids'(3) using mem by (force simp: image_iff)
  ultimately show ?thesis
    using siblings_distinct [OF ids'(2)] siblings_map_order [OF ids'(2)] ids'(4)
    by (intro exI [of _ ?cs]) (simp only: simp_thms)
qed

section \<open>The tree of a page\<close>

text \<open>A listing that visits the components \<open>X\<close>, each once.\<close>

definition lists_all :: "store \<Rightarrow> string set \<Rightarrow> component_node list \<Rightarrow> bool" where
  "lists_all s X out \<longleftrightarrow> distinct (map cn_id out) \<and> cn_id ` set out = X
     \<and> (\<forall>c \<in> set out. ents s (cn_id c) = Some c)"

text \<open>Every component comes after its parent, or has one of the parents \<open>S\<close>.\<close>

fun parents_first :: "string option set \<Rightarrow> component_node list \<Rightarrow> bool" where
  "parents_first S [] = True"
| "parents_first S (c # cs) =
     (cn_parentId c \<in> S \<and> parents_first (insert (Some (cn_id c)) S) cs)"

lemma parents_first_mono: "parents_first S cs \<Longrightarrow> S \<subseteq> T \<Longrightarrow> parents_first T cs"
  by (induction cs arbitrary: S T) (auto, metis insert_mono)

lemma parents_first_append:
  "parents_first S cs \<Longrightarrow> parents_first S ds \<Longrightarrow> parents_first S (cs @ ds)"
  by (induction cs arbitrary: S) (auto intro: parents_first_mono)

lemma lists_all_append:
  "lists_all s X cs \<Longrightarrow> lists_all s Y ds \<Longrightarrow> X \<inter> Y = {} \<Longrightarrow> lists_all s (X \<union> Y) (cs @ ds)"
  by (auto simp: lists_all_def)

lemma lists_all_Cons:
  "lists_all s X cs \<Longrightarrow> ents s i = Some c \<Longrightarrow> cn_id c = i \<Longrightarrow> i \<notin> X \<Longrightarrow>
     lists_all s (insert i X) (c # cs)"
  by (auto simp: lists_all_def)

lemma visit_all_ok:
  assumes f: "\<And>i. i \<in> set ids \<Longrightarrow> \<exists>sub. f i = Some (Inr sub) \<and> lists_all s (below (ents s) i - {i}) sub
      \<and> parents_first {Some i} sub"
    and disj: "\<And>c d. c \<in> set ids \<Longrightarrow> d \<in> set ids \<Longrightarrow> c \<noteq> d \<Longrightarrow> below (ents s) c \<inter> below (ents s) d = {}"
    and sib: "siblings s po ids"
  shows "\<exists>out. visit_all s f ids = Some (Inr out) \<and> lists_all s (\<Union>i \<in> set ids. below (ents s) i) out
    \<and> parents_first {po} out"
  using assms
proof (induction ids)
  case Nil
  then show ?case by (simp add: lists_all_def)
next
  case (Cons i ids)
  obtain c where c: "ents s i = Some c" "cn_id c = i" "cn_parentId c = po"
    using Cons.prems(3) by (auto simp: siblings_def)
  obtain sub where sub: "f i = Some (Inr sub)" "lists_all s (below (ents s) i - {i}) sub"
      "parents_first {Some i} sub"
    using Cons.prems(1) [of i] by auto
  have "siblings s po ids" using Cons.prems(3) by (simp add: siblings_def)
  with Cons.IH Cons.prems(1,2) obtain rest where rest: "visit_all s f ids = Some (Inr rest)"
      "lists_all s (\<Union>j \<in> set ids. below (ents s) j) rest" "parents_first {po} rest"
    by (metis list.set_intros(2))
  have "lists_all s (insert i (below (ents s) i - {i})) (c # sub)"
    using sub(2) c by (intro lists_all_Cons) simp_all
  then have hd: "lists_all s (below (ents s) i) (c # sub)" by (simp add: insert_absorb)
  have "i \<notin> set ids" using Cons.prems(3) by (simp add: siblings_def)
  then have "below (ents s) i \<inter> (\<Union>j \<in> set ids. below (ents s) j) = {}"
    using Cons.prems(2) [of i] by fastforce
  from lists_all_append [OF hd rest(2) this]
  have "lists_all s (\<Union>j \<in> set (i # ids). below (ents s) j) (c # sub @ rest)" by simp
  moreover have "parents_first {po} ((c # sub) @ rest)"
    using c sub(3) rest(3) by (intro parents_first_append) (auto intro: parents_first_mono)
  ultimately show ?case using c sub(1) rest(1) by simp
qed

lemma build_tree_below:
  assumes inv: "components_inv s" and srt: "cpp_sort srt"
  shows "card (below (ents s) p) \<le> n \<Longrightarrow>
    \<exists>out. build_tree srt s page n (Some p) = Some (Inr out)
      \<and> lists_all s (below (ents s) p - {p}) out \<and> parents_first {Some p} out"
proof (induction n arbitrary: p)
  case 0
  have "finite (below (ents s) p)" by (intro finite_below finite_dom_map_of)
  with 0 have "below (ents s) p = {}" by simp
  with below_self [of p] show ?case by blast
next
  case (Suc n)
  let ?ids = "list_at (map_of (components_by_parent s)) p"
  note tree = components_inv_tree [OF inv] and mem = components_inv_children [OF inv]
  obtain ids where ids: "sort_children srt s ?ids = Inr ids" "siblings s (Some p) ids" "set ids = set ?ids"
    using sort_siblings [OF srt children_siblings [OF inv]] by blast
  have "\<exists>out. visit_all s (\<lambda>i. build_tree srt s page n (Some i)) ids = Some (Inr out)
      \<and> lists_all s (\<Union>i \<in> set ids. below (ents s) i) out \<and> parents_first {Some p} out"
  proof (rule visit_all_ok)
    fix i
    assume "i \<in> set ids"
    then have "(i, p) \<in> parent_rel (ents s)" using ids(3) mem by blast
    from card_below_child [OF tree this] Suc.prems have "card (below (ents s) i) \<le> n" by simp
    then show "\<exists>sub. build_tree srt s page n (Some i) = Some (Inr sub)
        \<and> lists_all s (below (ents s) i - {i}) sub \<and> parents_first {Some i} sub"
      by (rule Suc.IH)
  next
    fix c d
    assume "c \<in> set ids" "d \<in> set ids" "c \<noteq> d"
    then show "below (ents s) c \<inter> below (ents s) d = {}"
      using ids(3) mem by (intro below_disjoint [OF tree]) blast+
  qed (rule ids(2))
  moreover have "(\<Union>i \<in> set ids. below (ents s) i) = below (ents s) p - {p}"
    using below_strict [OF tree, of _ p] mem by (subst (2) below_children) (auto simp: ids(3))
  moreover have "collect_children srt s (Some p) page = Inr ids"
    using ids(1) by (simp add: collect_children_def list_at_def)
  ultimately show ?case by simp
qed

text \<open>The components of a page are those below its roots.\<close>

lemma below_same_page:
  assumes tree: "tree_ok E" and r: "E r = Some rc"
  shows "(j, r) \<in> (parent_rel E)\<^sup>* \<Longrightarrow> \<exists>c. E j = Some c \<and> cn_pageId c = cn_pageId rc"
proof (induction rule: converse_rtrancl_induct)
  case base
  show ?case using r by simp
next
  case (step y z)
  then obtain c d where c: "E y = Some c" "cn_parentId c = Some z"
    and d: "E z = Some d" "cn_pageId d = cn_pageId rc" by (auto simp: parent_rel_iff)
  with tree_okD [OF tree c] show ?case by simp
qed

lemma below_some_root:
  assumes tree: "tree_ok E"
  shows "E i = Some c \<Longrightarrow> \<exists>r rc. E r = Some rc \<and> cn_parentId rc = None \<and> i \<in> below E r"
proof -
  have "parent_rel E \<subseteq> dom E \<times> dom E" using tree_okD [OF tree] by (force simp: parent_rel_def)
  then have "finite (parent_rel E)" using tree by (auto simp: tree_ok_def intro: finite_subset)
  then have wf: "wf ((parent_rel E)\<inverse>)" using tree by (simp add: tree_ok_def finite_acyclic_wf_converse)
  show "E i = Some c \<Longrightarrow> \<exists>r rc. E r = Some rc \<and> cn_parentId rc = None \<and> i \<in> below E r"
  proof (induction i arbitrary: c rule: wf_induct_rule [OF wf])
    case (1 i)
    show ?case
    proof (cases "cn_parentId c")
      case None
      with 1 show ?thesis by (intro exI [of _ i]) auto
    next
      case (Some p)
      with 1 have rel: "(i, p) \<in> parent_rel E" by (simp add: parent_rel_iff)
      obtain d where "E p = Some d" using tree_okD [OF tree "1.prems" Some] by blast
      with "1.IH" rel obtain r rc where "E r = Some rc" "cn_parentId rc = None" "p \<in> below E r" by blast
      with rel show ?thesis using below_closed by blast
    qed
  qed
qed

lemma build_tree_page:
  assumes inv: "components_inv s" and srt: "cpp_sort srt" and n: "length (components s) \<le> n"
  shows "\<exists>out. build_tree srt s page (Suc n) None = Some (Inr out)
    \<and> lists_all s {i. \<exists>c. ents s i = Some c \<and> cn_pageId c = page} out \<and> parents_first {None} out"
proof -
  let ?roots = "map fst (filter (\<lambda>(i, c). cn_pageId c = page \<and> cn_parentId c = None) (components s))"
  note tree = components_inv_tree [OF inv]
  have wf: "om_wf (components s)" using inv by (simp add: components_inv_def)
  have mem: "i \<in> set ?roots \<longleftrightarrow> (\<exists>c. ents s i = Some c \<and> cn_pageId c = page \<and> cn_parentId c = None)" for i
    by (force simp: om_find_in [OF wf])
  have "siblings s None ?roots"
    unfolding siblings_def
    using distinct_map_filter [OF om_wf_distinct [OF wf]] mem component_id [OF inv] by blast
  from sort_siblings [OF srt this]
  obtain ids where ids: "sort_children srt s ?roots = Inr ids" "siblings s None ids" "set ids = set ?roots"
    by blast
  have top: "(c, y) \<notin> parent_rel (ents s)" if "c \<in> set ids" for c y
    using that mem ids(3) by (auto simp: parent_rel_iff)
  have "\<exists>out. visit_all s (\<lambda>i. build_tree srt s page n (Some i)) ids = Some (Inr out)
      \<and> lists_all s (\<Union>i \<in> set ids. below (ents s) i) out \<and> parents_first {None} out"
  proof (rule visit_all_ok)
    fix i
    assume "i \<in> set ids"
    then obtain c where "ents s i = Some c" using mem ids(3) by blast
    from card_below_le [OF this] n have "card (below (ents s) i) \<le> n" by simp
    then show "\<exists>sub. build_tree srt s page n (Some i) = Some (Inr sub)
        \<and> lists_all s (below (ents s) i - {i}) sub \<and> parents_first {Some i} sub"
      by (rule build_tree_below [OF inv srt])
  next
    fix c d
    assume cd: "c \<in> set ids" "d \<in> set ids" "c \<noteq> d"
    have sv: "single_valued (parent_rel (ents s))" by (auto simp: single_valued_def parent_rel_def)
    show "below (ents s) c \<inter> below (ents s) d = {}"
    proof (rule ccontr)
      assume "below (ents s) c \<inter> below (ents s) d \<noteq> {}"
      then obtain x where "(x, c) \<in> (parent_rel (ents s))\<^sup>*" "(x, d) \<in> (parent_rel (ents s))\<^sup>*"
        by (auto simp: below_def)
      then have "(c, d) \<in> (parent_rel (ents s))\<^sup>* \<or> (d, c) \<in> (parent_rel (ents s))\<^sup>*"
        by (rule single_valued_confluent [OF sv])
      with top cd show False by (auto elim: converse_rtranclE)
    qed
  qed (rule ids(2))
  moreover have "(\<Union>i \<in> set ids. below (ents s) i) = {i. \<exists>c. ents s i = Some c \<and> cn_pageId c = page}"
    (is "?L = ?R")
  proof
    show "?L \<subseteq> ?R"
    proof
      fix j
      assume "j \<in> ?L"
      then obtain i where "i \<in> set ?roots" "(j, i) \<in> (parent_rel (ents s))\<^sup>*"
        unfolding ids(3) below_def by blast
      with mem below_same_page [OF tree] show "j \<in> ?R" by (metis (mono_tags, lifting) mem_Collect_eq)
    qed
    show "?R \<subseteq> ?L"
    proof
      fix j
      assume "j \<in> ?R"
      then obtain c where c: "ents s j = Some c" "cn_pageId c = page" by blast
      obtain r rc where r: "ents s r = Some rc" "cn_parentId rc = None" "j \<in> below (ents s) r"
        using below_some_root [OF tree c(1)] by blast
      with below_same_page [OF tree r(1), of j] c have "cn_pageId rc = page" by (auto simp: below_def)
      with r mem have "r \<in> set ids" unfolding ids(3) by blast
      with r(3) show "j \<in> ?L" by blast
    qed
  qed
  moreover have "collect_children srt s None page = Inr ids"
    using ids(1) by (simp add: collect_children_def)
  ultimately show ?thesis by simp
qed

section \<open>Move\<close>

lemma move_component_to_Inr:
  "move_component_to s c inp = (r, s') \<Longrightarrow>
     \<exists>c'. r = Inr c' \<and> map_of (components s') = (map_of (components s))(mci_id inp \<mapsto> c')
       \<and> cn_parentId c' = (if mci_newParentId inp = [] then None else Some (mci_newParentId inp))
       \<and> cn_order c' = mci_order inp"
  by (auto simp: move_component_to_def component_defs Let_def split: option.splits)

lemma component_move_Inr:
  assumes inv: "components_inv s" and n: "length (components s) \<le> n"
    and run: "component_move n s inp = Some (Inr c, s')"
  shows "map_of (components s') = (ents s)(mci_id inp \<mapsto> c)
    \<and> cn_parentId c = (if mci_newParentId inp = [] then None else Some (mci_newParentId inp))
    \<and> cn_order c = mci_order inp \<and> mci_newParentId inp \<notin> below (ents s) (mci_id inp)"
proof -
  obtain old where old: "ents s (mci_id inp) = Some old" and ne: "mci_id inp \<noteq> []"
    using run by (auto simp: component_move_def split: if_split_asm option.split_asm)
  have id': "cn_id old = mci_id inp" using component_id [OF inv old] .
  note desc = has_descendant_inv [OF inv old n, of "mci_newParentId inp"]
  have mv: "move_component_to s old inp = (Inr c, s')"
    using run old desc id' by (auto simp: component_move_def split: if_split_asm option.split_asm bool.split_asm)
  have "mci_newParentId inp = [] \<or> (mci_newParentId inp \<noteq> mci_id inp
      \<and> (mci_newParentId inp, mci_id inp) \<notin> (parent_rel (ents s))\<^sup>+)"
    using run old desc id' by (auto simp: component_move_def split: if_split_asm option.split_asm bool.split_asm)
  moreover have "[] \<notin> below (ents s) (mci_id inp)"
    using below_subset [of "ents s" "mci_id inp"] components_inv_ok [OF inv, of "[]"] ne
    by (auto simp: component_ok_def)
  ultimately have "mci_newParentId inp \<notin> below (ents s) (mci_id inp)"
    by (auto simp: below_def rtrancl_eq_or_trancl)
  with move_component_to_Inr [OF mv] show ?thesis by simp
qed

section \<open>The listing\<close>

text \<open>The five-way comparison is the lexicographic order of a tuple.\<close>

lemma component_before_key:
  "component_before a b \<longleftrightarrow>
     (cn_pageId a, cn_parentId a, cn_order a, cn_id a) < (cn_pageId b, cn_parentId b, cn_order b, cn_id b)"
  by (cases "cn_parentId a"; cases "cn_parentId b") (auto simp: component_before_def less_le)

end
