(* ===== verification/Store_Machine.thy ===== *)
theory Store_Machine
  imports Entity_Pages Entity_Sessions Entity_Packages Entity_Workflows Component_Walks
begin

text \<open>
  The store as a state machine: a step is one entity operation, with any input, whatever it
  returns; above it, the transactions with their snapshot.  Every reachable store satisfies
  the invariants of all the collections at once.

  A create needs its counter to stay below \<open>2 ^ 31\<close>: the increment is undefined beyond.
\<close>

inductive store_step :: "store \<Rightarrow> store \<Rightarrow> bool" where
  step_page_create:
    "page_create now s inp = (r, s') \<Longrightarrow> in_int32 (page_counter s + 1) \<Longrightarrow> store_step s s'"
| step_page_update: "page_update s i inp = (r, s') \<Longrightarrow> store_step s s'"
| step_page_remove: "page_remove s i = (b, s') \<Longrightarrow> store_step s s'"
| step_session_create:
    "session_create now s inp = (r, s') \<Longrightarrow> in_int32 (session_counter s + 1) \<Longrightarrow> store_step s s'"
| step_session_get: "session_get now s i = (r, s') \<Longrightarrow> store_step s s'"
| step_session_get_by_token: "session_get_by_token now s t = (r, s') \<Longrightarrow> store_step s s'"
| step_session_update: "session_update s i inp = (r, s') \<Longrightarrow> store_step s s'"
| step_session_remove: "session_remove s i = (b, s') \<Longrightarrow> store_step s s'"
| step_session_list: "session_list srt now s opts = (rs, s') \<Longrightarrow> store_step s s'"
| step_clean_expired: "clean_expired now s = (c, s') \<Longrightarrow> store_step s s'"
| step_first_login: "set_first_login s name flag = (b, s') \<Longrightarrow> store_step s s'"
| step_package_create: "package_create now s inp = (r, s') \<Longrightarrow> store_step s s'"
| step_package_update: "package_update s i inp = (r, s') \<Longrightarrow> store_step s s'"
| step_package_remove: "package_remove s i = (b, s') \<Longrightarrow> store_step s s'"
| step_batch_create: "batch_create clock s inps = (c, s') \<Longrightarrow> store_step s s'"
| step_batch_update: "batch_update s items = (c, s') \<Longrightarrow> store_step s s'"
| step_batch_delete: "batch_delete s ids = (c, s') \<Longrightarrow> store_step s s'"
| step_workflow_create:
    "workflow_create now s inp = (r, s') \<Longrightarrow> in_int32 (workflow_counter s + 1) \<Longrightarrow> store_step s s'"
| step_workflow_update: "workflow_update s i inp = (r, s') \<Longrightarrow> store_step s s'"
| step_workflow_remove: "workflow_remove s i = (b, s') \<Longrightarrow> store_step s s'"
| step_component_create:
    "component_create s inp = (r, s') \<Longrightarrow> in_int32 (component_counter s + 1) \<Longrightarrow> store_step s s'"
| step_component_update: "component_update n s i inp = Some (r, s') \<Longrightarrow> store_step s s'"
| step_component_remove: "component_remove n s i = Some (b, s') \<Longrightarrow> store_step s s'"
| step_component_move: "component_move n s inp = Some (r, s') \<Longrightarrow> store_step s s'"
| step_component_reorder: "component_reorder s us = (b, s') \<Longrightarrow> store_step s s'"
| step_clear: "store_step s (store_clear s)"

inductive reachable :: "store \<Rightarrow> bool" where
  reach_empty: "reachable empty_store"
| reach_step: "reachable s \<Longrightarrow> store_step s s' \<Longrightarrow> reachable s'"

definition store_inv :: "store \<Rightarrow> bool" where
  "store_inv s \<longleftrightarrow> pages_inv s \<and> sessions_inv s \<and> packages_inv s \<and> workflows_inv s \<and> components_inv s"

section \<open>Frames: what each operation leaves alone\<close>

text \<open>The store without one collection: two stores that agree on it differ in that collection only.\<close>

definition but_pages :: "store \<Rightarrow> store" where
  "but_pages s = s\<lparr>pages := [], page_paths := [], page_counter := 0\<rparr>"

definition but_sessions :: "store \<Rightarrow> store" where
  "but_sessions s = s\<lparr>sessions := [], session_tokens := [], session_counter := 0\<rparr>"

definition but_packages :: "store \<Rightarrow> store" where
  "but_packages s = s\<lparr>packages := [], package_keys := []\<rparr>"

definition but_workflows :: "store \<Rightarrow> store" where
  "but_workflows s = s\<lparr>workflows := [], workflow_names := [], workflow_counter := 0\<rparr>"

definition but_components :: "store \<Rightarrow> store" where
  "but_components s = s\<lparr>components := [], components_by_page := [], components_by_parent := [], component_counter := 0\<rparr>"

definition but_users :: "store \<Rightarrow> store" where
  "but_users s = s\<lparr>users := []\<rparr>"

text \<open>A change to one collection keeps the invariants of the others.\<close>

lemma but_pages_inv:
  assumes "but_pages s' = but_pages s" "store_inv s" "pages_inv s'"
  shows "store_inv s'"
proof -
  have sessions: "sessions_inv (but_pages t) = sessions_inv t" for t by (simp add: sessions_inv_def but_pages_def)
  have packages: "packages_inv (but_pages t) = packages_inv t" for t by (simp add: packages_inv_def but_pages_def)
  have workflows: "workflows_inv (but_pages t) = workflows_inv t" for t by (simp add: workflows_inv_def but_pages_def)
  have components: "components_inv (but_pages t) = components_inv t" for t by (simp add: components_inv_def but_pages_def)
  from assms show ?thesis unfolding store_inv_def by (metis sessions packages workflows components)
qed

lemma but_sessions_inv:
  assumes "but_sessions s' = but_sessions s" "store_inv s" "sessions_inv s'"
  shows "store_inv s'"
proof -
  have pages: "pages_inv (but_sessions t) = pages_inv t" for t by (simp add: pages_inv_def but_sessions_def)
  have packages: "packages_inv (but_sessions t) = packages_inv t" for t by (simp add: packages_inv_def but_sessions_def)
  have workflows: "workflows_inv (but_sessions t) = workflows_inv t" for t by (simp add: workflows_inv_def but_sessions_def)
  have components: "components_inv (but_sessions t) = components_inv t" for t by (simp add: components_inv_def but_sessions_def)
  from assms show ?thesis unfolding store_inv_def by (metis pages packages workflows components)
qed

lemma but_packages_inv:
  assumes "but_packages s' = but_packages s" "store_inv s" "packages_inv s'"
  shows "store_inv s'"
proof -
  have pages: "pages_inv (but_packages t) = pages_inv t" for t by (simp add: pages_inv_def but_packages_def)
  have sessions: "sessions_inv (but_packages t) = sessions_inv t" for t by (simp add: sessions_inv_def but_packages_def)
  have workflows: "workflows_inv (but_packages t) = workflows_inv t" for t by (simp add: workflows_inv_def but_packages_def)
  have components: "components_inv (but_packages t) = components_inv t" for t by (simp add: components_inv_def but_packages_def)
  from assms show ?thesis unfolding store_inv_def by (metis pages sessions workflows components)
qed

lemma but_workflows_inv:
  assumes "but_workflows s' = but_workflows s" "store_inv s" "workflows_inv s'"
  shows "store_inv s'"
proof -
  have pages: "pages_inv (but_workflows t) = pages_inv t" for t by (simp add: pages_inv_def but_workflows_def)
  have sessions: "sessions_inv (but_workflows t) = sessions_inv t" for t by (simp add: sessions_inv_def but_workflows_def)
  have packages: "packages_inv (but_workflows t) = packages_inv t" for t by (simp add: packages_inv_def but_workflows_def)
  have components: "components_inv (but_workflows t) = components_inv t" for t by (simp add: components_inv_def but_workflows_def)
  from assms show ?thesis unfolding store_inv_def by (metis pages sessions packages components)
qed

lemma but_components_inv:
  assumes "but_components s' = but_components s" "store_inv s" "components_inv s'"
  shows "store_inv s'"
proof -
  have pages: "pages_inv (but_components t) = pages_inv t" for t by (simp add: pages_inv_def but_components_def)
  have sessions: "sessions_inv (but_components t) = sessions_inv t" for t by (simp add: sessions_inv_def but_components_def)
  have packages: "packages_inv (but_components t) = packages_inv t" for t by (simp add: packages_inv_def but_components_def)
  have workflows: "workflows_inv (but_components t) = workflows_inv t" for t by (simp add: workflows_inv_def but_components_def)
  from assms show ?thesis unfolding store_inv_def by (metis pages sessions packages workflows)
qed

lemma but_users_inv:
  assumes "but_users s' = but_users s" "store_inv s"
  shows "store_inv s'"
proof -
  have pages: "pages_inv (but_users t) = pages_inv t" for t by (simp add: pages_inv_def but_users_def)
  have sessions: "sessions_inv (but_users t) = sessions_inv t" for t by (simp add: sessions_inv_def but_users_def)
  have packages: "packages_inv (but_users t) = packages_inv t" for t by (simp add: packages_inv_def but_users_def)
  have workflows: "workflows_inv (but_users t) = workflows_inv t" for t by (simp add: workflows_inv_def but_users_def)
  have components: "components_inv (but_users t) = components_inv t" for t by (simp add: components_inv_def but_users_def)
  from assms show ?thesis unfolding store_inv_def by (metis pages sessions packages workflows components)
qed

subsection \<open>Page operations\<close>

lemma but_pages_put [simp]:
  "but_pages (put_page i p s) = but_pages s" "but_pages (del_page i s) = but_pages s"
  "but_pages (put_page_path k i s) = but_pages s" "but_pages (del_page_path k s) = but_pages s"
  "but_pages (s\<lparr>page_counter := n\<rparr>) = but_pages s"
  by (simp_all add: but_pages_def page_ops)

lemma page_create_frame: "page_create now s inp = (r, s') \<Longrightarrow> but_pages s' = but_pages s"
  by (auto simp: page_create_def Let_def split: if_split_asm)

lemma page_update_path_frame:
  "page_update_path s i p inp = Inr (q, s') \<Longrightarrow> but_pages s' = but_pages s"
  by (auto simp: page_update_path_def Let_def split: if_split_asm option.split_asm)

lemma page_update_frame: "page_update s i inp = (r, s') \<Longrightarrow> but_pages s' = but_pages s"
  by (auto simp: page_update_def Let_def
      dest!: page_update_path_frame split: if_split_asm option.split_asm sum.split_asm)

lemma page_remove_frame: "page_remove s i = (r, s') \<Longrightarrow> but_pages s' = but_pages s"
  by (auto simp: page_remove_def split: if_split_asm option.split_asm)

subsection \<open>Session operations\<close>

lemma but_sessions_put [simp]:
  "but_sessions (put_session i p s) = but_sessions s" "but_sessions (del_session i s) = but_sessions s"
  "but_sessions (put_session_token k i s) = but_sessions s"
  "but_sessions (del_session_token k s) = but_sessions s"
  "but_sessions (s\<lparr>session_counter := n\<rparr>) = but_sessions s"
  by (simp_all add: but_sessions_def session_ops)

lemma session_create_frame: "session_create now s inp = (r, s') \<Longrightarrow> but_sessions s' = but_sessions s"
  by (auto simp: session_create_def Let_def split: if_split_asm)

lemma session_get_frame: "session_get now s i = (r, s') \<Longrightarrow> but_sessions s' = but_sessions s"
  by (auto simp: session_get_def split: if_split_asm option.split_asm)

lemma session_get_by_token_frame:
  "session_get_by_token now s t = (r, s') \<Longrightarrow> but_sessions s' = but_sessions s"
  by (auto simp: session_get_by_token_def dest: session_get_frame split: if_split_asm option.split_asm)

lemma session_update_token_frame:
  "session_update_token s i x inp = Inr (y, s') \<Longrightarrow> but_sessions s' = but_sessions s"
  by (auto simp: session_update_token_def split: if_split_asm option.split_asm)

lemma session_update_frame: "session_update s i inp = (r, s') \<Longrightarrow> but_sessions s' = but_sessions s"
  by (auto simp: session_update_def Let_def
      dest!: session_update_token_frame split: if_split_asm option.split_asm sum.split_asm)

lemma session_remove_frame: "session_remove s i = (r, s') \<Longrightarrow> but_sessions s' = but_sessions s"
  by (auto simp: session_remove_def split: if_split_asm option.split_asm)

lemma drop_sessions_frame: "but_sessions (drop_sessions is s) = but_sessions s"
  by (induction "is" s rule: drop_sessions.induct) (simp_all split: option.split)

lemma clean_expired_frame: "clean_expired now s = (r, s') \<Longrightarrow> but_sessions s' = but_sessions s"
  by (auto simp: clean_expired_def Let_def drop_sessions_frame)

lemma session_list_state: "session_list srt now s opts = (rs, s') \<Longrightarrow> \<exists>c. clean_expired now s = (c, s')"
  by (auto simp: session_list_def clean_expired_def Let_def)

lemma set_first_login_frame: "set_first_login s name flag = (r, s') \<Longrightarrow> but_users s' = but_users s"
  by (auto simp: set_first_login_def but_users_def split: if_split_asm option.split_asm)

subsection \<open>Package operations\<close>

lemma but_packages_put [simp]:
  "but_packages (put_package i p s) = but_packages s" "but_packages (del_package i s) = but_packages s"
  "but_packages (put_package_key k i s) = but_packages s"
  "but_packages (del_package_key k s) = but_packages s"
  by (simp_all add: but_packages_def package_ops)

lemma package_create_frame: "package_create now s inp = (r, s') \<Longrightarrow> but_packages s' = but_packages s"
  by (auto simp: package_create_def Let_def split: if_split_asm)

lemma package_update_frame: "package_update s i inp = (r, s') \<Longrightarrow> but_packages s' = but_packages s"
  by (auto simp: package_update_def Let_def split: if_split_asm option.split_asm)

lemma package_remove_frame: "package_remove s i = (r, s') \<Longrightarrow> but_packages s' = but_packages s"
  by (auto simp: package_remove_def split: if_split_asm option.split_asm)

lemma undo_packages_frame: "but_packages (undo_packages is s) = but_packages s"
  by (induction "is" s rule: undo_packages.induct) (simp_all split: option.split)

lemma batch_create_frame: "batch_create clock s inps = (r, s') \<Longrightarrow> but_packages s' = but_packages s"
proof -
  have "batch_create_from clock s cs inps = (r, s') \<Longrightarrow> but_packages s' = but_packages s" for cs
    by (induction clock s cs inps rule: batch_create_from.induct)
       (force simp: undo_packages_frame dest: package_create_frame split: prod.split_asm sum.split_asm)+
  then show "batch_create clock s inps = (r, s') \<Longrightarrow> but_packages s' = but_packages s"
    by (auto simp: batch_create_def split: if_split_asm)
qed

lemma batch_update_frame: "batch_update s items = (r, s') \<Longrightarrow> but_packages s' = but_packages s"
proof -
  have "batch_update_from s n items = (r, s') \<Longrightarrow> but_packages s' = but_packages s" for n
    by (induction s n items rule: batch_update_from.induct)
       (force dest: package_update_frame split: prod.split_asm sum.split_asm)+
  then show "batch_update s items = (r, s') \<Longrightarrow> but_packages s' = but_packages s"
    by (auto simp: batch_update_def split: if_split_asm)
qed

lemma batch_delete_frame: "batch_delete s ids = (r, s') \<Longrightarrow> but_packages s' = but_packages s"
proof -
  have "batch_delete_from s n ids = (r, s') \<Longrightarrow> but_packages s' = but_packages s" for n
    by (induction s n ids rule: batch_delete_from.induct)
       (force dest: package_remove_frame split: prod.split_asm sum.split_asm)+
  then show "batch_delete s ids = (r, s') \<Longrightarrow> but_packages s' = but_packages s"
    by (auto simp: batch_delete_def split: if_split_asm)
qed

subsection \<open>Workflow operations\<close>

lemma but_workflows_put [simp]:
  "but_workflows (put_workflow i p s) = but_workflows s" "but_workflows (del_workflow i s) = but_workflows s"
  "but_workflows (put_workflow_name k i s) = but_workflows s"
  "but_workflows (del_workflow_name k s) = but_workflows s"
  "but_workflows (s\<lparr>workflow_counter := n\<rparr>) = but_workflows s"
  by (simp_all add: but_workflows_def workflow_ops)

lemma workflow_create_frame: "workflow_create now s inp = (r, s') \<Longrightarrow> but_workflows s' = but_workflows s"
  by (auto simp: workflow_create_def Let_def split: if_split_asm)

lemma workflow_update_frame: "workflow_update s i inp = (r, s') \<Longrightarrow> but_workflows s' = but_workflows s"
  by (auto simp: workflow_update_def Let_def split: if_split_asm option.split_asm)

lemma workflow_remove_frame: "workflow_remove s i = (r, s') \<Longrightarrow> but_workflows s' = but_workflows s"
  by (auto simp: workflow_remove_def split: if_split_asm option.split_asm)

subsection \<open>Component operations\<close>

lemma but_components_put [simp]:
  "but_components (put_component i c s) = but_components s"
  "but_components (add_component_to_page s p i) = but_components s"
  "but_components (remove_component_from_page s p i) = but_components s"
  "but_components (add_component_to_parent s p i) = but_components s"
  "but_components (remove_component_from_parent s p i) = but_components s"
  "but_components (s\<lparr>component_counter := n\<rparr>) = but_components s"
  "but_components (s\<lparr>components := m\<rparr>) = but_components s"
  "but_components (s\<lparr>components_by_parent := b\<rparr>) = but_components s"
  by (simp_all add: but_components_def component_defs)

lemma component_create_frame: "component_create s inp = (r, s') \<Longrightarrow> but_components s' = but_components s"
  by (auto simp: component_create_def Let_def split: if_split_asm option.split_asm)

lemma component_update_parent_frame:
  "component_update_parent n s i c po = Some (r, s') \<Longrightarrow> but_components s' = but_components s"
  by (auto simp: component_update_parent_def Let_def
      split: if_split_asm option.split_asm bool.split_asm)

lemma component_update_frame:
  assumes "component_update n s i inp = Some (r, s')"
  shows "but_components s' = but_components s"
proof (cases "ents s i")
  case None
  with assms show ?thesis by (auto simp: component_update_def split: if_split_asm)
next
  case (Some c)
  with assms show ?thesis
    by (auto simp: component_update_def Let_def dest!: component_update_parent_frame split: if_split_asm)
qed

lemma unlink_component_frame [simp]: "but_components (unlink_component i c s) = but_components s"
  by (simp add: unlink_component_def Let_def split: option.split)

lemma fold_opt_keeps:
  "(\<And>x t u. f x t = Some u \<Longrightarrow> g u = g t) \<Longrightarrow> fold_opt f xs s = Some s' \<Longrightarrow> g s' = g s"
proof (induction xs arbitrary: s)
  case Nil
  then show ?case by simp
next
  case (Cons x xs)
  then obtain t where t: "f x s = Some t" "fold_opt f xs t = Some s'" by (auto split: option.split_asm)
  from Cons.IH [OF Cons.prems(1) t(2)] Cons.prems(1) [OF t(1)] show ?case by simp
qed

lemma cascade_delete_frame: "cascade_delete n i s = Some s' \<Longrightarrow> but_components s' = but_components s"
proof (induction n arbitrary: i s s')
  case 0
  then show ?case by simp
next
  case (Suc n)
  have "but_components u = but_components t" if "fold_opt (cascade_delete n) cs t = Some u" for cs t u
    using Suc.IH that by (rule fold_opt_keeps)
  with Suc.prems show ?case by (auto split: option.split_asm)
qed

lemma component_remove_frame:
  "component_remove n s i = Some (r, s') \<Longrightarrow> but_components s' = but_components s"
  by (auto simp: component_remove_def dest: cascade_delete_frame split: if_split_asm option.split_asm)

lemma move_component_to_frame:
  "move_component_to s c inp = (r, s') \<Longrightarrow> but_components s' = but_components s"
  by (auto simp: move_component_to_def Let_def split: option.split_asm if_split_asm)

lemma component_move_frame:
  "component_move n s inp = Some (r, s') \<Longrightarrow> but_components s' = but_components s"
  by (auto simp: component_move_def dest: move_component_to_frame
      split: if_split_asm option.split_asm bool.split_asm)

lemma reorder_apply_frame: "but_components (reorder_apply s us) = but_components s"
  by (induction s us rule: reorder_apply.induct) (simp_all split: option.split)

lemma component_reorder_frame:
  "component_reorder s us = (r, s') \<Longrightarrow> but_components s' = but_components s"
  by (auto simp: component_reorder_def reorder_apply_frame split: if_split_asm option.split_asm)

section \<open>The invariant\<close>

lemma store_inv_empty: "store_inv empty_store"
  by (simp add: store_inv_def pages_inv_empty sessions_inv_empty packages_inv_empty
      workflows_inv_empty components_inv_empty)

lemma component_update_keeps:
  assumes inv: "components_inv s" and run: "component_update n s i inp = Some (r, s')"
  shows "components_inv s'"
  using component_update_inv [OF inv max.cobounded2, where i = i and inp = inp and ?a1 = n]
    component_update_mono [OF run max.cobounded1, of "length (components s)"] by auto

lemma component_move_keeps:
  assumes inv: "components_inv s" and run: "component_move n s inp = Some (r, s')"
  shows "components_inv s'"
  using component_move_inv [OF inv max.cobounded2, where inp = inp and ?a1 = n]
    component_move_mono [OF run max.cobounded1, of "length (components s)"] by auto

lemma component_remove_keeps:
  assumes inv: "components_inv s" and run: "component_remove n s i = Some (r, s')"
  shows "components_inv s'"
  using component_remove_inv [OF inv max.cobounded2, where i = i and ?a1 = n]
    component_remove_mono [OF run max.cobounded1, of "length (components s)"] by auto

lemmas pages_keep = page_create_inv page_update_inv page_remove_inv
lemmas sessions_keep = session_create_inv session_get_inv session_get_by_token_inv
  session_update_inv session_remove_inv clean_expired_inv
lemmas packages_keep = package_create_inv package_update_inv package_remove_inv
  batch_create_inv batch_update_inv batch_delete_inv
lemmas workflows_keep = workflow_create_inv workflow_update_inv workflow_remove_inv
lemmas components_keep = component_create_inv component_update_keeps component_remove_keeps
  component_move_keeps component_reorder_inv [THEN conjunct1]

lemmas pages_frame = page_create_frame page_update_frame page_remove_frame
lemmas sessions_frame = session_create_frame session_get_frame session_get_by_token_frame
  session_update_frame session_remove_frame clean_expired_frame
lemmas packages_frame = package_create_frame package_update_frame package_remove_frame
  batch_create_frame batch_update_frame batch_delete_frame
lemmas workflows_frame = workflow_create_frame workflow_update_frame workflow_remove_frame
lemmas components_frame = component_create_frame component_update_frame component_remove_frame
  component_move_frame component_reorder_frame

text \<open>Each step changes one collection, whose invariant it keeps, or the users, or clears.\<close>

lemma store_step_kinds:
  assumes "store_step s s'" "store_inv s"
  shows "but_pages s' = but_pages s \<and> pages_inv s' \<or> but_sessions s' = but_sessions s \<and> sessions_inv s'
    \<or> but_packages s' = but_packages s \<and> packages_inv s' \<or> but_workflows s' = but_workflows s \<and> workflows_inv s'
    \<or> but_components s' = but_components s \<and> components_inv s'
    \<or> but_users s' = but_users s \<or> s' = empty_store"
proof -
  have inv: "pages_inv s" "sessions_inv s" "packages_inv s" "workflows_inv s" "components_inv s"
    using assms(2) by (simp_all add: store_inv_def)
  from assms(1) show ?thesis
  proof cases
    case (step_session_list srt now opts rs)
    then obtain c where "clean_expired now s = (c, s')" using session_list_state by blast
    with inv show ?thesis by (simp add: clean_expired_inv clean_expired_frame)
  qed (simp_all add: store_clear_eq,
      (use inv in \<open>blast dest: pages_frame sessions_frame packages_frame workflows_frame
        components_frame set_first_login_frame intro: pages_keep sessions_keep packages_keep
        workflows_keep components_keep\<close>)+)
qed

lemma store_step_inv: "store_step s s' \<Longrightarrow> store_inv s \<Longrightarrow> store_inv s'"
  using store_step_kinds [of s s'] but_pages_inv but_sessions_inv but_packages_inv
    but_workflows_inv but_components_inv but_users_inv store_inv_empty by blast

lemma reachable_inv: "reachable s \<Longrightarrow> store_inv s"
  by (induction rule: reachable.induct) (auto intro: store_inv_empty store_step_inv)

lemma store_steps_inv: "store_step\<^sup>*\<^sup>* s s' \<Longrightarrow> store_inv s \<Longrightarrow> store_inv s'"
  by (induction rule: rtranclp_induct) (auto intro: store_step_inv)

section \<open>No operation adds a user\<close>

lemma but_pages_users: "but_pages s' = but_pages s \<Longrightarrow> users s' = users s"
  by (drule arg_cong [where f = users]) (simp add: but_pages_def)

lemma but_sessions_users: "but_sessions s' = but_sessions s \<Longrightarrow> users s' = users s"
  by (drule arg_cong [where f = users]) (simp add: but_sessions_def)

lemma but_packages_users: "but_packages s' = but_packages s \<Longrightarrow> users s' = users s"
  by (drule arg_cong [where f = users]) (simp add: but_packages_def)

lemma but_workflows_users: "but_workflows s' = but_workflows s \<Longrightarrow> users s' = users s"
  by (drule arg_cong [where f = users]) (simp add: but_workflows_def)

lemma but_components_users: "but_components s' = but_components s \<Longrightarrow> users s' = users s"
  by (drule arg_cong [where f = users]) (simp add: but_components_def)

lemma store_step_users:
  assumes "store_step s s'" and u: "users s = []"
  shows "users s' = []"
proof -
  note same = but_pages_users [of s' s] but_sessions_users [of s' s] but_packages_users [of s' s]
    but_workflows_users [of s' s] but_components_users [of s' s]
  from assms(1) show ?thesis
  proof cases
    case (step_session_list srt now opts rs)
    then obtain c where "clean_expired now s = (c, s')" using session_list_state by blast
    with u same clean_expired_frame show ?thesis by metis
  next
    case (step_first_login name flag b)
    with u show ?thesis by (auto simp: set_first_login_def split: if_splits)
  next
    case step_clear
    then show ?thesis by (simp add: store_clear_eq empty_store_def)
  qed (use u same in \<open>metis pages_frame sessions_frame packages_frame workflows_frame components_frame\<close>)+
qed

lemma reachable_no_users: "reachable s \<Longrightarrow> users s = []"
  by (induction rule: reachable.induct) (simp_all add: empty_store_def store_step_users)

section \<open>Transactions\<close>

text \<open>What can happen between a begin and its rollback: steps, and refused begins.\<close>

inductive tx_run :: "tx_store \<Rightarrow> tx_store \<Rightarrow> bool" where
  tx_start: "tx_run t t"
| tx_step: "tx_run t u \<Longrightarrow> store_step (live u) s \<Longrightarrow> tx_run t (u\<lparr>live := s\<rparr>)"
| tx_begin_again: "tx_run t u \<Longrightarrow> begin_transaction u = (False, u') \<Longrightarrow> tx_run t u'"

lemma begin_transaction_ok:
  "begin_transaction t = (True, t') \<longleftrightarrow>
     \<not> transaction_active t \<and> t' = t\<lparr>snapshot := Some (live t), transaction_active := True\<rparr>"
  by (auto simp: begin_transaction_def)

lemma begin_transaction_refused:
  "begin_transaction t = (False, t') \<longleftrightarrow> transaction_active t \<and> t' = t"
  by (auto simp: begin_transaction_def)

lemma tx_run_snapshot:
  "tx_run t u \<Longrightarrow> snapshot u = snapshot t \<and> transaction_active u = transaction_active t"
  by (induction rule: tx_run.induct) (auto simp: begin_transaction_refused)

lemma tx_run_live: "tx_run t u \<Longrightarrow> store_step\<^sup>*\<^sup>* (live t) (live u)"
  by (induction rule: tx_run.induct) (auto simp: begin_transaction_refused intro: rtranclp.rtrancl_into_rtrancl)

lemma rollback_restores:
  assumes b: "begin_transaction t = (True, t1)" and run: "tx_run t1 t2"
  shows "rollback_transaction t2 = (True, t\<lparr>snapshot := None, transaction_active := False\<rparr>)"
proof -
  have "snapshot t2 = Some (live t)" "transaction_active t2"
    using tx_run_snapshot [OF run] b by (simp_all add: begin_transaction_ok)
  then show ?thesis by (cases t; cases t2) (simp add: rollback_transaction_def)
qed

lemma commit_keeps:
  assumes b: "begin_transaction t = (True, t1)" and run: "tx_run t1 t2"
  shows "commit_transaction t2 = (True, t2\<lparr>snapshot := None, transaction_active := False\<rparr>)"
  using tx_run_snapshot [OF run] b by (simp add: begin_transaction_ok commit_transaction_def)

end
