(* ===== verification/Entity_Properties.thy ===== *)
theory Entity_Properties
  imports Store_Machine
begin

text \<open>
  The properties of the entity operations and of the store they share, each with an example
  of the stores it speaks of.
\<close>

section \<open>An example store\<close>

definition demo_page :: create_page_input where
  "demo_page = \<lparr>cpi_tenantId = None, cpi_packageId = None, cpi_path = ''/home'', cpi_title = ''Home'',
     cpi_description = None, cpi_icon = None, cpi_component = None, cpi_level = 1,
     cpi_requiresAuth = False, cpi_requiredRole = None, cpi_parentPath = None, cpi_sortOrder = 0,
     cpi_isPublished = True, cpi_params = None, cpi_meta = None\<rparr>"

definition demo_page_store :: store where
  "demo_page_store = snd (page_create 7 empty_store demo_page)"

definition demo_component :: "string option \<Rightarrow> string \<Rightarrow> int \<Rightarrow> create_component_input" where
  "demo_component p t n = \<lparr>cci_pageId = ''page_00000001'', cci_parentId = p, cci_type = t,
     cci_childIds = ''[]'', cci_order = n\<rparr>"

definition demo_forest1 :: store where
  "demo_forest1 = snd (component_create demo_page_store (demo_component None ''Box'' 0))"

definition demo_forest :: store where
  "demo_forest = snd (component_create demo_forest1
     (demo_component (Some ''component_00000001'') ''Text'' 3))"

lemma demo_page_store_eval: "page_counter demo_page_store = 1 \<and> component_counter demo_page_store = 0
    \<and> dom (map_of (pages demo_page_store)) = {''page_00000001''}"
proof -
  have "page_counter demo_page_store = 1 \<and> component_counter demo_page_store = 0
      \<and> map fst (pages demo_page_store) = [''page_00000001'']" by code_simp
  then show ?thesis by (simp add: dom_map_of_conv_image_fst flip: set_map)
qed

lemma demo_forest_counters: "component_counter demo_forest1 = 1 \<and> component_counter demo_forest = 2"
  by code_simp

lemma demo_page_reachable: "reachable demo_page_store"
proof -
  have "page_create 7 empty_store demo_page = (fst (page_create 7 empty_store demo_page), demo_page_store)"
    by (simp add: demo_page_store_def)
  then have "store_step empty_store demo_page_store"
    by (rule step_page_create) (simp add: empty_store_def in_int32_def)
  with reach_empty show ?thesis by (rule reach_step)
qed

lemma demo_forest1_reachable: "reachable demo_forest1"
proof -
  have "component_create demo_page_store (demo_component None ''Box'' 0) =
      (fst (component_create demo_page_store (demo_component None ''Box'' 0)), demo_forest1)"
    by (simp add: demo_forest1_def)
  then have "store_step demo_page_store demo_forest1"
    by (rule step_component_create) (simp add: demo_page_store_eval in_int32_def)
  with demo_page_reachable show ?thesis by (rule reach_step)
qed

lemma demo_forest_reachable: "reachable demo_forest"
proof -
  have "component_create demo_forest1 (demo_component (Some ''component_00000001'') ''Text'' 3) =
      (fst (component_create demo_forest1 (demo_component (Some ''component_00000001'') ''Text'' 3)), demo_forest)"
    by (simp add: demo_forest_def)
  then have "store_step demo_forest1 demo_forest"
    by (rule step_component_create) (simp add: demo_forest_counters in_int32_def)
  with demo_forest1_reachable show ?thesis by (rule reach_step)
qed

lemma demo_forest_parent:
  "map_option cn_parentId (ents demo_forest ''component_00000002'') = Some (Some ''component_00000001'')
   \<and> map_option cn_parentId (ents demo_forest ''component_00000001'') = Some None
   \<and> map fst (components demo_forest) = [''component_00000001'', ''component_00000002'']"
  by code_simp

lemma demo_forest_page: "map_of (pages demo_forest) ''page_00000001'' \<noteq> None"
proof -
  have "map fst (pages demo_forest) = [''page_00000001'']" by code_simp
  then have "''page_00000001'' \<in> fst ` set (pages demo_forest)" by (simp flip: set_map)
  then show ?thesis by (simp only: map_of_eq_None_iff) simp
qed

section \<open>The store as a whole\<close>

text \<open>
  C1: In every store that can be reached from the empty one by entity operations, whatever
  they return, all secondary indexes agree with their collections, every entity passes its
  validation and has an id its counter has handed out, and the components form a forest.
\<close>

theorem reachable_store_inv: "reachable s \<Longrightarrow> store_inv s"
  by (rule reachable_inv)

theorem reachable_store_inv_witness:
  "length (components demo_forest) = 2 \<and> store_inv demo_forest"
proof -
  have "length (map fst (components demo_forest)) = 2" by (simp only: demo_forest_parent) simp
  with reachable_store_inv [OF demo_forest_reachable] show ?thesis by simp
qed

text \<open>
  A rollback gives back exactly the store there was when the transaction began,
  whatever operations ran in between and whatever further begins were refused.
\<close>

theorem transaction_rollback:
  assumes "begin_transaction t = (True, t1)" and "tx_run t1 t2"
  shows "rollback_transaction t2 = (True, t\<lparr>snapshot := None, transaction_active := False\<rparr>)"
  by (rule rollback_restores [OF assms])

theorem transaction_rollback_witness:
  "\<exists>t1. begin_transaction \<lparr>live = empty_store, snapshot = None, transaction_active = False\<rparr> = (True, t1)
     \<and> rollback_transaction (t1\<lparr>live := demo_page_store\<rparr>) =
         (True, \<lparr>live = empty_store, snapshot = None, transaction_active = False\<rparr>)"
proof -
  let ?t = "\<lparr>live = empty_store, snapshot = None, transaction_active = False\<rparr>"
  let ?t1 = "?t\<lparr>snapshot := Some empty_store, transaction_active := True\<rparr>"
  have b: "begin_transaction ?t = (True, ?t1)" by (simp add: begin_transaction_ok)
  have "page_create 7 (live ?t1) demo_page = (fst (page_create 7 empty_store demo_page), demo_page_store)"
    by (simp add: demo_page_store_def)
  then have "store_step (live ?t1) demo_page_store"
    by (rule step_page_create) (simp add: empty_store_def in_int32_def)
  with tx_start have "tx_run ?t1 (?t1\<lparr>live := demo_page_store\<rparr>)" by (rule tx_step)
  from transaction_rollback [OF b this] b show ?thesis by (intro exI [of _ ?t1]) simp
qed

text \<open>
  No operation on the store ever adds a user, and a session may only be created for a
  user of the store: on every reachable store \<^verbatim>\<open>createSession\<close> fails and changes nothing.
\<close>

theorem session_create_never_succeeds:
  "reachable s \<Longrightarrow> \<exists>e. session_create now s inp = (Inl e, s)"
  using reachable_no_users [of s] by (auto simp: session_create_def)

theorem session_create_never_succeeds_witness:
  "\<exists>e. session_create 0 demo_forest \<lparr>csi_userId = ''u1'', csi_token = ''t'', csi_expiresAt = 9,
     csi_createdAt = None, csi_lastActivity = None, csi_ipAddress = None, csi_userAgent = None\<rparr> = (Inl e, demo_forest)"
  by (rule session_create_never_succeeds) (rule demo_forest_reachable)

section \<open>Components\<close>

text \<open>
  C2: The tree of a page lists every component of the page once and nothing else, each
  component after its parent; the walk ends, with any fuel above the number of components.
\<close>

theorem page_tree_complete:
  assumes "reachable s" and "cpp_sort srt" and "map_of (pages s) page \<noteq> None" and "length (components s) < n"
  shows "\<exists>out. get_tree srt n s page = Some (Inr (Inr out))
    \<and> distinct (map cn_id out)
    \<and> set out = {c. \<exists>i. map_of (components s) i = Some c \<and> cn_pageId c = page}
    \<and> parents_first {None} out"
proof -
  have inv: "components_inv s" "pages_inv s" using reachable_inv [OF assms(1)] by (simp_all add: store_inv_def)
  obtain m where m: "n = Suc m" "length (components s) \<le> m" using assms(4) by (cases n) auto
  obtain out where out: "build_tree srt s page n None = Some (Inr out)"
      "lists_all s {i. \<exists>c. ents s i = Some c \<and> cn_pageId c = page} out" "parents_first {None} out"
    using build_tree_page [OF inv(1) assms(2) m(2)] m(1) by blast
  have "page \<noteq> []" using assms(3) inv(2) by (auto simp: pages_inv_def)
  then have "get_tree srt n s page = Some (Inr (Inr out))" using assms(3) out(1) by (simp add: get_tree_def)
  moreover have "set out = {c. \<exists>i. ents s i = Some c \<and> cn_pageId c = page}"
  proof
    show "set out \<subseteq> {c. \<exists>i. ents s i = Some c \<and> cn_pageId c = page}"
    proof
      fix c
      assume c: "c \<in> set out"
      with out(2) have "cn_id c \<in> {i. \<exists>c. ents s i = Some c \<and> cn_pageId c = page}" "ents s (cn_id c) = Some c"
        unfolding lists_all_def by blast+
      then show "c \<in> {c. \<exists>i. ents s i = Some c \<and> cn_pageId c = page}" by auto
    qed
    show "{c. \<exists>i. ents s i = Some c \<and> cn_pageId c = page} \<subseteq> set out"
    proof
      fix c
      assume "c \<in> {c. \<exists>i. ents s i = Some c \<and> cn_pageId c = page}"
      then obtain i where i: "ents s i = Some c" "cn_pageId c = page" by blast
      with out(2) have "i \<in> cn_id ` set out" unfolding lists_all_def by blast
      then obtain d where "d \<in> set out" "cn_id d = i" by auto
      with out(2) i show "c \<in> set out" by (auto simp: lists_all_def)
    qed
  qed
  ultimately show ?thesis using out(2,3) by (simp add: lists_all_def)
qed

theorem page_tree_complete_witness:
  "\<exists>out. get_tree isort_by 3 demo_forest ''page_00000001'' = Some (Inr (Inr out)) \<and> parents_first {None} out"
proof -
  have "length (map fst (components demo_forest)) = 2" by (simp only: demo_forest_parent) simp
  then have "length (components demo_forest) < 3" by simp
  moreover have "map_of (pages demo_forest) ''page_00000001'' \<noteq> None" by (rule demo_forest_page)
  ultimately show ?thesis
    using page_tree_complete [OF demo_forest_reachable isort.cpp_sort_axioms] by blast
qed

text \<open>
  C3: Deleting a component ends, and takes out of the store the component and everything
  below it, and nothing else; what remains is a forest with exact indexes.
\<close>

theorem component_remove_subtree:
  assumes "reachable s" and "map_of (components s) i = Some c" and "length (components s) \<le> n"
  shows "\<exists>s'. component_remove n s i = Some (Inr True, s')
    \<and> map_of (components s') = map_of (components s) |` (- below (map_of (components s)) i)
    \<and> components_inv s' \<and> but_components s' = but_components s"
proof -
  have "components_inv s" using reachable_inv [OF assms(1)] by (simp add: store_inv_def)
  from component_remove_pruned [OF this assms(2,3)] component_remove_frame show ?thesis
    by (fastforce simp: pruned_def)
qed

theorem component_remove_subtree_witness:
  "\<exists>s'. component_remove 2 demo_forest ''component_00000001'' = Some (Inr True, s') \<and> components_inv s'"
proof -
  obtain c where "ents demo_forest ''component_00000001'' = Some c"
    using demo_forest_parent by (cases "ents demo_forest ''component_00000001''") auto
  moreover have "length (map fst (components demo_forest)) = 2" by (simp only: demo_forest_parent) simp
  ultimately show ?thesis using component_remove_subtree [OF demo_forest_reachable, of _ c 2] by fastforce
qed

text \<open>
  C4: A move ends; when it succeeds the component has the parent and the order asked for
  and no other component changes, when it fails nothing changes, and it does fail when the
  new parent lies below the component.
\<close>

theorem component_move_result:
  assumes "reachable s" and "length (components s) \<le> n"
  shows "\<exists>r s'. component_move n s inp = Some (r, s') \<and> components_inv s'
    \<and> (\<forall>e. r = Inl e \<longrightarrow> s' = s)
    \<and> (\<forall>c. r = Inr c \<longrightarrow> map_of (components s') = (map_of (components s))(mci_id inp \<mapsto> c)
          \<and> cn_parentId c = (if mci_newParentId inp = [] then None else Some (mci_newParentId inp))
          \<and> cn_order c = mci_order inp
          \<and> mci_newParentId inp \<notin> below (map_of (components s)) (mci_id inp))"
proof -
  have inv: "components_inv s" using reachable_inv [OF assms(1)] by (simp add: store_inv_def)
  obtain r s' where run: "component_move n s inp = Some (r, s')" "components_inv s'" "\<forall>e. r = Inl e \<longrightarrow> s' = s"
    using component_move_inv [OF inv assms(2)] by blast
  have "map_of (components s') = (ents s)(mci_id inp \<mapsto> c)
      \<and> cn_parentId c = (if mci_newParentId inp = [] then None else Some (mci_newParentId inp))
      \<and> cn_order c = mci_order inp \<and> mci_newParentId inp \<notin> below (ents s) (mci_id inp)"
    if "r = Inr c" for c
    using component_move_Inr [OF inv assms(2) run(1) [unfolded that]] .
  with run show ?thesis by blast
qed

theorem component_move_result_witness:
  "\<exists>r s'. component_move 2 demo_forest \<lparr>mci_id = ''component_00000001'',
     mci_newParentId = ''component_00000002'', mci_order = 0\<rparr> = Some (r, s') \<and> components_inv s'"
proof -
  have "length (map fst (components demo_forest)) = 2" by (simp only: demo_forest_parent) simp
  with component_move_result [OF demo_forest_reachable, of 2] show ?thesis by fastforce
qed

section \<open>Collections\<close>

text \<open>
  C5: A batch create is all or nothing: when one of its packages is refused, the store is
  the one before the batch, entry for entry.
\<close>

theorem batch_create_atomic:
  assumes "reachable s" and "batch_create clock s inputs = (Inl e, s')"
  shows "s' = s"
  using reachable_inv [OF assms(1)] batch_create_error [OF _ assms(2)] by (simp add: store_inv_def)

definition demo_package :: "string \<Rightarrow> create_package_input" where
  "demo_package v = \<lparr>cki_packageId = ''pkg'', cki_tenantId = None, cki_installedAt = None,
     cki_version = v, cki_enabled = True\<rparr>"

theorem batch_create_atomic_witness:
  "snd (batch_create (\<lambda>_. 0) demo_page_store [demo_package ''1.0.0'', demo_package ''2.0.0'']) = demo_page_store"
proof -
  let ?run = "batch_create (\<lambda>_. 0) demo_page_store [demo_package ''1.0.0'', demo_package ''2.0.0'']"
  have "\<not> is_ok (fst ?run)" by code_simp
  then obtain e where "?run = (Inl e, snd ?run)" by (cases ?run; cases "fst ?run") (auto simp: is_ok_def)
  from batch_create_atomic [OF demo_page_reachable this] show ?thesis .
qed

text \<open>
  Looking a page up by its path finds a page exactly when one has that path, and two
  pages never share a path.
\<close>

theorem page_by_path_exact:
  assumes "reachable s"
  shows "(page_get_by_path s path = Inr p \<longleftrightarrow> (\<exists>i. map_of (pages s) i = Some p \<and> pg_path p = path))
    \<and> (\<forall>i j q. map_of (pages s) i = Some p \<and> map_of (pages s) j = Some q \<and> pg_path p = pg_path q \<longrightarrow> i = j)"
proof -
  have inv: "pages_inv s" using reachable_inv [OF assms] by (simp add: store_inv_def)
  with page_get_by_path_iff [OF inv] show ?thesis
    by (auto simp: pages_inv_def intro: page_ix.exact_unique [of s])
qed

theorem page_by_path_exact_witness: "is_ok (page_get_by_path demo_page_store ''/home'')"
proof -
  have "map_option pg_path (map_of (pages demo_page_store) ''page_00000001'') = Some ''/home''" by code_simp
  then obtain p where "map_of (pages demo_page_store) ''page_00000001'' = Some p" "pg_path p = ''/home''" by auto
  with page_by_path_exact [OF demo_page_reachable] have "page_get_by_path demo_page_store ''/home'' = Inr p" by blast
  then show ?thesis by (simp add: is_ok_def)
qed

text \<open>
  A token opens a session exactly when a live session of the store has it: an expired
  one is refused, and taken out of the store on the way.
\<close>

theorem session_by_token_live:
  assumes "sessions_inv s"
  shows "((\<exists>s'. session_get_by_token now s t = (Inr x, s')) \<longleftrightarrow>
        (\<exists>i. map_of (sessions s) i = Some x) \<and> se_token x = t \<and> now < se_expiresAt x)
    \<and> (\<forall>i. map_of (sessions s) i = Some x \<and> se_expiresAt x \<le> now \<longrightarrow>
        (\<exists>e s'. session_get now s i = (Inl e, s') \<and> map_of (sessions s') i = None
           \<and> map_of (session_tokens s') (se_token x) = None))"
proof (intro conjI allI impI session_get_by_token_iff [OF assms])
  fix i
  assume x: "map_of (sessions s) i = Some x \<and> se_expiresAt x \<le> now"
  with assms have "i \<noteq> []" by (auto simp: sessions_inv_def)
  with x show "\<exists>e s'. session_get now s i = (Inl e, s') \<and> map_of (sessions s') i = None
      \<and> map_of (session_tokens s') (se_token x) = None"
    by (auto simp: session_get_def session_ops)
qed

definition demo_session_store :: store where
  "demo_session_store = empty_store\<lparr>
     sessions := [(''session_00000001'', \<lparr>se_id = ''session_00000001'', se_userId = ''u'', se_token = ''tok'',
        se_expiresAt = 10, se_createdAt = None, se_lastActivity = None, se_ipAddress = None, se_userAgent = None,
        se_tenantId = None\<rparr>)],
     session_tokens := [(''tok'', ''session_00000001'')], session_counter := 1\<rparr>"

lemma demo_session_inv: "sessions_inv demo_session_store"
proof -
  have "generate_id ''session'' 1 = ''session_00000001''" by code_simp
  then show ?thesis
    by (auto simp: sessions_inv_def demo_session_store_def empty_store_def index_exact_def
        ids_below_def om_wf_def intro!: exI [of _ 1])
qed

theorem session_by_token_live_witness:
  "\<exists>x s'. session_get_by_token 9 demo_session_store ''tok'' = (Inr x, s') \<and> se_id x = ''session_00000001''"
proof -
  let ?x = "the (map_of (sessions demo_session_store) ''session_00000001'')"
  have "map_of (sessions demo_session_store) ''session_00000001'' = Some ?x" "se_token ?x = ''tok''"
      "9 < se_expiresAt ?x" "se_id ?x = ''session_00000001''"
    by (simp_all add: demo_session_store_def)
  with session_by_token_live [OF demo_session_inv, of 9 "''tok''" ?x] show ?thesis by blast
qed

text \<open>
  Listing the workflows by name, page after page, gives every matching workflow once,
  in the order of the names, whatever the sort does with ties.
\<close>

theorem workflow_pages_by_name:
  assumes "reachable s" and "cpp_sort srt" and "sorts_on opts ''name''"
    and "0 < lo_limit opts" and "in_int32 (int k * lo_limit opts)" and "length (workflows s) < 2 ^ 31"
    and "length (filter (workflow_matches opts) (map snd (workflows s))) \<le> k * nat (lo_limit opts)"
  shows "\<exists>f. (\<forall>i < k. workflow_list srt s (opts\<lparr>lo_page := int i + 1\<rparr>) = Inr (f i))
    \<and> concat (map f [0..<k]) = sort_key wk_name (filter (workflow_matches opts) (map snd (workflows s)))"
proof -
  let ?l = "nat (lo_limit opts)"
  let ?ws = "sort_key wk_name (filter (workflow_matches opts) (map snd (workflows s)))"
  let ?f = "\<lambda>i. take ?l (drop (i * ?l) ?ws)"
  have inv: "workflows_inv s" using reachable_inv [OF assms(1)] by (simp add: store_inv_def)
  have same: "workflow_matches (opts\<lparr>lo_page := p\<rparr>) = workflow_matches opts" for p
    by (simp add: fun_eq_iff workflow_matches_def filter_passes_def)
  have each: "workflow_list srt s (opts\<lparr>lo_page := int i + 1\<rparr>) = Inr (?f i)" if i: "i < k" for i
  proof -
    have le: "(int i + 1) * lo_limit opts \<le> int k * lo_limit opts"
      using i assms(4) by (intro mult_right_mono) auto
    moreover have "int i + 1 \<le> (int i + 1) * lo_limit opts"
      using mult_left_mono [of 1 "lo_limit opts" "int i + 1"] assms(4) by simp
    ultimately have range: "in_int32 (int i)" "in_int32 ((int i + 1) * lo_limit opts)"
      using assms(5) unfolding in_int32_def by linarith+
    have "length (filter (workflow_matches opts) (map snd (workflows s))) < 2 ^ 31"
      using assms(6) length_filter_le [of "workflow_matches opts" "map snd (workflows s)"]
      unfolding length_map by linarith
    then have "page_slice (int i + 1) (lo_limit opts) ?ws = Inr (?f i)"
      using page_slice_ok [of "int i + 1" "lo_limit opts" ?ws] range assms(4)
      by (simp add: nat_mult_distrib)
    then show ?thesis
      using workflow_list_by_name [OF inv assms(2), of "opts\<lparr>lo_page := int i + 1\<rparr>"] assms(3)
      by (simp add: same sorts_on_def)
  qed
  have "take (k * ?l) ?ws = ?ws" using assms(7) by (intro take_all) (simp only: length_sort)
  then have "concat (map ?f [0..<k]) = ?ws" by (rule trans [OF pages_concat])
  with each show ?thesis by (intro exI [of _ ?f] conjI allI impI)
qed

theorem workflow_pages_by_name_witness:
  "\<exists>f. concat (map f [0..<1]) = sort_key wk_name (filter (workflow_matches
     \<lparr>lo_filter = [], lo_sort = [(''name'', ''asc'')], lo_page = 1, lo_limit = 20\<rparr>) (map snd (workflows empty_store)))"
  using workflow_pages_by_name [OF reach_empty isort.cpp_sort_axioms,
      of "\<lparr>lo_filter = [], lo_sort = [(''name'', ''asc'')], lo_page = 1, lo_limit = 20\<rparr>" 1]
  by (auto simp: sorts_on_def in_int32_def empty_store_def)

section \<open>A failed update that has written\<close>

text \<open>
  An update of a page that changes the path and asks for an empty title returns an error
  and leaves the page under its new path.
\<close>

lemma page_update_not_atomic:
  "\<exists>inp e s'. page_update demo_page_store ''page_00000001'' inp = (Inl e, s')
     \<and> page_get_by_path s' ''/moved'' \<noteq> page_get_by_path demo_page_store ''/moved''"
proof -
  let ?inp = "\<lparr>upi_tenantId = None, upi_packageId = None, upi_path = Some ''/moved'', upi_title = Some [],
     upi_description = None, upi_icon = None, upi_component = None, upi_level = None,
     upi_requiresAuth = None, upi_requiredRole = None, upi_parentPath = None, upi_sortOrder = None,
     upi_isPublished = None, upi_params = None, upi_meta = None\<rparr>"
  let ?run = "page_update demo_page_store ''page_00000001'' ?inp"
  have "\<not> is_ok (fst ?run) \<and> is_ok (page_get_by_path (snd ?run) ''/moved'')
      \<and> \<not> is_ok (page_get_by_path demo_page_store ''/moved'')" by code_simp
  moreover from this obtain e where "?run = (Inl e, snd ?run)"
    by (cases ?run; cases "fst ?run") (auto simp: is_ok_def)
  ultimately show ?thesis by metis
qed

end
