(* ===== verification/Base64.thy ===== *)
theory Base64
  imports Cpp_Sort "HOL-Library.Word"
begin

unbundle bit_operations_syntax

text \<open>
  The two base64 codecs: \<^verbatim>\<open>src/security/jwt/base64url.hpp\<close> (JWT segments, PKCE) and
  \<^verbatim>\<open>src/saml/binding/base64_standard.hpp\<close> (SAML).  A byte vector is a \<^typ>\<open>string\<close>; the
  decoders' accumulator \<^verbatim>\<open>val\<close> is a 32-bit \<^verbatim>\<open>int\<close> whose left shift wraps (C++20).
  Decoding what was encoded gives the bytes back, for both.
\<close>

section \<open>Encoding\<close>

definition b64chars :: string where
  "b64chars = ''ABCDEFGHIJKLMNOPQRSTUVWXYZabcdefghijklmnopqrstuvwxyz0123456789+/''"

definition sextet :: "nat \<Rightarrow> nat \<Rightarrow> char" where
  "sextet n k = b64chars ! (drop_bit k n AND 0x3F)"

text \<open>The loop over groups of three bytes, and the two short tails; \<open>pad\<close> is what a tail adds.\<close>

fun b64_groups :: "(nat \<Rightarrow> string) \<Rightarrow> string \<Rightarrow> string" where
  "b64_groups pad (a # b # c # rest) =
     (let n = push_bit 16 (byte a) OR push_bit 8 (byte b) OR byte c
      in sextet n 18 # sextet n 12 # sextet n 6 # sextet n 0 # b64_groups pad rest)"
| "b64_groups pad [a, b] =
     (let n = push_bit 16 (byte a) OR push_bit 8 (byte b)
      in sextet n 18 # sextet n 12 # sextet n 6 # pad 2)"
| "b64_groups pad [a] =
     (let n = push_bit 16 (byte a) in sextet n 18 # sextet n 12 # pad 1)"
| "b64_groups pad [] = []"

definition to_url :: "char \<Rightarrow> char" where
  "to_url c = (if c = CHR ''+'' then CHR ''-'' else if c = CHR ''/'' then CHR ''_'' else c)"

definition base64url_encode :: "string \<Rightarrow> string" where
  "base64url_encode data = map to_url (b64_groups (\<lambda>_. []) data)"

definition std_pad :: "nat \<Rightarrow> string" where
  "std_pad k = (if k = 1 then ''=='' else ''='')"

definition base64_encode :: "string \<Rightarrow> string" where
  "base64_encode data = b64_groups std_pad data"

section \<open>Decoding\<close>

text \<open>What the loop does with a character: leave, skip it, throw, or shift six bits in.\<close>

datatype b64_class = Break | Skip | Throw | Sextet nat

definition wrap32 :: "int \<Rightarrow> int" where
  "wrap32 x = (x + 2 ^ 31) mod 2 ^ 32 - 2 ^ 31"

fun push_byte :: "char \<Rightarrow> exn + string \<Rightarrow> exn + string" where
  "push_byte b (Inr r) = Inr (b # r)"
| "push_byte b (Inl e) = Inl e"

fun b64_loop :: "(char \<Rightarrow> b64_class) \<Rightarrow> int \<Rightarrow> int \<Rightarrow> string \<Rightarrow> exn + string" where
  "b64_loop cls val valb [] = Inr []"
| "b64_loop cls val valb (c # cs) =
     (case cls c of
        Break \<Rightarrow> Inr []
      | Skip \<Rightarrow> b64_loop cls val valb cs
      | Throw \<Rightarrow> Inl (Std_exception ''Invalid base64 character'')
      | Sextet pos \<Rightarrow>
          let val' = wrap32 (push_bit 6 val) + int pos;
              valb' = valb + 6
          in if valb' \<ge> 0
             then push_byte (char_of (nat (drop_bit (nat valb') val' AND 0xFF)))
                    (b64_loop cls val' (valb' - 8) cs)
             else b64_loop cls val' valb' cs)"

definition from_url :: "char \<Rightarrow> char" where
  "from_url c = (if c = CHR ''-'' then CHR ''+'' else if c = CHR ''_'' then CHR ''/'' else c)"

fun find_char :: "char \<Rightarrow> string \<Rightarrow> nat option" where
  "find_char c [] = None"
| "find_char c (d # ds) = (if c = d then Some 0 else map_option Suc (find_char c ds))"

definition url_class :: "char \<Rightarrow> b64_class" where
  "url_class c =
     (if c = CHR ''='' then Break
      else case find_char c b64chars of None \<Rightarrow> Skip | Some pos \<Rightarrow> Sextet pos)"

definition base64url_decode :: "string \<Rightarrow> exn + string" where
  "base64url_decode input =
     (let s = map from_url input;
          s' = s @ replicate ((4 - length s mod 4) mod 4) (CHR ''='')
      in b64_loop url_class 0 (- 8) s')"

definition char_val :: "char \<Rightarrow> int" where
  "char_val c =
     (if CHR ''A'' \<le> c \<and> c \<le> CHR ''Z'' then int (byte c) - int (byte (CHR ''A''))
      else if CHR ''a'' \<le> c \<and> c \<le> CHR ''z'' then int (byte c) - int (byte (CHR ''a'')) + 26
      else if CHR ''0'' \<le> c \<and> c \<le> CHR ''9'' then int (byte c) - int (byte (CHR ''0'')) + 52
      else if c = CHR ''+'' then 62
      else if c = CHR ''/'' then 63
      else - 1)"

definition std_class :: "char \<Rightarrow> b64_class" where
  "std_class c =
     (if c = CHR ''='' then Break
      else if c = CHR 0x0D \<or> c = CHR 0x0A \<or> c = CHR '' '' \<or> c = CHR 0x09 then Skip
      else if char_val c < 0 then Throw
      else Sextet (nat (char_val c)))"

definition base64_decode :: "string \<Rightarrow> exn + string" where
  "base64_decode input = b64_loop std_class 0 (- 8) input"

section \<open>Arithmetic of the groups\<close>

lemma byte_less: "byte c < 256"
  by (simp add: byte_def)

lemma or_low: "(b :: nat) < 2 ^ k \<Longrightarrow> push_bit k a OR b = a * 2 ^ k + b"
proof -
  assume b: "b < 2 ^ k"
  have "push_bit k a AND b = 0"
  proof (rule bit_eqI)
    fix n
    have "bit b n \<Longrightarrow> n < k"
      using b by (metis bit_take_bit_iff take_bit_nat_eq_self)
    then show "bit (push_bit k a AND b) n \<longleftrightarrow> bit (0 :: nat) n"
      by (auto simp: bit_and_iff bit_push_bit_iff)
  qed
  then have "push_bit k a OR b = push_bit k a + b" by (simp add: disjunctive_add_eq_or)
  then show ?thesis by (simp add: push_bit_eq_mult)
qed

lemma sextet_eq: "sextet n k = b64chars ! ((n div 2 ^ k) mod 64)"
proof -
  have "drop_bit k n AND 0x3F = take_bit 6 (drop_bit k n)"
    by (simp add: take_bit_eq_mask mask_eq_exp_minus_1)
  then show ?thesis by (simp add: sextet_def take_bit_eq_mod drop_bit_eq_div)
qed

lemma group3:
  "push_bit 16 (byte a) OR push_bit 8 (byte b) OR byte c = byte a * 65536 + byte b * 256 + byte c"
proof -
  have low: "push_bit 8 (byte b) OR byte c = byte b * 256 + byte c"
    using or_low [of "byte c" 8] byte_less [of c] by simp
  have "byte b * 256 + byte c < 2 ^ 16" using byte_less [of b] byte_less [of c] by simp
  from or_low [OF this, of "byte a"] low show ?thesis by (simp add: or.assoc)
qed

lemma group2: "push_bit 16 (byte a) OR push_bit 8 (byte b) = byte a * 65536 + byte b * 256"
proof -
  have "push_bit 8 (byte b) < 2 ^ 16" using byte_less [of b] by (simp add: push_bit_eq_mult)
  from or_low [OF this, of "byte a"] show ?thesis by (simp add: push_bit_eq_mult)
qed

text \<open>The four digits of a group, with the bytes split where the digits meet.\<close>

lemma div_split: "(r :: nat) < m \<Longrightarrow> (q * m + r) div m = q"
  by (simp add: div_mult_self3)

lemma mod_split: "(r :: nat) < 64 \<Longrightarrow> (64 * q + r) mod 64 = r"
  by simp

lemma digits3:
  fixes a1 a2 b1 b2 c1 c2 :: nat
  assumes "a1 < 64" "a2 < 4" "b1 < 16" "b2 < 16" "c1 < 4" "c2 < 64"
  defines "n \<equiv> (4 * a1 + a2) * 65536 + (16 * b1 + b2) * 256 + (64 * c1 + c2)"
  shows "(n div 2 ^ 18) mod 64 = a1" "(n div 2 ^ 12) mod 64 = 16 * a2 + b1"
    "(n div 2 ^ 6) mod 64 = 4 * b2 + c1" "(n div 2 ^ 0) mod 64 = c2"
proof -
  have n18: "n = a1 * 2 ^ 18 + (a2 * 65536 + (16 * b1 + b2) * 256 + 64 * c1 + c2)"
    and n12: "n = (64 * a1 + (16 * a2 + b1)) * 2 ^ 12 + (b2 * 256 + 64 * c1 + c2)"
    and n6: "n = (64 * (64 * a1 + (16 * a2 + b1)) + (4 * b2 + c1)) * 2 ^ 6 + c2"
    by (simp_all add: n_def algebra_simps)
  have "n div 2 ^ 18 = a1" unfolding n18 by (rule div_split) (use assms(1-6) in simp)
  then show "(n div 2 ^ 18) mod 64 = a1" using assms(1) by simp
  have "n div 2 ^ 12 = 64 * a1 + (16 * a2 + b1)"
    unfolding n12 by (rule div_split) (use assms(1-6) in simp)
  then show "(n div 2 ^ 12) mod 64 = 16 * a2 + b1" using assms(2,3) by simp
  have "n div 2 ^ 6 = 64 * (64 * a1 + (16 * a2 + b1)) + (4 * b2 + c1)"
    unfolding n6 by (rule div_split) (use assms(1-6) in simp)
  then show "(n div 2 ^ 6) mod 64 = 4 * b2 + c1" using assms(4,5) by (simp only: mod_split [of "4 * b2 + c1"])
  have "n div 2 ^ 0 = 64 * (64 * (64 * a1 + (16 * a2 + b1)) + (4 * b2 + c1)) + c2"
    by (simp add: n_def algebra_simps)
  then show "(n div 2 ^ 0) mod 64 = c2" using assms(6) by (simp only: mod_split)
qed

text \<open>A shift keeps the low bits, whatever it wraps.\<close>

lemma wrap32_mod: "k \<le> 32 \<Longrightarrow> (wrap32 x + p) mod 2 ^ k = (x + p) mod 2 ^ k"
proof -
  assume k: "k \<le> 32"
  have "(wrap32 x + p) mod 2 ^ k = ((x + 2 ^ 31) mod 2 ^ 32 mod 2 ^ k + (p - 2 ^ 31)) mod 2 ^ k"
    unfolding wrap32_def mod_add_left_eq by (rule arg_cong [where f = "\<lambda>z. z mod 2 ^ k"]) linarith
  also have "(x + 2 ^ 31) mod 2 ^ 32 mod 2 ^ k = (x + 2 ^ 31) mod 2 ^ k"
    by (rule mod_mod_cancel) (rule le_imp_power_dvd [OF k])
  finally show ?thesis unfolding mod_add_left_eq by simp
qed

text \<open>The byte that is emitted reads the low bits of the accumulator.\<close>

lemma emit_eq: "drop_bit b (v :: int) AND 0xFF = (v mod 2 ^ (b + 8)) div 2 ^ b"
proof -
  have "drop_bit b v AND 0xFF = take_bit 8 (drop_bit b v)"
    by (simp add: take_bit_eq_mask mask_eq_exp_minus_1)
  also have "\<dots> = drop_bit b (take_bit (b + 8) v)" by (simp add: drop_bit_take_bit)
  finally show ?thesis by (simp add: take_bit_eq_mod drop_bit_eq_div add.commute)
qed

definition shift_in :: "int \<Rightarrow> nat \<Rightarrow> int" where
  "shift_in v p = wrap32 (push_bit 6 v) + int p"

lemma shift_in_mod: "k \<le> 32 \<Longrightarrow> shift_in v p mod 2 ^ k = (64 * v + int p) mod 2 ^ k"
  by (simp add: shift_in_def wrap32_mod push_bit_eq_mult mult.commute)

lemma shift_in_low:
  assumes "k \<le> 26" "p < 64" "v mod 2 ^ k = int u"
  shows "shift_in v p mod 2 ^ (k + 6) = int (64 * u + p)"
proof -
  obtain q where v: "v = 2 ^ k * q + int u"
    using assms(3) by (metis mult_div_mod_eq)
  have u: "u < 2 ^ k" using assms(3) by (metis of_nat_less_iff of_nat_numeral of_nat_power pos_mod_bound zero_less_numeral zero_less_power)
  have "shift_in v p mod 2 ^ (k + 6) = (int (64 * u + p) + 2 ^ (k + 6) * q) mod 2 ^ (k + 6)"
  proof -
    have "shift_in v p mod 2 ^ (k + 6) = (64 * v + int p) mod 2 ^ (k + 6)"
      by (rule shift_in_mod) (use assms(1) in simp)
    moreover have "64 * v + int p = int (64 * u + p) + 2 ^ (k + 6) * q"
      by (simp add: v power_add algebra_simps)
    ultimately show ?thesis by (simp only:)
  qed
  also have "\<dots> = int (64 * u + p) mod 2 ^ (k + 6)" by (simp only: mod_mult_self2)
  also have "\<dots> = int (64 * u + p)"
  proof (rule mod_pos_pos_trivial)
    have "64 * u + p < 64 * 2 ^ k" using u assms(2) by linarith
    then have "int (64 * u + p) < int (64 * 2 ^ k)" by (simp only: of_nat_less_iff)
    then show "int (64 * u + p) < 2 ^ (k + 6)" by (simp add: power_add mult.commute)
  qed simp
  finally show ?thesis .
qed

text \<open>The loop on a digit, by the phase it is in.\<close>

lemma loop_first:
  "cls c = Sextet p \<Longrightarrow> b64_loop cls v (- 8) (c # cs) = b64_loop cls (shift_in v p) (- 2) cs"
  by (simp add: shift_in_def Let_def)

lemma loop_emit:
  "cls c = Sextet p \<Longrightarrow> 0 \<le> valb + 6 \<Longrightarrow>
   b64_loop cls v valb (c # cs) =
     push_byte (char_of (nat ((shift_in v p mod 2 ^ (nat (valb + 6) + 8)) div 2 ^ nat (valb + 6))))
       (b64_loop cls (shift_in v p) (valb - 2) cs)"
  by (simp add: shift_in_def [symmetric] Let_def emit_eq)

declare b64_loop.simps(2) [simp del]

lemma nat_div_pow: "nat (int m div 2 ^ k) = m div 2 ^ k"
  by (metis nat_int of_nat_div of_nat_numeral of_nat_power)

lemma low6: "p < 64 \<Longrightarrow> shift_in v p mod 2 ^ 6 = int p"
  using shift_in_low [of 0 p v 0] by simp

lemma low12: "p < 64 \<Longrightarrow> q < 64 \<Longrightarrow> shift_in (shift_in v p) q mod 2 ^ 12 = int (64 * p + q)"
  using shift_in_low [of 6 q "shift_in v p" p] low6 [of p v] by simp

lemma emit1:
  assumes "a1 < 64" "a2 < 4" "b1 < 16"
  shows "nat ((shift_in (shift_in v a1) (16 * a2 + b1) mod 2 ^ 12) div 2 ^ 4) = 4 * a1 + a2"
proof -
  have "shift_in (shift_in v a1) (16 * a2 + b1) mod 2 ^ 12 = int (64 * a1 + (16 * a2 + b1))"
    using assms by (intro low12) simp_all
  then have "nat ((shift_in (shift_in v a1) (16 * a2 + b1) mod 2 ^ 12) div 2 ^ 4)
      = ((4 * a1 + a2) * 16 + b1) div 16"
    by (simp only: nat_div_pow) (simp add: algebra_simps)
  with assms(3) show ?thesis by (simp only: div_split)
qed

lemma emit2:
  assumes "a2 < 4" "b1 < 16" "b2 < 16" "c1 < 4"
  shows "nat ((shift_in (shift_in v (16 * a2 + b1)) (4 * b2 + c1) mod 2 ^ 10) div 2 ^ 2) = 16 * b1 + b2"
proof -
  let ?w = "shift_in (shift_in v (16 * a2 + b1)) (4 * b2 + c1)"
  have "?w mod 2 ^ 12 = int (64 * (16 * a2 + b1) + (4 * b2 + c1))"
    using assms by (intro low12) simp_all
  moreover have "?w mod 2 ^ 10 = ?w mod 2 ^ 12 mod 2 ^ 10" by (simp add: mod_mod_cancel)
  ultimately have "?w mod 2 ^ 10 = int ((a2 * 1024 + (64 * b1 + 4 * b2 + c1)) mod 1024)"
    by (simp add: zmod_int algebra_simps)
  moreover have "(a2 * 1024 + (64 * b1 + 4 * b2 + c1)) mod 1024 = (16 * b1 + b2) * 4 + c1"
    using assms by simp
  ultimately have "nat ((?w mod 2 ^ 10) div 2 ^ 2) = ((16 * b1 + b2) * 4 + c1) div 4"
    by (simp only: nat_div_pow) simp
  with assms(4) show ?thesis by (simp only: div_split)
qed

lemma emit3:
  assumes "b2 < 16" "c1 < 4" "c2 < 64"
  shows "nat ((shift_in (shift_in v (4 * b2 + c1)) c2 mod 2 ^ 8) div 2 ^ 0) = 64 * c1 + c2"
proof -
  let ?w = "shift_in (shift_in v (4 * b2 + c1)) c2"
  have "?w mod 2 ^ 12 = int (64 * (4 * b2 + c1) + c2)" using assms by (intro low12) simp_all
  moreover have "?w mod 2 ^ 8 = ?w mod 2 ^ 12 mod 2 ^ 8" by (simp add: mod_mod_cancel)
  ultimately have "?w mod 2 ^ 8 = int ((b2 * 256 + (64 * c1 + c2)) mod 256)"
    by (simp add: zmod_int algebra_simps)
  moreover have "(b2 * 256 + (64 * c1 + c2)) mod 256 = 64 * c1 + c2" using assms by simp
  ultimately show ?thesis by simp
qed

text \<open>A whole group, and the two tails.\<close>

lemma loop_tail2:
  assumes "cls x1 = Sextet a1" "cls x2 = Sextet (16 * a2 + b1)" "a1 < 64" "a2 < 4" "b1 < 16"
  shows "b64_loop cls v (- 8) (x1 # x2 # cs) =
    push_byte (char_of (4 * a1 + a2))
      (b64_loop cls (shift_in (shift_in v a1) (16 * a2 + b1)) (- 4) cs)"
  using emit1 [OF assms(3-5), of v] 
  by (simp only: loop_first [of cls x1, OF assms(1)]) (simp add: loop_emit [of cls x2, OF assms(2)])

lemma loop_tail3:
  assumes "cls x1 = Sextet a1" "cls x2 = Sextet (16 * a2 + b1)" "cls x3 = Sextet (4 * b2 + c1)"
    and "a1 < 64" "a2 < 4" "b1 < 16" "b2 < 16" "c1 < 4"
  shows "b64_loop cls v (- 8) (x1 # x2 # x3 # cs) =
    push_byte (char_of (4 * a1 + a2)) (push_byte (char_of (16 * b1 + b2))
      (b64_loop cls (shift_in (shift_in (shift_in v a1) (16 * a2 + b1)) (4 * b2 + c1)) (- 6) cs))"
  using emit2 [OF assms(5-8), of "shift_in v a1"]
  by (simp only: loop_tail2 [of cls x1 _ x2, OF assms(1,2,4,5,6)])
     (simp add: loop_emit [of cls x3, OF assms(3)])

lemma loop_group:
  assumes "cls x1 = Sextet a1" "cls x2 = Sextet (16 * a2 + b1)" "cls x3 = Sextet (4 * b2 + c1)" "cls x4 = Sextet c2"
    and "a1 < 64" "a2 < 4" "b1 < 16" "b2 < 16" "c1 < 4" "c2 < 64"
  shows "\<exists>v'. b64_loop cls v (- 8) (x1 # x2 # x3 # x4 # cs) =
    push_byte (char_of (4 * a1 + a2)) (push_byte (char_of (16 * b1 + b2))
      (push_byte (char_of (64 * c1 + c2)) (b64_loop cls v' (- 8) cs)))"
  using emit3 [OF assms(8-10), of "shift_in (shift_in v a1) (16 * a2 + b1)"]
  by (intro exI) (simp only: loop_tail3 [of cls x1 _ x2 _ _ x3, OF assms(1,2,3,5-9)],
     simp add: loop_emit [of cls x4, OF assms(4)])

section \<open>Round trips\<close>

text \<open>
  A decoder fits an encoder when it reads the encoder's character for each of the 64 digits,
  and stops at its padding.
\<close>

definition class_fits :: "(char \<Rightarrow> b64_class) \<Rightarrow> (char \<Rightarrow> char) \<Rightarrow> (nat \<Rightarrow> string) \<Rightarrow> bool" where
  "class_fits cls f pad \<longleftrightarrow>
     (\<forall>i < 64. cls (f (b64chars ! i)) = Sextet i) \<and>
     (\<forall>k. pad k = [] \<or> cls (f (hd (pad k))) = Break)"

lemma loop_pad:
  assumes "class_fits cls f pad"
  shows "b64_loop cls v valb (map f (pad k)) = Inr []"
  using assms by (cases "pad k") (auto simp: class_fits_def b64_loop.simps(2) dest: spec [of _ k])

lemma byte_split4: obtains a1 a2 where "byte a = 4 * a1 + a2" "a1 < 64" "a2 < 4"
  using byte_less [of a] that [of "byte a div 4" "byte a mod 4"] by simp

lemma byte_split16: obtains b1 b2 where "byte b = 16 * b1 + b2" "b1 < 16" "b2 < 16"
  using byte_less [of b] that [of "byte b div 16" "byte b mod 16"] by simp

lemma byte_split64: obtains c1 c2 where "byte c = 64 * c1 + c2" "c1 < 4" "c2 < 64"
  using byte_less [of c] that [of "byte c div 64" "byte c mod 64"] by simp

lemma char_of_byte [simp]: "char_of (byte c) = c"
  by (simp add: byte_def)

lemma b64_roundtrip:
  "class_fits cls f pad \<Longrightarrow> b64_loop cls v (- 8) (map f (b64_groups pad bs)) = Inr bs"
proof (induction pad bs arbitrary: v rule: b64_groups.induct)
  case (1 pad a b c rest)
  have digit: "i < 64 \<Longrightarrow> cls (f (b64chars ! i)) = Sextet i" for i
    using "1.prems" by (simp add: class_fits_def)
  obtain a1 a2 where a: "byte a = 4 * a1 + a2" "a1 < 64" "a2 < 4" by (rule byte_split4)
  obtain b1 b2 where b: "byte b = 16 * b1 + b2" "b1 < 16" "b2 < 16" by (rule byte_split16)
  obtain c1 c2 where c: "byte c = 64 * c1 + c2" "c1 < 4" "c2 < 64" by (rule byte_split64)
  let ?n = "(4 * a1 + a2) * 65536 + (16 * b1 + b2) * 256 + (64 * c1 + c2)"
  note ds = digits3 [OF a(2,3) b(2,3) c(2,3)]
  have enc: "map f (b64_groups pad (a # b # c # rest)) = f (b64chars ! a1) # f (b64chars ! (16 * a2 + b1)) #
      f (b64chars ! (4 * b2 + c1)) # f (b64chars ! c2) # map f (b64_groups pad rest)"
    by (simp only: b64_groups.simps Let_def group3) (simp only: a(1) b(1) c(1) sextet_eq ds list.map)
  obtain v' where "b64_loop cls v (- 8) (map f (b64_groups pad (a # b # c # rest))) =
      push_byte (char_of (4 * a1 + a2)) (push_byte (char_of (16 * b1 + b2))
        (push_byte (char_of (64 * c1 + c2)) (b64_loop cls v' (- 8) (map f (b64_groups pad rest)))))"
    unfolding enc
    using loop_group [of cls "f (b64chars ! a1)" a1 "f (b64chars ! (16 * a2 + b1))" a2 b1
        "f (b64chars ! (4 * b2 + c1))" b2 c1 "f (b64chars ! c2)" c2 v "map f (b64_groups pad rest)"]
      digit [of a1] digit [of "16 * a2 + b1"] digit [of "4 * b2 + c1"] digit [of c2] a b c
    by fastforce
  with "1.IH" [OF refl "1.prems"] char_of_byte [of a] char_of_byte [of b] char_of_byte [of c]
  show ?case by (simp only: a(1) b(1) c(1) push_byte.simps)
next
  case (2 pad a b)
  have digit: "i < 64 \<Longrightarrow> cls (f (b64chars ! i)) = Sextet i" for i
    using "2.prems" by (simp add: class_fits_def)
  obtain a1 a2 where a: "byte a = 4 * a1 + a2" "a1 < 64" "a2 < 4" by (rule byte_split4)
  obtain b1 b2 where b: "byte b = 16 * b1 + b2" "b1 < 16" "b2 < 16" by (rule byte_split16)
  note ds = digits3 [OF a(2,3) b(2,3), of 0 0, simplified]
  have "map f (b64_groups pad [a, b]) = f (b64chars ! a1) # f (b64chars ! (16 * a2 + b1)) #
      f (b64chars ! (4 * b2)) # map f (pad 2)"
    using ds by (simp only: b64_groups.simps Let_def group2) (simp add: a(1) b(1) sextet_eq)
  moreover have "b64_loop cls v (- 8) (f (b64chars ! a1) # f (b64chars ! (16 * a2 + b1)) #
      f (b64chars ! (4 * b2)) # map f (pad 2)) = Inr [char_of (4 * a1 + a2), char_of (16 * b1 + b2)]"
    using loop_tail3 [of cls "f (b64chars ! a1)" a1 "f (b64chars ! (16 * a2 + b1))" a2 b1
        "f (b64chars ! (4 * b2))" b2 0 v "map f (pad 2)"]
      digit [of a1] digit [of "16 * a2 + b1"] digit [of "4 * b2"] a b
    by (simp add: loop_pad [OF "2.prems"])
  ultimately show ?case using char_of_byte [of a] char_of_byte [of b] by (simp only: a(1) b(1))
next
  case (3 pad a)
  have digit: "i < 64 \<Longrightarrow> cls (f (b64chars ! i)) = Sextet i" for i
    using "3.prems" by (simp add: class_fits_def)
  obtain a1 a2 where a: "byte a = 4 * a1 + a2" "a1 < 64" "a2 < 4" by (rule byte_split4)
  note ds = digits3 [OF a(2,3), of 0 0 0 0, simplified]
  have "map f (b64_groups pad [a]) = f (b64chars ! a1) # f (b64chars ! (16 * a2)) # map f (pad 1)"
    using ds by (simp add: Let_def push_bit_eq_mult a(1) sextet_eq)
  moreover have "b64_loop cls v (- 8) (f (b64chars ! a1) # f (b64chars ! (16 * a2)) # map f (pad 1))
      = Inr [char_of (4 * a1 + a2)]"
    using loop_tail2 [of cls "f (b64chars ! a1)" a1 "f (b64chars ! (16 * a2))" a2 0 v "map f (pad 1)"]
      digit [of a1] digit [of "16 * a2"] a
    by (simp add: loop_pad [OF "3.prems"])
  ultimately show ?case using char_of_byte [of a] by (simp only: a(1))
next
  case (4 pad)
  then show ?case by simp
qed

lemma loop_break: "cls c = Break \<Longrightarrow> b64_loop cls v b (xs @ c # ys) = b64_loop cls v b xs"
  by (induction xs arbitrary: v b) (simp_all add: b64_loop.simps(2) Let_def split: b64_class.split)

lemma all_digits: "(\<forall>i < 64. P i) \<longleftrightarrow> list_all P [0..<64]"
  by (auto simp: list_all_iff)

lemma url_fits: "class_fits url_class (from_url \<circ> to_url) (\<lambda>_. [])"
proof -
  have "list_all (\<lambda>i. url_class ((from_url \<circ> to_url) (b64chars ! i)) = Sextet i) [0..<64]" by code_simp
  then show ?thesis by (simp add: class_fits_def all_digits)
qed

lemma std_fits: "class_fits std_class id std_pad"
proof -
  have "list_all (\<lambda>i. std_class (b64chars ! i) = Sextet i) [0..<64]" by code_simp
  then show ?thesis by (simp add: class_fits_def all_digits std_pad_def std_class_def)
qed

lemma base64url_decode_encode: "base64url_decode (base64url_encode bs) = Inr bs"
proof -
  let ?g = "map (from_url \<circ> to_url) (b64_groups (\<lambda>_. []) bs)"
  have "b64_loop url_class 0 (- 8) (?g @ replicate n (CHR ''='')) = b64_loop url_class 0 (- 8) ?g" for n
    by (cases n) (simp_all add: loop_break url_class_def)
  then show ?thesis
    using b64_roundtrip [OF url_fits, of 0 bs]
    by (simp add: base64url_decode_def base64url_encode_def Let_def)
qed

lemma base64_decode_encode: "base64_decode (base64_encode bs) = Inr bs"
  using b64_roundtrip [OF std_fits, of 0 bs] by (simp add: base64_decode_def base64_encode_def)

text \<open>The url decoder never throws.\<close>

lemma url_loop_ok: "\<exists>r. b64_loop url_class v b xs = Inr r"
proof (induction xs arbitrary: v b)
  case (Cons c cs)
  have push: "\<exists>r. push_byte x (b64_loop url_class v' b' cs) = Inr r" for x v' b'
    using Cons.IH [of v' b'] by auto
  moreover have "url_class c \<noteq> Throw" by (simp add: url_class_def split: option.split)
  ultimately show ?case
    using Cons.IH by (simp add: b64_loop.simps(2) Let_def split: b64_class.split)
qed simp

lemma base64url_decode_total: "\<exists>r. base64url_decode s = Inr r"
  by (simp add: base64url_decode_def url_loop_ok Let_def)

section \<open>What the url encoder writes\<close>

definition url_char :: "char \<Rightarrow> bool" where
  "url_char c \<longleftrightarrow> is_alnum c \<or> c = CHR ''-'' \<or> c = CHR ''_''"

lemma url_digits: "list_all (\<lambda>c. url_char (to_url c)) b64chars"
  by code_simp

lemma length_b64chars [simp]: "length b64chars = 64"
  by (simp add: b64chars_def)

lemma sextet_in: "sextet n k \<in> set b64chars"
  unfolding sextet_eq by (rule nth_mem) simp

lemma groups_in: "(\<And>k. pad k = []) \<Longrightarrow> set (b64_groups pad bs) \<subseteq> set b64chars"
  by (induction pad bs rule: b64_groups.induct) (auto simp: Let_def sextet_in)

lemma base64url_encode_chars: "list_all url_char (base64url_encode bs)"
proof -
  have "set (b64_groups (\<lambda>_. []) bs) \<subseteq> set b64chars" by (rule groups_in) simp
  with url_digits show ?thesis by (auto simp: base64url_encode_def list_all_iff)
qed

lemma length_groups: "(\<And>k. pad k = []) \<Longrightarrow> length (b64_groups pad bs) = (4 * length bs + 2) div 3"
  by (induction pad bs rule: b64_groups.induct) (auto simp: Let_def)

lemma length_base64url_encode: "length (base64url_encode bs) = (4 * length bs + 2) div 3"
  by (simp add: base64url_encode_def length_groups)

end
