(* ===== verification/Json_Value.thy ===== *)
theory Json_Value
  imports Complex_Main Cpp_Sort
begin

text \<open>
  JSON values as the program handles them (\<^verbatim>\<open>nlohmann::json\<close>): an object is an ordered map
  from names to values, an integer keeps its exact value and a float is a rational number.
  The accessors throw, as the library documents, on a value of the wrong type.
\<close>

datatype json =
    JNull
  | JBool bool
  | JInt int
  | JFloat rat
  | JString string
  | JArray "json list"
  | JObject "(string \<times> json) list"

fun is_null :: "json \<Rightarrow> bool" where
  "is_null JNull = True"
| "is_null _ = False"

fun is_string :: "json \<Rightarrow> bool" where
  "is_string (JString _) = True"
| "is_string _ = False"

fun is_object :: "json \<Rightarrow> bool" where
  "is_object (JObject _) = True"
| "is_object _ = False"

text \<open>A statement that may throw, followed by the rest of the function.\<close>

definition exn_bind :: "exn + 'a \<Rightarrow> ('a \<Rightarrow> exn + 'b) \<Rightarrow> exn + 'b" where
  "exn_bind r f = (case r of Inl x \<Rightarrow> Inl x | Inr v \<Rightarrow> f v)"

definition type_error :: "string \<Rightarrow> exn" where
  "type_error what = Std_exception (''type_error: '' @ what)"

fun jget :: "json \<Rightarrow> string \<Rightarrow> json option" where
  "jget (JObject m) k = map_of m k"
| "jget _ k = None"

definition jcontains :: "json \<Rightarrow> string \<Rightarrow> bool" where
  "jcontains j k \<longleftrightarrow> jget j k \<noteq> None"

fun get_string :: "json \<Rightarrow> exn + string" where
  "get_string (JString s) = Inr s"
| "get_string _ = Inl (type_error ''type must be string'')"

text \<open>Conversion to \<^verbatim>\<open>long long\<close>: numbers are converted, and so are the two booleans.\<close>

definition trunc_rat :: "rat \<Rightarrow> int" where
  "trunc_rat q = (if q \<ge> 0 then \<lfloor>q\<rfloor> else \<lceil>q\<rceil>)"

fun get_int :: "json \<Rightarrow> exn + int" where
  "get_int (JInt i) = Inr i"
| "get_int (JFloat q) = Inr (trunc_rat q)"
| "get_int (JBool b) = Inr (if b then 1 else 0)"
| "get_int _ = Inl (type_error ''type must be number'')"

text \<open>\<^verbatim>\<open>j.value(key, default)\<close>\<close>

definition value_as :: "(json \<Rightarrow> exn + 'a) \<Rightarrow> json \<Rightarrow> string \<Rightarrow> 'a \<Rightarrow> exn + 'a" where
  "value_as conv j k d =
     (if \<not> is_object j then Inl (type_error ''cannot use value() with this type'')
      else case jget j k of None \<Rightarrow> Inr d | Some v \<Rightarrow> conv v)"

definition value_string :: "json \<Rightarrow> string \<Rightarrow> string \<Rightarrow> exn + string" where
  "value_string j k d = value_as get_string j k d"

definition value_int :: "json \<Rightarrow> string \<Rightarrow> int \<Rightarrow> exn + int" where
  "value_int j k d = value_as get_int j k d"

text \<open>\<^verbatim>\<open>j[key] = v\<close> on an object under construction.\<close>

fun jset :: "string \<Rightarrow> json \<Rightarrow> json \<Rightarrow> json" where
  "jset k v (JObject m) = JObject (om_put k v m)"
| "jset k v j = JObject [(k, v)]"

text \<open>\<^verbatim>\<open>record[key] = value\<close> on a value of any type.\<close>

fun jassign :: "string \<Rightarrow> json \<Rightarrow> json \<Rightarrow> exn + json" where
  "jassign k v (JObject m) = Inr (JObject (om_put k v m))"
| "jassign k v JNull = Inr (JObject [(k, v)])"
| "jassign k v _ = Inl (type_error ''cannot use operator[] with a string argument'')"

definition jobject :: "(string \<times> json) list \<Rightarrow> json" where
  "jobject kvs = JObject (fold (\<lambda>(k, v). om_put k v) kvs [])"

lemma jget_jset: "is_object j \<Longrightarrow> jget (jset k v j) x = (if x = k then Some v else jget j x)"
  by (cases j) auto

lemma map_of_fold_put: "map_of (fold (\<lambda>(k, v). om_put k v) kvs m) = map_of m ++ map_of (rev kvs)"
proof (induction kvs arbitrary: m)
  case Nil
  then show ?case by simp
next
  case (Cons e kvs)
  obtain k v where e: "e = (k, v)" by (cases e)
  have "map_of (fold (\<lambda>(k, v). om_put k v) (e # kvs) m) = (map_of m)(k \<mapsto> v) ++ map_of (rev kvs)"
    by (simp only: e fold_simps case_prod_conv Cons om_find_put)
  also have "\<dots> = map_of m ++ map_of (rev (e # kvs))"
    by (auto simp: e map_add_def fun_eq_iff split: option.split)
  finally show ?case .
qed

lemma jget_jobject: "jget (jobject kvs) = map_of (rev kvs)"
  by (simp add: jobject_def map_of_fold_put fun_eq_iff)

lemma is_object_jobject [simp]: "is_object (jobject kvs)"
  by (simp add: jobject_def)

lemma value_string_iff:
  "value_string j k d = Inr s \<longleftrightarrow>
     is_object j \<and> (jget j k = Some (JString s) \<or> jget j k = None \<and> s = d)"
proof (cases "jget j k")
  case (Some v)
  then show ?thesis by (cases v) (auto simp: value_string_def value_as_def)
qed (auto simp: value_string_def value_as_def)

end
