(* ===== verification/Auth_Jwt.thy ===== *)
theory Auth_Jwt
  imports Base64 Json_Value Cpp_Regex
begin

text \<open>
  HS256 tokens (\<^verbatim>\<open>src/security/jwt\<close>), PKCE (\<^verbatim>\<open>src/oidc/pkce/pkce.hpp\<close>) and the constant
  time comparison.  The message digests (OpenSSL), the JSON parser (nlohmann) and jwt-cpp's
  decoding and RSA verification are parameters: \<open>hmac\<close> and \<open>sha256\<close> give bytes, \<open>parse\<close>
  and \<open>rs_verify\<close> fail with \<^const>\<open>None\<close> where the library throws.
\<close>

section \<open>Comparison without an early exit\<close>

fun byte_diff :: "nat \<Rightarrow> string \<Rightarrow> string \<Rightarrow> nat" where
  "byte_diff r (a # as) (b # bs) = byte_diff (r OR (byte a XOR byte b)) as bs"
| "byte_diff r _ _ = r"

definition timing_safe_equal :: "string \<Rightarrow> string \<Rightarrow> bool" where
  "timing_safe_equal a b = (if length a \<noteq> length b then False else byte_diff 0 a b = 0)"

lemma or_eq_0: "(a :: nat) OR b = 0 \<longleftrightarrow> a = 0 \<and> b = 0"
proof
  assume or0: "a OR b = 0"
  have "\<not> bit a n" "\<not> bit b n" for n
    using arg_cong [OF or0, of "\<lambda>x. bit x n"] by (auto simp: bit_or_iff)
  then show "a = 0 \<and> b = 0" by (auto intro: bit_eqI)
qed simp

lemma xor_eq_0: "(a :: nat) XOR b = 0 \<longleftrightarrow> a = b"
proof
  assume "a XOR b = 0"
  then have "bit (a XOR b) n = bit (0 :: nat) n" for n by simp
  then show "a = b" by (auto simp: bit_xor_iff intro!: bit_eqI)
qed simp

lemma byte_diff_0: "length a = length b \<Longrightarrow> byte_diff r a b = 0 \<longleftrightarrow> r = 0 \<and> a = b"
  by (induction r a b rule: byte_diff.induct) (auto simp: or_eq_0 xor_eq_0 byte_inject)

lemma timing_safe_equal_iff: "timing_safe_equal a b \<longleftrightarrow> a = b"
  by (auto simp: timing_safe_equal_def byte_diff_0)

section \<open>HS256\<close>

record jwt_claims =
  jc_user_id :: string
  jc_username :: string
  jc_exp :: int
  jc_tenant_id :: string
  jc_scope :: string
  jc_aud :: string
  jc_iss :: string
  jc_role :: string

definition hex_chars :: string where
  "hex_chars = ''0123456789abcdef''"

definition hex_byte :: "char \<Rightarrow> string" where
  "hex_byte b = [hex_chars ! (drop_bit 4 (byte b) AND 0x0F), hex_chars ! (byte b AND 0x0F)]"

definition to_hex :: "string \<Rightarrow> string" where
  "to_hex bs = concat (map hex_byte bs)"

definition base64url_to_hex :: "string \<Rightarrow> exn + string" where
  "base64url_to_hex s = map_sum id to_hex (base64url_decode s)"

definition hmac_sha256 :: "(string \<Rightarrow> string \<Rightarrow> string) \<Rightarrow> string \<Rightarrow> string \<Rightarrow> string" where
  "hmac_sha256 hmac key data = to_hex (hmac key data)"

text \<open>Split at the first two dots; what follows them is the third part.\<close>

fun jwt_split :: "nat \<Rightarrow> string \<Rightarrow> string \<Rightarrow> string list" where
  "jwt_split dots cur [] = [cur]"
| "jwt_split dots cur (c # cs) =
     (if c = CHR ''.'' \<and> dots < 2 then cur # jwt_split (Suc dots) [] cs
      else jwt_split dots (cur @ [c]) cs)"

definition jwt_claims_of :: "(string \<Rightarrow> json option) \<Rightarrow> int \<Rightarrow> string \<Rightarrow> jwt_claims option" where
  "jwt_claims_of parse now payload_str =
     (case parse payload_str of
        None \<Rightarrow> None
      | Some payload \<Rightarrow>
         (case (value_string payload ''sub'' [], value_string payload ''username'' [],
                value_int payload ''exp'' 0) of
            (Inr user_id, Inr username, Inr e) \<Rightarrow>
              if user_id = [] then None
              else if e > 0 \<and> e < now then None
              else Some \<lparr>jc_user_id = user_id, jc_username = username, jc_exp = e, jc_tenant_id = [],
                         jc_scope = [], jc_aud = [], jc_iss = [], jc_role = []\<rparr>
          | _ \<Rightarrow> None))"

definition jwt_validate ::
  "(string \<Rightarrow> string \<Rightarrow> string) \<Rightarrow> (string \<Rightarrow> json option) \<Rightarrow> string \<Rightarrow> int \<Rightarrow> string \<Rightarrow> jwt_claims option" where
  "jwt_validate hmac parse secret now token =
     (if secret = [] then None
      else case jwt_split 0 [] token of
        [h, p, sg] \<Rightarrow>
          if h = [] \<or> p = [] \<or> sg = [] then None
          else
           (case base64url_to_hex sg of
              Inl e \<Rightarrow> None
            | Inr provided \<Rightarrow>
                let expected = hmac_sha256 hmac secret (h @ ''.'' @ p) in
                if length expected \<noteq> length provided then None
                else if byte_diff 0 expected provided \<noteq> 0 then None
                else case base64url_decode p of
                  Inl e \<Rightarrow> None
                | Inr payload_str \<Rightarrow> jwt_claims_of parse now payload_str)
      | _ \<Rightarrow> None)"

section \<open>RS256\<close>

text \<open>
  What jwt-cpp hands back for a token that decodes and verifies under the key and the
  issuer: the registered claims, absent ones as \<^const>\<open>None\<close> (their accessors throw), and
  the other claims.  The audience is a \<^verbatim>\<open>std::set\<close>, so it comes in ascending order.
\<close>

record decoded_jwt =
  dj_sub :: "string option"
  dj_aud :: "string list option"
  dj_iss :: "string option"
  dj_exp :: "int option"
  dj_claims :: "(string \<times> json) list"

definition string_claim :: "decoded_jwt \<Rightarrow> string \<Rightarrow> string option" where
  "string_claim d k =
     (case map_of (dj_claims d) k of
        None \<Rightarrow> Some []
      | Some (JString s) \<Rightarrow> Some s
      | Some _ \<Rightarrow> None)"

definition rs_jwt_validate ::
  "(string \<Rightarrow> string \<Rightarrow> string \<Rightarrow> decoded_jwt option) \<Rightarrow> string \<Rightarrow> string \<Rightarrow> string \<Rightarrow> jwt_claims option" where
  "rs_jwt_validate rs_verify public_key_pem issuer token =
     (if public_key_pem = [] then None
      else case rs_verify public_key_pem issuer token of
        None \<Rightarrow> None
      | Some decoded \<Rightarrow>
         (case (dj_sub decoded, dj_iss decoded, dj_exp decoded,
                string_claim decoded ''tenant_id'', string_claim decoded ''scope'',
                string_claim decoded ''role'') of
            (Some user_id, Some iss, Some e, Some tenant_id, Some scope, Some role) \<Rightarrow>
              if user_id = [] then None
              else Some \<lparr>jc_user_id = user_id, jc_username = [], jc_exp = e, jc_tenant_id = tenant_id,
                         jc_scope = scope,
                         jc_aud = (case dj_aud decoded of Some (a # _) \<Rightarrow> a | _ \<Rightarrow> []),
                         jc_iss = iss, jc_role = role\<rparr>
          | _ \<Rightarrow> None))"

section \<open>Choice of the algorithm\<close>

definition peek_algorithm :: "(string \<Rightarrow> json option) \<Rightarrow> string \<Rightarrow> string option" where
  "peek_algorithm parse token =
     (let h = takeWhile (\<lambda>c. c \<noteq> CHR ''.'') token in
      if CHR ''.'' \<notin> set token \<or> h = [] then None
      else case base64url_decode h of
        Inl e \<Rightarrow> None
      | Inr header_str \<Rightarrow>
         (case parse header_str of
            None \<Rightarrow> None
          | Some header \<Rightarrow> (case value_string header ''alg'' [] of Inl e \<Rightarrow> None | Inr a \<Rightarrow> Some a)))"

definition from_request ::
  "(string \<Rightarrow> string \<Rightarrow> string) \<Rightarrow> (string \<Rightarrow> json option) \<Rightarrow>
   (string \<Rightarrow> string \<Rightarrow> string \<Rightarrow> decoded_jwt option) \<Rightarrow>
   int \<Rightarrow> string \<Rightarrow> string \<Rightarrow> string \<Rightarrow> string \<Rightarrow> jwt_claims option" where
  "from_request hmac parse rs_verify now auth_header hs_secret rs_key rs_issuer =
     (if length auth_header \<le> 7 \<or> take 7 auth_header \<noteq> ''Bearer '' then None
      else
        let token = drop 7 auth_header in
        case peek_algorithm parse token of
          None \<Rightarrow> None
        | Some alg \<Rightarrow>
            if alg = ''HS256''
            then (if hs_secret = [] then None else jwt_validate hmac parse hs_secret now token)
            else if alg = ''RS256''
            then (if rs_key = [] then None else rs_jwt_validate rs_verify rs_key rs_issuer token)
            else None)"

section \<open>PKCE\<close>

definition verifier_char :: "char \<Rightarrow> bool" where
  "verifier_char c \<longleftrightarrow> is_alnum c \<or> c \<in> set ''-._~''"

definition is_valid_code_verifier_format :: "string \<Rightarrow> bool" where
  "is_valid_code_verifier_format v =
     (if length v < 43 \<or> length v > 128 then False
      else regex_match (RPlus (RClass verifier_char)) v)"

definition is_valid_code_challenge_format :: "string \<Rightarrow> bool" where
  "is_valid_code_challenge_format v =
     (if length v < 43 \<or> length v > 128 then False
      else regex_match (RPlus (RClass url_char)) v)"

definition derive_s256_challenge :: "(string \<Rightarrow> string) \<Rightarrow> string \<Rightarrow> string" where
  "derive_s256_challenge sha256 verifier = base64url_encode (sha256 verifier)"

definition verify_s256 :: "(string \<Rightarrow> string) \<Rightarrow> string \<Rightarrow> string \<Rightarrow> bool" where
  "verify_s256 sha256 verifier stored =
     (if \<not> is_valid_code_verifier_format verifier then False
      else timing_safe_equal (derive_s256_challenge sha256 verifier) stored)"

section \<open>Lemmas\<close>

text \<open>Hexadecimal is one to one, so comparing the texts compares the signatures.\<close>

lemma hex_byte_eq: "hex_byte b = [hex_chars ! (byte b div 16), hex_chars ! (byte b mod 16)]"
proof -
  have "n AND 0x0F = n mod 16" for n :: nat
    using take_bit_eq_mask [of 4 n] by (simp add: take_bit_eq_mod mask_eq_exp_minus_1)
  moreover have "byte b div 16 < 16" using byte_less [of b] by simp
  ultimately show ?thesis by (simp add: hex_byte_def drop_bit_eq_div)
qed

lemma hex_byte_inject: "hex_byte a = hex_byte b \<longleftrightarrow> a = b"
proof
  assume "hex_byte a = hex_byte b"
  moreover have "distinct hex_chars" "length hex_chars = 16" by (simp_all add: hex_chars_def)
  moreover have "byte a div 16 < 16" "byte b div 16 < 16"
    using byte_less [of a] byte_less [of b] by simp_all
  ultimately have "byte a div 16 = byte b div 16" "byte a mod 16 = byte b mod 16"
    by (simp_all add: hex_byte_eq nth_eq_iff_index_eq)
  then have "byte a = byte b" by (metis div_mult_mod_eq)
  then show "a = b" by (simp add: byte_inject)
qed simp

lemma length_hex_byte [simp]: "length (hex_byte b) = 2"
  by (simp add: hex_byte_def)

lemma to_hex_inject: "to_hex as = to_hex bs \<longleftrightarrow> as = bs"
proof
  show "to_hex as = to_hex bs \<Longrightarrow> as = bs"
  proof (induction as arbitrary: bs)
    case Nil
    then show ?case by (cases bs) (simp_all add: to_hex_def hex_byte_def)
  next
    case (Cons a as)
    then obtain b bs' where bs: "bs = b # bs'" by (cases bs) (simp_all add: to_hex_def hex_byte_def)
    with Cons.prems have "hex_byte a @ to_hex as = hex_byte b @ to_hex bs'" by (simp add: to_hex_def)
    then have "hex_byte a = hex_byte b" "to_hex as = to_hex bs'" by (simp_all add: append_eq_append_conv)
    with Cons.IH bs show ?case by (simp add: hex_byte_inject)
  qed
qed simp

lemma jwt_split_rest: "jwt_split 2 cur t = [cur @ t]"
  by (induction t arbitrary: cur) simp_all

lemma jwt_split_second:
  "jwt_split (Suc 0) cur t = [x, y] \<longleftrightarrow> (\<exists>p. x = cur @ p \<and> t = p @ CHR ''.'' # y \<and> CHR ''.'' \<notin> set p)"
proof (induction t arbitrary: cur)
  case Nil
  then show ?case by simp
next
  case (Cons c cs)
  show ?case
  proof (cases "c = CHR ''.''")
    case True
    then have "jwt_split (Suc 0) cur (c # cs) = [cur, cs]"
      using jwt_split_rest [of "[]" cs] by (simp add: numeral_2_eq_2)
    with True show ?thesis by (auto simp: Cons_eq_append_conv)
  next
    case False
    with Cons [of "cur @ [c]"] show ?thesis by (auto simp: Cons_eq_append_conv)
  qed
qed

lemma jwt_split_first:
  "jwt_split 0 cur t = [x, y, z] \<longleftrightarrow>
     (\<exists>h t'. x = cur @ h \<and> t = h @ CHR ''.'' # t' \<and> CHR ''.'' \<notin> set h \<and> jwt_split (Suc 0) [] t' = [y, z])"
proof (induction t arbitrary: cur)
  case Nil
  then show ?case by simp
next
  case (Cons c cs)
  show ?case
  proof (cases "c = CHR ''.''")
    case True
    then show ?thesis by (auto simp: Cons_eq_append_conv)
  next
    case False
    with Cons [of "cur @ [c]"] show ?thesis by (auto simp: Cons_eq_append_conv)
  qed
qed

lemma jwt_split_parts:
  "jwt_split 0 [] t = [h, p, sg] \<longleftrightarrow>
     t = h @ ''.'' @ p @ ''.'' @ sg \<and> CHR ''.'' \<notin> set h \<and> CHR ''.'' \<notin> set p"
  by (auto simp: jwt_split_first jwt_split_second)

lemma jwt_validate_iff:
  "jwt_validate hmac parse secret now token = Some c \<longleftrightarrow>
     secret \<noteq> [] \<and>
     (\<exists>h p sg bytes payload.
        token = h @ ''.'' @ p @ ''.'' @ sg \<and> CHR ''.'' \<notin> set h \<and> CHR ''.'' \<notin> set p
        \<and> h \<noteq> [] \<and> p \<noteq> [] \<and> sg \<noteq> []
        \<and> base64url_decode sg = Inr bytes \<and> hmac secret (h @ ''.'' @ p) = bytes
        \<and> base64url_decode p = Inr payload \<and> jwt_claims_of parse now payload = Some c)"
  (is "?lhs \<longleftrightarrow> secret \<noteq> [] \<and> (\<exists>h p sg bytes payload. ?parts h p sg bytes payload)")
proof
  assume acc: ?lhs
  then obtain h p sg where split: "jwt_split 0 [] token = [h, p, sg]" and ne: "secret \<noteq> []" "h \<noteq> []" "p \<noteq> []" "sg \<noteq> []"
    by (auto simp: jwt_validate_def split: if_split_asm list.split_asm)
  obtain bytes payload where dec: "base64url_decode sg = Inr bytes" "base64url_decode p = Inr payload"
    using base64url_decode_total by metis
  have "length (to_hex (hmac secret (h @ ''.'' @ p))) = length (to_hex bytes)"
      "byte_diff 0 (to_hex (hmac secret (h @ ''.'' @ p))) (to_hex bytes) = 0"
      "jwt_claims_of parse now payload = Some c"
    using acc by (simp_all add: jwt_validate_def split ne dec base64url_to_hex_def hmac_sha256_def Let_def split: if_split_asm)
  then have "?parts h p sg bytes payload"
    using split ne dec by (simp add: jwt_split_parts byte_diff_0 to_hex_inject)
  with ne show "secret \<noteq> [] \<and> (\<exists>h p sg bytes payload. ?parts h p sg bytes payload)" by blast
next
  assume "secret \<noteq> [] \<and> (\<exists>h p sg bytes payload. ?parts h p sg bytes payload)"
  then obtain h p sg bytes payload where "secret \<noteq> []" "?parts h p sg bytes payload" by blast
  moreover from this have "jwt_split 0 [] token = [h, p, sg]" by (simp add: jwt_split_parts)
  ultimately show ?lhs
    by (simp add: jwt_validate_def base64url_to_hex_def hmac_sha256_def Let_def byte_diff_0)
qed

lemma url_char_no_dot: "list_all url_char s \<Longrightarrow> CHR ''.'' \<notin> set s"
  by (auto simp: list_all_iff url_char_def is_alnum_def is_alpha_def is_upper_def is_lower_def is_digit_def byte_def)

lemma base64url_encode_Nil: "base64url_encode bs = [] \<longleftrightarrow> bs = []"
proof -
  have "length (base64url_encode bs) = 0 \<longleftrightarrow> bs = []" by (cases bs) (auto simp: length_base64url_encode)
  then show ?thesis by simp
qed

lemma is_valid_code_verifier_iff:
  "is_valid_code_verifier_format v \<longleftrightarrow> 43 \<le> length v \<and> length v \<le> 128 \<and> (\<forall>c \<in> set v. verifier_char c)"
  by (auto simp: is_valid_code_verifier_format_def regex_match_lang lang_plus_class)

lemma is_valid_code_challenge_iff:
  "is_valid_code_challenge_format v \<longleftrightarrow> 43 \<le> length v \<and> length v \<le> 128 \<and> (\<forall>c \<in> set v. url_char c)"
  by (auto simp: is_valid_code_challenge_format_def regex_match_lang lang_plus_class)

section \<open>Properties\<close>

text \<open>
  Decoding what was encoded gives the bytes back, for the url alphabet without padding
  and for the standard alphabet with padding, although the accumulator overflows.
\<close>

theorem base64_roundtrips:
  "base64url_decode (base64url_encode bs) = Inr bs \<and> base64_decode (base64_encode bs) = Inr bs
   \<and> list_all url_char (base64url_encode bs) \<and> length (base64url_encode bs) = (4 * length bs + 2) div 3"
  by (simp add: base64url_decode_encode base64_decode_encode base64url_encode_chars length_base64url_encode)


text \<open>
  A token that is put together by encoding a header, a payload and the signature bytes
  is accepted with the payload's claims, whatever the three contain.
\<close>

theorem jwt_issued_accepted:
  assumes "secret \<noteq> []" and "header \<noteq> []" and "payload \<noteq> []" and "sig \<noteq> []"
    and "hmac secret (base64url_encode header @ ''.'' @ base64url_encode payload) = sig"
  shows "jwt_validate hmac parse secret now
      (base64url_encode header @ ''.'' @ base64url_encode payload @ ''.'' @ base64url_encode sig)
    = jwt_claims_of parse now payload"
proof -
  let ?t = "base64url_encode header @ ''.'' @ base64url_encode payload @ ''.'' @ base64url_encode sig"
  have "jwt_split 0 [] ?t = [base64url_encode header, base64url_encode payload, base64url_encode sig]"
    by (simp only: jwt_split_parts url_char_no_dot [OF base64url_encode_chars] simp_thms)
  with assms show ?thesis
    by (simp add: jwt_validate_def base64url_encode_Nil base64url_to_hex_def hmac_sha256_def base64url_decode_encode
        byte_diff_0 Let_def)
qed

theorem jwt_issued_accepted_witness:
  "jwt_validate (\<lambda>k m. ''sig'') (\<lambda>s. Some (JObject [(''sub'', JString s)])) ''key'' 5
     (base64url_encode ''h'' @ ''.'' @ base64url_encode ''alice'' @ ''.'' @ base64url_encode ''sig'')
   = Some \<lparr>jc_user_id = ''alice'', jc_username = [], jc_exp = 0, jc_tenant_id = [],
       jc_scope = [], jc_aud = [], jc_iss = [], jc_role = []\<rparr>"
proof -
  have "jwt_validate (\<lambda>k m. ''sig'') (\<lambda>s. Some (JObject [(''sub'', JString s)])) ''key'' 5
     (base64url_encode ''h'' @ ''.'' @ base64url_encode ''alice'' @ ''.'' @ base64url_encode ''sig'')
   = jwt_claims_of (\<lambda>s. Some (JObject [(''sub'', JString s)])) 5 ''alice''"
    by (rule jwt_issued_accepted) simp_all
  then show ?thesis
    by (simp add: jwt_claims_of_def value_string_def value_int_def value_as_def)
qed

text \<open>
  With a digest of 32 bytes, the challenge derived from a verifier passes the check
  made at the authorization endpoint, and at the token endpoint exactly the verifiers of
  the right form whose digest is the same open it.
\<close>

theorem pkce_s256:
  assumes "\<And>v. length (sha256 v) = 32"
  shows "is_valid_code_challenge_format (derive_s256_challenge sha256 v)
    \<and> (verify_s256 sha256 w (derive_s256_challenge sha256 v) \<longleftrightarrow>
         is_valid_code_verifier_format w \<and> sha256 w = sha256 v)"
proof -
  have "length (derive_s256_challenge sha256 v) = 43"
    by (simp add: derive_s256_challenge_def length_base64url_encode assms)
  moreover have "\<forall>c \<in> set (derive_s256_challenge sha256 v). url_char c"
    using base64url_encode_chars [of "sha256 v"] by (simp add: derive_s256_challenge_def list_all_iff)
  moreover have "base64url_encode x = base64url_encode y \<longleftrightarrow> x = y" for x y
    using base64url_decode_encode by (metis sum.inject(2))
  ultimately show ?thesis
    by (simp add: is_valid_code_challenge_iff verify_s256_def timing_safe_equal_iff derive_s256_challenge_def)
qed

theorem pkce_s256_witness:
  "verify_s256 (\<lambda>v. replicate 32 (hd v)) (replicate 43 (CHR ''a''))
     (derive_s256_challenge (\<lambda>v. replicate 32 (hd v)) (replicate 50 (CHR ''a'')))"
proof -
  have "is_valid_code_verifier_format (replicate 43 (CHR ''a''))"
    by (simp add: is_valid_code_verifier_iff verifier_char_def is_alnum_def is_alpha_def is_lower_def byte_def)
  moreover have "length (replicate 32 (hd v)) = 32" for v :: string by simp
  ultimately show ?thesis using pkce_s256 [of "\<lambda>v. replicate 32 (hd v)"] by simp
qed

end
