(* ===== verification/Security_Limits.thy ===== *)
theory Security_Limits
  imports Complex_Main Cpp_Sort
begin

text \<open>
  The rate limiter (\<^verbatim>\<open>src/security/rate_limiting\<close>), the nonce store
  (\<^verbatim>\<open>src/security/nonce\<close>) and the exponential backoff (\<^verbatim>\<open>src/util/backoff\<close>).  A
  \<^verbatim>\<open>double\<close> is a rational number; a time point of the steady clock is its count of
  nanoseconds, and every reading of the clock is an argument.
\<close>

section \<open>Token bucket\<close>

record token_bucket =
  tb_tokens :: rat
  tb_last_update :: int

definition new_bucket :: token_bucket where
  "new_bucket = \<lparr>tb_tokens = 0, tb_last_update = 0\<rparr>"

definition seconds_between :: "int \<Rightarrow> int \<Rightarrow> rat" where
  "seconds_between t u = of_int (u - t) / 1000000000"

definition rate_limit_try_acquire ::
  "int \<Rightarrow> token_bucket \<Rightarrow> rat \<Rightarrow> rat \<Rightarrow> bool \<times> token_bucket" where
  "rate_limit_try_acquire now bucket tokens_per_second max_tokens =
     (let b1 = (if tb_tokens bucket = 0 \<and> tb_last_update bucket = 0
                then \<lparr>tb_tokens = max_tokens, tb_last_update = now\<rparr> else bucket);
          elapsed = seconds_between (tb_last_update b1) now;
          tokens = min max_tokens (tb_tokens b1 + elapsed * tokens_per_second)
      in if tokens \<ge> 1 then (True, \<lparr>tb_tokens = tokens - 1, tb_last_update = now\<rparr>)
         else (False, \<lparr>tb_tokens = tokens, tb_last_update = now\<rparr>))"

definition rate_limit_remaining :: "token_bucket \<Rightarrow> rat \<Rightarrow> rat" where
  "rate_limit_remaining bucket max_tokens =
     (if tb_last_update bucket = 0 then max_tokens else tb_tokens bucket)"

record rate_limiter =
  rl_tokens_per_second :: rat
  rl_max_tokens :: rat
  rl_buckets :: "(string, token_bucket) omap"

definition rl_new :: "rat \<Rightarrow> rat \<Rightarrow> rate_limiter" where
  "rl_new rate cap = \<lparr>rl_tokens_per_second = rate, rl_max_tokens = cap, rl_buckets = []\<rparr>"

definition rl_try_acquire :: "int \<Rightarrow> rate_limiter \<Rightarrow> string \<Rightarrow> bool \<times> rate_limiter" where
  "rl_try_acquire now rl key =
     (let bucket = (case map_of (rl_buckets rl) key of None \<Rightarrow> new_bucket | Some b \<Rightarrow> b);
          (ok, b') = rate_limit_try_acquire now bucket (rl_tokens_per_second rl) (rl_max_tokens rl)
      in (ok, rl\<lparr>rl_buckets := om_put key b' (rl_buckets rl)\<rparr>))"

definition rl_remaining :: "rate_limiter \<Rightarrow> string \<Rightarrow> rat" where
  "rl_remaining rl key =
     (case map_of (rl_buckets rl) key of
        None \<Rightarrow> rl_max_tokens rl
      | Some b \<Rightarrow> rate_limit_remaining b (rl_max_tokens rl))"

definition rl_reset :: "rate_limiter \<Rightarrow> string \<Rightarrow> rate_limiter" where
  "rl_reset rl key = rl\<lparr>rl_buckets := om_erase key (rl_buckets rl)\<rparr>"

text \<open>The requests of a run, each at its time under its key: how many of one key pass.\<close>

fun rl_run :: "rate_limiter \<Rightarrow> (int \<times> string) list \<Rightarrow> bool list \<times> rate_limiter" where
  "rl_run rl [] = ([], rl)"
| "rl_run rl ((now, key) # reqs) =
     (let (ok, rl1) = rl_try_acquire now rl key; (oks, rl2) = rl_run rl1 reqs
      in (ok # oks, rl2))"

definition passes :: "string \<Rightarrow> (int \<times> string) list \<Rightarrow> bool list \<Rightarrow> nat" where
  "passes key reqs oks = length (filter (\<lambda>((t, k), ok). k = key \<and> ok) (zip reqs oks))"

section \<open>Nonces\<close>

record nonce_storage =
  ns_nonces :: "(string, int) omap"
  ns_last_cleanup :: int
  ns_expiry_seconds :: int
  ns_cleanup_interval_seconds :: int

definition nonce_store_new :: "int \<Rightarrow> int \<Rightarrow> nonce_storage" where
  "nonce_store_new expiry interval = \<lparr>ns_nonces = [], ns_last_cleanup = 0,
     ns_expiry_seconds = expiry, ns_cleanup_interval_seconds = interval\<rparr>"

definition nonce_check_and_store :: "int \<Rightarrow> nonce_storage \<Rightarrow> string \<Rightarrow> bool \<times> nonce_storage" where
  "nonce_check_and_store now st nonce =
     (case map_of (ns_nonces st) nonce of
        Some _ \<Rightarrow> (False, st)
      | None \<Rightarrow> (True, st\<lparr>ns_nonces := om_put nonce now (ns_nonces st)\<rparr>))"

definition nonce_cleanup :: "int \<Rightarrow> nonce_storage \<Rightarrow> nonce_storage" where
  "nonce_cleanup now st =
     (let cutoff = now - ns_expiry_seconds st * 1000000000
      in st\<lparr>ns_nonces := filter (\<lambda>(n, t). \<not> t < cutoff) (ns_nonces st), ns_last_cleanup := now\<rparr>)"

text \<open>\<^verbatim>\<open>duration_cast<seconds>\<close> truncates towards zero.\<close>

definition whole_seconds :: "int \<Rightarrow> int" where
  "whole_seconds d = (if d \<ge> 0 then d div 1000000000 else - ((- d) div 1000000000))"

definition nonce_maybe_cleanup :: "int \<Rightarrow> int \<Rightarrow> nonce_storage \<Rightarrow> nonce_storage" where
  "nonce_maybe_cleanup now now2 st =
     (if whole_seconds (now - ns_last_cleanup st) \<ge> ns_cleanup_interval_seconds st
      then nonce_cleanup now2 st else st)"

definition nonce_size :: "nonce_storage \<Rightarrow> nat" where
  "nonce_size st = length (ns_nonces st)"

text \<open>\<open>t1\<close>, \<open>t2\<close>, \<open>t3\<close> are the three readings of the clock in one call.\<close>

definition store_check_and_store ::
  "int \<Rightarrow> int \<Rightarrow> int \<Rightarrow> nonce_storage \<Rightarrow> string \<Rightarrow> bool \<times> nonce_storage" where
  "store_check_and_store t1 t2 t3 st nonce =
     nonce_check_and_store t3 (nonce_maybe_cleanup t1 t2 st) nonce"

datatype nonce_call = Check int int int string | Cleanup int

fun nonce_call_end :: "nonce_call \<Rightarrow> int" where
  "nonce_call_end (Check t1 t2 t3 n) = t3"
| "nonce_call_end (Cleanup t) = t"

fun nonce_step :: "nonce_storage \<Rightarrow> nonce_call \<Rightarrow> nonce_storage" where
  "nonce_step st (Check t1 t2 t3 n) = snd (store_check_and_store t1 t2 t3 st n)"
| "nonce_step st (Cleanup t) = nonce_cleanup t st"

text \<open>The readings of the clock in a call never go back, nor before \<open>t\<close>, nor beyond \<open>u\<close>.\<close>

fun call_within :: "int \<Rightarrow> int \<Rightarrow> nonce_call \<Rightarrow> bool" where
  "call_within t u (Check t1 t2 t3 n) \<longleftrightarrow> t \<le> t1 \<and> t1 \<le> t2 \<and> t2 \<le> t3 \<and> t3 \<le> u"
| "call_within t u (Cleanup t1) \<longleftrightarrow> t \<le> t1 \<and> t1 \<le> u"

section \<open>Backoff\<close>

record backoff_state =
  bo_current_ms :: int
  bo_max_ms :: int
  bo_multiplier :: rat
  bo_attempt :: int

definition backoff_new :: "int \<Rightarrow> int \<Rightarrow> rat \<Rightarrow> backoff_state" where
  "backoff_new initial_ms max_ms multiplier =
     \<lparr>bo_current_ms = initial_ms, bo_max_ms = max_ms, bo_multiplier = multiplier, bo_attempt = 0\<rparr>"

text \<open>
  The result is the time slept and the next state; \<^const>\<open>None\<close> where the conversion to
  \<^verbatim>\<open>int\<close> or the increment is undefined.
\<close>

definition backoff_sleep :: "backoff_state \<Rightarrow> (int \<times> backoff_state) option" where
  "backoff_sleep st =
     (let next = of_int (bo_current_ms st) * bo_multiplier st;
          cast = (if next \<ge> 0 then \<lfloor>next\<rfloor> else \<lceil>next\<rceil>)
      in if in_int32 cast \<and> in_int32 (bo_attempt st + 1)
         then Some (bo_current_ms st, st\<lparr>bo_current_ms := min cast (bo_max_ms st),
                      bo_attempt := bo_attempt st + 1\<rparr>)
         else None)"

definition backoff_reset :: "backoff_state \<Rightarrow> int \<Rightarrow> backoff_state" where
  "backoff_reset st initial_ms = st\<lparr>bo_current_ms := initial_ms, bo_attempt := 0\<rparr>"

definition exponential_backoff_reset :: "backoff_state \<Rightarrow> backoff_state" where
  "exponential_backoff_reset st = backoff_reset st 100"

fun backoff_run :: "nat \<Rightarrow> backoff_state \<Rightarrow> (int list \<times> backoff_state) option" where
  "backoff_run 0 st = Some ([], st)"
| "backoff_run (Suc n) st =
     (case backoff_sleep st of
        None \<Rightarrow> None
      | Some (d, st1) \<Rightarrow>
         (case backoff_run n st1 of None \<Rightarrow> None | Some (ds, st2) \<Rightarrow> Some (d # ds, st2)))"

section \<open>The bucket bounds the rate\<close>

lemma seconds_between_add: "seconds_between t u + seconds_between u v = seconds_between t v"
  by (simp add: seconds_between_def add_divide_distrib [symmetric])

lemma seconds_between_nonneg: "t \<le> u \<Longrightarrow> 0 \<le> seconds_between t u"
  by (simp add: seconds_between_def)

text \<open>
  A bucket in use at time \<open>t\<close>: it holds between none and the maximum, and its clock has
  been set.
\<close>

definition bucket_ok :: "rat \<Rightarrow> int \<Rightarrow> token_bucket \<Rightarrow> bool" where
  "bucket_ok cap t b \<longleftrightarrow> 0 \<le> tb_tokens b \<and> tb_tokens b \<le> cap \<and> 0 < tb_last_update b \<and> tb_last_update b \<le> t"

lemma try_acquire_ok:
  assumes b: "bucket_ok cap t b" and rate: "0 \<le> rate" and now: "t \<le> now"
    and run: "rate_limit_try_acquire now b rate cap = (ok, b')"
  shows "bucket_ok cap now b' \<and> tb_last_update b' = now
    \<and> (if ok then 1 else 0) + tb_tokens b' \<le> tb_tokens b + seconds_between (tb_last_update b) now * rate"
proof -
  have "0 \<le> seconds_between (tb_last_update b) now * rate"
    using b now rate by (simp add: bucket_ok_def seconds_between_nonneg)
  with b now run show ?thesis
    by (auto simp: rate_limit_try_acquire_def Let_def bucket_ok_def split: if_splits)
qed

lemma try_acquire_first:
  assumes "0 \<le> cap" "0 < now" and run: "rate_limit_try_acquire now new_bucket rate cap = (ok, b')"
  shows "bucket_ok cap now b' \<and> tb_last_update b' = now \<and> (if ok then 1 else 0) + tb_tokens b' \<le> cap"
  using assms
  by (auto simp: rate_limit_try_acquire_def Let_def new_bucket_def bucket_ok_def seconds_between_def split: if_splits)

text \<open>What a key may still pass by time \<open>u\<close>.\<close>

definition allowance :: "rate_limiter \<Rightarrow> string \<Rightarrow> int \<Rightarrow> int \<Rightarrow> rat" where
  "allowance rl key t u =
     (case map_of (rl_buckets rl) key of
        None \<Rightarrow> rl_max_tokens rl + seconds_between t u * rl_tokens_per_second rl
      | Some b \<Rightarrow> tb_tokens b + seconds_between (tb_last_update b) u * rl_tokens_per_second rl)"

definition limiter_ok :: "int \<Rightarrow> rate_limiter \<Rightarrow> bool" where
  "limiter_ok t rl \<longleftrightarrow> 0 \<le> rl_tokens_per_second rl \<and> 0 \<le> rl_max_tokens rl \<and> 0 < t
     \<and> (\<forall>k b. map_of (rl_buckets rl) k = Some b \<longrightarrow> bucket_ok (rl_max_tokens rl) t b)"

lemma rl_try_acquire_ok:
  assumes ok: "limiter_ok t rl" and now: "t \<le> now" "now \<le> u"
    and run: "rl_try_acquire now rl key = (r, rl')"
  shows "limiter_ok now rl'" and "k \<noteq> key \<Longrightarrow> allowance rl' k now u \<le> allowance rl k t u"
    and "(if r then 1 else 0) + allowance rl' key now u \<le> allowance rl key t u"
proof -
  let ?b = "case map_of (rl_buckets rl) key of None \<Rightarrow> new_bucket | Some b \<Rightarrow> b"
  let ?rate = "rl_tokens_per_second rl" and ?cap = "rl_max_tokens rl"
  obtain b' where acq: "rate_limit_try_acquire now ?b ?rate ?cap = (r, b')"
    and rl': "rl' = rl\<lparr>rl_buckets := om_put key b' (rl_buckets rl)\<rparr>"
    using run by (auto simp: rl_try_acquire_def Let_def split: prod.splits)
  have rate: "0 \<le> ?rate" "0 \<le> ?cap" "0 < now" using ok now by (auto simp: limiter_ok_def)
  have b': "bucket_ok ?cap now b' \<and> tb_last_update b' = now"
    and bound: "(if r then 1 else 0) + tb_tokens b' \<le>
      (case map_of (rl_buckets rl) key of None \<Rightarrow> ?cap
       | Some b \<Rightarrow> tb_tokens b + seconds_between (tb_last_update b) now * ?rate)"
    using acq rate ok now try_acquire_first [of ?cap now ?rate r b']
      try_acquire_ok [of ?cap t _ ?rate now r b']
    by (auto simp: limiter_ok_def split: option.split_asm option.split)
  have mono: "bucket_ok ?cap now b" if "bucket_ok ?cap t b" for b
    using that now by (auto simp: bucket_ok_def)
  with b' ok rate show "limiter_ok now rl'" by (auto simp: limiter_ok_def rl')
  have shift: "seconds_between t now * ?rate + seconds_between now u * ?rate = seconds_between t u * ?rate" for t
    by (simp add: seconds_between_add flip: distrib_right)
  have "0 \<le> seconds_between t now * ?rate" using now rate by (simp add: seconds_between_nonneg)
  then have "seconds_between now u * ?rate \<le> seconds_between t u * ?rate" using shift [of t] by linarith
  then show "k \<noteq> key \<Longrightarrow> allowance rl' k now u \<le> allowance rl k t u"
    by (auto simp: allowance_def rl' split: option.split)
  show "(if r then 1 else 0) + allowance rl' key now u \<le> allowance rl key t u"
    using bound b' \<open>0 \<le> seconds_between t now * ?rate\<close> shift [of t]
      shift [of "tb_last_update (the (map_of (rl_buckets rl) key))"]
    by (cases "map_of (rl_buckets rl) key") (auto simp: allowance_def rl')
qed

lemma rl_run_bound:
  assumes "limiter_ok t rl" "sorted_wrt (\<le>) (t # map fst reqs @ [u])" "rl_run rl reqs = (oks, rl')"
  shows "of_nat (passes key reqs oks) \<le> allowance rl key t u"
  using assms
proof (induction reqs arbitrary: rl t oks rl')
  case Nil
  have "0 \<le> seconds_between t u * rl_tokens_per_second rl"
    using Nil by (simp add: limiter_ok_def seconds_between_nonneg)
  moreover have "0 \<le> seconds_between (tb_last_update b) u * rl_tokens_per_second rl"
    if "map_of (rl_buckets rl) key = Some b" for b
    using Nil that
    by (intro mult_nonneg_nonneg seconds_between_nonneg) (force simp: limiter_ok_def bucket_ok_def)+
  ultimately show ?case
    using Nil by (auto simp: passes_def allowance_def limiter_ok_def bucket_ok_def split: option.split)
next
  case (Cons req reqs)
  obtain now k where req: "req = (now, k)" by (cases req)
  obtain r rl1 where first: "rl_try_acquire now rl k = (r, rl1)" by fastforce
  obtain oks1 where rest: "rl_run rl1 reqs = (oks1, rl')" "oks = r # oks1"
    using Cons.prems(3) first by (auto simp: req split: prod.splits)
  have now: "t \<le> now" "now \<le> u" using Cons.prems(2) by (auto simp: req)
  note step = rl_try_acquire_ok [OF Cons.prems(1) now first]
  have "sorted_wrt (\<le>) (now # map fst reqs @ [u])" using Cons.prems(2) by (simp add: req)
  from Cons.IH [OF step(1) this rest(1)]
  have "of_nat (passes key reqs oks1) \<le> allowance rl1 key now u" .
  moreover have "(of_nat (passes key (req # reqs) oks) :: rat) =
      (if k = key \<and> r then 1 else 0) + of_nat (passes key reqs oks1)"
    by (simp add: passes_def req rest(2))
  ultimately show ?case using step(2) [of key] step(3) by (cases "k = key") (auto split: if_splits)
qed

section \<open>Nonces are not accepted twice\<close>

definition remembered :: "nonce_storage \<Rightarrow> string \<Rightarrow> int \<Rightarrow> bool" where
  "remembered st n t \<longleftrightarrow> map_of (ns_nonces st) n = Some t"

lemma nonce_cleanup_find:
  assumes "om_wf (ns_nonces st)"
  shows "om_wf (ns_nonces (nonce_cleanup now st))
    \<and> map_of (ns_nonces (nonce_cleanup now st)) n =
      (case map_of (ns_nonces st) n of
         None \<Rightarrow> None
       | Some t \<Rightarrow> if t < now - ns_expiry_seconds st * 1000000000 then None else Some t)"
proof -
  have "om_wf (filter P m)" if "om_wf m" for P and m :: "(string \<times> int) list"
    using that unfolding om_wf_def by (induction m) auto
  moreover have "map_of (filter (\<lambda>(n, t). Q t) m) n =
      (case map_of m n of None \<Rightarrow> None | Some t \<Rightarrow> if Q t then Some t else None)"
    if "om_wf m" for Q and m :: "(string \<times> int) list"
  proof -
    have "distinct (map fst m)" using that by (rule om_wf_distinct)
    then show ?thesis by (induction m) (auto split: option.split simp: map_of_eq_None_iff image_iff)
  qed
  ultimately show ?thesis
    using assms by (auto simp: nonce_cleanup_def Let_def split: option.split)
qed

lemma nonce_step_remembers:
  assumes wf: "om_wf (ns_nonces st)" and n: "remembered st n t" and within: "call_within t u call"
    and live: "u \<le> t + ns_expiry_seconds st * 1000000000"
  shows "om_wf (ns_nonces (nonce_step st call)) \<and> remembered (nonce_step st call) n t
    \<and> ns_expiry_seconds (nonce_step st call) = ns_expiry_seconds st"
proof -
  have keep: "om_wf (ns_nonces (nonce_cleanup now st)) \<and> remembered (nonce_cleanup now st) n t
      \<and> ns_expiry_seconds (nonce_cleanup now st) = ns_expiry_seconds st" if "now \<le> u" for now
    using nonce_cleanup_find [OF wf] n live that by (auto simp: remembered_def nonce_cleanup_def Let_def)
  show ?thesis
  proof (cases call)
    case (Check t1 t2 t3 m)
    have "om_wf (ns_nonces (nonce_maybe_cleanup t1 t2 st)) \<and> remembered (nonce_maybe_cleanup t1 t2 st) n t
        \<and> ns_expiry_seconds (nonce_maybe_cleanup t1 t2 st) = ns_expiry_seconds st"
      using keep [of t2] wf n within by (auto simp: nonce_maybe_cleanup_def Check)
    then show ?thesis
      by (auto simp: Check store_check_and_store_def nonce_check_and_store_def remembered_def split: option.split)
  next
    case (Cleanup t1)
    with keep [of t1] within show ?thesis by simp
  qed
qed

lemma nonce_run_remembers:
  assumes "om_wf (ns_nonces st)" "remembered st n t" "\<forall>c \<in> set calls. call_within t u c"
    and "u \<le> t + ns_expiry_seconds st * 1000000000"
  shows "remembered (foldl nonce_step st calls) n t \<and> om_wf (ns_nonces (foldl nonce_step st calls))
    \<and> ns_expiry_seconds (foldl nonce_step st calls) = ns_expiry_seconds st"
  using assms
proof (induction calls arbitrary: st)
  case (Cons c calls)
  have "om_wf (ns_nonces (nonce_step st c)) \<and> remembered (nonce_step st c) n t
      \<and> ns_expiry_seconds (nonce_step st c) = ns_expiry_seconds st"
    using Cons.prems by (intro nonce_step_remembers) auto
  with Cons.IH [of "nonce_step st c"] Cons.prems show ?case by auto
qed simp

lemma backoff_run_from:
  assumes "0 \<le> first" and "0 \<le> cap" and "1 \<le> m" and "in_int32 (cap * int m)" and "j + n < 2 ^ 31"
  shows "\<exists>st. backoff_run n \<lparr>bo_current_ms = min (first * int m ^ j) cap, bo_max_ms = cap,
      bo_multiplier = of_nat m, bo_attempt = int j\<rparr> =
    Some (map (\<lambda>k. min (first * int m ^ (j + k)) cap) [0..<n], st)"
  using assms(5)
proof (induction n arbitrary: j)
  case (Suc n)
  let ?c = "min (first * int m ^ j) cap"
  have c: "0 \<le> ?c" "?c \<le> cap" using assms(1,2) by auto
  have next': "min (?c * int m) cap = min (first * int m ^ Suc j) cap"
  proof (cases "first * int m ^ j \<le> cap")
    case False
    then have le: "cap \<le> cap * int m" and "cap * int m \<le> first * int m ^ j * int m"
      using assms(2,3) by (simp_all add: mult_right_mono mult_le_cancel_left1)
    moreover have "first * int m ^ j * int m = first * int m ^ Suc j" by simp
    ultimately have "cap \<le> first * int m ^ Suc j" by linarith
    then have "min (first * int m ^ Suc j) cap = cap" by (rule min_absorb2)
    moreover have "?c = cap" using False by simp
    ultimately show ?thesis using le by (simp only: min_absorb2)
  qed (simp add: ac_simps)
  have "?c * int m \<le> cap * int m" using c assms(3) by (simp add: mult_right_mono)
  moreover have "0 \<le> ?c * int m" using c(1) by (rule mult_nonneg_nonneg) simp
  ultimately have range: "in_int32 (?c * int m)" using assms(4) unfolding in_int32_def by linarith
  have "of_int ?c * (of_nat m :: rat) = of_int (?c * int m)" by simp
  then have "backoff_sleep \<lparr>bo_current_ms = ?c, bo_max_ms = cap, bo_multiplier = of_nat m, bo_attempt = int j\<rparr> =
      Some (?c, \<lparr>bo_current_ms = min (first * int m ^ Suc j) cap, bo_max_ms = cap,
        bo_multiplier = of_nat m, bo_attempt = int (Suc j)\<rparr>)"
    using range Suc.prems next' unfolding backoff_sleep_def Let_def
    by (simp add: in_int32_def del: of_int_mult of_int_min)
  moreover obtain st where "backoff_run n \<lparr>bo_current_ms = min (first * int m ^ Suc j) cap, bo_max_ms = cap,
      bo_multiplier = of_nat m, bo_attempt = int (Suc j)\<rparr> =
    Some (map (\<lambda>k. min (first * int m ^ (Suc j + k)) cap) [0..<n], st)"
    using Suc.IH [of "Suc j"] Suc.prems by auto
  moreover have "map (\<lambda>k. min (first * int m ^ (j + k)) cap) [0..<Suc n] =
      ?c # map (\<lambda>k. min (first * int m ^ (Suc j + k)) cap) [0..<n]"
    by (simp add: upt_conv_Cons map_Suc_upt [symmetric] del: upt_Suc)
  ultimately show ?case by simp
qed simp

section \<open>Properties\<close>



text \<open>
  C40: A nonce that has been accepted is refused again for the whole expiry time, whatever
  other nonces are checked and whatever clean-ups run in between.
\<close>

theorem nonce_no_replay:
  assumes "om_wf (ns_nonces st)" and "store_check_and_store t1 t2 t3 st n = (True, st1)"
    and "\<forall>c \<in> set calls. call_within t3 u c" and "t3 \<le> u1" and "u1 \<le> u2" and "u2 \<le> u3" and "u3 = u"
    and "u \<le> t3 + ns_expiry_seconds st * 1000000000"
  shows "\<not> fst (store_check_and_store u1 u2 u3 (foldl nonce_step st1 calls) n)"
proof -
  let ?st = "nonce_maybe_cleanup t1 t2 st"
  have wf: "om_wf (ns_nonces ?st)" and ex: "ns_expiry_seconds ?st = ns_expiry_seconds st"
    using assms(1) nonce_cleanup_find [OF assms(1)]
    by (auto simp: nonce_maybe_cleanup_def nonce_cleanup_def Let_def)
  have st1: "st1 = ?st\<lparr>ns_nonces := om_put n t3 (ns_nonces ?st)\<rparr>"
    using assms(2) by (auto simp: store_check_and_store_def nonce_check_and_store_def split: option.split_asm)
  have start: "om_wf (ns_nonces st1)" "remembered st1 n t3" "ns_expiry_seconds st1 = ns_expiry_seconds st"
    using wf ex by (simp_all add: st1 remembered_def)
  have run: "remembered (foldl nonce_step st1 calls) n t3" "om_wf (ns_nonces (foldl nonce_step st1 calls))"
      "ns_expiry_seconds (foldl nonce_step st1 calls) = ns_expiry_seconds st"
    using nonce_run_remembers [OF start(1,2) assms(3)] assms(8) start(3) by auto
  then have "remembered (nonce_maybe_cleanup u1 u2 (foldl nonce_step st1 calls)) n t3"
    using nonce_cleanup_find [OF run(2), of u2 n] assms(6-8)
    by (auto simp: nonce_maybe_cleanup_def remembered_def)
  then show ?thesis
    by (simp add: store_check_and_store_def nonce_check_and_store_def remembered_def)
qed

theorem nonce_no_replay_witness:
  "\<not> fst (store_check_and_store 9 9 9 (foldl nonce_step (snd (store_check_and_store 1 2 3 (nonce_store_new 300 60) ''n''))
       [Cleanup 4, Check 5 6 7 ''m'']) ''n'')"
proof (rule nonce_no_replay [where ?t1.0 = 1 and ?t2.0 = 2 and ?t3.0 = 3 and u = 9 and st = "nonce_store_new 300 60"])
  show "store_check_and_store 1 2 3 (nonce_store_new 300 60) ''n'' =
      (True, snd (store_check_and_store 1 2 3 (nonce_store_new 300 60) ''n''))"
    by (simp add: store_check_and_store_def nonce_check_and_store_def nonce_maybe_cleanup_def
        nonce_store_new_def whole_seconds_def)
qed (simp_all add: nonce_store_new_def)

text \<open>
  With a whole-number multiplier, the \<open>k\<close>-th delay is the first one times the \<open>k\<close>-th
  power of the multiplier, cut at the maximum, and no delay overflows.
\<close>

theorem backoff_delays:
  assumes "0 \<le> first" and "first \<le> cap" and "1 \<le> m" and "in_int32 (cap * int m)" and "n < 2 ^ 31"
  shows "\<exists>st. backoff_run n (backoff_new first cap (of_nat m)) =
    Some (map (\<lambda>k. min (first * int m ^ k) cap) [0..<n], st)"
proof -
  have "0 \<le> cap" and "min first cap = first" using assms(1,2) by auto
  with backoff_run_from [of first cap m 0 n] assms show ?thesis by (simp add: backoff_new_def)
qed

theorem backoff_delays_witness:
  "\<exists>st. backoff_run 3 (backoff_new 100 250 (of_nat 2)) = Some (map (\<lambda>k. min (100 * int 2 ^ k) 250) [0..<3], st)"
  by (rule backoff_delays) (simp_all add: in_int32_def)

end
