(* ===== verification/Entity_Client.thy ===== *)
theory Entity_Client
  imports Json_Value Dbal_Errors
begin

text \<open>
  The generic entity operations of the client (\<^verbatim>\<open>src/client_entity_ops.cpp\<close>), which only
  forward to the adapter of the chosen database.  The database is not part of the program:
  its three operations are a parameter, and the locale \<open>entity_client\<close> states what the
  stores that keep tokens rely on, over an abstract view \<open>rows\<close> of the tables.  Every
  operation may fail, and then leaves the tables alone.  Tables kept as lists of rows are
  an instance.
\<close>

record 'db adapter =
  ad_create :: "'db \<Rightarrow> string \<Rightarrow> json \<Rightarrow> json result \<times> 'db"
  ad_list :: "'db \<Rightarrow> string \<Rightarrow> (string \<times> string) list \<Rightarrow> nat \<Rightarrow> json list result"
  ad_update :: "'db \<Rightarrow> string \<Rightarrow> string \<Rightarrow> json \<Rightarrow> json result \<times> 'db"

definition create_entity :: "'db adapter \<Rightarrow> 'db \<Rightarrow> string \<Rightarrow> json \<Rightarrow> json result \<times> 'db" where
  "create_entity ad db entity data = ad_create ad db entity data"

definition list_entities :: "'db adapter \<Rightarrow> 'db \<Rightarrow> string \<Rightarrow> (string \<times> string) list \<Rightarrow> nat \<Rightarrow> json list result" where
  "list_entities ad db entity flt n = ad_list ad db entity flt n"

definition update_entity :: "'db adapter \<Rightarrow> 'db \<Rightarrow> string \<Rightarrow> string \<Rightarrow> json \<Rightarrow> json result \<times> 'db" where
  "update_entity ad db entity i data = ad_update ad db entity i data"

section \<open>Rows\<close>

definition field_is :: "json \<Rightarrow> string \<times> string \<Rightarrow> bool" where
  "field_is r kv \<longleftrightarrow> jget r (fst kv) = Some (JString (snd kv))"

definition row_matches :: "(string \<times> string) list \<Rightarrow> json \<Rightarrow> bool" where
  "row_matches flt r \<longleftrightarrow> list_all (field_is r) flt"

lemma row_matches_one: "row_matches [kv] = (\<lambda>r. field_is r kv)"
  by (simp add: row_matches_def fun_eq_iff)

fun jmerge :: "json \<Rightarrow> json \<Rightarrow> json" where
  "jmerge (JObject m) (JObject d) = JObject (fold (\<lambda>(k, v). om_put k v) d m)"
| "jmerge r _ = r"

definition proper_row :: "json \<Rightarrow> bool" where
  "proper_row r \<longleftrightarrow> (case jget r ''id'' of Some (JString i) \<Rightarrow> i \<noteq> [] | _ \<Rightarrow> False)"

lemma proper_row_iff: "proper_row r \<longleftrightarrow> (\<exists>i. jget r ''id'' = Some (JString i) \<and> i \<noteq> [])"
  by (auto simp: proper_row_def split: option.split json.split)

lemma proper_row_object: "proper_row r \<Longrightarrow> is_object r"
  by (cases r) (simp_all add: proper_row_def)

lemma jget_jobject_Cons:
  "jget (jobject (kvs @ [(k, v)])) x = (if x = k then Some v else jget (jobject kvs) x)"
  by (simp add: jget_jobject)

definition touch :: "string \<Rightarrow> json \<Rightarrow> json \<Rightarrow> json" where
  "touch i data r = (if field_is r (''id'', i) then jmerge r data else r)"

lemma jget_jmerge_one:
  "is_object r \<Longrightarrow> jget (jmerge r (jobject [(k, v)])) x = (if x = k then Some v else jget r x)"
  by (cases r) (auto simp: jobject_def)

lemma jget_touch_one:
  "proper_row r \<Longrightarrow> jget (touch i (jobject [(k, v)]) r) x =
     (if field_is r (''id'', i) \<and> x = k then Some v else jget r x)"
  by (simp add: touch_def jget_jmerge_one proper_row_object)

section \<open>What the stores rely on\<close>

locale entity_client =
  fixes ad :: "'db adapter" and rows :: "'db \<Rightarrow> string \<Rightarrow> json multiset"
  assumes rows_proper: "r \<in># rows db e \<Longrightarrow> proper_row r"
    and create_ok: "ad_create ad db e data = (Inr row, db') \<Longrightarrow> is_object data \<Longrightarrow> jget data ''id'' = None \<Longrightarrow>
          rows db' = (rows db)(e := add_mset row (rows db e)) \<and> proper_row row
          \<and> (\<forall>k. k \<noteq> ''id'' \<longrightarrow> jget row k = jget data k)
          \<and> (\<forall>r. r \<in># rows db e \<longrightarrow> jget r ''id'' \<noteq> jget row ''id'')"
    and create_error: "ad_create ad db e data = (Inl er, db') \<Longrightarrow> rows db' = rows db"
    and list_ok: "ad_list ad db e flt n = Inr items \<Longrightarrow>
          \<exists>xs. mset xs = filter_mset (row_matches flt) (rows db e) \<and> items = take n xs"
    and update_ok: "ad_update ad db e i data = (Inr row, db') \<Longrightarrow> is_object data \<Longrightarrow> jget data ''id'' = None \<Longrightarrow>
          \<exists>f. rows db' = (rows db)(e := image_mset f (rows db e))
            \<and> (\<forall>r. r \<in># rows db e \<longrightarrow> jget (f r) = jget (touch i data r))"
    and update_error: "ad_update ad db e i data = (Inl er, db') \<Longrightarrow> rows db' = rows db"
begin

lemma list_none: "ad_list ad db e flt n = Inr [] \<Longrightarrow> 0 < n \<Longrightarrow> filter_mset (row_matches flt) (rows db e) = {#}"
  using list_ok [of db e flt n "[]"] by auto

lemma list_first:
  assumes "ad_list ad db e flt n = Inr (r # items)"
  shows "r \<in># rows db e \<and> row_matches flt r"
proof -
  obtain xs where xs: "mset xs = filter_mset (row_matches flt) (rows db e)" "r # items = take n xs"
    using list_ok [OF assms] by blast
  then have "r \<in> set xs" by (metis in_set_takeD list.set_intros(1))
  then have "r \<in># filter_mset (row_matches flt) (rows db e)" by (metis set_mset_mset xs(1))
  then show ?thesis by simp
qed

lemma list_all_rows:
  assumes "ad_list ad db e flt n = Inr items" "size (filter_mset (row_matches flt) (rows db e)) \<le> n"
  shows "mset items = filter_mset (row_matches flt) (rows db e)"
  using list_ok [OF assms(1)] assms(2) by (metis size_mset take_all)

end

text \<open>A database that is up: lists succeed, and so do updates of rows that exist.\<close>

locale reliable_client = entity_client +
  assumes list_total: "\<exists>items. ad_list ad db e flt n = Inr items"
    and update_total: "r \<in># rows db e \<Longrightarrow> field_is r (''id'', i) \<Longrightarrow> is_object data \<Longrightarrow> jget data ''id'' = None \<Longrightarrow>
          \<exists>row db'. ad_update ad db e i data = (Inr row, db')"

section \<open>Tables as lists of rows\<close>

text \<open>The id of a row is its position in the table.\<close>

type_synonym table_db = "string \<Rightarrow> json list"

definition with_id :: "nat \<times> json \<Rightarrow> json" where
  "with_id kd = jset ''id'' (JString (nat_digits (fst kd))) (snd kd)"

definition table_view :: "table_db \<Rightarrow> string \<Rightarrow> json list" where
  "table_view db e = map with_id (enumerate 0 (db e))"

definition table_create :: "table_db \<Rightarrow> string \<Rightarrow> json \<Rightarrow> json result \<times> table_db" where
  "table_create db e data = (Inr (with_id (length (db e), data)), db(e := db e @ [data]))"

definition table_list :: "table_db \<Rightarrow> string \<Rightarrow> (string \<times> string) list \<Rightarrow> nat \<Rightarrow> json list result" where
  "table_list db e flt n = Inr (take n (filter (row_matches flt) (table_view db e)))"

definition table_update :: "table_db \<Rightarrow> string \<Rightarrow> string \<Rightarrow> json \<Rightarrow> json result \<times> table_db" where
  "table_update db e i data =
     (if list_ex (\<lambda>r. field_is r (''id'', i)) (table_view db e)
      then (Inr data, db(e := map (touch i data) (table_view db e)))
      else (Inl (not_found ''no such row''), db))"

definition table_adapter :: "table_db adapter" where
  "table_adapter = \<lparr>ad_create = table_create, ad_list = table_list, ad_update = table_update\<rparr>"

lemma jget_with_id: "jget (with_id (k, d)) x = (if x = ''id'' then Some (JString (nat_digits k)) else jget d x)"
  by (cases d) (auto simp: with_id_def)

lemma table_view_upd: "table_view (db(e := ds)) x = (if x = e then map with_id (enumerate 0 ds) else table_view db x)"
  by (simp add: table_view_def)

lemma table_view_proper: "r \<in> set (table_view db e) \<Longrightarrow> proper_row r"
  by (auto simp: table_view_def proper_row_iff jget_with_id)

lemma is_object_with_id [simp]: "is_object (with_id kd)"
  by (cases kd; cases "snd kd") (auto simp: with_id_def)

lemma jget_jmerge_data: "is_object r \<Longrightarrow> is_object data \<Longrightarrow> jget data k = None \<Longrightarrow> jget (jmerge r data) k = jget r k"
  by (cases r; cases data)
     (auto simp: map_of_fold_put map_add_def map_of_eq_None_iff split: option.split dest!: map_of_SomeD intro: rev_image_eqI)

text \<open>A row written back at its place keeps its id.\<close>

lemma with_id_touch:
  assumes "is_object data" "jget data ''id'' = None"
  shows "jget (with_id (k, touch i data (with_id (k, d)))) = jget (touch i data (with_id (k, d)))"
proof -
  have "jget (touch i data (with_id (k, d))) ''id'' = Some (JString (nat_digits k))"
    using assms by (simp add: touch_def jget_jmerge_data jget_with_id)
  then show ?thesis by (auto simp: fun_eq_iff jget_with_id)
qed

interpretation table: entity_client table_adapter "\<lambda>db e. mset (table_view db e)"
proof
  fix db db' :: table_db and e i :: string and data row r :: json and er flt n items
  show "r \<in># mset (table_view db e) \<Longrightarrow> proper_row r" by (simp add: table_view_proper)
  assume data: "is_object data" "jget data ''id'' = None"
  {
    assume c: "ad_create table_adapter db e data = (Inr row, db')"
    then have row: "row = with_id (length (db e), data)" and db': "db' = db(e := db e @ [data])"
      by (auto simp: table_adapter_def table_create_def)
    have "\<forall>r. r \<in># mset (table_view db e) \<longrightarrow> jget r ''id'' \<noteq> jget row ''id''"
      by (auto simp: table_view_def row jget_with_id in_set_enumerate_eq nat_digits_inject)
    then show "(\<lambda>e. mset (table_view db' e)) = (\<lambda>e. mset (table_view db e))(e := add_mset row (mset (table_view db e)))
        \<and> proper_row row \<and> (\<forall>k. k \<noteq> ''id'' \<longrightarrow> jget row k = jget data k)
        \<and> (\<forall>r. r \<in># mset (table_view db e) \<longrightarrow> jget r ''id'' \<noteq> jget row ''id'')"
      by (auto simp: db' row table_view_def fun_eq_iff proper_row_iff jget_with_id enumerate_append_eq)
  }
  assume u: "ad_update table_adapter db e i data = (Inr row, db')"
  let ?f = "\<lambda>r. with_id (digits_val (case jget r ''id'' of Some (JString s) \<Rightarrow> s | _ \<Rightarrow> []), touch i data r)"
  have "map with_id (enumerate m (map (touch i data) (map with_id (enumerate m xs)))) = map ?f (map with_id (enumerate m xs))" for m xs
    by (induction xs arbitrary: m) (auto simp: jget_with_id digits_val_nat_digits simp del: digits_val.simps)
  then have "map with_id (enumerate 0 (map (touch i data) (table_view db e))) = map ?f (table_view db e)"
    unfolding table_view_def .
  moreover have db': "db' = db(e := map (touch i data) (table_view db e))"
    using u by (auto simp: table_adapter_def table_update_def split: if_split_asm)
  ultimately have "table_view db' e = map ?f (table_view db e)"
    by (simp only: table_view_upd simp_thms if_True)
  then have "(\<lambda>e. mset (table_view db' e)) = (\<lambda>e. mset (table_view db e))(e := image_mset ?f (mset (table_view db e)))"
    by (simp add: fun_eq_iff) (simp add: db' table_view_upd)
  moreover have "jget (?f r) = jget (touch i data r)" if "r \<in> set (table_view db e)" for r
    using that with_id_touch [OF data]
    by (auto simp: table_view_def jget_with_id digits_val_nat_digits simp del: digits_val.simps)
  ultimately show "\<exists>f. (\<lambda>e. mset (table_view db' e)) = (\<lambda>e. mset (table_view db e))(e := image_mset f (mset (table_view db e)))
      \<and> (\<forall>r. r \<in># mset (table_view db e) \<longrightarrow> jget (f r) = jget (touch i data r))"
    by (intro exI [of _ ?f]) simp
next
  fix db db' :: table_db and e i :: string and data :: json and er flt n items
  show "ad_create table_adapter db e data = (Inl er, db') \<Longrightarrow> (\<lambda>e. mset (table_view db' e)) = (\<lambda>e. mset (table_view db e))"
    by (simp add: table_adapter_def table_create_def)
  show "ad_update table_adapter db e i data = (Inl er, db') \<Longrightarrow> (\<lambda>e. mset (table_view db' e)) = (\<lambda>e. mset (table_view db e))"
    by (auto simp: table_adapter_def table_update_def split: if_split_asm)
  assume "ad_list table_adapter db e flt n = Inr items"
  then show "\<exists>xs. mset xs = filter_mset (row_matches flt) (mset (table_view db e)) \<and> items = take n xs"
    by (intro exI [of _ "filter (row_matches flt) (table_view db e)"]) (auto simp: table_adapter_def table_list_def)
qed

interpretation table: reliable_client table_adapter "\<lambda>db e. mset (table_view db e)"
proof
  fix db :: table_db and e i :: string and data r :: json and flt n
  show "\<exists>items. ad_list table_adapter db e flt n = Inr items"
    by (simp add: table_adapter_def table_list_def)
  assume "r \<in># mset (table_view db e)" "field_is r (''id'', i)"
  then show "\<exists>row db'. ad_update table_adapter db e i data = (Inr row, db')"
    by (auto simp: table_adapter_def table_update_def list_ex_iff)
qed

end
