(* ===== verification/Token_Stores.thy ===== *)
theory Token_Stores
  imports Entity_Client
begin

text \<open>
  The stores of single-use credentials on top of the entity operations: authorization codes
  and refresh tokens (\<^verbatim>\<open>src/oidc/tokens\<close>), CAS tickets (\<^verbatim>\<open>src/cas/cas_ticket_store.cpp\<close>)
  and pending SAML requests (\<^verbatim>\<open>src/saml/state/saml_request_store.cpp\<close>).  The random
  token, the digest \<open>sha\<close> and the readings of the clock (\<^verbatim>\<open>nowUnix()\<close>, in seconds) are
  arguments.  A result is \<^const>\<open>Inl\<close> where reading a column of the wrong type throws,
  and otherwise the \<^verbatim>\<open>Result\<close> of the C++ function.
\<close>

section \<open>Columns\<close>

definition spent :: "string \<Rightarrow> json \<Rightarrow> bool" where
  "spent flag r = (case jget r flag of None \<Rightarrow> False | Some v \<Rightarrow> \<not> is_null v)"

definition opt_json :: "string option \<Rightarrow> json" where
  "opt_json v = (case v of None \<Rightarrow> JNull | Some s \<Rightarrow> JString s)"

definition opt_column :: "json \<Rightarrow> string \<Rightarrow> string option" where
  "opt_column r k = (case jget r k of Some (JString s) \<Rightarrow> Some s | _ \<Rightarrow> None)"

text \<open>The update that every store makes: one column of one row gets a time.\<close>

definition mark :: "'db adapter \<Rightarrow> string \<Rightarrow> string \<Rightarrow> int \<Rightarrow> 'db \<Rightarrow> string \<Rightarrow> json result \<times> 'db" where
  "mark ad entity flag t db i = update_entity ad db entity i (jobject [(flag, JInt t)])"

section \<open>Authorization codes\<close>

record auth_code_request =
  ac_client_id :: string
  ac_user_id :: string
  ac_tenant_id :: string
  ac_redirect_uri :: string
  ac_code_challenge :: string
  ac_code_challenge_method :: string
  ac_scope :: string
  ac_nonce :: "string option"

type_synonym redeemed_code = auth_code_request

definition auth_code_row :: "(string \<Rightarrow> string) \<Rightarrow> int \<Rightarrow> string \<Rightarrow> int \<Rightarrow> int \<Rightarrow> auth_code_request \<Rightarrow> json" where
  "auth_code_row sha ttl raw t1 t2 req = jobject
     [(''codeHash'', JString (sha raw)),
      (''clientId'', JString (ac_client_id req)),
      (''userId'', JString (ac_user_id req)),
      (''tenantId'', JString (ac_tenant_id req)),
      (''redirectUri'', JString (ac_redirect_uri req)),
      (''codeChallenge'', JString (ac_code_challenge req)),
      (''codeChallengeMethod'', JString (ac_code_challenge_method req)),
      (''scope'', JString (ac_scope req)),
      (''nonce'', opt_json (ac_nonce req)),
      (''expiresAt'', JInt (t1 + ttl)),
      (''consumedAt'', JNull),
      (''createdAt'', JInt t2)]"

definition auth_code_issue ::
  "'db adapter \<Rightarrow> (string \<Rightarrow> string) \<Rightarrow> int \<Rightarrow> string \<Rightarrow> int \<Rightarrow> int \<Rightarrow> 'db \<Rightarrow> auth_code_request \<Rightarrow> string result \<times> 'db" where
  "auth_code_issue ad sha ttl raw t1 t2 db req =
     (case create_entity ad db ''AuthorizationCode'' (auth_code_row sha ttl raw t1 t2 req) of
        (Inl e, db') \<Rightarrow> (Inl e, db')
      | (Inr _, db') \<Rightarrow> (Inr raw, db'))"

definition redeemed_of :: "string \<Rightarrow> json \<Rightarrow> exn + redeemed_code" where
  "redeemed_of client row =
     exn_bind (value_string row ''userId'' []) (\<lambda>user.
     exn_bind (value_string row ''tenantId'' []) (\<lambda>tenant.
     exn_bind (value_string row ''redirectUri'' []) (\<lambda>redirect.
     exn_bind (value_string row ''codeChallenge'' []) (\<lambda>challenge.
     exn_bind (value_string row ''codeChallengeMethod'' []) (\<lambda>meth.
     exn_bind (value_string row ''scope'' []) (\<lambda>scope.
     Inr \<lparr>ac_client_id = client, ac_user_id = user, ac_tenant_id = tenant, ac_redirect_uri = redirect,
          ac_code_challenge = challenge, ac_code_challenge_method = meth, ac_scope = scope,
          ac_nonce = opt_column row ''nonce''\<rparr>))))))"

definition auth_code_redeem ::
  "'db adapter \<Rightarrow> (string \<Rightarrow> string) \<Rightarrow> int \<Rightarrow> int \<Rightarrow> 'db \<Rightarrow> string \<Rightarrow> string \<Rightarrow> (exn + redeemed_code result) \<times> 'db" where
  "auth_code_redeem ad sha t1 t2 db raw client_hint =
     (case list_entities ad db ''AuthorizationCode'' [(''codeHash'', sha raw)] 1 of
        Inl e \<Rightarrow> (Inr (Inl e), db)
      | Inr [] \<Rightarrow> (Inr (Inl (not_found ''invalid_grant: authorization code not found'')), db)
      | Inr (row # _) \<Rightarrow>
         (case exn_bind (value_string row ''id'' []) (\<lambda>i.
               exn_bind (value_string row ''clientId'' []) (\<lambda>client.
               exn_bind (value_int row ''expiresAt'' 0) (\<lambda>expires. Inr (i, client, expires)))) of
            Inl x \<Rightarrow> (Inl x, db)
          | Inr (i, client, expires) \<Rightarrow>
              if client \<noteq> client_hint
              then (Inr (Inl (validation_error ''invalid_grant: client_id mismatch'')), db)
              else if \<not> jcontains row ''consumedAt'' \<or> spent ''consumedAt'' row
              then (Inr (Inl (validation_error ''invalid_grant: authorization code already used'')), db)
              else if expires \<le> t1
              then (Inr (Inl (validation_error ''invalid_grant: authorization code expired'')), db)
              else case mark ad ''AuthorizationCode'' ''consumedAt'' t2 db i of
                (Inl e, db') \<Rightarrow> (Inr (Inl e), db')
              | (Inr _, db') \<Rightarrow> (map_sum id Inr (redeemed_of client row), db')))"

section \<open>Refresh tokens\<close>

record refresh_token_request =
  rt_client_id :: string
  rt_user_id :: string
  rt_tenant_id :: string
  rt_scope :: string
  rt_family_id :: string
  rt_parent_id :: "string option"

record rotated_refresh_token =
  rr_token_id :: string
  rr_client_id :: string
  rr_user_id :: string
  rr_tenant_id :: string
  rr_scope :: string
  rr_family_id :: string

definition refresh_token_row ::
  "(string \<Rightarrow> string) \<Rightarrow> int \<Rightarrow> string \<Rightarrow> string \<Rightarrow> int \<Rightarrow> int \<Rightarrow> refresh_token_request \<Rightarrow> json" where
  "refresh_token_row sha ttl raw fresh t1 t2 req = jobject
     [(''tokenHash'', JString (sha raw)),
      (''familyId'', JString (if rt_family_id req = [] then fresh else rt_family_id req)),
      (''clientId'', JString (rt_client_id req)),
      (''userId'', JString (rt_user_id req)),
      (''tenantId'', JString (rt_tenant_id req)),
      (''scope'', JString (rt_scope req)),
      (''parentId'', opt_json (rt_parent_id req)),
      (''revokedAt'', JNull),
      (''expiresAt'', JInt (t1 + ttl)),
      (''createdAt'', JInt t2)]"

definition refresh_token_issue ::
  "'db adapter \<Rightarrow> (string \<Rightarrow> string) \<Rightarrow> int \<Rightarrow> string \<Rightarrow> string \<Rightarrow> int \<Rightarrow> int \<Rightarrow> 'db \<Rightarrow> refresh_token_request \<Rightarrow> string result \<times> 'db" where
  "refresh_token_issue ad sha ttl raw fresh t1 t2 db req =
     (case create_entity ad db ''RefreshToken'' (refresh_token_row sha ttl raw fresh t1 t2 req) of
        (Inl e, db') \<Rightarrow> (Inl e, db')
      | (Inr _, db') \<Rightarrow> (Inr raw, db'))"

fun revoke_rows :: "'db adapter \<Rightarrow> int \<Rightarrow> json list \<Rightarrow> 'db \<Rightarrow> (exn + unit) \<times> 'db" where
  "revoke_rows ad t [] db = (Inr (), db)"
| "revoke_rows ad t (row # rs) db =
     (if spent ''revokedAt'' row then revoke_rows ad t rs db
      else case value_string row ''id'' [] of
        Inl x \<Rightarrow> (Inl x, db)
      | Inr i \<Rightarrow>
          if i = [] then revoke_rows ad t rs db
          else revoke_rows ad t rs (snd (mark ad ''RefreshToken'' ''revokedAt'' t db i)))"

definition revoke_family :: "'db adapter \<Rightarrow> int \<Rightarrow> 'db \<Rightarrow> string \<Rightarrow> (exn + unit) \<times> 'db" where
  "revoke_family ad t db family =
     (case list_entities ad db ''RefreshToken'' [(''familyId'', family)] 1000 of
        Inl e \<Rightarrow> (Inr (), db)
      | Inr items \<Rightarrow> revoke_rows ad t items db)"

definition rotated_of :: "string \<Rightarrow> string \<Rightarrow> string \<Rightarrow> json \<Rightarrow> exn + rotated_refresh_token" where
  "rotated_of i client family row =
     exn_bind (value_string row ''userId'' []) (\<lambda>user.
     exn_bind (value_string row ''tenantId'' []) (\<lambda>tenant.
     exn_bind (value_string row ''scope'' []) (\<lambda>scope.
     Inr \<lparr>rr_token_id = i, rr_client_id = client, rr_user_id = user, rr_tenant_id = tenant,
          rr_scope = scope, rr_family_id = family\<rparr>)))"

text \<open>The long dash of the message, as the bytes of its UTF-8 encoding.\<close>

definition em_dash :: string where
  "em_dash = [CHR 0xE2, CHR 0x80, CHR 0x94]"

definition reuse_error :: error where
  "reuse_error = validation_error
     (''invalid_grant: refresh token reuse detected '' @ em_dash @ '' token family revoked'')"

definition refresh_token_rotate ::
  "'db adapter \<Rightarrow> (string \<Rightarrow> string) \<Rightarrow> int \<Rightarrow> int \<Rightarrow> 'db \<Rightarrow> string \<Rightarrow> string \<Rightarrow> (exn + rotated_refresh_token result) \<times> 'db" where
  "refresh_token_rotate ad sha t1 t2 db raw client_hint =
     (case list_entities ad db ''RefreshToken'' [(''tokenHash'', sha raw)] 1 of
        Inl e \<Rightarrow> (Inr (Inl e), db)
      | Inr [] \<Rightarrow> (Inr (Inl (not_found ''invalid_grant: refresh token not found'')), db)
      | Inr (row # _) \<Rightarrow>
         (case exn_bind (value_string row ''id'' []) (\<lambda>i.
               exn_bind (value_string row ''familyId'' []) (\<lambda>family.
               exn_bind (value_string row ''clientId'' []) (\<lambda>client.
               exn_bind (value_int row ''expiresAt'' 0) (\<lambda>expires. Inr (i, family, client, expires))))) of
            Inl x \<Rightarrow> (Inl x, db)
          | Inr (i, family, client, expires) \<Rightarrow>
              if client \<noteq> client_hint
              then (Inr (Inl (validation_error ''invalid_grant: client_id mismatch'')), db)
              else if spent ''revokedAt'' row
              then (case revoke_family ad t1 db family of
                      (Inl x, db') \<Rightarrow> (Inl x, db')
                    | (Inr _, db') \<Rightarrow> (Inr (Inl reuse_error), db'))
              else if expires \<le> t1
              then (Inr (Inl (validation_error ''invalid_grant: refresh token expired'')), db)
              else case mark ad ''RefreshToken'' ''revokedAt'' t2 db i of
                (Inl e, db') \<Rightarrow> (Inr (Inl e), db')
              | (Inr _, db') \<Rightarrow> (map_sum id Inr (rotated_of i client family row), db')))"

definition refresh_token_revoke ::
  "'db adapter \<Rightarrow> (string \<Rightarrow> string) \<Rightarrow> int \<Rightarrow> 'db \<Rightarrow> string \<Rightarrow> (exn + bool result) \<times> 'db" where
  "refresh_token_revoke ad sha t1 db raw =
     (case list_entities ad db ''RefreshToken'' [(''tokenHash'', sha raw)] 1 of
        Inl e \<Rightarrow> (Inr (Inl e), db)
      | Inr [] \<Rightarrow> (Inr (Inr True), db)
      | Inr (row # _) \<Rightarrow>
          if spent ''revokedAt'' row then (Inr (Inr True), db)
          else case value_string row ''id'' [] of
            Inl x \<Rightarrow> (Inl x, db)
          | Inr i \<Rightarrow>
             (case mark ad ''RefreshToken'' ''revokedAt'' t1 db i of
                (Inl e, db') \<Rightarrow> (Inr (Inl e), db')
              | (Inr _, db') \<Rightarrow> (Inr (Inr True), db')))"

section \<open>CAS tickets\<close>

datatype ticket_type = ServiceTicket | TicketGrantingTicket

fun type_string :: "ticket_type \<Rightarrow> string" where
  "type_string TicketGrantingTicket = ''TGT''"
| "type_string ServiceTicket = ''ST''"

fun ticket_prefix :: "ticket_type \<Rightarrow> string" where
  "ticket_prefix TicketGrantingTicket = ''TGT-''"
| "ticket_prefix ServiceTicket = ''ST-''"

record validated_ticket =
  vt_user_id :: string
  vt_tenant_id :: string

definition cas_ticket_row ::
  "(string \<Rightarrow> string) \<Rightarrow> ticket_type \<Rightarrow> string \<Rightarrow> string \<Rightarrow> string \<Rightarrow> string \<Rightarrow> int \<Rightarrow> int \<Rightarrow> int \<Rightarrow> json" where
  "cas_ticket_row sha ty raw user tenant service ttl t1 t2 = jobject
     [(''ticketHash'', JString (sha raw)),
      (''ticketType'', JString (type_string ty)),
      (''userId'', JString user),
      (''tenantId'', JString tenant),
      (''service'', JString service),
      (''consumedAt'', JNull),
      (''expiresAt'', JInt (t1 + ttl)),
      (''createdAt'', JInt t2)]"

definition cas_issue ::
  "'db adapter \<Rightarrow> (string \<Rightarrow> string) \<Rightarrow> string \<Rightarrow> int \<Rightarrow> int \<Rightarrow> 'db \<Rightarrow> ticket_type \<Rightarrow> string \<Rightarrow> string \<Rightarrow> string \<Rightarrow> int \<Rightarrow> string result \<times> 'db" where
  "cas_issue ad sha token t1 t2 db ty user tenant service ttl =
     (let raw = ticket_prefix ty @ token in
      case create_entity ad db ''CasTicket'' (cas_ticket_row sha ty raw user tenant service ttl t1 t2) of
        (Inl e, db') \<Rightarrow> (Inl e, db')
      | (Inr _, db') \<Rightarrow> (Inr raw, db'))"

definition validate_service_ticket ::
  "'db adapter \<Rightarrow> (string \<Rightarrow> string) \<Rightarrow> int \<Rightarrow> int \<Rightarrow> 'db \<Rightarrow> string \<Rightarrow> string \<Rightarrow> (exn + validated_ticket result) \<times> 'db" where
  "validate_service_ticket ad sha t1 t2 db raw service =
     (case list_entities ad db ''CasTicket'' [(''ticketHash'', sha raw)] 1 of
        Inl e \<Rightarrow> (Inr (Inl e), db)
      | Inr [] \<Rightarrow> (Inr (Inl (not_found ''INVALID_TICKET: ticket not recognized'')), db)
      | Inr (row # _) \<Rightarrow>
         (case exn_bind (value_string row ''id'' []) (\<lambda>i.
               exn_bind (value_string row ''service'' []) (\<lambda>stored.
               exn_bind (value_int row ''expiresAt'' 0) (\<lambda>expires. Inr (i, stored, expires)))) of
            Inl x \<Rightarrow> (Inl x, db)
          | Inr (i, stored, expires) \<Rightarrow>
              if spent ''consumedAt'' row
              then (Inr (Inl (validation_error ''INVALID_TICKET: ticket already used'')), db)
              else if expires \<le> t1
              then (Inr (Inl (validation_error ''INVALID_TICKET: ticket expired'')), db)
              else if stored \<noteq> service
              then (Inr (Inl (validation_error ''INVALID_SERVICE: service does not match ticket issuance'')), db)
              else case mark ad ''CasTicket'' ''consumedAt'' t2 db i of
                (Inl e, db') \<Rightarrow> (Inr (Inl e), db')
              | (Inr _, db') \<Rightarrow>
                 (map_sum id Inr
                    (exn_bind (value_string row ''userId'' []) (\<lambda>user.
                     exn_bind (value_string row ''tenantId'' []) (\<lambda>tenant.
                     Inr \<lparr>vt_user_id = user, vt_tenant_id = tenant\<rparr>))), db')))"

section \<open>Pending SAML requests\<close>

record pending_saml_request =
  ps_request_id :: string
  ps_sp_entity_id :: string
  ps_acs_url :: string
  ps_relay_state :: "string option"

definition saml_row :: "int \<Rightarrow> int \<Rightarrow> int \<Rightarrow> pending_saml_request \<Rightarrow> json" where
  "saml_row ttl t1 t2 req = jobject
     [(''requestId'', JString (ps_request_id req)),
      (''spEntityId'', JString (ps_sp_entity_id req)),
      (''acsUrl'', JString (ps_acs_url req)),
      (''relayState'', opt_json (ps_relay_state req)),
      (''consumedAt'', JNull),
      (''expiresAt'', JInt (t1 + ttl)),
      (''createdAt'', JInt t2)]"

definition saml_store :: "'db adapter \<Rightarrow> int \<Rightarrow> int \<Rightarrow> int \<Rightarrow> 'db \<Rightarrow> pending_saml_request \<Rightarrow> bool result \<times> 'db" where
  "saml_store ad ttl t1 t2 db req =
     (case create_entity ad db ''SamlAuthnRequestState'' (saml_row ttl t1 t2 req) of
        (Inl e, db') \<Rightarrow> (Inl e, db')
      | (Inr _, db') \<Rightarrow> (Inr True, db'))"

definition saml_take ::
  "'db adapter \<Rightarrow> int \<Rightarrow> int \<Rightarrow> 'db \<Rightarrow> string \<Rightarrow> (exn + pending_saml_request result) \<times> 'db" where
  "saml_take ad t1 t2 db request_id =
     (case list_entities ad db ''SamlAuthnRequestState'' [(''requestId'', request_id)] 1 of
        Inl e \<Rightarrow> (Inr (Inl e), db)
      | Inr [] \<Rightarrow> (Inr (Inl (not_found
          (''AuthnRequest state not found '' @ em_dash @ '' start over at /saml/sso''))), db)
      | Inr (row # _) \<Rightarrow>
         (case exn_bind (value_string row ''id'' []) (\<lambda>i.
               exn_bind (value_int row ''expiresAt'' 0) (\<lambda>expires. Inr (i, expires))) of
            Inl x \<Rightarrow> (Inl x, db)
          | Inr (i, expires) \<Rightarrow>
              if spent ''consumedAt'' row
              then (Inr (Inl (validation_error ''AuthnRequest state already used'')), db)
              else if expires \<le> t1
              then (Inr (Inl (validation_error
                 (''AuthnRequest state expired '' @ em_dash @ '' start over at /saml/sso''))), db)
              else case mark ad ''SamlAuthnRequestState'' ''consumedAt'' t2 db i of
                (Inl e, db') \<Rightarrow> (Inr (Inl e), db')
              | (Inr _, db') \<Rightarrow>
                 (map_sum id Inr
                    (exn_bind (value_string row ''spEntityId'' []) (\<lambda>sp.
                     exn_bind (value_string row ''acsUrl'' []) (\<lambda>acs.
                     Inr \<lparr>ps_request_id = request_id, ps_sp_entity_id = sp, ps_acs_url = acs,
                          ps_relay_state = opt_column row ''relayState''\<rparr>))), db')))"

end
