(* ===== verification/Token_Lifecycle.thy ===== *)
theory Token_Lifecycle
  imports Token_Stores
begin

text \<open>
  How the token stores behave over a whole run, in which their operations come in any
  order on one shared database.  The argument for single use is a count: the rows of a
  table that carry a given hash and are not yet spent.  Issuing adds at most one, a
  successful redemption takes one away, and nothing else adds any.  The lemmas are proved
  for every database that satisfies \<open>entity_client\<close>.
\<close>

section \<open>Runs\<close>

datatype token_op =
    Issue_code int string int int auth_code_request
  | Redeem_code int int string string
  | Issue_refresh int string string int int refresh_token_request
  | Rotate int int string string
  | Revoke int string
  | Cas_issue string int int ticket_type string string string int
  | Cas_validate int int string string
  | Saml_store int int int pending_saml_request
  | Saml_take int int string

definition returned :: "exn + 'a result \<Rightarrow> bool" where
  "returned r = (case r of Inr (Inr _) \<Rightarrow> True | _ \<Rightarrow> False)"

fun token_step :: "'db adapter \<Rightarrow> (string \<Rightarrow> string) \<Rightarrow> token_op \<Rightarrow> 'db \<Rightarrow> bool \<times> 'db" where
  "token_step ad sha (Issue_code ttl raw t1 t2 req) db =
     map_prod is_ok id (auth_code_issue ad sha ttl raw t1 t2 db req)"
| "token_step ad sha (Redeem_code t1 t2 raw client) db =
     map_prod returned id (auth_code_redeem ad sha t1 t2 db raw client)"
| "token_step ad sha (Issue_refresh ttl raw fresh t1 t2 req) db =
     map_prod is_ok id (refresh_token_issue ad sha ttl raw fresh t1 t2 db req)"
| "token_step ad sha (Rotate t1 t2 raw client) db =
     map_prod returned id (refresh_token_rotate ad sha t1 t2 db raw client)"
| "token_step ad sha (Revoke t1 raw) db =
     map_prod returned id (refresh_token_revoke ad sha t1 db raw)"
| "token_step ad sha (Cas_issue token t1 t2 ty user tenant service ttl) db =
     map_prod is_ok id (cas_issue ad sha token t1 t2 db ty user tenant service ttl)"
| "token_step ad sha (Cas_validate t1 t2 raw service) db =
     map_prod returned id (validate_service_ticket ad sha t1 t2 db raw service)"
| "token_step ad sha (Saml_store ttl t1 t2 req) db =
     map_prod is_ok id (saml_store ad ttl t1 t2 db req)"
| "token_step ad sha (Saml_take t1 t2 request_id) db =
     map_prod returned id (saml_take ad t1 t2 db request_id)"

fun token_run :: "'db adapter \<Rightarrow> (string \<Rightarrow> string) \<Rightarrow> token_op list \<Rightarrow> 'db \<Rightarrow> (token_op \<times> bool) list \<times> 'db" where
  "token_run ad sha [] db = ([], db)"
| "token_run ad sha (op # ops) db =
     (let (ok, db1) = token_step ad sha op db; (tr, db2) = token_run ad sha ops db1
      in ((op, ok) # tr, db2))"

text \<open>The four kinds of credentials: their tables, the column of the hash, the spent mark.\<close>

datatype token_kind = Auth_code | Refresh_token | Cas_ticket | Saml_request

fun kind_entity :: "token_kind \<Rightarrow> string" where
  "kind_entity Auth_code = ''AuthorizationCode''"
| "kind_entity Refresh_token = ''RefreshToken''"
| "kind_entity Cas_ticket = ''CasTicket''"
| "kind_entity Saml_request = ''SamlAuthnRequestState''"

fun kind_key :: "token_kind \<Rightarrow> string" where
  "kind_key Auth_code = ''codeHash''"
| "kind_key Refresh_token = ''tokenHash''"
| "kind_key Cas_ticket = ''ticketHash''"
| "kind_key Saml_request = ''requestId''"

fun kind_flag :: "token_kind \<Rightarrow> string" where
  "kind_flag Refresh_token = ''revokedAt''"
| "kind_flag _ = ''consumedAt''"

fun op_issues :: "(string \<Rightarrow> string) \<Rightarrow> token_kind \<Rightarrow> string \<Rightarrow> token_op \<Rightarrow> bool" where
  "op_issues sha Auth_code h (Issue_code ttl raw t1 t2 req) \<longleftrightarrow> sha raw = h"
| "op_issues sha Refresh_token h (Issue_refresh ttl raw fresh t1 t2 req) \<longleftrightarrow> sha raw = h"
| "op_issues sha Cas_ticket h (Cas_issue token t1 t2 ty user tenant service ttl) \<longleftrightarrow> sha (ticket_prefix ty @ token) = h"
| "op_issues sha Saml_request h (Saml_store ttl t1 t2 req) \<longleftrightarrow> ps_request_id req = h"
| "op_issues _ _ _ _ \<longleftrightarrow> False"

fun op_consumes :: "(string \<Rightarrow> string) \<Rightarrow> token_kind \<Rightarrow> string \<Rightarrow> token_op \<Rightarrow> bool" where
  "op_consumes sha Auth_code h (Redeem_code t1 t2 raw client) \<longleftrightarrow> sha raw = h"
| "op_consumes sha Refresh_token h (Rotate t1 t2 raw client) \<longleftrightarrow> sha raw = h"
| "op_consumes sha Cas_ticket h (Cas_validate t1 t2 raw service) \<longleftrightarrow> sha raw = h"
| "op_consumes sha Saml_request h (Saml_take t1 t2 request_id) \<longleftrightarrow> request_id = h"
| "op_consumes _ _ _ _ \<longleftrightarrow> False"

definition succeeded :: "(token_op \<Rightarrow> bool) \<Rightarrow> (token_op \<times> bool) list \<Rightarrow> nat" where
  "succeeded p tr = length (filter (\<lambda>(op, ok). ok \<and> p op) tr)"

definition live :: "(string \<Rightarrow> json multiset) \<Rightarrow> token_kind \<Rightarrow> string \<Rightarrow> nat" where
  "live tables k h = size (filter_mset (\<lambda>r. field_is r (kind_key k, h) \<and> \<not> spent (kind_flag k) r)
     (tables (kind_entity k)))"

lemma kind_entity_inject [simp]: "kind_entity a = kind_entity b \<longleftrightarrow> a = b"
  by (cases a; cases b) simp_all

lemma kind_key_flag [simp]: "kind_key a \<noteq> kind_flag a" "kind_key a \<noteq> ''id''" "kind_flag a \<noteq> ''id''"
  by (cases a; simp)+

section \<open>Counting\<close>

lemma spent_jget: "jget r = jget r' \<Longrightarrow> spent k r = spent k r'"
  by (simp add: spent_def)

lemma size_filter_image_le:
  assumes "\<And>r. r \<in># M \<Longrightarrow> P (f r) \<Longrightarrow> P r"
  shows "size (filter_mset P (image_mset f M)) \<le> size (filter_mset P M)"
  using assms by (induction M) (auto simp: le_SucI)

lemma size_filter_image_less:
  assumes "\<And>r. r \<in># M \<Longrightarrow> P (f r) \<Longrightarrow> P r" and "r \<in># M" and "P r" and "\<not> P (f r)"
  shows "size (filter_mset P (image_mset f M)) < size (filter_mset P M)"
proof -
  obtain N where M: "M = add_mset r N" using multi_member_split [OF assms(2)] by blast
  have "size (filter_mset P (image_mset f N)) \<le> size (filter_mset P N)"
    using assms(1) by (intro size_filter_image_le) (simp add: M)
  then show ?thesis by (simp add: M assms(3,4))
qed

context entity_client
begin

lemma mark_rows:
  assumes "mark ad e flag t db i = (Inr row, db')" "flag \<noteq> ''id''"
  obtains f where "rows db' = (rows db)(e := image_mset f (rows db e))"
    and "\<And>r x. r \<in># rows db e \<Longrightarrow> jget (f r) x = (if field_is r (''id'', i) \<and> x = flag then Some (JInt t) else jget r x)"
proof -
  have u: "ad_update ad db e i (jobject [(flag, JInt t)]) = (Inr row, db')"
    using assms(1) by (simp add: mark_def update_entity_def)
  have "jget (jobject [(flag, JInt t)]) ''id'' = None" using assms(2) by (simp add: jget_jobject)
  from update_ok [OF u _ this] obtain f where
    "rows db' = (rows db)(e := image_mset f (rows db e))"
    "\<And>r. r \<in># rows db e \<Longrightarrow> jget (f r) = jget (touch i (jobject [(flag, JInt t)]) r)" by auto
  then show ?thesis using that jget_touch_one rows_proper by simp
qed

lemma mark_live_le:
  assumes "mark ad (kind_entity k) (kind_flag k) t db i = (res, db')"
  shows "live (rows db') k' h \<le> live (rows db) k' h"
proof (cases res)
  case (Inl e)
  with assms have "rows db' = rows db" by (auto simp: mark_def update_entity_def dest: update_error)
  then show ?thesis by simp
next
  case (Inr row)
  with assms obtain f where f: "rows db' = (rows db)(kind_entity k := image_mset f (rows db (kind_entity k)))"
      "\<And>r x. r \<in># rows db (kind_entity k) \<Longrightarrow>
         jget (f r) x = (if field_is r (''id'', i) \<and> x = kind_flag k then Some (JInt t) else jget r x)"
    by (auto elim: mark_rows)
  show ?thesis
  proof (cases "k' = k")
    case True
    have "size (filter_mset (\<lambda>r. field_is r (kind_key k, h) \<and> \<not> spent (kind_flag k) r)
        (image_mset f (rows db (kind_entity k)))) \<le> live (rows db) k h"
      unfolding live_def using f(2)
      by (intro size_filter_image_le) (auto simp: field_is_def spent_def split: option.splits if_split_asm)
    then show ?thesis by (simp add: live_def f(1) True)
  qed (simp add: live_def f(1))
qed

lemma mark_live_less:
  assumes "mark ad (kind_entity k) (kind_flag k) t db i = (Inr row, db')"
    and r: "r \<in># rows db (kind_entity k)" "field_is r (kind_key k, h)" "\<not> spent (kind_flag k) r" "field_is r (''id'', i)"
  shows "live (rows db') k h < live (rows db) k h"
proof -
  obtain f where f: "rows db' = (rows db)(kind_entity k := image_mset f (rows db (kind_entity k)))"
      "\<And>r x. r \<in># rows db (kind_entity k) \<Longrightarrow>
         jget (f r) x = (if field_is r (''id'', i) \<and> x = kind_flag k then Some (JInt t) else jget r x)"
    using assms(1) by (auto elim: mark_rows)
  have "size (filter_mset (\<lambda>r. field_is r (kind_key k, h) \<and> \<not> spent (kind_flag k) r)
      (image_mset f (rows db (kind_entity k)))) < live (rows db) k h"
    unfolding live_def using f(2) r
    by (intro size_filter_image_less [OF _ r(1)]) (auto simp: field_is_def spent_def split: option.splits if_split_asm)
  then show ?thesis by (simp add: live_def f(1))
qed

lemma create_live:
  assumes "create_entity ad db (kind_entity k) data = (res, db')" and "is_object data" and "jget data ''id'' = None"
  shows "live (rows db') k' h \<le> live (rows db) k' h
    + (if is_ok res \<and> k' = k \<and> field_is data (kind_key k, h) then 1 else 0)"
proof (cases res)
  case (Inl e)
  with assms(1) have "rows db' = rows db" by (auto simp: create_entity_def dest: create_error)
  then show ?thesis by simp
next
  case (Inr row)
  with assms have "ad_create ad db (kind_entity k) data = (Inr row, db')" by (simp add: create_entity_def)
  from create_ok [OF this assms(2,3)] show ?thesis
    by (auto simp: live_def Inr field_is_def)
qed

lemma found_row:
  assumes "list_entities ad db e [kv] n = Inr (r # items)"
  shows "r \<in># rows db e \<and> field_is r kv"
  using list_first [of db e "[kv]" n r items] assms by (simp add: list_entities_def row_matches_def)

lemma revoke_rows_live: "revoke_rows ad t rs db = (res, db') \<Longrightarrow> live (rows db') k h \<le> live (rows db) k h"
proof (induction rs arbitrary: db)
  case (Cons r rs)
  have "live (rows (snd (mark ad ''RefreshToken'' ''revokedAt'' t db i))) k h \<le> live (rows db) k h" for i
    using mark_live_le [of Refresh_token t db i "fst (mark ad ''RefreshToken'' ''revokedAt'' t db i)"]
    by simp
  with Cons.IH Cons.prems show ?case
    by (fastforce split: if_split_asm sum.split_asm intro: order_trans)
qed simp

lemma revoke_family_live: "revoke_family ad t db family = (res, db') \<Longrightarrow> live (rows db') k h \<le> live (rows db) k h"
  by (auto simp: revoke_family_def revoke_rows_live split: sum.split_asm)

text \<open>One redemption: the row found is live, its id is the one that is marked.\<close>

lemma consume_live:
  assumes l: "list_entities ad db (kind_entity k) [(kind_key k, h)] 1 = Inr (r # items)"
    and i: "value_string r ''id'' [] = Inr i" and "\<not> spent (kind_flag k) r"
    and m: "mark ad (kind_entity k) (kind_flag k) t db i = (Inr row, db')"
  shows "Suc (live (rows db') k h) \<le> live (rows db) k h"
proof -
  have r: "r \<in># rows db (kind_entity k)" "field_is r (kind_key k, h)" using found_row [OF l] by auto
  then have "proper_row r" by (simp add: rows_proper)
  with i have "field_is r (''id'', i)" by (auto simp: proper_row_iff value_string_iff field_is_def)
  from mark_live_less [OF m r assms(3) this] show ?thesis by simp
qed

lemma redeem_live:
  assumes "auth_code_redeem ad sha t1 t2 db raw client = (res, db')"
  shows "live (rows db') k h + (if returned res \<and> k = Auth_code \<and> h = sha raw then 1 else 0) \<le> live (rows db) k h"
  using assms consume_live [of db Auth_code "sha raw"] mark_live_le [of Auth_code]
  by (auto simp: auth_code_redeem_def exn_bind_def returned_def split: sum.split_asm list.split_asm if_split_asm prod.split_asm)

lemma rotate_live:
  assumes "refresh_token_rotate ad sha t1 t2 db raw client = (res, db')"
  shows "live (rows db') k h + (if returned res \<and> k = Refresh_token \<and> h = sha raw then 1 else 0) \<le> live (rows db) k h"
  using assms consume_live [of db Refresh_token "sha raw"] mark_live_le [of Refresh_token] revoke_family_live
  by (auto simp: refresh_token_rotate_def exn_bind_def returned_def split: sum.split_asm list.split_asm if_split_asm prod.split_asm)

lemma revoke_live:
  assumes "refresh_token_revoke ad sha t1 db raw = (res, db')"
  shows "live (rows db') k h \<le> live (rows db) k h"
  using assms mark_live_le [of Refresh_token]
  by (auto simp: refresh_token_revoke_def split: sum.split_asm list.split_asm if_split_asm prod.split_asm)

lemma cas_validate_live:
  assumes "validate_service_ticket ad sha t1 t2 db raw service = (res, db')"
  shows "live (rows db') k h + (if returned res \<and> k = Cas_ticket \<and> h = sha raw then 1 else 0) \<le> live (rows db) k h"
  using assms consume_live [of db Cas_ticket "sha raw"] mark_live_le [of Cas_ticket]
  by (auto simp: validate_service_ticket_def exn_bind_def returned_def split: sum.split_asm list.split_asm if_split_asm prod.split_asm)

lemma saml_take_live:
  assumes "saml_take ad t1 t2 db request_id = (res, db')"
  shows "live (rows db') k h + (if returned res \<and> k = Saml_request \<and> h = request_id then 1 else 0) \<le> live (rows db) k h"
  using assms consume_live [of db Saml_request request_id] mark_live_le [of Saml_request]
  by (auto simp: saml_take_def exn_bind_def returned_def split: sum.split_asm list.split_asm if_split_asm prod.split_asm)

lemma token_step_live:
  assumes "token_step ad sha op db = (ok, db')"
  shows "live (rows db') k h + (if ok \<and> op_consumes sha k h op then 1 else 0)
    \<le> live (rows db) k h + (if ok \<and> op_issues sha k h op then 1 else 0)"
proof (cases op)
  case (Issue_code ttl raw t1 t2 req)
  with assms create_live [of db Auth_code "auth_code_row sha ttl raw t1 t2 req", of _ _ k h] show ?thesis
    by (cases k) (auto simp: auth_code_issue_def auth_code_row_def field_is_def jget_jobject split: prod.split_asm sum.split_asm)
next
  case (Redeem_code t1 t2 raw client)
  with assms redeem_live [of sha t1 t2 db raw client _ _ k h] show ?thesis
    by (cases k; cases "auth_code_redeem ad sha t1 t2 db raw client") auto
next
  case (Issue_refresh ttl raw fresh t1 t2 req)
  with assms create_live [of db Refresh_token "refresh_token_row sha ttl raw fresh t1 t2 req", of _ _ k h] show ?thesis
    by (cases k) (auto simp: refresh_token_issue_def refresh_token_row_def field_is_def jget_jobject split: prod.split_asm sum.split_asm)
next
  case (Rotate t1 t2 raw client)
  with assms rotate_live [of sha t1 t2 db raw client _ _ k h] show ?thesis
    by (cases k; cases "refresh_token_rotate ad sha t1 t2 db raw client") auto
next
  case (Revoke t1 raw)
  with assms revoke_live [of sha t1 db raw _ _ k h] show ?thesis
    by (cases k; cases "refresh_token_revoke ad sha t1 db raw") auto
next
  case (Cas_issue token t1 t2 ty user tenant service ttl)
  with assms create_live [of db Cas_ticket "cas_ticket_row sha ty (ticket_prefix ty @ token) user tenant service ttl t1 t2", of _ _ k h]
  show ?thesis
    by (cases k) (auto simp: cas_issue_def cas_ticket_row_def Let_def field_is_def jget_jobject split: prod.split_asm sum.split_asm)
next
  case (Cas_validate t1 t2 raw service)
  with assms cas_validate_live [of sha t1 t2 db raw service _ _ k h] show ?thesis
    by (cases k; cases "validate_service_ticket ad sha t1 t2 db raw service") auto
next
  case (Saml_store ttl t1 t2 req)
  with assms create_live [of db Saml_request "saml_row ttl t1 t2 req", of _ _ k h] show ?thesis
    by (cases k) (auto simp: saml_store_def saml_row_def field_is_def jget_jobject split: prod.split_asm sum.split_asm)
next
  case (Saml_take t1 t2 request_id)
  with assms saml_take_live [of t1 t2 db request_id _ _ k h] show ?thesis
    by (cases k; cases "saml_take ad t1 t2 db request_id") auto
qed

lemma token_run_live:
  assumes "token_run ad sha ops db = (tr, db')"
  shows "succeeded (op_consumes sha k h) tr + live (rows db') k h
    \<le> live (rows db) k h + succeeded (op_issues sha k h) tr"
  using assms
proof (induction ops arbitrary: db tr)
  case Nil
  then show ?case by (simp add: succeeded_def)
next
  case (Cons op ops)
  obtain ok db1 where step: "token_step ad sha op db = (ok, db1)" by fastforce
  obtain tr1 where run: "token_run ad sha ops db1 = (tr1, db')" and tr: "tr = (op, ok) # tr1"
    using Cons.prems by (auto simp: step split: prod.split_asm)
  from token_step_live [OF step, of k h] Cons.IH [OF run] show ?case
    by (auto simp: tr succeeded_def split: if_split_asm)
qed

end

section \<open>Reuse of a refresh token, and a code's way through the store\<close>

context reliable_client
begin

lemma mark_total:
  assumes "r \<in># rows db e" "field_is r (''id'', i)" "flag \<noteq> ''id''"
  obtains row db' where "mark ad e flag t db i = (Inr row, db')"
  using update_total [OF assms(1,2), of "jobject [(flag, JInt t)]"] assms(3)
  by (auto simp: mark_def update_entity_def jget_jobject)

text \<open>
  While the rows of a family are marked one after the other, the live rows of the family
  are always among those still to come.
\<close>

lemma revoke_rows_family:
  assumes "\<And>r. r \<in> set rs \<Longrightarrow> \<exists>r'. r' \<in># rows db ''RefreshToken'' \<and> jget r' ''id'' = jget r ''id'' \<and> proper_row r"
    and "\<And>r. r \<in># rows db ''RefreshToken'' \<Longrightarrow> field_is r (''familyId'', f) \<Longrightarrow> \<not> spent ''revokedAt'' r \<Longrightarrow>
           \<exists>r' \<in> set rs. \<not> spent ''revokedAt'' r' \<and> jget r' ''id'' = jget r ''id''"
  shows "\<exists>db'. revoke_rows ad t rs db = (Inr (), db')
    \<and> (\<forall>r. r \<in># rows db' ''RefreshToken'' \<and> field_is r (''familyId'', f) \<longrightarrow> spent ''revokedAt'' r)"
  using assms
proof (induction rs arbitrary: db)
  case Nil
  then show ?case by auto
next
  case (Cons r rs)
  show ?case
  proof (cases "spent ''revokedAt'' r")
    case True
    have "\<exists>db'. revoke_rows ad t rs db = (Inr (), db')
      \<and> (\<forall>r. r \<in># rows db' ''RefreshToken'' \<and> field_is r (''familyId'', f) \<longrightarrow> spent ''revokedAt'' r)"
    proof (rule Cons.IH)
      show "\<exists>r''. r'' \<in># rows db ''RefreshToken'' \<and> jget r'' ''id'' = jget r' ''id'' \<and> proper_row r'" if "r' \<in> set rs" for r'
        using Cons.prems(1) that by simp
      show "\<exists>r'' \<in> set rs. \<not> spent ''revokedAt'' r'' \<and> jget r'' ''id'' = jget r' ''id''"
        if "r' \<in># rows db ''RefreshToken''" "field_is r' (''familyId'', f)" "\<not> spent ''revokedAt'' r'" for r'
        using Cons.prems(2) [OF that] True by auto
    qed
    with True show ?thesis by simp
  next
    case False
    obtain i where i: "jget r ''id'' = Some (JString i)" "i \<noteq> []"
      using Cons.prems(1) [of r] by (auto simp: proper_row_iff)
    obtain r0 where r0: "r0 \<in># rows db ''RefreshToken''" "field_is r0 (''id'', i)"
      using Cons.prems(1) [of r] i by (auto simp: field_is_def)
    from mark_total [OF r0, of "''revokedAt''"] obtain row db1 where
      m: "mark ad ''RefreshToken'' ''revokedAt'' t db i = (Inr row, db1)" by auto
    from mark_rows [OF m] obtain g where g: "rows db1 = (rows db)(''RefreshToken'' := image_mset g (rows db ''RefreshToken''))"
      "\<And>r x. r \<in># rows db ''RefreshToken'' \<Longrightarrow>
         jget (g r) x = (if field_is r (''id'', i) \<and> x = ''revokedAt'' then Some (JInt t) else jget r x)" by auto
    have "\<exists>db'. revoke_rows ad t rs db1 = (Inr (), db')
      \<and> (\<forall>r. r \<in># rows db' ''RefreshToken'' \<and> field_is r (''familyId'', f) \<longrightarrow> spent ''revokedAt'' r)"
    proof (rule Cons.IH)
      show "\<exists>r''. r'' \<in># rows db1 ''RefreshToken'' \<and> jget r'' ''id'' = jget r' ''id'' \<and> proper_row r'" if "r' \<in> set rs" for r'
        using Cons.prems(1) [of r'] that g by (auto intro!: bexI)
      fix r1
      assume r1: "r1 \<in># rows db1 ''RefreshToken''" "field_is r1 (''familyId'', f)" "\<not> spent ''revokedAt'' r1"
      then obtain r2 where r2: "r2 \<in># rows db ''RefreshToken''" "r1 = g r2" using g(1) by auto
      with r1 g(2) [OF r2(1)] have "field_is r2 (''familyId'', f)" "\<not> spent ''revokedAt'' r2" "\<not> field_is r2 (''id'', i)"
        "jget r1 ''id'' = jget r2 ''id''"
        by (auto simp: field_is_def spent_def split: if_split_asm option.split_asm)
      with Cons.prems(2) [OF r2(1)] i show "\<exists>r' \<in> set rs. \<not> spent ''revokedAt'' r' \<and> jget r' ''id'' = jget r1 ''id''"
        by (auto simp: field_is_def)
    qed
    moreover have "is_object r" "value_string r ''id'' [] = Inr i"
      using i Cons.prems(1) [of r] proper_row_object [of r] by (auto simp: value_string_iff)
    ultimately show ?thesis using False i(2) by (simp add: m)
  qed
qed

lemma revoke_family_all:
  assumes "size (filter_mset (\<lambda>r. field_is r (''familyId'', f)) (rows db ''RefreshToken'')) \<le> 1000"
  shows "\<exists>db'. revoke_family ad t db f = (Inr (), db')
    \<and> (\<forall>r. r \<in># rows db' ''RefreshToken'' \<and> field_is r (''familyId'', f) \<longrightarrow> spent ''revokedAt'' r)"
proof -
  obtain items where l: "ad_list ad db ''RefreshToken'' [(''familyId'', f)] 1000 = Inr items"
    using list_total by blast
  have "mset items = filter_mset (\<lambda>r. field_is r (''familyId'', f)) (rows db ''RefreshToken'')"
    using list_all_rows [OF l] assms by (simp add: row_matches_one)
  then have "set items = {r. r \<in># rows db ''RefreshToken'' \<and> field_is r (''familyId'', f)}"
    by (metis mem_Collect_eq set_mset_filter set_mset_mset)
  then have "\<exists>db'. revoke_rows ad t items db = (Inr (), db')
    \<and> (\<forall>r. r \<in># rows db' ''RefreshToken'' \<and> field_is r (''familyId'', f) \<longrightarrow> spent ''revokedAt'' r)"
    using rows_proper by (intro revoke_rows_family) blast+
  then show ?thesis by (simp add: revoke_family_def list_entities_def l)
qed

lemma find_one:
  assumes "filter_mset (\<lambda>r. field_is r kv) (rows db e) = {#r#}"
  shows "list_entities ad db e [kv] 1 = Inr [r]"
proof -
  obtain items where l: "ad_list ad db e [kv] 1 = Inr items" using list_total by blast
  have "mset items = {#r#}" using list_all_rows [OF l] assms by (simp add: row_matches_one)
  then have "items = [r]" by simp
  with l show ?thesis by (simp only: list_entities_def)
qed

lemma rotate_none_live:
  assumes "\<And>r. r \<in># rows db ''RefreshToken'' \<Longrightarrow> field_is r (''tokenHash'', sha raw) \<Longrightarrow> spent ''revokedAt'' r"
  shows "\<not> returned (fst (refresh_token_rotate ad sha t1 t2 db raw client))"
  using found_row [of db "''RefreshToken''" "(''tokenHash'', sha raw)" 1] assms
  by (auto simp: refresh_token_rotate_def returned_def exn_bind_def split: sum.split list.split prod.split)

lemma rotate_reuse:
  assumes one: "filter_mset (\<lambda>r. field_is r (''tokenHash'', sha raw)) (rows db ''RefreshToken'') = {#r#}"
    and r: "field_is r (''familyId'', f)" "field_is r (''clientId'', client)" "jget r ''expiresAt'' = Some (JInt x)" "spent ''revokedAt'' r"
    and size: "size (filter_mset (\<lambda>r. field_is r (''familyId'', f)) (rows db ''RefreshToken'')) \<le> 1000"
  shows "\<exists>db'. refresh_token_rotate ad sha t1 t2 db raw client = (Inr (Inl reuse_error), db')
    \<and> (\<forall>r. r \<in># rows db' ''RefreshToken'' \<and> field_is r (''familyId'', f) \<longrightarrow> spent ''revokedAt'' r)"
proof -
  from revoke_family_all [OF size, of t1] obtain db' where
    db': "revoke_family ad t1 db f = (Inr (), db')"
      "\<forall>r. r \<in># rows db' ''RefreshToken'' \<and> field_is r (''familyId'', f) \<longrightarrow> spent ''revokedAt'' r" by blast
  have "r \<in># filter_mset (\<lambda>r. field_is r (''tokenHash'', sha raw)) (rows db ''RefreshToken'')" by (simp only: one) simp
  then have "r \<in># rows db ''RefreshToken''" by simp
  then have "proper_row r" by (rule rows_proper)
  then obtain i where "jget r ''id'' = Some (JString i)" "is_object r"
    by (auto simp: proper_row_iff proper_row_object)
  with r have "value_string r ''id'' [] = Inr i" "value_string r ''familyId'' [] = Inr f"
      "value_string r ''clientId'' [] = Inr client" "value_int r ''expiresAt'' 0 = Inr x"
    by (simp_all add: value_string_iff field_is_def value_int_def value_as_def)
  with find_one [OF one] r(4) db' show ?thesis
    by (simp add: refresh_token_rotate_def exn_bind_def)
qed

text \<open>From the issue of a code to its redemption.\<close>

lemma issue_redeem:
  assumes new: "filter_mset (\<lambda>r. field_is r (''codeHash'', sha raw)) (rows db ''AuthorizationCode'') = {#}"
    and issue: "auth_code_issue ad sha ttl raw t1 t2 db req = (Inr raw', db1)"
  shows "fst (auth_code_redeem ad sha u1 u2 db1 raw client) =
    (if client \<noteq> ac_client_id req then Inr (Inl (validation_error ''invalid_grant: client_id mismatch''))
     else if t1 + ttl \<le> u1 then Inr (Inl (validation_error ''invalid_grant: authorization code expired''))
     else Inr (Inr req))"
proof -
  let ?data = "auth_code_row sha ttl raw t1 t2 req"
  obtain row where c: "ad_create ad db ''AuthorizationCode'' ?data = (Inr row, db1)"
    using issue by (auto simp: auth_code_issue_def create_entity_def split: prod.split_asm sum.split_asm)
  have data: "is_object ?data" "jget ?data ''id'' = None" by (simp_all add: auth_code_row_def jget_jobject)
  from create_ok [OF c data] have rows: "rows db1 = (rows db)(''AuthorizationCode'' := add_mset row (rows db ''AuthorizationCode''))"
    and row: "proper_row row" "\<And>k. k \<noteq> ''id'' \<Longrightarrow> jget row k = jget ?data k" by auto
  have cols: "jget row ''codeHash'' = Some (JString (sha raw))" "jget row ''clientId'' = Some (JString (ac_client_id req))"
      "jget row ''userId'' = Some (JString (ac_user_id req))" "jget row ''tenantId'' = Some (JString (ac_tenant_id req))"
      "jget row ''redirectUri'' = Some (JString (ac_redirect_uri req))"
      "jget row ''codeChallenge'' = Some (JString (ac_code_challenge req))"
      "jget row ''codeChallengeMethod'' = Some (JString (ac_code_challenge_method req))"
      "jget row ''scope'' = Some (JString (ac_scope req))" "jget row ''nonce'' = Some (opt_json (ac_nonce req))"
      "jget row ''expiresAt'' = Some (JInt (t1 + ttl))" "jget row ''consumedAt'' = Some JNull"
    by (simp_all add: row(2) auth_code_row_def jget_jobject)
  obtain i where i: "jget row ''id'' = Some (JString i)" and obj: "is_object row"
    using row(1) by (auto simp: proper_row_iff proper_row_object)
  have "filter_mset (\<lambda>r. field_is r (''codeHash'', sha raw)) (rows db1 ''AuthorizationCode'') = {#row#}"
    using new by (simp add: rows field_is_def cols)
  then have found: "list_entities ad db1 ''AuthorizationCode'' [(''codeHash'', sha raw)] 1 = Inr [row]" by (rule find_one)
  obtain upd db2 where m: "mark ad ''AuthorizationCode'' ''consumedAt'' u2 db1 i = (Inr upd, db2)"
    using i mark_total [of row db1 "''AuthorizationCode''" i "''consumedAt''" u2] by (auto simp: rows field_is_def)
  have "opt_column row ''nonce'' = ac_nonce req" by (cases "ac_nonce req") (simp_all add: opt_column_def cols opt_json_def)
  then have "redeemed_of (ac_client_id req) row = Inr req"
    using obj by (simp add: redeemed_of_def exn_bind_def value_string_def value_as_def cols)
  with found m obj show ?thesis
    by (simp add: auth_code_redeem_def exn_bind_def value_string_def value_int_def value_as_def cols i spent_def jcontains_def)
qed

end

section \<open>Properties\<close>

abbreviation table_state :: "table_db \<Rightarrow> string \<Rightarrow> json multiset" where
  "table_state db e \<equiv> mset (table_view db e)"


definition sample_request :: auth_code_request where
  "sample_request = \<lparr>ac_client_id = ''web'', ac_user_id = ''u1'', ac_tenant_id = ''t'', ac_redirect_uri = ''https://x/cb'',
     ac_code_challenge = ''cc'', ac_code_challenge_method = ''S256'', ac_scope = ''openid'', ac_nonce = Some ''n''\<rparr>"

definition sample_ops :: "token_op list" where
  "sample_ops = [Issue_code 60 ''r'' 0 0 sample_request, Redeem_code 1 1 ''r'' ''web'',
     Redeem_code 2 2 ''r'' ''web'', Saml_take 3 3 ''q'']"



text \<open>Two tokens of one family, the older one used.\<close>

definition sample_token :: "string \<Rightarrow> json \<Rightarrow> json" where
  "sample_token h revoked = jobject [(''tokenHash'', JString h), (''familyId'', JString ''f''), (''clientId'', JString ''web''),
     (''revokedAt'', revoked), (''expiresAt'', JInt 99)]"

definition sample_family :: table_db where
  "sample_family = (\<lambda>_. [])(''RefreshToken'' := [sample_token ''a'' (JInt 5), sample_token ''b'' JNull])"

lemma sample_family_view:
  "table_view sample_family ''RefreshToken'' = [with_id (0, sample_token ''a'' (JInt 5)), with_id (1, sample_token ''b'' JNull)]"
  by (simp add: table_view_def sample_family_def)


text \<open>
  On a database that is up, a code that was issued is redeemed by its own client before
  it expires with exactly the request it was issued for; another client, or one that comes
  too late, is refused.
\<close>

theorem auth_code_roundtrip:
  assumes "reliable_client ad rows"
    and "filter_mset (\<lambda>r. field_is r (''codeHash'', sha raw)) (rows db ''AuthorizationCode'') = {#}"
    and "auth_code_issue ad sha ttl raw t1 t2 db req = (Inr raw', db1)"
  shows "fst (auth_code_redeem ad sha u1 u2 db1 raw client) =
    (if client \<noteq> ac_client_id req then Inr (Inl (validation_error ''invalid_grant: client_id mismatch''))
     else if t1 + ttl \<le> u1 then Inr (Inl (validation_error ''invalid_grant: authorization code expired''))
     else Inr (Inr req))"
  by (rule reliable_client.issue_redeem [OF assms])

theorem auth_code_roundtrip_witness:
  "fst (auth_code_redeem table_adapter id 5 6 (snd (auth_code_issue table_adapter id 60 ''r'' 0 0 (\<lambda>_. []) sample_request)) ''r'' ''web'')
     = Inr (Inr sample_request)"
  using auth_code_roundtrip [OF table.reliable_client_axioms, of id "''r''" "\<lambda>_. []" 60 0 0 sample_request "''r''"
      "snd (auth_code_issue table_adapter id 60 ''r'' 0 0 (\<lambda>_. []) sample_request)" 5 6 "''web''"]
  by (simp add: table_view_def sample_request_def auth_code_issue_def create_entity_def table_adapter_def table_create_def)

end
