(* ===== verification/Bql_Lexer.thy ===== *)
theory Bql_Lexer
  imports Dbal_Prelude
begin

text \<open>
  The tokens of BQL, the language in which a script describes a page or a workflow
  (\<^verbatim>\<open>src/bql/bql_lexer.cpp\<close>).  The position in the line is the rest of the line.  The
  second half writes tokens back to text, and shows that the lexer reads them again.
\<close>

datatype token_type = Word | String | Punct

record token =
  tok_type :: token_type
  tok_value :: string

definition is_word_char :: "char \<Rightarrow> bool" where
  "is_word_char c \<longleftrightarrow> is_alnum c \<or> c = CHR ''_''"

fun next_is_word :: "string \<Rightarrow> bool" where
  "next_is_word [] = False"
| "next_is_word (c # cs) = is_word_char c"

text \<open>A character that ends a bare word, given what follows it.\<close>

definition breaks_word :: "char \<Rightarrow> string \<Rightarrow> bool" where
  "breaks_word c cs \<longleftrightarrow> is_space c \<or> c = CHR 0x22 \<or> c = CHR '','' \<or> c = CHR ''.'' \<and> \<not> next_is_word cs"

fun word_part :: "string \<Rightarrow> string" where
  "word_part [] = []"
| "word_part (c # cs) = (if breaks_word c cs then [] else c # word_part cs)"

function tokenize :: "string \<Rightarrow> token list" where
  "tokenize [] = []"
| "tokenize (c # cs) =
     (if is_space c then tokenize cs
      else if c = CHR 0x22
      then let body = takeWhile (\<lambda>d. d \<noteq> CHR 0x22) cs
           in \<lparr>tok_type = String, tok_value = body\<rparr> # tokenize (drop (length body + 1) cs)
      else if c = CHR '','' then \<lparr>tok_type = Punct, tok_value = '',''\<rparr> # tokenize cs
      else if c = CHR ''.'' \<and> \<not> next_is_word cs then \<lparr>tok_type = Punct, tok_value = ''.''\<rparr> # tokenize cs
      else let w = word_part (c # cs)
           in \<lparr>tok_type = Word, tok_value = w\<rparr> # tokenize (drop (length w) (c # cs)))"
  by pat_completeness auto

termination
  by (relation "measure length") (auto simp: breaks_word_def)

declare tokenize.simps [simp del]

section \<open>Writing tokens\<close>

abbreviation word :: "string \<Rightarrow> token" where
  "word w \<equiv> \<lparr>tok_type = Word, tok_value = w\<rparr>"

abbreviation quoted :: "string \<Rightarrow> token" where
  "quoted s \<equiv> \<lparr>tok_type = String, tok_value = s\<rparr>"

abbreviation comma :: token where
  "comma \<equiv> \<lparr>tok_type = Punct, tok_value = '',''\<rparr>"

fun show_token :: "token \<Rightarrow> string" where
  "show_token t = (case tok_type t of
      String \<Rightarrow> CHR 0x22 # tok_value t @ [CHR 0x22]
    | _ \<Rightarrow> tok_value t)"

fun show_tokens :: "token list \<Rightarrow> string" where
  "show_tokens [] = []"
| "show_tokens [t] = show_token t"
| "show_tokens (t # ts) = show_token t @ '' '' @ show_tokens ts"

text \<open>Words without a character that would end them, texts without quotation marks.\<close>

fun plain_word :: "string \<Rightarrow> bool" where
  "plain_word [] = True"
| "plain_word (c # cs) \<longleftrightarrow> \<not> breaks_word c cs \<and> plain_word cs"

definition good_token :: "token \<Rightarrow> bool" where
  "good_token t = (case tok_type t of
      Word \<Rightarrow> tok_value t \<noteq> [] \<and> plain_word (tok_value t)
    | String \<Rightarrow> CHR 0x22 \<notin> set (tok_value t)
    | Punct \<Rightarrow> tok_value t = '','' \<or> tok_value t = ''.'')"

lemma space_is_space [simp]: "is_space (CHR '' '')"
  by (simp add: is_space_def byte_def)

lemma next_is_word_append: "w \<noteq> [] \<Longrightarrow> next_is_word (w @ s) = next_is_word w"
  by (cases w) simp_all

lemma not_word_char [simp]: "\<not> is_word_char (CHR '' '')"
  by (simp add: is_word_char_def is_alnum_def is_alpha_def is_upper_def is_lower_def is_digit_def byte_def)

lemma breaks_word_append:
  "\<not> breaks_word c cs \<Longrightarrow> cs \<noteq> [] \<or> \<not> next_is_word s \<Longrightarrow> \<not> breaks_word c (cs @ s)"
  by (cases cs) (auto simp: breaks_word_def)

text \<open>A rest that cannot prolong a word: nothing, or a space.\<close>

definition word_end :: "string \<Rightarrow> bool" where
  "word_end s \<longleftrightarrow> s = [] \<or> hd s = CHR '' ''"

lemma word_end_not_word: "word_end s \<Longrightarrow> \<not> next_is_word s"
  by (cases s) (auto simp: word_end_def)

lemma word_part_append: "plain_word w \<Longrightarrow> word_end s \<Longrightarrow> word_part (w @ s) = w"
proof (induction w)
  case Nil
  then show ?case by (cases s) (auto simp: word_end_def breaks_word_def)
next
  case (Cons c cs)
  then show ?case using breaks_word_append [of c cs s] word_end_not_word [of s] by auto
qed

lemma tokenize_space: "is_space c \<Longrightarrow> tokenize (c # s) = tokenize s"
  by (simp add: tokenize.simps)

lemma tokenize_word:
  assumes "plain_word w" "w \<noteq> []" "word_end s"
  shows "tokenize (w @ s) = word w # tokenize s"
proof -
  obtain c cs where w: "w = c # cs" using assms(2) by (cases w) auto
  have "\<not> breaks_word c (cs @ s)"
    using assms breaks_word_append [of c cs s] word_end_not_word [of s] by (simp add: w)
  moreover have "word_part (w @ s) = w" using assms by (simp add: word_part_append)
  ultimately show ?thesis
    by (simp add: w tokenize.simps(2) [of c] breaks_word_def Let_def)
qed

lemma takeWhile_quote: "CHR 0x22 \<notin> set b \<Longrightarrow> takeWhile (\<lambda>d. d \<noteq> CHR 0x22) (b @ CHR 0x22 # s) = b"
  by (induction b) auto

lemma not_space_punct [simp]: "\<not> is_space (CHR 0x22)" "\<not> is_space (CHR '','')" "\<not> is_space (CHR ''.'')"
  by (simp_all add: is_space_def byte_def)

lemma tokenize_quoted:
  assumes "CHR 0x22 \<notin> set b"
  shows "tokenize (CHR 0x22 # b @ CHR 0x22 # s) = quoted b # tokenize s"
  using assms by (simp add: tokenize.simps(2) [of "CHR 0x22"] takeWhile_quote Let_def)

lemma tokenize_token:
  assumes "good_token t" "word_end s"
  shows "tokenize (show_token t @ s) = t # tokenize s"
proof (cases "tok_type t")
  case Word
  then have "t = word (tok_value t)" by simp
  with Word assms show ?thesis using tokenize_word [of "tok_value t" s] by (simp add: good_token_def)
next
  case String
  then have "t = quoted (tok_value t)" by simp
  with String assms show ?thesis using tokenize_quoted [of "tok_value t" s] by (simp add: good_token_def)
next
  case Punct
  with assms have "t = comma \<or> t = \<lparr>tok_type = Punct, tok_value = ''.''\<rparr>"
    by (cases t) (auto simp: good_token_def)
  then show ?thesis
    using word_end_not_word [OF assms(2)] by (auto simp: tokenize.simps(2) [of "CHR '',''"] tokenize.simps(2) [of "CHR ''.''"])
qed

lemma tokenize_show_tokens: "list_all good_token ts \<Longrightarrow> tokenize (show_tokens ts) = ts"
proof (induction ts rule: show_tokens.induct)
  case (2 t)
  then show ?case using tokenize_token [of t "[]"] by (simp add: word_end_def tokenize.simps(1))
next
  case (3 t t' ts)
  then have "tokenize (show_token t @ '' '' @ show_tokens (t' # ts)) = t # tokenize ('' '' @ show_tokens (t' # ts))"
    by (intro tokenize_token) (auto simp: word_end_def)
  with 3 show ?case by (simp add: tokenize_space)
qed (simp add: tokenize.simps)

end
