(* ===== verification/Bql_Parser.thy ===== *)
theory Bql_Parser
  imports Bql_Lexer Json_Value
begin

text \<open>
  The parser of BQL (\<^verbatim>\<open>src/bql/bql_parser.cpp\<close>).  The cursor is the list of the tokens
  that are left: \<^verbatim>\<open>peek\<close> looks at its head and \<^verbatim>\<open>next\<close> drops it, past the end as well.
  A function that gives up is \<^const>\<open>None\<close>, or \<^const>\<open>Inl\<close> with the message.
\<close>

section \<open>Cursor\<close>

definition is_trim_char :: "char \<Rightarrow> bool" where
  "is_trim_char c \<longleftrightarrow> c = CHR '' '' \<or> c = CHR 0x09 \<or> c = CHR 0x0D \<or> c = CHR 0x0A"

definition trim :: "string \<Rightarrow> string" where
  "trim s = rev (dropWhile is_trim_char (rev (dropWhile is_trim_char s)))"

type_synonym cursor = "token list"

definition peek :: "nat \<Rightarrow> cursor \<Rightarrow> token option" where
  "peek offset c = (if offset < length c then Some (c ! offset) else None)"

abbreviation advance :: "cursor \<Rightarrow> cursor" where
  "advance c \<equiv> tl c"

definition is_word_at :: "nat \<Rightarrow> cursor \<Rightarrow> string \<Rightarrow> bool" where
  "is_word_at offset c value =
     (case peek offset c of None \<Rightarrow> False | Some t \<Rightarrow> tok_type t = Word \<and> to_lower (tok_value t) = value)"

abbreviation is_word :: "cursor \<Rightarrow> string \<Rightarrow> bool" where
  "is_word c value \<equiv> is_word_at 0 c value"

definition is_comma :: "cursor \<Rightarrow> bool" where
  "is_comma c = (case peek 0 c of None \<Rightarrow> False | Some t \<Rightarrow> tok_type t = Punct \<and> tok_value t = '','')"

definition skip_article :: "cursor \<Rightarrow> cursor" where
  "skip_article c = (if is_word c ''a'' \<or> is_word c ''an'' then advance c else c)"

text \<open>Words put together with single spaces between them.\<close>

fun join_words :: "string list \<Rightarrow> string" where
  "join_words [] = []"
| "join_words [w] = w"
| "join_words (w # ws) = w @ '' '' @ join_words ws"

fun take_words :: "string list \<Rightarrow> cursor \<Rightarrow> string list \<times> cursor" where
  "take_words stop [] = ([], [])"
| "take_words stop (t # c) =
     (if tok_type t = Word \<and> to_lower (tok_value t) \<notin> set stop
      then (let (ws, c') = take_words stop c in (tok_value t # ws, c')) else ([], t # c))"

definition consume_words_until :: "cursor \<Rightarrow> string list \<Rightarrow> string \<times> cursor" where
  "consume_words_until c stop = (let (ws, c') = take_words stop c in (join_words ws, c'))"

definition consume_separator :: "cursor \<Rightarrow> bool \<times> cursor" where
  "consume_separator c =
     (let (f1, c1) = (if is_comma c then (True, advance c) else (False, c))
      in if is_word c1 ''and'' then (True, advance c1) else (f1, c1))"

definition parse_value :: "cursor \<Rightarrow> (string \<times> cursor) option" where
  "parse_value c =
     (case c of
        [] \<Rightarrow> None
      | t # c' \<Rightarrow>
          if tok_type t = String then Some (tok_value t, c')
          else let (ws, c') = take_words [''and''] c
               in if ws = [] then None else Some (join_words ws, c'))"

section \<open>Clauses\<close>

record bql_attr =
  at_key :: string
  at_value :: string

definition parse_attr_item :: "cursor \<Rightarrow> (bql_attr \<times> cursor) option" where
  "parse_attr_item c =
     (let (key, c1) = consume_words_until (skip_article c) [''of'']
      in if key = [] \<or> \<not> is_word c1 ''of'' then None
         else case parse_value (advance c1) of
           None \<Rightarrow> None
         | Some (v, c2) \<Rightarrow> Some (\<lparr>at_key = key, at_value = v\<rparr>, c2))"

lemma length_take_words: "take_words stop c = (ws, c') \<Longrightarrow> length c' \<le> length c"
  by (induction stop c arbitrary: ws c' rule: take_words.induct) (auto split: if_split_asm prod.split_asm)

lemma length_skip_article: "length (skip_article c) \<le> length c"
  by (simp add: skip_article_def)

lemma length_consume_separator:
  "consume_separator c = (f, c') \<Longrightarrow> length c' \<le> length c \<and> (f \<longrightarrow> length c' < length c)"
  by (cases c; cases "tl c")
     (auto simp: consume_separator_def is_comma_def is_word_at_def peek_def split: if_split_asm)

lemma length_parse_value: "parse_value c = Some (v, c') \<Longrightarrow> length c' \<le> length c"
  by (auto simp: parse_value_def split: list.split_asm if_split_asm prod.split_asm dest: length_take_words)

lemma length_parse_attr_item: "parse_attr_item c = Some (a, c') \<Longrightarrow> length c' \<le> length c"
proof -
  assume a: "parse_attr_item c = Some (a, c')"
  obtain ws c1 where w: "take_words [''of''] (skip_article c) = (ws, c1)" by fastforce
  from a w obtain v where "parse_value (advance c1) = Some (v, c')"
    by (auto simp: parse_attr_item_def consume_words_until_def split: if_split_asm option.split_asm)
  with length_parse_value [of "advance c1" v c'] length_take_words [OF w] length_skip_article [of c]
  show ?thesis by simp
qed

function parse_attr_more :: "cursor \<Rightarrow> (bql_attr list \<times> cursor) option" where
  "parse_attr_more c =
     (case consume_separator c of
        (False, c1) \<Rightarrow> Some ([], c1)
      | (True, c1) \<Rightarrow>
         (case parse_attr_item c1 of
            None \<Rightarrow> None
          | Some (a, c2) \<Rightarrow>
             (case parse_attr_more c2 of None \<Rightarrow> None | Some (as, c3) \<Rightarrow> Some (a # as, c3))))"
  by pat_completeness auto

termination
  by (relation "measure length") (auto dest!: length_parse_attr_item length_consume_separator [OF sym])

declare parse_attr_more.simps [simp del]

definition parse_attr_list :: "cursor \<Rightarrow> (bql_attr list \<times> cursor) option" where
  "parse_attr_list c =
     (case parse_attr_item c of
        None \<Rightarrow> None
      | Some (a, c1) \<Rightarrow>
         (case parse_attr_more c1 of None \<Rightarrow> None | Some (as, c2) \<Rightarrow> Some (a # as, c2)))"

record add_clause =
  cl_block_name :: string
  cl_alias :: "string option"
  cl_text :: "string option"
  cl_attrs :: "bql_attr list"

definition parse_called :: "cursor \<Rightarrow> (string option \<times> cursor) option" where
  "parse_called c =
     (if is_word c ''called''
      then case peek 0 (advance c) of
          None \<Rightarrow> None
        | Some t \<Rightarrow> if tok_type t \<noteq> Word then None else Some (Some (tok_value t), advance (advance c))
      else Some (None, c))"

definition parse_says :: "cursor \<Rightarrow> (string option \<times> cursor) option" where
  "parse_says c =
     (if is_word c ''that''
      then if \<not> is_word (advance c) ''says'' then None
        else case peek 0 (advance (advance c)) of
          None \<Rightarrow> None
        | Some t \<Rightarrow> if tok_type t \<noteq> String then None
                    else Some (Some (tok_value t), advance (advance (advance c)))
      else Some (None, c))"

definition parse_with :: "cursor \<Rightarrow> (bql_attr list \<times> cursor) option" where
  "parse_with c = (if is_word c ''with'' then parse_attr_list (advance c) else Some ([], c))"

definition parse_add_clause :: "cursor \<Rightarrow> (add_clause \<times> cursor) option" where
  "parse_add_clause c =
     (let (block, c1) = consume_words_until (skip_article c) [''called'', ''that'', ''with''] in
      if block = [] then None
      else case parse_called c1 of
        None \<Rightarrow> None
      | Some (al, c2) \<Rightarrow>
         (case parse_says c2 of
            None \<Rightarrow> None
          | Some (txt, c3) \<Rightarrow>
             (case parse_with c3 of
                None \<Rightarrow> None
              | Some (attrs, c4) \<Rightarrow>
                  Some (\<lparr>cl_block_name = block, cl_alias = al, cl_text = txt, cl_attrs = attrs\<rparr>, c4))))"

function parse_name_list :: "cursor \<Rightarrow> string list \<times> cursor" where
  "parse_name_list c =
     (case c of
        [] \<Rightarrow> ([], c)
      | t # c1 \<Rightarrow>
          if tok_type t \<noteq> String then ([], c)
          else case consume_separator c1 of
              (False, c2) \<Rightarrow> ([tok_value t], c2)
            | (True, c2) \<Rightarrow> (let (vs, c3) = parse_name_list c2 in (tok_value t # vs, c3)))"
  by pat_completeness auto

termination
  by (relation "measure length") (auto dest!: length_consume_separator [OF sym])

declare parse_name_list.simps [simp del]

section \<open>Sentences\<close>

datatype sentence_kind =
  Add | Give | Style | Class | Publish | Clear | Workflow | Trigger | Step | PublishWorkflow

record bql_sentence =
  bs_kind :: sentence_kind
  bs_line :: int
  bs_block_name :: string
  bs_text :: "string option"
  bs_alias :: "string option"
  bs_parent_alias :: "string option"
  bs_attrs :: "bql_attr list"
  bs_name :: string
  bs_names :: "string list"
  bs_path :: string
  bs_step_name :: string
  bs_event :: string
  bs_form :: string

definition blank_sentence :: bql_sentence where
  "blank_sentence = \<lparr>bs_kind = Add, bs_line = 0, bs_block_name = [], bs_text = None, bs_alias = None,
     bs_parent_alias = None, bs_attrs = [], bs_name = [], bs_names = [], bs_path = [],
     bs_step_name = [], bs_event = [], bs_form = []\<rparr>"

type_synonym sentence_parser = "string + (bql_sentence \<times> cursor)"

definition in_line :: "string \<Rightarrow> string \<Rightarrow> string" where
  "in_line msg raw = msg @ [CHR 0x22] @ raw @ [CHR 0x22]"

definition add_result :: "add_clause \<Rightarrow> string option \<Rightarrow> bql_sentence" where
  "add_result cl parent = blank_sentence\<lparr>bs_kind := Add, bs_block_name := cl_block_name cl, bs_alias := cl_alias cl,
     bs_text := cl_text cl, bs_attrs := cl_attrs cl, bs_parent_alias := parent\<rparr>"

definition parse_add :: "cursor \<Rightarrow> string \<Rightarrow> sentence_parser" where
  "parse_add c raw =
     (case parse_add_clause (advance c) of
        None \<Rightarrow> Inl (in_line ''Could not read the block in: '' raw)
      | Some (cl, c') \<Rightarrow> Inr (add_result cl None, c'))"

definition parse_inside_add :: "cursor \<Rightarrow> string \<Rightarrow> sentence_parser" where
  "parse_inside_add c raw =
     (case peek 0 (advance c) of
        None \<Rightarrow> Inl (in_line ''Could not read: '' raw)
      | Some parent \<Rightarrow>
          if tok_type parent \<noteq> Word then Inl (in_line ''Could not read: '' raw)
          else let c1 = advance (advance c); c2 = (if is_comma c1 then advance c1 else c1)
            in if \<not> is_word c2 ''add'' then Inl (in_line ''Could not read: '' raw)
               else case parse_add_clause (advance c2) of
                 None \<Rightarrow> Inl (in_line ''Could not read the block in: '' raw)
               | Some (cl, c') \<Rightarrow> Inr (add_result cl (Some (tok_value parent)), c'))"

definition parse_give :: "cursor \<Rightarrow> string \<Rightarrow> sentence_parser" where
  "parse_give c raw =
     (case peek 0 (advance c) of
        None \<Rightarrow> Inl (in_line ''Could not read: '' raw)
      | Some al \<Rightarrow>
          if tok_type al \<noteq> Word then Inl (in_line ''Could not read: '' raw)
          else case parse_attr_list (advance (advance c)) of
            None \<Rightarrow> Inl (in_line ''Could not read the properties in: '' raw)
          | Some (attrs, c') \<Rightarrow>
              Inr (blank_sentence\<lparr>bs_kind := Give, bs_alias := Some (tok_value al), bs_attrs := attrs\<rparr>, c'))"

definition parse_style :: "cursor \<Rightarrow> string \<Rightarrow> sentence_parser" where
  "parse_style c raw =
     (let c1 = skip_article (advance c)
      in if \<not> is_word c1 ''style'' \<or> \<not> is_word_at 1 c1 ''called'' then Inl (in_line ''Could not read: '' raw)
         else let c2 = advance (advance c1)
           in case peek 0 c2 of
             None \<Rightarrow> Inl (in_line ''Could not read: '' raw)
           | Some nm \<Rightarrow>
               if tok_type nm \<noteq> String then Inl (in_line ''Could not read: '' raw)
               else case parse_with (advance c2) of
                 None \<Rightarrow> Inl (in_line ''Could not read the properties in: '' raw)
               | Some (attrs, c') \<Rightarrow>
                   Inr (blank_sentence\<lparr>bs_kind := Style, bs_name := tok_value nm, bs_attrs := attrs\<rparr>, c'))"

definition parse_apply :: "cursor \<Rightarrow> string \<Rightarrow> sentence_parser" where
  "parse_apply c raw =
     (let (names, c1) = parse_name_list (advance c)
      in if names = [] then Inl (in_line ''Nothing to apply in: '' raw)
         else if \<not> is_word c1 ''to'' then Inl (in_line ''Could not read: '' raw)
         else case peek 0 (advance c1) of
           None \<Rightarrow> Inl (in_line ''Could not read: '' raw)
         | Some al \<Rightarrow>
             if tok_type al \<noteq> Word then Inl (in_line ''Could not read: '' raw)
             else Inr (blank_sentence\<lparr>bs_kind := Class, bs_names := names, bs_alias := Some (tok_value al)\<rparr>,
                       advance (advance c1)))"

definition parse_title :: "cursor \<Rightarrow> string \<Rightarrow> string + (string \<times> cursor)" where
  "parse_title c raw =
     (if is_word c ''as''
      then case peek 0 (advance c) of
          None \<Rightarrow> Inl (in_line ''Could not read the title in: '' raw)
        | Some t \<Rightarrow> if tok_type t \<noteq> String then Inl (in_line ''Could not read the title in: '' raw)
                    else Inr (tok_value t, advance (advance c))
      else Inr ([], c))"

definition parse_publish :: "cursor \<Rightarrow> string \<Rightarrow> sentence_parser" where
  "parse_publish c raw =
     (let c1 = advance c
      in if is_word c1 ''the''
         then if \<not> is_word (advance c1) ''workflow'' then Inl (in_line ''Could not read: '' raw)
              else Inr (blank_sentence\<lparr>bs_kind := PublishWorkflow\<rparr>, advance (advance c1))
         else case parse_title (if is_word c1 ''this'' then advance c1 else c1) raw of
           Inl e \<Rightarrow> Inl e
         | Inr (title, c2) \<Rightarrow>
             if \<not> is_word c2 ''at''
             then Inl (in_line (''Missing '' @ [CHR 0x22] @ ''at <path>'' @ [CHR 0x22] @ '' in: '') raw)
             else case peek 0 (advance c2) of
               None \<Rightarrow> Inl (in_line ''Could not read the path in: '' raw)
             | Some p \<Rightarrow>
                 if tok_type p \<noteq> Word \<and> tok_type p \<noteq> String
                 then Inl (in_line ''Could not read the path in: '' raw)
                 else Inr (blank_sentence\<lparr>bs_kind := Publish, bs_name := title, bs_path := tok_value p\<rparr>,
                           advance (advance c2)))"

definition parse_workflow_start :: "cursor \<Rightarrow> string \<Rightarrow> sentence_parser" where
  "parse_workflow_start c raw =
     (if \<not> is_word c ''workflow'' then Inl (in_line ''Could not read: '' raw)
      else if \<not> is_word (advance c) ''called''
      then Inl (in_line (''Missing '' @ [CHR 0x22] @ ''called <name>'' @ [CHR 0x22] @ '' in: '') raw)
      else case peek 0 (advance (advance c)) of
        None \<Rightarrow> Inl (in_line ''The workflow's name has to be in quotes, in: '' raw)
      | Some nm \<Rightarrow>
          if tok_type nm \<noteq> String then Inl (in_line ''The workflow's name has to be in quotes, in: '' raw)
          else Inr (blank_sentence\<lparr>bs_kind := Workflow, bs_name := tok_value nm\<rparr>, advance (advance (advance c))))"

definition parse_clear :: "cursor \<Rightarrow> string \<Rightarrow> sentence_parser" where
  "parse_clear c raw =
     (let c1 = skip_article (advance c)
      in if \<not> is_word c1 ''new'' then Inl (in_line ''Could not read: '' raw)
         else let c2 = advance c1
           in if is_word c2 ''workflow'' then parse_workflow_start c2 raw
              else if \<not> is_word c2 ''page'' then Inl (in_line ''Could not read: '' raw)
              else Inr (blank_sentence\<lparr>bs_kind := Clear\<rparr>, advance c2))"

definition parse_run_when :: "cursor \<Rightarrow> string \<Rightarrow> sentence_parser" where
  "parse_run_when c raw =
     (let c1 = (if is_word (advance c) ''it'' then advance (advance c) else advance c)
      in if \<not> is_word c1 ''when''
         then Inl (in_line (''Missing '' @ [CHR 0x22] @ ''when'' @ [CHR 0x22] @ '' in: '') raw)
         else let c2 = advance c1
           in if is_word c2 ''someone'' \<and> is_word_at 1 c2 ''submits'' \<and> is_word_at 2 c2 ''the''
              then case peek 3 c2 of
                  None \<Rightarrow> Inl (in_line ''The form's name has to be in quotes, in: '' raw)
                | Some f \<Rightarrow>
                    if tok_type f \<noteq> String then Inl (in_line ''The form's name has to be in quotes, in: '' raw)
                    else if \<not> is_word_at 4 c2 ''form''
                    then Inl (in_line (''Missing '' @ [CHR 0x22] @ ''form'' @ [CHR 0x22] @ '' in: '') raw)
                    else Inr (blank_sentence\<lparr>bs_kind := Trigger, bs_event := ''FormSubmission.created'',
                                bs_form := tok_value f\<rparr>, drop 5 c2)
              else
                let (phrase, c3) = consume_words_until c2 []; lowered = to_lower phrase
                in if lowered = ''someone submits a form'' \<or> lowered = ''a form is submitted''
                   then Inr (blank_sentence\<lparr>bs_kind := Trigger, bs_event := ''FormSubmission.created''\<rparr>, c3)
                   else if lowered = ''someone joins'' \<or> lowered = ''someone signs up''
                   then Inr (blank_sentence\<lparr>bs_kind := Trigger, bs_event := ''User.created''\<rparr>, c3)
                   else Inl (''Don't know when '' @ [CHR 0x22] @ phrase @ [CHR 0x22] @ '' is. Try '' @ [CHR 0x22]
                     @ ''someone submits a form'' @ [CHR 0x22] @ '' or '' @ [CHR 0x22] @ ''someone joins'' @ [CHR 0x22] @ ''.''))"

definition parse_then :: "cursor \<Rightarrow> string \<Rightarrow> sentence_parser" where
  "parse_then c raw =
     (case parse_add_clause (advance c) of
        None \<Rightarrow> Inl (in_line ''Could not read the step in: '' raw)
      | Some (cl, c') \<Rightarrow>
          if cl_block_name cl = [] then Inl (in_line ''Could not read the step in: '' raw)
          else Inr (blank_sentence\<lparr>bs_kind := Step, bs_step_name := cl_block_name cl, bs_attrs := cl_attrs cl\<rparr>, c'))"

definition strip_terminator :: "token list \<Rightarrow> token list" where
  "strip_terminator ts =
     (if ts \<noteq> [] \<and> tok_type (last ts) = Punct \<and> tok_value (last ts) = ''.'' then butlast ts else ts)"

definition parse_form :: "cursor \<Rightarrow> string \<Rightarrow> sentence_parser" where
  "parse_form c raw =
     (if is_word c ''start'' then parse_clear c raw
      else if is_word c ''publish'' then parse_publish c raw
      else if is_word c ''apply'' then parse_apply c raw
      else if is_word c ''make'' then parse_style c raw
      else if is_word c ''give'' then parse_give c raw
      else if is_word c ''inside'' then parse_inside_add c raw
      else if is_word c ''add'' then parse_add c raw
      else if is_word c ''run'' then parse_run_when c raw
      else if is_word c ''then'' then parse_then c raw
      else Inl (in_line ''Didn't understand: '' raw))"

definition parse_sentence :: "string \<Rightarrow> string + bql_sentence" where
  "parse_sentence raw =
     (case parse_form (strip_terminator (tokenize (trim raw))) raw of
        Inl e \<Rightarrow> Inl e
      | Inr (s, c) \<Rightarrow>
         (case peek 0 c of
            None \<Rightarrow> Inr s
          | Some extra \<Rightarrow> Inl (in_line (''Did not understand '' @ [CHR 0x22] @ tok_value extra @ [CHR 0x22] @ '' in: '') raw)))"

section \<open>Scripts\<close>

text \<open>
  The pieces of a script between its line feeds: \<open>start\<close> runs to \<^verbatim>\<open>script.size()\<close>, so a
  script that ends in a line feed has an empty last line.
\<close>

fun split_lines :: "string \<Rightarrow> string list" where
  "split_lines [] = [[]]"
| "split_lines (c # cs) =
     (if c = CHR 0x0A then [] # split_lines cs
      else case split_lines cs of [] \<Rightarrow> [[c]] | l # ls \<Rightarrow> (c # l) # ls)"

definition line_number :: "nat \<Rightarrow> int" where
  "line_number i = size_to_int i + 1"

record script_parse_result =
  sr_ok :: bool
  sr_sentences :: "bql_sentence list"
  sr_errors :: "(int \<times> string) list"

definition skipped :: "string \<Rightarrow> bool" where
  "skipped text \<longleftrightarrow> text = [] \<or> hd text = CHR ''#''"

fun parse_lines :: "nat \<Rightarrow> string list \<Rightarrow> bql_sentence list \<times> (int \<times> string) list" where
  "parse_lines i [] = ([], [])"
| "parse_lines i (l # ls) =
     (let text = trim l; (ss, es) = parse_lines (Suc i) ls
      in if skipped text then (ss, es)
         else case parse_sentence text of
             Inr s \<Rightarrow> (s\<lparr>bs_line := line_number i\<rparr> # ss, es)
           | Inl e \<Rightarrow> (ss, (line_number i, e) # es))"

definition parse_script :: "string \<Rightarrow> script_parse_result" where
  "parse_script script =
     (let (ss, es) = parse_lines 0 (split_lines script)
      in \<lparr>sr_ok = (es = []), sr_sentences = (if es = [] then ss else []), sr_errors = es\<rparr>)"

section \<open>Answers as JSON\<close>

definition attr_json :: "bql_attr \<Rightarrow> json" where
  "attr_json a = jobject [(''key'', JString (at_key a)), (''value'', JString (at_value a))]"

definition set_opt :: "string \<Rightarrow> string option \<Rightarrow> json \<Rightarrow> json" where
  "set_opt k v j = (case v of None \<Rightarrow> j | Some s \<Rightarrow> jset k (JString s) j)"

text \<open>\<^const>\<open>None\<close> is the dereference of an empty \<^verbatim>\<open>optional\<close>.\<close>

definition sentence_body_json :: "bql_sentence \<Rightarrow> json option" where
  "sentence_body_json s =
     (let attrs = JArray (map attr_json (bs_attrs s))
      in case bs_kind s of
        Add \<Rightarrow> Some (set_opt ''parentAlias'' (bs_parent_alias s) (set_opt ''alias'' (bs_alias s) (set_opt ''text'' (bs_text s)
                (jobject [(''kind'', JString ''add''), (''blockName'', JString (bs_block_name s)), (''attrs'', attrs)]))))
      | Give \<Rightarrow> (case bs_alias s of None \<Rightarrow> None
           | Some al \<Rightarrow> Some (jobject [(''kind'', JString ''give''), (''alias'', JString al), (''attrs'', attrs)]))
      | Style \<Rightarrow> Some (jobject [(''kind'', JString ''style''), (''name'', JString (bs_name s)), (''attrs'', attrs)])
      | Class \<Rightarrow> (case bs_alias s of None \<Rightarrow> None
           | Some al \<Rightarrow> Some (jobject [(''kind'', JString ''class''), (''names'', JArray (map JString (bs_names s))),
                                     (''alias'', JString al)]))
      | Clear \<Rightarrow> Some (jobject [(''kind'', JString ''clear'')])
      | Workflow \<Rightarrow> Some (jobject [(''kind'', JString ''workflow''), (''name'', JString (bs_name s))])
      | Trigger \<Rightarrow> Some (jobject [(''kind'', JString ''trigger''), (''event'', JString (bs_event s)), (''form'', JString (bs_form s))])
      | Step \<Rightarrow> Some (jobject [(''kind'', JString ''step''), (''stepName'', JString (bs_step_name s)), (''attrs'', attrs)])
      | PublishWorkflow \<Rightarrow> Some (jobject [(''kind'', JString ''publishWorkflow'')])
      | Publish \<Rightarrow> Some (let j = jobject [(''kind'', JString ''publish''), (''path'', JString (bs_path s))]
                         in if bs_name s \<noteq> [] then jset ''title'' (JString (bs_name s)) j else j))"

definition sentence_json :: "bql_sentence \<Rightarrow> json option" where
  "sentence_json s = map_option (jset ''line'' (JInt (bs_line s))) (sentence_body_json s)"

fun all_some :: "'a option list \<Rightarrow> 'a list option" where
  "all_some [] = Some []"
| "all_some (x # xs) = (case x of None \<Rightarrow> None | Some v \<Rightarrow> map_option ((#) v) (all_some xs))"

definition script_json :: "script_parse_result \<Rightarrow> json option" where
  "script_json r =
     (if sr_ok r
      then map_option (\<lambda>js. jobject [(''ok'', JBool True), (''sentences'', JArray js)]) (all_some (map sentence_json (sr_sentences r)))
      else Some (jobject [(''ok'', JBool False),
        (''errors'', JArray (map (\<lambda>(l, m). jobject [(''line'', JInt l), (''message'', JString m)]) (sr_errors r)))]))"

end
