(* ===== verification/Bql_Roundtrip.thy ===== *)
theory Bql_Roundtrip
  imports Bql_Parser
begin

text \<open>
  What the parser of BQL accepts and what it makes of it.  The sentences of the language
  are given as a datatype of their own, with the text of each and the sentence it means;
  the parser turns the text into the meaning, for whole scripts.  Beyond that: a script
  yields all its sentences or all its errors, each with its line.
\<close>

section \<open>The language\<close>

datatype attr_value = Quoted string | Bare "string list"

type_synonym attr_phrase = "string list \<times> attr_value"

datatype phrase =
    P_add "string option" "string list" "string option" "string option" "attr_phrase list"
  | P_give string "attr_phrase list"
  | P_style string "attr_phrase list"
  | P_class "string list" string
  | P_publish string string
  | P_clear
  | P_workflow string
  | P_when_form string
  | P_when_any_form
  | P_when_joins
  | P_step "string list" "attr_phrase list"
  | P_publish_workflow

definition ok_word :: "string \<Rightarrow> bool" where
  "ok_word w \<longleftrightarrow> w \<noteq> [] \<and> plain_word w"

definition ok_text :: "string \<Rightarrow> bool" where
  "ok_text s \<longleftrightarrow> CHR 0x22 \<notin> set s \<and> CHR 0x0A \<notin> set s"

fun opt_ok :: "('a \<Rightarrow> bool) \<Rightarrow> 'a option \<Rightarrow> bool" where
  "opt_ok f None = True"
| "opt_ok f (Some x) = f x"

text \<open>A name: words, none of which ends it, the first not taken for an article.\<close>

definition ok_name :: "string list \<Rightarrow> string list \<Rightarrow> string list \<Rightarrow> bool" where
  "ok_name stop notfirst ws \<longleftrightarrow> ws \<noteq> [] \<and> list_all (\<lambda>w. ok_word w \<and> to_lower w \<notin> set stop) ws
     \<and> to_lower (hd ws) \<notin> set ([''a'', ''an''] @ notfirst)"

fun ok_value :: "attr_value \<Rightarrow> bool" where
  "ok_value (Quoted s) = ok_text s"
| "ok_value (Bare ws) \<longleftrightarrow> ws \<noteq> [] \<and> list_all (\<lambda>w. ok_word w \<and> to_lower w \<noteq> ''and'') ws"

definition ok_attr :: "attr_phrase \<Rightarrow> bool" where
  "ok_attr a \<longleftrightarrow> ok_name [''of''] [''and''] (fst a) \<and> ok_value (snd a)"

abbreviation block_stops :: "string list" where
  "block_stops \<equiv> [''called'', ''that'', ''with'']"

fun ok_phrase :: "phrase \<Rightarrow> bool" where
  "ok_phrase (P_add parent block al tx attrs) \<longleftrightarrow> opt_ok ok_word parent \<and> ok_name block_stops [] block
     \<and> opt_ok ok_word al \<and> opt_ok ok_text tx \<and> list_all ok_attr attrs"
| "ok_phrase (P_give al attrs) \<longleftrightarrow> ok_word al \<and> attrs \<noteq> [] \<and> list_all ok_attr attrs"
| "ok_phrase (P_style n attrs) \<longleftrightarrow> ok_text n \<and> list_all ok_attr attrs"
| "ok_phrase (P_class ns al) \<longleftrightarrow> ns \<noteq> [] \<and> list_all ok_text ns \<and> ok_word al"
| "ok_phrase (P_publish title path) \<longleftrightarrow> ok_text title \<and> ok_text path"
| "ok_phrase (P_workflow n) = ok_text n"
| "ok_phrase (P_when_form f) = ok_text f"
| "ok_phrase (P_step ws attrs) \<longleftrightarrow> ok_name block_stops [] ws \<and> list_all ok_attr attrs"
| "ok_phrase _ = True"

fun value_tokens :: "attr_value \<Rightarrow> token list" where
  "value_tokens (Quoted s) = [quoted s]"
| "value_tokens (Bare ws) = map word ws"

definition attr_tokens :: "attr_phrase \<Rightarrow> token list" where
  "attr_tokens a = map word (fst a) @ word ''of'' # value_tokens (snd a)"

fun attrs_tokens :: "attr_phrase list \<Rightarrow> token list" where
  "attrs_tokens [] = []"
| "attrs_tokens [a] = attr_tokens a"
| "attrs_tokens (a # as) = attr_tokens a @ comma # attrs_tokens as"

definition with_tokens :: "attr_phrase list \<Rightarrow> token list" where
  "with_tokens attrs = (if attrs = [] then [] else word ''with'' # attrs_tokens attrs)"

definition clause_tokens :: "string list \<Rightarrow> string option \<Rightarrow> string option \<Rightarrow> attr_phrase list \<Rightarrow> token list" where
  "clause_tokens block al tx attrs =
     map word block
     @ (case al of None \<Rightarrow> [] | Some w \<Rightarrow> [word ''called'', word w])
     @ (case tx of None \<Rightarrow> [] | Some s \<Rightarrow> [word ''that'', word ''says'', quoted s])
     @ with_tokens attrs"

fun names_tokens :: "string list \<Rightarrow> token list" where
  "names_tokens [] = []"
| "names_tokens [n] = [quoted n]"
| "names_tokens (n # ns) = quoted n # comma # names_tokens ns"

fun phrase_tokens :: "phrase \<Rightarrow> token list" where
  "phrase_tokens (P_add parent block al tx attrs) =
     (case parent of None \<Rightarrow> [] | Some w \<Rightarrow> [word ''inside'', word w, comma]) @ word ''add'' # clause_tokens block al tx attrs"
| "phrase_tokens (P_give al attrs) = word ''give'' # word al # attrs_tokens attrs"
| "phrase_tokens (P_style n attrs) = map word [''make'', ''a'', ''style'', ''called''] @ quoted n # with_tokens attrs"
| "phrase_tokens (P_class ns al) = word ''apply'' # names_tokens ns @ [word ''to'', word al]"
| "phrase_tokens (P_publish title path) = map word [''publish'', ''this'']
     @ (if title = [] then [] else [word ''as'', quoted title]) @ [word ''at'', quoted path]"
| "phrase_tokens P_clear = map word [''start'', ''a'', ''new'', ''page'']"
| "phrase_tokens (P_workflow n) = map word [''start'', ''a'', ''new'', ''workflow'', ''called''] @ [quoted n]"
| "phrase_tokens (P_when_form f) = map word [''run'', ''it'', ''when'', ''someone'', ''submits'', ''the''] @ [quoted f, word ''form'']"
| "phrase_tokens P_when_any_form = map word [''run'', ''it'', ''when'', ''someone'', ''submits'', ''a'', ''form'']"
| "phrase_tokens P_when_joins = map word [''run'', ''it'', ''when'', ''someone'', ''joins'']"
| "phrase_tokens (P_step ws attrs) = word ''then'' # clause_tokens ws None None attrs"
| "phrase_tokens P_publish_workflow = map word [''publish'', ''the'', ''workflow'']"

definition show_phrase :: "phrase \<Rightarrow> string" where
  "show_phrase p = show_tokens (phrase_tokens p)"

fun value_of :: "attr_value \<Rightarrow> string" where
  "value_of (Quoted s) = s"
| "value_of (Bare ws) = join_words ws"

definition attr_of :: "attr_phrase \<Rightarrow> bql_attr" where
  "attr_of a = \<lparr>at_key = join_words (fst a), at_value = value_of (snd a)\<rparr>"

fun meaning :: "phrase \<Rightarrow> bql_sentence" where
  "meaning (P_add parent block al tx attrs) = blank_sentence\<lparr>bs_kind := Add, bs_block_name := join_words block,
     bs_alias := al, bs_text := tx, bs_attrs := map attr_of attrs, bs_parent_alias := parent\<rparr>"
| "meaning (P_give al attrs) = blank_sentence\<lparr>bs_kind := Give, bs_alias := Some al, bs_attrs := map attr_of attrs\<rparr>"
| "meaning (P_style n attrs) = blank_sentence\<lparr>bs_kind := Style, bs_name := n, bs_attrs := map attr_of attrs\<rparr>"
| "meaning (P_class ns al) = blank_sentence\<lparr>bs_kind := Class, bs_names := ns, bs_alias := Some al\<rparr>"
| "meaning (P_publish title path) = blank_sentence\<lparr>bs_kind := Publish, bs_name := title, bs_path := path\<rparr>"
| "meaning P_clear = blank_sentence\<lparr>bs_kind := Clear\<rparr>"
| "meaning (P_workflow n) = blank_sentence\<lparr>bs_kind := Workflow, bs_name := n\<rparr>"
| "meaning (P_when_form f) = blank_sentence\<lparr>bs_kind := Trigger, bs_event := ''FormSubmission.created'', bs_form := f\<rparr>"
| "meaning P_when_any_form = blank_sentence\<lparr>bs_kind := Trigger, bs_event := ''FormSubmission.created''\<rparr>"
| "meaning P_when_joins = blank_sentence\<lparr>bs_kind := Trigger, bs_event := ''User.created''\<rparr>"
| "meaning (P_step ws attrs) = blank_sentence\<lparr>bs_kind := Step, bs_step_name := join_words ws, bs_attrs := map attr_of attrs\<rparr>"
| "meaning P_publish_workflow = blank_sentence\<lparr>bs_kind := PublishWorkflow\<rparr>"

section \<open>Reading the tokens\<close>

lemma peek_simps [simp]:
  "peek 0 (t # c) = Some t" "peek 0 [] = None" "peek (Suc n) (t # c) = peek n c" "peek (Suc n) [] = None"
  "peek (numeral k) (t # c) = peek (pred_numeral k) c"
  by (auto simp: peek_def numeral_eq_Suc)

lemma is_word_simps [simp]:
  "is_word_at 0 (t # c) v \<longleftrightarrow> tok_type t = Word \<and> to_lower (tok_value t) = v" "\<not> is_word_at n [] v"
  "is_word_at (Suc n) (t # c) v = is_word_at n c v"
  "is_word_at (numeral k) (t # c) v = is_word_at (pred_numeral k) c v"
  by (auto simp: is_word_at_def peek_def numeral_eq_Suc)

lemma is_comma_simps [simp]: "is_comma (t # c) \<longleftrightarrow> tok_type t = Punct \<and> tok_value t = '',''" "\<not> is_comma []"
  by (simp_all add: is_comma_def)

lemma lower_letters [simp]:
  "lower_char (CHR ''a'') = CHR ''a''" "lower_char (CHR ''b'') = CHR ''b''" "lower_char (CHR ''c'') = CHR ''c''" "lower_char (CHR ''d'') = CHR ''d''" "lower_char (CHR ''e'') = CHR ''e''" "lower_char (CHR ''f'') = CHR ''f''"
  "lower_char (CHR ''g'') = CHR ''g''" "lower_char (CHR ''h'') = CHR ''h''" "lower_char (CHR ''i'') = CHR ''i''" "lower_char (CHR ''j'') = CHR ''j''" "lower_char (CHR ''k'') = CHR ''k''" "lower_char (CHR ''l'') = CHR ''l''"
  "lower_char (CHR ''m'') = CHR ''m''" "lower_char (CHR ''n'') = CHR ''n''" "lower_char (CHR ''o'') = CHR ''o''" "lower_char (CHR ''p'') = CHR ''p''" "lower_char (CHR ''q'') = CHR ''q''" "lower_char (CHR ''r'') = CHR ''r''"
  "lower_char (CHR ''s'') = CHR ''s''" "lower_char (CHR ''t'') = CHR ''t''" "lower_char (CHR ''u'') = CHR ''u''" "lower_char (CHR ''v'') = CHR ''v''" "lower_char (CHR ''w'') = CHR ''w''" "lower_char (CHR ''x'') = CHR ''x''"
  "lower_char (CHR ''y'') = CHR ''y''" "lower_char (CHR ''z'') = CHR ''z''" "lower_char (CHR '' '') = CHR '' ''"
  by (simp_all add: lower_char_def is_upper_def byte_def)

text \<open>Where a run of words ends.\<close>

definition run_ends :: "string list \<Rightarrow> cursor \<Rightarrow> bool" where
  "run_ends stop c \<longleftrightarrow> c = [] \<or> tok_type (hd c) \<noteq> Word \<or> to_lower (tok_value (hd c)) \<in> set stop"

lemma take_words_run:
  "list_all (\<lambda>w. to_lower w \<notin> set stop) ws \<Longrightarrow> run_ends stop c \<Longrightarrow> take_words stop (map word ws @ c) = (ws, c)"
  by (induction ws) (cases c; auto simp: run_ends_def)+

lemma join_words_Nil: "list_all ok_word ws \<Longrightarrow> ws \<noteq> [] \<Longrightarrow> join_words ws \<noteq> []"
  by (cases ws rule: join_words.cases) (auto simp: ok_word_def)

lemma consume_name:
  assumes "ok_name stop nf ws" "run_ends stop c"
  shows "consume_words_until (skip_article (map word ws @ c)) stop = (join_words ws, c) \<and> join_words ws \<noteq> []"
proof -
  obtain w ws' where ws: "ws = w # ws'" using assms(1) by (cases ws) (auto simp: ok_name_def)
  then have "skip_article (map word ws @ c) = map word ws @ c"
    using assms(1) by (auto simp: skip_article_def ok_name_def)
  moreover have "take_words stop (map word ws @ c) = (ws, c)"
    using assms by (intro take_words_run) (auto simp: ok_name_def list_all_iff)
  moreover have "join_words ws \<noteq> []" using assms(1) by (intro join_words_Nil) (auto simp: ok_name_def list_all_iff)
  ultimately show ?thesis by (simp add: consume_words_until_def)
qed

lemma parse_value_tokens:
  assumes "ok_value v" "run_ends [''and''] c"
  shows "parse_value (value_tokens v @ c) = Some (value_of v, c)"
proof (cases v)
  case (Bare ws)
  then obtain w ws' where ws: "ws = w # ws'" using assms(1) by (cases ws) auto
  have "take_words [''and''] (map word ws @ c) = (ws, c)"
    using assms Bare by (intro take_words_run) (auto simp: list_all_iff)
  then show ?thesis by (simp add: Bare ws parse_value_def)
qed (simp add: parse_value_def)

lemma parse_attr_item_tokens:
  assumes "ok_attr a" "run_ends [''and''] c"
  shows "parse_attr_item (attr_tokens a @ c) = Some (attr_of a, c)"
proof -
  have "run_ends [''of''] (word ''of'' # value_tokens (snd a) @ c)" by (simp add: run_ends_def)
  with assms consume_name [of "[''of'']" "[''and'']" "fst a"]
  have "consume_words_until (skip_article (map word (fst a) @ word ''of'' # value_tokens (snd a) @ c)) [''of''] =
      (join_words (fst a), word ''of'' # value_tokens (snd a) @ c)" "join_words (fst a) \<noteq> []"
    by (auto simp: ok_attr_def)
  with parse_value_tokens [OF _ assms(2), of "snd a"] assms(1) show ?thesis
    by (simp add: parse_attr_item_def attr_tokens_def attr_of_def ok_attr_def)
qed

lemma attrs_tokens_Cons: "as \<noteq> [] \<Longrightarrow> attrs_tokens (a # as) = attr_tokens a @ comma # attrs_tokens as"
  by (cases as) simp_all

lemma attr_tokens_hd:
  assumes "ok_attr a"
  shows "\<exists>w c. attr_tokens a = word w # c \<and> to_lower w \<noteq> ''and''"
  using assms by (cases "fst a") (auto simp: ok_attr_def ok_name_def attr_tokens_def)

lemma parse_attr_list_tokens:
  assumes "list_all ok_attr as" "as \<noteq> []"
  shows "parse_attr_list (attrs_tokens as) = Some (map attr_of as, [])"
  using assms
proof (induction as)
  case (Cons a as)
  show ?case
  proof (cases "as = []")
    case True
    with Cons.prems parse_attr_item_tokens [of a "[]"] show ?thesis
      by (simp add: parse_attr_list_def run_ends_def parse_attr_more.simps [of "[]"] consume_separator_def)
  next
    case False
    have item: "parse_attr_item (attr_tokens a @ comma # attrs_tokens as) = Some (attr_of a, comma # attrs_tokens as)"
      using Cons.prems by (intro parse_attr_item_tokens) (auto simp: run_ends_def)
    obtain w c where hd: "attrs_tokens as = word w # c" "to_lower w \<noteq> ''and''"
      using False Cons.prems attr_tokens_hd by (cases as rule: attrs_tokens.cases) fastforce+
    have "parse_attr_more (comma # attrs_tokens as) =
        (case parse_attr_item (attrs_tokens as) of None \<Rightarrow> None
         | Some (b, c2) \<Rightarrow> (case parse_attr_more c2 of None \<Rightarrow> None | Some (bs, c3) \<Rightarrow> Some (b # bs, c3)))"
      using hd by (subst parse_attr_more.simps) (simp add: consume_separator_def)
    also have "\<dots> = parse_attr_list (attrs_tokens as)" by (simp add: parse_attr_list_def)
    finally have "parse_attr_more (comma # attrs_tokens as) = Some (map attr_of as, [])" using Cons False by simp
    with item False show ?thesis by (simp add: parse_attr_list_def attrs_tokens_Cons)
  qed
qed simp

lemma parse_with_tokens: "list_all ok_attr as \<Longrightarrow> parse_with (with_tokens as) = Some (map attr_of as, [])"
  by (simp add: parse_with_def with_tokens_def parse_attr_list_tokens)

lemma parse_says_tokens:
  "parse_says ((case tx of None \<Rightarrow> [] | Some s \<Rightarrow> [word ''that'', word ''says'', quoted s]) @ with_tokens as) = Some (tx, with_tokens as)"
  by (cases tx) (auto simp: parse_says_def with_tokens_def)

lemma parse_called_tokens:
  "parse_called ((case al of None \<Rightarrow> [] | Some w \<Rightarrow> [word ''called'', word w])
     @ (case tx of None \<Rightarrow> [] | Some s \<Rightarrow> [word ''that'', word ''says'', quoted s]) @ with_tokens as)
   = Some (al, (case tx of None \<Rightarrow> [] | Some s \<Rightarrow> [word ''that'', word ''says'', quoted s]) @ with_tokens as)"
  by (cases al; cases tx) (auto simp: parse_called_def with_tokens_def)

lemma parse_clause_tokens:
  assumes "ok_name block_stops [] block" "list_all ok_attr as"
  shows "parse_add_clause (clause_tokens block al tx as) =
    Some (\<lparr>cl_block_name = join_words block, cl_alias = al, cl_text = tx, cl_attrs = map attr_of as\<rparr>, [])"
proof -
  let ?c = "(case al of None \<Rightarrow> [] | Some w \<Rightarrow> [word ''called'', word w])
     @ (case tx of None \<Rightarrow> [] | Some s \<Rightarrow> [word ''that'', word ''says'', quoted s]) @ with_tokens as"
  have "run_ends block_stops ?c"
    by (cases al; cases tx) (auto simp: run_ends_def with_tokens_def)
  from consume_name [OF assms(1) this] parse_called_tokens [of al tx as] parse_says_tokens [of tx as] parse_with_tokens [OF assms(2)]
  show ?thesis by (simp add: parse_add_clause_def clause_tokens_def)
qed

lemma parse_name_list_tokens:
  "ns \<noteq> [] \<Longrightarrow> parse_name_list (names_tokens ns @ [word ''to'', word al]) = (ns, [word ''to'', word al])"
proof (induction ns rule: names_tokens.induct)
  case (2 n)
  then show ?case by (simp add: parse_name_list.simps [of "quoted n # c" for c] consume_separator_def)
next
  case (3 n m ns)
  obtain c where c: "names_tokens (m # ns) @ [word ''to'', word al] = quoted m # c"
    by (cases ns) simp_all
  have "consume_separator (comma # quoted m # c) = (True, quoted m # c)" by (simp add: consume_separator_def)
  with 3 c show ?case by (simp add: parse_name_list.simps [of "quoted n # d" for d])
qed simp

lemma parse_phrase_tokens:
  assumes "ok_phrase p"
  shows "parse_form (phrase_tokens p) raw = Inr (meaning p, [])"
proof (cases p)
  case (P_add parent block al tx attrs)
  with assms parse_clause_tokens [of block attrs al tx] show ?thesis
    by (cases parent) (simp_all add: parse_form_def parse_add_def parse_inside_add_def add_result_def)
next
  case (P_give al attrs)
  with assms parse_attr_list_tokens [of attrs] show ?thesis by (simp add: parse_form_def parse_give_def)
next
  case (P_style n attrs)
  with assms parse_with_tokens [of attrs] show ?thesis by (simp add: parse_form_def parse_style_def skip_article_def)
next
  case (P_class ns al)
  with assms parse_name_list_tokens [of ns al] show ?thesis by (simp add: parse_form_def parse_apply_def)
next
  case (P_step ws attrs)
  with assms parse_clause_tokens [of ws attrs None None] consume_name [of block_stops "[]" ws "[]"] show ?thesis
    by (simp add: parse_form_def parse_then_def run_ends_def)
qed (simp_all add: parse_form_def parse_publish_def parse_title_def parse_clear_def skip_article_def parse_workflow_start_def
       parse_run_when_def consume_words_until_def)

section \<open>The text of a sentence\<close>

lemma plain_word_no_space: "plain_word w \<Longrightarrow> c \<in> set w \<Longrightarrow> \<not> is_space c"
  by (induction w) (auto simp: breaks_word_def)

definition no_lf :: "token \<Rightarrow> bool" where
  "no_lf t \<longleftrightarrow> CHR 0x0A \<notin> set (tok_value t)"

lemma no_lf_word: "ok_word w \<Longrightarrow> no_lf (word w)"
  by (auto simp: no_lf_def ok_word_def is_space_def byte_def dest: plain_word_no_space)

definition fine_token :: "token \<Rightarrow> bool" where
  "fine_token t \<longleftrightarrow> good_token t \<and> no_lf t"

lemma good_simps [simp]:
  "fine_token (word w) = ok_word w" "ok_text s \<Longrightarrow> fine_token (quoted s)" "fine_token comma"
  using no_lf_word [of w] by (auto simp: fine_token_def good_token_def no_lf_def ok_word_def ok_text_def)

lemma good_words: "list_all ok_word ws \<Longrightarrow> list_all fine_token (map word ws)"
  by (simp add: list_all_iff)

lemma ok_name_words: "ok_name stop nf ws \<Longrightarrow> list_all fine_token (map word ws)"
  by (simp add: ok_name_def list_all_iff)

lemma ok_keywords [simp]:
  "ok_word ''of''" "ok_word ''with''" "ok_word ''called''" "ok_word ''that''" "ok_word ''says''" "ok_word ''inside''"
  "ok_word ''add''" "ok_word ''give''" "ok_word ''make''" "ok_word ''a''" "ok_word ''style''" "ok_word ''apply''"
  "ok_word ''to''" "ok_word ''publish''" "ok_word ''this''" "ok_word ''as''" "ok_word ''at''" "ok_word ''start''"
  "ok_word ''new''" "ok_word ''page''" "ok_word ''workflow''" "ok_word ''run''" "ok_word ''it''" "ok_word ''when''"
  "ok_word ''someone''" "ok_word ''submits''" "ok_word ''the''" "ok_word ''form''" "ok_word ''joins''" "ok_word ''then''"
  by (simp_all add: ok_word_def breaks_word_def is_space_def byte_def)

lemma good_value: "ok_value v \<Longrightarrow> list_all fine_token (value_tokens v)"
  by (cases v) (auto simp: list_all_iff)

lemma good_attr: "ok_attr a \<Longrightarrow> list_all fine_token (attr_tokens a)"
  using good_value [of "snd a"] ok_name_words [of _ _ "fst a"] by (auto simp: attr_tokens_def ok_attr_def)

lemma good_attrs: "list_all ok_attr as \<Longrightarrow> list_all fine_token (attrs_tokens as)"
  by (induction as rule: attrs_tokens.induct) (simp_all add: good_attr)

lemma good_with: "list_all ok_attr as \<Longrightarrow> list_all fine_token (with_tokens as)"
  by (simp add: with_tokens_def good_attrs)

lemma good_clause:
  "ok_name block_stops [] block \<Longrightarrow> opt_ok ok_word al \<Longrightarrow> opt_ok ok_text tx \<Longrightarrow> list_all ok_attr as \<Longrightarrow>
     list_all fine_token (clause_tokens block al tx as)"
  using ok_name_words [of block_stops "[]" block] by (auto simp: clause_tokens_def good_with split: option.split)

lemma good_names: "list_all ok_text ns \<Longrightarrow> list_all fine_token (names_tokens ns)"
  by (induction ns rule: names_tokens.induct) simp_all

lemma good_phrase: "ok_phrase p \<Longrightarrow> list_all fine_token (phrase_tokens p)"
  by (cases p) (auto simp: good_clause good_attrs good_with good_names split: option.split)

lemma fine_tokens: "list_all fine_token ts \<Longrightarrow> list_all good_token ts \<and> list_all no_lf ts"
  by (simp add: list_all_iff fine_token_def)

text \<open>A written token begins and ends with a character that trimming leaves, and has no line feed.\<close>

definition ok_ends :: "string \<Rightarrow> bool" where
  "ok_ends s \<longleftrightarrow> s \<noteq> [] \<and> \<not> is_trim_char (hd s) \<and> \<not> is_trim_char (last s)"

lemma trim_char_space: "is_trim_char c \<Longrightarrow> is_space c"
  by (auto simp: is_trim_char_def is_space_def byte_def)

lemma ok_ends_token: "good_token t \<Longrightarrow> ok_ends (show_token t)"
proof (cases "tok_type t")
  case Word
  moreover assume "good_token t"
  ultimately have "tok_value t \<noteq> []" "plain_word (tok_value t)" by (simp_all add: good_token_def)
  moreover from this have "\<not> is_trim_char c" if "c \<in> set (tok_value t)" for c
    using that plain_word_no_space [of "tok_value t"] trim_char_space by blast
  ultimately show ?thesis using Word by (simp add: ok_ends_def)
qed (auto simp: good_token_def ok_ends_def is_trim_char_def)

lemma ok_ends_append: "ok_ends a \<Longrightarrow> ok_ends b \<Longrightarrow> ok_ends (a @ c # b)"
  by (simp add: ok_ends_def)

lemma ok_ends_tokens: "list_all good_token ts \<Longrightarrow> ts \<noteq> [] \<Longrightarrow> ok_ends (show_tokens ts)"
  by (induction ts rule: show_tokens.induct) (auto intro: ok_ends_append ok_ends_token simp del: show_token.simps)

lemma trim_ok_ends: "ok_ends s \<Longrightarrow> trim s = s"
proof -
  assume s: "ok_ends s"
  then have "dropWhile is_trim_char s = s" by (cases s) (auto simp: ok_ends_def)
  moreover have "dropWhile is_trim_char (rev s) = rev s" using s by (cases s rule: rev_cases) (auto simp: ok_ends_def)
  ultimately show ?thesis by (simp add: trim_def)
qed

lemma show_tokens_hd: "hd (show_tokens (word (c # w) # ts)) = c"
  by (cases ts) simp_all

lemma phrase_tokens_last:
  assumes "ok_phrase p"
  shows "phrase_tokens p \<noteq> [] \<and> tok_type (last (phrase_tokens p)) \<noteq> Punct"
proof -
  have attr: "attr_tokens a \<noteq> [] \<and> tok_type (last (attr_tokens a)) \<noteq> Punct" if "ok_attr a" for a
    using that by (cases "snd a") (auto simp: attr_tokens_def ok_attr_def last_map)
  have attrs: "attrs_tokens as \<noteq> [] \<and> tok_type (last (attrs_tokens as)) \<noteq> Punct" if "list_all ok_attr as" "as \<noteq> []" for as
    using that attr by (induction as rule: attrs_tokens.induct) auto
  have withs: "with_tokens as = [] \<or> tok_type (last (with_tokens as)) \<noteq> Punct" if "list_all ok_attr as" for as
    using that attrs [of as] by (auto simp: with_tokens_def)
  have clause: "clause_tokens block al tx as \<noteq> [] \<and> tok_type (last (clause_tokens block al tx as)) \<noteq> Punct"
    if "block \<noteq> []" "list_all ok_attr as" for block al tx as
    using that withs [of as] by (auto simp: clause_tokens_def last_append last_map split: option.split)
  show ?thesis
    using assms attrs withs clause by (cases p) (auto simp: ok_name_def split: option.split)
qed

lemma parse_sentence_show:
  assumes "ok_phrase p"
  shows "parse_sentence (show_phrase p) = Inr (meaning p)"
proof -
  have "trim (show_phrase p) = show_phrase p"
    using conjunct1 [OF fine_tokens [OF good_phrase [OF assms]]] phrase_tokens_last [OF assms] by (simp add: show_phrase_def trim_ok_ends ok_ends_tokens)
  moreover have "strip_terminator (phrase_tokens p) = phrase_tokens p"
    using phrase_tokens_last [OF assms] by (simp add: strip_terminator_def)
  ultimately show ?thesis
    using parse_phrase_tokens [OF assms] tokenize_show_tokens [OF conjunct1 [OF fine_tokens [OF good_phrase [OF assms]]]]
    by (simp add: parse_sentence_def show_phrase_def)
qed

section \<open>Scripts\<close>

fun join_lines :: "string list \<Rightarrow> string" where
  "join_lines [] = []"
| "join_lines [l] = l"
| "join_lines (l # ls) = l @ [CHR 0x0A] @ join_lines ls"

lemma split_lines_line: "CHR 0x0A \<notin> set l \<Longrightarrow> split_lines l = [l]"
  by (induction l) auto

lemma split_lines_append: "CHR 0x0A \<notin> set l \<Longrightarrow> split_lines (l @ CHR 0x0A # s) = l # split_lines s"
  by (induction l) auto

lemma split_join_lines: "list_all (\<lambda>l. CHR 0x0A \<notin> set l) ls \<Longrightarrow> ls \<noteq> [] \<Longrightarrow> split_lines (join_lines ls) = ls"
  by (induction ls rule: join_lines.induct) (auto simp: split_lines_line split_lines_append)

text \<open>The errors and the sentences, line by line.\<close>

definition line_result :: "nat \<times> string \<Rightarrow> (int \<times> (string + bql_sentence)) option" where
  "line_result il = (if skipped (trim (snd il)) then None
     else Some (line_number (fst il), parse_sentence (trim (snd il))))"

lemma parse_lines_eq:
  "parse_lines i ls =
     ([s\<lparr>bs_line := n\<rparr>. (n, Inr s) \<leftarrow> List.map_filter line_result (enumerate i ls)],
      [(n, e). (n, Inl e) \<leftarrow> List.map_filter line_result (enumerate i ls)])"
  by (induction i ls rule: parse_lines.induct)
     (auto simp: line_result_def map_filter_simps Let_def split: sum.split prod.split)

lemma no_lf_show: "list_all no_lf ts \<Longrightarrow> CHR 0x0A \<notin> set (show_tokens ts)"
proof (induction ts rule: show_tokens.induct)
  case (2 t)
  then show ?case by (cases "tok_type t") (auto simp: no_lf_def)
next
  case (3 t t' ts)
  then show ?case by (cases "tok_type t") (auto simp: no_lf_def)
qed simp

lemma phrase_no_lf: "ok_phrase p \<Longrightarrow> CHR 0x0A \<notin> set (show_phrase p)"
  using fine_tokens [OF good_phrase] by (simp add: show_phrase_def no_lf_show)

lemma phrase_not_skipped:
  assumes "ok_phrase p"
  shows "\<not> skipped (show_phrase p) \<and> trim (show_phrase p) = show_phrase p"
proof -
  have "ok_ends (show_phrase p)"
    using fine_tokens [OF good_phrase [OF assms]] phrase_tokens_last [OF assms] by (simp add: show_phrase_def ok_ends_tokens)
  moreover have "hd (show_phrase p) \<noteq> CHR ''#''"
    using phrase_tokens_last [OF assms]
    by (cases p) (auto simp: show_phrase_def show_tokens_hd split: option.split)
  ultimately show ?thesis by (simp add: skipped_def trim_ok_ends ok_ends_def)
qed

lemma line_result_phrase:
  "ok_phrase p \<Longrightarrow> line_result (i, show_phrase p) = Some (line_number i, Inr (meaning p))"
  using phrase_not_skipped [of p] by (simp add: line_result_def parse_sentence_show)

lemma line_results_phrases:
  "list_all ok_phrase ps \<Longrightarrow>
     List.map_filter line_result (enumerate i (map show_phrase ps)) =
       map (\<lambda>(i, p). (line_number i, Inr (meaning p))) (enumerate i ps)"
  by (induction ps arbitrary: i) (simp_all add: map_filter_simps line_result_phrase)

lemma split_lines_phrases:
  "list_all ok_phrase ps \<Longrightarrow> ps \<noteq> [] \<Longrightarrow> split_lines (join_lines (map show_phrase ps)) = map show_phrase ps"
  by (rule split_join_lines) (auto simp: list_all_iff phrase_no_lf)

section \<open>Every answer can be written as JSON\<close>

definition complete_sentence :: "bql_sentence \<Rightarrow> bool" where
  "complete_sentence s \<longleftrightarrow> (bs_kind s = Give \<or> bs_kind s = Class \<longrightarrow> bs_alias s \<noteq> None)"

lemma complete_json: "complete_sentence s \<Longrightarrow> \<exists>j. sentence_json s = Some j"
  by (cases "bs_kind s") (auto simp: complete_sentence_def sentence_json_def sentence_body_json_def Let_def)

lemma parse_workflow_start_complete: "parse_workflow_start c raw = Inr (s, c') \<Longrightarrow> complete_sentence s"
  by (auto simp: parse_workflow_start_def complete_sentence_def blank_sentence_def split: option.split_asm if_split_asm)

lemma parse_clear_complete: "parse_clear c raw = Inr (s, c') \<Longrightarrow> complete_sentence s"
  by (auto simp: parse_clear_def Let_def parse_workflow_start_complete split: if_split_asm)
     (auto simp: complete_sentence_def blank_sentence_def)

lemma parse_publish_complete: "parse_publish c raw = Inr (s, c') \<Longrightarrow> complete_sentence s"
  by (auto simp: parse_publish_def Let_def complete_sentence_def blank_sentence_def
      split: if_split_asm sum.split_asm option.split_asm prod.split_asm)

lemma parse_run_when_complete: "parse_run_when c raw = Inr (s, c') \<Longrightarrow> complete_sentence s"
  by (auto simp: parse_run_when_def Let_def complete_sentence_def blank_sentence_def
      split: if_split_asm option.split_asm prod.split_asm)

lemma parse_form_complete: "parse_form c raw = Inr (s, c') \<Longrightarrow> complete_sentence s"
  by (auto simp: parse_form_def parse_clear_complete parse_publish_complete parse_run_when_complete split: if_split_asm)
     (auto simp: parse_apply_def parse_style_def parse_give_def parse_inside_add_def parse_add_def parse_then_def add_result_def
        complete_sentence_def blank_sentence_def Let_def split: if_split_asm option.split_asm prod.split_asm)

lemma parse_sentence_complete: "parse_sentence raw = Inr s \<Longrightarrow> complete_sentence s"
  by (auto simp: parse_sentence_def split: sum.split_asm option.split_asm prod.split_asm dest: parse_form_complete)

lemma parse_lines_complete: "s \<in> set (fst (parse_lines i ls)) \<Longrightarrow> complete_sentence s"
proof (induction i ls rule: parse_lines.induct)
  case (2 i l ls)
  have "complete_sentence (s'\<lparr>bs_line := n\<rparr>)" if "parse_sentence (trim l) = Inr s'" for s' n
    using parse_sentence_complete [OF that] by (simp add: complete_sentence_def)
  with 2 show ?case by (auto simp: Let_def split: prod.split_asm if_split_asm sum.split_asm)
qed simp

lemma all_some_ex: "list_all (\<lambda>x. \<exists>v. f x = Some v) xs \<Longrightarrow> \<exists>vs. all_some (map f xs) = Some vs \<and> length vs = length xs"
  by (induction xs) auto

section \<open>Properties\<close>

text \<open>
  C37: A script made of well-formed sentences, one a line, is read back as exactly the
  sentences it states, each with its line number, and without an error.
\<close>

theorem bql_script_roundtrip:
  assumes "list_all ok_phrase ps"
  shows "parse_script (join_lines (map show_phrase ps)) =
    \<lparr>sr_ok = True, sr_sentences = map (\<lambda>(i, p). (meaning p)\<lparr>bs_line := line_number i\<rparr>) (enumerate 0 ps), sr_errors = []\<rparr>"
proof (cases "ps = []")
  case True
  then show ?thesis by (simp add: parse_script_def skipped_def trim_def)
next
  case False
  let ?rs = "map (\<lambda>(i, p). (line_number i, Inr (meaning p) :: string + bql_sentence)) (enumerate 0 ps)"
  have "parse_lines 0 (map show_phrase ps) =
      ([s\<lparr>bs_line := n\<rparr>. (n, Inr s) \<leftarrow> ?rs], [(n, e). (n, Inl e) \<leftarrow> ?rs])"
    by (simp only: parse_lines_eq line_results_phrases [OF assms])
  moreover have "[s\<lparr>bs_line := n\<rparr>. (n, Inr s) \<leftarrow> map (\<lambda>(i, p). (line_number i, Inr (meaning p) :: string + bql_sentence)) xs]
      = map (\<lambda>(i, p). (meaning p)\<lparr>bs_line := line_number i\<rparr>) xs" for xs
    by (induction xs) auto
  moreover have "[(n, e). (n, Inl e) \<leftarrow> map (\<lambda>(i, p). (line_number i, Inr (meaning p) :: string + bql_sentence)) xs] = []" for xs
    by (induction xs) auto
  ultimately show ?thesis
    using split_lines_phrases [OF assms False] by (simp only: parse_script_def split if_True simp_thms Let_def)
qed

definition sample_script :: "phrase list" where
  "sample_script = [P_clear, P_add None [''Heading'', ''1''] (Some ''h'') (Some ''Hi, all'') [([''color''], Bare [''dark'', ''red''])],
     P_add (Some ''h'') [''Text''] None None [], P_class [''big'', ''blue''] ''h'', P_publish ''About'' ''/about'']"

theorem bql_script_roundtrip_witness:
  "sr_ok (parse_script (join_lines (map show_phrase sample_script)))
   \<and> length (sr_sentences (parse_script (join_lines (map show_phrase sample_script)))) = 5"
proof -
  have "list_all ok_phrase sample_script" by code_simp
  from bql_script_roundtrip [OF this] show ?thesis by (simp add: sample_script_def)
qed

text \<open>
  Every line is read on its own: the errors are exactly those of the lines that cannot
  be read, in order and with their numbers; if there is one, no sentence is returned, and
  otherwise all of them are.
\<close>

theorem bql_all_or_nothing:
  "let results = List.map_filter line_result (enumerate 0 (split_lines script)); r = parse_script script
   in sr_errors r = [(n, e). (n, Inl e) \<leftarrow> results]
    \<and> sr_ok r = list_all (\<lambda>(n, x). case x of Inl e \<Rightarrow> False | Inr s \<Rightarrow> True) results
    \<and> sr_sentences r = (if sr_ok r then [s\<lparr>bs_line := n\<rparr>. (n, Inr s) \<leftarrow> results] else [])"
proof -
  have "[(n, e). (n, Inl e) \<leftarrow> rs] = [] \<longleftrightarrow> list_all (\<lambda>(n, x). case x of Inl e \<Rightarrow> False | Inr s \<Rightarrow> True) rs"
    for rs :: "(int \<times> (string + bql_sentence)) list"
  proof (induction rs)
    case (Cons r rs)
    then show ?case by (cases r; cases "snd r") auto
  qed simp
  then show ?thesis by (simp add: parse_script_def parse_lines_eq Let_def)
qed

text \<open>
  Whatever the script, its answer can be written as JSON: no sentence lacks a field
  that the writer dereferences, and the answer says whether the script was accepted.
\<close>

theorem bql_answer_total:
  "\<exists>j. script_json (parse_script script) = Some j \<and> jget j ''ok'' = Some (JBool (sr_ok (parse_script script)))"
proof -
  have "list_all (\<lambda>s. \<exists>j. sentence_json s = Some j) (sr_sentences (parse_script script))"
    using complete_json parse_lines_complete [of _ 0 "split_lines script"]
    by (auto simp: parse_script_def list_all_iff split: prod.split)
  from all_some_ex [OF this] show ?thesis
    by (auto simp: script_json_def jget_jobject)
qed

end
