(* ===== verification/Blob_Memory.thy ===== *)
theory Blob_Memory
  imports Cpp_Sort Dbal_Errors
begin

text \<open>
  Blob storage.  \<^verbatim>\<open>BlobStorage\<close> (\<^verbatim>\<open>include/dbal/storage/blob_storage.hpp\<close>) is an interface
  with several implementations: here it is a record of operations, and the locale
  \<open>blob_storage\<close> says that they act on a map from keys to blobs as the abstract operations
  below do.  The storage in memory (\<^verbatim>\<open>src/blob/memory\<close>, \<^verbatim>\<open>memory_storage.hpp\<close>) is an
  instance.  A time is a number of clock ticks; \<open>hash\<close> is \<^verbatim>\<open>std::hash\<close>, which the standard
  leaves to the implementation.
\<close>

section \<open>Data\<close>

record blob_data =
  bd_data :: string
  bd_content_type :: string
  bd_etag :: string
  bd_last_modified :: int
  bd_metadata :: "(string, string) omap"

record blob_metadata =
  bm_key :: string
  bm_size :: nat
  bm_content_type :: string
  bm_etag :: string
  bm_last_modified :: int
  bm_custom_metadata :: "(string, string) omap"

record blob_list_result =
  bl_items :: "blob_metadata list"
  bl_next_token :: "string option"
  bl_is_truncated :: bool

record upload_options =
  uo_content_type :: "string option"
  uo_metadata :: "(string, string) omap"
  uo_overwrite :: bool

record download_options =
  do_offset :: "nat option"
  do_length :: "nat option"

record blob_list_options =
  lo_prefix :: "string option"
  lo_continuation_token :: "string option"
  lo_max_keys :: nat

type_synonym blob_store = "(string, blob_data) omap"

definition hex_digit :: "nat \<Rightarrow> char" where
  "hex_digit d = ''0123456789abcdef'' ! d"

fun nat_hex :: "nat \<Rightarrow> string" where
  "nat_hex n = (if n < 16 then [hex_digit n] else nat_hex (n div 16) @ [hex_digit (n mod 16)])"

declare nat_hex.simps [simp del]

definition generate_etag :: "(string \<Rightarrow> nat) \<Rightarrow> string \<Rightarrow> string" where
  "generate_etag hash data =
     (let h = nat_hex (hash data)
      in [CHR 0x22] @ replicate (16 - length h) (CHR ''0'') @ h @ [CHR 0x22])"

definition make_blob_metadata :: "string \<Rightarrow> blob_data \<Rightarrow> blob_metadata" where
  "make_blob_metadata key blob =
     \<lparr>bm_key = key, bm_size = length (bd_data blob), bm_content_type = bd_content_type blob,
      bm_etag = bd_etag blob, bm_last_modified = bd_last_modified blob, bm_custom_metadata = bd_metadata blob\<rparr>"

definition value_or :: "'a option \<Rightarrow> 'a \<Rightarrow> 'a" where
  "value_or v d = (case v of None \<Rightarrow> d | Some x \<Rightarrow> x)"

section \<open>In memory\<close>

definition memory_upload ::
  "(string \<Rightarrow> nat) \<Rightarrow> int \<Rightarrow> blob_store \<Rightarrow> string \<Rightarrow> string \<Rightarrow> upload_options \<Rightarrow> blob_metadata result \<times> blob_store" where
  "memory_upload hash now st key data opts =
     (if \<not> uo_overwrite opts \<and> map_of st key \<noteq> None
      then (Inl (conflict (''Blob already exists: '' @ key)), st)
      else let blob = \<lparr>bd_data = data, bd_content_type = value_or (uo_content_type opts) ''application/octet-stream'',
                       bd_etag = generate_etag hash data, bd_last_modified = now, bd_metadata = uo_metadata opts\<rparr>
           in (Inr (make_blob_metadata key blob), om_put key blob st))"

text \<open>
  The default length wraps around when the offset is too large, but is not used then.
\<close>

definition memory_download :: "blob_store \<Rightarrow> string \<Rightarrow> download_options \<Rightarrow> string result" where
  "memory_download st key opts =
     (case map_of st key of
        None \<Rightarrow> Inl (not_found (''Blob not found: '' @ key))
      | Some blob \<Rightarrow>
          let data = bd_data blob
          in if do_offset opts \<noteq> None \<or> do_length opts \<noteq> None
             then let offset = value_or (do_offset opts) 0;
                      len = value_or (do_length opts) (length data - offset)
                  in if offset \<ge> length data then Inl (validation_error ''Offset exceeds blob size'')
                     else Inr (take (min len (length data - offset)) (drop offset data))
             else Inr data)"

definition memory_delete :: "blob_store \<Rightarrow> string \<Rightarrow> bool result \<times> blob_store" where
  "memory_delete st key =
     (if map_of st key = None then (Inl (not_found (''Blob not found: '' @ key)), st)
      else (Inr True, om_erase key st))"

definition memory_exists :: "blob_store \<Rightarrow> string \<Rightarrow> bool result" where
  "memory_exists st key = Inr (map_of st key \<noteq> None)"

definition memory_get_metadata :: "blob_store \<Rightarrow> string \<Rightarrow> blob_metadata result" where
  "memory_get_metadata st key =
     (case map_of st key of
        None \<Rightarrow> Inl (not_found (''Blob not found: '' @ key))
      | Some blob \<Rightarrow> Inr (make_blob_metadata key blob))"

fun memory_list_loop :: "string \<Rightarrow> nat \<Rightarrow> blob_metadata list \<Rightarrow> blob_store \<Rightarrow> blob_list_result" where
  "memory_list_loop pre max_keys items [] = \<lparr>bl_items = items, bl_next_token = None, bl_is_truncated = False\<rparr>"
| "memory_list_loop pre max_keys items ((key, blob) # st) =
     (if pre = [] \<or> prefix pre key
      then if length items \<ge> max_keys
           then \<lparr>bl_items = items, bl_next_token = Some key, bl_is_truncated = True\<rparr>
           else memory_list_loop pre max_keys (items @ [make_blob_metadata key blob]) st
      else memory_list_loop pre max_keys items st)"

definition memory_list :: "blob_store \<Rightarrow> blob_list_options \<Rightarrow> blob_list_result result" where
  "memory_list st opts = Inr (memory_list_loop (value_or (lo_prefix opts) []) (lo_max_keys opts) [] st)"

definition memory_copy :: "int \<Rightarrow> blob_store \<Rightarrow> string \<Rightarrow> string \<Rightarrow> blob_metadata result \<times> blob_store" where
  "memory_copy now st source dest =
     (case map_of st source of
        None \<Rightarrow> (Inl (not_found (''Source blob not found: '' @ source)), st)
      | Some blob \<Rightarrow>
          let blob' = blob\<lparr>bd_last_modified := now\<rparr>
          in (Inr (make_blob_metadata dest blob'), om_put dest blob' st))"

definition memory_total_size :: "blob_store \<Rightarrow> nat result" where
  "memory_total_size st = Inr (fold (\<lambda>(k, b) t. (t + length (bd_data b)) mod 2 ^ 64) st 0)"

definition memory_object_count :: "blob_store \<Rightarrow> nat result" where
  "memory_object_count st = Inr (length st)"

text \<open>
  The two streaming operations of \<^verbatim>\<open>MemoryStorage\<close>: the upload stores an empty blob, the
  download hands the bytes to the callback, whose calls are listed.
\<close>

definition memory_upload_stream ::
  "(string \<Rightarrow> nat) \<Rightarrow> int \<Rightarrow> blob_store \<Rightarrow> string \<Rightarrow> (string \<Rightarrow> nat \<Rightarrow> unit) \<Rightarrow> nat \<Rightarrow> upload_options \<Rightarrow> blob_metadata result \<times> blob_store" where
  "memory_upload_stream hash now st key read_callback sz opts = memory_upload hash now st key [] opts"

definition memory_download_stream :: "blob_store \<Rightarrow> string \<Rightarrow> download_options \<Rightarrow> bool result \<times> (string \<times> nat) list" where
  "memory_download_stream st key opts =
     (case memory_download st key opts of
        Inl e \<Rightarrow> (Inl e, [])
      | Inr data \<Rightarrow> (Inr True, if data = [] then [] else [(data, length data)]))"

definition memory_presigned_url :: "blob_store \<Rightarrow> string \<Rightarrow> int \<Rightarrow> string result" where
  "memory_presigned_url st key expiration = Inr []"

section \<open>The interface\<close>

record 's blob_ops =
  bo_upload :: "int \<Rightarrow> 's \<Rightarrow> string \<Rightarrow> string \<Rightarrow> upload_options \<Rightarrow> blob_metadata result \<times> 's"
  bo_download :: "'s \<Rightarrow> string \<Rightarrow> download_options \<Rightarrow> string result"
  bo_delete :: "'s \<Rightarrow> string \<Rightarrow> bool result \<times> 's"
  bo_exists :: "'s \<Rightarrow> string \<Rightarrow> bool result"
  bo_get_metadata :: "'s \<Rightarrow> string \<Rightarrow> blob_metadata result"
  bo_list :: "'s \<Rightarrow> blob_list_options \<Rightarrow> blob_list_result result"
  bo_presigned_url :: "'s \<Rightarrow> string \<Rightarrow> int \<Rightarrow> string result"
  bo_copy :: "int \<Rightarrow> 's \<Rightarrow> string \<Rightarrow> string \<Rightarrow> blob_metadata result \<times> 's"
  bo_total_size :: "'s \<Rightarrow> nat result"
  bo_object_count :: "'s \<Rightarrow> nat result"

definition memory_storage :: "(string \<Rightarrow> nat) \<Rightarrow> blob_store blob_ops" where
  "memory_storage hash =
     \<lparr>bo_upload = memory_upload hash, bo_download = memory_download, bo_delete = memory_delete,
      bo_exists = memory_exists, bo_get_metadata = memory_get_metadata, bo_list = memory_list,
      bo_presigned_url = memory_presigned_url, bo_copy = memory_copy,
      bo_total_size = memory_total_size, bo_object_count = memory_object_count\<rparr>"

text \<open>What the operations do to a map from keys to blobs.\<close>

type_synonym blobs = "string \<rightharpoonup> blob_data"

definition spec_upload ::
  "(string \<Rightarrow> string) \<Rightarrow> int \<Rightarrow> blobs \<Rightarrow> string \<Rightarrow> string \<Rightarrow> upload_options \<Rightarrow> blob_metadata result \<times> blobs" where
  "spec_upload etag now m key data opts =
     (if key \<in> dom m \<and> \<not> uo_overwrite opts then (Inl (conflict (''Blob already exists: '' @ key)), m)
      else let blob = \<lparr>bd_data = data, bd_content_type = value_or (uo_content_type opts) ''application/octet-stream'',
                       bd_etag = etag data, bd_last_modified = now, bd_metadata = uo_metadata opts\<rparr>
           in (Inr (make_blob_metadata key blob), m(key \<mapsto> blob)))"

definition byte_range :: "string \<Rightarrow> download_options \<Rightarrow> string" where
  "byte_range data opts = take (value_or (do_length opts) (length data)) (drop (value_or (do_offset opts) 0) data)"

definition spec_download :: "blobs \<Rightarrow> string \<Rightarrow> download_options \<Rightarrow> string result" where
  "spec_download m key opts =
     (case m key of
        None \<Rightarrow> Inl (not_found (''Blob not found: '' @ key))
      | Some blob \<Rightarrow>
          if opts \<noteq> \<lparr>do_offset = None, do_length = None\<rparr> \<and> value_or (do_offset opts) 0 \<ge> length (bd_data blob)
          then Inl (validation_error ''Offset exceeds blob size'')
          else Inr (byte_range (bd_data blob) opts))"

definition spec_delete :: "blobs \<Rightarrow> string \<Rightarrow> bool result \<times> blobs" where
  "spec_delete m key = (if key \<in> dom m then (Inr True, m(key := None))
     else (Inl (not_found (''Blob not found: '' @ key)), m))"

definition spec_metadata :: "blobs \<Rightarrow> string \<Rightarrow> blob_metadata result" where
  "spec_metadata m key = (case m key of None \<Rightarrow> Inl (not_found (''Blob not found: '' @ key))
     | Some blob \<Rightarrow> Inr (make_blob_metadata key blob))"

definition spec_copy :: "int \<Rightarrow> blobs \<Rightarrow> string \<Rightarrow> string \<Rightarrow> blob_metadata result \<times> blobs" where
  "spec_copy now m source dest =
     (case m source of None \<Rightarrow> (Inl (not_found (''Source blob not found: '' @ source)), m)
      | Some blob \<Rightarrow> (Inr (make_blob_metadata dest (blob\<lparr>bd_last_modified := now\<rparr>)),
                      m(dest \<mapsto> blob\<lparr>bd_last_modified := now\<rparr>)))"

text \<open>A listing: the keys with the prefix in order, cut at the limit.\<close>

definition keys_with :: "blobs \<Rightarrow> string \<Rightarrow> string list" where
  "keys_with m pre = sorted_list_of_set {k \<in> dom m. prefix pre k}"

definition spec_list :: "blobs \<Rightarrow> string \<Rightarrow> nat \<Rightarrow> blob_list_result" where
  "spec_list m pre n =
     \<lparr>bl_items = map (\<lambda>k. make_blob_metadata k (the (m k))) (take n (keys_with m pre)),
      bl_next_token = (if n < length (keys_with m pre) then Some (keys_with m pre ! n) else None),
      bl_is_truncated = (n < length (keys_with m pre))\<rparr>"

locale blob_storage =
  fixes ops :: "'s blob_ops" and inv :: "'s \<Rightarrow> bool" and contents :: "'s \<Rightarrow> blobs" and etag :: "string \<Rightarrow> string"
  assumes upload: "inv s \<Longrightarrow> bo_upload ops now s key data opts = (r, s') \<Longrightarrow>
        inv s' \<and> (r, contents s') = spec_upload etag now (contents s) key data opts"
    and download: "inv s \<Longrightarrow> bo_download ops s key dopts = spec_download (contents s) key dopts"
    and delete: "inv s \<Longrightarrow> bo_delete ops s key = (b, s') \<Longrightarrow> inv s' \<and> (b, contents s') = spec_delete (contents s) key"
    and exists: "inv s \<Longrightarrow> bo_exists ops s key = Inr (key \<in> dom (contents s))"
    and get_metadata: "inv s \<Longrightarrow> bo_get_metadata ops s key = spec_metadata (contents s) key"
    and list: "inv s \<Longrightarrow> bo_list ops s lopts = Inr (spec_list (contents s) (value_or (lo_prefix lopts) []) (lo_max_keys lopts))"
    and presigned_url: "bo_presigned_url ops s key t = bo_presigned_url ops s1 key t"
    and copy: "inv s \<Longrightarrow> bo_copy ops now s source dest = (r, s') \<Longrightarrow>
        inv s' \<and> (r, contents s') = spec_copy now (contents s) source dest"
    and object_count: "inv s \<Longrightarrow> bo_object_count ops s = Inr (card (dom (contents s)))"

section \<open>The storage in memory implements it\<close>

lemma keys_with_filter:
  assumes "om_wf st"
  shows "keys_with (map_of st) pre = filter (prefix pre) (map fst st)"
proof -
  have "sorted (filter (prefix pre) (map fst st))" "distinct (filter (prefix pre) (map fst st))"
    using assms sorted_filter [of id "map fst st" "prefix pre"] by (simp_all add: om_wf_def strict_sorted_iff)
  then have "sorted_list_of_set (set (filter (prefix pre) (map fst st))) = filter (prefix pre) (map fst st)"
    by (simp only: sorted_list_of_set.idem_if_sorted_distinct)
  moreover have "set (filter (prefix pre) (map fst st)) = {k \<in> dom (map_of st). prefix pre k}"
    by (auto simp: dom_map_of_conv_image_fst)
  ultimately show ?thesis by (simp add: keys_with_def)
qed

lemma memory_list_loop_eq:
  "memory_list_loop pre n items st =
     (let sel = filter (\<lambda>(k, b). prefix pre k) st; room = n - length items
      in \<lparr>bl_items = items @ map (\<lambda>(k, b). make_blob_metadata k b) (take room sel),
          bl_next_token = (if room < length sel then Some (fst (sel ! room)) else None),
          bl_is_truncated = (room < length sel)\<rparr>)"
proof (induction pre n items st rule: memory_list_loop.induct)
  case (2 pre n items key blob st)
  show ?case
  proof (cases "prefix pre key")
    case False
    then have "pre \<noteq> []" by auto
    with 2 False show ?thesis by simp
  next
    case True
    show ?thesis
    proof (cases "length items \<ge> n")
      case False
      then obtain m where "n - length items = Suc m" by (metis Suc_diff_Suc not_le)
      moreover from this have "n - Suc (length items) = m" by simp
      ultimately show ?thesis using 2 True False by (simp add: Let_def)
    qed (use True in simp)
  qed
qed simp

lemma memory_list_spec:
  assumes "om_wf st"
  shows "memory_list_loop pre n [] st = spec_list (map_of st) pre n"
proof -
  let ?sel = "filter (\<lambda>(k, b). prefix pre k) st"
  have keys: "keys_with (map_of st) pre = map fst ?sel"
    by (simp add: keys_with_filter [OF assms] filter_map comp_def case_prod_unfold)
  have "map (\<lambda>(k, b). make_blob_metadata k b) xs = map (\<lambda>k. make_blob_metadata k (the (map_of st k))) (map fst xs)"
    if "set xs \<subseteq> set st" for xs
    using that om_find_in [OF assms] by (auto simp: subset_iff) (metis option.sel)
  moreover have "set (take n ?sel) \<subseteq> set st" by (auto dest: in_set_takeD)
  ultimately show ?thesis
    by (simp add: memory_list_loop_eq spec_list_def keys Let_def take_map nth_map)
qed

interpretation memory: blob_storage "memory_storage hash" om_wf map_of "generate_etag hash"
proof
  fix s s' :: blob_store and now t key data opts dopts lopts r b source dest s1
  show "bo_presigned_url (memory_storage hash) s key t = bo_presigned_url (memory_storage hash) s1 key t"
    by (simp add: memory_storage_def memory_presigned_url_def)
  assume wf: "om_wf s"
  show "bo_download (memory_storage hash) s key dopts = spec_download (map_of s) key dopts"
    by (cases dopts) (auto simp: memory_storage_def memory_download_def spec_download_def byte_range_def value_or_def Let_def min_def
        split: option.split)
  show "bo_exists (memory_storage hash) s key = Inr (key \<in> dom (map_of s))"
    by (auto simp: memory_storage_def memory_exists_def)
  show "bo_get_metadata (memory_storage hash) s key = spec_metadata (map_of s) key"
    by (simp add: memory_storage_def memory_get_metadata_def spec_metadata_def)
  show "bo_list (memory_storage hash) s lopts = Inr (spec_list (map_of s) (value_or (lo_prefix lopts) []) (lo_max_keys lopts))"
    using wf by (simp add: memory_storage_def memory_list_def memory_list_spec)
  show "bo_object_count (memory_storage hash) s = Inr (card (dom (map_of s)))"
    using om_wf_distinct [OF wf] by (simp add: memory_storage_def memory_object_count_def dom_map_of_conv_image_fst
        distinct_card flip: set_map)
  show "om_wf s' \<and> (r, map_of s') = spec_upload (generate_etag hash) now (map_of s) key data opts"
    if "bo_upload (memory_storage hash) now s key data opts = (r, s')"
    using that wf by (auto simp: memory_storage_def memory_upload_def spec_upload_def Let_def split: if_split_asm)
  show "om_wf s' \<and> (b, map_of s') = spec_delete (map_of s) key" if "bo_delete (memory_storage hash) s key = (b, s')"
    using that wf by (auto simp: memory_storage_def memory_delete_def spec_delete_def split: if_split_asm)
  show "om_wf s' \<and> (r, map_of s') = spec_copy now (map_of s) source dest"
    if "bo_copy (memory_storage hash) now s source dest = (r, s')"
    using that wf by (auto simp: memory_storage_def memory_copy_def spec_copy_def Let_def split: option.split_asm)
qed

end
