(* ===== verification/Blob_Routes.thy ===== *)
theory Blob_Routes
  imports Blob_Memory Json_Value
begin

text \<open>
  The HTTP routes of blob storage (\<^verbatim>\<open>src/daemon/handlers/blob_route_handler.cpp\<close>), over
  any storage that implements the interface.  A handler takes the request and the storage
  and gives the response and the storage afterwards; what the callback is called with is
  the response.  The record \<open>web_env\<close> holds the library functions: JSON reading and writing
  (jsoncpp), its printing of floating point numbers, and the two date formats.
\<close>

section \<open>Requests and responses\<close>

datatype http_method = Put | Get | Delete | Head | Post | Other

record http_request =
  rq_method :: http_method
  rq_headers :: "(string \<times> string) list"
  rq_parameters :: "(string \<times> string) list"
  rq_body :: string

datatype response_body = No_body | Json_body json | Raw_body string

record http_response =
  rs_status :: int
  rs_content_type :: "string option"
  rs_headers :: "(string \<times> string) list"
  rs_body :: response_body

record web_env =
  we_parse :: "string \<Rightarrow> json option"
  we_write :: "json \<Rightarrow> string"
  we_show_real :: "rat \<Rightarrow> string"
  we_iso_time :: "int \<Rightarrow> string"
  we_http_date :: "int \<Rightarrow> string"

definition json_response :: "int \<Rightarrow> json \<Rightarrow> http_response" where
  "json_response status body = \<lparr>rs_status = status, rs_content_type = None, rs_headers = [], rs_body = Json_body body\<rparr>"

definition get_header :: "http_request \<Rightarrow> string \<Rightarrow> string" where
  "get_header req name = value_or (map_of (rq_headers req) name) []"

definition parse_query_parameters :: "http_request \<Rightarrow> (string, string) omap" where
  "parse_query_parameters req = fold (\<lambda>(k, v). om_put k v) (rq_parameters req) []"

text \<open>
  \<^verbatim>\<open>std::stoull\<close> negates modulo \<open>2^64\<close>; \<^verbatim>\<open>std::stol\<close> is for 64 bits.  \<^const>\<open>None\<close> is the
  exception, which both callers swallow.
\<close>

definition read_sign :: "string \<Rightarrow> bool \<times> string" where
  "read_sign s =
     (let t = dropWhile is_space s
      in (t \<noteq> [] \<and> hd t = CHR ''-'',
          takeWhile is_digit (if t \<noteq> [] \<and> (hd t = CHR ''-'' \<or> hd t = CHR ''+'') then tl t else t)))"

definition stoull :: "string \<Rightarrow> nat option" where
  "stoull s =
     (let (neg, ds) = read_sign s; v = digits_val ds
      in if ds = [] \<or> v \<ge> 2 ^ 64 then None
         else Some (if neg then (2 ^ 64 - v) mod 2 ^ 64 else v))"

definition stol :: "string \<Rightarrow> int option" where
  "stol s =
     (let (neg, ds) = read_sign s; v = (if neg then - int (digits_val ds) else int (digits_val ds))
      in if ds = [] \<or> v < - (2 ^ 63) \<or> v \<ge> 2 ^ 63 then None else Some v)"

text \<open>What jsoncpp makes of a value: \<^verbatim>\<open>asString\<close>, and the members of an object or of null.\<close>

fun as_string :: "web_env \<Rightarrow> json \<Rightarrow> exn + string" where
  "as_string env JNull = Inr []"
| "as_string env (JString s) = Inr s"
| "as_string env (JBool b) = Inr (if b then ''true'' else ''false'')"
| "as_string env (JInt i) = Inr (int_digits i)"
| "as_string env (JFloat q) = Inr (we_show_real env q)"
| "as_string env _ = Inl (Std_exception ''Type is not convertible to string'')"

fun members :: "json \<Rightarrow> exn + (string \<times> json) list" where
  "members JNull = Inr []"
| "members (JObject m) = Inr m"
| "members _ = Inl (Std_exception ''requires objectValue or nullValue'')"

section \<open>Helpers\<close>

definition build_storage_key :: "string \<Rightarrow> string \<Rightarrow> string \<Rightarrow> string" where
  "build_storage_key tenant package key = tenant @ ''/'' @ package @ ''/'' @ key"

definition strip_key_prefix :: "string \<Rightarrow> string \<Rightarrow> string \<Rightarrow> string" where
  "strip_key_prefix tenant package storage_key =
     (let pre = tenant @ ''/'' @ package @ ''/''
      in if length storage_key > length pre \<and> take (length pre) storage_key = pre
         then drop (length pre) storage_key else storage_key)"

definition metadata_to_json :: "web_env \<Rightarrow> blob_metadata \<Rightarrow> string \<Rightarrow> string \<Rightarrow> json" where
  "metadata_to_json env meta tenant package =
     jobject ([(''key'', JString (strip_key_prefix tenant package (bm_key meta))),
       (''size'', JInt (int (bm_size meta))),
       (''contentType'', JString (bm_content_type meta)),
       (''etag'', JString (bm_etag meta)),
       (''lastModified'', JString (we_iso_time env (bm_last_modified meta)))]
      @ (if bm_custom_metadata meta = [] then []
         else [(''customMetadata'', jobject (map (\<lambda>(k, v). (k, JString v)) (bm_custom_metadata meta)))]))"

fun error_to_http_status :: "error_code \<Rightarrow> int" where
  "error_to_http_status NotFound = 404"
| "error_to_http_status Conflict = 409"
| "error_to_http_status Unauthorized = 401"
| "error_to_http_status Forbidden = 403"
| "error_to_http_status ValidationError = 422"
| "error_to_http_status RateLimitExceeded = 429"
| "error_to_http_status CapabilityNotSupported = 501"
| "error_to_http_status Timeout = 504"
| "error_to_http_status DatabaseError = 503"
| "error_to_http_status _ = 500"

definition blob_error_response :: "string \<Rightarrow> string \<Rightarrow> int \<Rightarrow> http_response" where
  "blob_error_response code message status =
     json_response status (jobject [(''error'', jobject [(''code'', JString code), (''message'', JString message)])])"

fun error_code_string :: "error_code \<Rightarrow> string" where
  "error_code_string NotFound = ''NOT_FOUND''"
| "error_code_string Conflict = ''CONFLICT''"
| "error_code_string Unauthorized = ''UNAUTHORIZED''"
| "error_code_string Forbidden = ''FORBIDDEN''"
| "error_code_string ValidationError = ''VALIDATION_ERROR''"
| "error_code_string RateLimitExceeded = ''RATE_LIMITED''"
| "error_code_string CapabilityNotSupported = ''NOT_SUPPORTED''"
| "error_code_string Timeout = ''TIMEOUT''"
| "error_code_string DatabaseError = ''DATABASE_ERROR''"
| "error_code_string _ = ''INTERNAL_ERROR''"

definition send_blob_error :: "error \<Rightarrow> http_response" where
  "send_blob_error e =
     blob_error_response (error_code_string (err_code e)) (err_what e) (error_to_http_status (err_code e))"

definition internal_error_response :: http_response where
  "internal_error_response = blob_error_response ''INTERNAL_ERROR'' ''Internal server error'' 500"

section \<open>Handlers\<close>

definition list_options_of :: "http_request \<Rightarrow> string \<Rightarrow> string \<Rightarrow> blob_list_options" where
  "list_options_of req tenant package =
     (let query = parse_query_parameters req; tenant_prefix = tenant @ ''/'' @ package @ ''/''
      in \<lparr>lo_prefix = Some (tenant_prefix @ value_or (map_of query ''prefix'') []),
          lo_continuation_token = map_of query ''continuationToken'',
          lo_max_keys = (case map_of query ''maxKeys'' of None \<Rightarrow> 1000 | Some v \<Rightarrow> value_or (stoull v) 1000)\<rparr>)"

definition handle_blob_list :: "web_env \<Rightarrow> 's blob_ops \<Rightarrow> 's \<Rightarrow> http_request \<Rightarrow> string \<Rightarrow> string \<Rightarrow> http_response" where
  "handle_blob_list env ops s req tenant package =
     (case bo_list ops s (list_options_of req tenant package) of
        Inl e \<Rightarrow> send_blob_error e
      | Inr r \<Rightarrow> json_response 200 (jobject
          [(''items'', JArray (map (\<lambda>m. metadata_to_json env m tenant package) (bl_items r))),
           (''isTruncated'', JBool (bl_is_truncated r)),
           (''nextToken'', case bl_next_token r of Some t \<Rightarrow> JString t | None \<Rightarrow> JNull)]))"

definition handle_blob_stats :: "'s blob_ops \<Rightarrow> 's \<Rightarrow> http_request \<Rightarrow> string \<Rightarrow> string \<Rightarrow> http_response" where
  "handle_blob_stats ops s req tenant package =
     (case bo_total_size ops s of
        Inl e \<Rightarrow> send_blob_error e
      | Inr bytes \<Rightarrow>
         (case bo_object_count ops s of
            Inl e \<Rightarrow> send_blob_error e
          | Inr n \<Rightarrow> json_response 200 (jobject
              [(''totalSize'', JInt (int bytes)), (''totalSizeBytes'', JInt (int bytes)),
               (''objectCount'', JInt (int n)), (''count'', JInt (int n))])))"

fun put_members :: "web_env \<Rightarrow> (string \<times> json) list \<Rightarrow> (string, string) omap \<Rightarrow> exn + (string, string) omap" where
  "put_members env [] m = Inr m"
| "put_members env ((k, v) # ms) m =
     (case as_string env v of Inl x \<Rightarrow> Inl x | Inr s \<Rightarrow> put_members env ms (om_put k s m))"

definition metadata_of_header :: "web_env \<Rightarrow> string \<Rightarrow> exn + (string, string) omap" where
  "metadata_of_header env h =
     (if h = [] then Inr []
      else case we_parse env h of
        None \<Rightarrow> Inr []
      | Some j \<Rightarrow> (case members j of Inl x \<Rightarrow> Inl x | Inr ms \<Rightarrow> put_members env ms []))"

definition handle_upload ::
  "web_env \<Rightarrow> 's blob_ops \<Rightarrow> int \<Rightarrow> 's \<Rightarrow> http_request \<Rightarrow> string \<Rightarrow> string \<Rightarrow> string \<Rightarrow> exn + (http_response \<times> 's)" where
  "handle_upload env ops now s req tenant package key =
     (let content_type = get_header req ''Content-Type''; overwrite = get_header req ''X-Blob-Overwrite''
      in case metadata_of_header env (get_header req ''X-Blob-Metadata'') of
        Inl x \<Rightarrow> Inl x
      | Inr meta \<Rightarrow>
         (case bo_upload ops now s (build_storage_key tenant package key) (rq_body req)
                 \<lparr>uo_content_type = Some (if content_type \<noteq> [] then content_type else ''application/octet-stream''),
                  uo_metadata = meta,
                  uo_overwrite = (if overwrite \<noteq> [] then overwrite = ''true'' \<or> overwrite = ''1'' else True)\<rparr> of
            (Inl e, s') \<Rightarrow> Inr (send_blob_error e, s')
          | (Inr m, s') \<Rightarrow> Inr (json_response 201 (metadata_to_json env m tenant package), s')))"

definition handle_download :: "'s blob_ops \<Rightarrow> 's \<Rightarrow> http_request \<Rightarrow> string \<Rightarrow> string \<Rightarrow> string \<Rightarrow> http_response" where
  "handle_download ops s req tenant package key =
     (let storage_key = build_storage_key tenant package key;
          content_type = (case bo_get_metadata ops s storage_key of
             Inr m \<Rightarrow> bm_content_type m | Inl _ \<Rightarrow> ''application/octet-stream'')
      in case bo_download ops s storage_key \<lparr>do_offset = None, do_length = None\<rparr> of
           Inl e \<Rightarrow> send_blob_error e
         | Inr data \<Rightarrow> \<lparr>rs_status = 200, rs_content_type = Some content_type, rs_headers = [], rs_body = Raw_body data\<rparr>)"

definition handle_delete :: "'s blob_ops \<Rightarrow> 's \<Rightarrow> http_request \<Rightarrow> string \<Rightarrow> string \<Rightarrow> string \<Rightarrow> http_response \<times> 's" where
  "handle_delete ops s req tenant package key =
     (case bo_delete ops s (build_storage_key tenant package key) of
        (Inl e, s') \<Rightarrow> (send_blob_error e, s')
      | (Inr _, s') \<Rightarrow> (json_response 200 (jobject [(''success'', JBool True), (''deleted'', JBool True)]), s'))"

definition handle_head :: "web_env \<Rightarrow> 's blob_ops \<Rightarrow> 's \<Rightarrow> http_request \<Rightarrow> string \<Rightarrow> string \<Rightarrow> string \<Rightarrow> http_response" where
  "handle_head env ops s req tenant package key =
     (case bo_get_metadata ops s (build_storage_key tenant package key) of
        Inl e \<Rightarrow> \<lparr>rs_status = error_to_http_status (err_code e), rs_content_type = None, rs_headers = [], rs_body = No_body\<rparr>
      | Inr m \<Rightarrow>
          \<lparr>rs_status = 200, rs_content_type = Some (bm_content_type m),
           rs_headers = [(''Content-Length'', nat_digits (bm_size m)), (''ETag'', bm_etag m),
                         (''Last-Modified'', we_http_date env (bm_last_modified m))]
             @ (if bm_custom_metadata m = [] then []
                else [(''X-Blob-Metadata'', we_write env (jobject (map (\<lambda>(k, v). (k, JString v)) (bm_custom_metadata m))))]),
           rs_body = No_body\<rparr>)"

definition handle_presign :: "'s blob_ops \<Rightarrow> 's \<Rightarrow> http_request \<Rightarrow> string \<Rightarrow> string \<Rightarrow> string \<Rightarrow> http_response" where
  "handle_presign ops s req tenant package key =
     (let expiration = (case map_of (parse_query_parameters req) ''expires'' of
             None \<Rightarrow> 3600 | Some v \<Rightarrow> value_or (stol v) 3600)
      in case bo_presigned_url ops s (build_storage_key tenant package key) expiration of
           Inl e \<Rightarrow> send_blob_error e
         | Inr url \<Rightarrow> json_response 200 (jobject [(''url'', JString url), (''presignedUrl'', JString url)]))"

definition handle_copy ::
  "web_env \<Rightarrow> 's blob_ops \<Rightarrow> int \<Rightarrow> 's \<Rightarrow> http_request \<Rightarrow> string \<Rightarrow> string \<Rightarrow> string \<Rightarrow> exn + (http_response \<times> 's)" where
  "handle_copy env ops now s req tenant package key =
     (case we_parse env (rq_body req) of
        None \<Rightarrow> Inr (blob_error_response ''VALIDATION_ERROR'' ''Invalid JSON body'' 422, s)
      | Some body \<Rightarrow>
         (case members body of
            Inl x \<Rightarrow> Inl x
          | Inr ms \<Rightarrow>
             (case map_of ms ''destKey'' of
                Some (JString dest) \<Rightarrow>
                  if dest = [] then Inr (blob_error_response ''VALIDATION_ERROR'' ''destKey must not be empty'' 422, s)
                  else (case bo_copy ops now s (build_storage_key tenant package key) (build_storage_key tenant package dest) of
                          (Inl e, s') \<Rightarrow> Inr (send_blob_error e, s')
                        | (Inr m, s') \<Rightarrow> Inr (json_response 200 (metadata_to_json env m tenant package), s'))
              | _ \<Rightarrow> Inr (blob_error_response ''VALIDATION_ERROR'' ''Missing required field: destKey'' 422, s))))"

text \<open>The catch clause of the two dispatchers; a handler that throws has not touched the storage.\<close>

definition guarded :: "'s \<Rightarrow> exn + (http_response \<times> 's) \<Rightarrow> http_response \<times> 's" where
  "guarded s r = (case r of Inl x \<Rightarrow> (internal_error_response, s) | Inr p \<Rightarrow> p)"

definition handle_blob_with_key ::
  "web_env \<Rightarrow> 's blob_ops \<Rightarrow> int \<Rightarrow> 's \<Rightarrow> http_request \<Rightarrow> string \<Rightarrow> string \<Rightarrow> string \<Rightarrow> http_response \<times> 's" where
  "handle_blob_with_key env ops now s req tenant package key =
     (case rq_method req of
        Put \<Rightarrow> guarded s (handle_upload env ops now s req tenant package key)
      | Get \<Rightarrow> (handle_download ops s req tenant package key, s)
      | Delete \<Rightarrow> handle_delete ops s req tenant package key
      | Head \<Rightarrow> (handle_head env ops s req tenant package key, s)
      | _ \<Rightarrow> (blob_error_response ''METHOD_NOT_ALLOWED'' ''Method not allowed'' 405, s))"

definition handle_blob_action ::
  "web_env \<Rightarrow> 's blob_ops \<Rightarrow> int \<Rightarrow> 's \<Rightarrow> http_request \<Rightarrow> string \<Rightarrow> string \<Rightarrow> string \<Rightarrow> string \<Rightarrow> http_response \<times> 's" where
  "handle_blob_action env ops now s req tenant package key action =
     (if action = ''presign'' then (handle_presign ops s req tenant package key, s)
      else if action = ''copy'' then guarded s (handle_copy env ops now s req tenant package key)
      else (blob_error_response ''NOT_FOUND'' (''Unknown blob action: '' @ action) 404, s))"

end
