(* ===== verification/Blob_Isolation.thy ===== *)
theory Blob_Isolation
  imports Blob_Routes
begin

text \<open>
  What the blob routes guarantee, for every storage that implements the interface: a
  request under one tenant and package sees and changes only the blobs under their prefix,
  and what is put is what is got.  The last part instantiates this with the storage in
  memory and states how that storage implements the interface.
\<close>

definition scope :: "string \<Rightarrow> string \<Rightarrow> string" where
  "scope tenant package = tenant @ ''/'' @ package @ ''/''"

definition agree :: "string \<Rightarrow> blobs \<Rightarrow> blobs \<Rightarrow> bool" where
  "agree pre m m' \<longleftrightarrow> (\<forall>k. prefix pre k \<longrightarrow> m k = m' k)"

definition untouched :: "string \<Rightarrow> blobs \<Rightarrow> blobs \<Rightarrow> bool" where
  "untouched pre m m' \<longleftrightarrow> (\<forall>k. \<not> prefix pre k \<longrightarrow> m' k = m k)"

lemma build_key_scope: "prefix (scope tenant package) (build_storage_key tenant package key)"
  by (simp add: scope_def build_storage_key_def prefix_def)

lemma agree_refl [simp]: "agree pre m m"
  by (simp add: agree_def)

lemma agreeD: "agree pre m m' \<Longrightarrow> prefix pre k \<Longrightarrow> m k = m' k"
  by (simp add: agree_def)

lemma untouched_refl [simp]: "untouched pre m m"
  by (simp add: untouched_def)

lemma untouched_upd [simp]: "prefix pre k \<Longrightarrow> untouched pre m (m(k := v))"
  by (auto simp: untouched_def)

lemma agree_upd: "agree pre m m' \<Longrightarrow> agree pre (m(k := v)) (m'(k := v))"
  by (simp add: agree_def)

text \<open>The scopes of different tenants and packages share no key.\<close>

lemma slash_split:
  "CHR ''/'' \<notin> set a \<Longrightarrow> CHR ''/'' \<notin> set b \<Longrightarrow> a @ CHR ''/'' # x = b @ CHR ''/'' # y \<Longrightarrow> a = b \<and> x = y"
  by (induction a arbitrary: b) (case_tac b; auto)+

lemma scope_disjoint:
  assumes "CHR ''/'' \<notin> set t" "CHR ''/'' \<notin> set p" "CHR ''/'' \<notin> set t'" "CHR ''/'' \<notin> set p'"
    and "prefix (scope t p) k" "prefix (scope t' p') k"
  shows "t = t' \<and> p = p'"
proof -
  obtain x where x: "k = t @ CHR ''/'' # p @ CHR ''/'' # x" using assms(5) by (auto simp: scope_def prefix_def)
  obtain y where y: "k = t' @ CHR ''/'' # p' @ CHR ''/'' # y" using assms(6) by (auto simp: scope_def prefix_def)
  from slash_split [OF assms(1,3), of "p @ CHR ''/'' # x" "p' @ CHR ''/'' # y"] x y
  have "t = t' \<and> p @ CHR ''/'' # x = p' @ CHR ''/'' # y" by simp
  with slash_split [OF assms(2,4), of x y] show ?thesis by simp
qed

section \<open>The abstract operations on agreeing maps\<close>

lemma keys_with_agree: "agree pre m m' \<Longrightarrow> keys_with m (pre @ x) = keys_with m' (pre @ x)"
proof -
  assume a: "agree pre m m'"
  have "{k \<in> dom m. prefix (pre @ x) k} = {k \<in> dom m'. prefix (pre @ x) k}"
    using a by (auto simp: dom_def dest: agreeD append_prefixD)
  then show ?thesis by (simp add: keys_with_def)
qed

lemma finite_sorted_set: "set (sorted_list_of_set A) \<subseteq> A"
  by (cases "finite A") simp_all

lemma spec_list_agree:
  assumes "agree pre m m'"
  shows "spec_list m (pre @ x) n = spec_list m' (pre @ x) n"
proof -
  have "m k = m' k" if "k \<in> set (take n (keys_with m (pre @ x)))" for k
  proof -
    have "k \<in> set (keys_with m (pre @ x))" using that by (rule in_set_takeD)
    then have "prefix (pre @ x) k" using finite_sorted_set by (auto simp: keys_with_def)
    then show ?thesis using assms by (auto dest: agreeD append_prefixD)
  qed
  then show ?thesis by (simp add: spec_list_def keys_with_agree [OF assms])
qed

lemma spec_upload_agree:
  assumes "agree pre m m'" "prefix pre key" "spec_upload etag now m key data opts = (r, n)" "spec_upload etag now m' key data opts = (r', n')"
  shows "r = r' \<and> agree pre n n' \<and> untouched pre m n"
proof -
  have "key \<in> dom m \<longleftrightarrow> key \<in> dom m'" using agreeD [OF assms(1,2)] by (simp add: dom_def)
  then show ?thesis
    using assms by (auto simp: spec_upload_def Let_def agree_upd split: if_split_asm)
qed

lemma spec_delete_agree:
  assumes "agree pre m m'" "prefix pre key" "spec_delete m key = (r, n)" "spec_delete m' key = (r', n')"
  shows "r = r' \<and> agree pre n n' \<and> untouched pre m n"
proof -
  have "key \<in> dom m \<longleftrightarrow> key \<in> dom m'" using agreeD [OF assms(1,2)] by (simp add: dom_def)
  then show ?thesis using assms by (auto simp: spec_delete_def agree_upd split: if_split_asm)
qed

lemma spec_copy_agree:
  assumes "agree pre m m'" "prefix pre src" "prefix pre dst" "spec_copy now m src dst = (r, n)" "spec_copy now m' src dst = (r', n')"
  shows "r = r' \<and> agree pre n n' \<and> untouched pre m n"
  using assms agreeD [OF assms(1,2)] by (auto simp: spec_copy_def agree_upd split: option.split_asm)

section \<open>Routes\<close>

datatype blob_route = R_list | R_key string | R_action string string

fun serve_blob ::
  "web_env \<Rightarrow> 's blob_ops \<Rightarrow> int \<Rightarrow> string \<Rightarrow> string \<Rightarrow> blob_route \<Rightarrow> http_request \<Rightarrow> 's \<Rightarrow> http_response \<times> 's" where
  "serve_blob env ops now tenant package R_list req s = (handle_blob_list env ops s req tenant package, s)"
| "serve_blob env ops now tenant package (R_key key) req s = handle_blob_with_key env ops now s req tenant package key"
| "serve_blob env ops now tenant package (R_action key action) req s = handle_blob_action env ops now s req tenant package key action"

definition isolated :: "string \<Rightarrow> blobs \<Rightarrow> http_response \<times> blobs \<Rightarrow> http_response \<times> blobs \<Rightarrow> bool" where
  "isolated pre m r r' \<longleftrightarrow> fst r = fst r' \<and> agree pre (snd r) (snd r') \<and> untouched pre m (snd r)"

lemma isolatedI: "agree pre m m' \<Longrightarrow> x = x' \<Longrightarrow> isolated pre m (x, m) (x', m')"
  by (simp add: isolated_def)

definition seen :: "('s \<Rightarrow> blobs) \<Rightarrow> http_response \<times> 's \<Rightarrow> http_response \<times> blobs" where
  "seen contents r = (fst r, contents (snd r))"

context blob_storage
begin

lemma list_isolated:
  assumes "inv s" "inv s'" "agree (scope t p) (contents s) (contents s')"
  shows "handle_blob_list env ops s req t p = handle_blob_list env ops s' req t p"
  using spec_list_agree [OF assms(3)] assms(1,2)
  by (simp add: handle_blob_list_def list list_options_of_def Let_def value_or_def scope_def split: option.split)

lemma read_isolated:
  assumes "inv s" "inv s'" "agree (scope t p) (contents s) (contents s')"
  shows "handle_download ops s req t p key = handle_download ops s' req t p key"
    and "handle_head env ops s req t p key = handle_head env ops s' req t p key"
    and "handle_presign ops s req t p key = handle_presign ops s' req t p key"
  using agreeD [OF assms(3) build_key_scope, of key] assms(1,2) presigned_url [of s _ _ s']
  by (simp_all add: handle_download_def handle_head_def handle_presign_def download get_metadata
        spec_metadata_def spec_download_def Let_def split: option.split)

lemma upload_isolated:
  assumes "inv s" "inv s'" "agree (scope t p) (contents s) (contents s')"
  shows "isolated (scope t p) (contents s) (seen contents (guarded s (handle_upload env ops now s req t p key)))
     (seen contents (guarded s' (handle_upload env ops now s' req t p key)))"
proof (cases "metadata_of_header env (get_header req ''X-Blob-Metadata'')")
  case (Inl x)
  with assms(3) show ?thesis
    by (simp add: handle_upload_def guarded_def seen_def isolatedI)
next
  case (Inr meta)
  let ?k = "build_storage_key t p key" and ?o = "\<lparr>uo_content_type = Some (if get_header req ''Content-Type'' \<noteq> [] then get_header req ''Content-Type'' else ''application/octet-stream''),
      uo_metadata = meta, uo_overwrite = (if get_header req ''X-Blob-Overwrite'' \<noteq> []
        then get_header req ''X-Blob-Overwrite'' = ''true'' \<or> get_header req ''X-Blob-Overwrite'' = ''1'' else True)\<rparr>"
  obtain r s1 r' s1' where u: "bo_upload ops now s ?k (rq_body req) ?o = (r, s1)" "bo_upload ops now s' ?k (rq_body req) ?o = (r', s1')"
    by fastforce
  have "spec_upload etag now (contents s) ?k (rq_body req) ?o = (r, contents s1)"
      "spec_upload etag now (contents s') ?k (rq_body req) ?o = (r', contents s1')"
    using upload [OF assms(1) u(1)] upload [OF assms(2) u(2)] by simp_all
  from spec_upload_agree [OF assms(3) build_key_scope this] show ?thesis
    by (cases r; cases r') (auto simp: handle_upload_def Let_def Inr u guarded_def seen_def isolated_def simp del: if_split)
qed

lemma delete_isolated:
  assumes "inv s" "inv s'" "agree (scope t p) (contents s) (contents s')"
  shows "isolated (scope t p) (contents s) (seen contents (handle_delete ops s req t p key)) (seen contents (handle_delete ops s' req t p key))"
proof -
  let ?k = "build_storage_key t p key"
  obtain r s1 r' s1' where u: "bo_delete ops s ?k = (r, s1)" "bo_delete ops s' ?k = (r', s1')" by fastforce
  have "spec_delete (contents s) ?k = (r, contents s1)" "spec_delete (contents s') ?k = (r', contents s1')"
    using delete [OF assms(1) u(1)] delete [OF assms(2) u(2)] by simp_all
  from spec_delete_agree [OF assms(3) build_key_scope this] show ?thesis
    by (cases r; cases r') (auto simp: handle_delete_def u seen_def isolated_def)
qed

lemma copy_isolated:
  assumes "inv s" "inv s'" "agree (scope t p) (contents s) (contents s')"
  shows "isolated (scope t p) (contents s) (seen contents (guarded s (handle_copy env ops now s req t p key)))
     (seen contents (guarded s' (handle_copy env ops now s' req t p key)))"
proof -
  have copied: "isolated (scope t p) (contents s)
      (seen contents (guarded s (case bo_copy ops now s (build_storage_key t p key) (build_storage_key t p dest) of
         (Inl e, s1) \<Rightarrow> Inr (send_blob_error e, s1) | (Inr m, s1) \<Rightarrow> Inr (json_response 200 (metadata_to_json env m t p), s1))))
      (seen contents (guarded s' (case bo_copy ops now s' (build_storage_key t p key) (build_storage_key t p dest) of
         (Inl e, s1) \<Rightarrow> Inr (send_blob_error e, s1) | (Inr m, s1) \<Rightarrow> Inr (json_response 200 (metadata_to_json env m t p), s1))))" for dest
  proof -
    let ?k = "build_storage_key t p key" and ?d = "build_storage_key t p dest"
    obtain r s1 r' s1' where u: "bo_copy ops now s ?k ?d = (r, s1)" "bo_copy ops now s' ?k ?d = (r', s1')" by fastforce
    have "spec_copy now (contents s) ?k ?d = (r, contents s1)" "spec_copy now (contents s') ?k ?d = (r', contents s1')"
      using copy [OF assms(1) u(1)] copy [OF assms(2) u(2)] by simp_all
    from spec_copy_agree [OF assms(3) build_key_scope build_key_scope this] show ?thesis
      by (cases r; cases r') (auto simp: u guarded_def seen_def isolated_def)
  qed
  have same: "isolated (scope t p) (contents s) (seen contents (guarded s (Inr (x, s)))) (seen contents (guarded s' (Inr (x, s'))))"
      "isolated (scope t p) (contents s) (seen contents (guarded s (Inl y))) (seen contents (guarded s' (Inl y)))" for x y
    using assms(3) by (simp_all add: guarded_def seen_def isolatedI)
  show ?thesis unfolding handle_copy_def
    by (auto simp only: copied same split: option.split sum.split json.split if_split)
qed

lemma serve_isolated:
  assumes "inv s" "inv s'" "agree (scope t p) (contents s) (contents s')"
  shows "isolated (scope t p) (contents s) (seen contents (serve_blob env ops now t p route req s))
     (seen contents (serve_blob env ops now t p route req s'))"
proof -
  have same: "isolated (scope t p) (contents s) (seen contents (x, s)) (seen contents (x', s'))" if "x = x'" for x x'
    using assms(3) that by (simp add: seen_def isolatedI)
  show ?thesis
  proof (cases route)
    case R_list
    then show ?thesis using list_isolated [OF assms] by (simp add: same)
  next
    case (R_key key)
    then show ?thesis
      using upload_isolated [OF assms] delete_isolated [OF assms] read_isolated [OF assms]
      by (cases "rq_method req") (simp_all add: handle_blob_with_key_def same)
  next
    case (R_action key action)
    then show ?thesis
      using copy_isolated [OF assms] read_isolated(3) [OF assms] by (simp add: handle_blob_action_def same)
  qed
qed

text \<open>A blob that is put is there, under its own key, with its type and its bytes.\<close>

lemma upload_created:
  assumes "inv s" "handle_upload env ops now s req t p key = Inr (resp, s')" "rs_status resp = 201"
  shows "inv s' \<and> (\<exists>blob. contents s' (build_storage_key t p key) = Some blob \<and> bd_data blob = rq_body req
    \<and> bd_content_type blob = (if get_header req ''Content-Type'' \<noteq> [] then get_header req ''Content-Type'' else ''application/octet-stream''))"
proof -
  let ?k = "build_storage_key t p key" and ?ct = "if get_header req ''Content-Type'' \<noteq> [] then get_header req ''Content-Type'' else ''application/octet-stream''"
  obtain meta where meta: "metadata_of_header env (get_header req ''X-Blob-Metadata'') = Inr meta"
    using assms(2) by (auto simp: handle_upload_def Let_def split: sum.split_asm)
  define opts where "opts = \<lparr>uo_content_type = Some ?ct, uo_metadata = meta, uo_overwrite = (if get_header req ''X-Blob-Overwrite'' \<noteq> []
        then get_header req ''X-Blob-Overwrite'' = ''true'' \<or> get_header req ''X-Blob-Overwrite'' = ''1'' else True)\<rparr>"
  obtain r where u: "bo_upload ops now s ?k (rq_body req) opts = (r, s')"
      and r: "case r of Inl e \<Rightarrow> resp = send_blob_error e | Inr m \<Rightarrow> True"
    using assms(2) unfolding handle_upload_def Let_def meta opts_def by (auto split: prod.split_asm sum.split_asm)
  have "error_to_http_status c \<noteq> 201" for c by (cases c) simp_all
  then have "\<exists>m. r = Inr m" using r assms(3)
    by (cases r) (auto simp: send_blob_error_def blob_error_response_def json_response_def)
  with upload [OF assms(1) u] show ?thesis
    by (auto simp: spec_upload_def Let_def value_or_def opts_def split: if_split_asm)
qed

lemma put_then_get:
  assumes "inv s" "handle_upload env ops now s req t p key = Inr (resp, s')" "rs_status resp = 201"
  shows "handle_download ops s' req' t p key =
    \<lparr>rs_status = 200, rs_content_type = Some (if get_header req ''Content-Type'' \<noteq> [] then get_header req ''Content-Type'' else ''application/octet-stream''),
     rs_headers = [], rs_body = Raw_body (rq_body req)\<rparr>"
  using upload_created [OF assms]
  by (auto simp: handle_download_def Let_def download get_metadata spec_metadata_def spec_download_def byte_range_def value_or_def
      make_blob_metadata_def)

end

section \<open>Properties\<close>


definition sample_env :: web_env where
  "sample_env = \<lparr>we_parse = (\<lambda>s. None), we_write = (\<lambda>j. []), we_show_real = (\<lambda>q. []), we_iso_time = int_digits, we_http_date = int_digits\<rparr>"

definition sample_put :: http_request where
  "sample_put = \<lparr>rq_method = Put, rq_headers = [(''Content-Type'', ''text/plain'')], rq_parameters = [], rq_body = ''hello''\<rparr>"

definition sample_blob :: blob_data where
  "sample_blob = \<lparr>bd_data = ''x'', bd_content_type = ''t'', bd_etag = [], bd_last_modified = 0, bd_metadata = []\<rparr>"

definition sample_store :: blob_store where
  "sample_store = [(''b/q/f'', sample_blob)]"


text \<open>
  A blob whose upload was answered with 201 is downloaded with the bytes that were
  sent and the content type that was given.
\<close>

theorem blob_put_get:
  assumes "blob_storage ops ok contents etag" and "ok s"
    and "handle_upload env ops now s req t p key = Inr (resp, s')" and "rs_status resp = 201"
  shows "handle_download ops s' req' t p key =
    \<lparr>rs_status = 200, rs_content_type = Some (if get_header req ''Content-Type'' \<noteq> [] then get_header req ''Content-Type'' else ''application/octet-stream''),
     rs_headers = [], rs_body = Raw_body (rq_body req)\<rparr>"
  by (rule blob_storage.put_then_get [OF assms])

theorem blob_put_get_witness:
  "\<exists>resp s'. handle_upload sample_env (memory_storage length) 7 sample_store sample_put ''a'' ''p'' ''f'' = Inr (resp, s')
     \<and> rs_body (handle_download (memory_storage length) s' sample_put ''a'' ''p'' ''f'') = Raw_body ''hello''"
proof -
  obtain resp s' where u: "handle_upload sample_env (memory_storage length) 7 sample_store sample_put ''a'' ''p'' ''f'' = Inr (resp, s')"
      "rs_status resp = 201"
    by (simp add: handle_upload_def metadata_of_header_def get_header_def sample_put_def value_or_def memory_storage_def
        memory_upload_def json_response_def Let_def)
  have "om_wf sample_store" by (simp add: sample_store_def om_wf_def)
  from blob_put_get [OF memory.blob_storage_axioms this u, of sample_put] u(1) show ?thesis
    by (auto simp: sample_put_def)
qed

text \<open>
  C30: The storage in memory acts on the map from keys to blobs as the abstract operations
  do: uploads respect the overwrite flag, downloads cut out the requested range, a listing
  gives the keys with the prefix in order up to the limit and says whether more are left.
\<close>

theorem memory_storage_refines:
  assumes "om_wf st"
  shows "map_prod id map_of (memory_upload hash now st key data opts) = spec_upload (generate_etag hash) now (map_of st) key data opts
    \<and> map_prod id map_of (memory_delete st key) = spec_delete (map_of st) key
    \<and> map_prod id map_of (memory_copy now st key dest) = spec_copy now (map_of st) key dest
    \<and> memory_download st key dopts = spec_download (map_of st) key dopts
    \<and> memory_get_metadata st key = spec_metadata (map_of st) key
    \<and> memory_list st lopts = Inr (spec_list (map_of st) (value_or (lo_prefix lopts) []) (lo_max_keys lopts))
    \<and> om_wf (snd (memory_upload hash now st key data opts)) \<and> om_wf (snd (memory_delete st key))
    \<and> om_wf (snd (memory_copy now st key dest))"
proof -
  have "map_prod id map_of (memory_upload hash now st key data opts) = spec_upload (generate_etag hash) now (map_of st) key data opts
      \<and> om_wf (snd (memory_upload hash now st key data opts))"
    using memory.upload [OF assms] by (simp add: memory_storage_def map_prod_def split: prod.split)
  moreover have "map_prod id map_of (memory_delete st key) = spec_delete (map_of st) key \<and> om_wf (snd (memory_delete st key))"
    using memory.delete [OF assms] by (simp add: memory_storage_def map_prod_def split: prod.split)
  moreover have "map_prod id map_of (memory_copy now st key dest) = spec_copy now (map_of st) key dest \<and> om_wf (snd (memory_copy now st key dest))"
    using memory.copy [OF assms] by (simp add: memory_storage_def map_prod_def split: prod.split)
  ultimately show ?thesis
    using memory.download [OF assms] memory.get_metadata [OF assms] memory.list [OF assms] by (simp add: memory_storage_def)
qed

theorem memory_storage_refines_witness:
  "memory_download sample_store ''b/q/f'' \<lparr>do_offset = Some 0, do_length = Some 5\<rparr> = Inr ''x''"
proof -
  have "om_wf sample_store" by (simp add: sample_store_def om_wf_def)
  from memory_storage_refines [OF this] show ?thesis
    by (simp add: spec_download_def sample_store_def sample_blob_def byte_range_def value_or_def)
qed

end
