(* ===== verification/Workflow_Context.thy ===== *)
theory Workflow_Context
  imports Json_Value
begin

text \<open>
  The variables of a running workflow and the templates resolved against them
  (\<^verbatim>\<open>include/workflow/wf_context.hpp\<close>), the conditions of \<^verbatim>\<open>dbal.stop.unless\<close>
  (\<^verbatim>\<open>src/workflow/wf_compare.cpp\<close>) and the list of page effects
  (\<^verbatim>\<open>src/workflow/wf_effects.cpp\<close>).  Writing a value as text is \<^verbatim>\<open>json::dump\<close> of the JSON
  library, a parameter \<open>dump\<close>, which throws on a string that is not UTF-8.  The second half
  gives templates a reference meaning, segment by segment, and shows that the scanner computes it.
\<close>

type_synonym vars = "(string, json) omap"
type_synonym dumper = "json \<Rightarrow> exn + string"

section \<open>Variables\<close>

definition ctx_set :: "string \<Rightarrow> json \<Rightarrow> vars \<Rightarrow> vars" where
  "ctx_set k v vars = om_put k v vars"

text \<open>The first dot of a name, as \<^verbatim>\<open>key.find('.')\<close> splits it.\<close>

fun split_dot :: "string \<Rightarrow> (string \<times> string) option" where
  "split_dot [] = None"
| "split_dot (c # cs) =
     (if c = CHR ''.'' then Some ([], cs)
      else map_option (\<lambda>(a, b). (c # a, b)) (split_dot cs))"

lemma split_dot_some: "split_dot s = Some (a, b) \<longleftrightarrow> s = a @ CHR ''.'' # b \<and> CHR ''.'' \<notin> set a"
proof (induction s arbitrary: a)
  case (Cons c s)
  then show ?case by (cases a) auto
qed simp

lemma split_dot_none: "split_dot s = None \<longleftrightarrow> CHR ''.'' \<notin> set s"
  by (induction s) auto

function getPath :: "json \<Rightarrow> string \<Rightarrow> json \<Rightarrow> json" where
  "getPath obj path d =
     (case split_dot path of
        None \<Rightarrow> (case jget obj path of None \<Rightarrow> d | Some v \<Rightarrow> v)
      | Some (key, rest) \<Rightarrow> (case jget obj key of None \<Rightarrow> d | Some v \<Rightarrow> getPath v rest d))"
  by pat_completeness auto

termination
  by (relation "measure (\<lambda>(_, path, _). length path)") (auto simp: split_dot_some)

declare getPath.simps [simp del]

definition ctx_get :: "vars \<Rightarrow> string \<Rightarrow> json \<Rightarrow> json" where
  "ctx_get vars key d =
     (case split_dot key of
        Some (base, rest) \<Rightarrow>
          (case map_of vars base of
             None \<Rightarrow> d
           | Some v \<Rightarrow> if \<not> is_object v then d else getPath v rest d)
      | None \<Rightarrow> (case map_of vars key of None \<Rightarrow> d | Some v \<Rightarrow> v))"

definition ctx_has :: "vars \<Rightarrow> string \<Rightarrow> bool" where
  "ctx_has vars key =
     (case split_dot key of
        Some (base, rest) \<Rightarrow> map_of vars base \<noteq> None
      | None \<Rightarrow> map_of vars key \<noteq> None)"

section \<open>Templates\<close>

text \<open>The text of one placeholder: a string as it is, null as nothing, the rest dumped.\<close>

fun value_text :: "dumper \<Rightarrow> json \<Rightarrow> exn + string" where
  "value_text dump (JString s) = Inr s"
| "value_text dump JNull = Inr []"
| "value_text dump v = dump v"

function resolveStr :: "dumper \<Rightarrow> vars \<Rightarrow> string \<Rightarrow> exn + string" where
  "resolveStr dump vars [] = Inr []"
| "resolveStr dump vars (c # cs) =
     (if c = CHR ''$'' \<and> take 1 cs = ''{'' \<and> CHR ''}'' \<in> set (drop 1 cs)
      then let key = takeWhile (\<lambda>d. d \<noteq> CHR ''}'') (drop 1 cs)
           in exn_bind (value_text dump (ctx_get vars key JNull)) (\<lambda>t.
                map_sum id (\<lambda>r. t @ r) (resolveStr dump vars (drop (length key + 2) cs)))
      else map_sum id (\<lambda>r. c # r) (resolveStr dump vars cs))"
  by pat_completeness auto

termination
  by (relation "measure (\<lambda>(_, _, s). length s)") auto

declare resolveStr.simps(2) [simp del]

text \<open>\<^verbatim>\<open>std::regex_match\<close> with \<^verbatim>\<open>\$\{([^}]+)\}\<close>.\<close>

definition whole_key :: "string \<Rightarrow> string option" where
  "whole_key s =
     (let key = takeWhile (\<lambda>d. d \<noteq> CHR ''}'') (drop 2 s)
      in if take 2 s = ''${'' \<and> key \<noteq> [] \<and> drop (length key + 2) s = ''}'' then Some key else None)"

fun resolve :: "dumper \<Rightarrow> vars \<Rightarrow> json \<Rightarrow> exn + json"
and resolve_items :: "dumper \<Rightarrow> vars \<Rightarrow> json list \<Rightarrow> exn + json list"
and resolve_members :: "dumper \<Rightarrow> vars \<Rightarrow> (string \<times> json) list \<Rightarrow> exn + (string \<times> json) list" where
  "resolve dump vars (JString s) =
     (case whole_key s of
        Some key \<Rightarrow> Inr (ctx_get vars key (JString s))
      | None \<Rightarrow> map_sum id JString (resolveStr dump vars s))"
| "resolve dump vars (JObject m) = map_sum id JObject (resolve_members dump vars m)"
| "resolve dump vars (JArray vs) = map_sum id JArray (resolve_items dump vars vs)"
| "resolve dump vars JNull = Inr JNull"
| "resolve dump vars (JBool b) = Inr (JBool b)"
| "resolve dump vars (JInt i) = Inr (JInt i)"
| "resolve dump vars (JFloat q) = Inr (JFloat q)"
| "resolve_items dump vars [] = Inr []"
| "resolve_items dump vars (v # vs) =
     exn_bind (resolve dump vars v) (\<lambda>v'. map_sum id (\<lambda>r. v' # r) (resolve_items dump vars vs))"
| "resolve_members dump vars [] = Inr []"
| "resolve_members dump vars ((k, v) # m) =
     exn_bind (resolve dump vars v) (\<lambda>v'. map_sum id (\<lambda>r. (k, v') # r) (resolve_members dump vars m))"

section \<open>Comparisons\<close>

definition asText :: "dumper \<Rightarrow> json \<Rightarrow> exn + string" where
  "asText dump v = (if is_null v then Inr [] else if is_string v then get_string v else dump v)"

definition compareHolds :: "dumper \<Rightarrow> string \<Rightarrow> json \<Rightarrow> json \<Rightarrow> exn + bool" where
  "compareHolds dump is v other =
     exn_bind (asText dump v) (\<lambda>got.
     exn_bind (asText dump other) (\<lambda>want.
       let rel = to_lower is
       in Inr (if rel = ''empty'' then got = []
               else if rel = ''not empty'' then got \<noteq> []
               else if rel = ''equals'' then got = want
               else if rel = ''does not equal'' then got \<noteq> want
               else if rel = ''contains'' then contains_sub got want
               else if rel = ''does not contain'' then \<not> contains_sub got want
               else if rel = ''is true''
               then (case v of JBool b \<Rightarrow> b | _ \<Rightarrow> to_lower got = ''true'')
               else False)))"

section \<open>Page effects\<close>

definition effects_var :: string where
  "effects_var = ''__page_effects''"

definition appendEffect :: "json \<Rightarrow> json \<Rightarrow> json" where
  "appendEffect existing effect = JArray ((case existing of JArray vs \<Rightarrow> vs | _ \<Rightarrow> []) @ [effect])"

section \<open>What a template means\<close>

text \<open>
  A template is a sequence of literal pieces and references.  Writing it down and scanning it
  gives the literals and, in place of each reference, the text of its variable.
\<close>

datatype segment = Lit string | Ref string

fun seg_text :: "segment \<Rightarrow> string" where
  "seg_text (Lit s) = s"
| "seg_text (Ref k) = ''${'' @ k @ ''}''"

fun seg_ok :: "segment \<Rightarrow> bool" where
  "seg_ok (Lit s) = (CHR ''$'' \<notin> set s)"
| "seg_ok (Ref k) = (CHR ''}'' \<notin> set k)"

fun seg_value :: "dumper \<Rightarrow> vars \<Rightarrow> segment \<Rightarrow> exn + string" where
  "seg_value dump vars (Lit s) = Inr s"
| "seg_value dump vars (Ref k) = value_text dump (ctx_get vars k JNull)"

fun template_value :: "dumper \<Rightarrow> vars \<Rightarrow> segment list \<Rightarrow> exn + string" where
  "template_value dump vars [] = Inr []"
| "template_value dump vars (s # ss) =
     exn_bind (seg_value dump vars s) (\<lambda>t. map_sum id (\<lambda>r. t @ r) (template_value dump vars ss))"

lemma exn_bind_simps [simp]: "exn_bind (Inl x) f = Inl x" "exn_bind (Inr v) f = f v"
  by (simp_all add: exn_bind_def)

lemma map_sum_append [simp]:
  "map_sum id ((#) c) (map_sum id ((@) s) x) = map_sum id ((@) (c # s)) x"
  by (cases x) auto

lemma map_sum_nil [simp]: "map_sum id ((@) []) x = x"
  by (cases x) auto

lemma resolveStr_literal:
  "CHR ''$'' \<notin> set s \<Longrightarrow>
     resolveStr dump vars (s @ t) = map_sum id (\<lambda>r. s @ r) (resolveStr dump vars t)"
  by (induction s) (auto simp: resolveStr.simps(2))

lemma takeWhile_key: "CHR ''}'' \<notin> set k \<Longrightarrow> takeWhile (\<lambda>d. d \<noteq> CHR ''}'') (k @ CHR ''}'' # t) = k"
  by (subst takeWhile_append2) auto

lemma resolveStr_reference:
  assumes "CHR ''}'' \<notin> set k"
  shows "resolveStr dump vars (''${'' @ k @ ''}'' @ t) =
     exn_bind (value_text dump (ctx_get vars k JNull)) (\<lambda>v. map_sum id (\<lambda>r. v @ r) (resolveStr dump vars t))"
  using takeWhile_key [OF assms, of t] by (simp add: resolveStr.simps(2))

lemma resolveStr_segments:
  "list_all seg_ok segs \<Longrightarrow>
     resolveStr dump vars (concat (map seg_text segs)) = template_value dump vars segs"
proof (induction segs)
  case (Cons s segs)
  then show ?case
    using resolveStr_reference [of _ dump vars "concat (map seg_text segs)"]
    by (cases s) (simp_all add: resolveStr_literal)
qed simp

text \<open>A value without a dollar sign anywhere in its strings is its own resolution.\<close>

fun template_free :: "json \<Rightarrow> bool" where
  "template_free (JString s) = (CHR ''$'' \<notin> set s)"
| "template_free (JObject m) = list_all (\<lambda>(k, v). template_free v) m"
| "template_free (JArray vs) = list_all template_free vs"
| "template_free _ = True"

lemma whole_key_free: "CHR ''$'' \<notin> set s \<Longrightarrow> whole_key s = None"
  by (cases s) (auto simp: whole_key_def Let_def take_Cons')

lemma resolve_template_free:
  shows "template_free v \<Longrightarrow> resolve dump vars v = Inr v"
    and "list_all template_free vs \<Longrightarrow> resolve_items dump vars vs = Inr vs"
    and "list_all (\<lambda>(k, v). template_free v) m \<Longrightarrow> resolve_members dump vars m = Inr m"
  by (induction dump vars v and dump vars vs and dump vars m rule: resolve_resolve_items_resolve_members.induct)
     (use resolveStr_literal [of _ _ _ "[]"] in \<open>auto simp: whole_key_free\<close>)

text \<open>A string that is one reference keeps the type of the variable.\<close>

lemma whole_key_reference: "k \<noteq> [] \<Longrightarrow> CHR ''}'' \<notin> set k \<Longrightarrow> whole_key (''${'' @ k @ ''}'') = Some k"
  using takeWhile_key [of k "[]"] by (simp add: whole_key_def Let_def)

lemma ctx_get_set: "split_dot k = None \<Longrightarrow> ctx_get (ctx_set k v vars) k d = v"
  by (simp add: ctx_get_def ctx_set_def)

lemma ctx_get_member:
  assumes "CHR ''.'' \<notin> set base" "CHR ''.'' \<notin> set field" "is_object obj"
  shows "ctx_get (ctx_set base obj vars) (base @ ''.'' @ field) d =
    (case jget obj field of None \<Rightarrow> d | Some v \<Rightarrow> v)"
proof -
  have "split_dot (base @ ''.'' @ field) = Some (base, field)" "split_dot field = None"
    using assms(1,2) by (simp_all add: split_dot_some split_dot_none)
  then show ?thesis using assms(3) by (simp add: ctx_get_def ctx_set_def getPath.simps)
qed

end
