(* ===== verification/Workflow_Order.thy ===== *)
theory Workflow_Order
  imports "HOL-Library.Multiset" Dbal_Prelude
begin

text \<open>
  The order in which the nodes of a workflow run (\<^verbatim>\<open>src/workflow/wf_graph_order.cpp\<close>,
  \<^verbatim>\<open>topologicalOrder\<close>).  The two maps of the source are total functions, since
  \<^verbatim>\<open>operator[]\<close> reads a missing key as \<^verbatim>\<open>0\<close> or as an empty list.  The loop over the ready
  queue is a \<^theory_text>\<open>partial_function\<close>: that it returns is proved, with the rule \<open>kahn_total\<close>, which
  asks for an invariant and a measure.
\<close>

type_synonym edge = "string \<times> string"
type_synonym out_map = "string \<Rightarrow> string list"
type_synonym indegrees = "string \<Rightarrow> int"

text \<open>The loop over the edges.\<close>

fun add_edges :: "string list \<Rightarrow> edge list \<Rightarrow> out_map \<times> indegrees \<Rightarrow> out_map \<times> indegrees" where
  "add_edges known [] m = m"
| "add_edges known ((f, t) # es) (out, indegree) =
     (if f \<notin> set known \<or> t \<notin> set known then add_edges known es (out, indegree)
      else add_edges known es (out(f := out f @ [t]), indegree(t := indegree t + 1)))"

text \<open>The inner loop: one node less to wait for, for each successor.\<close>

fun release :: "string list \<Rightarrow> indegrees \<Rightarrow> string list \<Rightarrow> indegrees \<times> string list" where
  "release [] indegree ready = (indegree, ready)"
| "release (n # ns) indegree ready =
     (let indegree' = indegree(n := indegree n - 1)
      in release ns indegree' (if indegree' n = 0 then ready @ [n] else ready))"

partial_function (option) kahn ::
    "out_map \<Rightarrow> indegrees \<Rightarrow> string list \<Rightarrow> string list \<Rightarrow> string list option" where
  "kahn out indegree ready ordered =
     (case ready of
        [] \<Rightarrow> Some ordered
      | key # rest \<Rightarrow>
          (case release (out key) indegree rest of
             (indegree', ready') \<Rightarrow> kahn out indegree' ready' (ordered @ [key])))"

declare kahn.simps [code]

definition topologicalOrder :: "string list \<Rightarrow> edge list \<Rightarrow> string list option" where
  "topologicalOrder node_keys edges =
     (case add_edges node_keys edges (\<lambda>_. [], \<lambda>_. 0) of
        (out, indegree) \<Rightarrow>
          (case kahn out indegree (filter (\<lambda>k. indegree k = 0) node_keys) [] of
             None \<Rightarrow> None
           | Some ordered \<Rightarrow>
               Some (if length ordered \<noteq> length node_keys then node_keys else ordered)))"

section \<open>The loop rule\<close>

text \<open>
  Total correctness of the ready-queue loop: an invariant of its three variables which the body
  keeps and which decreases a measure.
\<close>

lemma kahn_total:
  fixes M :: "indegrees \<Rightarrow> string list \<Rightarrow> string list \<Rightarrow> nat"
  assumes start: "P ind ready ordered"
    and body: "\<And>ind key rest ordered ind' ready'.
        P ind (key # rest) ordered \<Longrightarrow> release (out key) ind rest = (ind', ready') \<Longrightarrow>
        P ind' ready' (ordered @ [key]) \<and>
        M ind' ready' (ordered @ [key]) < M ind (key # rest) ordered"
  shows "\<exists>ind' r. kahn out ind ready ordered = Some r \<and> P ind' [] r"
  using start
proof (induction "M ind ready ordered" arbitrary: ind ready ordered rule: less_induct)
  case less
  show ?case
  proof (cases ready)
    case Nil
    then show ?thesis using less.prems by (subst kahn.simps) auto
  next
    case (Cons key rest)
    obtain ind' ready' where rel: "release (out key) ind rest = (ind', ready')" by force
    have "P ind' ready' (ordered @ [key]) \<and> M ind' ready' (ordered @ [key]) < M ind ready ordered"
      using body less.prems rel Cons by blast
    then have "\<exists>i r. kahn out ind' ready' (ordered @ [key]) = Some r \<and> P i [] r"
      using less.hyps by blast
    then show ?thesis by (subst kahn.simps) (simp add: Cons rel)
  qed
qed

section \<open>The maps built from the edges\<close>

definition known_edges :: "string list \<Rightarrow> edge list \<Rightarrow> edge list" where
  "known_edges keys es = filter (\<lambda>(f, t). f \<in> set keys \<and> t \<in> set keys) es"

lemma add_edges_maps:
  "add_edges known es (out, ind) =
     (\<lambda>f. out f @ map snd (filter (\<lambda>e. fst e = f) (known_edges known es)),
      \<lambda>t. ind t + int (length (filter (\<lambda>e. snd e = t) (known_edges known es))))"
proof (induction es arbitrary: out ind)
  case Nil
  then show ?case by (simp add: known_edges_def)
next
  case (Cons e es)
  obtain f t where "e = (f, t)" by (cases e)
  then show ?case by (auto simp: Cons known_edges_def fun_eq_iff)
qed

definition out_of :: "edge list \<Rightarrow> out_map" where
  "out_of es f = map snd (filter (\<lambda>e. fst e = f) es)"

definition waiting :: "edge list \<Rightarrow> string list \<Rightarrow> indegrees" where
  "waiting es gone t = int (length (filter (\<lambda>e. snd e = t \<and> fst e \<notin> set gone) es))"

lemma add_edges_start:
  "add_edges known es (\<lambda>_. [], \<lambda>_. 0) = (out_of (known_edges known es), waiting (known_edges known es) [])"
  by (simp add: add_edges_maps out_of_def waiting_def fun_eq_iff)

lemma out_of_known: "set (out_of (known_edges keys es) f) \<subseteq> set keys"
  by (auto simp: out_of_def known_edges_def)

section \<open>What releasing the successors does\<close>

lemma release_indegree: "release ns ind ready = (ind', ready') \<Longrightarrow> ind' n = ind n - int (count_list ns n)"
proof (induction ns arbitrary: ind ready)
  case (Cons m ns)
  from Cons.prems show ?case by (auto simp: Let_def dest!: Cons.IH)
qed simp

lemma release_ready:
  assumes "release ns ind ready = (ind', ready')" and "\<forall>n \<in> set ns. int (count_list ns n) \<le> ind n"
  shows "\<exists>new. ready' = ready @ new \<and> distinct new \<and> set new = {n \<in> set ns. ind' n = 0}"
  using assms
proof (induction ns arbitrary: ind ready)
  case (Cons m ns)
  let ?ind = "ind(m := ind m - 1)"
  let ?ready = "if ?ind m = 0 then ready @ [m] else ready"
  have rel: "release ns ?ind ?ready = (ind', ready')" using Cons.prems(1) by (simp add: Let_def)
  have "\<forall>n \<in> set ns. int (count_list ns n) \<le> ?ind n"
    using Cons.prems(2) by (auto split: if_splits)
  from Cons.IH [OF rel this] obtain new where
    new: "ready' = ?ready @ new" "distinct new" "set new = {n \<in> set ns. ind' n = 0}" by blast
  have m: "ind' m = ind m - 1 - int (count_list ns m)" using release_indegree [OF rel, of m] by simp
  show ?case
  proof (cases "ind m = 1")
    case True
    then have "count_list ns m = 0" using Cons.prems(2) by simp
    then have "m \<notin> set ns" by (simp add: count_list_0_iff)
    then show ?thesis using new m True by (intro exI [of _ "m # new"]) auto
  next
    case False
    have "m \<in> set ns" if "ind' m = 0"
      using that m False by (cases "m \<in> set ns") (auto simp: count_list_0_iff)
    then show ?thesis using new False by (intro exI [of _ new]) auto
  qed
qed simp

text \<open>Without the bound on the in-degrees, as duplicate keys produce them.\<close>

lemma release_counts:
  assumes "release ns ind ready = (ind', ready')"
    and "\<forall>n. count_list ready n + c n \<le> K n" "\<forall>n. ind n > 0 \<longrightarrow> count_list ready n + c n = 0"
    and "\<forall>n \<in> set ns. K n \<ge> (1::nat)"
  shows "(\<forall>n. count_list ready' n + c n \<le> K n) \<and> (\<forall>n. ind' n > 0 \<longrightarrow> count_list ready' n + c n = 0)"
  using assms
proof (induction ns arbitrary: ind ready)
  case (Cons m ns)
  let ?ind = "ind(m := ind m - 1)"
  let ?ready = "if ?ind m = 0 then ready @ [m] else ready"
  have rel: "release ns ?ind ?ready = (ind', ready')" using Cons.prems(1) by (simp add: Let_def)
  have le: "\<forall>n. count_list ?ready n + c n \<le> K n"
  proof
    fix n
    show "count_list ?ready n + c n \<le> K n"
      using Cons.prems(2) [rule_format, of n] Cons.prems(3) [rule_format, of n] Cons.prems(4)
      by (cases "n = m") auto
  qed
  have zero: "\<forall>n. ?ind n > 0 \<longrightarrow> count_list ?ready n + c n = 0"
  proof
    fix n
    show "?ind n > 0 \<longrightarrow> count_list ?ready n + c n = 0"
      using Cons.prems(3) [rule_format, of n] by auto
  qed
  have "\<forall>n \<in> set ns. 1 \<le> K n" using Cons.prems(4) by simp
  from Cons.IH [OF rel le zero this] show ?case .
qed simp

definition pending :: "string set \<Rightarrow> indegrees \<Rightarrow> nat" where
  "pending S ind = card {n \<in> S. ind n > 0}"

lemma pending_step:
  assumes "finite S" "m \<in> S"
  shows "pending S (ind(m := ind m - 1)) = (if ind m = 1 then pending S ind - 1 else pending S ind)"
    and "ind m = 1 \<Longrightarrow> pending S ind > 0"
proof -
  have "{n \<in> S. (ind(m := ind m - 1)) n > 0} =
      (if ind m = 1 then {n \<in> S. ind n > 0} - {m} else {n \<in> S. ind n > 0})" by auto
  then show "pending S (ind(m := ind m - 1)) = (if ind m = 1 then pending S ind - 1 else pending S ind)"
    using assms by (auto simp: pending_def)
  show "pending S ind > 0" if "ind m = 1"
    unfolding pending_def using assms that by (subst card_gt_0_iff) auto
qed

lemma release_measure:
  assumes "finite S" "set ns \<subseteq> S" "release ns ind ready = (ind', ready')"
  shows "length ready' + pending S ind' \<le> length ready + pending S ind"
  using assms(2,3)
proof (induction ns arbitrary: ind ready)
  case (Cons m ns)
  let ?ind = "ind(m := ind m - 1)"
  have "m \<in> S" using Cons.prems by simp
  note step = pending_step [OF assms(1) this, of ind]
  have "length ready' + pending S ind' \<le>
      length (if ?ind m = 0 then ready @ [m] else ready) + pending S ?ind"
    using Cons by (simp add: Let_def)
  also have "\<dots> \<le> length ready + pending S ind" using step by auto
  finally show ?case .
qed simp

section \<open>Every input: the loop ends, and no node is lost\<close>

definition counts_ok :: "string list \<Rightarrow> indegrees \<Rightarrow> string list \<Rightarrow> string list \<Rightarrow> bool" where
  "counts_ok keys ind ready ordered \<longleftrightarrow>
     (\<forall>n. count_list ready n + count_list ordered n \<le> count_list keys n) \<and>
     (\<forall>n. ind n > 0 \<longrightarrow> count_list ready n + count_list ordered n = 0)"

lemma count_list_filter_le: "count_list (filter P xs) n \<le> count_list xs n"
  by (induction xs) auto

lemma count_list_filter_not: "\<not> P n \<Longrightarrow> count_list (filter P xs) n = 0"
  by (induction xs) auto

lemma kahn_counts:
  assumes known: "\<And>f. set (out f) \<subseteq> set keys"
    and start: "counts_ok keys ind ready ordered"
  shows "\<exists>ind' r. kahn out ind ready ordered = Some r \<and> counts_ok keys ind' [] r"
proof (rule kahn_total [where M = "\<lambda>ind ready _. length ready + pending (set keys) ind"
      and P = "counts_ok keys", OF start])
  fix ind key rest ordered ind' ready'
  assume ok: "counts_ok keys ind (key # rest) ordered"
    and rel: "release (out key) ind rest = (ind', ready')"
  have "\<forall>n \<in> set (out key). 1 \<le> count_list keys n"
    using known [of key] count_list_0_iff by (metis One_nat_def Suc_leI gr0I subsetD)
  moreover have "count_list rest n + count_list (ordered @ [key]) n =
      count_list (key # rest) n + count_list ordered n" for n by simp
  ultimately have "counts_ok keys ind' ready' (ordered @ [key])"
    using release_counts [OF rel, of "count_list (ordered @ [key])" "count_list keys"] ok
    unfolding counts_ok_def by presburger
  moreover have "length ready' + pending (set keys) ind' \<le> length rest + pending (set keys) ind"
    by (rule release_measure [OF _ known rel]) simp
  ultimately show "counts_ok keys ind' ready' (ordered @ [key]) \<and>
      length ready' + pending (set keys) ind' < length (key # rest) + pending (set keys) ind"
    by simp
qed

lemma counts_ok_start: "counts_ok keys ind (filter (\<lambda>k. ind k = 0) keys) []"
  by (auto simp: counts_ok_def count_list_filter_le count_list_filter_not)

lemma counts_ok_mset: "counts_ok keys ind [] r \<Longrightarrow> mset r \<subseteq># mset keys"
  by (simp add: counts_ok_def subseteq_mset_def count_mset)

lemma submset_same_length: "mset xs \<subseteq># mset ys \<Longrightarrow> length xs = length ys \<Longrightarrow> mset xs = mset ys"
proof (rule ccontr)
  assume le: "mset xs \<subseteq># mset ys" and len: "length xs = length ys" and "mset xs \<noteq> mset ys"
  then have "mset xs \<subset># mset ys" by (simp add: subset_mset.less_le)
  from mset_subset_size [OF this] len show False by simp
qed

lemma kahn_run:
  fixes keys es
  defines "E \<equiv> known_edges keys es"
  obtains ordered where
    "kahn (out_of E) (waiting E []) (filter (\<lambda>k. waiting E [] k = 0) keys) [] = Some ordered"
    and "mset ordered \<subseteq># mset keys"
proof -
  have "\<exists>ind r. kahn (out_of E) (waiting E []) (filter (\<lambda>k. waiting E [] k = 0) keys) [] = Some r \<and>
      counts_ok keys ind [] r"
    unfolding E_def by (rule kahn_counts [OF out_of_known counts_ok_start])
  then show thesis using that counts_ok_mset by blast
qed

section \<open>Distinct keys: source before target\<close>

definition sources_first :: "edge list \<Rightarrow> string list \<Rightarrow> bool" where
  "sources_first es xs \<longleftrightarrow>
     (\<forall>i < length xs. \<forall>(f, t) \<in> set es. xs ! i = t \<longrightarrow> f \<in> set (take i xs))"

lemma sources_first_snoc:
  "sources_first es (xs @ [x]) \<longleftrightarrow>
     sources_first es xs \<and> (\<forall>(f, t) \<in> set es. t = x \<longrightarrow> f \<in> set xs)"
  unfolding sources_first_def by (fastforce simp: nth_append less_Suc_eq)

definition kahn_inv :: "string list \<Rightarrow> edge list \<Rightarrow> indegrees \<Rightarrow> string list \<Rightarrow> string list \<Rightarrow> bool" where
  "kahn_inv keys es ind ready ordered \<longleftrightarrow>
     distinct (ordered @ ready) \<and> set (ordered @ ready) = {n \<in> set keys. ind n = 0} \<and>
     ind = waiting es ordered \<and> sources_first es ordered"

lemma waiting_0: "waiting es gone t = 0 \<longleftrightarrow> (\<forall>f. (f, t) \<in> set es \<longrightarrow> f \<in> set gone)"
  by (auto simp: waiting_def filter_empty_conv)

lemma count_list_out_of: "count_list (out_of es f) t = length (filter (\<lambda>e. snd e = t \<and> fst e = f) es)"
  by (induction es) (auto simp: out_of_def)

lemma waiting_snoc:
  "f \<notin> set gone \<Longrightarrow> waiting es (gone @ [f]) t = waiting es gone t - int (count_list (out_of es f) t)"
  unfolding count_list_out_of waiting_def by (induction es) auto

lemma waiting_nonneg: "waiting es gone t \<ge> 0"
  by (simp add: waiting_def)

lemma kahn_inv_step:
  assumes inv: "kahn_inv keys es ind (key # rest) ordered"
    and known: "set (out_of es key) \<subseteq> set keys"
    and rel: "release (out_of es key) ind rest = (ind', ready')"
  shows "kahn_inv keys es ind' ready' (ordered @ [key])"
proof -
  have key: "key \<notin> set ordered" "ind key = 0" and ind: "ind = waiting es ordered"
    using inv by (auto simp: kahn_inv_def)
  have ind': "ind' = waiting es (ordered @ [key])"
    using release_indegree [OF rel] waiting_snoc [OF key(1), of es] ind by (simp add: fun_eq_iff)
  have bound: "int (count_list (out_of es key) n) \<le> ind n" for n
    using waiting_nonneg [of es "ordered @ [key]" n] waiting_snoc [OF key(1), of es n] ind by simp
  obtain new where new: "ready' = rest @ new" "distinct new"
      "set new = {n \<in> set (out_of es key). ind' n = 0}"
    using release_ready [OF rel] bound by blast
  have out: "n \<in> set (out_of es key) \<longleftrightarrow> ind' n \<noteq> ind n" for n
    using release_indegree [OF rel, of n] by (simp add: count_list_0_iff)
  have zero: "ind' n = 0" if "ind n = 0" for n
    using that bound [of n] release_indegree [OF rel, of n] by simp
  have old: "insert key (set ordered \<union> set rest) = {n \<in> set keys. ind n = 0}"
    using inv by (simp add: kahn_inv_def)
  have "{n \<in> set keys. ind' n = 0} = {n \<in> set keys. ind n = 0} \<union> set new"
    using zero out known new(3) by auto
  then have "set ((ordered @ [key]) @ ready') = {n \<in> set keys. ind' n = 0}"
    using new(1) old by auto
  moreover have "distinct ((ordered @ [key]) @ ready')"
  proof -
    have "ind n \<noteq> 0" if "n \<in> set new" for n using that new(3) out by force
    then show ?thesis using inv new(1,2) old unfolding kahn_inv_def by auto
  qed
  moreover have "sources_first es (ordered @ [key])"
    using inv key ind by (auto simp: kahn_inv_def sources_first_snoc waiting_0)
  ultimately show ?thesis using ind' by (simp add: kahn_inv_def)
qed

lemma kahn_ordered:
  fixes keys es
  defines "E \<equiv> known_edges keys es"
  assumes "distinct keys"
  shows "\<exists>ind r. kahn (out_of E) (waiting E []) (filter (\<lambda>k. waiting E [] k = 0) keys) [] = Some r \<and>
           kahn_inv keys E ind [] r"
proof (rule kahn_total [where M = "\<lambda>ind ready _. length ready + pending (set keys) ind"])
  show "kahn_inv keys E (waiting E []) (filter (\<lambda>k. waiting E [] k = 0) keys) []"
    using assms(2) by (auto simp: kahn_inv_def sources_first_def)
next
  fix ind key rest ordered ind' ready'
  assume inv: "kahn_inv keys E ind (key # rest) ordered"
    and rel: "release (out_of E key) ind rest = (ind', ready')"
  have known: "set (out_of E key) \<subseteq> set keys" unfolding E_def by (rule out_of_known)
  have "length ready' + pending (set keys) ind' \<le> length rest + pending (set keys) ind"
    by (rule release_measure [OF _ known rel]) simp
  then show "kahn_inv keys E ind' ready' (ordered @ [key]) \<and>
      length ready' + pending (set keys) ind' < length (key # rest) + pending (set keys) ind"
    using kahn_inv_step [OF inv known rel] by simp
qed

text \<open>With no cycle, every node leaves the queue; with one, some node never does.\<close>

lemma acyclic_all_ordered:
  assumes inv: "kahn_inv keys E ind [] r" and acyc: "acyclic (set E)"
    and E: "\<And>f t. (f, t) \<in> set E \<Longrightarrow> f \<in> set keys \<and> t \<in> set keys"
  shows "set r = set keys"
proof -
  have r: "n \<in> set r \<longleftrightarrow> n \<in> set keys \<and> ind n = 0" for n using inv by (simp add: kahn_inv_def)
  have ind: "ind = waiting E r" using inv by (simp add: kahn_inv_def)
  have "wf (set E)" using acyc by (simp add: finite_acyclic_wf)
  then have "n \<in> set keys \<longrightarrow> n \<in> set r" for n
  proof (induction n rule: wf_induct_rule)
    case (less n)
    then have "\<forall>f. (f, n) \<in> set E \<longrightarrow> f \<in> set r" using E by blast
    then have "ind n = 0" by (simp add: ind waiting_0)
    then show ?case by (simp add: r)
  qed
  then show ?thesis using r by blast
qed

lemma sources_first_acyclic:
  assumes "sources_first E r" and "\<And>f t. (f, t) \<in> set E \<Longrightarrow> t \<in> set r" and "distinct r"
  shows "acyclic (set E)"
proof -
  define pos where "pos x = (LEAST i. i < length r \<and> r ! i = x)" for x
  have pos: "pos (r ! i) = i" if "i < length r" for i
    unfolding pos_def using that assms(3) by (intro Least_equality) (auto simp: nth_eq_iff_index_eq)
  have "(f, t) \<in> measure pos" if e: "(f, t) \<in> set E" for f t
  proof -
    obtain i where i: "i < length r" "r ! i = t" using assms(2) [OF e] by (auto simp: in_set_conv_nth)
    then have "f \<in> set (take i r)" using assms(1) e unfolding sources_first_def by fastforce
    then obtain j where "j < i" "r ! j = f" using i(1) by (auto simp: in_set_conv_nth)
    then show ?thesis using i pos by auto
  qed
  then have "set E \<subseteq> measure pos" by auto
  then show ?thesis by (meson acyclic_subset wf_acyclic wf_measure)
qed

lemma topologicalOrder_mset: "\<exists>r. topologicalOrder node_keys edges = Some r \<and> mset r = mset node_keys"
proof -
  obtain ordered where "kahn (out_of (known_edges node_keys edges)) (waiting (known_edges node_keys edges) [])
      (filter (\<lambda>k. waiting (known_edges node_keys edges) [] k = 0) node_keys) [] = Some ordered"
    and "mset ordered \<subseteq># mset node_keys"
    by (rule kahn_run)
  then show ?thesis
    using submset_same_length by (auto simp: topologicalOrder_def add_edges_start)
qed

lemma topologicalOrder_spec:
  assumes "distinct node_keys"
  shows "\<exists>r. topologicalOrder node_keys edges = Some r \<and>
    (if acyclic (set (known_edges node_keys edges))
     then sources_first (known_edges node_keys edges) r \<and> distinct r \<and> set r = set node_keys
     else r = node_keys)"
proof -
  let ?E = "known_edges node_keys edges"
  have E: "f \<in> set node_keys \<and> t \<in> set node_keys" if "(f, t) \<in> set ?E" for f t
    using that by (auto simp: known_edges_def)
  obtain ind r where r: "kahn (out_of ?E) (waiting ?E []) (filter (\<lambda>k. waiting ?E [] k = 0) node_keys) [] = Some r"
    and inv: "kahn_inv node_keys ?E ind [] r" using kahn_ordered [OF assms] by blast
  have dist: "distinct r" and sub: "set r \<subseteq> set node_keys" and first: "sources_first ?E r"
    using inv by (auto simp: kahn_inv_def)
  have full: "length r = length node_keys \<longleftrightarrow> set r = set node_keys"
    by (metis assms dist sub card_subset_eq distinct_card finite_set)
  have "set r = set node_keys \<longleftrightarrow> acyclic (set ?E)"
    using acyclic_all_ordered [OF inv _ E] sources_first_acyclic [OF first _ dist] E by blast
  then show ?thesis using r full dist first by (auto simp: topologicalOrder_def add_edges_start)
qed

section \<open>Properties\<close>

text \<open>
  C16: whatever the keys and the edges, the loop over the ready queue ends, and the answer is
  the given keys in some order, each as often as it was given: no node of a workflow is lost
  or run twice.
\<close>

theorem topological_order_permutation:
  "\<exists>r. topologicalOrder node_keys edges = Some r \<and> mset r = mset node_keys"
  by (rule topologicalOrder_mset)

text \<open>
  C17: when the keys are distinct, an acyclic graph is answered in an order in which the source
  of every edge comes before its target, and a cyclic one in exactly the order given.  Edges
  that name an unknown node count for neither.
\<close>

theorem topological_order_correct:
  assumes "distinct node_keys"
  shows "\<exists>r. topologicalOrder node_keys edges = Some r \<and>
    (if acyclic (set (known_edges node_keys edges))
     then sources_first (known_edges node_keys edges) r \<and> distinct r \<and> set r = set node_keys
     else r = node_keys)"
  by (rule topologicalOrder_spec [OF assms])

theorem topological_order_correct_witness:
  "topologicalOrder [''b'', ''a''] [(''a'', ''b''), (''x'', ''a'')] = Some [''a'', ''b''] \<and>
   (\<exists>r. topologicalOrder [''b'', ''a''] [(''a'', ''b''), (''b'', ''a'')] = Some r \<and>
     (if acyclic (set (known_edges [''b'', ''a''] [(''a'', ''b''), (''b'', ''a'')]))
      then sources_first (known_edges [''b'', ''a''] [(''a'', ''b''), (''b'', ''a'')]) r \<and>
        distinct r \<and> set r = set [''b'', ''a'']
      else r = [''b'', ''a'']))"
  using topological_order_correct [of "[''b'', ''a'']" "[(''a'', ''b''), (''b'', ''a'')]"]
  by (simp add: topologicalOrder_def kahn.simps Let_def)

end
