(* ===== verification/Workflow_Engine.thy ===== *)
theory Workflow_Engine
  imports Workflow_Context Workflow_Order Entity_Client "HOL-Library.Word"
begin

text \<open>
  The workflow engine (\<^verbatim>\<open>src/workflow\<close>): the steps, the executor that runs a list of nodes, the
  loader that rebuilds a tenant's workflow from its rows, and the engine that maps events to
  workflows.  The database client, the JSON library, the number reader, the clock, the random
  source and the files are fields of an environment; the state that is threaded through is the
  variables of the run and the database.
\<close>

unbundle bit_operations_syntax

section \<open>The environment\<close>

record 'db wf_client =
  wc_create :: "'db \<Rightarrow> string \<Rightarrow> json \<Rightarrow> json result \<times> 'db"
  wc_read :: "'db \<Rightarrow> string \<Rightarrow> string \<Rightarrow> json result"
  wc_list :: "'db \<Rightarrow> string \<Rightarrow> (string, string) omap \<Rightarrow> int \<Rightarrow> json list result"
  wc_update :: "'db \<Rightarrow> string \<Rightarrow> string \<Rightarrow> json \<Rightarrow> json result \<times> 'db"
  wc_remove :: "'db \<Rightarrow> string \<Rightarrow> string \<Rightarrow> bool result \<times> 'db"

record 'db wf_env =
  env_client :: "'db wf_client"
  env_dump :: dumper
  env_parse :: "string \<Rightarrow> json option"
  env_stod :: "string \<Rightarrow> (rat \<times> nat) option"
  env_random :: "nat \<Rightarrow> 64 word \<times> 64 word"
  env_time :: "nat \<Rightarrow> int"
  env_file :: "string \<Rightarrow> exn + json"

record wf_node =
  node_id :: string
  node_type :: string
  node_params :: json
  node_outputs :: json

datatype step_end = Done | Stopped string | Failed exn

type_synonym 'db step = "'db wf_env \<Rightarrow> nat \<Rightarrow> wf_node \<Rightarrow> vars \<Rightarrow> 'db \<Rightarrow> step_end \<times> vars \<times> 'db"

text \<open>Every step wires its result into the variables its outputs name.\<close>

fun set_outputs :: "json \<Rightarrow> json \<Rightarrow> vars \<Rightarrow> vars" where
  "set_outputs (JObject m) r vars =
     fold (\<lambda>(k, v) vs. case v of JString name \<Rightarrow> ctx_set name r vs | _ \<Rightarrow> vs) m vars"
| "set_outputs _ r vars = vars"

definition missing_param :: "string \<Rightarrow> string \<Rightarrow> exn" where
  "missing_param step key = Std_exception (step @ '': missing '' @ [CHR 0x27] @ key @ [CHR 0x27] @ '' parameter'')"

definition string_param :: "string \<Rightarrow> string \<Rightarrow> json \<Rightarrow> exn + string" where
  "string_param step key p =
     (case jget p key of Some (JString s) \<Rightarrow> Inr s | _ \<Rightarrow> Inl (missing_param step key))"

definition step_error :: "string \<Rightarrow> string \<Rightarrow> error \<Rightarrow> exn" where
  "step_error step what e = Std_exception (step @ '' ['' @ what @ '']: '' @ err_what e)"

section \<open>The steps\<close>

text \<open>\<^verbatim>\<open>uuid_step.hpp\<close>\<close>

fun hex_nat :: "nat \<Rightarrow> string" where
  "hex_nat n = (if n < 16 then [''0123456789abcdef'' ! n] else hex_nat (n div 16) @ [''0123456789abcdef'' ! (n mod 16)])"

declare hex_nat.simps [simp del]

definition setw_hex :: "nat \<Rightarrow> 64 word \<Rightarrow> string" where
  "setw_hex w x = (let s = hex_nat (unat x) in replicate (w - length s) (CHR ''0'') @ s)"

definition generate_uuid_v4 :: "64 word \<times> 64 word \<Rightarrow> string" where
  "generate_uuid_v4 draws =
     (let hi = (fst draws AND 0xFFFFFFFFFFFF0FFF) OR 0x0000000000004000;
          lo = (snd draws AND 0x3FFFFFFFFFFFFFFF) OR 0x8000000000000000
      in setw_hex 8 (drop_bit 32 hi) @ ''-'' @ setw_hex 4 (drop_bit 16 hi AND 0xFFFF) @ ''-''
         @ setw_hex 4 (hi AND 0xFFFF) @ ''-'' @ setw_hex 4 (drop_bit 48 lo) @ ''-''
         @ setw_hex 12 (lo AND 0xFFFFFFFFFFFF))"

definition uuid_step :: "'db step" where
  "uuid_step env i node vars db =
     (Done, set_outputs (node_outputs node) (JString (generate_uuid_v4 (env_random env i))) vars, db)"

text \<open>\<^verbatim>\<open>timestamp_step.hpp\<close>\<close>

definition timestamp_step :: "'db step" where
  "timestamp_step env i node vars db =
     (Done, set_outputs (node_outputs node) (JInt (env_time env i * 1000)) vars, db)"

text \<open>\<^verbatim>\<open>entity_create_step.hpp\<close>: the id of the new row is read, as a string, for the log.\<close>

definition entity_create_step :: "'db step" where
  "entity_create_step env i node vars db =
     (let p = node_params node; step = ''dbal.entity.create'' in
      case string_param step ''entity'' p of
        Inl x \<Rightarrow> (Failed x, vars, db)
      | Inr entity \<Rightarrow>
          (case value_as Inr p ''data'' (JObject []) of
             Inl x \<Rightarrow> (Failed x, vars, db)
           | Inr data \<Rightarrow>
               (case wc_create (env_client env) db entity data of
                  (Inl e, db') \<Rightarrow> (Failed (step_error step entity e), vars, db')
                | (Inr row, db') \<Rightarrow>
                    (case value_string row ''id'' ''?'' of
                       Inl x \<Rightarrow> (Failed x, vars, db')
                     | Inr _ \<Rightarrow> (Done, set_outputs (node_outputs node) row vars, db')))))"

text \<open>\<^verbatim>\<open>entity_get_step.hpp\<close>\<close>

definition entity_get_step :: "'db step" where
  "entity_get_step env i node vars db =
     (let p = node_params node; step = ''dbal.entity.get'' in
      case string_param step ''entity'' p of
        Inl x \<Rightarrow> (Failed x, vars, db)
      | Inr entity \<Rightarrow>
          (case jget p ''id'' of
             None \<Rightarrow> (Failed (missing_param step ''id''), vars, db)
           | Some v \<Rightarrow>
               (case (if is_string v then get_string v else env_dump env v) of
                  Inl x \<Rightarrow> (Failed x, vars, db)
                | Inr rid \<Rightarrow>
                    (case wc_read (env_client env) db entity rid of
                       Inl e \<Rightarrow> (Failed (step_error step (entity @ ''/'' @ rid) e), vars, db)
                     | Inr row \<Rightarrow> (Done, set_outputs (node_outputs node) row vars, db)))))"

text \<open>\<^verbatim>\<open>entity_list_step.hpp\<close>, \<^verbatim>\<open>entity_count_step.hpp\<close>; the limit of \<^verbatim>\<open>ListOptions\<close> is 20 unless set.\<close>

definition default_limit :: int where
  "default_limit = 20"

fun filter_of :: "json option \<Rightarrow> (string, string) omap" where
  "filter_of (Some (JObject m)) = fold (\<lambda>(k, v) f. case v of JString s \<Rightarrow> om_put k s f | _ \<Rightarrow> f) m []"
| "filter_of _ = []"

fun limit_of :: "json option \<Rightarrow> exn + int" where
  "limit_of (Some (JInt n)) = Inr (signed_take_bit 31 n)"
| "limit_of (Some (JFloat q)) = (if in_int32 (trunc_rat q) then Inr (trunc_rat q) else Inl Undefined)"
| "limit_of _ = Inr default_limit"

definition entity_list_step :: "'db step" where
  "entity_list_step env i node vars db =
     (let p = node_params node; step = ''dbal.entity.list'' in
      case string_param step ''entity'' p of
        Inl x \<Rightarrow> (Failed x, vars, db)
      | Inr entity \<Rightarrow>
          (case limit_of (jget p ''limit'') of
             Inl x \<Rightarrow> (Failed x, vars, db)
           | Inr n \<Rightarrow>
               (case wc_list (env_client env) db entity (filter_of (jget p ''filter'')) n of
                  Inl e \<Rightarrow> (Failed (step_error step entity e), vars, db)
                | Inr items \<Rightarrow> (Done, set_outputs (node_outputs node) (JArray items) vars, db))))"

definition entity_count_step :: "'db step" where
  "entity_count_step env i node vars db =
     (let p = node_params node; step = ''dbal.entity.count'' in
      case string_param step ''entity'' p of
        Inl x \<Rightarrow> (Failed x, vars, db)
      | Inr entity \<Rightarrow>
          (case wc_list (env_client env) db entity (filter_of (jget p ''filter'')) default_limit of
             Inl e \<Rightarrow> (Failed (step_error step entity e), vars, db)
           | Inr items \<Rightarrow> (Done, set_outputs (node_outputs node) (JInt (int (length items))) vars, db)))"

text \<open>\<^verbatim>\<open>entity_update_step.hpp\<close>, \<^verbatim>\<open>entity_delete_step.hpp\<close>\<close>

definition entity_update_step :: "'db step" where
  "entity_update_step env i node vars db =
     (let p = node_params node; step = ''dbal.entity.update'' in
      case string_param step ''entity'' p of
        Inl x \<Rightarrow> (Failed x, vars, db)
      | Inr entity \<Rightarrow>
          (case string_param step ''id'' p of
             Inl x \<Rightarrow> (Failed x, vars, db)
           | Inr rid \<Rightarrow>
               (case value_as Inr p ''data'' (JObject []) of
                  Inl x \<Rightarrow> (Failed x, vars, db)
                | Inr data \<Rightarrow>
                    (case wc_update (env_client env) db entity rid data of
                       (Inl e, db') \<Rightarrow> (Failed (step_error step entity e), vars, db')
                     | (Inr row, db') \<Rightarrow> (Done, set_outputs (node_outputs node) row vars, db')))))"

definition entity_delete_step :: "'db step" where
  "entity_delete_step env i node vars db =
     (let p = node_params node; step = ''dbal.entity.delete'' in
      case string_param step ''entity'' p of
        Inl x \<Rightarrow> (Failed x, vars, db)
      | Inr entity \<Rightarrow>
          (case string_param step ''id'' p of
             Inl x \<Rightarrow> (Failed x, vars, db)
           | Inr rid \<Rightarrow>
               (case wc_remove (env_client env) db entity rid of
                  (Inl e, db') \<Rightarrow> (Failed (step_error step entity e), vars, db')
                | (Inr b, db') \<Rightarrow> (Done, set_outputs (node_outputs node) (JBool b) vars, db'))))"

text \<open>\<^verbatim>\<open>var_set_step.hpp\<close>, \<^verbatim>\<open>log_step.hpp\<close>: the line logged is not part of the state.\<close>

definition var_set_step :: "'db step" where
  "var_set_step env i node vars db =
     (let p = node_params node; step = ''dbal.var.set'' in
      case string_param step ''key'' p of
        Inl x \<Rightarrow> (Failed x, vars, db)
      | Inr key \<Rightarrow>
          (case exn_bind (value_as Inr p ''value'' JNull) (resolve (env_dump env) vars) of
             Inl x \<Rightarrow> (Failed x, vars, db)
           | Inr v \<Rightarrow> (Done, ctx_set key v vars, db)))"

definition log_step :: "'db step" where
  "log_step env i node vars db =
     (case jget (node_params node) ''message'' of
        None \<Rightarrow> (Done, vars, db)
      | Some msg \<Rightarrow>
          (case (case msg of JString s \<Rightarrow> resolveStr (env_dump env) vars s | _ \<Rightarrow> env_dump env msg) of
             Inl x \<Rightarrow> (Failed x, vars, db)
           | Inr _ \<Rightarrow> (Done, vars, db)))"

text \<open>\<^verbatim>\<open>stop_unless_step.hpp\<close>\<close>

definition stop_unless_step :: "'db step" where
  "stop_unless_step env i node vars db =
     (let p = node_params node in
      case exn_bind (value_string p ''is'' ''not empty'') (\<lambda>is.
           exn_bind (value_as Inr p ''value'' JNull) (\<lambda>v.
           exn_bind (value_as Inr p ''other'' JNull) (\<lambda>other.
             map_sum id (Pair is) (compareHolds (env_dump env) is v other)))) of
        Inl x \<Rightarrow> (Failed x, vars, db)
      | Inr (is, holds) \<Rightarrow>
          (if holds then Done else Stopped (''condition '' @ [CHR 0x27] @ is @ [CHR 0x27] @ '' did not hold''),
           vars, db))"

text \<open>\<^verbatim>\<open>page_steps.hpp\<close>\<close>

definition page_effect_step :: "string \<Rightarrow> string list \<Rightarrow> 'db step" where
  "page_effect_step step required env i node vars db =
     (case find (\<lambda>name. \<not> jcontains (node_params node) name) required of
        Some name \<Rightarrow> (Failed (missing_param step name), vars, db)
      | None \<Rightarrow>
          (Done, ctx_set effects_var
             (appendEffect (ctx_get vars effects_var JNull) (jset ''do'' (JString step) (node_params node))) vars, db))"

section \<open>The executor\<close>

definition registered :: "(string \<times> 'db step) list" where
  "registered =
     [(''dbal.uuid'', uuid_step), (''dbal.timestamp'', timestamp_step),
      (''dbal.entity.create'', entity_create_step), (''dbal.entity.get'', entity_get_step),
      (''dbal.entity.list'', entity_list_step), (''dbal.var.set'', var_set_step),
      (''dbal.log'', log_step), (''dbal.entity.update'', entity_update_step),
      (''dbal.entity.delete'', entity_delete_step), (''dbal.entity.count'', entity_count_step),
      (''dbal.stop.unless'', stop_unless_step),
      (''page.text'', page_effect_step ''page.text'' [''target'', ''text'']),
      (''page.show'', page_effect_step ''page.show'' [''target'']),
      (''page.hide'', page_effect_step ''page.hide'' [''target'']),
      (''page.class'', page_effect_step ''page.class'' [''target'', ''class'']),
      (''page.message'', page_effect_step ''page.message'' [''text'']),
      (''page.go'', page_effect_step ''page.go'' [''path''])]"

fun execute_from :: "'db wf_env \<Rightarrow> nat \<Rightarrow> wf_node list \<Rightarrow> vars \<Rightarrow> 'db \<Rightarrow> step_end \<times> vars \<times> 'db" where
  "execute_from env i [] vars db = (Done, vars, db)"
| "execute_from env i (node # nodes) vars db =
     (case map_of registered (node_type node) of
        None \<Rightarrow> execute_from env (i + 1) nodes vars db
      | Some step \<Rightarrow>
          (case resolve (env_dump env) vars (node_params node) of
             Inl x \<Rightarrow> (Failed x, vars, db)
           | Inr p \<Rightarrow>
               (case step env i (node\<lparr>node_params := p\<rparr>) vars db of
                  (Done, vars', db') \<Rightarrow> execute_from env (i + 1) nodes vars' db'
                | stop \<Rightarrow> stop)))"

text \<open>Stopping ends the run as finishing does; only a failure leaves the function as an exception.\<close>

definition executeNodes :: "'db wf_env \<Rightarrow> wf_node list \<Rightarrow> vars \<Rightarrow> 'db \<Rightarrow> (exn + unit) \<times> vars \<times> 'db" where
  "executeNodes env nodes vars db =
     (case execute_from env 0 nodes vars db of
        (Failed x, vars', db') \<Rightarrow> (Inl x, vars', db')
      | (_, vars', db') \<Rightarrow> (Inr (), vars', db'))"

definition parse_node :: "json \<Rightarrow> exn + wf_node" where
  "parse_node n =
     exn_bind (value_string n ''id'' []) (\<lambda>i.
     exn_bind (value_string n ''type'' []) (\<lambda>t.
     exn_bind (value_as Inr n ''parameters'' (JObject [])) (\<lambda>p.
     exn_bind (value_as Inr n ''outputs'' (JObject [])) (\<lambda>outs.
       Inr \<lparr>node_id = i, node_type = t, node_params = p, node_outputs = outs\<rparr>))))"

fun parse_all :: "json list \<Rightarrow> exn + wf_node list" where
  "parse_all [] = Inr []"
| "parse_all (n # ns) = exn_bind (parse_node n) (\<lambda>node. map_sum id (\<lambda>r. node # r) (parse_all ns))"

definition parseNodes :: "json \<Rightarrow> string \<Rightarrow> exn + wf_node list" where
  "parseNodes doc label =
     (case jget doc ''nodes'' of
        Some (JArray ns) \<Rightarrow> parse_all ns
      | _ \<Rightarrow> Inl (Std_exception (''workflow: '' @ [CHR 0x27] @ label @ [CHR 0x27] @ '' missing '' @
                               [CHR 0x27] @ ''nodes'' @ [CHR 0x27] @ '' array'')))"

definition loadNodes :: "'db wf_env \<Rightarrow> string \<Rightarrow> exn + wf_node list" where
  "loadNodes env path = exn_bind (env_file env path) (\<lambda>doc. parseNodes doc path)"

definition execute :: "'db wf_env \<Rightarrow> string \<Rightarrow> vars \<Rightarrow> 'db \<Rightarrow> (exn + unit) \<times> vars \<times> 'db" where
  "execute env path vars db =
     (case loadNodes env path of
        Inl x \<Rightarrow> (Inl x, vars, db)
      | Inr nodes \<Rightarrow> executeNodes env nodes vars db)"

end
