(* ===== verification/Workflow_Loader.thy ===== *)
theory Workflow_Loader
  imports Workflow_Engine
begin

text \<open>
  Rebuilding a tenant's workflow from its rows (\<^verbatim>\<open>src/workflow/wf_graph_loader.cpp\<close> and the
  decoding half of \<^verbatim>\<open>wf_graph_order.cpp\<close>), and the engine that picks and runs workflows
  (\<^verbatim>\<open>src/workflow/wf_engine.cpp\<close>).  A detached thread is run to its end; clock readings are
  nanoseconds of \<^verbatim>\<open>steady_clock\<close>.
\<close>

section \<open>Rows\<close>

definition decodeParam :: "'db wf_env \<Rightarrow> string \<Rightarrow> string \<Rightarrow> json" where
  "decodeParam env v t =
     (if t = ''number''
      then (case env_stod env v of
              Some (n, used) \<Rightarrow> if used = length v then JFloat n else JString v
            | None \<Rightarrow> JString v)
      else if t = ''boolean'' then JBool (v = ''true'')
      else if t = ''json'' then (case env_parse env v of Some j \<Rightarrow> j | None \<Rightarrow> JString v)
      else JString v)"

definition isDraft :: "json \<Rightarrow> bool" where
  "isDraft row = (jget row ''isPublished'' = Some (JBool False))"

definition formNameOf :: "json \<Rightarrow> string" where
  "formNameOf row = (case jget row ''formName'' of Some (JString s) \<Rightarrow> s | _ \<Rightarrow> [])"

fun best_from :: "json list \<Rightarrow> string \<Rightarrow> json \<Rightarrow> json" where
  "best_from [] form anyForm = anyForm"
| "best_from (row # rows) form anyForm =
     (if isDraft row then best_from rows form anyForm
      else let wants = formNameOf row
           in if wants \<noteq> [] \<and> wants = form then row
              else best_from rows form (if wants = [] \<and> is_null anyForm then row else anyForm))"

definition bestForForm :: "json list \<Rightarrow> string \<Rightarrow> json" where
  "bestForForm rows form = best_from rows form JNull"

fun firstPublished :: "json list \<Rightarrow> json" where
  "firstPublished [] = JNull"
| "firstPublished (row # rows) = (if isDraft row then firstPublished rows else row)"

definition filter_on :: "(string \<times> string) list \<Rightarrow> (string, string) omap" where
  "filter_on kvs = fold (\<lambda>(k, v). om_put k v) kvs []"

definition rowsFor :: "'db wf_env \<Rightarrow> 'db \<Rightarrow> string \<Rightarrow> string \<Rightarrow> string \<Rightarrow> json list" where
  "rowsFor env db entity tenant wid =
     (case wc_list (env_client env) db entity (filter_on [(''tenantId'', tenant), (''workflowId'', wid)]) 2000 of
        Inl e \<Rightarrow> []
      | Inr items \<Rightarrow> items)"

definition str_of :: "'db wf_env \<Rightarrow> json \<Rightarrow> string \<Rightarrow> exn + string" where
  "str_of env row key =
     (case jget row key of
        None \<Rightarrow> Inr []
      | Some v \<Rightarrow> if is_null v then Inr [] else if is_string v then get_string v else env_dump env v)"

section \<open>The graph of a workflow\<close>

type_synonym by_key = "string \<rightharpoonup> json"

fun group_params :: "'db wf_env \<Rightarrow> json list \<Rightarrow> by_key \<times> by_key \<Rightarrow> exn + by_key \<times> by_key" where
  "group_params env [] acc = Inr acc"
| "group_params env (row # rows) (params, outs) =
     exn_bind (str_of env row ''nodeId'') (\<lambda>nid.
     exn_bind (str_of env row ''name'') (\<lambda>name.
       if nid = [] \<or> name = [] then group_params env rows (params, outs)
       else
         exn_bind (str_of env row ''value'') (\<lambda>v.
         exn_bind (str_of env row ''valueType'') (\<lambda>t.
           let decoded = decodeParam env v t
           in if name = ''outputs''
              then group_params env rows (params, if is_object decoded then outs(nid \<mapsto> decoded) else outs)
              else group_params env rows
                (params(nid \<mapsto> jset name decoded (case params nid of None \<Rightarrow> JObject [] | Some p \<Rightarrow> p)), outs)))))"

fun index_nodes :: "'db wf_env \<Rightarrow> json list \<Rightarrow> string list \<times> by_key \<Rightarrow> exn + string list \<times> by_key" where
  "index_nodes env [] acc = Inr acc"
| "index_nodes env (row # rows) (keys, by) =
     exn_bind (str_of env row ''nodeKey'') (\<lambda>key.
       if key = [] then index_nodes env rows (keys, by)
       else index_nodes env rows (keys @ [key], by(key \<mapsto> row)))"

fun edges_of :: "'db wf_env \<Rightarrow> json list \<Rightarrow> exn + edge list" where
  "edges_of env [] = Inr []"
| "edges_of env (row # rows) =
     exn_bind (str_of env row ''sourceKey'') (\<lambda>f.
     exn_bind (str_of env row ''targetKey'') (\<lambda>t.
       map_sum id (\<lambda>es. if f \<noteq> [] \<and> t \<noteq> [] then (f, t) # es else es) (edges_of env rows)))"

definition build_node :: "'db wf_env \<Rightarrow> by_key \<Rightarrow> by_key \<Rightarrow> by_key \<Rightarrow> string \<Rightarrow> exn + wf_node" where
  "build_node env by params outs key =
     (let row = (case by key of None \<Rightarrow> JNull | Some r \<Rightarrow> r) in
      exn_bind (str_of env row ''type'') (\<lambda>t.
      exn_bind (str_of env row ''id'') (\<lambda>nid.
        Inr \<lparr>node_id = key, node_type = t,
             node_params = (case params nid of None \<Rightarrow> JObject [] | Some p \<Rightarrow> p),
             node_outputs = (case outs nid of None \<Rightarrow> JObject [] | Some x \<Rightarrow> x)\<rparr>)))"

fun build_nodes :: "'db wf_env \<Rightarrow> by_key \<Rightarrow> by_key \<Rightarrow> by_key \<Rightarrow> string list \<Rightarrow> exn + wf_node list" where
  "build_nodes env by params outs [] = Inr []"
| "build_nodes env by params outs (key # keys) =
     exn_bind (build_node env by params outs key) (\<lambda>node.
       map_sum id (\<lambda>ns. node # ns) (build_nodes env by params outs keys))"

record loaded_workflow =
  lw_id :: string
  lw_name :: string
  lw_nodes :: "wf_node list"

text \<open>
  The body of the \<^verbatim>\<open>try\<close> block: \<open>Inl\<close> is an exception, \<open>Inr None\<close> the early returns.  An
  endless ordering loop would be the branch \<^const>\<open>Undefined\<close>; it cannot be taken.
\<close>

definition build_body :: "'db wf_env \<Rightarrow> 'db \<Rightarrow> string \<Rightarrow> json \<Rightarrow> exn + loaded_workflow option" where
  "build_body env db tenant chosen =
     (if is_null chosen then Inr None
      else
        exn_bind (str_of env chosen ''id'') (\<lambda>wid.
        exn_bind (str_of env chosen ''name'') (\<lambda>wname.
          if wid = [] then Inr None
          else let node_rows = rowsFor env db ''WorkflowNode'' tenant wid in
            if node_rows = [] then Inr None
            else
              exn_bind (group_params env (rowsFor env db ''WorkflowNodeParam'' tenant wid) (Map.empty, Map.empty)) (\<lambda>(params, outs).
              exn_bind (index_nodes env node_rows ([], Map.empty)) (\<lambda>(keys, by).
              exn_bind (edges_of env (rowsFor env db ''WorkflowEdge'' tenant wid)) (\<lambda>edges.
                case topologicalOrder keys edges of
                  None \<Rightarrow> Inl Undefined
                | Some order \<Rightarrow>
                    map_sum id (\<lambda>ns. Some \<lparr>lw_id = wid, lw_name = wname, lw_nodes = ns\<rparr>)
                      (build_nodes env by params outs order)))))))"

definition buildWorkflow :: "'db wf_env \<Rightarrow> 'db \<Rightarrow> string \<Rightarrow> json \<Rightarrow> loaded_workflow option" where
  "buildWorkflow env db tenant chosen =
     (case build_body env db tenant chosen of Inl x \<Rightarrow> None | Inr w \<Rightarrow> w)"

definition loadTenantWorkflow :: "'db wf_env \<Rightarrow> 'db \<Rightarrow> string \<Rightarrow> string \<Rightarrow> string \<Rightarrow> loaded_workflow option" where
  "loadTenantWorkflow env db tenant trigger form =
     (case wc_list (env_client env) db ''Workflow''
             (filter_on [(''tenantId'', tenant), (''triggerEvent'', trigger)]) 100 of
        Inl e \<Rightarrow> None
      | Inr items \<Rightarrow> buildWorkflow env db tenant (bestForForm items form))"

text \<open>The loop over the two columns; the form only decides what is logged.\<close>

fun named_from :: "'db wf_env \<Rightarrow> 'db \<Rightarrow> string \<Rightarrow> string \<Rightarrow> string \<Rightarrow> string list \<Rightarrow> loaded_workflow option" where
  "named_from env db tenant named trigger [] = None"
| "named_from env db tenant named trigger (column # columns) =
     (case wc_list (env_client env) db ''Workflow''
             (filter_on [(''tenantId'', tenant), (column, named), (''triggerEvent'', trigger)]) 10 of
        Inl e \<Rightarrow> named_from env db tenant named trigger columns
      | Inr items \<Rightarrow>
          (let chosen = firstPublished items
           in if is_null chosen then named_from env db tenant named trigger columns
              else buildWorkflow env db tenant chosen))"

definition loadTenantWorkflowNamed ::
    "'db wf_env \<Rightarrow> 'db \<Rightarrow> string \<Rightarrow> string \<Rightarrow> string \<Rightarrow> loaded_workflow option" where
  "loadTenantWorkflowNamed env db tenant named trigger =
     named_from env db tenant named trigger [''id'', ''name'']"

section \<open>The engine\<close>

record wf_engine =
  event_map :: "string \<rightharpoonup> string"
  tenant_events :: "string set"
  tenants_with_workflows :: "string set"
  tenant_events_at :: int
  tenant_events_loaded :: bool

definition kTenantEventsTtl :: int where
  "kTenantEventsTtl = 30 * 10 ^ 9"

fun load_events :: "json list \<Rightarrow> (string \<rightharpoonup> string) \<Rightarrow> (string \<rightharpoonup> string)" where
  "load_events [] m = m"
| "load_events (entry # es) m =
     (case (value_string entry ''event'' [], value_string entry ''workflow'' []) of
        (Inr ev, Inr w) \<Rightarrow> load_events es (if ev \<noteq> [] \<and> w \<noteq> [] then m(ev \<mapsto> w) else m)
      | _ \<Rightarrow> m)"

text \<open>An entry that throws ends the loop; the mappings before it stay.\<close>

definition loadConfig :: "'db wf_env \<Rightarrow> string \<Rightarrow> wf_engine \<Rightarrow> wf_engine" where
  "loadConfig env path eng =
     (case env_file env path of
        Inl x \<Rightarrow> eng
      | Inr doc \<Rightarrow>
          (case jget doc ''events'' of
             Some (JArray es) \<Rightarrow> eng\<lparr>event_map := load_events es (event_map eng)\<rparr>
           | _ \<Rightarrow> eng))"

definition splitEvent :: "string \<Rightarrow> string \<times> string" where
  "splitEvent name =
     (case split_dot name of
        None \<Rightarrow> ([], [])
      | Some (a, b) \<Rightarrow> if a = [] \<or> b = [] then ([], []) else (a, b))"

definition formOf :: "json \<Rightarrow> string" where
  "formOf row = (case jget row ''formName'' of Some (JString s) \<Rightarrow> s | _ \<Rightarrow> [])"

definition invalidateTenantEvents :: "wf_engine \<Rightarrow> wf_engine" where
  "invalidateTenantEvents eng = eng\<lparr>tenant_events_loaded := False\<rparr>"

definition tenant_of_row :: "json \<Rightarrow> string" where
  "tenant_of_row row =
     (case jget row ''tenantId'' of Some (JString t) \<Rightarrow> if t = [] then ''system'' else t | _ \<Rightarrow> ''system'')"

fun collect_events :: "json list \<Rightarrow> string set \<times> string set \<Rightarrow> string set \<times> string set" where
  "collect_events [] acc = acc"
| "collect_events (row # rows) (found, tenants) =
     (if isDraft row then collect_events rows (found, tenants)
      else let tenant = tenant_of_row row; tenants' = insert tenant tenants
           in case jget row ''triggerEvent'' of
                Some (JString trigger) \<Rightarrow>
                  collect_events rows (if trigger = [] then found else insert (tenant @ ''.'' @ trigger) found, tenants')
              | _ \<Rightarrow> collect_events rows (found, tenants'))"

definition refreshTenantEvents :: "'db wf_env \<Rightarrow> 'db \<Rightarrow> int \<Rightarrow> int \<Rightarrow> wf_engine \<Rightarrow> wf_engine" where
  "refreshTenantEvents env db now later eng =
     (if tenant_events_loaded eng \<and> now - tenant_events_at eng < kTenantEventsTtl then eng
      else case (case wc_list (env_client env) db ''Workflow'' [] 2000 of
                   Inl e \<Rightarrow> ({}, {})
                 | Inr items \<Rightarrow> collect_events items ({}, {})) of
             (found, tenants) \<Rightarrow>
               eng\<lparr>tenant_events := found, tenants_with_workflows := tenants,
                   tenant_events_at := later, tenant_events_loaded := True\<rparr>)"

definition hasEvent :: "'db wf_env \<Rightarrow> 'db \<Rightarrow> int \<Rightarrow> int \<Rightarrow> string \<Rightarrow> wf_engine \<Rightarrow> bool \<times> wf_engine" where
  "hasEvent env db now later event_name eng =
     (if event_map eng event_name \<noteq> None then (True, eng)
      else let eng' = refreshTenantEvents env db now later eng in
        if event_name \<in> tenant_events eng' then (True, eng')
        else let tenant = fst (splitEvent event_name)
             in (tenant \<noteq> [] \<and> tenant \<in> tenants_with_workflows eng', eng'))"

definition runNamedNow :: "'db wf_env \<Rightarrow> string \<Rightarrow> string \<Rightarrow> string \<Rightarrow> json \<Rightarrow> 'db \<Rightarrow> json \<times> 'db" where
  "runNamedNow env tenant named trigger entity_data db =
     (case loadTenantWorkflowNamed env db tenant named trigger of
        None \<Rightarrow> (JArray [], db)
      | Some w \<Rightarrow>
          (case executeNodes env (lw_nodes w) (ctx_set ''event'' entity_data []) db of
             (Inl x, vars, db') \<Rightarrow> (JArray [], db')
           | (Inr _, vars, db') \<Rightarrow>
               ((case ctx_get vars effects_var JNull of JArray es \<Rightarrow> JArray es | _ \<Rightarrow> JArray []), db')))"

definition named_of :: "json \<Rightarrow> string" where
  "named_of data = (case jget data ''workflow'' of Some (JString s) \<Rightarrow> s | _ \<Rightarrow> [])"

text \<open>The thread catches every exception, so only the database is left of a run.\<close>

definition dispatch_thread :: "'db wf_env \<Rightarrow> string option \<Rightarrow> string \<Rightarrow> json \<Rightarrow> 'db \<Rightarrow> 'db" where
  "dispatch_thread env from_file event_name data db =
     (let vars = ctx_set ''event'' data [] in
      case from_file of
        Some path \<Rightarrow> snd (snd (execute env path vars db))
      | None \<Rightarrow>
          (case splitEvent event_name of
             (tenant, trigger) \<Rightarrow>
               (let named = named_of data in
                case (if named = [] then loadTenantWorkflow env db tenant trigger (formOf data)
                      else loadTenantWorkflowNamed env db tenant named trigger) of
                  None \<Rightarrow> db
                | Some w \<Rightarrow> snd (snd (executeNodes env (lw_nodes w) vars db)))))"

definition dispatchAsync ::
    "'db wf_env \<Rightarrow> int \<Rightarrow> int \<Rightarrow> string \<Rightarrow> json \<Rightarrow> wf_engine \<Rightarrow> 'db \<Rightarrow> wf_engine \<times> 'db" where
  "dispatchAsync env now later event_name data eng db =
     (case event_map eng event_name of
        Some path \<Rightarrow> (eng, dispatch_thread env (Some path) event_name data db)
      | None \<Rightarrow>
          (case hasEvent env db now later event_name eng of
             (False, eng') \<Rightarrow> (eng', db)
           | (True, eng') \<Rightarrow> (eng', dispatch_thread env None event_name data db)))"

end
