(* ===== verification/Workflow_Properties.thy ===== *)
theory Workflow_Properties
  imports Workflow_Loader
begin

text \<open>
  What the workflow engine guarantees: which workflows a request can reach, in which order
  their nodes run, what a run reports back, and when an event starts one.
\<close>

section \<open>What is asked of the database\<close>

text \<open>A filter built from distinct columns asks for each of them.\<close>

lemma filter_on_matches:
  assumes "distinct (map fst kvs)" "row_matches (filter_on kvs) r" "kv \<in> set kvs"
  shows "field_is r kv"
proof -
  have "map_of (rev kvs) (fst kv) = Some (snd kv)"
    using assms(1,3) by (metis distinct_rev map_of_eq_Some_iff prod.collapse rev_map set_rev)
  then have "map_of (filter_on kvs) (fst kv) = Some (snd kv)"
    by (simp add: filter_on_def map_of_fold_put)
  then have "kv \<in> set (filter_on kvs)" using map_of_SomeD by fastforce
  then show ?thesis using assms(2) by (simp add: row_matches_def list_all_iff)
qed

text \<open>
  A list operation that answers rows of the table which match the filter, and no more of
  them than the limit asks for.
\<close>

locale filtering_client =
  fixes c :: "'db wf_client" and rows :: "'db \<Rightarrow> string \<Rightarrow> json set"
  assumes list_rows: "wc_list c db e flt n = Inr items \<Longrightarrow> r \<in> set items \<Longrightarrow> r \<in> rows db e \<and> row_matches flt r"
    and list_limit: "wc_list c db e flt n = Inr items \<Longrightarrow> 0 \<le> n \<Longrightarrow> int (length items) \<le> n"
begin

lemma rowsFor_rows:
  assumes "env_client env = c" "r \<in> set (rowsFor env db e tenant wid)"
  shows "r \<in> rows db e \<and> field_is r (''tenantId'', tenant) \<and> field_is r (''workflowId'', wid)"
proof -
  let ?flt = "filter_on [(''tenantId'', tenant), (''workflowId'', wid)]"
  obtain items where "wc_list c db e ?flt 2000 = Inr items" "r \<in> set items"
    using assms by (cases "wc_list c db e ?flt 2000") (auto simp: rowsFor_def)
  from list_rows [OF this] show ?thesis
    using filter_on_matches [of "[(''tenantId'', tenant), (''workflowId'', wid)]" r] by simp
qed

end

definition table_client :: "table_db wf_client" where
  "table_client = \<lparr>wc_create = table_create,
     wc_read = (\<lambda>db e i. case find (\<lambda>r. field_is r (''id'', i)) (table_view db e) of
        None \<Rightarrow> Inl (not_found ''no such row'') | Some r \<Rightarrow> Inr r),
     wc_list = (\<lambda>db e flt n. table_list db e flt (nat n)), wc_update = table_update,
     wc_remove = (\<lambda>db e i. if list_ex (\<lambda>r. field_is r (''id'', i)) (table_view db e)
        then (Inr True, db(e := filter (\<lambda>r. \<not> field_is r (''id'', i)) (table_view db e)))
        else (Inl (not_found ''no such row''), db))\<rparr>"

interpretation tables: filtering_client table_client "\<lambda>db e. set (table_view db e)"
  by unfold_locales (auto simp: table_client_def table_list_def dest: in_set_takeD)

section \<open>The rows a workflow is built from\<close>

lemma exn_bind_Inr: "exn_bind r f = Inr v \<longleftrightarrow> (\<exists>x. r = Inr x \<and> f x = Inr v)"
  by (cases r) auto

lemma map_sum_Inr: "map_sum id f r = Inr v \<longleftrightarrow> (\<exists>x. r = Inr x \<and> f x = v)"
  by (cases r) auto

lemmas exn_Inr = exn_bind_Inr map_sum_Inr

lemma index_nodes_rows:
  assumes "index_nodes env rows (keys, by) = Inr (keys', by')"
    and "\<forall>key \<in> set keys. \<exists>row \<in> R. by key = Some row \<and> str_of env row ''nodeKey'' = Inr key"
    and "set rows \<subseteq> R"
  shows "\<forall>key \<in> set keys'. \<exists>row \<in> R. by' key = Some row \<and> str_of env row ''nodeKey'' = Inr key"
  using assms
proof (induction rows arbitrary: keys "by")
  case (Cons row rows)
  obtain key where key: "str_of env row ''nodeKey'' = Inr key"
    and rest: "index_nodes env rows (if key = [] then (keys, by) else (keys @ [key], by(key \<mapsto> row))) = Inr (keys', by')"
    using Cons.prems(1) by (auto simp: exn_Inr split: if_splits)
  show ?case
  proof (cases "key = []")
    case True
    then show ?thesis using Cons.IH [of keys "by"] rest Cons.prems(2,3) by simp
  next
    case False
    have old: "\<forall>k \<in> set (keys @ [key]). \<exists>r \<in> R. (by(key \<mapsto> row)) k = Some r \<and> str_of env r ''nodeKey'' = Inr k"
      using Cons.prems(2,3) key by auto
    have "index_nodes env rows (keys @ [key], by(key \<mapsto> row)) = Inr (keys', by')"
      using rest False by simp
    from Cons.IH [OF this old] Cons.prems(3) show ?thesis by simp
  qed
qed simp

lemma index_nodes_keys:
  "index_nodes env rows (keys, by) = Inr (keys', by') \<Longrightarrow>
     \<exists>ks. map (\<lambda>r. str_of env r ''nodeKey'') rows = map Inr ks \<and> keys' = keys @ filter (\<lambda>k. k \<noteq> []) ks"
proof (induction rows arbitrary: keys "by")
  case (Cons row rows)
  obtain key where key: "str_of env row ''nodeKey'' = Inr key"
    and rest: "index_nodes env rows (if key = [] then (keys, by) else (keys @ [key], by(key \<mapsto> row))) = Inr (keys', by')"
    using Cons.prems by (auto simp: exn_Inr split: if_splits)
  then obtain ks where "map (\<lambda>r. str_of env r ''nodeKey'') rows = map Inr ks"
    "keys' = (if key = [] then keys else keys @ [key]) @ filter (\<lambda>k. k \<noteq> []) ks"
    using Cons.IH by (fastforce split: if_splits)
  then show ?case using key by (intro exI [of _ "key # ks"]) auto
qed simp

lemma keyed_rows:
  "map f rows = map Inr ks \<Longrightarrow>
     concat (map (\<lambda>r. case f r of Inr k \<Rightarrow> if k = [] then [] else [k] | Inl x \<Rightarrow> []) rows) = filter (\<lambda>k. k \<noteq> []) ks"
  by (induction rows arbitrary: ks) (auto simp: Cons_eq_map_conv)

lemma build_nodes_ids: "build_nodes env by params outs keys = Inr ns \<Longrightarrow> map node_id ns = keys"
  by (induction keys arbitrary: ns) (auto simp: exn_Inr build_node_def Let_def)

lemma build_nodes_types:
  "build_nodes env by params outs keys = Inr ns \<Longrightarrow> n \<in> set ns \<Longrightarrow>
     node_id n \<in> set keys \<and>
     str_of env (case by (node_id n) of None \<Rightarrow> JNull | Some r \<Rightarrow> r) ''type'' = Inr (node_type n)"
  by (induction keys arbitrary: ns) (auto simp: exn_Inr build_node_def Let_def)

text \<open>A workflow that was built has an id, its nodes' rows, and an order of their keys.\<close>

lemma buildWorkflow_some:
  assumes "buildWorkflow env db tenant chosen = Some w"
  obtains keys edges order "by" params outs where
    "str_of env chosen ''id'' = Inr (lw_id w)"
    "index_nodes env (rowsFor env db ''WorkflowNode'' tenant (lw_id w)) ([], Map.empty) = Inr (keys, by)"
    "edges_of env (rowsFor env db ''WorkflowEdge'' tenant (lw_id w)) = Inr edges"
    "topologicalOrder keys edges = Some order"
    "build_nodes env by params outs order = Inr (lw_nodes w)"
proof -
  have "build_body env db tenant chosen = Inr (Some w)"
    using assms by (auto simp: buildWorkflow_def split: sum.split_asm)
  then show thesis
    by (auto simp: build_body_def exn_Inr Let_def split: if_splits option.split_asm) (rule that; simp)
qed

lemma firstPublished_in: "\<not> is_null (firstPublished items) \<Longrightarrow>
    firstPublished items \<in> set items \<and> \<not> isDraft (firstPublished items)"
  by (induction items) auto

lemma named_from_chosen:
  assumes "named_from env db tenant named trigger columns = Some w"
  shows "\<exists>column \<in> set columns. \<exists>items.
    wc_list (env_client env) db ''Workflow''
      (filter_on [(''tenantId'', tenant), (column, named), (''triggerEvent'', trigger)]) 10 = Inr items \<and>
    \<not> is_null (firstPublished items) \<and> buildWorkflow env db tenant (firstPublished items) = Some w"
  using assms by (induction columns) (auto simp: Let_def split: sum.split_asm if_splits)

section \<open>A tenant with one workflow\<close>

text \<open>The data of the witnesses: a workflow of two page steps, stored in the wrong order.\<close>

definition demo_trigger :: string where
  "demo_trigger = ''FormSubmission.created''"

definition demo_rows :: "(string \<times> string) list list \<Rightarrow> json list" where
  "demo_rows rs = map (\<lambda>kvs. jobject (map (\<lambda>(k, v). (k, JString v)) kvs)) rs"

definition demo_db :: table_db where
  "demo_db = (\<lambda>_. [])
     (''Workflow'' := demo_rows
        [[(''tenantId'', ''acme''), (''name'', ''greet''), (''triggerEvent'', demo_trigger)]],
      ''WorkflowNode'' := demo_rows
        [[(''tenantId'', ''acme''), (''workflowId'', ''0''), (''nodeKey'', ''b''), (''type'', ''page.go'')],
         [(''tenantId'', ''acme''), (''workflowId'', ''0''), (''nodeKey'', ''a''), (''type'', ''page.message'')]],
      ''WorkflowNodeParam'' := demo_rows
        [[(''tenantId'', ''acme''), (''workflowId'', ''0''), (''nodeId'', ''0''), (''name'', ''path''), (''value'', ''/home'')],
         [(''tenantId'', ''acme''), (''workflowId'', ''0''), (''nodeId'', ''1''), (''name'', ''text''), (''value'', ''hi'')]],
      ''WorkflowEdge'' := demo_rows
        [[(''tenantId'', ''acme''), (''workflowId'', ''0''), (''sourceKey'', ''a''), (''targetKey'', ''b'')]])"

definition demo_env :: "table_db wf_env" where
  "demo_env = \<lparr>env_client = table_client, env_dump = (\<lambda>_. Inr ''?''), env_parse = (\<lambda>_. None),
     env_stod = (\<lambda>_. None), env_random = (\<lambda>_. (0, 0)), env_time = (\<lambda>_. 0),
     env_file = (\<lambda>_. Inl (Std_exception ''no file''))\<rparr>"

definition demo_workflow :: loaded_workflow where
  "demo_workflow = \<lparr>lw_id = ''0'', lw_name = ''greet'', lw_nodes =
     [\<lparr>node_id = ''a'', node_type = ''page.message'', node_params = JObject [(''text'', JString ''hi'')], node_outputs = JObject []\<rparr>,
      \<lparr>node_id = ''b'', node_type = ''page.go'', node_params = JObject [(''path'', JString ''/home'')], node_outputs = JObject []\<rparr>]\<rparr>"

definition demo_keys :: "string list" where
  "demo_keys = concat (map (\<lambda>r. case str_of demo_env r ''nodeKey'' of Inr k \<Rightarrow> if k = [] then [] else [k] | Inl x \<Rightarrow> [])
     (rowsFor demo_env demo_db ''WorkflowNode'' ''acme'' ''0''))"

lemma demo_loaded: "loadTenantWorkflowNamed demo_env demo_db ''acme'' ''greet'' demo_trigger = Some demo_workflow"
  by code_simp

lemma demo_built: "buildWorkflow demo_env demo_db ''acme'' (hd (table_view demo_db ''Workflow'')) = Some demo_workflow"
  by code_simp

lemma demo_edges: "edges_of demo_env (rowsFor demo_env demo_db ''WorkflowEdge'' ''acme'' ''0'') = Inr [(''a'', ''b'')]"
  by code_simp

lemma demo_client: "env_client demo_env = table_client"
  by (simp add: demo_env_def)

section \<open>Properties: which workflow\<close>



text \<open>
  The nodes of a workflow that was built are the node rows with a key, once each, and when
  their keys are distinct and the edges between them have no cycle, the source of every edge
  runs before its target.
\<close>

theorem workflow_runs_in_edge_order:
  assumes "buildWorkflow env db tenant chosen = Some w"
    and "keys = concat (map (\<lambda>r. case str_of env r ''nodeKey'' of Inr k \<Rightarrow> if k = [] then [] else [k] | Inl x \<Rightarrow> [])
           (rowsFor env db ''WorkflowNode'' tenant (lw_id w)))"
    and "edges_of env (rowsFor env db ''WorkflowEdge'' tenant (lw_id w)) = Inr edges"
  shows "mset (map node_id (lw_nodes w)) = mset keys \<and>
    (distinct keys \<and> acyclic (set (known_edges keys edges)) \<longrightarrow>
       sources_first (known_edges keys edges) (map node_id (lw_nodes w)))"
proof -
  obtain keys' edges' order "by" params outs where built:
      "index_nodes env (rowsFor env db ''WorkflowNode'' tenant (lw_id w)) ([], Map.empty) = Inr (keys', by)"
      "edges_of env (rowsFor env db ''WorkflowEdge'' tenant (lw_id w)) = Inr edges'"
      "topologicalOrder keys' edges' = Some order"
      "build_nodes env by params outs order = Inr (lw_nodes w)"
    by (rule buildWorkflow_some [OF assms(1)])
  have "keys' = keys" using index_nodes_keys [OF built(1)] assms(2) keyed_rows by force
  moreover have "edges' = edges" using built(2) assms(3) by simp
  ultimately show ?thesis
    using build_nodes_ids [OF built(4)] topologicalOrder_mset [of keys edges] topologicalOrder_spec [of keys edges] built(3)
    by auto
qed

theorem workflow_runs_in_edge_order_witness:
  "mset (map node_id (lw_nodes demo_workflow)) = mset demo_keys"
proof -
  have "lw_id demo_workflow = ''0''" by (simp add: demo_workflow_def)
  then show ?thesis
    using workflow_runs_in_edge_order [OF demo_built, of demo_keys "[(''a'', ''b'')]"] demo_edges demo_keys_def by simp
qed

section \<open>Properties: what a run does\<close>

text \<open>Nodes in sequence: the second part runs exactly when the first has finished.\<close>

lemma execute_from_append:
  "execute_from env i (ns @ ms) vars db =
     (case execute_from env i ns vars db of
        (Done, vars', db') \<Rightarrow> execute_from env (i + length ns) ms vars' db'
      | stop \<Rightarrow> stop)"
proof (induction ns arbitrary: i vars db)
  case (Cons n ns)
  show ?case
    by (auto simp: Cons [of "Suc i"] split: option.split sum.split prod.split step_end.split)
qed simp

text \<open>The six page steps, by the parameters they require.\<close>

definition page_required :: "(string \<times> string list) list" where
  "page_required =
     [(''page.text'', [''target'', ''text'']), (''page.show'', [''target'']), (''page.hide'', [''target'']),
      (''page.class'', [''target'', ''class'']), (''page.message'', [''text'']), (''page.go'', [''path''])]"

definition page_node :: "wf_node \<Rightarrow> bool" where
  "page_node n =
     (template_free (node_params n) \<and>
      (case map_of page_required (node_type n) of
         None \<Rightarrow> False
       | Some required \<Rightarrow> list_all (jcontains (node_params n)) required))"

definition page_effect :: "wf_node \<Rightarrow> json" where
  "page_effect n = jset ''do'' (JString (node_type n)) (node_params n)"

lemma map_of_registered_page:
  "map_of page_required t = Some required \<Longrightarrow> map_of registered t = Some (page_effect_step t required)"
  by (auto simp: page_required_def registered_def split: if_splits)

lemma page_node_runs:
  assumes "page_node n"
  shows "execute_from env i (n # ns) vars db =
    execute_from env (i + 1) ns (ctx_set effects_var (appendEffect (ctx_get vars effects_var JNull) (page_effect n)) vars) db"
proof -
  obtain required where req: "map_of page_required (node_type n) = Some required"
      "list_all (jcontains (node_params n)) required" and free: "template_free (node_params n)"
    using assms by (auto simp: page_node_def split: option.split_asm)
  have "find (\<lambda>name. \<not> jcontains (node_params n) name) required = None"
    using req(2) by (simp add: find_None_iff list_all_iff)
  then show ?thesis
    by (simp add: map_of_registered_page [OF req(1)] resolve_template_free(1) [OF free]
        page_effect_step_def page_effect_def)
qed

lemma split_dot_effects: "split_dot effects_var = None"
  by (simp add: effects_var_def)

lemma page_nodes_run:
  assumes "list_all page_node ns"
  shows "\<exists>vars'. execute_from env i ns vars db = (Done, vars', db) \<and>
    (ns \<noteq> [] \<longrightarrow> ctx_get vars' effects_var JNull =
       JArray ((case ctx_get vars effects_var JNull of JArray es \<Rightarrow> es | _ \<Rightarrow> []) @ map page_effect ns)) \<and>
    (ns = [] \<longrightarrow> vars' = vars)"
  using assms
proof (induction ns arbitrary: i vars)
  case (Cons n ns)
  let ?old = "case ctx_get vars effects_var JNull of JArray es \<Rightarrow> es | _ \<Rightarrow> []"
  let ?vars = "ctx_set effects_var (appendEffect (ctx_get vars effects_var JNull) (page_effect n)) vars"
  have new: "ctx_get ?vars effects_var JNull = JArray (?old @ [page_effect n])"
    by (simp add: ctx_get_set split_dot_effects appendEffect_def)
  obtain vars' where "execute_from env (i + 1) ns ?vars db = (Done, vars', db)"
    "ns \<noteq> [] \<longrightarrow> ctx_get vars' effects_var JNull = JArray ((?old @ [page_effect n]) @ map page_effect ns)"
    "ns = [] \<longrightarrow> vars' = ?vars"
    using Cons.IH [of "i + 1" ?vars] Cons.prems new by auto
  then show ?case using page_node_runs [of n env i ns vars db] Cons.prems new by (cases ns) auto
qed simp

text \<open>
  A workflow of page steps whose parameters are complete returns one effect for each of its
  nodes, in the order of the nodes, each with its parameters and the name of its step, and
  leaves the database alone.
\<close>

theorem page_effects_in_order:
  assumes "loadTenantWorkflowNamed env db tenant named trigger = Some w"
    and "list_all page_node (lw_nodes w)"
  shows "runNamedNow env tenant named trigger data db = (JArray (map page_effect (lw_nodes w)), db)"
proof -
  obtain vars' where run: "execute_from env 0 (lw_nodes w) (ctx_set ''event'' data []) db = (Done, vars', db)"
    and eff: "lw_nodes w \<noteq> [] \<longrightarrow> ctx_get vars' effects_var JNull =
       JArray ((case ctx_get (ctx_set ''event'' data []) effects_var JNull of JArray es \<Rightarrow> es | _ \<Rightarrow> []) @ map page_effect (lw_nodes w))"
    and nil: "lw_nodes w = [] \<longrightarrow> vars' = ctx_set ''event'' data []"
    using page_nodes_run [OF assms(2), of env 0 "ctx_set ''event'' data []" db] by auto
  have "ctx_get (ctx_set ''event'' data []) effects_var JNull = JNull"
    by (simp add: ctx_get_def ctx_set_def effects_var_def)
  then show ?thesis
    using run eff nil assms(1) by (cases "lw_nodes w = []") (simp_all add: runNamedNow_def executeNodes_def)
qed

theorem page_effects_in_order_witness:
  "runNamedNow demo_env ''acme'' ''greet'' demo_trigger (JObject []) demo_db =
     (JArray [JObject [(''do'', JString ''page.message''), (''text'', JString ''hi'')],
              JObject [(''do'', JString ''page.go''), (''path'', JString ''/home'')]], demo_db)"
proof -
  have "list_all page_node (lw_nodes demo_workflow)"
    by (simp add: demo_workflow_def page_node_def page_required_def jcontains_def)
  from page_effects_in_order [OF demo_loaded this] show ?thesis
    by (simp add: demo_workflow_def page_effect_def)
qed

text \<open>
  The number that a count step stores is never more than twenty, however many rows match:
  the step counts the rows of one list call, whose limit it leaves at the default.
\<close>

theorem entity_count_capped:
  assumes "filtering_client (env_client env) rows"
    and "entity_count_step env i node vars db = (Done, vars', db')"
    and "node_outputs node = JObject [(k, JString v)]"
  shows "\<exists>n. map_of vars' v = Some (JInt n) \<and> n \<le> 20"
proof -
  obtain entity items where items: "wc_list (env_client env) db entity (filter_of (jget (node_params node) ''filter'')) default_limit = Inr items"
    and vars': "vars' = set_outputs (node_outputs node) (JInt (int (length items))) vars"
    using assms(2) by (auto simp: entity_count_step_def Let_def split: sum.split_asm)
  have "int (length items) \<le> 20"
    using filtering_client.list_limit [OF assms(1) items] by (simp add: default_limit_def)
  then show ?thesis by (simp add: vars' assms(3) ctx_set_def)
qed

theorem entity_count_capped_witness:
  "\<exists>n. map_of (fst (snd (entity_count_step demo_env 0
       \<lparr>node_id = ''n'', node_type = ''dbal.entity.count'', node_params = JObject [(''entity'', JString ''Booking'')],
        node_outputs = JObject [(''count'', JString ''v'')]\<rparr> [] (\<lambda>_. replicate 25 (JObject []))))) ''v'' = Some (JInt n) \<and> n \<le> 20"
proof -
  let ?node = "\<lparr>node_id = ''n'', node_type = ''dbal.entity.count'', node_params = JObject [(''entity'', JString ''Booking'')],
        node_outputs = JObject [(''count'', JString ''v'')]\<rparr>"
  let ?db = "\<lambda>_. replicate 25 (JObject [])"
  have "entity_count_step demo_env 0 ?node [] ?db =
      (Done, fst (snd (entity_count_step demo_env 0 ?node [] ?db)), ?db)"
    by (simp add: entity_count_step_def string_param_def demo_env_def table_client_def table_list_def)
  then show ?thesis
    using entity_count_capped [of demo_env "\<lambda>db e. set (table_view db e)" 0 ?node "[]" ?db _ ?db "''count''" "''v''"]
      tables.filtering_client_axioms demo_client by simp
qed

text \<open>
  Scanning a template gives its meaning.  A template written from literal pieces without a
  dollar sign and references without a closing brace resolves to the pieces with the text of
  each referenced variable in its place, and to the first exception that producing one raises.
\<close>

theorem template_scanner_correct:
  assumes "list_all seg_ok segs"
  shows "resolveStr dump vars (concat (map seg_text segs)) = template_value dump vars segs"
  by (rule resolveStr_segments [OF assms])

theorem template_scanner_correct_witness:
  "resolveStr (\<lambda>_. Inr ''7'') [(''n'', JInt 7)] ''id-${n}'' = Inr ''id-7''"
proof -
  have "ctx_get [(''n'', JInt 7)] ''n'' JNull = JInt 7" by (simp add: ctx_get_def)
  then show ?thesis
    using template_scanner_correct [of "[Lit ''id-'', Ref ''n'']" "\<lambda>_. Inr ''7''" "[(''n'', JInt 7)]"] by simp
qed

section \<open>Properties: which events\<close>

definition triggers :: "json \<Rightarrow> string \<Rightarrow> bool" where
  "triggers row event_name =
     (\<not> isDraft row \<and>
      (case jget row ''triggerEvent'' of
         Some (JString t) \<Rightarrow> t \<noteq> [] \<and> event_name = tenant_of_row row @ ''.'' @ t
       | _ \<Rightarrow> False))"

lemma collect_events_sets:
  "collect_events items (found, tenants) =
     (found \<union> {e. \<exists>row \<in> set items. triggers row e},
      tenants \<union> {tenant_of_row row |row. row \<in> set items \<and> \<not> isDraft row})"
proof (induction items arbitrary: found tenants)
  case (Cons row items)
  show ?case
    by (auto simp: Cons Let_def triggers_def split: option.split json.split)
qed simp

text \<open>
  An event starts something exactly when it should.  With no file mapped to it and the
  cache of triggers dropped or half a minute old, an event is answered from the rows as they
  are now: it holds when a published workflow subscribes to it, or when its tenant has any
  published workflow at all, which the record may then name.  The cache taken is no older than
  thirty seconds, and is kept when it is younger.
\<close>

theorem has_event_exact:
  assumes "event_map eng name = None"
    and "wc_list (env_client env) db ''Workflow'' [] 2000 = Inr items"
  shows "(if tenant_events_loaded eng \<and> now - tenant_events_at eng < 30 * 10 ^ 9
     then snd (hasEvent env db now later name eng) = eng
     else (fst (hasEvent env db now later name eng) \<longleftrightarrow>
         (\<exists>row \<in> set items. triggers row name \<or>
            \<not> isDraft row \<and> fst (splitEvent name) \<noteq> [] \<and> fst (splitEvent name) = tenant_of_row row)) \<and>
       tenant_events_at (snd (hasEvent env db now later name eng)) = later \<and>
       tenant_events_loaded (snd (hasEvent env db now later name eng)))"
proof (cases "tenant_events_loaded eng \<and> now - tenant_events_at eng < kTenantEventsTtl")
  case True
  then show ?thesis
    using assms(1) by (simp add: hasEvent_def refreshTenantEvents_def kTenantEventsTtl_def Let_def)
next
  case False
  then have "refreshTenantEvents env db now later eng =
      eng\<lparr>tenant_events := {e. \<exists>row \<in> set items. triggers row e},
          tenants_with_workflows := {tenant_of_row row |row. row \<in> set items \<and> \<not> isDraft row},
          tenant_events_at := later, tenant_events_loaded := True\<rparr>"
    using assms(2) by (auto simp: refreshTenantEvents_def collect_events_sets)
  then show ?thesis
    using False assms(1) by (auto simp: hasEvent_def Let_def kTenantEventsTtl_def)
qed

definition demo_engine :: wf_engine where
  "demo_engine = \<lparr>event_map = Map.empty, tenant_events = {}, tenants_with_workflows = {},
     tenant_events_at = 0, tenant_events_loaded = False\<rparr>"

definition demo_list :: "json list" where
  "demo_list = take 2000 (filter (row_matches []) (table_view demo_db ''Workflow''))"

lemma demo_listed: "wc_list (env_client demo_env) demo_db ''Workflow'' [] 2000 = Inr demo_list"
  by (simp add: demo_list_def demo_client table_client_def table_list_def)

theorem has_event_exact_witness:
  "tenant_events_at (snd (hasEvent demo_env demo_db 1 2 ''acme.Booking.created'' demo_engine)) = 2"
  using has_event_exact [of demo_engine "''acme.Booking.created''", OF _ demo_listed, of 1 2]
  by (simp add: demo_engine_def)



end
