(* ===== verification/Workflow_Uuid.thy ===== *)
theory Workflow_Uuid
  imports Workflow_Engine
begin

text \<open>
  The shape of the identifiers that \<^verbatim>\<open>generate_uuid_v4\<close> prints, for every pair of 64-bit
  draws: the printing of the groups is compared with plain padded hexadecimal, and the version
  and variant digits are read off the masked words.
\<close>

unbundle bit_operations_syntax

abbreviation hex_char :: "nat \<Rightarrow> char" where
  "hex_char n \<equiv> ''0123456789abcdef'' ! n"

fun padded_hex :: "nat \<Rightarrow> nat \<Rightarrow> string" where
  "padded_hex 0 n = []"
| "padded_hex (Suc w) n = padded_hex w (n div 16) @ [hex_char (n mod 16)]"

lemma length_padded_hex [simp]: "length (padded_hex w n) = w"
  by (induction w n rule: padded_hex.induct) auto

lemma padded_hex_0: "padded_hex w 0 = replicate w (CHR ''0'')"
  by (induction w) (auto simp: replicate_append_same)

lemma hex_nat_padded:
  "n < 16 ^ w \<Longrightarrow> 0 < w \<Longrightarrow> replicate (w - length (hex_nat n)) (CHR ''0'') @ hex_nat n = padded_hex w n \<and> length (hex_nat n) \<le> w"
proof (induction w n rule: padded_hex.induct)
  case (2 w n)
  show ?case
  proof (cases "n < 16")
    case True
    then show ?thesis by (simp add: hex_nat.simps [of n] padded_hex_0)
  next
    case False
    then have w: "0 < w" using 2 by (cases w) auto
    have "n div 16 < 16 ^ w" using 2(2) by (simp add: less_mult_imp_div_less mult.commute)
    from 2(1) [OF this w] show ?thesis using False by (simp add: hex_nat.simps [of n] Suc_diff_le)
  qed
qed simp

lemma setw_hex_padded: "unat x < 16 ^ w \<Longrightarrow> 0 < w \<Longrightarrow> setw_hex w x = padded_hex w (unat x)"
  by (simp add: setw_hex_def hex_nat_padded Let_def)

lemma hex_char_in: "n < 16 \<Longrightarrow> hex_char n \<in> set ''0123456789abcdef''"
  by (rule nth_mem) simp

lemma set_padded_hex: "set (padded_hex w n) \<subseteq> set ''0123456789abcdef''"
proof (induction w n rule: padded_hex.induct)
  case (2 w n)
  have "hex_char (n mod 16) \<in> set ''0123456789abcdef''" by (rule hex_char_in) simp
  then show ?case using 2 unfolding padded_hex.simps set_append
    by (intro Un_least) (simp_all only: list.set empty_subsetI insert_subset simp_thms)
qed simp

lemma nth_padded_hex: "0 < w \<Longrightarrow> padded_hex w n ! 0 = hex_char (n div 16 ^ (w - 1) mod 16)"
proof (induction w n rule: padded_hex.induct)
  case (2 w n)
  then show ?case by (cases w) (auto simp: nth_append div_mult2_eq)
qed simp

section \<open>The masked words\<close>

lemma unat_and_le: "unat (x AND m) \<le> unat (m :: 64 word)"
  using word_and_le1 [of x m] by (simp add: word_le_nat_alt)

lemma unat_drop_bit_lt: "unat (drop_bit n (x :: 64 word)) < 2 ^ (64 - n)" if "n \<le> 64"
proof -
  have "unat x < 2 ^ n * 2 ^ (64 - n)"
    using that unsigned_less [of x] by (simp flip: power_add)
  then show ?thesis
    by (simp only: unat_drop_bit_eq) (simp add: drop_bit_eq_div less_mult_imp_div_less mult.commute)
qed

lemma unat_div_pow: "unat (x :: 64 word) div 2 ^ n = unat (drop_bit n x)"
  by (simp only: unat_drop_bit_eq) (simp add: drop_bit_eq_div)

lemma version_digit:
  "drop_bit 12 (((d AND 0xFFFFFFFFFFFF0FFF) OR 0x4000) AND 0xFFFF :: 64 word) = 4"
proof -
  have "drop_bit 12 (((d AND 0xFFFFFFFFFFFF0FFF) OR 0x4000) AND 0xFFFF) =
      ((drop_bit 12 d AND 0xFFFFFFFFFFFF0) OR 4) AND (0xF :: 64 word)"
    by (simp add: drop_bit_and drop_bit_or)
  also have "\<dots> = (drop_bit 12 d AND (0xFFFFFFFFFFFF0 AND 0xF)) OR (4 AND 0xF)"
    by (simp only: bit.conj_disj_distrib2 and.assoc)
  finally show ?thesis by simp
qed

lemma variant_digit:
  "drop_bit 60 ((d AND 0x3FFFFFFFFFFFFFFF) OR 0x8000000000000000 :: 64 word) \<in> {8, 9, 10, 11}"
proof -
  define y where "y = (drop_bit 60 d AND 3 :: 64 word)"
  have "unat y \<le> 3" using unat_and_le [of "drop_bit 60 d" 3] by (simp add: y_def)
  then have "unat y = 0 \<or> unat y = 1 \<or> unat y = 2 \<or> unat y = 3" by linarith
  then have "word_of_nat (unat y) = (0 :: 64 word) \<or> word_of_nat (unat y) = (1 :: 64 word) \<or>
      word_of_nat (unat y) = (2 :: 64 word) \<or> word_of_nat (unat y) = (3 :: 64 word)"
    by (metis semiring_1_class.of_nat_0 of_nat_1 of_nat_numeral)
  then have "y = 0 \<or> y = 1 \<or> y = 2 \<or> y = 3" by simp
  moreover have "drop_bit 60 ((d AND 0x3FFFFFFFFFFFFFFF) OR 0x8000000000000000) = y OR 8"
    by (simp add: drop_bit_and drop_bit_or y_def)
  ultimately show ?thesis by auto
qed

section \<open>Property\<close>

lemma nth_group: "i = length a \<Longrightarrow> (a @ b) ! i = b ! 0"
  by (simp add: nth_append)

text \<open>
  Every identifier is a version 4 UUID: 36 characters in groups of 8, 4, 4, 4 and 12
  hexadecimal digits separated by dashes, with the version digit 4 and a variant digit
  8, 9, a or b, whatever the random words are.
\<close>

theorem uuid_v4_shape:
  "\<exists>a b c d e. generate_uuid_v4 draws = a @ ''-'' @ b @ ''-'' @ c @ ''-'' @ d @ ''-'' @ e \<and>
     map length [a, b, c, d, e] = [8, 4, 4, 4, 12] \<and>
     set (a @ b @ c @ d @ e) \<subseteq> set ''0123456789abcdef'' \<and>
     c ! 0 = CHR ''4'' \<and> d ! 0 \<in> set ''89ab''"
proof -
  define hi where "hi = (fst draws AND 0xFFFFFFFFFFFF0FFF) OR 0x0000000000004000"
  define lo where "lo = (snd draws AND 0x3FFFFFFFFFFFFFFF) OR 0x8000000000000000"
  have a: "setw_hex 8 (drop_bit 32 hi) = padded_hex 8 (unat (drop_bit 32 hi))"
    using unat_drop_bit_lt [of 32 hi] by (intro setw_hex_padded) simp_all
  have b: "setw_hex 4 (drop_bit 16 hi AND 0xFFFF) = padded_hex 4 (unat (drop_bit 16 hi AND 0xFFFF))"
    using unat_and_le [of "drop_bit 16 hi" "0xFFFF"] by (intro setw_hex_padded) simp_all
  have c: "setw_hex 4 (hi AND 0xFFFF) = padded_hex 4 (unat (hi AND 0xFFFF))"
    using unat_and_le [of hi "0xFFFF"] by (intro setw_hex_padded) simp_all
  have d: "setw_hex 4 (drop_bit 48 lo) = padded_hex 4 (unat (drop_bit 48 lo))"
    using unat_drop_bit_lt [of 48 lo] by (intro setw_hex_padded) simp_all
  have e: "setw_hex 12 (lo AND 0xFFFFFFFFFFFF) = padded_hex 12 (unat (lo AND 0xFFFFFFFFFFFF))"
    using unat_and_le [of lo "0xFFFFFFFFFFFF"] by (intro setw_hex_padded) simp_all
  have "unat (hi AND 0xFFFF) div 2 ^ 12 = 4"
    unfolding unat_div_pow hi_def version_digit by simp
  then have "padded_hex 4 (unat (hi AND 0xFFFF)) ! 0 = CHR ''4''" by (subst nth_padded_hex) simp_all
  moreover have "unat (drop_bit 48 lo) div 2 ^ 12 \<in> {8, 9, 10, 11}"
    using variant_digit [of "snd draws"] unfolding unat_div_pow by (auto simp: lo_def)
  then have "padded_hex 4 (unat (drop_bit 48 lo)) ! 0 \<in> set ''89ab''" by (subst nth_padded_hex) auto
  ultimately show ?thesis
    using set_padded_hex unfolding generate_uuid_v4_def Let_def hi_def [symmetric] lo_def [symmetric] a b c d e
    by (intro exI conjI) (rule refl, simp_all only: list.map length_padded_hex set_append Un_subset_iff simp_thms)
qed

end
