(* ===== verification/Sql_Where.thy ===== *)
theory Sql_Where
  imports Cpp_Sort Dbal_Errors
begin

text \<open>
  The builder of SQL conditions (\<^verbatim>\<open>src/adapters/sql/sql_where_builder.hpp\<close>): the \<^verbatim>\<open>WHERE\<close> clause
  of a list request with its bound parameters, and the \<^verbatim>\<open>ORDER BY\<close>, \<^verbatim>\<open>GROUP BY\<close> and aggregate
  clauses.  The two output parameters of the C++ functions, the list of bound values and the
  index of the next placeholder, are threaded as a pair.  The second half gives the generated
  conditions a syntax tree, with its text and its meaning on a row, and shows that what is
  built is the text of a tree that means what the filter asks for.
\<close>

datatype filter_op = Eq | Ne | Lt | Lte | Gt | Gte | Like | ILike | In | NotIn | IsNull | IsNotNull | Between

record filter_condition =
  fc_field :: string
  fc_op :: filter_op
  fc_value :: string
  fc_values :: "string list"

datatype agg_func = Count | Sum | Avg | Min | Max

record aggregate_spec =
  ag_func :: agg_func
  ag_field :: string
  ag_alias :: string

record sql_param =
  sp_name :: string
  sp_value :: string

type_synonym binding = "sql_param list \<times> int"

section \<open>The builder\<close>

fun join :: "string list \<Rightarrow> string \<Rightarrow> string" where
  "join [] sep = []"
| "join [p] sep = p"
| "join (p # q # ps) sep = p @ sep @ join (q # ps) sep"

definition quoteId :: "string \<Rightarrow> string \<Rightarrow> string" where
  "quoteId name dialect =
     (if dialect = ''mysql'' \<or> dialect = ''mariadb'' then ''`'' @ name @ ''`''
      else [CHR 0x22] @ name @ [CHR 0x22])"

definition is_postgres :: "string \<Rightarrow> bool" where
  "is_postgres dialect = (dialect = ''postgresql'' \<or> dialect = ''postgres'')"

definition ph :: "int \<Rightarrow> string \<Rightarrow> string" where
  "ph index dialect = (if is_postgres dialect then ''$'' @ int_digits index else ''?'')"

definition validateField :: "string \<Rightarrow> string set \<Rightarrow> exn + unit" where
  "validateField field valid =
     (if field \<notin> valid then Inl (Std_exception (''Unknown field: '' @ field)) else Inr ())"

text \<open>One value bound, and the text of its placeholder.\<close>

definition bind_value :: "string \<Rightarrow> string \<Rightarrow> string \<Rightarrow> binding \<Rightarrow> string \<times> binding" where
  "bind_value dialect field v b =
     (ph (snd b) dialect, (fst b @ [\<lparr>sp_name = field, sp_value = v\<rparr>], snd b + 1))"

fun bind_values :: "string \<Rightarrow> string \<Rightarrow> string list \<Rightarrow> binding \<Rightarrow> string list \<times> binding" where
  "bind_values dialect field [] b = ([], b)"
| "bind_values dialect field (v # vs) b =
     (case bind_value dialect field v b of
        (p, b1) \<Rightarrow> (case bind_values dialect field vs b1 of (ps, b2) \<Rightarrow> (p # ps, b2)))"

fun op_text :: "filter_op \<Rightarrow> string" where
  "op_text Ne = ''<>''"
| "op_text Lt = ''<''"
| "op_text Lte = ''<=''"
| "op_text Gt = ''>''"
| "op_text Gte = ''>=''"
| "op_text Like = ''LIKE''"
| "op_text _ = ''=''"

definition buildCondition :: "filter_condition \<Rightarrow> string \<Rightarrow> binding \<Rightarrow> string \<times> binding" where
  "buildCondition cond dialect b =
     (let col = quoteId (fc_field cond) dialect; one = bind_value dialect (fc_field cond) (fc_value cond) b
      in case fc_op cond of
        ILike \<Rightarrow>
          (if is_postgres dialect then (col @ '' ILIKE '' @ fst one, snd one)
           else (''LOWER('' @ col @ '') LIKE LOWER('' @ fst one @ '')'', snd one))
      | IsNull \<Rightarrow> (col @ '' IS NULL'', b)
      | IsNotNull \<Rightarrow> (col @ '' IS NOT NULL'', b)
      | In \<Rightarrow>
          (if fc_values cond = [] then (''1=0'', b)
           else case bind_values dialect (fc_field cond) (fc_values cond) b of
             (ps, b') \<Rightarrow> (col @ '' IN ('' @ join ps '', '' @ '')'', b'))
      | NotIn \<Rightarrow>
          (if fc_values cond = [] then (''1=0'', b)
           else case bind_values dialect (fc_field cond) (fc_values cond) b of
             (ps, b') \<Rightarrow> (col @ '' NOT IN ('' @ join ps '', '' @ '')'', b'))
      | Between \<Rightarrow>
          (case fc_values cond of
             lo # hi # _ \<Rightarrow>
               (case bind_values dialect (fc_field cond) [lo, hi] b of
                  (ps, b') \<Rightarrow> (col @ '' BETWEEN '' @ ps ! 0 @ '' AND '' @ ps ! 1, b'))
           | _ \<Rightarrow> (''1=1'', b))
      | rel \<Rightarrow> (col @ '' '' @ op_text rel @ '' '' @ fst one, snd one))"

fun build_legacy :: "(string, string) omap \<Rightarrow> string set \<Rightarrow> string \<Rightarrow> binding \<Rightarrow> exn + (string list \<times> binding)" where
  "build_legacy [] valid dialect b = Inr ([], b)"
| "build_legacy ((k, v) # m) valid dialect b =
     (case validateField k valid of
        Inl x \<Rightarrow> Inl x
      | Inr _ \<Rightarrow>
          (case bind_value dialect k v b of
             (p, b1) \<Rightarrow>
               map_sum id (\<lambda>(fs, b2). ((quoteId k dialect @ '' = '' @ p) # fs, b2)) (build_legacy m valid dialect b1)))"

fun build_conditions :: "filter_condition list \<Rightarrow> string set \<Rightarrow> string \<Rightarrow> binding \<Rightarrow> exn + (string list \<times> binding)" where
  "build_conditions [] valid dialect b = Inr ([], b)"
| "build_conditions (c # cs) valid dialect b =
     (case validateField (fc_field c) valid of
        Inl x \<Rightarrow> Inl x
      | Inr _ \<Rightarrow>
          (case buildCondition c dialect b of
             (f, b1) \<Rightarrow> map_sum id (\<lambda>(fs, b2). (f # fs, b2)) (build_conditions cs valid dialect b1)))"

definition or_fragment :: "string list \<Rightarrow> string" where
  "or_fragment parts = (if length parts = 1 then hd parts else ''('' @ join parts '' OR '' @ '')'')"

fun build_groups :: "filter_condition list list \<Rightarrow> string set \<Rightarrow> string \<Rightarrow> binding \<Rightarrow> exn + (string list \<times> binding)" where
  "build_groups [] valid dialect b = Inr ([], b)"
| "build_groups (g # gs) valid dialect b =
     (if g = [] then build_groups gs valid dialect b
      else case build_conditions g valid dialect b of
        Inl x \<Rightarrow> Inl x
      | Inr (parts, b1) \<Rightarrow>
          map_sum id (\<lambda>(fs, b2). (or_fragment parts # fs, b2)) (build_groups gs valid dialect b1))"

text \<open>\<open>build\<close> starts from the caller's list of parameters and index.\<close>

definition build :: "filter_condition list \<Rightarrow> filter_condition list list \<Rightarrow> (string, string) omap \<Rightarrow>
    string set \<Rightarrow> string \<Rightarrow> binding \<Rightarrow> exn + (string \<times> binding)" where
  "build conditions groups legacy valid dialect b =
     (case build_legacy legacy valid dialect b of
        Inl x \<Rightarrow> Inl x
      | Inr (f1, b1) \<Rightarrow>
          (case build_conditions conditions valid dialect b1 of
             Inl x \<Rightarrow> Inl x
           | Inr (f2, b2) \<Rightarrow>
               (case build_groups groups valid dialect b2 of
                  Inl x \<Rightarrow> Inl x
                | Inr (f3, b3) \<Rightarrow>
                    Inr (if f1 @ f2 @ f3 = [] then [] else ''WHERE '' @ join (f1 @ f2 @ f3) '' AND '', b3))))"

fun order_parts :: "(string, string) omap \<Rightarrow> string set \<Rightarrow> string \<Rightarrow> exn + string list" where
  "order_parts [] valid dialect = Inr []"
| "order_parts ((field, dir) # m) valid dialect =
     (case validateField field valid of
        Inl x \<Rightarrow> Inl x
      | Inr _ \<Rightarrow>
          map_sum id (\<lambda>ps. (quoteId field dialect @ '' '' @ (if dir = ''asc'' \<or> dir = ''ASC'' then ''ASC'' else ''DESC'')) # ps)
            (order_parts m valid dialect))"

definition buildOrderBy :: "(string, string) omap \<Rightarrow> string set \<Rightarrow> string \<Rightarrow> string \<Rightarrow> exn + string" where
  "buildOrderBy srt valid default_field dialect =
     (if srt = [] then Inr (''ORDER BY '' @ quoteId default_field dialect @ '' DESC'')
      else map_sum id (\<lambda>ps. ''ORDER BY '' @ join ps '', '') (order_parts srt valid dialect))"

fun aggFuncName :: "agg_func \<Rightarrow> string" where
  "aggFuncName Count = ''COUNT''"
| "aggFuncName Sum = ''SUM''"
| "aggFuncName Avg = ''AVG''"
| "aggFuncName Min = ''MIN''"
| "aggFuncName Max = ''MAX''"

fun agg_parts :: "aggregate_spec list \<Rightarrow> string set \<Rightarrow> string \<Rightarrow> exn + string list" where
  "agg_parts [] valid dialect = Inr []"
| "agg_parts (a # as) valid dialect =
     (case (if ag_field a \<noteq> ''*'' then validateField (ag_field a) valid else Inr ()) of
        Inl x \<Rightarrow> Inl x
      | Inr _ \<Rightarrow>
          map_sum id (\<lambda>ps. (aggFuncName (ag_func a) @ ''('' @
              (if ag_field a = ''*'' then ''*'' else quoteId (ag_field a) dialect) @ '') AS '' @ quoteId (ag_alias a) dialect) # ps)
            (agg_parts as valid dialect))"

fun group_parts :: "string list \<Rightarrow> string set \<Rightarrow> string \<Rightarrow> exn + string list" where
  "group_parts [] valid dialect = Inr []"
| "group_parts (f # fs) valid dialect =
     (case validateField f valid of
        Inl x \<Rightarrow> Inl x
      | Inr _ \<Rightarrow> map_sum id (\<lambda>ps. quoteId f dialect # ps) (group_parts fs valid dialect))"

definition buildAggregateSelect :: "aggregate_spec list \<Rightarrow> string list \<Rightarrow> string set \<Rightarrow> string \<Rightarrow> exn + string" where
  "buildAggregateSelect aggs gb valid dialect =
     (case agg_parts aggs valid dialect of
        Inl x \<Rightarrow> Inl x
      | Inr ps \<Rightarrow> map_sum id (\<lambda>qs. join (ps @ qs) '', '') (group_parts gb valid dialect))"

definition buildGroupBy :: "string list \<Rightarrow> string set \<Rightarrow> string \<Rightarrow> exn + string" where
  "buildGroupBy gb valid dialect =
     (if gb = [] then Inr [] else map_sum id (\<lambda>ps. ''GROUP BY '' @ join ps '', '') (group_parts gb valid dialect))"

section \<open>Conditions as trees\<close>

text \<open>A parameter is referred to by its index.\<close>

datatype sql_atom =
    Compare string string int
  | ILikeTest string int
  | NullTest string bool
  | Member string bool "int list"
  | Range string int int
  | Truth bool

fun atom_text :: "string \<Rightarrow> sql_atom \<Rightarrow> string" where
  "atom_text d (Compare c rel k) = quoteId c d @ '' '' @ rel @ '' '' @ ph k d"
| "atom_text d (ILikeTest c k) =
     (if is_postgres d then quoteId c d @ '' ILIKE '' @ ph k d
      else ''LOWER('' @ quoteId c d @ '') LIKE LOWER('' @ ph k d @ '')'')"
| "atom_text d (NullTest c b) = quoteId c d @ (if b then '' IS NULL'' else '' IS NOT NULL'')"
| "atom_text d (Member c b ks) =
     quoteId c d @ (if b then '' IN ('' else '' NOT IN ('') @ join (map (\<lambda>k. ph k d) ks) '', '' @ '')''"
| "atom_text d (Range c lo hi) = quoteId c d @ '' BETWEEN '' @ ph lo d @ '' AND '' @ ph hi d"
| "atom_text d (Truth b) = (if b then ''1=1'' else ''1=0'')"

fun atom_params :: "sql_atom \<Rightarrow> int list" where
  "atom_params (Compare c rel k) = [k]"
| "atom_params (ILikeTest c k) = [k]"
| "atom_params (Member c b ks) = ks"
| "atom_params (Range c lo hi) = [lo, hi]"
| "atom_params _ = []"

text \<open>
  The meaning on a row, whose columns may be null.  How the database compares two values with
  an operator is \<open>sem\<close>; a comparison with null does not hold.
\<close>

type_synonym sql_row = "string \<Rightarrow> string option"
type_synonym sql_sem = "string \<Rightarrow> string \<Rightarrow> string \<Rightarrow> bool"

definition on_value :: "sql_row \<Rightarrow> string \<Rightarrow> (string \<Rightarrow> bool) \<Rightarrow> bool" where
  "on_value row c f = (case row c of None \<Rightarrow> False | Some v \<Rightarrow> f v)"

definition ilike :: "sql_sem \<Rightarrow> string \<Rightarrow> string \<Rightarrow> string \<Rightarrow> bool" where
  "ilike sem d v p = (if is_postgres d then sem ''ILIKE'' v p else sem ''LIKE'' (to_lower v) (to_lower p))"

fun atom_holds :: "sql_sem \<Rightarrow> string \<Rightarrow> (int \<Rightarrow> string) \<Rightarrow> sql_row \<Rightarrow> sql_atom \<Rightarrow> bool" where
  "atom_holds sem d par row (Compare c rel k) = on_value row c (\<lambda>v. sem rel v (par k))"
| "atom_holds sem d par row (ILikeTest c k) = on_value row c (\<lambda>v. ilike sem d v (par k))"
| "atom_holds sem d par row (NullTest c b) = ((row c = None) = b)"
| "atom_holds sem d par row (Member c b ks) =
     on_value row c (\<lambda>v. list_ex (\<lambda>k. sem ''='' v (par k)) ks = b)"
| "atom_holds sem d par row (Range c lo hi) =
     on_value row c (\<lambda>v. sem ''>='' v (par lo) \<and> sem ''<='' v (par hi))"
| "atom_holds sem d par row (Truth b) = b"

text \<open>A clause is a conjunction of disjunctions.\<close>

definition where_text :: "string \<Rightarrow> sql_atom list list \<Rightarrow> string" where
  "where_text d tree =
     (if tree = [] then [] else ''WHERE '' @ join (map (\<lambda>c. or_fragment (map (atom_text d) c)) tree) '' AND '')"

definition where_holds :: "sql_sem \<Rightarrow> string \<Rightarrow> (int \<Rightarrow> string) \<Rightarrow> sql_row \<Rightarrow> sql_atom list list \<Rightarrow> bool" where
  "where_holds sem d par row tree = list_all (list_ex (atom_holds sem d par row)) tree"

section \<open>What a filter asks for\<close>

text \<open>
  An empty \<^const>\<open>NotIn\<close> holds for no row and a \<^const>\<open>Between\<close> without two bounds for every row,
  as the code decides.
\<close>

fun cond_holds :: "sql_sem \<Rightarrow> string \<Rightarrow> sql_row \<Rightarrow> filter_condition \<Rightarrow> bool" where
  "cond_holds sem d row c =
     (case fc_op c of
        ILike \<Rightarrow> on_value row (fc_field c) (\<lambda>v. ilike sem d v (fc_value c))
      | IsNull \<Rightarrow> row (fc_field c) = None
      | IsNotNull \<Rightarrow> row (fc_field c) \<noteq> None
      | In \<Rightarrow> on_value row (fc_field c) (\<lambda>v. \<exists>x \<in> set (fc_values c). sem ''='' v x)
      | NotIn \<Rightarrow> fc_values c \<noteq> [] \<and> on_value row (fc_field c) (\<lambda>v. \<forall>x \<in> set (fc_values c). \<not> sem ''='' v x)
      | Between \<Rightarrow>
          (case fc_values c of
             lo # hi # _ \<Rightarrow> on_value row (fc_field c) (\<lambda>v. sem ''>='' v lo \<and> sem ''<='' v hi)
           | _ \<Rightarrow> True)
      | rel \<Rightarrow> on_value row (fc_field c) (\<lambda>v. sem (op_text rel) v (fc_value c)))"

declare cond_holds.simps [simp del]

text \<open>The values that a condition binds, and the tree it becomes from an index on.\<close>

definition cond_binds :: "filter_condition \<Rightarrow> string list" where
  "cond_binds c =
     (case fc_op c of
        IsNull \<Rightarrow> [] | IsNotNull \<Rightarrow> []
      | In \<Rightarrow> fc_values c | NotIn \<Rightarrow> fc_values c
      | Between \<Rightarrow> (case fc_values c of lo # hi # _ \<Rightarrow> [lo, hi] | _ \<Rightarrow> [])
      | _ \<Rightarrow> [fc_value c])"

definition cond_atom :: "filter_condition \<Rightarrow> int \<Rightarrow> sql_atom" where
  "cond_atom c k =
     (case fc_op c of
        ILike \<Rightarrow> ILikeTest (fc_field c) k
      | IsNull \<Rightarrow> NullTest (fc_field c) True
      | IsNotNull \<Rightarrow> NullTest (fc_field c) False
      | In \<Rightarrow> if fc_values c = [] then Truth False else Member (fc_field c) True [k..k + int (length (fc_values c)) - 1]
      | NotIn \<Rightarrow> if fc_values c = [] then Truth False else Member (fc_field c) False [k..k + int (length (fc_values c)) - 1]
      | Between \<Rightarrow> (case fc_values c of lo # hi # _ \<Rightarrow> Range (fc_field c) k (k + 1) | _ \<Rightarrow> Truth True)
      | rel \<Rightarrow> Compare (fc_field c) (op_text rel) k)"

definition cond_params :: "filter_condition \<Rightarrow> sql_param list" where
  "cond_params c = map (\<lambda>v. \<lparr>sp_name = fc_field c, sp_value = v\<rparr>) (cond_binds c)"

lemma bind_values_eq:
  "bind_values d f vs (ps, k) =
     (map (\<lambda>i. ph i d) [k..k + int (length vs) - 1],
      (ps @ map (\<lambda>v. \<lparr>sp_name = f, sp_value = v\<rparr>) vs, k + int (length vs)))"
proof (induction vs arbitrary: ps k)
  case (Cons v vs)
  have "[k..k + int (length (v # vs)) - 1] = k # [k + 1..(k + 1) + int (length vs) - 1]"
    by (subst upto_rec1) (simp_all add: algebra_simps)
  then show ?case by (simp add: Cons bind_value_def)
qed simp

lemma buildCondition_tree:
  "buildCondition c d (ps, k) = (atom_text d (cond_atom c k), (ps @ cond_params c, k + int (length (cond_binds c))))"
proof (cases "fc_op c")
  case Between
  have "[k..k + 1] = [k, k + 1]" by (simp add: upto_rec1)
  then show ?thesis using Between
    by (auto simp: buildCondition_def cond_atom_def cond_params_def cond_binds_def bind_values_eq algebra_simps
        simp del: bind_values.simps split: list.split)
qed (auto simp: buildCondition_def cond_atom_def cond_params_def cond_binds_def bind_values_eq bind_value_def Let_def
      simp del: bind_values.simps)

text \<open>The parameters from an index on carry given values.\<close>

definition agrees :: "(int \<Rightarrow> string) \<Rightarrow> int \<Rightarrow> string list \<Rightarrow> bool" where
  "agrees par k vs \<longleftrightarrow> map par [k..k + int (length vs) - 1] = vs"

lemma upto_append_len:
  "[k..k + int (m + n) - 1] = [k..k + int m - 1] @ [k + int m..k + int m + int n - 1]"
  using upto_split1 [of k "k + int m" "k + int m + int n - 1"] by (cases "n = 0") (simp_all add: algebra_simps)

lemma agrees_append: "agrees par k (vs @ ws) \<longleftrightarrow> agrees par k vs \<and> agrees par (k + int (length vs)) ws"
  unfolding agrees_def length_append upto_append_len map_append by (simp add: append_eq_append_conv)

lemma agrees_one: "agrees par k [v] \<longleftrightarrow> par k = v"
  by (simp add: agrees_def)

lemma agrees_two: "agrees par k [v, w] \<longleftrightarrow> par k = v \<and> par (k + 1) = w"
  using agrees_append [of par k "[v]" "[w]"] by (simp add: agrees_one)

lemma agrees_ex: "agrees par k vs \<Longrightarrow> list_ex (\<lambda>i. P (par i)) [k..k + int (length vs) - 1] = (\<exists>x \<in> set vs. P x)"
  unfolding agrees_def list_ex_iff by (metis (mono_tags, lifting) imageE image_eqI set_map)

lemma cond_atom_holds:
  "agrees par k (cond_binds c) \<Longrightarrow> atom_holds sem d par row (cond_atom c k) = cond_holds sem d row c"
proof (cases "fc_op c")
  case Between
  then show "agrees par k (cond_binds c) \<Longrightarrow> ?thesis"
    by (auto simp: cond_binds_def cond_atom_def cond_holds.simps agrees_two split: list.split)
next
  case In
  then show "agrees par k (cond_binds c) \<Longrightarrow> ?thesis"
    by (auto simp: cond_binds_def cond_atom_def cond_holds.simps on_value_def agrees_ex split: option.split)
next
  case NotIn
  then show "agrees par k (cond_binds c) \<Longrightarrow> ?thesis"
    by (auto simp: cond_binds_def cond_atom_def cond_holds.simps on_value_def agrees_ex split: option.split)
qed (auto simp: cond_binds_def cond_atom_def cond_holds.simps agrees_one)

section \<open>The tree of a request\<close>

definition eq_cond :: "string \<times> string \<Rightarrow> filter_condition" where
  "eq_cond kv = \<lparr>fc_field = fst kv, fc_op = Eq, fc_value = snd kv, fc_values = []\<rparr>"

lemma build_legacy_conditions: "build_legacy m valid d b = build_conditions (map eq_cond m) valid d b"
proof (induction m arbitrary: b)
  case (Cons kv m)
  obtain k v where "kv = (k, v)" by (cases kv)
  then show ?case
    using Cons by (auto simp: eq_cond_def buildCondition_def Let_def split: sum.split prod.split)
qed simp

fun cond_atoms :: "filter_condition list \<Rightarrow> int \<Rightarrow> sql_atom list" where
  "cond_atoms [] k = []"
| "cond_atoms (c # cs) k = cond_atom c k # cond_atoms cs (k + int (length (cond_binds c)))"

definition binds :: "filter_condition list \<Rightarrow> string list" where
  "binds cs = concat (map cond_binds cs)"

definition params_of :: "filter_condition list \<Rightarrow> sql_param list" where
  "params_of cs = concat (map cond_params cs)"

definition unknown_field :: "string set \<Rightarrow> filter_condition list \<Rightarrow> exn option" where
  "unknown_field valid cs =
     map_option (\<lambda>c. Std_exception (''Unknown field: '' @ fc_field c)) (find (\<lambda>c. fc_field c \<notin> valid) cs)"

lemma length_params_of: "length (params_of cs) = length (binds cs)"
  by (induction cs) (auto simp: params_of_def binds_def cond_params_def)

lemma values_params_of: "map sp_value (params_of cs) = binds cs"
  by (induction cs) (auto simp: params_of_def binds_def cond_params_def comp_def)

lemma build_conditions_tree:
  "build_conditions cs valid d (ps, k) =
     (case unknown_field valid cs of
        Some x \<Rightarrow> Inl x
      | None \<Rightarrow> Inr (map (atom_text d) (cond_atoms cs k), (ps @ params_of cs, k + int (length (binds cs)))))"
proof (induction cs arbitrary: ps k)
  case (Cons c cs)
  then show ?case
    by (auto simp: validateField_def buildCondition_tree unknown_field_def params_of_def binds_def split: option.split)
qed (simp add: unknown_field_def params_of_def binds_def)

fun group_trees :: "filter_condition list list \<Rightarrow> int \<Rightarrow> sql_atom list list" where
  "group_trees [] k = []"
| "group_trees (g # gs) k =
     (if g = [] then group_trees gs k else cond_atoms g k # group_trees gs (k + int (length (binds g))))"

lemma unknown_field_Nil [simp]: "unknown_field valid [] = None"
  by (simp add: unknown_field_def)

lemma binds_Nil [simp]: "binds [] = []" "params_of [] = []"
  by (simp_all add: binds_def params_of_def)

lemma unknown_field_append:
  "unknown_field valid (xs @ ys) = (case unknown_field valid xs of Some x \<Rightarrow> Some x | None \<Rightarrow> unknown_field valid ys)"
  by (induction xs) (auto simp: unknown_field_def)

lemma params_of_append: "params_of (xs @ ys) = params_of xs @ params_of ys"
  by (simp add: params_of_def)

lemma binds_append: "binds (xs @ ys) = binds xs @ binds ys"
  by (simp add: binds_def)

lemma build_groups_tree:
  "build_groups gs valid d (ps, k) =
     (case unknown_field valid (concat gs) of
        Some x \<Rightarrow> Inl x
      | None \<Rightarrow> Inr (map (\<lambda>c. or_fragment (map (atom_text d) c)) (group_trees gs k),
                     (ps @ params_of (concat gs), k + int (length (binds (concat gs))))))"
proof (induction gs arbitrary: ps k)
  case (Cons g gs)
  then show ?case
    by (auto simp: build_conditions_tree unknown_field_append params_of_append binds_append add.assoc
        split: option.split)
qed (simp add: unknown_field_def params_of_def binds_def)

definition all_conds :: "filter_condition list \<Rightarrow> filter_condition list list \<Rightarrow> (string, string) omap \<Rightarrow> filter_condition list" where
  "all_conds conditions groups legacy = map eq_cond legacy @ conditions @ concat groups"

definition where_tree :: "filter_condition list \<Rightarrow> filter_condition list list \<Rightarrow> (string, string) omap \<Rightarrow> int \<Rightarrow> sql_atom list list" where
  "where_tree conditions groups legacy k =
     map (\<lambda>a. [a]) (cond_atoms (map eq_cond legacy @ conditions) k)
     @ group_trees groups (k + int (length (binds (map eq_cond legacy @ conditions))))"

lemma cond_atoms_append: "cond_atoms (xs @ ys) k = cond_atoms xs k @ cond_atoms ys (k + int (length (binds xs)))"
  by (induction xs arbitrary: k) (auto simp: binds_def add.assoc)

lemma or_fragment_one [simp]: "or_fragment [s] = s"
  by (simp add: or_fragment_def)

lemma build_where_tree:
  "build conditions groups legacy valid d (ps, k) =
     (case unknown_field valid (all_conds conditions groups legacy) of
        Some x \<Rightarrow> Inl x
      | None \<Rightarrow> Inr (where_text d (where_tree conditions groups legacy k),
           (ps @ params_of (all_conds conditions groups legacy),
            k + int (length (binds (all_conds conditions groups legacy))))))"
  by (auto simp: build_def build_legacy_conditions build_conditions_tree build_groups_tree all_conds_def
      unknown_field_append params_of_append binds_append where_tree_def where_text_def cond_atoms_append
      add.assoc comp_def split: option.split)

section \<open>What the tree means\<close>

lemma cond_atoms_hold:
  "agrees par k (binds cs) \<Longrightarrow> map (atom_holds sem d par row) (cond_atoms cs k) = map (cond_holds sem d row) cs"
  by (induction cs arbitrary: k) (auto simp: binds_def agrees_append cond_atom_holds)

lemma list_ex_map_eq: "map f xs = map g ys \<Longrightarrow> list_ex f xs = list_ex g ys"
  by (metis list_ex_iff in_set_conv_nth length_map nth_map)

lemma list_all_map_eq: "map f xs = map g ys \<Longrightarrow> list_all f xs = list_all g ys"
  by (metis list_all_length length_map nth_map)

lemma group_trees_hold:
  "agrees par k (binds (concat gs)) \<Longrightarrow>
     list_all (list_ex (atom_holds sem d par row)) (group_trees gs k) =
     (\<forall>g \<in> set gs. g \<noteq> [] \<longrightarrow> (\<exists>c \<in> set g. cond_holds sem d row c))"
proof (induction gs arbitrary: k)
  case (Cons g gs)
  have g: "agrees par k (binds g)" and gs: "agrees par (k + int (length (binds g))) (binds (concat gs))"
    using Cons.prems by (auto simp: binds_append agrees_append)
  have "list_ex (atom_holds sem d par row) (cond_atoms g k) = list_ex (cond_holds sem d row) g"
    by (rule list_ex_map_eq [OF cond_atoms_hold [OF g]])
  then show ?case using Cons.IH [OF gs] by (auto simp: list_ex_iff binds_def)
qed simp

lemma where_tree_holds:
  assumes "agrees par k (binds (all_conds conditions groups legacy))"
  shows "where_holds sem d par row (where_tree conditions groups legacy k) \<longleftrightarrow>
    (\<forall>(f, v) \<in> set legacy. on_value row f (\<lambda>x. sem ''='' x v)) \<and>
    (\<forall>c \<in> set conditions. cond_holds sem d row c) \<and>
    (\<forall>g \<in> set groups. g \<noteq> [] \<longrightarrow> (\<exists>c \<in> set g. cond_holds sem d row c))"
proof -
  let ?cs = "map eq_cond legacy @ conditions"
  have "agrees par k (binds ?cs)" and gs: "agrees par (k + int (length (binds ?cs))) (binds (concat groups))"
    using assms by (auto simp: all_conds_def binds_append agrees_append add.assoc)
  then have "list_all (atom_holds sem d par row) (cond_atoms ?cs k) = list_all (cond_holds sem d row) ?cs"
    by (intro list_all_map_eq cond_atoms_hold)
  moreover have "cond_holds sem d row (eq_cond kv) = on_value row (fst kv) (\<lambda>x. sem ''='' x (snd kv))" for kv
    by (simp add: cond_holds.simps eq_cond_def)
  moreover have "list_all (list_ex P) (map (\<lambda>a. [a]) xs) = list_all P xs" for P :: "sql_atom \<Rightarrow> bool" and xs
    by (simp add: list_all_iff)
  ultimately show ?thesis
    unfolding where_holds_def where_tree_def list_all_append group_trees_hold [OF gs]
    by (auto simp: list_all_iff)
qed

section \<open>Properties\<close>

definition bound_value :: "sql_param list \<Rightarrow> int \<Rightarrow> string" where
  "bound_value params i = sp_value (params ! nat (i - 1))"

lemma agrees_bound: "agrees (bound_value params) 1 (map sp_value params)"
  unfolding agrees_def bound_value_def by (rule nth_equalityI) auto

lemma cond_atom_params: "atom_params (cond_atom c k) = [k..k + int (length (cond_binds c)) - 1]"
proof (cases "fc_op c")
  case Between
  then show ?thesis by (auto simp: cond_atom_def cond_binds_def upto_rec1 split: list.split)
qed (auto simp: cond_atom_def cond_binds_def)

lemma cond_atoms_params: "concat (map atom_params (cond_atoms cs k)) = [k..k + int (length (binds cs)) - 1]"
proof (induction cs arbitrary: k)
  case (Cons c cs)
  then show ?case
    using upto_append_len [of k "length (cond_binds c)" "length (binds cs)"]
    by (simp add: cond_atom_params binds_def algebra_simps)
qed simp

lemma group_trees_params:
  "concat (map (\<lambda>c. concat (map atom_params c)) (group_trees gs k)) = [k..k + int (length (binds (concat gs))) - 1]"
proof (induction gs arbitrary: k)
  case (Cons g gs)
  then show ?case
    using upto_append_len [of k "length (binds g)" "length (binds (concat gs))"]
    by (auto simp: cond_atoms_params binds_append algebra_simps)
qed simp

lemma where_tree_params:
  "concat (map (\<lambda>c. concat (map atom_params c)) (where_tree conditions groups legacy k)) =
     [k..k + int (length (binds (all_conds conditions groups legacy))) - 1]"
  using upto_append_len [of k "length (binds (map eq_cond legacy @ conditions))" "length (binds (concat groups))"]
    cond_atoms_params [of "map eq_cond legacy @ conditions" k]
  by (simp add: where_tree_def group_trees_params all_conds_def binds_append comp_def algebra_simps)

lemma where_built:
  assumes "build conditions groups legacy valid dialect ([], 1) = Inr (clause, params, index)"
  shows "\<exists>tree. clause = where_text dialect tree \<and> index = 1 + int (length params) \<and>
    concat (map (\<lambda>c. concat (map atom_params c)) tree) = [1..int (length params)] \<and>
    (\<forall>sem row. where_holds sem dialect (bound_value params) row tree \<longleftrightarrow>
       (\<forall>(f, v) \<in> set legacy. on_value row f (\<lambda>x. sem ''='' x v)) \<and>
       (\<forall>c \<in> set conditions. cond_holds sem dialect row c) \<and>
       (\<forall>g \<in> set groups. g \<noteq> [] \<longrightarrow> (\<exists>c \<in> set g. cond_holds sem dialect row c)))"
proof -
  let ?all = "all_conds conditions groups legacy"
  have b: "clause = where_text dialect (where_tree conditions groups legacy 1)" "params = params_of ?all"
      "index = 1 + int (length (binds ?all))"
    using assms by (auto simp: build_where_tree split: option.split_asm)
  have "agrees (bound_value params) 1 (binds ?all)"
    using agrees_bound [of params] by (simp add: b(2) values_params_of)
  note holds = where_tree_holds [OF this]
  have len: "length params = length (binds ?all)" by (simp add: b(2) length_params_of)
  show ?thesis
    by (intro exI [of _ "where_tree conditions groups legacy 1"] conjI allI holds)
       (simp_all add: b(1,3) len where_tree_params)
qed

lemma where_legacy_holds:
  assumes "build conditions groups legacy valid dialect ([], 1) = Inr (clause, params, index)"
  shows "\<exists>tree. clause = where_text dialect tree \<and>
    (\<forall>sem row. where_holds sem dialect (bound_value params) row tree \<longrightarrow>
       (\<forall>(f, v) \<in> set legacy. on_value row f (\<lambda>x. sem ''='' x v)))"
  using where_built [OF assms] by blast

text \<open>
  C19: a \<^verbatim>\<open>WHERE\<close> clause that is built asks for exactly what the request asks for.  It is the
  text of a conjunction of disjunctions whose placeholders run from one to the number of
  bound values, in the order of the text; and on every row, with the bound values in place of
  the placeholders, it holds just when every equality of the plain filter holds, every typed
  condition holds, and some condition of every non-empty group holds.  So a tenant in the plain filter
  restricts the whole clause, whatever the groups say.
\<close>

theorem where_clause_meaning:
  assumes "build conditions groups legacy valid dialect ([], 1) = Inr (clause, params, index)"
  shows "\<exists>tree. clause = where_text dialect tree \<and> index = 1 + int (length params) \<and>
    concat (map (\<lambda>c. concat (map atom_params c)) tree) = [1..int (length params)] \<and>
    (\<forall>sem row. where_holds sem dialect (bound_value params) row tree \<longleftrightarrow>
       (\<forall>(f, v) \<in> set legacy. on_value row f (\<lambda>x. sem ''='' x v)) \<and>
       (\<forall>c \<in> set conditions. cond_holds sem dialect row c) \<and>
       (\<forall>g \<in> set groups. g \<noteq> [] \<longrightarrow> (\<exists>c \<in> set g. cond_holds sem dialect row c)))"
  by (rule where_built [OF assms])

theorem where_clause_meaning_witness:
  "\<exists>tree. ''WHERE \"tenantId\" = $1 AND (\"level\" > $2 OR \"slug\" IN ($3, $4))'' = where_text ''postgresql'' tree"
proof -
  let ?gt = "\<lparr>fc_field = ''level'', fc_op = Gt, fc_value = ''3'', fc_values = []\<rparr>"
  let ?in = "\<lparr>fc_field = ''slug'', fc_op = In, fc_value = [], fc_values = [''a'', ''b'']\<rparr>"
  have "build [] [[?gt, ?in]] [(''tenantId'', ''acme'')] {''tenantId'', ''level'', ''slug''} ''postgresql'' ([], 1) =
      Inr (''WHERE \"tenantId\" = $1 AND (\"level\" > $2 OR \"slug\" IN ($3, $4))'',
        [\<lparr>sp_name = ''tenantId'', sp_value = ''acme''\<rparr>, \<lparr>sp_name = ''level'', sp_value = ''3''\<rparr>,
         \<lparr>sp_name = ''slug'', sp_value = ''a''\<rparr>, \<lparr>sp_name = ''slug'', sp_value = ''b''\<rparr>], 5)"
    by code_simp
  from where_clause_meaning [OF this] show ?thesis by blast
qed

definition same_shape :: "filter_condition \<Rightarrow> filter_condition \<Rightarrow> bool" where
  "same_shape c c' \<longleftrightarrow> fc_field c = fc_field c' \<and> fc_op c = fc_op c' \<and> length (fc_values c) = length (fc_values c')"

definition two_values :: "string list \<Rightarrow> bool" where
  "two_values xs = (2 \<le> length xs)"

lemma two_values_case:
  "(case xs of lo # hi # _ \<Rightarrow> f lo hi | _ \<Rightarrow> b) = (if two_values xs then f (xs ! 0) (xs ! 1) else b)"
  by (auto simp: two_values_def split: list.split)

lemma same_shape_atom:
  assumes "same_shape c c'"
  shows "cond_atom c k = cond_atom c' k \<and> length (cond_binds c) = length (cond_binds c') \<and> fc_field c = fc_field c'"
proof -
  have c: "fc_field c' = fc_field c" "fc_op c' = fc_op c" "length (fc_values c') = length (fc_values c)"
    using assms by (simp_all add: same_shape_def)
  show ?thesis
  proof (cases "fc_op c")
    case Between
    have "two_values (fc_values c') = two_values (fc_values c)" using c(3) by (simp add: two_values_def)
    with Between c show ?thesis by (simp add: cond_atom_def cond_binds_def two_values_case)
  next
    case In
    with c show ?thesis by (auto simp: cond_atom_def cond_binds_def)
  next
    case NotIn
    with c show ?thesis by (auto simp: cond_atom_def cond_binds_def)
  qed (use c in \<open>simp_all add: cond_atom_def cond_binds_def\<close>)
qed

lemma same_shape_atoms:
  "list_all2 same_shape cs cs' \<Longrightarrow>
     cond_atoms cs k = cond_atoms cs' k \<and> length (binds cs) = length (binds cs') \<and> map fc_field cs = map fc_field cs'"
  by (induction arbitrary: k rule: list_all2_induct) (auto simp: binds_def dest: same_shape_atom)

lemma same_shape_groups:
  "list_all2 (list_all2 same_shape) gs gs' \<Longrightarrow> group_trees gs k = group_trees gs' k"
  by (induction arbitrary: k rule: list_all2_induct) (auto dest: same_shape_atoms)

lemma unknown_field_fields: "map fc_field cs = map fc_field cs' \<Longrightarrow> unknown_field valid cs = unknown_field valid cs'"
proof (induction cs arbitrary: cs')
  case (Cons c cs)
  then show ?case by (cases cs') (auto simp: unknown_field_def)
qed simp

text \<open>
  No value can change the text of the clause.  Two requests that name the same fields with
  the same operators and as many values give the same text, or the same error, whatever the
  values are; the values reach the database only as bound parameters.
\<close>

theorem where_text_ignores_values:
  assumes "list_all2 same_shape conditions conditions'" "list_all2 (list_all2 same_shape) groups groups'"
    and "map fst legacy = map fst legacy'"
  shows "map_sum id fst (build conditions groups legacy valid dialect ([], 1)) =
    map_sum id fst (build conditions' groups' legacy' valid dialect ([], 1))"
proof -
  have "list_all2 same_shape (map eq_cond legacy) (map eq_cond legacy')"
    using assms(3) by (auto simp: list_all2_conv_all_nth same_shape_def eq_cond_def list_eq_iff_nth_eq)
  then have shape: "list_all2 same_shape (map eq_cond legacy @ conditions) (map eq_cond legacy' @ conditions')"
    using assms(1) by (simp add: list_all2_appendI)
  have "list_all2 same_shape (concat groups) (concat groups')"
    using assms(2) by (induction rule: list_all2_induct) (auto simp: list_all2_appendI)
  with shape have "list_all2 same_shape (all_conds conditions groups legacy) (all_conds conditions' groups' legacy')"
    unfolding all_conds_def append_assoc [symmetric] by (rule list_all2_appendI)
  then have "unknown_field valid (all_conds conditions groups legacy) = unknown_field valid (all_conds conditions' groups' legacy')"
    by (intro unknown_field_fields) (simp add: same_shape_atoms)
  moreover have "where_tree conditions groups legacy 1 = where_tree conditions' groups' legacy' 1"
    unfolding where_tree_def using same_shape_atoms [OF shape] same_shape_groups [OF assms(2)] by simp
  ultimately show ?thesis by (auto simp: build_where_tree split: option.split)
qed

theorem where_text_ignores_values_witness:
  "map_sum id fst (build [] [] [(''name'', ''bob'')] {''name''} ''mysql'' ([], 1)) =
   map_sum id fst (build [] [] [(''name'', ''x OR 1=1; DROP TABLE user'')] {''name''} ''mysql'' ([], 1))"
  by (rule where_text_ignores_values) simp_all

end
