(* ===== verification/Redis_Adapter.thy ===== *)
theory Redis_Adapter
  imports Json_Value Entity_Store
begin

text \<open>
  The Redis adapter (\<^verbatim>\<open>src/adapters/redis\<close>) and the compensating transactions that it records
  into (\<^verbatim>\<open>src/core/compensating_transaction.cpp\<close>).  The Redis server is a parameter: a record of
  its commands, each of which may fail, with the locale \<open>redis_server\<close> for what they do to the
  keys.  Writing and reading JSON text are parameters too.  A result is \<^const>\<open>Inl\<close> where a C++
  exception leaves the function; the undo loop walks its log with reverse iterators, which a
  \<^verbatim>\<open>push_back\<close> invalidates, so a log that grows under it is \<^const>\<open>Undefined\<close>.
\<close>

section \<open>Commands\<close>

record 'r redis_cmds =
  rc_set :: "'r \<Rightarrow> string \<Rightarrow> string \<Rightarrow> (string + unit) \<times> 'r"
  rc_get :: "'r \<Rightarrow> string \<Rightarrow> string + string option"
  rc_del :: "'r \<Rightarrow> string \<Rightarrow> (string + int) \<times> 'r"
  rc_sadd :: "'r \<Rightarrow> string \<Rightarrow> string \<Rightarrow> (string + int) \<times> 'r"
  rc_srem :: "'r \<Rightarrow> string \<Rightarrow> string \<Rightarrow> (string + int) \<times> 'r"
  rc_smembers :: "'r \<Rightarrow> string \<Rightarrow> string + string list"
  rc_incr :: "'r \<Rightarrow> string \<Rightarrow> (string + int) \<times> 'r"

text \<open>\<^verbatim>\<open>redis_command_executor.cpp\<close>: an exception becomes an internal error.\<close>

definition executed :: "string + 'a \<Rightarrow> 'a result" where
  "executed x = (case x of Inl e \<Rightarrow> Inl (internal_error e) | Inr v \<Rightarrow> Inr v)"

definition cmd_set :: "'r redis_cmds \<Rightarrow> string \<Rightarrow> string \<Rightarrow> 'r \<Rightarrow> bool result \<times> 'r" where
  "cmd_set c k v r = (case rc_set c r k v of (x, r') \<Rightarrow> (executed (map_sum id (\<lambda>_. True) x), r'))"

definition cmd_get :: "'r redis_cmds \<Rightarrow> string \<Rightarrow> 'r \<Rightarrow> string option result" where
  "cmd_get c k r = executed (rc_get c r k)"

definition cmd_del :: "'r redis_cmds \<Rightarrow> string \<Rightarrow> 'r \<Rightarrow> int result \<times> 'r" where
  "cmd_del c k r = (case rc_del c r k of (x, r') \<Rightarrow> (executed x, r'))"

definition cmd_sadd :: "'r redis_cmds \<Rightarrow> string \<Rightarrow> string \<Rightarrow> 'r \<Rightarrow> int result \<times> 'r" where
  "cmd_sadd c k m r = (case rc_sadd c r k m of (x, r') \<Rightarrow> (executed x, r'))"

definition cmd_srem :: "'r redis_cmds \<Rightarrow> string \<Rightarrow> string \<Rightarrow> 'r \<Rightarrow> int result \<times> 'r" where
  "cmd_srem c k m r = (case rc_srem c r k m of (x, r') \<Rightarrow> (executed x, r'))"

definition cmd_smembers :: "'r redis_cmds \<Rightarrow> string \<Rightarrow> 'r \<Rightarrow> string list result" where
  "cmd_smembers c k r = executed (rc_smembers c r k)"

definition cmd_incr :: "'r redis_cmds \<Rightarrow> string \<Rightarrow> 'r \<Rightarrow> int result \<times> 'r" where
  "cmd_incr c k r = (case rc_incr c r k of (x, r') \<Rightarrow> (executed x, r'))"

text \<open>\<^verbatim>\<open>redis_key_builder.cpp\<close>, \<^verbatim>\<open>redis_value_serializer.cpp\<close>\<close>

definition makeKey :: "string \<Rightarrow> string \<Rightarrow> string" where
  "makeKey entity i = entity @ '':'' @ i"

definition makeSetKey :: "string \<Rightarrow> string" where
  "makeSetKey entity = entity @ '':all''"

definition makeCounterKey :: "string \<Rightarrow> string" where
  "makeCounterKey entity = entity @ '':id_counter''"

definition makeTenantKey :: "string \<Rightarrow> string \<Rightarrow> string \<Rightarrow> string" where
  "makeTenantKey tenant entity i = tenant @ '':'' @ entity @ '':'' @ i"

record 'r redis_env =
  re_cmds :: "'r redis_cmds"
  re_dump :: "json \<Rightarrow> exn + string"
  re_parse :: "string \<Rightarrow> string + json"
  re_schemas :: "string set"

definition serialize :: "'r redis_env \<Rightarrow> json \<Rightarrow> string" where
  "serialize env j = (case re_dump env j of Inl x \<Rightarrow> [] | Inr s \<Rightarrow> s)"

definition deserialize :: "'r redis_env \<Rightarrow> string \<Rightarrow> json result" where
  "deserialize env s =
     (case re_parse env s of Inl e \<Rightarrow> Inl (internal_error (''Failed to parse JSON: '' @ e)) | Inr j \<Rightarrow> Inr j)"

section \<open>The transaction\<close>

datatype undo_type = UNDO_CREATE | UNDO_UPDATE | UNDO_DELETE

record undo_op =
  uo_type :: undo_type
  uo_entity :: string
  uo_id :: string
  uo_data :: json

record comp_tx =
  undo_log :: "undo_op list"
  active :: bool

definition new_tx :: comp_tx where
  "new_tx = \<lparr>undo_log = [], active = True\<rparr>"

definition record_undo :: "undo_type \<Rightarrow> string \<Rightarrow> string \<Rightarrow> json \<Rightarrow> comp_tx \<Rightarrow> comp_tx" where
  "record_undo t e i d tx =
     (if \<not> active tx then tx
      else tx\<lparr>undo_log := undo_log tx @ [\<lparr>uo_type = t, uo_entity = e, uo_id = i, uo_data = d\<rparr>]\<rparr>)"

definition recordCreate :: "string \<Rightarrow> string \<Rightarrow> comp_tx \<Rightarrow> comp_tx" where
  "recordCreate e i tx = record_undo UNDO_CREATE e i JNull tx"

definition recordUpdate :: "string \<Rightarrow> string \<Rightarrow> json \<Rightarrow> comp_tx \<Rightarrow> comp_tx" where
  "recordUpdate e i previous tx = record_undo UNDO_UPDATE e i previous tx"

definition recordDelete :: "string \<Rightarrow> json \<Rightarrow> comp_tx \<Rightarrow> exn + comp_tx" where
  "recordDelete e previous tx =
     (if \<not> active tx then Inr tx
      else exn_bind (case jget previous ''id'' of None \<Rightarrow> Inr [] | Some v \<Rightarrow> get_string v) (\<lambda>i.
        Inr (record_undo UNDO_DELETE e i previous tx)))"

definition tx_commit :: "comp_tx \<Rightarrow> comp_tx" where
  "tx_commit tx = (if \<not> active tx then tx else \<lparr>undo_log = [], active = False\<rparr>)"

text \<open>The adapter that a transaction refers to, over its state.\<close>

record 's undo_adapter =
  ua_create :: "string \<Rightarrow> json \<Rightarrow> 's \<Rightarrow> exn + json result \<times> 's"
  ua_update :: "string \<Rightarrow> string \<Rightarrow> json \<Rightarrow> 's \<Rightarrow> exn + json result \<times> 's"
  ua_remove :: "string \<Rightarrow> string \<Rightarrow> 's \<Rightarrow> exn + bool result \<times> 's"
  ua_tx :: "'s \<Rightarrow> comp_tx"
  ua_put_tx :: "comp_tx \<Rightarrow> 's \<Rightarrow> 's"

definition run_undo :: "'s undo_adapter \<Rightarrow> undo_op \<Rightarrow> 's \<Rightarrow> exn + bool \<times> 's" where
  "run_undo ad u s =
     (case uo_type u of
        UNDO_CREATE \<Rightarrow> map_sum id (map_prod is_ok id) (ua_remove ad (uo_entity u) (uo_id u) s)
      | UNDO_UPDATE \<Rightarrow> map_sum id (map_prod is_ok id) (ua_update ad (uo_entity u) (uo_id u) (uo_data u) s)
      | UNDO_DELETE \<Rightarrow> map_sum id (map_prod is_ok id) (ua_create ad (uo_entity u) (uo_data u) s))"

fun undo_all :: "'s undo_adapter \<Rightarrow> undo_op list \<Rightarrow> int \<Rightarrow> 's \<Rightarrow> exn + int \<times> 's" where
  "undo_all ad [] errors s = Inr (errors, s)"
| "undo_all ad (u # us) errors s =
     (case run_undo ad u s of
        Inl x \<Rightarrow> Inl x
      | Inr (ok, s') \<Rightarrow>
          if undo_log (ua_tx ad s') \<noteq> undo_log (ua_tx ad s) then Inl Undefined
          else undo_all ad us (if ok then errors else errors + 1) s')"

definition tx_rollback :: "'s undo_adapter \<Rightarrow> 's \<Rightarrow> exn + bool result \<times> 's" where
  "tx_rollback ad s =
     (if \<not> active (ua_tx ad s) then Inr (Inl (internal_error ''CompensatingTransaction: not active''), s)
      else case undo_all ad (rev (undo_log (ua_tx ad s))) 0 s of
        Inl x \<Rightarrow> Inl x
      | Inr (errors, s') \<Rightarrow>
          Inr (if errors > 0
               then Inl (internal_error (''CompensatingTransaction: '' @ int_digits errors @ '' rollback operations failed''))
               else Inr True,
               ua_put_tx ad \<lparr>undo_log = [], active = False\<rparr> s'))"

text \<open>A transaction that is destroyed while it is active rolls back.\<close>

definition tx_destroy :: "'s undo_adapter \<Rightarrow> 's \<Rightarrow> exn + 's" where
  "tx_destroy ad s = (if active (ua_tx ad s) then map_sum id snd (tx_rollback ad s) else Inr s)"

section \<open>The adapter\<close>

record 'r redis_state =
  rs_server :: 'r
  rs_tx :: "comp_tx option"

definition tx_active :: "'r redis_state \<Rightarrow> bool" where
  "tx_active st = (case rs_tx st of None \<Rightarrow> False | Some tx \<Rightarrow> active tx)"

definition on_tx :: "(comp_tx \<Rightarrow> comp_tx) \<Rightarrow> 'r redis_state \<Rightarrow> 'r redis_state" where
  "on_tx f st = (if tx_active st then st\<lparr>rs_tx := map_option f (rs_tx st)\<rparr> else st)"

definition no_schema :: "string \<Rightarrow> error" where
  "no_schema e = not_found (''Entity schema not found: '' @ e)"

definition generateId :: "'r redis_env \<Rightarrow> string \<Rightarrow> 'r \<Rightarrow> string \<times> 'r" where
  "generateId env e r =
     (case cmd_incr (re_cmds env) (makeCounterKey e) r of
        (Inl x, r') \<Rightarrow> (''0'', r')
      | (Inr n, r') \<Rightarrow> (int_digits n, r'))"

definition redis_create :: "'r redis_env \<Rightarrow> string \<Rightarrow> json \<Rightarrow> 'r redis_state \<Rightarrow> exn + json result \<times> 'r redis_state" where
  "redis_create env e data st =
     (if e \<notin> re_schemas env then Inr (Inl (no_schema e), st)
      else
        exn_bind (case jget data ''id'' of
                    Some v \<Rightarrow> if is_null v then Inr (generateId env e (rs_server st))
                              else map_sum id (\<lambda>i. (i, rs_server st)) (get_string v)
                  | None \<Rightarrow> Inr (generateId env e (rs_server st))) (\<lambda>(i, r).
        exn_bind (jassign ''id'' (JString i) data) (\<lambda>rec.
          case cmd_set (re_cmds env) (makeKey e i) (serialize env rec) r of
            (Inl er, r1) \<Rightarrow> Inr (Inl er, st\<lparr>rs_server := r1\<rparr>)
          | (Inr _, r1) \<Rightarrow>
              (let r2 = snd (cmd_sadd (re_cmds env) (makeSetKey e) i r1)
               in Inr (Inr rec, on_tx (recordCreate e i) (st\<lparr>rs_server := r2\<rparr>))))))"

definition redis_read :: "'r redis_env \<Rightarrow> string \<Rightarrow> string \<Rightarrow> 'r \<Rightarrow> json result" where
  "redis_read env e i r =
     (if e \<notin> re_schemas env then Inl (no_schema e)
      else case cmd_get (re_cmds env) (makeKey e i) r of
        Inl er \<Rightarrow> Inl er
      | Inr None \<Rightarrow> Inl (not_found (e @ '' with id '' @ i @ '' not found''))
      | Inr (Some s) \<Rightarrow> deserialize env s)"

text \<open>The members of the data written over those of the record, as the iterator visits them.\<close>

fun assign_all :: "(string \<times> json) list \<Rightarrow> json \<Rightarrow> exn + json" where
  "assign_all [] j = Inr j"
| "assign_all ((k, v) # m) j = exn_bind (jassign k v j) (assign_all m)"

fun merge_into :: "json \<Rightarrow> json \<Rightarrow> exn + json" where
  "merge_into (JObject m) j = assign_all m j"
| "merge_into JNull j = Inr j"
| "merge_into (JArray []) j = Inr j"
| "merge_into _ j = Inl (Std_exception ''invalid_iterator: cannot use key() for non-object iterators'')"

definition redis_update :: "'r redis_env \<Rightarrow> string \<Rightarrow> string \<Rightarrow> json \<Rightarrow> 'r redis_state \<Rightarrow> exn + json result \<times> 'r redis_state" where
  "redis_update env e i data st =
     (case redis_read env e i (rs_server st) of
        Inl er \<Rightarrow> Inr (Inl er, st)
      | Inr old \<Rightarrow>
          (let st1 = on_tx (recordUpdate e i old) st in
           exn_bind (merge_into data old) (\<lambda>rec.
             case cmd_set (re_cmds env) (makeKey e i) (serialize env rec) (rs_server st1) of
               (Inl er, r1) \<Rightarrow> Inr (Inl er, st1\<lparr>rs_server := r1\<rparr>)
             | (Inr _, r1) \<Rightarrow> Inr (Inr rec, st1\<lparr>rs_server := r1\<rparr>))))"

definition redis_remove :: "'r redis_env \<Rightarrow> string \<Rightarrow> string \<Rightarrow> 'r redis_state \<Rightarrow> exn + bool result \<times> 'r redis_state" where
  "redis_remove env e i st =
     exn_bind
       (case rs_tx st of
          Some tx \<Rightarrow>
            (if active tx
             then (case redis_read env e i (rs_server st) of
                     Inl er \<Rightarrow> Inr st
                   | Inr old \<Rightarrow> map_sum id (\<lambda>tx'. st\<lparr>rs_tx := Some tx'\<rparr>) (recordDelete e old tx))
             else Inr st)
        | None \<Rightarrow> Inr st) (\<lambda>st1.
       case cmd_del (re_cmds env) (makeKey e i) (rs_server st1) of
         (Inl er, r1) \<Rightarrow> Inr (Inl er, st1\<lparr>rs_server := r1\<rparr>)
       | (Inr n, r1) \<Rightarrow>
           if n = 0 then Inr (Inl (not_found (e @ '' with id '' @ i @ '' not found'')), st1\<lparr>rs_server := r1\<rparr>)
           else Inr (Inr True, st1\<lparr>rs_server := snd (cmd_srem (re_cmds env) (makeSetKey e) i r1)\<rparr>))"

definition redis_undo :: "'r redis_env \<Rightarrow> 'r redis_state undo_adapter" where
  "redis_undo env = \<lparr>ua_create = redis_create env, ua_update = redis_update env, ua_remove = redis_remove env,
     ua_tx = (\<lambda>st. case rs_tx st of Some tx \<Rightarrow> tx | None \<Rightarrow> \<lparr>undo_log = [], active = False\<rparr>),
     ua_put_tx = (\<lambda>tx st. st\<lparr>rs_tx := Some tx\<rparr>)\<rparr>"

definition redis_begin :: "'r redis_state \<Rightarrow> bool result \<times> 'r redis_state" where
  "redis_begin st =
     (if tx_active st then (Inl (internal_error ''Transaction already in progress''), st)
      else (Inr True, st\<lparr>rs_tx := Some new_tx\<rparr>))"

definition redis_commit :: "'r redis_state \<Rightarrow> bool result \<times> 'r redis_state" where
  "redis_commit st =
     (if \<not> tx_active st then (Inl (internal_error ''No transaction in progress''), st)
      else (Inr True, st\<lparr>rs_tx := None\<rparr>))"

definition redis_rollback :: "'r redis_env \<Rightarrow> 'r redis_state \<Rightarrow> exn + bool result \<times> 'r redis_state" where
  "redis_rollback env st =
     (if \<not> tx_active st then Inr (Inl (internal_error ''No transaction in progress''), st)
      else map_sum id (map_prod id (\<lambda>st'. st'\<lparr>rs_tx := None\<rparr>)) (tx_rollback (redis_undo env) st))"

section \<open>Lists and bulk operations\<close>

text \<open>
  \<^verbatim>\<open>redis_adapter_list.cpp\<close>: the ids come in the order of an unordered set, which is the order
  in which the server's answer lists them here.  The page counts from zero.
\<close>

definition matchesFilter :: "json \<Rightarrow> (string, string) omap \<Rightarrow> bool" where
  "matchesFilter rec flt = list_all (\<lambda>(k, v). jget rec k = Some (JString v)) flt"

definition records_of :: "'r redis_env \<Rightarrow> string \<Rightarrow> (string, string) omap \<Rightarrow> string list \<Rightarrow> 'r \<Rightarrow> json list" where
  "records_of env e flt ids r =
     concat (map (\<lambda>i. case redis_read env e i r of
                        Inl er \<Rightarrow> []
                      | Inr rec \<Rightarrow> if flt = [] \<or> matchesFilter rec flt then [rec] else []) ids)"

definition redis_page :: "int \<Rightarrow> int \<Rightarrow> 'a list \<Rightarrow> exn + 'a list" where
  "redis_page page limit xs =
     (case checked (page * limit) of
        None \<Rightarrow> Inl Undefined
      | Some offset \<Rightarrow>
          let n = size_to_int (length xs) in
          if offset < n
          then (case checked (offset + limit) of
                  None \<Rightarrow> Inl Undefined
                | Some stop \<Rightarrow> vec_range offset (min stop n) xs)
          else Inr [])"

definition redis_list :: "'r redis_env \<Rightarrow> string \<Rightarrow> list_options \<Rightarrow> 'r \<Rightarrow> exn + (json list \<times> int) result" where
  "redis_list env e opts r =
     (if e \<notin> re_schemas env then Inr (Inl (no_schema e))
      else case cmd_smembers (re_cmds env) (makeSetKey e) r of
        Inl er \<Rightarrow> Inr (Inl er)
      | Inr ids \<Rightarrow>
          (let recs = records_of env e (lo_filter opts) ids r;
               limit = (if lo_limit opts > 0 then lo_limit opts else 100)
           in map_sum id (\<lambda>items. Inr (items, size_to_int (length recs))) (redis_page (lo_page opts) limit recs)))"

text \<open>\<^verbatim>\<open>redis_operations.cpp\<close>\<close>

fun redis_create_many :: "'r redis_env \<Rightarrow> string \<Rightarrow> json list \<Rightarrow> int \<Rightarrow> 'r redis_state \<Rightarrow> exn + int \<times> 'r redis_state" where
  "redis_create_many env e [] n st = Inr (n, st)"
| "redis_create_many env e (d # ds) n st =
     (case redis_create env e d st of
        Inl x \<Rightarrow> Inl x
      | Inr (res, st') \<Rightarrow> redis_create_many env e ds (if is_ok res then n + 1 else n) st')"

text \<open>The filter of a bulk operation holds the dumped values.\<close>

fun dumped_filter :: "'r redis_env \<Rightarrow> json \<Rightarrow> exn + (string, string) omap" where
  "dumped_filter env (JObject []) = Inr []"
| "dumped_filter env (JObject ((k, v) # m)) =
     exn_bind (re_dump env v) (\<lambda>s. map_sum id (om_put k s) (dumped_filter env (JObject m)))"
| "dumped_filter env _ = Inr []"

definition record_id :: "json \<Rightarrow> exn + string" where
  "record_id rec = (case jget rec ''id'' of None \<Rightarrow> Inl Undefined | Some v \<Rightarrow> get_string v)"

fun update_each :: "'r redis_env \<Rightarrow> string \<Rightarrow> json \<Rightarrow> json list \<Rightarrow> int \<Rightarrow> 'r redis_state \<Rightarrow> exn + int \<times> 'r redis_state" where
  "update_each env e data [] n st = Inr (n, st)"
| "update_each env e data (rec # recs) n st =
     exn_bind (record_id rec) (\<lambda>i.
     exn_bind (redis_update env e i data st) (\<lambda>(res, st').
       update_each env e data recs (if is_ok res then n + 1 else n) st'))"

fun remove_each :: "'r redis_env \<Rightarrow> string \<Rightarrow> json list \<Rightarrow> int \<Rightarrow> 'r redis_state \<Rightarrow> exn + int \<times> 'r redis_state" where
  "remove_each env e [] n st = Inr (n, st)"
| "remove_each env e (rec # recs) n st =
     exn_bind (record_id rec) (\<lambda>i.
     exn_bind (redis_remove env e i st) (\<lambda>(res, st').
       remove_each env e recs (if is_ok res then n + 1 else n) st'))"

definition redis_update_many :: "'r redis_env \<Rightarrow> string \<Rightarrow> json \<Rightarrow> json \<Rightarrow> 'r redis_state \<Rightarrow> exn + int result \<times> 'r redis_state" where
  "redis_update_many env e flt data st =
     exn_bind (dumped_filter env flt) (\<lambda>f.
     exn_bind (redis_list env e (default_list_options\<lparr>lo_filter := f\<rparr>) (rs_server st)) (\<lambda>res.
       case res of
         Inl er \<Rightarrow> Inr (Inl er, st)
       | Inr (items, _) \<Rightarrow> map_sum id (map_prod Inr id) (update_each env e data items 0 st)))"

definition redis_delete_many :: "'r redis_env \<Rightarrow> string \<Rightarrow> json \<Rightarrow> 'r redis_state \<Rightarrow> exn + int result \<times> 'r redis_state" where
  "redis_delete_many env e flt st =
     exn_bind (dumped_filter env flt) (\<lambda>f.
     exn_bind (redis_list env e (default_list_options\<lparr>lo_filter := f\<rparr>) (rs_server st)) (\<lambda>res.
       case res of
         Inl er \<Rightarrow> Inr (Inl er, st)
       | Inr (items, _) \<Rightarrow> map_sum id (map_prod Inr id) (remove_each env e items 0 st)))"

text \<open>The conversion of a JSON value to \<^verbatim>\<open>std::map<string, string>\<close>.\<close>

fun string_members :: "(string \<times> json) list \<Rightarrow> exn + (string, string) omap" where
  "string_members [] = Inr []"
| "string_members ((k, v) # m) = exn_bind (get_string v) (\<lambda>s. map_sum id (om_put k s) (string_members m))"

fun to_string_map :: "json \<Rightarrow> exn + (string, string) omap" where
  "to_string_map (JObject m) = string_members m"
| "to_string_map _ = Inl (type_error ''type must be object'')"

definition redis_find_first :: "'r redis_env \<Rightarrow> string \<Rightarrow> json \<Rightarrow> 'r \<Rightarrow> exn + json result" where
  "redis_find_first env e flt r =
     exn_bind (to_string_map flt) (\<lambda>f.
     exn_bind (redis_list env e (default_list_options\<lparr>lo_filter := f, lo_limit := 1\<rparr>) r) (\<lambda>res.
       Inr (case res of
              Inl er \<Rightarrow> Inl er
            | Inr ([], _) \<Rightarrow> Inl (not_found ''No matching record found'')
            | Inr (item # _, _) \<Rightarrow> Inr item)))"

definition redis_find_by_field :: "'r redis_env \<Rightarrow> string \<Rightarrow> string \<Rightarrow> json \<Rightarrow> 'r \<Rightarrow> exn + json result" where
  "redis_find_by_field env e field v r = redis_find_first env e (JObject [(field, v)]) r"

definition redis_upsert :: "'r redis_env \<Rightarrow> string \<Rightarrow> string \<Rightarrow> json \<Rightarrow> json \<Rightarrow> json \<Rightarrow> 'r redis_state \<Rightarrow> exn + json result \<times> 'r redis_state" where
  "redis_upsert env e field v create_data update_data st =
     exn_bind (redis_find_by_field env e field v (rs_server st)) (\<lambda>found.
       case found of
         Inr rec \<Rightarrow> exn_bind (record_id rec) (\<lambda>i. redis_update env e i update_data st)
       | Inl _ \<Rightarrow> redis_create env e create_data st)"

end
