(* ===== verification/Redis_Properties.thy ===== *)
theory Redis_Properties
  imports Redis_Adapter
begin

text \<open>
  What the Redis adapter does for every server that keeps the keys as Redis documents it: records
  that are written are read back, and other records stay; and what becomes of a rollback.
\<close>

section \<open>The server\<close>

datatype redis_value = RStr string | RSet "string set"

locale redis_server =
  fixes c :: "'r redis_cmds" and view :: "'r \<Rightarrow> string \<Rightarrow> redis_value option"
  assumes set_ok: "rc_set c r k v = (Inr u, r') \<Longrightarrow> view r' = (view r)(k \<mapsto> RStr v)"
    and set_error: "rc_set c r k v = (Inl x, r') \<Longrightarrow> view r' = view r"
    and get_ok: "rc_get c r k = Inr y \<Longrightarrow> (\<forall>S. view r k \<noteq> Some (RSet S)) \<and> (y = None \<longleftrightarrow> view r k = None) \<and> (\<forall>s. y = Some s \<longleftrightarrow> view r k = Some (RStr s))"
    and del_ok: "rc_del c r k = (Inr n, r') \<Longrightarrow> view r' = (view r)(k := None) \<and> (n = 0 \<longleftrightarrow> view r k = None)"
    and del_error: "rc_del c r k = (Inl x, r') \<Longrightarrow> view r' = view r"
    and sadd_key: "rc_sadd c r k m = (z, r') \<Longrightarrow> k' \<noteq> k \<Longrightarrow> view r' k' = view r k'"
    and srem_key: "rc_srem c r k m = (z, r') \<Longrightarrow> k' \<noteq> k \<Longrightarrow> view r' k' = view r k'"
    and incr_key: "rc_incr c r k = (z, r') \<Longrightarrow> k' \<noteq> k \<Longrightarrow> view r' k' = view r k'"
begin

lemma cmd_set_ok: "cmd_set c k v r = (Inr b, r') \<Longrightarrow> view r' = (view r)(k \<mapsto> RStr v)"
proof -
  assume "cmd_set c k v r = (Inr b, r')"
  then obtain x where "rc_set c r k v = (x, r')" "executed (map_sum id (\<lambda>_. True) x) = Inr b"
    by (auto simp: cmd_set_def split: prod.split_asm)
  then show ?thesis using set_ok by (cases x) (auto simp: executed_def)
qed

lemma cmd_set_error: "cmd_set c k v r = (Inl x, r') \<Longrightarrow> view r' = view r"
proof -
  assume "cmd_set c k v r = (Inl x, r')"
  then obtain y where "rc_set c r k v = (y, r')" "executed (map_sum id (\<lambda>_. True) y) = Inl x"
    by (auto simp: cmd_set_def split: prod.split_asm)
  then show ?thesis using set_error by (cases y) (auto simp: executed_def)
qed

lemma cmd_del_error: "cmd_del c k r = (Inl x, r') \<Longrightarrow> view r' = view r"
  using del_error [of r k] by (auto simp: cmd_del_def executed_def split: prod.split_asm sum.split_asm)

lemma cmd_get_ok: "cmd_get c k r = Inr y \<Longrightarrow> y = None \<longleftrightarrow> view r k = None"
  by (auto simp: cmd_get_def executed_def dest!: get_ok split: sum.split_asm)

lemma cmd_get_some: "cmd_get c k r = Inr (Some s) \<longleftrightarrow> rc_get c r k = Inr (Some s)"
  by (auto simp: cmd_get_def executed_def split: sum.split_asm)

lemma cmd_sadd_key: "k' \<noteq> k \<Longrightarrow> view (snd (cmd_sadd c k m r)) k' = view r k'"
  by (auto simp: cmd_sadd_def dest: sadd_key split: prod.split)

lemma cmd_srem_key: "k' \<noteq> k \<Longrightarrow> view (snd (cmd_srem c k m r)) k' = view r k'"
  by (auto simp: cmd_srem_def dest: srem_key split: prod.split)

lemma cmd_del_ok: "cmd_del c k r = (Inr n, r') \<Longrightarrow> view r' = (view r)(k := None) \<and> (n = 0 \<longleftrightarrow> view r k = None)"
  by (auto simp: cmd_del_def executed_def dest: del_ok split: prod.split_asm sum.split_asm)

end

text \<open>A server in working order: reading a string or a missing key, and writing, succeed.\<close>

locale working_redis = redis_server +
  assumes get_total: "(\<forall>S. view r k \<noteq> Some (RSet S)) \<Longrightarrow> \<exists>y. rc_get c r k = Inr y"
    and set_total: "\<exists>u r'. rc_set c r k v = (Inr u, r')"
    and del_total: "\<exists>n r'. rc_del c r k = (Inr n, r')"

section \<open>A server in memory\<close>

type_synonym redis_db = "string \<Rightarrow> redis_value option"

definition mem_redis :: "redis_db redis_cmds" where
  "mem_redis = \<lparr>
     rc_set = (\<lambda>r k v. (Inr (), r(k \<mapsto> RStr v))),
     rc_get = (\<lambda>r k. case r k of None \<Rightarrow> Inr None | Some (RStr s) \<Rightarrow> Inr (Some s) | Some (RSet _) \<Rightarrow> Inl ''WRONGTYPE''),
     rc_del = (\<lambda>r k. (Inr (if r k = None then 0 else 1), r(k := None))),
     rc_sadd = (\<lambda>r k m. case r k of
        None \<Rightarrow> (Inr 1, r(k \<mapsto> RSet {m}))
      | Some (RSet S) \<Rightarrow> (Inr (if m \<in> S then 0 else 1), r(k \<mapsto> RSet (insert m S)))
      | Some (RStr _) \<Rightarrow> (Inl ''WRONGTYPE'', r)),
     rc_srem = (\<lambda>r k m. case r k of
        None \<Rightarrow> (Inr 0, r)
      | Some (RSet S) \<Rightarrow> (Inr (if m \<in> S then 1 else 0), r(k := if S - {m} = {} then None else Some (RSet (S - {m}))))
      | Some (RStr _) \<Rightarrow> (Inl ''WRONGTYPE'', r)),
     rc_smembers = (\<lambda>r k. case r k of
        None \<Rightarrow> Inr [] | Some (RSet S) \<Rightarrow> Inr (sorted_list_of_set S) | Some (RStr _) \<Rightarrow> Inl ''WRONGTYPE''),
     rc_incr = (\<lambda>r k. case r k of
        None \<Rightarrow> (Inr 1, r(k \<mapsto> RStr ''1''))
      | Some (RStr s) \<Rightarrow> (if s \<noteq> [] \<and> list_all is_digit s then (Inr (int (digits_val s) + 1), r(k \<mapsto> RStr (nat_digits (digits_val s + 1))))
                       else (Inl ''ERR value is not an integer or out of range'', r))
      | Some (RSet _) \<Rightarrow> (Inl ''WRONGTYPE'', r))\<rparr>"

interpretation mem: working_redis mem_redis "\<lambda>r k. r k"
  by unfold_locales
     (auto simp: mem_redis_def split: option.split_asm redis_value.split_asm option.split redis_value.split if_splits)

section \<open>The records behind the keys\<close>

text \<open>What the JSON library documents: the text that a value is dumped to parses to the value.\<close>

definition dump_parses :: "'r redis_env \<Rightarrow> bool" where
  "dump_parses env \<longleftrightarrow> (\<forall>j s. re_dump env j = Inr s \<longrightarrow> re_parse env s = Inr j)"

definition stored :: "'r redis_env \<Rightarrow> (string \<Rightarrow> redis_value option) \<Rightarrow> string \<Rightarrow> string \<Rightarrow> json option" where
  "stored env keys e i =
     (case keys (makeKey e i) of
        Some (RStr s) \<Rightarrow> (case re_parse env s of Inr j \<Rightarrow> Some j | Inl x \<Rightarrow> None)
      | _ \<Rightarrow> None)"

text \<open>Names whose record keys are their own: no colon in the entity, no reserved id.\<close>

definition plain :: "string \<Rightarrow> string \<Rightarrow> bool" where
  "plain e i \<longleftrightarrow> CHR '':'' \<notin> set e \<and> i \<noteq> ''all'' \<and> i \<noteq> ''id_counter''"

lemma makeKey_inject: "plain e i \<Longrightarrow> plain e' i' \<Longrightarrow> makeKey e i = makeKey e' i' \<longleftrightarrow> e = e' \<and> i = i'"
  by (simp add: plain_def makeKey_def colon_split)

lemma makeKey_reserved:
  assumes "plain e i" "plain e' i'"
  shows "makeKey e i \<noteq> makeSetKey e'" "makeKey e i \<noteq> makeCounterKey e'"
  using assms colon_split [of e e' i "''all''"] colon_split [of e e' i "''id_counter''"]
  by (auto simp: plain_def makeKey_def makeSetKey_def makeCounterKey_def)

lemma serialize_dump: "re_dump env j = Inr s \<Longrightarrow> serialize env j = s"
  by (simp add: serialize_def)

lemma map_sum_Inr_iff: "map_sum id f x = Inr v \<longleftrightarrow> (\<exists>y. x = Inr y \<and> v = f y)"
  by (cases x) auto

context redis_server
begin

lemma generateId_key: "generateId env e r = (i, r') \<Longrightarrow> re_cmds env = c \<Longrightarrow> k \<noteq> makeCounterKey e \<Longrightarrow> view r' k = view r k"
proof -
  assume id: "generateId env e r = (i, r')" and env: "re_cmds env = c" and k: "k \<noteq> makeCounterKey e"
  obtain z r1 where incr: "rc_incr c r (makeCounterKey e) = (z, r1)" by force
  have "r' = r1" using id by (auto simp: generateId_def cmd_incr_def env incr split: sum.split_asm)
  then show ?thesis using incr_key [OF incr k] by simp
qed

lemma read_stored:
  assumes "re_cmds env = c" "redis_read env e i r = Inr j"
  shows "stored env (view r) e i = Some j"
proof -
  obtain s where "cmd_get c (makeKey e i) r = Inr (Some s)" "deserialize env s = Inr j"
    using assms by (auto simp: redis_read_def split: if_splits sum.split_asm option.split_asm)
  moreover from this have "view r (makeKey e i) = Some (RStr s)" using cmd_get_some get_ok by blast
  ultimately show ?thesis by (auto simp: stored_def deserialize_def split: sum.split_asm)
qed

text \<open>A successful write of a record at a plain key, followed by a command on a reserved key.\<close>

lemma stored_write:
  assumes "dump_parses env" "re_dump env rec = Inr s" "plain e i" "plain e' i'"
    and "\<And>k. k \<noteq> makeSetKey e \<Longrightarrow> k \<noteq> makeCounterKey e \<Longrightarrow> keys' k = (keys(makeKey e i \<mapsto> RStr (serialize env rec))) k"
  shows "stored env keys' e' i' = (if e' = e \<and> i' = i then Some rec else stored env keys e' i')"
proof -
  have "keys' (makeKey e' i') = (keys(makeKey e i \<mapsto> RStr s)) (makeKey e' i')"
    using assms(5) [of "makeKey e' i'"] makeKey_reserved [of e' i' e i] assms(2-4) by (simp add: serialize_dump)
  then show ?thesis
    using makeKey_inject [OF assms(4,3)] assms(1,2) by (auto simp: stored_def dump_parses_def)
qed

lemma create_runs:
  assumes "re_cmds env = c" "redis_create env e data st = Inr (Inr rec, st')"
  obtains i r b r1 where
    "\<forall>k. k \<noteq> makeCounterKey e \<longrightarrow> view r k = view (rs_server st) k"
    "jassign ''id'' (JString i) data = Inr rec"
    "cmd_set c (makeKey e i) (serialize env rec) r = (Inr b, r1)" "e \<in> re_schemas env"
    "st' = on_tx (recordCreate e i) (st\<lparr>rs_server := snd (cmd_sadd c (makeSetKey e) i r1)\<rparr>)"
proof -
  have e: "e \<in> re_schemas env" using assms(2) by (auto simp: redis_create_def split: if_splits)
  obtain i r where ir: "(case jget data ''id'' of
        Some v \<Rightarrow> if is_null v then Inr (generateId env e (rs_server st))
                  else map_sum id (\<lambda>i. (i, rs_server st)) (get_string v)
      | None \<Rightarrow> Inr (generateId env e (rs_server st))) = Inr (i, r)"
    and rest: "exn_bind (jassign ''id'' (JString i) data) (\<lambda>rec.
          case cmd_set c (makeKey e i) (serialize env rec) r of
            (Inl er, r1) \<Rightarrow> Inr (Inl er, st\<lparr>rs_server := r1\<rparr>)
          | (Inr _, r1) \<Rightarrow> Inr (Inr rec, on_tx (recordCreate e i)
                (st\<lparr>rs_server := snd (cmd_sadd c (makeSetKey e) i r1)\<rparr>))) = Inr (Inr rec, st')"
    using assms e unfolding redis_create_def exn_bind_def Let_def by (auto split: sum.split_asm prod.split_asm)
  have "view r k = view (rs_server st) k" if "k \<noteq> makeCounterKey e" for k
  proof -
    from ir consider "generateId env e (rs_server st) = (i, r)" | "r = rs_server st"
      by (auto split: option.split_asm if_splits simp: map_sum_Inr_iff)
    then show ?thesis using generateId_key [OF _ assms(1) that] by cases auto
  qed
  moreover obtain b r1 where "jassign ''id'' (JString i) data = Inr rec"
      "cmd_set c (makeKey e i) (serialize env rec) r = (Inr b, r1)"
      "st' = on_tx (recordCreate e i) (st\<lparr>rs_server := snd (cmd_sadd c (makeSetKey e) i r1)\<rparr>)"
    using rest by (auto simp: exn_bind_def split: sum.split_asm prod.split_asm)
  ultimately show thesis using that e by blast
qed

lemma on_tx_server [simp]: "rs_server (on_tx f st) = rs_server st"
  by (simp add: on_tx_def)

lemma create_stored:
  assumes env: "re_cmds env = c" and create: "redis_create env e data st = Inr (Inr rec, st')"
    and json: "dump_parses env" "re_dump env rec = Inr s"
    and i: "jget rec ''id'' = Some (JString i)" "plain e i" and p: "plain e' i'"
  shows "stored env (view (rs_server st')) e' i' = (if e' = e \<and> i' = i then Some rec else stored env (view (rs_server st)) e' i')"
proof -
  obtain i1 r b r1 where run: "\<forall>k. k \<noteq> makeCounterKey e \<longrightarrow> view r k = view (rs_server st) k"
      "jassign ''id'' (JString i1) data = Inr rec"
      "cmd_set c (makeKey e i1) (serialize env rec) r = (Inr b, r1)" "e \<in> re_schemas env"
      "st' = on_tx (recordCreate e i1) (st\<lparr>rs_server := snd (cmd_sadd c (makeSetKey e) i1 r1)\<rparr>)"
    by (rule create_runs [OF env create]; rule that; assumption)
  have "i1 = i" using run(2) i(1) by (cases data) auto
  moreover have "view (rs_server st') k = ((view (rs_server st))(makeKey e i1 \<mapsto> RStr (serialize env rec))) k"
    if "k \<noteq> makeSetKey e" "k \<noteq> makeCounterKey e" for k
    using that cmd_sadd_key [of k "makeSetKey e" i1 r1] cmd_set_ok [OF run(3)] run(1,5) by simp
  ultimately show ?thesis by (intro stored_write [OF json i(2) p]) simp
qed

lemma update_stored:
  assumes env: "re_cmds env = c" and update: "redis_update env e i data st = Inr (Inr rec, st')"
    and json: "dump_parses env" "re_dump env rec = Inr s" and p: "plain e i" "plain e' i'"
  shows "stored env (view (rs_server st')) e' i' = (if e' = e \<and> i' = i then Some rec else stored env (view (rs_server st)) e' i')"
proof -
  obtain old b r1 where run: "redis_read env e i (rs_server st) = Inr old" "merge_into data old = Inr rec"
      "cmd_set c (makeKey e i) (serialize env rec) (rs_server st) = (Inr b, r1)" "rs_server st' = r1"
    using update env by (auto simp: redis_update_def exn_bind_def Let_def split: sum.split_asm prod.split_asm)
  show ?thesis by (rule stored_write [OF json p]) (simp add: run(4) cmd_set_ok [OF run(3)])
qed

lemma remove_stored:
  assumes env: "re_cmds env = c" and remove: "redis_remove env e i st = Inr (Inr b, st')" and p: "plain e i" "plain e' i'"
  shows "stored env (view (rs_server st')) e' i' = (if e' = e \<and> i' = i then None else stored env (view (rs_server st)) e' i')"
proof -
  obtain n r1 where run: "cmd_del c (makeKey e i) (rs_server st) = (Inr n, r1)"
      "rs_server st' = snd (cmd_srem c (makeSetKey e) i r1)"
    using remove env
    by (auto simp: redis_remove_def exn_bind_def map_sum_Inr_iff split: sum.split_asm prod.split_asm option.split_asm if_splits)
  have "view (rs_server st') (makeKey e' i') = ((view (rs_server st))(makeKey e i := None)) (makeKey e' i')"
    using run(2) cmd_srem_key [of "makeKey e' i'" "makeSetKey e" i r1] makeKey_reserved(1) [OF p(2,1)] cmd_del_ok [OF run(1)] by simp
  then show ?thesis using makeKey_inject [OF p(2,1)] by (auto simp: stored_def)
qed

end

context working_redis
begin

lemma stored_read:
  assumes "re_cmds env = c" "e \<in> re_schemas env" "stored env (view r) e i = Some j"
  shows "redis_read env e i r = Inr j"
proof -
  obtain s where s: "view r (makeKey e i) = Some (RStr s)" "re_parse env s = Inr j"
    using assms(3) by (auto simp: stored_def split: option.split_asm redis_value.split_asm sum.split_asm)
  then obtain y where y: "rc_get c r (makeKey e i) = Inr y" using get_total [of r "makeKey e i"] by auto
  with get_ok [OF y] s have "y = Some s" by simp
  with y s assms(1,2) show ?thesis by (simp add: redis_read_def cmd_get_def executed_def deserialize_def)
qed

text \<open>Undoing a create through the adapter that records: the removal is itself recorded.\<close>

lemma remove_records:
  assumes "re_cmds env = c" "rs_tx st = Some tx" "active tx"
    and "redis_read env e i (rs_server st) = Inr old" "jget old ''id'' = Some (JString i')"
  shows "\<exists>res st'. redis_remove env e i st = Inr (res, st') \<and>
    rs_tx st' = Some (record_undo UNDO_DELETE e i' old tx)"
proof -
  obtain n r1 where "rc_del c (rs_server st) (makeKey e i) = (Inr n, r1)" using del_total by blast
  then show ?thesis
    using assms by (auto simp: redis_remove_def recordDelete_def exn_bind_def cmd_del_def executed_def)
qed

lemma create_then_rollback:
  assumes env: "re_cmds env = c" and begin_tx: "redis_begin st = (Inr True, st1)"
    and create: "redis_create env e data st1 = Inr (Inr rec, st2)"
    and json: "dump_parses env" "re_dump env rec = Inr s" and i: "jget rec ''id'' = Some (JString i)" "plain e i"
  shows "redis_rollback env st2 = Inl Undefined"
proof -
  obtain i1 r b r1 where run: "\<forall>k. k \<noteq> makeCounterKey e \<longrightarrow> view r k = view (rs_server st1) k"
      "jassign ''id'' (JString i1) data = Inr rec"
      "cmd_set c (makeKey e i1) (serialize env rec) r = (Inr b, r1)" "e \<in> re_schemas env"
      "st2 = on_tx (recordCreate e i1) (st1\<lparr>rs_server := snd (cmd_sadd c (makeSetKey e) i1 r1)\<rparr>)"
    by (rule create_runs [OF env create]; rule that; assumption)
  have i1: "i1 = i" using run(2) i(1) by (cases data) auto
  let ?tx = "recordCreate e i new_tx"
  have "rs_tx st1 = Some new_tx" using begin_tx by (auto simp: redis_begin_def split: if_splits)
  then have tx: "rs_tx st2 = Some ?tx" by (simp add: run(5) i1 on_tx_def tx_active_def new_tx_def)
  have act: "active ?tx" by (simp add: recordCreate_def record_undo_def new_tx_def)
  have "redis_read env e i (rs_server st2) = Inr rec"
    using create_stored [OF env create json i i(2)] by (intro stored_read [OF env run(4)]) simp
  from remove_records [OF env tx act this i(1)] obtain res st3 where
    st3: "redis_remove env e i st2 = Inr (res, st3)" "rs_tx st3 = Some (record_undo UNDO_DELETE e i rec ?tx)"
    by blast
  have "undo_log ?tx = [\<lparr>uo_type = UNDO_CREATE, uo_entity = e, uo_id = i, uo_data = JNull\<rparr>]"
    by (simp add: recordCreate_def record_undo_def new_tx_def)
  then have "tx_rollback (redis_undo env) st2 = Inl Undefined"
    using act st3 tx by (simp add: tx_rollback_def redis_undo_def run_undo_def record_undo_def)
  then show ?thesis using act tx by (simp add: redis_rollback_def tx_active_def)
qed

end

section \<open>Properties\<close>


definition demo_record :: json where
  "demo_record = JObject [(''id'', JString ''7''), (''name'', JString ''ada'')]"

definition demo_redis :: "redis_db redis_env" where
  "demo_redis = \<lparr>re_cmds = mem_redis, re_dump = (\<lambda>j. if j = demo_record then Inr ''ada'' else Inl Undefined),
     re_parse = (\<lambda>s. if s = ''ada'' then Inr demo_record else Inl ''no JSON''), re_schemas = {''User''}\<rparr>"

definition demo_start :: "redis_db redis_state" where
  "demo_start = \<lparr>rs_server = Map.empty, rs_tx = Some new_tx\<rparr>"

definition demo_created :: "redis_db redis_state" where
  "demo_created = \<lparr>rs_server = [''User:7'' \<mapsto> RStr ''ada'', ''User:all'' \<mapsto> RSet {''7''}],
     rs_tx = Some (recordCreate ''User'' ''7'' new_tx)\<rparr>"

lemma demo_create: "redis_create demo_redis ''User'' demo_record demo_start = Inr (Inr demo_record, demo_created)"
  by (simp add: redis_create_def demo_redis_def demo_record_def demo_start_def demo_created_def mem_redis_def exn_bind_def
      cmd_set_def cmd_sadd_def executed_def serialize_def makeKey_def makeSetKey_def on_tx_def tx_active_def new_tx_def fun_upd_twist)

lemma demo_redis_ok: "working_redis (re_cmds demo_redis) (\<lambda>r k. r k)" "dump_parses demo_redis"
    "re_dump demo_redis demo_record = Inr ''ada''" "jget demo_record ''id'' = Some (JString ''7'')" "plain ''User'' ''7''"
  using mem.working_redis_axioms by (auto simp: demo_redis_def dump_parses_def demo_record_def plain_def)


text \<open>
  The simplest transaction cannot be rolled back.  After a transaction has begun and a record
  was created in it, the rollback removes the record through the adapter, which still records
  into the transaction: the log that the loop walks with iterators grows under it, and the
  behaviour of the program is undefined.
\<close>

theorem redis_rollback_undefined:
  assumes "working_redis (re_cmds env) view" "redis_begin st = (Inr True, st1)"
    and "redis_create env e data st1 = Inr (Inr rec, st2)"
    and "dump_parses env" "re_dump env rec = Inr s" "jget rec ''id'' = Some (JString i)" "plain e i"
  shows "redis_rollback env st2 = Inl Undefined"
  by (rule working_redis.create_then_rollback [OF assms(1) refl assms(2-7)])

theorem redis_rollback_undefined_witness:
  "redis_rollback demo_redis demo_created = Inl Undefined"
proof -
  have "redis_begin \<lparr>rs_server = Map.empty, rs_tx = None\<rparr> = (Inr True, demo_start)"
    by (simp add: redis_begin_def demo_start_def tx_active_def)
  from redis_rollback_undefined [OF demo_redis_ok(1) this demo_create demo_redis_ok(2-5)] show ?thesis .
qed

end
