(* ===== verification/Cache_Adapter.thy ===== *)
theory Cache_Adapter
  imports Json_Value Entity_Store
begin

text \<open>
  The read-through cache in front of an adapter (\<^verbatim>\<open>src/cache/caching_adapter.cpp\<close>), the names of
  its keys (\<^verbatim>\<open>include/dbal/cache/cache_key.hpp\<close>) and its configuration
  (\<^verbatim>\<open>src/cache/cache_config.cpp\<close>).  The wrapped adapter and the cache server are parameters: records
  of their operations, over states \<open>'a\<close> and \<open>'r\<close> of their own.  A result is \<^const>\<open>Inl\<close> where a
  C++ exception leaves the function.  The loop that scans the keys of an entity is a
  \<^theory_text>\<open>partial_function\<close>: it ends when the server says so.
\<close>

section \<open>The wrapped adapter\<close>

text \<open>The interface \<^verbatim>\<open>Adapter\<close>; \<open>'o\<close> are the options of a list, \<open>'l\<close> is its result and \<open>'k\<close> a schema.\<close>

record ('a, 'o, 'l, 'k) base_adapter =
  ba_create :: "string \<Rightarrow> json \<Rightarrow> 'a \<Rightarrow> exn + json result \<times> 'a"
  ba_read :: "string \<Rightarrow> string \<Rightarrow> 'a \<Rightarrow> exn + json result \<times> 'a"
  ba_read_sensitive :: "string \<Rightarrow> string \<Rightarrow> 'a \<Rightarrow> exn + json result \<times> 'a"
  ba_search :: "string \<Rightarrow> string \<Rightarrow> int \<Rightarrow> 'a \<Rightarrow> exn + 'l result \<times> 'a"
  ba_update :: "string \<Rightarrow> string \<Rightarrow> json \<Rightarrow> 'a \<Rightarrow> exn + json result \<times> 'a"
  ba_remove :: "string \<Rightarrow> string \<Rightarrow> 'a \<Rightarrow> exn + bool result \<times> 'a"
  ba_list :: "string \<Rightarrow> 'o \<Rightarrow> 'a \<Rightarrow> exn + 'l result \<times> 'a"
  ba_create_many :: "string \<Rightarrow> json list \<Rightarrow> 'a \<Rightarrow> exn + int result \<times> 'a"
  ba_update_many :: "string \<Rightarrow> json \<Rightarrow> json \<Rightarrow> 'a \<Rightarrow> exn + int result \<times> 'a"
  ba_delete_many :: "string \<Rightarrow> json \<Rightarrow> 'a \<Rightarrow> exn + int result \<times> 'a"
  ba_find_first :: "string \<Rightarrow> json \<Rightarrow> 'a \<Rightarrow> exn + json result \<times> 'a"
  ba_find_by_field :: "string \<Rightarrow> string \<Rightarrow> json \<Rightarrow> 'a \<Rightarrow> exn + json result \<times> 'a"
  ba_upsert :: "string \<Rightarrow> string \<Rightarrow> json \<Rightarrow> json \<Rightarrow> json \<Rightarrow> 'a \<Rightarrow> exn + json result \<times> 'a"
  ba_entities :: "'a \<Rightarrow> exn + string list result \<times> 'a"
  ba_schema :: "string \<Rightarrow> 'a \<Rightarrow> exn + 'k result \<times> 'a"
  ba_close :: "'a \<Rightarrow> exn + unit \<times> 'a"
  ba_native :: "'a \<Rightarrow> bool"
  ba_begin :: "'a \<Rightarrow> exn + bool result \<times> 'a"
  ba_commit :: "'a \<Rightarrow> exn + bool result \<times> 'a"
  ba_rollback :: "'a \<Rightarrow> exn + bool result \<times> 'a"

section \<open>The cache server\<close>

text \<open>The commands of \<^verbatim>\<open>sw::redis::Redis\<close> that the cache sends; each may throw.\<close>

record 'r cache_cmds =
  cc_get :: "'r \<Rightarrow> string \<Rightarrow> string + string option"
  cc_setex :: "'r \<Rightarrow> string \<Rightarrow> int \<Rightarrow> string \<Rightarrow> (string + unit) \<times> 'r"
  cc_del :: "'r \<Rightarrow> string \<Rightarrow> (string + int) \<times> 'r"
  cc_scan :: "'r \<Rightarrow> int \<Rightarrow> string \<Rightarrow> int \<Rightarrow> string + int \<times> string list"
  cc_unlink :: "'r \<Rightarrow> string list \<Rightarrow> (string + int) \<times> 'r"

record 'r cache_env =
  ce_cmds :: "'r cache_cmds"
  ce_dump :: "json \<Rightarrow> exn + string"
  ce_parse :: "string \<Rightarrow> json option"

section \<open>Keys\<close>

definition kCacheKeyPrefix :: string where
  "kCacheKeyPrefix = ''dbal:cache''"

definition recordKey :: "string \<Rightarrow> string \<Rightarrow> string" where
  "recordKey entity i = kCacheKeyPrefix @ '':'' @ entity @ '':'' @ i"

definition entityScanPattern :: "string \<Rightarrow> string" where
  "entityScanPattern entity = kCacheKeyPrefix @ '':'' @ entity @ '':*''"

text \<open>
  \<^verbatim>\<open>idFromRecord\<close>: an integer beyond 64 bits signed, which JSON keeps unsigned, wraps when it
  is read as \<^verbatim>\<open>long long\<close>.
\<close>

definition idFromRecord :: "json \<Rightarrow> string" where
  "idFromRecord rec =
     (if \<not> is_object rec then []
      else case jget rec ''id'' of
        Some (JString s) \<Rightarrow> s
      | Some (JInt n) \<Rightarrow> int_digits (if n \<ge> 2 ^ 63 then n - 2 ^ 64 else n)
      | _ \<Rightarrow> [])"

section \<open>The caching adapter\<close>

record ('a, 'r) cached =
  ca_inner :: 'a
  ca_redis :: 'r
  ca_ttl :: int

text \<open>The answer of the cache, when it has one that can be read.\<close>

definition cache_lookup :: "'r cache_env \<Rightarrow> string \<Rightarrow> string \<Rightarrow> 'r \<Rightarrow> json option" where
  "cache_lookup env e i r =
     (case cc_get (ce_cmds env) r (recordKey e i) of
        Inl x \<Rightarrow> None
      | Inr None \<Rightarrow> None
      | Inr (Some s) \<Rightarrow> ce_parse env s)"

definition backfill :: "'r cache_env \<Rightarrow> int \<Rightarrow> string \<Rightarrow> string \<Rightarrow> json \<Rightarrow> 'r \<Rightarrow> 'r" where
  "backfill env ttl e i j r =
     (case ce_dump env j of
        Inl x \<Rightarrow> r
      | Inr s \<Rightarrow> snd (cc_setex (ce_cmds env) r (recordKey e i) ttl s))"

definition cached_read ::
    "'r cache_env \<Rightarrow> ('a, 'o, 'l, 'k) base_adapter \<Rightarrow> string \<Rightarrow> string \<Rightarrow> ('a, 'r) cached \<Rightarrow> exn + json result \<times> ('a, 'r) cached" where
  "cached_read env ad e i st =
     (case cache_lookup env e i (ca_redis st) of
        Some j \<Rightarrow> Inr (Inr j, st)
      | None \<Rightarrow>
          exn_bind (ba_read ad e i (ca_inner st)) (\<lambda>(res, a).
            Inr (res, case res of
                        Inl x \<Rightarrow> st\<lparr>ca_inner := a\<rparr>
                      | Inr j \<Rightarrow> st\<lparr>ca_inner := a, ca_redis := backfill env (ca_ttl st) e i j (ca_redis st)\<rparr>)))"

subsection \<open>Invalidation\<close>

definition invalidateRecord :: "'r cache_env \<Rightarrow> string \<Rightarrow> string \<Rightarrow> 'r \<Rightarrow> 'r" where
  "invalidateRecord env e i r =
     (if i = [] then r else snd (cc_del (ce_cmds env) r (recordKey e i)))"

partial_function (option) scan_unlink ::
    "'r cache_cmds \<Rightarrow> string \<Rightarrow> int \<Rightarrow> 'r \<Rightarrow> ((string + unit) \<times> 'r) option" where
  "scan_unlink c pattern cursor r =
     (case cc_scan c r cursor pattern 500 of
        Inl x \<Rightarrow> Some (Inl x, r)
      | Inr (cursor', batch) \<Rightarrow>
          (case (if batch = [] then (Inr 0, r) else cc_unlink c r batch) of
             (Inl x, r') \<Rightarrow> Some (Inl x, r')
           | (Inr n, r') \<Rightarrow> if cursor' = 0 then Some (Inr (), r') else scan_unlink c pattern cursor' r'))"

declare scan_unlink.simps [code]

definition invalidateEntity :: "'r cache_env \<Rightarrow> string \<Rightarrow> 'r \<Rightarrow> 'r option" where
  "invalidateEntity env e r = map_option snd (scan_unlink (ce_cmds env) (entityScanPattern e) 0 r)"

subsection \<open>Writes\<close>

text \<open>
  Every write first asks the wrapped adapter and then invalidates, when the write succeeded: one
  record, named by the result or by the request, or all records of the entity.
\<close>

definition after_write ::
    "exn + 'x result \<times> 'a \<Rightarrow> ('x \<Rightarrow> 'r \<Rightarrow> 'r) \<Rightarrow> ('a, 'r) cached \<Rightarrow> exn + 'x result \<times> ('a, 'r) cached" where
  "after_write written invalidate st =
     exn_bind written (\<lambda>(res, a).
       Inr (res, case res of
                   Inl x \<Rightarrow> st\<lparr>ca_inner := a\<rparr>
                 | Inr v \<Rightarrow> st\<lparr>ca_inner := a, ca_redis := invalidate v (ca_redis st)\<rparr>))"

definition after_bulk ::
    "exn + int result \<times> 'a \<Rightarrow> ('r \<Rightarrow> 'r option) \<Rightarrow> ('a, 'r) cached \<Rightarrow> (exn + int result \<times> ('a, 'r) cached) option" where
  "after_bulk written invalidate st =
     (case written of
        Inl x \<Rightarrow> Some (Inl x)
      | Inr (Inl er, a) \<Rightarrow> Some (Inr (Inl er, st\<lparr>ca_inner := a\<rparr>))
      | Inr (Inr n, a) \<Rightarrow>
          map_option (\<lambda>r. Inr (Inr n, st\<lparr>ca_inner := a, ca_redis := r\<rparr>)) (invalidate (ca_redis st)))"

definition cached_create ::
    "'r cache_env \<Rightarrow> ('a, 'o, 'l, 'k) base_adapter \<Rightarrow> string \<Rightarrow> json \<Rightarrow> ('a, 'r) cached \<Rightarrow> exn + json result \<times> ('a, 'r) cached" where
  "cached_create env ad e data st =
     after_write (ba_create ad e data (ca_inner st)) (\<lambda>rec. invalidateRecord env e (idFromRecord rec)) st"

definition cached_update ::
    "'r cache_env \<Rightarrow> ('a, 'o, 'l, 'k) base_adapter \<Rightarrow> string \<Rightarrow> string \<Rightarrow> json \<Rightarrow> ('a, 'r) cached \<Rightarrow> exn + json result \<times> ('a, 'r) cached" where
  "cached_update env ad e i data st =
     after_write (ba_update ad e i data (ca_inner st)) (\<lambda>_. invalidateRecord env e i) st"

definition cached_remove ::
    "'r cache_env \<Rightarrow> ('a, 'o, 'l, 'k) base_adapter \<Rightarrow> string \<Rightarrow> string \<Rightarrow> ('a, 'r) cached \<Rightarrow> exn + bool result \<times> ('a, 'r) cached" where
  "cached_remove env ad e i st =
     after_write (ba_remove ad e i (ca_inner st)) (\<lambda>_. invalidateRecord env e i) st"

definition cached_upsert ::
    "'r cache_env \<Rightarrow> ('a, 'o, 'l, 'k) base_adapter \<Rightarrow> string \<Rightarrow> string \<Rightarrow> json \<Rightarrow> json \<Rightarrow> json \<Rightarrow> ('a, 'r) cached \<Rightarrow>
     exn + json result \<times> ('a, 'r) cached" where
  "cached_upsert env ad e field v create_data update_data st =
     after_write (ba_upsert ad e field v create_data update_data (ca_inner st))
       (\<lambda>rec. invalidateRecord env e (idFromRecord rec)) st"

definition cached_create_many ::
    "'r cache_env \<Rightarrow> ('a, 'o, 'l, 'k) base_adapter \<Rightarrow> string \<Rightarrow> json list \<Rightarrow> ('a, 'r) cached \<Rightarrow>
     (exn + int result \<times> ('a, 'r) cached) option" where
  "cached_create_many env ad e recs st =
     after_bulk (ba_create_many ad e recs (ca_inner st)) (invalidateEntity env e) st"

definition cached_update_many ::
    "'r cache_env \<Rightarrow> ('a, 'o, 'l, 'k) base_adapter \<Rightarrow> string \<Rightarrow> json \<Rightarrow> json \<Rightarrow> ('a, 'r) cached \<Rightarrow>
     (exn + int result \<times> ('a, 'r) cached) option" where
  "cached_update_many env ad e flt data st =
     after_bulk (ba_update_many ad e flt data (ca_inner st)) (invalidateEntity env e) st"

definition cached_delete_many ::
    "'r cache_env \<Rightarrow> ('a, 'o, 'l, 'k) base_adapter \<Rightarrow> string \<Rightarrow> json \<Rightarrow> ('a, 'r) cached \<Rightarrow>
     (exn + int result \<times> ('a, 'r) cached) option" where
  "cached_delete_many env ad e flt st =
     after_bulk (ba_delete_many ad e flt (ca_inner st)) (invalidateEntity env e) st"

subsection \<open>What is passed through\<close>

definition pass :: "('a \<Rightarrow> exn + 'x \<times> 'a) \<Rightarrow> ('a, 'r) cached \<Rightarrow> exn + 'x \<times> ('a, 'r) cached" where
  "pass f st = map_sum id (map_prod id (\<lambda>a. st\<lparr>ca_inner := a\<rparr>)) (f (ca_inner st))"

definition cached_search :: "('a, 'o, 'l, 'k) base_adapter \<Rightarrow> string \<Rightarrow> string \<Rightarrow> int \<Rightarrow> ('a, 'r) cached \<Rightarrow> exn + 'l result \<times> ('a, 'r) cached" where
  "cached_search ad e query n = pass (ba_search ad e query n)"

definition cached_read_sensitive :: "('a, 'o, 'l, 'k) base_adapter \<Rightarrow> string \<Rightarrow> string \<Rightarrow> ('a, 'r) cached \<Rightarrow> exn + json result \<times> ('a, 'r) cached" where
  "cached_read_sensitive ad e i = pass (ba_read_sensitive ad e i)"

definition cached_list :: "('a, 'o, 'l, 'k) base_adapter \<Rightarrow> string \<Rightarrow> 'o \<Rightarrow> ('a, 'r) cached \<Rightarrow> exn + 'l result \<times> ('a, 'r) cached" where
  "cached_list ad e opts = pass (ba_list ad e opts)"

definition cached_find_first :: "('a, 'o, 'l, 'k) base_adapter \<Rightarrow> string \<Rightarrow> json \<Rightarrow> ('a, 'r) cached \<Rightarrow> exn + json result \<times> ('a, 'r) cached" where
  "cached_find_first ad e flt = pass (ba_find_first ad e flt)"

definition cached_find_by_field :: "('a, 'o, 'l, 'k) base_adapter \<Rightarrow> string \<Rightarrow> string \<Rightarrow> json \<Rightarrow> ('a, 'r) cached \<Rightarrow> exn + json result \<times> ('a, 'r) cached" where
  "cached_find_by_field ad e field v = pass (ba_find_by_field ad e field v)"

definition cached_entities :: "('a, 'o, 'l, 'k) base_adapter \<Rightarrow> ('a, 'r) cached \<Rightarrow> exn + string list result \<times> ('a, 'r) cached" where
  "cached_entities ad = pass (ba_entities ad)"

definition cached_schema :: "('a, 'o, 'l, 'k) base_adapter \<Rightarrow> string \<Rightarrow> ('a, 'r) cached \<Rightarrow> exn + 'k result \<times> ('a, 'r) cached" where
  "cached_schema ad e = pass (ba_schema ad e)"

definition cached_close :: "('a, 'o, 'l, 'k) base_adapter \<Rightarrow> ('a, 'r) cached \<Rightarrow> exn + unit \<times> ('a, 'r) cached" where
  "cached_close ad = pass (ba_close ad)"

definition cached_native :: "('a, 'o, 'l, 'k) base_adapter \<Rightarrow> ('a, 'r) cached \<Rightarrow> bool" where
  "cached_native ad st = ba_native ad (ca_inner st)"

definition cached_begin :: "('a, 'o, 'l, 'k) base_adapter \<Rightarrow> ('a, 'r) cached \<Rightarrow> exn + bool result \<times> ('a, 'r) cached" where
  "cached_begin ad = pass (ba_begin ad)"

definition cached_commit :: "('a, 'o, 'l, 'k) base_adapter \<Rightarrow> ('a, 'r) cached \<Rightarrow> exn + bool result \<times> ('a, 'r) cached" where
  "cached_commit ad = pass (ba_commit ad)"

definition cached_rollback :: "('a, 'o, 'l, 'k) base_adapter \<Rightarrow> ('a, 'r) cached \<Rightarrow> exn + bool result \<times> ('a, 'r) cached" where
  "cached_rollback ad = pass (ba_rollback ad)"

section \<open>The configuration\<close>

datatype cache_pattern = ReadThrough

record cache_config =
  cfg_enabled :: bool
  cfg_url :: string
  cfg_ttl :: int
  cfg_pattern :: cache_pattern
  cfg_error :: string

definition no_cache :: cache_config where
  "no_cache = \<lparr>cfg_enabled = False, cfg_url = [], cfg_ttl = 300, cfg_pattern = ReadThrough, cfg_error = []\<rparr>"

text \<open>\<^verbatim>\<open>forEachQueryParam\<close>: the pairs it calls back with, in their order.\<close>

function query_pairs :: "string \<Rightarrow> (string \<times> string) list" where
  "query_pairs [] = []"
| "query_pairs (c # s) =
     (let pair = takeWhile (\<lambda>x. x \<noteq> CHR ''&'') (c # s);
          more = query_pairs (drop (length pair + 1) (c # s))
      in if CHR ''='' \<notin> set pair then more
         else (takeWhile (\<lambda>x. x \<noteq> CHR ''='') pair, tl (dropWhile (\<lambda>x. x \<noteq> CHR ''='') pair)) # more)"
  by pat_completeness auto
termination
  by (relation "measure length") auto

text \<open>What \<^verbatim>\<open>std::stoi\<close> leaves unread.\<close>

definition stoi_rest :: "string \<Rightarrow> string" where
  "stoi_rest s =
     (let t = dropWhile is_space s;
          u = (if t \<noteq> [] \<and> (hd t = CHR ''-'' \<or> hd t = CHR ''+'') then tl t else t)
      in dropWhile is_digit u)"

definition ttl_error :: "string \<Rightarrow> string" where
  "ttl_error v = ''DBAL_CACHE_URL ttl must be a positive integer (got: '' @ v @ '')''"

definition pattern_error :: "string \<Rightarrow> string" where
  "pattern_error v = ''DBAL_CACHE_URL pattern '' @ [CHR 0x27] @ v @ [CHR 0x27] @
     '' is not implemented; only read-through is supported''"

fun cache_param :: "string \<times> string \<Rightarrow> cache_config \<times> bool \<Rightarrow> cache_config \<times> bool" where
  "cache_param (key, v) (cfg, bad) =
     (if bad then (cfg, bad)
      else if key = ''ttl'' then
        (case stoi v of
           Inl x \<Rightarrow> (cfg\<lparr>cfg_error := ttl_error v\<rparr>, True)
         | Inr n \<Rightarrow>
             if stoi_rest v \<noteq> [] \<or> n \<le> 0
             then (cfg\<lparr>cfg_error := ttl_error v\<rparr>, True)
             else (cfg\<lparr>cfg_ttl := n\<rparr>, bad))
      else if key = ''pattern'' then
        (if v = ''read-through'' then (cfg\<lparr>cfg_pattern := ReadThrough\<rparr>, bad)
         else (cfg\<lparr>cfg_error := pattern_error v\<rparr>, True))
      else (cfg, bad))"

definition parseCacheUrl :: "string \<Rightarrow> cache_config" where
  "parseCacheUrl url =
     (if url = [] then no_cache
      else if \<not> prefix ''redis://'' url \<and> \<not> prefix ''rediss://'' url then
        no_cache\<lparr>cfg_error := ''DBAL_CACHE_URL must begin with redis:// or rediss:// (got: '' @ url @ '')''\<rparr>
      else
        let base = takeWhile (\<lambda>x. x \<noteq> CHR ''?'') url;
            cfg0 = no_cache\<lparr>cfg_url := base\<rparr>;
            (cfg, bad) = fold cache_param (query_pairs (drop (length base + 1) url)) (cfg0, False)
        in if bad then cfg\<lparr>cfg_url := []\<rparr> else cfg\<lparr>cfg_enabled := True\<rparr>)"

text \<open>\<^verbatim>\<open>cacheConfigFromEnv\<close>, with the value of the environment variable.\<close>

definition cacheConfigFromEnv :: "string option \<Rightarrow> cache_config" where
  "cacheConfigFromEnv var = parseCacheUrl (case var of None \<Rightarrow> [] | Some url \<Rightarrow> url)"

text \<open>
  \<^verbatim>\<open>tryCreate\<close>: the wrapped adapter is taken over only when the connection exists.  The result
  is the caching adapter, what is left of \<^verbatim>\<open>inner\<close>, and \<^verbatim>\<open>error\<close>.
\<close>

definition try_create ::
    "(string \<Rightarrow> string + 'r) \<Rightarrow> cache_config \<Rightarrow> 'a option \<Rightarrow> string \<Rightarrow> ('a, 'r) cached option \<times> 'a option \<times> string" where
  "try_create connect cfg inner er =
     (case inner of
        None \<Rightarrow> (None, None, ''no adapter to wrap'')
      | Some a \<Rightarrow>
          if \<not> cfg_enabled cfg then (None, inner, ''cache is not enabled'')
          else case connect (cfg_url cfg) of
            Inl what \<Rightarrow> (None, inner, what)
          | Inr r \<Rightarrow> (Some \<lparr>ca_inner = a, ca_redis = r, ca_ttl = cfg_ttl cfg\<rparr>, None, er))"

end
