(* ===== verification/Cache_Coherence.thy ===== *)
theory Cache_Coherence
  imports Cache_Adapter
begin

text \<open>
  The cache never answers with a record that the wrapped adapter does not hold.  The two sides are
  interfaces: \<open>record_adapter\<close> says what a write of the adapter may change, \<open>cache_server\<close> what the
  commands do to the keys, which may also vanish at any time (expiry, eviction).  On top of both, the
  coherence of the cache is an invariant of every run, as long as the server does not refuse to
  delete and no transaction is rolled back; the end of the theory shows what a rollback does.
\<close>

section \<open>The interface of the adapter\<close>

text \<open>
  A \<open>reader\<close> leaves the records alone; a \<open>writer\<close> keeps the existing records outside of what its
  result names, and all of them when it fails.
\<close>

definition reader :: "('a \<Rightarrow> bool) \<Rightarrow> ('a \<Rightarrow> string \<Rightarrow> string \<Rightarrow> json option) \<Rightarrow> ('a \<Rightarrow> exn + 'x \<times> 'a) \<Rightarrow> bool" where
  "reader sound recs f \<longleftrightarrow> (\<forall>a x a'. sound a \<longrightarrow> f a = Inr (x, a') \<longrightarrow> sound a' \<and> recs a' = recs a)"

definition others_kept ::
    "('a \<Rightarrow> string \<Rightarrow> string \<Rightarrow> json option) \<Rightarrow> (string \<Rightarrow> string \<Rightarrow> bool) \<Rightarrow> (string \<times> string) set \<Rightarrow> 'a \<Rightarrow> 'a \<Rightarrow> bool" where
  "others_kept recs ok X a a' \<longleftrightarrow>
     (\<forall>e i j. ok e i \<longrightarrow> (e, i) \<notin> X \<longrightarrow> recs a e i = Some j \<longrightarrow> recs a' e i = Some j)"

definition writer ::
    "('a \<Rightarrow> bool) \<Rightarrow> ('a \<Rightarrow> string \<Rightarrow> string \<Rightarrow> json option) \<Rightarrow> (string \<Rightarrow> string \<Rightarrow> bool) \<Rightarrow>
     ('a \<Rightarrow> exn + 'x result \<times> 'a) \<Rightarrow> ('x \<Rightarrow> (string \<times> string) set) \<Rightarrow> bool" where
  "writer sound recs ok f X \<longleftrightarrow>
     (\<forall>a res a'. sound a \<longrightarrow> f a = Inr (res, a') \<longrightarrow>
        sound a' \<and> others_kept recs ok (case res of Inl er \<Rightarrow> {} | Inr v \<Rightarrow> X v) a a')"

locale record_adapter =
  fixes ad :: "('a, 'o, 'l, 'k) base_adapter"
    and recs :: "'a \<Rightarrow> string \<Rightarrow> string \<Rightarrow> json option"
    and ok :: "string \<Rightarrow> string \<Rightarrow> bool"
    and ent :: "string \<Rightarrow> bool"
    and sound :: "'a \<Rightarrow> bool"
  assumes ok_names: "ok e i \<Longrightarrow> ent e \<and> i \<noteq> []"
    and read_record: "ba_read ad e i a = Inr (Inr j, a') \<Longrightarrow> ok e i \<Longrightarrow> recs a e i = Some j"
    and readers: "reader sound recs (ba_read ad e i)" "reader sound recs (ba_read_sensitive ad e i)"
      "reader sound recs (ba_search ad e q n)" "reader sound recs (ba_list ad e opts)"
      "reader sound recs (ba_find_first ad e d)" "reader sound recs (ba_find_by_field ad e q d)"
      "reader sound recs (ba_begin ad)" "reader sound recs (ba_commit ad)"
    and create_writes: "ent e \<Longrightarrow> writer sound recs ok (ba_create ad e d) (\<lambda>rec. {(e, idFromRecord rec)})"
    and update_writes: "ent e \<Longrightarrow> jget d ''id'' = None \<Longrightarrow> writer sound recs ok (ba_update ad e i d) (\<lambda>_. {(e, i)})"
    and remove_writes: "ent e \<Longrightarrow> writer sound recs ok (ba_remove ad e i) (\<lambda>_. {(e, i)})"
    and upsert_writes: "ent e \<Longrightarrow> jget u ''id'' = None \<Longrightarrow>
      writer sound recs ok (ba_upsert ad e q v d u) (\<lambda>rec. {(e, idFromRecord rec)})"
    and bulk_writes: "ent e \<Longrightarrow> writer sound recs ok (ba_create_many ad e ds) (\<lambda>_. {e} \<times> UNIV)"
      "ent e \<Longrightarrow> jget d ''id'' = None \<Longrightarrow> writer sound recs ok (ba_update_many ad e flt d) (\<lambda>_. {e} \<times> UNIV)"
      "ent e \<Longrightarrow> writer sound recs ok (ba_delete_many ad e flt) (\<lambda>_. {e} \<times> UNIV)"

section \<open>The interface of the cache server\<close>

text \<open>
  A complete iteration: the scans from cursor 0 until the server answers with cursor 0 again, each
  with the state it was asked in and its batch of keys.
\<close>

fun scan_run :: "'r cache_cmds \<Rightarrow> string \<Rightarrow> int \<Rightarrow> ('r \<times> string list) list \<Rightarrow> bool" where
  "scan_run c pattern cursor [] = False"
| "scan_run c pattern cursor [(r, batch)] = (cc_scan c r cursor pattern 500 = Inr (0, batch))"
| "scan_run c pattern cursor ((r, batch) # x # xs) =
     (\<exists>next. next \<noteq> 0 \<and> cc_scan c r cursor pattern 500 = Inr (next, batch) \<and> scan_run c pattern next (x # xs))"

definition swept :: "('r \<Rightarrow> string \<Rightarrow> string option) \<Rightarrow> 'r \<Rightarrow> string list \<Rightarrow> 'r \<Rightarrow> bool" where
  "swept view r1 batch r' \<longleftrightarrow>
     (\<forall>k s. view r' k = Some s \<longrightarrow> view r1 k = Some s) \<and> (\<forall>k \<in> set batch. view r' k = None)"

text \<open>Names that a glob pattern takes literally, and that end at the first colon.\<close>

definition cache_name :: "string \<Rightarrow> bool" where
  "cache_name e \<longleftrightarrow> set e \<inter> set (CHR 0x5C # '':*?[]^'') = {}"

locale cache_server =
  fixes c :: "'r cache_cmds" and view :: "'r \<Rightarrow> string \<Rightarrow> string option"
  assumes get_some: "cc_get c r k = Inr (Some s) \<Longrightarrow> view r k = Some s"
    and setex_keys: "cc_setex c r k ttl v = (u, r') \<Longrightarrow> view r' k' = Some s \<Longrightarrow> view r k' = Some s \<or> k' = k \<and> s = v"
    and del_keys: "cc_del c r k = (x, r') \<Longrightarrow> view r' k' = Some s \<Longrightarrow> view r k' = Some s"
    and del_ok: "cc_del c r k = (Inr n, r') \<Longrightarrow> view r' k = None"
    and unlink_keys: "cc_unlink c r ks = (x, r') \<Longrightarrow> view r' k' = Some s \<Longrightarrow> view r k' = Some s"
    and unlink_ok: "cc_unlink c r ks = (Inr n, r') \<Longrightarrow> k \<in> set ks \<Longrightarrow> view r' k = None"
    and scan_complete: "scan_run c (entityScanPattern e) 0 xs \<Longrightarrow> cache_name e \<Longrightarrow>
      (\<And>r batch. (r, batch) \<in> set xs \<Longrightarrow> view r (recordKey e i) \<noteq> None) \<Longrightarrow>
      \<exists>(r, batch) \<in> set xs. recordKey e i \<in> set batch"
begin

lemma lookup_view: "ce_cmds env = c \<Longrightarrow> cache_lookup env e i r = Some j \<Longrightarrow>
    \<exists>s. view r (recordKey e i) = Some s \<and> ce_parse env s = Some j"
  using get_some by (auto simp: cache_lookup_def split: sum.split_asm option.split_asm)

lemma backfill_view:
  assumes "ce_cmds env = c" "view (backfill env ttl e i j r) k = Some s"
  shows "view r k = Some s \<or> k = recordKey e i \<and> ce_dump env j = Inr s"
proof (cases "ce_dump env j")
  case (Inl x)
  then show ?thesis using assms by (simp add: backfill_def)
next
  case (Inr v)
  obtain u r' where "cc_setex c r (recordKey e i) ttl v = (u, r')" by fastforce
  with setex_keys [OF this, of k s] show ?thesis using assms Inr by (auto simp: backfill_def)
qed

lemma invalidateRecord_view:
  "ce_cmds env = c \<Longrightarrow> view (invalidateRecord env e i r) k = Some s \<Longrightarrow> view r k = Some s"
  using del_keys [of r "recordKey e i"] by (auto simp: invalidateRecord_def split: if_splits) (metis prod.collapse)

text \<open>What the scanning loop has unlinked when it returns.\<close>

lemma unlink_batch:
  assumes "(if batch = [] then (Inr 0, r) else cc_unlink c r batch) = (y, r1)"
  shows "view r1 k = Some s \<Longrightarrow> view r k = Some s" "y = Inr n \<Longrightarrow> k \<in> set batch \<Longrightarrow> view r1 k = None"
  using assms unlink_keys [of r batch] unlink_ok [of r batch] by (auto split: if_splits)

lemma scan_unlink_run:
  assumes "scan_unlink c pattern cursor r = Some (x, r')"
  shows "(\<forall>k s. view r' k = Some s \<longrightarrow> view r k = Some s) \<and>
    (x = Inr () \<longrightarrow> (\<exists>xs. scan_run c pattern cursor xs \<and> (\<forall>(r1, batch) \<in> set xs. swept view r1 batch r')))"
proof -
  define P where "P cursor r y r' \<longleftrightarrow> (\<forall>k s. view r' k = Some s \<longrightarrow> view r k = Some s) \<and>
      (y = Inr () \<longrightarrow> (\<exists>xs. scan_run c pattern cursor xs \<and> (\<forall>(r1, batch) \<in> set xs. swept view r1 batch r')))"
    for cursor r and y :: "string + unit" and r'
  have "c = c \<longrightarrow> pattern = pattern \<longrightarrow> P cursor r (fst (x, r')) (snd (x, r'))"
  proof (rule scan_unlink.raw_induct [where P = "\<lambda>c' p cursor r y. c' = c \<longrightarrow> p = pattern \<longrightarrow> P cursor r (fst y) (snd y)", OF _ assms], intro impI)
    fix f c' p cursor r and y :: "(string + unit) \<times> 'r"
    assume IH: "\<And>c' p cursor r y. f c' p cursor r = Some y \<Longrightarrow> c' = c \<longrightarrow> p = pattern \<longrightarrow> P cursor r (fst y) (snd y)"
      and run: "(case cc_scan c' r cursor p 500 of Inl x \<Rightarrow> Some (Inl x, r)
        | Inr (cursor', batch) \<Rightarrow>
            (case if batch = [] then (Inr 0, r) else cc_unlink c' r batch of (Inl x, r') \<Rightarrow> Some (Inl x, r')
             | (Inr n, r') \<Rightarrow> if cursor' = 0 then Some (Inr (), r') else f c' p cursor' r')) = Some y"
      and eqs: "c' = c" "p = pattern"
    show "P cursor r (fst y) (snd y)"
    proof (cases "cc_scan c r cursor pattern 500")
      case (Inl er)
      then show ?thesis using run eqs by (auto simp: P_def)
    next
      case (Inr next_batch)
      then obtain cursor' batch where scan: "cc_scan c r cursor pattern 500 = Inr (cursor', batch)" by (cases next_batch) auto
      obtain z r1 where z: "(if batch = [] then (Inr 0, r) else cc_unlink c r batch) = (z, r1)" by fastforce
      note one = unlink_batch [OF z]
      consider (fail) er where "z = Inl er" "y = (Inl er, r1)"
        | (stop) n where "z = Inr n" "cursor' = 0" "y = (Inr (), r1)"
        | (more) n where "z = Inr n" "cursor' \<noteq> 0" "f c pattern cursor' r1 = Some y"
        using run scan z eqs by (cases z) (auto split: if_splits)
      then show ?thesis
      proof cases
        case fail
        then show ?thesis using one(1) by (auto simp: P_def)
      next
        case stop
        have "scan_run c pattern cursor [(r, batch)]" using scan stop by simp
        moreover have "swept view r batch r1" using one stop by (auto simp: swept_def)
        ultimately show ?thesis using one(1) stop by (auto simp: P_def intro!: exI [of _ "[(r, batch)]"])
      next
        case more
        then have more_P: "P cursor' r1 (fst y) (snd y)" using IH by blast
        have sw: "swept view r batch (snd y)"
          using more_P one more(1) unfolding swept_def P_def by (metis not_None_eq)
        have "\<exists>ys. scan_run c pattern cursor ys \<and> (\<forall>(r1, batch) \<in> set ys. swept view r1 batch (snd y))"
          if "scan_run c pattern cursor' xs" "\<forall>(r1, batch) \<in> set xs. swept view r1 batch (snd y)" for xs
          using that scan more(2) sw by (intro exI [of _ "(r, batch) # xs"]) (cases xs; auto)
        then show ?thesis using more_P one(1) unfolding P_def by blast
      qed
    qed
  qed
  then show ?thesis by (simp add: P_def)
qed

lemma scan_unlink_error:
  assumes "scan_unlink c pattern cursor r = Some (Inl er, r')"
  shows "(\<exists>r cursor er. cc_scan c r cursor pattern 500 = Inl er) \<or> (\<exists>r ks er r'. cc_unlink c r ks = (Inl er, r'))"
proof -
  define Q where "Q \<longleftrightarrow> (\<exists>r cursor er. cc_scan c r cursor pattern 500 = Inl er) \<or> (\<exists>r ks er r'. cc_unlink c r ks = (Inl er, r'))"
  have "c = c \<longrightarrow> pattern = pattern \<longrightarrow> fst (Inl er :: string + unit, r') = Inl er \<longrightarrow> Q"
  proof (rule scan_unlink.raw_induct [where P = "\<lambda>c' p cursor r y. c' = c \<longrightarrow> p = pattern \<longrightarrow> fst y = Inl er \<longrightarrow> Q", OF _ assms], intro impI)
    fix f c' p cursor r and y :: "(string + unit) \<times> 'r"
    assume IH: "\<And>c' p cursor r y. f c' p cursor r = Some y \<Longrightarrow> c' = c \<longrightarrow> p = pattern \<longrightarrow> fst y = Inl er \<longrightarrow> Q"
      and run: "(case cc_scan c' r cursor p 500 of Inl x \<Rightarrow> Some (Inl x, r)
        | Inr (cursor', batch) \<Rightarrow>
            (case if batch = [] then (Inr 0, r) else cc_unlink c' r batch of (Inl x, r') \<Rightarrow> Some (Inl x, r')
             | (Inr n, r') \<Rightarrow> if cursor' = 0 then Some (Inr (), r') else f c' p cursor' r')) = Some y"
      and eqs: "c' = c" "p = pattern" "fst y = Inl er"
    show Q
      using run eqs IH by (auto simp: Q_def split: sum.split_asm prod.split_asm if_splits)
  qed
  then show ?thesis by (simp add: Q_def)
qed

lemma invalidateEntity_view:
  assumes "ce_cmds env = c" "invalidateEntity env e r = Some r'"
  shows "view r' k = Some s \<Longrightarrow> view r k = Some s"
  using assms scan_unlink_run [of "entityScanPattern e" 0 r] by (auto simp: invalidateEntity_def)

end

section \<open>Runs\<close>

text \<open>
  A step is one operation of the caching adapter that returns, or keys that vanish from the cache.
  Updates do not rename records; rolling back is not among the steps.
\<close>

inductive cache_step ::
    "'r cache_env \<Rightarrow> ('a, 'o, 'l, 'k) base_adapter \<Rightarrow> (string \<Rightarrow> bool) \<Rightarrow> ('r \<Rightarrow> string \<Rightarrow> string option) \<Rightarrow>
     ('a, 'r) cached \<Rightarrow> ('a, 'r) cached \<Rightarrow> bool"
  for env ad ent view where
  step_read: "ent e \<Longrightarrow> cached_read env ad e i st = Inr (res, st') \<Longrightarrow> cache_step env ad ent view st st'"
| step_create: "ent e \<Longrightarrow> cached_create env ad e d st = Inr (res, st') \<Longrightarrow> cache_step env ad ent view st st'"
| step_update: "ent e \<Longrightarrow> jget d ''id'' = None \<Longrightarrow> cached_update env ad e i d st = Inr (res, st') \<Longrightarrow> cache_step env ad ent view st st'"
| step_remove: "ent e \<Longrightarrow> cached_remove env ad e i st = Inr (okay, st') \<Longrightarrow> cache_step env ad ent view st st'"
| step_upsert: "ent e \<Longrightarrow> jget u ''id'' = None \<Longrightarrow> cached_upsert env ad e q v d u st = Inr (res, st') \<Longrightarrow> cache_step env ad ent view st st'"
| step_create_many: "ent e \<Longrightarrow> cached_create_many env ad e ds st = Some (Inr (n, st')) \<Longrightarrow> cache_step env ad ent view st st'"
| step_update_many: "ent e \<Longrightarrow> jget d ''id'' = None \<Longrightarrow> cached_update_many env ad e flt d st = Some (Inr (n, st')) \<Longrightarrow> cache_step env ad ent view st st'"
| step_delete_many: "ent e \<Longrightarrow> cached_delete_many env ad e flt st = Some (Inr (n, st')) \<Longrightarrow> cache_step env ad ent view st st'"
| step_sensitive: "cached_read_sensitive ad e i st = Inr (res, st') \<Longrightarrow> cache_step env ad ent view st st'"
| step_search: "cached_search ad e q m st = Inr (hits, st') \<Longrightarrow> cache_step env ad ent view st st'"
| step_list: "cached_list ad e opts st = Inr (hits, st') \<Longrightarrow> cache_step env ad ent view st st'"
| step_find_first: "cached_find_first ad e flt st = Inr (res, st') \<Longrightarrow> cache_step env ad ent view st st'"
| step_find_by_field: "cached_find_by_field ad e q v st = Inr (res, st') \<Longrightarrow> cache_step env ad ent view st st'"
| step_begin: "cached_begin ad st = Inr (okay, st') \<Longrightarrow> cache_step env ad ent view st st'"
| step_commit: "cached_commit ad st = Inr (okay, st') \<Longrightarrow> cache_step env ad ent view st st'"
| step_vanish: "(\<And>k s. view r' k = Some s \<Longrightarrow> view (ca_redis st) k = Some s) \<Longrightarrow> cache_step env ad ent view st (st\<lparr>ca_redis := r'\<rparr>)"

text \<open>Runs start with an empty cache.\<close>

inductive cache_reach ::
    "'r cache_env \<Rightarrow> ('a, 'o, 'l, 'k) base_adapter \<Rightarrow> (string \<Rightarrow> bool) \<Rightarrow> ('r \<Rightarrow> string \<Rightarrow> string option) \<Rightarrow>
     ('a \<Rightarrow> bool) \<Rightarrow> ('a, 'r) cached \<Rightarrow> bool"
  for env ad ent view sound where
  reach_start: "sound (ca_inner st) \<Longrightarrow> (\<And>k. view (ca_redis st) k = None) \<Longrightarrow> cache_reach env ad ent view sound st"
| reach_step: "cache_reach env ad ent view sound st \<Longrightarrow> cache_step env ad ent view st st' \<Longrightarrow> cache_reach env ad ent view sound st'"

section \<open>Coherence\<close>

text \<open>What the cache holds of a record, when it can be read, is what the adapter holds.\<close>

definition coherent ::
    "('a \<Rightarrow> string \<Rightarrow> string \<Rightarrow> json option) \<Rightarrow> (string \<Rightarrow> string \<Rightarrow> bool) \<Rightarrow> ('r \<Rightarrow> string \<Rightarrow> string option) \<Rightarrow>
     'r cache_env \<Rightarrow> ('a, 'r) cached \<Rightarrow> bool" where
  "coherent recs ok view env st \<longleftrightarrow>
     (\<forall>e i s j. ok e i \<longrightarrow> view (ca_redis st) (recordKey e i) = Some s \<longrightarrow> ce_parse env s = Some j \<longrightarrow>
        recs (ca_inner st) e i = Some j)"

text \<open>
  A server in working order for deleting: none of its deletions fails.  (A failing read or write
  of the cache does no harm.)  The JSON library reads what it has written.
\<close>

locale caching = record_adapter ad recs ok ent sound + cache_server c view
  for ad :: "('a, 'o, 'l, 'k) base_adapter" and recs ok ent sound
    and c :: "'r cache_cmds" and view +
  fixes env :: "'r cache_env"
  assumes env_cmds: "ce_cmds env = c"
    and dump_parse: "ce_dump env j = Inr s \<Longrightarrow> ce_parse env s = Some j"
    and ent_names: "ent e \<Longrightarrow> cache_name e"
    and del_works: "cc_del c r k \<noteq> (Inl er, r')"
    and scan_works: "cc_scan c r cursor pattern n \<noteq> Inl er"
    and unlink_works: "cc_unlink c r ks \<noteq> (Inl er, r')"
begin

lemma recordKey_inject:
  assumes "ent e" "ent e'"
  shows "recordKey e i = recordKey e' i' \<longleftrightarrow> e = e' \<and> i = i'"
proof -
  have "CHR '':'' \<notin> set e" "CHR '':'' \<notin> set e'" using ent_names assms by (auto simp: cache_name_def)
  then show ?thesis using colon_split [of e e' i i'] by (simp add: recordKey_def)
qed

lemma record_gone:
  assumes "ok e i"
  shows "view (invalidateRecord env e i r) (recordKey e i) = None"
proof -
  obtain n r' where "cc_del c r (recordKey e i) = (Inr n, r')"
    using del_works by (metis old.sum.exhaust surj_pair)
  then show ?thesis using del_ok ok_names [OF assms] by (simp add: invalidateRecord_def env_cmds)
qed

lemma entity_gone:
  assumes "ent e" "invalidateEntity env e r = Some r'"
  shows "view r' (recordKey e i) = None"
proof (rule ccontr)
  assume cached: "view r' (recordKey e i) \<noteq> None"
  obtain x where run: "scan_unlink c (entityScanPattern e) 0 r = Some (x, r')"
    using assms(2) by (auto simp: invalidateEntity_def env_cmds)
  have "x = Inr ()"
    using scan_unlink_error [of "entityScanPattern e" 0 r _ r'] run scan_works unlink_works by (cases x) auto
  then obtain xs where xs: "scan_run c (entityScanPattern e) 0 xs"
      and swept: "\<And>r1 batch. (r1, batch) \<in> set xs \<Longrightarrow> swept view r1 batch r'"
    using scan_unlink_run [OF run] by blast
  have "view r1 (recordKey e i) \<noteq> None" if "(r1, batch) \<in> set xs" for r1 batch
    using swept [OF that] cached by (auto simp: swept_def)
  then show False
    using scan_complete [OF xs ent_names [OF assms(1)]] swept cached by (fastforce simp: swept_def)
qed

text \<open>Every operation keeps the cache coherent.\<close>

definition invariant :: "('a, 'r) cached \<Rightarrow> bool" where
  "invariant st \<longleftrightarrow> sound (ca_inner st) \<and> coherent recs ok view env st"

lemma invariantE:
  "invariant st \<Longrightarrow> ok e i \<Longrightarrow> view (ca_redis st) (recordKey e i) = Some s \<Longrightarrow> ce_parse env s = Some j \<Longrightarrow>
   recs (ca_inner st) e i = Some j"
  unfolding invariant_def coherent_def by blast

lemma read_keeps:
  assumes st: "invariant st" and e: "ent e" and run: "cached_read env ad e i st = Inr (res, st')"
  shows "invariant st'"
proof (cases "cache_lookup env e i (ca_redis st)")
  case (Some j)
  then show ?thesis using run st by (simp add: cached_read_def)
next
  case None
  then obtain a where a: "ba_read ad e i (ca_inner st) = Inr (res, a)"
      "st' = (case res of Inl x \<Rightarrow> st\<lparr>ca_inner := a\<rparr>
        | Inr j \<Rightarrow> st\<lparr>ca_inner := a, ca_redis := backfill env (ca_ttl st) e i j (ca_redis st)\<rparr>)"
    using run by (auto simp: cached_read_def exn_bind_def split: sum.split_asm prod.split_asm)
  have same: "sound a" "recs a = recs (ca_inner st)"
    using readers(1) [of e i] a(1) st by (auto simp: reader_def invariant_def)
  have "recs a e' i' = Some j'"
    if ok': "ok e' i'" and s: "view (ca_redis st') (recordKey e' i') = Some s" "ce_parse env s = Some j'" for e' i' s j'
  proof (cases "view (ca_redis st) (recordKey e' i') = Some s")
    case True
    then show ?thesis using invariantE [OF st ok' _ s(2)] same by simp
  next
    case False
    then obtain j where j: "res = Inr j" "view (backfill env (ca_ttl st) e i j (ca_redis st)) (recordKey e' i') = Some s"
      using s(1) a(2) by (cases res) auto
    with False have "recordKey e' i' = recordKey e i" "ce_dump env j = Inr s" using backfill_view [OF env_cmds j(2)] by auto
    then show ?thesis
      using recordKey_inject ok_names [OF ok'] e dump_parse s(2) read_record a(1) j(1) ok' same by fastforce
  qed
  then show ?thesis using a(2) same(1) by (cases res) (auto simp: invariant_def coherent_def)
qed

lemma write_keeps:
  assumes st: "invariant st" and f: "writer sound recs ok f X" and a: "f (ca_inner st) = Inr (res, a)"
    and shrinks: "\<And>k s. view r' k = Some s \<Longrightarrow> view (ca_redis st) k = Some s"
    and gone: "\<And>v e i. res = Inr v \<Longrightarrow> (e, i) \<in> X v \<Longrightarrow> ok e i \<Longrightarrow> view r' (recordKey e i) = None"
  shows "invariant (st\<lparr>ca_inner := a, ca_redis := r'\<rparr>)"
proof -
  have kept: "sound a" "others_kept recs ok (case res of Inl er \<Rightarrow> {} | Inr v \<Rightarrow> X v) (ca_inner st) a"
    using f a st by (auto simp: writer_def invariant_def)
  have "recs a e i = Some j" if "ok e i" "view r' (recordKey e i) = Some s" "ce_parse env s = Some j" for e i s j
  proof -
    have "(e, i) \<notin> (case res of Inl er \<Rightarrow> {} | Inr v \<Rightarrow> X v)"
      using gone that(1,2) by (cases res) fastforce+
    moreover have "recs (ca_inner st) e i = Some j" using invariantE [OF st that(1) shrinks [OF that(2)] that(3)] .
    ultimately show ?thesis using kept(2) that(1) by (auto simp: others_kept_def)
  qed
  then show ?thesis using kept(1) by (auto simp: invariant_def coherent_def)
qed

lemma after_write_keeps:
  assumes st: "invariant st" and f: "writer sound recs ok f X"
    and run: "after_write (f (ca_inner st)) invalidate st = Inr (res, st')"
    and shrinks: "\<And>v r k s. view (invalidate v r) k = Some s \<Longrightarrow> view r k = Some s"
    and gone: "\<And>v r e i. (e, i) \<in> X v \<Longrightarrow> ok e i \<Longrightarrow> view (invalidate v r) (recordKey e i) = None"
  shows "invariant st'"
proof -
  obtain a where a: "f (ca_inner st) = Inr (res, a)"
      "st' = (case res of Inl er \<Rightarrow> st\<lparr>ca_inner := a\<rparr> | Inr v \<Rightarrow> st\<lparr>ca_inner := a, ca_redis := invalidate v (ca_redis st)\<rparr>)"
    using run by (auto simp: after_write_def exn_bind_def split: sum.split_asm prod.split_asm)
  have "st' = st\<lparr>ca_inner := a, ca_redis := (case res of Inl er \<Rightarrow> ca_redis st | Inr v \<Rightarrow> invalidate v (ca_redis st))\<rparr>"
    using a(2) by (cases res) auto
  moreover have "invariant (st\<lparr>ca_inner := a, ca_redis := (case res of Inl er \<Rightarrow> ca_redis st | Inr v \<Rightarrow> invalidate v (ca_redis st))\<rparr>)"
    by (rule write_keeps [OF st f a(1)]) (auto split: sum.split_asm intro: shrinks gone)
  ultimately show ?thesis by simp
qed

lemma after_bulk_keeps:
  assumes st: "invariant st" and e: "ent e" and f: "writer sound recs ok f (\<lambda>_. {e} \<times> UNIV)"
    and run: "after_bulk (f (ca_inner st)) (invalidateEntity env e) st = Some (Inr (res, st'))"
  shows "invariant st'"
proof (cases res)
  case (Inl er)
  then obtain a where a: "f (ca_inner st) = Inr (res, a)" "st' = st\<lparr>ca_inner := a, ca_redis := ca_redis st\<rparr>"
    using run by (auto simp: after_bulk_def split: sum.split_asm prod.split_asm)
  show ?thesis unfolding a(2) by (rule write_keeps [OF st f a(1)]) (auto simp: Inl)
next
  case (Inr n)
  then obtain a r where a: "f (ca_inner st) = Inr (res, a)" "invalidateEntity env e (ca_redis st) = Some r"
      "st' = st\<lparr>ca_inner := a, ca_redis := r\<rparr>"
    using run by (auto simp: after_bulk_def split: sum.split_asm prod.split_asm)
  show ?thesis unfolding a(3)
    by (rule write_keeps [OF st f a(1)]) (auto intro: invalidateEntity_view [OF env_cmds a(2)] entity_gone [OF e a(2)])
qed

lemma pass_keeps:
  assumes "invariant st" "reader sound recs f" "pass f st = Inr (x, st')"
  shows "invariant st'"
proof -
  obtain a where a: "f (ca_inner st) = Inr (x, a)" "st' = st\<lparr>ca_inner := a\<rparr>"
    using assms(3) by (cases "f (ca_inner st)") (auto simp: pass_def)
  then have "sound a" "recs a = recs (ca_inner st)" using assms(1,2) by (auto simp: reader_def invariant_def)
  then show ?thesis using assms(1) a(2) by (simp add: invariant_def coherent_def)
qed

theorem step_keeps: "cache_step env ad ent view st st' \<Longrightarrow> invariant st \<Longrightarrow> invariant st'"
proof (induction rule: cache_step.induct)
  case (step_read e i st res st')
  then show ?case by (blast intro: read_keeps)
next
  case (step_create e d st res st')
  show ?case
    by (rule after_write_keeps [OF step_create(3) create_writes [OF step_create(1)] step_create(2) [unfolded cached_create_def]])
      (auto intro: record_gone invalidateRecord_view [OF env_cmds])
next
  case (step_update e d i st res st')
  show ?case
    by (rule after_write_keeps [OF step_update(4) update_writes [OF step_update(1,2)] step_update(3) [unfolded cached_update_def]])
      (auto intro: record_gone invalidateRecord_view [OF env_cmds])
next
  case (step_remove e i st okay st')
  show ?case
    by (rule after_write_keeps [OF step_remove(3) remove_writes [OF step_remove(1)] step_remove(2) [unfolded cached_remove_def]])
      (auto intro: record_gone invalidateRecord_view [OF env_cmds])
next
  case (step_upsert e u q v d st res st')
  show ?case
    by (rule after_write_keeps [OF step_upsert(4) upsert_writes [OF step_upsert(1,2)] step_upsert(3) [unfolded cached_upsert_def]])
      (auto intro: record_gone invalidateRecord_view [OF env_cmds])
next
  case (step_create_many e ds st n st')
  then show ?case
    using after_bulk_keeps [OF _ _ bulk_writes(1) [of e ds]] unfolding cached_create_many_def by blast
next
  case (step_update_many e d flt st n st')
  then show ?case
    using after_bulk_keeps [OF _ _ bulk_writes(2) [of e d flt]] unfolding cached_update_many_def by blast
next
  case (step_delete_many e flt st n st')
  then show ?case
    using after_bulk_keeps [OF _ _ bulk_writes(3) [of e flt]] unfolding cached_delete_many_def by blast
next
  case (step_sensitive e i st res st')
  then show ?case using pass_keeps [OF _ readers(2)] by (auto simp: cached_read_sensitive_def)
next
  case (step_search e q m st hits st')
  then show ?case using pass_keeps [OF _ readers(3)] by (auto simp: cached_search_def)
next
  case (step_list e opts st hits st')
  then show ?case using pass_keeps [OF _ readers(4)] by (auto simp: cached_list_def)
next
  case (step_find_first e flt st res st')
  then show ?case using pass_keeps [OF _ readers(5)] by (auto simp: cached_find_first_def)
next
  case (step_find_by_field e q v st res st')
  then show ?case using pass_keeps [OF _ readers(6)] by (auto simp: cached_find_by_field_def)
next
  case (step_begin st okay st')
  then show ?case using pass_keeps [OF _ readers(7)] by (auto simp: cached_begin_def)
next
  case (step_commit st okay st')
  then show ?case using pass_keeps [OF _ readers(8)] by (auto simp: cached_commit_def)
next
  case (step_vanish r' st)
  then show ?case by (fastforce simp: invariant_def coherent_def)
qed

lemma reach_invariant: "cache_reach env ad ent view sound st \<Longrightarrow> invariant st"
proof (induction rule: cache_reach.induct)
  case (reach_start st)
  then show ?case by (simp add: invariant_def coherent_def)
next
  case (reach_step st st')
  then show ?case by (blast intro: step_keeps)
qed

text \<open>What a read answers in a coherent state.\<close>

lemma read_answers:
  assumes st: "invariant st" and ok: "ok e i"
  shows "cached_read env ad e i st = Inr (Inr j, st') \<Longrightarrow> recs (ca_inner st) e i = Some j"
    and "ba_read ad e i (ca_inner st) = Inr (Inr j, a') \<Longrightarrow> \<exists>st'. cached_read env ad e i st = Inr (Inr j, st')"
proof -
  have hit: "recs (ca_inner st) e i = Some j'" if "cache_lookup env e i (ca_redis st) = Some j'" for j'
    using lookup_view [OF env_cmds that] invariantE [OF st ok] by blast
  show "recs (ca_inner st) e i = Some j" if run: "cached_read env ad e i st = Inr (Inr j, st')"
  proof (cases "cache_lookup env e i (ca_redis st)")
    case None
    then obtain a where "ba_read ad e i (ca_inner st) = Inr (Inr j, a)"
      using run by (auto simp: cached_read_def exn_bind_def split: sum.split_asm prod.split_asm)
    then show ?thesis using read_record ok by blast
  next
    case (Some j')
    then show ?thesis using hit run by (simp add: cached_read_def)
  qed
  show "\<exists>st'. cached_read env ad e i st = Inr (Inr j, st')" if "ba_read ad e i (ca_inner st) = Inr (Inr j, a')"
    using hit read_record [OF that ok] that
    by (cases "cache_lookup env e i (ca_redis st)") (auto simp: cached_read_def exn_bind_def)
qed

end

end
