(* ===== verification/Cache_Redis.thy ===== *)
theory Cache_Redis
  imports Cache_Coherence Redis_Properties
begin

text \<open>
  The cache in front of the Redis adapter.  The adapter satisfies the interface
  \<open>record_adapter\<close> on every server that keeps the keys as documented: its records are those of
  \<^const>\<open>stored\<close>, and it is sound when each record carries the id it is kept under.  The cache
  server is instantiated with one in memory.  The properties of the cache follow.
\<close>

section \<open>The Redis adapter as a wrapped adapter\<close>

text \<open>
  The operations that the adapter does not override are those of \<^verbatim>\<open>Adapter\<close>; the names and
  schemas of the entities are loaded from files and are arguments.
\<close>

definition redis_backend ::
    "'r redis_env \<Rightarrow> string list \<Rightarrow> (string \<Rightarrow> 'k result) \<Rightarrow> ('r redis_state, list_options, json list \<times> int, 'k) base_adapter" where
  "redis_backend env entities schema = \<lparr>
     ba_create = redis_create env,
     ba_read = (\<lambda>e i st. Inr (redis_read env e i (rs_server st), st)),
     ba_read_sensitive = (\<lambda>e i st. Inr (redis_read env e i (rs_server st), st)),
     ba_search = (\<lambda>e query n st. Inr (Inl (internal_error
       (''Full-text search is not configured. Set DBAL_SEARCH_URL to an '' @ ''Elasticsearch endpoint to enable it.'')), st)),
     ba_update = redis_update env,
     ba_remove = redis_remove env,
     ba_list = (\<lambda>e opts st. map_sum id (\<lambda>res. (res, st)) (redis_list env e opts (rs_server st))),
     ba_create_many = (\<lambda>e ds st. map_sum id (map_prod Inr id) (redis_create_many env e ds 0 st)),
     ba_update_many = redis_update_many env,
     ba_delete_many = redis_delete_many env,
     ba_find_first = (\<lambda>e flt st. map_sum id (\<lambda>res. (res, st)) (redis_find_first env e flt (rs_server st))),
     ba_find_by_field = (\<lambda>e field v st. map_sum id (\<lambda>res. (res, st)) (redis_find_by_field env e field v (rs_server st))),
     ba_upsert = redis_upsert env,
     ba_entities = (\<lambda>st. Inr (Inr entities, st)),
     ba_schema = (\<lambda>e st. Inr (schema e, st)),
     ba_close = (\<lambda>st. Inr ((), st)),
     ba_native = (\<lambda>st. False),
     ba_begin = (\<lambda>st. Inr (redis_begin st)),
     ba_commit = (\<lambda>st. Inr (redis_commit st)),
     ba_rollback = redis_rollback env\<rparr>"

definition redis_ok :: "string \<Rightarrow> string \<Rightarrow> bool" where
  "redis_ok e i \<longleftrightarrow> cache_name e \<and> plain e i \<and> i \<noteq> []"

definition own_ids :: "'r redis_env \<Rightarrow> ('r \<Rightarrow> string \<Rightarrow> redis_value option) \<Rightarrow> 'r redis_state \<Rightarrow> bool" where
  "own_ids env view st \<longleftrightarrow>
     (\<forall>e i j. plain e i \<longrightarrow> stored env (view (rs_server st)) e i = Some j \<longrightarrow> jget j ''id'' = Some (JString i))"

lemma makeKey_plain:
  "CHR '':'' \<notin> set e \<Longrightarrow> plain e' i' \<Longrightarrow> makeKey e i = makeKey e' i' \<longleftrightarrow> e = e' \<and> i = i'"
  using colon_split [of e e' i i'] by (simp add: plain_def makeKey_def)

lemma reserved_plain:
  assumes "CHR '':'' \<notin> set e" "plain e' i'"
  shows "makeKey e' i' \<noteq> makeSetKey e" "makeKey e' i' \<noteq> makeCounterKey e"
  using assms colon_split [of e' e i' "''all''"] colon_split [of e' e i' "''id_counter''"]
  by (auto simp: plain_def makeKey_def makeSetKey_def makeCounterKey_def)

lemma cache_name_colon: "cache_name e \<Longrightarrow> CHR '':'' \<notin> set e"
  by (auto simp: cache_name_def)

lemma jget_assign_all: "map_of m k = None \<Longrightarrow> assign_all m j = Inr j' \<Longrightarrow> is_object j \<Longrightarrow> is_object j' \<and> jget j' k = jget j k"
proof (induction m j rule: assign_all.induct)
  case (2 x v m j)
  then obtain kvs where "j = JObject kvs" by (cases j) auto
  with 2 show ?case by (auto simp: exn_bind_def split: if_splits)
qed simp

lemma jget_merge: "jget d k = None \<Longrightarrow> merge_into d j = Inr j' \<Longrightarrow> jget j k \<noteq> None \<Longrightarrow> jget j' k = jget j k"
  using jget_assign_all [of _ k j j'] by (cases "(d, j)" rule: merge_into.cases; cases j) auto

locale redis_backed = redis_server c view
  for c :: "'r redis_cmds" and view +
  fixes env :: "'r redis_env" and entities :: "string list" and schema :: "string \<Rightarrow> 'k result"
  assumes backed_cmds: "re_cmds env = c"
    and backed_json: "dump_parses env" "\<exists>x. re_parse env [] = Inl x"
begin

abbreviation records :: "'r redis_state \<Rightarrow> string \<Rightarrow> string \<Rightarrow> json option" where
  "records st \<equiv> stored env (view (rs_server st))"

abbreviation kept :: "(string \<times> string) set \<Rightarrow> 'r redis_state \<Rightarrow> 'r redis_state \<Rightarrow> bool" where
  "kept X st st' \<equiv> (own_ids env view st \<longrightarrow> own_ids env view st') \<and> others_kept records redis_ok X st st'"

lemma kept_trans: "kept X st st1 \<Longrightarrow> kept X st1 st2 \<Longrightarrow> kept X st st2"
  by (auto simp: others_kept_def)

lemma kept_mono: "kept X st st' \<Longrightarrow> X \<subseteq> Y \<Longrightarrow> kept Y st st'"
  by (auto simp: others_kept_def)

lemma parse_serialize: "re_parse env (serialize env rec) = Inr j \<Longrightarrow> j = rec"
  using backed_json by (auto simp: serialize_def dump_parses_def split: sum.split_asm)

text \<open>The three effects: the records stay, one is put, one is dropped.\<close>

lemma same_kept:
  assumes "cache_name e"
    and "\<And>k. k \<noteq> makeSetKey e \<Longrightarrow> k \<noteq> makeCounterKey e \<Longrightarrow> view (rs_server st') k = view (rs_server st) k"
  shows "kept X st st'"
proof -
  have "records st' e' i' = records st e' i'" if "plain e' i'" for e' i'
    using assms(2) [OF reserved_plain [OF cache_name_colon [OF assms(1)] that]] by (simp add: stored_def)
  then show ?thesis by (auto simp: own_ids_def others_kept_def redis_ok_def)
qed

lemma put_kept:
  assumes e: "cache_name e"
    and put: "\<And>k. k \<noteq> makeSetKey e \<Longrightarrow> k \<noteq> makeCounterKey e \<Longrightarrow>
      view (rs_server st') k = ((view (rs_server st))(makeKey e i \<mapsto> RStr (serialize env rec))) k"
    and i: "own_ids env view st \<Longrightarrow> plain e i \<Longrightarrow> jget rec ''id'' = Some (JString i)"
  shows "kept {(e, i)} st st'"
proof -
  have old: "records st' e' i' = records st e' i'" if "plain e' i'" "(e', i') \<noteq> (e, i)" for e' i'
    using put [OF reserved_plain [OF cache_name_colon [OF e] that(1)]] makeKey_plain [OF cache_name_colon [OF e] that(1), of i] that(2)
    by (auto simp: stored_def)
  have new: "j = rec" if "plain e i" "records st' e i = Some j" for j
    using put [OF reserved_plain [OF cache_name_colon [OF e] that(1)]] that(2) parse_serialize
    by (auto simp: stored_def split: sum.split_asm)
  have "own_ids env view st'" if own: "own_ids env view st"
    unfolding own_ids_def
  proof (intro allI impI)
    fix e' i' j
    assume "plain e' i'" "records st' e' i' = Some j"
    then show "jget j ''id'' = Some (JString i')"
      using old new i own by (cases "(e', i') = (e, i)") (auto simp: own_ids_def)
  qed
  then show ?thesis using old by (auto simp: others_kept_def redis_ok_def)
qed

lemma drop_kept:
  assumes e: "cache_name e"
    and drop: "\<And>k. k \<noteq> makeSetKey e \<Longrightarrow> k \<noteq> makeCounterKey e \<Longrightarrow>
      view (rs_server st') k = ((view (rs_server st))(makeKey e i := None)) k"
  shows "kept {(e, i)} st st'"
proof -
  have "records st' e' i' = (if (e', i') = (e, i) then None else records st e' i')" if "plain e' i'" for e' i'
    using drop [OF reserved_plain [OF cache_name_colon [OF e] that]] makeKey_plain [OF cache_name_colon [OF e] that, of i]
    by (auto simp: stored_def)
  then show ?thesis by (auto simp: own_ids_def others_kept_def redis_ok_def split: if_split_asm)
qed

lemma create_kept:
  assumes e: "cache_name e" and run: "redis_create env e d st = Inr (res, st')"
  shows "kept (case res of Inl er \<Rightarrow> {} | Inr rec \<Rightarrow> {(e, idFromRecord rec)}) st st'"
proof (cases res)
  case (Inr rec)
  obtain i r b r1 where run: "\<forall>k. k \<noteq> makeCounterKey e \<longrightarrow> view r k = view (rs_server st) k"
      "jassign ''id'' (JString i) d = Inr rec"
      "cmd_set c (makeKey e i) (serialize env rec) r = (Inr b, r1)" "e \<in> re_schemas env"
      "st' = on_tx (recordCreate e i) (st\<lparr>rs_server := snd (cmd_sadd c (makeSetKey e) i r1)\<rparr>)"
    by (rule create_runs [OF backed_cmds run [unfolded Inr]]; rule that; assumption)
  have rec: "jget rec ''id'' = Some (JString i)" "is_object rec" using run(2) by (cases d; auto)+
  have "view (rs_server st') k = ((view (rs_server st))(makeKey e i \<mapsto> RStr (serialize env rec))) k"
    if "k \<noteq> makeSetKey e" "k \<noteq> makeCounterKey e" for k
    using that cmd_sadd_key [of k "makeSetKey e" i r1] cmd_set_ok [OF run(3)] run(1,5) by simp
  from put_kept [OF e this rec(1)] show ?thesis using rec by (simp add: Inr idFromRecord_def)
next
  case (Inl er)
  have "view (rs_server st') k = view (rs_server st) k" if "k \<noteq> makeCounterKey e" for k
    using run generateId_key [OF _ backed_cmds that]
    by (auto simp: Inl redis_create_def exn_bind_def Let_def backed_cmds map_sum_Inr_iff
        split: if_splits sum.split_asm option.split_asm prod.split_asm dest!: cmd_set_error)
  then show ?thesis using same_kept [OF e] by (simp add: Inl)
qed

lemma update_kept:
  assumes e: "cache_name e" and d: "jget d ''id'' = None" and run: "redis_update env e i d st = Inr (res, st')"
  shows "kept (case res of Inl er \<Rightarrow> {} | Inr rec \<Rightarrow> {(e, i)}) st st' \<and>
    (\<forall>rec. res = Inr rec \<longrightarrow> own_ids env view st \<longrightarrow> plain e i \<longrightarrow> idFromRecord rec = i)"
proof (cases res)
  case (Inl er)
  have "view (rs_server st') = view (rs_server st)"
    using run by (auto simp: Inl redis_update_def exn_bind_def Let_def backed_cmds
        split: sum.split_asm prod.split_asm dest!: cmd_set_error)
  then show ?thesis using same_kept [OF e, of st' st "{}"] by (simp add: Inl)
next
  case (Inr rec)
  obtain old b r1 where run: "redis_read env e i (rs_server st) = Inr old" "merge_into d old = Inr rec"
      "cmd_set c (makeKey e i) (serialize env rec) (rs_server st) = (Inr b, r1)" "rs_server st' = r1"
    using run backed_cmds by (auto simp: Inr redis_update_def exn_bind_def Let_def split: sum.split_asm prod.split_asm)
  have i: "jget rec ''id'' = Some (JString i)" if "own_ids env view st" "plain e i"
    using jget_merge [OF d run(2)] read_stored [OF backed_cmds run(1)] that by (auto simp: own_ids_def)
  have "view (rs_server st') k = ((view (rs_server st))(makeKey e i \<mapsto> RStr (serialize env rec))) k" for k
    by (simp add: run(4) cmd_set_ok [OF run(3)])
  from put_kept [OF e this i] show ?thesis
    using i by (cases rec) (auto simp: Inr idFromRecord_def)
qed

lemma remove_kept:
  assumes e: "cache_name e" and run: "redis_remove env e i st = Inr (res, st')"
  shows "kept (case res of Inl er \<Rightarrow> {} | Inr b \<Rightarrow> {(e, i)}) st st'"
proof -
  obtain x r1 where del: "cmd_del c (makeKey e i) (rs_server st) = (x, r1)" by fastforce
  then consider (fails) er er' where "x = Inl er" "rs_server st' = r1" "res = Inl er'"
    | (absent) er where "x = Inr 0" "rs_server st' = r1" "res = Inl er"
    | (gone) n where "x = Inr n" "n \<noteq> 0" "rs_server st' = snd (cmd_srem c (makeSetKey e) i r1)" "res = Inr True"
    using run by (auto simp: redis_remove_def exn_bind_def map_sum_Inr_iff backed_cmds
        split: sum.split_asm option.split_asm if_split_asm)
  then show ?thesis
  proof cases
    case fails
    then show ?thesis using same_kept [OF e, of st' st "{}"] cmd_del_error del by simp
  next
    case absent
    then have "view (rs_server st') = view (rs_server st)"
      using cmd_del_ok [of "makeKey e i" "rs_server st" 0 r1] del by (simp add: fun_upd_idem)
    then show ?thesis using same_kept [OF e, of st' st "{}"] absent by simp
  next
    case gone
    then show ?thesis
      using drop_kept [OF e, of st' st i] cmd_srem_key [of _ "makeSetKey e" i r1] cmd_del_ok [of "makeKey e i" "rs_server st" n r1] del
      by simp
  qed
qed

text \<open>The bulk operations repeat these.\<close>

lemma create_many_kept:
  assumes e: "cache_name e"
  shows "redis_create_many env e ds n st = Inr (m, st') \<Longrightarrow> kept ({e} \<times> UNIV) st st'"
proof (induction ds arbitrary: n st)
  case Nil
  then show ?case by (simp add: others_kept_def)
next
  case (Cons d ds)
  then obtain res st1 k where run: "redis_create env e d st = Inr (res, st1)" "redis_create_many env e ds k st1 = Inr (m, st')"
    by (auto split: sum.split_asm prod.split_asm)
  have "kept ({e} \<times> UNIV) st st1" by (rule kept_mono [OF create_kept [OF e run(1)]]) (auto split: sum.split)
  then show ?case using Cons.IH [OF run(2)] kept_trans by blast
qed

lemma update_each_kept:
  assumes e: "cache_name e" and d: "jget d ''id'' = None"
  shows "update_each env e d xs n st = Inr (m, st') \<Longrightarrow> kept ({e} \<times> UNIV) st st'"
proof (induction xs arbitrary: n st)
  case Nil
  then show ?case by (simp add: others_kept_def)
next
  case (Cons x xs)
  then obtain i res st1 k where run: "redis_update env e i d st = Inr (res, st1)" "update_each env e d xs k st1 = Inr (m, st')"
    by (auto simp: exn_bind_def split: sum.split_asm prod.split_asm)
  have "kept ({e} \<times> UNIV) st st1"
    by (rule kept_mono [OF conjunct1 [OF update_kept [OF e d run(1)]]]) (auto split: sum.split)
  then show ?case using Cons.IH [OF run(2)] kept_trans by blast
qed

lemma remove_each_kept:
  assumes e: "cache_name e"
  shows "remove_each env e xs n st = Inr (m, st') \<Longrightarrow> kept ({e} \<times> UNIV) st st'"
proof (induction xs arbitrary: n st)
  case Nil
  then show ?case by (simp add: others_kept_def)
next
  case (Cons x xs)
  then obtain i res st1 k where run: "redis_remove env e i st = Inr (res, st1)" "remove_each env e xs k st1 = Inr (m, st')"
    by (auto simp: exn_bind_def split: sum.split_asm prod.split_asm)
  have "kept ({e} \<times> UNIV) st st1" by (rule kept_mono [OF remove_kept [OF e run(1)]]) (auto split: sum.split)
  then show ?case using Cons.IH [OF run(2)] kept_trans by blast
qed

lemma update_many_kept:
  assumes "cache_name e" "jget d ''id'' = None" "redis_update_many env e flt d st = Inr (res, st')"
  shows "kept (case res of Inl er \<Rightarrow> {} | Inr n \<Rightarrow> {e} \<times> UNIV) st st'"
  using assms(3) update_each_kept [OF assms(1,2)]
  by (auto simp: redis_update_many_def exn_bind_def map_sum_Inr_iff others_kept_def
      split: sum.split_asm prod.split_asm)

lemma delete_many_kept:
  assumes "cache_name e" "redis_delete_many env e flt st = Inr (res, st')"
  shows "kept (case res of Inl er \<Rightarrow> {} | Inr n \<Rightarrow> {e} \<times> UNIV) st st'"
  using assms(2) remove_each_kept [OF assms(1)]
  by (auto simp: redis_delete_many_def exn_bind_def map_sum_Inr_iff others_kept_def
      split: sum.split_asm prod.split_asm)

lemma upsert_kept:
  assumes e: "cache_name e" and u: "jget u ''id'' = None" and own: "own_ids env view st"
    and run: "redis_upsert env e field v d u st = Inr (res, st')"
  shows "kept (case res of Inl er \<Rightarrow> {} | Inr rec \<Rightarrow> {(e, idFromRecord rec)}) st st'"
proof -
  from run consider (update) i where "redis_update env e i u st = Inr (res, st')" | (create) "redis_create env e d st = Inr (res, st')"
    by (auto simp: redis_upsert_def exn_bind_def split: sum.split_asm)
  then show ?thesis
  proof cases
    case update
    then have kept: "kept (case res of Inl er \<Rightarrow> {} | Inr rec \<Rightarrow> {(e, i)}) st st'"
        "\<And>rec. res = Inr rec \<Longrightarrow> plain e i \<Longrightarrow> idFromRecord rec = i"
      using update_kept [OF e u] own by blast+
    show ?thesis
    proof (cases "\<exists>rec. res = Inr rec \<and> \<not> plain e i")
      case True
      then obtain rec where rec: "res = Inr rec" "\<not> plain e i" by blast
      then have "others_kept records redis_ok {} st st'"
        using kept(1) unfolding others_kept_def redis_ok_def by fastforce
      then have "others_kept records redis_ok X st st'" for X by (auto simp: others_kept_def)
      then show ?thesis using kept(1) rec by simp
    next
      case False
      then show ?thesis using kept by (cases res) auto
    qed
  next
    case create
    then show ?thesis by (rule create_kept [OF e])
  qed
qed

lemma create_many_result:
  assumes "cache_name e" "map_sum id (map_prod Inr id) (redis_create_many env e ds 0 st) = Inr (res, st')"
  shows "kept (case res of Inl er \<Rightarrow> {} | Inr n \<Rightarrow> {e} \<times> UNIV) st st'"
  using assms(2) create_many_kept [OF assms(1)] by (auto simp: map_sum_Inr_iff)

lemma on_server: "map_sum id (\<lambda>x. (x, st)) y = Inr (res, st') \<Longrightarrow> st' = st"
  by (auto simp: map_sum_Inr_iff)

lemma begin_server: "redis_begin st = (x, st') \<Longrightarrow> rs_server st' = rs_server st"
  by (auto simp: redis_begin_def split: if_splits)

lemma commit_server: "redis_commit st = (x, st') \<Longrightarrow> rs_server st' = rs_server st"
  by (auto simp: redis_commit_def split: if_splits)

end

sublocale redis_backed \<subseteq> redis_rec: record_adapter "redis_backend env entities schema"
    "\<lambda>st. stored env (view (rs_server st))" redis_ok cache_name "own_ids env view"
proof
  show "cache_name e \<and> i \<noteq> []" if "redis_ok e i" for e i
    using that by (simp add: redis_ok_def)
  show "stored env (view (rs_server a)) e i = Some j"
    if "ba_read (redis_backend env entities schema) e i a = Inr (Inr j, a')" "redis_ok e i" for e i a j a'
    using that read_stored [OF backed_cmds] by (auto simp: redis_backend_def)
qed (auto simp: redis_backend_def reader_def writer_def own_ids_def
      dest: create_kept update_kept remove_kept upsert_kept update_many_kept delete_many_kept create_many_result
        on_server begin_server commit_server)

context redis_backed
begin

lemmas backend_records = redis_rec.record_adapter_axioms

end

section \<open>A cache server in memory\<close>

type_synonym cache_db = "(string \<times> string) list"

definition mem_glob :: "string \<Rightarrow> string \<Rightarrow> bool" where
  "mem_glob pattern k \<longleftrightarrow> pattern \<noteq> [] \<and> last pattern = CHR ''*'' \<and> prefix (butlast pattern) k"

definition mem_cache :: "cache_db cache_cmds" where
  "mem_cache = \<lparr>
     cc_get = (\<lambda>r k. Inr (map_of r k)),
     cc_setex = (\<lambda>r k ttl v. (Inr (), (k, v) # r)),
     cc_del = (\<lambda>r k. (Inr (if map_of r k = None then 0 else 1), filter (\<lambda>p. fst p \<noteq> k) r)),
     cc_scan = (\<lambda>r cursor pattern n. Inr (0, filter (mem_glob pattern) (remdups (map fst r)))),
     cc_unlink = (\<lambda>r ks. (Inr (int (length (filter (\<lambda>k. map_of r k \<noteq> None) (remdups ks)))), filter (\<lambda>p. fst p \<notin> set ks) r))\<rparr>"

lemma map_of_filter_key: "map_of (filter (\<lambda>p. P (fst p)) r) k = (if P k then map_of r k else None)"
  by (induction r) auto

lemmas map_of_without = map_of_filter_key [of "\<lambda>x. x \<noteq> k" for k] map_of_filter_key [of "\<lambda>x. x \<notin> set ks" for ks]

lemma mem_scan_run: "scan_run mem_cache pattern cursor xs \<Longrightarrow>
    \<exists>r. xs = [(r, filter (mem_glob pattern) (remdups (map fst r)))]"
  by (cases "(mem_cache, pattern, cursor, xs)" rule: scan_run.cases) (auto simp: mem_cache_def)

lemma mem_glob_record: "mem_glob (entityScanPattern e) (recordKey e i)"
  by (auto simp: mem_glob_def entityScanPattern_def recordKey_def butlast_append prefix_def)

interpretation mem: cache_server mem_cache map_of
proof
  show "\<exists>(r, batch) \<in> set xs. recordKey e i \<in> set batch"
    if "scan_run mem_cache (entityScanPattern e) 0 xs" "cache_name e"
      "\<And>r batch. (r, batch) \<in> set xs \<Longrightarrow> map_of r (recordKey e i) \<noteq> None" for e xs i
    using mem_scan_run [OF that(1)] that(3) mem_glob_record [of e i]
    by (auto simp: map_of_eq_None_iff)
qed (auto simp: mem_cache_def map_of_without split: if_splits)

text \<open>On this server the scanning loop returns, for every entity.\<close>

lemma mem_invalidateEntity:
  assumes "ce_cmds env = mem_cache"
  shows "\<exists>r'. invalidateEntity env e r = Some r'"
  by (subst invalidateEntity_def, subst scan_unlink.simps) (simp add: assms mem_cache_def)

text \<open>The cache over the Redis adapter, for every environment whose JSON library reads what it writes.\<close>

definition json_env :: "(json \<Rightarrow> exn + string) \<Rightarrow> (string \<Rightarrow> string + json) \<Rightarrow> cache_db cache_env" where
  "json_env dump parse = \<lparr>ce_cmds = mem_cache, ce_dump = dump,
     ce_parse = (\<lambda>s. case parse s of Inl x \<Rightarrow> None | Inr j \<Rightarrow> Some j)\<rparr>"

lemma redis_caching:
  assumes "working_redis (re_cmds renv) view" "dump_parses renv" "re_parse renv [] = Inl x"
  shows "caching (redis_backend renv entities schema) (\<lambda>st. stored renv (view (rs_server st))) redis_ok cache_name
    (own_ids renv view) mem_cache map_of (json_env (re_dump renv) (re_parse renv))"
proof -
  have "redis_server (re_cmds renv) view" using assms(1) by (simp add: working_redis_def)
  then have "redis_backed (re_cmds renv) view renv"
    using assms(2,3) by (auto intro!: redis_backed.intro redis_backed_axioms.intro)
  then have ad: "record_adapter (redis_backend renv entities schema) (\<lambda>st. stored renv (view (rs_server st))) redis_ok cache_name (own_ids renv view)"
    by (rule redis_backed.backend_records)
  show ?thesis
    by (intro caching.intro ad mem.cache_server_axioms caching_axioms.intro)
      (use assms(2) in \<open>auto simp: json_env_def mem_cache_def dump_parses_def\<close>)
qed

section \<open>Properties of the cache\<close>

definition demo_backend :: "(redis_db redis_state, list_options, json list \<times> int, unit) base_adapter" where
  "demo_backend = redis_backend demo_redis [''User''] (\<lambda>e. Inl (not_found e))"

definition demo_cache_env :: "cache_db cache_env" where
  "demo_cache_env = json_env (re_dump demo_redis) (re_parse demo_redis)"

interpretation demo: caching demo_backend "\<lambda>st. stored demo_redis (rs_server st)" redis_ok cache_name
    "own_ids demo_redis (\<lambda>r k. r k)" mem_cache map_of demo_cache_env
  using redis_caching [OF demo_redis_ok(1,2), of "''no JSON''"]
  by (simp add: demo_backend_def demo_cache_env_def demo_redis_def)

definition demo_cached :: "cache_db \<Rightarrow> (redis_db redis_state, cache_db) cached" where
  "demo_cached r = \<lparr>ca_inner = demo_created, ca_redis = r, ca_ttl = 300\<rparr>"

lemma demo_read: "cached_read demo_cache_env demo_backend ''User'' ''7'' (demo_cached []) =
    Inr (Inr demo_record, demo_cached [(''dbal:cache:User:7'', ''ada'')])"
  by (simp add: cached_read_def cache_lookup_def backfill_def demo_cache_env_def json_env_def mem_cache_def demo_backend_def
      redis_backend_def redis_read_def cmd_get_def executed_def demo_redis_def mem_redis_def makeKey_def deserialize_def
      demo_cached_def demo_created_def exn_bind_def recordKey_def kCacheKeyPrefix_def)

lemma demo_read_again: "cached_read demo_cache_env demo_backend ''User'' ''7'' (demo_cached [(''dbal:cache:User:7'', ''ada'')]) =
    Inr (Inr demo_record, demo_cached [(''dbal:cache:User:7'', ''ada'')])"
  by (simp add: cached_read_def cache_lookup_def demo_cache_env_def json_env_def mem_cache_def demo_redis_def
      demo_cached_def recordKey_def kCacheKeyPrefix_def)

lemma demo_own_ids: "own_ids demo_redis (\<lambda>r k. r k) demo_created"
proof -
  have "i = ''7'' \<and> j = demo_record" if p: "plain e i" and j: "stored demo_redis (rs_server demo_created) e i = Some j" for e i j
  proof -
    have "makeKey e i = ''User:7''" "j = demo_record"
      using j by (auto simp: stored_def demo_created_def demo_redis_def split: if_splits)
    moreover from this have "makeKey e i = makeKey ''User'' ''7''" by (simp add: makeKey_def)
    ultimately show ?thesis using makeKey_inject [OF p demo_redis_ok(5)] by simp
  qed
  then show ?thesis by (fastforce simp: own_ids_def demo_record_def)
qed

lemma demo_reach: "cache_reach demo_cache_env demo_backend cache_name map_of (own_ids demo_redis (\<lambda>r k. r k))
    (demo_cached [(''dbal:cache:User:7'', ''ada'')])"
proof (rule reach_step)
  show "cache_reach demo_cache_env demo_backend cache_name map_of (own_ids demo_redis (\<lambda>r k. r k)) (demo_cached [])"
    by (rule reach_start) (simp_all add: demo_cached_def demo_own_ids)
  show "cache_step demo_cache_env demo_backend cache_name map_of (demo_cached []) (demo_cached [(''dbal:cache:User:7'', ''ada'')])"
    by (rule step_read [OF _ demo_read]) (simp add: cache_name_def)
qed

text \<open>
  C28: the cache is coherent.  After any run of reads, writes, lists and transactions that are begun
  and committed, in which keys may also vanish from the cache, a read through the cache answers only
  with the record that the wrapped adapter holds, and it answers whenever the adapter would.  The
  server is one that does not refuse to delete; entity names are free of colons and glob
  characters, and updates do not rename records.
\<close>

theorem cache_coherent:
  assumes "caching ad recs ok ent sound c view env" "cache_reach env ad ent view sound st" "ok e i"
  shows "(cached_read env ad e i st = Inr (Inr j, st') \<longrightarrow> recs (ca_inner st) e i = Some j) \<and>
    (ba_read ad e i (ca_inner st) = Inr (Inr j, a') \<longrightarrow> (\<exists>st'. cached_read env ad e i st = Inr (Inr j, st')))"
  using caching.read_answers [OF assms(1) caching.reach_invariant [OF assms(1,2)] assms(3)] by blast

theorem cache_coherent_witness:
  "stored demo_redis (rs_server demo_created) ''User'' ''7'' = Some demo_record"
proof -
  have "redis_ok ''User'' ''7''" by (simp add: redis_ok_def cache_name_def plain_def)
  from cache_coherent [OF demo.caching_axioms demo_reach this, of demo_record "demo_cached [(''dbal:cache:User:7'', ''ada'')]"]
  show ?thesis using demo_read_again by (simp add: demo_cached_def)
qed

text \<open>
  A server on which deleting removes and writing keeps a key.
\<close>

definition obedient :: "'r cache_cmds \<Rightarrow> bool" where
  "obedient c \<longleftrightarrow>
     (\<forall>r k. \<exists>n r'. cc_del c r k = (Inr n, r') \<and> cc_get c r' k = Inr None) \<and>
     (\<forall>r k ttl v. \<exists>u r'. cc_setex c r k ttl v = (Inr u, r') \<and> cc_get c r' k = Inr (Some v))"

lemma obedient_delE:
  assumes "obedient c"
  obtains n r' where "cc_del c r k = (Inr n, r')" "cc_get c r' k = Inr None"
  using assms unfolding obedient_def by blast

lemma obedient_setE:
  assumes "obedient c"
  obtains u r' where "cc_setex c r k ttl v = (Inr u, r')" "cc_get c r' k = Inr (Some v)"
  using assms unfolding obedient_def by blast

lemma lookup_invalidated:
  assumes "obedient (ce_cmds env)" "i \<noteq> []"
  shows "cache_lookup env e i (invalidateRecord env e i r) = None"
  by (rule obedient_delE [OF assms(1), of r "recordKey e i"]) (simp add: cache_lookup_def invalidateRecord_def assms(2))

lemma lookup_backfilled:
  assumes "obedient (ce_cmds env)" "ce_dump env j = Inr s" "ce_parse env s = Some j"
  shows "cache_lookup env e i (backfill env ttl e i j r) = Some j"
  by (rule obedient_setE [OF assms(1), of r "recordKey e i" ttl s]) (simp add: cache_lookup_def backfill_def assms(2,3))

lemma cached_hit: "cache_lookup env e i (ca_redis st) = Some j \<Longrightarrow> cached_read env ad e i st = Inr (Inr j, st)"
  by (simp add: cached_read_def)

lemma cached_miss:
  assumes "cache_lookup env e i (ca_redis st) = None" "cached_read env ad e i st = Inr (Inr j, st')"
  shows "ca_redis st' = backfill env (ca_ttl st) e i j (ca_redis st)"
  using assms by (auto simp: cached_read_def exn_bind_def split: sum.split_asm prod.split_asm)

text \<open>
  A read that fetched its record before an update, and writes it to the cache after the update has
  invalidated, leaves the old record to be served.
\<close>

lemma late_backfill_stale:
  assumes "obedient (ce_cmds env)" "ce_dump env j = Inr s" "ce_parse env s = Some j"
    and "cache_lookup env e i (ca_redis st) = None" "ba_read ad e i (ca_inner st) = Inr (Inr j, a)"
    and "cached_update env ad e i d (st\<lparr>ca_inner := a\<rparr>) = Inr (Inr new, st')"
  shows "cached_read env ad e i (st'\<lparr>ca_redis := backfill env ttl e i j (ca_redis st')\<rparr>) =
    Inr (Inr j, st'\<lparr>ca_redis := backfill env ttl e i j (ca_redis st')\<rparr>)"
  by (rule cached_hit) (simp add: lookup_backfilled [OF assms(1-3)])

text \<open>
  A rollback leaves what was read in the transaction to be served.  In a transaction, a record is
  updated and read through the cache, and then the transaction is rolled back: every later read
  through the cache answers with the record of the transaction, whatever the adapter holds by then,
  until the key expires or is written.
\<close>

theorem cache_rollback_stale:
  assumes "obedient (ce_cmds env)" "ce_dump env j = Inr s" "ce_parse env s = Some j" "i \<noteq> []"
    and "cached_begin ad st0 = Inr (Inr True, st1)"
    and "cached_update env ad e i d st1 = Inr (Inr j', st2)"
    and "cached_read env ad e i st2 = Inr (Inr j, st3)"
    and "cached_rollback ad st3 = Inr (Inr True, st4)"
  shows "cached_read env ad e i st4 = Inr (Inr j, st4)"
proof -
  have "ca_redis st2 = invalidateRecord env e i (ca_redis st1)"
    using assms(6) by (auto simp: cached_update_def after_write_def exn_bind_def split: sum.split_asm prod.split_asm)
  then have "cache_lookup env e i (ca_redis st2) = None" using lookup_invalidated [OF assms(1,4)] by simp
  from cached_miss [OF this assms(7)] have "cache_lookup env e i (ca_redis st3) = Some j"
    using lookup_backfilled [OF assms(1-3)] by simp
  moreover have "ca_redis st4 = ca_redis st3"
    using assms(8) by (auto simp: cached_rollback_def pass_def map_sum_Inr_iff)
  ultimately show ?thesis by (intro cached_hit) simp
qed

text \<open>An adapter of one record, with a snapshot for its transaction.\<close>

definition snap_adapter :: "(json \<times> json, unit, unit, unit) base_adapter" where
  "snap_adapter = \<lparr>
     ba_create = (\<lambda>e d a. Inr (Inl (not_found e), a)),
     ba_read = (\<lambda>e i a. Inr (Inr (fst a), a)),
     ba_read_sensitive = (\<lambda>e i a. Inr (Inr (fst a), a)),
     ba_search = (\<lambda>e q n a. Inr (Inl (not_found e), a)),
     ba_update = (\<lambda>e i d a. Inr (Inr d, (d, snd a))),
     ba_remove = (\<lambda>e i a. Inr (Inl (not_found e), a)),
     ba_list = (\<lambda>e opts a. Inr (Inl (not_found e), a)),
     ba_create_many = (\<lambda>e ds a. Inr (Inr 0, a)),
     ba_update_many = (\<lambda>e flt d a. Inr (Inr 0, a)),
     ba_delete_many = (\<lambda>e flt a. Inr (Inr 0, a)),
     ba_find_first = (\<lambda>e flt a. Inr (Inl (not_found e), a)),
     ba_find_by_field = (\<lambda>e field v a. Inr (Inl (not_found e), a)),
     ba_upsert = (\<lambda>e field v d u a. Inr (Inl (not_found e), a)),
     ba_entities = (\<lambda>a. Inr (Inr [], a)),
     ba_schema = (\<lambda>e a. Inr (Inl (not_found e), a)),
     ba_close = (\<lambda>a. Inr ((), a)),
     ba_native = (\<lambda>a. True),
     ba_begin = (\<lambda>a. Inr (Inr True, (fst a, fst a))),
     ba_commit = (\<lambda>a. Inr (Inr True, a)),
     ba_rollback = (\<lambda>a. Inr (Inr True, (snd a, snd a)))\<rparr>"

definition snap_state :: "json \<times> json \<Rightarrow> cache_db \<Rightarrow> (json \<times> json, cache_db) cached" where
  "snap_state a r = \<lparr>ca_inner = a, ca_redis = r, ca_ttl = 300\<rparr>"

theorem cache_rollback_stale_witness:
  "cached_read demo_cache_env snap_adapter ''User'' ''7'' (snap_state (JNull, JNull) [(''dbal:cache:User:7'', ''ada'')]) =
     Inr (Inr demo_record, snap_state (JNull, JNull) [(''dbal:cache:User:7'', ''ada'')]) \<and>
   ba_read snap_adapter ''User'' ''7'' (JNull, JNull) = Inr (Inr JNull, (JNull, JNull))"
proof -
  note defs = snap_adapter_def snap_state_def demo_cache_env_def json_env_def mem_cache_def demo_redis_def
    cached_begin_def cached_update_def cached_rollback_def pass_def after_write_def exn_bind_def
    invalidateRecord_def cached_read_def cache_lookup_def backfill_def recordKey_def kCacheKeyPrefix_def
  have "obedient (ce_cmds demo_cache_env)"
    by (simp add: obedient_def demo_cache_env_def json_env_def mem_cache_def map_of_without)
  moreover have "ce_dump demo_cache_env demo_record = Inr ''ada''" "ce_parse demo_cache_env ''ada'' = Some demo_record"
    by (simp_all add: demo_cache_env_def json_env_def demo_redis_def)
  moreover have "cached_begin snap_adapter (snap_state (JNull, JNull) []) = Inr (Inr True, snap_state (JNull, JNull) [])"
    "cached_update demo_cache_env snap_adapter ''User'' ''7'' demo_record (snap_state (JNull, JNull) []) =
       Inr (Inr demo_record, snap_state (demo_record, JNull) [])"
    "cached_read demo_cache_env snap_adapter ''User'' ''7'' (snap_state (demo_record, JNull) []) =
       Inr (Inr demo_record, snap_state (demo_record, JNull) [(''dbal:cache:User:7'', ''ada'')])"
    "cached_rollback snap_adapter (snap_state (demo_record, JNull) [(''dbal:cache:User:7'', ''ada'')]) =
       Inr (Inr True, snap_state (JNull, JNull) [(''dbal:cache:User:7'', ''ada'')])"
    by (simp_all add: defs)
  ultimately have "cached_read demo_cache_env snap_adapter ''User'' ''7'' (snap_state (JNull, JNull) [(''dbal:cache:User:7'', ''ada'')]) =
     Inr (Inr demo_record, snap_state (JNull, JNull) [(''dbal:cache:User:7'', ''ada'')])"
    by (rule cache_rollback_stale [OF _ _ _ list.simps(3)])
  then show ?thesis by (simp add: snap_adapter_def)
qed

end
