(* ===== verification/Cache_Config.thy ===== *)
theory Cache_Config
  imports Cache_Adapter
begin

text \<open>
  What the configuration parser of the cache accepts (\<^verbatim>\<open>src/cache/cache_config.cpp\<close>): the written form
  of a parameter list is read back, and a URL is enabled exactly when all of its parameters are valid.
\<close>

definition clean_param :: "string \<times> string \<Rightarrow> bool" where
  "clean_param p \<longleftrightarrow> CHR ''&'' \<notin> set (fst p) \<and> CHR ''='' \<notin> set (fst p) \<and> CHR ''&'' \<notin> set (snd p)"

fun render_params :: "(string \<times> string) list \<Rightarrow> string" where
  "render_params [] = []"
| "render_params [(k, v)] = k @ CHR ''='' # v"
| "render_params ((k, v) # p # ps) = k @ CHR ''='' # v @ CHR ''&'' # render_params (p # ps)"

lemma while_before: "c \<notin> set k \<Longrightarrow> takeWhile (\<lambda>x. x \<noteq> c) (k @ c # r) = k \<and> dropWhile (\<lambda>x. x \<noteq> c) (k @ c # r) = c # r"
  by (induction k) auto

lemma query_pairs_one:
  assumes "clean_param (k, v)" "rest = [] \<or> (\<exists>r. rest = CHR ''&'' # r)"
  shows "query_pairs (k @ CHR ''='' # v @ rest) = (k, v) # query_pairs (drop 1 rest)"
proof -
  let ?s = "k @ CHR ''='' # v @ rest"
  have pair: "takeWhile (\<lambda>x. x \<noteq> CHR ''&'') ?s = k @ CHR ''='' # v"
    using assms while_before [of "CHR ''&''" "k @ CHR ''='' # v"]
    by (auto simp: clean_param_def takeWhile_eq_all_conv)
  have parts: "takeWhile (\<lambda>x. x \<noteq> CHR ''='') (k @ CHR ''='' # v) = k"
      "dropWhile (\<lambda>x. x \<noteq> CHR ''='') (k @ CHR ''='' # v) = CHR ''='' # v"
    using assms(1) while_before [of "CHR ''=''" k v] by (auto simp: clean_param_def)
  obtain c t where "?s = c # t" by (cases ?s) auto
  then have "query_pairs ?s =
      (let pair = takeWhile (\<lambda>x. x \<noteq> CHR ''&'') ?s; more = query_pairs (drop (length pair + 1) ?s)
       in if CHR ''='' \<notin> set pair then more
          else (takeWhile (\<lambda>x. x \<noteq> CHR ''='') pair, tl (dropWhile (\<lambda>x. x \<noteq> CHR ''='') pair)) # more)"
    using query_pairs.simps(2) [of c t] by simp
  then show ?thesis using parts by (simp add: pair Let_def)
qed

lemma query_pairs_render: "\<forall>p \<in> set ps. clean_param p \<Longrightarrow> query_pairs (render_params ps) = ps"
proof (induction ps rule: render_params.induct)
  case (2 k v)
  then show ?case using query_pairs_one [of k v "[]"] by simp
next
  case (3 k v p ps)
  then show ?case using query_pairs_one [of k v "CHR ''&'' # render_params (p # ps)"] by simp
qed simp

definition positive_text :: "string \<Rightarrow> bool" where
  "positive_text v \<longleftrightarrow> (case stoi v of Inl x \<Rightarrow> False | Inr n \<Rightarrow> n > 0) \<and> stoi_rest v = []"

definition valid_param :: "string \<times> string \<Rightarrow> bool" where
  "valid_param p \<longleftrightarrow>
     (fst p = ''ttl'' \<longrightarrow> positive_text (snd p)) \<and> (fst p = ''pattern'' \<longrightarrow> snd p = ''read-through'')"

text \<open>A later \<open>ttl\<close> overrides an earlier one.\<close>

fun ttl_of :: "int \<Rightarrow> (string \<times> string) list \<Rightarrow> int" where
  "ttl_of d [] = d"
| "ttl_of d ((k, v) # ps) = ttl_of (if k = ''ttl'' then (case stoi v of Inl x \<Rightarrow> d | Inr n \<Rightarrow> n) else d) ps"

lemma cache_param_valid:
  assumes "valid_param (k, v)"
  shows "cache_param (k, v) (cfg, False) = (cfg\<lparr>cfg_ttl := ttl_of (cfg_ttl cfg) [(k, v)]\<rparr>, False)"
proof -
  have same: "cfg\<lparr>cfg_ttl := cfg_ttl cfg\<rparr> = cfg" "cfg\<lparr>cfg_pattern := ReadThrough\<rparr> = cfg"
    by (cases "cfg_pattern cfg"; cases cfg; simp)+
  show ?thesis
  proof (cases "k = ''ttl''")
    case True
    then obtain n where "stoi v = Inr n" "n > 0" "stoi_rest v = []"
      using assms by (auto simp: valid_param_def positive_text_def split: sum.split_asm)
    then show ?thesis using True by simp
  next
    case False
    then show ?thesis using assms same by (cases "k = ''pattern''") (simp_all add: valid_param_def)
  qed
qed

lemma cache_param_invalid:
  assumes "\<not> valid_param (k, v)"
  shows "\<exists>er. er \<noteq> [] \<and> cache_param (k, v) (cfg, False) = (cfg\<lparr>cfg_error := er\<rparr>, True)"
proof (cases "k = ''ttl''")
  case True
  then have "\<not> positive_text v" using assms by (simp add: valid_param_def)
  then have "cache_param (k, v) (cfg, False) = (cfg\<lparr>cfg_error := ttl_error v\<rparr>, True)"
    using True by (auto simp: positive_text_def split: sum.split)
  then show ?thesis by (auto simp: ttl_error_def)
next
  case False
  then have "cache_param (k, v) (cfg, False) = (cfg\<lparr>cfg_error := pattern_error v\<rparr>, True)"
    using assms by (simp add: valid_param_def)
  then show ?thesis by (auto simp: pattern_error_def)
qed

lemma fold_bad: "fold cache_param ps (cfg, True) = (cfg, True)"
  by (induction ps) auto

lemma fold_valid:
  "\<forall>p \<in> set ps. valid_param p \<Longrightarrow> fold cache_param ps (cfg, False) = (cfg\<lparr>cfg_ttl := ttl_of (cfg_ttl cfg) ps\<rparr>, False)"
proof (induction ps arbitrary: cfg)
  case (Cons p ps)
  then show ?case by (cases p) (simp add: cache_param_valid del: cache_param.simps)
qed simp

lemma fold_invalid:
  "\<not> (\<forall>p \<in> set ps. valid_param p) \<Longrightarrow>
   \<exists>t er. er \<noteq> [] \<and> fold cache_param ps (cfg, False) = (cfg\<lparr>cfg_ttl := t, cfg_error := er\<rparr>, True)"
proof (induction ps arbitrary: cfg)
  case (Cons p ps)
  show ?case
  proof (cases "valid_param p")
    case True
    obtain t where t: "cache_param p (cfg, False) = (cfg\<lparr>cfg_ttl := t\<rparr>, False)"
      using cache_param_valid [of "fst p" "snd p" cfg] True by auto
    from True Cons.prems have "\<not> (\<forall>p \<in> set ps. valid_param p)" by simp
    from Cons.IH [OF this, of "cfg\<lparr>cfg_ttl := t\<rparr>"] show ?thesis using t by simp
  next
    case False
    obtain er where er: "er \<noteq> []" "cache_param p (cfg, False) = (cfg\<lparr>cfg_error := er\<rparr>, True)"
      using cache_param_invalid [of "fst p" "snd p" cfg] False by auto
    have "cfg\<lparr>cfg_error := er\<rparr> = cfg\<lparr>cfg_ttl := cfg_ttl cfg, cfg_error := er\<rparr>" by (cases cfg) simp
    then show ?thesis using er fold_bad by (intro exI [of _ "cfg_ttl cfg"] exI [of _ er]) simp
  qed
qed simp

definition cache_url :: "string \<Rightarrow> (string \<times> string) list \<Rightarrow> string" where
  "cache_url base ps = base @ (if ps = [] then [] else CHR ''?'' # render_params ps)"

text \<open>
  The configuration of the cache.  A URL with one of the two schemes and any list of parameters
  is accepted exactly when every \<open>ttl\<close> is a positive number and every \<open>pattern\<close> is
  \<^verbatim>\<open>read-through\<close>; the configuration then holds the URL without its parameters and the last
  \<open>ttl\<close>, or 300; and otherwise it holds an error, and no URL.  A URL of another scheme is refused.
\<close>

theorem parse_cache_url:
  assumes "CHR ''?'' \<notin> set base" "\<forall>p \<in> set ps. clean_param p" "base \<noteq> []"
  shows "if (prefix ''redis://'' base \<or> prefix ''rediss://'' base) \<and> (\<forall>p \<in> set ps. valid_param p)
    then parseCacheUrl (cache_url base ps) =
      \<lparr>cfg_enabled = True, cfg_url = base, cfg_ttl = ttl_of 300 ps, cfg_pattern = ReadThrough, cfg_error = []\<rparr>
    else \<not> cfg_enabled (parseCacheUrl (cache_url base ps)) \<and> cfg_url (parseCacheUrl (cache_url base ps)) = [] \<and>
      cfg_error (parseCacheUrl (cache_url base ps)) \<noteq> []"
proof -
  let ?url = "cache_url base ps"
  have base: "takeWhile (\<lambda>x. x \<noteq> CHR ''?'') ?url = base"
    using assms(1) while_before [of "CHR ''?''" base] by (auto simp: cache_url_def takeWhile_eq_all_conv)
  have pairs: "query_pairs (drop (length base + 1) ?url) = ps"
    using query_pairs_render [OF assms(2)] by (simp add: cache_url_def)
  have scheme: "prefix s ?url \<longleftrightarrow> prefix s base" if "CHR ''?'' \<notin> set s" "length s < 10" for s
    using that assms(1) by (auto simp: cache_url_def prefix_def append_eq_append_conv2 Cons_eq_append_conv)
  have url: "?url \<noteq> []" using assms(3) by (simp add: cache_url_def)
  let ?cfg = "no_cache\<lparr>cfg_url := base\<rparr>"
  show ?thesis
  proof (cases "prefix ''redis://'' base \<or> prefix ''rediss://'' base")
    case False
    then show ?thesis using url scheme [of "''redis://''"] scheme [of "''rediss://''"]
      by (simp add: parseCacheUrl_def no_cache_def del: prefix_code Cons_prefix_Cons)
  next
    case True
    then have known: "\<not> (\<not> prefix ''redis://'' ?url \<and> \<not> prefix ''rediss://'' ?url)"
      using scheme [of "''redis://''"] scheme [of "''rediss://''"] by (simp del: prefix_code Cons_prefix_Cons)
    have run: "parseCacheUrl ?url =
        (case fold cache_param ps (?cfg, False) of (cfg, bad) \<Rightarrow> if bad then cfg\<lparr>cfg_url := []\<rparr> else cfg\<lparr>cfg_enabled := True\<rparr>)"
      unfolding parseCacheUrl_def if_not_P [OF url] if_not_P [OF known] Let_def base pairs ..
    show ?thesis
    proof (cases "\<forall>p \<in> set ps. valid_param p")
      case valid: True
      then show ?thesis using True by (simp add: run fold_valid no_cache_def)
    next
      case False
      from fold_invalid [OF this, of ?cfg] show ?thesis using False by (auto simp: run no_cache_def)
    qed
  qed
qed

theorem parse_cache_url_witness:
  "parseCacheUrl ''redis://h?ttl=60&x=y&pattern=read-through'' =
     \<lparr>cfg_enabled = True, cfg_url = ''redis://h'', cfg_ttl = 60, cfg_pattern = ReadThrough, cfg_error = []\<rparr> \<and>
   \<not> cfg_enabled (parseCacheUrl ''redis://h?pattern=write-through'')"
proof -
  have "valid_param (''ttl'', ''60'')" "stoi ''60'' = Inr 60" by code_simp+
  then show ?thesis
    using parse_cache_url [of "''redis://h''" "[(''ttl'', ''60''), (''x'', ''y''), (''pattern'', ''read-through'')]"]
      parse_cache_url [of "''redis://h''" "[(''pattern'', ''write-through'')]"]
    by (simp add: cache_url_def clean_param_def valid_param_def split: if_splits)
qed

end
