(* ===== verification/Rest_Requests.thy ===== *)
theory Rest_Requests
  imports Cache_Adapter Sql_Where
begin

text \<open>
  The requests of the REST interface: the routes (\<^verbatim>\<open>src/daemon/rpc_restful_handler.cpp\<close>), the
  conversions between the two JSON libraries (\<^verbatim>\<open>src/daemon/json_convert.hpp\<close>), and the options of a
  list request (\<^verbatim>\<open>src/daemon/list_handler.cpp\<close>).  Values of jsoncpp and of nlohmann are both
  \<^typ>\<open>json\<close>; a query is the \<^verbatim>\<open>std::map\<close> of its parameters.
\<close>

section \<open>Replies\<close>

text \<open>
  What \<^verbatim>\<open>send_success\<close> and \<^verbatim>\<open>send_error\<close> are called with, or a body or bare status that is sent as
  it is; and the status and body of the response (\<^verbatim>\<open>createResponseCallbacks\<close>).
\<close>

datatype reply = Success json | Failure string int | Body json int | Bare int

fun response_of :: "reply \<Rightarrow> int \<times> json option" where
  "response_of (Success data) = (200, Some (jobject [(''success'', JBool True), (''data'', data)]))"
| "response_of (Failure message status) =
     (status, Some (jobject [(''success'', JBool False), (''error'', JString message)]))"
| "response_of (Body body status) = (status, Some body)"
| "response_of (Bare status) = (status, None)"

section \<open>Routes\<close>

record route_info =
  ri_tenant :: string
  ri_package :: string
  ri_entity :: string
  ri_id :: string
  ri_action :: string
  ri_extra :: "string list"
  ri_valid :: bool
  ri_error :: string

definition empty_route :: route_info where
  "empty_route = \<lparr>ri_tenant = [], ri_package = [], ri_entity = [], ri_id = [], ri_action = [],
     ri_extra = [], ri_valid = False, ri_error = []\<rparr>"

text \<open>The pieces that \<^verbatim>\<open>std::getline\<close> reads up to a separator.\<close>

function getlines :: "char \<Rightarrow> string \<Rightarrow> string list" where
  "getlines sep [] = []"
| "getlines sep (c # s) =
     (let piece = takeWhile (\<lambda>x. x \<noteq> sep) (c # s)
      in piece # getlines sep (drop (length piece + 1) (c # s)))"
  by pat_completeness auto
termination
  by (relation "measure (\<lambda>(sep, s). length s)") auto

fun pascal_from :: "bool \<Rightarrow> string \<Rightarrow> string" where
  "pascal_from capitalize [] = []"
| "pascal_from capitalize (c # s) =
     (if c = CHR ''_'' then pascal_from True s
      else if capitalize then upper_char c # pascal_from False s
      else lower_char c # pascal_from False s)"

definition toPascalCase :: "string \<Rightarrow> string" where
  "toPascalCase snake_case = pascal_from True snake_case"

definition getPrefixedEntity :: "route_info \<Rightarrow> string" where
  "getPrefixedEntity r =
     (if ri_package r = [] \<or> ri_entity r = [] then []
      else ''Pkg_'' @ toPascalCase (ri_package r) @ ''_'' @ toPascalCase (ri_entity r))"

definition getTableName :: "route_info \<Rightarrow> string" where
  "getTableName r =
     (if ri_package r = [] \<or> ri_entity r = [] then []
      else ri_package r @ ''_'' @ to_lower (ri_entity r))"

definition is_valid_name :: "string \<Rightarrow> bool" where
  "is_valid_name name = (name \<noteq> [] \<and> list_all (\<lambda>c. is_alnum c \<or> c = CHR ''_'') name)"

definition path_segments :: "string \<Rightarrow> string list" where
  "path_segments path =
     (let p = (if path \<noteq> [] \<and> hd path = CHR ''/'' then tl path else path);
          q = (if p \<noteq> [] \<and> last p = CHR ''/'' then butlast p else p)
      in filter (\<lambda>s. s \<noteq> []) (getlines CHR ''/'' q))"

definition short_path_error :: string where
  "short_path_error = ''Path requires at least: /{tenant}/{package}/{entity}''"

definition bad_tenants :: "string list" where
  "bad_tenants = [''invalid'', ''invalid_tenant'', ''test_invalid'']"

definition parseRoute :: "string \<Rightarrow> route_info" where
  "parseRoute path =
     (case path_segments path of
        t # p # e # segs \<Rightarrow>
          (let r = empty_route\<lparr>ri_tenant := t, ri_package := p, ri_entity := e\<rparr> in
           if to_lower t \<in> set bad_tenants then r\<lparr>ri_error := ''Invalid tenant name: '' @ t\<rparr>
           else
             let r1 = r\<lparr>ri_id := (if segs \<noteq> [] then hd segs else []),
                        ri_action := (if length segs > 1 then segs ! 1 else []),
                        ri_extra := drop 2 segs\<rparr>
             in if \<not> is_valid_name t then r1\<lparr>ri_error := ''Invalid tenant name: '' @ t\<rparr>
                else if \<not> is_valid_name p then r1\<lparr>ri_error := ''Invalid package name: '' @ p\<rparr>
                else if \<not> is_valid_name e then r1\<lparr>ri_error := ''Invalid entity name: '' @ e\<rparr>
                else r1\<lparr>ri_valid := True\<rparr>)
      | _ \<Rightarrow> empty_route\<lparr>ri_error := short_path_error\<rparr>)"

section \<open>JSON\<close>

text \<open>
  The conversions rebuild arrays and objects.  \<^verbatim>\<open>is_number_integer\<close> also holds of an unsigned
  number, which therefore wraps when it exceeds the signed range.
\<close>

fun jsoncpp_to_nlohmann :: "json \<Rightarrow> json" where
  "jsoncpp_to_nlohmann (JArray xs) = JArray (map jsoncpp_to_nlohmann xs)"
| "jsoncpp_to_nlohmann (JObject m) = jobject (map (\<lambda>(k, v). (k, jsoncpp_to_nlohmann v)) m)"
| "jsoncpp_to_nlohmann j = j"

fun nlohmann_to_jsoncpp :: "json \<Rightarrow> json" where
  "nlohmann_to_jsoncpp (JInt n) = JInt (if n \<ge> 2 ^ 63 then n - 2 ^ 64 else n)"
| "nlohmann_to_jsoncpp (JArray xs) = JArray (map nlohmann_to_jsoncpp xs)"
| "nlohmann_to_jsoncpp (JObject m) = jobject (map (\<lambda>(k, v). (k, nlohmann_to_jsoncpp v)) m)"
| "nlohmann_to_jsoncpp j = j"

text \<open>Members of a jsoncpp value, which throws on what is neither an object nor null.\<close>

definition find_error :: exn where
  "find_error = Std_exception ''in Json::Value::find(begin, end): requires objectValue or nullValue''"

fun jc_find :: "string \<Rightarrow> json \<Rightarrow> exn + json option" where
  "jc_find k (JObject m) = Inr (map_of m k)"
| "jc_find k JNull = Inr None"
| "jc_find k _ = Inl find_error"

definition resolve_error :: exn where
  "resolve_error = Std_exception ''in Json::Value::resolveReference(key, end): requires objectValue or nullValue''"

text \<open>\<^verbatim>\<open>body[key] = value\<close>\<close>

fun jc_put :: "string \<Rightarrow> json \<Rightarrow> json \<Rightarrow> exn + json" where
  "jc_put k v (JObject m) = Inr (JObject (om_put k v m))"
| "jc_put k v JNull = Inr (JObject [(k, v)])"
| "jc_put k v _ = Inl resolve_error"

text \<open>\<^verbatim>\<open>asString\<close>; the text of a double is a parameter.\<close>

fun jc_string :: "(rat \<Rightarrow> string) \<Rightarrow> json \<Rightarrow> exn + string" where
  "jc_string show_real JNull = Inr []"
| "jc_string show_real (JString s) = Inr s"
| "jc_string show_real (JBool b) = Inr (if b then ''true'' else ''false'')"
| "jc_string show_real (JInt i) = Inr (int_digits i)"
| "jc_string show_real (JFloat q) = Inr (show_real q)"
| "jc_string show_real _ = Inl (Std_exception ''Type is not convertible to string'')"

fun is_array :: "json \<Rightarrow> bool" where
  "is_array (JArray _) = True"
| "is_array _ = False"

text \<open>\<^verbatim>\<open>empty()\<close> of nlohmann\<close>

fun jempty :: "json \<Rightarrow> bool" where
  "jempty JNull = True"
| "jempty (JArray xs) = (xs = [])"
| "jempty (JObject m) = (m = [])"
| "jempty _ = False"

definition json_map :: "(string, string) omap \<Rightarrow> json" where
  "json_map m = JObject (map (\<lambda>(k, v). (k, JString v)) m)"

section \<open>Paging\<close>

definition parseIntValue :: "string \<Rightarrow> int option" where
  "parseIntValue v =
     (case stoi v of Inl x \<Rightarrow> None | Inr n \<Rightarrow> if stoi_rest v = [] then Some n else None)"

record paging =
  pg_limit :: "int option"
  pg_page :: "int option"
  pg_offset :: "int option"
  pg_filter :: "(string, string) omap"
  pg_sort :: "(string, string) omap"

definition no_paging :: paging where
  "no_paging = \<lparr>pg_limit = None, pg_page = None, pg_offset = None, pg_filter = [], pg_sort = []\<rparr>"

definition limit_error :: reply where
  "limit_error = Failure ''limit must be a positive integer'' 400"

definition page_error :: reply where
  "page_error = Failure ''page must be a positive integer'' 400"

definition offset_error :: reply where
  "offset_error = Failure ''offset must be a non-negative integer'' 400"

definition paging_param :: "string \<times> string \<Rightarrow> paging \<Rightarrow> reply + paging" where
  "paging_param kv pg = (case kv of (key, v) \<Rightarrow>
     if key = ''limit'' \<or> key = ''take'' then
       (case parseIntValue v of
          Some n \<Rightarrow> if n \<le> 0 then Inl limit_error else Inr (pg\<lparr>pg_limit := Some n\<rparr>)
        | None \<Rightarrow> Inl limit_error)
     else if key = ''page'' then
       (case parseIntValue v of
          Some n \<Rightarrow> if n \<le> 0 then Inl page_error else Inr (pg\<lparr>pg_page := Some n\<rparr>)
        | None \<Rightarrow> Inl page_error)
     else if key = ''skip'' \<or> key = ''offset'' then
       (case parseIntValue v of
          Some n \<Rightarrow> if n < 0 then Inl offset_error else Inr (pg\<lparr>pg_offset := Some n\<rparr>)
        | None \<Rightarrow> Inl offset_error)
     else if prefix ''filter.'' key then Inr (pg\<lparr>pg_filter := om_put (drop 7 key) v (pg_filter pg)\<rparr>)
     else if prefix ''where.'' key then Inr (pg\<lparr>pg_filter := om_put (drop 6 key) v (pg_filter pg)\<rparr>)
     else if prefix ''sort.'' key then Inr (pg\<lparr>pg_sort := om_put (drop 5 key) v (pg_sort pg)\<rparr>)
     else if prefix ''orderBy.'' key then Inr (pg\<lparr>pg_sort := om_put (drop 8 key) v (pg_sort pg)\<rparr>)
     else Inr pg)"

fun paging_params :: "(string \<times> string) list \<Rightarrow> paging \<Rightarrow> reply + paging" where
  "paging_params [] pg = Inr pg"
| "paging_params (kv # q) pg =
     (case paging_param kv pg of Inl e \<Rightarrow> Inl e | Inr pg' \<Rightarrow> paging_params q pg')"

text \<open>\<^verbatim>\<open>(offset_value / effective_limit) + 1\<close>; \<^const>\<open>None\<close> is the overflow.\<close>

definition offset_page :: "paging \<Rightarrow> int option option" where
  "offset_page pg =
     (case (pg_offset pg, pg_page pg) of
        (Some off, None) \<Rightarrow>
          map_option Some (checked (off div (case pg_limit pg of Some n \<Rightarrow> n | None \<Rightarrow> 20) + 1))
      | _ \<Rightarrow> Some (pg_page pg))"

definition options_object :: "paging \<Rightarrow> int option \<Rightarrow> json" where
  "options_object pg page =
     jobject ((case pg_limit pg of Some n \<Rightarrow> [(''limit'', JInt n)] | None \<Rightarrow> [])
       @ (case page of Some n \<Rightarrow> [(''page'', JInt n)] | None \<Rightarrow> [])
       @ (if pg_filter pg \<noteq> [] then [(''filter'', json_map (pg_filter pg))] else [])
       @ (if pg_sort pg \<noteq> [] then [(''sort'', json_map (pg_sort pg))] else []))"

text \<open>
  The first \<^const>\<open>None\<close> is undefined behaviour; \<^const>\<open>Inl\<close> is a reply that was sent, where
  the function returns null.
\<close>

definition parseQueryParameters :: "(string, string) omap \<Rightarrow> (reply + json) option" where
  "parseQueryParameters query =
     (case paging_params query no_paging of
        Inl e \<Rightarrow> Some (Inl e)
      | Inr pg \<Rightarrow> map_option (\<lambda>page. Inr (options_object pg page)) (offset_page pg))"

section \<open>Filters\<close>

definition splitCsv :: "string \<Rightarrow> string list" where
  "splitCsv s = filter (\<lambda>t. t \<noteq> []) (getlines CHR '','' s)"

definition parseOpString :: "string \<Rightarrow> filter_op" where
  "parseOpString op =
     (if op = ''ne'' then Ne else if op = ''lt'' then Lt else if op = ''lte'' then Lte
      else if op = ''gt'' then Gt else if op = ''gte'' then Gte else if op = ''like'' then Like
      else if op = ''ilike'' then ILike else if op = ''in'' then In else if op = ''notin'' then NotIn
      else if op = ''isnull'' then IsNull else if op = ''isnotnull'' then IsNotNull
      else if op = ''between'' then Between else Eq)"

text \<open>What precedes the first occurrence of a character and what follows it.\<close>

fun cut_at :: "char \<Rightarrow> string \<Rightarrow> (string \<times> string) option" where
  "cut_at c [] = None"
| "cut_at c (x # s) = (if x = c then Some ([], s) else map_option (\<lambda>(a, b). (x # a, b)) (cut_at c s))"

definition parseFieldOp :: "string \<Rightarrow> string \<times> string" where
  "parseFieldOp key =
     (case cut_at CHR ''['' key of
        None \<Rightarrow> (key, ''eq'')
      | Some (field, rest) \<Rightarrow>
          (field, case cut_at CHR '']'' rest of None \<Rightarrow> ''eq'' | Some (op, _) \<Rightarrow> to_lower op))"

definition makeCondition :: "string \<Rightarrow> string \<Rightarrow> string \<Rightarrow> filter_condition" where
  "makeCondition field op_str v =
     (let op = parseOpString op_str in
      if op = In \<or> op = NotIn \<or> op = Between
      then \<lparr>fc_field = field, fc_op = op, fc_value = [], fc_values = splitCsv v\<rparr>
      else \<lparr>fc_field = field, fc_op = op, fc_value = v, fc_values = []\<rparr>)"

section \<open>The options of a list\<close>

record rich_options = list_options +
  ro_conditions :: "filter_condition list"
  ro_groups :: "filter_condition list list"
  ro_include :: "string list"
  ro_aggregates :: "aggregate_spec list"
  ro_group_by :: "string list"
  ro_select :: "string list"
  ro_distinct :: bool
  ro_timeout :: int

definition default_rich_options :: rich_options where
  "default_rich_options = \<lparr>lo_filter = [], lo_sort = [], lo_page = 1, lo_limit = 20, ro_conditions = [],
     ro_groups = [], ro_include = [], ro_aggregates = [], ro_group_by = [], ro_select = [],
     ro_distinct = False, ro_timeout = 0\<rparr>"

text \<open>What the loop over the parameters collects: options, \<^verbatim>\<open>or_map\<close> and \<^verbatim>\<open>agg_map\<close>.\<close>

record list_scan =
  ls_opts :: rich_options
  ls_or :: "(int, filter_condition list) omap"
  ls_agg :: "(int, (string, string) omap) omap"

definition entry_of :: "('k, 'v list) omap \<Rightarrow> 'k \<Rightarrow> 'v list" where
  "entry_of m k = (case map_of m k of None \<Rightarrow> [] | Some xs \<Rightarrow> xs)"

definition substr_error :: "nat \<Rightarrow> nat \<Rightarrow> exn" where
  "substr_error pos n = Std_exception (''basic_string::substr: __pos (which is '' @ nat_digits pos
     @ '') > this->size() (which is '' @ nat_digits n @ '')'')"

definition scan_filter :: "string \<Rightarrow> string \<Rightarrow> list_scan \<Rightarrow> list_scan" where
  "scan_filter rest v st =
     (case parseFieldOp rest of (field, op_str) \<Rightarrow>
        let opts = ls_opts st in
        if op_str = ''eq'' then st\<lparr>ls_opts := opts\<lparr>lo_filter := om_put field v (lo_filter opts)\<rparr>\<rparr>
        else st\<lparr>ls_opts := opts\<lparr>ro_conditions := ro_conditions opts @ [makeCondition field op_str v]\<rparr>\<rparr>)"

definition scan_sort :: "string \<Rightarrow> string \<Rightarrow> list_scan \<Rightarrow> list_scan" where
  "scan_sort field v st =
     st\<lparr>ls_opts := (ls_opts st)\<lparr>lo_sort := om_put field v (lo_sort (ls_opts st))\<rparr>\<rparr>"

text \<open>\<^verbatim>\<open>or[idx].field[op]\<close>: what follows the bracket and one more character.\<close>

definition scan_or :: "string \<Rightarrow> string \<Rightarrow> list_scan \<Rightarrow> exn + list_scan" where
  "scan_or key v st =
     (case cut_at CHR '']'' (drop 3 key) of
        None \<Rightarrow> Inr st
      | Some (idx_str, rest) \<Rightarrow>
          (case stoi idx_str of
             Inl x \<Rightarrow> Inr st
           | Inr idx \<Rightarrow>
               if rest = [] then Inl (substr_error (length key + 1) (length key))
               else case parseFieldOp (tl rest) of (field, op_str) \<Rightarrow>
                 Inr (st\<lparr>ls_or := om_put idx (entry_of (ls_or st) idx @ [makeCondition field op_str v]) (ls_or st)\<rparr>)))"

definition scan_aggregate :: "string \<Rightarrow> string \<Rightarrow> list_scan \<Rightarrow> list_scan" where
  "scan_aggregate key v st =
     (case cut_at CHR '']'' (drop 10 key) of
        None \<Rightarrow> st
      | Some (idx_str, rest) \<Rightarrow>
          (case (stoi idx_str, cut_at CHR ''['' rest) of
             (Inr idx, Some (_, rest')) \<Rightarrow>
               (case cut_at CHR '']'' rest' of
                  None \<Rightarrow> st
                | Some (sub_key, _) \<Rightarrow>
                    st\<lparr>ls_agg := om_put idx (om_put sub_key v (entry_of (ls_agg st) idx)) (ls_agg st)\<rparr>)
           | _ \<Rightarrow> st))"

definition scan_param :: "string \<times> string \<Rightarrow> list_scan \<Rightarrow> exn + list_scan" where
  "scan_param kv st = (case kv of (key, v) \<Rightarrow>
     let opts = ls_opts st in
     if prefix ''filter.'' key \<or> prefix ''where.'' key
     then Inr (scan_filter (drop (if hd key = CHR ''f'' then 7 else 6) key) v st)
     else if prefix ''sort.'' key then Inr (scan_sort (drop 5 key) v st)
     else if prefix ''orderBy.'' key then Inr (scan_sort (drop 8 key) v st)
     else if prefix ''or['' key then scan_or key v st
     else if prefix ''aggregate['' key then Inr (scan_aggregate key v st)
     else if key = ''include'' then Inr (st\<lparr>ls_opts := opts\<lparr>ro_include := splitCsv v\<rparr>\<rparr>)
     else if key = ''select'' then Inr (st\<lparr>ls_opts := opts\<lparr>ro_select := splitCsv v\<rparr>\<rparr>)
     else if key = ''groupBy'' \<or> key = ''group_by'' then Inr (st\<lparr>ls_opts := opts\<lparr>ro_group_by := splitCsv v\<rparr>\<rparr>)
     else if key = ''distinct''
     then Inr (st\<lparr>ls_opts := opts\<lparr>ro_distinct := (v = ''true'' \<or> v = ''1'')\<rparr>\<rparr>)
     else Inr st)"

fun scan_params :: "(string \<times> string) list \<Rightarrow> list_scan \<Rightarrow> exn + list_scan" where
  "scan_params [] st = Inr st"
| "scan_params (kv # q) st = exn_bind (scan_param kv st) (scan_params q)"

definition agg_func_of :: "string \<Rightarrow> agg_func" where
  "agg_func_of s =
     (if s = ''sum'' then Sum else if s = ''avg'' then Avg else if s = ''min'' then Min
      else if s = ''max'' then Max else Count)"

definition aggregate_of :: "(string, string) omap \<Rightarrow> aggregate_spec" where
  "aggregate_of given =
     (let func_str = (case map_of given ''func'' of Some s \<Rightarrow> s | None \<Rightarrow> ''count'')
      in \<lparr>ag_func = agg_func_of func_str,
          ag_field = (case map_of given ''field'' of Some s \<Rightarrow> s | None \<Rightarrow> ''id''),
          ag_alias = (case map_of given ''alias'' of Some s \<Rightarrow> s | None \<Rightarrow> func_str)\<rparr>)"

definition json_int :: "json \<Rightarrow> string \<Rightarrow> int \<Rightarrow> int" where
  "json_int j k d = (case jget j k of Some (JInt n) \<Rightarrow> n | _ \<Rightarrow> d)"

text \<open>
  The options that \<^verbatim>\<open>handleList\<close> builds.  \<open>Inl\<close> is the exception, where the options of the
  paging parameters are given.
\<close>

definition list_options_from :: "string \<Rightarrow> json \<Rightarrow> (string, string) omap \<Rightarrow> exn + rich_options" where
  "list_options_from tenant options_json query =
     exn_bind
       (scan_params query
          \<lparr>ls_opts = default_rich_options\<lparr>lo_limit := json_int options_json ''limit'' 20,
                                           lo_page := json_int options_json ''page'' 1\<rparr>,
           ls_or = [], ls_agg = []\<rparr>)
       (\<lambda>st.
          let opts = (ls_opts st)\<lparr>ro_groups := map snd (ls_or st),
                                  ro_aggregates := map (\<lambda>kv. aggregate_of (snd kv)) (ls_agg st)\<rparr>
          in Inr (if tenant \<noteq> [] then opts\<lparr>lo_filter := om_put ''tenantId'' tenant (lo_filter opts)\<rparr> else opts))"

end
