(* ===== verification/Rest_Handlers.thy ===== *)
theory Rest_Handlers
  imports Rest_Requests
begin

text \<open>
  The handlers of the REST interface (\<^verbatim>\<open>src/daemon/crud_handler.cpp\<close>, \<^verbatim>\<open>list_handler.cpp\<close>,
  \<^verbatim>\<open>bulk_handler.cpp\<close>, \<^verbatim>\<open>search_handler.cpp\<close>, \<^verbatim>\<open>handlers/batch_route_handler.cpp\<close>,
  \<^verbatim>\<open>handlers/query_route_handler.cpp\<close> and their dispatcher), over any adapter, to which the client
  forwards.  A handler runs statement by statement: a statement yields a value, or the reply has
  been sent and the handler returns, or an exception leaves it.  What the adapter holds after it
  threw is unknown; the state is then \<^const>\<open>None\<close>.
\<close>

section \<open>Statements\<close>

datatype ('x, 'a) outcome = Next 'x 'a | Sent reply "'a option" | Thrown exn "'a option"

definition then_do :: "('x, 'a) outcome \<Rightarrow> ('x \<Rightarrow> 'a \<Rightarrow> ('y, 'a) outcome) \<Rightarrow> ('y, 'a) outcome" where
  "then_do m f =
     (case m of Next x st \<Rightarrow> f x st | Sent r st \<Rightarrow> Sent r st | Thrown e st \<Rightarrow> Thrown e st)"

definition compute :: "exn + 'x \<Rightarrow> 'a \<Rightarrow> ('x, 'a) outcome" where
  "compute r st = (case r of Inl e \<Rightarrow> Thrown e (Some st) | Inr x \<Rightarrow> Next x st)"

definition call :: "('a \<Rightarrow> exn + 'x \<times> 'a) \<Rightarrow> 'a \<Rightarrow> ('x, 'a) outcome" where
  "call f st = (case f st of Inl e \<Rightarrow> Thrown e None | Inr (x, st') \<Rightarrow> Next x st')"

definition send :: "reply \<Rightarrow> 'a \<Rightarrow> ('x, 'a) outcome" where
  "send r st = Sent r (Some st)"

definition with_exception_handling :: "('x, 'a) outcome \<Rightarrow> ('x, 'a) outcome" where
  "with_exception_handling m =
     (case m of
        Thrown (Std_exception what) st \<Rightarrow> Sent (Failure (''Internal server error: '' @ what) 500) st
      | _ \<Rightarrow> m)"

definition error_reply :: "error \<Rightarrow> reply" where
  "error_reply e = Failure (err_what e) (http_status (err_code e))"

record list_result =
  lr_items :: "json list"
  lr_total :: int
  lr_page :: int
  lr_limit :: int

type_synonym ('a, 'k) rest_adapter = "('a, rich_options, list_result, 'k) base_adapter"

section \<open>One record\<close>

definition inject_tenant :: "string \<Rightarrow> json \<Rightarrow> exn + json" where
  "inject_tenant tenant data =
     (if tenant \<noteq> [] \<and> \<not> jcontains data ''tenantId'' then jassign ''tenantId'' (JString tenant) data
      else Inr data)"

definition other_tenant :: "string \<Rightarrow> json \<Rightarrow> bool" where
  "other_tenant tenant rec =
     (case jget rec ''tenantId'' of Some (JString t) \<Rightarrow> tenant \<noteq> [] \<and> t \<noteq> tenant | _ \<Rightarrow> False)"

definition not_found_reply :: "route_info \<Rightarrow> reply" where
  "not_found_reply route = Failure (ri_entity route @ '' not found'') 404"

definition handle_create :: "('a, 'k) rest_adapter \<Rightarrow> route_info \<Rightarrow> json \<Rightarrow> 'a \<Rightarrow> (unit, 'a) outcome" where
  "handle_create ad route body st = with_exception_handling (
     then_do (compute (inject_tenant (ri_tenant route) (jsoncpp_to_nlohmann body)) st) (\<lambda>data st.
     then_do (call (ba_create ad (ri_entity route) data) st) (\<lambda>res st.
       case res of
         Inl e \<Rightarrow> send (error_reply e) st
       | Inr j \<Rightarrow> send (Success (nlohmann_to_jsoncpp j)) st)))"

definition handle_read :: "('a, 'k) rest_adapter \<Rightarrow> route_info \<Rightarrow> 'a \<Rightarrow> (unit, 'a) outcome" where
  "handle_read ad route st = with_exception_handling (
     then_do (call (ba_read ad (ri_entity route) (ri_id route)) st) (\<lambda>res st.
       case res of
         Inl e \<Rightarrow> send (error_reply e) st
       | Inr rec \<Rightarrow>
           if other_tenant (ri_tenant route) rec then send (not_found_reply route) st
           else send (Success (nlohmann_to_jsoncpp rec)) st))"

definition id_required :: "string \<Rightarrow> reply" where
  "id_required what = Failure (''ID is required for '' @ what @ '' operations'') 400"

definition no_fields :: reply where
  "no_fields = Failure ''At least one update field must be provided'' 400"

definition handle_update :: "('a, 'k) rest_adapter \<Rightarrow> route_info \<Rightarrow> json \<Rightarrow> 'a \<Rightarrow> (unit, 'a) outcome" where
  "handle_update ad route body st = with_exception_handling (
     if ri_id route = [] then send (id_required ''update'') st
     else then_do (call (ba_read ad (ri_entity route) (ri_id route)) st) (\<lambda>existing st.
       case existing of
         Inl e \<Rightarrow> send (error_reply e) st
       | Inr rec \<Rightarrow>
           if other_tenant (ri_tenant route) rec then send (not_found_reply route) st
           else let data = jsoncpp_to_nlohmann body in
             if jempty data then send no_fields st
             else then_do (call (ba_update ad (ri_entity route) (ri_id route) data) st) (\<lambda>res st.
               case res of
                 Inl e \<Rightarrow> send (error_reply e) st
               | Inr j \<Rightarrow> send (Success (nlohmann_to_jsoncpp j)) st)))"

definition handle_delete_record :: "('a, 'k) rest_adapter \<Rightarrow> route_info \<Rightarrow> 'a \<Rightarrow> (unit, 'a) outcome" where
  "handle_delete_record ad route st = with_exception_handling (
     if ri_id route = [] then send (id_required ''delete'') st
     else then_do (call (ba_read ad (ri_entity route) (ri_id route)) st) (\<lambda>existing st.
       case existing of
         Inl e \<Rightarrow> send (error_reply e) st
       | Inr rec \<Rightarrow>
           if other_tenant (ri_tenant route) rec then send (not_found_reply route) st
           else then_do (call (ba_remove ad (ri_entity route) (ri_id route)) st) (\<lambda>res st.
             case res of
               Inl e \<Rightarrow> send (error_reply e) st
             | Inr b \<Rightarrow> send (Success (JObject [(''deleted'', JBool b)])) st)))"

section \<open>Lists and searches\<close>

definition items_json :: "list_result \<Rightarrow> json" where
  "items_json l = JArray (map nlohmann_to_jsoncpp (lr_items l))"

text \<open>An internal error does not show its message.\<close>

definition list_error :: "error \<Rightarrow> reply" where
  "list_error e =
     (let http_code = http_status (err_code e)
      in if http_code \<ge> 500 then Failure ''Internal server error'' http_code
         else Failure (err_what e) http_code)"

definition list_answer :: "list_result \<Rightarrow> json" where
  "list_answer l = jobject [(''data'', items_json l), (''total'', JInt (lr_total l)),
     (''page'', JInt (lr_page l)), (''limit'', JInt (lr_limit l))]"

definition handle_list :: "('a, 'k) rest_adapter \<Rightarrow> route_info \<Rightarrow> (string, string) omap \<Rightarrow> 'a \<Rightarrow> (unit, 'a) outcome" where
  "handle_list ad route query st = with_exception_handling (
     case parseQueryParameters query of
       None \<Rightarrow> Thrown Undefined (Some st)
     | Some (Inl r) \<Rightarrow> send r st
     | Some (Inr options_json) \<Rightarrow>
         then_do (compute (list_options_from (ri_tenant route) options_json query) st) (\<lambda>opts st.
         then_do (call (ba_list ad (ri_entity route) opts) st) (\<lambda>res st.
           case res of
             Inl e \<Rightarrow> send (list_error e) st
           | Inr l \<Rightarrow> send (Success (list_answer l)) st)))"

definition search_answer :: "list_result \<Rightarrow> json" where
  "search_answer l = jobject [(''data'', items_json l), (''total'', JInt (lr_total l)),
     (''limit'', JInt (lr_limit l)), (''source'', JString ''search-index'')]"

definition handle_search :: "('a, 'k) rest_adapter \<Rightarrow> route_info \<Rightarrow> string \<Rightarrow> int \<Rightarrow> 'a \<Rightarrow> (unit, 'a) outcome" where
  "handle_search ad route query limit st = with_exception_handling (
     then_do (call (ba_search ad (ri_entity route) query limit) st) (\<lambda>res st.
       case res of
         Inl e \<Rightarrow> send (Failure (err_what e) 503) st
       | Inr l \<Rightarrow> send (Success (search_answer l)) st))"

section \<open>Dispatch\<close>

definition handleRestfulRequest ::
    "('a, 'k) rest_adapter \<Rightarrow> route_info \<Rightarrow> string \<Rightarrow> json \<Rightarrow> (string, string) omap \<Rightarrow> 'a \<Rightarrow> (unit, 'a) outcome" where
  "handleRestfulRequest ad route meth body query st = with_exception_handling (
     if \<not> ri_valid route then send (Failure (ri_error route) 400) st
     else if ri_action route \<noteq> [] then send (Failure ''Custom actions are not supported yet'' 404) st
     else if meth = ''GET'' then
       (if ri_id route = [] then handle_list ad route query st else handle_read ad route st)
     else if meth = ''POST'' then
       (if ri_id route \<noteq> []
        then send (Failure ''POST with a resource ID is not supported; use PUT/PATCH'' 400) st
        else handle_create ad route body st)
     else if meth = ''PUT'' \<or> meth = ''PATCH'' then handle_update ad route body st
     else if meth = ''DELETE'' then handle_delete_record ad route st
     else send (Failure (''Unsupported HTTP method: '' @ meth) 405) st)"

section \<open>Many records of one entity\<close>

text \<open>The transaction around the items of a bulk request.\<close>

definition transacted ::
    "('a, 'k) rest_adapter \<Rightarrow> ('a \<Rightarrow> (json list, 'a) outcome) \<Rightarrow> (json list \<Rightarrow> reply) \<Rightarrow> 'a \<Rightarrow> (unit, 'a) outcome" where
  "transacted ad items answer st =
     then_do (call (ba_begin ad) st) (\<lambda>begun st.
       case begun of
         Inl e \<Rightarrow> send (Failure ''Failed to begin transaction'' 500) st
       | Inr _ \<Rightarrow>
           then_do (items st) (\<lambda>results st.
           then_do (call (ba_commit ad) st) (\<lambda>committed st.
             case committed of
               Inl e \<Rightarrow> send (Failure ''Failed to commit transaction'' 500) st
             | Inr _ \<Rightarrow> send (answer results) st)))"

text \<open>\<^verbatim>\<open>client.rollbackTransaction()\<close> and the reply; its result is not looked at.\<close>

definition rolled_back :: "('a, 'k) rest_adapter \<Rightarrow> reply \<Rightarrow> 'a \<Rightarrow> ('x, 'a) outcome" where
  "rolled_back ad r st = then_do (call (ba_rollback ad) st) (\<lambda>_ st. send r st)"

definition bulk_guard :: "string \<Rightarrow> string \<Rightarrow> json \<Rightarrow> reply option" where
  "bulk_guard verb noun body =
     (if \<not> is_array body then Some (Failure (''Bulk '' @ verb @ '' requires an array of '' @ noun) 400)
      else if body = JArray [] then Some (Failure (''Bulk '' @ verb @ '' requires a non-empty array'') 400)
      else None)"

fun elements :: "json \<Rightarrow> json list" where
  "elements (JArray xs) = xs"
| "elements _ = []"

definition bulk_answer :: "string \<Rightarrow> string \<Rightarrow> json list \<Rightarrow> reply" where
  "bulk_answer how what results =
     Success (jobject [(''success'', JBool True), (how, JInt (int (length results))), (what, JArray results)])"

fun bulk_create_items :: "('a, 'k) rest_adapter \<Rightarrow> route_info \<Rightarrow> json list \<Rightarrow> json list \<Rightarrow> 'a \<Rightarrow> (json list, 'a) outcome" where
  "bulk_create_items ad route [] results st = Next results st"
| "bulk_create_items ad route (item # items) results st =
     then_do (compute (inject_tenant (ri_tenant route) (jsoncpp_to_nlohmann item)) st) (\<lambda>data st.
     then_do (call (ba_create ad (ri_entity route) data) st) (\<lambda>res st.
       case res of
         Inl e \<Rightarrow> rolled_back ad
           (Failure (''Bulk create failed at item '' @ nat_digits (length results) @ '': '' @ err_what e) 400) st
       | Inr j \<Rightarrow> bulk_create_items ad route items (results @ [nlohmann_to_jsoncpp j]) st))"

definition handle_bulk_create :: "('a, 'k) rest_adapter \<Rightarrow> route_info \<Rightarrow> json \<Rightarrow> 'a \<Rightarrow> (unit, 'a) outcome" where
  "handle_bulk_create ad route body st = with_exception_handling (
     case bulk_guard ''create'' ''resources'' body of
       Some r \<Rightarrow> send r st
     | None \<Rightarrow> transacted ad (bulk_create_items ad route (elements body) []) (bulk_answer ''inserted'' ''data'') st)"

definition item_shape_error :: "nat \<Rightarrow> reply" where
  "item_shape_error n = Failure (''Bulk update item '' @ nat_digits n @ '' must be an object with ''
     @ [CHR 0x27] @ ''id'' @ [CHR 0x27] @ '' and '' @ [CHR 0x27] @ ''data'' @ [CHR 0x27] @ '' fields'') 400"

definition empty_id_error :: "nat \<Rightarrow> reply" where
  "empty_id_error n = Failure (''Bulk update item '' @ nat_digits n @ '' has empty ''
     @ [CHR 0x27] @ ''id'' @ [CHR 0x27]) 400"

fun bulk_update_items ::
    "(rat \<Rightarrow> string) \<Rightarrow> ('a, 'k) rest_adapter \<Rightarrow> route_info \<Rightarrow> json list \<Rightarrow> json list \<Rightarrow> 'a \<Rightarrow> (json list, 'a) outcome" where
  "bulk_update_items shown ad route [] results st = Next results st"
| "bulk_update_items shown ad route (item # items) results st =
     (case (jget item ''id'', jget item ''data'') of
        (Some i, Some data) \<Rightarrow>
          then_do (compute (jc_string shown i) st) (\<lambda>item_id st.
            if item_id = [] then rolled_back ad (empty_id_error (length results)) st
            else then_do (call (ba_update ad (ri_entity route) item_id (jsoncpp_to_nlohmann data)) st) (\<lambda>res st.
              case res of
                Inl e \<Rightarrow> rolled_back ad
                  (Failure (''Bulk update failed at item '' @ nat_digits (length results)
                     @ '' (id='' @ item_id @ ''): '' @ err_what e) 400) st
              | Inr j \<Rightarrow> bulk_update_items shown ad route items (results @ [nlohmann_to_jsoncpp j]) st))
      | _ \<Rightarrow> rolled_back ad (item_shape_error (length results)) st)"

definition handle_bulk_update ::
    "(rat \<Rightarrow> string) \<Rightarrow> ('a, 'k) rest_adapter \<Rightarrow> route_info \<Rightarrow> json \<Rightarrow> 'a \<Rightarrow> (unit, 'a) outcome" where
  "handle_bulk_update shown ad route body st = with_exception_handling (
     case bulk_guard ''update'' ''updates'' body of
       Some r \<Rightarrow> send r st
     | None \<Rightarrow> transacted ad (bulk_update_items shown ad route (elements body) []) (bulk_answer ''updated'' ''data'') st)"

fun bulk_delete_items :: "('a, 'k) rest_adapter \<Rightarrow> route_info \<Rightarrow> json list \<Rightarrow> json list \<Rightarrow> 'a \<Rightarrow> (json list, 'a) outcome" where
  "bulk_delete_items ad route [] ids st = Next ids st"
| "bulk_delete_items ad route (item # items) ids st =
     (case item of
        JString item_id \<Rightarrow>
          if item_id = []
          then rolled_back ad (Failure (''Bulk delete item '' @ nat_digits (length ids) @ '' has empty ID'') 400) st
          else then_do (call (ba_remove ad (ri_entity route) item_id) st) (\<lambda>res st.
            case res of
              Inl e \<Rightarrow> rolled_back ad
                (Failure (''Bulk delete failed at item '' @ nat_digits (length ids)
                   @ '' (id='' @ item_id @ ''): '' @ err_what e) 400) st
            | Inr _ \<Rightarrow> bulk_delete_items ad route items (ids @ [JString item_id]) st)
      | _ \<Rightarrow> rolled_back ad
               (Failure (''Bulk delete item '' @ nat_digits (length ids) @ '' must be a string ID'') 400) st)"

definition handle_bulk_delete :: "('a, 'k) rest_adapter \<Rightarrow> route_info \<Rightarrow> json \<Rightarrow> 'a \<Rightarrow> (unit, 'a) outcome" where
  "handle_bulk_delete ad route body st = with_exception_handling (
     case bulk_guard ''delete'' ''IDs'' body of
       Some r \<Rightarrow> send r st
     | None \<Rightarrow> transacted ad (bulk_delete_items ad route (elements body) []) (bulk_answer ''deleted'' ''ids'') st)"

section \<open>Batches over several entities\<close>

definition single_quoted :: "string \<Rightarrow> string" where
  "single_quoted s = [CHR 0x27] @ s @ [CHR 0x27]"

definition operation_error :: "nat \<Rightarrow> string \<Rightarrow> reply" where
  "operation_error i what = Failure (''Operation '' @ nat_digits i @ what) 400"

definition missing_field :: "string \<Rightarrow> string \<Rightarrow> string \<Rightarrow> string" where
  "missing_field action field kind = '' ('' @ action @ ''): missing required '' @ single_quoted field @ '' '' @ kind"

definition operation_failed :: "nat \<Rightarrow> string \<Rightarrow> error \<Rightarrow> reply" where
  "operation_failed i what e =
     Failure (''Operation '' @ nat_digits i @ '' ('' @ what @ '') failed: '' @ err_what e) (http_status (err_code e))"

definition string_member :: "json \<Rightarrow> string \<Rightarrow> string option" where
  "string_member j k = (case jget j k of Some (JString s) \<Rightarrow> Some s | _ \<Rightarrow> None)"

definition object_member :: "json \<Rightarrow> string \<Rightarrow> json option" where
  "object_member j k = (case jget j k of Some (JObject m) \<Rightarrow> Some (JObject m) | _ \<Rightarrow> None)"

definition op_result :: "nat \<Rightarrow> string \<Rightarrow> string \<Rightarrow> (string \<times> json) list \<Rightarrow> json" where
  "op_result i action entity kvs =
     jobject ([(''operation'', JInt (int i)), (''action'', JString action), (''entity'', JString entity)] @ kvs)"

definition batch_create_op :: "('a, 'k) rest_adapter \<Rightarrow> string \<Rightarrow> nat \<Rightarrow> json \<Rightarrow> string \<Rightarrow> 'a \<Rightarrow> (json, 'a) outcome" where
  "batch_create_op ad tenant i op entity st =
     (case object_member op ''data'' of
        None \<Rightarrow> rolled_back ad (operation_error i (missing_field ''create'' ''data'' ''object'')) st
      | Some data \<Rightarrow>
          then_do (compute (inject_tenant tenant (jsoncpp_to_nlohmann data)) st) (\<lambda>data st.
          then_do (call (ba_create ad entity data) st) (\<lambda>res st.
            case res of
              Inl e \<Rightarrow> rolled_back ad (operation_failed i (''create on '' @ entity) e) st
            | Inr j \<Rightarrow> Next (op_result i ''create'' entity [(''data'', nlohmann_to_jsoncpp j)]) st)))"

text \<open>The \<^verbatim>\<open>id\<close> of an operation: a string that is not empty.\<close>

definition op_id :: "json \<Rightarrow> string option" where
  "op_id op = (case string_member op ''id'' of Some i \<Rightarrow> if i = [] then None else Some i | None \<Rightarrow> None)"

definition batch_update_op :: "('a, 'k) rest_adapter \<Rightarrow> nat \<Rightarrow> json \<Rightarrow> string \<Rightarrow> 'a \<Rightarrow> (json, 'a) outcome" where
  "batch_update_op ad i op entity st =
     (case op_id op of
        None \<Rightarrow> rolled_back ad (operation_error i (missing_field ''update'' ''id'' ''field'')) st
      | Some rid \<Rightarrow>
          (case object_member op ''data'' of
             None \<Rightarrow> rolled_back ad (operation_error i (missing_field ''update'' ''data'' ''object'')) st
           | Some data \<Rightarrow>
               then_do (call (ba_update ad entity rid (jsoncpp_to_nlohmann data)) st) (\<lambda>res st.
                 case res of
                   Inl e \<Rightarrow> rolled_back ad (operation_failed i (''update on '' @ entity @ '' id='' @ rid) e) st
                 | Inr j \<Rightarrow> Next (op_result i ''update'' entity
                                    [(''id'', JString rid), (''data'', nlohmann_to_jsoncpp j)]) st)))"

definition batch_delete_op :: "('a, 'k) rest_adapter \<Rightarrow> nat \<Rightarrow> json \<Rightarrow> string \<Rightarrow> 'a \<Rightarrow> (json, 'a) outcome" where
  "batch_delete_op ad i op entity st =
     (case op_id op of
        None \<Rightarrow> rolled_back ad (operation_error i (missing_field ''delete'' ''id'' ''field'')) st
      | Some rid \<Rightarrow>
          then_do (call (ba_remove ad entity rid) st) (\<lambda>res st.
            case res of
              Inl e \<Rightarrow> rolled_back ad (operation_failed i (''delete on '' @ entity @ '' id='' @ rid) e) st
            | Inr _ \<Rightarrow> Next (op_result i ''delete'' entity [(''id'', JString rid), (''deleted'', JBool True)]) st))"

definition unsupported_action :: "string \<Rightarrow> string" where
  "unsupported_action action = '': unsupported action '' @ single_quoted action @ '' (valid: create, update, delete)''"

definition batch_operation :: "('a, 'k) rest_adapter \<Rightarrow> string \<Rightarrow> nat \<Rightarrow> json \<Rightarrow> 'a \<Rightarrow> (json, 'a) outcome" where
  "batch_operation ad tenant i op st =
     (if \<not> is_object op then rolled_back ad (operation_error i '' must be an object'') st
      else case string_member op ''action'' of
        None \<Rightarrow> rolled_back ad (operation_error i ('' missing required '' @ single_quoted ''action'' @ '' field'')) st
      | Some action \<Rightarrow>
          (case string_member op ''entity'' of
             None \<Rightarrow> rolled_back ad (operation_error i ('' missing required '' @ single_quoted ''entity'' @ '' field'')) st
           | Some entity \<Rightarrow>
               if action = ''create'' then batch_create_op ad tenant i op entity st
               else if action = ''update'' then batch_update_op ad i op entity st
               else if action = ''delete'' then batch_delete_op ad i op entity st
               else rolled_back ad (operation_error i (unsupported_action action)) st))"

fun batch_operations :: "('a, 'k) rest_adapter \<Rightarrow> string \<Rightarrow> nat \<Rightarrow> json list \<Rightarrow> json list \<Rightarrow> 'a \<Rightarrow> (json list, 'a) outcome" where
  "batch_operations ad tenant i [] results st = Next results st"
| "batch_operations ad tenant i (op # ops) results st =
     then_do (batch_operation ad tenant i op st) (\<lambda>r. batch_operations ad tenant (Suc i) ops (results @ [r]))"

definition batch_answer :: "json list \<Rightarrow> reply" where
  "batch_answer results =
     Body (jobject [(''success'', JBool True), (''operations'', JInt (int (length results))),
       (''results'', JArray results)]) 200"

definition no_operations :: reply where
  "no_operations = Failure (''Request body must contain an '' @ single_quoted ''operations'' @ '' array'') 400"

text \<open>The request body as jsoncpp parsed it, or that it could not.\<close>

definition handleBatch :: "('a, 'k) rest_adapter \<Rightarrow> string \<Rightarrow> exn + json option \<Rightarrow> 'a \<Rightarrow> (unit, 'a) outcome" where
  "handleBatch ad tenant parsed st =
     (case then_do (compute parsed st) (\<lambda>parsed_body st.
        case parsed_body of
          None \<Rightarrow> send (Failure ''Invalid JSON body'' 400) st
        | Some body \<Rightarrow>
            then_do (compute (jc_find ''operations'' body) st) (\<lambda>ops st.
              case ops of
                Some (JArray operations) \<Rightarrow>
                  if operations = [] then send (Failure ''Operations array must not be empty'' 400) st
                  else transacted ad (batch_operations ad tenant 0 operations []) batch_answer st
              | _ \<Rightarrow> send no_operations st)) of
        Thrown (Std_exception what) st' \<Rightarrow> Sent (Failure ''Internal server error'' 500) st'
      | m \<Rightarrow> m)"

end
