(* ===== verification/Rest_Queries.thy ===== *)
theory Rest_Queries
  imports Rest_Handlers
begin

text \<open>
  Named queries (\<^verbatim>\<open>src/daemon/handlers/query_route_handler.cpp\<close>): procedures that are read from JSON
  files, and the list request that a call of one becomes.  A file is given by the stem of its name
  and the value read from it, if it could be opened and parsed.  An exception in the handler is not
  caught by it.
\<close>

type_synonym procedures = "string \<rightharpoonup> json"

fun load_procedures :: "(string \<times> json option) list \<Rightarrow> procedures \<Rightarrow> procedures" where
  "load_procedures [] procs = procs"
| "load_procedures ((stem, doc) # files) procs =
     load_procedures files
       (case doc of
          None \<Rightarrow> procs
        | Some proc \<Rightarrow> (case value_string proc ''name'' stem of Inl x \<Rightarrow> procs | Inr name \<Rightarrow> procs(name \<mapsto> proc)))"

section \<open>Reading a procedure\<close>

fun get_bool :: "json \<Rightarrow> exn + bool" where
  "get_bool (JBool b) = Inr b"
| "get_bool _ = Inl (type_error ''type must be boolean'')"

definition narrow_int :: "int \<Rightarrow> int" where
  "narrow_int n = (n + 2 ^ 31) mod 2 ^ 32 - 2 ^ 31"

text \<open>\<^verbatim>\<open>get<int>\<close>: integers wrap; a double that does not fit is undefined behaviour.\<close>

fun get_int32 :: "json \<Rightarrow> exn + int" where
  "get_int32 (JInt n) = Inr (narrow_int n)"
| "get_int32 (JFloat q) = (if in_int32 (trunc_rat q) then Inr (trunc_rat q) else Inl Undefined)"
| "get_int32 j = get_int j"

definition array_member :: "json \<Rightarrow> string \<Rightarrow> json list" where
  "array_member j k = (case jget j k of Some (JArray xs) \<Rightarrow> xs | _ \<Rightarrow> [])"

text \<open>The first required parameter that is not given.\<close>

fun missing_query_param :: "json list \<Rightarrow> (string, string) omap \<Rightarrow> exn + string option" where
  "missing_query_param [] given = Inr None"
| "missing_query_param (p # ps) given =
     exn_bind (value_string p ''name'' []) (\<lambda>pname.
     exn_bind (value_as get_bool p ''required'' False) (\<lambda>required.
       if required \<and> map_of given pname = None then Inr (Some pname) else missing_query_param ps given))"

definition query_op :: "string \<Rightarrow> filter_op" where
  "query_op op_str =
     (if op_str = ''ne'' then Ne else if op_str = ''lt'' then Lt else if op_str = ''lte'' then Lte
      else if op_str = ''gt'' then Gt else if op_str = ''gte'' then Gte else if op_str = ''like'' then Like
      else if op_str = ''ilike'' then ILike else if op_str = ''isnull'' then IsNull
      else if op_str = ''isnotnull'' then IsNotNull else Eq)"

definition where_value :: "(json \<Rightarrow> exn + string) \<Rightarrow> json \<Rightarrow> (string, string) omap \<Rightarrow> exn + string option" where
  "where_value dump w given =
     (case (jget w ''param'', jget w ''value'') of
        (Some p, _) \<Rightarrow> exn_bind (get_string p) (\<lambda>param_name. Inr (map_of given param_name))
      | (None, Some (JString s)) \<Rightarrow> Inr (Some s)
      | (None, Some v) \<Rightarrow> exn_bind (dump v) (\<lambda>s. Inr (Some s))
      | (None, None) \<Rightarrow> Inr None)"

fun where_conditions ::
    "(json \<Rightarrow> exn + string) \<Rightarrow> json list \<Rightarrow> (string, string) omap \<Rightarrow> exn + filter_condition list" where
  "where_conditions dump [] given = Inr []"
| "where_conditions dump (w # ws) given =
     exn_bind (value_string w ''field'' []) (\<lambda>field.
     exn_bind (value_string w ''op'' ''eq'') (\<lambda>op_str.
       if field = [] then where_conditions dump ws given
       else exn_bind (where_value dump w given) (\<lambda>v.
         exn_bind (where_conditions dump ws given) (\<lambda>conds.
           Inr (case v of
                  None \<Rightarrow> conds
                | Some s \<Rightarrow> \<lparr>fc_field = field, fc_op = query_op op_str, fc_value = s, fc_values = []\<rparr> # conds)))))"

fun strings_in :: "json list \<Rightarrow> string list" where
  "strings_in [] = []"
| "strings_in (JString s # xs) = s # strings_in xs"
| "strings_in (x # xs) = strings_in xs"

fun selection :: "json list \<Rightarrow> exn + aggregate_spec list \<times> string list" where
  "selection [] = Inr ([], [])"
| "selection (sel # sels) =
     (if is_object sel \<and> jcontains sel ''func'' then
        exn_bind (value_string sel ''func'' ''count'') (\<lambda>func_str.
        exn_bind (value_string sel ''field'' ''id'') (\<lambda>field_str.
        exn_bind (value_string sel ''alias'' func_str) (\<lambda>alias_str.
        exn_bind (selection sels) (\<lambda>(aggs, names).
          Inr (\<lparr>ag_func = agg_func_of func_str, ag_field = field_str, ag_alias = alias_str\<rparr> # aggs, names)))))
      else exn_bind (selection sels) (\<lambda>(aggs, names).
        Inr (aggs, case sel of JString s \<Rightarrow> s # names | _ \<Rightarrow> names)))"

fun sort_of :: "json list \<Rightarrow> (string, string) omap \<Rightarrow> exn + (string, string) omap" where
  "sort_of [] m = Inr m"
| "sort_of (ob # obs) m =
     (if \<not> is_object ob then sort_of obs m
      else exn_bind (value_string ob ''field'' []) (\<lambda>field.
           exn_bind (value_string ob ''dir'' ''asc'') (\<lambda>dir.
             sort_of obs (if field \<noteq> [] then om_put field dir m else m))))"

text \<open>\<^verbatim>\<open>if (qparams.count(key)) try { x = std::stoi(qparams[key]); } catch (...) {}\<close>\<close>

definition override :: "(string, string) omap \<Rightarrow> string \<Rightarrow> int \<Rightarrow> int" where
  "override given key d =
     (case map_of given key of
        None \<Rightarrow> d
      | Some v \<Rightarrow> (case stoi v of Inl x \<Rightarrow> d | Inr n \<Rightarrow> n))"

definition procedure_options ::
    "(json \<Rightarrow> exn + string) \<Rightarrow> string \<Rightarrow> json \<Rightarrow> (string, string) omap \<Rightarrow> exn + rich_options" where
  "procedure_options dump tenant proc given =
     exn_bind (value_as get_int32 proc ''limit'' 100) (\<lambda>limit.
     exn_bind (where_conditions dump (array_member proc ''where'') given) (\<lambda>conds.
     exn_bind (selection (array_member proc ''select'')) (\<lambda>(aggs, names).
     exn_bind (sort_of (array_member proc ''orderBy'') []) (\<lambda>sorts.
       Inr (default_rich_options\<lparr>
         lo_page := override given ''page'' 1,
         lo_limit := override given ''limit'' limit,
         lo_filter := (if tenant \<noteq> [] then [(''tenantId'', tenant)] else []),
         lo_sort := sorts,
         ro_conditions := conds,
         ro_group_by := strings_in (array_member proc ''groupBy''),
         ro_aggregates := aggs,
         ro_select := names\<rparr>)))))"

section \<open>The handler\<close>

definition query_answer :: "list_result \<Rightarrow> json" where
  "query_answer l = jobject [(''data'', items_json l), (''total'', JInt (lr_total l)), (''success'', JBool True)]"

definition handle_query ::
    "(json \<Rightarrow> exn + string) \<Rightarrow> procedures \<Rightarrow> ('a, 'k) rest_adapter \<Rightarrow> string \<Rightarrow> string \<Rightarrow> (string, string) omap \<Rightarrow>
     'a \<Rightarrow> (unit, 'a) outcome" where
  "handle_query dump procs ad tenant name given st =
     (case procs name of
        None \<Rightarrow> send (Failure (''Unknown query procedure: '' @ name) 404) st
      | Some proc \<Rightarrow>
          then_do (compute (missing_query_param (array_member proc ''params'') given) st) (\<lambda>missing st.
            case missing of
              Some pname \<Rightarrow> send (Failure (''Missing required parameter: '' @ pname) 400) st
            | None \<Rightarrow>
                then_do (compute (procedure_options dump tenant proc given) st) (\<lambda>opts st.
                then_do (compute (value_string proc ''entity'' []) st) (\<lambda>entity st.
                  if entity = []
                  then send (Failure (''Procedure missing '' @ single_quoted ''entity'' @ '' field'') 500) st
                  else then_do (call (ba_list ad entity opts) st) (\<lambda>res st.
                    case res of
                      Inl e \<Rightarrow> send (list_error e) st
                    | Inr l \<Rightarrow> send (Body (query_answer l) 200) st)))))"

end
