(* ===== verification/Access_Control.thy ===== *)
theory Access_Control
  imports Rest_Requests Auth_Jwt Security_Limits
begin

text \<open>
  Who may do what: the access rules of the entity schemas (\<^verbatim>\<open>src/core/loaders/relation_parser.cpp\<close>,
  \<^verbatim>\<open>src/core/schema_acl_registry.cpp\<close>), the authentication rules per tenant
  (\<^verbatim>\<open>src/auth/auth_config.cpp\<close>), and the gates in front of the entity routes with their rate
  limiter (\<^verbatim>\<open>src/daemon/server_routes.cpp\<close>).  Environment variables, clock readings and the
  cryptographic primitives are arguments.
\<close>

section \<open>Access rules\<close>

record entity_acl =
  acl_create :: "(string, bool) omap"
  acl_read :: "(string, bool) omap"
  acl_update :: "(string, bool) omap"
  acl_del :: "(string, bool) omap"
  acl_roles :: "(string, string list) omap"

definition empty_acl :: entity_acl where
  "empty_acl = \<lparr>acl_create = [], acl_read = [], acl_update = [], acl_del = [], acl_roles = []\<rparr>"

subsection \<open>Reading them\<close>

fun collect_booleans :: "json \<Rightarrow> (string, bool) omap \<Rightarrow> (string, bool) omap" where
  "collect_booleans (JObject kvs) m =
     fold (\<lambda>(k, v) m. case v of JBool b \<Rightarrow> om_put k b m | _ \<Rightarrow> m) kvs m"
| "collect_booleans _ m = m"

fun parseACLOperation :: "json \<Rightarrow> (string, bool) omap" where
  "parseACLOperation (JArray alternatives) = fold collect_booleans alternatives []"
| "parseACLOperation node = collect_booleans node []"

fun string_items :: "json list \<Rightarrow> string list" where
  "string_items [] = []"
| "string_items (JString s # xs) = s # string_items xs"
| "string_items (x # xs) = string_items xs"

definition parseACLRoles :: "json \<Rightarrow> string list" where
  "parseACLRoles node =
     (case jget node ''role'' of
        Some (JString s) \<Rightarrow> [s]
      | Some (JArray xs) \<Rightarrow> string_items xs
      | _ \<Rightarrow> [])"

definition operation_node :: "json \<Rightarrow> string \<Rightarrow> (string, bool) omap" where
  "operation_node node k = (case jget node k of Some n \<Rightarrow> parseACLOperation n | None \<Rightarrow> [])"

definition role_entry :: "json \<Rightarrow> string \<Rightarrow> (string, string list) omap \<Rightarrow> (string, string list) omap" where
  "role_entry node k m =
     (case jget node k of
        None \<Rightarrow> m
      | Some n \<Rightarrow> let roles = parseACLRoles n in if roles \<noteq> [] then om_put k roles m else m)"

definition parseACL :: "json \<Rightarrow> entity_acl" where
  "parseACL node =
     \<lparr>acl_create = operation_node node ''create'', acl_read = operation_node node ''read'',
      acl_update = operation_node node ''update'', acl_del = operation_node node ''delete'',
      acl_roles = fold (role_entry node) [''create'', ''read'', ''update'', ''delete''] []\<rparr>"

subsection \<open>The registry\<close>

text \<open>Of a schema, its rules and its fields with their \<^verbatim>\<open>privileged\<close> mark.\<close>

record acl_schema =
  sc_acl :: "entity_acl option"
  sc_fields :: "(string \<times> bool) list"

type_synonym acl_registry = "string \<rightharpoonup> acl_schema"

definition operationMap :: "entity_acl \<Rightarrow> string \<Rightarrow> (string, bool) omap option" where
  "operationMap acl meth =
     (if meth = ''create'' then Some (acl_create acl)
      else if meth = ''read'' then Some (acl_read acl)
      else if meth = ''update'' then Some (acl_update acl)
      else if meth = ''delete'' then Some (acl_del acl)
      else None)"

definition acl_of :: "acl_registry \<Rightarrow> string \<Rightarrow> entity_acl option" where
  "acl_of reg entity = (case reg entity of None \<Rightarrow> None | Some sc \<Rightarrow> sc_acl sc)"

definition op_flag :: "acl_registry \<Rightarrow> string \<Rightarrow> string \<Rightarrow> string \<Rightarrow> bool" where
  "op_flag reg entity meth flag =
     (case acl_of reg entity of
        None \<Rightarrow> False
      | Some acl \<Rightarrow>
          (case operationMap acl meth of None \<Rightarrow> False | Some m \<Rightarrow> map_of m flag = Some True))"

definition isSystemOnly :: "acl_registry \<Rightarrow> string \<Rightarrow> string \<Rightarrow> bool" where
  "isSystemOnly reg entity meth = op_flag reg entity meth ''system''"

definition isPublicWrite :: "acl_registry \<Rightarrow> string \<Rightarrow> string \<Rightarrow> bool" where
  "isPublicWrite reg entity meth = op_flag reg entity meth ''public''"

definition requiresAuthToRead :: "acl_registry \<Rightarrow> string \<Rightarrow> bool" where
  "requiresAuthToRead reg entity =
     (case acl_of reg entity of
        None \<Rightarrow> False
      | Some acl \<Rightarrow>
          (case operationMap acl ''read'' of
             None \<Rightarrow> False
           | Some m \<Rightarrow> m \<noteq> [] \<and> map_of m ''public'' \<noteq> Some True))"

definition privilegedFields :: "acl_registry \<Rightarrow> string \<Rightarrow> string list" where
  "privilegedFields reg entity =
     (case reg entity of None \<Rightarrow> [] | Some sc \<Rightarrow> map fst (filter snd (sc_fields sc)))"

definition requiredRoles :: "acl_registry \<Rightarrow> string \<Rightarrow> string \<Rightarrow> string list" where
  "requiredRoles reg entity meth =
     (case acl_of reg entity of None \<Rightarrow> [] | Some acl \<Rightarrow> entry_of (acl_roles acl) meth)"

definition roleAllowed :: "acl_registry \<Rightarrow> string \<Rightarrow> string \<Rightarrow> string \<Rightarrow> bool" where
  "roleAllowed reg entity meth role =
     (let allowed = requiredRoles reg entity meth in allowed = [] \<or> role \<in> set allowed)"

section \<open>Authentication rules\<close>

record entity_auth_config =
  ea_require_auth :: bool
  ea_inject_owner :: bool
  ea_filter_by_owner :: bool
  ea_check_ownership :: bool

definition no_entity_auth :: entity_auth_config where
  "no_entity_auth = \<lparr>ea_require_auth = False, ea_inject_owner = False, ea_filter_by_owner = False,
     ea_check_ownership = False\<rparr>"

record tenant_auth_config =
  ta_require_auth :: bool
  ta_cors_origin :: string
  ta_entities :: "string \<rightharpoonup> entity_auth_config"

record auth_config =
  ac_require_auth :: bool
  ac_cors_origin :: string
  ac_tenants :: "string \<rightharpoonup> tenant_auth_config"

definition default_auth_config :: auth_config where
  "default_auth_config = \<lparr>ac_require_auth = False, ac_cors_origin = ''http://localhost:3000'', ac_tenants = Map.empty\<rparr>"

definition getEntityConfig :: "auth_config \<Rightarrow> string \<Rightarrow> string \<Rightarrow> entity_auth_config" where
  "getEntityConfig cfg tenant entity =
     (case ac_tenants cfg tenant of
        None \<Rightarrow> no_entity_auth\<lparr>ea_require_auth := ac_require_auth cfg\<rparr>
      | Some t \<Rightarrow>
          (case ta_entities t entity of
             None \<Rightarrow> no_entity_auth\<lparr>ea_require_auth := ta_require_auth t\<rparr>
           | Some e \<Rightarrow> e))"

subsection \<open>Reading them\<close>

fun json_bool :: "json \<Rightarrow> exn + bool" where
  "json_bool (JBool b) = Inr b"
| "json_bool _ = Inl (type_error ''type must be boolean'')"

definition parseEntityNode :: "json \<Rightarrow> exn + entity_auth_config" where
  "parseEntityNode node =
     exn_bind (value_as json_bool node ''require_auth'' False) (\<lambda>r.
     exn_bind (value_as json_bool node ''inject_owner'' False) (\<lambda>i.
     exn_bind (value_as json_bool node ''filter_by_owner'' False) (\<lambda>f.
     exn_bind (value_as json_bool node ''check_ownership'' False) (\<lambda>c.
       Inr \<lparr>ea_require_auth = r, ea_inject_owner = i, ea_filter_by_owner = f, ea_check_ownership = c\<rparr>))))"

fun auth_entities :: "(string \<times> json) list \<Rightarrow> (string \<rightharpoonup> entity_auth_config) \<Rightarrow> exn + (string \<rightharpoonup> entity_auth_config)" where
  "auth_entities [] m = Inr m"
| "auth_entities ((name, node) # kvs) m = exn_bind (parseEntityNode node) (\<lambda>e. auth_entities kvs (m(name \<mapsto> e)))"

text \<open>
  \<^verbatim>\<open>items()\<close> of a value that is no object names the elements of an array by their index; a value
  that is neither stands for itself under the empty name, and null has none.
\<close>

fun json_items :: "json \<Rightarrow> (string \<times> json) list" where
  "json_items (JObject kvs) = kvs"
| "json_items (JArray xs) = map (\<lambda>(i, x). (nat_digits i, x)) (enumerate 0 xs)"
| "json_items JNull = []"
| "json_items j = [([], j)]"

definition auth_tenant :: "auth_config \<Rightarrow> json \<Rightarrow> exn + tenant_auth_config" where
  "auth_tenant cfg node =
     exn_bind (value_as json_bool node ''require_auth'' (ac_require_auth cfg)) (\<lambda>r.
     exn_bind (value_string node ''cors_origin'' (ac_cors_origin cfg)) (\<lambda>c.
     exn_bind (case jget node ''entities'' of None \<Rightarrow> Inr Map.empty
               | Some es \<Rightarrow> auth_entities (json_items es) Map.empty) (\<lambda>m.
       Inr \<lparr>ta_require_auth = r, ta_cors_origin = c, ta_entities = m\<rparr>)))"

text \<open>What was set before an exception stays set.\<close>

fun auth_tenants :: "(string \<times> json) list \<Rightarrow> auth_config \<Rightarrow> auth_config" where
  "auth_tenants [] cfg = cfg"
| "auth_tenants ((name, node) # kvs) cfg =
     (case auth_tenant cfg node of
        Inl x \<Rightarrow> cfg
      | Inr t \<Rightarrow> auth_tenants kvs (cfg\<lparr>ac_tenants := (ac_tenants cfg)(name \<mapsto> t)\<rparr>))"

definition load_auth_config :: "json option \<Rightarrow> auth_config" where
  "load_auth_config doc =
     (case doc of
        None \<Rightarrow> default_auth_config
      | Some root_node \<Rightarrow>
          (let tenants = (\<lambda>cfg. case jget root_node ''tenants'' of
                              None \<Rightarrow> cfg | Some ts \<Rightarrow> auth_tenants (json_items ts) cfg)
           in case jget root_node ''defaults'' of
                None \<Rightarrow> tenants default_auth_config
              | Some d \<Rightarrow>
                  (case value_as json_bool d ''require_auth'' False of
                     Inl x \<Rightarrow> default_auth_config
                   | Inr r \<Rightarrow>
                       let cfg = default_auth_config\<lparr>ac_require_auth := r\<rparr>
                       in case value_string d ''cors_origin'' [] of
                            Inl x \<Rightarrow> cfg
                          | Inr c \<Rightarrow> tenants (cfg\<lparr>ac_cors_origin := c\<rparr>))))"

section \<open>Requests\<close>

text \<open>
  A request as Drogon hands it over.  \<open>rr_json\<close> is its own reading of the body (\<^verbatim>\<open>getJsonObject\<close>),
  which is there only when the request declares the body to be JSON.
\<close>

datatype verb = Verb_Get | Verb_Post | Verb_Put | Verb_Patch | Verb_Delete | Verb_Head | Verb_Options | Verb_Invalid

record rest_request =
  rr_verb :: verb
  rr_headers :: "(string \<times> string) list"
  rr_peer :: string
  rr_parameters :: "(string \<times> string) list"
  rr_body :: string
  rr_json :: "json option"

definition rr_header :: "rest_request \<Rightarrow> string \<Rightarrow> string" where
  "rr_header req name = (case map_of (rr_headers req) name of None \<Rightarrow> [] | Some v \<Rightarrow> v)"

definition env_int :: "string option \<Rightarrow> int \<Rightarrow> int" where
  "env_int var default_val =
     (case var of
        None \<Rightarrow> default_val
      | Some v \<Rightarrow> if v = [] then default_val else (case stoi v of Inl x \<Rightarrow> default_val | Inr n \<Rightarrow> n))"

definition rate_limit_key :: "rest_request \<Rightarrow> string" where
  "rate_limit_key req =
     (let xff = rr_header req ''X-Forwarded-For''
      in if xff \<noteq> [] then takeWhile (\<lambda>c. c \<noteq> CHR '','') xff else rr_peer req)"

fun acl_operation_for_method :: "verb \<Rightarrow> string" where
  "acl_operation_for_method Verb_Post = ''create''"
| "acl_operation_for_method Verb_Get = ''read''"
| "acl_operation_for_method Verb_Put = ''update''"
| "acl_operation_for_method Verb_Patch = ''update''"
| "acl_operation_for_method Verb_Delete = ''delete''"
| "acl_operation_for_method _ = ''read''"

definition is_write_method :: "verb \<Rightarrow> bool" where
  "is_write_method v = (v = Verb_Post \<or> v = Verb_Put \<or> v = Verb_Patch \<or> v = Verb_Delete)"

section \<open>Gates\<close>

text \<open>
  What the gates read of the server: the operator's token, the secret of HS256 tokens, key and
  issuer of the OIDC provider when it runs, the rules, and the primitives of the token check.
\<close>

record gate_env =
  ge_admin :: "string option"
  ge_secret :: string
  ge_oidc :: "(string \<times> string) option"
  ge_registry :: "acl_registry option"
  ge_auth :: auth_config
  ge_hmac :: "string \<Rightarrow> string \<Rightarrow> string"
  ge_parse :: "string \<Rightarrow> json option"
  ge_rs_verify :: "string \<Rightarrow> string \<Rightarrow> string \<Rightarrow> decoded_jwt option"
  ge_now :: int

definition is_admin_request :: "gate_env \<Rightarrow> rest_request \<Rightarrow> bool" where
  "is_admin_request env req =
     (case ge_admin env of
        None \<Rightarrow> False
      | Some tok \<Rightarrow> tok \<noteq> [] \<and> timing_safe_equal (rr_header req ''Authorization'') (''Bearer '' @ tok))"

definition oidc_key :: "gate_env \<Rightarrow> string" where
  "oidc_key env = (case ge_oidc env of None \<Rightarrow> [] | Some (pem, issuer) \<Rightarrow> pem)"

definition request_claims :: "gate_env \<Rightarrow> rest_request \<Rightarrow> jwt_claims option" where
  "request_claims env req =
     from_request (ge_hmac env) (ge_parse env) (ge_rs_verify env) (ge_now env)
       (rr_header req ''Authorization'') (ge_secret env) (oidc_key env)
       (case ge_oidc env of None \<Rightarrow> [] | Some (pem, issuer) \<Rightarrow> issuer)"

definition tenant_mismatch :: reply where
  "tenant_mismatch = Failure ''Token tenant does not match request tenant'' 403"

definition tenant_mismatch_rejection :: "jwt_claims option \<Rightarrow> string \<Rightarrow> reply option" where
  "tenant_mismatch_rejection claims tenant =
     (case claims of
        None \<Rightarrow> None
      | Some c \<Rightarrow>
          if jc_tenant_id c = [] then None
          else if jc_tenant_id c = tenant \<or> tenant = ''system'' then None
          else Some tenant_mismatch)"

definition field_refused :: "string \<Rightarrow> reply" where
  "field_refused name = Failure (''Field '' @ [CHR 0x27] @ name @ [CHR 0x27] @ '' may not be set without signing in'') 403"

fun privileged_rejection :: "string list \<Rightarrow> json \<Rightarrow> exn + reply option" where
  "privileged_rejection [] payload = Inr None"
| "privileged_rejection (name # names) payload =
     exn_bind (jc_find name payload) (\<lambda>v.
       if v \<noteq> None then Inr (Some (field_refused name)) else privileged_rejection names payload)"

definition write_login_required :: reply where
  "write_login_required = Failure ''Authentication required to modify this entity'' 401"

definition write_role_refused :: reply where
  "write_role_refused = Failure ''Your role may not modify this entity'' 403"

text \<open>The exception is that of \<^verbatim>\<open>isMember\<close> on a body that is not an object.\<close>

definition write_authz_rejection :: "gate_env \<Rightarrow> rest_request \<Rightarrow> string \<Rightarrow> string \<Rightarrow> exn + reply option" where
  "write_authz_rejection env req tenant entity =
     (case ge_registry env of
        None \<Rightarrow> Inr None
      | Some reg \<Rightarrow>
          if \<not> is_write_method (rr_verb req) then Inr None
          else
            let op = acl_operation_for_method (rr_verb req) in
            if is_admin_request env req then Inr None
            else
              let claims = request_claims env req in
              if isPublicWrite reg entity op then
                (if claims \<noteq> None then Inr None
                 else case rr_json req of
                   None \<Rightarrow> Inr None
                 | Some payload \<Rightarrow> privileged_rejection (privilegedFields reg entity) payload)
              else
                (case claims of
                   None \<Rightarrow> Inr (Some write_login_required)
                 | Some c \<Rightarrow>
                     (case tenant_mismatch_rejection claims tenant of
                        Some r \<Rightarrow> Inr (Some r)
                      | None \<Rightarrow>
                          if \<not> roleAllowed reg entity op (jc_role c) then Inr (Some write_role_refused)
                          else Inr None)))"

definition read_login_required :: reply where
  "read_login_required = Failure ''Authentication required to read this entity'' 401"

definition read_role_refused :: reply where
  "read_role_refused = Failure ''Your role may not read this entity'' 403"

definition read_authz_rejection :: "gate_env \<Rightarrow> rest_request \<Rightarrow> string \<Rightarrow> string \<Rightarrow> reply option" where
  "read_authz_rejection env req tenant entity =
     (case ge_registry env of
        None \<Rightarrow> None
      | Some reg \<Rightarrow>
          if rr_verb req \<noteq> Verb_Get \<or> \<not> requiresAuthToRead reg entity then None
          else if is_admin_request env req then None
          else
            let claims = request_claims env req in
            (case claims of
               None \<Rightarrow> Some read_login_required
             | Some c \<Rightarrow>
                 (case tenant_mismatch_rejection claims tenant of
                    Some r \<Rightarrow> Some r
                  | None \<Rightarrow>
                      if \<not> roleAllowed reg entity ''read'' (jc_role c) then Some read_role_refused else None)))"

definition system_managed :: reply where
  "system_managed = Failure ''This entity is system-managed and not reachable via the API'' 403"

definition system_rejection :: "gate_env \<Rightarrow> rest_request \<Rightarrow> string \<Rightarrow> reply option" where
  "system_rejection env req entity =
     (case ge_registry env of
        None \<Rightarrow> None
      | Some reg \<Rightarrow>
          if isSystemOnly reg entity (acl_operation_for_method (rr_verb req)) then Some system_managed else None)"

text \<open>The context that the entity handler is given, and the checks before it is made.\<close>

record auth_context =
  ctx_user_id :: string
  ctx_tenant_id :: string
  ctx_config :: entity_auth_config

definition auth_not_configured :: reply where
  "auth_not_configured = Failure ''Auth not configured (JWT_SECRET_KEY not set)'' 503"

definition unauthorized_reply :: reply where
  "unauthorized_reply = Failure ''Unauthorized'' 401"

definition authenticate :: "gate_env \<Rightarrow> rest_request \<Rightarrow> string \<Rightarrow> string \<Rightarrow> reply + auth_context option" where
  "authenticate env req tenant entity =
     (let entity_cfg = getEntityConfig (ge_auth env) tenant entity in
      if \<not> ea_require_auth entity_cfg then Inr None
      else if is_admin_request env req then Inr None
      else if ge_secret env = [] \<and> oidc_key env = [] then Inl auth_not_configured
      else case request_claims env req of
        None \<Rightarrow> Inl unauthorized_reply
      | Some c \<Rightarrow>
          if jc_tenant_id c \<noteq> [] \<and> jc_tenant_id c \<noteq> tenant then Inl tenant_mismatch
          else Inr (Some \<lparr>ctx_user_id = jc_user_id c, ctx_tenant_id = tenant, ctx_config = entity_cfg\<rparr>))"

text \<open>All the gates of an entity route, in their order.\<close>

definition entity_gate :: "gate_env \<Rightarrow> rest_request \<Rightarrow> string \<Rightarrow> string \<Rightarrow> exn + (reply + auth_context option)" where
  "entity_gate env req tenant entity =
     (case system_rejection env req entity of
        Some r \<Rightarrow> Inr (Inl r)
      | None \<Rightarrow>
          exn_bind (write_authz_rejection env req tenant entity) (\<lambda>w.
            case w of
              Some r \<Rightarrow> Inr (Inl r)
            | None \<Rightarrow>
                (case read_authz_rejection env req tenant entity of
                   Some r \<Rightarrow> Inr (Inl r)
                 | None \<Rightarrow> Inr (authenticate env req tenant entity))))"

section \<open>The rate limiter of the routes\<close>

text \<open>Entries are a count and the start of the window, in nanoseconds.\<close>

record window_limiter =
  wl_max :: int
  wl_seconds :: int
  wl_entries :: "string \<rightharpoonup> int \<times> int"

definition new_limiter :: "int \<Rightarrow> int \<Rightarrow> window_limiter" where
  "new_limiter max_requests window_seconds =
     \<lparr>wl_max = max_requests, wl_seconds = window_seconds, wl_entries = Map.empty\<rparr>"

text \<open>A new entry reads the clock itself, after \<open>now\<close> was read.\<close>

definition window_allow :: "int \<Rightarrow> int \<Rightarrow> string \<Rightarrow> window_limiter \<Rightarrow> bool \<times> window_limiter" where
  "window_allow now later key l =
     (let (n, start) = (case wl_entries l key of Some e \<Rightarrow> e | None \<Rightarrow> (0, later));
          (n', start') = (if whole_seconds (now - start) \<ge> wl_seconds l then (0, now) else (n, start))
      in if n' \<ge> wl_max l then (False, l\<lparr>wl_entries := (wl_entries l)(key \<mapsto> (n', start'))\<rparr>)
         else (True, l\<lparr>wl_entries := (wl_entries l)(key \<mapsto> (n' + 1, start'))\<rparr>))"

end
