(* ===== verification/Rest_Routes.thy ===== *)
theory Rest_Routes
  imports Rest_Queries Access_Control Workflow_Loader
begin

text \<open>
  The routes of the REST interface (\<^verbatim>\<open>src/daemon/server_routes.cpp\<close>) and the entity handler behind
  them (\<^verbatim>\<open>src/daemon/handlers/entity_route_handler_crud.cpp\<close> with its helpers and
  \<^verbatim>\<open>entity_validator.hpp\<close>).  A route is the lambda that is registered for its path pattern, given the
  parts of the path; headers of the response are left out.
\<close>

section \<open>Validation\<close>

record entity_field =
  ef_name :: string
  ef_type :: string
  ef_required :: bool
  ef_min :: "int option"
  ef_max :: "int option"
  ef_pattern :: "string option"
  ef_enum :: "string list option"

record entity_schema =
  es_name :: string
  es_fields :: "entity_field list"

type_synonym field_error = "string \<times> string"

text \<open>
  \<^verbatim>\<open>std::regex_search\<close> with a pattern that is read at run time; \<^const>\<open>None\<close> is the exception of
  a bad pattern, which is ignored.
\<close>

definition string_errors :: "(string \<Rightarrow> string \<Rightarrow> bool option) \<Rightarrow> entity_field \<Rightarrow> string \<Rightarrow> field_error list" where
  "string_errors re_search f v =
     (case ef_min f of
        Some n \<Rightarrow> if size_to_int (length v) < n then [(ef_name f, ''Minimum length is '' @ int_digits n)] else []
      | None \<Rightarrow> [])
     @ (case ef_max f of
          Some n \<Rightarrow> if size_to_int (length v) > n then [(ef_name f, ''Maximum length is '' @ int_digits n)] else []
        | None \<Rightarrow> [])
     @ (case ef_enum f of
          Some allowed \<Rightarrow> if v \<notin> set allowed then [(ef_name f, ''Invalid enum value'')] else []
        | None \<Rightarrow> [])
     @ (case ef_pattern f of
          Some p \<Rightarrow>
            if p \<noteq> [] \<and> re_search p v = Some False then [(ef_name f, ''Does not match required pattern'')] else []
        | None \<Rightarrow> [])"

definition string_types :: "string list" where
  "string_types = [''string'', ''email'', ''text'', ''uuid'', ''cuid'', ''enum'']"

definition number_types :: "string list" where
  "number_types = [''number'', ''bigint'', ''integer'', ''int'']"

fun is_number :: "json \<Rightarrow> bool" where
  "is_number (JInt _) = True"
| "is_number (JFloat _) = True"
| "is_number _ = False"

fun is_boolean :: "json \<Rightarrow> bool" where
  "is_boolean (JBool _) = True"
| "is_boolean _ = False"

definition field_errors :: "(string \<Rightarrow> string \<Rightarrow> bool option) \<Rightarrow> entity_field \<Rightarrow> json \<Rightarrow> bool \<Rightarrow> field_error list" where
  "field_errors re_search f data isCreate =
     (if ef_name f = ''id'' \<or> ef_name f = ''createdAt'' then []
      else case (case jget data (ef_name f) of Some JNull \<Rightarrow> None | v \<Rightarrow> v) of
        None \<Rightarrow> if isCreate \<and> ef_required f then [(ef_name f, ''Field is required'')] else []
      | Some v \<Rightarrow>
          if ef_type f \<in> set string_types then
            (case v of JString s \<Rightarrow> string_errors re_search f s | _ \<Rightarrow> [(ef_name f, ''Expected string value'')])
          else if ef_type f \<in> set number_types then
            (if \<not> is_number v then [(ef_name f, ''Expected a numeric value'')] else [])
          else if ef_type f = ''boolean'' then
            (if \<not> is_boolean v \<and> \<not> is_number v \<and> \<not> is_string v then [(ef_name f, ''Expected a boolean value'')] else [])
          else [])"

definition validateEntityData ::
    "(string \<Rightarrow> string \<Rightarrow> bool option) \<Rightarrow> entity_schema \<Rightarrow> json \<Rightarrow> bool \<Rightarrow> field_error list" where
  "validateEntityData re_search schema data isCreate =
     concat (map (\<lambda>f. field_errors re_search f data isCreate) (es_fields schema))"

definition validation_body :: "field_error list \<Rightarrow> json" where
  "validation_body errs =
     jobject [(''success'', JBool False), (''error'', JString ''Validation failed''),
       (''fields'', JArray (map (\<lambda>(field, message).
          jobject [(''field'', JString field), (''message'', JString message)]) errs))]"

section \<open>Helpers\<close>

text \<open>
  The libraries the routes use: jsoncpp's parser (\<^const>\<open>None\<close> when it reports an error), its text of
  doubles and of a whole value, nlohmann's text of a value, and regular expressions.
\<close>

record rest_env =
  rv_parse :: "string \<Rightarrow> exn + json option"
  rv_show_real :: "rat \<Rightarrow> string"
  rv_styled :: "json \<Rightarrow> string"
  rv_dump :: "json \<Rightarrow> exn + string"
  rv_search :: "string \<Rightarrow> string \<Rightarrow> bool option"

fun parseHttpMethod :: "verb \<Rightarrow> string" where
  "parseHttpMethod Verb_Get = ''GET''"
| "parseHttpMethod Verb_Post = ''POST''"
| "parseHttpMethod Verb_Put = ''PUT''"
| "parseHttpMethod Verb_Patch = ''PATCH''"
| "parseHttpMethod Verb_Delete = ''DELETE''"
| "parseHttpMethod _ = ''UNKNOWN''"

definition parseRequestBody :: "rest_env \<Rightarrow> rest_request \<Rightarrow> string \<Rightarrow> exn + json" where
  "parseRequestBody env req meth =
     (if meth = ''POST'' \<or> meth = ''PUT'' \<or> meth = ''PATCH''
      then exn_bind (rv_parse env (rr_body req)) (\<lambda>v.
             Inr (case v of None \<Rightarrow> JObject [] | Some body \<Rightarrow> body))
      else Inr (JObject []))"

definition request_query :: "rest_request \<Rightarrow> (string, string) omap" where
  "request_query req = fold (\<lambda>(k, v). om_put k v) (rr_parameters req) []"

text \<open>The catch block around an entity handler.\<close>

definition internal_reply :: reply where
  "internal_reply = Failure ''Internal server error'' 500"

definition guarded_handler :: "('x, 'a) outcome \<Rightarrow> ('x, 'a) outcome" where
  "guarded_handler m = (case m of Thrown (Std_exception what) st \<Rightarrow> Sent internal_reply st | _ \<Rightarrow> m)"

section \<open>Workflow events\<close>

text \<open>What the handler asks of the workflow engine, and the engine of the workflow theories.\<close>

record 'a events =
  ev_has :: "string \<Rightarrow> 'a \<Rightarrow> bool \<times> 'a"
  ev_dispatch :: "string \<Rightarrow> json \<Rightarrow> 'a \<Rightarrow> 'a"
  ev_run_named :: "string \<Rightarrow> string \<Rightarrow> string \<Rightarrow> json \<Rightarrow> 'a \<Rightarrow> json \<times> 'a"

definition engine_events :: "'db wf_env \<Rightarrow> int \<Rightarrow> int \<Rightarrow> (wf_engine \<times> 'db) events" where
  "engine_events env now later =
     \<lparr>ev_has = (\<lambda>ev (eng, db). case hasEvent env db now later ev eng of (b, eng') \<Rightarrow> (b, (eng', db))),
      ev_dispatch = (\<lambda>ev data (eng, db). dispatchAsync env now later ev data eng db),
      ev_run_named = (\<lambda>tenant named trigger data (eng, db).
        case runNamedNow env tenant named trigger data db of (effects, db') \<Rightarrow> (effects, (eng, db')))\<rparr>"

text \<open>
  The wrapped \<^verbatim>\<open>send_success\<close>: a record that names its workflow has it run first, and its effects
  ride in the response; otherwise the event is dispatched after the response.
\<close>

definition reply_with_events ::
    "rest_env \<Rightarrow> 'a events \<Rightarrow> string \<Rightarrow> string \<Rightarrow> json \<Rightarrow> 'a \<Rightarrow> (unit, 'a) outcome" where
  "reply_with_events env ev tenant trigger data st =
     (let row = jsoncpp_to_nlohmann data;
          named = (case jget row ''workflow'' of Some (JString w) \<Rightarrow> w | _ \<Rightarrow> [])
      in if named = [] then Sent (Success data) (Some (ev_dispatch ev (tenant @ ''.'' @ trigger) row st))
         else case ev_run_named ev tenant named trigger row st of (effects, st') \<Rightarrow>
           then_do (compute (rv_dump env effects) st') (\<lambda>shown st'.
           then_do (compute (rv_parse env shown) st') (\<lambda>parsed st'.
             case parsed of
               None \<Rightarrow> send (Success data) st'
             | Some v \<Rightarrow> then_do (compute (jc_put ''effects'' v data) st') (\<lambda>enriched st'.
                 send (Success enriched) st'))))"

text \<open>\<^verbatim>\<open>send_success\<close> is the last statement of the handlers, inside their \<^verbatim>\<open>try\<close>.\<close>

definition on_success :: "(json \<Rightarrow> 'a \<Rightarrow> (unit, 'a) outcome) \<Rightarrow> (unit, 'a) outcome \<Rightarrow> (unit, 'a) outcome" where
  "on_success f m =
     (case m of Sent (Success data) (Some st) \<Rightarrow> with_exception_handling (f data st) | _ \<Rightarrow> m)"

section \<open>The entity handler\<close>

definition inject_owner :: "auth_context option \<Rightarrow> string \<Rightarrow> json \<Rightarrow> exn + json" where
  "inject_owner auth meth body =
     (case auth of
        Some c \<Rightarrow>
          if meth = ''POST'' \<and> ea_inject_owner (ctx_config c)
          then exn_bind (jc_put ''userId'' (JString (ctx_user_id c)) body) (jc_put ''tenantId'' (JString (ctx_tenant_id c)))
          else Inr body
      | None \<Rightarrow> Inr body)"

definition owner_query :: "auth_context option \<Rightarrow> string \<Rightarrow> (string, string) omap \<Rightarrow> (string, string) omap" where
  "owner_query auth meth query =
     (case auth of
        Some c \<Rightarrow>
          if meth = ''GET'' \<and> ea_filter_by_owner (ctx_config c)
          then om_put ''filter.userId'' (ctx_user_id c) query else query
      | None \<Rightarrow> query)"

definition validated ::
    "rest_env \<Rightarrow> ('a, entity_schema) rest_adapter \<Rightarrow> route_info \<Rightarrow> string \<Rightarrow> json \<Rightarrow> 'a \<Rightarrow> (unit, 'a) outcome" where
  "validated env ad route meth body st =
     (if meth = ''POST'' \<or> meth = ''PATCH'' \<or> meth = ''PUT'' then
        then_do (call (ba_schema ad (ri_entity route)) st) (\<lambda>res st.
          case res of
            Inl e \<Rightarrow> Next () st
          | Inr schema \<Rightarrow>
              let errs = validateEntityData (rv_search env) schema (jsoncpp_to_nlohmann body) (meth = ''POST'')
              in if errs \<noteq> [] then send (Failure (rv_styled env (validation_body errs)) 422) st
                 else Next () st)
      else Next () st)"

definition entity_path :: "string \<Rightarrow> string \<Rightarrow> string \<Rightarrow> string" where
  "entity_path tenant package entity = ''/'' @ tenant @ ''/'' @ package @ ''/'' @ entity"

definition handle_entity ::
    "rest_env \<Rightarrow> ('a, entity_schema) rest_adapter \<Rightarrow> 'a events option \<Rightarrow> rest_request \<Rightarrow> string \<Rightarrow> string \<Rightarrow> string \<Rightarrow>
     auth_context option \<Rightarrow> 'a \<Rightarrow> (unit, 'a) outcome" where
  "handle_entity env ad engine req tenant package entity auth st = guarded_handler (
     let route = parseRoute (entity_path tenant package entity); meth = parseHttpMethod (rr_verb req) in
     then_do (compute (parseRequestBody env req meth) st) (\<lambda>body st.
     then_do (compute (inject_owner auth meth body) st) (\<lambda>body st.
     then_do (validated env ad route meth body st) (\<lambda>_ st.
       let query = owner_query auth meth (request_query req); trigger = entity @ ''.created'' in
       case engine of
         None \<Rightarrow> handleRestfulRequest ad route meth body query st
       | Some ev \<Rightarrow>
           if meth \<noteq> ''POST'' then handleRestfulRequest ad route meth body query st
           else case ev_has ev (tenant @ ''.'' @ trigger) st of (known, st') \<Rightarrow>
             if known
             then on_success (reply_with_events env ev tenant trigger) (handleRestfulRequest ad route meth body query st')
             else handleRestfulRequest ad route meth body query st'))))"

definition entity_not_found :: reply where
  "entity_not_found = Failure ''Entity not found'' 404"

definition forbidden_reply :: reply where
  "forbidden_reply = Failure ''Forbidden'' 403"

definition check_ownership ::
    "('a, entity_schema) rest_adapter \<Rightarrow> string \<Rightarrow> string \<Rightarrow> auth_context option \<Rightarrow> 'a \<Rightarrow> (unit, 'a) outcome" where
  "check_ownership ad entity i auth st =
     (case auth of
        None \<Rightarrow> Next () st
      | Some c \<Rightarrow>
          if \<not> ea_check_ownership (ctx_config c) then Next () st
          else then_do (call (ba_read ad entity i) st) (\<lambda>res st.
            case res of
              Inl e \<Rightarrow> send entity_not_found st
            | Inr stored \<Rightarrow>
                then_do (compute (value_string stored ''userId'' []) st) (\<lambda>owner st.
                  if owner \<noteq> ctx_user_id c then send forbidden_reply st else Next () st)))"

definition handle_entity_with_id ::
    "rest_env \<Rightarrow> ('a, entity_schema) rest_adapter \<Rightarrow> rest_request \<Rightarrow> string \<Rightarrow> string \<Rightarrow> string \<Rightarrow> string \<Rightarrow>
     auth_context option \<Rightarrow> 'a \<Rightarrow> (unit, 'a) outcome" where
  "handle_entity_with_id env ad req tenant package entity i auth st = guarded_handler (
     let route = parseRoute (entity_path tenant package entity @ ''/'' @ i); meth = parseHttpMethod (rr_verb req) in
     then_do (compute (parseRequestBody env req meth) st) (\<lambda>body st.
     then_do (check_ownership ad (ri_entity route) i auth st) (\<lambda>_ st.
       handleRestfulRequest ad route meth body (request_query req) st)))"

definition handle_entity_action ::
    "rest_env \<Rightarrow> ('a, entity_schema) rest_adapter \<Rightarrow> rest_request \<Rightarrow> string \<Rightarrow> string \<Rightarrow> string \<Rightarrow> string \<Rightarrow> string \<Rightarrow>
     'a \<Rightarrow> (unit, 'a) outcome" where
  "handle_entity_action env ad req tenant package entity i action st = guarded_handler (
     let route = parseRoute (entity_path tenant package entity @ ''/'' @ i @ ''/'' @ action);
         meth = parseHttpMethod (rr_verb req) in
     then_do (compute (parseRequestBody env req meth) st) (\<lambda>body st.
       handleRestfulRequest ad route meth body (request_query req) st))"

section \<open>The routes\<close>

text \<open>
  The state of the server: its three limiters and what the client reaches.  \<open>sv_ready\<close> is the
  answer of \<^verbatim>\<open>ensureClient\<close>.
\<close>

record 'a server =
  sv_read :: window_limiter
  sv_mutation :: window_limiter
  sv_admin :: window_limiter
  sv_world :: 'a

record 'a server_env =
  se_rest :: rest_env
  se_gate :: gate_env
  se_adapter :: "('a, entity_schema) rest_adapter"
  se_engine :: "'a events option"
  se_procs :: procedures
  se_ready :: bool
  se_now :: int
  se_later :: int

text \<open>The limiters at the start, from \<^verbatim>\<open>DBAL_READ_RATE_LIMIT\<close> and the two other variables.\<close>

definition initial_server :: "string option \<Rightarrow> string option \<Rightarrow> string option \<Rightarrow> 'a \<Rightarrow> 'a server" where
  "initial_server read_var mutation_var admin_var w =
     \<lparr>sv_read = new_limiter (env_int read_var 1000) 60, sv_mutation = new_limiter (env_int mutation_var 50) 60,
      sv_admin = new_limiter (env_int admin_var 10) 60, sv_world = w\<rparr>"

text \<open>
  A reply with the state of the server after it.  Of a handler whose adapter threw, only the reply
  is known.  An exception that leaves the lambda goes to Drogon.
\<close>

datatype 'a answer = Answer reply "'a server" | Lost reply | Escaped exn

definition answer_of :: "'a server \<Rightarrow> ('x, 'a) outcome \<Rightarrow> 'a answer" where
  "answer_of sv m =
     (case m of
        Sent r (Some st) \<Rightarrow> Answer r (sv\<lparr>sv_world := st\<rparr>)
      | Sent r None \<Rightarrow> Lost r
      | Thrown e st \<Rightarrow> Escaped e
      | Next x st \<Rightarrow> Escaped Undefined)"

definition too_many :: reply where
  "too_many = Bare 429"

definition no_client :: reply where
  "no_client = Failure ''DBAL client is unavailable'' 503"

definition message_reply :: "string \<Rightarrow> int \<Rightarrow> reply" where
  "message_reply message status = Body (jobject [(''success'', JBool False), (''message'', JString message)]) status"

text \<open>The head of every route: the limiter, then the client.\<close>

definition after_limiter ::
    "'a server_env \<Rightarrow> reply \<Rightarrow> ('a server \<Rightarrow> 'a answer) \<Rightarrow> bool \<Rightarrow> 'a server \<Rightarrow> 'a answer" where
  "after_limiter env unavailable f ok sv =
     (if \<not> ok then Answer too_many sv else if \<not> se_ready env then Answer unavailable sv else f sv)"

definition limited_read ::
    "'a server_env \<Rightarrow> reply \<Rightarrow> string \<Rightarrow> ('a server \<Rightarrow> 'a answer) \<Rightarrow> 'a server \<Rightarrow> 'a answer" where
  "limited_read env unavailable key f sv =
     (case window_allow (se_now env) (se_later env) key (sv_read sv) of
        (ok, l) \<Rightarrow> after_limiter env unavailable f ok (sv\<lparr>sv_read := l\<rparr>))"

definition limited_mutation ::
    "'a server_env \<Rightarrow> reply \<Rightarrow> string \<Rightarrow> ('a server \<Rightarrow> 'a answer) \<Rightarrow> 'a server \<Rightarrow> 'a answer" where
  "limited_mutation env unavailable key f sv =
     (case window_allow (se_now env) (se_later env) key (sv_mutation sv) of
        (ok, l) \<Rightarrow> after_limiter env unavailable f ok (sv\<lparr>sv_mutation := l\<rparr>))"

definition limited_by_verb :: "'a server_env \<Rightarrow> rest_request \<Rightarrow> string \<Rightarrow> ('a server \<Rightarrow> 'a answer) \<Rightarrow> 'a server \<Rightarrow> 'a answer" where
  "limited_by_verb env req key =
     (if rr_verb req = Verb_Get then limited_read env no_client key else limited_mutation env no_client key)"

definition gated ::
    "'a server_env \<Rightarrow> rest_request \<Rightarrow> string \<Rightarrow> string \<Rightarrow> (auth_context option \<Rightarrow> 'a \<Rightarrow> (unit, 'a) outcome) \<Rightarrow>
     'a server \<Rightarrow> 'a answer" where
  "gated env req tenant entity handler sv =
     (case entity_gate (se_gate env) req tenant entity of
        Inl e \<Rightarrow> Escaped e
      | Inr (Inl r) \<Rightarrow> Answer r sv
      | Inr (Inr auth) \<Rightarrow> answer_of sv (handler auth (sv_world sv)))"

definition preflight :: reply where
  "preflight = Bare 204"

text \<open>\<^verbatim>\<open>/{tenant}/{package}/{entity}\<close>\<close>

definition route_entity :: "'a server_env \<Rightarrow> rest_request \<Rightarrow> string \<Rightarrow> string \<Rightarrow> string \<Rightarrow> 'a server \<Rightarrow> 'a answer" where
  "route_entity env req tenant package entity sv =
     (if rr_verb req = Verb_Options then Answer preflight sv
      else limited_by_verb env req (rate_limit_key req)
        (gated env req tenant entity
           (handle_entity (se_rest env) (se_adapter env) (se_engine env) req tenant package entity)) sv)"

text \<open>\<^verbatim>\<open>/{tenant}/{package}/{entity}/{id}\<close>\<close>

definition route_entity_id ::
    "'a server_env \<Rightarrow> rest_request \<Rightarrow> string \<Rightarrow> string \<Rightarrow> string \<Rightarrow> string \<Rightarrow> 'a server \<Rightarrow> 'a answer" where
  "route_entity_id env req tenant package entity i sv =
     (if rr_verb req = Verb_Options then Answer preflight sv
      else limited_by_verb env req (rr_peer req)
        (gated env req tenant entity
           (handle_entity_with_id (se_rest env) (se_adapter env) req tenant package entity i)) sv)"

text \<open>\<^verbatim>\<open>/{tenant}/{package}/{entity}/{id}/{action}\<close>\<close>

definition route_entity_action ::
    "'a server_env \<Rightarrow> rest_request \<Rightarrow> string \<Rightarrow> string \<Rightarrow> string \<Rightarrow> string \<Rightarrow> string \<Rightarrow> 'a server \<Rightarrow> 'a answer" where
  "route_entity_action env req tenant package entity i action sv =
     (if rr_verb req = Verb_Options then Answer preflight sv
      else limited_by_verb env req (rr_peer req)
        (gated env req tenant entity
           (\<lambda>_. handle_entity_action (se_rest env) (se_adapter env) req tenant package entity i action)) sv)"

text \<open>\<^verbatim>\<open>/{tenant}/{package}/{entity}/_bulk/...\<close>: a body that cannot be read is an empty array.\<close>

definition bulk_body :: "'a server_env \<Rightarrow> rest_request \<Rightarrow> exn + json" where
  "bulk_body env req =
     exn_bind (rv_parse (se_rest env) (rr_body req)) (\<lambda>v. Inr (case v of None \<Rightarrow> JArray [] | Some b \<Rightarrow> b))"

definition route_bulk ::
    "(route_info \<Rightarrow> json \<Rightarrow> 'a \<Rightarrow> (unit, 'a) outcome) \<Rightarrow> 'a server_env \<Rightarrow> rest_request \<Rightarrow> string \<Rightarrow> string \<Rightarrow> string \<Rightarrow>
     'a server \<Rightarrow> 'a answer" where
  "route_bulk handler env req tenant package entity =
     limited_mutation env no_client (rr_peer req) (\<lambda>sv.
       case bulk_body env req of
         Inl e \<Rightarrow> Escaped e
       | Inr body \<Rightarrow> answer_of sv (handler (parseRoute (entity_path tenant package entity)) body (sv_world sv)))"

definition route_bulk_create :: "'a server_env \<Rightarrow> rest_request \<Rightarrow> string \<Rightarrow> string \<Rightarrow> string \<Rightarrow> 'a server \<Rightarrow> 'a answer" where
  "route_bulk_create env = route_bulk (handle_bulk_create (se_adapter env)) env"

definition route_bulk_update :: "'a server_env \<Rightarrow> rest_request \<Rightarrow> string \<Rightarrow> string \<Rightarrow> string \<Rightarrow> 'a server \<Rightarrow> 'a answer" where
  "route_bulk_update env = route_bulk (handle_bulk_update (rv_show_real (se_rest env)) (se_adapter env)) env"

definition route_bulk_delete :: "'a server_env \<Rightarrow> rest_request \<Rightarrow> string \<Rightarrow> string \<Rightarrow> string \<Rightarrow> 'a server \<Rightarrow> 'a answer" where
  "route_bulk_delete env = route_bulk (handle_bulk_delete (se_adapter env)) env"

text \<open>\<^verbatim>\<open>/{tenant}/{package}/_batch\<close>\<close>

definition route_batch :: "'a server_env \<Rightarrow> rest_request \<Rightarrow> string \<Rightarrow> string \<Rightarrow> 'a server \<Rightarrow> 'a answer" where
  "route_batch env req tenant package =
     limited_mutation env no_client (rr_peer req) (\<lambda>sv.
       answer_of sv (handleBatch (se_adapter env) tenant (rv_parse (se_rest env) (rr_body req)) (sv_world sv)))"

text \<open>\<^verbatim>\<open>/{tenant}/{package}/{entity}/_search\<close>\<close>

definition query_param :: "rest_request \<Rightarrow> string \<Rightarrow> string" where
  "query_param req name = (case map_of (rr_parameters req) name of None \<Rightarrow> [] | Some v \<Rightarrow> v)"

definition route_search :: "'a server_env \<Rightarrow> rest_request \<Rightarrow> string \<Rightarrow> string \<Rightarrow> string \<Rightarrow> 'a server \<Rightarrow> 'a answer" where
  "route_search env req tenant package entity =
     limited_read env (message_reply ''DBAL client is unavailable'' 503) (rr_peer req) (\<lambda>sv.
       let query = query_param req ''q''; shown = query_param req ''limit'' in
       if query = [] then Answer (message_reply (''query parameter '' @ single_quoted ''q'' @ '' is required'') 400) sv
       else answer_of sv
         (handle_search (se_adapter env) (parseRoute (entity_path tenant package entity)) query
            (case stoi shown of Inl x \<Rightarrow> 20 | Inr n \<Rightarrow> n) (sv_world sv)))"

text \<open>\<^verbatim>\<open>/{tenant}/{package}/query/{name}\<close>\<close>

definition route_query :: "'a server_env \<Rightarrow> rest_request \<Rightarrow> string \<Rightarrow> string \<Rightarrow> string \<Rightarrow> 'a server \<Rightarrow> 'a answer" where
  "route_query env req tenant package name sv =
     (if rr_verb req = Verb_Options then Answer preflight sv
      else limited_read env no_client (rr_peer req) (\<lambda>sv.
        answer_of sv (handle_query (rv_dump (se_rest env)) (se_procs env) (se_adapter env) tenant name
          (request_query req) (sv_world sv))) sv)"

text \<open>The patterns that are registered, with the parts of a path that matched.\<close>

datatype rest_call =
    Entity_Call string string string
  | Entity_Id_Call string string string string
  | Entity_Action_Call string string string string string
  | Bulk_Create_Call string string string
  | Bulk_Update_Call string string string
  | Bulk_Delete_Call string string string
  | Batch_Call string string
  | Search_Call string string string
  | Query_Call string string string

fun serve :: "'a server_env \<Rightarrow> rest_request \<Rightarrow> rest_call \<Rightarrow> 'a server \<Rightarrow> 'a answer" where
  "serve env req (Entity_Call t p e) = route_entity env req t p e"
| "serve env req (Entity_Id_Call t p e i) = route_entity_id env req t p e i"
| "serve env req (Entity_Action_Call t p e i a) = route_entity_action env req t p e i a"
| "serve env req (Bulk_Create_Call t p e) = route_bulk_create env req t p e"
| "serve env req (Bulk_Update_Call t p e) = route_bulk_update env req t p e"
| "serve env req (Bulk_Delete_Call t p e) = route_bulk_delete env req t p e"
| "serve env req (Batch_Call t p) = route_batch env req t p"
| "serve env req (Search_Call t p e) = route_search env req t p e"
| "serve env req (Query_Call t p n) = route_query env req t p n"

end
