(* ===== verification/Rest_Properties.thy ===== *)
theory Rest_Properties
  imports Rest_Routes Cache_Redis
begin

text \<open>
  What the REST interface guarantees, and where it does not: which tenant's records a request
  reaches, what becomes of a request over many records, and who gets past the gates.
\<close>

named_theorems rest_simps

lemmas [rest_simps] = then_do_def compute_def call_def send_def with_exception_handling_def guarded_handler_def
  rolled_back_def answer_of_def exn_bind_def

section \<open>Routes\<close>

lemma getlines_append: "sep \<notin> set a \<Longrightarrow> getlines sep (a @ sep # s) = a # getlines sep s"
  by (cases a) (auto simp: Let_def takeWhile_append)

lemma getlines_single: "sep \<notin> set a \<Longrightarrow> a \<noteq> [] \<Longrightarrow> getlines sep a = [a]"
proof -
  assume "sep \<notin> set a" and a: "a \<noteq> []"
  then have "takeWhile (\<lambda>x. x \<noteq> sep) a = a" by (auto simp: takeWhile_eq_all_conv)
  with a show ?thesis by (cases a) (auto simp: Let_def)
qed

lemma valid_name_no_slash: "is_valid_name s \<Longrightarrow> CHR ''/'' \<notin> set s \<and> s \<noteq> []"
proof -
  have "\<not> is_alnum CHR ''/''" by code_simp
  then show "is_valid_name s \<Longrightarrow> CHR ''/'' \<notin> set s \<and> s \<noteq> []"
    by (auto simp: is_valid_name_def list_all_iff)
qed

lemma path_segments_entity:
  assumes "CHR ''/'' \<notin> set t" "CHR ''/'' \<notin> set p" "CHR ''/'' \<notin> set e" "t \<noteq> []" "p \<noteq> []" "e \<noteq> []"
  shows "path_segments (entity_path t p e) = [t, p, e]"
proof -
  have "last e \<noteq> CHR ''/''" using assms(3,6) last_in_set by metis
  then show ?thesis
    using assms by (simp add: path_segments_def entity_path_def getlines_append getlines_single)
qed

lemma path_segments_id:
  assumes "CHR ''/'' \<notin> set t" "CHR ''/'' \<notin> set p" "CHR ''/'' \<notin> set e" "t \<noteq> []" "p \<noteq> []" "e \<noteq> []"
    "CHR ''/'' \<notin> set i" "i \<noteq> []"
  shows "path_segments (entity_path t p e @ CHR ''/'' # i) = [t, p, e, i]"
proof -
  have "last i \<noteq> CHR ''/''" using assms(7,8) last_in_set by metis
  then show ?thesis
    using assms by (simp add: path_segments_def entity_path_def getlines_append getlines_single)
qed

text \<open>The tenants that the routes accept.\<close>

definition good_tenant :: "string \<Rightarrow> bool" where
  "good_tenant t \<longleftrightarrow> is_valid_name t \<and> to_lower t \<notin> set bad_tenants"

lemma parse_entity_route:
  assumes "good_tenant t" "is_valid_name p" "is_valid_name e"
  shows "parseRoute (entity_path t p e) =
    empty_route\<lparr>ri_tenant := t, ri_package := p, ri_entity := e, ri_valid := True\<rparr>"
  using assms valid_name_no_slash [of t] valid_name_no_slash [of p] valid_name_no_slash [of e]
  by (simp add: parseRoute_def path_segments_entity good_tenant_def empty_route_def)

lemma parse_id_route:
  assumes "good_tenant t" "is_valid_name p" "is_valid_name e" "CHR ''/'' \<notin> set i" "i \<noteq> []"
  shows "parseRoute (entity_path t p e @ CHR ''/'' # i) =
    empty_route\<lparr>ri_tenant := t, ri_package := p, ri_entity := e, ri_id := i, ri_valid := True\<rparr>"
  using assms valid_name_no_slash [of t] valid_name_no_slash [of p] valid_name_no_slash [of e]
  by (simp add: parseRoute_def path_segments_id good_tenant_def empty_route_def)

section \<open>Tenants\<close>

lemma foreign_record_handlers:
  assumes "ba_read ad (ri_entity route) (ri_id route) st = Inr (Inr rec, st')" "other_tenant (ri_tenant route) rec"
    "ri_id route \<noteq> []"
  shows "handle_read ad route st = Sent (not_found_reply route) (Some st')"
    "handle_update ad route body st = Sent (not_found_reply route) (Some st')"
    "handle_delete_record ad route st = Sent (not_found_reply route) (Some st')"
  by (simp_all add: handle_read_def handle_update_def handle_delete_record_def assms rest_simps)

lemma foreign_record_request:
  assumes "ba_read ad (ri_entity route) (ri_id route) st = Inr (Inr rec, st')" "other_tenant (ri_tenant route) rec"
    "ri_id route \<noteq> []" "ri_valid route" "ri_action route = []" "meth \<in> {''GET'', ''PUT'', ''PATCH'', ''DELETE''}"
  shows "handleRestfulRequest ad route meth body query st = Sent (not_found_reply route) (Some st')"
  using assms(6) foreign_record_handlers [OF assms(1-3)]
  by (auto simp: handleRestfulRequest_def assms(3-5) with_exception_handling_def)


section \<open>Adapters to run on\<close>

text \<open>The Redis adapter, with the options and the result of a list as the interface has them.\<close>

definition redis_rest ::
    "'r redis_env \<Rightarrow> string list \<Rightarrow> (string \<Rightarrow> 'k result) \<Rightarrow> ('r redis_state, 'k) rest_adapter" where
  "redis_rest env entities schema =
     (let b = redis_backend env entities schema in \<lparr>
     ba_create = ba_create b, ba_read = ba_read b, ba_read_sensitive = ba_read_sensitive b,
     ba_search = (\<lambda>e query n st. map_sum id (map_prod (map_sum id
        (\<lambda>(items, n). \<lparr>lr_items = items, lr_total = n, lr_page = 0, lr_limit = 0\<rparr>)) id) (ba_search b e query n st)),
     ba_update = ba_update b, ba_remove = ba_remove b,
     ba_list = (\<lambda>e opts st. map_sum id (map_prod (map_sum id
        (\<lambda>(items, n). \<lparr>lr_items = items, lr_total = n, lr_page = lo_page opts,
                         lr_limit = (if lo_limit opts > 0 then lo_limit opts else 100)\<rparr>)) id)
        (ba_list b e (list_options.truncate opts) st)),
     ba_create_many = ba_create_many b, ba_update_many = ba_update_many b, ba_delete_many = ba_delete_many b,
     ba_find_first = ba_find_first b, ba_find_by_field = ba_find_by_field b, ba_upsert = ba_upsert b,
     ba_entities = ba_entities b, ba_schema = ba_schema b, ba_close = ba_close b, ba_native = ba_native b,
     ba_begin = ba_begin b, ba_commit = ba_commit b, ba_rollback = ba_rollback b\<rparr>)"

text \<open>A table of records by id, with a copy of it while a transaction runs; for the examples.\<close>

type_synonym shelf = "(string \<times> json) list \<times> (string \<times> json) list option"

definition shelf_adapter :: "(string \<Rightarrow> entity_schema result) \<Rightarrow> (shelf, entity_schema) rest_adapter" where
  "shelf_adapter schema = \<lparr>
     ba_create = (\<lambda>e data (rows, s). case jget data ''id'' of
        Some (JString i) \<Rightarrow> Inr (Inr data, ((i, data) # rows, s))
      | _ \<Rightarrow> Inr (Inl (validation_error ''no id''), (rows, s))),
     ba_read = (\<lambda>e i st. Inr (case map_of (fst st) i of None \<Rightarrow> Inl (not_found e) | Some j \<Rightarrow> Inr j, st)),
     ba_read_sensitive = (\<lambda>e i st. Inr (Inl (not_found e), st)),
     ba_search = (\<lambda>e query n st. Inr (Inl (internal_error query), st)),
     ba_update = (\<lambda>e i data (rows, s). case map_of rows i of
        None \<Rightarrow> Inr (Inl (not_found e), (rows, s))
      | Some j \<Rightarrow> Inr (Inr data, ((i, data) # rows, s))),
     ba_remove = (\<lambda>e i (rows, s). Inr (Inr True, (filter (\<lambda>(k, v). k \<noteq> i) rows, s))),
     ba_list = (\<lambda>e opts st. Inr (Inr
        (let items = filter (\<lambda>j. matchesFilter j (lo_filter opts)) (map snd (fst st))
         in \<lparr>lr_items = items, lr_total = int (length items), lr_page = lo_page opts, lr_limit = lo_limit opts\<rparr>), st)),
     ba_create_many = (\<lambda>e recs st. Inl Undefined), ba_update_many = (\<lambda>e flt data st. Inl Undefined),
     ba_delete_many = (\<lambda>e flt st. Inl Undefined), ba_find_first = (\<lambda>e flt st. Inl Undefined),
     ba_find_by_field = (\<lambda>e field v st. Inl Undefined), ba_upsert = (\<lambda>e field v c u st. Inl Undefined),
     ba_entities = (\<lambda>st. Inr (Inr [], st)), ba_schema = (\<lambda>e st. Inr (schema e, st)),
     ba_close = (\<lambda>st. Inr ((), st)), ba_native = (\<lambda>st. False),
     ba_begin = (\<lambda>(rows, s). Inr (Inr True, (rows, Some rows))),
     ba_commit = (\<lambda>(rows, s). Inr (Inr True, (rows, None))),
     ba_rollback = (\<lambda>(rows, s). Inr (Inr True, ((case s of None \<Rightarrow> rows | Some old \<Rightarrow> old), None)))\<rparr>"

definition no_schemas :: "string \<Rightarrow> entity_schema result" where
  "no_schemas e = Inl (not_found e)"

definition demo_rest :: rest_env where
  "demo_rest = \<lparr>rv_parse = (\<lambda>s. Inr None), rv_show_real = (\<lambda>q. []), rv_styled = (\<lambda>j. []), rv_dump = (\<lambda>j. Inr []),
     rv_search = (\<lambda>p v. None)\<rparr>"

definition demo_request :: "verb \<Rightarrow> rest_request" where
  "demo_request v = \<lparr>rr_verb = v, rr_headers = [], rr_peer = ''10.0.0.1'', rr_parameters = [], rr_body = [], rr_json = None\<rparr>"

definition foreign_rows :: "(string \<times> json) list" where
  "foreign_rows = [(''7'', JObject [(''id'', JString ''7''), (''tenantId'', JString ''globex'')])]"


lemma paging_param_refused: "paging_param kv pg = Inl r \<Longrightarrow> \<exists>m. r = Failure m 400"
  unfolding paging_param_def limit_error_def page_error_def offset_error_def
  by (cases kv; simp only: prod.case split: if_split_asm option.split_asm; force)

lemma paging_params_refused: "paging_params q pg = Inl r \<Longrightarrow> \<exists>m. r = Failure m 400"
  by (induction q arbitrary: pg) (auto dest: paging_param_refused split: sum.split_asm)

lemma parse_refused: "parseQueryParameters q = Some (Inl r) \<Longrightarrow> \<exists>m. r = Failure m 400"
  by (auto simp: parseQueryParameters_def dest: paging_params_refused split: sum.split_asm)

text \<open>
  C9: a list shows a tenant only its own rows, whatever the query asks for.  When a list request
  under a tenant succeeds, the options that reached the database make every \<^verbatim>\<open>WHERE\<close> clause
  built from them, on every dialect, hold only on rows whose \<^verbatim>\<open>tenantId\<close> compares equal to the
  tenant of the path: a \<^verbatim>\<open>filter.tenantId\<close> of the query is overwritten, and its other filters and
  groups can only narrow the clause.
\<close>

theorem list_confined_to_tenant:
  assumes "handle_list ad route query st = Sent (Success answer) (Some st')" "ri_tenant route \<noteq> []"
  shows "\<exists>opts l. ba_list ad (ri_entity route) opts st = Inr (Inr l, st') \<and> answer = list_answer l \<and>
    (\<forall>valid dialect clause params index.
       build (ro_conditions opts) (ro_groups opts) (lo_filter opts) valid dialect ([], 1) = Inr (clause, params, index) \<longrightarrow>
       (\<exists>tree. clause = where_text dialect tree \<and>
          (\<forall>sem row. where_holds sem dialect (bound_value params) row tree \<longrightarrow>
             (\<exists>v. row ''tenantId'' = Some v \<and> sem ''='' v (ri_tenant route)))))"
proof -
  obtain oj opts l where o: "list_options_from (ri_tenant route) oj query = Inr opts"
      "ba_list ad (ri_entity route) opts st = Inr (Inr l, st')" "answer = list_answer l"
    using assms(1)
    by (auto simp: handle_list_def rest_simps list_error_def Let_def dest: parse_refused
        split: option.split_asm sum.split_asm exn.split_asm prod.split_asm if_split_asm)
  obtain m where m: "lo_filter opts = om_put ''tenantId'' (ri_tenant route) m"
    using o(1) assms(2) by (auto simp: list_options_from_def exn_bind_def split: sum.split_asm)
  have "map_of (lo_filter opts) ''tenantId'' = Some (ri_tenant route)" by (simp add: m)
  then have tenant: "(''tenantId'', ri_tenant route) \<in> set (lo_filter opts)" by (rule map_of_SomeD)
  have "\<exists>tree. clause = where_text dialect tree \<and>
          (\<forall>sem row. where_holds sem dialect (bound_value params) row tree \<longrightarrow>
             (\<exists>v. row ''tenantId'' = Some v \<and> sem ''='' v (ri_tenant route)))"
    if b: "build (ro_conditions opts) (ro_groups opts) (lo_filter opts) valid dialect ([], 1) = Inr (clause, params, index)"
    for valid dialect clause params index
  proof -
    obtain tree where t: "clause = where_text dialect tree"
        "\<And>sem row. where_holds sem dialect (bound_value params) row tree \<Longrightarrow>
           \<forall>(f, v) \<in> set (lo_filter opts). on_value row f (\<lambda>x. sem ''='' x v)"
      using where_legacy_holds [OF b] by blast
    have "\<exists>v. row ''tenantId'' = Some v \<and> sem ''='' v (ri_tenant route)"
      if "where_holds sem dialect (bound_value params) row tree" for sem row
      using t(2) [OF that] tenant by (fastforce simp: on_value_def split: option.split_asm)
    with t(1) show ?thesis by blast
  qed
  with o(2,3) show ?thesis by blast
qed

definition listed_rows :: shelf where
  "listed_rows = ([(''1'', JObject [(''id'', JString ''1''), (''tenantId'', JString ''acme'')]),
                   (''2'', JObject [(''id'', JString ''2''), (''tenantId'', JString ''globex'')])], None)"

lemma listed_answer:
  "handle_list (shelf_adapter no_schemas) (parseRoute ''/acme/core/Note'') [(''filter.tenantId'', ''globex''), (''or[0].level[gt]'', ''3'')]
     listed_rows =
   Sent (Success (JObject [(''data'', JArray [JObject [(''id'', JString ''1''), (''tenantId'', JString ''acme'')]]),
      (''limit'', JInt 20), (''page'', JInt 1), (''total'', JInt 1)])) (Some listed_rows)"
  by code_simp

theorem list_confined_to_tenant_witness:
  "\<exists>opts l. ba_list (shelf_adapter no_schemas) ''Note'' opts listed_rows = Inr (Inr l, listed_rows) \<and>
     list_answer l = JObject [(''data'', JArray [JObject [(''id'', JString ''1''), (''tenantId'', JString ''acme'')]]),
       (''limit'', JInt 20), (''page'', JInt 1), (''total'', JInt 1)]"
proof -
  have "ri_tenant (parseRoute ''/acme/core/Note'') \<noteq> []" "ri_entity (parseRoute ''/acme/core/Note'') = ''Note''"
    by code_simp+
  then show ?thesis using list_confined_to_tenant [OF listed_answer] by fastforce
qed

section \<open>Many records at once\<close>

text \<open>A run of creates that all succeed, with what was given and what came back.\<close>

inductive creates :: "('a, 'k) rest_adapter \<Rightarrow> string \<Rightarrow> 'a \<Rightarrow> (json \<times> json) list \<Rightarrow> 'a \<Rightarrow> bool" where
  creates_none: "creates ad e st [] st"
| creates_more: "ba_create ad e data st = Inr (Inr j, st1) \<Longrightarrow> creates ad e st1 made st2 \<Longrightarrow>
    creates ad e st ((data, j) # made) st2"

abbreviation given_items :: "route_info \<Rightarrow> json list \<Rightarrow> (exn + json) list" where
  "given_items route items \<equiv> map (\<lambda>i. inject_tenant (ri_tenant route) (jsoncpp_to_nlohmann i)) items"

lemma bulk_create_items_next:
  "bulk_create_items ad route items results st = Next rs st' \<Longrightarrow>
     \<exists>made. creates ad (ri_entity route) st made st' \<and> given_items route items = map (\<lambda>p. Inr (fst p)) made \<and>
       rs = results @ map (\<lambda>p. nlohmann_to_jsoncpp (snd p)) made"
proof (induction items arbitrary: results st)
  case Nil
  then show ?case by (auto intro: creates_none)
next
  case (Cons item items)
  obtain data j st1 where d: "inject_tenant (ri_tenant route) (jsoncpp_to_nlohmann item) = Inr data"
      "ba_create ad (ri_entity route) data st = Inr (Inr j, st1)"
      "bulk_create_items ad route items (results @ [nlohmann_to_jsoncpp j]) st1 = Next rs st'"
    using Cons.prems by (auto simp: rest_simps split: sum.split_asm prod.split_asm)
  from Cons.IH [OF d(3)] obtain made where "creates ad (ri_entity route) st1 made st'"
      "given_items route items = map (\<lambda>p. Inr (fst p)) made"
      "rs = results @ map (\<lambda>p. nlohmann_to_jsoncpp (snd p)) ((data, j) # made)" by auto
  with d show ?case by (intro exI [of _ "(data, j) # made"]) (simp add: creates_more)
qed

lemma bulk_create_items_sent:
  "bulk_create_items ad route items results st = Sent r (Some st') \<Longrightarrow>
     \<exists>m made data e b st1 st2. r = Failure m 400 \<and> creates ad (ri_entity route) st made st1 \<and>
       ba_create ad (ri_entity route) data st1 = Inr (Inl e, st2) \<and> ba_rollback ad st2 = Inr (b, st')"
proof (induction items arbitrary: results st)
  case (Cons item items)
  obtain data res st1 where d: "inject_tenant (ri_tenant route) (jsoncpp_to_nlohmann item) = Inr data"
      "ba_create ad (ri_entity route) data st = Inr (res, st1)"
    using Cons.prems by (auto simp: rest_simps split: sum.split_asm prod.split_asm)
  show ?case
  proof (cases res)
    case (Inl e)
    with Cons.prems d obtain m b where "r = Failure m 400" "ba_rollback ad st1 = Inr (b, st')"
      by (auto simp: rest_simps split: sum.split_asm prod.split_asm)
    with d Inl show ?thesis by (blast intro: creates_none)
  next
    case (Inr j)
    with Cons.prems d have "bulk_create_items ad route items (results @ [nlohmann_to_jsoncpp j]) st1 = Sent r (Some st')"
      by (auto simp: rest_simps)
    from Cons.IH [OF this] d Inr show ?thesis by (blast intro: creates_more)
  qed
qed simp

text \<open>How a transacted handler ends, whatever its items do.\<close>

lemma transacted_cases:
  assumes "with_exception_handling (transacted ad items answer st) = Sent r (Some st')"
  shows "(\<exists>b st1 rs st2 c. ba_begin ad st = Inr (Inr b, st1) \<and> items st1 = Next rs st2 \<and>
       ba_commit ad st2 = Inr (Inr c, st') \<and> r = answer rs) \<or>
     (\<exists>b st1. ba_begin ad st = Inr (Inr b, st1) \<and> items st1 = Sent r (Some st')) \<or>
     (\<exists>m. r = Failure m 500)"
  using assms
  by (auto simp: transacted_def rest_simps split: sum.split_asm prod.split_asm outcome.split_asm exn.split_asm)

lemma bulk_create_cases:
  assumes "handle_bulk_create ad route (JArray items) st = Sent r (Some st')" "items \<noteq> []"
  shows "(\<exists>b c made st1 st2. ba_begin ad st = Inr (Inr b, st1) \<and> creates ad (ri_entity route) st1 made st2 \<and>
       ba_commit ad st2 = Inr (Inr c, st') \<and> given_items route items = map (\<lambda>p. Inr (fst p)) made \<and>
       r = bulk_answer ''inserted'' ''data'' (map (\<lambda>p. nlohmann_to_jsoncpp (snd p)) made)) \<or>
    (\<exists>m b c made data e st1 st2 st3. r = Failure m 400 \<and> ba_begin ad st = Inr (Inr b, st1) \<and>
       creates ad (ri_entity route) st1 made st2 \<and>
       ba_create ad (ri_entity route) data st2 = Inr (Inl e, st3) \<and> ba_rollback ad st3 = Inr (c, st')) \<or>
    (\<exists>m. r = Failure m 500)"
proof -
  have "with_exception_handling (transacted ad (bulk_create_items ad route items [])
      (bulk_answer ''inserted'' ''data'') st) = Sent r (Some st')"
    using assms by (simp add: handle_bulk_create_def bulk_guard_def)
  from transacted_cases [OF this] show ?thesis
    by (elim disjE exE conjE) (fastforce dest: bulk_create_items_next bulk_create_items_sent)+
qed

text \<open>
  C10: creating many records is all or nothing.  A bulk create with items that is answered with
  success began a transaction, created every item in its order, each with the tenant of the
  path where it named none, and committed, and the answer holds what the database gave back.  One
  that is answered with \<^verbatim>\<open>400\<close> ended with the rollback, directly after the create that failed.
  What is left is \<^verbatim>\<open>500\<close>: no transaction, no commit, or an exception on the way.
\<close>

theorem bulk_create_all_or_nothing:
  assumes "handle_bulk_create ad route (JArray items) st = Sent r (Some st')" "items \<noteq> []"
  shows "(\<exists>b c made st1 st2. ba_begin ad st = Inr (Inr b, st1) \<and> creates ad (ri_entity route) st1 made st2 \<and>
       ba_commit ad st2 = Inr (Inr c, st') \<and> given_items route items = map (\<lambda>p. Inr (fst p)) made \<and>
       r = bulk_answer ''inserted'' ''data'' (map (\<lambda>p. nlohmann_to_jsoncpp (snd p)) made)) \<or>
    (\<exists>m b c made data e st1 st2 st3. r = Failure m 400 \<and> ba_begin ad st = Inr (Inr b, st1) \<and>
       creates ad (ri_entity route) st1 made st2 \<and>
       ba_create ad (ri_entity route) data st2 = Inr (Inl e, st3) \<and> ba_rollback ad st3 = Inr (c, st')) \<or>
    (\<exists>m. r = Failure m 500)"
  using assms by (rule bulk_create_cases)

lemma bulk_create_rolled_back:
  "\<exists>m. handle_bulk_create (shelf_adapter no_schemas) (parseRoute ''/acme/core/Note'')
     (JArray [JObject [(''id'', JString ''1'')], JObject []]) ([], None) = Sent (Failure m 400) (Some ([], None))"
  by (rule exI [of _ "''Bulk create failed at item 1: no id''"]) code_simp

theorem bulk_create_all_or_nothing_witness:
  "\<exists>m c st. handle_bulk_create (shelf_adapter no_schemas) (parseRoute ''/acme/core/Note'')
     (JArray [JObject [(''id'', JString ''1'')], JObject []]) ([], None) = Sent (Failure m 400) (Some ([], None)) \<and>
   ba_rollback (shelf_adapter no_schemas) st = Inr (c, ([], None))"
proof -
  obtain m where m: "handle_bulk_create (shelf_adapter no_schemas) (parseRoute ''/acme/core/Note'')
      (JArray [JObject [(''id'', JString ''1'')], JObject []]) ([], None) = Sent (Failure m 400) (Some ([], None))"
    using bulk_create_rolled_back by blast
  have "\<exists>c st. ba_rollback (shelf_adapter no_schemas) st = Inr (c, ([], None))"
    using bulk_create_all_or_nothing [OF m] by (auto simp: bulk_answer_def)
  with m show ?thesis by blast
qed

text \<open>An adapter that refuses a transaction refuses every request over many records.\<close>

lemma transacted_refused:
  "ba_begin ad st = Inr (Inl e, st1) \<Longrightarrow>
     transacted ad items answer st = Sent (Failure ''Failed to begin transaction'' 500) (Some st1)"
  by (simp add: transacted_def rest_simps)

lemma redis_rest_begin:
  "ba_begin (redis_rest env entities schema) st = Inr (redis_begin st)"
  by (simp add: redis_rest_def redis_backend_def Let_def)

lemma redis_stuck:
  assumes "tx_active st"
  shows "transacted (redis_rest env entities schema) items answer st =
    Sent (Failure ''Failed to begin transaction'' 500) (Some st)"
  by (rule transacted_refused [where e = "internal_error ''Transaction already in progress''"])
    (simp add: redis_rest_begin redis_begin_def assms)

text \<open>
  One malformed bulk update stops every later one.  A bulk update whose first item has an
  array or an object for its \<^verbatim>\<open>id\<close> is answered with \<^verbatim>\<open>500\<close>, by the exception of
  \<^verbatim>\<open>asString\<close>, which jumps over the rollback.  On the Redis adapter the transaction then
  stays open: every later bulk create, update, delete and batch, of whatever tenant, is answered
  with \<^verbatim>\<open>500\<close> and changes nothing.
\<close>

theorem bulk_update_open_transaction:
  assumes "\<not> tx_active st" "jget item ''id'' = Some i" "is_array i \<or> is_object i" "jget item ''data'' = Some d"
    and "later \<noteq> []"
  shows "\<exists>st'. tx_active st' \<and> rs_server st' = rs_server st \<and>
    handle_bulk_update shown (redis_rest env entities schema) route (JArray (item # items)) st =
      Sent (Failure ''Internal server error: Type is not convertible to string'' 500) (Some st') \<and>
    handle_bulk_create (redis_rest env entities schema) route' (JArray later) st' =
      Sent (Failure ''Failed to begin transaction'' 500) (Some st') \<and>
    handle_bulk_update shown (redis_rest env entities schema) route' (JArray later) st' =
      Sent (Failure ''Failed to begin transaction'' 500) (Some st') \<and>
    handle_bulk_delete (redis_rest env entities schema) route' (JArray later) st' =
      Sent (Failure ''Failed to begin transaction'' 500) (Some st') \<and>
    handleBatch (redis_rest env entities schema) tenant (Inr (Some (JObject [(''operations'', JArray later)]))) st' =
      Sent (Failure ''Failed to begin transaction'' 500) (Some st')"
proof -
  let ?st = "st\<lparr>rs_tx := Some new_tx\<rparr>"
  have active: "tx_active ?st" by (simp add: tx_active_def new_tx_def)
  have thrown: "jc_string shown i = Inl (Std_exception ''Type is not convertible to string'')"
    using assms(3) by (cases i) auto
  have "handle_bulk_update shown (redis_rest env entities schema) route (JArray (item # items)) st =
      Sent (Failure ''Internal server error: Type is not convertible to string'' 500) (Some ?st)"
    by (simp add: handle_bulk_update_def bulk_guard_def transacted_def redis_rest_begin redis_begin_def assms(1,2,4)
        thrown rest_simps)
  then show ?thesis
    by (intro exI [of _ ?st])
      (simp add: active assms(5) handle_bulk_create_def handle_bulk_update_def handle_bulk_delete_def handleBatch_def
        bulk_guard_def redis_stuck with_exception_handling_def compute_def then_do_def)
qed

definition list_id_item :: json where
  "list_id_item = JObject [(''data'', JObject []), (''id'', JArray [])]"

theorem bulk_update_open_transaction_witness:
  "\<exists>st'. tx_active st' \<and>
     handle_bulk_update (\<lambda>q. []) (redis_rest demo_redis [] no_schemas) empty_route (JArray [list_id_item])
       \<lparr>rs_server = Map.empty, rs_tx = None\<rparr> =
       Sent (Failure ''Internal server error: Type is not convertible to string'' 500) (Some st') \<and>
     handle_bulk_delete (redis_rest demo_redis [] no_schemas) empty_route (JArray [JString ''7'']) st' =
       Sent (Failure ''Failed to begin transaction'' 500) (Some st')"
  using bulk_update_open_transaction [of "\<lparr>rs_server = Map.empty, rs_tx = None\<rparr>" list_id_item "JArray []" "JObject []"
      "[JString ''7'']" "\<lambda>q. []" demo_redis "[]" no_schemas empty_route "[]" empty_route "[]"]
  by (auto simp: list_id_item_def tx_active_def)

end
