(* ===== verification/Rest_Gates.thy ===== *)
theory Rest_Gates
  imports Rest_Properties
begin

text \<open>
  Who gets past the gates of the REST interface: what an entity route demands of a caller, for
  which calls nothing is demanded, and which of the declared rules are not enforced.
\<close>

section \<open>What the gates demand\<close>

definition tenant_fits :: "string \<Rightarrow> jwt_claims \<Rightarrow> bool" where
  "tenant_fits t c \<longleftrightarrow> jc_tenant_id c = [] \<or> jc_tenant_id c = t \<or> t = ''system''"

text \<open>A caller whose token names a fitting tenant and an allowed role, or the operator.\<close>

definition entitled :: "gate_env \<Rightarrow> acl_registry \<Rightarrow> rest_request \<Rightarrow> string \<Rightarrow> string \<Rightarrow> string \<Rightarrow> bool" where
  "entitled env reg req t e op \<longleftrightarrow> is_admin_request env req \<or>
     (\<exists>c. request_claims env req = Some c \<and> tenant_fits t c \<and> roleAllowed reg e op (jc_role c))"

definition names_privileged :: "acl_registry \<Rightarrow> rest_request \<Rightarrow> string \<Rightarrow> bool" where
  "names_privileged reg req e \<longleftrightarrow>
     (\<exists>j. rr_json req = Some j \<and> (\<exists>f \<in> set (privilegedFields reg e). jget j f \<noteq> None))"

definition may_access :: "gate_env \<Rightarrow> acl_registry \<Rightarrow> rest_request \<Rightarrow> string \<Rightarrow> string \<Rightarrow> bool" where
  "may_access env reg req t e \<longleftrightarrow>
     (let op = acl_operation_for_method (rr_verb req) in
      \<not> isSystemOnly reg e op \<and>
      (is_write_method (rr_verb req) \<longrightarrow>
         entitled env reg req t e op \<or>
         isPublicWrite reg e op \<and> (request_claims env req \<noteq> None \<or> \<not> names_privileged reg req e)) \<and>
      (rr_verb req = Verb_Get \<and> requiresAuthToRead reg e \<longrightarrow> entitled env reg req t e op))"

fun entity_of_call :: "rest_call \<Rightarrow> (string \<times> string) option" where
  "entity_of_call (Entity_Call t p e) = Some (t, e)"
| "entity_of_call (Entity_Id_Call t p e i) = Some (t, e)"
| "entity_of_call (Entity_Action_Call t p e i a) = Some (t, e)"
| "entity_of_call _ = None"

definition refusal :: "reply \<Rightarrow> bool" where
  "refusal r \<longleftrightarrow> (\<exists>m c. r = Failure m c) \<or> (\<exists>c. r = Bare c)"

lemma mismatch_none: "tenant_mismatch_rejection (Some c) t = None \<longleftrightarrow> tenant_fits t c"
  by (auto simp: tenant_mismatch_rejection_def tenant_fits_def)

lemma privileged_none:
  "privileged_rejection fs j = Inr None \<Longrightarrow> f \<in> set fs \<Longrightarrow> jget j f = None"
  by (induction fs) (auto simp: exn_bind_def split: sum.split_asm if_split_asm elim: jc_find.elims)

lemma write_gate_open:
  assumes "ge_registry env = Some reg" "is_write_method (rr_verb req)" "write_authz_rejection env req t e = Inr None"
  shows "entitled env reg req t e (acl_operation_for_method (rr_verb req)) \<or>
    isPublicWrite reg e (acl_operation_for_method (rr_verb req)) \<and>
      (request_claims env req \<noteq> None \<or> \<not> names_privileged reg req e)"
  using assms
  by (auto simp: write_authz_rejection_def Let_def entitled_def mismatch_none names_privileged_def
      dest: privileged_none split: if_split_asm option.split_asm)

lemma read_gate_open:
  assumes "ge_registry env = Some reg" "rr_verb req = Verb_Get" "requiresAuthToRead reg e"
    "read_authz_rejection env req t e = None"
  shows "entitled env reg req t e ''read''"
  using assms
  by (auto simp: read_authz_rejection_def Let_def entitled_def mismatch_none split: if_split_asm option.split_asm)

lemma gate_open:
  assumes "ge_registry env = Some reg" "entity_gate env req t e = Inr (Inr auth)"
  shows "may_access env reg req t e"
proof -
  have g: "system_rejection env req e = None" "write_authz_rejection env req t e = Inr None"
      "read_authz_rejection env req t e = None"
    using assms(2) by (auto simp: entity_gate_def exn_bind_def split: option.split_asm sum.split_asm)
  show ?thesis
    using g(1) write_gate_open [OF assms(1) _ g(2)] read_gate_open [OF assms(1) _ _ g(3)]
    by (auto simp: may_access_def Let_def system_rejection_def assms(1) split: if_split_asm)
qed

lemma privileged_exn: "privileged_rejection fs j = Inl x \<Longrightarrow> x = find_error"
  by (induction fs) (auto simp: exn_bind_def split: sum.split_asm if_split_asm elim: jc_find.elims)

lemma privileged_refusal: "privileged_rejection fs j = Inr (Some r) \<Longrightarrow> refusal r"
  by (induction fs) (auto simp: exn_bind_def refusal_def field_refused_def split: sum.split_asm if_split_asm)

lemma mismatch_refusal: "tenant_mismatch_rejection c t = Some r \<Longrightarrow> refusal r"
  by (auto simp: tenant_mismatch_rejection_def tenant_mismatch_def refusal_def split: option.split_asm if_split_asm)

lemma write_gate_refusal: "write_authz_rejection env req t e = Inr (Some r) \<Longrightarrow> refusal r"
  by (auto simp: write_authz_rejection_def Let_def dest: privileged_refusal mismatch_refusal
      split: option.split_asm if_split_asm)
    (auto simp: refusal_def write_login_required_def write_role_refused_def)

lemma write_gate_exn: "write_authz_rejection env req t e = Inl x \<Longrightarrow> x = find_error"
  by (auto simp: write_authz_rejection_def Let_def dest: privileged_exn split: option.split_asm if_split_asm)

lemma read_gate_refusal: "read_authz_rejection env req t e = Some r \<Longrightarrow> refusal r"
  by (auto simp: read_authz_rejection_def Let_def dest: mismatch_refusal split: option.split_asm if_split_asm)
    (auto simp: refusal_def read_login_required_def read_role_refused_def)

lemma authenticate_refusal: "authenticate env req t e = Inl r \<Longrightarrow> refusal r"
  by (auto simp: authenticate_def Let_def refusal_def auth_not_configured_def unauthorized_reply_def tenant_mismatch_def
      split: option.split_asm if_split_asm)

lemma gate_refusal: "entity_gate env req t e = Inr (Inl r) \<Longrightarrow> refusal r"
  by (auto simp: entity_gate_def exn_bind_def system_rejection_def dest: write_gate_refusal read_gate_refusal authenticate_refusal
      split: option.split_asm sum.split_asm if_split_asm)
    (auto simp: refusal_def system_managed_def)

lemma gate_exn: "entity_gate env req t e = Inl x \<Longrightarrow> x = find_error"
  by (auto simp: entity_gate_def exn_bind_def dest: write_gate_exn split: option.split_asm sum.split_asm)

text \<open>What a refused request may do: answer with a refusal and leave what the client reaches alone.\<close>

fun refused :: "'a server \<Rightarrow> 'a answer \<Rightarrow> bool" where
  "refused sv (Answer r sv') = (refusal r \<and> sv_world sv' = sv_world sv)"
| "refused sv (Lost r) = False"
| "refused sv (Escaped x) = (x = find_error)"

lemma limited_refused:
  assumes "\<And>sv'. sv_world sv' = sv_world sv \<Longrightarrow> refused sv' (f sv')"
  shows "refused sv (limited_by_verb env req key f sv)"
proof -
  have after: "refused sv (after_limiter env no_client f ok sv')" if "sv_world sv' = sv_world sv" for ok sv'
    using that assms [of sv'] by (cases "f sv'") (auto simp: after_limiter_def too_many_def no_client_def refusal_def)
  show ?thesis
    by (auto simp: limited_by_verb_def limited_read_def limited_mutation_def split: prod.split intro!: after)
qed

lemma gated_refused:
  assumes "ge_registry (se_gate env) = Some reg" "\<not> may_access (se_gate env) reg req t e"
  shows "refused sv (gated env req t e handler sv)"
  using gate_open [OF assms(1)] assms(2) gate_refusal gate_exn
  by (auto simp: gated_def split: sum.split)

lemma entity_route_refused:
  assumes "ge_registry (se_gate env) = Some reg" "entity_of_call rc = Some (t, e)"
    "\<not> may_access (se_gate env) reg req t e"
  shows "refused sv (serve env req rc sv)"
proof -
  have gate: "refused sv' (gated env req t e handler sv')" for handler sv'
    by (rule gated_refused [OF assms(1,3)])
  show ?thesis
    using assms(2)
    by (cases rc) (auto simp: route_entity_def route_entity_id_def route_entity_action_def preflight_def refusal_def
        intro!: limited_refused gate)
qed

text \<open>
  C6: an entity route lets nobody in who is not entitled.  Take a server that has loaded its
  access rules, and a request to one of the three entity routes, with any method.  Unless the
  operation is not system-managed, and, for a write, the caller is the operator, or holds a token
  for this tenant (or for none, or asks for \<^verbatim>\<open>system\<close>) with an allowed role, or the operation is public
  and no privileged field is named without a token, and, for a read of a guarded entity, the caller is so
  entitled, the answer is a refusal and the database is as it was.  The one exception that can leave the
  gate is that of a body which is no object.
\<close>

theorem entity_route_authorized:
  assumes "ge_registry (se_gate env) = Some reg" "entity_of_call rc = Some (t, e)"
    "\<not> may_access (se_gate env) reg req t e"
  shows "refused sv (serve env req rc sv)"
  by (rule entity_route_refused [OF assms])

text \<open>A server to run on: users may be created by anyone, credentials only by the server itself.\<close>

definition demo_registry :: acl_registry where
  "demo_registry =
     [''User'' \<mapsto> \<lparr>sc_acl = Some (empty_acl\<lparr>acl_create := [(''public'', True)], acl_read := [(''admin'', True)]\<rparr>),
                   sc_fields = [(''name'', False), (''role'', True)]\<rparr>,
      ''Credential'' \<mapsto> \<lparr>sc_acl = Some (empty_acl\<lparr>acl_create := [(''system'', True)]\<rparr>), sc_fields = []\<rparr>]"

definition demo_gate :: gate_env where
  "demo_gate = \<lparr>ge_admin = None, ge_secret = ''s'', ge_oidc = None, ge_registry = Some demo_registry,
     ge_auth = default_auth_config, ge_hmac = (\<lambda>k d. []), ge_parse = (\<lambda>s. None), ge_rs_verify = (\<lambda>t k i. None),
     ge_now = 0\<rparr>"

definition god_record :: json where
  "god_record = JObject [(''id'', JString ''1''), (''role'', JString ''god'')]"

definition demo_server_env :: "json option \<Rightarrow> shelf server_env" where
  "demo_server_env body =
     \<lparr>se_rest = demo_rest\<lparr>rv_parse := (\<lambda>s. Inr body)\<rparr>, se_gate = demo_gate, se_adapter = shelf_adapter no_schemas,
      se_engine = None, se_procs = Map.empty, se_ready = True, se_now = 0, se_later = 0\<rparr>"

definition demo_server :: "shelf server" where
  "demo_server = initial_server None None None ([], None)"

theorem entity_route_authorized_witness:
  "refused demo_server (serve (demo_server_env None) (demo_request Verb_Get) (Entity_Call ''acme'' ''core'' ''User'') demo_server)"
proof -
  have "request_claims demo_gate (demo_request Verb_Get) = None" by code_simp
  then have "\<not> may_access demo_gate demo_registry (demo_request Verb_Get) ''acme'' ''User''"
    by (simp add: may_access_def demo_request_def requiresAuthToRead_def acl_of_def demo_registry_def operationMap_def
        empty_acl_def entitled_def is_admin_request_def demo_gate_def)
  then show ?thesis
    by (intro entity_route_authorized [of "demo_server_env None" demo_registry "Entity_Call ''acme'' ''core'' ''User''"
          "''acme''" "''User''"]) (simp_all add: demo_server_env_def demo_gate_def)
qed

section \<open>What is not demanded\<close>

lemma limited_through:
  assumes "fst (window_allow (se_now env) (se_later env) key (sv_mutation sv))" "se_ready env"
  shows "\<exists>sv'. sv_world sv' = sv_world sv \<and> limited_mutation env no_client key f sv = f sv'"
  using assms
  by (cases "window_allow (se_now env) (se_later env) key (sv_mutation sv)")
    (auto simp: limited_mutation_def after_limiter_def intro!: exI [of _ "sv\<lparr>sv_mutation := l\<rparr>" for l])

lemma bulk_create_one:
  assumes "inject_tenant (ri_tenant route) (jsoncpp_to_nlohmann item) = Inr data"
    "ba_begin ad st = Inr (Inr b, st1)" "ba_create ad (ri_entity route) data st1 = Inr (Inr j, st2)"
    "ba_commit ad st2 = Inr (Inr c, st3)"
  shows "handle_bulk_create ad route (JArray [item]) st =
    Sent (bulk_answer ''inserted'' ''data'' [nlohmann_to_jsoncpp j]) (Some st3)"
  using assms by (simp add: handle_bulk_create_def bulk_guard_def transacted_def rest_simps)

text \<open>
  C7: the bulk routes pass by the gates.  For an entity that the rules keep to the system, so that no
  caller may create one through the API, not even with the operator's token, the entity route answers a
  create with \<^verbatim>\<open>403\<close> and changes nothing (or is over its limit); the bulk route creates the same record,
  for a caller with any headers or none, as soon as the database takes it.
\<close>

theorem bulk_bypasses_acl:
  assumes "ge_registry (se_gate env) = Some reg" "isSystemOnly reg e ''create''" "rr_verb req = Verb_Post"
    and "good_tenant t" "is_valid_name p" "is_valid_name e"
    and "fst (window_allow (se_now env) (se_later env) (rr_peer req) (sv_mutation sv))" "se_ready env"
    and "rv_parse (se_rest env) (rr_body req) = Inr (Some (JArray [item]))"
    and "inject_tenant t (jsoncpp_to_nlohmann item) = Inr data"
    and "ba_begin (se_adapter env) (sv_world sv) = Inr (Inr b, st1)"
    and "ba_create (se_adapter env) e data st1 = Inr (Inr j, st2)"
    and "ba_commit (se_adapter env) st2 = Inr (Inr c, st3)"
  shows "refused sv (serve env req (Entity_Call t p e) sv) \<and>
    (\<exists>sv'. serve env req (Bulk_Create_Call t p e) sv =
       Answer (bulk_answer ''inserted'' ''data'' [nlohmann_to_jsoncpp j]) sv' \<and> sv_world sv' = st3)"
proof
  show "refused sv (serve env req (Entity_Call t p e) sv)"
    using assms(1-3) by (intro entity_route_refused [where reg = reg and t = t and e = e]) (auto simp: may_access_def Let_def)
next
  let ?f = "\<lambda>sv. case bulk_body env req of Inl e \<Rightarrow> Escaped e
    | Inr body \<Rightarrow> answer_of sv (handle_bulk_create (se_adapter env) (parseRoute (entity_path t p e)) body (sv_world sv))"
  obtain sv' where sv': "sv_world sv' = sv_world sv" "limited_mutation env no_client (rr_peer req) ?f sv = ?f sv'"
    using limited_through [OF assms(7,8), where f = ?f] by blast
  have "handle_bulk_create (se_adapter env) (parseRoute (entity_path t p e)) (JArray [item]) (sv_world sv) =
      Sent (bulk_answer ''inserted'' ''data'' [nlohmann_to_jsoncpp j]) (Some st3)"
    using assms(10-13) by (intro bulk_create_one) (simp_all add: parse_entity_route [OF assms(4-6)])
  then have "?f sv' = Answer (bulk_answer ''inserted'' ''data'' [nlohmann_to_jsoncpp j]) (sv'\<lparr>sv_world := st3\<rparr>)"
    by (simp add: bulk_body_def assms(9) exn_bind_def answer_of_def sv'(1))
  then show "\<exists>sv'. serve env req (Bulk_Create_Call t p e) sv =
       Answer (bulk_answer ''inserted'' ''data'' [nlohmann_to_jsoncpp j]) sv' \<and> sv_world sv' = st3"
    using sv'(2) by (auto simp: route_bulk_create_def route_bulk_def)
qed

definition credential_record :: json where
  "credential_record = JObject [(''id'', JString ''1'')]"

theorem bulk_bypasses_acl_witness:
  "\<exists>sv' made. serve (demo_server_env (Some (JArray [credential_record]))) (demo_request Verb_Post)
       (Bulk_Create_Call ''acme'' ''core'' ''Credential'') demo_server =
     Answer (bulk_answer ''inserted'' ''data'' [made]) sv' \<and>
     sv_world sv' = ([(''1'', JObject [(''id'', JString ''1''), (''tenantId'', JString ''acme'')])], None)"
proof -
  let ?rec = "JObject [(''id'', JString ''1''), (''tenantId'', JString ''acme'')]"
  have names: "good_tenant ''acme''" "is_valid_name ''core''" "is_valid_name ''Credential''" by code_simp+
  have sys: "isSystemOnly demo_registry ''Credential'' ''create''" by code_simp
  have injected: "inject_tenant ''acme'' (jsoncpp_to_nlohmann credential_record) = Inr ?rec" by code_simp
  have "refused demo_server (serve (demo_server_env (Some (JArray [credential_record]))) (demo_request Verb_Post)
          (Entity_Call ''acme'' ''core'' ''Credential'') demo_server) \<and>
    (\<exists>sv'. serve (demo_server_env (Some (JArray [credential_record]))) (demo_request Verb_Post)
         (Bulk_Create_Call ''acme'' ''core'' ''Credential'') demo_server =
       Answer (bulk_answer ''inserted'' ''data'' [nlohmann_to_jsoncpp ?rec]) sv' \<and> sv_world sv' = ([(''1'', ?rec)], None))"
    by (rule bulk_bypasses_acl [where reg = demo_registry and data = ?rec and item = credential_record and
          ?st1.0 = "([], Some [])" and ?st2.0 = "([(''1'', ?rec)], Some [])" and b = True and c = True])
      (simp_all add: names sys injected demo_server_env_def demo_gate_def demo_request_def demo_server_def
        initial_server_def env_int_def new_limiter_def window_allow_def whole_seconds_def shelf_adapter_def Let_def)
  then show ?thesis by blast
qed

lemma public_create_unseen:
  assumes "ge_registry env = Some reg" "isPublicWrite reg e ''create''" "\<not> isSystemOnly reg e ''create''"
    "rr_verb req = Verb_Post" "rr_json req = None" "\<not> ea_require_auth (getEntityConfig (ge_auth env) t e)"
  shows "entity_gate env req t e = Inr (Inr None)"
  using assms
  by (simp add: entity_gate_def system_rejection_def write_authz_rejection_def read_authz_rejection_def is_write_method_def
      authenticate_def exn_bind_def Let_def)

lemma handle_create_ok:
  assumes "inject_tenant (ri_tenant route) (jsoncpp_to_nlohmann body) = Inr data"
    "ba_create ad (ri_entity route) data st = Inr (Inr j, st1)" "ri_valid route" "ri_action route = []" "ri_id route = []"
  shows "handleRestfulRequest ad route ''POST'' body query st = Sent (Success (nlohmann_to_jsoncpp j)) (Some st1)"
  by (simp add: handleRestfulRequest_def handle_create_def assms rest_simps)

text \<open>
  Signing up checks the privileged fields in a reading of the body that the caller controls.  An
  anonymous create of an entity that is public to create, whose body names a privileged field, is refused
  when the request declares its body to be JSON.  The same request without that declaration, for which
  the web framework hands over no JSON, passes the gate; the handler then parses the body itself, and the
  record is created with the privileged field as given.
\<close>

theorem signup_privilege_unchecked:
  assumes "ge_registry (se_gate env) = Some reg" "isPublicWrite reg e ''create''" "\<not> isSystemOnly reg e ''create''"
    and "rr_verb req = Verb_Post" "rr_json req = None"
    and "request_claims (se_gate env) req = None" "\<not> is_admin_request (se_gate env) req"
    and "\<not> ea_require_auth (getEntityConfig (ge_auth (se_gate env)) t e)"
    and "good_tenant t" "is_valid_name p" "is_valid_name e"
    and "rv_parse (se_rest env) (rr_body req) = Inr (Some (JObject kvs))"
    and "f \<in> set (privilegedFields reg e)" "map_of kvs f \<noteq> None"
    and "fst (window_allow (se_now env) (se_later env) (rate_limit_key req) (sv_mutation sv))" "se_ready env"
    and "se_engine env = None"
    and "validated (se_rest env) (se_adapter env) (parseRoute (entity_path t p e)) ''POST'' (JObject kvs) (sv_world sv) = Next () st"
    and "inject_tenant t (jsoncpp_to_nlohmann (JObject kvs)) = Inr data"
    and "ba_create (se_adapter env) e data st = Inr (Inr j, st1)"
  shows "refused sv (serve env (req\<lparr>rr_json := Some (JObject kvs)\<rparr>) (Entity_Call t p e) sv) \<and>
    (\<exists>sv'. serve env req (Entity_Call t p e) sv = Answer (Success (nlohmann_to_jsoncpp j)) sv' \<and> sv_world sv' = st1)"
proof
  let ?req = "req\<lparr>rr_json := Some (JObject kvs)\<rparr>"
  have same: "request_claims (se_gate env) ?req = None" "\<not> is_admin_request (se_gate env) ?req"
  proof -
    have "rr_header ?req name = rr_header req name" for name by (simp add: rr_header_def)
    then show "request_claims (se_gate env) ?req = None" "\<not> is_admin_request (se_gate env) ?req"
      using assms(6,7) by (simp_all add: request_claims_def is_admin_request_def cong: option.case_cong)
  qed
  have "names_privileged reg ?req e" using assms(13,14) by (auto simp: names_privileged_def)
  then have "\<not> may_access (se_gate env) reg ?req t e"
    using same by (simp add: may_access_def assms(4) is_write_method_def entitled_def Let_def)
  then show "refused sv (serve env ?req (Entity_Call t p e) sv)"
    using assms(1) by (intro entity_route_refused) simp_all
next
  let ?h = "handle_entity (se_rest env) (se_adapter env) (se_engine env) req t p e"
  have "handleRestfulRequest (se_adapter env) (parseRoute (entity_path t p e)) ''POST'' (JObject kvs) query st =
      Sent (Success (nlohmann_to_jsoncpp j)) (Some st1)" for query
    using assms(19,20) by (intro handle_create_ok) (simp_all add: parse_entity_route [OF assms(9-11)] empty_route_def)
  then have handled: "?h None (sv_world sv) = Sent (Success (nlohmann_to_jsoncpp j)) (Some st1)"
    by (simp add: handle_entity_def Let_def assms(4,12,17,18) parseRequestBody_def inject_owner_def exn_bind_def
        compute_def then_do_def guarded_handler_def)
  obtain sv' where sv': "sv_world sv' = sv_world sv"
      "limited_mutation env no_client (rate_limit_key req) (gated env req t e ?h) sv = gated env req t e ?h sv'"
    using limited_through [OF assms(15,16), where f = "gated env req t e ?h"] by blast
  have "gated env req t e ?h sv' = Answer (Success (nlohmann_to_jsoncpp j)) (sv'\<lparr>sv_world := st1\<rparr>)"
    using public_create_unseen [OF assms(1-5,8)] by (simp add: gated_def handled sv'(1) answer_of_def)
  then show "\<exists>sv'. serve env req (Entity_Call t p e) sv = Answer (Success (nlohmann_to_jsoncpp j)) sv' \<and> sv_world sv' = st1"
    using sv'(2) assms(4) by (auto simp: route_entity_def limited_by_verb_def)
qed

theorem signup_privilege_unchecked_witness:
  "\<exists>sv' made. serve (demo_server_env (Some god_record)) (demo_request Verb_Post) (Entity_Call ''acme'' ''core'' ''User'')
       demo_server = Answer (Success made) sv' \<and>
     sv_world sv' = ([(''1'', JObject [(''id'', JString ''1''), (''role'', JString ''god''), (''tenantId'', JString ''acme'')])], None)"
proof -
  let ?kvs = "[(''id'', JString ''1''), (''role'', JString ''god'')]"
  let ?rec = "JObject [(''id'', JString ''1''), (''role'', JString ''god''), (''tenantId'', JString ''acme'')]"
  have names: "good_tenant ''acme''" "is_valid_name ''core''" "is_valid_name ''User''" by code_simp+
  have rules: "isPublicWrite demo_registry ''User'' ''create''" "\<not> isSystemOnly demo_registry ''User'' ''create''"
      "''role'' \<in> set (privilegedFields demo_registry ''User'')" by code_simp+
  have injected: "inject_tenant ''acme'' (jobject ?kvs) = Inr ?rec" by code_simp
  have anonymous: "request_claims demo_gate (demo_request Verb_Post) = None" "\<not> is_admin_request demo_gate (demo_request Verb_Post)"
    by code_simp+
  have "refused demo_server (serve (demo_server_env (Some god_record)) ((demo_request Verb_Post)\<lparr>rr_json := Some (JObject ?kvs)\<rparr>)
          (Entity_Call ''acme'' ''core'' ''User'') demo_server) \<and>
    (\<exists>sv'. serve (demo_server_env (Some god_record)) (demo_request Verb_Post) (Entity_Call ''acme'' ''core'' ''User'') demo_server =
       Answer (Success (nlohmann_to_jsoncpp ?rec)) sv' \<and> sv_world sv' = ([(''1'', ?rec)], None))"
    by (rule signup_privilege_unchecked [where reg = demo_registry and f = "''role''" and data = ?rec and st = "([], None)"])
      (simp_all add: names rules injected anonymous demo_server_env_def god_record_def demo_server_def initial_server_def
        env_int_def new_limiter_def window_allow_def whole_seconds_def shelf_adapter_def validated_def call_def then_do_def
        no_schemas_def Let_def, simp_all add: demo_gate_def demo_request_def getEntityConfig_def default_auth_config_def no_entity_auth_def)
  then show ?thesis by blast
qed

section \<open>Rules that are not read\<close>

lemma no_flags: "\<forall>(k, v) \<in> set kvs. \<forall>b. v \<noteq> JBool b \<Longrightarrow> collect_booleans (JObject kvs) m = m"
proof (induction kvs arbitrary: m)
  case (Cons kv kvs)
  obtain k v where kv: "kv = (k, v)" by (cases kv)
  with Cons show ?case by (cases v) auto
qed simp

lemma role_entry_other: "op \<noteq> k \<Longrightarrow> map_of (role_entry node k m) op = map_of m op"
  by (auto simp: role_entry_def Let_def split: option.split)

lemma role_entry_array: "jget node k = Some (JArray alts) \<Longrightarrow> role_entry node k m = m"
  by (simp add: role_entry_def parseACLRoles_def Let_def)

lemma roles_of_array:
  assumes "jget node op = Some (JArray alts)"
  shows "map_of (acl_roles (parseACL node)) op = None"
proof -
  have "map_of (role_entry node k m) op = map_of m op" for k m
    using role_entry_other [of op k node m] role_entry_array [of node k alts m] assms by (cases "op = k") simp_all
  then show ?thesis by (simp add: parseACL_def)
qed

text \<open>
  Some role rules of the schemas are read but not enforced.  An entity whose schema grants
  reading by roles alone (\<^verbatim>\<open>"read": {"role": ["god"]}\<close>) is open to every request, anonymous ones
  included, since no flag of the rule is a boolean; and a rule that is written as a list of
  alternatives admits every role, whatever roles its alternatives name.
\<close>

theorem acl_roles_not_enforced:
  assumes "ge_registry env = Some reg" "reg e = Some sc" "sc_acl sc = Some (parseACL node)"
  shows "(\<forall>kvs. jget node ''read'' = Some (JObject kvs) \<and> (\<forall>(k, v) \<in> set kvs. \<forall>b. v \<noteq> JBool b) \<longrightarrow>
       read_authz_rejection env req t e = None) \<and>
    (\<forall>op alts role. jget node op = Some (JArray alts) \<longrightarrow> roleAllowed reg e op role)"
proof (intro conjI allI impI)
  fix kvs
  assume k: "jget node ''read'' = Some (JObject kvs) \<and> (\<forall>(k, v) \<in> set kvs. \<forall>b. v \<noteq> JBool b)"
  then have "acl_read (parseACL node) = []"
    by (simp add: parseACL_def operation_node_def no_flags del: collect_booleans.simps)
  then have "\<not> requiresAuthToRead reg e"
    by (simp add: requiresAuthToRead_def acl_of_def assms(2,3) operationMap_def)
  then show "read_authz_rejection env req t e = None" by (simp add: read_authz_rejection_def assms(1))
next
  fix op alts role
  assume "jget node op = Some (JArray alts)"
  from roles_of_array [OF this] show "roleAllowed reg e op role"
    by (simp add: roleAllowed_def requiredRoles_def acl_of_def assms(2,3) entry_of_def)
qed

definition role_only_rule :: json where
  "role_only_rule = JObject [(''read'', JObject [(''role'', JArray [JString ''god'', JString ''supergod''])])]"

theorem acl_roles_not_enforced_witness:
  "read_authz_rejection (demo_gate\<lparr>ge_registry := Some [''Package'' \<mapsto> \<lparr>sc_acl = Some (parseACL role_only_rule), sc_fields = []\<rparr>]\<rparr>)
     (demo_request Verb_Get) ''acme'' ''Package'' = None"
proof -
  let ?reg = "[''Package'' \<mapsto> \<lparr>sc_acl = Some (parseACL role_only_rule), sc_fields = []\<rparr>]"
  show ?thesis
    using acl_roles_not_enforced [of "demo_gate\<lparr>ge_registry := Some ?reg\<rparr>" ?reg "''Package''"
        "\<lparr>sc_acl = Some (parseACL role_only_rule), sc_fields = []\<rparr>" role_only_rule "demo_request Verb_Get" "''acme''"]
    by (simp add: role_only_rule_def)
qed

end
