(* ===== verification/Sql_Statements.thy ===== *)
theory Sql_Statements
  imports Rest_Handlers
begin

text \<open>
  The statements that the relational adapter sends and the values it binds
  (\<^verbatim>\<open>src/adapters/sql/sql_adapter_helpers.cpp\<close>), and the conversion of the rows that come back.  A
  loop that numbers placeholders while it collects columns threads the next index.
\<close>

section \<open>Schemas and dialects\<close>

datatype sql_dialect = Postgres | MySQL | Prisma

record sql_column =
  co_name :: string
  co_type :: string
  co_required :: bool
  co_nullable :: bool
  co_default :: "string option"
  co_sensitive :: bool

record sql_schema =
  tb_name :: string
  tb_columns :: "sql_column list"

type_synonym sql_row_map = "(string, string) omap"

section \<open>Errors\<close>

datatype sql_code = UniqueViolation | ForeignKeyViolation | NoSuchObject | TimedOut | ConnectionLost | UnknownCode

datatype sql_exn = Sql_error sql_code string | Other_exn exn

definition mapSqlError :: "sql_code \<Rightarrow> string \<Rightarrow> error" where
  "mapSqlError code message =
     (case code of
        UniqueViolation \<Rightarrow> conflict message
      | ForeignKeyViolation \<Rightarrow> validation_error message
      | NoSuchObject \<Rightarrow> not_found message
      | _ \<Rightarrow> internal_error message)"

section \<open>Text\<close>

definition sql_placeholder :: "sql_dialect \<Rightarrow> nat \<Rightarrow> string" where
  "sql_placeholder d index = (if d = Postgres \<or> d = Prisma then ''$'' @ nat_digits index else ''?'')"

definition quote_id :: "sql_dialect \<Rightarrow> string \<Rightarrow> string" where
  "quote_id d identifier =
     (if d = MySQL then ''`'' @ identifier @ ''`'' else [CHR 0x22] @ identifier @ [CHR 0x22])"

definition double_quotes :: "string \<Rightarrow> string" where
  "double_quotes v = concat (map (\<lambda>c. if c = CHR 0x27 then [CHR 0x27, CHR 0x27] else [c]) v)"

definition integer_types :: "string list" where
  "integer_types = [''number'', ''bigint'', ''integer'', ''int'']"

definition coalesceDefault :: "string \<Rightarrow> string \<Rightarrow> string" where
  "coalesceDefault t v =
     (if t = ''boolean'' then (if v = ''true'' \<or> v = ''1'' then ''true'' else ''false'')
      else if t \<in> set integer_types then (if v = [] then ''0'' else v)
      else [CHR 0x27] @ double_quotes v @ [CHR 0x27])"

definition column_text :: "sql_dialect \<Rightarrow> sql_column \<Rightarrow> string" where
  "column_text d f =
     (if co_nullable f \<and> \<not> co_required f \<and> co_default f \<noteq> None
      then ''COALESCE('' @ quote_id d (co_name f) @ '', '' @ coalesceDefault (co_type f) (the (co_default f))
             @ '') AS '' @ quote_id d (co_name f)
      else quote_id d (co_name f))"

definition buildFieldList :: "sql_dialect \<Rightarrow> sql_schema \<Rightarrow> string" where
  "buildFieldList d schema = join (map (column_text d) (tb_columns schema)) '', ''"

text \<open>The id that the caller supplies, a string that is not empty.\<close>

definition supplied_id :: "json \<Rightarrow> string option" where
  "supplied_id data = (case jget data ''id'' of Some (JString i) \<Rightarrow> if i = [] then None else Some i | _ \<Rightarrow> None)"

fun insert_parts :: "sql_dialect \<Rightarrow> json \<Rightarrow> sql_column list \<Rightarrow> nat \<Rightarrow> string list \<times> string list" where
  "insert_parts d data [] n = ([], [])"
| "insert_parts d data (f # fs) n =
     (if co_name f = ''createdAt'' then insert_parts d data fs n
      else if (if co_name f = ''id'' then supplied_id data \<noteq> None else jcontains data (co_name f))
      then case insert_parts d data fs (n + 1) of
        (cols, phs) \<Rightarrow> (quote_id d (co_name f) # cols, sql_placeholder d n # phs)
      else insert_parts d data fs n)"

definition buildInsertSql :: "sql_dialect \<Rightarrow> sql_schema \<Rightarrow> json \<Rightarrow> string" where
  "buildInsertSql d schema data =
     (case insert_parts d data (tb_columns schema) 1 of
        (cols, phs) \<Rightarrow>
          ''INSERT INTO '' @ quote_id d (tb_name schema) @ '' ('' @ join cols '', '' @ '') ''
          @ ''VALUES ('' @ join phs '', '' @ '') '' @ ''RETURNING '' @ buildFieldList d schema)"

text \<open>\<^verbatim>\<open>items()\<close> of a value: an array counts its elements, a scalar is one element with an empty name.\<close>

fun json_items :: "json \<Rightarrow> (string \<times> json) list" where
  "json_items (JObject m) = m"
| "json_items (JArray xs) = zip (map nat_digits [0..<length xs]) xs"
| "json_items JNull = []"
| "json_items j = [([], j)]"

fun equal_parts :: "(string \<Rightarrow> string) \<Rightarrow> sql_dialect \<Rightarrow> string list \<Rightarrow> nat \<Rightarrow> string list" where
  "equal_parts quoted d [] n = []"
| "equal_parts quoted d (k # ks) n = (quoted k @ '' = '' @ sql_placeholder d n) # equal_parts quoted d ks (n + 1)"

definition buildSelectSql :: "sql_dialect \<Rightarrow> sql_schema \<Rightarrow> json \<Rightarrow> string" where
  "buildSelectSql d schema flt =
     ''SELECT '' @ buildFieldList d schema @ '' FROM '' @ quote_id d (tb_name schema)
     @ (if jempty flt then []
        else '' WHERE '' @ join (equal_parts (quote_id d) d (map fst (json_items flt)) 1) '' AND '')"

definition mutable_columns :: "sql_schema \<Rightarrow> json \<Rightarrow> sql_column list" where
  "mutable_columns schema data =
     filter (\<lambda>f. co_name f \<noteq> ''id'' \<and> co_name f \<noteq> ''createdAt'' \<and> jcontains data (co_name f)) (tb_columns schema)"

definition buildUpdateSql :: "sql_dialect \<Rightarrow> sql_schema \<Rightarrow> json \<Rightarrow> string" where
  "buildUpdateSql d schema data =
     (let parts = equal_parts (quote_id d) d (map co_name (mutable_columns schema data)) 2 in
      if parts = [] then []
      else ''UPDATE '' @ quote_id d (tb_name schema) @ '' SET '' @ join parts '', ''
        @ '' WHERE '' @ quote_id d ''id'' @ '' = '' @ sql_placeholder d 1
        @ '' RETURNING '' @ buildFieldList d schema)"

definition buildDeleteSql :: "sql_dialect \<Rightarrow> sql_schema \<Rightarrow> string" where
  "buildDeleteSql d schema =
     ''DELETE FROM '' @ quote_id d (tb_name schema) @ '' WHERE '' @ quote_id d ''id'' @ '' = '' @ sql_placeholder d 1"

section \<open>Values\<close>

text \<open>
  \<^verbatim>\<open>get<int64_t>\<close>: an unsigned number above the signed range wraps; a double that does not fit is
  undefined behaviour.
\<close>

definition narrow_int64 :: "int \<Rightarrow> int" where
  "narrow_int64 n = (n + 2 ^ 63) mod 2 ^ 64 - 2 ^ 63"

definition in_int64 :: "int \<Rightarrow> bool" where
  "in_int64 i \<longleftrightarrow> - (2 ^ 63) \<le> i \<and> i < 2 ^ 63"

fun jsonValueToString :: "(json \<Rightarrow> exn + string) \<Rightarrow> json \<Rightarrow> exn + string" where
  "jsonValueToString dump JNull = Inr []"
| "jsonValueToString dump (JBool b) = Inr (if b then ''true'' else ''false'')"
| "jsonValueToString dump (JInt n) = Inr (int_digits (narrow_int64 n))"
| "jsonValueToString dump (JFloat q) =
     (if in_int64 (trunc_rat q) then Inr (int_digits (trunc_rat q)) else Inl Undefined)"
| "jsonValueToString dump (JString s) = Inr s"
| "jsonValueToString dump j = dump j"

definition bound_as :: "string \<Rightarrow> string \<Rightarrow> sql_param" where
  "bound_as name v = \<lparr>sp_name = name, sp_value = v\<rparr>"

definition more_params :: "exn + sql_param \<Rightarrow> exn + sql_param list \<Rightarrow> exn + sql_param list" where
  "more_params p ps = exn_bind p (\<lambda>p. exn_bind ps (\<lambda>ps. Inr (p # ps)))"

fun column_params :: "(json \<Rightarrow> exn + string) \<Rightarrow> json \<Rightarrow> string \<Rightarrow> sql_column list \<Rightarrow> exn + sql_param list" where
  "column_params dump data prepend [] = Inr []"
| "column_params dump data prepend (f # fs) =
     (if co_name f = ''createdAt'' then column_params dump data prepend fs
      else if co_name f = ''id'' then
        (case supplied_id data of
           Some i \<Rightarrow> if prepend = [] then more_params (Inr (bound_as ''id'' i)) (column_params dump data prepend fs)
                     else column_params dump data prepend fs
         | None \<Rightarrow> column_params dump data prepend fs)
      else case jget data (co_name f) of
        Some v \<Rightarrow> more_params (map_sum id (bound_as (co_name f)) (jsonValueToString dump v))
                    (column_params dump data prepend fs)
      | None \<Rightarrow> column_params dump data prepend fs)"

definition jsonToParams :: "(json \<Rightarrow> exn + string) \<Rightarrow> sql_schema \<Rightarrow> json \<Rightarrow> string \<Rightarrow> exn + sql_param list" where
  "jsonToParams dump schema data prepend =
     exn_bind (column_params dump data prepend (tb_columns schema))
       (\<lambda>ps. Inr (if prepend \<noteq> [] then bound_as ''id'' prepend # ps else ps))"

fun item_params :: "(json \<Rightarrow> exn + string) \<Rightarrow> (string \<times> json) list \<Rightarrow> exn + sql_param list" where
  "item_params dump [] = Inr []"
| "item_params dump ((k, v) # m) = more_params (map_sum id (bound_as k) (jsonValueToString dump v)) (item_params dump m)"

section \<open>Rows\<close>

definition columnValue :: "sql_row_map \<Rightarrow> string \<Rightarrow> string" where
  "columnValue row key = (case map_of row key of None \<Rightarrow> [] | Some v \<Rightarrow> v)"

definition stoll :: "string \<Rightarrow> exn + int" where
  "stoll s =
     (let t = dropWhile is_space s;
          u = (if t \<noteq> [] \<and> (hd t = CHR ''-'' \<or> hd t = CHR ''+'') then tl t else t);
          ds = takeWhile is_digit u;
          v = (if t \<noteq> [] \<and> hd t = CHR ''-'' then - int (digits_val ds) else int (digits_val ds))
      in if ds = [] then Inl (Std_exception ''stoll'')
         else if \<not> in_int64 v then Inl (Std_exception ''stoll'')
         else Inr v)"

text \<open>
  Text that is no JSON stays text.  \<open>parse\<close> is \<^verbatim>\<open>nlohmann::json::parse\<close>, where \<^const>\<open>None\<close> is a
  \<^verbatim>\<open>parse_error\<close>; other exceptions leave the function.
\<close>

definition decodeJsonColumn :: "(string \<Rightarrow> exn + json option) \<Rightarrow> string \<Rightarrow> exn + json" where
  "decodeJsonColumn parse v =
     map_sum id (\<lambda>r. case r of None \<Rightarrow> JString v | Some j \<Rightarrow> j) (parse v)"

definition true_texts :: "string list" where
  "true_texts = [''1'', ''t'', ''true'', ''T'', ''TRUE'']"

definition column_json :: "(string \<Rightarrow> exn + json option) \<Rightarrow> sql_column \<Rightarrow> string \<Rightarrow> exn + json" where
  "column_json parse f v =
     (if co_type f = ''boolean'' then Inr (JBool (v \<in> set true_texts))
      else if co_type f \<in> set integer_types then (if v \<noteq> [] then map_sum id JInt (stoll v) else Inr JNull)
      else if co_type f = ''json'' \<and> v \<noteq> [] then decodeJsonColumn parse v
      else if v = [] then
        (if co_nullable f \<and> co_default f \<noteq> None then Inr (JString (the (co_default f)))
         else if \<not> co_required f then Inr JNull
         else Inr (JString v))
      else Inr (JString v))"

fun columns_to_json ::
    "(string \<Rightarrow> exn + json option) \<Rightarrow> sql_row_map \<Rightarrow> bool \<Rightarrow> sql_column list \<Rightarrow> json \<Rightarrow> exn + json" where
  "columns_to_json parse row sensitive [] result = Inr result"
| "columns_to_json parse row sensitive (f # fs) result =
     (if co_sensitive f \<and> \<not> sensitive then columns_to_json parse row sensitive fs result
      else exn_bind (column_json parse f (columnValue row (co_name f)))
        (\<lambda>v. columns_to_json parse row sensitive fs (jset (co_name f) v result)))"

definition rowToJson ::
    "(string \<Rightarrow> exn + json option) \<Rightarrow> sql_schema \<Rightarrow> sql_row_map \<Rightarrow> bool \<Rightarrow> exn + json" where
  "rowToJson parse schema row sensitive = columns_to_json parse row sensitive (tb_columns schema) JNull"

fun rows_to_json :: "(string \<Rightarrow> exn + json option) \<Rightarrow> sql_schema \<Rightarrow> sql_row_map list \<Rightarrow> exn + json list" where
  "rows_to_json parse schema [] = Inr []"
| "rows_to_json parse schema (r # rs) =
     exn_bind (rowToJson parse schema r False) (\<lambda>j. exn_bind (rows_to_json parse schema rs) (\<lambda>js. Inr (j # js)))"

end
