(* ===== verification/Sql_Adapter.thy ===== *)
theory Sql_Adapter
  imports Sql_Statements
begin

text \<open>
  The relational adapter (\<^verbatim>\<open>src/adapters/sql/sql_adapter_crud.cpp\<close>, \<^verbatim>\<open>sql_adapter_bulk.cpp\<close>,
  \<^verbatim>\<open>sql_adapter_query.cpp\<close>, \<^verbatim>\<open>sql_transaction_manager.cpp\<close>, the pool of \<^verbatim>\<open>sql_connection.hpp\<close>), over
  the two functions that each database overrides, \<^verbatim>\<open>runQuery\<close> and \<^verbatim>\<open>runNonQuery\<close>, which run a
  statement on a database \<open>'s\<close>.  An operation is a state function whose result may be an exception,
  a \<^verbatim>\<open>SqlError\<close> or another one; the state is known in either case.  The times of last use that the pool
  keeps, which nothing reads, are left out.
\<close>

section \<open>Operations that may throw\<close>

record 's sql_driver =
  sd_query :: "string \<Rightarrow> sql_param list \<Rightarrow> 's \<Rightarrow> (sql_exn + sql_row_map list) \<times> 's"
  sd_exec :: "string \<Rightarrow> sql_param list \<Rightarrow> 's \<Rightarrow> (sql_exn + int) \<times> 's"

record tx_manager =
  tm_active :: bool
  tm_committed :: bool

text \<open>
  The connections of the pool, each connected or not, and the manager of the running transaction;
  \<^verbatim>\<open>tx_connection_\<close> and \<^verbatim>\<open>tx_manager_\<close> are set and reset together.
\<close>

record 's sql_state =
  sq_db :: 's
  sq_pool :: "bool list"
  sq_tx :: "tx_manager option"

record 's sql_env =
  sl_dialect :: sql_dialect
  sl_driver :: "'s sql_driver"
  sl_schemas :: "(string, sql_schema) omap"
  sl_dump :: "json \<Rightarrow> exn + string"
  sl_parse :: "string \<Rightarrow> exn + json option"

type_synonym ('s, 'x) sql_op = "'s sql_state \<Rightarrow> (sql_exn + 'x) \<times> 's sql_state"

definition sql_ret :: "'x \<Rightarrow> ('s, 'x) sql_op" where
  "sql_ret x st = (Inr x, st)"

definition sql_throw :: "sql_exn \<Rightarrow> ('s, 'x) sql_op" where
  "sql_throw e st = (Inl e, st)"

definition sql_bind :: "('s, 'x) sql_op \<Rightarrow> ('x \<Rightarrow> ('s, 'y) sql_op) \<Rightarrow> ('s, 'y) sql_op" where
  "sql_bind m f st = (case m st of (Inl e, st') \<Rightarrow> (Inl e, st') | (Inr x, st') \<Rightarrow> f x st')"

definition sql_lift :: "exn + 'x \<Rightarrow> ('s, 'x) sql_op" where
  "sql_lift r st = (map_sum Other_exn id r, st)"

text \<open>\<^verbatim>\<open>catch (const SqlError& err) { return mapSqlError(err); }\<close>\<close>

definition catch_sql :: "('s, 'x result) sql_op \<Rightarrow> ('s, 'x result) sql_op" where
  "catch_sql m st =
     (case m st of
        (Inl (Sql_error code message), st') \<Rightarrow> (Inr (Inl (mapSqlError code message)), st')
      | r \<Rightarrow> r)"

text \<open>\<^verbatim>\<open>catch (const std::invalid_argument& e)\<close> around a call of the builder of conditions\<close>

definition built :: "exn + 'x \<Rightarrow> ('x \<Rightarrow> ('s, 'y result) sql_op) \<Rightarrow> ('s, 'y result) sql_op" where
  "built r f st =
     (case r of
        Inl (Std_exception what) \<Rightarrow> (Inr (Inl (validation_error what)), st)
      | Inl e \<Rightarrow> (Inl (Other_exn e), st)
      | Inr x \<Rightarrow> f x st)"

definition executeQuery :: "'s sql_env \<Rightarrow> string \<Rightarrow> sql_param list \<Rightarrow> ('s, sql_row_map list) sql_op" where
  "executeQuery env sql params st =
     (case sd_query (sl_driver env) sql params (sq_db st) of (r, db) \<Rightarrow> (r, st\<lparr>sq_db := db\<rparr>))"

definition executeNonQuery :: "'s sql_env \<Rightarrow> string \<Rightarrow> sql_param list \<Rightarrow> ('s, int) sql_op" where
  "executeNonQuery env sql params st =
     (case sd_exec (sl_driver env) sql params (sq_db st) of (r, db) \<Rightarrow> (r, st\<lparr>sq_db := db\<rparr>))"

section \<open>Guards\<close>

text \<open>The first connection of the pool that connects, which every connection does.\<close>

fun acquire :: "bool list \<Rightarrow> nat option \<times> bool list" where
  "acquire [] = (None, [])"
| "acquire (c # pool) = (Some 0, True # pool)"

definition with_connection :: "string \<Rightarrow> ('s, 'x result) sql_op \<Rightarrow> ('s, 'x result) sql_op" where
  "with_connection message body st =
     (case acquire (sq_pool st) of
        (None, pool) \<Rightarrow> (Inr (Inl (internal_error message)), st\<lparr>sq_pool := pool\<rparr>)
      | (Some c, pool) \<Rightarrow> body (st\<lparr>sq_pool := pool\<rparr>))"

definition no_connection :: string where
  "no_connection = ''Unable to acquire SQL connection''"

text \<open>What every operation begins with: the schema of the entity and a connection.\<close>

definition on_entity :: "'s sql_env \<Rightarrow> string \<Rightarrow> (sql_schema \<Rightarrow> ('s, 'x result) sql_op) \<Rightarrow> ('s, 'x result) sql_op" where
  "on_entity env entity body =
     (case map_of (sl_schemas env) entity of
        None \<Rightarrow> sql_ret (Inl (validation_error (''Unknown entity: '' @ entity)))
      | Some schema \<Rightarrow> with_connection no_connection (body schema))"

definition entity_missing :: "string \<Rightarrow> error" where
  "entity_missing entity = not_found (entity @ '' not found'')"

definition first_row :: "'s sql_env \<Rightarrow> sql_schema \<Rightarrow> bool \<Rightarrow> error \<Rightarrow> sql_row_map list \<Rightarrow> ('s, json result) sql_op" where
  "first_row env schema sensitive none rows =
     (case rows of
        [] \<Rightarrow> sql_ret (Inl none)
      | row # _ \<Rightarrow> sql_lift (map_sum id Inr (rowToJson (sl_parse env) schema row sensitive)))"

section \<open>One record\<close>

definition sql_create :: "'s sql_env \<Rightarrow> string \<Rightarrow> json \<Rightarrow> ('s, json result) sql_op" where
  "sql_create env entity data = on_entity env entity (\<lambda>schema.
     sql_bind (sql_lift (jsonToParams (sl_dump env) schema data [])) (\<lambda>params.
     catch_sql (
       sql_bind (executeQuery env (buildInsertSql (sl_dialect env) schema data) params) (\<lambda>rows.
       first_row env schema False (internal_error ''SQL insert returned no rows'') rows))))"

definition sql_read_with :: "bool \<Rightarrow> 's sql_env \<Rightarrow> string \<Rightarrow> string \<Rightarrow> ('s, json result) sql_op" where
  "sql_read_with sensitive env entity i = on_entity env entity (\<lambda>schema.
     catch_sql (
       sql_bind (executeQuery env (buildSelectSql (sl_dialect env) schema (jobject [(''id'', JString i)]))
                  [bound_as ''id'' i]) (\<lambda>rows.
       first_row env schema sensitive (entity_missing entity) rows)))"

definition sql_read :: "'s sql_env \<Rightarrow> string \<Rightarrow> string \<Rightarrow> ('s, json result) sql_op" where
  "sql_read = sql_read_with False"

definition sql_read_sensitive :: "'s sql_env \<Rightarrow> string \<Rightarrow> string \<Rightarrow> ('s, json result) sql_op" where
  "sql_read_sensitive = sql_read_with True"

definition sql_update :: "'s sql_env \<Rightarrow> string \<Rightarrow> string \<Rightarrow> json \<Rightarrow> ('s, json result) sql_op" where
  "sql_update env entity i data = on_entity env entity (\<lambda>schema.
     sql_bind (sql_lift (jsonToParams (sl_dump env) schema data i)) (\<lambda>params.
     catch_sql (
       sql_bind (executeQuery env (buildUpdateSql (sl_dialect env) schema data) params) (\<lambda>rows.
       first_row env schema False (entity_missing entity) rows))))"

definition sql_remove :: "'s sql_env \<Rightarrow> string \<Rightarrow> string \<Rightarrow> ('s, bool result) sql_op" where
  "sql_remove env entity i = on_entity env entity (\<lambda>schema.
     catch_sql (
       sql_bind (executeNonQuery env (buildDeleteSql (sl_dialect env) schema) [bound_as ''id'' i]) (\<lambda>affected.
       sql_ret (if affected = 0 then Inl (entity_missing entity) else Inr True))))"

section \<open>Lists\<close>

definition dialect_str :: "sql_dialect \<Rightarrow> string" where
  "dialect_str d = (if d = Postgres \<or> d = Prisma then ''postgresql'' else ''mysql'')"

definition valid_fields :: "sql_schema \<Rightarrow> string set" where
  "valid_fields schema = set (map co_name (tb_columns schema))"

definition order_field :: "sql_schema \<Rightarrow> string" where
  "order_field schema =
     (if \<exists>f \<in> set (tb_columns schema). co_name f = ''createdAt'' then ''createdAt''
      else if tb_columns schema = [] then ''id'' else co_name (hd (tb_columns schema)))"

definition and_clause :: "string \<Rightarrow> string" where
  "and_clause clause = (if clause = [] then [] else '' '' @ clause)"

definition aggregate_sql :: "sql_dialect \<Rightarrow> sql_schema \<Rightarrow> string \<Rightarrow> string \<Rightarrow> string \<Rightarrow> string" where
  "aggregate_sql d schema selected clause grouped =
     ''SELECT '' @ selected @ '' FROM '' @ quote_id d (tb_name schema) @ and_clause clause @ and_clause grouped"

definition raw_row :: "sql_row_map \<Rightarrow> json" where
  "raw_row row = (if row = [] then JNull else JObject (map (\<lambda>(c, v). (c, JString v)) row))"

definition sql_aggregate ::
    "'s sql_env \<Rightarrow> sql_schema \<Rightarrow> rich_options \<Rightarrow> int \<Rightarrow> int \<Rightarrow> ('s, list_result result) sql_op" where
  "sql_aggregate env schema opts page limit =
     (let valid = valid_fields schema; ds = dialect_str (sl_dialect env) in
      case find (\<lambda>gb. gb \<notin> valid) (ro_group_by opts) of
        Some gb \<Rightarrow> sql_ret (Inl (validation_error (''Unknown group_by field: '' @ gb)))
      | None \<Rightarrow>
          (case find (\<lambda>a. ag_field a \<noteq> ''*'' \<and> ag_field a \<notin> valid) (ro_aggregates opts) of
             Some a \<Rightarrow> sql_ret (Inl (validation_error (''Unknown aggregate field: '' @ ag_field a)))
           | None \<Rightarrow>
               catch_sql (
               built (build (ro_conditions opts) (ro_groups opts) (lo_filter opts) valid ds ([], 1)) (\<lambda>(clause, params, n).
               built (buildAggregateSelect (ro_aggregates opts) (ro_group_by opts) valid ds) (\<lambda>selected.
               built (buildGroupBy (ro_group_by opts) valid ds) (\<lambda>grouped.
               sql_bind (executeQuery env (aggregate_sql (sl_dialect env) schema selected clause grouped) params) (\<lambda>rows.
               sql_ret (Inr \<lparr>lr_items = map raw_row rows, lr_total = size_to_int (length rows),
                             lr_page = page, lr_limit = limit\<rparr>))))))))"

definition count_of :: "sql_row_map list \<Rightarrow> int" where
  "count_of rows =
     (case rows of
        [] \<Rightarrow> 0
      | row # _ \<Rightarrow> (case map_of row ''cnt'' of
            None \<Rightarrow> 0
          | Some v \<Rightarrow> (case stoi v of Inl e \<Rightarrow> 0 | Inr n \<Rightarrow> n)))"

definition list_sql :: "sql_dialect \<Rightarrow> sql_schema \<Rightarrow> bool \<Rightarrow> string \<Rightarrow> string \<Rightarrow> int \<Rightarrow> int \<Rightarrow> string" where
  "list_sql d schema dis clause orderBy limit offset =
     ''SELECT '' @ (if dis then ''DISTINCT '' else []) @ buildFieldList d schema
     @ '' FROM '' @ quote_id d (tb_name schema) @ and_clause clause @ '' '' @ orderBy
     @ '' LIMIT '' @ int_digits limit @ '' OFFSET '' @ int_digits offset"

definition count_sql :: "sql_dialect \<Rightarrow> sql_schema \<Rightarrow> string \<Rightarrow> string" where
  "count_sql d schema clause =
     ''SELECT COUNT(*) AS cnt FROM '' @ quote_id d (tb_name schema) @ and_clause clause"

definition sql_page ::
    "'s sql_env \<Rightarrow> sql_schema \<Rightarrow> rich_options \<Rightarrow> int \<Rightarrow> int \<Rightarrow> int \<Rightarrow> ('s, list_result result) sql_op" where
  "sql_page env schema opts page limit offset =
     (let valid = valid_fields schema; d = sl_dialect env; ds = dialect_str d in
      catch_sql (
      built (build (ro_conditions opts) (ro_groups opts) (lo_filter opts) valid ds ([], 1)) (\<lambda>(clause, params, n).
      built (buildOrderBy (lo_sort opts) valid (order_field schema) ds) (\<lambda>orderBy.
      sql_bind (executeQuery env (count_sql d schema clause) params) (\<lambda>counted.
      sql_bind (executeQuery env (list_sql d schema (ro_distinct opts) clause orderBy limit offset) params) (\<lambda>rows.
      sql_bind (sql_lift (rows_to_json (sl_parse env) schema rows)) (\<lambda>items.
      sql_ret (Inr \<lparr>lr_items = items, lr_total = count_of counted, lr_page = page, lr_limit = limit\<rparr>))))))))"

text \<open>\<^verbatim>\<open>(page - 1) * limit\<close> may overflow.\<close>

definition sql_list :: "'s sql_env \<Rightarrow> string \<Rightarrow> rich_options \<Rightarrow> ('s, list_result result) sql_op" where
  "sql_list env entity opts = on_entity env entity (\<lambda>schema.
     let limit = (if lo_limit opts > 0 then lo_limit opts else 50);
         page = (if lo_page opts > 0 then lo_page opts else 1) in
     case checked ((page - 1) * limit) of
       None \<Rightarrow> sql_throw (Other_exn Undefined)
     | Some offset \<Rightarrow>
         if ro_aggregates opts \<noteq> [] then sql_aggregate env schema opts page limit
         else sql_page env schema opts page limit offset)"

section \<open>Transactions\<close>

text \<open>The manager only notes that a transaction runs; it has no statement to send.\<close>

definition tm_begin :: "tx_manager \<Rightarrow> string + tx_manager" where
  "tm_begin m = (if tm_active m then Inl ''Transaction already active'' else Inr (m\<lparr>tm_active := True\<rparr>))"

definition tm_commit :: "tx_manager \<Rightarrow> string + tx_manager" where
  "tm_commit m =
     (if \<not> tm_active m then Inl ''No active transaction to commit''
      else Inr (m\<lparr>tm_committed := True, tm_active := False\<rparr>))"

definition tm_rollback :: "tx_manager \<Rightarrow> string + tx_manager" where
  "tm_rollback m =
     (if \<not> tm_active m then Inl ''No active transaction to rollback'' else Inr (m\<lparr>tm_active := False\<rparr>))"

definition begin_with :: "tx_manager \<Rightarrow> ('s, bool result) sql_op" where
  "begin_with m st =
     (case tm_begin m of
        Inl what \<Rightarrow> (Inl (Other_exn (Std_exception what)), st\<lparr>sq_tx := Some m\<rparr>)
      | Inr m' \<Rightarrow> (Inr (Inr True), st\<lparr>sq_tx := Some m'\<rparr>))"

definition sql_begin :: "('s, bool result) sql_op" where
  "sql_begin st =
     (case sq_tx st of
        Some m \<Rightarrow> begin_with m st
      | None \<Rightarrow> with_connection ''Unable to acquire SQL connection for transaction''
          (begin_with \<lparr>tm_active = False, tm_committed = False\<rparr>) st)"

definition end_with :: "(tx_manager \<Rightarrow> string + tx_manager) \<Rightarrow> ('s, bool result) sql_op" where
  "end_with f st =
     (case sq_tx st of
        None \<Rightarrow> (Inr (Inl (internal_error ''No transaction in progress'')), st)
      | Some m \<Rightarrow>
          if \<not> tm_active m then (Inr (Inl (internal_error ''No transaction in progress'')), st)
          else (case f m of
             Inl what \<Rightarrow> (Inl (Other_exn (Std_exception what)), st)
           | Inr m' \<Rightarrow> (Inr (Inr True), st\<lparr>sq_tx := None\<rparr>)))"

definition sql_commit :: "('s, bool result) sql_op" where
  "sql_commit = end_with tm_commit"

definition sql_rollback :: "('s, bool result) sql_op" where
  "sql_rollback = end_with tm_rollback"

section \<open>Bulk operations\<close>

fun create_each :: "'s sql_env \<Rightarrow> sql_schema \<Rightarrow> json list \<Rightarrow> int \<Rightarrow> ('s, int result) sql_op" where
  "create_each env schema [] inserted st = (Inr (Inr inserted), st)"
| "create_each env schema (record # records) inserted st =
     (case jsonToParams (sl_dump env) schema record [] of
        Inl e \<Rightarrow> (Inl (Other_exn e), st)
      | Inr params \<Rightarrow>
          (case executeNonQuery env (buildInsertSql (sl_dialect env) schema record) params st of
             (Inr n, st') \<Rightarrow> create_each env schema records (inserted + 1) st'
           | (Inl (Sql_error code message), st') \<Rightarrow>
               sql_bind sql_rollback (\<lambda>_. sql_ret (Inl (mapSqlError code message))) st'
           | (Inl e, st') \<Rightarrow> (Inl e, st')))"

definition sql_create_many :: "'s sql_env \<Rightarrow> string \<Rightarrow> json list \<Rightarrow> ('s, int result) sql_op" where
  "sql_create_many env entity records =
     (if records = [] then sql_ret (Inr 0)
      else on_entity env entity (\<lambda>schema.
        sql_bind sql_begin (\<lambda>begun. case begun of
          Inl e \<Rightarrow> sql_ret (Inl (internal_error (''Failed to begin transaction: '' @ err_what e)))
        | Inr _ \<Rightarrow>
            sql_bind (create_each env schema records 0) (\<lambda>made. case made of
              Inl e \<Rightarrow> sql_ret (Inl e)
            | Inr inserted \<Rightarrow>
                sql_bind sql_commit (\<lambda>done. case done of
                  Inl e \<Rightarrow> sql_ret (Inl (internal_error (''Failed to commit transaction: '' @ err_what e)))
                | Inr _ \<Rightarrow> sql_ret (Inr inserted))))))"

text \<open>The columns of the schema that the data names, with their values.\<close>

definition given_columns :: "sql_schema \<Rightarrow> json \<Rightarrow> (string \<times> json) list" where
  "given_columns schema data =
     concat (map (\<lambda>f. case jget data (co_name f) of None \<Rightarrow> [] | Some v \<Rightarrow> [(co_name f, v)]) (tb_columns schema))"

definition unknown_key :: "sql_schema \<Rightarrow> json \<Rightarrow> string option" where
  "unknown_key schema flt = find (\<lambda>k. k \<notin> valid_fields schema) (map fst (json_items flt))"

definition where_parts :: "string list \<Rightarrow> string" where
  "where_parts parts = (if parts = [] then [] else '' WHERE '' @ join parts '' AND '')"

text \<open>
  The conditions before the first unknown key have been converted, and may have thrown, when the key is
  found.
\<close>

definition checked_params :: "'s sql_env \<Rightarrow> sql_schema \<Rightarrow> json \<Rightarrow> exn + sql_param list" where
  "checked_params env schema flt =
     item_params (sl_dump env) (takeWhile (\<lambda>(k, v). k \<in> valid_fields schema) (json_items flt))"

definition sql_update_many :: "'s sql_env \<Rightarrow> string \<Rightarrow> json \<Rightarrow> json \<Rightarrow> ('s, int result) sql_op" where
  "sql_update_many env entity flt data = on_entity env entity (\<lambda>schema.
     let d = sl_dialect env; given = given_columns schema data; n = length given in
     sql_bind (sql_lift (item_params (sl_dump env) given)) (\<lambda>params.
       if given = [] then sql_ret (Inl (validation_error ''No update fields supplied''))
       else sql_bind (sql_lift (checked_params env schema flt)) (\<lambda>more.
         case unknown_key schema flt of
           Some k \<Rightarrow> sql_ret (Inl (validation_error (''Unknown filter field: '' @ k)))
         | None \<Rightarrow>
             catch_sql (
               sql_bind (executeNonQuery env
                   (''UPDATE '' @ quote_id d (tb_name schema) @ '' SET ''
                     @ join (equal_parts (quote_id d) d (map fst given) 1) '', ''
                     @ where_parts (equal_parts (quote_id d) d (map fst (json_items flt)) (n + 1)))
                   (params @ more)) (\<lambda>affected.
               sql_ret (Inr affected))))))"

text \<open>The keys of the filter of \<^verbatim>\<open>deleteMany\<close> are neither looked up nor quoted.\<close>

definition sql_delete_many :: "'s sql_env \<Rightarrow> string \<Rightarrow> json \<Rightarrow> ('s, int result) sql_op" where
  "sql_delete_many env entity flt = on_entity env entity (\<lambda>schema.
     sql_bind (sql_lift (item_params (sl_dump env) (json_items flt))) (\<lambda>params.
     catch_sql (
       sql_bind (executeNonQuery env
           (''DELETE FROM '' @ quote_id (sl_dialect env) (tb_name schema)
             @ where_parts (equal_parts (\<lambda>k. k) (sl_dialect env) (map fst (json_items flt)) 1))
           params) (\<lambda>affected.
       sql_ret (Inr affected)))))"

section \<open>Queries\<close>

definition sql_find_first :: "'s sql_env \<Rightarrow> string \<Rightarrow> json \<Rightarrow> ('s, json result) sql_op" where
  "sql_find_first env entity flt = on_entity env entity (\<lambda>schema.
     let d = sl_dialect env in
     sql_bind (sql_lift (checked_params env schema flt)) (\<lambda>params.
       case unknown_key schema flt of
         Some k \<Rightarrow> sql_ret (Inl (validation_error (''Unknown field in filter: '' @ k)))
       | None \<Rightarrow>
           catch_sql (
             sql_bind (executeQuery env
                 (''SELECT '' @ buildFieldList d schema @ '' FROM '' @ quote_id d (tb_name schema)
                   @ where_parts (equal_parts (quote_id d) d (map fst (json_items flt)) 1) @ '' LIMIT 1'')
                 params) (\<lambda>rows.
             first_row env schema False (entity_missing entity) rows))))"

definition sql_find_by_field :: "'s sql_env \<Rightarrow> string \<Rightarrow> string \<Rightarrow> json \<Rightarrow> ('s, json result) sql_op" where
  "sql_find_by_field env entity field v = sql_find_first env entity (JObject [(field, v)])"

text \<open>\<^verbatim>\<open>std::string id = existing.at("id")\<close>\<close>

definition existing_id :: "json \<Rightarrow> exn + string" where
  "existing_id existing =
     (if \<not> is_object existing then Inl (type_error ''cannot use at() with this type'')
      else case jget existing ''id'' of
        None \<Rightarrow> Inl (Std_exception ''out_of_range: key not found'')
      | Some v \<Rightarrow> get_string v)"

text \<open>An update or a create, as the subclass has them, follows the search.\<close>

definition upsert_with ::
    "(string \<Rightarrow> string \<Rightarrow> json \<Rightarrow> ('s, json result) sql_op) \<Rightarrow> (string \<Rightarrow> json \<Rightarrow> ('s, json result) sql_op) \<Rightarrow>
     's sql_env \<Rightarrow> string \<Rightarrow> string \<Rightarrow> json \<Rightarrow> json \<Rightarrow> json \<Rightarrow> ('s, json result) sql_op" where
  "upsert_with update create env entity field v created updated =
     sql_bind (sql_find_by_field env entity field v) (\<lambda>found. case found of
       Inr existing \<Rightarrow> sql_bind (sql_lift (existing_id existing)) (\<lambda>i. update entity i updated)
     | Inl e \<Rightarrow> create entity created)"

definition sql_entities :: "'s sql_env \<Rightarrow> ('s, string list result) sql_op" where
  "sql_entities env = sql_ret (Inr (map fst (sl_schemas env)))"

definition sql_schema_of :: "'s sql_env \<Rightarrow> string \<Rightarrow> ('s, sql_schema result) sql_op" where
  "sql_schema_of env entity =
     sql_ret (case map_of (sl_schemas env) entity of
        None \<Rightarrow> Inl (validation_error (''Unknown entity: '' @ entity))
      | Some schema \<Rightarrow> Inr schema)"

section \<open>The interface\<close>

definition no_search :: error where
  "no_search = internal_error (''Full-text search is not configured. Set DBAL_SEARCH_URL to an ''
     @ ''Elasticsearch endpoint to enable it.'')"

text \<open>The interface forgets the state of an operation that throws; no \<^verbatim>\<open>SqlError\<close> reaches it.\<close>

definition as_adapter_op :: "('s, 'x result) sql_op \<Rightarrow> 's sql_state \<Rightarrow> exn + 'x result \<times> 's sql_state" where
  "as_adapter_op m st =
     (case m st of
        (Inl (Other_exn e), st') \<Rightarrow> Inl e
      | (Inl (Sql_error code message), st') \<Rightarrow> Inl Undefined
      | (Inr r, st') \<Rightarrow> Inr (r, st'))"

definition sql_adapter :: "'s sql_env \<Rightarrow> ('s sql_state, sql_schema) rest_adapter" where
  "sql_adapter env = \<lparr>
     ba_create = (\<lambda>e data. as_adapter_op (sql_create env e data)),
     ba_read = (\<lambda>e i. as_adapter_op (sql_read env e i)),
     ba_read_sensitive = (\<lambda>e i. as_adapter_op (sql_read_sensitive env e i)),
     ba_search = (\<lambda>e query n. as_adapter_op (sql_ret (Inl no_search))),
     ba_update = (\<lambda>e i data. as_adapter_op (sql_update env e i data)),
     ba_remove = (\<lambda>e i. as_adapter_op (sql_remove env e i)),
     ba_list = (\<lambda>e opts. as_adapter_op (sql_list env e opts)),
     ba_create_many = (\<lambda>e records. as_adapter_op (sql_create_many env e records)),
     ba_update_many = (\<lambda>e flt data. as_adapter_op (sql_update_many env e flt data)),
     ba_delete_many = (\<lambda>e flt. as_adapter_op (sql_delete_many env e flt)),
     ba_find_first = (\<lambda>e flt. as_adapter_op (sql_find_first env e flt)),
     ba_find_by_field = (\<lambda>e f v. as_adapter_op (sql_find_by_field env e f v)),
     ba_upsert = (\<lambda>e f v c u. as_adapter_op (upsert_with (sql_update env) (sql_create env) env e f v c u)),
     ba_entities = as_adapter_op (sql_entities env),
     ba_schema = (\<lambda>e. as_adapter_op (sql_schema_of env e)),
     ba_close = (\<lambda>st. Inr ((), st)),
     ba_native = (\<lambda>st. True),
     ba_begin = as_adapter_op sql_begin,
     ba_commit = as_adapter_op sql_commit,
     ba_rollback = as_adapter_op sql_rollback\<rparr>"

end
