(* ===== verification/Sql_Drivers.thy ===== *)
theory Sql_Drivers
  imports Sql_Adapter Rest_Queries
begin

text \<open>
  How each database runs a statement (\<^verbatim>\<open>src/adapters/sql/postgres_adapter.cpp\<close>,
  \<^verbatim>\<open>mysql_adapter.cpp\<close>, \<^verbatim>\<open>prisma_adapter.cpp\<close>, the error mappers and \<^verbatim>\<open>postgres_connection.cpp\<close>),
  and the operations that MySQL has of its own, since it knows no \<^verbatim>\<open>RETURNING\<close>.  The client
  libraries are parameters: records of the calls the adapters make.
\<close>

section \<open>PostgreSQL\<close>

text \<open>What \<^verbatim>\<open>PQexecParams\<close> returns: a status, the names and cells of its rows, the text of the count.\<close>

record pg_result =
  pr_ok :: bool
  pr_names :: "string list"
  pr_rows :: "string option list list"
  pr_affected :: string
  pr_sqlstate :: "string option"
  pr_message :: string

record 'p libpq =
  pq_alive :: "'p \<Rightarrow> bool"
  pq_connect :: "'p \<Rightarrow> bool \<times> 'p"
  pq_exec :: "string \<Rightarrow> string option list \<Rightarrow> 'p \<Rightarrow> pg_result \<times> 'p"

definition mapPgSqlState :: "string option \<Rightarrow> sql_code" where
  "mapPgSqlState state =
     (case state of
        None \<Rightarrow> UnknownCode
      | Some s \<Rightarrow>
          if s = ''23505'' then UniqueViolation
          else if s = ''23503'' then ForeignKeyViolation
          else if s = ''42P01'' then NoSuchObject
          else if s = ''57014'' then TimedOut
          else if prefix ''08'' s then ConnectionLost
          else UnknownCode)"

text \<open>What a C string holds of a \<^verbatim>\<open>std::string\<close>.\<close>

definition c_str :: "string \<Rightarrow> string" where
  "c_str s = takeWhile (\<lambda>c. c \<noteq> CHR 0x00) s"

text \<open>An empty value is sent as null.\<close>

definition pg_value :: "sql_param \<Rightarrow> string option" where
  "pg_value p = (if sp_value p = [] then None else Some (c_str (sp_value p)))"

definition ensure_connected ::
    "('p \<Rightarrow> bool) \<Rightarrow> ('p \<Rightarrow> bool \<times> 'p) \<Rightarrow> string \<Rightarrow> 'p \<Rightarrow> (sql_exn + unit) \<times> 'p" where
  "ensure_connected alive connect name p =
     (if alive p then (Inr (), p)
      else case connect p of
        (True, p') \<Rightarrow> (Inr (), p')
      | (False, p') \<Rightarrow> (Inl (Other_exn (Std_exception (name @ '': unable to connect''))), p'))"

definition execParams :: "'p libpq \<Rightarrow> string \<Rightarrow> sql_param list \<Rightarrow> 'p \<Rightarrow> (sql_exn + pg_result) \<times> 'p" where
  "execParams lib sql params p =
     (case ensure_connected (pq_alive lib) (pq_connect lib) ''PostgresAdapter'' p of
        (Inl e, p') \<Rightarrow> (Inl e, p')
      | (Inr _, p') \<Rightarrow>
          (case pq_exec lib (c_str sql) (map pg_value params) p' of
             (res, p'') \<Rightarrow>
               (if pr_ok res then (Inr res, p'')
                else (Inl (Sql_error (mapPgSqlState (pr_sqlstate res)) (pr_message res)), p''))))"

text \<open>A row as the map from the names of its columns, a null as the empty text.\<close>

definition row_map :: "string list \<Rightarrow> string option list \<Rightarrow> sql_row_map" where
  "row_map names cells =
     fold (\<lambda>(n, c). om_put n (case c of None \<Rightarrow> [] | Some v \<Rightarrow> v)) (zip names cells) []"

text \<open>\<^verbatim>\<open>std::atoi\<close>, which leaves a number that does not fit undefined.\<close>

definition atoi :: "string \<Rightarrow> sql_exn + int" where
  "atoi s =
     (case stoi s of
        Inr n \<Rightarrow> Inr n
      | Inl e \<Rightarrow> if e = Std_exception ''stoi: out_of_range'' then Inl (Other_exn Undefined) else Inr 0)"

definition postgres_driver :: "'p libpq \<Rightarrow> 'p sql_driver" where
  "postgres_driver lib = \<lparr>
     sd_query = (\<lambda>sql params p. case execParams lib sql params p of
         (Inl e, p') \<Rightarrow> (Inl e, p')
       | (Inr res, p') \<Rightarrow> (Inr (map (row_map (pr_names res)) (pr_rows res)), p')),
     sd_exec = (\<lambda>sql params p. case execParams lib sql params p of
         (Inl e, p') \<Rightarrow> (Inl e, p')
       | (Inr res, p') \<Rightarrow> (atoi (pr_affected res), p'))\<rparr>"

text \<open>The connection string.\<close>

record sql_connection_config =
  cc_host :: string
  cc_port :: int
  cc_database :: string
  cc_user :: string
  cc_password :: string
  cc_options :: string

definition conn_quote :: "string \<Rightarrow> string" where
  "conn_quote v =
     [CHR 0x27] @ concat (map (\<lambda>c. if c = CHR 0x27 \<or> c = CHR 0x5C then [CHR 0x5C, c] else [c]) v) @ [CHR 0x27]"

definition buildConnInfo :: "sql_connection_config \<Rightarrow> string" where
  "buildConnInfo cfg =
     (if cc_host cfg \<noteq> [] then ''host='' @ conn_quote (cc_host cfg) else [])
     @ (if cc_port cfg > 0 then '' port='' @ int_digits (cc_port cfg) else [])
     @ (if cc_database cfg \<noteq> [] then '' dbname='' @ conn_quote (cc_database cfg) else [])
     @ (if cc_user cfg \<noteq> [] then '' user='' @ conn_quote (cc_user cfg) else [])
     @ (if cc_password cfg \<noteq> [] then '' password='' @ conn_quote (cc_password cfg) else [])
     @ (if cc_options cfg \<noteq> [] then '' '' @ cc_options cfg else [])"

section \<open>MySQL\<close>

text \<open>
  A query fails, or gives a result set or none; fetching the set may fail too.  The numbers of the
  errors are zero where there is none.
\<close>

record my_result =
  mr_query_error :: nat
  mr_store_error :: nat
  mr_message :: string
  mr_set :: "(string list \<times> string option list list) option"
  mr_affected :: int

record 'm libmysql =
  my_alive :: "'m \<Rightarrow> bool"
  my_connect :: "'m \<Rightarrow> bool \<times> 'm"
  my_escape :: "string \<Rightarrow> string"
  my_query :: "string \<Rightarrow> 'm \<Rightarrow> my_result \<times> 'm"

definition mapMySqlError :: "nat \<Rightarrow> sql_code" where
  "mapMySqlError errNo =
     (if errNo = 1062 \<or> errNo = 1586 then UniqueViolation
      else if errNo = 1451 \<or> errNo = 1452 then ForeignKeyViolation
      else if errNo = 1146 then NoSuchObject
      else if errNo = 1205 then TimedOut
      else if errNo = 2006 \<or> errNo = 2013 then ConnectionLost
      else UnknownCode)"

definition my_ensure :: "'m libmysql \<Rightarrow> 'm \<Rightarrow> (sql_exn + unit) \<times> 'm" where
  "my_ensure lib m = ensure_connected (my_alive lib) (my_connect lib) ''MySQLAdapter'' m"

definition escapeString :: "'m libmysql \<Rightarrow> string \<Rightarrow> 'm \<Rightarrow> (sql_exn + string) \<times> 'm" where
  "escapeString lib s m =
     (case my_ensure lib m of (Inl e, m') \<Rightarrow> (Inl e, m') | (Inr _, m') \<Rightarrow> (Inr (my_escape lib s), m'))"

text \<open>The text that stands for a value: \<^verbatim>\<open>NULL\<close> for an empty one, else a literal.\<close>

definition literal :: "'m libmysql \<Rightarrow> sql_param \<Rightarrow> 'm \<Rightarrow> (sql_exn + string) \<times> 'm" where
  "literal lib p m =
     (if sp_value p = [] then (Inr ''NULL'', m)
      else case escapeString lib (sp_value p) m of
        (Inl e, m') \<Rightarrow> (Inl e, m')
      | (Inr s, m') \<Rightarrow> (Inr ([CHR 0x27] @ s @ [CHR 0x27]), m'))"

definition before :: "string \<Rightarrow> (sql_exn + string) \<times> 'm \<Rightarrow> (sql_exn + string) \<times> 'm" where
  "before s r = (case r of (Inl e, m) \<Rightarrow> (Inl e, m) | (Inr t, m) \<Rightarrow> (Inr (s @ t), m))"

fun buildQueryString :: "'m libmysql \<Rightarrow> string \<Rightarrow> sql_param list \<Rightarrow> 'm \<Rightarrow> (sql_exn + string) \<times> 'm" where
  "buildQueryString lib [] params m = (Inr [], m)"
| "buildQueryString lib (c # sql) params m =
     (case (c = CHR ''?'', params) of
        (True, p # ps) \<Rightarrow>
          (case literal lib p m of
             (Inl e, m') \<Rightarrow> (Inl e, m')
           | (Inr l, m') \<Rightarrow> before l (buildQueryString lib sql ps m'))
      | _ \<Rightarrow> before [c] (buildQueryString lib sql params m))"

definition my_run :: "'m libmysql \<Rightarrow> string \<Rightarrow> sql_param list \<Rightarrow> 'm \<Rightarrow> (sql_exn + my_result) \<times> 'm" where
  "my_run lib sql params m =
     (case my_ensure lib m of
        (Inl e, m1) \<Rightarrow> (Inl e, m1)
      | (Inr _, m1) \<Rightarrow>
          (case buildQueryString lib sql params m1 of
             (Inl e, m2) \<Rightarrow> (Inl e, m2)
           | (Inr query, m2) \<Rightarrow>
               (case my_query lib query m2 of
                  (res, m3) \<Rightarrow>
                    (if mr_query_error res \<noteq> 0
                     then (Inl (Sql_error (mapMySqlError (mr_query_error res)) (mr_message res)), m3)
                     else (Inr res, m3)))))"

definition my_rows :: "my_result \<Rightarrow> sql_exn + sql_row_map list" where
  "my_rows res =
     (case mr_set res of
        Some (names, rows) \<Rightarrow> Inr (map (row_map names) rows)
      | None \<Rightarrow>
          if mr_store_error res \<noteq> 0 then Inl (Sql_error (mapMySqlError (mr_store_error res)) (mr_message res))
          else Inr [])"

definition mysql_driver :: "'m libmysql \<Rightarrow> 'm sql_driver" where
  "mysql_driver lib = \<lparr>
     sd_query = (\<lambda>sql params m. case my_run lib sql params m of
         (Inl e, m') \<Rightarrow> (Inl e, m') | (Inr res, m') \<Rightarrow> (my_rows res, m')),
     sd_exec = (\<lambda>sql params m. case my_run lib sql params m of
         (Inl e, m') \<Rightarrow> (Inl e, m') | (Inr res, m') \<Rightarrow> (Inr (narrow_int (mr_affected res)), m'))\<rparr>"

definition isValidIdentifier :: "string \<Rightarrow> bool" where
  "isValidIdentifier name =
     (name \<noteq> [] \<and> length name \<le> 128 \<and> list_all (\<lambda>c. is_alnum c \<or> c = CHR ''_'') name)"

definition mysql_entity :: "'m sql_env \<Rightarrow> string \<Rightarrow> (sql_schema \<Rightarrow> ('m, 'x result) sql_op) \<Rightarrow> ('m, 'x result) sql_op" where
  "mysql_entity env entity body =
     (case map_of (sl_schemas env) entity of
        None \<Rightarrow> sql_ret (Inl (validation_error (''Unknown entity: '' @ entity)))
      | Some schema \<Rightarrow>
          if \<not> isValidIdentifier (tb_name schema)
          then sql_ret (Inl (validation_error (''Invalid entity name: '' @ tb_name schema)))
          else with_connection no_connection (body schema))"

definition backquoted :: "string \<Rightarrow> string" where
  "backquoted name = ''`'' @ name @ ''`''"

definition select_by_id :: "sql_schema \<Rightarrow> string" where
  "select_by_id schema = ''SELECT * FROM '' @ backquoted (tb_name schema) @ '' WHERE `id` = ?''"

definition select_newest :: "sql_schema \<Rightarrow> string" where
  "select_newest schema = ''SELECT * FROM '' @ backquoted (tb_name schema) @ '' ORDER BY `createdAt` DESC LIMIT 1''"

definition mysql_insert :: "sql_schema \<Rightarrow> string list \<Rightarrow> string" where
  "mysql_insert schema names =
     ''INSERT INTO '' @ backquoted (tb_name schema) @ '' ('' @ join (map backquoted names) '', ''
     @ '') VALUES ('' @ join (map (\<lambda>_. ''?'') names) '', '' @ '')''"

definition mysql_create :: "'m sql_env \<Rightarrow> string \<Rightarrow> json \<Rightarrow> ('m, json result) sql_op" where
  "mysql_create env entity data = mysql_entity env entity (\<lambda>schema.
     let given = given_columns schema data in
     sql_bind (sql_lift (item_params (sl_dump env) given)) (\<lambda>params.
     catch_sql (
       sql_bind (executeNonQuery env (mysql_insert schema (map fst given)) params) (\<lambda>_.
       sql_bind (case jget data ''id'' of
           Some i \<Rightarrow> sql_bind (sql_lift (jsonValueToString (sl_dump env) i)) (\<lambda>v.
             executeQuery env (select_by_id schema) [bound_as ''id'' v])
         | None \<Rightarrow> executeQuery env (select_newest schema) []) (\<lambda>rows.
       first_row env schema False (internal_error ''MySQL insert succeeded but could not read back row'') rows)))))"

definition mysql_set :: "sql_schema \<Rightarrow> string list \<Rightarrow> string" where
  "mysql_set schema names =
     ''UPDATE '' @ backquoted (tb_name schema) @ '' SET '' @ join (map (\<lambda>n. backquoted n @ '' = ?'') names) '', ''
     @ '' WHERE `id` = ?''"

definition mysql_update :: "'m sql_env \<Rightarrow> string \<Rightarrow> string \<Rightarrow> json \<Rightarrow> ('m, json result) sql_op" where
  "mysql_update env entity i data = mysql_entity env entity (\<lambda>schema.
     let given = filter (\<lambda>(n, v). n \<noteq> ''id'' \<and> n \<noteq> ''createdAt'') (given_columns schema data) in
     sql_bind (sql_lift (item_params (sl_dump env) given)) (\<lambda>params.
       if given = [] then sql_ret (Inl (validation_error ''No fields to update''))
       else catch_sql (
         sql_bind (executeNonQuery env (mysql_set schema (map fst given)) (params @ [bound_as ''id'' i])) (\<lambda>affected.
         if affected = 0 then sql_ret (Inl (entity_missing entity))
         else sql_bind (executeQuery env (select_by_id schema) [bound_as ''id'' i]) (\<lambda>rows.
           first_row env schema False (entity_missing entity) rows)))))"

fun mysql_create_each :: "'m sql_env \<Rightarrow> string \<Rightarrow> json list \<Rightarrow> int \<Rightarrow> ('m, int result) sql_op" where
  "mysql_create_each env entity [] inserted = sql_ret (Inr inserted)"
| "mysql_create_each env entity (record # records) inserted =
     sql_bind (mysql_create env entity record) (\<lambda>made. case made of
       Inl e \<Rightarrow> sql_ret (Inl (internal_error (''createMany aborted: '' @ err_what e)))
     | Inr _ \<Rightarrow> mysql_create_each env entity records (inserted + 1))"

definition mysql_create_many :: "'m sql_env \<Rightarrow> string \<Rightarrow> json list \<Rightarrow> ('m, int result) sql_op" where
  "mysql_create_many env entity records = mysql_create_each env entity records 0"

definition mysql_adapter :: "'m sql_env \<Rightarrow> ('m sql_state, sql_schema) rest_adapter" where
  "mysql_adapter env = (sql_adapter env)\<lparr>
     ba_create := (\<lambda>e data. as_adapter_op (mysql_create env e data)),
     ba_update := (\<lambda>e i data. as_adapter_op (mysql_update env e i data)),
     ba_create_many := (\<lambda>e records. as_adapter_op (mysql_create_many env e records)),
     ba_upsert := (\<lambda>e f v c u. as_adapter_op (upsert_with (mysql_update env) (mysql_create env) env e f v c u))\<rparr>"

section \<open>The bridge to Prisma\<close>

text \<open>\<^verbatim>\<open>requestsClient_.post\<close>: the status and the JSON of the response, or an exception.\<close>

record 'b bridge =
  br_dump :: "json \<Rightarrow> exn + string"
  br_post :: "string \<Rightarrow> string \<Rightarrow> 'b \<Rightarrow> (exn + int \<times> json) \<times> 'b"

definition resolveBridgeUrl :: "string \<Rightarrow> string option \<Rightarrow> string" where
  "resolveBridgeUrl configured env_url =
     (if configured \<noteq> [] then configured
      else case env_url of Some u \<Rightarrow> u | None \<Rightarrow> ''http://localhost:3000'')"

definition resolveBridgeToken :: "string \<Rightarrow> string option \<Rightarrow> string" where
  "resolveBridgeToken configured env_token =
     (if configured \<noteq> [] then configured else case env_token of Some t \<Rightarrow> t | None \<Rightarrow> [])"

definition buildBridgeHeaders :: "string \<Rightarrow> string \<rightharpoonup> string" where
  "buildBridgeHeaders token =
     (if token \<noteq> [] then [''Content-Type'' \<mapsto> ''application/json'', ''x-dbal-native-prisma-token'' \<mapsto> token]
      else [''Content-Type'' \<mapsto> ''application/json''])"

definition buildPayload :: "string \<Rightarrow> sql_param list \<Rightarrow> string \<Rightarrow> json" where
  "buildPayload sql params t =
     jobject [(''sql'', JString sql), (''type'', JString t), (''params'', JArray (map (\<lambda>p. JString (sp_value p)) params))]"

fun bridge_cells :: "(json \<Rightarrow> exn + string) \<Rightarrow> (string \<times> json) list \<Rightarrow> exn + sql_row_map" where
  "bridge_cells dump [] = Inr []"
| "bridge_cells dump ((k, v) # m) =
     exn_bind (case v of JString s \<Rightarrow> Inr s | _ \<Rightarrow> dump v) (\<lambda>s.
     exn_bind (bridge_cells dump m) (\<lambda>row. Inr ((k, s) # row)))"

definition bridge_row :: "(json \<Rightarrow> exn + string) \<Rightarrow> json \<Rightarrow> exn + sql_row_map" where
  "bridge_row dump entry = (case entry of JObject m \<Rightarrow> bridge_cells dump m | _ \<Rightarrow> Inr [])"

fun bridge_rows :: "(json \<Rightarrow> exn + string) \<Rightarrow> json list \<Rightarrow> exn + sql_row_map list" where
  "bridge_rows dump [] = Inr []"
| "bridge_rows dump (e # es) =
     exn_bind (bridge_row dump e) (\<lambda>r. exn_bind (bridge_rows dump es) (\<lambda>rs. Inr (r # rs)))"

definition parseQueryResponse :: "(json \<Rightarrow> exn + string) \<Rightarrow> json \<Rightarrow> exn + sql_row_map list" where
  "parseQueryResponse dump response = (case jget response ''rows'' of Some (JArray es) \<Rightarrow> bridge_rows dump es | _ \<Rightarrow> Inr [])"

definition parseNonQueryResponse :: "json \<Rightarrow> exn + int" where
  "parseNonQueryResponse response =
     (case jget response ''affected'' of
        Some (JInt n) \<Rightarrow> get_int32 (JInt n)
      | Some (JFloat q) \<Rightarrow> get_int32 (JFloat q)
      | _ \<Rightarrow> Inr 0)"

definition bridge_call :: "'b bridge \<Rightarrow> string \<Rightarrow> string \<Rightarrow> sql_param list \<Rightarrow> (json \<Rightarrow> exn + 'x) \<Rightarrow> 'b \<Rightarrow> (sql_exn + 'x) \<times> 'b" where
  "bridge_call br t sql params result b =
     (case br_dump br (buildPayload sql params t) of
        Inl e \<Rightarrow> (Inl (Other_exn e), b)
      | Inr body \<Rightarrow>
          (case br_post br ''/api/native-prisma'' body b of
             (Inl e, b') \<Rightarrow> (Inl (Other_exn e), b')
           | (Inr (status, response), b') \<Rightarrow>
               (if status \<noteq> 200 then (Inl (Sql_error UnknownCode ''Native Prisma bridge request failed''), b')
                else (map_sum Other_exn id (result response), b'))))"

definition prisma_driver :: "'b bridge \<Rightarrow> 'b sql_driver" where
  "prisma_driver br = \<lparr>
     sd_query = (\<lambda>sql params. bridge_call br ''query'' sql params (parseQueryResponse (br_dump br))),
     sd_exec = (\<lambda>sql params. bridge_call br ''nonquery'' sql params parseNonQueryResponse)\<rparr>"

end
