(* ===== verification/Sql_Properties.thy ===== *)
theory Sql_Properties
  imports Sql_Drivers Rest_Properties
begin

text \<open>
  What the relational adapters guarantee, and where they do not: which value meets which column,
  which columns leave the server, what becomes of a transaction.
\<close>

named_theorems sql_simps

lemmas [sql_simps] = sql_ret_def sql_bind_def sql_lift_def catch_sql_def built_def with_connection_def
  on_entity_def executeQuery_def executeNonQuery_def first_row_def

section \<open>Values and columns\<close>

lemma more_params_Inr:
  "more_params p ps = Inr qs \<longleftrightarrow> (\<exists>x xs. p = Inr x \<and> ps = Inr xs \<and> qs = x # xs)"
  by (auto simp: more_params_def exn_bind_def split: sum.split)

lemma sql_map_Inr: "map_sum id f r = Inr y \<longleftrightarrow> (\<exists>x. r = Inr x \<and> y = f x)"
  by (cases r) auto

lemma bound_as_simps [simp]: "sp_name (bound_as n v) = n" "sp_value (bound_as n v) = v"
  by (simp_all add: bound_as_def)

text \<open>The value that is bound for a column is the text of what the data has under its name.\<close>

definition carries :: "(json \<Rightarrow> exn + string) \<Rightarrow> json \<Rightarrow> sql_param \<Rightarrow> bool" where
  "carries dump data p \<longleftrightarrow>
     (\<exists>v. jget data (sp_name p) = Some v \<and> jsonValueToString dump v = Inr (sp_value p))"

lemma supplied_id_value: "supplied_id data = Some i \<Longrightarrow> jget data ''id'' = Some (JString i)"
  by (auto simp: supplied_id_def split: option.split_asm json.split_asm if_split_asm)

lemma column_params_carried:
  "column_params dump data prepend fs = Inr ps \<Longrightarrow> p \<in> set ps \<Longrightarrow> carries dump data p"
  by (induction fs arbitrary: ps)
    (auto simp: more_params_Inr sql_map_Inr carries_def
      dest!: supplied_id_value split: if_split_asm option.split_asm)

lemma insert_parts_params:
  "column_params dump data [] fs = Inr ps \<Longrightarrow>
     insert_parts d data fs n = (map (\<lambda>p. quote_id d (sp_name p)) ps, map (sql_placeholder d) [n..<n + length ps])"
proof (induction fs arbitrary: ps n)
  case (Cons f fs)
  have step: "map (sql_placeholder d) [n..<Suc (n + k)] = sql_placeholder d n # map (sql_placeholder d) [Suc n..<Suc (n + k)]" for k
    by (simp add: upt_conv_Cons del: upt_Suc)
  show ?case
    using Cons
    by (auto simp: more_params_Inr sql_map_Inr jcontains_def step simp del: upt_Suc
        split: if_split_asm option.split_asm)
qed simp

lemma equal_parts_map:
  "equal_parts quoted d ks n = map (\<lambda>(k, i). quoted k @ '' = '' @ sql_placeholder d i) (zip ks [n..<n + length ks])"
proof (induction ks arbitrary: n)
  case (Cons k ks)
  then show ?case by (simp add: upt_conv_Cons del: upt_Suc)
qed simp

lemma column_params_mutable:
  "column_params dump data i fs = Inr ps \<Longrightarrow> i \<noteq> [] \<Longrightarrow>
     map sp_name ps = map co_name (filter (\<lambda>f. co_name f \<noteq> ''id'' \<and> co_name f \<noteq> ''createdAt'' \<and> jcontains data (co_name f)) fs)"
  by (induction fs arbitrary: ps)
    (auto simp: more_params_Inr sql_map_Inr jcontains_def split: if_split_asm option.split_asm)

text \<open>The texts of an insert and of an update that name their parameters one by one.\<close>

definition insert_text :: "sql_dialect \<Rightarrow> sql_schema \<Rightarrow> sql_param list \<Rightarrow> string" where
  "insert_text d schema ps =
     ''INSERT INTO '' @ quote_id d (tb_name schema) @ '' ('' @ join (map (\<lambda>p. quote_id d (sp_name p)) ps) '', ''
     @ '') VALUES ('' @ join (map (sql_placeholder d) [1..<1 + length ps]) '', '' @ '') RETURNING '' @ buildFieldList d schema"

definition update_text :: "sql_dialect \<Rightarrow> sql_schema \<Rightarrow> sql_param list \<Rightarrow> string" where
  "update_text d schema ps =
     (if ps = [] then []
      else ''UPDATE '' @ quote_id d (tb_name schema) @ '' SET ''
        @ join (map (\<lambda>(p, k). quote_id d (sp_name p) @ '' = '' @ sql_placeholder d k) (zip ps [2..<2 + length ps])) '', ''
        @ '' WHERE '' @ quote_id d ''id'' @ '' = '' @ sql_placeholder d 1 @ '' RETURNING '' @ buildFieldList d schema)"

lemma insert_names_params:
  "jsonToParams dump schema data [] = Inr ps \<Longrightarrow> buildInsertSql d schema data = insert_text d schema ps"
  using insert_parts_params [of dump data "tb_columns schema" _ d 1]
  by (auto simp: jsonToParams_def exn_bind_def buildInsertSql_def insert_text_def simp del: upt_Suc split: sum.split_asm)

lemma update_names_params:
  assumes "i \<noteq> []" "column_params dump data i (tb_columns schema) = Inr ps"
  shows "buildUpdateSql d schema data = update_text d schema ps"
proof -
  let ?names = "map co_name (mutable_columns schema data)"
  have names: "?names = map sp_name ps"
    using column_params_mutable [OF assms(2,1)] by (simp add: mutable_columns_def)
  then have "equal_parts (quote_id d) d ?names 2 =
      map (\<lambda>(p, k). quote_id d (sp_name p) @ '' = '' @ sql_placeholder d k) (zip ps [2..<2 + length ps])"
    by (simp add: equal_parts_map zip_map1 case_prod_beta comp_def del: upt_Suc)
  moreover have "equal_parts (quote_id d) d ?names 2 = [] \<longleftrightarrow> ps = []"
    by (simp add: names equal_parts_map del: upt_Suc)
  ultimately show ?thesis by (simp add: buildUpdateSql_def update_text_def Let_def)
qed

text \<open>
  C21: the values of a create and of an update meet their columns.  In the text of an insert the
  columns stand in the order of the bound values, each value under the placeholder of its position; in
  an update the id is the first value, and the placeholder of every assignment is the position of the
  value of that column.  Each value is the text of what the data has under the name of its column.
\<close>

theorem sql_values_meet_columns:
  assumes "jsonToParams dump schema data i = Inr ps"
  shows "(if i = [] then buildInsertSql d schema data = insert_text d schema ps
      else \<exists>qs. ps = bound_as ''id'' i # qs \<and> buildUpdateSql d schema data = update_text d schema qs) \<and>
    (\<forall>p \<in> set ps. p = bound_as ''id'' i \<or> carries dump data p)"
proof -
  obtain qs where qs: "column_params dump data i (tb_columns schema) = Inr qs"
      "ps = (if i \<noteq> [] then bound_as ''id'' i # qs else qs)"
    using assms by (auto simp: jsonToParams_def exn_bind_def split: sum.split_asm)
  then show ?thesis
    using insert_names_params [of dump schema data ps d] update_names_params [of i dump data schema qs d]
      column_params_carried [OF qs(1)] assms by auto
qed

definition plain_column :: "string \<Rightarrow> string \<Rightarrow> sql_column" where
  "plain_column n t = \<lparr>co_name = n, co_type = t, co_required = True, co_nullable = False,
     co_default = None, co_sensitive = False\<rparr>"

definition user_schema :: sql_schema where
  "user_schema = \<lparr>tb_name = ''User'', tb_columns = [plain_column ''id'' ''string'', plain_column ''level'' ''number'',
     plain_column ''tenantId'' ''string'', (plain_column ''passwordHash'' ''string'')\<lparr>co_sensitive := True\<rparr>]\<rparr>"

theorem sql_values_meet_columns_witness:
  "\<exists>qs. [bound_as ''id'' ''u1'', bound_as ''level'' ''3'', bound_as ''tenantId'' ''acme''] = bound_as ''id'' ''u1'' # qs \<and>
     buildUpdateSql Postgres user_schema (JObject [(''level'', JInt 3), (''tenantId'', JString ''acme'')]) =
       update_text Postgres user_schema qs"
proof -
  have "jsonToParams (\<lambda>j. Inr []) user_schema (JObject [(''level'', JInt 3), (''tenantId'', JString ''acme'')]) ''u1'' =
      Inr [bound_as ''id'' ''u1'', bound_as ''level'' ''3'', bound_as ''tenantId'' ''acme'']"
    by code_simp
  from sql_values_meet_columns [OF this, of Postgres] show ?thesis by simp
qed

section \<open>What leaves the server\<close>

lemma sql_bind_ok:
  "sql_bind m f st = (Inr y, st') \<longleftrightarrow> (\<exists>x st1. m st = (Inr x, st1) \<and> f x st1 = (Inr y, st'))"
  by (auto simp: sql_bind_def split: prod.split sum.split)

lemma catch_sql_ok: "catch_sql m st = (Inr (Inr x), st') \<longleftrightarrow> m st = (Inr (Inr x), st')"
  by (auto simp: catch_sql_def split: prod.split sum.split sql_exn.split)

lemma built_ok: "built r f st = (Inr (Inr x), st') \<longleftrightarrow> (\<exists>y. r = Inr y \<and> f y st = (Inr (Inr x), st'))"
  by (auto simp: built_def split: sum.split exn.split)

lemma sql_lift_ok: "sql_lift r st = (Inr x, st') \<longleftrightarrow> r = Inr x \<and> st' = st"
  by (cases r) (auto simp: sql_lift_def)

lemma sql_ret_ok: "sql_ret x st = (Inr y, st') \<longleftrightarrow> y = x \<and> st' = st"
  by (auto simp: sql_ret_def)

lemma with_connection_ok:
  "with_connection message body st = (Inr (Inr x), st') \<Longrightarrow> \<exists>st1. body st1 = (Inr (Inr x), st')"
  by (auto simp: with_connection_def split: prod.split_asm option.split_asm)

lemma on_entity_ok:
  "on_entity env entity body st = (Inr (Inr x), st') \<Longrightarrow>
     \<exists>schema st1. map_of (sl_schemas env) entity = Some schema \<and> body schema st1 = (Inr (Inr x), st')"
  by (auto simp: on_entity_def sql_ret_def dest: with_connection_ok split: option.split_asm)

lemma mysql_entity_ok:
  "mysql_entity env entity body st = (Inr (Inr x), st') \<Longrightarrow>
     \<exists>schema st1. map_of (sl_schemas env) entity = Some schema \<and> body schema st1 = (Inr (Inr x), st')"
  by (auto simp: mysql_entity_def sql_ret_def dest: with_connection_ok split: option.split_asm if_split_asm)

lemmas sql_ok = sql_bind_ok catch_sql_ok built_ok sql_lift_ok sql_ret_ok

text \<open>A record that names only columns which may be shown.\<close>

definition shows_only :: "sql_schema \<Rightarrow> json \<Rightarrow> bool" where
  "shows_only schema j \<longleftrightarrow>
     (\<forall>k. jget j k \<noteq> None \<longrightarrow> (\<exists>f \<in> set (tb_columns schema). co_name f = k \<and> \<not> co_sensitive f))"

lemma columns_to_json_keys:
  "columns_to_json parse row False fs result = Inr j \<Longrightarrow> is_object result \<or> result = JNull \<Longrightarrow> jget j k \<noteq> None \<Longrightarrow>
     jget result k \<noteq> None \<or> (\<exists>f \<in> set fs. co_name f = k \<and> \<not> co_sensitive f)"
proof (induction fs arbitrary: result)
  case (Cons f fs)
  show ?case
  proof (cases "co_sensitive f")
    case True
    with Cons show ?thesis by auto
  next
    case False
    then obtain v where "columns_to_json parse row False fs (jset (co_name f) v result) = Inr j"
      using Cons.prems(1) by (auto simp: exn_bind_def split: sum.split_asm)
    moreover have "is_object (jset (co_name f) v result)" using Cons.prems(2) by (cases result) auto
    moreover have "jget (jset (co_name f) v result) k \<noteq> None \<Longrightarrow> jget result k \<noteq> None \<or> k = co_name f"
      using Cons.prems(2) by (cases result) (auto split: if_split_asm)
    ultimately show ?thesis using Cons.IH Cons.prems(3) False by force
  qed
qed simp

lemma rowToJson_shows: "rowToJson parse schema row False = Inr j \<Longrightarrow> shows_only schema j"
  using columns_to_json_keys [of parse row "tb_columns schema" JNull] by (auto simp: rowToJson_def shows_only_def)

lemma rows_to_json_shows: "rows_to_json parse schema rows = Inr js \<Longrightarrow> j \<in> set js \<Longrightarrow> shows_only schema j"
  by (induction rows arbitrary: js) (auto simp: exn_bind_def rowToJson_shows split: sum.split_asm)

lemma first_row_shows: "first_row env schema False none rows st = (Inr (Inr j), st') \<Longrightarrow> shows_only schema j"
  by (auto simp: first_row_def sql_ok sql_map_Inr rowToJson_shows split: list.split_asm)

lemma sql_create_shows:
  "sql_create env entity data st = (Inr (Inr j), st') \<Longrightarrow>
     \<exists>schema. map_of (sl_schemas env) entity = Some schema \<and> shows_only schema j"
  by (force simp: sql_create_def sql_ok dest: on_entity_ok first_row_shows)

lemma sql_read_shows:
  "sql_read env entity i st = (Inr (Inr j), st') \<Longrightarrow>
     \<exists>schema. map_of (sl_schemas env) entity = Some schema \<and> shows_only schema j"
  by (force simp: sql_read_def sql_read_with_def sql_ok dest: on_entity_ok first_row_shows)

lemma sql_update_shows:
  "sql_update env entity i data st = (Inr (Inr j), st') \<Longrightarrow>
     \<exists>schema. map_of (sl_schemas env) entity = Some schema \<and> shows_only schema j"
  by (force simp: sql_update_def sql_ok dest: on_entity_ok first_row_shows)

lemma sql_find_first_shows:
  "sql_find_first env entity flt st = (Inr (Inr j), st') \<Longrightarrow>
     \<exists>schema. map_of (sl_schemas env) entity = Some schema \<and> shows_only schema j"
  by (force simp: sql_find_first_def sql_ok Let_def dest: on_entity_ok first_row_shows split: option.split_asm)

lemma mysql_create_shows:
  "mysql_create env entity data st = (Inr (Inr j), st') \<Longrightarrow>
     \<exists>schema. map_of (sl_schemas env) entity = Some schema \<and> shows_only schema j"
  by (force simp: mysql_create_def sql_ok Let_def dest: mysql_entity_ok first_row_shows)

lemma mysql_update_shows:
  "mysql_update env entity i data st = (Inr (Inr j), st') \<Longrightarrow>
     \<exists>schema. map_of (sl_schemas env) entity = Some schema \<and> shows_only schema j"
  by (force simp: mysql_update_def sql_ok Let_def dest: mysql_entity_ok first_row_shows split: if_split_asm)

lemma upsert_shows:
  assumes "\<And>i data st j st'. update entity i data st = (Inr (Inr j), st') \<Longrightarrow> P j"
    and "\<And>data st j st'. create entity data st = (Inr (Inr j), st') \<Longrightarrow> P j"
    and "upsert_with update create env entity field v created updated st = (Inr (Inr j), st')"
  shows "P j"
proof -
  obtain x :: "json result" and st1 where "(case x of Inr existing \<Rightarrow> sql_bind (sql_lift (existing_id existing)) (\<lambda>i. update entity i updated)
      | Inl e \<Rightarrow> create entity created) st1 = (Inr (Inr j), st')"
    using assms(3) by (auto simp: upsert_with_def sql_bind_ok)
  then show ?thesis by (cases x) (auto simp: sql_ok dest: assms(1,2))
qed

lemma sql_list_shows:
  "sql_list env entity opts st = (Inr (Inr l), st') \<Longrightarrow> ro_aggregates opts = [] \<Longrightarrow> j \<in> set (lr_items l) \<Longrightarrow>
     \<exists>schema. map_of (sl_schemas env) entity = Some schema \<and> shows_only schema j"
  by (auto simp: sql_list_def sql_page_def sql_throw_def Let_def sql_ok dest!: on_entity_ok
      split: option.split_asm prod.split_asm)
    (erule (1) rows_to_json_shows)

text \<open>The requests whose answer holds records, and the records of the answer.\<close>

datatype record_request =
    Create_record json
  | Read_record string
  | Update_record string json
  | Find_record json
  | Find_record_by string json
  | Upsert_record string json json json
  | List_records rich_options

definition answered :: "exn + json result \<times> 'a \<Rightarrow> json list" where
  "answered r = (case r of Inr (Inr j, st) \<Rightarrow> [j] | _ \<Rightarrow> [])"

fun records_answered :: "('a, 'k) rest_adapter \<Rightarrow> string \<Rightarrow> record_request \<Rightarrow> 'a \<Rightarrow> json list" where
  "records_answered ad e (Create_record data) st = answered (ba_create ad e data st)"
| "records_answered ad e (Read_record i) st = answered (ba_read ad e i st)"
| "records_answered ad e (Update_record i data) st = answered (ba_update ad e i data st)"
| "records_answered ad e (Find_record flt) st = answered (ba_find_first ad e flt st)"
| "records_answered ad e (Find_record_by f v) st = answered (ba_find_by_field ad e f v st)"
| "records_answered ad e (Upsert_record f v c u) st = answered (ba_upsert ad e f v c u st)"
| "records_answered ad e (List_records opts) st =
     (case ba_list ad e opts st of Inr (Inr l, st') \<Rightarrow> lr_items l | _ \<Rightarrow> [])"

lemma as_adapter_op_ok: "as_adapter_op m st = Inr (r, st') \<longleftrightarrow> m st = (Inr r, st')"
  by (auto simp: as_adapter_op_def split: prod.split sum.split sql_exn.split)

lemma answered_op: "j \<in> set (answered (as_adapter_op m st)) \<longleftrightarrow> (\<exists>st'. m st = (Inr (Inr j), st'))"
  by (auto simp: answered_def as_adapter_op_def split: prod.split sum.split sql_exn.split)

lemma upsert_sql_shows:
  "upsert_with (sql_update env) (sql_create env) env entity field v created updated st = (Inr (Inr j), st') \<Longrightarrow>
     \<exists>schema. map_of (sl_schemas env) entity = Some schema \<and> shows_only schema j"
  by (rule upsert_shows [where update = "sql_update env" and create = "sql_create env"])
    (rule sql_update_shows sql_create_shows, assumption)+

lemma upsert_mysql_shows:
  "upsert_with (mysql_update env) (mysql_create env) env entity field v created updated st = (Inr (Inr j), st') \<Longrightarrow>
     \<exists>schema. map_of (sl_schemas env) entity = Some schema \<and> shows_only schema j"
  by (rule upsert_shows [where update = "mysql_update env" and create = "mysql_create env"])
    (rule mysql_update_shows mysql_create_shows, assumption)+

lemmas operations_show = sql_create_shows sql_read_shows sql_update_shows sql_find_first_shows
  upsert_sql_shows mysql_create_shows mysql_update_shows upsert_mysql_shows

lemma records_shown:
  assumes "ad = sql_adapter env \<or> ad = mysql_adapter env" "j \<in> set (records_answered ad e req st)"
    and "\<And>opts. req = List_records opts \<Longrightarrow> ro_aggregates opts = []"
  shows "\<exists>schema. map_of (sl_schemas env) e = Some schema \<and> shows_only schema j"
proof (cases req)
  case (List_records opts)
  with assms obtain l st' where "sql_list env e opts st = (Inr (Inr l), st')" "j \<in> set (lr_items l)"
    by (auto simp: sql_adapter_def mysql_adapter_def as_adapter_op_def
        split: prod.split_asm sum.split_asm sql_exn.split_asm)
  with sql_list_shows [OF this(1)] assms(3) List_records show ?thesis by simp
qed (use assms in \<open>auto simp: sql_adapter_def mysql_adapter_def answered_op sql_find_by_field_def dest: operations_show\<close>)

text \<open>
  C22: a sensitive column does not leave the server with a record.  Whatever the database answers, no
  record that a create, read, update, search by field, upsert or plain list returns, on the relational
  adapter or on that of MySQL, has the name of a column that the schema marks as sensitive.
\<close>

theorem sql_hides_sensitive:
  assumes "ad = sql_adapter env \<or> ad = mysql_adapter env" "map_of (sl_schemas env) e = Some schema"
    and "distinct (map co_name (tb_columns schema))" "f \<in> set (tb_columns schema)" "co_sensitive f"
    and "\<forall>opts. req = List_records opts \<longrightarrow> ro_aggregates opts = []"
    and "j \<in> set (records_answered ad e req st)"
  shows "jget j (co_name f) = None"
proof -
  have "shows_only schema j" using records_shown [OF assms(1,7)] assms(2,6) by auto
  moreover have "g = f" if "g \<in> set (tb_columns schema)" "co_name g = co_name f" for g
    using that assms(3,4) by (metis distinct_map inj_onD)
  ultimately show ?thesis using assms(5) by (fastforce simp: shows_only_def)
qed

text \<open>A database that keeps the statements it is sent, gives the same rows to each, and refuses one value.\<close>

type_synonym statement_log = "(string \<times> string list) list"

definition logging :: "sql_row_map list \<Rightarrow> statement_log sql_driver" where
  "logging rows = \<lparr>
     sd_query = (\<lambda>sql ps past. (if ''taken'' \<in> set (map sp_value ps) then Inl (Sql_error UniqueViolation ''duplicate key'')
        else Inr rows, past @ [(sql, map sp_value ps)])),
     sd_exec = (\<lambda>sql ps past. (if ''taken'' \<in> set (map sp_value ps) then Inl (Sql_error UniqueViolation ''duplicate key'')
        else Inr 1, past @ [(sql, map sp_value ps)]))\<rparr>"

definition demo_sql :: "sql_row_map list \<Rightarrow> statement_log sql_env" where
  "demo_sql rows = \<lparr>sl_dialect = Postgres, sl_driver = logging rows, sl_schemas = [(''User'', user_schema)],
     sl_dump = (\<lambda>j. Inr ''{}''), sl_parse = (\<lambda>s. Inr None)\<rparr>"

definition fresh_sql :: "statement_log sql_state" where
  "fresh_sql = \<lparr>sq_db = [], sq_pool = [False], sq_tx = None\<rparr>"

definition user_row :: sql_row_map where
  "user_row = [(''id'', ''u1''), (''level'', ''3''), (''passwordHash'', ''secret''), (''tenantId'', ''acme'')]"

theorem sql_hides_sensitive_witness:
  "records_answered (sql_adapter (demo_sql [user_row])) ''User'' (Read_record ''u1'') fresh_sql =
     [JObject [(''id'', JString ''u1''), (''level'', JInt 3), (''tenantId'', JString ''acme'')]] \<and>
   jget (JObject [(''id'', JString ''u1''), (''level'', JInt 3), (''tenantId'', JString ''acme'')]) ''passwordHash'' = None"
proof -
  let ?f = "(plain_column ''passwordHash'' ''string'')\<lparr>co_sensitive := True\<rparr>"
  have r: "records_answered (sql_adapter (demo_sql [user_row])) ''User'' (Read_record ''u1'') fresh_sql =
     [JObject [(''id'', JString ''u1''), (''level'', JInt 3), (''tenantId'', JString ''acme'')]]"
    by code_simp
  have "jget (JObject [(''id'', JString ''u1''), (''level'', JInt 3), (''tenantId'', JString ''acme'')]) (co_name ?f) = None"
    by (rule sql_hides_sensitive [where ad = "sql_adapter (demo_sql [user_row])" and e = "''User''" and schema = user_schema
          and env = "demo_sql [user_row]" and req = "Read_record ''u1''" and st = fresh_sql])
      (simp_all only: r, simp_all add: demo_sql_def user_schema_def plain_column_def)
  with r show ?thesis by (simp add: plain_column_def)
qed

section \<open>Transactions\<close>

lemma sql_begin_db: "sql_begin st = (r, st') \<Longrightarrow> sq_db st' = sq_db st"
  by (auto simp: sql_begin_def begin_with_def with_connection_def split: option.split_asm sum.split_asm prod.split_asm)

lemma end_with_db: "end_with f st = (r, st') \<Longrightarrow> sq_db st' = sq_db st"
  by (auto simp: end_with_def split: option.split_asm sum.split_asm if_split_asm)

text \<open>
  On the relational adapters a transaction is only a flag.  A bulk create that fails at an item is
  answered with \<^verbatim>\<open>400\<close>, as if nothing had been created; but neither the beginning nor the rollback
  sends anything, so the database is what the creates before the failing one, and that one, have left.
\<close>

theorem sql_bulk_create_not_undone:
  assumes "handle_bulk_create (sql_adapter env) route (JArray items) st = Sent (Failure m 400) (Some st')" "items \<noteq> []"
  shows "\<exists>st1 made st2 data e st3. sq_db st1 = sq_db st \<and> creates (sql_adapter env) (ri_entity route) st1 made st2 \<and>
    ba_create (sql_adapter env) (ri_entity route) data st2 = Inr (Inl e, st3) \<and> sq_db st' = sq_db st3"
proof -
  have "with_exception_handling (transacted (sql_adapter env) (bulk_create_items (sql_adapter env) route items [])
      (bulk_answer ''inserted'' ''data'') st) = Sent (Failure m 400) (Some st')"
    using assms by (simp add: handle_bulk_create_def bulk_guard_def)
  from transacted_cases [OF this] obtain b st1 where b: "ba_begin (sql_adapter env) st = Inr (Inr b, st1)"
      "bulk_create_items (sql_adapter env) route items [] st1 = Sent (Failure m 400) (Some st')"
    by (auto simp: bulk_answer_def)
  from bulk_create_items_sent [OF b(2)] obtain made data e c st2 st3 where
      i: "creates (sql_adapter env) (ri_entity route) st1 made st2"
      "ba_create (sql_adapter env) (ri_entity route) data st2 = Inr (Inl e, st3)"
      "ba_rollback (sql_adapter env) st3 = Inr (c, st')" by blast
  have "sq_db st1 = sq_db st" "sq_db st' = sq_db st3"
    using b(1) i(3) sql_begin_db end_with_db by (auto simp: sql_adapter_def as_adapter_op_ok sql_rollback_def)
  with i show ?thesis by blast
qed

definition two_users :: json where
  "two_users = JArray [JObject [(''id'', JString ''u1''), (''level'', JInt 3)], JObject [(''id'', JString ''taken'')]]"

lemma bulk_create_run:
  "case handle_bulk_create (sql_adapter (demo_sql [user_row])) (parseRoute ''/acme/core/User'') two_users fresh_sql of
     Sent r (Some st') \<Rightarrow> r = Failure ''Bulk create failed at item 1: duplicate key'' 400 \<and>
       map snd (sq_db st') = [[''u1'', ''3'', ''acme''], [''taken'', ''acme'']]
   | _ \<Rightarrow> False"
  by code_simp

theorem sql_bulk_create_not_undone_witness:
  "\<exists>st' st1 made st2 data e st3.
     handle_bulk_create (sql_adapter (demo_sql [user_row])) (parseRoute ''/acme/core/User'') two_users fresh_sql =
       Sent (Failure ''Bulk create failed at item 1: duplicate key'' 400) (Some st') \<and>
     sq_db st1 = [] \<and> creates (sql_adapter (demo_sql [user_row])) ''User'' st1 made st2 \<and>
     ba_create (sql_adapter (demo_sql [user_row])) ''User'' data st2 = Inr (Inl e, st3) \<and> sq_db st' = sq_db st3 \<and>
     map snd (sq_db st') = [[''u1'', ''3'', ''acme''], [''taken'', ''acme'']]"
proof -
  obtain st' where st': "handle_bulk_create (sql_adapter (demo_sql [user_row])) (parseRoute ''/acme/core/User'') two_users fresh_sql =
      Sent (Failure ''Bulk create failed at item 1: duplicate key'' 400) (Some st')"
      "map snd (sq_db st') = [[''u1'', ''3'', ''acme''], [''taken'', ''acme'']]"
    using bulk_create_run by (auto split: outcome.split_asm option.split_asm)
  have entity: "ri_entity (parseRoute ''/acme/core/User'') = ''User''" by code_simp
  from sql_bulk_create_not_undone [OF st'(1) [unfolded two_users_def]] show ?thesis
    using st' by (auto simp: entity two_users_def fresh_sql_def)
qed

section \<open>What aggregates show\<close>

definition smallest_of :: "string \<Rightarrow> string \<Rightarrow> (string, string) omap" where
  "smallest_of field as =
     [(''aggregate[0][alias]'', as), (''aggregate[0][field]'', field), (''aggregate[0][func]'', ''min'')]"

lemma smallest_of_options:
  "list_options_from t options_json (smallest_of field as) =
     Inr (let opts = default_rich_options\<lparr>lo_limit := json_int options_json ''limit'' 20, lo_page := json_int options_json ''page'' 1,
            ro_aggregates := [\<lparr>ag_func = Min, ag_field = field, ag_alias = as\<rparr>]\<rparr>
          in if t \<noteq> [] then opts\<lparr>lo_filter := [(''tenantId'', t)]\<rparr> else opts)"
proof -
  have "stoi ''0'' = Inr 0" by code_simp
  then show ?thesis
    by (simp add: list_options_from_def smallest_of_def scan_param_def scan_aggregate_def exn_bind_def
        default_rich_options_def aggregate_of_def agg_func_of_def Let_def entry_of_def)
qed

definition smallest_sql :: "sql_schema \<Rightarrow> string \<Rightarrow> string \<Rightarrow> string" where
  "smallest_sql schema field as =
     ''SELECT MIN('' @ quote_id Postgres field @ '') AS '' @ quote_id Postgres as @ '' FROM ''
     @ quote_id Postgres (tb_name schema) @ '' WHERE '' @ quote_id Postgres ''tenantId'' @ '' = $1''"

lemma quoteId_postgres: "quoteId n ''postgresql'' = quote_id Postgres n"
  by (simp add: quoteId_def quote_id_def)

lemma ph_postgres: "ph n ''postgresql'' = ''$'' @ int_digits n"
  by (simp add: ph_def is_postgres_def)

lemma one_digit: "int_digits 1 = ''1''"
  by code_simp

lemma pool_acquire: "p \<noteq> [] \<Longrightarrow> acquire p = (Some 0, True # tl p)"
  by (cases p) auto

lemma sql_list_smallest:
  assumes "map_of (sl_schemas env) e = Some schema" "f \<in> set (tb_columns schema)" "co_name f \<noteq> ''*''"
    and "''tenantId'' \<in> valid_fields schema" "sl_dialect env = Postgres" "sq_pool st \<noteq> []"
    and "sd_query (sl_driver env) (smallest_sql schema (co_name f) as) [bound_as ''tenantId'' t] (sq_db st) = (Inr rows, db)"
    and "lo_limit opts = 20" "lo_page opts = 1" "lo_filter opts = [(''tenantId'', t)]"
    and "ro_conditions opts = []" "ro_groups opts = []" "ro_group_by opts = []"
    and "ro_aggregates opts = [\<lparr>ag_func = Min, ag_field = co_name f, ag_alias = as\<rparr>]"
  shows "sql_list env e opts st =
    (Inr (Inr \<lparr>lr_items = map raw_row rows, lr_total = size_to_int (length rows), lr_page = 1, lr_limit = 20\<rparr>),
     st\<lparr>sq_pool := True # tl (sq_pool st), sq_db := db\<rparr>)"
proof -
  have f: "co_name f \<in> valid_fields schema" using assms(2) by (simp add: valid_fields_def)
  have w: "build [] [] [(''tenantId'', t)] (valid_fields schema) ''postgresql'' ([], 1) =
      Inr (''WHERE '' @ quote_id Postgres ''tenantId'' @ '' = $1'', [bound_as ''tenantId'' t], 2)"
    using assms(4) by (simp add: build_def validateField_def bind_value_def quoteId_postgres ph_postgres one_digit bound_as_def)
  have a: "buildAggregateSelect [\<lparr>ag_func = Min, ag_field = co_name f, ag_alias = as\<rparr>] [] (valid_fields schema) ''postgresql'' =
      Inr (''MIN('' @ quote_id Postgres (co_name f) @ '') AS '' @ quote_id Postgres as)"
    using f assms(3) by (simp add: buildAggregateSelect_def validateField_def quoteId_postgres)
  have g: "buildGroupBy [] (valid_fields schema) ''postgresql'' = Inr []" by (simp add: buildGroupBy_def)
  have sql: "aggregate_sql Postgres schema (''MIN('' @ quote_id Postgres (co_name f) @ '') AS '' @ quote_id Postgres as)
      (''WHERE '' @ quote_id Postgres ''tenantId'' @ '' = $1'') [] = smallest_sql schema (co_name f) as"
    by (simp add: aggregate_sql_def smallest_sql_def and_clause_def)
  show ?thesis
    using assms(7)
    by (simp add: sql_list_def on_entity_def assms with_connection_def pool_acquire checked_def in_int32_def
        sql_aggregate_def Let_def dialect_str_def f w a g sql [simplified] catch_sql_def built_def sql_bind_def
        executeQuery_def sql_ret_def)
qed

lemma smallest_of_paging: "parseQueryParameters (smallest_of field as) = Some (Inr (JObject []))"
  by (simp add: parseQueryParameters_def smallest_of_def paging_param_def no_paging_def offset_page_def options_object_def
      jobject_def)

text \<open>
  An aggregate shows what a record hides.  A list request that asks for the least value of a column
  is answered with the cell that the database returned, under the name the request chose; whether the
  schema marks the column as sensitive is not looked at.  So the value of a sensitive column leaves the
  server.
\<close>

theorem sql_aggregate_shows_sensitive:
  assumes "map_of (sl_schemas env) (ri_entity route) = Some schema" "f \<in> set (tb_columns schema)" "co_sensitive f"
    and "co_name f \<noteq> ''*''" "''tenantId'' \<in> valid_fields schema" "sl_dialect env = Postgres"
    and "sq_pool st \<noteq> []" "ri_tenant route \<noteq> []"
    and "sd_query (sl_driver env) (smallest_sql schema (co_name f) as) [bound_as ''tenantId'' (ri_tenant route)] (sq_db st) =
      (Inr [[(as, v)]], db)"
  shows "\<exists>st'. handle_list (sql_adapter env) route (smallest_of (co_name f) as) st =
    Sent (Success (list_answer \<lparr>lr_items = [JObject [(as, JString v)]], lr_total = 1, lr_page = 1, lr_limit = 20\<rparr>)) (Some st')"
proof -
  let ?opts = "default_rich_options\<lparr>lo_limit := 20, lo_page := 1, lo_filter := [(''tenantId'', ri_tenant route)],
    ro_aggregates := [\<lparr>ag_func = Min, ag_field = co_name f, ag_alias = as\<rparr>]\<rparr>"
  let ?st = "st\<lparr>sq_pool := True # tl (sq_pool st), sq_db := db\<rparr>"
  have "list_options_from (ri_tenant route) (JObject []) (smallest_of (co_name f) as) = Inr ?opts"
    using assms(8) by (simp add: smallest_of_options json_int_def default_rich_options_def Let_def)
  moreover have "sql_list env (ri_entity route) ?opts st =
      (Inr (Inr \<lparr>lr_items = map raw_row [[(as, v)]], lr_total = size_to_int (length [[(as, v)]]), lr_page = 1, lr_limit = 20\<rparr>), ?st)"
    by (rule sql_list_smallest [OF assms(1,2,4,5,6,7,9)]) (simp_all add: default_rich_options_def)
  ultimately show ?thesis
    by (intro exI [of _ ?st])
      (simp add: handle_list_def smallest_of_paging rest_simps sql_adapter_def as_adapter_op_def raw_row_def)
qed

theorem sql_aggregate_shows_sensitive_witness:
  "\<exists>st'. handle_list (sql_adapter (demo_sql [[(''x'', ''secret'')]])) (parseRoute ''/acme/core/User'')
       (smallest_of ''passwordHash'' ''x'') fresh_sql =
     Sent (Success (list_answer \<lparr>lr_items = [JObject [(''x'', JString ''secret'')]], lr_total = 1, lr_page = 1, lr_limit = 20\<rparr>))
       (Some st')"
proof -
  let ?f = "(plain_column ''passwordHash'' ''string'')\<lparr>co_sensitive := True\<rparr>"
  let ?route = "parseRoute ''/acme/core/User''"
  have route: "ri_entity ?route = ''User''" "ri_tenant ?route = ''acme''" by code_simp+
  have "\<exists>st'. handle_list (sql_adapter (demo_sql [[(''x'', ''secret'')]])) ?route (smallest_of (co_name ?f) ''x'') fresh_sql =
      Sent (Success (list_answer \<lparr>lr_items = [JObject [(''x'', JString ''secret'')]], lr_total = 1, lr_page = 1, lr_limit = 20\<rparr>))
        (Some st')"
    by (rule sql_aggregate_shows_sensitive [where schema = user_schema and db = "[(smallest_sql user_schema ''passwordHash'' ''x'', [''acme''])]"])
      (simp_all add: route demo_sql_def user_schema_def plain_column_def valid_fields_def fresh_sql_def logging_def)
  then show ?thesis by (simp add: plain_column_def)
qed

end
