(* ===== verification/Sql_Literals.thy ===== *)
theory Sql_Literals
  imports Sql_Drivers
begin

text \<open>
  Values as text.  MySQL gets them inside the statement: how the server reads the literals of a
  statement, and that it reads back what was bound.  And values as cells: what a column gives back of
  what was written to it.
\<close>

section \<open>Reading literals\<close>

text \<open>
  The lexical rules of MySQL's string literals: after the opening quote, a backslash takes the next
  character, a doubled quote is a quote, a single one ends the literal.
\<close>

definition unescaped :: "char \<Rightarrow> char" where
  "unescaped e =
     (if e = CHR ''0'' then CHR 0x00 else if e = CHR ''n'' then CHR 0x0A else if e = CHR ''r'' then CHR 0x0D
      else if e = CHR ''t'' then CHR 0x09 else if e = CHR ''b'' then CHR 0x08 else if e = CHR ''Z'' then CHR 0x1A
      else e)"

fun read_literal :: "string \<Rightarrow> (string \<times> string) option" where
  "read_literal [] = None"
| "read_literal (c # s) =
     (if c = CHR 0x5C then
        (case s of [] \<Rightarrow> None | e # s' \<Rightarrow> map_option (\<lambda>(v, r). (unescaped e # v, r)) (read_literal s'))
      else if c = CHR 0x27 then
        (case s of
           [] \<Rightarrow> Some ([], [])
         | e # s' \<Rightarrow> if e = CHR 0x27 then map_option (\<lambda>(v, r). (e # v, r)) (read_literal s') else Some ([], s))
      else map_option (\<lambda>(v, r). (c # v, r)) (read_literal s))"

lemma read_literal_shorter: "read_literal s = Some (v, r) \<Longrightarrow> length r < length s"
proof (induction s arbitrary: v r rule: read_literal.induct)
  case (2 c s)
  show ?case
  proof (cases s)
    case Nil
    with 2 show ?thesis by (auto split: if_split_asm)
  next
    case (Cons e s')
    with 2 show ?thesis
      by (auto split: if_split_asm) (metis less_SucI)+
  qed
qed simp

text \<open>A statement as the server reads it: its text with a mark for each literal, and the literals.\<close>

function seen :: "string \<Rightarrow> (string \<times> string list) option" where
  "seen [] = Some ([], [])"
| "seen (c # s) =
     (if c = CHR 0x27 then
        (case read_literal s of
           None \<Rightarrow> None
         | Some (v, rest) \<Rightarrow> map_option (\<lambda>(t, vs). (CHR ''?'' # t, v # vs)) (seen rest))
      else map_option (\<lambda>(t, vs). (c # t, vs)) (seen s))"
  by pat_completeness auto
termination
  by (relation "measure length") (auto dest: read_literal_shorter)

text \<open>
  What is documented of \<^verbatim>\<open>mysql_real_escape_string\<close>: between quotes, its result is read as the
  string it was given.
\<close>

definition escapes :: "(string \<Rightarrow> string) \<Rightarrow> bool" where
  "escapes esc \<longleftrightarrow>
     (\<forall>v rest. \<not> prefix [CHR 0x27] rest \<longrightarrow> read_literal (esc v @ CHR 0x27 # rest) = Some (v, rest))"

definition escaped_char :: "char \<Rightarrow> string" where
  "escaped_char c =
     (if c = CHR 0x00 then [CHR 0x5C, CHR ''0''] else if c = CHR 0x0A then [CHR 0x5C, CHR ''n'']
      else if c = CHR 0x0D then [CHR 0x5C, CHR ''r''] else if c = CHR 0x1A then [CHR 0x5C, CHR ''Z'']
      else if c = CHR 0x5C \<or> c = CHR 0x27 \<or> c = CHR 0x22 then [CHR 0x5C, c] else [c])"

lemma escapes_documented: "escapes (\<lambda>v. concat (map escaped_char v))"
proof -
  have "read_literal (escaped_char c @ s) = map_option (\<lambda>(v, r). (c # v, r)) (read_literal s)" for c s
    by (simp add: escaped_char_def unescaped_def)
  then have "read_literal (concat (map escaped_char v) @ CHR 0x27 # rest) = Some (v, rest)"
    if "\<not> prefix [CHR 0x27] rest" for v rest
    using that by (induction v) (auto split: list.split)
  then show ?thesis by (simp add: escapes_def)
qed

section \<open>The statement that MySQL reads\<close>

text \<open>The text with \<^verbatim>\<open>NULL\<close> where an empty value was bound, and the values that became literals.\<close>

fun null_text :: "string \<Rightarrow> sql_param list \<Rightarrow> string" where
  "null_text [] ps = []"
| "null_text (c # s) ps =
     (case (c = CHR ''?'', ps) of
        (True, p # ps') \<Rightarrow> (if sp_value p = [] then ''NULL'' else ''?'') @ null_text s ps'
      | _ \<Rightarrow> c # null_text s ps)"

fun literal_values :: "string \<Rightarrow> sql_param list \<Rightarrow> string list" where
  "literal_values [] ps = []"
| "literal_values (c # s) ps =
     (case (c = CHR ''?'', ps) of
        (True, p # ps') \<Rightarrow> (if sp_value p = [] then [] else [sp_value p]) @ literal_values s ps'
      | _ \<Rightarrow> literal_values s ps)"

text \<open>No two placeholders touch.\<close>

fun separated :: "string \<Rightarrow> bool" where
  "separated (c # d # s) = (\<not> (c = CHR ''?'' \<and> d = CHR ''?'') \<and> separated (d # s))"
| "separated _ = True"

lemma separated_tl: "separated (c # s) \<Longrightarrow> separated s"
  by (cases s) auto

lemma seen_plain: "CHR 0x27 \<notin> set a \<Longrightarrow> seen (a @ s) = map_option (\<lambda>(t, vs). (a @ t, vs)) (seen s)"
  by (induction a) (auto simp: map_option_case split: option.split)

lemma buildQueryString_head:
  assumes "buildQueryString lib (c # s) ps m = (Inr q, m')" "c \<noteq> CHR ''?''"
  shows "\<exists>q' m1. q = c # q' \<and> buildQueryString lib s ps m = (Inr q', m')"
  using assms by (auto simp: before_def split: prod.split_asm sum.split_asm)

lemma filled_no_quote:
  assumes "buildQueryString lib s ps m = (Inr q, m')" "separated (CHR ''?'' # s)" "CHR 0x27 \<notin> set s"
  shows "\<not> prefix [CHR 0x27] q"
proof (cases s)
  case Nil
  with assms(1) show ?thesis by simp
next
  case (Cons c s')
  with assms(2) have "c \<noteq> CHR ''?''" by auto
  with buildQueryString_head [of lib c s' ps m q m'] assms(1,3) Cons show ?thesis by auto
qed

lemma seen_filled:
  assumes "escapes (my_escape lib)"
  shows "buildQueryString lib sql ps m = (Inr q, m') \<Longrightarrow> separated sql \<Longrightarrow> CHR 0x27 \<notin> set sql \<Longrightarrow>
    seen q = Some (null_text sql ps, literal_values sql ps)"
proof (induction sql arbitrary: ps m q)
  case (Cons c s)
  note sep = separated_tl [OF Cons.prems(2)]
  show ?case
  proof (cases "c = CHR ''?'' \<and> ps \<noteq> []")
    case False
    then obtain q' where q': "q = c # q'" "buildQueryString lib s ps m = (Inr q', m')"
      using Cons.prems(1)
      by (cases "c = CHR ''?''"; cases ps) (auto simp: before_def split: prod.split_asm sum.split_asm)
    have "seen q' = Some (null_text s ps, literal_values s ps)"
      using Cons.IH [OF q'(2) sep] Cons.prems(3) by simp
    with False Cons.prems(3) q'(1) show ?thesis by (cases "c = CHR ''?''"; cases ps) auto
  next
    case True
    then obtain p ps' where ps: "ps = p # ps'" by (cases ps) auto
    obtain l m1 q' where l: "literal lib p m = (Inr l, m1)" "buildQueryString lib s ps' m1 = (Inr q', m')" "q = l @ q'"
      using Cons.prems(1) True by (auto simp: ps before_def split: prod.split_asm sum.split_asm)
    have IH: "seen q' = Some (null_text s ps', literal_values s ps')"
      using Cons.IH [OF l(2) sep] Cons.prems(3) by simp
    show ?thesis
    proof (cases "sp_value p = []")
      case True
      then have "l = ''NULL''" using l(1) by (simp add: literal_def)
      then have "seen q = Some (''NULL'' @ null_text s ps', literal_values s ps')"
        using seen_plain [of "''NULL''" q'] IH by (simp add: l(3))
      with True \<open>c = CHR ''?'' \<and> ps \<noteq> []\<close> show ?thesis by (simp add: ps)
    next
      case False
      then have "l = [CHR 0x27] @ my_escape lib (sp_value p) @ [CHR 0x27]"
        using l(1) by (auto simp: literal_def escapeString_def split: prod.split_asm sum.split_asm)
      moreover have "\<not> prefix [CHR 0x27] q'"
        using filled_no_quote [OF l(2)] Cons.prems(2,3) True by simp
      ultimately have "seen q = Some (CHR ''?'' # null_text s ps', sp_value p # literal_values s ps')"
        using assms IH by (simp add: l(3) escapes_def)
      with False True show ?thesis by (simp add: ps)
    qed
  qed
qed simp

lemma literal_values_all:
  "count_list sql CHR ''?'' = length ps \<Longrightarrow> literal_values sql ps = filter (\<lambda>v. v \<noteq> []) (map sp_value ps)"
proof (induction sql arbitrary: ps)
  case (Cons c s)
  then show ?case by (cases "c = CHR ''?''"; cases ps) auto
qed simp

section \<open>The statements of MySQL\<close>

lemma separated_append: "separated a \<Longrightarrow> separated (c # b) \<Longrightarrow> c \<noteq> CHR ''?'' \<Longrightarrow> separated (a @ c # b)"
by (induction a rule: separated.induct; cases b) auto

lemma separated_plain: "CHR ''?'' \<notin> set a \<Longrightarrow> separated s \<Longrightarrow> separated (a @ s)"
proof (induction a)
  case (Cons c a)
  then show ?case by (cases "a @ s") auto
qed simp

text \<open>A statement text that may be filled: no literal of its own, and so many placeholders, apart.\<close>

definition fillable :: "string \<Rightarrow> nat \<Rightarrow> bool" where
  "fillable s n \<longleftrightarrow> CHR 0x27 \<notin> set s \<and> separated s \<and> count_list s CHR ''?'' = n"

definition bare :: "string \<Rightarrow> bool" where
  "bare s \<longleftrightarrow> CHR 0x27 \<notin> set s \<and> CHR ''?'' \<notin> set s"

lemma fillable_bare: "bare a \<Longrightarrow> fillable s n \<Longrightarrow> fillable (a @ s) n"
  by (auto simp: fillable_def bare_def separated_plain)

lemma fillable_mark: "fillable (c # s) n \<Longrightarrow> c \<noteq> CHR ''?'' \<Longrightarrow> fillable (CHR ''?'' # c # s) (Suc n)"
  by (auto simp: fillable_def)

lemma fillable_append:
  "fillable a m \<Longrightarrow> fillable (c # b) n \<Longrightarrow> c \<noteq> CHR ''?'' \<Longrightarrow> fillable (a @ c # b) (m + n)"
  by (auto simp: fillable_def separated_append)

lemma fillable_plain: "bare a \<Longrightarrow> fillable a 0"
  using fillable_bare [of a "[]" 0] by (simp add: fillable_def)

lemma fillable_join:
  assumes "\<And>x. x \<in> set xs \<Longrightarrow> fillable (f x) 1" "bare (c # sep)"
  shows "fillable (join (map f xs) (c # sep)) (length xs)"
  using assms(1)
proof (induction xs)
  case (Cons x xs)
  show ?case
  proof (cases xs)
    case Nil
    with Cons.prems show ?thesis by simp
  next
    case (Cons y ys)
    have "fillable (join (map f xs) (c # sep)) (length xs)" using Cons.IH Cons.prems by simp
    then have "fillable (c # sep @ join (map f xs) (c # sep)) (length xs)"
      using fillable_bare [OF assms(2)] by simp
    with Cons.prems assms(2) have "fillable (f x @ c # sep @ join (map f xs) (c # sep)) (1 + length xs)"
      by (intro fillable_append) (auto simp: bare_def)
    then show ?thesis by (simp add: Cons)
  qed
qed (simp add: fillable_def)

lemma bare_join: "(\<And>x. x \<in> set xs \<Longrightarrow> bare x) \<Longrightarrow> bare sep \<Longrightarrow> bare (join xs sep)"
  by (induction xs sep rule: join.induct) (auto simp: bare_def)

lemma bare_name: "isValidIdentifier n \<Longrightarrow> bare n"
proof -
  have "\<not> is_alnum CHR 0x27" "\<not> is_alnum CHR ''?''" by code_simp+
  then show "isValidIdentifier n \<Longrightarrow> bare n" by (auto simp: isValidIdentifier_def bare_def list_all_iff)
qed

lemma bare_backquoted: "isValidIdentifier n \<Longrightarrow> bare (backquoted n)"
  using bare_name [of n] by (simp add: bare_def backquoted_def)

lemma bare_append: "bare (a @ b) \<longleftrightarrow> bare a \<and> bare b"
  by (auto simp: bare_def)

lemma fillable_insert:
  assumes "isValidIdentifier (tb_name schema)" "\<And>n. n \<in> set names \<Longrightarrow> isValidIdentifier n"
  shows "fillable (mysql_insert schema names) (length names)"
proof -
  let ?head = "''INSERT INTO '' @ backquoted (tb_name schema) @ '' ('' @ join (map backquoted names) '', '' @ '') VALUES (''"
  have "bare (join (map backquoted names) '', '')"
    using assms(2) by (intro bare_join) (auto simp: bare_backquoted, simp add: bare_def)
  then have head: "bare ?head" using bare_backquoted [OF assms(1)] by (simp add: bare_append) (simp add: bare_def)
  have "fillable (join (map (\<lambda>_. ''?'') names) '', '') (length names)"
    by (rule fillable_join) (simp_all add: fillable_def bare_def)
  from fillable_append [OF this, of "CHR '')''" "[]" 0]
  have "fillable (join (map (\<lambda>_. ''?'') names) '', '' @ '')'') (length names)" by (simp add: fillable_def)
  from fillable_bare [OF head this] show ?thesis by (simp add: mysql_insert_def)
qed

lemma fillable_set:
  assumes "isValidIdentifier (tb_name schema)" "\<And>n. n \<in> set names \<Longrightarrow> isValidIdentifier n"
  shows "fillable (mysql_set schema names) (length names + 1)"
proof -
  have "fillable (backquoted n @ '' = ?'') 1" if "n \<in> set names" for n
    using fillable_bare [OF bare_backquoted [OF assms(2) [OF that]], of "'' = ?''" 1] by (simp add: fillable_def)
  then have "fillable (join (map (\<lambda>n. backquoted n @ '' = ?'') names) '', '') (length names)"
    by (intro fillable_join) (simp_all add: bare_def)
  from fillable_append [OF this, of "CHR '' ''" "''WHERE `id` = ?''" 1]
  have tail: "fillable (join (map (\<lambda>n. backquoted n @ '' = ?'') names) '', '' @ '' WHERE `id` = ?'') (length names + 1)"
    by (simp add: fillable_def)
  have "bare (''UPDATE '' @ backquoted (tb_name schema) @ '' SET '')"
    using bare_backquoted [OF assms(1)] by (simp add: bare_append) (simp add: bare_def)
  from fillable_bare [OF this tail] show ?thesis by (simp add: mysql_set_def)
qed

lemma fillable_select:
  assumes "isValidIdentifier (tb_name schema)"
  shows "fillable (select_by_id schema) 1"
proof -
  have "bare (''SELECT * FROM '' @ backquoted (tb_name schema))"
    using bare_backquoted [OF assms] by (simp add: bare_append) (simp add: bare_def)
  from fillable_bare [OF this, of "'' WHERE `id` = ?''" 1] show ?thesis
    by (simp add: select_by_id_def fillable_def)
qed

lemma buildQueryString_alive:
  "(\<And>m. my_alive lib m) \<Longrightarrow> \<exists>q. buildQueryString lib sql ps m = (Inr q, m)"
proof (induction sql arbitrary: ps)
  case (Cons c s)
  have alive: "literal lib p m = (Inr (if sp_value p = [] then ''NULL'' else [CHR 0x27] @ my_escape lib (sp_value p) @ [CHR 0x27]), m)"
    for p using Cons.prems by (simp add: literal_def escapeString_def my_ensure_def ensure_connected_def)
  obtain q where q: "buildQueryString lib s ps m = (Inr q, m)" using Cons by blast
  obtain q' where q': "buildQueryString lib s (tl ps) m = (Inr q', m)" using Cons by blast
  show ?case by (cases "c = CHR ''?''"; cases ps) (use q q' in \<open>auto simp: before_def alive\<close>)
qed simp

text \<open>The texts that a create or an update on MySQL sends, with the number of values each is given.\<close>

definition mysql_text :: "sql_schema \<Rightarrow> string list \<Rightarrow> string \<Rightarrow> nat \<Rightarrow> bool" where
  "mysql_text schema names sql n \<longleftrightarrow>
     (sql, n) \<in> {(mysql_insert schema names, length names), (mysql_set schema names, length names + 1),
       (select_by_id schema, 1)}"

text \<open>
  C23: on MySQL a value stays a value.  The adapter writes values into the text of its statements; the
  server reads the text of an insert, of an update or of the select by id back as the statement that was meant,
  with exactly the bound values as its literals, whatever characters they hold.  A value that is empty is
  sent as \<^verbatim>\<open>NULL\<close>.
\<close>

theorem mysql_values_are_literals:
  assumes "escapes (my_escape lib)" "isValidIdentifier (tb_name schema)"
    and "\<And>n. n \<in> set names \<Longrightarrow> isValidIdentifier n"
    and "mysql_text schema names sql (length ps)" "buildQueryString lib sql ps m = (Inr q, m')"
  shows "seen q = Some (null_text sql ps, filter (\<lambda>v. v \<noteq> []) (map sp_value ps))"
proof -
  have "fillable sql (length ps)"
    using assms(4) fillable_insert [OF assms(2,3)] fillable_set [OF assms(2,3)] fillable_select [OF assms(2)]
    by (auto simp: mysql_text_def)
  then show ?thesis
    using seen_filled [OF assms(1,5)] literal_values_all [of sql ps] by (simp add: fillable_def)
qed

definition demo_mysql :: "unit libmysql" where
  "demo_mysql = \<lparr>my_alive = (\<lambda>_. True), my_connect = (\<lambda>_. (True, ())), my_escape = (\<lambda>v. concat (map escaped_char v)),
     my_query = (\<lambda>q _. (\<lparr>mr_query_error = 0, mr_store_error = 0, mr_message = [], mr_set = None, mr_affected = 1\<rparr>, ()))\<rparr>"

definition note_schema :: sql_schema where
  "note_schema = \<lparr>tb_name = ''Note'', tb_columns = []\<rparr>"

definition hostile :: string where
  "hostile = ''x'' @ [CHR 0x27] @ ''); DROP TABLE Note; -- '' @ [CHR 0x5C]"

theorem mysql_values_are_literals_witness:
  "\<exists>q. buildQueryString demo_mysql (mysql_insert note_schema [''id'', ''body'', ''tag'']) 
       [bound_as ''id'' ''n1'', bound_as ''body'' hostile, bound_as ''tag'' []] () = (Inr q, ()) \<and>
     seen q = Some (''INSERT INTO `Note` (`id`, `body`, `tag`) VALUES (?, ?, NULL)'', [''n1'', hostile])"
proof -
  let ?sql = "mysql_insert note_schema [''id'', ''body'', ''tag'']"
  let ?ps = "[bound_as ''id'' ''n1'', bound_as ''body'' hostile, bound_as ''tag'' []]"
  obtain q where q: "buildQueryString demo_mysql ?sql ?ps () = (Inr q, ())"
    using buildQueryString_alive [of demo_mysql ?sql ?ps "()"] by (auto simp: demo_mysql_def)
  have table: "isValidIdentifier (tb_name note_schema)" by code_simp
  have "list_all isValidIdentifier [''id'', ''body'', ''tag'']" by code_simp
  then have names: "isValidIdentifier n" if "n \<in> set [''id'', ''body'', ''tag'']" for n
    using that by (auto simp: list_all_iff)
  have read: "null_text ?sql ?ps = ''INSERT INTO `Note` (`id`, `body`, `tag`) VALUES (?, ?, NULL)''"
      "filter (\<lambda>v. v \<noteq> []) (map sp_value ?ps) = [''n1'', hostile]" by code_simp+
  have "seen q = Some (null_text ?sql ?ps, filter (\<lambda>v. v \<noteq> []) (map sp_value ?ps))"
    by (rule mysql_values_are_literals [where schema = note_schema and names = "[''id'', ''body'', ''tag'']", OF _ table names _ q])
      (simp_all add: demo_mysql_def escapes_documented mysql_text_def)
  with q read show ?thesis by auto
qed

section \<open>Columns give back what was written\<close>

lemma takeWhile_digits: "takeWhile is_digit (nat_digits n) = nat_digits n"
  using nat_digits_all_digits by (auto simp: takeWhile_eq_all_conv)

lemma digit_head: "hd (nat_digits n) \<noteq> CHR ''-'' \<and> hd (nat_digits n) \<noteq> CHR ''+'' \<and> \<not> is_space (hd (nat_digits n))"
proof -
  have "hd (nat_digits n) \<in> set (nat_digits n)" by simp
  then have "is_digit (hd (nat_digits n))" by (rule nat_digits_all_digits)
  then show ?thesis by (auto simp: is_digit_def is_space_def byte_def)
qed

lemma no_leading_space: "dropWhile is_space (nat_digits n) = nat_digits n"
  using digit_head [of n] by (cases "nat_digits n") auto

lemma stoll_int_digits: "in_int64 n \<Longrightarrow> stoll (int_digits n) = Inr n"
proof -
  assume n: "in_int64 n"
  have "\<not> is_space CHR ''-''" by code_simp
  then show ?thesis
    using n digit_head
    by (auto simp: stoll_def int_digits_def Let_def no_leading_space takeWhile_digits digits_val_nat_digits
        simp del: digits_val.simps)
qed

lemma narrow_int64_id: "in_int64 n \<Longrightarrow> narrow_int64 n = n"
  by (simp add: in_int64_def narrow_int64_def)

text \<open>
  The values that a column of a type keeps: a boolean; a whole number of 64 bits; an array or object, where
  the text of JSON is read back; text that is not empty.
\<close>

definition keeps :: "(json \<Rightarrow> exn + string) \<Rightarrow> (string \<Rightarrow> exn + json option) \<Rightarrow> sql_column \<Rightarrow> json \<Rightarrow> bool" where
  "keeps dump parse f v \<longleftrightarrow>
     (if co_type f = ''boolean'' then \<exists>b. v = JBool b
      else if co_type f \<in> set integer_types then \<exists>n. v = JInt n \<and> in_int64 n
      else if co_type f = ''json'' then
        (is_array v \<or> is_object v) \<and> (\<exists>s. dump v = Inr s \<and> s \<noteq> [] \<and> parse s = Inr (Some v))
      else \<exists>s. v = JString s \<and> s \<noteq> [])"

lemma column_keeps:
  assumes "keeps dump parse f v" "jsonValueToString dump v = Inr s"
  shows "column_json parse f s = Inr v"
proof -
  have "int_digits n \<noteq> []" for n by (simp add: int_digits_def)
  with assms show ?thesis
    by (auto simp: keeps_def column_json_def narrow_int64_id stoll_int_digits true_texts_def decodeJsonColumn_def
        split: if_split_asm elim!: is_array.elims is_object.elims)
qed

lemma columns_keep:
  assumes "\<And>f. f \<in> set fs \<Longrightarrow> column_json parse f (columnValue row (co_name f)) = Inr (val (co_name f))"
  shows "\<exists>j. columns_to_json parse row True fs result = Inr j \<and>
    (\<forall>k. jget j k = (if k \<in> co_name ` set fs then Some (val k) else jget result k) \<or> \<not> (is_object result \<or> result = JNull))"
  using assms
proof (induction fs arbitrary: result)
  case (Cons f fs)
  let ?next = "jset (co_name f) (val (co_name f)) result"
  obtain j where j: "columns_to_json parse row True fs ?next = Inr j"
      "\<forall>k. jget j k = (if k \<in> co_name ` set fs then Some (val k) else jget ?next k) \<or> \<not> (is_object ?next \<or> ?next = JNull)"
    using Cons.IH [of ?next] Cons.prems by auto
  have obj: "is_object ?next" by (cases result) auto
  have "jget ?next k = (if k = co_name f then Some (val k) else jget result k)"
    if "is_object result \<or> result = JNull" for k
    using that by (cases result) auto
  then show ?case using j obj Cons.prems by (auto simp: exn_bind_def)
qed simp

text \<open>
  A record comes back as it was written.  If every column is given a value of its type, the texts that
  are bound for the values are the cells that the database returns, then the row becomes a record with the same
  values.  (A fraction is cut off when it is bound, and an empty text comes back as null or as the default of its
  column.)
\<close>

theorem sql_record_roundtrip:
  assumes "\<forall>f \<in> set (tb_columns schema). keeps dump parse f (val (co_name f)) \<and>
      jsonValueToString dump (val (co_name f)) = Inr (columnValue row (co_name f))"
  shows "\<exists>j. rowToJson parse schema row True = Inr j \<and>
    (\<forall>f \<in> set (tb_columns schema). jget j (co_name f) = Some (val (co_name f)))"
proof -
  have "column_json parse f (columnValue row (co_name f)) = Inr (val (co_name f))" if "f \<in> set (tb_columns schema)" for f
    using assms that by (blast intro: column_keeps)
  from columns_keep [of "tb_columns schema" parse row val JNull, OF this]
  show ?thesis by (auto simp: rowToJson_def)
qed

theorem sql_record_roundtrip_witness:
  "\<exists>j. rowToJson (\<lambda>s. Inr None) \<lparr>tb_name = ''Note'', tb_columns =
       [\<lparr>co_name = ''n'', co_type = ''number'', co_required = True, co_nullable = False, co_default = None, co_sensitive = False\<rparr>,
        \<lparr>co_name = ''ok'', co_type = ''boolean'', co_required = True, co_nullable = False, co_default = None, co_sensitive = False\<rparr>]\<rparr>
     [(''n'', ''-12''), (''ok'', ''true'')] True = Inr j \<and> jget j ''n'' = Some (JInt (- 12)) \<and> jget j ''ok'' = Some (JBool True)"
proof -
  have texts: "int_digits (narrow_int64 (- 12)) = ''-12''" by code_simp
  have "in_int64 (- 12)" by code_simp
  then show ?thesis
    using sql_record_roundtrip [of "\<lparr>tb_name = ''Note'', tb_columns =
       [\<lparr>co_name = ''n'', co_type = ''number'', co_required = True, co_nullable = False, co_default = None, co_sensitive = False\<rparr>,
        \<lparr>co_name = ''ok'', co_type = ''boolean'', co_required = True, co_nullable = False, co_default = None, co_sensitive = False\<rparr>]\<rparr>"
       "\<lambda>j. Inr []" "\<lambda>s. Inr None" "\<lambda>k. if k = ''n'' then JInt (- 12) else JBool True" "[(''n'', ''-12''), (''ok'', ''true'')]"]
    by (auto simp: keeps_def integer_types_def columnValue_def texts)
qed

end
