(* ===== verification/Schema_Files.thy ===== *)
theory Schema_Files
  imports Sql_Adapter Rest_Routes
begin

text \<open>
  The schemas of the entities: reading them from JSON files (\<^verbatim>\<open>src/adapters/schema_loader.hpp\<close>), what the
  adapters keep of them (\<^verbatim>\<open>src/adapters/sql/sql_adapter_schema.cpp\<close>,
  \<^verbatim>\<open>src/adapters/sqlite/sqlite_adapter_schema.cpp\<close>), and the data from which the tables are made
  (\<^verbatim>\<open>src/adapters/sql_template_generator.hpp\<close>).  A file is its name and, when it could be opened,
  the value read from it or the exception of the parser.
\<close>

section \<open>Definitions\<close>

record field_def =
  fd_name :: string
  fd_type :: string
  fd_primary :: bool
  fd_required :: bool
  fd_unique :: bool
  fd_generated :: bool
  fd_optional :: bool
  fd_nullable :: bool
  fd_sensitive :: bool
  fd_default :: "string option"
  fd_min :: "int option"
  fd_max :: "int option"
  fd_pattern :: "string option"
  fd_enum :: "string list"

definition empty_field :: field_def where
  "empty_field = \<lparr>fd_name = [], fd_type = [], fd_primary = False, fd_required = False, fd_unique = False,
     fd_generated = False, fd_optional = False, fd_nullable = False, fd_sensitive = False, fd_default = None,
     fd_min = None, fd_max = None, fd_pattern = None, fd_enum = []\<rparr>"

record index_def =
  ix_fields :: "string list"
  ix_unique :: bool

record relation_def =
  rl_name :: string
  rl_type :: string
  rl_entity :: string
  rl_foreign_key :: string
  rl_cascade :: bool

record query_config =
  qc_operators :: "string list"
  qc_group_by :: "string list"
  qc_includes :: "string list"
  qc_max_results :: int
  qc_timeout :: int

record entity_def =
  en_name :: string
  en_version :: string
  en_description :: string
  en_fields :: "field_def list"
  en_indexes :: "index_def list"
  en_relations :: "relation_def list"
  en_query :: query_config

section \<open>Reading a file\<close>

fun exn_list :: "('a \<Rightarrow> exn + 'b) \<Rightarrow> 'a list \<Rightarrow> exn + 'b list" where
  "exn_list f [] = Inr []"
| "exn_list f (x # xs) = exn_bind (f x) (\<lambda>y. exn_bind (exn_list f xs) (\<lambda>ys. Inr (y # ys)))"

definition value_bool :: "json \<Rightarrow> string \<Rightarrow> bool \<Rightarrow> exn + bool" where
  "value_bool j k d = value_as get_bool j k d"

text \<open>The elements that a loop over a value visits.\<close>

definition json_elements :: "json \<Rightarrow> json list" where
  "json_elements j = map snd (json_items j)"

definition get_strings :: "json \<Rightarrow> exn + string list" where
  "get_strings j = exn_list get_string (json_elements j)"

definition stored_type :: "string \<Rightarrow> string" where
  "stored_type ft = (if ft = ''datetime'' \<or> ft = ''number'' then ''bigint'' else ft)"

definition default_text :: "(json \<Rightarrow> exn + string) \<Rightarrow> json \<Rightarrow> exn + string option" where
  "default_text dump fd =
     (case jget fd ''default'' of
        None \<Rightarrow> Inr None
      | Some (JString s) \<Rightarrow> Inr (Some s)
      | Some JNull \<Rightarrow> Inr None
      | Some (JObject m) \<Rightarrow> Inr None
      | Some (JArray xs) \<Rightarrow> Inr None
      | Some v \<Rightarrow> map_sum id Some (dump v))"

definition enum_texts :: "json \<Rightarrow> exn + string list" where
  "enum_texts fd = (case jget fd ''values'' of Some (JArray xs) \<Rightarrow> exn_list get_string xs | _ \<Rightarrow> Inr [])"

text \<open>A relationship is no column.\<close>

definition parse_field :: "(json \<Rightarrow> exn + string) \<Rightarrow> string \<times> json \<Rightarrow> exn + field_def option" where
  "parse_field dump kv = (case kv of (name, fd) \<Rightarrow>
     exn_bind (value_string fd ''type'' ''string'') (\<lambda>t.
     let ft = to_lower t in
     if ft = ''relationship'' then Inr None
     else
       exn_bind (value_bool fd ''primary'' False) (\<lambda>p1.
       exn_bind (if p1 then Inr True else value_bool fd ''primaryKey'' False) (\<lambda>primary.
       exn_bind (value_bool fd ''required'' False) (\<lambda>required.
       exn_bind (value_bool fd ''unique'' False) (\<lambda>uniq.
       exn_bind (value_bool fd ''generated'' False) (\<lambda>generated.
       exn_bind (value_bool fd ''optional'' False) (\<lambda>opt.
       exn_bind (value_bool fd ''nullable'' False) (\<lambda>nullable.
       exn_bind (value_bool fd ''sensitive'' False) (\<lambda>sensitive.
       exn_bind (default_text dump fd) (\<lambda>dflt.
       exn_bind (enum_texts fd) (\<lambda>enum.
         Inr (Some (empty_field\<lparr>fd_name := name, fd_type := stored_type ft, fd_primary := primary,
           fd_required := required, fd_unique := uniq, fd_generated := generated, fd_optional := opt,
           fd_nullable := nullable, fd_sensitive := sensitive, fd_default := dflt, fd_enum := enum\<rparr>))))))))))))))"

definition parse_fields :: "(json \<Rightarrow> exn + string) \<Rightarrow> json \<Rightarrow> exn + field_def list" where
  "parse_fields dump j =
     (case jget j ''fields'' of
        None \<Rightarrow> Inr []
      | Some fs \<Rightarrow> map_sum id (List.map_filter id) (exn_list (parse_field dump) (json_items fs)))"

definition with_tenant :: "json \<Rightarrow> field_def list \<Rightarrow> field_def list" where
  "with_tenant j fs =
     (if jget j ''tenantId'' = Some (JBool True) \<and> ''tenantId'' \<notin> fd_name ` set fs
      then fs @ [empty_field\<lparr>fd_name := ''tenantId'', fd_type := ''string'', fd_nullable := True\<rparr>] else fs)"

definition parse_index :: "json \<Rightarrow> exn + index_def" where
  "parse_index idx =
     exn_bind (case jget idx ''fields'' of None \<Rightarrow> Inr [] | Some fs \<Rightarrow> get_strings fs) (\<lambda>fs.
     exn_bind (value_bool idx ''unique'' False) (\<lambda>u. Inr \<lparr>ix_fields = fs, ix_unique = u\<rparr>))"

definition parse_indexes :: "json \<Rightarrow> exn + index_def list" where
  "parse_indexes j = (case jget j ''indexes'' of None \<Rightarrow> Inr [] | Some xs \<Rightarrow> exn_list parse_index (json_elements xs))"

definition parse_relation :: "string \<times> json \<Rightarrow> exn + relation_def" where
  "parse_relation kv = (case kv of (rn, rd) \<Rightarrow>
     exn_bind (value_string rd ''type'' ''has-many'') (\<lambda>t.
     exn_bind (value_string rd ''entity'' []) (\<lambda>e.
     exn_bind (value_string rd ''foreign_key'' []) (\<lambda>fk.
     exn_bind (value_bool rd ''cascade_delete'' False) (\<lambda>c.
       Inr \<lparr>rl_name = rn, rl_type = t, rl_entity = e, rl_foreign_key = fk, rl_cascade = c\<rparr>)))))"

definition parse_relations :: "json \<Rightarrow> exn + relation_def list" where
  "parse_relations j =
     (case jget j ''relations'' of
        Some (JObject m) \<Rightarrow> map_sum id (filter (\<lambda>r. rl_entity r \<noteq> [])) (exn_list parse_relation m)
      | _ \<Rightarrow> Inr [])"

definition string_array :: "json \<Rightarrow> string \<Rightarrow> exn + string list" where
  "string_array q k = (case jget q k of Some (JArray xs) \<Rightarrow> exn_list get_string xs | _ \<Rightarrow> Inr [])"

definition default_query :: query_config where
  "default_query = \<lparr>qc_operators = [], qc_group_by = [], qc_includes = [], qc_max_results = 1000, qc_timeout = 0\<rparr>"

definition parse_query :: "json \<Rightarrow> exn + query_config" where
  "parse_query j =
     (case jget j ''query'' of
        Some (JObject m) \<Rightarrow>
          (let q = JObject m in
           exn_bind (string_array q ''allowed_operators'') (\<lambda>ops.
           exn_bind (string_array q ''allowed_group_by'') (\<lambda>gs.
           exn_bind (string_array q ''allowed_includes'') (\<lambda>incs.
           exn_bind (value_as get_int32 q ''max_results'' 1000) (\<lambda>n.
           exn_bind (value_as get_int32 q ''timeout_ms'' 0) (\<lambda>t.
             Inr \<lparr>qc_operators = ops, qc_group_by = gs, qc_includes = incs, qc_max_results = n, qc_timeout = t\<rparr>))))))
      | _ \<Rightarrow> Inr default_query)"

text \<open>The first of three members that is there names the entity.\<close>

definition entity_name_of :: "json \<Rightarrow> exn + string option" where
  "entity_name_of j =
     (case find (\<lambda>k. jcontains j k) [''entity'', ''displayName'', ''name''] of
        None \<Rightarrow> Inr None
      | Some k \<Rightarrow> map_sum id Some (get_string (the (jget j k))))"

definition parse_entity :: "(json \<Rightarrow> exn + string) \<Rightarrow> json \<Rightarrow> exn + entity_def option" where
  "parse_entity dump j =
     exn_bind (entity_name_of j) (\<lambda>name. case name of
       None \<Rightarrow> Inr None
     | Some n \<Rightarrow>
         exn_bind (value_string j ''version'' ''1.0'') (\<lambda>version.
         exn_bind (value_string j ''description'' []) (\<lambda>description.
         exn_bind (parse_fields dump j) (\<lambda>fs.
         exn_bind (parse_indexes j) (\<lambda>indexes.
         exn_bind (parse_relations j) (\<lambda>relations.
         exn_bind (parse_query j) (\<lambda>query.
           Inr (Some \<lparr>en_name = n, en_version = version, en_description = description,
             en_fields = with_tenant j fs, en_indexes = indexes, en_relations = relations, en_query = query\<rparr>))))))))"

text \<open>What a file has added when an exception ends it stays.\<close>

fun parse_docs :: "(json \<Rightarrow> exn + string) \<Rightarrow> json list \<Rightarrow> entity_def list" where
  "parse_docs dump [] = []"
| "parse_docs dump (j # js) =
     (if \<not> is_object j then parse_docs dump js
      else case parse_entity dump j of
        Inl x \<Rightarrow> []
      | Inr None \<Rightarrow> parse_docs dump js
      | Inr (Some e) \<Rightarrow> e # parse_docs dump js)"

fun parse_file :: "(json \<Rightarrow> exn + string) \<Rightarrow> string \<times> (exn + json) option \<Rightarrow> entity_def list" where
  "parse_file dump (name, None) = []"
| "parse_file dump (name, Some (Inl x)) = []"
| "parse_file dump (name, Some (Inr (JArray docs))) = parse_docs dump docs"
| "parse_file dump (name, Some (Inr j)) = parse_docs dump [j]"

definition is_schema_name :: "string \<Rightarrow> bool" where
  "is_schema_name name \<longleftrightarrow> suffix ''.json'' name \<and> name \<noteq> ''.json'' \<and> name \<noteq> ''entities.json''"

definition loadFromDirectory :: "(json \<Rightarrow> exn + string) \<Rightarrow> (string \<times> (exn + json) option) list \<Rightarrow> entity_def list" where
  "loadFromDirectory dump files = concat (map (parse_file dump) (filter (\<lambda>f. is_schema_name (fst f)) files))"

section \<open>What the adapters keep\<close>

definition sql_column_of :: "field_def \<Rightarrow> sql_column" where
  "sql_column_of f = \<lparr>co_name = fd_name f, co_type = fd_type f, co_required = fd_required f \<or> fd_primary f,
     co_nullable = fd_nullable f \<or> fd_optional f, co_default = fd_default f, co_sensitive = fd_sensitive f\<rparr>"

definition sql_schema_of_def :: "entity_def \<Rightarrow> sql_schema" where
  "sql_schema_of_def e = \<lparr>tb_name = en_name e, tb_columns = map sql_column_of (en_fields e)\<rparr>"

text \<open>A schema is also registered under its name in lower case.\<close>

definition loadSchemas :: "entity_def list \<Rightarrow> (string, sql_schema) omap" where
  "loadSchemas es = fold (\<lambda>e m.
     let m1 = om_put (en_name e) (sql_schema_of_def e) m; lower_name = to_lower (en_name e)
     in if lower_name \<noteq> en_name e then om_put lower_name (sql_schema_of_def e) m1 else m1) es []"

text \<open>The schema of the SQLite adapter (\<^verbatim>\<open>core::EntitySchema\<close>); \<^verbatim>\<open>sensitive\<close> has its default there.\<close>

record lite_field =
  lf_name :: string
  lf_type :: string
  lf_required :: bool
  lf_unique :: bool
  lf_primary :: bool
  lf_generated :: bool
  lf_nullable :: bool
  lf_sensitive :: bool
  lf_default :: "string option"
  lf_min :: "int option"
  lf_max :: "int option"
  lf_pattern :: "string option"
  lf_enum :: "string list option"

record lite_schema =
  lt_name :: string
  lt_fields :: "lite_field list"
  lt_indexes :: "index_def list"

definition lite_field_of :: "field_def \<Rightarrow> lite_field" where
  "lite_field_of f = \<lparr>lf_name = fd_name f, lf_type = fd_type f, lf_required = fd_required f, lf_unique = fd_unique f,
     lf_primary = fd_primary f, lf_generated = fd_generated f, lf_nullable = fd_nullable f \<or> fd_optional f,
     lf_sensitive = False, lf_default = fd_default f, lf_min = fd_min f, lf_max = fd_max f, lf_pattern = fd_pattern f,
     lf_enum = (if fd_enum f = [] then None else Some (fd_enum f))\<rparr>"

definition entityDefToSchema :: "entity_def \<Rightarrow> lite_schema" where
  "entityDefToSchema e =
     \<lparr>lt_name = en_name e, lt_fields = map lite_field_of (en_fields e), lt_indexes = en_indexes e\<rparr>"

definition lite_schemas :: "entity_def list \<Rightarrow> (string, lite_schema) omap" where
  "lite_schemas es = fold (\<lambda>e. om_put (en_name e) (entityDefToSchema e)) es []"

text \<open>The schema that the SQLite adapter shows, in which the constraints on values are missing.\<close>

definition convertToAdapterSchema :: "lite_schema \<Rightarrow> entity_schema" where
  "convertToAdapterSchema s = \<lparr>es_name = lt_name s, es_fields = map (\<lambda>f.
     \<lparr>ef_name = lf_name f, ef_type = lf_type f, ef_required = lf_required f, ef_min = None, ef_max = None,
      ef_pattern = None, ef_enum = None\<rparr>) (lt_fields s)\<rparr>"

section \<open>Tables\<close>

datatype table_dialect = SQLite_Table | PostgreSQL_Table | MySQL_Table

definition mapFieldType :: "table_dialect \<Rightarrow> field_def \<Rightarrow> string" where
  "mapFieldType d f =
     (let t = fd_type f;
          max_len = (case fd_max f of Some n \<Rightarrow> n | None \<Rightarrow> 255) in
      case d of
        SQLite_Table \<Rightarrow>
          if t \<in> {''uuid'', ''string'', ''email'', ''text''} then ''TEXT''
          else if t \<in> {''bigint'', ''integer'', ''int'', ''timestamp''} then ''INTEGER''
          else if t = ''boolean'' then ''INTEGER''
          else ''TEXT''
      | PostgreSQL_Table \<Rightarrow>
          if t = ''uuid'' then ''UUID''
          else if t = ''string'' \<or> t = ''email'' then ''VARCHAR('' @ int_digits max_len @ '')''
          else if t = ''text'' then ''TEXT''
          else if t = ''bigint'' \<or> t = ''timestamp'' then ''BIGINT''
          else if t = ''integer'' \<or> t = ''int'' then ''INTEGER''
          else if t = ''boolean'' then ''BOOLEAN''
          else if t = ''enum'' then ''VARCHAR(50)''
          else if t = ''json'' then ''JSONB''
          else ''TEXT''
      | MySQL_Table \<Rightarrow>
          if t = ''uuid'' then ''CHAR(36)''
          else if t = ''string'' \<or> t = ''email'' then ''VARCHAR('' @ int_digits max_len @ '')''
          else if t = ''text'' then ''TEXT''
          else if t = ''bigint'' \<or> t = ''timestamp'' then ''BIGINT''
          else if t = ''integer'' \<or> t = ''int'' then ''INT''
          else if t = ''boolean'' then ''TINYINT(1)''
          else if t = ''enum'' then ''VARCHAR(50)''
          else if t = ''json'' then ''JSON''
          else ''TEXT'')"

definition dq :: "string \<Rightarrow> string" where
  "dq s = [CHR 0x22] @ s @ [CHR 0x22]"

definition sq :: "string \<Rightarrow> string" where
  "sq s = [CHR 0x27] @ s @ [CHR 0x27]"

definition table_quote :: "table_dialect \<Rightarrow> string \<Rightarrow> string" where
  "table_quote d s = (if d = MySQL_Table then ''`'' @ s @ ''`'' else dq s)"

definition generateAlterAddColumn :: "table_dialect \<Rightarrow> entity_def \<Rightarrow> field_def \<Rightarrow> string" where
  "generateAlterAddColumn d e f =
     ''ALTER TABLE '' @ table_quote d (en_name e) @ '' ADD COLUMN ''
     @ (if d = PostgreSQL_Table then ''IF NOT EXISTS '' else [])
     @ table_quote d (fd_name f) @ '' '' @ mapFieldType d f"

text \<open>The default of a column: from the schema, or for a primary key or \<^verbatim>\<open>createdAt\<close> from the database.\<close>

definition sqlite_uuid_default :: string where
  "sqlite_uuid_default =
     ''(lower(hex(randomblob(4))) || '' @ sq ''-'' @ '' || lower(hex(randomblob(2))) || '' @ sq ''-4''
     @ '' || substr(lower(hex(randomblob(2))),2) || '' @ sq ''-'' @ '' || substr('' @ sq ''89ab''
     @ '',abs(random()) % 4 + 1, 1) || substr(lower(hex(randomblob(2))),2) || '' @ sq ''-''
     @ '' || lower(hex(randomblob(6))))''"

definition column_default :: "table_dialect \<Rightarrow> field_def \<Rightarrow> string option" where
  "column_default d f =
     (case fd_default f of
        Some v \<Rightarrow> Some
          (if fd_type f = ''boolean'' then
             (if d = SQLite_Table \<or> d = MySQL_Table then (if v = ''true'' \<or> v = ''1'' then ''1'' else ''0'')
              else if v = ''true'' then ''true'' else ''false'')
           else if fd_type f \<in> {''string'', ''enum'', ''text''} then sq v
           else v)
      | None \<Rightarrow>
          if fd_primary f then Some
            (if fd_type f = ''uuid'' then
               (case d of PostgreSQL_Table \<Rightarrow> ''gen_random_uuid()'' | SQLite_Table \<Rightarrow> sqlite_uuid_default
                | MySQL_Table \<Rightarrow> ''(UUID())'')
             else
               (case d of PostgreSQL_Table \<Rightarrow> ''gen_random_uuid()::text'' | SQLite_Table \<Rightarrow> ''(lower(hex(randomblob(16))))''
                | MySQL_Table \<Rightarrow> ''(UUID())''))
          else if fd_name f = ''createdAt'' then Some
            (case d of PostgreSQL_Table \<Rightarrow> ''EXTRACT(EPOCH FROM NOW())::BIGINT''
             | SQLite_Table \<Rightarrow> ''(strftime('' @ sq ''%s'' @ '', '' @ sq ''now'' @ ''))''
             | MySQL_Table \<Rightarrow> ''(UNIX_TIMESTAMP())'')
          else None)"

definition column_checks :: "table_dialect \<Rightarrow> field_def \<Rightarrow> string list" where
  "column_checks d f =
     (if fd_enum f \<noteq> [] then [table_quote d (fd_name f) @ '' IN ('' @ join (map sq (fd_enum f)) '', '' @ '')''] else [])
     @ (case fd_min f of Some n \<Rightarrow> [''LENGTH('' @ table_quote d (fd_name f) @ '') >= '' @ int_digits n] | None \<Rightarrow> [])
     @ (case fd_max f of Some n \<Rightarrow> [''LENGTH('' @ table_quote d (fd_name f) @ '') <= '' @ int_digits n] | None \<Rightarrow> [])"

definition field_json :: "table_dialect \<Rightarrow> field_def \<Rightarrow> json" where
  "field_json d f =
     jobject ([(''name'', JString (fd_name f)), (''type'', JString (mapFieldType d f)), (''primary'', JBool (fd_primary f)),
        (''required'', JBool (fd_required f)), (''unique'', JBool (fd_unique f)),
        (''nullable'', JBool (fd_nullable f \<or> fd_optional f))]
      @ (case column_default d f of Some v \<Rightarrow> [(''default'', JString v)] | None \<Rightarrow> [])
      @ (let checks = column_checks d f in
         if checks \<noteq> [] then [(''check'', JString (''CHECK ('' @ join checks '' AND '' @ '')''))] else []))"

definition index_needed :: "entity_def \<Rightarrow> index_def \<Rightarrow> bool" where
  "index_needed e ix \<longleftrightarrow> ix_fields ix \<noteq> [] \<and>
     \<not> (ix_unique ix \<and> length (ix_fields ix) = 1 \<and>
        (\<exists>f \<in> set (en_fields e). fd_name f = hd (ix_fields ix) \<and> (fd_unique f \<or> fd_primary f)))"

definition index_json :: "entity_def \<Rightarrow> index_def \<Rightarrow> json" where
  "index_json e ix =
     jobject [(''fields'', JArray (map JString (ix_fields ix))), (''unique'', JBool (ix_unique ix)),
       (''name'', JString (to_lower (''idx_'' @ en_name e @ concat (map (\<lambda>f. ''_'' @ f) (ix_fields ix)))))]"

definition entityToJson :: "table_dialect \<Rightarrow> entity_def \<Rightarrow> json" where
  "entityToJson d e =
     jobject [(''table_name'', JString (en_name e)), (''version'', JString (en_version e)),
       (''description'', JString (en_description e)), (''fields'', JArray (map (field_json d) (en_fields e))),
       (''indexes'', JArray (map (index_json e) (filter (index_needed e) (en_indexes e))))]"

end
