(* ===== verification/Sqlite_Adapter.thy ===== *)
theory Sqlite_Adapter
  imports Schema_Files
begin

text \<open>
  The adapter for SQLite (\<^verbatim>\<open>src/adapters/sqlite/\<close>): the texts of its statements
  (\<^verbatim>\<open>sqlite_query_builder.cpp\<close>), the values bound to them (\<^verbatim>\<open>sqlite_type_converter.cpp\<close>), running them
  (\<^verbatim>\<open>sqlite_prepared_statements.cpp\<close>), reading rows (\<^verbatim>\<open>sqlite_result_parser.cpp\<close>), transactions
  (\<^verbatim>\<open>sqlite_transaction_manager.cpp\<close>), the connection, and the operations of the adapter.  The C library
  is the parameter \<open>sqlite_api\<close> over a connection \<open>'a\<close> and its statements \<open>'t\<close>.
\<close>

section \<open>The library\<close>

datatype cell_type = Null_cell | Integer_cell | Float_cell | Text_cell | Blob_cell

text \<open>The answers of \<^verbatim>\<open>sqlite3_column_type\<close>, \<^verbatim>\<open>_int\<close>, \<^verbatim>\<open>_int64\<close>, \<^verbatim>\<open>_double\<close> and \<^verbatim>\<open>_text\<close> for a column.\<close>

record lite_cell =
  ce_type :: cell_type
  ce_int :: int
  ce_int64 :: int
  ce_double :: rat
  ce_text :: "string option"

type_synonym lite_row = "(string option \<times> lite_cell) list"

text \<open>
  Each function returns its code beside what it computes.  \<open>qa_run\<close> steps a statement as long as it
  hands out rows; a statement that is stepped once in the code has at most one row.
\<close>

record ('a, 't) sqlite_api =
  qa_prepare :: "string \<Rightarrow> 'a \<Rightarrow> (int \<times> 't) \<times> 'a"
  qa_bind :: "'t \<Rightarrow> nat \<Rightarrow> string option \<Rightarrow> 'a \<Rightarrow> (int \<times> 't) \<times> 'a"
  qa_bind_int :: "'t \<Rightarrow> nat \<Rightarrow> int \<Rightarrow> 'a \<Rightarrow> (int \<times> 't) \<times> 'a"
  qa_run :: "'t \<Rightarrow> 'a \<Rightarrow> (lite_row list \<times> int) \<times> 'a"
  qa_exec :: "string \<Rightarrow> 'a \<Rightarrow> (int \<times> string option) \<times> 'a"
  qa_errmsg :: "'a \<Rightarrow> string"
  qa_rowid :: "'a \<Rightarrow> int"
  qa_changes :: "'a \<Rightarrow> int"
  qa_close :: "'a \<Rightarrow> 'a"

definition SQLITE_OK :: int where "SQLITE_OK = 0"

definition SQLITE_DONE :: int where "SQLITE_DONE = 101"

text \<open>A C string ends at the first zero byte.\<close>

definition c_str :: "string \<Rightarrow> string" where
  "c_str s = takeWhile (\<lambda>c. c \<noteq> CHR 0x00) s"

record 'a lite_state =
  ls_db :: 'a
  ls_open :: bool
  ls_tx :: bool

record ('a, 't) lite_env =
  le_api :: "('a, 't) sqlite_api"
  le_schemas :: "(string, lite_schema) omap"
  le_dump :: "json \<Rightarrow> exn + string"
  le_parse :: "string \<Rightarrow> exn + json option"

type_synonym ('a, 'x) lite_op = "'a lite_state \<Rightarrow> (exn + 'x result) \<times> 'a lite_state"

definition lite_ret :: "'x \<Rightarrow> ('a, 'x) lite_op" where
  "lite_ret x st = (Inr (Inr x), st)"

definition lite_err :: "error \<Rightarrow> ('a, 'x) lite_op" where
  "lite_err e st = (Inr (Inl e), st)"

definition lite_lift :: "exn + 'x \<Rightarrow> ('a, 'x) lite_op" where
  "lite_lift r st = (map_sum id Inr r, st)"

text \<open>\<^verbatim>\<open>if (!r.hasValue()) return Error(r.error());\<close> before the rest of a function\<close>

definition lite_bind :: "('a, 'x) lite_op \<Rightarrow> ('x \<Rightarrow> ('a, 'y) lite_op) \<Rightarrow> ('a, 'y) lite_op" where
  "lite_bind m f st =
     (case m st of
        (Inl e, st') \<Rightarrow> (Inl e, st')
      | (Inr (Inl e), st') \<Rightarrow> (Inr (Inl e), st')
      | (Inr (Inr x), st') \<Rightarrow> f x st')"

text \<open>A call of the library.\<close>

definition on_db :: "('a \<Rightarrow> 'x \<times> 'a) \<Rightarrow> ('a, 'x) lite_op" where
  "on_db f st = (case f (ls_db st) of (x, db) \<Rightarrow> (Inr (Inr x), st\<lparr>ls_db := db\<rparr>))"

section \<open>Statements\<close>

definition lite_quote :: "string \<Rightarrow> string" where
  "lite_quote identifier = dq identifier"

definition lite_field_list :: "lite_schema \<Rightarrow> string" where
  "lite_field_list schema = join (map (\<lambda>f. lite_quote (lf_name f)) (lt_fields schema)) '', ''"

definition lite_equal :: "string \<Rightarrow> string" where
  "lite_equal k = lite_quote k @ '' = ?''"

definition given_fields :: "lite_schema \<Rightarrow> json \<Rightarrow> string list" where
  "given_fields schema data = filter (jcontains data) (map lf_name (lt_fields schema))"

definition lite_insert :: "lite_schema \<Rightarrow> json \<Rightarrow> string" where
  "lite_insert schema data =
     (let names = given_fields schema data in
      ''INSERT INTO '' @ lite_quote (lt_name schema) @ '' ('' @ join (map lite_quote names) '', '' @ '') ''
      @ ''VALUES ('' @ join (map (\<lambda>_. ''?'') names) '', '' @ '')'')"

definition lite_where :: "json \<Rightarrow> string" where
  "lite_where flt = join (map (\<lambda>(k, _). lite_equal k) (json_items flt)) '' AND ''"

definition where_unless_empty :: "json \<Rightarrow> string" where
  "where_unless_empty flt = (if jempty flt then [] else '' WHERE '' @ lite_where flt)"

definition lite_select :: "lite_schema \<Rightarrow> json \<Rightarrow> string" where
  "lite_select schema flt =
     ''SELECT '' @ lite_field_list schema @ '' FROM '' @ lite_quote (lt_name schema) @ where_unless_empty flt"

definition mutable_fields :: "lite_schema \<Rightarrow> json \<Rightarrow> string list" where
  "mutable_fields schema data = filter (\<lambda>k. k \<noteq> ''id'' \<and> k \<noteq> ''createdAt'') (given_fields schema data)"

definition lite_update_sql :: "lite_schema \<Rightarrow> json \<Rightarrow> string" where
  "lite_update_sql schema data =
     (let names = mutable_fields schema data in
      if names = [] then []
      else ''UPDATE '' @ lite_quote (lt_name schema) @ '' SET '' @ join (map lite_equal names) '', ''
        @ '' WHERE '' @ dq ''id'' @ '' = ?'')"

definition lite_delete_sql :: "lite_schema \<Rightarrow> string" where
  "lite_delete_sql schema = ''DELETE FROM '' @ lite_quote (lt_name schema) @ '' WHERE '' @ dq ''id'' @ '' = ?''"

definition lite_condition :: "filter_condition \<Rightarrow> string" where
  "lite_condition cond =
     (let field = lite_quote (fc_field cond);
          marks = join (map (\<lambda>_. ''?'') (fc_values cond)) '', '' in
      case fc_op cond of
        Eq \<Rightarrow> field @ '' = ?''
      | Ne \<Rightarrow> field @ '' != ?''
      | Lt \<Rightarrow> field @ '' < ?''
      | Lte \<Rightarrow> field @ '' <= ?''
      | Gt \<Rightarrow> field @ '' > ?''
      | Gte \<Rightarrow> field @ '' >= ?''
      | Like \<Rightarrow> field @ '' LIKE ?''
      | ILike \<Rightarrow> ''LOWER('' @ field @ '') LIKE LOWER(?)''
      | IsNull \<Rightarrow> field @ '' IS NULL''
      | IsNotNull \<Rightarrow> field @ '' IS NOT NULL''
      | In \<Rightarrow> field @ '' IN ('' @ marks @ '')''
      | NotIn \<Rightarrow> field @ '' NOT IN ('' @ marks @ '')''
      | Between \<Rightarrow> field @ '' BETWEEN ? AND ?'')"

definition lite_group :: "filter_condition list \<Rightarrow> string" where
  "lite_group g = ''('' @ join (map lite_condition g) '' OR '' @ '')''"

definition list_fragments :: "rich_options \<Rightarrow> string list" where
  "list_fragments opts =
     map (\<lambda>(k, _). lite_equal k) (lo_filter opts) @ map lite_condition (ro_conditions opts)
     @ map lite_group (filter (\<lambda>g. g \<noteq> []) (ro_groups opts))"

definition list_where :: "rich_options \<Rightarrow> string" where
  "list_where opts = (if list_fragments opts = [] then [] else '' WHERE '' @ join (list_fragments opts) '' AND '')"

definition list_group_by :: "rich_options \<Rightarrow> string" where
  "list_group_by opts =
     (if ro_group_by opts = [] then [] else '' GROUP BY '' @ join (map lite_quote (ro_group_by opts)) '', '')"

definition lite_count :: "lite_schema \<Rightarrow> rich_options \<Rightarrow> string" where
  "lite_count schema opts =
     ''SELECT COUNT(*) FROM '' @ lite_quote (lt_name schema) @ list_where opts @ list_group_by opts"

fun agg_name :: "agg_func \<Rightarrow> string" where
  "agg_name Count = ''COUNT''"
| "agg_name Sum = ''SUM''"
| "agg_name Avg = ''AVG''"
| "agg_name Min = ''MIN''"
| "agg_name Max = ''MAX''"

definition list_selection :: "lite_schema \<Rightarrow> rich_options \<Rightarrow> string" where
  "list_selection schema opts =
     (if ro_aggregates opts \<noteq> [] then
        join (map lite_quote (ro_group_by opts)
          @ map (\<lambda>a. agg_name (ag_func a) @ ''('' @ lite_quote (ag_field a) @ '') AS '' @ lite_quote (ag_alias a))
              (ro_aggregates opts)) '', ''
      else lite_field_list schema)"

definition list_order :: "rich_options \<Rightarrow> string" where
  "list_order opts =
     (if lo_sort opts = [] then []
      else '' ORDER BY '' @ join (map (\<lambda>(field, dir).
        lite_quote field @ '' '' @ (if dir = ''asc'' \<or> dir = ''ASC'' then ''ASC'' else ''DESC'')) (lo_sort opts)) '', '')"

definition lite_list_sql :: "lite_schema \<Rightarrow> rich_options \<Rightarrow> string" where
  "lite_list_sql schema opts =
     ''SELECT '' @ list_selection schema opts @ '' FROM '' @ lite_quote (lt_name schema) @ list_where opts
     @ list_group_by opts @ list_order opts @ '' LIMIT ? OFFSET ?''"

definition lite_update_many_sql :: "lite_schema \<Rightarrow> json \<Rightarrow> json \<Rightarrow> string" where
  "lite_update_many_sql schema flt data =
     (let names = given_fields schema data in
      if names = [] then []
      else ''UPDATE '' @ lite_quote (lt_name schema) @ '' SET '' @ join (map lite_equal names) '', ''
        @ where_unless_empty flt)"

definition lite_delete_many_sql :: "lite_schema \<Rightarrow> json \<Rightarrow> string" where
  "lite_delete_many_sql schema flt = ''DELETE FROM '' @ lite_quote (lt_name schema) @ where_unless_empty flt"

definition lite_find_sql :: "lite_schema \<Rightarrow> json \<Rightarrow> string" where
  "lite_find_sql schema flt = lite_select schema flt @ '' LIMIT 1''"

section \<open>Values\<close>

text \<open>A text that stands for NULL, until the value is bound.\<close>

definition null_sentinel :: string where
  "null_sentinel = [CHR 0x01] @ ''NULL'' @ [CHR 0x01]"

fun lite_value :: "(json \<Rightarrow> exn + string) \<Rightarrow> json \<Rightarrow> exn + string" where
  "lite_value dump JNull = Inr null_sentinel"
| "lite_value dump (JBool b) = Inr (if b then ''1'' else ''0'')"
| "lite_value dump (JInt n) = Inr (int_digits (narrow_int64 n))"
| "lite_value dump (JFloat q) =
     (if in_int64 (trunc_rat q) then Inr (int_digits (trunc_rat q)) else Inl Undefined)"
| "lite_value dump (JString s) = Inr s"
| "lite_value dump j = dump j"

definition member_values :: "(json \<Rightarrow> exn + string) \<Rightarrow> json \<Rightarrow> string list \<Rightarrow> exn + string list" where
  "member_values dump data names = exn_list (\<lambda>k. lite_value dump (the (jget data k))) names"

definition insert_values :: "(json \<Rightarrow> exn + string) \<Rightarrow> lite_schema \<Rightarrow> json \<Rightarrow> exn + string list" where
  "insert_values dump schema data = member_values dump data (given_fields schema data)"

definition update_values :: "(json \<Rightarrow> exn + string) \<Rightarrow> lite_schema \<Rightarrow> json \<Rightarrow> string \<Rightarrow> exn + string list" where
  "update_values dump schema data i =
     map_sum id (\<lambda>vs. vs @ [i]) (member_values dump data (mutable_fields schema data))"

definition filter_values :: "(json \<Rightarrow> exn + string) \<Rightarrow> json \<Rightarrow> exn + string list" where
  "filter_values dump flt = exn_list (\<lambda>(_, v). lite_value dump v) (json_items flt)"

definition update_many_values :: "(json \<Rightarrow> exn + string) \<Rightarrow> lite_schema \<Rightarrow> json \<Rightarrow> json \<Rightarrow> exn + string list" where
  "update_many_values dump schema flt data =
     exn_bind (member_values dump data (given_fields schema data)) (\<lambda>vs.
     exn_bind (filter_values dump flt) (\<lambda>ws. Inr (vs @ ws)))"

definition condition_values :: "filter_condition \<Rightarrow> string list" where
  "condition_values cond =
     (case fc_op cond of
        IsNull \<Rightarrow> []
      | IsNotNull \<Rightarrow> []
      | In \<Rightarrow> fc_values cond
      | NotIn \<Rightarrow> fc_values cond
      | Between \<Rightarrow> (case fc_values cond of lo # hi # _ \<Rightarrow> [lo, hi] | _ \<Rightarrow> [])
      | _ \<Rightarrow> [fc_value cond])"

definition count_values :: "rich_options \<Rightarrow> string list" where
  "count_values opts =
     map snd (lo_filter opts) @ concat (map condition_values (ro_conditions opts))
     @ concat (map (\<lambda>g. concat (map condition_values g)) (ro_groups opts))"

definition list_limit :: "rich_options \<Rightarrow> int" where
  "list_limit opts = (if lo_limit opts > 0 then lo_limit opts else 50)"

text \<open>\<^verbatim>\<open>(page - 1) * limit\<close> may overflow.\<close>

definition list_values :: "rich_options \<Rightarrow> exn + string list" where
  "list_values opts =
     (case checked (if lo_page opts > 1 then (lo_page opts - 1) * list_limit opts else 0) of
        None \<Rightarrow> Inl Undefined
      | Some offset \<Rightarrow> Inr (count_values opts @ [int_digits (list_limit opts), int_digits offset]))"

section \<open>Running statements\<close>

definition mapSqliteError :: "('a, 't) sqlite_api \<Rightarrow> int \<Rightarrow> string \<Rightarrow> 'a lite_state \<Rightarrow> error" where
  "mapSqliteError api code context st =
     (let message = (if context = [] then [] else context @ '': '')
            @ (if ls_open st then qa_errmsg api (ls_db st) else ''SQLite error code '' @ int_digits code)
      in if code = 19 then conflict message
         else if code = 12 then not_found message
         else if code = 5 \<or> code = 6 then internal_error (''Database is locked: '' @ message)
         else internal_error message)"

definition failed_with :: "('a, 't) sqlite_api \<Rightarrow> int \<Rightarrow> string \<Rightarrow> ('a, 'x) lite_op" where
  "failed_with api code context st = (Inr (Inl (mapSqliteError api code context st)), st)"

definition prepareLocked :: "('a, 't) sqlite_api \<Rightarrow> string \<Rightarrow> ('a, 't) lite_op" where
  "prepareLocked api sql st =
     (if \<not> ls_open st then lite_err (internal_error ''Database connection not open'') st
      else lite_bind (on_db (qa_prepare api (c_str sql))) (\<lambda>(rc, stmt).
        if rc \<noteq> SQLITE_OK then failed_with api rc ''Failed to prepare statement'' else lite_ret stmt) st)"

fun bindParameters :: "('a, 't) sqlite_api \<Rightarrow> 't \<Rightarrow> string list \<Rightarrow> nat \<Rightarrow> ('a, 't) lite_op" where
  "bindParameters api stmt [] i = lite_ret stmt"
| "bindParameters api stmt (v # vs) i =
     lite_bind (on_db (qa_bind api stmt (i + 1) (if v = null_sentinel then None else Some (c_str v)))) (\<lambda>(rc, stmt').
       if rc \<noteq> SQLITE_OK then failed_with api rc ''Failed to bind parameter''
       else bindParameters api stmt' vs (i + 1))"

definition executeSelect :: "('a, 't) sqlite_api \<Rightarrow> string \<Rightarrow> string list \<Rightarrow> ('a, 't) lite_op" where
  "executeSelect api sql vs = lite_bind (prepareLocked api sql) (\<lambda>stmt. bindParameters api stmt vs 0)"

text \<open>The code of the one step that a statement without rows takes.\<close>

definition step_code :: "lite_row list \<times> int \<Rightarrow> int" where
  "step_code r = (if fst r = [] then snd r else 100)"

definition executed_once :: "('a, 't) sqlite_api \<Rightarrow> string \<Rightarrow> string \<Rightarrow> string list \<Rightarrow> ('a, unit) lite_op" where
  "executed_once api context sql vs =
     lite_bind (executeSelect api sql vs) (\<lambda>stmt.
     lite_bind (on_db (qa_run api stmt)) (\<lambda>r.
       if step_code r \<noteq> SQLITE_DONE then failed_with api (step_code r) context else lite_ret ()))"

definition executeInsert :: "('a, 't) sqlite_api \<Rightarrow> string \<Rightarrow> string list \<Rightarrow> ('a, int) lite_op" where
  "executeInsert api sql vs =
     lite_bind (executed_once api ''Failed to execute insert'' sql vs) (\<lambda>_ st.
       lite_ret (if ls_open st then qa_rowid api (ls_db st) else -1) st)"

definition executeUpdate :: "('a, 't) sqlite_api \<Rightarrow> string \<Rightarrow> string list \<Rightarrow> ('a, int) lite_op" where
  "executeUpdate api sql vs =
     lite_bind (executed_once api ''Failed to execute update'' sql vs) (\<lambda>_ st.
       lite_ret (if ls_open st then qa_changes api (ls_db st) else 0) st)"

definition executeDelete :: "('a, 't) sqlite_api \<Rightarrow> string \<Rightarrow> string list \<Rightarrow> ('a, int) lite_op" where
  "executeDelete api sql vs =
     lite_bind (executed_once api ''Failed to execute delete'' sql vs) (\<lambda>_ st.
       lite_ret (if ls_open st then qa_changes api (ls_db st) else 0) st)"

section \<open>Rows\<close>

definition raw_cell :: "lite_cell \<Rightarrow> json" where
  "raw_cell c =
     (case ce_type c of
        Null_cell \<Rightarrow> JNull
      | Integer_cell \<Rightarrow> JInt (ce_int64 c)
      | Float_cell \<Rightarrow> JFloat (ce_double c)
      | _ \<Rightarrow> JString (case ce_text c of None \<Rightarrow> [] | Some s \<Rightarrow> c_str s))"

definition columnToJson :: "(string \<Rightarrow> exn + json option) \<Rightarrow> lite_field \<Rightarrow> lite_cell \<Rightarrow> exn + json" where
  "columnToJson parse f c =
     (if ce_type c = Null_cell then Inr JNull
      else if lf_type f = ''boolean'' then Inr (JBool (ce_int c \<noteq> 0))
      else if lf_type f = ''number'' \<or> lf_type f = ''bigint'' then Inr (JInt (ce_int64 c))
      else case ce_text c of
        None \<Rightarrow> Inr JNull
      | Some s \<Rightarrow> if lf_type f = ''json'' then decodeJsonColumn parse (c_str s) else Inr (JString (c_str s)))"

definition field_named :: "lite_schema \<Rightarrow> string \<Rightarrow> lite_field option" where
  "field_named schema k = find (\<lambda>f. lf_name f = k) (lt_fields schema)"

fun cells_to_json ::
    "(string \<Rightarrow> exn + json option) \<Rightarrow> lite_schema \<Rightarrow> bool \<Rightarrow> lite_row \<Rightarrow> json \<Rightarrow> exn + json" where
  "cells_to_json parse schema sensitive [] result = Inr result"
| "cells_to_json parse schema sensitive ((None, c) # row) result = cells_to_json parse schema sensitive row result"
| "cells_to_json parse schema sensitive ((Some k, c) # row) result =
     (case field_named schema k of
        None \<Rightarrow> cells_to_json parse schema sensitive row (jset k (raw_cell c) result)
      | Some f \<Rightarrow>
          if lf_sensitive f \<and> \<not> sensitive then cells_to_json parse schema sensitive row result
          else exn_bind (columnToJson parse f c) (\<lambda>v. cells_to_json parse schema sensitive row (jset k v result)))"

definition lite_row_json :: "(string \<Rightarrow> exn + json option) \<Rightarrow> lite_schema \<Rightarrow> lite_row \<Rightarrow> exn + json" where
  "lite_row_json parse schema row = cells_to_json parse schema False row JNull"

text \<open>The rows are converted while they are read, before the code that ended them is looked at.\<close>

definition readAllRows :: "('a, 't) lite_env \<Rightarrow> lite_schema \<Rightarrow> 't \<Rightarrow> ('a, json list) lite_op" where
  "readAllRows env schema stmt =
     lite_bind (on_db (qa_run (le_api env) stmt)) (\<lambda>(rows, rc).
     lite_bind (lite_lift (exn_list (lite_row_json (le_parse env) schema) rows)) (\<lambda>js st.
       if rc \<noteq> SQLITE_DONE then
         lite_err (internal_error (''Failed to read rows: ''
           @ (if ls_open st then qa_errmsg (le_api env) (ls_db st) else []))) st
       else lite_ret js st))"

definition readInsertedRecord :: "('a, 't) lite_env \<Rightarrow> lite_schema \<Rightarrow> int \<Rightarrow> ('a, json) lite_op" where
  "readInsertedRecord env schema rowid =
     lite_bind (on_db (qa_prepare (le_api env) (c_str
       (''SELECT '' @ lite_field_list schema @ '' FROM '' @ lite_quote (lt_name schema) @ '' WHERE rowid = ?''))))
       (\<lambda>(rc, stmt) st.
       if rc \<noteq> SQLITE_OK then
         lite_err (internal_error (''Failed to prepare select: ''
           @ (if ls_open st then qa_errmsg (le_api env) (ls_db st) else []))) st
       else
         lite_bind (on_db (qa_bind_int (le_api env) stmt 1 rowid)) (\<lambda>(_, stmt').
         lite_bind (on_db (qa_run (le_api env) stmt')) (\<lambda>(rows, _).
           case rows of
             [] \<Rightarrow> lite_err (internal_error ''Failed to retrieve inserted record'')
           | row # _ \<Rightarrow> lite_lift (lite_row_json (le_parse env) schema row))) st)"

section \<open>Operations\<close>

definition lite_entity :: "('a, 't) lite_env \<Rightarrow> string \<Rightarrow> (lite_schema \<Rightarrow> ('a, 'x) lite_op) \<Rightarrow> ('a, 'x) lite_op" where
  "lite_entity env entity body =
     (case map_of (le_schemas env) entity of
        None \<Rightarrow> lite_err (validation_error (''Unknown entity: '' @ entity))
      | Some schema \<Rightarrow> body schema)"

definition lite_create :: "('a, 't) lite_env \<Rightarrow> string \<Rightarrow> json \<Rightarrow> ('a, json) lite_op" where
  "lite_create env entity data = lite_entity env entity (\<lambda>schema.
     lite_bind (lite_lift (insert_values (le_dump env) schema data)) (\<lambda>vs.
     lite_bind (executeInsert (le_api env) (lite_insert schema data) vs) (\<lambda>rowid.
     readInsertedRecord env schema rowid)))"

definition first_read :: "('a, 't) lite_env \<Rightarrow> string \<Rightarrow> lite_schema \<Rightarrow> string \<Rightarrow> string list \<Rightarrow> ('a, json) lite_op" where
  "first_read env entity schema sql vs =
     lite_bind (executeSelect (le_api env) sql vs) (\<lambda>stmt.
     lite_bind (readAllRows env schema stmt) (\<lambda>rows.
       case rows of [] \<Rightarrow> lite_err (entity_missing entity) | r # _ \<Rightarrow> lite_ret r))"

definition lite_read :: "('a, 't) lite_env \<Rightarrow> string \<Rightarrow> string \<Rightarrow> ('a, json) lite_op" where
  "lite_read env entity i = lite_entity env entity (\<lambda>schema.
     first_read env entity schema (lite_select schema (jobject [(''id'', JString i)])) [i])"

definition lite_update :: "('a, 't) lite_env \<Rightarrow> string \<Rightarrow> string \<Rightarrow> json \<Rightarrow> ('a, json) lite_op" where
  "lite_update env entity i data = lite_entity env entity (\<lambda>schema.
     lite_bind (lite_lift (update_values (le_dump env) schema data i)) (\<lambda>vs.
     lite_bind (executeUpdate (le_api env) (lite_update_sql schema data) vs) (\<lambda>n.
       if n = 0 then lite_err (entity_missing entity) else lite_read env entity i)))"

definition lite_remove :: "('a, 't) lite_env \<Rightarrow> string \<Rightarrow> string \<Rightarrow> ('a, bool) lite_op" where
  "lite_remove env entity i = lite_entity env entity (\<lambda>schema.
     lite_bind (executeDelete (le_api env) (lite_delete_sql schema) [i]) (\<lambda>n.
       if n = 0 then lite_err (entity_missing entity) else lite_ret True))"

text \<open>\<^verbatim>\<open>static_cast<int>\<close>\<close>

definition counted_rows :: "rich_options \<Rightarrow> lite_row list \<Rightarrow> int" where
  "counted_rows opts rows =
     (case rows of
        [] \<Rightarrow> 0
      | row # _ \<Rightarrow> if ro_group_by opts = [] then narrow_int (ce_int64 (snd (row ! 0))) else size_to_int (length rows))"

text \<open>A count that fails is ignored.\<close>

definition lite_counted :: "('a, 't) lite_env \<Rightarrow> lite_schema \<Rightarrow> rich_options \<Rightarrow> ('a, int) lite_op" where
  "lite_counted env schema opts st =
     (case executeSelect (le_api env) (lite_count schema opts) (count_values opts) st of
        (Inr (Inr stmt), st') \<Rightarrow>
          lite_bind (on_db (qa_run (le_api env) stmt)) (\<lambda>(rows, _). lite_ret (counted_rows opts rows)) st'
      | (Inr (Inl _), st') \<Rightarrow> lite_ret 0 st'
      | (Inl e, st') \<Rightarrow> (Inl e, st'))"

definition lite_list :: "('a, 't) lite_env \<Rightarrow> string \<Rightarrow> rich_options \<Rightarrow> ('a, list_result) lite_op" where
  "lite_list env entity opts = lite_entity env entity (\<lambda>schema.
     lite_bind (lite_counted env schema opts) (\<lambda>n.
     lite_bind (lite_lift (list_values opts)) (\<lambda>vs.
     lite_bind (executeSelect (le_api env) (lite_list_sql schema opts) vs) (\<lambda>stmt.
     lite_bind (readAllRows env schema stmt) (\<lambda>items.
       lite_ret \<lparr>lr_items = items, lr_total = (if n > 0 then n else size_to_int (length items)),
         lr_page = lo_page opts, lr_limit = list_limit opts\<rparr>)))))"

text \<open>A record that cannot be inserted is skipped.\<close>

fun insert_each :: "('a, 't) lite_env \<Rightarrow> lite_schema \<Rightarrow> json list \<Rightarrow> int \<Rightarrow> ('a, int) lite_op" where
  "insert_each env schema [] n st = lite_ret n st"
| "insert_each env schema (r # rs) n st =
     (case insert_values (le_dump env) schema r of
        Inl e \<Rightarrow> (Inl e, st)
      | Inr vs \<Rightarrow>
          (case executeInsert (le_api env) (lite_insert schema r) vs st of
             (Inl e, st') \<Rightarrow> (Inl e, st')
           | (Inr (Inl e), st') \<Rightarrow> insert_each env schema rs n st'
           | (Inr (Inr i), st') \<Rightarrow> insert_each env schema rs (n + 1) st'))"

definition lite_create_many :: "('a, 't) lite_env \<Rightarrow> string \<Rightarrow> json list \<Rightarrow> ('a, int) lite_op" where
  "lite_create_many env entity records =
     (if records = [] then lite_ret 0
      else lite_entity env entity (\<lambda>schema. insert_each env schema records 0))"

definition lite_update_many :: "('a, 't) lite_env \<Rightarrow> string \<Rightarrow> json \<Rightarrow> json \<Rightarrow> ('a, int) lite_op" where
  "lite_update_many env entity flt data = lite_entity env entity (\<lambda>schema.
     if jempty data then lite_err (validation_error ''No update fields supplied'')
     else lite_bind (lite_lift (update_many_values (le_dump env) schema flt data)) (\<lambda>vs.
       executeUpdate (le_api env) (lite_update_many_sql schema flt data) vs))"

definition lite_delete_many :: "('a, 't) lite_env \<Rightarrow> string \<Rightarrow> json \<Rightarrow> ('a, int) lite_op" where
  "lite_delete_many env entity flt = lite_entity env entity (\<lambda>schema.
     lite_bind (lite_lift (filter_values (le_dump env) flt)) (\<lambda>vs.
       executeDelete (le_api env) (lite_delete_many_sql schema flt) vs))"

definition lite_find_first :: "('a, 't) lite_env \<Rightarrow> string \<Rightarrow> json \<Rightarrow> ('a, json) lite_op" where
  "lite_find_first env entity flt = lite_entity env entity (\<lambda>schema.
     lite_bind (lite_lift (filter_values (le_dump env) flt)) (\<lambda>vs.
       first_read env entity schema (lite_find_sql schema flt) vs))"

definition lite_find_by_field :: "('a, 't) lite_env \<Rightarrow> string \<Rightarrow> string \<Rightarrow> json \<Rightarrow> ('a, json) lite_op" where
  "lite_find_by_field env entity field v = lite_find_first env entity (JObject [(field, v)])"

text \<open>Any error of the search counts as absence.\<close>

definition lite_upsert ::
    "('a, 't) lite_env \<Rightarrow> string \<Rightarrow> string \<Rightarrow> json \<Rightarrow> json \<Rightarrow> json \<Rightarrow> ('a, json) lite_op" where
  "lite_upsert env entity field v created updated st =
     (case lite_find_by_field env entity field v st of
        (Inl e, st') \<Rightarrow> (Inl e, st')
      | (Inr (Inl e), st') \<Rightarrow> lite_create env entity created st'
      | (Inr (Inr existing), st') \<Rightarrow>
          lite_bind (lite_lift (existing_id existing)) (\<lambda>i. lite_update env entity i updated) st')"

definition lite_entities :: "('a, 't) lite_env \<Rightarrow> ('a, string list) lite_op" where
  "lite_entities env = lite_ret (map fst (le_schemas env))"

definition lite_schema_of :: "('a, 't) lite_env \<Rightarrow> string \<Rightarrow> ('a, entity_schema) lite_op" where
  "lite_schema_of env entity = lite_entity env entity (\<lambda>schema. lite_ret (convertToAdapterSchema schema))"

section \<open>Transactions and the connection\<close>

text \<open>The connection that was closed is null, which \<^verbatim>\<open>sqlite3_exec\<close> refuses with \<^verbatim>\<open>SQLITE_MISUSE\<close>.\<close>

definition executeTransactionStatement :: "('a, 't) sqlite_api \<Rightarrow> string \<Rightarrow> ('a, bool) lite_op" where
  "executeTransactionStatement api sql st =
     (let failed = (\<lambda>message. lite_err (internal_error (''Transaction statement failed: ''
            @ (case message of None \<Rightarrow> [] | Some m \<Rightarrow> m)))) in
      if \<not> ls_open st then failed None st
      else lite_bind (on_db (qa_exec api sql)) (\<lambda>(rc, message).
        if rc \<noteq> SQLITE_OK then failed message else lite_ret True) st)"

definition tx_flag :: "bool \<Rightarrow> ('a, bool) lite_op \<Rightarrow> ('a, bool) lite_op" where
  "tx_flag b m = lite_bind m (\<lambda>x st. lite_ret x (st\<lparr>ls_tx := b\<rparr>))"

definition lite_begin :: "('a, 't) lite_env \<Rightarrow> ('a, bool) lite_op" where
  "lite_begin env st =
     (if ls_tx st then lite_err (internal_error ''Transaction already in progress'') st
      else tx_flag True (executeTransactionStatement (le_api env) ''BEGIN TRANSACTION'') st)"

definition lite_commit :: "('a, 't) lite_env \<Rightarrow> ('a, bool) lite_op" where
  "lite_commit env st =
     (if \<not> ls_tx st then lite_err (internal_error ''No transaction in progress'') st
      else tx_flag False (executeTransactionStatement (le_api env) ''COMMIT'') st)"

definition lite_rollback :: "('a, 't) lite_env \<Rightarrow> ('a, bool) lite_op" where
  "lite_rollback env st =
     (if \<not> ls_tx st then lite_err (internal_error ''No transaction in progress'') st
      else tx_flag False (executeTransactionStatement (le_api env) ''ROLLBACK'') st)"

definition lite_savepoint :: "('a, 't) lite_env \<Rightarrow> string \<Rightarrow> ('a, bool) lite_op" where
  "lite_savepoint env name = executeTransactionStatement (le_api env) (''SAVEPOINT '' @ name)"

definition lite_release :: "('a, 't) lite_env \<Rightarrow> string \<Rightarrow> ('a, bool) lite_op" where
  "lite_release env name = executeTransactionStatement (le_api env) (''RELEASE SAVEPOINT '' @ name)"

definition lite_rollback_to :: "('a, 't) lite_env \<Rightarrow> string \<Rightarrow> ('a, bool) lite_op" where
  "lite_rollback_to env name = executeTransactionStatement (le_api env) (''ROLLBACK TO SAVEPOINT '' @ name)"

text \<open>What a guard does when it is destroyed.\<close>

definition lite_guard_end :: "('a, 't) lite_env \<Rightarrow> bool \<Rightarrow> ('a, unit) lite_op" where
  "lite_guard_end env committed st =
     (if \<not> committed \<and> ls_tx st then
        (case lite_rollback env st of (Inl e, st') \<Rightarrow> (Inl e, st') | (Inr _, st') \<Rightarrow> lite_ret () st')
      else lite_ret () st)"

definition executePragma :: "('a, 't) sqlite_api \<Rightarrow> string \<Rightarrow> ('a, bool) lite_op" where
  "executePragma api pragma st =
     (if \<not> ls_open st then lite_err (internal_error ''Database not open'') st
      else lite_bind (on_db (qa_exec api pragma)) (\<lambda>(rc, message).
        if rc \<noteq> SQLITE_OK then lite_err (internal_error (''Failed to execute pragma: ''
          @ (case message of None \<Rightarrow> [] | Some m \<Rightarrow> m)))
        else lite_ret True) st)"

definition connection_pragmas :: "string list" where
  "connection_pragmas = [''PRAGMA foreign_keys = ON'', ''PRAGMA journal_mode = WAL'',
     ''PRAGMA synchronous = NORMAL'', ''PRAGMA temp_store = MEMORY'']"

text \<open>A pragma that fails is only reported.\<close>

definition configurePragmas :: "('a, 't) sqlite_api \<Rightarrow> 'a lite_state \<Rightarrow> 'a lite_state" where
  "configurePragmas api st = fold (\<lambda>p st. snd (executePragma api p st)) connection_pragmas st"

definition lite_close :: "('a, 't) lite_env \<Rightarrow> 'a lite_state \<Rightarrow> 'a lite_state" where
  "lite_close env st =
     (if ls_open st then st\<lparr>ls_db := qa_close (le_api env) (ls_db st), ls_open := False\<rparr> else st)"

section \<open>The interface\<close>

text \<open>The interface forgets the state of an operation that throws.\<close>

definition as_lite_op :: "('a, 'x) lite_op \<Rightarrow> 'a lite_state \<Rightarrow> exn + 'x result \<times> 'a lite_state" where
  "as_lite_op m st = (case m st of (Inl e, st') \<Rightarrow> Inl e | (Inr r, st') \<Rightarrow> Inr (r, st'))"

definition sqlite_adapter :: "('a, 't) lite_env \<Rightarrow> ('a lite_state, entity_schema) rest_adapter" where
  "sqlite_adapter env = \<lparr>
     ba_create = (\<lambda>e data. as_lite_op (lite_create env e data)),
     ba_read = (\<lambda>e i. as_lite_op (lite_read env e i)),
     ba_read_sensitive = (\<lambda>e i. as_lite_op (lite_read env e i)),
     ba_search = (\<lambda>e query n. as_lite_op (lite_err no_search)),
     ba_update = (\<lambda>e i data. as_lite_op (lite_update env e i data)),
     ba_remove = (\<lambda>e i. as_lite_op (lite_remove env e i)),
     ba_list = (\<lambda>e opts. as_lite_op (lite_list env e opts)),
     ba_create_many = (\<lambda>e records. as_lite_op (lite_create_many env e records)),
     ba_update_many = (\<lambda>e flt data. as_lite_op (lite_update_many env e flt data)),
     ba_delete_many = (\<lambda>e flt. as_lite_op (lite_delete_many env e flt)),
     ba_find_first = (\<lambda>e flt. as_lite_op (lite_find_first env e flt)),
     ba_find_by_field = (\<lambda>e f v. as_lite_op (lite_find_by_field env e f v)),
     ba_upsert = (\<lambda>e f v c u. as_lite_op (lite_upsert env e f v c u)),
     ba_entities = as_lite_op (lite_entities env),
     ba_schema = (\<lambda>e. as_lite_op (lite_schema_of env e)),
     ba_close = (\<lambda>st. Inr ((), lite_close env st)),
     ba_native = (\<lambda>st. True),
     ba_begin = as_lite_op (lite_begin env),
     ba_commit = as_lite_op (lite_commit env),
     ba_rollback = as_lite_op (lite_rollback env)\<rparr>"

end
