(* ===== verification/Sqlite_Properties.thy ===== *)
theory Sqlite_Properties
  imports Sqlite_Adapter Rest_Properties
begin

text \<open>
  What holds of the adapter for SQLite: as many values as placeholders in a list statement, the
  transaction that undoes a bulk create, and two ways in which it guards less than the
  relational adapter: it shows columns that the schema marks as sensitive, and it puts the names of
  filters into its statements unchecked.
\<close>

section \<open>A database to try\<close>

text \<open>A table of records with an \<^verbatim>\<open>id\<close>, and the contents when the transaction began.\<close>

type_synonym demo_base = "lite_row list \<times> lite_row list option"

definition text_cell :: "string \<Rightarrow> lite_cell" where
  "text_cell s = \<lparr>ce_type = Text_cell, ce_int = 0, ce_int64 = 0, ce_double = 0, ce_text = Some s\<rparr>"

definition demo_run :: "string \<times> string option list \<Rightarrow> demo_base \<Rightarrow> (lite_row list \<times> int) \<times> demo_base" where
  "demo_run t db =
     (if prefix ''SELECT'' (fst t) then ((fst db, SQLITE_DONE), db)
      else case snd t of
        Some v # _ \<Rightarrow> if v = ''bad'' then (([], 19), db)
          else (([], SQLITE_DONE), ([(Some ''id'', text_cell v), (Some ''secret'', text_cell ''s'')] # fst db, snd db))
      | _ \<Rightarrow> (([], SQLITE_DONE), db))"

definition demo_exec :: "string \<Rightarrow> demo_base \<Rightarrow> (int \<times> string option) \<times> demo_base" where
  "demo_exec sql db =
     (if sql = ''BEGIN TRANSACTION'' then ((SQLITE_OK, None), (fst db, Some (fst db)))
      else if sql = ''ROLLBACK'' then
        (case snd db of None \<Rightarrow> ((1, None), db) | Some rows \<Rightarrow> ((SQLITE_OK, None), (rows, None)))
      else ((SQLITE_OK, None), (fst db, None)))"

definition demo_api :: "(demo_base, string \<times> string option list) sqlite_api" where
  "demo_api = \<lparr>qa_prepare = (\<lambda>sql db. ((SQLITE_OK, (sql, [])), db)),
     qa_bind = (\<lambda>t i v db. ((SQLITE_OK, (fst t, snd t @ [v])), db)),
     qa_bind_int = (\<lambda>t i n db. ((SQLITE_OK, t), db)), qa_run = demo_run, qa_exec = demo_exec,
     qa_errmsg = (\<lambda>db. ''constraint failed''), qa_rowid = (\<lambda>db. int (length (fst db))),
     qa_changes = (\<lambda>db. 1), qa_close = (\<lambda>db. db)\<rparr>"

definition demo_account :: entity_def where
  "demo_account = \<lparr>en_name = ''Account'', en_version = ''1.0'', en_description = [],
     en_fields = [empty_field\<lparr>fd_name := ''id'', fd_type := ''string'', fd_primary := True\<rparr>,
                  empty_field\<lparr>fd_name := ''secret'', fd_type := ''string'', fd_sensitive := True\<rparr>],
     en_indexes = [], en_relations = [], en_query = default_query\<rparr>"

definition demo_lite :: "(demo_base, string \<times> string option list) lite_env" where
  "demo_lite = \<lparr>le_api = demo_api, le_schemas = lite_schemas [demo_account],
     le_dump = (\<lambda>j. Inr []), le_parse = (\<lambda>s. Inr None)\<rparr>"

definition demo_connection :: "lite_row list \<Rightarrow> demo_base lite_state" where
  "demo_connection rows = \<lparr>ls_db = (rows, None), ls_open = True, ls_tx = False\<rparr>"

section \<open>Placeholders\<close>

abbreviation marks :: "string \<Rightarrow> nat" where
  "marks s \<equiv> count_list s CHR ''?''"

definition plain_name :: "string \<Rightarrow> bool" where
  "plain_name k \<longleftrightarrow> CHR ''?'' \<notin> set k"

definition plain_condition :: "filter_condition \<Rightarrow> bool" where
  "plain_condition c \<longleftrightarrow> plain_name (fc_field c) \<and> (fc_op c = Between \<longrightarrow> 2 \<le> length (fc_values c))"

definition plain_schema :: "lite_schema \<Rightarrow> bool" where
  "plain_schema schema \<longleftrightarrow> plain_name (lt_name schema) \<and> list_all (\<lambda>f. plain_name (lf_name f)) (lt_fields schema)"

definition plain_options :: "rich_options \<Rightarrow> bool" where
  "plain_options opts \<longleftrightarrow>
     list_all (\<lambda>(k, v). plain_name k) (lo_filter opts) \<and> list_all (\<lambda>(k, v). plain_name k) (lo_sort opts) \<and>
     list_all plain_condition (ro_conditions opts) \<and> list_all (list_all plain_condition) (ro_groups opts) \<and>
     list_all plain_name (ro_group_by opts) \<and>
     list_all (\<lambda>a. plain_name (ag_field a) \<and> plain_name (ag_alias a)) (ro_aggregates opts)"

lemma marks_join: "CHR ''?'' \<notin> set sep \<Longrightarrow> marks (join xs sep) = (\<Sum>x\<leftarrow>xs. marks x)"
  by (induction xs sep rule: join.induct) (auto simp: count_notin)

lemma marks_join_zero: "CHR ''?'' \<notin> set sep \<Longrightarrow> (\<And>x. x \<in> set xs \<Longrightarrow> marks x = 0) \<Longrightarrow> marks (join xs sep) = 0"
  by (simp add: marks_join)

lemma marks_quote [simp]: "plain_name k \<Longrightarrow> marks (lite_quote k) = 0"
  by (simp add: plain_name_def lite_quote_def dq_def count_notin)

lemma marks_equal: "plain_name k \<Longrightarrow> marks (lite_equal k) = 1"
  by (simp add: lite_equal_def)

lemma marks_marks: "marks (join (map (\<lambda>_. ''?'') vs) '', '') = length vs"
  by (simp add: marks_join comp_def sum_list_triv)

lemma marks_condition: "plain_condition c \<Longrightarrow> marks (lite_condition c) = length (condition_values c)"
  by (cases "fc_op c"; cases "fc_values c" rule: remdups_adj.cases)
    (auto simp: plain_condition_def lite_condition_def condition_values_def Let_def marks_marks simp del: list.map)

lemma marks_conditions:
  "list_all plain_condition cs \<Longrightarrow>
     (\<Sum>c\<leftarrow>cs. marks (lite_condition c)) = length (concat (map condition_values cs))"
  by (induction cs) (simp_all add: marks_condition)

lemma marks_group: "list_all plain_condition g \<Longrightarrow> marks (lite_group g) = length (concat (map condition_values g))"
  by (simp add: lite_group_def marks_join marks_conditions comp_def)

lemma marks_groups:
  "list_all (list_all plain_condition) gs \<Longrightarrow>
     (\<Sum>g\<leftarrow>filter (\<lambda>g. g \<noteq> []) gs. marks (lite_group g)) = length (concat (map (\<lambda>g. concat (map condition_values g)) gs))"
  by (induction gs) (simp_all add: marks_group)

lemma marks_legacy:
  "list_all (\<lambda>(k, v). plain_name k) m \<Longrightarrow> (\<Sum>p\<leftarrow>m. marks (case p of (k, v) \<Rightarrow> lite_equal k)) = length m"
  by (induction m) (auto simp: marks_equal)

lemma marks_fragments: "plain_options opts \<Longrightarrow> (\<Sum>x\<leftarrow>list_fragments opts. marks x) = length (count_values opts)"
  by (simp add: plain_options_def list_fragments_def count_values_def marks_legacy marks_conditions marks_groups comp_def)

lemma marks_where: "plain_options opts \<Longrightarrow> marks (list_where opts) = length (count_values opts)"
  using marks_fragments [of opts] by (auto simp: list_where_def marks_join)

lemma marks_group_by: "plain_options opts \<Longrightarrow> marks (list_group_by opts) = 0"
  by (auto simp: plain_options_def list_group_by_def list_all_iff intro!: marks_join_zero)

lemma marks_order: "plain_options opts \<Longrightarrow> marks (list_order opts) = 0"
  by (fastforce simp: plain_options_def list_order_def list_all_iff intro!: marks_join_zero marks_quote)

lemma marks_agg_name: "marks (agg_name f) = 0"
  by (cases f) simp_all

lemma marks_selection: "plain_schema schema \<Longrightarrow> plain_options opts \<Longrightarrow> marks (list_selection schema opts) = 0"
  by (auto simp: plain_schema_def plain_options_def list_selection_def lite_field_list_def list_all_iff marks_agg_name
      intro!: marks_join_zero)

text \<open>
  The values of a list meet its placeholders.  When no name in the schema or the options holds a question
  mark and every \<^verbatim>\<open>BETWEEN\<close> has its two values, the statement of a list on SQLite has exactly as many
  placeholders as values are bound to it, those of the filter, the conditions, the groups, and the last
  two for the page.
\<close>

theorem sqlite_list_values_meet_marks:
  assumes "plain_schema schema" "plain_options opts" "list_values opts = Inr vs"
  shows "length vs = marks (lite_list_sql schema opts)"
  using assms
  by (auto simp: lite_list_sql_def list_values_def marks_where marks_group_by marks_order marks_selection plain_schema_def
      split: option.split_asm)

definition demo_options :: rich_options where
  "demo_options = default_rich_options\<lparr>lo_filter := [(''tenantId'', ''acme'')],
     ro_conditions := [\<lparr>fc_field = ''age'', fc_op = Between, fc_value = [], fc_values = [''1'', ''9'']\<rparr>],
     ro_groups := [[], [\<lparr>fc_field = ''a'', fc_op = In, fc_value = [], fc_values = [''x'', ''y'']\<rparr>,
                       \<lparr>fc_field = ''b'', fc_op = IsNull, fc_value = [], fc_values = []\<rparr>]]\<rparr>"

theorem sqlite_list_values_meet_marks_witness:
  "marks (lite_list_sql (entityDefToSchema demo_account) demo_options) = 7"
proof -
  have v: "list_values demo_options = Inr [''acme'', ''1'', ''9'', ''x'', ''y'', ''20'', ''0'']" by code_simp
  have "plain_schema (entityDefToSchema demo_account)" "plain_options demo_options" by code_simp+
  from sqlite_list_values_meet_marks [OF this v] show ?thesis by simp
qed

section \<open>The transaction of a bulk create\<close>

text \<open>
  What SQLite documents of transactions: \<^verbatim>\<open>BEGIN\<close> saves the contents, \<^verbatim>\<open>ROLLBACK\<close> brings them back, and
  preparing, binding and running other statements leaves the transaction alone.
\<close>

definition transactional :: "('a, 't) sqlite_api \<Rightarrow> ('a \<Rightarrow> 'c) \<Rightarrow> ('a \<Rightarrow> 'c option) \<Rightarrow> bool" where
  "transactional api content saved \<longleftrightarrow>
     (\<forall>sql db. saved (snd (qa_prepare api sql db)) = saved db) \<and>
     (\<forall>t i v db. saved (snd (qa_bind api t i v db)) = saved db) \<and>
     (\<forall>t i n db. saved (snd (qa_bind_int api t i n db)) = saved db) \<and>
     (\<forall>t db. saved (snd (qa_run api t db)) = saved db) \<and>
     (\<forall>db m db'. qa_exec api ''BEGIN TRANSACTION'' db = ((SQLITE_OK, m), db') \<longrightarrow> saved db' = Some (content db)) \<and>
     (\<forall>db m db' c. qa_exec api ''ROLLBACK'' db = ((SQLITE_OK, m), db') \<longrightarrow> saved db = Some c \<longrightarrow> content db' = c)"

text \<open>Operations that leave the transaction alone.\<close>

definition undisturbed :: "('a \<Rightarrow> 'c option) \<Rightarrow> ('a, 'x) lite_op \<Rightarrow> bool" where
  "undisturbed saved m \<longleftrightarrow>
     (\<forall>st r st'. m st = (r, st') \<longrightarrow> saved (ls_db st') = saved (ls_db st) \<and> ls_tx st' = ls_tx st)"

lemma undisturbedD:
  "undisturbed saved m \<Longrightarrow> m st = (r, st') \<Longrightarrow> saved (ls_db st') = saved (ls_db st) \<and> ls_tx st' = ls_tx st"
  unfolding undisturbed_def by blast

lemma undisturbed_bind:
  assumes "undisturbed saved m" "\<And>x. undisturbed saved (f x)"
  shows "undisturbed saved (lite_bind m f)"
  unfolding undisturbed_def
proof (intro allI impI)
  fix st r st'
  assume run: "lite_bind m f st = (r, st')"
  obtain q st1 where m: "m st = (q, st1)" by (cases "m st")
  show "saved (ls_db st') = saved (ls_db st) \<and> ls_tx st' = ls_tx st"
    using run undisturbedD [OF assms(1) m] undisturbedD [OF assms(2)] m
    by (auto simp: lite_bind_def split: sum.split_asm)
qed

lemma undisturbed_pure [intro]:
  "undisturbed saved (lite_ret x)" "undisturbed saved (lite_err e)" "undisturbed saved (lite_lift r)"
  "undisturbed saved (failed_with api code context)"
  by (simp_all add: undisturbed_def lite_ret_def lite_err_def lite_lift_def failed_with_def)

lemma undisturbed_on_db: "(\<And>db. saved (snd (f db)) = saved db) \<Longrightarrow> undisturbed saved (on_db f)"
  by (auto simp: undisturbed_def on_db_def split: prod.splits) (metis snd_conv)

lemma undisturbed_if: "undisturbed saved m \<Longrightarrow> undisturbed saved n \<Longrightarrow> undisturbed saved (if b then m else n)"
  by simp

text \<open>Steps that look at the state.\<close>

lemma undisturbed_cond:
  "undisturbed saved m \<Longrightarrow> undisturbed saved n \<Longrightarrow> undisturbed saved (\<lambda>st. if P st then m st else n st)"
  unfolding undisturbed_def by auto

lemma undisturbed_read:
  "undisturbed saved (\<lambda>st. lite_ret (g st) st)" "undisturbed saved (\<lambda>st. lite_err (h st) st)"
  by (simp_all add: undisturbed_def lite_ret_def lite_err_def)

lemmas undisturbed_rules = undisturbed_pure undisturbed_read undisturbed_bind undisturbed_if undisturbed_cond

lemma api_calls:
  assumes "transactional api content saved"
  shows "undisturbed saved (on_db (qa_prepare api sql))" "undisturbed saved (on_db (qa_bind api t i v))"
    "undisturbed saved (on_db (qa_bind_int api t i n))" "undisturbed saved (on_db (qa_run api t))"
  using assms by (simp_all add: transactional_def undisturbed_on_db)

lemma undisturbed_prepare:
  assumes "transactional api content saved"
  shows "undisturbed saved (prepareLocked api sql)"
  unfolding prepareLocked_def
  by (intro undisturbed_rules api_calls [OF assms]) (auto intro!: undisturbed_rules)

lemma undisturbed_parameters:
  assumes "transactional api content saved"
  shows "undisturbed saved (bindParameters api t vs i)"
proof (induction vs arbitrary: t i)
  case (Cons v vs)
  then show ?case
    by (auto intro!: undisturbed_bind undisturbed_rules api_calls [OF assms])
qed (simp add: undisturbed_pure)

lemma undisturbed_insert:
  assumes "transactional api content saved"
  shows "undisturbed saved (executeInsert api sql vs)"
  unfolding executeInsert_def executed_once_def executeSelect_def
  by (intro undisturbed_rules api_calls [OF assms] undisturbed_prepare [OF assms] undisturbed_parameters [OF assms])

lemma undisturbed_inserted:
  assumes "transactional (le_api env) content saved"
  shows "undisturbed saved (readInsertedRecord env schema rowid)"
  unfolding readInsertedRecord_def
  by (intro undisturbed_rules api_calls [OF assms])
    (auto intro!: undisturbed_rules api_calls [OF assms] split: list.split)

lemma undisturbed_create:
  assumes "transactional (le_api env) content saved"
  shows "undisturbed saved (lite_create env entity data)"
  unfolding lite_create_def lite_entity_def
  by (auto split: option.split
      intro!: undisturbed_rules undisturbed_insert [OF assms] undisturbed_inserted [OF assms])

lemma as_lite_op_Inr: "as_lite_op m st = Inr (r, st') \<longleftrightarrow> m st = (Inr r, st')"
  by (auto simp: as_lite_op_def split: prod.splits sum.splits)

lemma created_undisturbed:
  assumes "transactional (le_api env) content saved" "ba_create (sqlite_adapter env) e data st = Inr (r, st')"
  shows "saved (ls_db st') = saved (ls_db st) \<and> ls_tx st' = ls_tx st"
  using undisturbedD [OF undisturbed_create [OF assms(1)]] assms(2) by (simp add: sqlite_adapter_def as_lite_op_Inr)

lemma creates_undisturbed:
  "creates ad e st made st' \<Longrightarrow> ad = sqlite_adapter env \<Longrightarrow> transactional (le_api env) content saved \<Longrightarrow>
     saved (ls_db st') = saved (ls_db st) \<and> ls_tx st' = ls_tx st"
  by (induction rule: creates.induct) (auto dest: created_undisturbed)

lemma lite_begin_saved:
  assumes "transactional (le_api env) content saved" "lite_begin env st = (Inr (Inr b), st')"
  shows "saved (ls_db st') = Some (content (ls_db st)) \<and> ls_tx st'"
  using assms
  by (auto simp: lite_begin_def tx_flag_def executeTransactionStatement_def lite_bind_def on_db_def lite_err_def
      lite_ret_def Let_def transactional_def split: if_split_asm sum.split_asm prod.split_asm)

lemma lite_rollback_restored:
  assumes "transactional (le_api env) content saved" "lite_rollback env st = (Inr r, st')"
    "ls_tx st" "\<not> ls_tx st'" "saved (ls_db st) = Some c"
  shows "content (ls_db st') = c"
  using assms
  by (auto simp: lite_rollback_def tx_flag_def executeTransactionStatement_def lite_bind_def on_db_def lite_err_def
      lite_ret_def Let_def transactional_def split: if_split_asm sum.split_asm prod.split_asm)

text \<open>
  C24: on SQLite a bulk create that fails leaves nothing behind.  When the database keeps the contents it had at
  \<^verbatim>\<open>BEGIN TRANSACTION\<close> and brings them back on \<^verbatim>\<open>ROLLBACK\<close>, a bulk create of items over HTTP that is
  answered with \<^verbatim>\<open>400\<close> leaves the contents as they were before the request, provided the manager
  reports no transaction afterwards, so that the rollback was carried out.
\<close>

theorem sqlite_bulk_create_undone:
  assumes "transactional (le_api env) content saved"
    "handle_bulk_create (sqlite_adapter env) route (JArray items) st = Sent (Failure m 400) (Some st')"
    "items \<noteq> []" "\<not> ls_tx st'"
  shows "content (ls_db st') = content (ls_db st)"
proof -
  obtain b c made data e st1 st2 st3 where run:
      "ba_begin (sqlite_adapter env) st = Inr (Inr b, st1)"
      "creates (sqlite_adapter env) (ri_entity route) st1 made st2"
      "ba_create (sqlite_adapter env) (ri_entity route) data st2 = Inr (Inl e, st3)"
      "ba_rollback (sqlite_adapter env) st3 = Inr (c, st')"
    using bulk_create_cases [OF assms(2,3)] by (auto simp: bulk_answer_def)
  have "saved (ls_db st1) = Some (content (ls_db st)) \<and> ls_tx st1"
    using run(1) lite_begin_saved [OF assms(1)] by (simp add: sqlite_adapter_def as_lite_op_Inr)
  then have "saved (ls_db st3) = Some (content (ls_db st))" "ls_tx st3"
    using creates_undisturbed [OF run(2) refl assms(1)] created_undisturbed [OF assms(1) run(3)] by auto
  then show ?thesis
    using run(4) assms(4) lite_rollback_restored [OF assms(1)] by (auto simp: sqlite_adapter_def as_lite_op_Inr)
qed

lemma demo_transactional: "transactional demo_api fst snd"
  by (auto simp: transactional_def demo_api_def demo_run_def demo_exec_def split: option.split list.split if_split_asm option.split_asm)

definition demo_rows :: "lite_row list" where
  "demo_rows = [[(Some ''id'', text_cell ''1''), (Some ''secret'', text_cell ''s'')]]"

lemma demo_refused:
  "\<exists>m. handle_bulk_create (sqlite_adapter demo_lite) (parseRoute ''/acme/core/Account'')
     (JArray [JObject [(''id'', JString ''2'')], JObject [(''id'', JString ''bad'')]]) (demo_connection demo_rows) =
   Sent (Failure m 400) (Some (demo_connection demo_rows))"
  by (rule exI [of _ "''Bulk create failed at item 1: Failed to execute insert: constraint failed''"]) code_simp

theorem sqlite_bulk_create_undone_witness:
  "\<exists>m. handle_bulk_create (sqlite_adapter demo_lite) (parseRoute ''/acme/core/Account'')
     (JArray [JObject [(''id'', JString ''2'')], JObject [(''id'', JString ''bad'')]]) (demo_connection demo_rows) =
     Sent (Failure m 400) (Some (demo_connection demo_rows)) \<and>
   fst (ls_db (demo_connection demo_rows)) = demo_rows"
proof -
  obtain m where m: "handle_bulk_create (sqlite_adapter demo_lite) (parseRoute ''/acme/core/Account'')
     (JArray [JObject [(''id'', JString ''2'')], JObject [(''id'', JString ''bad'')]]) (demo_connection demo_rows) =
     Sent (Failure m 400) (Some (demo_connection demo_rows))"
    using demo_refused by blast
  have "transactional (le_api demo_lite) fst snd" by (simp add: demo_lite_def demo_transactional)
  from sqlite_bulk_create_undone [OF this m] m show ?thesis
    by (auto simp: demo_connection_def)
qed

section \<open>What is not guarded\<close>

lemma jcontains_jset: "jcontains (jset k v j) x \<longleftrightarrow> x = k \<or> jcontains j x"
  by (cases j) (auto simp: jcontains_def)

lemma cells_shown:
  assumes "cells_to_json parse schema sensitive row j0 = Inr j" "\<forall>f \<in> set (lt_fields schema). \<not> lf_sensitive f"
    "jcontains j0 k \<or> Some k \<in> fst ` set row"
  shows "jcontains j k"
  using assms
proof (induction row arbitrary: j0)
  case (Cons kc row)
  obtain n c where kc: "kc = (n, c)" by (cases kc)
  show ?case
  proof (cases n)
    case (Some name)
    with Cons kc show ?thesis
      by (auto simp: jcontains_jset exn_bind_def field_named_def find_Some_iff all_set_conv_all_nth
          split: option.split_asm sum.split_asm if_split_asm)
  qed (use Cons kc in auto)
qed simp

lemma lite_bind_Inr:
  "lite_bind m f st = (Inr (Inr y), st') \<longleftrightarrow>
     (\<exists>x st1. m st = (Inr (Inr x), st1) \<and> f x st1 = (Inr (Inr y), st'))"
  by (auto simp: lite_bind_def split: prod.splits sum.splits)

lemma map_sum_id_Inr: "map_sum id Inr r = Inr v \<longleftrightarrow> (\<exists>x. r = Inr x \<and> v = Inr x)"
  by (cases r) auto

lemma on_db_Inr: "on_db f st = (Inr (Inr x), st') \<longleftrightarrow> (\<exists>db. f (ls_db st) = (x, db) \<and> st' = st\<lparr>ls_db := db\<rparr>)"
  by (auto simp: on_db_def split: prod.splits)

lemma readAllRows_run:
  assumes "readAllRows env schema stmt st = (Inr (Inr js), st')"
  shows "\<exists>db rows code db'. qa_run (le_api env) stmt db = ((rows, code), db') \<and>
    exn_list (lite_row_json (le_parse env) schema) rows = Inr js"
proof -
  obtain rows code db' where r: "qa_run (le_api env) stmt (ls_db st) = ((rows, code), db')"
      "lite_bind (lite_lift (exn_list (lite_row_json (le_parse env) schema) rows)) (\<lambda>js st.
        if code \<noteq> SQLITE_DONE then
          lite_err (internal_error (''Failed to read rows: ''
            @ (if ls_open st then qa_errmsg (le_api env) (ls_db st) else []))) st
        else lite_ret js st) (st\<lparr>ls_db := db'\<rparr>) = (Inr (Inr js), st')"
    using assms by (auto simp: readAllRows_def lite_bind_Inr [of "on_db f" for f] on_db_Inr)
  then show ?thesis
    by (auto simp: lite_bind_Inr lite_lift_def lite_ret_def lite_err_def map_sum_id_Inr split: if_split_asm)
qed

lemma lite_list_rows:
  assumes "lite_list env entity opts st = (Inr (Inr l), st')"
  shows "\<exists>schema stmt st1 st2. map_of (le_schemas env) entity = Some schema \<and>
    readAllRows env schema stmt st1 = (Inr (Inr (lr_items l)), st2)"
proof -
  obtain schema where s: "map_of (le_schemas env) entity = Some schema"
    using assms by (auto simp: lite_list_def lite_entity_def lite_err_def split: option.split_asm)
  have "lite_bind (lite_counted env schema opts) (\<lambda>n.
     lite_bind (lite_lift (list_values opts)) (\<lambda>vs.
     lite_bind (executeSelect (le_api env) (lite_list_sql schema opts) vs) (\<lambda>stmt.
     lite_bind (readAllRows env schema stmt) (\<lambda>items.
       lite_ret \<lparr>lr_items = items, lr_total = (if n > 0 then n else size_to_int (length items)),
         lr_page = lo_page opts, lr_limit = list_limit opts\<rparr>)))) st = (Inr (Inr l), st')"
    using assms by (simp add: lite_list_def lite_entity_def s)
  then obtain n stmt st3 items st4 where
      "readAllRows env schema stmt st3 = (Inr (Inr items), st4)"
      "lite_ret \<lparr>lr_items = items, lr_total = (if n > 0 then n else size_to_int (length items)),
         lr_page = lo_page opts, lr_limit = list_limit opts\<rparr> st4 = (Inr (Inr l), st')"
    unfolding lite_bind_Inr by blast
  then show ?thesis using s by (auto simp: lite_ret_def intro!: exI)
qed

lemma exn_list_rows: "exn_list f xs = Inr ys \<Longrightarrow> list_all2 (\<lambda>x y. f x = Inr y) xs ys"
  by (induction xs arbitrary: ys) (auto simp: exn_bind_def split: sum.split_asm)

lemma lite_schemas_fold:
  "map_of (fold (\<lambda>e. om_put (en_name e) (entityDefToSchema e)) es m) k = Some schema \<Longrightarrow>
     map_of m k = Some schema \<or> (\<exists>e \<in> set es. schema = entityDefToSchema e)"
proof (induction es arbitrary: m)
  case (Cons e es)
  from Cons.IH [of "om_put (en_name e) (entityDefToSchema e) m"] Cons.prems show ?case
    by (auto simp: om_find_put split: if_split_asm)
qed simp

lemma lite_schemas_open:
  assumes "map_of (lite_schemas es) k = Some schema" "f \<in> set (lt_fields schema)"
  shows "\<not> lf_sensitive f"
  using lite_schemas_fold [of es "[]" k schema] assms
  by (auto simp: lite_schemas_def entityDefToSchema_def lite_field_of_def)

text \<open>
  On SQLite no column is withheld, not even one that the schema marks as sensitive.  Whatever the
  definitions of the entities say, the records that a list returns, which go to the caller of the HTTP
  interface, have every column that the rows of the statement have.  The relational adapter leaves
  sensitive columns out; here the flag is lost when the definition is made into the adapter's schema.
\<close>

theorem sqlite_withholds_nothing:
  assumes "le_schemas env = lite_schemas es" "lite_list env entity opts st = (Inr (Inr l), st')"
  shows "\<exists>stmt db rows code db'. qa_run (le_api env) stmt db = ((rows, code), db') \<and>
    list_all2 (\<lambda>row j. \<forall>k. Some k \<in> fst ` set row \<longrightarrow> jcontains j k) rows (lr_items l)"
proof -
  obtain schema stmt st1 st2 where s: "map_of (le_schemas env) entity = Some schema"
      "readAllRows env schema stmt st1 = (Inr (Inr (lr_items l)), st2)"
    using lite_list_rows [OF assms(2)] by blast
  obtain db rows code db' where r: "qa_run (le_api env) stmt db = ((rows, code), db')"
      "exn_list (lite_row_json (le_parse env) schema) rows = Inr (lr_items l)"
    using readAllRows_run [OF s(2)] by blast
  have shown: "jcontains j k" if "lite_row_json (le_parse env) schema row = Inr j" "Some k \<in> fst ` set row" for row j k
  proof (rule cells_shown [OF that(1) [unfolded lite_row_json_def]])
    show "\<forall>f \<in> set (lt_fields schema). \<not> lf_sensitive f"
      using lite_schemas_open [of es entity schema] s(1) assms(1) by simp
  qed (use that(2) in simp)
  have "list_all2 (\<lambda>row j. \<forall>k. Some k \<in> fst ` set row \<longrightarrow> jcontains j k) rows (lr_items l)"
    by (rule list_all2_mono [OF exn_list_rows [OF r(2)]]) (simp add: shown)
  with r(1) show ?thesis by (intro exI conjI)
qed

theorem sqlite_withholds_nothing_witness:
  "\<exists>l. lite_list demo_lite ''Account'' default_rich_options (demo_connection demo_rows) =
       (Inr (Inr l), demo_connection demo_rows) \<and> list_all (\<lambda>j. jcontains j ''secret'') (lr_items l) \<and>
     fd_sensitive (en_fields demo_account ! 1)"
proof -
  have shown: "lite_list demo_lite ''Account'' default_rich_options (demo_connection demo_rows) =
      (Inr (Inr \<lparr>lr_items = [JObject [(''id'', JString ''1''), (''secret'', JString ''s'')]],
        lr_total = 1, lr_page = 1, lr_limit = 20\<rparr>), demo_connection demo_rows)"
    by code_simp
  have "le_schemas demo_lite = lite_schemas [demo_account]" by (simp add: demo_lite_def)
  from sqlite_withholds_nothing [OF this shown]
  obtain stmt db rows code db' where r: "qa_run (le_api demo_lite) stmt db = ((rows, code), db')"
      "list_all2 (\<lambda>row j. \<forall>k. Some k \<in> fst ` set row \<longrightarrow> jcontains j k) rows
         [JObject [(''id'', JString ''1''), (''secret'', JString ''s'')]]"
    by auto
  from shown show ?thesis by (auto simp: jcontains_def demo_account_def)
qed

section \<open>Names in statements\<close>

definition injected_name :: string where
  "injected_name = ''id'' @ [CHR 0x22] @ '' IS NOT NULL OR '' @ [CHR 0x22] @ ''id''"

lemma injected_before: "\<not> ''tenantId'' < injected_name" "''tenantId'' \<noteq> injected_name"
  by (simp_all add: injected_name_def)

text \<open>
  The name of a filter becomes part of the statement.  With the query parameter \<^verbatim>\<open>filter.\<close> followed
  by a name that closes the quotes, the condition of a list on SQLite under any tenant reads
  \<^verbatim>\<open>"id" IS NOT NULL OR "id" = ? AND "tenantId" = ?\<close>, which holds of the rows of every tenant because
  \<^verbatim>\<open>AND\<close> binds tighter, where the relational adapter refuses a name that is no field.
\<close>

theorem sqlite_filter_key_injected:
  assumes "list_options_from tenant oj [(''filter.'' @ injected_name, v)] = Inr opts" "tenant \<noteq> []"
  shows "list_where opts = '' WHERE '' @ dq ''id'' @ '' IS NOT NULL OR '' @ dq ''id'' @ '' = ? AND '' @ dq ''tenantId'' @ '' = ?'' \<and>
    (\<forall>valid dialect. injected_name \<notin> valid \<longrightarrow>
      build (ro_conditions opts) (ro_groups opts) (lo_filter opts) valid dialect ([], 1) =
        Inl (Std_exception (''Unknown field: '' @ injected_name)))"
proof -
  have "parseFieldOp injected_name = (injected_name, ''eq'')" by code_simp
  then have "opts = default_rich_options\<lparr>lo_filter := [(injected_name, v), (''tenantId'', tenant)],
      lo_limit := json_int oj ''limit'' 20, lo_page := json_int oj ''page'' 1\<rparr>"
    using assms
    by (auto simp: list_options_from_def exn_bind_def scan_param_def scan_filter_def Let_def default_rich_options_def
        injected_before)
  then show ?thesis
    by (simp add: list_where_def list_fragments_def default_rich_options_def lite_equal_def lite_quote_def dq_def
        injected_name_def validateField_def build_def)
qed

theorem sqlite_filter_key_injected_witness:
  "\<exists>opts. list_options_from ''acme'' (JObject []) [(''filter.'' @ injected_name, ''x'')] = Inr opts \<and>
     list_where opts = '' WHERE '' @ dq ''id'' @ '' IS NOT NULL OR '' @ dq ''id'' @ '' = ? AND '' @ dq ''tenantId'' @ '' = ?''"
proof -
  have "list_options_from ''acme'' (JObject []) [(''filter.'' @ injected_name, ''x'')] =
      Inr (default_rich_options\<lparr>lo_filter := [(injected_name, ''x''), (''tenantId'', ''acme'')]\<rparr>)"
    by code_simp
  then show ?thesis using sqlite_filter_key_injected [of "''acme''" "JObject []" "''x''"] by blast
qed

end
