(* ===== verification/Sql_Migration.thy ===== *)
theory Sql_Migration
  imports Sqlite_Adapter
begin

text \<open>
  Making and migrating tables when an adapter starts: \<^verbatim>\<open>createTables\<close> and \<^verbatim>\<open>migrateTable\<close> of the relational
  adapter (\<^verbatim>\<open>src/adapters/sql/sql_adapter_schema.cpp\<close>) and of the one for SQLite
  (\<^verbatim>\<open>src/adapters/sqlite/sqlite_adapter_schema.cpp\<close>), with the statements of the template generator
  (\<^verbatim>\<open>src/adapters/sql_template_generator.hpp\<close>).  Rendering a template with its data is the library inja
  and a parameter; so is the template file, when there is one.
\<close>

section \<open>Definitions\<close>

text \<open>The statements that the generator renders.\<close>

definition line_end :: string where
  "line_end = [CHR 0x0A]"

definition column_template :: "table_dialect \<Rightarrow> string" where
  "column_template d =
     ''    '' @ table_quote d ''{{ field.name }}''
     @ '' {{ field.type }}{% if field.primary %} PRIMARY KEY{% endif %}{% if field.required and not field.primary %} NOT NULL{% endif %}''
     @ ''{% if field.unique and not field.primary %} UNIQUE{% endif %}''
     @ ''{% if existsIn(field, '' @ dq ''default'' @ '') %} DEFAULT {{ field.default }}{% endif %}''
     @ ''{% if existsIn(field, '' @ dq ''check'' @ '') %} {{ field.check }}{% endif %}''
     @ ''{% if not loop.is_last %},'' @ line_end @ ''{% endif %}''"

definition create_template :: "table_dialect \<Rightarrow> string" where
  "create_template d =
     ''CREATE TABLE IF NOT EXISTS '' @ table_quote d ''{{ table_name }}'' @ '' ('' @ line_end
     @ ''{% for field in fields %}'' @ column_template d @ ''{% endfor %}'' @ line_end @ '')''
     @ (if d = MySQL_Table then '' ENGINE=InnoDB DEFAULT CHARSET=utf8mb4 COLLATE=utf8mb4_unicode_ci'' else [])"

definition index_template :: "table_dialect \<Rightarrow> string" where
  "index_template d =
     ''CREATE {{ unique_keyword }}INDEX ''
     @ (if d = MySQL_Table then ''{{ name }}'' else ''IF NOT EXISTS '' @ dq ''{{ name }}'')
     @ '' ON '' @ table_quote d ''{{ table_name }}'' @ ''({% for f in fields %}'' @ table_quote d ''{{ f }}''
     @ ''{% if not loop.is_last %}, {% endif %}{% endfor %})''"

text \<open>\<open>tg_render\<close> is \<^verbatim>\<open>inja::Environment::render\<close>, \<open>tg_file\<close> the template file of a dialect.\<close>

record table_generator =
  tg_render :: "string \<Rightarrow> json \<Rightarrow> exn + string"
  tg_file :: "table_dialect \<Rightarrow> string option"

definition generateCreateTable :: "table_generator \<Rightarrow> table_dialect \<Rightarrow> entity_def \<Rightarrow> exn + string" where
  "generateCreateTable g d e =
     tg_render g (case tg_file g d of Some s \<Rightarrow> s | None \<Rightarrow> create_template d) (entityToJson d e)"

definition member_or_null :: "json \<Rightarrow> string \<Rightarrow> json" where
  "member_or_null j k = (case jget j k of None \<Rightarrow> JNull | Some v \<Rightarrow> v)"

definition index_data :: "json \<Rightarrow> json \<Rightarrow> json" where
  "index_data data ix =
     fold (\<lambda>(k, v). jset k v)
       [(''name'', member_or_null ix ''name''), (''fields'', member_or_null ix ''fields''),
        (''unique'', member_or_null ix ''unique''),
        (''unique_keyword'', JString (if member_or_null ix ''unique'' = JBool True then ''UNIQUE '' else []))] data"

definition generateIndexes :: "table_generator \<Rightarrow> table_dialect \<Rightarrow> entity_def \<Rightarrow> exn + string list" where
  "generateIndexes g d e =
     (let data = entityToJson d e in
      exn_list (\<lambda>ix. tg_render g (index_template d) (index_data data ix))
        (map (index_json e) (filter (index_needed e) (en_indexes e))))"

section \<open>The relational adapter\<close>

record existing_column =
  xc_nullable :: bool
  xc_type :: string

text \<open>The first of two names under which a server reports a column of its catalogue.\<close>

definition either_name :: "sql_row_map \<Rightarrow> string \<Rightarrow> string \<Rightarrow> string option" where
  "either_name row k1 k2 = (case map_of row k1 of Some v \<Rightarrow> Some v | None \<Rightarrow> map_of row k2)"

definition may_be_null :: "string option \<Rightarrow> bool" where
  "may_be_null v = (case v of None \<Rightarrow> True | Some s \<Rightarrow> s = ''YES'')"

definition pg_column :: "sql_row_map \<Rightarrow> (string \<times> existing_column) option" where
  "pg_column row =
     map_option (\<lambda>n. (n, \<lparr>xc_nullable = may_be_null (map_of row ''is_nullable''), xc_type = []\<rparr>))
       (map_of row ''column_name'')"

definition mysql_column :: "sql_row_map \<Rightarrow> (string \<times> existing_column) option" where
  "mysql_column row =
     map_option (\<lambda>n. (n, \<lparr>xc_nullable = may_be_null (either_name row ''IS_NULLABLE'' ''is_nullable''),
         xc_type = (case either_name row ''COLUMN_TYPE'' ''column_type'' of None \<Rightarrow> [] | Some t \<Rightarrow> t)\<rparr>))
       (either_name row ''COLUMN_NAME'' ''column_name'')"

definition existing_columns :: "bool \<Rightarrow> sql_row_map list \<Rightarrow> (string, existing_column) omap" where
  "existing_columns pg rows =
     fold (\<lambda>(k, c). om_put k c) (List.map_filter (if pg then pg_column else mysql_column) rows) []"

definition columns_sql :: "bool \<Rightarrow> string" where
  "columns_sql pg =
     (if pg then ''SELECT column_name, is_nullable FROM information_schema.columns WHERE table_schema=''
        @ sq ''public'' @ '' AND table_name=$1''
      else ''SELECT COLUMN_NAME, IS_NULLABLE, COLUMN_TYPE FROM information_schema.COLUMNS ''
        @ ''WHERE TABLE_SCHEMA=DATABASE() AND TABLE_NAME=?'')"

definition primary_key_sql :: "bool \<Rightarrow> string" where
  "primary_key_sql pg =
     (if pg then ''SELECT kcu.column_name, tc.constraint_name FROM information_schema.table_constraints tc ''
        @ ''JOIN information_schema.key_column_usage kcu ''
        @ ''  ON tc.constraint_name = kcu.constraint_name AND tc.table_schema = kcu.table_schema ''
        @ ''WHERE tc.table_schema='' @ sq ''public'' @ '' AND tc.table_name=$1 AND tc.constraint_type='' @ sq ''PRIMARY KEY''
      else ''SELECT COLUMN_NAME FROM information_schema.KEY_COLUMN_USAGE ''
        @ ''WHERE TABLE_SCHEMA=DATABASE() AND TABLE_NAME=? AND CONSTRAINT_NAME='' @ sq ''PRIMARY'')"

text \<open>\<^verbatim>\<open>catch (const SqlError&)\<close> and \<^verbatim>\<open>catch (const std::exception&)\<close>, after which only a line is logged.\<close>

definition reported :: "'x \<Rightarrow> ('s, 'x) sql_op \<Rightarrow> ('s, 'x) sql_op" where
  "reported d m st =
     (case m st of
        (Inl (Other_exn Undefined), st') \<Rightarrow> (Inl (Other_exn Undefined), st')
      | (Inl e, st') \<Rightarrow> (Inr d, st')
      | r \<Rightarrow> r)"

definition send_sql :: "'s sql_env \<Rightarrow> string \<Rightarrow> ('s, unit) sql_op" where
  "send_sql env sql = sql_bind (executeNonQuery env sql []) (\<lambda>_. sql_ret ())"

fun sql_each :: "('b \<Rightarrow> ('s, unit) sql_op) \<Rightarrow> 'b list \<Rightarrow> ('s, unit) sql_op" where
  "sql_each f [] = sql_ret ()"
| "sql_each f (x # xs) = sql_bind (f x) (\<lambda>_. sql_each f xs)"

definition missing_fields :: "entity_def \<Rightarrow> (string, 'c) omap \<Rightarrow> field_def list" where
  "missing_fields e cols = filter (\<lambda>f. map_of cols (fd_name f) = None) (en_fields e)"

text \<open>The statement that loosens a column, when it is too strict and can be loosened.\<close>

definition relax_sql ::
    "sql_dialect \<Rightarrow> bool \<Rightarrow> entity_def \<Rightarrow> (string, existing_column) omap \<Rightarrow> field_def \<Rightarrow> string option" where
  "relax_sql d pg e cols f =
     (case map_of cols (fd_name f) of
        None \<Rightarrow> None
      | Some c \<Rightarrow>
          if xc_nullable c \<or> \<not> ((fd_nullable f \<or> fd_optional f) \<and> \<not> fd_primary f) then None
          else if pg then Some (''ALTER TABLE '' @ quote_id d (en_name e) @ '' ALTER COLUMN ''
                 @ quote_id d (fd_name f) @ '' DROP NOT NULL'')
          else if xc_type c \<noteq> [] then Some (''ALTER TABLE '' @ quote_id d (en_name e) @ '' MODIFY COLUMN ''
                 @ quote_id d (fd_name f) @ '' '' @ xc_type c @ '' NULL'')
          else None)"

text \<open>The columns of the key and, on PostgreSQL, the last name of its constraint.\<close>

definition key_of :: "bool \<Rightarrow> sql_row_map list \<Rightarrow> string list \<times> string" where
  "key_of pg rows =
     (if pg then
        (List.map_filter (\<lambda>r. map_of r ''column_name'') rows,
         fold (\<lambda>r c. case map_of r ''constraint_name'' of None \<Rightarrow> c | Some n \<Rightarrow> n) rows [])
      else (List.map_filter (\<lambda>r. either_name r ''COLUMN_NAME'' ''column_name'') rows, []))"

definition primary_field :: "entity_def \<Rightarrow> string" where
  "primary_field e = (case find fd_primary (en_fields e) of None \<Rightarrow> [] | Some f \<Rightarrow> fd_name f)"

text \<open>The statements that move the primary key, each sent only when those before it went through.\<close>

definition key_statements ::
    "sql_dialect \<Rightarrow> bool \<Rightarrow> entity_def \<Rightarrow> (string, existing_column) omap \<Rightarrow> string list \<times> string \<Rightarrow> string list" where
  "key_statements d pg e cols key =
     (let table = ''ALTER TABLE '' @ quote_id d (en_name e); k = primary_field e; col = quote_id d k in
      (if pg then [table @ '' ALTER COLUMN '' @ col @ '' SET NOT NULL'']
       else case map_of cols k of
         Some c \<Rightarrow> if xc_type c \<noteq> [] then [table @ '' MODIFY COLUMN '' @ col @ '' '' @ xc_type c @ '' NOT NULL''] else []
       | None \<Rightarrow> [])
      @ (if snd key \<noteq> [] then [table @ '' DROP CONSTRAINT '' @ quote_id d (snd key)]
         else if fst key \<noteq> [] \<and> \<not> pg then [table @ '' DROP PRIMARY KEY''] else [])
      @ [table @ '' ADD PRIMARY KEY ('' @ col @ '')''])"

definition key_wrong :: "entity_def \<Rightarrow> (string, existing_column) omap \<Rightarrow> string list \<Rightarrow> bool" where
  "key_wrong e cols current \<longleftrightarrow> current \<noteq> [primary_field e] \<and> map_of cols (primary_field e) \<noteq> None"

definition table_dialect_of :: "sql_dialect \<Rightarrow> table_dialect" where
  "table_dialect_of d = (if d = Postgres \<or> d = Prisma then PostgreSQL_Table else MySQL_Table)"

definition correct_key :: "'s sql_env \<Rightarrow> bool \<Rightarrow> entity_def \<Rightarrow> (string, existing_column) omap \<Rightarrow> ('s, unit) sql_op" where
  "correct_key env pg e cols =
     (if primary_field e = [] then sql_ret ()
      else
        sql_bind (reported ([], []) (
          sql_bind (executeQuery env (primary_key_sql pg) [bound_as ''table_name'' (en_name e)]) (\<lambda>rows.
          sql_ret (key_of pg rows)))) (\<lambda>key.
        if key_wrong e cols (fst key)
        then reported () (sql_each (send_sql env) (key_statements (sl_dialect env) pg e cols key))
        else sql_ret ()))"

definition migrateTable :: "'s sql_env \<Rightarrow> table_dialect \<Rightarrow> entity_def \<Rightarrow> ('s, unit) sql_op" where
  "migrateTable env td e st =
     (let pg = (td = PostgreSQL_Table); d = sl_dialect env in
      case executeQuery env (columns_sql pg) [bound_as ''table_name'' (en_name e)] st of
        (Inl (Other_exn (Std_exception what)), st') \<Rightarrow> (Inr (), st')
      | (Inl x, st') \<Rightarrow> (Inl x, st')
      | (Inr rows, st') \<Rightarrow>
          (let cols = existing_columns pg rows in
           sql_bind (sql_each (\<lambda>f. reported () (send_sql env (generateAlterAddColumn td e f))) (missing_fields e cols)) (\<lambda>_.
           sql_bind (sql_each (\<lambda>sql. reported () (send_sql env sql)) (List.map_filter (relax_sql d pg e cols) (en_fields e))) (\<lambda>_.
           correct_key env pg e cols)) st'))"

text \<open>An index that cannot be made is ignored; a table that cannot be made ends the adapter's start.\<close>

definition ignored_sql :: "'s sql_env \<Rightarrow> string \<Rightarrow> ('s, unit) sql_op" where
  "ignored_sql env sql st =
     (case send_sql env sql st of (Inl (Sql_error c m), st') \<Rightarrow> (Inr (), st') | r \<Rightarrow> r)"

definition table_sql :: "'s sql_env \<Rightarrow> string \<Rightarrow> string \<Rightarrow> ('s, unit) sql_op" where
  "table_sql env name sql st =
     (case send_sql env sql st of
        (Inl (Sql_error c m), st') \<Rightarrow>
          (Inl (Other_exn (Std_exception (''Failed to create table '' @ name @ '': '' @ m))), st')
      | r \<Rightarrow> r)"

definition make_table :: "'s sql_env \<Rightarrow> table_generator \<Rightarrow> entity_def \<Rightarrow> ('s, unit) sql_op" where
  "make_table env g e =
     (let td = table_dialect_of (sl_dialect env) in
      sql_bind (sql_lift (generateCreateTable g td e)) (\<lambda>sql.
      sql_bind (table_sql env (en_name e) sql) (\<lambda>_.
      sql_bind (migrateTable env td e) (\<lambda>_.
      sql_bind (sql_lift (generateIndexes g td e)) (\<lambda>indexes.
      sql_each (ignored_sql env) indexes)))))"

definition createTables :: "'s sql_env \<Rightarrow> table_generator \<Rightarrow> entity_def list \<Rightarrow> ('s, unit) sql_op" where
  "createTables env g es st =
     (case acquire (sq_pool st) of
        (None, pool) \<Rightarrow>
          (Inl (Other_exn (Std_exception ''Unable to acquire SQL connection for table creation'')), st\<lparr>sq_pool := pool\<rparr>)
      | (Some c, pool) \<Rightarrow> sql_each (make_table env g) es (st\<lparr>sq_pool := pool\<rparr>))"

section \<open>The adapter for SQLite\<close>

text \<open>The column names that \<^verbatim>\<open>PRAGMA table_info\<close> lists; a failure to ask leaves none.\<close>

definition table_columns :: "('a, 't) sqlite_api \<Rightarrow> string \<Rightarrow> 'a \<Rightarrow> string list \<times> 'a" where
  "table_columns api name db =
     (case qa_prepare api (c_str (''PRAGMA table_info('' @ dq name @ '')'')) db of
        ((rc, stmt), db1) \<Rightarrow>
          if rc \<noteq> SQLITE_OK then ([], db1)
          else case qa_run api stmt db1 of
            ((rows, _), db2) \<Rightarrow> (List.map_filter (\<lambda>row. map_option c_str (ce_text (snd (row ! 1)))) rows, db2))"

definition lite_migrate :: "('a, 't) sqlite_api \<Rightarrow> entity_def \<Rightarrow> 'a \<Rightarrow> 'a" where
  "lite_migrate api e db =
     (case table_columns api (en_name e) db of
        (cols, db1) \<Rightarrow>
          fold (\<lambda>f db. snd (qa_exec api (c_str (generateAlterAddColumn SQLite_Table e f)) db))
            (filter (\<lambda>f. fd_name f \<notin> set cols) (en_fields e)) db1)"

definition lite_exec :: "('a, 't) sqlite_api \<Rightarrow> string \<Rightarrow> string \<Rightarrow> 'a \<Rightarrow> (exn + unit) \<times> 'a" where
  "lite_exec api failure sql db =
     (case qa_exec api (c_str sql) db of
        ((rc, message), db') \<Rightarrow>
          if rc \<noteq> SQLITE_OK
          then (Inl (Std_exception (failure @ (case message of None \<Rightarrow> [] | Some m \<Rightarrow> c_str m))), db') else (Inr (), db'))"

fun lite_exec_each :: "('a, 't) sqlite_api \<Rightarrow> string \<Rightarrow> string list \<Rightarrow> 'a \<Rightarrow> (exn + unit) \<times> 'a" where
  "lite_exec_each api failure [] db = (Inr (), db)"
| "lite_exec_each api failure (sql # sqls) db =
     (case lite_exec api failure sql db of
        (Inl x, db') \<Rightarrow> (Inl x, db')
      | (Inr _, db') \<Rightarrow> lite_exec_each api failure sqls db')"

definition lite_make_table :: "('a, 't) sqlite_api \<Rightarrow> table_generator \<Rightarrow> entity_def \<Rightarrow> 'a \<Rightarrow> (exn + unit) \<times> 'a" where
  "lite_make_table api g e db =
     (case generateCreateTable g SQLite_Table e of
        Inl x \<Rightarrow> (Inl x, db)
      | Inr sql \<Rightarrow>
          (case lite_exec api (''Failed to create table '' @ en_name e @ '': '') sql db of
             (Inl x, db1) \<Rightarrow> (Inl x, db1)
           | (Inr _, db1) \<Rightarrow>
               (let db2 = lite_migrate api e db1 in
                case generateIndexes g SQLite_Table e of
                  Inl x \<Rightarrow> (Inl x, db2)
                | Inr sqls \<Rightarrow> lite_exec_each api (''Failed to create index for '' @ en_name e @ '': '') sqls db2)))"

text \<open>The schemas registered so far stay when a table fails, but the adapter does not come up.\<close>

fun lite_create_tables ::
    "('a, 't) sqlite_api \<Rightarrow> table_generator \<Rightarrow> entity_def list \<Rightarrow> (string, lite_schema) omap \<Rightarrow> 'a \<Rightarrow>
     (exn + (string, lite_schema) omap) \<times> 'a" where
  "lite_create_tables api g [] schemas db = (Inr schemas, db)"
| "lite_create_tables api g (e # es) schemas db =
     (case lite_make_table api g e db of
        (Inl x, db') \<Rightarrow> (Inl x, db')
      | (Inr _, db') \<Rightarrow> lite_create_tables api g es (om_put (en_name e) (entityDefToSchema e) schemas) db')"

section \<open>Properties\<close>

text \<open>The statements of a migration, by what the catalogue says of the table.\<close>

definition migration_plan ::
    "sql_dialect \<Rightarrow> table_dialect \<Rightarrow> entity_def \<Rightarrow> sql_row_map list \<Rightarrow> sql_row_map list \<Rightarrow> string list" where
  "migration_plan d td e columns key =
     (let pg = (td = PostgreSQL_Table); cols = existing_columns pg columns in
      [columns_sql pg] @ map (generateAlterAddColumn td e) (missing_fields e cols)
      @ List.map_filter (relax_sql d pg e cols) (en_fields e)
      @ (if primary_field e = [] then []
         else primary_key_sql pg #
           (if key_wrong e cols (fst (key_of pg key)) then key_statements d pg e cols (key_of pg key) else [])))"

text \<open>A server that writes down what it is sent and refuses the statements that \<open>refused\<close> names.\<close>

definition noting :: "(string \<Rightarrow> sql_row_map list) \<Rightarrow> (string \<Rightarrow> bool) \<Rightarrow> string list sql_driver" where
  "noting rows refused = \<lparr>
     sd_query = (\<lambda>sql ps past. (Inr (rows sql), past @ [sql])),
     sd_exec = (\<lambda>sql ps past. (if refused sql then Inl (Sql_error UnknownCode ''refused'') else Inr 0, past @ [sql]))\<rparr>"


lemma note_exec:
  assumes "sl_driver env = noting rows refused"
  shows "executeNonQuery env sql [] st =
    (if refused sql then Inl (Sql_error UnknownCode ''refused'') else Inr 0, st\<lparr>sq_db := sq_db st @ [sql]\<rparr>)"
  by (simp add: executeNonQuery_def assms noting_def)

lemma note_query:
  assumes "sl_driver env = noting rows refused"
  shows "executeQuery env sql ps st = (Inr (rows sql), st\<lparr>sq_db := sq_db st @ [sql]\<rparr>)"
  by (simp add: executeQuery_def assms noting_def)

lemma note_reported:
  assumes "sl_driver env = noting rows refused"
  shows "reported () (send_sql env sql) st = (Inr (), st\<lparr>sq_db := sq_db st @ [sql]\<rparr>)"
  by (simp add: reported_def send_sql_def sql_bind_def note_exec [OF assms] sql_ret_def)

lemma note_each:
  assumes "sl_driver env = noting rows refused"
  shows "sql_each (\<lambda>x. reported () (send_sql env (f x))) xs st = (Inr (), st\<lparr>sq_db := sq_db st @ map f xs\<rparr>)"
  by (induction xs arbitrary: st) (simp_all add: sql_ret_def sql_bind_def note_reported [OF assms])

lemma note_all:
  assumes "sl_driver env = noting rows refused" "\<forall>sql \<in> set sqls. \<not> refused sql"
  shows "sql_each (send_sql env) sqls st = (Inr (), st\<lparr>sq_db := sq_db st @ sqls\<rparr>)"
  using assms(2)
  by (induction sqls arbitrary: st) (simp_all add: sql_ret_def sql_bind_def send_sql_def note_exec [OF assms(1)])

lemma note_key:
  assumes "sl_driver env = noting rows refused" "\<forall>key. \<forall>sql \<in> set (key_statements (sl_dialect env) pg e cols key). \<not> refused sql"
  shows "correct_key env pg e cols st = (Inr (), st\<lparr>sq_db := sq_db st @
    (if primary_field e = [] then []
     else primary_key_sql pg #
       (if key_wrong e cols (fst (key_of pg (rows (primary_key_sql pg))))
        then key_statements (sl_dialect env) pg e cols (key_of pg (rows (primary_key_sql pg))) else []))\<rparr>)"
proof -
  have "sql_each (send_sql env) (key_statements (sl_dialect env) pg e cols key) st =
      (Inr (), st\<lparr>sq_db := sq_db st @ key_statements (sl_dialect env) pg e cols key\<rparr>)" for key st
    by (rule note_all [OF assms(1)]) (use assms(2) in blast)
  then show ?thesis
    by (simp add: correct_key_def sql_ret_def sql_bind_def reported_def note_query [OF assms(1)])
qed


definition renamed_entity :: entity_def where
  "renamed_entity = \<lparr>en_name = ''Note'', en_version = ''2.0'', en_description = [],
     en_fields = [empty_field\<lparr>fd_name := ''id'', fd_type := ''uuid'', fd_primary := True\<rparr>,
                  empty_field\<lparr>fd_name := ''title'', fd_type := ''string'', fd_nullable := True\<rparr>,
                  empty_field\<lparr>fd_name := ''tags'', fd_type := ''json''\<rparr>],
     en_indexes = [], en_relations = [], en_query = default_query\<rparr>"

definition old_catalogue :: "string \<Rightarrow> sql_row_map list" where
  "old_catalogue sql =
     (if sql = columns_sql True then
        [[(''column_name'', ''id''), (''is_nullable'', ''NO'')], [(''column_name'', ''title''), (''is_nullable'', ''NO'')]]
      else [[(''column_name'', ''title''), (''constraint_name'', ''note_pk'')]])"

definition old_server :: "string list sql_env" where
  "old_server = \<lparr>sl_dialect = Postgres, sl_driver = noting old_catalogue (\<lambda>sql. False), sl_schemas = [],
     sl_dump = (\<lambda>j. Inr []), sl_parse = (\<lambda>s. Inr None)\<rparr>"


text \<open>A table that agrees with its schema is only inspected.\<close>

theorem migration_settled:
  assumes "missing_fields e (existing_columns pg columns) = []" "pg = (td = PostgreSQL_Table)"
    "\<forall>f \<in> set (en_fields e). relax_sql d pg e (existing_columns pg columns) f = None"
    "fst (key_of pg key) = [primary_field e]"
  shows "migration_plan d td e columns key = columns_sql pg # (if primary_field e = [] then [] else [primary_key_sql pg])"
  using assms by (simp add: migration_plan_def Let_def key_wrong_def List.map_filter_def)

end
