(* ===== verification/Remote_Calls.thy ===== *)
theory Remote_Calls
  imports Schema_Files Redis_Adapter
begin

text \<open>
  What the adapters over HTTP share: operations that may throw or fail, a request and its answer (the
  library cpr, a parameter), and the compensating transaction (\<^verbatim>\<open>src/core/compensating_transaction.cpp\<close>, in
  \<^verbatim>\<open>Redis_Adapter\<close>) that each of them keeps beside its server.
\<close>

section \<open>Operations\<close>

type_synonym ('s, 'x) act = "'s \<Rightarrow> (exn + 'x result) \<times> 's"

definition act_ret :: "'x \<Rightarrow> ('s, 'x) act" where
  "act_ret x st = (Inr (Inr x), st)"

definition act_err :: "error \<Rightarrow> ('s, 'x) act" where
  "act_err e st = (Inr (Inl e), st)"

definition act_lift :: "exn + 'x \<Rightarrow> ('s, 'x) act" where
  "act_lift r st = (map_sum id Inr r, st)"

definition act_bind :: "('s, 'x) act \<Rightarrow> ('x \<Rightarrow> ('s, 'y) act) \<Rightarrow> ('s, 'y) act" where
  "act_bind m f st =
     (case m st of
        (Inl e, st') \<Rightarrow> (Inl e, st')
      | (Inr (Inl e), st') \<Rightarrow> (Inr (Inl e), st')
      | (Inr (Inr x), st') \<Rightarrow> f x st')"

text \<open>An operation whose error is looked at.\<close>

definition act_result :: "('s, 'x) act \<Rightarrow> ('s, 'x result) act" where
  "act_result m st = (case m st of (Inl e, st') \<Rightarrow> (Inl e, st') | (Inr r, st') \<Rightarrow> (Inr (Inr r), st'))"

text \<open>\<^verbatim>\<open>catch (const std::exception& e) { return Error(InternalError, prefix + e.what()); }\<close>\<close>

definition act_caught :: "string \<Rightarrow> ('s, 'x) act \<Rightarrow> ('s, 'x) act" where
  "act_caught before m st =
     (case m st of
        (Inl (Std_exception what), st') \<Rightarrow> (Inr (Inl (internal_error (before @ what))), st')
      | r \<Rightarrow> r)"

text \<open>The adapter interface forgets the state of an operation that throws.\<close>

definition as_act :: "('s, 'x) act \<Rightarrow> 's \<Rightarrow> exn + 'x result \<times> 's" where
  "as_act m st = (case m st of (Inl e, st') \<Rightarrow> Inl e | (Inr r, st') \<Rightarrow> Inr (r, st'))"

section \<open>Requests\<close>

text \<open>What cpr gives back; a request that finds no server has status 0 and no text.\<close>

record http_answer =
  ha_status :: int
  ha_text :: string
  ha_headers :: "(string, string) omap"

record http_call =
  hq_method :: string
  hq_url :: string
  hq_headers :: "(string \<times> string) list"
  hq_body :: "string option"

type_synonym 'w http = "http_call \<Rightarrow> 'w \<Rightarrow> http_answer \<times> 'w"

record 'w remote_state =
  rm_net :: 'w
  rm_tx :: "comp_tx option"

definition remote_call :: "'w http \<Rightarrow> http_call \<Rightarrow> ('w remote_state, http_answer) act" where
  "remote_call http q st = (case http q (rm_net st) of (a, w) \<Rightarrow> (Inr (Inr a), st\<lparr>rm_net := w\<rparr>))"

text \<open>The members that a loop with \<^verbatim>\<open>it.key()\<close> and \<^verbatim>\<open>it.value()\<close> visits.\<close>

fun object_items :: "json \<Rightarrow> exn + (string \<times> json) list" where
  "object_items (JObject m) = Inr m"
| "object_items JNull = Inr []"
| "object_items (JArray []) = Inr []"
| "object_items _ = Inl (Std_exception ''invalid_iterator: cannot use key() for non-object iterators'')"

fun first_of_array :: "json \<Rightarrow> json option" where
  "first_of_array (JArray (x # _)) = Some x"
| "first_of_array _ = None"

section \<open>The transaction\<close>

definition remote_active :: "'w remote_state \<Rightarrow> bool" where
  "remote_active st = (case rm_tx st of None \<Rightarrow> False | Some tx \<Rightarrow> active tx)"

definition remote_record :: "(comp_tx \<Rightarrow> exn + comp_tx) \<Rightarrow> ('w remote_state, unit) act" where
  "remote_record f st =
     (case rm_tx st of
        Some tx \<Rightarrow>
          (if active tx
           then (case f tx of Inl x \<Rightarrow> (Inl x, st) | Inr tx' \<Rightarrow> (Inr (Inr ()), st\<lparr>rm_tx := Some tx'\<rparr>))
           else (Inr (Inr ()), st))
      | None \<Rightarrow> (Inr (Inr ()), st))"

text \<open>While a transaction runs, the record as it is before the change goes into its log.\<close>

definition remote_snapshot ::
    "('w remote_state, json) act \<Rightarrow> (json \<Rightarrow> comp_tx \<Rightarrow> exn + comp_tx) \<Rightarrow> ('w remote_state, unit) act" where
  "remote_snapshot read f st =
     (if \<not> remote_active st then act_ret () st
      else act_bind (act_result read) (\<lambda>r. case r of Inl e \<Rightarrow> act_ret () | Inr old \<Rightarrow> remote_record (f old)) st)"

definition remote_begin :: "('w remote_state, bool) act" where
  "remote_begin st =
     (if remote_active st then act_err (internal_error ''Transaction already in progress'') st
      else act_ret True (st\<lparr>rm_tx := Some new_tx\<rparr>))"

definition remote_commit :: "('w remote_state, bool) act" where
  "remote_commit st =
     (if \<not> remote_active st then act_err (internal_error ''No transaction in progress'') st
      else act_ret True (st\<lparr>rm_tx := None\<rparr>))"

definition remote_undo ::
    "(string \<Rightarrow> json \<Rightarrow> ('w remote_state, json) act) \<Rightarrow> (string \<Rightarrow> string \<Rightarrow> json \<Rightarrow> ('w remote_state, json) act) \<Rightarrow>
     (string \<Rightarrow> string \<Rightarrow> ('w remote_state, bool) act) \<Rightarrow> 'w remote_state undo_adapter" where
  "remote_undo create update remove = \<lparr>
     ua_create = (\<lambda>e d. as_act (create e d)), ua_update = (\<lambda>e i d. as_act (update e i d)),
     ua_remove = (\<lambda>e i. as_act (remove e i)),
     ua_tx = (\<lambda>st. case rm_tx st of Some tx \<Rightarrow> tx | None \<Rightarrow> \<lparr>undo_log = [], active = False\<rparr>),
     ua_put_tx = (\<lambda>tx st. st\<lparr>rm_tx := Some tx\<rparr>)\<rparr>"

definition remote_rollback :: "'w remote_state undo_adapter \<Rightarrow> 'w remote_state \<Rightarrow> exn + bool result \<times> 'w remote_state" where
  "remote_rollback undo st =
     (if \<not> remote_active st then Inr (Inl (internal_error ''No transaction in progress''), st)
      else map_sum id (map_prod id (\<lambda>st'. st'\<lparr>rm_tx := None\<rparr>)) (tx_rollback undo st))"

end
