(* ===== verification/Elastic_Adapter.thy ===== *)
theory Elastic_Adapter
  imports Remote_Calls
begin

text \<open>
  The adapter for Elasticsearch (\<^verbatim>\<open>src/adapters/elasticsearch/\<close>): the URL of the connection, the HTTP client,
  documents and indexes, searches, bulk requests, and the operations of the adapter.  A UUID
  is drawn by a parameter.
\<close>

section \<open>Connection\<close>

record es_config =
  ec_base_url :: string
  ec_index :: string
  ec_type :: string
  ec_refresh :: string
  ec_verify :: bool

definition extractBaseUrl :: "string \<Rightarrow> string" where
  "extractBaseUrl url =
     (let part = takeWhile (\<lambda>c. c \<noteq> CHR ''?'') url in
      if prefix ''elasticsearch://'' part then ''http://'' @ drop 16 part
      else if prefix ''http://'' part \<or> prefix ''https://'' part then part
      else ''http://'' @ part)"

definition es_param :: "string \<Rightarrow> es_config \<Rightarrow> es_config" where
  "es_param param c =
     (case cut_at CHR ''='' param of
        None \<Rightarrow> c
      | Some (key, v) \<Rightarrow>
          if key = ''index'' then c\<lparr>ec_index := v\<rparr>
          else if key = ''type'' then c\<lparr>ec_type := v\<rparr>
          else if key = ''refresh'' then c\<lparr>ec_refresh := v\<rparr>
          else if key = ''verify_certs'' then c\<lparr>ec_verify := (v = ''true'' \<or> v = ''1'')\<rparr>
          else c)"

definition es_query_params :: "string \<Rightarrow> es_config \<Rightarrow> es_config" where
  "es_query_params url c =
     (case cut_at CHR ''?'' url of
        None \<Rightarrow> c
      | Some (_, q) \<Rightarrow> fold es_param (getlines CHR ''&'' q) c)"

definition es_parse_url :: "string \<Rightarrow> es_config" where
  "es_parse_url url =
     es_query_params url \<lparr>ec_base_url = extractBaseUrl url, ec_index = ''metabuilder'', ec_type = ''_doc'',
       ec_refresh = ''true'', ec_verify = True\<rparr>"

record 'w es_env =
  es_http :: "'w http"
  es_config :: es_config
  es_schemas :: "(string, entity_schema) omap"
  es_dump :: "json \<Rightarrow> exn + string"
  es_parse :: "string \<Rightarrow> exn + json"
  es_uuid :: "'w \<Rightarrow> string \<times> 'w"

section \<open>The HTTP client\<close>

definition es_refreshed :: "es_config \<Rightarrow> string \<Rightarrow> string \<Rightarrow> string" where
  "es_refreshed c sep path =
     (if ec_refresh c = [] \<or> ec_refresh c = ''false'' then path else path @ sep @ ''refresh='' @ ec_refresh c)"

definition es_url :: "es_config \<Rightarrow> string \<Rightarrow> bool \<Rightarrow> string" where
  "es_url c path include_refresh =
     (if include_refresh then es_refreshed c (if CHR ''?'' \<in> set path then ''&'' else ''?'') (ec_base_url c @ path)
      else ec_base_url c @ path)"

definition json_headers :: "(string \<times> string) list" where
  "json_headers = [(''Content-Type'', ''application/json''), (''Accept'', ''application/json'')]"

definition es_status_error :: "string \<Rightarrow> http_answer \<Rightarrow> error" where
  "es_status_error what a = internal_error (what @ '' (HTTP '' @ int_digits (ha_status a) @ ''): '' @ ha_text a)"

definition es_body :: "'w es_env \<Rightarrow> http_answer \<Rightarrow> ('w remote_state, json) act" where
  "es_body env a = (if ha_text a \<noteq> [] then act_lift (es_parse env (ha_text a)) else act_ret (JObject []))"

definition es_get :: "'w es_env \<Rightarrow> string \<Rightarrow> ('w remote_state, json) act" where
  "es_get env path = act_caught ''HTTP GET failed: '' (
     act_bind (remote_call (es_http env) \<lparr>hq_method = ''GET'', hq_url = ec_base_url (es_config env) @ path,
       hq_headers = json_headers, hq_body = None\<rparr>) (\<lambda>a.
     if ha_status a = 404 then act_err (not_found (''Resource not found: '' @ path))
     else if ha_status a \<ge> 400 then act_err (es_status_error ''Elasticsearch error'' a)
     else es_body env a))"

definition es_head :: "'w es_env \<Rightarrow> string \<Rightarrow> ('w remote_state, json) act" where
  "es_head env path = act_caught ''HTTP HEAD failed: '' (
     act_bind (remote_call (es_http env) \<lparr>hq_method = ''HEAD'', hq_url = ec_base_url (es_config env) @ path,
       hq_headers = json_headers, hq_body = None\<rparr>) (\<lambda>a.
     if ha_status a = 404 then act_err (not_found (''Resource not found: '' @ path))
     else if ha_status a \<ge> 400
     then act_err (internal_error (''Elasticsearch error (HTTP '' @ int_digits (ha_status a) @ '')''))
     else act_ret (JObject [])))"

text \<open>\<^verbatim>\<open>post\<close> and \<^verbatim>\<open>put\<close>\<close>

definition es_send :: "'w es_env \<Rightarrow> string \<Rightarrow> string \<Rightarrow> json \<Rightarrow> bool \<Rightarrow> ('w remote_state, json) act" where
  "es_send env verb path body include_refresh = act_caught (''HTTP '' @ verb @ '' failed: '') (
     act_bind (act_lift (es_dump env body)) (\<lambda>s.
     act_bind (remote_call (es_http env) \<lparr>hq_method = verb, hq_url = es_url (es_config env) path include_refresh,
       hq_headers = json_headers, hq_body = Some s\<rparr>) (\<lambda>a.
     if ha_status a \<ge> 400 then act_err (es_status_error ''Elasticsearch error'' a)
     else es_body env a)))"

definition es_delete :: "'w es_env \<Rightarrow> string \<Rightarrow> bool \<Rightarrow> ('w remote_state, json) act" where
  "es_delete env path include_refresh = act_caught ''HTTP DELETE failed: '' (
     act_bind (remote_call (es_http env) \<lparr>hq_method = ''DELETE'', hq_url = es_url (es_config env) path include_refresh,
       hq_headers = json_headers, hq_body = None\<rparr>) (\<lambda>a.
     if ha_status a \<ge> 400 then act_err (es_status_error ''Elasticsearch error'' a)
     else es_body env a))"

definition es_bulk :: "'w es_env \<Rightarrow> string list \<Rightarrow> ('w remote_state, json) act" where
  "es_bulk env ls = act_caught ''Bulk request failed: '' (
     act_bind (remote_call (es_http env) \<lparr>hq_method = ''POST'',
       hq_url = es_refreshed (es_config env) ''?'' (ec_base_url (es_config env) @ ''/_bulk''),
       hq_headers = [(''Content-Type'', ''application/x-ndjson''), (''Accept'', ''application/json'')],
       hq_body = Some (concat (map (\<lambda>l. l @ [CHR 0x0A]) ls))\<rparr>) (\<lambda>a.
     if ha_status a \<ge> 400 then act_err (es_status_error ''Elasticsearch bulk request failed'' a)
     else act_lift (es_parse env (ha_text a))))"

section \<open>Documents and searches\<close>

definition toIndexName :: "string \<Rightarrow> string" where
  "toIndexName entity = to_lower entity"

definition makeDocumentPath :: "string \<Rightarrow> string \<Rightarrow> string \<Rightarrow> string" where
  "makeDocumentPath index typ i =
     ''/'' @ index @ ''/'' @ typ @ (if i = [] then [] else ''/'' @ i)"

definition makeSearchPath :: "string \<Rightarrow> string" where
  "makeSearchPath index = ''/'' @ index @ ''/_search''"

definition convertFieldType :: "string \<Rightarrow> json" where
  "convertFieldType t =
     (if t = ''string'' then jobject [(''type'', JString ''text''),
        (''fields'', jobject [(''keyword'', jobject [(''type'', JString ''keyword'')])])]
      else if t = ''number'' then jobject [(''type'', JString ''double'')]
      else if t = ''boolean'' then jobject [(''type'', JString ''boolean'')]
      else if t = ''timestamp'' then jobject [(''type'', JString ''date'')]
      else if t = ''json'' then jobject [(''type'', JString ''object''), (''enabled'', JBool True)]
      else jobject [(''type'', JString ''keyword'')])"

definition buildMapping :: "entity_schema \<Rightarrow> json" where
  "buildMapping schema =
     jobject [(''mappings'', jobject [(''properties'',
       jobject (map (\<lambda>f. (ef_name f, convertFieldType (ef_type f))) (es_fields schema)))])]"

definition buildBoolQuery :: "(string, string) omap \<Rightarrow> json" where
  "buildBoolQuery flt =
     jobject [(''bool'', jobject [(''must'',
       JArray (map (\<lambda>(k, v). jobject [(''term'', jobject [(k, JString v)])]) flt))])]"

definition buildSearchQuery :: "(string, string) omap \<Rightarrow> int \<Rightarrow> int \<Rightarrow> json" where
  "buildSearchQuery flt limit from_index =
     jobject [(''query'', if flt = [] then jobject [(''match_all'', JObject [])] else buildBoolQuery flt),
       (''size'', JInt limit), (''from'', JInt from_index)]"

text \<open>The documents among the hits.\<close>

definition extractDocuments :: "json \<Rightarrow> json list" where
  "extractDocuments response =
     (case jget response ''hits'' of
        None \<Rightarrow> []
      | Some hits \<Rightarrow> (case jget hits ''hits'' of
            Some (JArray xs) \<Rightarrow> List.map_filter (\<lambda>hit. jget hit ''_source'') xs
          | _ \<Rightarrow> []))"

definition extractTotal :: "json \<Rightarrow> exn + int" where
  "extractTotal response =
     (case jget response ''hits'' of
        None \<Rightarrow> Inr 0
      | Some hits \<Rightarrow> (case jget hits ''total'' of
            None \<Rightarrow> Inr 0
          | Some t \<Rightarrow>
              if is_object t \<and> jcontains t ''value'' then get_int32 (the (jget t ''value''))
              else (case t of JInt n \<Rightarrow> get_int32 t | JFloat q \<Rightarrow> get_int32 t | _ \<Rightarrow> Inr 0)))"

definition parseSearchResponse :: "json \<Rightarrow> int \<Rightarrow> int \<Rightarrow> exn + list_result" where
  "parseSearchResponse response page limit =
     exn_bind (extractTotal response) (\<lambda>n.
       Inr \<lparr>lr_items = extractDocuments response, lr_total = n, lr_page = page, lr_limit = limit\<rparr>)"

section \<open>Bulk requests\<close>

definition bulk_action :: "string \<Rightarrow> string \<Rightarrow> string \<Rightarrow> json" where
  "bulk_action verb index i = jobject [(verb, jobject [(''_index'', JString index), (''_id'', JString i)])]"

definition drawn_id :: "'w es_env \<Rightarrow> ('w remote_state, string) act" where
  "drawn_id env st = (case es_uuid env (rm_net st) of (i, w) \<Rightarrow> (Inr (Inr i), st\<lparr>rm_net := w\<rparr>))"

definition document_id :: "'w es_env \<Rightarrow> json \<Rightarrow> ('w remote_state, string) act" where
  "document_id env rec =
     (case jget rec ''id'' of
        Some v \<Rightarrow> if is_null v then drawn_id env else act_lift (get_string v)
      | None \<Rightarrow> drawn_id env)"

fun buildIndexOperations :: "'w es_env \<Rightarrow> string \<Rightarrow> json list \<Rightarrow> ('w remote_state, string list) act" where
  "buildIndexOperations env index [] = act_ret []"
| "buildIndexOperations env index (rec # recs) =
     act_bind (document_id env rec) (\<lambda>i.
     act_bind (act_lift (jassign ''id'' (JString i) rec)) (\<lambda>doc.
     act_bind (act_lift (es_dump env (bulk_action ''index'' index i))) (\<lambda>l1.
     act_bind (act_lift (es_dump env doc)) (\<lambda>l2.
     act_bind (buildIndexOperations env index recs) (\<lambda>ls. act_ret (l1 # l2 # ls))))))"

fun buildUpdateOperations :: "'w es_env \<Rightarrow> string \<Rightarrow> json \<Rightarrow> json list \<Rightarrow> exn + string list" where
  "buildUpdateOperations env index data [] = Inr []"
| "buildUpdateOperations env index data (rec # recs) =
     (case jget rec ''id'' of
        None \<Rightarrow> buildUpdateOperations env index data recs
      | Some v \<Rightarrow>
          exn_bind (get_string v) (\<lambda>i.
          exn_bind (merge_into data rec) (\<lambda>doc.
          exn_bind (es_dump env (bulk_action ''update'' index i)) (\<lambda>l1.
          exn_bind (es_dump env (jobject [(''doc'', doc)])) (\<lambda>l2.
          exn_bind (buildUpdateOperations env index data recs) (\<lambda>ls. Inr (l1 # l2 # ls)))))))"

fun buildDeleteOperations :: "'w es_env \<Rightarrow> string \<Rightarrow> json list \<Rightarrow> exn + string list" where
  "buildDeleteOperations env index [] = Inr []"
| "buildDeleteOperations env index (rec # recs) =
     (case jget rec ''id'' of
        None \<Rightarrow> buildDeleteOperations env index recs
      | Some v \<Rightarrow>
          exn_bind (get_string v) (\<lambda>i.
          exn_bind (es_dump env (bulk_action ''delete'' index i)) (\<lambda>l.
          exn_bind (buildDeleteOperations env index recs) (\<lambda>ls. Inr (l # ls)))))"

fun succeeded :: "string \<Rightarrow> json list \<Rightarrow> exn + int" where
  "succeeded verb [] = Inr 0"
| "succeeded verb (item # items) =
     (case jget item verb of
        None \<Rightarrow> succeeded verb items
      | Some r \<Rightarrow>
          exn_bind (value_as get_int32 r ''status'' 0) (\<lambda>status.
          exn_bind (succeeded verb items) (\<lambda>n.
            Inr (if 200 \<le> status \<and> status < 300 then n + 1 else n))))"

definition countSuccesses :: "json \<Rightarrow> string \<Rightarrow> exn + int" where
  "countSuccesses response verb =
     (case jget response ''items'' of Some (JArray items) \<Rightarrow> succeeded verb items | _ \<Rightarrow> Inr 0)"

section \<open>Operations\<close>

definition es_known :: "'w es_env \<Rightarrow> string \<Rightarrow> ('w remote_state, 'x) act \<Rightarrow> ('w remote_state, 'x) act" where
  "es_known env entity body =
     (if map_of (es_schemas env) entity = None then act_err (no_schema entity) else body)"

definition es_path :: "'w es_env \<Rightarrow> string \<Rightarrow> string \<Rightarrow> string" where
  "es_path env entity i = makeDocumentPath (toIndexName entity) (ec_type (es_config env)) i"

definition es_missing :: "string \<Rightarrow> string \<Rightarrow> error" where
  "es_missing entity i = not_found (entity @ '' with id '' @ i @ '' not found'')"

definition es_create :: "'w es_env \<Rightarrow> string \<Rightarrow> json \<Rightarrow> ('w remote_state, json) act" where
  "es_create env entity data = es_known env entity (
     act_bind (document_id env data) (\<lambda>i.
     act_bind (act_lift (jassign ''id'' (JString i) data)) (\<lambda>rec.
     act_bind (es_send env ''PUT'' (es_path env entity i) rec True) (\<lambda>_.
     act_bind (remote_record (\<lambda>tx. Inr (recordCreate entity i tx))) (\<lambda>_.
     act_ret rec)))))"

definition es_read :: "'w es_env \<Rightarrow> string \<Rightarrow> string \<Rightarrow> ('w remote_state, json) act" where
  "es_read env entity i = es_known env entity (
     act_bind (es_get env (es_path env entity i)) (\<lambda>response.
     act_bind (act_lift (value_as get_bool response ''found'' False)) (\<lambda>found.
       if \<not> found then act_err (es_missing entity i)
       else case jget response ''_source'' of
         Some doc \<Rightarrow> act_ret doc
       | None \<Rightarrow> act_err (internal_error ''Elasticsearch response missing _source field''))))"

definition es_update :: "'w es_env \<Rightarrow> string \<Rightarrow> string \<Rightarrow> json \<Rightarrow> ('w remote_state, json) act" where
  "es_update env entity i data =
     act_bind (es_read env entity i) (\<lambda>old.
     act_bind (remote_record (\<lambda>tx. Inr (recordUpdate entity i old tx))) (\<lambda>_.
     act_bind (act_lift (merge_into data old)) (\<lambda>rec.
     act_bind (es_send env ''PUT'' (es_path env entity i) rec True) (\<lambda>_.
     act_ret rec))))"

definition es_remove :: "'w es_env \<Rightarrow> string \<Rightarrow> string \<Rightarrow> ('w remote_state, bool) act" where
  "es_remove env entity i =
     act_bind (remote_snapshot (es_read env entity i) (recordDelete entity)) (\<lambda>_.
     act_bind (es_delete env (es_path env entity i) True) (\<lambda>response.
     act_bind (act_lift (value_string response ''result'' [])) (\<lambda>status.
       if status = ''deleted'' then act_ret True
       else if status = ''not_found'' then act_err (es_missing entity i)
       else act_err (internal_error (''Unexpected delete result: '' @ status)))))"

text \<open>The first record asked for is \<^verbatim>\<open>page * limit\<close>, which may overflow.\<close>

definition es_list :: "'w es_env \<Rightarrow> string \<Rightarrow> rich_options \<Rightarrow> ('w remote_state, list_result) act" where
  "es_list env entity opts = es_known env entity (act_caught [] (
     let limit = (if lo_limit opts > 0 then lo_limit opts else 100) in
     case checked (lo_page opts * limit) of
       None \<Rightarrow> act_lift (Inl Undefined)
     | Some from_index \<Rightarrow>
         act_bind (es_send env ''POST'' (makeSearchPath (toIndexName entity))
           (buildSearchQuery (lo_filter opts) limit from_index) False) (\<lambda>response.
         act_lift (parseSearchResponse response (lo_page opts) limit))))"

definition es_create_many :: "'w es_env \<Rightarrow> string \<Rightarrow> json list \<Rightarrow> ('w remote_state, int) act" where
  "es_create_many env entity recs =
     (if recs = [] then act_ret 0
      else
        act_bind (buildIndexOperations env (toIndexName entity) recs) (\<lambda>ls.
        act_bind (es_bulk env ls) (\<lambda>response. act_lift (countSuccesses response ''index''))))"

text \<open>\<^verbatim>\<open>ListOptions options; options.limit = n;\<close>\<close>

definition es_options :: "int \<Rightarrow> rich_options" where
  "es_options n = default_rich_options\<lparr>lo_limit := n\<rparr>"

definition es_update_many :: "'w es_env \<Rightarrow> string \<Rightarrow> json \<Rightarrow> json \<Rightarrow> ('w remote_state, int) act" where
  "es_update_many env entity flt data =
     act_bind (es_list env entity (es_options 10000)) (\<lambda>l.
       if lr_items l = [] then act_ret 0
       else
         act_bind (act_lift (buildUpdateOperations env (toIndexName entity) data (lr_items l))) (\<lambda>ls.
         act_bind (es_bulk env ls) (\<lambda>response. act_lift (countSuccesses response ''update''))))"

definition es_delete_many :: "'w es_env \<Rightarrow> string \<Rightarrow> json \<Rightarrow> ('w remote_state, int) act" where
  "es_delete_many env entity flt =
     act_bind (es_list env entity (es_options 10000)) (\<lambda>l.
       if lr_items l = [] then act_ret 0
       else
         act_bind (act_lift (buildDeleteOperations env (toIndexName entity) (lr_items l))) (\<lambda>ls.
         act_bind (es_bulk env ls) (\<lambda>response. act_lift (countSuccesses response ''delete''))))"

definition es_find_first :: "'w es_env \<Rightarrow> string \<Rightarrow> json \<Rightarrow> ('w remote_state, json) act" where
  "es_find_first env entity flt =
     act_bind (es_list env entity (es_options 1)) (\<lambda>l.
       case lr_items l of [] \<Rightarrow> act_err (not_found ''No matching record found'') | r # _ \<Rightarrow> act_ret r)"

definition es_find_by_field :: "'w es_env \<Rightarrow> string \<Rightarrow> string \<Rightarrow> json \<Rightarrow> ('w remote_state, json) act" where
  "es_find_by_field env entity field v = es_find_first env entity (JObject [(field, v)])"

text \<open>\<^verbatim>\<open>value()["id"].get<std::string>()\<close>\<close>

definition found_id :: "json \<Rightarrow> exn + string" where
  "found_id rec = (case jget rec ''id'' of None \<Rightarrow> Inl (type_error ''type must be string'') | Some v \<Rightarrow> get_string v)"

definition es_upsert :: "'w es_env \<Rightarrow> string \<Rightarrow> string \<Rightarrow> json \<Rightarrow> json \<Rightarrow> json \<Rightarrow> ('w remote_state, json) act" where
  "es_upsert env entity field v created updated =
     act_bind (act_result (es_find_by_field env entity field v)) (\<lambda>r. case r of
       Inr rec \<Rightarrow> act_bind (act_lift (found_id rec)) (\<lambda>i. es_update env entity i updated)
     | Inl e \<Rightarrow> es_create env entity created)"

definition es_schema_of :: "'w es_env \<Rightarrow> string \<Rightarrow> ('w remote_state, entity_schema) act" where
  "es_schema_of env entity =
     (case map_of (es_schemas env) entity of None \<Rightarrow> act_err (no_schema entity) | Some s \<Rightarrow> act_ret s)"

section \<open>Coming up\<close>

definition es_schema_of_def :: "entity_def \<Rightarrow> entity_schema" where
  "es_schema_of_def e = \<lparr>es_name = en_name e, es_fields = map (\<lambda>f.
     \<lparr>ef_name = fd_name f, ef_type = fd_type f, ef_required = fd_required f, ef_min = None, ef_max = None,
      ef_pattern = None, ef_enum = None\<rparr>) (en_fields e)\<rparr>"

text \<open>The schemas are an unordered map in the code; here they are in the order of their names.\<close>

definition es_loadSchemas :: "entity_def list \<Rightarrow> (string, entity_schema) omap" where
  "es_loadSchemas es = fold (\<lambda>e. om_put (en_name e) (es_schema_of_def e)) es []"

definition es_create_index :: "'w es_env \<Rightarrow> string \<Rightarrow> entity_schema \<Rightarrow> ('w remote_state, bool) act" where
  "es_create_index env index schema =
     act_bind (act_result (es_head env (''/'' @ index))) (\<lambda>r. case r of
       Inr _ \<Rightarrow> act_ret True
     | Inl _ \<Rightarrow>
         act_bind (act_lift (exn_bind (es_dump env (buildMapping schema)) (es_parse env))) (\<lambda>body.
         act_bind (act_result (es_send env ''PUT'' (''/'' @ index) body False)) (\<lambda>made. act_ret (is_ok made))))"

fun es_create_indices :: "'w es_env \<Rightarrow> (string \<times> entity_schema) list \<Rightarrow> ('w remote_state, unit) act" where
  "es_create_indices env [] = act_ret ()"
| "es_create_indices env ((entity, schema) # more_schemas) =
     act_bind (es_create_index env (toIndexName entity) schema) (\<lambda>_. es_create_indices env more_schemas)"

text \<open>The constructor: an error of the first request becomes an exception; members of the answer are read for the log.\<close>

definition es_connect :: "'w es_env \<Rightarrow> ('w remote_state, unit) act" where
  "es_connect env =
     act_bind (act_result (es_get env ''/_cluster/health'')) (\<lambda>r. case r of
       Inl e \<Rightarrow> act_lift (Inl (Std_exception (''Failed to connect to Elasticsearch: '' @ err_what e)))
     | Inr health \<Rightarrow>
         act_bind (act_lift (value_string health ''cluster_name'' ''unknown'')) (\<lambda>_.
         act_bind (act_lift (value_string health ''status'' ''unknown'')) (\<lambda>_.
         es_create_indices env (es_schemas env))))"

section \<open>The interface\<close>

definition es_undo :: "'w es_env \<Rightarrow> 'w remote_state undo_adapter" where
  "es_undo env = remote_undo (es_create env) (es_update env) (es_remove env)"

definition elastic_adapter :: "'w es_env \<Rightarrow> ('w remote_state, entity_schema) rest_adapter" where
  "elastic_adapter env = \<lparr>
     ba_create = (\<lambda>e data. as_act (es_create env e data)),
     ba_read = (\<lambda>e i. as_act (es_read env e i)),
     ba_read_sensitive = (\<lambda>e i. as_act (es_read env e i)),
     ba_search = (\<lambda>e query n. as_act (act_err no_search)),
     ba_update = (\<lambda>e i data. as_act (es_update env e i data)),
     ba_remove = (\<lambda>e i. as_act (es_remove env e i)),
     ba_list = (\<lambda>e opts. as_act (es_list env e opts)),
     ba_create_many = (\<lambda>e recs. as_act (es_create_many env e recs)),
     ba_update_many = (\<lambda>e flt data. as_act (es_update_many env e flt data)),
     ba_delete_many = (\<lambda>e flt. as_act (es_delete_many env e flt)),
     ba_find_first = (\<lambda>e flt. as_act (es_find_first env e flt)),
     ba_find_by_field = (\<lambda>e f v. as_act (es_find_by_field env e f v)),
     ba_upsert = (\<lambda>e f v c u. as_act (es_upsert env e f v c u)),
     ba_entities = as_act (act_ret (map fst (es_schemas env))),
     ba_schema = (\<lambda>e. as_act (es_schema_of env e)),
     ba_close = (\<lambda>st. Inr ((), st)),
     ba_native = (\<lambda>st. False),
     ba_begin = as_act remote_begin,
     ba_commit = as_act remote_commit,
     ba_rollback = remote_rollback (es_undo env)\<rparr>"

end
