(* ===== verification/Surreal_Adapter.thy ===== *)
theory Surreal_Adapter
  imports Elastic_Adapter
begin

text \<open>
  The adapter for SurrealDB (\<^verbatim>\<open>src/adapters/surrealdb/\<close>): signing in, the HTTP client, the texts of
  queries, and the operations of the adapter.
\<close>

section \<open>Texts\<close>

record 'w surreal_env =
  su_http :: "'w http"
  su_url :: string
  su_namespace :: string
  su_database :: string
  su_token :: string
  su_schemas :: "(string, entity_schema) omap"
  su_dump :: "json \<Rightarrow> exn + string"
  su_parse :: "string \<Rightarrow> exn + json"
  su_show :: "rat \<Rightarrow> string"

definition surreal_escape :: "string \<Rightarrow> string" where
  "surreal_escape s =
     concat (map (\<lambda>c. if c = CHR 0x27 \<or> c = CHR 0x5C then [CHR 0x5C, c] else [c]) s)"

definition quoteString :: "string \<Rightarrow> string" where
  "quoteString s = sq (surreal_escape s)"

fun jsonToSurrealValue :: "'w surreal_env \<Rightarrow> json \<Rightarrow> exn + string" where
  "jsonToSurrealValue env (JString s) = Inr (quoteString s)"
| "jsonToSurrealValue env (JInt n) = Inr (int_digits (narrow_int64 n))"
| "jsonToSurrealValue env (JFloat q) = Inr (su_show env q)"
| "jsonToSurrealValue env (JBool b) = Inr (if b then ''true'' else ''false'')"
| "jsonToSurrealValue env JNull = Inr ''NULL''"
| "jsonToSurrealValue env j = map_sum id quoteString (su_dump env j)"

definition makeResourcePath :: "string \<Rightarrow> string \<Rightarrow> string" where
  "makeResourcePath entity i = (if i = [] then entity else entity @ ''/'' @ i)"

definition assignments :: "'w surreal_env \<Rightarrow> string \<Rightarrow> json \<Rightarrow> exn + string" where
  "assignments env sep j =
     exn_bind (object_items j) (\<lambda>m.
     map_sum id (\<lambda>ps. join ps sep)
       (exn_list (\<lambda>(k, v). map_sum id (\<lambda>s. k @ '' = '' @ s) (jsonToSurrealValue env v)) m))"

definition filterToWhere :: "'w surreal_env \<Rightarrow> json \<Rightarrow> exn + string" where
  "filterToWhere env flt = assignments env '' AND '' flt"

definition buildSetClause :: "'w surreal_env \<Rightarrow> json \<Rightarrow> exn + string" where
  "buildSetClause env data = assignments env '', '' data"

text \<open>\<^verbatim>\<open>page * effective_limit\<close> may overflow.\<close>

definition buildLimitClause :: "int \<Rightarrow> int \<Rightarrow> exn + string" where
  "buildLimitClause limit page =
     (let n = (if limit > 0 then limit else 100) in
      case checked (page * n) of
        None \<Rightarrow> Inl Undefined
      | Some offset \<Rightarrow> Inr ('' LIMIT '' @ int_digits n @ '' START '' @ int_digits offset))"

definition buildSelectQuery :: "'w surreal_env \<Rightarrow> string \<Rightarrow> rich_options \<Rightarrow> exn + string" where
  "buildSelectQuery env entity opts =
     exn_bind (if lo_filter opts = [] then Inr []
               else map_sum id (\<lambda>w. '' WHERE '' @ w) (filterToWhere env (json_map (lo_filter opts)))) (\<lambda>w.
     exn_bind (buildLimitClause (lo_limit opts) (lo_page opts)) (\<lambda>page.
       Inr (''SELECT * FROM '' @ entity @ w @ page)))"

definition buildCreateQuery :: "'w surreal_env \<Rightarrow> string \<Rightarrow> json \<Rightarrow> exn + string" where
  "buildCreateQuery env entity data = map_sum id (\<lambda>s. ''CREATE '' @ entity @ '' SET '' @ s) (buildSetClause env data)"

definition buildUpdateQuery :: "'w surreal_env \<Rightarrow> string \<Rightarrow> string \<Rightarrow> json \<Rightarrow> exn + string" where
  "buildUpdateQuery env entity i data =
     map_sum id (\<lambda>s. ''UPDATE '' @ entity @ '':'' @ i @ '' SET '' @ s) (buildSetClause env data)"

definition buildDeleteQuery :: "string \<Rightarrow> string \<Rightarrow> string" where
  "buildDeleteQuery entity i = ''DELETE '' @ entity @ '':'' @ i"

section \<open>Signing in\<close>

record surreal_auth =
  sr_user :: string
  sr_password :: string
  sr_token :: string
  sr_signed_in :: bool

text \<open>What is caught becomes an error of the database.\<close>

definition signin ::
    "'w surreal_env \<Rightarrow> surreal_auth \<Rightarrow> 'w remote_state \<Rightarrow> exn + (bool result \<times> surreal_auth) \<times> 'w remote_state" where
  "signin env a st =
     (let out = a\<lparr>sr_signed_in := False\<rparr>;
          body = jobject [(''NS'', JString (su_namespace env)), (''DB'', JString (su_database env)), (''SC'', JString ''root''),
            (''user'', JString (sr_user a)), (''pass'', JString (sr_password a))];
          thrown = (\<lambda>e st. case e of
             Undefined \<Rightarrow> Inl Undefined
           | Std_exception what \<Rightarrow> Inr ((Inl \<lparr>err_code = DatabaseError, err_what = what\<rparr>, out), st)) in
      case su_dump env body of
        Inl e \<Rightarrow> thrown e st
      | Inr s \<Rightarrow>
          (case su_http env \<lparr>hq_method = ''POST'', hq_url = su_url env @ ''/signin'',
               hq_headers = [(''Content-Type'', ''application/json'')], hq_body = Some s\<rparr> (rm_net st) of
             (answer, w) \<Rightarrow>
               (let st' = st\<lparr>rm_net := w\<rparr> in
                if ha_status answer \<noteq> 200
                then Inr ((Inl (unauthorized (''SurrealDB authentication failed: '' @ ha_text answer)), out), st')
                else case exn_bind (su_parse env (ha_text answer)) (\<lambda>j.
                       case jget j ''token'' of None \<Rightarrow> Inr None | Some v \<Rightarrow> map_sum id Some (get_string v)) of
                  Inl e \<Rightarrow> thrown e st'
                | Inr None \<Rightarrow> Inr ((Inl (unauthorized ''Authentication response missing token''), out), st')
                | Inr (Some token) \<Rightarrow> Inr ((Inr True, a\<lparr>sr_token := token, sr_signed_in := True\<rparr>), st'))))"

definition surreal_clear :: "surreal_auth \<Rightarrow> surreal_auth" where
  "surreal_clear a = a\<lparr>sr_token := [], sr_signed_in := False\<rparr>"

section \<open>The HTTP client\<close>

definition su_headers :: "'w surreal_env \<Rightarrow> string option \<Rightarrow> (string \<times> string) list" where
  "su_headers env content =
     [(''Accept'', ''application/json'')] @ (case content of None \<Rightarrow> [] | Some c \<Rightarrow> [(''Content-Type'', c)])
     @ [(''NS'', su_namespace env), (''DB'', su_database env), (''Authorization'', ''Bearer '' @ su_token env)]"

definition su_request ::
    "'w surreal_env \<Rightarrow> string \<Rightarrow> string \<Rightarrow> string option \<Rightarrow> string option \<Rightarrow> ('w remote_state, http_answer) act" where
  "su_request env verb path content body =
     remote_call (su_http env) \<lparr>hq_method = verb, hq_url = su_url env @ path, hq_headers = su_headers env content, hq_body = body\<rparr>"

definition su_answer :: "'w surreal_env \<Rightarrow> string \<Rightarrow> http_answer \<Rightarrow> ('w remote_state, json) act" where
  "su_answer env what a =
     (if ha_status a \<noteq> 200 then act_err (internal_error (what @ '' failed: '' @ ha_text a))
      else act_lift (su_parse env (ha_text a)))"

definition su_post :: "'w surreal_env \<Rightarrow> string \<Rightarrow> json \<Rightarrow> ('w remote_state, json) act" where
  "su_post env endpoint body = act_caught [] (
     act_bind (act_lift (su_dump env body)) (\<lambda>s.
     act_bind (su_request env ''POST'' endpoint (Some ''application/json'') (Some s)) (su_answer env ''SurrealDB POST'')))"

definition su_get :: "'w surreal_env \<Rightarrow> string \<Rightarrow> ('w remote_state, json) act" where
  "su_get env path = act_caught [] (
     act_bind (su_request env ''GET'' (''/key/'' @ path) None None) (\<lambda>a.
     if ha_status a = 404 then act_err (not_found ''Resource not found'')
     else su_answer env ''SurrealDB GET'' a))"

definition su_patch :: "'w surreal_env \<Rightarrow> string \<Rightarrow> json \<Rightarrow> ('w remote_state, json) act" where
  "su_patch env path body = act_caught [] (
     act_bind (act_lift (su_dump env body)) (\<lambda>s.
     act_bind (su_request env ''PATCH'' (''/key/'' @ path) (Some ''application/json'') (Some s))
       (su_answer env ''SurrealDB PATCH'')))"

definition su_delete :: "'w surreal_env \<Rightarrow> string \<Rightarrow> ('w remote_state, bool) act" where
  "su_delete env path =
     act_bind (su_request env ''DELETE'' (''/key/'' @ path) None None) (\<lambda>a.
     if ha_status a \<noteq> 200 then act_err (internal_error (''SurrealDB DELETE failed: '' @ ha_text a)) else act_ret True)"

definition executeSql :: "'w surreal_env \<Rightarrow> string \<Rightarrow> ('w remote_state, json) act" where
  "executeSql env query = act_caught [] (
     act_bind (su_request env ''POST'' ''/sql'' (Some ''text/plain'') (Some query)) (su_answer env ''SurrealDB SQL query''))"

section \<open>Operations\<close>

definition su_create :: "'w surreal_env \<Rightarrow> string \<Rightarrow> json \<Rightarrow> ('w remote_state, json) act" where
  "su_create env entity data =
     act_bind (su_post env (''/key/'' @ makeResourcePath entity []) data) (\<lambda>r.
     act_bind (remote_record (\<lambda>tx.
       exn_bind (case jget r ''id'' of None \<Rightarrow> Inr [] | Some v \<Rightarrow> get_string v) (\<lambda>i. Inr (recordCreate entity i tx)))) (\<lambda>_.
     act_ret r))"

definition su_read :: "'w surreal_env \<Rightarrow> string \<Rightarrow> string \<Rightarrow> ('w remote_state, json) act" where
  "su_read env entity i =
     act_bind (act_result (su_get env (makeResourcePath entity i))) (\<lambda>r. case r of
       Inl e \<Rightarrow> act_err (if err_code e = NotFound then es_missing entity i else e)
     | Inr j \<Rightarrow> act_ret j)"

definition su_update :: "'w surreal_env \<Rightarrow> string \<Rightarrow> string \<Rightarrow> json \<Rightarrow> ('w remote_state, json) act" where
  "su_update env entity i data =
     act_bind (remote_snapshot (su_read env entity i) (\<lambda>old tx. Inr (recordUpdate entity i old tx))) (\<lambda>_.
     su_patch env (makeResourcePath entity i) data)"

definition su_remove :: "'w surreal_env \<Rightarrow> string \<Rightarrow> string \<Rightarrow> ('w remote_state, bool) act" where
  "su_remove env entity i =
     act_bind (remote_snapshot (su_read env entity i) (recordDelete entity)) (\<lambda>_.
     su_delete env (makeResourcePath entity i))"

text \<open>The rows of the first statement's result.\<close>

definition result_rows :: "json \<Rightarrow> exn + json list" where
  "result_rows response =
     (case first_of_array response of
        None \<Rightarrow> Inr []
      | Some x \<Rightarrow> (case jget x ''result'' of
            None \<Rightarrow> Inr []
          | Some (JArray rows) \<Rightarrow> Inr rows
          | Some _ \<Rightarrow> Inl (type_error ''type must be array'')))"

definition su_list :: "'w surreal_env \<Rightarrow> string \<Rightarrow> rich_options \<Rightarrow> ('w remote_state, list_result) act" where
  "su_list env entity opts = act_caught [] (
     act_bind (act_lift (buildSelectQuery env entity opts)) (\<lambda>query.
     act_bind (executeSql env query) (\<lambda>response.
     act_bind (act_lift (result_rows response)) (\<lambda>rows.
       act_ret \<lparr>lr_items = rows, lr_total = size_to_int (length rows), lr_page = lo_page opts, lr_limit = lo_limit opts\<rparr>))))"

fun su_create_each :: "'w surreal_env \<Rightarrow> string \<Rightarrow> json list \<Rightarrow> int \<Rightarrow> ('w remote_state, int) act" where
  "su_create_each env entity [] n = act_ret n"
| "su_create_each env entity (r # rs) n =
     act_bind (act_result (su_create env entity r)) (\<lambda>x. su_create_each env entity rs (if is_ok x then n + 1 else n))"

definition su_create_many :: "'w surreal_env \<Rightarrow> string \<Rightarrow> json list \<Rightarrow> ('w remote_state, int) act" where
  "su_create_many env entity recs = su_create_each env entity recs 0"

definition su_unsupported :: "string \<Rightarrow> error" where
  "su_unsupported what = \<lparr>err_code = CapabilityNotSupported, err_what = ''SurrealDBAdapter::'' @ what @ '' not yet implemented''\<rparr>"

definition su_find_first :: "'w surreal_env \<Rightarrow> string \<Rightarrow> json \<Rightarrow> ('w remote_state, json) act" where
  "su_find_first env entity flt =
     act_bind (su_list env entity (es_options 1)) (\<lambda>l.
       case lr_items l of [] \<Rightarrow> act_err (not_found ''No matching record found'') | r # _ \<Rightarrow> act_ret r)"

definition su_find_by_field :: "'w surreal_env \<Rightarrow> string \<Rightarrow> string \<Rightarrow> json \<Rightarrow> ('w remote_state, json) act" where
  "su_find_by_field env entity field v = su_find_first env entity (JObject [(field, v)])"

definition su_upsert :: "'w surreal_env \<Rightarrow> string \<Rightarrow> string \<Rightarrow> json \<Rightarrow> json \<Rightarrow> json \<Rightarrow> ('w remote_state, json) act" where
  "su_upsert env entity field v created updated =
     act_bind (act_result (su_find_by_field env entity field v)) (\<lambda>r. case r of
       Inr rec \<Rightarrow> act_bind (act_lift (found_id rec)) (\<lambda>i. su_update env entity i updated)
     | Inl e \<Rightarrow> su_create env entity created)"

definition su_schema_of :: "'w surreal_env \<Rightarrow> string \<Rightarrow> ('w remote_state, entity_schema) act" where
  "su_schema_of env entity =
     (case map_of (su_schemas env) entity of None \<Rightarrow> act_err (no_schema entity) | Some s \<Rightarrow> act_ret s)"

definition su_loadSchemas :: "entity_def list \<Rightarrow> (string, entity_schema) omap" where
  "su_loadSchemas es = fold (\<lambda>e. om_put (en_name e) (es_schema_of_def e)) es []"

section \<open>The interface\<close>

definition su_undo :: "'w surreal_env \<Rightarrow> 'w remote_state undo_adapter" where
  "su_undo env = remote_undo (su_create env) (su_update env) (su_remove env)"

definition surreal_adapter :: "'w surreal_env \<Rightarrow> ('w remote_state, entity_schema) rest_adapter" where
  "surreal_adapter env = \<lparr>
     ba_create = (\<lambda>e data. as_act (su_create env e data)),
     ba_read = (\<lambda>e i. as_act (su_read env e i)),
     ba_read_sensitive = (\<lambda>e i. as_act (su_read env e i)),
     ba_search = (\<lambda>e query n. as_act (act_err no_search)),
     ba_update = (\<lambda>e i data. as_act (su_update env e i data)),
     ba_remove = (\<lambda>e i. as_act (su_remove env e i)),
     ba_list = (\<lambda>e opts. as_act (su_list env e opts)),
     ba_create_many = (\<lambda>e recs. as_act (su_create_many env e recs)),
     ba_update_many = (\<lambda>e flt data. as_act (act_err (su_unsupported ''updateMany''))),
     ba_delete_many = (\<lambda>e flt. as_act (act_err (su_unsupported ''deleteMany''))),
     ba_find_first = (\<lambda>e flt. as_act (su_find_first env e flt)),
     ba_find_by_field = (\<lambda>e f v. as_act (su_find_by_field env e f v)),
     ba_upsert = (\<lambda>e f v c u. as_act (su_upsert env e f v c u)),
     ba_entities = as_act (act_ret (map fst (su_schemas env))),
     ba_schema = (\<lambda>e. as_act (su_schema_of env e)),
     ba_close = (\<lambda>st. Inr ((), st)),
     ba_native = (\<lambda>st. False),
     ba_begin = as_act remote_begin,
     ba_commit = as_act remote_commit,
     ba_rollback = remote_rollback (su_undo env)\<rparr>"

end
