(* ===== verification/Supabase_Adapter.thy ===== *)
theory Supabase_Adapter
  imports Remote_Calls
begin

text \<open>
  The adapter for Supabase in its REST mode (\<^verbatim>\<open>src/adapters/supabase/\<close>): the queries of PostgREST, the HTTP
  client, the token of the session, and the operations.  In its other mode the adapter forwards
  every operation to the one for PostgreSQL, which \<^verbatim>\<open>Sql_Drivers\<close> models.
\<close>

section \<open>Queries\<close>

text \<open>\<open>sb_show\<close> is \<^verbatim>\<open>std::to_string\<close> of a double.\<close>

record 'w supabase_env =
  sb_http :: "'w http"
  sb_base_url :: string
  sb_api_key :: string
  sb_token :: string
  sb_schemas :: "(string, entity_schema) omap"
  sb_dump :: "json \<Rightarrow> exn + string"
  sb_parse :: "string \<Rightarrow> exn + json"
  sb_show :: "rat \<Rightarrow> string"

fun escapeValue :: "'w supabase_env \<Rightarrow> json \<Rightarrow> exn + string" where
  "escapeValue env (JString s) = Inr s"
| "escapeValue env (JInt n) = Inr (int_digits (narrow_int n))"
| "escapeValue env (JFloat q) = Inr (sb_show env q)"
| "escapeValue env (JBool b) = Inr (if b then ''true'' else ''false'')"
| "escapeValue env j = sb_dump env j"

definition buildFilterQuery :: "'w supabase_env \<Rightarrow> json \<Rightarrow> exn + string" where
  "buildFilterQuery env flt =
     exn_bind (object_items flt) (\<lambda>m.
     exn_bind (exn_list (\<lambda>(k, v). map_sum id (\<lambda>s. k @ ''=eq.'' @ s) (escapeValue env v)) m) (\<lambda>ps.
       Inr (join ps ''&'')))"

text \<open>\<^verbatim>\<open>(page - 1) * limit\<close> may overflow.\<close>

definition buildPaginationQuery :: "int \<Rightarrow> int \<Rightarrow> exn + string" where
  "buildPaginationQuery limit page =
     (case checked (if page > 1 then (page - 1) * limit else 0) of
        None \<Rightarrow> Inl Undefined
      | Some offset \<Rightarrow> Inr (''limit='' @ int_digits limit @ ''&offset='' @ int_digits offset))"

definition buildSortQuery :: "(string, string) omap \<Rightarrow> string" where
  "buildSortQuery order =
     join (map (\<lambda>(field, dir). ''order='' @ field @ ''.'' @ (if dir = ''desc'' then ''desc'' else ''asc'')) order) ''&''"

definition sb_limit :: "int \<Rightarrow> int" where
  "sb_limit n = (if n > 0 then n else 50)"

definition buildListQuery :: "'w supabase_env \<Rightarrow> string \<Rightarrow> rich_options \<Rightarrow> exn + string" where
  "buildListQuery env entity opts =
     exn_bind (if lo_filter opts = [] then Inr ''?''
               else map_sum id (\<lambda>q. ''?'' @ q @ ''&'') (buildFilterQuery env (json_map (lo_filter opts)))) (\<lambda>start.
     exn_bind (buildPaginationQuery (sb_limit (lo_limit opts)) (lo_page opts)) (\<lambda>page.
       Inr (entity @ start @ page @ (if lo_sort opts = [] then [] else ''&'' @ buildSortQuery (lo_sort opts)))))"

definition buildReadQuery :: "string \<Rightarrow> string \<Rightarrow> string" where
  "buildReadQuery entity i = entity @ ''?id=eq.'' @ i"

section \<open>The HTTP client\<close>

definition sb_headers :: "'w supabase_env \<Rightarrow> (string \<times> string) list" where
  "sb_headers env = [(''Content-Type'', ''application/json''), (''apikey'', sb_api_key env),
     (''Authorization'', ''Bearer '' @ sb_token env)]"

definition handleResponse :: "'w supabase_env \<Rightarrow> http_answer \<Rightarrow> ('w remote_state, json) act" where
  "handleResponse env a =
     (let status = ha_status a; s = ha_text a in
      if 200 \<le> status \<and> status < 300 then
        act_caught ''Failed to parse response: '' (if s = [] then act_ret (JArray []) else act_lift (sb_parse env s))
      else if status = 404 then act_err (not_found s)
      else if status = 409 then act_err (conflict s)
      else if status = 400 \<or> status = 422 then act_err (validation_error s)
      else if status = 401 then act_err (unauthorized s)
      else if status = 403 then act_err (forbidden s)
      else act_err (internal_error (''HTTP '' @ int_digits status @ '': '' @ s)))"

definition sb_request :: "'w supabase_env \<Rightarrow> string \<Rightarrow> string \<Rightarrow> (string \<times> string) list \<Rightarrow> string option \<Rightarrow> http_call" where
  "sb_request env verb path extra body =
     \<lparr>hq_method = verb, hq_url = sb_base_url env @ ''/rest/v1/'' @ path, hq_headers = sb_headers env @ extra, hq_body = body\<rparr>"

text \<open>\<^verbatim>\<open>post\<close> and \<^verbatim>\<open>patch\<close>\<close>

definition sb_send :: "'w supabase_env \<Rightarrow> string \<Rightarrow> string \<Rightarrow> json \<Rightarrow> ('w remote_state, json) act" where
  "sb_send env verb path body =
     act_bind (act_lift (sb_dump env body)) (\<lambda>s.
     act_bind (remote_call (sb_http env) (sb_request env verb path [(''Prefer'', ''return=representation'')] (Some s)))
       (handleResponse env))"

definition sb_get :: "'w supabase_env \<Rightarrow> string \<Rightarrow> ('w remote_state, json) act" where
  "sb_get env path = act_bind (remote_call (sb_http env) (sb_request env ''GET'' path [] None)) (handleResponse env)"

text \<open>The number after the last slash of \<^verbatim>\<open>Content-Range\<close>, or -1.  The case of a header's name does not matter to cpr.\<close>

definition range_total :: "http_answer \<Rightarrow> int" where
  "range_total a =
     (case map_of (map (\<lambda>(k, v). (to_lower k, v)) (ha_headers a)) ''content-range'' of
        None \<Rightarrow> -1
      | Some cr \<Rightarrow>
          if CHR ''/'' \<notin> set cr then -1
          else case stoi (rev (takeWhile (\<lambda>c. c \<noteq> CHR ''/'') (rev cr))) of Inl x \<Rightarrow> -1 | Inr n \<Rightarrow> n)"

definition sb_get_list :: "'w supabase_env \<Rightarrow> string \<Rightarrow> ('w remote_state, json \<times> int) act" where
  "sb_get_list env path =
     act_bind (remote_call (sb_http env) (sb_request env ''GET'' path [(''Prefer'', ''count=exact'')] None)) (\<lambda>a.
     act_bind (handleResponse env a) (\<lambda>items. act_ret (items, range_total a)))"

definition sb_delete :: "'w supabase_env \<Rightarrow> string \<Rightarrow> ('w remote_state, bool) act" where
  "sb_delete env path =
     act_bind (remote_call (sb_http env) (sb_request env ''DELETE'' path [] None)) (\<lambda>a.
       if 200 \<le> ha_status a \<and> ha_status a < 300 then act_ret True
       else act_err (internal_error (''Delete failed: '' @ ha_text a)))"

section \<open>Operations\<close>

text \<open>\<^verbatim>\<open>created.contains("id")\<close>, in a running transaction\<close>

definition sb_note_created :: "string \<Rightarrow> json \<Rightarrow> ('w remote_state, unit) act" where
  "sb_note_created entity created = remote_record (\<lambda>tx.
     exn_bind (case jget created ''id'' of None \<Rightarrow> Inr [] | Some v \<Rightarrow> get_string v) (\<lambda>i. Inr (recordCreate entity i tx)))"

definition sb_create :: "'w supabase_env \<Rightarrow> string \<Rightarrow> json \<Rightarrow> ('w remote_state, json) act" where
  "sb_create env entity data =
     act_bind (sb_send env ''POST'' entity data) (\<lambda>r.
     let created = (case first_of_array r of Some x \<Rightarrow> x | None \<Rightarrow> r) in
     act_bind (sb_note_created entity created) (\<lambda>_. act_ret created))"

definition sb_read :: "'w supabase_env \<Rightarrow> string \<Rightarrow> string \<Rightarrow> ('w remote_state, json) act" where
  "sb_read env entity i =
     act_bind (sb_get env (buildReadQuery entity i)) (\<lambda>r.
       case first_of_array r of Some x \<Rightarrow> act_ret x | None \<Rightarrow> act_err (not_found ''Entity not found''))"

definition sb_update :: "'w supabase_env \<Rightarrow> string \<Rightarrow> string \<Rightarrow> json \<Rightarrow> ('w remote_state, json) act" where
  "sb_update env entity i data =
     act_bind (remote_snapshot (sb_read env entity i) (\<lambda>old tx. Inr (recordUpdate entity i old tx))) (\<lambda>_.
     act_bind (sb_send env ''PATCH'' (buildReadQuery entity i) data) (\<lambda>r.
       case first_of_array r of
         Some x \<Rightarrow> act_ret x
       | None \<Rightarrow> act_err (not_found ''Entity not found after update'')))"

definition sb_remove :: "'w supabase_env \<Rightarrow> string \<Rightarrow> string \<Rightarrow> ('w remote_state, bool) act" where
  "sb_remove env entity i =
     act_bind (remote_snapshot (sb_read env entity i) (recordDelete entity)) (\<lambda>_.
     sb_delete env (buildReadQuery entity i))"

definition sb_list :: "'w supabase_env \<Rightarrow> string \<Rightarrow> rich_options \<Rightarrow> ('w remote_state, list_result) act" where
  "sb_list env entity opts =
     act_bind (act_lift (buildListQuery env entity opts)) (\<lambda>q.
     act_bind (sb_get_list env q) (\<lambda>(items, n).
       act_ret (case items of
         JArray xs \<Rightarrow> \<lparr>lr_items = xs, lr_total = (if n \<ge> 0 then n else size_to_int (length xs)),
             lr_page = lo_page opts, lr_limit = sb_limit (lo_limit opts)\<rparr>
       | _ \<Rightarrow> \<lparr>lr_items = [], lr_total = 0, lr_page = lo_page opts, lr_limit = sb_limit (lo_limit opts)\<rparr>)))"

fun array_length :: "json \<Rightarrow> int" where
  "array_length (JArray xs) = size_to_int (length xs)"
| "array_length _ = 0"

definition sb_create_many :: "'w supabase_env \<Rightarrow> string \<Rightarrow> json list \<Rightarrow> ('w remote_state, int) act" where
  "sb_create_many env entity recs =
     act_bind (sb_send env ''POST'' entity (JArray recs)) (\<lambda>r. act_ret (array_length r))"

definition filtered_path :: "'w supabase_env \<Rightarrow> string \<Rightarrow> json \<Rightarrow> exn + string" where
  "filtered_path env entity flt =
     (if jempty flt then Inr entity else map_sum id (\<lambda>q. entity @ ''?'' @ q) (buildFilterQuery env flt))"

definition sb_update_many :: "'w supabase_env \<Rightarrow> string \<Rightarrow> json \<Rightarrow> json \<Rightarrow> ('w remote_state, int) act" where
  "sb_update_many env entity flt data =
     act_bind (act_lift (filtered_path env entity flt)) (\<lambda>q.
     act_bind (sb_send env ''PATCH'' q data) (\<lambda>r. act_ret (array_length r)))"

text \<open>The filter as the options of a list.\<close>

definition filter_options :: "'w supabase_env \<Rightarrow> int \<Rightarrow> json \<Rightarrow> exn + rich_options" where
  "filter_options env n flt =
     exn_bind (object_items flt) (\<lambda>m.
     exn_bind (exn_list (\<lambda>(k, v). map_sum id (\<lambda>s. (k, s)) (case v of JString s \<Rightarrow> Inr s | _ \<Rightarrow> sb_dump env v)) m) (\<lambda>kvs.
       Inr (default_rich_options\<lparr>lo_limit := n, lo_page := 1,
         lo_filter := fold (\<lambda>(k, v). om_put k v) kvs []\<rparr>)))"

definition sb_delete_many :: "'w supabase_env \<Rightarrow> string \<Rightarrow> json \<Rightarrow> ('w remote_state, int) act" where
  "sb_delete_many env entity flt =
     act_bind (act_lift (filter_options env 10000 flt)) (\<lambda>opts.
     act_bind (act_result (sb_list env entity opts)) (\<lambda>counted.
     act_bind (act_lift (filtered_path env entity flt)) (\<lambda>q.
     act_bind (sb_delete env q) (\<lambda>_.
       act_ret (case counted of Inr l \<Rightarrow> lr_total l | Inl e \<Rightarrow> 0)))))"

definition sb_find_first :: "'w supabase_env \<Rightarrow> string \<Rightarrow> json \<Rightarrow> ('w remote_state, json) act" where
  "sb_find_first env entity flt =
     act_bind (act_lift (filter_options env 1 flt)) (\<lambda>opts.
     act_bind (sb_list env entity opts) (\<lambda>l.
       case lr_items l of [] \<Rightarrow> act_err (not_found ''No matching entity found'') | r # _ \<Rightarrow> act_ret r))"

definition sb_find_by_field :: "'w supabase_env \<Rightarrow> string \<Rightarrow> string \<Rightarrow> json \<Rightarrow> ('w remote_state, json) act" where
  "sb_find_by_field env entity field v = sb_find_first env entity (JObject [(field, v)])"

definition sb_upsert :: "'w supabase_env \<Rightarrow> string \<Rightarrow> string \<Rightarrow> json \<Rightarrow> json \<Rightarrow> json \<Rightarrow> ('w remote_state, json) act" where
  "sb_upsert env entity field v created updated =
     act_bind (act_lift (exn_bind (jassign field v created) (merge_into updated))) (\<lambda>data.
     act_bind (sb_send env ''POST'' entity data) (\<lambda>r.
       case first_of_array r of
         Some x \<Rightarrow> act_ret x
       | None \<Rightarrow> act_err (internal_error ''Upsert failed to return data'')))"

definition sb_schema_of :: "'w supabase_env \<Rightarrow> string \<Rightarrow> ('w remote_state, entity_schema) act" where
  "sb_schema_of env entity =
     (case map_of (sb_schemas env) entity of
        None \<Rightarrow> act_err (not_found (''Schema not found for entity: '' @ entity))
      | Some s \<Rightarrow> act_ret s)"

section \<open>The session's token and the tenant's header\<close>

record sb_auth =
  sa_key :: string
  sa_token :: string
  sa_authenticated :: bool

definition sb_new_auth :: "string \<Rightarrow> sb_auth" where
  "sb_new_auth key = \<lparr>sa_key = key, sa_token = key, sa_authenticated = True\<rparr>"

definition setAuthToken :: "string \<Rightarrow> sb_auth \<Rightarrow> sb_auth" where
  "setAuthToken token a = a\<lparr>sa_token := token, sa_authenticated := (token \<noteq> [])\<rparr>"

definition clearAuth :: "sb_auth \<Rightarrow> sb_auth" where
  "clearAuth a = a\<lparr>sa_token := sa_key a, sa_authenticated := True\<rparr>"

definition buildTenantHeaders :: "string \<Rightarrow> json" where
  "buildTenantHeaders tenant = (if tenant = [] then JObject [] else jobject [(''X-Tenant-Id'', JString tenant)])"

section \<open>The interface\<close>

definition sb_undo :: "'w supabase_env \<Rightarrow> 'w remote_state undo_adapter" where
  "sb_undo env = remote_undo (sb_create env) (sb_update env) (sb_remove env)"

definition supabase_adapter :: "'w supabase_env \<Rightarrow> ('w remote_state, entity_schema) rest_adapter" where
  "supabase_adapter env = \<lparr>
     ba_create = (\<lambda>e data. as_act (sb_create env e data)),
     ba_read = (\<lambda>e i. as_act (sb_read env e i)),
     ba_read_sensitive = (\<lambda>e i. as_act (sb_read env e i)),
     ba_search = (\<lambda>e query n. as_act (act_err no_search)),
     ba_update = (\<lambda>e i data. as_act (sb_update env e i data)),
     ba_remove = (\<lambda>e i. as_act (sb_remove env e i)),
     ba_list = (\<lambda>e opts. as_act (sb_list env e opts)),
     ba_create_many = (\<lambda>e recs. as_act (sb_create_many env e recs)),
     ba_update_many = (\<lambda>e flt data. as_act (sb_update_many env e flt data)),
     ba_delete_many = (\<lambda>e flt. as_act (sb_delete_many env e flt)),
     ba_find_first = (\<lambda>e flt. as_act (sb_find_first env e flt)),
     ba_find_by_field = (\<lambda>e f v. as_act (sb_find_by_field env e f v)),
     ba_upsert = (\<lambda>e f v c u. as_act (sb_upsert env e f v c u)),
     ba_entities = as_act (act_ret (map fst (sb_schemas env))),
     ba_schema = (\<lambda>e. as_act (sb_schema_of env e)),
     ba_close = (\<lambda>st. Inr ((), st)),
     ba_native = (\<lambda>st. False),
     ba_begin = as_act remote_begin,
     ba_commit = as_act remote_commit,
     ba_rollback = remote_rollback (sb_undo env)\<rparr>"

end
