(* ===== verification/Remote_Properties.thy ===== *)
theory Remote_Properties
  imports Surreal_Adapter Supabase_Adapter
begin

text \<open>
  What holds of the adapters over HTTP: the pages of Elasticsearch are one too far, a write to an
  Elasticsearch that cannot be reached is answered as done, and SurrealDB reads a quoted string as the
  string it was made from.
\<close>

section \<open>Pages\<close>

text \<open>The answer of Elasticsearch to a search.\<close>

definition search_response :: "json list \<Rightarrow> int \<Rightarrow> json" where
  "search_response docs n =
     jobject [(''hits'', jobject [(''total'', jobject [(''value'', JInt n)]),
       (''hits'', JArray (map (\<lambda>d. jobject [(''_source'', d)]) docs))])]"

text \<open>
  A server that holds \<open>docs\<close> and answers a search for all of them with the \<open>size\<close> documents that
  follow the first \<open>from\<close>.
\<close>

definition answers_search :: "'w es_env \<Rightarrow> string \<Rightarrow> json list \<Rightarrow> bool" where
  "answers_search env entity docs \<longleftrightarrow>
     (\<forall>limit from_index. \<exists>body. es_dump env (buildSearchQuery [] limit from_index) = Inr body \<and>
       (\<forall>w. \<exists>s w'. es_http env \<lparr>hq_method = ''POST'',
            hq_url = ec_base_url (es_config env) @ makeSearchPath (toIndexName entity),
            hq_headers = json_headers, hq_body = Some body\<rparr> w = (\<lparr>ha_status = 200, ha_text = s, ha_headers = []\<rparr>, w') \<and>
          s \<noteq> [] \<and> es_parse env s =
            Inr (search_response (take (nat limit) (drop (nat from_index) docs)) (int (length docs)))))"

lemma extract_response: "extractDocuments (search_response docs n) = docs"
  by (simp add: extractDocuments_def search_response_def jget_jobject List.map_filter_def comp_def)

lemma total_response: "- (2 ^ 31) \<le> n \<Longrightarrow> n < 2 ^ 31 \<Longrightarrow> extractTotal (search_response docs n) = Inr n"
  by (simp add: extractTotal_def search_response_def jget_jobject jcontains_def jobject_def narrow_int_def)

text \<open>
  The pages of Elasticsearch are one too far.  On a server that answers searches as documented, the list
  of page \<open>p\<close> with limit \<open>n\<close> holds the documents after the first \<open>p * n\<close>.  Pages count from one, so the
  first \<open>n\<close> documents are on no page, and with at most \<open>n\<close> documents the first page is empty while the
  total is that of all documents.
\<close>

theorem elastic_pages_shifted:
  assumes "map_of (es_schemas env) entity \<noteq> None" "answers_search env entity docs" "lo_filter opts = []"
    "0 < lo_limit opts" "0 \<le> lo_page opts" "lo_page opts * lo_limit opts < 2 ^ 31" "length docs < 2 ^ 31"
  shows "\<exists>l st'. es_list env entity opts st = (Inr (Inr l), st') \<and> lr_total l = int (length docs) \<and>
    lr_items l = take (nat (lo_limit opts)) (drop (nat (lo_page opts * lo_limit opts)) docs)"
proof -
  have "0 \<le> lo_page opts * lo_limit opts" using assms(4,5) by simp
  then have "checked (lo_page opts * lo_limit opts) = Some (lo_page opts * lo_limit opts)"
    using assms(6) by (simp add: checked_def in_int32_def)
  moreover obtain body s w' where body: "es_dump env (buildSearchQuery [] (lo_limit opts) (lo_page opts * lo_limit opts)) = Inr body"
      and answer: "es_http env \<lparr>hq_method = ''POST'',
            hq_url = ec_base_url (es_config env) @ makeSearchPath (toIndexName entity),
            hq_headers = json_headers, hq_body = Some body\<rparr> (rm_net st) = (\<lparr>ha_status = 200, ha_text = s, ha_headers = []\<rparr>, w')"
      and parse: "s \<noteq> []" "es_parse env s = Inr (search_response (take (nat (lo_limit opts))
            (drop (nat (lo_page opts * lo_limit opts)) docs)) (int (length docs)))"
    using assms(2) unfolding answers_search_def by blast
  moreover obtain schema where "map_of (es_schemas env) entity = Some schema" using assms(1) by blast
  ultimately show ?thesis
    using assms(3,4,7)
    by (simp add: es_list_def es_known_def act_caught_def es_send_def act_bind_def act_lift_def remote_call_def es_url_def
        es_body_def parseSearchResponse_def total_response extract_response exn_bind_def)
qed

definition one_document :: json where
  "one_document = JObject [(''id'', JString ''1'')]"

text \<open>A server with one document, which answers with what the body says.\<close>

definition search_body :: "json \<Rightarrow> string" where
  "search_body j =
     (case (jget j ''from'', jget j ''size'') of
        (Some (JInt f), Some (JInt n)) \<Rightarrow> if f \<le> 0 \<and> 0 < n then ''first'' else ''later''
      | _ \<Rightarrow> ''other'')"

definition small_elastic :: "unit es_env" where
  "small_elastic = \<lparr>es_http = (\<lambda>q w. (\<lparr>ha_status = 200, ha_text = (case hq_body q of Some s \<Rightarrow> s | None \<Rightarrow> []), ha_headers = []\<rparr>, w)),
     es_config = es_parse_url ''elasticsearch://db:9200'', es_schemas = [(''Note'', \<lparr>es_name = ''Note'', es_fields = []\<rparr>)],
     es_dump = (\<lambda>j. Inr (search_body j)),
     es_parse = (\<lambda>s. Inr (search_response (if s = ''first'' then [one_document] else []) 1)),
     es_uuid = (\<lambda>w. (''u'', w))\<rparr>"

lemma small_elastic_answers: "answers_search small_elastic ''Note'' [one_document]"
  by (auto simp: answers_search_def small_elastic_def search_body_def buildSearchQuery_def jget_jobject take_Cons' drop_Cons')

theorem elastic_pages_shifted_witness:
  "\<exists>l st'. es_list small_elastic ''Note'' default_rich_options \<lparr>rm_net = (), rm_tx = None\<rparr> = (Inr (Inr l), st') \<and>
     lo_page default_rich_options = 1 \<and> lr_total l = 1 \<and> lr_items l = []"
  using elastic_pages_shifted [OF _ small_elastic_answers, of default_rich_options "\<lparr>rm_net = (), rm_tx = None\<rparr>"]
  by (simp add: small_elastic_def default_rich_options_def)

section \<open>A server that cannot be reached\<close>

text \<open>
  A write that reaches no server is answered as done.  When no request reaches Elasticsearch, which cpr
  reports as status 0 with an empty text, creating a record with an id succeeds and answers with the
  record: the client only takes a status from 400 on as an error.
\<close>

theorem elastic_lost_write:
  assumes "map_of (es_schemas env) entity \<noteq> None"
    "\<forall>q w. fst (es_http env q w) = \<lparr>ha_status = 0, ha_text = [], ha_headers = []\<rparr>"
    "jget data ''id'' = Some (JString i)" "\<forall>j. \<exists>s. es_dump env j = Inr s"
  shows "\<exists>rec st'. es_create env entity data st = (Inr (Inr rec), st') \<and> jget rec = (jget data)(''id'' \<mapsto> JString i)"
proof -
  obtain m where data: "data = JObject m" using assms(3) by (cases data) auto
  obtain s where s: "es_dump env (JObject (om_put ''id'' (JString i) m)) = Inr s" using assms(4) by blast
  obtain w' where w: "es_http env \<lparr>hq_method = ''PUT'', hq_url = es_url (es_config env) (es_path env entity i) True,
      hq_headers = json_headers, hq_body = Some s\<rparr> (rm_net st) = (\<lparr>ha_status = 0, ha_text = [], ha_headers = []\<rparr>, w')"
    using assms(2) by (metis prod.collapse)
  show ?thesis
    using assms(1,3)
    by (auto simp: data es_create_def es_known_def document_id_def act_bind_def act_lift_def es_send_def act_caught_def s
        remote_call_def w es_body_def act_ret_def remote_record_def fun_eq_iff split: option.split)
qed

definition absent_elastic :: "unit es_env" where
  "absent_elastic = small_elastic\<lparr>es_http := \<lambda>q w. (\<lparr>ha_status = 0, ha_text = [], ha_headers = []\<rparr>, w)\<rparr>"

theorem elastic_lost_write_witness:
  "\<exists>rec st'. es_create absent_elastic ''Note'' one_document \<lparr>rm_net = (), rm_tx = None\<rparr> = (Inr (Inr rec), st') \<and>
     jget rec ''id'' = Some (JString ''1'')"
  using elastic_lost_write [of absent_elastic "''Note''" one_document "''1''" "\<lparr>rm_net = (), rm_tx = None\<rparr>"]
  by (auto simp: absent_elastic_def small_elastic_def one_document_def)

section \<open>Strings of SurrealQL\<close>

text \<open>A single-quoted string of SurrealQL: a backslash takes the next character as it is.\<close>

fun surreal_read :: "string \<Rightarrow> (string \<times> string) option" where
  "surreal_read [] = None"
| "surreal_read [c] = (if c = CHR 0x27 then Some ([], []) else None)"
| "surreal_read (c # d # s) =
     (if c = CHR 0x27 then Some ([], d # s)
      else if c = CHR 0x5C then map_option (\<lambda>(t, r). (d # t, r)) (surreal_read s)
      else map_option (\<lambda>(t, r). (c # t, r)) (surreal_read (d # s)))"

lemma surreal_read_escaped: "surreal_read (surreal_escape s @ CHR 0x27 # r) = Some (s, r)"
proof (induction s)
  case Nil
  then show ?case by (cases r) (simp_all add: surreal_escape_def)
next
  case (Cons c s)
  show ?case
  proof (cases "c = CHR 0x27 \<or> c = CHR 0x5C")
    case True
    with Cons show ?thesis by (auto simp: surreal_escape_def)
  next
    case False
    obtain d t where "surreal_escape s @ CHR 0x27 # r = d # t" by (cases "surreal_escape s @ CHR 0x27 # r") auto
    with False Cons show ?thesis by (simp add: surreal_escape_def)
  qed
qed

text \<open>
  A string in a query is read back as it was.  The text that the adapter writes for a string value, after
  its opening quote and whatever follows the value in the statement, is read by SurrealDB as that
  string, ending at the quote that the adapter wrote, so that no value can end its literal.
\<close>

theorem surreal_string_roundtrip:
  "\<exists>q. jsonToSurrealValue env (JString s) = Inr (CHR 0x27 # q) \<and> surreal_read (q @ rest) = Some (s, rest)"
  using surreal_read_escaped [of s rest] by (simp add: quoteString_def sq_def)

end
