(* ===== verification/Blob_Files.thy ===== *)
theory Blob_Files
  imports Blob_Memory
begin

text \<open>
  Blob storage on files (\<^verbatim>\<open>src/blob/filesystem_storage.hpp\<close>, \<^verbatim>\<open>src/blob/filesystem/\<close>) and the choice of the
  storage (\<^verbatim>\<open>src/blob/blob_storage_factory.hpp\<close>).  What \<^verbatim>\<open>std::filesystem\<close> and \<^verbatim>\<open>std::fstream\<close> do on POSIX
  is modelled as far as the code uses it: a file system is a map from absolute paths, given by their
  names, to directories and files.  There are no symbolic links, no failing devices and no limits on
  the length of names, and names have no NUL byte.  \<open>fs_strerror\<close> gives the text of an error code.
\<close>

section \<open>Paths\<close>

datatype fs_node = Fs_dir | Fs_file string int

type_synonym file_system = "(string list, fs_node) omap"

datatype os_error = Not_a_directory | Is_a_directory | Device_busy | Directory_not_empty | Invalid_argument
  | Not_supported | File_exists

record fs_env =
  fs_root :: "string list"
  fs_hash :: "string \<Rightarrow> nat"
  fs_strerror :: "os_error \<Rightarrow> string"

definition path_string :: "string list \<Rightarrow> string" where
  "path_string names = (if names = [] then ''/'' else concat (map (\<lambda>n. CHR ''/'' # n) names))"

text \<open>The pieces between the slashes.\<close>

fun slash_parts :: "string \<Rightarrow> string list" where
  "slash_parts [] = [[]]"
| "slash_parts (c # s) =
     (if c = CHR ''/'' then [] # slash_parts s
      else case slash_parts s of [] \<Rightarrow> [[c]] | p # ps \<Rightarrow> (c # p) # ps)"

text \<open>
  The elements of \<^verbatim>\<open>std::filesystem::path(key)\<close> for a relative key: runs of slashes count as one, and a key
  that ends in a slash has an empty last element.
\<close>

definition path_parts :: "string \<Rightarrow> string list" where
  "path_parts key = filter (\<lambda>p. p \<noteq> []) (butlast (slash_parts key)) @ [last (slash_parts key)]"

text \<open>A path that ends in a slash or a dot only names directories.\<close>

definition wants_dir :: "string list \<Rightarrow> bool" where
  "wants_dir parts \<longleftrightarrow> parts \<noteq> [] \<and> (last parts = [] \<or> last parts = ''.'')"

definition ends_dot :: "string list \<Rightarrow> bool" where
  "ends_dot parts =
     (let ps = (if parts \<noteq> [] \<and> last parts = [] then butlast parts else parts) in ps \<noteq> [] \<and> last ps = ''.'')"

text \<open>
  \<^verbatim>\<open>root_dir / key\<close>, as the names it resolves to and as a text; two dots lead to the directory above.
\<close>

fun walk :: "string list \<Rightarrow> string list \<Rightarrow> string list" where
  "walk dir [] = dir"
| "walk dir (p # ps) =
     walk (if p = [] \<or> p = ''.'' then dir else if p = ''..'' then butlast dir else dir @ [p]) ps"

definition key_to_path :: "fs_env \<Rightarrow> string list \<Rightarrow> string list" where
  "key_to_path env parts = walk (fs_root env) parts"

definition joined :: "string list \<Rightarrow> string \<Rightarrow> string" where
  "joined dir key = (if dir = [] then CHR ''/'' # key else path_string dir @ CHR ''/'' # key)"

definition is_key_safe :: "fs_env \<Rightarrow> string \<Rightarrow> bool" where
  "is_key_safe env key \<longleftrightarrow>
     key \<noteq> [] \<and> \<not> contains_sub key ''..'' \<and> hd key \<noteq> CHR ''/'' \<and>
     prefix (path_string (fs_root env)) (path_string (key_to_path env (path_parts key)))"

section \<open>The file system\<close>

definition fs_at :: "fs_env \<Rightarrow> file_system \<Rightarrow> string list \<Rightarrow> fs_node option" where
  "fs_at env fs parts =
     (case map_of fs (key_to_path env parts) of
        Some (Fs_file data t) \<Rightarrow> if wants_dir parts then None else Some (Fs_file data t)
      | node \<Rightarrow> node)"

definition has_children :: "string list \<Rightarrow> file_system \<Rightarrow> bool" where
  "has_children dir fs = list_ex (\<lambda>(q, node). strict_prefix dir q) fs"

definition is_file_at :: "file_system \<Rightarrow> string list \<Rightarrow> bool" where
  "is_file_at fs p = (case map_of fs p of Some (Fs_file data t) \<Rightarrow> True | _ \<Rightarrow> False)"

definition make_dir :: "string list \<Rightarrow> nat \<Rightarrow> file_system \<Rightarrow> file_system" where
  "make_dir dir n fs = (if map_of fs (take n dir) = None then om_put (take n dir) Fs_dir fs else fs)"

definition create_directories :: "string list \<Rightarrow> file_system \<Rightarrow> os_error + file_system" where
  "create_directories dir fs =
     (if list_ex (\<lambda>n. is_file_at fs (take n dir)) [0..<Suc (length dir)] then Inl Not_a_directory
      else Inr (fold (make_dir dir) [0..<Suc (length dir)] fs))"

text \<open>Renaming a file to what is there.\<close>

definition rename_error :: "string list \<Rightarrow> fs_node option \<Rightarrow> os_error option" where
  "rename_error parts node =
     (if node \<noteq> Some Fs_dir then None
      else if ends_dot parts then Some Device_busy
      else if last parts = [] then Some Not_a_directory
      else Some Is_a_directory)"

definition remove_error :: "fs_env \<Rightarrow> file_system \<Rightarrow> string list \<Rightarrow> fs_node \<Rightarrow> os_error option" where
  "remove_error env fs parts node =
     (if node \<noteq> Fs_dir then None
      else if ends_dot parts then Some Invalid_argument
      else if has_children (key_to_path env parts) fs then Some Directory_not_empty
      else None)"

section \<open>Content types\<close>

definition extension_map :: "(string \<times> string) list" where
  "extension_map = [
     (''.txt'', ''text/plain''), (''.html'', ''text/html''), (''.htm'', ''text/html''), (''.css'', ''text/css''),
     (''.csv'', ''text/csv''), (''.xml'', ''text/xml''), (''.md'', ''text/markdown''),
     (''.json'', ''application/json''), (''.js'', ''application/javascript''), (''.mjs'', ''application/javascript''),
     (''.pdf'', ''application/pdf''), (''.zip'', ''application/zip''), (''.gz'', ''application/gzip''),
     (''.tar'', ''application/x-tar''), (''.wasm'', ''application/wasm''), (''.yaml'', ''application/x-yaml''),
     (''.yml'', ''application/x-yaml''), (''.toml'', ''application/toml''), (''.bin'', ''application/octet-stream''),
     (''.png'', ''image/png''), (''.jpg'', ''image/jpeg''), (''.jpeg'', ''image/jpeg''), (''.gif'', ''image/gif''),
     (''.svg'', ''image/svg+xml''), (''.webp'', ''image/webp''), (''.ico'', ''image/x-icon''), (''.bmp'', ''image/bmp''),
     (''.tiff'', ''image/tiff''), (''.tif'', ''image/tiff''),
     (''.mp3'', ''audio/mpeg''), (''.wav'', ''audio/wav''), (''.ogg'', ''audio/ogg''), (''.flac'', ''audio/flac''),
     (''.aac'', ''audio/aac''), (''.m4a'', ''audio/mp4''),
     (''.mp4'', ''video/mp4''), (''.webm'', ''video/webm''), (''.avi'', ''video/x-msvideo''),
     (''.mov'', ''video/quicktime''), (''.mkv'', ''video/x-matroska''),
     (''.woff'', ''font/woff''), (''.woff2'', ''font/woff2''), (''.ttf'', ''font/ttf''), (''.otf'', ''font/otf''),
     (''.7z'', ''application/x-7z-compressed''), (''.bz2'', ''application/x-bzip2''), (''.xz'', ''application/x-xz''),
     (''.rar'', ''application/vnd.rar'')]"

definition guess_content_type :: "string \<Rightarrow> string" where
  "guess_content_type key =
     (if CHR ''.'' \<notin> set key then ''application/octet-stream''
      else value_or (map_of extension_map
          (CHR ''.'' # map lower_char (rev (takeWhile (\<lambda>c. c \<noteq> CHR ''.'') (rev key)))))
        ''application/octet-stream'')"

section \<open>Operations\<close>

definition invalid_key :: "string \<Rightarrow> error" where
  "invalid_key key = validation_error (''Invalid blob key: '' @ key)"

definition os_failed :: "fs_env \<Rightarrow> string \<Rightarrow> os_error \<Rightarrow> error" where
  "os_failed env what e = internal_error (what @ '' ('' @ fs_strerror env e @ '')'')"

definition file_metadata :: "fs_env \<Rightarrow> string \<Rightarrow> string \<Rightarrow> int \<Rightarrow> blob_metadata" where
  "file_metadata env key data t =
     \<lparr>bm_key = key, bm_size = length data, bm_content_type = guess_content_type key,
      bm_etag = generate_etag (fs_hash env) data, bm_last_modified = t, bm_custom_metadata = []\<rparr>"

definition temp_parts :: "string list \<Rightarrow> string list" where
  "temp_parts parts = butlast parts @ [last parts @ ''.tmp'']"

definition fs_upload ::
    "fs_env \<Rightarrow> int \<Rightarrow> file_system \<Rightarrow> string \<Rightarrow> string \<Rightarrow> upload_options \<Rightarrow> blob_metadata result \<times> file_system" where
  "fs_upload env now fs key data opts =
     (let parts = path_parts key in
      if \<not> is_key_safe env key then (Inl (invalid_key key), fs)
      else if \<not> uo_overwrite opts \<and> fs_at env fs parts \<noteq> None then (Inl (conflict (''Blob already exists: '' @ key)), fs)
      else case create_directories (key_to_path env (butlast parts)) fs of
        Inl e \<Rightarrow> (Inl (os_failed env (''Failed to create directories for: '' @ key) e), fs)
      | Inr fs1 \<Rightarrow>
          (let temp = key_to_path env (temp_parts parts); file = key_to_path env parts in
           if map_of fs1 temp = Some Fs_dir
           then (Inl (internal_error (''Failed to open file for writing: '' @ joined (fs_root env) key @ ''.tmp'')), fs1)
           else case rename_error parts (map_of fs1 file) of
             Some e \<Rightarrow> (Inl (os_failed env (''Failed to finalize blob: '' @ key) e), om_erase temp fs1)
           | None \<Rightarrow>
               (Inr \<lparr>bm_key = key, bm_size = length data,
                  bm_content_type = value_or (uo_content_type opts) (guess_content_type key),
                  bm_etag = generate_etag (fs_hash env) data, bm_last_modified = now,
                  bm_custom_metadata = uo_metadata opts\<rparr>,
                om_put file (Fs_file data now) (om_erase temp fs1))))"

text \<open>What an operation on a blob that must be a file does with it.\<close>

definition with_file :: "fs_env \<Rightarrow> file_system \<Rightarrow> string \<Rightarrow> (string \<Rightarrow> int \<Rightarrow> 'a result) \<Rightarrow> 'a result" where
  "with_file env fs key f =
     (if \<not> is_key_safe env key then Inl (invalid_key key)
      else case fs_at env fs (path_parts key) of
        None \<Rightarrow> Inl (not_found (''Blob not found: '' @ key))
      | Some Fs_dir \<Rightarrow> Inl (validation_error (''Key refers to a directory, not a blob: '' @ key))
      | Some (Fs_file data t) \<Rightarrow> f data t)"

definition fs_download :: "fs_env \<Rightarrow> file_system \<Rightarrow> string \<Rightarrow> download_options \<Rightarrow> string result" where
  "fs_download env fs key opts = with_file env fs key (\<lambda>data t.
     if do_offset opts \<noteq> None \<or> do_length opts \<noteq> None
     then (let offset = value_or (do_offset opts) 0; len = value_or (do_length opts) (length data - offset) in
           if offset \<ge> length data then Inl (validation_error ''Offset exceeds blob size'')
           else Inr (take (min len (length data - offset)) (drop offset data)))
     else Inr data)"

definition fs_get_metadata :: "fs_env \<Rightarrow> file_system \<Rightarrow> string \<Rightarrow> blob_metadata result" where
  "fs_get_metadata env fs key = with_file env fs key (\<lambda>data t. Inr (file_metadata env key data t))"

definition fs_exists :: "fs_env \<Rightarrow> file_system \<Rightarrow> string \<Rightarrow> bool result" where
  "fs_exists env fs key =
     (if \<not> is_key_safe env key then Inl (invalid_key key)
      else Inr (case fs_at env fs (path_parts key) of Some (Fs_file data t) \<Rightarrow> True | _ \<Rightarrow> False))"

text \<open>The empty directories above a deleted blob.\<close>

function prune :: "fs_env \<Rightarrow> string list \<Rightarrow> file_system \<Rightarrow> file_system" where
  "prune env parts fs =
     (if parts = [] then fs
      else if map_of fs (key_to_path env parts) = Some Fs_dir \<and> \<not> has_children (key_to_path env parts) fs \<and> \<not> ends_dot parts
      then prune env (butlast parts) (om_erase (key_to_path env parts) fs)
      else fs)"
  by pat_completeness auto
termination
  by (relation "measure (\<lambda>(env, parts, fs). length parts)") auto

declare prune.simps [simp del]

definition fs_delete :: "fs_env \<Rightarrow> file_system \<Rightarrow> string \<Rightarrow> bool result \<times> file_system" where
  "fs_delete env fs key =
     (let parts = path_parts key in
      if \<not> is_key_safe env key then (Inl (invalid_key key), fs)
      else case fs_at env fs parts of
        None \<Rightarrow> (Inl (not_found (''Blob not found: '' @ key)), fs)
      | Some node \<Rightarrow>
          (case remove_error env fs parts node of
             Some e \<Rightarrow> (Inl (os_failed env (''Failed to delete blob: '' @ key) e), fs)
           | None \<Rightarrow> (Inr True, prune env (butlast parts) (om_erase (key_to_path env parts) fs))))"

definition fs_copy :: "fs_env \<Rightarrow> int \<Rightarrow> file_system \<Rightarrow> string \<Rightarrow> string \<Rightarrow> blob_metadata result \<times> file_system" where
  "fs_copy env now fs src dst =
     (let from_parts = path_parts src; to_parts = path_parts dst in
      if \<not> is_key_safe env src then (Inl (validation_error (''Invalid source key: '' @ src)), fs)
      else if \<not> is_key_safe env dst then (Inl (validation_error (''Invalid destination key: '' @ dst)), fs)
      else case fs_at env fs from_parts of
        None \<Rightarrow> (Inl (not_found (''Source blob not found: '' @ src)), fs)
      | Some Fs_dir \<Rightarrow> (Inl (validation_error (''Source key refers to a directory: '' @ src)), fs)
      | Some (Fs_file data t) \<Rightarrow>
          (case create_directories (key_to_path env (butlast to_parts)) fs of
             Inl e \<Rightarrow> (Inl (os_failed env (''Failed to create directories for: '' @ dst) e), fs)
           | Inr fs1 \<Rightarrow>
               let failed = (\<lambda>e. (Inl (os_failed env (''Failed to copy blob: '' @ src @ '' -> '' @ dst) e), fs1)) in
               if map_of fs1 (key_to_path env to_parts) = Some Fs_dir then failed Not_supported
               else if key_to_path env to_parts = key_to_path env from_parts then failed File_exists
               else (Inr (file_metadata env dst data now), om_put (key_to_path env to_parts) (Fs_file data now) fs1)))"

section \<open>Listings\<close>

definition is_temp_name :: "string \<Rightarrow> bool" where
  "is_temp_name name \<longleftrightarrow> length name > 4 \<and> drop (length name - 4) name = ''.tmp''"

definition path_to_key :: "fs_env \<Rightarrow> string list \<Rightarrow> string" where
  "path_to_key env p = drop 1 (path_string (drop (length (fs_root env)) p))"

text \<open>The regular files below the root, with their keys.\<close>

definition blob_files :: "fs_env \<Rightarrow> file_system \<Rightarrow> (string \<times> string \<times> int) list" where
  "blob_files env fs = List.map_filter (\<lambda>(p, node).
     case node of
       Fs_dir \<Rightarrow> None
     | Fs_file data t \<Rightarrow>
         if strict_prefix (fs_root env) p \<and> \<not> is_temp_name (last p) then Some (path_to_key env p, data, t) else None) fs"

definition listed_file :: "string \<times> string \<times> int \<Rightarrow> blob_metadata" where
  "listed_file = (\<lambda>(key, data, t).
     \<lparr>bm_key = key, bm_size = length data, bm_content_type = guess_content_type key, bm_etag = [],
      bm_last_modified = t, bm_custom_metadata = []\<rparr>)"

fun fs_list_loop ::
    "nat \<Rightarrow> string \<Rightarrow> bool \<Rightarrow> blob_metadata list \<Rightarrow> (string \<times> string \<times> int) list \<Rightarrow> blob_list_result" where
  "fs_list_loop max_keys token past items [] =
     \<lparr>bl_items = items, bl_next_token = None, bl_is_truncated = False\<rparr>"
| "fs_list_loop max_keys token past items (x # xs) =
     (if \<not> past \<and> \<not> token < fst x then fs_list_loop max_keys token False items xs
      else if length items \<ge> max_keys
      then \<lparr>bl_items = items, bl_next_token = Some (fst x), bl_is_truncated = True\<rparr>
      else fs_list_loop max_keys token True (items @ [listed_file x]) xs)"

definition matching_files :: "fs_env \<Rightarrow> file_system \<Rightarrow> string \<Rightarrow> (string \<times> string \<times> int) list" where
  "matching_files env fs pre = sort_key fst (filter (\<lambda>x. pre = [] \<or> prefix pre (fst x)) (blob_files env fs))"

definition fs_list :: "fs_env \<Rightarrow> file_system \<Rightarrow> blob_list_options \<Rightarrow> blob_list_result result" where
  "fs_list env fs opts =
     Inr (if map_of fs (fs_root env) = None then \<lparr>bl_items = [], bl_next_token = None, bl_is_truncated = False\<rparr>
          else let token = value_or (lo_continuation_token opts) [] in
            fs_list_loop (lo_max_keys opts) token (token = []) [] (matching_files env fs (value_or (lo_prefix opts) [])))"

definition fs_total_size :: "fs_env \<Rightarrow> file_system \<Rightarrow> nat result" where
  "fs_total_size env fs = Inr (fold (\<lambda>(key, data, t) n. (n + length data) mod 2 ^ 64) (blob_files env fs) 0)"

definition fs_object_count :: "fs_env \<Rightarrow> file_system \<Rightarrow> nat result" where
  "fs_object_count env fs = Inr (length (blob_files env fs))"

definition fs_presigned_url :: "file_system \<Rightarrow> string \<Rightarrow> int \<Rightarrow> string result" where
  "fs_presigned_url fs key expiration = Inr []"

section \<open>The storage\<close>

text \<open>
  The callback of an upload gets a pointer to constant bytes, so it cannot fill the buffer: what is
  stored is as many zero bytes.
\<close>

definition fs_upload_stream ::
    "fs_env \<Rightarrow> int \<Rightarrow> file_system \<Rightarrow> string \<Rightarrow> nat \<Rightarrow> upload_options \<Rightarrow> blob_metadata result \<times> file_system" where
  "fs_upload_stream env now fs key sz opts = fs_upload env now fs key (replicate sz (CHR 0x00)) opts"

definition fs_download_stream ::
    "fs_env \<Rightarrow> file_system \<Rightarrow> string \<Rightarrow> download_options \<Rightarrow> bool result \<times> (string \<times> nat) list" where
  "fs_download_stream env fs key opts =
     (case fs_download env fs key opts of
        Inl e \<Rightarrow> (Inl e, [])
      | Inr data \<Rightarrow> (Inr True, if data = [] then [] else [(data, length data)]))"

definition filesystem_storage :: "fs_env \<Rightarrow> file_system blob_ops" where
  "filesystem_storage env =
     \<lparr>bo_upload = fs_upload env, bo_download = fs_download env, bo_delete = fs_delete env,
      bo_exists = fs_exists env, bo_get_metadata = fs_get_metadata env, bo_list = fs_list env,
      bo_presigned_url = fs_presigned_url, bo_copy = fs_copy env,
      bo_total_size = fs_total_size env, bo_object_count = fs_object_count env\<rparr>"

text \<open>The constructor makes the root and all above it.\<close>

definition open_storage :: "fs_env \<Rightarrow> file_system \<Rightarrow> error + file_system" where
  "open_storage env fs =
     (case create_directories (fs_root env) fs of
        Inl e \<Rightarrow> Inl (os_failed env (''Failed to create blob storage root: '' @ path_string (fs_root env)) e)
      | Inr fs' \<Rightarrow> Inr fs')"

section \<open>The choice of the storage\<close>

record s3_config =
  sc_endpoint :: string
  sc_bucket :: string
  sc_region :: string
  sc_access_key :: string
  sc_secret_key :: string
  sc_path_style :: bool

datatype blob_backend = Backend_memory | Backend_files string | Backend_s3 s3_config

type_synonym process_env = "string \<Rightarrow> string option"

definition env_get :: "process_env \<Rightarrow> string \<Rightarrow> string \<Rightarrow> string" where
  "env_get env name dflt = (case env name of None \<Rightarrow> dflt | Some v \<Rightarrow> if v = [] then dflt else v)"

definition env_bool :: "process_env \<Rightarrow> string \<Rightarrow> bool \<Rightarrow> bool" where
  "env_bool env name dflt =
     (case env name of
        None \<Rightarrow> dflt
      | Some v \<Rightarrow> if v = [] then dflt else map lower_char v \<in> {''true'', ''1'', ''yes'', ''on''})"

definition create_filesystem :: "string \<Rightarrow> error + blob_backend" where
  "create_filesystem dir =
     (if dir = []
      then Inl (validation_error ''Filesystem blob storage requires a root directory (set DBAL_BLOB_DIR environment variable)'')
      else Inr (Backend_files dir))"

definition create_s3 :: "s3_config \<Rightarrow> error + blob_backend" where
  "create_s3 c =
     (if sc_endpoint c = []
      then Inl (validation_error ''S3 blob storage requires an endpoint URL (set DBAL_BLOB_URL environment variable)'')
      else if sc_bucket c = []
      then Inl (validation_error ''S3 blob storage requires a bucket name (set DBAL_BLOB_BUCKET environment variable)'')
      else if sc_access_key c = [] \<or> sc_secret_key c = []
      then Inl (validation_error (''S3 blob storage requires access credentials ''
        @ ''(set DBAL_BLOB_ACCESS_KEY and DBAL_BLOB_SECRET_KEY environment variables)''))
      else Inr (Backend_s3 c))"

definition s3_from_env :: "process_env \<Rightarrow> s3_config" where
  "s3_from_env env = \<lparr>sc_endpoint = env_get env ''DBAL_BLOB_URL'' [], sc_bucket = env_get env ''DBAL_BLOB_BUCKET'' [],
     sc_region = env_get env ''DBAL_BLOB_REGION'' ''us-east-1'', sc_access_key = env_get env ''DBAL_BLOB_ACCESS_KEY'' [],
     sc_secret_key = env_get env ''DBAL_BLOB_SECRET_KEY'' [], sc_path_style = env_bool env ''DBAL_BLOB_PATH_STYLE'' True\<rparr>"

definition createFromEnv :: "process_env \<Rightarrow> error + blob_backend" where
  "createFromEnv env =
     (let backend = map lower_char (env_get env ''DBAL_BLOB_BACKEND'' ''memory'') in
      if backend = ''memory'' then Inr Backend_memory
      else if backend = ''filesystem'' \<or> backend = ''fs'' then create_filesystem (env_get env ''DBAL_BLOB_DIR'' [])
      else if backend = ''s3'' then create_s3 (s3_from_env env)
      else Inl (validation_error (''Unsupported blob storage backend: '' @ backend
        @ '' (supported: memory, filesystem, s3)'')))"

definition isSupported :: "string \<Rightarrow> bool" where
  "isSupported backend = (map lower_char backend \<in> {''memory'', ''filesystem'', ''fs'', ''s3''})"

end
