(* ===== verification/Blob_Files_Properties.thy ===== *)
theory Blob_Files_Properties
  imports Blob_Files Blob_Isolation
begin

text \<open>
  What the storage on files guarantees: no request leaves its root, a successful upload is what is then
  downloaded, and which blob the pages of a listing leave out.
\<close>

section \<open>Paths without two dots\<close>

text \<open>The names on a path.\<close>

definition part_names :: "string list \<Rightarrow> string list" where
  "part_names parts = filter (\<lambda>p. p \<noteq> [] \<and> p \<noteq> ''.'') parts"

lemma walk_names: "''..'' \<notin> set parts \<Longrightarrow> walk dir parts = dir @ part_names parts"
  by (induction parts arbitrary: dir) (auto simp: part_names_def)

lemma walk_append: "walk dir (xs @ ys) = walk (walk dir xs) ys"
  by (induction xs arbitrary: dir) auto

lemma path_names: "''..'' \<notin> set parts \<Longrightarrow> key_to_path env parts = fs_root env @ part_names parts"
  by (simp add: key_to_path_def walk_names)

lemma slash_parts_not_empty [simp]: "slash_parts s \<noteq> []"
  by (cases s) (auto split: list.split)

lemma slash_parts_sub: "p \<in> set (slash_parts s) \<Longrightarrow> contains_sub s p"
proof (induction s arbitrary: p)
  case (Cons c s)
  obtain q qs where q: "slash_parts s = q # qs" by (cases "slash_parts s") auto
  have first: "prefix q s"
    using q by (induction s arbitrary: q qs) (auto split: if_split_asm list.split_asm)
  show ?case
  proof (cases "p = c # q")
    case True
    then show ?thesis using first by simp
  next
    case False
    then have "p = [] \<or> p \<in> set (slash_parts s)" using Cons.prems q by (auto split: if_split_asm)
    then show ?thesis using Cons.IH by (cases s) auto
  qed
qed simp

lemma safe_no_dots:
  assumes "is_key_safe env key"
  shows "''..'' \<notin> set (path_parts key)"
proof
  assume "''..'' \<in> set (path_parts key)"
  then have "''..'' \<in> set (slash_parts key)"
    unfolding path_parts_def using last_in_set [OF slash_parts_not_empty, of key] by (auto dest: in_set_butlastD simp del: last_in_set)
  then have "contains_sub key ''..''" by (rule slash_parts_sub)
  then show False using assms by (simp add: is_key_safe_def)
qed

lemma no_dots_butlast: "x \<notin> set parts \<Longrightarrow> x \<notin> set (butlast parts)"
  by (auto dest: in_set_butlastD)

lemma no_dots_temp: "''..'' \<notin> set parts \<Longrightarrow> ''..'' \<notin> set (temp_parts parts)"
  by (auto simp: temp_parts_def append_eq_Cons_conv dest: in_set_butlastD)

section \<open>Directories\<close>

text \<open>The root and all directories above it exist.\<close>

definition rooted :: "fs_env \<Rightarrow> file_system \<Rightarrow> bool" where
  "rooted env fs = list_all (\<lambda>n. map_of fs (take n (fs_root env)) = Some Fs_dir) [0..<Suc (length (fs_root env))]"

lemma rooted_iff: "rooted env fs \<longleftrightarrow> (\<forall>n. map_of fs (take n (fs_root env)) = Some Fs_dir)"
proof
  assume r: "rooted env fs"
  show "\<forall>n. map_of fs (take n (fs_root env)) = Some Fs_dir"
  proof
    fix n
    show "map_of fs (take n (fs_root env)) = Some Fs_dir"
      using r by (cases "n \<le> length (fs_root env)") (auto simp: rooted_def list_all_iff)
  qed
qed (simp add: rooted_def list_all_iff)

lemma rooted_root: "rooted env fs \<Longrightarrow> map_of fs (fs_root env) = Some Fs_dir"
  using rooted_iff by (metis order_refl take_all_iff)

lemma map_of_make_dir:
  "map_of (make_dir dir n fs) q = (if map_of fs q = None \<and> q = take n dir then Some Fs_dir else map_of fs q)"
  by (auto simp: make_dir_def)

lemma map_of_make_dirs:
  "map_of (fold (make_dir dir) ns fs) q =
     (if map_of fs q = None \<and> q \<in> (\<lambda>n. take n dir) ` set ns then Some Fs_dir else map_of fs q)"
  by (induction ns arbitrary: fs) (auto simp: map_of_make_dir)

lemma created_iff:
  "create_directories dir fs = Inr fs' \<longleftrightarrow>
     (\<forall>n \<le> length dir. \<not> is_file_at fs (take n dir)) \<and> fs' = fold (make_dir dir) [0..<Suc (length dir)] fs"
  by (auto simp: create_directories_def list_ex_iff le_less_Suc_eq simp del: upt_Suc split: if_split_asm)

lemma map_of_created:
  assumes "create_directories dir fs = Inr fs'"
  shows "map_of fs' q = (if map_of fs q = None \<and> prefix q dir then Some Fs_dir else map_of fs q)"
proof -
  have "q \<in> (\<lambda>n. take n dir) ` {0..<Suc (length dir)} \<longleftrightarrow> prefix q dir"
  proof
    assume "prefix q dir"
    then have "q = take (length q) dir" "length q \<le> length dir" by (auto simp: prefix_def)
    then show "q \<in> (\<lambda>n. take n dir) ` {0..<Suc (length dir)}" by (intro image_eqI [of _ _ "length q"]) auto
  qed (auto simp: take_is_prefix)
  then show ?thesis using assms by (simp add: created_iff map_of_make_dirs del: upt_Suc)
qed

section \<open>Confinement\<close>

text \<open>Two file systems that differ at most below the root.\<close>

definition same_outside :: "fs_env \<Rightarrow> file_system \<Rightarrow> file_system \<Rightarrow> bool" where
  "same_outside env fs fs' \<longleftrightarrow> (\<forall>q. \<not> strict_prefix (fs_root env) q \<longrightarrow> map_of fs' q = map_of fs q)"

lemma same_outside_refl [simp]: "same_outside env fs fs"
  by (simp add: same_outside_def)

lemma same_outside_trans: "same_outside env fs fs1 \<Longrightarrow> same_outside env fs1 fs2 \<Longrightarrow> same_outside env fs fs2"
  by (simp add: same_outside_def)

lemma same_outside_rooted: "same_outside env fs fs' \<Longrightarrow> rooted env fs \<Longrightarrow> rooted env fs'"
proof -
  assume a: "same_outside env fs fs'" "rooted env fs"
  have "\<not> strict_prefix (fs_root env) (take n (fs_root env))" for n
    by (auto simp: strict_prefix_def prefix_def dest!: arg_cong [of _ _ length])
  then show ?thesis using a by (simp add: same_outside_def rooted_iff)
qed

lemma same_outside_put: "strict_prefix (fs_root env) p \<Longrightarrow> same_outside env fs (om_put p v fs)"
  by (auto simp: same_outside_def)

lemma same_outside_erase: "strict_prefix (fs_root env) p \<Longrightarrow> same_outside env fs (om_erase p fs)"
  by (auto simp: same_outside_def)

lemma below_root: "''..'' \<notin> set parts \<Longrightarrow> part_names parts \<noteq> [] \<Longrightarrow> strict_prefix (fs_root env) (key_to_path env parts)"
  by (simp add: path_names strict_prefix_def)

lemma created_outside:
  assumes "rooted env fs" "''..'' \<notin> set parts" "create_directories (key_to_path env parts) fs = Inr fs1"
  shows "same_outside env fs fs1"
  unfolding same_outside_def
proof (intro allI impI)
  fix q
  assume "\<not> strict_prefix (fs_root env) q"
  moreover have "map_of fs q \<noteq> None" if "prefix q (fs_root env)"
  proof -
    have "q = take (length q) (fs_root env)" using that by (auto simp: prefix_def)
    then show ?thesis using assms(1) by (metis option.distinct(1) rooted_iff)
  qed
  moreover have "prefix q (fs_root env) \<or> strict_prefix (fs_root env) q" if "prefix q (key_to_path env parts)"
    using that assms(2) by (auto simp: path_names prefix_append strict_prefix_def)
  ultimately show "map_of fs1 q = map_of fs q" by (auto simp: map_of_created [OF assms(3)])
qed

lemma temp_names: "part_names (temp_parts parts) = part_names (butlast parts) @ [last parts @ ''.tmp'']"
  by (auto simp: part_names_def temp_parts_def append_eq_Cons_conv)

lemma named_dir:
  assumes "rooted env fs" "''..'' \<notin> set parts" "map_of fs (key_to_path env parts) \<noteq> Some Fs_dir"
  shows "strict_prefix (fs_root env) (key_to_path env parts)"
  using assms rooted_root [OF assms(1)] by (intro below_root) (auto simp: path_names)

lemma no_rename_error: "rename_error parts node = None \<longleftrightarrow> node \<noteq> Some Fs_dir"
  by (simp add: rename_error_def)

lemma upload_outside:
  assumes "rooted env fs"
  shows "same_outside env fs (snd (fs_upload env now fs key data opts))"
proof (cases "is_key_safe env key")
  case True
  let ?parts = "path_parts key"
  note plain = safe_no_dots [OF True]
  show ?thesis
  proof (cases "create_directories (key_to_path env (butlast ?parts)) fs")
    case (Inr fs1)
    note out = created_outside [OF assms no_dots_butlast [OF plain] Inr]
    have temp: "strict_prefix (fs_root env) (key_to_path env (temp_parts ?parts))"
      by (rule below_root [OF no_dots_temp [OF plain]]) (simp add: temp_names)
    note erased = same_outside_trans [OF out same_outside_erase [OF temp]]
    have "same_outside env fs (om_put (key_to_path env ?parts) v (om_erase (key_to_path env (temp_parts ?parts)) fs1))"
      if "map_of fs1 (key_to_path env ?parts) \<noteq> Some Fs_dir" for v
      using same_outside_trans [OF erased same_outside_put]
        named_dir [OF same_outside_rooted [OF out assms] plain that] by blast
    with out erased Inr show ?thesis
      by (simp add: fs_upload_def Let_def no_rename_error split: option.split)
  qed (simp add: fs_upload_def Let_def)
qed (simp add: fs_upload_def Let_def)

lemma ends_dot_names:
  assumes "parts \<noteq> []" "[] \<notin> set parts" "\<not> ends_dot parts"
  shows "part_names parts \<noteq> []"
proof -
  have mem: "last parts \<in> set parts" using assms(1) by simp
  then have "last parts \<noteq> []" using assms(2) by metis
  moreover from this have "last parts \<noteq> ''.''" using assms(1,3) by (simp add: ends_dot_def)
  ultimately have "last parts \<in> set (part_names parts)" using mem by (simp add: part_names_def)
  then show ?thesis by (metis empty_iff list.set(1))
qed

lemma prune_outside: "rooted env fs \<Longrightarrow> [] \<notin> set parts \<Longrightarrow> ''..'' \<notin> set parts \<Longrightarrow> same_outside env fs (prune env parts fs)"
proof (induction env parts fs rule: prune.induct)
  case (1 env parts fs)
  let ?p = "key_to_path env parts"
  show ?case
  proof (cases "parts \<noteq> [] \<and> map_of fs ?p = Some Fs_dir \<and> \<not> has_children ?p fs \<and> \<not> ends_dot parts")
    case True
    then have erased: "same_outside env fs (om_erase ?p fs)"
      by (intro same_outside_erase below_root ends_dot_names 1(3,4)) simp_all
    have "same_outside env (om_erase ?p fs) (prune env (butlast parts) (om_erase ?p fs))"
      using True 1(1) same_outside_rooted [OF erased 1(2)] no_dots_butlast [OF 1(3)] no_dots_butlast [OF 1(4)] by simp
    moreover have "prune env parts fs = prune env (butlast parts) (om_erase ?p fs)"
      using True by (subst prune.simps) simp
    ultimately show ?thesis using same_outside_trans [OF erased] by simp
  next
    case False
    then show ?thesis by (subst prune.simps) auto
  qed
qed

lemma butlast_path_parts: "[] \<notin> set (butlast (path_parts key))"
  by (simp add: path_parts_def)

lemma safe_parts:
  assumes "is_key_safe env key"
  shows "hd (path_parts key) \<noteq> []"
proof -
  obtain c s where key: "key = c # s" "c \<noteq> CHR ''/''" using assms by (cases key) (auto simp: is_key_safe_def)
  obtain p ps where "slash_parts s = p # ps" by (cases "slash_parts s") auto
  then show ?thesis using key by (auto simp: path_parts_def)
qed

lemma named_parts:
  assumes "is_key_safe env key" "\<not> ends_dot (path_parts key)"
  shows "part_names (path_parts key) \<noteq> []"
proof (cases "last (path_parts key) = []")
  case False
  then have "[] \<notin> set (path_parts key)" by (auto simp: path_parts_def)
  with assms(2) show ?thesis by (intro ends_dot_names) (auto simp: path_parts_def)
next
  case True
  let ?ps = "butlast (path_parts key)"
  have "?ps \<noteq> []" using safe_parts [OF assms(1)] True by (cases "path_parts key") (auto simp: path_parts_def)
  moreover have "\<not> ends_dot ?ps"
    using assms(2) True butlast_path_parts [of key] \<open>?ps \<noteq> []\<close> last_in_set [of ?ps]
    by (auto simp: ends_dot_def Let_def path_parts_def)
  ultimately have "part_names ?ps \<noteq> []" using ends_dot_names [OF _ butlast_path_parts] by blast
  then show ?thesis by (auto simp: part_names_def path_parts_def)
qed

lemma delete_outside:
  assumes "rooted env fs"
  shows "same_outside env fs (snd (fs_delete env fs key))"
proof (cases "is_key_safe env key \<and> (\<exists>node. fs_at env fs (path_parts key) = Some node \<and> remove_error env fs (path_parts key) node = None)")
  case True
  then obtain node where safe: "is_key_safe env key"
    and node: "fs_at env fs (path_parts key) = Some node" "remove_error env fs (path_parts key) node = None" by blast
  let ?p = "key_to_path env (path_parts key)"
  have "strict_prefix (fs_root env) ?p"
  proof (cases node)
    case (Fs_file data t)
    then show ?thesis using node named_dir [OF assms safe_no_dots [OF safe]]
      by (auto simp: fs_at_def split: option.split_asm fs_node.split_asm if_split_asm)
  next
    case Fs_dir
    then have "\<not> ends_dot (path_parts key)" using node(2) by (auto simp: remove_error_def split: if_split_asm)
    then show ?thesis by (rule below_root [OF safe_no_dots [OF safe] named_parts [OF safe]])
  qed
  then have "same_outside env fs (om_erase ?p fs)" by (rule same_outside_erase)
  then show ?thesis
    using prune_outside [OF same_outside_rooted [OF _ assms] butlast_path_parts no_dots_butlast [OF safe_no_dots [OF safe]]] node True
    by (auto simp: fs_delete_def Let_def intro: same_outside_trans)
qed (auto simp: fs_delete_def Let_def split: option.split)

lemma copy_outside:
  assumes "rooted env fs"
  shows "same_outside env fs (snd (fs_copy env now fs src dst))"
proof (cases "is_key_safe env dst")
  case True
  note plain = safe_no_dots [OF True]
  show ?thesis
  proof (cases "create_directories (key_to_path env (butlast (path_parts dst))) fs")
    case (Inr fs1)
    note out = created_outside [OF assms no_dots_butlast [OF plain] Inr]
    have "same_outside env fs (om_put (key_to_path env (path_parts dst)) v fs1)"
      if "map_of fs1 (key_to_path env (path_parts dst)) \<noteq> Some Fs_dir" for v
      using same_outside_trans [OF out same_outside_put] named_dir [OF same_outside_rooted [OF out assms] plain that] by blast
    with out Inr show ?thesis
      by (simp add: fs_copy_def Let_def split: option.split fs_node.split)
  qed (simp add: fs_copy_def Let_def split: option.split fs_node.split)
qed (simp add: fs_copy_def Let_def)

text \<open>What the three changing operations keep, every request keeps.\<close>

lemma guarded_case:
  "snd (guarded s (case x of (Inl e, s') \<Rightarrow> Inr (f e, s') | (Inr m, s') \<Rightarrow> Inr (g m, s'))) = snd x"
  by (cases x; cases "fst x") (auto simp: guarded_def)

lemma upload_state:
  "snd (guarded s (handle_upload env ops now s req t p key)) = s \<or>
     (\<exists>d opts. snd (guarded s (handle_upload env ops now s req t p key)) = snd (bo_upload ops now s (build_storage_key t p key) d opts))"
proof (cases "metadata_of_header env (get_header req ''X-Blob-Metadata'')")
  case (Inr meta)
  show ?thesis unfolding handle_upload_def Let_def Inr sum.case guarded_case by blast
qed (simp add: handle_upload_def guarded_def)

lemma copy_state:
  "snd (guarded s (handle_copy env ops now s req t p key)) = s \<or>
     (\<exists>src dst. snd (guarded s (handle_copy env ops now s req t p key)) = snd (bo_copy ops now s src dst))"
proof -
  have same: "snd (guarded s (Inl x)) = s" "snd (guarded s (Inr (y, s))) = s" for x y by (simp_all add: guarded_def)
  show ?thesis unfolding handle_copy_def
    by (auto simp only: guarded_case same simp_thms split: option.split sum.split json.split if_split)
qed

lemma delete_state: "snd (handle_delete ops s req t p key) = snd (bo_delete ops s (build_storage_key t p key))"
  by (cases "bo_delete ops s (build_storage_key t p key)"; cases "fst (bo_delete ops s (build_storage_key t p key))")
    (auto simp: handle_delete_def)

lemma serve_keeps:
  assumes "P s" "\<And>k d opts. P (snd (bo_upload ops now s k d opts))" "\<And>k. P (snd (bo_delete ops s k))"
    "\<And>src dst. P (snd (bo_copy ops now s src dst))"
  shows "P (snd (serve_blob env ops now t p route req s))"
proof (cases route)
  case (R_key key)
  have "P (snd (guarded s (handle_upload env ops now s req t p key)))"
    using upload_state [of s env ops now req t p key] assms(1,2) by metis
  then show ?thesis using assms(1,3) R_key by (cases "rq_method req") (simp_all add: handle_blob_with_key_def delete_state)
next
  case (R_action key action)
  have "P (snd (guarded s (handle_copy env ops now s req t p key)))"
    using copy_state [of s env ops now req t p key] assms(1,4) by metis
  then show ?thesis using assms(1) R_action by (simp add: handle_blob_action_def)
qed (use assms(1) in simp)

text \<open>
  C31: no request leaves the root.  Whatever key, prefix, body and destination a blob request carries, the storage on
  files changes nothing but paths strictly below its root directory: every other path of the file system,
  the root itself among them, is as it was.
\<close>

theorem files_confined:
  assumes "rooted fe fs" "serve_blob env (filesystem_storage fe) now t p route req fs = (resp, fs')"
    "\<not> strict_prefix (fs_root fe) q"
  shows "map_of fs' q = map_of fs q"
proof -
  have "same_outside fe fs (snd (serve_blob env (filesystem_storage fe) now t p route req fs))"
    using upload_outside [OF assms(1)] delete_outside [OF assms(1)] copy_outside [OF assms(1)]
    by (intro serve_keeps [where P = "same_outside fe fs"]) (simp_all add: filesystem_storage_def)
  then show ?thesis using assms(2,3) by (simp add: same_outside_def)
qed

definition sample_files :: fs_env where
  "sample_files = \<lparr>fs_root = [''srv'', ''blobs''], fs_hash = length, fs_strerror = (\<lambda>e. ''error'')\<rparr>"

definition sample_fs :: file_system where
  "sample_fs = [([], Fs_dir), ([''etc''], Fs_file ''secret'' 1), ([''srv''], Fs_dir), ([''srv'', ''blobs''], Fs_dir),
     ([''srv'', ''blobs'', ''a''], Fs_dir), ([''srv'', ''blobs'', ''a'', ''p''], Fs_dir),
     ([''srv'', ''blobs'', ''a'', ''p'', ''f''], Fs_file ''old'' 2), ([''srv'', ''blobs'', ''a'', ''p'', ''g''], Fs_file ''other'' 3)]"

lemma sample_rooted: "rooted sample_files sample_fs"
  by (simp add: rooted_def sample_files_def sample_fs_def upt_rec)

theorem files_confined_witness:
  "map_of (snd (serve_blob sample_env (filesystem_storage sample_files) 7 ''a'' ''p'' (R_key ''f'') sample_put sample_fs)) [''etc'']
     = Some (Fs_file ''secret'' 1)"
proof -
  let ?r = "serve_blob sample_env (filesystem_storage sample_files) 7 ''a'' ''p'' (R_key ''f'') sample_put sample_fs"
  have "\<not> strict_prefix (fs_root sample_files) [''etc'']" by (simp add: sample_files_def)
  then have "map_of (snd ?r) [''etc''] = map_of sample_fs [''etc'']"
    by (rule files_confined [OF sample_rooted prod.collapse [symmetric]])
  then show ?thesis by (simp only: sample_fs_def) simp
qed

section \<open>Uploads\<close>

definition same_place :: "string \<Rightarrow> string \<Rightarrow> bool" where
  "same_place k k' \<longleftrightarrow> part_names (path_parts k) = part_names (path_parts k')"

definition whole :: download_options where
  "whole = \<lparr>do_offset = None, do_length = None\<rparr>"

lemma slash_parts_append:
  "CHR ''/'' \<notin> set t \<Longrightarrow> slash_parts (s @ t) = butlast (slash_parts s) @ [last (slash_parts s) @ t]"
proof (induction s)
  case Nil
  then show ?case by (induction t) auto
next
  case (Cons c s)
  obtain p ps where "slash_parts s = p # ps" by (cases "slash_parts s") auto
  with Cons show ?case by auto
qed

lemma temp_parts_key: "path_parts (key @ ''.tmp'') = temp_parts (path_parts key)"
  by (simp add: path_parts_def temp_parts_def slash_parts_append)

lemma download_whole:
  assumes "is_key_safe fe k"
  shows "fs_download fe fs k whole = Inr d \<longleftrightarrow> \<not> wants_dir (path_parts k) \<and> (\<exists>t. map_of fs (key_to_path fe (path_parts k)) = Some (Fs_file d t))"
  using assms by (auto simp: fs_download_def with_file_def whole_def fs_at_def split: option.split fs_node.split)

lemma created_dir:
  assumes "create_directories dir fs = Inr fs1"
  shows "map_of fs1 dir = Some Fs_dir"
proof -
  have "\<not> is_file_at fs (take (length dir) dir)" using assms unfolding created_iff by blast
  then have "map_of fs dir = None \<or> map_of fs dir = Some Fs_dir"
    by (auto simp: is_file_at_def split: option.split_asm fs_node.split_asm)
  then show ?thesis by (auto simp: map_of_created [OF assms])
qed

lemma upload_done:
  assumes "fs_upload fe now fs key data opts = (Inr m, fs')"
  obtains fs1 where "create_directories (key_to_path fe (butlast (path_parts key))) fs = Inr fs1"
    "fs' = om_put (key_to_path fe (path_parts key)) (Fs_file data now) (om_erase (key_to_path fe (temp_parts (path_parts key))) fs1)"
    "\<not> wants_dir (path_parts key)"
proof -
  obtain fs1 where c: "create_directories (key_to_path fe (butlast (path_parts key))) fs = Inr fs1"
    using assms by (auto simp: fs_upload_def Let_def split: if_split_asm sum.split_asm)
  have r: "rename_error (path_parts key) (map_of fs1 (key_to_path fe (path_parts key))) = None"
    using assms c by (auto simp: fs_upload_def Let_def split: if_split_asm option.split_asm)
  have "map_of fs1 (key_to_path fe (path_parts key)) \<noteq> Some Fs_dir" using r by (simp add: no_rename_error)
  moreover have "key_to_path fe (path_parts key) = key_to_path fe (butlast (path_parts key))" if "wants_dir (path_parts key)"
    using that walk_append [of "fs_root fe" "butlast (path_parts key)" "[last (path_parts key)]"]
    by (auto simp: wants_dir_def key_to_path_def)
  ultimately have "\<not> wants_dir (path_parts key)" using created_dir [OF c] by auto
  then show ?thesis using that c r assms by (auto simp: fs_upload_def Let_def split: if_split_asm)
qed

text \<open>
  What a successful upload does to every download.  Afterwards the uploaded bytes, and only they, are
  downloaded under the key and under every other spelling of its path; the blob whose key is the uploaded key
  followed by \<^verbatim>\<open>.tmp\<close>, if there was one, is gone; and every other key is downloaded exactly as before.
\<close>

theorem files_upload_effect:
  assumes "fs_upload fe now fs key data opts = (Inr m, fs')" "is_key_safe fe k"
  shows "fs_download fe fs' k whole = Inr d \<longleftrightarrow>
    (if same_place k key then \<not> wants_dir (path_parts k) \<and> d = data
     else \<not> same_place k (key @ ''.tmp'') \<and> fs_download fe fs k whole = Inr d)"
proof -
  obtain fs1 where c: "create_directories (key_to_path fe (butlast (path_parts key))) fs = Inr fs1"
    and fs': "fs' = om_put (key_to_path fe (path_parts key)) (Fs_file data now) (om_erase (key_to_path fe (temp_parts (path_parts key))) fs1)"
    using upload_done [OF assms(1)] by blast
  have "is_key_safe fe key" using assms(1) by (auto simp: fs_upload_def Let_def split: if_split_asm)
  from safe_no_dots [OF this] have plain: "''..'' \<notin> set (path_parts key)" "''..'' \<notin> set (path_parts (key @ ''.tmp''))"
    by (simp_all add: no_dots_temp temp_parts_key)
  have place: "key_to_path fe (path_parts k) = key_to_path fe (path_parts k') \<longleftrightarrow> same_place k k'"
    if "''..'' \<notin> set (path_parts k')" for k'
    using that safe_no_dots [OF assms(2)] by (simp add: path_names same_place_def)
  have "map_of fs1 q = Some (Fs_file d t) \<longleftrightarrow> map_of fs q = Some (Fs_file d t)" for q t
    by (auto simp: map_of_created [OF c])
  then show ?thesis
    using place [OF plain(1)] place [OF plain(2)]
    by (auto simp: download_whole [OF assms(2)] fs' temp_parts_key)
qed

theorem files_upload_effect_witness:
  "\<exists>m fs'. fs_upload sample_files 7 sample_fs ''a/p/f'' ''new'' \<lparr>uo_content_type = None, uo_metadata = [], uo_overwrite = True\<rparr> = (Inr m, fs')
     \<and> fs_download sample_files fs' ''a/./p/f'' whole = Inr ''new'' \<and> fs_download sample_files fs' ''a/p/g'' whole = Inr ''other''"
proof -
  let ?o = "\<lparr>uo_content_type = None, uo_metadata = [], uo_overwrite = True\<rparr>"
  have "is_ok (fst (fs_upload sample_files 7 sample_fs ''a/p/f'' ''new'' ?o))" by code_simp
  then obtain m fs' where u: "fs_upload sample_files 7 sample_fs ''a/p/f'' ''new'' ?o = (Inr m, fs')"
    by (cases "fs_upload sample_files 7 sample_fs ''a/p/f'' ''new'' ?o"; cases "fst (fs_upload sample_files 7 sample_fs ''a/p/f'' ''new'' ?o)")
      (auto simp: is_ok_def)
  have safe: "is_key_safe sample_files ''a/./p/f''" "is_key_safe sample_files ''a/p/g''" by code_simp+
  have places: "same_place ''a/./p/f'' ''a/p/f''" "\<not> wants_dir (path_parts ''a/./p/f'')"
      "\<not> same_place ''a/p/g'' ''a/p/f''" "\<not> same_place ''a/p/g'' (''a/p/f'' @ ''.tmp'')"
      "fs_download sample_files sample_fs ''a/p/g'' whole = Inr ''other''" by code_simp+
  show ?thesis
    using u files_upload_effect [OF u safe(1), of "''new''"] files_upload_effect [OF u safe(2), of "''other''"] places by simp
qed

text \<open>
  The package \<^verbatim>\<open>.\<close> of a tenant reaches the files of all its packages, which the storage in memory keeps
  apart; so the storage on files does not meet the contract of \<open>blob_storage\<close>.
\<close>

lemma slash_parts_at: "slash_parts (a @ CHR ''/'' # b) = slash_parts a @ slash_parts b"
  by (induction a) (auto split: list.split)

theorem files_dot_package: "same_place (build_storage_key t ''.'' (p @ ''/'' @ k)) (build_storage_key t p k)"
proof -
  have "part_names (filter (\<lambda>p. p \<noteq> []) xs @ ys) = part_names (xs @ ys)" for xs ys
    by (induction xs) (auto simp: part_names_def)
  then have "part_names (path_parts x) = part_names (slash_parts x)" for x
    unfolding path_parts_def by (simp only: append_butlast_last_id [OF slash_parts_not_empty])
  then show ?thesis by (simp add: same_place_def build_storage_key_def slash_parts_at part_names_def)
qed

section \<open>Pages\<close>

definition valid_fs :: "file_system \<Rightarrow> bool" where
  "valid_fs fs \<longleftrightarrow> om_wf fs \<and> list_all (\<lambda>(p, node). list_all (\<lambda>n. n \<noteq> [] \<and> CHR ''/'' \<notin> set n) p) fs"

lemma slash_parts_slash: "CHR ''/'' \<notin> set n \<Longrightarrow> slash_parts (n @ CHR ''/'' # s) = n # slash_parts s"
  by (induction n) auto

lemma slash_parts_plain: "CHR ''/'' \<notin> set n \<Longrightarrow> slash_parts n = [n]"
  by (induction n) auto

lemma slash_parts_names:
  "CHR ''/'' \<notin> set n \<Longrightarrow> list_all (\<lambda>n. CHR ''/'' \<notin> set n) ns \<Longrightarrow>
     slash_parts (n @ concat (map (\<lambda>n. CHR ''/'' # n) ns)) = n # ns"
  by (induction ns arbitrary: n) (auto simp: slash_parts_plain slash_parts_slash)

lemma key_parts:
  assumes "strict_prefix (fs_root fe) p" "list_all (\<lambda>n. n \<noteq> [] \<and> CHR ''/'' \<notin> set n) p"
  shows "slash_parts (path_to_key fe p) = drop (length (fs_root fe)) p \<and> path_to_key fe p \<noteq> []"
proof -
  obtain zs where zs: "p = fs_root fe @ zs" "zs \<noteq> []" using assms(1) by (auto simp: strict_prefix_def prefix_def)
  then obtain n ns where p: "p = fs_root fe @ n # ns" by (metis neq_Nil_conv)
  have names: "n \<noteq> []" "CHR ''/'' \<notin> set n" "list_all (\<lambda>n. CHR ''/'' \<notin> set n) ns"
    using assms(2) by (auto simp: p list_all_iff)
  have key: "path_to_key fe p = n @ concat (map (\<lambda>n. CHR ''/'' # n) ns)" by (simp add: p path_to_key_def path_string_def)
  show ?thesis using slash_parts_names [OF names(2,3)] names(1) unfolding key by (simp add: p)
qed

lemma blob_files_mem:
  "x \<in> set (blob_files fe fs) \<Longrightarrow> \<exists>p d t. x = (path_to_key fe p, d, t) \<and> (p, Fs_file d t) \<in> set fs \<and> strict_prefix (fs_root fe) p"
  by (auto simp: blob_files_def map_filter_def split: fs_node.split_asm if_split_asm)

lemma blob_files_simps:
  "blob_files fe [] = []"
  "blob_files fe ((p, Fs_dir) # fs) = blob_files fe fs"
  "blob_files fe ((p, Fs_file d t) # fs) =
     (if strict_prefix (fs_root fe) p \<and> \<not> is_temp_name (last p) then (path_to_key fe p, d, t) # blob_files fe fs
      else blob_files fe fs)"
  by (simp_all add: blob_files_def map_filter_simps)

lemma blob_files_distinct:
  "distinct (map fst fs) \<Longrightarrow> list_all (\<lambda>(p, node). list_all (\<lambda>n. n \<noteq> [] \<and> CHR ''/'' \<notin> set n) p) fs \<Longrightarrow>
     distinct (map fst (blob_files fe fs))"
proof (induction fs)
  case Nil
  then show ?case by (simp add: blob_files_simps)
next
  case (Cons x fs)
  obtain p node where x: "x = (p, node)" by (cases x)
  have fresh: "path_to_key fe p \<notin> fst ` set (blob_files fe fs)" if "strict_prefix (fs_root fe) p"
  proof
    assume "path_to_key fe p \<in> fst ` set (blob_files fe fs)"
    then obtain q d t where q: "path_to_key fe q = path_to_key fe p" "(q, Fs_file d t) \<in> set fs" "strict_prefix (fs_root fe) q"
      using blob_files_mem by fastforce
    have "list_all (\<lambda>n. n \<noteq> [] \<and> CHR ''/'' \<notin> set n) q" using Cons.prems(2) q(2) by (auto simp: list_all_iff)
    from key_parts [OF q(3) this] key_parts [OF that, THEN conjunct1] Cons.prems(2) q(1)
    have "drop (length (fs_root fe)) q = drop (length (fs_root fe)) p" by (simp add: x)
    then have "q = p" using q(3) that by (auto simp: strict_prefix_def prefix_def)
    then show False using Cons.prems(1) q(2) by (force simp: x)
  qed
  have "distinct (map fst (blob_files fe fs))" using Cons by simp
  then show ?case using fresh by (cases node) (simp_all add: blob_files_simps x)
qed

lemma matching_sorted:
  assumes "valid_fs fs"
  shows "sorted_wrt (<) (map fst (matching_files fe fs pre))"
proof -
  have "distinct (map fst (blob_files fe fs))"
    using assms by (intro blob_files_distinct) (auto simp: valid_fs_def om_wf_distinct)
  then have "distinct (map fst (filter (\<lambda>x. pre = [] \<or> prefix pre (fst x)) (blob_files fe fs)))"
    by (simp add: distinct_map inj_on_def)
  then have "distinct (map fst (matching_files fe fs pre))"
    by (simp add: matching_files_def distinct_map)
  then show ?thesis by (simp add: strict_sorted_iff matching_files_def)
qed

lemma matching_key:
  assumes "valid_fs fs" "x \<in> set (matching_files fe fs pre)"
  shows "fst x \<noteq> []"
proof -
  have "x \<in> set (blob_files fe fs)" using assms(2) by (auto simp: matching_files_def)
  then obtain p d t where "x = (path_to_key fe p, d, t)" "(p, Fs_file d t) \<in> set fs" "strict_prefix (fs_root fe) p"
    using blob_files_mem by blast
  with key_parts assms(1) show ?thesis by (fastforce simp: valid_fs_def list_all_iff)
qed

definition after_token :: "string \<Rightarrow> (string \<times> string \<times> int) list \<Rightarrow> (string \<times> string \<times> int) list" where
  "after_token token xs = (if token = [] then xs else dropWhile (\<lambda>x. \<not> token < fst x) xs)"

lemma fs_list_loop_past:
  "fs_list_loop n token True items xs =
     \<lparr>bl_items = items @ map listed_file (take (n - length items) xs),
      bl_next_token = (if n - length items < length xs then Some (fst (xs ! (n - length items))) else None),
      bl_is_truncated = (n - length items < length xs)\<rparr>"
proof (induction xs arbitrary: items)
  case (Cons x xs)
  show ?case
  proof (cases "length items \<ge> n")
    case False
    then obtain m where "n - length items = Suc m" by (metis Suc_diff_Suc not_le)
    moreover from this have "n - Suc (length items) = m" by simp
    ultimately show ?thesis using Cons [of "items @ [listed_file x]"] False by simp
  qed simp
qed simp

lemma fs_list_loop_before:
  "fs_list_loop n token False [] xs = fs_list_loop n token True [] (dropWhile (\<lambda>x. \<not> token < fst x) xs)"
  by (induction xs) auto

lemma fs_list_page:
  assumes "map_of fs (fs_root fe) \<noteq> None"
  shows "fs_list fe fs opts =
    (let xs = after_token (value_or (lo_continuation_token opts) []) (matching_files fe fs (value_or (lo_prefix opts) []))
     in Inr \<lparr>bl_items = map listed_file (take (lo_max_keys opts) xs),
       bl_next_token = (if lo_max_keys opts < length xs then Some (fst (xs ! lo_max_keys opts)) else None),
       bl_is_truncated = (lo_max_keys opts < length xs)\<rparr>)"
  using assms by (cases "map_of fs (fs_root fe)")
    (simp_all add: fs_list_def Let_def after_token_def fs_list_loop_past fs_list_loop_before)

lemma bm_key_listed [simp]: "bm_key (listed_file x) = fst x"
  by (simp add: listed_file_def split: prod.split)

lemma after_token_sorted: "sorted_wrt (<) (map fst xs) \<Longrightarrow> sorted_wrt (<) (map fst (after_token token xs))"
  by (induction xs) (auto simp: after_token_def)

lemma after_token_above:
  assumes "sorted_wrt (<) (map fst xs)" "token \<noteq> []" "x \<in> set (after_token token xs)"
  shows "token < fst x"
  using assms by (induction xs) (auto simp: after_token_def split: if_split_asm)

lemma after_token_subset: "set (after_token token xs) \<subseteq> set xs"
  by (auto simp: after_token_def dest: set_dropWhileD)

text \<open>
  Following the token of a page loses a blob.  The token is the key of the first blob that did not fit on the
  page, and the next page starts after its token.  So a blob that has the prefix is neither on the truncated page
  that named it nor on any page asked for with that token.
\<close>

theorem files_pages_lose_key:
  assumes "valid_fs fs" "fs_list fe fs opts = Inr r" "bl_next_token r = Some k"
    "lo_continuation_token opts' = Some k" "fs_list fe fs opts' = Inr r'"
  shows "k \<in> fst ` set (matching_files fe fs (value_or (lo_prefix opts) [])) \<and>
    k \<notin> bm_key ` set (bl_items r) \<and> k \<notin> bm_key ` set (bl_items r')"
proof -
  let ?m = "matching_files fe fs (value_or (lo_prefix opts) [])" and ?n = "lo_max_keys opts"
  let ?xs = "after_token (value_or (lo_continuation_token opts) []) ?m"
  have dir: "map_of fs (fs_root fe) \<noteq> None" using assms(2,3) by (auto simp: fs_list_def split: if_split_asm)
  have r: "bl_items r = map listed_file (take ?n ?xs)" "?n < length ?xs" "k = fst (?xs ! ?n)"
    using assms(2,3) unfolding fs_list_page [OF dir] Let_def by (auto split: if_split_asm)
  have mem: "?xs ! ?n \<in> set ?m" using r(2) after_token_subset nth_mem by blast
  have "sorted_wrt (<) (map fst ?xs)" using after_token_sorted [OF matching_sorted [OF assms(1)]] .
  then have "fst (?xs ! i) < k" if "i < ?n" for i
    using that r(2,3) sorted_wrt_nth_less [of "(<)" "map fst ?xs" i ?n] by simp
  then have "fst x < k" if "x \<in> set (take ?n ?xs)" for x
    using that by (auto simp: in_set_conv_nth simp del: split_paired_All)
  then have first: "k \<notin> bm_key ` set (bl_items r)" unfolding r(1) by fastforce
  have "k \<noteq> []" using matching_key [OF assms(1) mem] r(3) by simp
  then have "k < fst x" if "x \<in> set (after_token k (matching_files fe fs (value_or (lo_prefix opts') [])))" for x
    using after_token_above [OF matching_sorted [OF assms(1)] _ that] by blast
  then have above: "k < fst x" if "x \<in> set (take n (after_token k (matching_files fe fs (value_or (lo_prefix opts') []))))" for x n
    using that in_set_takeD by fast
  have next_page: "bl_items r' = map listed_file (take (lo_max_keys opts')
      (after_token k (matching_files fe fs (value_or (lo_prefix opts') []))))"
    using assms(4,5) unfolding fs_list_page [OF dir] Let_def by (auto simp: value_or_def)
  have "k \<notin> bm_key ` set (bl_items r')" unfolding next_page using above by fastforce
  then show ?thesis using first mem r(3) by blast
qed

theorem files_pages_lose_key_witness:
  "\<exists>r r'. fs_list sample_files sample_fs \<lparr>lo_prefix = None, lo_continuation_token = None, lo_max_keys = 1\<rparr> = Inr r \<and>
     fs_list sample_files sample_fs \<lparr>lo_prefix = None, lo_continuation_token = bl_next_token r, lo_max_keys = 1\<rparr> = Inr r' \<and>
     ''a/p/g'' \<notin> bm_key ` set (bl_items r @ bl_items r')"
proof -
  let ?o = "\<lparr>lo_prefix = None, lo_continuation_token = None, lo_max_keys = 1\<rparr>"
  obtain r where r: "fs_list sample_files sample_fs ?o = Inr r" by (simp add: fs_list_def)
  have "case fs_list sample_files sample_fs ?o of Inr r \<Rightarrow> bl_next_token r = Some ''a/p/g'' | Inl e \<Rightarrow> False" by code_simp
  then have token: "bl_next_token r = Some ''a/p/g''" by (simp only: r sum.case)
  obtain r' where r': "fs_list sample_files sample_fs \<lparr>lo_prefix = None, lo_continuation_token = bl_next_token r, lo_max_keys = 1\<rparr> = Inr r'"
    by (simp add: fs_list_def)
  have "valid_fs sample_fs" by code_simp
  from files_pages_lose_key [OF this r token _ r'] show ?thesis using r r' token by auto
qed

end
