(* ===== verification/Search_Adapter.thy ===== *)
theory Search_Adapter
  imports Elastic_Adapter Cache_Adapter
begin

text \<open>
  The search layer in front of an adapter (\<^verbatim>\<open>src/search/searching_adapter.cpp\<close>,
  \<^verbatim>\<open>include/dbal/search/searching_adapter.hpp\<close>) and its configuration (\<^verbatim>\<open>src/search/search_config.cpp\<close>).
  The wrapped adapter is a parameter; the client of Elasticsearch is the one of \<^verbatim>\<open>Elastic_Adapter\<close>.
\<close>

section \<open>Configuration\<close>

record search_config =
  sg_enabled :: bool
  sg_base_url :: string
  sg_index :: string
  sg_refresh :: string
  sg_error :: string

definition no_search_config :: search_config where
  "no_search_config = \<lparr>sg_enabled = False, sg_base_url = [], sg_index = ''dbal_search'', sg_refresh = ''false'', sg_error = []\<rparr>"

definition isValidIndexName :: "string \<Rightarrow> bool" where
  "isValidIndexName name \<longleftrightarrow>
     name \<noteq> [] \<and> length name \<le> 255 \<and> hd name \<notin> {CHR ''_'', CHR ''-'', CHR ''+'', CHR ''.''} \<and>
     list_all (\<lambda>c. is_lower c \<or> is_digit c \<or> c \<in> {CHR ''_'', CHR ''-'', CHR ''.''}) name"

function drop_slashes :: "string \<Rightarrow> string" where
  "drop_slashes s = (if length s > 8 \<and> last s = CHR ''/'' then drop_slashes (butlast s) else s)"
  by pat_completeness auto
termination
  by (relation "measure length") auto

declare drop_slashes.simps [simp del]

fun search_param :: "string \<times> string \<Rightarrow> search_config \<times> bool \<Rightarrow> search_config \<times> bool" where
  "search_param (key, v) (cfg, bad) =
     (if bad then (cfg, bad)
      else if key = ''index'' then
        (if \<not> isValidIndexName v
         then (cfg\<lparr>sg_error := ''DBAL_SEARCH_URL index '' @ [CHR 0x27] @ v @ [CHR 0x27] @
             '' is not a valid Elasticsearch index name (lowercase letters, digits, '' @
             [CHR 0x27] @ ''_'' @ [CHR 0x27] @ '', '' @ [CHR 0x27] @ ''-'' @ [CHR 0x27] @ '', '' @
             [CHR 0x27] @ ''.'' @ [CHR 0x27] @ ''; not starting with _ - + .)''\<rparr>, True)
         else (cfg\<lparr>sg_index := v\<rparr>, bad))
      else if key = ''refresh'' then
        (if v = ''true'' \<or> v = ''false'' \<or> v = ''wait_for'' then (cfg\<lparr>sg_refresh := v\<rparr>, bad)
         else (cfg\<lparr>sg_error := ''DBAL_SEARCH_URL refresh must be true, false or wait_for (got: '' @ v @ '')''\<rparr>, True))
      else (cfg, bad))"

definition parseSearchUrl :: "string \<Rightarrow> search_config" where
  "parseSearchUrl url =
     (if url = [] then no_search_config
      else if \<not> prefix ''http://'' url \<and> \<not> prefix ''https://'' url then
        no_search_config\<lparr>sg_error := ''DBAL_SEARCH_URL must begin with http:// or https:// (got: '' @ url @ '')''\<rparr>
      else
        let base = takeWhile (\<lambda>x. x \<noteq> CHR ''?'') url;
            cfg0 = no_search_config\<lparr>sg_base_url := drop_slashes base\<rparr>;
            (cfg, bad) = fold search_param (query_pairs (drop (length base + 1) url)) (cfg0, False)
        in if bad then cfg\<lparr>sg_base_url := []\<rparr> else cfg\<lparr>sg_enabled := True\<rparr>)"

text \<open>\<^verbatim>\<open>searchConfigFromEnv\<close>, with the value of the environment variable.\<close>

definition searchConfigFromEnv :: "string option \<Rightarrow> search_config" where
  "searchConfigFromEnv var = parseSearchUrl (case var of None \<Rightarrow> [] | Some url \<Rightarrow> url)"

section \<open>The layer\<close>

record ('a, 'w) searching =
  sh_inner :: 'a
  sh_client :: "'w remote_state"

record 'w search_env =
  sv_es :: "'w es_env"
  sv_index :: string

text \<open>
  \<^verbatim>\<open>tryCreate\<close>: the result is the layer, what is left of \<^verbatim>\<open>inner\<close>, and \<^verbatim>\<open>error\<close>.  Making the client does not
  reach for the server.
\<close>

definition try_create_search ::
    "'w remote_state \<Rightarrow> search_config \<Rightarrow> 'a option \<Rightarrow> string \<Rightarrow> ('a, 'w) searching option \<times> 'a option \<times> string" where
  "try_create_search cl cfg inner er =
     (case inner of
        None \<Rightarrow> (None, None, ''no adapter to wrap'')
      | Some a \<Rightarrow>
          if \<not> sg_enabled cfg then (None, inner, ''search is not enabled'')
          else (Some \<lparr>sh_inner = a, sh_client = cl\<rparr>, None, er))"

definition documentId :: "string \<Rightarrow> string \<Rightarrow> string" where
  "documentId entity i = entity @ '':'' @ i"

definition document_path :: "'w search_env \<Rightarrow> string \<Rightarrow> string \<Rightarrow> string" where
  "document_path env entity i = ''/'' @ sv_index env @ ''/_doc/'' @ documentId entity i"

text \<open>What is caught is dropped.\<close>

definition mirrorRecord :: "'w search_env \<Rightarrow> string \<Rightarrow> json \<Rightarrow> 'w remote_state \<Rightarrow> 'w remote_state" where
  "mirrorRecord env entity rec cl =
     (let i = idFromRecord rec in
      if i = [] then cl
      else snd (act_bind (act_lift (jassign ''_entity'' (JString entity) rec)) (\<lambda>doc.
        es_send (sv_es env) ''PUT'' (document_path env entity i) doc True) cl))"

definition mirrorDelete :: "'w search_env \<Rightarrow> string \<Rightarrow> string \<Rightarrow> 'w remote_state \<Rightarrow> 'w remote_state" where
  "mirrorDelete env entity i cl = snd (es_delete (sv_es env) (document_path env entity i) True cl)"

definition on_inner :: "('a \<Rightarrow> exn + 'x \<times> 'a) \<Rightarrow> ('a, 'w) searching \<Rightarrow> exn + 'x \<times> ('a, 'w) searching" where
  "on_inner f st = (case f (sh_inner st) of Inl x \<Rightarrow> Inl x | Inr (r, a) \<Rightarrow> Inr (r, st\<lparr>sh_inner := a\<rparr>))"

definition mirrored ::
    "('a \<Rightarrow> exn + 'x result \<times> 'a) \<Rightarrow> ('x \<Rightarrow> 'w remote_state \<Rightarrow> 'w remote_state) \<Rightarrow> ('a, 'w) searching \<Rightarrow>
     exn + 'x result \<times> ('a, 'w) searching" where
  "mirrored f mirror st =
     (case on_inner f st of
        Inl x \<Rightarrow> Inl x
      | Inr (Inl e, st') \<Rightarrow> Inr (Inl e, st')
      | Inr (Inr v, st') \<Rightarrow> Inr (Inr v, st'\<lparr>sh_client := mirror v (sh_client st')\<rparr>))"

section \<open>Searches\<close>

definition search_limit :: "int \<Rightarrow> int" where
  "search_limit n = (if n \<le> 0 then 20 else if n > 1000 then 1000 else n)"

definition search_request_body :: "string \<Rightarrow> string \<Rightarrow> int \<Rightarrow> json" where
  "search_request_body entity query limit =
     jobject [(''size'', JInt limit), (''query'', jobject [(''bool'', jobject [
       (''filter'', JArray [jobject [(''term'', jobject [(''_entity.keyword'', JString entity)])]]),
       (''must'', JArray [jobject [(''multi_match'', jobject [(''query'', JString query),
          (''type'', JString ''phrase_prefix''), (''lenient'', JBool True)])]])])])]"

text \<open>\<^verbatim>\<open>record.erase("_entity")\<close>\<close>

fun json_erase :: "string \<Rightarrow> json \<Rightarrow> exn + json" where
  "json_erase k (JObject m) = Inr (JObject (om_erase k m))"
| "json_erase k j = Inl (type_error ''cannot use erase()'')"

definition hit_records :: "json \<Rightarrow> exn + json list" where
  "hit_records hits =
     (case jget hits ''hits'' of
        Some (JArray xs) \<Rightarrow> exn_list (json_erase ''_entity'') (List.map_filter (\<lambda>hit. jget hit ''_source'') xs)
      | _ \<Rightarrow> Inr [])"

definition hit_total :: "json \<Rightarrow> int" where
  "hit_total hits =
     (case jget hits ''total'' of
        None \<Rightarrow> 0
      | Some t \<Rightarrow> (case jget t ''value'' of Some (JInt n) \<Rightarrow> narrow_int n | _ \<Rightarrow> 0))"

definition search_hits :: "json \<Rightarrow> int \<Rightarrow> exn + list_result" where
  "search_hits response limit =
     (case jget response ''hits'' of
        None \<Rightarrow> Inr \<lparr>lr_items = [], lr_total = 0, lr_page = 0, lr_limit = 0\<rparr>
      | Some hits \<Rightarrow> exn_bind (hit_records hits) (\<lambda>items.
          Inr \<lparr>lr_items = items, lr_total = hit_total hits, lr_page = 0, lr_limit = limit\<rparr>))"

definition searching_search ::
    "'w search_env \<Rightarrow> string \<Rightarrow> string \<Rightarrow> int \<Rightarrow> ('a, 'w) searching \<Rightarrow> exn + list_result result \<times> ('a, 'w) searching" where
  "searching_search env entity query n st =
     (let limit = search_limit n in
      map_sum id (map_prod id (\<lambda>cl. st\<lparr>sh_client := cl\<rparr>))
        (as_act (act_bind (es_send (sv_es env) ''POST'' (''/'' @ sv_index env @ ''/_search'')
             (search_request_body entity query limit) False)
           (\<lambda>response. act_lift (search_hits response limit))) (sh_client st)))"

section \<open>The interface\<close>

definition searching_create ::
    "'w search_env \<Rightarrow> ('a, 'k) rest_adapter \<Rightarrow> string \<Rightarrow> json \<Rightarrow> ('a, 'w) searching \<Rightarrow> exn + json result \<times> ('a, 'w) searching" where
  "searching_create env ad e data = mirrored (ba_create ad e data) (mirrorRecord env e)"

definition searching_update ::
    "'w search_env \<Rightarrow> ('a, 'k) rest_adapter \<Rightarrow> string \<Rightarrow> string \<Rightarrow> json \<Rightarrow> ('a, 'w) searching \<Rightarrow>
     exn + json result \<times> ('a, 'w) searching" where
  "searching_update env ad e i data = mirrored (ba_update ad e i data) (mirrorRecord env e)"

definition searching_remove ::
    "'w search_env \<Rightarrow> ('a, 'k) rest_adapter \<Rightarrow> string \<Rightarrow> string \<Rightarrow> ('a, 'w) searching \<Rightarrow>
     exn + bool result \<times> ('a, 'w) searching" where
  "searching_remove env ad e i = mirrored (ba_remove ad e i) (\<lambda>_. mirrorDelete env e i)"

definition searching_upsert ::
    "'w search_env \<Rightarrow> ('a, 'k) rest_adapter \<Rightarrow> string \<Rightarrow> string \<Rightarrow> json \<Rightarrow> json \<Rightarrow> json \<Rightarrow> ('a, 'w) searching \<Rightarrow>
     exn + json result \<times> ('a, 'w) searching" where
  "searching_upsert env ad e f v c u = mirrored (ba_upsert ad e f v c u) (mirrorRecord env e)"

text \<open>Bulk operations are passed on and mirror nothing.\<close>

definition searching_adapter :: "'w search_env \<Rightarrow> ('a, 'k) rest_adapter \<Rightarrow> (('a, 'w) searching, 'k) rest_adapter" where
  "searching_adapter env ad = \<lparr>
     ba_create = searching_create env ad,
     ba_read = (\<lambda>e i. on_inner (ba_read ad e i)),
     ba_read_sensitive = (\<lambda>e i. on_inner (ba_read_sensitive ad e i)),
     ba_search = searching_search env,
     ba_update = searching_update env ad,
     ba_remove = searching_remove env ad,
     ba_list = (\<lambda>e opts. on_inner (ba_list ad e opts)),
     ba_create_many = (\<lambda>e recs. on_inner (ba_create_many ad e recs)),
     ba_update_many = (\<lambda>e flt data. on_inner (ba_update_many ad e flt data)),
     ba_delete_many = (\<lambda>e flt. on_inner (ba_delete_many ad e flt)),
     ba_find_first = (\<lambda>e flt. on_inner (ba_find_first ad e flt)),
     ba_find_by_field = (\<lambda>e f v. on_inner (ba_find_by_field ad e f v)),
     ba_upsert = searching_upsert env ad,
     ba_entities = on_inner (ba_entities ad),
     ba_schema = (\<lambda>e. on_inner (ba_schema ad e)),
     ba_close = on_inner (ba_close ad),
     ba_native = (\<lambda>st. ba_native ad (sh_inner st)),
     ba_begin = on_inner (ba_begin ad),
     ba_commit = on_inner (ba_commit ad),
     ba_rollback = on_inner (ba_rollback ad)\<rparr>"

end
