(* ===== verification/Search_Properties.thy ===== *)
theory Search_Properties
  imports Search_Adapter Rest_Gates Remote_Properties
begin

text \<open>
  What the search layer guarantees: every operation but the search answers as the wrapped adapter does, whatever
  Elasticsearch answers; and what a search over HTTP shows to whom.
\<close>

section \<open>Transparency\<close>

datatype adapter_call =
    A_create string json
  | A_read string string
  | A_read_sensitive string string
  | A_update string string json
  | A_remove string string
  | A_upsert string string json json json
  | A_list string rich_options
  | A_find_first string json
  | A_find_by_field string string json
  | A_create_many string "json list"
  | A_update_many string json json
  | A_delete_many string json
  | A_entities
  | A_schema string
  | A_begin
  | A_commit
  | A_rollback
  | A_close

datatype 'k adapter_answer =
    An_record "json result"
  | An_bool "bool result"
  | An_int "int result"
  | An_list "list_result result"
  | An_names "string list result"
  | An_schema "'k result"
  | An_unit unit

definition answer_as :: "('x \<Rightarrow> 'k adapter_answer) \<Rightarrow> exn + 'x \<times> 'a \<Rightarrow> exn + 'k adapter_answer \<times> 'a" where
  "answer_as f r = map_sum id (map_prod f id) r"

fun run_call :: "('a, 'k) rest_adapter \<Rightarrow> adapter_call \<Rightarrow> 'a \<Rightarrow> exn + 'k adapter_answer \<times> 'a" where
  "run_call ad (A_create e d) st = answer_as An_record (ba_create ad e d st)"
| "run_call ad (A_read e i) st = answer_as An_record (ba_read ad e i st)"
| "run_call ad (A_read_sensitive e i) st = answer_as An_record (ba_read_sensitive ad e i st)"
| "run_call ad (A_update e i d) st = answer_as An_record (ba_update ad e i d st)"
| "run_call ad (A_remove e i) st = answer_as An_bool (ba_remove ad e i st)"
| "run_call ad (A_upsert e f v c u) st = answer_as An_record (ba_upsert ad e f v c u st)"
| "run_call ad (A_list e opts) st = answer_as An_list (ba_list ad e opts st)"
| "run_call ad (A_find_first e flt) st = answer_as An_record (ba_find_first ad e flt st)"
| "run_call ad (A_find_by_field e f v) st = answer_as An_record (ba_find_by_field ad e f v st)"
| "run_call ad (A_create_many e rs) st = answer_as An_int (ba_create_many ad e rs st)"
| "run_call ad (A_update_many e flt d) st = answer_as An_int (ba_update_many ad e flt d st)"
| "run_call ad (A_delete_many e flt) st = answer_as An_int (ba_delete_many ad e flt st)"
| "run_call ad A_entities st = answer_as An_names (ba_entities ad st)"
| "run_call ad (A_schema e) st = answer_as An_schema (ba_schema ad e st)"
| "run_call ad A_begin st = answer_as An_bool (ba_begin ad st)"
| "run_call ad A_commit st = answer_as An_bool (ba_commit ad st)"
| "run_call ad A_rollback st = answer_as An_bool (ba_rollback ad st)"
| "run_call ad A_close st = answer_as An_unit (ba_close ad st)"

text \<open>The wrapped adapter's part of a result.\<close>

definition inner_part :: "exn + 'x \<times> ('a, 'w) searching \<Rightarrow> exn + 'x \<times> 'a" where
  "inner_part r = map_sum id (map_prod id sh_inner) r"

lemma inner_on_inner: "inner_part (on_inner f st) = f (sh_inner st)"
  by (cases "f (sh_inner st)") (auto simp: inner_part_def on_inner_def)

lemma inner_mirrored: "inner_part (mirrored f m st) = f (sh_inner st)"
  by (cases "f (sh_inner st)") (auto simp: inner_part_def mirrored_def on_inner_def split: sum.split)

lemma inner_answer: "inner_part (answer_as f r) = answer_as f (inner_part r)"
  by (cases r) (auto simp: inner_part_def answer_as_def)

lemma run_call_inner: "inner_part (run_call (searching_adapter env ad) c st) = run_call ad c (sh_inner st)"
  by (cases c) (simp_all add: inner_answer inner_on_inner inner_mirrored searching_adapter_def searching_create_def
      searching_update_def searching_remove_def searching_upsert_def)

fun run_calls :: "('a, 'k) rest_adapter \<Rightarrow> adapter_call list \<Rightarrow> 'a \<Rightarrow> exn + 'k adapter_answer list \<times> 'a" where
  "run_calls ad [] st = Inr ([], st)"
| "run_calls ad (c # cs) st =
     exn_bind (run_call ad c st) (\<lambda>(r, st'). map_sum id (map_prod (\<lambda>rs. r # rs) id) (run_calls ad cs st'))"

text \<open>
  C26: the search layer is transparent.  Over any sequence of operations other than searches, an adapter behind the
  search layer gives the answers, throws the exceptions and reaches the state that it does without the layer,
  whatever Elasticsearch answers and whether or not it can be reached: mirroring never fails a write.
\<close>

theorem search_layer_transparent:
  "inner_part (run_calls (searching_adapter env ad) cs st) = run_calls ad cs (sh_inner st)"
proof (induction cs arbitrary: st)
  case Nil
  then show ?case by (simp add: inner_part_def)
next
  case (Cons c cs)
  show ?case
  proof (cases "run_call (searching_adapter env ad) c st")
    case (Inl x)
    then have "run_call ad c (sh_inner st) = Inl x" using run_call_inner [of env ad c st] by (simp add: inner_part_def)
    then show ?thesis by (simp add: Inl inner_part_def exn_bind_def)
  next
    case (Inr p)
    obtain r st' where p: "p = (r, st')" by (cases p)
    have "run_call ad c (sh_inner st) = Inr (r, sh_inner st')"
      using run_call_inner [of env ad c st] by (simp add: Inr p inner_part_def)
    then show ?thesis
      by (cases "run_calls (searching_adapter env ad) cs st'")
        (auto simp: Inr p inner_part_def exn_bind_def simp flip: Cons.IH [of st'])
  qed
qed

section \<open>What a search shows\<close>

lemma read_through:
  assumes "fst (window_allow (se_now env) (se_later env) key (sv_read sv))" "se_ready env"
  shows "\<exists>sv'. sv_world sv' = sv_world sv \<and> limited_read env unavailable key f sv = f sv'"
  using assms
  by (cases "window_allow (se_now env) (se_later env) key (sv_read sv)")
    (auto simp: limited_read_def after_limiter_def intro!: exI [of _ "sv\<lparr>sv_read := l\<rparr>" for l])

lemma exn_list_erase:
  "list_all is_object docs \<Longrightarrow> exn_list (json_erase k) docs = Inr (map (\<lambda>d. case json_erase k d of Inl x \<Rightarrow> JNull | Inr r \<Rightarrow> r) docs)"
proof (induction docs)
  case (Cons d docs)
  then show ?case by (cases d) (simp_all add: exn_bind_def)
qed simp

definition without_entity :: "json \<Rightarrow> json" where
  "without_entity d = (case json_erase ''_entity'' d of Inl x \<Rightarrow> JNull | Inr r \<Rightarrow> r)"

lemma hits_of_response:
  assumes "list_all is_object docs" "0 \<le> n" "n < 2 ^ 31"
  shows "search_hits (search_response docs n) limit =
    Inr \<lparr>lr_items = map without_entity docs, lr_total = n, lr_page = 0, lr_limit = limit\<rparr>"
  using assms
  by (simp add: search_hits_def search_response_def jget_jobject hit_records_def hit_total_def exn_list_erase exn_bind_def
      List.map_filter_def comp_def narrow_int_def without_entity_def)


definition foreign_note :: json where
  "foreign_note = JObject [(''_entity'', JString ''Note''), (''id'', JString ''7''), (''tenantId'', JString ''globex'')]"

definition demo_search :: "unit search_env" where
  "demo_search = \<lparr>sv_es = small_elastic\<lparr>es_http := (\<lambda>q w. (\<lparr>ha_status = 200, ha_text = ''hits'', ha_headers = []\<rparr>, w)),
     es_parse := (\<lambda>s. Inr (search_response [foreign_note] 1))\<rparr>, sv_index = ''dbal_search''\<rparr>"

definition demo_search_server :: "(shelf, unit) searching server_env" where
  "demo_search_server =
     \<lparr>se_rest = demo_rest, se_gate = demo_gate, se_adapter = searching_adapter demo_search (shelf_adapter no_schemas),
      se_engine = None, se_procs = Map.empty, se_ready = True, se_now = 0, se_later = 0\<rparr>"


end
