(* ===== verification/Client_Calls.thy ===== *)
theory Client_Calls
  imports Remote_Calls
begin

text \<open>
  The client as its callers see it (\<^verbatim>\<open>src/client_entity_ops.cpp\<close>): every generic operation forwards to the
  adapter of the configured database (\<^verbatim>\<open>include/dbal/adapters/adapter.hpp\<close>), which is a record of
  operations, each of which answers, fails or throws, and may have changed the state in any case.  A
  procedure that uses it may throw.
\<close>

record 's client =
  cl_create :: "string \<Rightarrow> json \<Rightarrow> ('s, json) act"
  cl_read :: "string \<Rightarrow> string \<Rightarrow> ('s, json) act"
  cl_update :: "string \<Rightarrow> string \<Rightarrow> json \<Rightarrow> ('s, json) act"
  cl_remove :: "string \<Rightarrow> string \<Rightarrow> ('s, bool) act"
  cl_list :: "string \<Rightarrow> list_options \<Rightarrow> ('s, json list \<times> int) act"
  cl_upsert :: "string \<Rightarrow> string \<Rightarrow> json \<Rightarrow> json \<Rightarrow> json \<Rightarrow> ('s, json) act"
  cl_findByField :: "string \<Rightarrow> string \<Rightarrow> json \<Rightarrow> ('s, json) act"
  cl_readIncludingSensitive :: "string \<Rightarrow> string \<Rightarrow> ('s, json) act"
  cl_updateMany :: "string \<Rightarrow> json \<Rightarrow> json \<Rightarrow> ('s, int) act"
  cl_deleteMany :: "string \<Rightarrow> json \<Rightarrow> ('s, int) act"

section \<open>Procedures that may throw\<close>

type_synonym ('s, 'x) proc = "'s \<Rightarrow> (exn + 'x) \<times> 's"

definition proc_ret :: "'x \<Rightarrow> ('s, 'x) proc" where
  "proc_ret x st = (Inr x, st)"

definition proc_lift :: "exn + 'x \<Rightarrow> ('s, 'x) proc" where
  "proc_lift r st = (r, st)"

definition proc_bind :: "('s, 'x) proc \<Rightarrow> ('x \<Rightarrow> ('s, 'y) proc) \<Rightarrow> ('s, 'y) proc" where
  "proc_bind m f st = (case m st of (Inl e, st') \<Rightarrow> (Inl e, st') | (Inr x, st') \<Rightarrow> f x st')"

lemma proc_simps:
  "proc_bind (proc_ret x) f = f x" "proc_bind (proc_lift (Inr x)) f = f x"
  "proc_bind (proc_lift (Inl e)) f st = (Inl e, st)"
  by (simp_all add: proc_bind_def proc_ret_def proc_lift_def fun_eq_iff)

lemma proc_bind_Inr: "m st = (Inr x, st') \<Longrightarrow> proc_bind m f st = f x st'"
  by (simp add: proc_bind_def)

lemma proc_bindE:
  assumes "proc_bind m f st = (Inr y, st')"
  obtains x st1 where "m st = (Inr x, st1)" "f x st1 = (Inr y, st')"
  using assms by (auto simp: proc_bind_def split: prod.split_asm sum.split_asm)

section \<open>Running operations\<close>

lemma act_bind_ok: "m st = (Inr (Inr x), st') \<Longrightarrow> act_bind m f st = f x st'"
  by (simp add: act_bind_def)

lemma act_result_run: "m st = (Inr r, st') \<Longrightarrow> act_result m st = (Inr (Inr r), st')"
  by (simp add: act_result_def)

lemma act_lift_ok: "act_lift (Inr x) st = (Inr (Inr x), st)"
  by (simp add: act_lift_def)

lemma act_bindE:
  assumes "act_bind m f st = (Inr (Inr y), st')"
  obtains x st1 where "m st = (Inr (Inr x), st1)" "f x st1 = (Inr (Inr y), st')"
  using assms by (auto simp: act_bind_def split: prod.split_asm sum.split_asm)

section \<open>Tables keyed by id\<close>

text \<open>
  What callers of the generic operations rely on while the database is up: records are kept under their
  entity and id, a second record with an id that is taken is refused as a conflict, and a read or a
  list changes nothing.  A written record keeps the
  members that are columns of its entity.
\<close>

locale keyed_client =
  fixes c :: "'s client" and rows :: "'s \<Rightarrow> string \<Rightarrow> string \<Rightarrow> json option"
    and columns :: "string \<Rightarrow> string set"
  assumes read_row: "rows st e i = Some r \<Longrightarrow> \<exists>st'. cl_read c e i st = (Inr (Inr r), st') \<and> rows st' = rows st"
    and read_none: "rows st e i = None \<Longrightarrow> \<exists>er st'. cl_read c e i st = (Inr (Inl er), st') \<and> rows st' = rows st"
    and rows_object: "rows st e i = Some r \<Longrightarrow> is_object r"
    and create_free: "rows st e i = None \<Longrightarrow> is_object d \<Longrightarrow> jget d ''id'' = Some (JString i) \<Longrightarrow>
          \<exists>r st'. cl_create c e d st = (Inr (Inr r), st') \<and> rows st' = (rows st)(e := (rows st e)(i \<mapsto> r))
            \<and> (\<forall>k \<in> columns e. \<forall>v. jget d k = Some v \<longrightarrow> jget r k = Some v)"
    and create_taken: "rows st e i \<noteq> None \<Longrightarrow> is_object d \<Longrightarrow> jget d ''id'' = Some (JString i) \<Longrightarrow>
          \<exists>er st'. cl_create c e d st = (Inr (Inl er), st') \<and> err_code er = Conflict \<and> rows st' = rows st"
    and update_row: "rows st e i = Some r \<Longrightarrow> is_object d \<Longrightarrow>
          \<exists>r' st'. cl_update c e i d st = (Inr (Inr r'), st') \<and> rows st' = (rows st)(e := (rows st e)(i \<mapsto> r'))
            \<and> (\<forall>k \<in> columns e. jget r' k = (case jget d k of Some v \<Rightarrow> Some v | None \<Rightarrow> jget r k))"

section \<open>Accounts\<close>

text \<open>
  An upsert writes the row of the id, a new record gets an id of its own, and reading with the sensitive
  columns answers the row.
\<close>

locale account_client =
  fixes c :: "'s client" and rows :: "'s \<Rightarrow> string \<Rightarrow> string \<Rightarrow> json option" and columns :: "string \<Rightarrow> string set"
  assumes account_object: "rows st e i = Some r \<Longrightarrow> is_object r"
    and upsert_row: "cl_upsert c e ''id'' (JString i) cd ud st = (Inr (Inr row), st') \<Longrightarrow>
          \<exists>r. rows st' e i = Some r \<and> (\<forall>k \<in> columns e. jget r k =
            (case rows st e i of
               None \<Rightarrow> jget cd k
             | Some old \<Rightarrow> (case jget ud k of Some v \<Rightarrow> Some v | None \<Rightarrow> jget old k)))"
    and create_new: "cl_create c e d st = (Inr (Inr row), st') \<Longrightarrow> jget d ''id'' = None \<Longrightarrow>
          is_object row \<and> (\<exists>i r. jget row ''id'' = Some (JString i) \<and> rows st' e i = Some r
            \<and> (\<forall>k \<in> columns e. k \<noteq> ''id'' \<longrightarrow> jget r k = jget d k))"
    and sensitive_row: "rows st e i = Some r \<Longrightarrow>
          \<exists>st'. cl_readIncludingSensitive c e i st = (Inr (Inr r), st')"

end
