(* ===== verification/Seed_Loader.thy ===== *)
theory Seed_Loader
  imports Client_Calls
begin

text \<open>
  Loading seed data (\<^verbatim>\<open>src/daemon/actions/seed_loader_action.cpp\<close>): files of documents, each with records
  of one entity, are put into the database through the client.  A record marked as bootstrap is followed
  by a fingerprint of its content, so that a later start can tell a changed seed from a row that an
  operator has changed.  A record that throws is counted and the next one is tried; an exception outside
  the records ends the file.  The clock is an operation on the state; the file system, SHA-256, and
  the reader and writer of JSON are parameters.
\<close>

record seed_result =
  sr_entity :: string
  sr_inserted :: int
  sr_updated :: int
  sr_skipped :: int
  sr_failed :: int
  sr_errors :: "string list"

definition new_result :: "string \<Rightarrow> seed_result" where
  "new_result e = \<lparr>sr_entity = e, sr_inserted = 0, sr_updated = 0, sr_skipped = 0, sr_failed = 0, sr_errors = []\<rparr>"

record seed_summary =
  ss_success :: bool
  ss_inserted :: int
  ss_updated :: int
  ss_skipped :: int
  ss_failed :: int
  ss_results :: "seed_result list"
  ss_errors :: "string list"

record 's seed_env =
  sd_client :: "'s client"
  sd_now :: "'s \<Rightarrow> int \<times> 's"
  sd_dump :: "json \<Rightarrow> exn + string"
  sd_sha256 :: "string \<Rightarrow> string"
  sd_open :: "string \<Rightarrow> string option"
  sd_parse :: "string \<Rightarrow> string + json"
  sd_exists :: "string \<Rightarrow> bool"
  sd_entries :: "string \<Rightarrow> (string \<times> bool) list"

definition nowMs :: "'s seed_env \<Rightarrow> ('s, int) proc" where
  "nowMs env st = (case sd_now env st of (t, st') \<Rightarrow> (Inr t, st'))"

section \<open>Fingerprints\<close>

definition fingerprintOf :: "'s seed_env \<Rightarrow> json \<Rightarrow> exn + string" where
  "fingerprintOf env rec = map_sum id (sd_sha256 env) (sd_dump env rec)"

definition tracking_id :: "string \<Rightarrow> string \<Rightarrow> string" where
  "tracking_id entity i = entity @ '':'' @ i"

definition bootstrapNeedsReconcile :: "'s seed_env \<Rightarrow> string \<Rightarrow> string \<Rightarrow> string \<Rightarrow> ('s, bool) proc" where
  "bootstrapNeedsReconcile env entity i current =
     proc_bind (cl_read (sd_client env) ''SeedFingerprint'' (tracking_id entity i)) (\<lambda>existing.
       case existing of
         Inl e \<Rightarrow> proc_ret True
       | Inr row \<Rightarrow> proc_bind (proc_lift (value_string row ''fingerprint'' [])) (\<lambda>f. proc_ret (f \<noteq> current)))"

definition tracking_record :: "string \<Rightarrow> string \<Rightarrow> string \<Rightarrow> int \<Rightarrow> json" where
  "tracking_record entity i fp t = jobject
     [(''id'', JString (tracking_id entity i)), (''entity'', JString entity), (''recordId'', JString i),
      (''fingerprint'', JString fp), (''appliedAt'', JInt t)]"

definition tracking_update :: "string \<Rightarrow> int \<Rightarrow> json" where
  "tracking_update fp t = jobject [(''fingerprint'', JString fp), (''appliedAt'', JInt t)]"

definition recordBootstrapFingerprint :: "'s seed_env \<Rightarrow> string \<Rightarrow> string \<Rightarrow> string \<Rightarrow> ('s, unit) proc" where
  "recordBootstrapFingerprint env entity i fp =
     proc_bind (nowMs env) (\<lambda>t.
     proc_bind (cl_create (sd_client env) ''SeedFingerprint'' (tracking_record entity i fp t)) (\<lambda>created.
       case created of
         Inr r \<Rightarrow> proc_ret ()
       | Inl e \<Rightarrow>
           if err_code e \<noteq> Conflict then proc_ret ()
           else proc_bind (nowMs env) (\<lambda>t.
             proc_bind (cl_update (sd_client env) ''SeedFingerprint'' (tracking_id entity i) (tracking_update fp t))
               (\<lambda>_. proc_ret ()))))"

section \<open>Time stamps\<close>

definition common_ts_fields :: "string list" where
  "common_ts_fields =
     [''createdAt'', ''updatedAt'', ''publishedAt'', ''installedAt'', ''timestamp'', ''lastSyncAt'']"

definition is_zero :: "json \<Rightarrow> bool" where
  "is_zero j \<longleftrightarrow> (case j of JInt n \<Rightarrow> n = 0 | JFloat q \<Rightarrow> q = 0 | _ \<Rightarrow> False)"

definition stamp_field :: "int \<Rightarrow> string \<Rightarrow> json \<Rightarrow> json" where
  "stamp_field t k rec =
     (case jget rec k of
        None \<Rightarrow> rec
      | Some v \<Rightarrow> if is_zero v then jset k (JInt t) rec else rec)"

definition applyCurrentTimestamps :: "'s seed_env \<Rightarrow> string \<Rightarrow> json \<Rightarrow> ('s, json) proc" where
  "applyCurrentTimestamps env field rec =
     (if field = [] then proc_ret rec
      else proc_bind (nowMs env) (\<lambda>t. proc_ret (fold (stamp_field t) (field # common_ts_fields) rec)))"

section \<open>One record\<close>

text \<open>The counters of a document are kept when a record throws.\<close>

definition on_database :: "('s, 'x) proc \<Rightarrow> ('s \<times> seed_result, 'x) proc" where
  "on_database m st = (case m (fst st) of (r, s) \<Rightarrow> (r, (s, snd st)))"

definition tally :: "(seed_result \<Rightarrow> seed_result) \<Rightarrow> ('s \<times> seed_result, unit) proc" where
  "tally f st = (Inr (), (fst st, f (snd st)))"

definition seed_failed :: "string \<Rightarrow> seed_result \<Rightarrow> seed_result" where
  "seed_failed what r = r\<lparr>sr_failed := sr_failed r + 1, sr_errors := sr_errors r @ [what]\<rparr>"

definition inserted_one :: "seed_result \<Rightarrow> seed_result" where
  "inserted_one r = r\<lparr>sr_inserted := sr_inserted r + 1\<rparr>"

definition updated_one :: "seed_result \<Rightarrow> seed_result" where
  "updated_one r = r\<lparr>sr_updated := sr_updated r + 1\<rparr>"

definition skipped_one :: "seed_result \<Rightarrow> seed_result" where
  "skipped_one r = r\<lparr>sr_skipped := sr_skipped r + 1\<rparr>"

record seed_options =
  so_entity :: string
  so_skip_if_exists :: bool
  so_bootstrap :: bool
  so_use_timestamp :: bool
  so_timestamp_field :: string

definition bootstrap_id :: "seed_options \<Rightarrow> json \<Rightarrow> string option" where
  "bootstrap_id opts rec =
     (if so_bootstrap opts then (case jget rec ''id'' of Some (JString i) \<Rightarrow> Some i | _ \<Rightarrow> None) else None)"

definition id_text :: "'s seed_env \<Rightarrow> json \<Rightarrow> exn + string" where
  "id_text env rec = (case jget rec ''id'' of Some v \<Rightarrow> sd_dump env v | None \<Rightarrow> Inr ''unknown'')"

definition reconcile :: "'s seed_env \<Rightarrow> string \<Rightarrow> string \<Rightarrow> string \<Rightarrow> string \<Rightarrow> json \<Rightarrow> ('s \<times> seed_result, unit) proc" where
  "reconcile env entity i fp id_str rec =
     proc_bind (on_database (cl_update (sd_client env) entity i rec)) (\<lambda>res.
       case res of
         Inr r \<Rightarrow> proc_bind (tally updated_one) (\<lambda>_. on_database (recordBootstrapFingerprint env entity i fp))
       | Inl e \<Rightarrow> tally (seed_failed
           (''Failed to reconcile bootstrap '' @ entity @ '' id='' @ id_str @ '': '' @ err_what e)))"

definition already_there :: "'s seed_env \<Rightarrow> seed_options \<Rightarrow> json \<Rightarrow> ('s \<times> seed_result, unit) proc" where
  "already_there env opts rec =
     proc_bind (proc_lift (id_text env rec)) (\<lambda>id_str.
       case bootstrap_id opts rec of
         None \<Rightarrow> tally skipped_one
       | Some i \<Rightarrow>
           proc_bind (proc_lift (fingerprintOf env rec)) (\<lambda>fp.
           proc_bind (on_database (bootstrapNeedsReconcile env (so_entity opts) i fp)) (\<lambda>needs.
             if needs then reconcile env (so_entity opts) i fp id_str rec else tally skipped_one)))"

definition seed_record :: "'s seed_env \<Rightarrow> seed_options \<Rightarrow> json \<Rightarrow> ('s \<times> seed_result, unit) proc" where
  "seed_record env opts node =
     proc_bind (if so_use_timestamp opts then on_database (applyCurrentTimestamps env (so_timestamp_field opts) node)
                else proc_ret node) (\<lambda>rec.
     proc_bind (on_database (cl_create (sd_client env) (so_entity opts) rec)) (\<lambda>created.
       case created of
         Inr r \<Rightarrow> proc_bind (tally inserted_one) (\<lambda>_.
           case bootstrap_id opts rec of
             None \<Rightarrow> proc_ret ()
           | Some i \<Rightarrow> proc_bind (proc_lift (fingerprintOf env rec)) (\<lambda>fp.
               on_database (recordBootstrapFingerprint env (so_entity opts) i fp)))
       | Inl e \<Rightarrow>
           if err_code e = Conflict then already_there env opts rec
           else proc_bind (proc_lift (id_text env rec)) (\<lambda>id_str.
             tally (seed_failed (''Failed to create '' @ so_entity opts @ '' id='' @ id_str @ '': '' @ err_what e)))))"

definition seed_one :: "'s seed_env \<Rightarrow> seed_options \<Rightarrow> json \<Rightarrow> ('s \<times> seed_result, unit) proc" where
  "seed_one env opts node st =
     (case seed_record env opts node st of
        (Inl (Std_exception what), st') \<Rightarrow> tally (seed_failed (''Exception processing record: '' @ what)) st'
      | r \<Rightarrow> r)"

fun seed_records :: "'s seed_env \<Rightarrow> seed_options \<Rightarrow> json list \<Rightarrow> ('s \<times> seed_result, unit) proc" where
  "seed_records env opts [] = proc_ret ()"
| "seed_records env opts (n # ns) = proc_bind (seed_one env opts n) (\<lambda>_. seed_records env opts ns)"

section \<open>One document\<close>

definition doc_entity :: "json \<Rightarrow> exn + string option" where
  "doc_entity doc =
     (case jget doc ''entity'' of
        Some v \<Rightarrow> map_sum id Some (get_string v)
      | None \<Rightarrow>
          (case jget doc ''displayName'' of
             Some v \<Rightarrow> map_sum id Some (get_string v)
           | None \<Rightarrow>
               (case jget doc ''name'' of
                  Some v \<Rightarrow> map_sum id Some (get_string v)
                | None \<Rightarrow> Inr None)))"

definition doc_options :: "string \<Rightarrow> json \<Rightarrow> exn + seed_options" where
  "doc_options entity doc =
     (case jget doc ''metadata'' of
        None \<Rightarrow> Inr \<lparr>so_entity = entity, so_skip_if_exists = False, so_bootstrap = False,
                 so_use_timestamp = False, so_timestamp_field = []\<rparr>
      | Some meta \<Rightarrow>
          exn_bind (value_bool meta ''skipIfExists'' False) (\<lambda>skip.
          exn_bind (value_bool meta ''bootstrap'' False) (\<lambda>boot.
          exn_bind (value_bool meta ''useCurrentTimestamp'' False) (\<lambda>use.
          exn_bind (value_string meta ''timestampField'' []) (\<lambda>field.
            Inr \<lparr>so_entity = entity, so_skip_if_exists = skip, so_bootstrap = boot,
                 so_use_timestamp = use, so_timestamp_field = field\<rparr>)))))"

definition records_present :: "'s seed_env \<Rightarrow> string \<Rightarrow> ('s, bool) proc" where
  "records_present env entity =
     proc_bind (cl_list (sd_client env) entity (default_list_options\<lparr>lo_limit := 1\<rparr>)) (\<lambda>existing.
       proc_ret (case existing of Inl e \<Rightarrow> False | Inr l \<Rightarrow> fst l \<noteq> []))"

fun json_size :: "json \<Rightarrow> nat" where
  "json_size JNull = 0"
| "json_size (JArray xs) = length xs"
| "json_size (JObject m) = length m"
| "json_size _ = 1"

definition records_count :: "json \<Rightarrow> int" where
  "records_count doc = (case jget doc ''records'' of None \<Rightarrow> 0 | Some v \<Rightarrow> size_to_int (json_size v))"

definition run_records :: "'s seed_env \<Rightarrow> seed_options \<Rightarrow> json list \<Rightarrow> ('s, seed_result option) proc" where
  "run_records env opts rs st =
     (case seed_records env opts rs (st, new_result (so_entity opts)) of
        (Inl e, st') \<Rightarrow> (Inl e, fst st')
      | (Inr u, st') \<Rightarrow> (Inr (Some (snd st')), fst st'))"

text \<open>A document that is passed over has no result.\<close>

definition seed_document :: "'s seed_env \<Rightarrow> bool \<Rightarrow> json \<Rightarrow> ('s, seed_result option) proc" where
  "seed_document env force doc =
     (if \<not> is_object doc then proc_ret None
      else proc_bind (proc_lift (doc_entity doc)) (\<lambda>named.
        case named of
          None \<Rightarrow> proc_ret None
        | Some entity \<Rightarrow>
            proc_bind (proc_lift (doc_options entity doc)) (\<lambda>opts.
            proc_bind (if so_skip_if_exists opts \<and> \<not> force \<and> \<not> so_bootstrap opts
                       then records_present env entity else proc_ret False) (\<lambda>present.
              if present then proc_ret (Some ((new_result entity)\<lparr>sr_skipped := records_count doc\<rparr>))
              else
                (case jget doc ''records'' of
                   Some (JArray rs) \<Rightarrow> run_records env opts rs
                 | _ \<Rightarrow> proc_ret (Some (new_result entity)))))))"

text \<open>The results so far are kept when a document throws.\<close>

fun seed_documents :: "'s seed_env \<Rightarrow> bool \<Rightarrow> json list \<Rightarrow> 's \<Rightarrow> seed_result list \<times> exn option \<times> 's" where
  "seed_documents env force [] st = ([], None, st)"
| "seed_documents env force (d # ds) st =
     (case seed_document env force d st of
        (Inl e, st') \<Rightarrow> ([], Some e, st')
      | (Inr r, st') \<Rightarrow>
          (case seed_documents env force ds st' of
             (rs, e, st'') \<Rightarrow> ((case r of None \<Rightarrow> rs | Some x \<Rightarrow> x # rs), e, st'')))"

section \<open>Files and directories\<close>

definition file_name :: "string \<Rightarrow> string" where
  "file_name path = rev (takeWhile (\<lambda>c. c \<noteq> CHR ''/'') (rev path))"

definition json_file :: "string \<Rightarrow> bool" where
  "json_file name \<longleftrightarrow> suffix ''.json'' name \<and> name \<noteq> ''.json''"

definition in_dir :: "string \<Rightarrow> string \<Rightarrow> string" where
  "in_dir dir name = (if dir = [] \<or> last dir = CHR ''/'' then dir @ name else dir @ ''/'' @ name)"

definition file_failed :: "string \<Rightarrow> string \<Rightarrow> seed_result" where
  "file_failed path what = (new_result (file_name path))\<lparr>sr_failed := 1, sr_errors := [what]\<rparr>"

definition documents_of :: "json \<Rightarrow> json list option" where
  "documents_of top_json = (case top_json of JArray ds \<Rightarrow> Some ds | JObject m \<Rightarrow> Some [top_json] | _ \<Rightarrow> None)"

definition loadSeedFile :: "'s seed_env \<Rightarrow> string \<Rightarrow> bool \<Rightarrow> ('s, seed_result list) proc" where
  "loadSeedFile env path force st =
     (case sd_open env path of
        None \<Rightarrow> (Inr [file_failed path (''Error: Cannot open file: '' @ path)], st)
      | Some content \<Rightarrow>
          (case sd_parse env content of
             Inl what \<Rightarrow> (Inr [file_failed path (''JSON parse error: '' @ what)], st)
           | Inr top_json \<Rightarrow>
               (case documents_of top_json of
                  None \<Rightarrow> (Inr [], st)
                | Some docs \<Rightarrow>
                    (case seed_documents env force docs st of
                       (rs, None, st') \<Rightarrow> (Inr rs, st')
                     | (rs, Some (Std_exception what), st') \<Rightarrow>
                         (Inr (rs @ [file_failed path (''Error: '' @ what)]), st')
                     | (rs, Some Undefined, st') \<Rightarrow> (Inl Undefined, st')))))"

definition getSeedLoadOrder :: "string list" where
  "getSeedLoadOrder =
     [''users.json'', ''credentials.json'', ''test_logins.json'', ''workspaces.json'',
      ''installed_packages.json'', ''projects.json'', ''workflows.json'', ''products.json'',
      ''games.json'', ''artists.json'', ''videos.json'', ''forum.json'', ''notifications.json'',
      ''audit_logs.json'']"

definition seed_dir_candidates :: "string list" where
  "seed_dir_candidates =
     [''dbal/shared/seeds/database'', ''../shared/seeds/database'', ''/app/dbal/shared/seeds/database'',
      ''/app/seeds/database'']"

definition getDefaultSeedDir :: "(string \<Rightarrow> string option) \<Rightarrow> (string \<Rightarrow> bool) \<Rightarrow> string" where
  "getDefaultSeedDir getenv is_dir =
     (case getenv ''DBAL_SEED_DIR'' of
        Some d \<Rightarrow> d
      | None \<Rightarrow>
          (case find is_dir seed_dir_candidates of
             Some d \<Rightarrow> d
           | None \<Rightarrow> ''dbal/shared/seeds/database''))"

definition add_to_summary :: "seed_result \<Rightarrow> seed_summary \<Rightarrow> seed_summary" where
  "add_to_summary r s = s\<lparr>
     ss_inserted := ss_inserted s + sr_inserted r, ss_updated := ss_updated s + sr_updated r,
     ss_skipped := ss_skipped s + sr_skipped r, ss_failed := ss_failed s + sr_failed r,
     ss_results := ss_results s @ [r], ss_errors := ss_errors s @ sr_errors r\<rparr>"

fun load_files :: "'s seed_env \<Rightarrow> string \<Rightarrow> bool \<Rightarrow> string list \<Rightarrow> seed_summary \<Rightarrow> ('s, seed_summary) proc" where
  "load_files env dir force [] s = proc_ret s"
| "load_files env dir force (f # fs) s =
     proc_bind (loadSeedFile env (in_dir dir f) force) (\<lambda>rs. load_files env dir force fs (fold add_to_summary rs s))"

definition ordered_files :: "'s seed_env \<Rightarrow> string \<Rightarrow> string list" where
  "ordered_files env dir = filter (\<lambda>f. sd_exists env (in_dir dir f)) getSeedLoadOrder"

definition other_files :: "'s seed_env \<Rightarrow> string \<Rightarrow> string list" where
  "other_files env dir =
     [f. (f, regular) \<leftarrow> sd_entries env dir, regular, json_file f, f \<notin> set (ordered_files env dir),
         f \<noteq> ''package_permissions.json'', f \<noteq> ''smtp_credentials.json'']"

definition new_summary :: seed_summary where
  "new_summary = \<lparr>ss_success = True, ss_inserted = 0, ss_updated = 0, ss_skipped = 0, ss_failed = 0,
     ss_results = [], ss_errors = []\<rparr>"

definition loadSeeds :: "'s seed_env \<Rightarrow> string \<Rightarrow> bool \<Rightarrow> ('s, seed_summary) proc" where
  "loadSeeds env dir force =
     (if \<not> sd_exists env dir
      then proc_ret (new_summary\<lparr>ss_success := False, ss_errors := [''Seed directory not found: '' @ dir]\<rparr>)
      else
        proc_bind (load_files env dir force (ordered_files env dir) new_summary) (\<lambda>s.
        proc_bind (load_files env dir force (other_files env dir) s) (\<lambda>s.
          proc_ret (s\<lparr>ss_success := ss_failed s = 0\<rparr>))))"

end
