(* ===== verification/Table_Client.thy ===== *)
theory Table_Client
  imports Client_Calls
begin

text \<open>
  A database that keeps its rows: tables as maps, with a number that counts up for the ids of new records
  and as a clock.  It gives both contracts of \<^verbatim>\<open>Client_Calls\<close>.
\<close>

type_synonym tables = "(string \<Rightarrow> string \<Rightarrow> (string \<times> json) list option) \<times> int"

definition tables_rows :: "tables \<Rightarrow> string \<Rightarrow> string \<Rightarrow> json option" where
  "tables_rows st e i = map_option JObject (fst st e i)"

definition tables_put :: "string \<Rightarrow> string \<Rightarrow> (string \<times> json) list \<Rightarrow> tables \<Rightarrow> tables" where
  "tables_put e i m st = ((fst st)(e := (fst st e)(i \<mapsto> m)), snd st)"

fun tables_create :: "string \<Rightarrow> json \<Rightarrow> (tables, json) act" where
  "tables_create e (JObject m) st =
     (case map_of m ''id'' of
        Some (JString i) \<Rightarrow>
          (if fst st e i = None then (Inr (Inr (JObject m)), tables_put e i m st)
           else (Inr (Inl (conflict ''id is taken'')), st))
      | None \<Rightarrow>
          (let i = nat_digits (nat (snd st)); m' = om_put ''id'' (JString i) m
           in (Inr (Inr (JObject m')), tables_put e i m' (fst st, snd st + 1)))
      | _ \<Rightarrow> (Inr (Inl (validation_error ''id is required'')), st))"
| "tables_create e j st = (Inr (Inl (validation_error ''not an object'')), st)"

definition tables_read :: "string \<Rightarrow> string \<Rightarrow> (tables, json) act" where
  "tables_read e i st =
     (case tables_rows st e i of
        Some r \<Rightarrow> (Inr (Inr r), st) | None \<Rightarrow> (Inr (Inl (not_found ''no such record'')), st))"

fun tables_update :: "string \<Rightarrow> string \<Rightarrow> json \<Rightarrow> (tables, json) act" where
  "tables_update e i (JObject d) st =
     (case fst st e i of
        Some m \<Rightarrow>
          (let m' = fold (\<lambda>(k, v). om_put k v) (rev d) m in (Inr (Inr (JObject m')), tables_put e i m' st))
      | None \<Rightarrow> (Inr (Inl (not_found ''no such record'')), st))"
| "tables_update e i j st = (Inr (Inl (validation_error ''not an object'')), st)"

fun tables_upsert :: "string \<Rightarrow> string \<Rightarrow> json \<Rightarrow> json \<Rightarrow> json \<Rightarrow> (tables, json) act" where
  "tables_upsert e f (JString i) (JObject m) (JObject d) st =
     (if f \<noteq> ''id'' then (Inr (Inl (internal_error ''not offered'')), st)
      else if fst st e i = None then (Inr (Inr (JObject m)), tables_put e i m st)
      else tables_update e i (JObject d) st)"
| "tables_upsert e f j cd ud st = (Inr (Inl (validation_error ''not an object'')), st)"

definition not_offered :: "('s, 'x) act" where
  "not_offered st = (Inr (Inl (internal_error ''not offered'')), st)"

definition no_tables :: tables where
  "no_tables = (\<lambda>_ _. None, 1)"

definition tables_client :: "tables client" where
  "tables_client = \<lparr>cl_create = tables_create, cl_read = tables_read, cl_update = tables_update,
     cl_remove = (\<lambda>_ _. not_offered), cl_list = (\<lambda>_ _. not_offered), cl_upsert = tables_upsert,
     cl_findByField = (\<lambda>_ _ _. not_offered), cl_readIncludingSensitive = tables_read,
     cl_updateMany = (\<lambda>_ _ _. not_offered), cl_deleteMany = (\<lambda>_ _. not_offered)\<rparr>"

lemma tables_rows_put: "tables_rows (tables_put e i m st) = (tables_rows st)(e := (tables_rows st e)(i \<mapsto> JObject m))"
  by (auto simp: tables_rows_def tables_put_def fun_eq_iff)

lemma tables_keyed: "keyed_client tables_client tables_rows (\<lambda>_. UNIV)"
proof
  fix st e i r
  show "tables_rows st e i = Some r \<Longrightarrow> \<exists>st'. cl_read tables_client e i st = (Inr (Inr r), st') \<and> tables_rows st' = tables_rows st"
    by (simp add: tables_client_def tables_read_def)
  show "tables_rows st e i = None \<Longrightarrow> \<exists>er st'. cl_read tables_client e i st = (Inr (Inl er), st') \<and> tables_rows st' = tables_rows st"
    by (simp add: tables_client_def tables_read_def)
  show "tables_rows st e i = Some r \<Longrightarrow> is_object r" by (auto simp: tables_rows_def)
next
  fix st e i d
  assume d: "is_object d" "jget d ''id'' = Some (JString i)"
  then obtain m where m: "d = JObject m" "map_of m ''id'' = Some (JString i)" by (cases d) auto
  show "tables_rows st e i = None \<Longrightarrow> \<exists>r st'. cl_create tables_client e d st = (Inr (Inr r), st')
      \<and> tables_rows st' = (tables_rows st)(e := (tables_rows st e)(i \<mapsto> r))
      \<and> (\<forall>k \<in> UNIV. \<forall>v. jget d k = Some v \<longrightarrow> jget r k = Some v)"
    using m tables_rows_put [of e i m st] by (auto simp: tables_client_def tables_rows_def)
  show "tables_rows st e i \<noteq> None \<Longrightarrow> \<exists>er st'. cl_create tables_client e d st = (Inr (Inl er), st')
      \<and> err_code er = Conflict \<and> tables_rows st' = tables_rows st"
    using m by (cases st) (auto simp: tables_client_def tables_rows_def)
next
  fix st e i r d
  assume r: "tables_rows st e i = Some r" and d: "is_object d"
  then obtain m p where m: "fst st e i = Some m" "r = JObject m" "d = JObject p"
    by (cases d) (auto simp: tables_rows_def)
  let ?m = "fold (\<lambda>(k, v). om_put k v) (rev p) m"
  have "cl_update tables_client e i d st = (Inr (Inr (JObject ?m)), tables_put e i ?m st)"
    using m by (simp add: tables_client_def Let_def)
  moreover have "\<forall>k \<in> UNIV. jget (JObject ?m) k = (case jget d k of Some v \<Rightarrow> Some v | None \<Rightarrow> jget r k)"
    unfolding m(2,3) by (simp add: map_of_fold_put map_add_def split: option.split)
  ultimately show "\<exists>r' st'. cl_update tables_client e i d st = (Inr (Inr r'), st')
      \<and> tables_rows st' = (tables_rows st)(e := (tables_rows st e)(i \<mapsto> r'))
      \<and> (\<forall>k \<in> UNIV. jget r' k = (case jget d k of Some v \<Rightarrow> Some v | None \<Rightarrow> jget r k))"
    using tables_rows_put by blast
qed

interpretation tables: keyed_client tables_client tables_rows "\<lambda>_. UNIV"
  by (rule tables_keyed)


lemma tables_update_ok:
  assumes "tables_update e i d st = (Inr (Inr row), st')" "fst st e i = Some old"
  shows "\<exists>r. tables_rows st' e i = Some r \<and>
     (\<forall>k. jget r k = (case jget d k of Some v \<Rightarrow> Some v | None \<Rightarrow> jget (JObject old) k))"
proof -
  obtain p where p: "d = JObject p" using assms(1) by (cases d) auto
  let ?m = "fold (\<lambda>(k, v). om_put k v) (rev p) old"
  have "st' = tables_put e i ?m st" using assms unfolding p by (simp add: Let_def)
  then have "tables_rows st' e i = Some (JObject ?m)" by (simp add: tables_rows_put)
  moreover have "jget (JObject ?m) k = (case jget d k of Some v \<Rightarrow> Some v | None \<Rightarrow> jget (JObject old) k)" for k
    unfolding p by (simp add: map_of_fold_put map_add_def split: option.split)
  ultimately show ?thesis by blast
qed

interpretation accounts: account_client tables_client tables_rows "\<lambda>_. UNIV"
proof
  fix st e i r
  show "tables_rows st e i = Some r \<Longrightarrow> is_object r" by (auto simp: tables_rows_def)
  show "tables_rows st e i = Some r \<Longrightarrow> \<exists>st'. cl_readIncludingSensitive tables_client e i st = (Inr (Inr r), st')"
    by (simp add: tables_client_def tables_read_def)
next
  fix e i cd ud st row st'
  assume up: "cl_upsert tables_client e ''id'' (JString i) cd ud st = (Inr (Inr row), st')"
  then obtain m d where md: "cd = JObject m" "ud = JObject d"
    by (cases cd; cases ud) (auto simp: tables_client_def)
  show "\<exists>r. tables_rows st' e i = Some r \<and> (\<forall>k \<in> UNIV. jget r k =
      (case tables_rows st e i of
         None \<Rightarrow> jget cd k
       | Some old \<Rightarrow> (case jget ud k of Some v \<Rightarrow> Some v | None \<Rightarrow> jget old k)))"
  proof (cases "fst st e i")
    case None
    then have "st' = tables_put e i m st" using up md by (simp add: tables_client_def)
    then show ?thesis using None md(1) by (simp add: tables_rows_put tables_rows_def [of st])
  next
    case (Some old)
    then have "tables_update e i ud st = (Inr (Inr row), st')"
      using up by (simp add: tables_client_def md)
    from tables_update_ok [OF this Some] show ?thesis
      using Some by (simp add: tables_rows_def [of st])
  qed
next
  fix e d st row st'
  assume "cl_create tables_client e d st = (Inr (Inr row), st')" and noid: "jget d ''id'' = None"
  then have cr: "tables_create e d st = (Inr (Inr row), st')" by (simp add: tables_client_def)
  then obtain m where m: "d = JObject m" by (cases d) auto
  let ?i = "nat_digits (nat (snd st))"
  let ?m = "om_put ''id'' (JString ?i) m"
  have r: "row = JObject ?m" "st' = tables_put e ?i ?m (fst st, snd st + 1)"
    using cr noid unfolding m by (simp_all add: Let_def)
  have "jget (JObject ?m) k = jget d k" if "k \<noteq> ''id''" for k
    unfolding m using that by (simp add: om_find_put)
  moreover have "jget (JObject ?m) ''id'' = Some (JString ?i)" by (simp add: om_find_put)
  ultimately show "is_object row \<and> (\<exists>i r. jget row ''id'' = Some (JString i) \<and> tables_rows st' e i = Some r
      \<and> (\<forall>k \<in> UNIV. k \<noteq> ''id'' \<longrightarrow> jget r k = jget d k))"
    unfolding r by (auto simp: tables_rows_put)
qed

end
