(* ===== verification/Seed_Properties.thy ===== *)
theory Seed_Properties
  imports Seed_Loader Table_Client
begin

text \<open>
  What a start with seeds does to a database that was seeded before: rows that an operator has changed
  stay as they are, unless the seed asks for current time stamps.
\<close>

section \<open>What a seeded record leaves behind\<close>

definition prepared :: "'s seed_env \<Rightarrow> seed_options \<Rightarrow> json \<Rightarrow> 's \<Rightarrow> json" where
  "prepared env opts n st =
     (if so_use_timestamp opts \<and> so_timestamp_field opts \<noteq> []
      then fold (stamp_field (fst (sd_now env st))) (so_timestamp_field opts # common_ts_fields) n else n)"

definition tracked :: "(string \<Rightarrow> string \<Rightarrow> json option) \<Rightarrow> string \<Rightarrow> string \<Rightarrow> string \<Rightarrow> bool" where
  "tracked tab e i fp \<longleftrightarrow> tab e i \<noteq> None \<and>
     (case tab ''SeedFingerprint'' (tracking_id e i) of
        Some r \<Rightarrow> jget r ''fingerprint'' = Some (JString fp) | None \<Rightarrow> False)"

text \<open>A change of the rows that leaves all but one record and its fingerprint alone.\<close>

definition only_record ::
    "string \<Rightarrow> string \<Rightarrow> (string \<Rightarrow> string \<Rightarrow> json option) \<Rightarrow> (string \<Rightarrow> string \<Rightarrow> json option) \<Rightarrow> bool" where
  "only_record e i tab tab' \<longleftrightarrow> (\<forall>x y. (x, y) \<noteq> (e, i) \<longrightarrow>
     (x, y) \<noteq> (''SeedFingerprint'', tracking_id e i) \<longrightarrow> tab' x y = tab x y)"

lemma only_record_refl: "only_record e i tab tab"
  by (simp add: only_record_def)

lemma only_record_upd: "only_record e i tab tab' \<Longrightarrow> only_record e i tab (tab'(e := (tab' e)(i \<mapsto> r)))"
  by (auto simp: only_record_def)

lemma only_record_track:
  "only_record e i tab tab' \<Longrightarrow>
   only_record e i tab (tab'(''SeedFingerprint'' := (tab' ''SeedFingerprint'')(tracking_id e i \<mapsto> r)))"
  by (auto simp: only_record_def)

lemma on_database_Inr: "m st = (Inr x, st') \<Longrightarrow> on_database m (st, res) = (Inr x, (st', res))"
  by (simp add: on_database_def)

lemma tracking_simps:
  "is_object (tracking_record e i fp t)" "is_object (tracking_update fp t)"
  "jget (tracking_record e i fp t) ''id'' = Some (JString (tracking_id e i))"
  "jget (tracking_record e i fp t) ''fingerprint'' = Some (JString fp)"
  "jget (tracking_update fp t) ''fingerprint'' = Some (JString fp)"
  by (simp_all add: tracking_record_def tracking_update_def jget_jobject)

text \<open>Fingerprints are texts, as the schema of their table says.\<close>

definition texts :: "(string \<Rightarrow> string \<Rightarrow> json option) \<Rightarrow> bool" where
  "texts tab \<longleftrightarrow> (\<forall>k r. tab ''SeedFingerprint'' k = Some r \<longrightarrow> (\<exists>s. jget r ''fingerprint'' = Some (JString s)))"

lemma texts_upd: "texts tab \<Longrightarrow> e \<noteq> ''SeedFingerprint'' \<Longrightarrow> texts (tab(e := m))"
  by (simp add: texts_def)

lemma texts_track:
  "texts tab \<Longrightarrow> jget r ''fingerprint'' = Some (JString fp) \<Longrightarrow>
   texts (tab(''SeedFingerprint'' := (tab ''SeedFingerprint'')(k \<mapsto> r)))"
  by (simp add: texts_def)

locale seed_store = keyed_client "sd_client env" rows columns
  for env :: "'s seed_env" and rows and columns +
  assumes now_rows: "rows (snd (sd_now env st)) = rows st"
    and fingerprint_column: "''fingerprint'' \<in> columns ''SeedFingerprint''"
begin

lemma nowMs_run: "\<exists>st'. nowMs env st = (Inr (fst (sd_now env st)), st') \<and> rows st' = rows st"
  using now_rows [of st] by (cases "sd_now env st") (simp add: nowMs_def)

lemma prepared_run:
  "\<exists>st'. (if so_use_timestamp opts then on_database (applyCurrentTimestamps env (so_timestamp_field opts) n)
          else proc_ret n) (st, res) = (Inr (prepared env opts n st), (st', res)) \<and> rows st' = rows st"
proof (cases "so_use_timestamp opts \<and> so_timestamp_field opts \<noteq> []")
  case True
  obtain st' where "nowMs env st = (Inr (fst (sd_now env st)), st')" "rows st' = rows st"
    using nowMs_run by blast
  then show ?thesis using True
    by (simp add: prepared_def applyCurrentTimestamps_def on_database_def proc_bind_def proc_ret_def)
next
  case False
  then show ?thesis by (auto simp: prepared_def applyCurrentTimestamps_def on_database_def proc_ret_def)
qed

lemma recorded:
  "\<exists>st' r. recordBootstrapFingerprint env e i fp st = (Inr (), st')
     \<and> rows st' = (rows st)(''SeedFingerprint'' := (rows st ''SeedFingerprint'')(tracking_id e i \<mapsto> r))
     \<and> jget r ''fingerprint'' = Some (JString fp)"
proof -
  let ?F = "''SeedFingerprint''" and ?k = "tracking_id e i"
  obtain st1 where s1: "nowMs env st = (Inr (fst (sd_now env st)), st1)" "rows st1 = rows st"
    using nowMs_run by blast
  let ?d = "tracking_record e i fp (fst (sd_now env st))"
  show ?thesis
  proof (cases "rows st1 ?F ?k")
    case None
    then obtain r st2 where "cl_create (sd_client env) ?F ?d st1 = (Inr (Inr r), st2)"
      "rows st2 = (rows st1)(?F := (rows st1 ?F)(?k \<mapsto> r))" "jget r ''fingerprint'' = Some (JString fp)"
      using create_free [of st1 ?F ?k ?d] fingerprint_column by (auto simp: tracking_simps)
    then show ?thesis using s1
      by (auto simp: recordBootstrapFingerprint_def proc_bind_def proc_ret_def)
  next
    case (Some old)
    obtain er st2 where s2: "cl_create (sd_client env) ?F ?d st1 = (Inr (Inl er), st2)" "err_code er = Conflict"
      "rows st2 = rows st1"
      using create_taken [of st1 ?F ?k ?d] Some by (auto simp: tracking_simps)
    obtain st3 where s3: "nowMs env st2 = (Inr (fst (sd_now env st2)), st3)" "rows st3 = rows st2"
      using nowMs_run by blast
    let ?u = "tracking_update fp (fst (sd_now env st2))"
    have "rows st3 ?F ?k = Some old" using Some s2 s3 by simp
    then obtain r st4 where "cl_update (sd_client env) ?F ?k ?u st3 = (Inr (Inr r), st4)"
      "rows st4 = (rows st3)(?F := (rows st3 ?F)(?k \<mapsto> r))" "jget r ''fingerprint'' = Some (JString fp)"
      using update_row [of st3 ?F ?k old ?u] fingerprint_column by (auto simp: tracking_simps)
    then show ?thesis using s1 s2 s3
      by (auto simp: recordBootstrapFingerprint_def proc_bind_def proc_ret_def)
  qed
qed

lemma needs_run:
  assumes "rows st e i \<noteq> None" "texts (rows st)"
  shows "\<exists>st'. bootstrapNeedsReconcile env e i fp st = (Inr (\<not> tracked (rows st) e i fp), st') \<and> rows st' = rows st"
proof (cases "rows st ''SeedFingerprint'' (tracking_id e i)")
  case None
  then show ?thesis
    using read_none [of st "''SeedFingerprint''" "tracking_id e i"]
    by (auto simp: bootstrapNeedsReconcile_def proc_bind_def proc_ret_def tracked_def)
next
  case (Some r)
  then obtain s where "jget r ''fingerprint'' = Some (JString s)" using assms(2) by (auto simp: texts_def)
  then show ?thesis
    using read_row [OF Some] rows_object [OF Some] assms(1) Some
    by (auto simp: bootstrapNeedsReconcile_def proc_bind_def proc_ret_def proc_lift_def tracked_def
        value_string_def value_as_def)
qed


text \<open>The outcome for a record that is written, and for one that is left alone.\<close>

definition seeded :: "string \<Rightarrow> string \<Rightarrow> string \<Rightarrow> json \<Rightarrow> 's \<Rightarrow> 's \<Rightarrow> bool" where
  "seeded e i fp rec st st' \<longleftrightarrow>
     only_record e i (rows st) (rows st') \<and> tracked (rows st') e i fp \<and> texts (rows st') \<and>
     (if tracked (rows st) e i fp then rows st' = rows st
      else \<exists>r. rows st' e i = Some r \<and> (\<forall>k \<in> columns e. \<forall>v. jget rec k = Some v \<longrightarrow> jget r k = Some v))"

lemma seeded_written:
  assumes "rows st1 = (rows st)(e := (rows st e)(i \<mapsto> r))" "\<forall>k \<in> columns e. \<forall>v. jget rec k = Some v \<longrightarrow> jget r k = Some v"
    and "rows st2 = (rows st1)(''SeedFingerprint'' := (rows st1 ''SeedFingerprint'')(tracking_id e i \<mapsto> f))"
    and "jget f ''fingerprint'' = Some (JString fp)" "e \<noteq> ''SeedFingerprint''" "texts (rows st)"
    and "\<not> tracked (rows st) e i fp"
  shows "seeded e i fp rec st st2"
proof -
  have t1: "texts (rows st1)" unfolding assms(1) using assms(5,6) by (intro texts_upd)
  have "only_record e i (rows st) (rows st2)"
    unfolding assms(3) assms(1) by (intro only_record_track only_record_upd only_record_refl)
  moreover have "texts (rows st2)" unfolding assms(3) using t1 assms(4) by (intro texts_track)
  moreover have "tracked (rows st2) e i fp" "rows st2 e i = Some r"
    using assms(1,3,4,5) by (simp_all add: tracked_def)
  ultimately show ?thesis using assms(2,7) by (simp add: seeded_def)
qed

lemma seed_one_effect:
  assumes boot: "so_bootstrap opts" and e: "so_entity opts = e" "e \<noteq> ''SeedFingerprint''"
    and rec: "prepared env opts n st = rec" "is_object rec" "jget rec ''id'' = Some (JString i)"
    and dumps: "sd_dump env (JString i) = Inr t" "fingerprintOf env rec = Inr fp"
    and ok: "texts (rows st)"
  shows "\<exists>st' res'. seed_one env opts n (st, res) = (Inr (), (st', res')) \<and> seeded e i fp rec st st'"
proof -
  have bid: "bootstrap_id opts rec = Some i" using boot rec by (simp add: bootstrap_id_def)
  have idt: "id_text env rec = Inr t" using rec dumps by (simp add: id_text_def)
  obtain st0 where s0: "(if so_use_timestamp opts then on_database (applyCurrentTimestamps env (so_timestamp_field opts) n)
      else proc_ret n) (st, res) = (Inr rec, (st0, res))" "rows st0 = rows st"
    using prepared_run [of opts n st res] rec by blast
  note step = proc_bind_Inr [where m = "if so_use_timestamp opts then _ else _", OF s0(1)]
  show ?thesis
  proof (cases "rows st0 e i")
    case None
    obtain r st1 where s1: "cl_create (sd_client env) e rec st0 = (Inr (Inr r), st1)"
      "rows st1 = (rows st0)(e := (rows st0 e)(i \<mapsto> r))" "\<forall>k \<in> columns e. \<forall>v. jget rec k = Some v \<longrightarrow> jget r k = Some v"
      using create_free [OF None rec(2,3)] by blast
    obtain st2 f where s2: "recordBootstrapFingerprint env e i fp st1 = (Inr (), st2)"
      "rows st2 = (rows st1)(''SeedFingerprint'' := (rows st1 ''SeedFingerprint'')(tracking_id e i \<mapsto> f))"
      "jget f ''fingerprint'' = Some (JString fp)"
      using recorded [of e i fp st1] by blast
    have "seed_record env opts n (st, res) = (Inr (), (st2, inserted_one res))"
      unfolding seed_record_def step
      by (simp add: proc_bind_def on_database_def s1(1) s2(1) bid e dumps tally_def proc_lift_def)
    moreover have "seeded e i fp rec st st2"
      using s1 s2 s0 None e ok by (intro seeded_written [of st1 st e i r rec st2 f fp]) (simp_all add: tracked_def)
    ultimately show ?thesis by (auto simp: seed_one_def)
  next
    case (Some old)
    obtain er st1 where s1: "cl_create (sd_client env) e rec st0 = (Inr (Inl er), st1)" "err_code er = Conflict"
      "rows st1 = rows st0"
      using create_taken [of st0 e i rec] Some rec by blast
    obtain st2 where s2: "bootstrapNeedsReconcile env e i fp st1 = (Inr (\<not> tracked (rows st1) e i fp), st2)"
      "rows st2 = rows st1"
      using needs_run [of st1 e i fp] Some s1 s0 ok by auto
    have there: "seed_record env opts n (st, res) =
        (if tracked (rows st) e i fp then (Inr (), (st2, skipped_one res))
         else reconcile env e i fp t rec (st2, res))"
      unfolding seed_record_def step
      by (simp add: proc_bind_def on_database_def s1 s2(1) s0 bid e dumps idt tally_def proc_lift_def already_there_def)
    show ?thesis
    proof (cases "tracked (rows st) e i fp")
      case True
      then have "seeded e i fp rec st st2" using s0 s1 s2 ok by (simp add: seeded_def only_record_refl)
      then show ?thesis using there True by (auto simp: seed_one_def)
    next
      case False
      obtain r st3 where s3: "cl_update (sd_client env) e i rec st2 = (Inr (Inr r), st3)"
        "rows st3 = (rows st2)(e := (rows st2 e)(i \<mapsto> r))"
        "\<forall>k \<in> columns e. jget r k = (case jget rec k of Some v \<Rightarrow> Some v | None \<Rightarrow> jget old k)"
        using update_row [of st2 e i old rec] Some rec s1 s2 by auto
      obtain st4 f where s4: "recordBootstrapFingerprint env e i fp st3 = (Inr (), st4)"
        "rows st4 = (rows st3)(''SeedFingerprint'' := (rows st3 ''SeedFingerprint'')(tracking_id e i \<mapsto> f))"
        "jget f ''fingerprint'' = Some (JString fp)"
        using recorded [of e i fp st3] by blast
      have "seed_record env opts n (st, res) = (Inr (), (st4, updated_one res))"
        unfolding there using False
        by (simp add: reconcile_def proc_bind_def on_database_def s3(1) s4(1) tally_def)
      moreover have "seeded e i fp rec st st4"
        using s0 s1 s2 s3 s4 e ok False
        by (intro seeded_written [of st3 st e i r rec st4 f fp]) simp_all
      ultimately show ?thesis by (auto simp: seed_one_def)
    qed
  qed
qed

end

section \<open>Lists of records and of documents\<close>

definition item_id :: "json \<Rightarrow> string" where
  "item_id n = (case jget n ''id'' of Some (JString i) \<Rightarrow> i | _ \<Rightarrow> [])"

definition item_key :: "string \<times> json \<Rightarrow> string" where
  "item_key it = tracking_id (fst it) (item_id (snd it))"

definition settled :: "'s seed_env \<Rightarrow> (string \<Rightarrow> string \<Rightarrow> json option) \<Rightarrow> string \<times> json \<Rightarrow> bool" where
  "settled env tab it \<longleftrightarrow> (\<exists>fp. fingerprintOf env (snd it) = Inr fp \<and> tracked tab (fst it) (item_id (snd it)) fp)"

text \<open>A change that settles some records, keeps what else is settled, and changes nothing when they are.\<close>

definition settles ::
    "'s seed_env \<Rightarrow> (string \<times> json) list \<Rightarrow> (string \<Rightarrow> string \<Rightarrow> json option) \<Rightarrow> (string \<Rightarrow> string \<Rightarrow> json option) \<Rightarrow> bool" where
  "settles env its tab tab' \<longleftrightarrow> texts tab' \<and> (\<forall>it \<in> set its. settled env tab' it) \<and>
     (\<forall>it. settled env tab it \<longrightarrow> fst it \<noteq> ''SeedFingerprint'' \<longrightarrow> item_key it \<notin> item_key ` set its \<longrightarrow> settled env tab' it) \<and>
     ((\<forall>it \<in> set its. settled env tab it) \<longrightarrow> tab' = tab)"

lemma settles_Nil: "texts tab \<Longrightarrow> settles env [] tab tab"
  by (simp add: settles_def)

lemma settles_append:
  assumes "settles env as t t1" "settles env bs t1 t2" "distinct (map item_key (as @ bs))"
    and "\<forall>it \<in> set (as @ bs). fst it \<noteq> ''SeedFingerprint''"
  shows "settles env (as @ bs) t t2"
proof -
  have apart: "item_key ` set as \<inter> item_key ` set bs = {}" using assms(3) by simp
  have t2: "texts t2" using assms(2) by (simp add: settles_def)
  have A: "\<forall>it \<in> set as. settled env t1 it" using assms(1) by (simp add: settles_def)
  have A2: "\<forall>it \<in> set as. settled env t2 it"
  proof
    fix it assume it: "it \<in> set as"
    then have "item_key it \<notin> item_key ` set bs" using apart by blast
    moreover have "settled env t1 it" "fst it \<noteq> ''SeedFingerprint''" using A it assms(4) by auto
    ultimately show "settled env t2 it" using assms(2) unfolding settles_def by blast
  qed
  have B: "\<forall>it \<in> set bs. settled env t2 it" using assms(2) by (simp add: settles_def)
  have K: "settled env t2 it"
    if "settled env t it" "fst it \<noteq> ''SeedFingerprint''" "item_key it \<notin> item_key ` set (as @ bs)" for it
  proof -
    have n: "item_key it \<notin> item_key ` set as" "item_key it \<notin> item_key ` set bs" using that(3) by auto
    have "settled env t1 it" using that(1,2) n(1) assms(1) unfolding settles_def by blast
    then show ?thesis using that(2) n(2) assms(2) unfolding settles_def by blast
  qed
  have "t2 = t" if "\<forall>it \<in> set (as @ bs). settled env t it"
  proof -
    have "t1 = t" using that assms(1) by (simp add: settles_def)
    then show ?thesis using that assms(2) by (simp add: settles_def)
  qed
  then show ?thesis using t2 A2 B K by (auto simp: settles_def)
qed

lemma tracked_kept:
  assumes "only_record e i tab tab'" "tracked tab x y fp" "tracking_id x y \<noteq> tracking_id e i"
    and "x \<noteq> ''SeedFingerprint''" "e \<noteq> ''SeedFingerprint''"
  shows "tracked tab' x y fp"
proof -
  have only: "tab' a b = tab a b" if "(a, b) \<noteq> (e, i)" "(a, b) \<noteq> (''SeedFingerprint'', tracking_id e i)" for a b
    using assms(1) that by (simp add: only_record_def)
  have "tab' x y = tab x y"
    using assms(3,4) by (intro only) auto
  moreover have "tab' ''SeedFingerprint'' (tracking_id x y) = tab ''SeedFingerprint'' (tracking_id x y)"
    using assms(3,5) by (intro only) auto
  ultimately show ?thesis using assms(2) by (simp add: tracked_def)
qed

definition stable_record :: "'s seed_env \<Rightarrow> json \<Rightarrow> bool" where
  "stable_record env n \<longleftrightarrow> is_object n \<and> \<not> isl (sd_dump env n) \<and>
     (case jget n ''id'' of Some (JString i) \<Rightarrow> \<not> isl (sd_dump env (JString i)) | _ \<Rightarrow> False)"

text \<open>Options of a bootstrap document without current time stamps, for a table of its own.\<close>

definition stable_options :: "seed_options \<Rightarrow> bool" where
  "stable_options opts \<longleftrightarrow> so_bootstrap opts \<and> \<not> so_use_timestamp opts \<and> so_entity opts \<noteq> ''SeedFingerprint''"

definition stable_doc :: "'s seed_env \<Rightarrow> json \<Rightarrow> bool" where
  "stable_doc env d \<longleftrightarrow> is_object d \<and>
     (case doc_entity d of
        Inr (Some e) \<Rightarrow>
          (case doc_options e d of
             Inr opts \<Rightarrow>
               (case jget d ''records'' of
                  Some (JArray rs) \<Rightarrow> stable_options opts \<and> list_all (stable_record env) rs
                | _ \<Rightarrow> False)
           | _ \<Rightarrow> False)
      | _ \<Rightarrow> False)"

definition doc_items :: "json \<Rightarrow> (string \<times> json) list" where
  "doc_items d =
     (case (doc_entity d, jget d ''records'') of
        (Inr (Some e), Some (JArray rs)) \<Rightarrow> map (Pair e) rs | _ \<Rightarrow> [])"

lemma stable_docE:
  assumes "stable_doc env d"
  obtains e opts rs where "is_object d" "doc_entity d = Inr (Some e)" "doc_options e d = Inr opts"
    "jget d ''records'' = Some (JArray rs)" "stable_options opts" "list_all (stable_record env) rs"
proof -
  obtain e where e: "doc_entity d = Inr (Some e)"
    using assms unfolding stable_doc_def by (cases "doc_entity d") (auto split: option.splits)
  obtain opts where o: "doc_options e d = Inr opts"
    using assms unfolding stable_doc_def e by (cases "doc_options e d") auto
  obtain v where v: "jget d ''records'' = Some v"
    using assms unfolding stable_doc_def e by (cases "jget d ''records''") (auto simp: o)
  obtain rs where r: "v = JArray rs"
    using assms unfolding stable_doc_def e by (cases v) (auto simp: o v)
  show ?thesis using assms e o v r by (intro that [of e opts rs]) (simp_all add: stable_doc_def)
qed

lemma doc_options_entity: "doc_options e d = Inr opts \<Longrightarrow> so_entity opts = e"
  by (auto simp: doc_options_def exn_bind_def split: option.split_asm sum.split_asm)

context seed_store begin

lemma one_settles:
  assumes "stable_options opts" "stable_record env n" "texts (rows st)"
  shows "\<exists>st' res'. seed_one env opts n (st, res) = (Inr (), (st', res')) \<and>
           settles env [(so_entity opts, n)] (rows st) (rows st')"
proof -
  obtain i t d where n: "is_object n" "jget n ''id'' = Some (JString i)" "sd_dump env (JString i) = Inr t"
    "sd_dump env n = Inr d"
    using assms(2) by (auto simp: stable_record_def isl_def split: option.split_asm json.split_asm)
      (metis sum.exhaust)
  have o: "so_bootstrap opts" "so_entity opts \<noteq> ''SeedFingerprint''" "prepared env opts n st = n"
    using assms(1) by (simp_all add: stable_options_def prepared_def)
  have fp: "fingerprintOf env n = Inr (sd_sha256 env d)" using n by (simp add: fingerprintOf_def)
  obtain st' res' where run: "seed_one env opts n (st, res) = (Inr (), (st', res'))"
    "seeded (so_entity opts) i (sd_sha256 env d) n st st'"
    using seed_one_effect [OF o(1) refl o(2,3) n(1,2,3) fp assms(3)] by blast
  have "settles env [(so_entity opts, n)] (rows st) (rows st')"
    using run(2) n fp o(2) unfolding settles_def seeded_def settled_def item_key_def item_id_def
    by (auto simp: tracked_kept split: if_splits)
  then show ?thesis using run(1) by blast
qed

lemma records_settle:
  assumes "stable_options opts" "list_all (stable_record env) ns" "texts (rows st)"
    and "distinct (map item_key (map (Pair (so_entity opts)) ns))"
  shows "\<exists>st' res'. seed_records env opts ns (st, res) = (Inr (), (st', res')) \<and>
           settles env (map (Pair (so_entity opts)) ns) (rows st) (rows st')"
  using assms
proof (induction ns arbitrary: st res)
  case Nil
  then show ?case by (simp add: proc_ret_def settles_Nil)
next
  case (Cons n ns)
  have s: "stable_record env n" "list_all (stable_record env) ns" using Cons.prems(2) by simp_all
  obtain st1 res1 where r1: "seed_one env opts n (st, res) = (Inr (), (st1, res1))"
    "settles env [(so_entity opts, n)] (rows st) (rows st1)"
    using one_settles [OF Cons.prems(1) s(1) Cons.prems(3)] by blast
  have t1: "texts (rows st1)" using r1(2) by (simp add: settles_def)
  have d1: "distinct (map item_key (map (Pair (so_entity opts)) ns))" using Cons.prems(4) by simp
  obtain st2 res2 where r2: "seed_records env opts ns (st1, res1) = (Inr (), (st2, res2))"
    "settles env (map (Pair (so_entity opts)) ns) (rows st1) (rows st2)"
    using Cons.IH [OF Cons.prems(1) s(2) t1 d1] by blast
  have "settles env ([(so_entity opts, n)] @ map (Pair (so_entity opts)) ns) (rows st) (rows st2)"
    using Cons.prems(1,4) by (intro settles_append [OF r1(2) r2(2)]) (auto simp: stable_options_def)
  then show ?case using r1(1) r2(1) by (simp add: proc_bind_def)
qed

lemma document_settles:
  assumes "stable_doc env d" "texts (rows st)" "distinct (map item_key (doc_items d))"
  shows "\<exists>st' r. seed_document env force d st = (Inr r, st') \<and> settles env (doc_items d) (rows st) (rows st')"
proof -
  obtain e opts rs where d: "is_object d" "doc_entity d = Inr (Some e)" "doc_options e d = Inr opts"
    "jget d ''records'' = Some (JArray rs)" "stable_options opts" "list_all (stable_record env) rs"
    using assms(1) by (rule stable_docE)
  have e: "so_entity opts = e" using doc_options_entity d(3) by blast
  have its: "doc_items d = map (Pair e) rs" using d by (simp add: doc_items_def)
  obtain st' res' where run: "seed_records env opts rs (st, new_result e) = (Inr (), (st', res'))"
    "settles env (doc_items d) (rows st) (rows st')"
    using records_settle [OF d(5,6) assms(2), of "new_result e"] assms(3) unfolding its e by blast
  have "seed_document env force d st = (Inr (Some res'), st')"
    using d run(1) e by (simp add: seed_document_def proc_simps run_records_def stable_options_def)
  then show ?thesis using run(2) by blast
qed

lemma documents_settle:
  assumes "list_all (stable_doc env) ds" "texts (rows st)" "distinct (map item_key (concat (map doc_items ds)))"
  shows "\<exists>rs st'. seed_documents env force ds st = (rs, None, st') \<and>
           settles env (concat (map doc_items ds)) (rows st) (rows st')"
  using assms
proof (induction ds arbitrary: st)
  case Nil
  then show ?case by (simp add: settles_Nil)
next
  case (Cons d ds)
  have s: "stable_doc env d" "list_all (stable_doc env) ds" using Cons.prems(1) by simp_all
  have dd: "distinct (map item_key (doc_items d))" "distinct (map item_key (concat (map doc_items ds)))"
    using Cons.prems(3) by simp_all
  obtain st1 r where r1: "seed_document env force d st = (Inr r, st1)" "settles env (doc_items d) (rows st) (rows st1)"
    using document_settles [OF s(1) Cons.prems(2) dd(1)] by blast
  have "texts (rows st1)" using r1(2) by (simp add: settles_def)
  then obtain rs st2 where r2: "seed_documents env force ds st1 = (rs, None, st2)"
    "settles env (concat (map doc_items ds)) (rows st1) (rows st2)"
    using Cons.IH [OF s(2) _ dd(2)] by blast
  have own: "fst it \<noteq> ''SeedFingerprint''" if "stable_doc env x" "it \<in> set (doc_items x)" for x it
    using that by (auto simp: doc_items_def stable_options_def dest: doc_options_entity elim!: stable_docE)
  have "settles env (doc_items d @ concat (map doc_items ds)) (rows st) (rows st2)"
    using Cons.prems(3) own s by (intro settles_append [OF r1(2) r2(2)]) (auto simp: list_all_iff)
  then show ?case using r1(1) r2(1) by auto
qed

lemma file_settles:
  assumes "sd_open env path = Some content" "sd_parse env content = Inr whole" "documents_of whole = Some docs"
    and "list_all (stable_doc env) docs" "texts (rows st)" "distinct (map item_key (concat (map doc_items docs)))"
  shows "settles env (concat (map doc_items docs)) (rows st) (rows (snd (loadSeedFile env path force st)))"
proof -
  obtain rs st' where "seed_documents env force docs st = (rs, None, st')"
    "settles env (concat (map doc_items docs)) (rows st) (rows st')"
    using documents_settle [OF assms(4-6)] by blast
  then show ?thesis using assms(1-3) by (simp add: loadSeedFile_def)
qed

end

section \<open>Seeding twice\<close>


section \<open>Time stamps\<close>

lemma jget_stamp_field:
  "is_object n \<Longrightarrow> jget (stamp_field t k n) x =
     (case jget n x of Some v \<Rightarrow> if x = k \<and> is_zero v then Some (JInt t) else Some v | None \<Rightarrow> None)"
  by (auto simp: stamp_field_def jget_jset split: option.split)

lemma is_object_stamp_field: "is_object n \<Longrightarrow> is_object (stamp_field t k n)"
  by (cases n) (auto simp: stamp_field_def split: option.split)

lemma is_object_stamps: "is_object n \<Longrightarrow> is_object (fold (stamp_field t) ks n)"
  by (induction ks arbitrary: n) (simp_all add: is_object_stamp_field)

lemma stamps_keep: "is_object n \<Longrightarrow> jget n k = Some v \<Longrightarrow> \<not> is_zero v \<Longrightarrow> jget (fold (stamp_field t) ks n) k = Some v"
  by (induction ks arbitrary: n) (simp_all add: is_object_stamp_field jget_stamp_field)

lemma stamps_now: "is_object n \<Longrightarrow> jget n k = Some (JInt t) \<Longrightarrow> jget (fold (stamp_field t) ks n) k = Some (JInt t)"
  by (induction ks arbitrary: n) (simp_all add: is_object_stamp_field jget_stamp_field)

lemma stamps_zero:
  "is_object n \<Longrightarrow> k \<in> set ks \<Longrightarrow> jget n k = Some (JInt 0) \<Longrightarrow> jget (fold (stamp_field t) ks n) k = Some (JInt t)"
proof (induction ks arbitrary: n)
  case Nil
  then show ?case by simp
next
  case (Cons a ks)
  have o: "is_object (stamp_field t a n)" using Cons.prems(1) by (rule is_object_stamp_field)
  show ?case
  proof (cases "a = k")
    case True
    then have "jget (stamp_field t a n) k = Some (JInt t)"
      using Cons.prems by (simp add: jget_stamp_field is_zero_def)
    then show ?thesis using stamps_now [OF o] by simp
  next
    case False
    then have "jget (stamp_field t a n) k = Some (JInt 0)" using Cons.prems by (simp add: jget_stamp_field)
    then show ?thesis using Cons.IH [OF o] Cons.prems(2) False by simp
  qed
qed

text \<open>A bootstrap document of one record that asks for current time stamps.\<close>

definition stamped_doc :: "json \<Rightarrow> seed_options \<Rightarrow> json \<Rightarrow> string \<Rightarrow> bool" where
  "stamped_doc d opts n i \<longleftrightarrow> is_object d \<and> doc_entity d = Inr (Some (so_entity opts)) \<and>
     doc_options (so_entity opts) d = Inr opts \<and> jget d ''records'' = Some (JArray [n]) \<and>
     so_bootstrap opts \<and> so_use_timestamp opts \<and> so_timestamp_field opts \<noteq> [] \<and>
     so_entity opts \<noteq> ''SeedFingerprint'' \<and> is_object n \<and> jget n ''id'' = Some (JString i) \<and>
     jget n ''createdAt'' = Some (JInt 0)"

lemma prepared_stamps:
  "stamped_doc d opts n i \<Longrightarrow>
   prepared env opts n st = fold (stamp_field (fst (sd_now env st))) (so_timestamp_field opts # common_ts_fields) n"
  by (simp add: stamped_doc_def prepared_def)

context seed_store begin

lemma stamped_file:
  assumes "sd_open env path = Some content" "sd_parse env content = Inr whole" "documents_of whole = Some [d]"
    and d: "stamped_doc d opts n i" and "sd_dump env (JString i) = Inr t"
    and "fingerprintOf env (prepared env opts n st) = Inr fp" "texts (rows st)"
  shows "seeded (so_entity opts) i fp (prepared env opts n st) st (snd (loadSeedFile env path force st))"
proof -
  let ?e = "so_entity opts" and ?r = "prepared env opts n st"
  have o: "is_object d" "doc_entity d = Inr (Some ?e)" "doc_options ?e d = Inr opts"
    "jget d ''records'' = Some (JArray [n])" "so_bootstrap opts" "?e \<noteq> ''SeedFingerprint''"
    "is_object n" "jget n ''id'' = Some (JString i)"
    using d by (simp_all add: stamped_doc_def)
  have r: "is_object ?r" "jget ?r ''id'' = Some (JString i)"
    unfolding prepared_stamps [OF d] using o
    by (simp_all add: is_object_stamps stamps_keep is_zero_def del: fold.simps)
  obtain st' res' where run: "seed_one env opts n (st, new_result ?e) = (Inr (), (st', res'))"
    "seeded ?e i fp ?r st st'"
    using seed_one_effect [OF o(5) refl o(6) refl r assms(5-7)] by blast
  have "seed_document env force d st = (Inr (Some res'), st')"
    using o run(1) by (simp add: seed_document_def proc_simps run_records_def proc_bind_def proc_ret_def)
  then show ?thesis using assms(1-3) run(2) by (simp add: loadSeedFile_def)
qed

lemma stamped_again:
  assumes "sd_open env path = Some content" "sd_parse env content = Inr whole" "documents_of whole = Some [d]"
    and d: "stamped_doc d opts n i" and "sd_dump env (JString i) = Inr t"
    and fp: "fingerprintOf env (prepared env opts n st) = Inr fp" "fingerprintOf env (prepared env opts n st2) = Inr fp2"
    and "texts (rows st)" "fst (sd_now env st2) \<noteq> fst (sd_now env st)"
    and apart: "fp2 = fp \<longrightarrow> prepared env opts n st2 = prepared env opts n st"
    and same: "rows st2 ''SeedFingerprint'' = rows (snd (loadSeedFile env path force st)) ''SeedFingerprint''"
    and v: "k \<in> columns (so_entity opts)" "jget n k = Some v" "\<not> is_zero v"
  shows "\<exists>r. rows (snd (loadSeedFile env path again st2)) (so_entity opts) i = Some r \<and> jget r k = Some v"
proof -
  let ?e = "so_entity opts" and ?st1 = "snd (loadSeedFile env path force st)"
  have o: "is_object n" "jget n ''createdAt'' = Some (JInt 0)" using d by (simp_all add: stamped_doc_def)
  have stamp: "jget (prepared env opts n x) ''createdAt'' = Some (JInt (fst (sd_now env x)))" for x
    unfolding prepared_stamps [OF d] using o by (intro stamps_zero) (simp_all add: common_ts_fields_def)
  have "prepared env opts n st2 \<noteq> prepared env opts n st" using stamp [of st] stamp [of st2] assms(9) by force
  then have ne: "fp2 \<noteq> fp" using apart by blast
  have one: "seeded ?e i fp (prepared env opts n st) st ?st1"
    by (rule stamped_file [OF assms(1-3) d assms(5) fp(1) assms(8)])
  then have ts: "texts (rows st2)" using same by (simp add: seeded_def texts_def)
  have "\<not> tracked (rows st2) ?e i fp2"
    using one same ne by (auto simp: seeded_def tracked_def split: option.split_asm)
  moreover have "seeded ?e i fp2 (prepared env opts n st2) st2 (snd (loadSeedFile env path again st2))"
    by (rule stamped_file [OF assms(1-3) d assms(5) fp(2) ts])
  moreover have "jget (prepared env opts n st2) k = Some v"
    unfolding prepared_stamps [OF d] using o v by (intro stamps_keep)
  ultimately show ?thesis using v(1) unfolding seeded_def by auto
qed

end


section \<open>A start on tables in a map\<close>

definition tables_env :: "(json \<Rightarrow> exn + string) \<Rightarrow> json \<Rightarrow> tables seed_env" where
  "tables_env dump whole = \<lparr>sd_client = tables_client, sd_now = (\<lambda>st. (snd st, (fst st, snd st + 1))),
     sd_dump = dump, sd_sha256 = id, sd_open = (\<lambda>_. Some []), sd_parse = (\<lambda>_. Inr whole),
     sd_exists = (\<lambda>_. True), sd_entries = (\<lambda>_. [])\<rparr>"

interpretation seeded_tables: seed_store "tables_env dump whole" tables_rows "\<lambda>_. UNIV" for dump whole
proof (intro seed_store.intro seed_store_axioms.intro)
  show "keyed_client (sd_client (tables_env dump whole)) tables_rows (\<lambda>_. UNIV)"
    using tables_keyed by (simp add: tables_env_def)
  show "tables_rows (snd (sd_now (tables_env dump whole) st)) = tables_rows st" for st
    by (auto simp: tables_env_def tables_rows_def fun_eq_iff)
qed simp

text \<open>A seed with one user, and an operator who makes the user an administrator.\<close>

definition seed_user :: json where
  "seed_user = JObject [(''createdAt'', JInt 0), (''id'', JString ''u''), (''role'', JString ''user'')]"

definition user_seed :: "(string \<times> json) list \<Rightarrow> json" where
  "user_seed meta = JObject [(''entity'', JString ''User''), (''metadata'', JObject meta), (''records'', JArray [seed_user])]"

definition dump_member :: "string \<Rightarrow> json \<Rightarrow> exn + string" where
  "dump_member k j = Inr (case jget j k of Some (JString s) \<Rightarrow> s | Some (JInt t) \<Rightarrow> replicate (nat t) CHR ''1'' | _ \<Rightarrow> [])"

definition promoted :: "tables seed_env \<Rightarrow> tables" where
  "promoted env = (fst (tables_put ''User'' ''u'' [(''id'', JString ''u''), (''role'', JString ''admin'')]
     (snd (loadSeedFile env ''users.json'' False no_tables))), 5)"

definition stable_env :: "tables seed_env" where
  "stable_env = tables_env (dump_member ''role'') (user_seed [(''bootstrap'', JBool True)])"

definition stamped_env :: "tables seed_env" where
  "stamped_env = tables_env (dump_member ''createdAt'')
     (user_seed [(''bootstrap'', JBool True), (''timestampField'', JString ''createdAt''), (''useCurrentTimestamp'', JBool True)])"

definition stamped_options :: seed_options where
  "stamped_options = \<lparr>so_entity = ''User'', so_skip_if_exists = False, so_bootstrap = True,
     so_use_timestamp = True, so_timestamp_field = ''createdAt''\<rparr>"

lemma no_texts: "texts (tables_rows no_tables)"
  by (simp add: texts_def tables_rows_def no_tables_def)

lemma promoted_fingerprints:
  "tables_rows (promoted env) ''SeedFingerprint'' =
   tables_rows (snd (loadSeedFile env ''users.json'' False no_tables)) ''SeedFingerprint''"
  by (rule ext) (simp add: promoted_def tables_rows_def tables_put_def)

lemma promoted_present:
  "tables_rows (snd (loadSeedFile env ''users.json'' False no_tables)) e i \<noteq> None \<longrightarrow> tables_rows (promoted env) e i \<noteq> None"
  by (simp add: promoted_def tables_rows_def tables_put_def)

lemmas seed_demo_simps = tables_env_def user_seed_def seed_user_def documents_of_def stable_doc_def doc_entity_def
  doc_options_def exn_bind_def value_bool_def value_string_def value_as_def stable_options_def stable_record_def
  dump_member_def doc_items_def item_key_def item_id_def stamped_doc_def stamped_options_def prepared_def
  common_ts_fields_def stamp_field_def is_zero_def fingerprintOf_def



end
