(* ===== verification/Client_Accounts.thy ===== *)
theory Client_Accounts
  imports Client_Calls Entity_Validation
begin

text \<open>
  The client's operations on users, credentials and encrypted secrets
  (\<^verbatim>\<open>src/client_user_ops.cpp\<close>, \<^verbatim>\<open>client_misc_ops.cpp\<close>, \<^verbatim>\<open>client_secret_ops.cpp\<close>), with the wrappers of the
  cryptography they use (\<^verbatim>\<open>src/security/crypto\<close>).  Argon2id, AES-GCM and the random generator are
  parameters.  A time stamp is kept in milliseconds.
\<close>

section \<open>Users\<close>

record create_user_input =
  cu_username :: string
  cu_email :: string
  cu_role :: string
  cu_profilePicture :: "string option"
  cu_bio :: "string option"
  cu_createdAt :: "int option"
  cu_tenantId :: "string option"
  cu_isInstanceOwner :: "bool option"
  cu_passwordChangeTimestamp :: "int option"
  cu_firstLogin :: "bool option"

record update_user_input =
  uu_username :: "string option"
  uu_email :: "string option"
  uu_role :: "string option"
  uu_profilePicture :: "string option"
  uu_bio :: "string option"
  uu_tenantId :: "string option"
  uu_isInstanceOwner :: "bool option"
  uu_passwordChangeTimestamp :: "int option"
  uu_firstLogin :: "bool option"

text \<open>The clock counts nanoseconds in 64 bits.\<close>

definition epochMsToTimestamp :: "int \<Rightarrow> exn + int" where
  "epochMsToTimestamp ms = (if - (2 ^ 63) \<le> ms * 1000000 \<and> ms * 1000000 < 2 ^ 63 then Inr ms else Inl Undefined)"

definition get_time :: "json \<Rightarrow> exn + int" where
  "get_time j = exn_bind (get_int j) epochMsToTimestamp"

text \<open>A member that is absent or null is left out.\<close>

definition optional_member :: "(json \<Rightarrow> exn + 'x) \<Rightarrow> json \<Rightarrow> string \<Rightarrow> exn + 'x option" where
  "optional_member conv j k =
     (case jget j k of
        None \<Rightarrow> Inr None
      | Some v \<Rightarrow> if is_null v then Inr None else map_sum id Some (conv v))"

definition userFromJson :: "json \<Rightarrow> exn + user" where
  "userFromJson j =
     exn_bind (value_string j ''id'' []) (\<lambda>i.
     exn_bind (value_string j ''username'' []) (\<lambda>username.
     exn_bind (value_string j ''email'' []) (\<lambda>email.
     exn_bind (value_string j ''role'' []) (\<lambda>role.
     exn_bind (optional_member get_string j ''profilePicture'') (\<lambda>picture.
     exn_bind (optional_member get_string j ''bio'') (\<lambda>bio.
     exn_bind (optional_member get_time j ''createdAt'') (\<lambda>created.
     exn_bind (optional_member get_string j ''tenantId'') (\<lambda>tenant.
     exn_bind (optional_member get_bool j ''isInstanceOwner'') (\<lambda>owner.
     exn_bind (optional_member get_time j ''passwordChangeTimestamp'') (\<lambda>changed.
     exn_bind (optional_member get_bool j ''firstLogin'') (\<lambda>first.
       Inr \<lparr>us_id = i, us_username = username, us_email = email, us_role = role, us_profilePicture = picture,
            us_bio = bio, us_createdAt = created, us_tenantId = tenant, us_isInstanceOwner = owner,
            us_passwordChangeTimestamp = changed, us_firstLogin = first\<rparr>)))))))))))"

definition put_optional :: "string \<Rightarrow> ('x \<Rightarrow> json) \<Rightarrow> 'x option \<Rightarrow> json \<Rightarrow> json" where
  "put_optional k f x j = (case x of None \<Rightarrow> j | Some v \<Rightarrow> jset k (f v) j)"

definition createUserToJson :: "create_user_input \<Rightarrow> json" where
  "createUserToJson inp =
     put_optional ''firstLogin'' JBool (cu_firstLogin inp)
     (put_optional ''passwordChangeTimestamp'' JInt (cu_passwordChangeTimestamp inp)
     (put_optional ''isInstanceOwner'' JBool (cu_isInstanceOwner inp)
     (put_optional ''tenantId'' JString (cu_tenantId inp)
     (put_optional ''bio'' JString (cu_bio inp)
     (put_optional ''profilePicture'' JString (cu_profilePicture inp)
     (jset ''role'' (JString (if cu_role inp = [] then ''user'' else cu_role inp))
     (jset ''email'' (JString (cu_email inp))
     (jset ''username'' (JString (cu_username inp)) JNull))))))))"

definition updateUserToJson :: "update_user_input \<Rightarrow> json" where
  "updateUserToJson inp =
     put_optional ''firstLogin'' JBool (uu_firstLogin inp)
     (put_optional ''passwordChangeTimestamp'' JInt (uu_passwordChangeTimestamp inp)
     (put_optional ''isInstanceOwner'' JBool (uu_isInstanceOwner inp)
     (put_optional ''tenantId'' JString (uu_tenantId inp)
     (put_optional ''bio'' JString (uu_bio inp)
     (put_optional ''profilePicture'' JString (uu_profilePicture inp)
     (put_optional ''role'' JString (uu_role inp)
     (put_optional ''email'' JString (uu_email inp)
     (put_optional ''username'' JString (uu_username inp) JNull))))))))"

definition containsInsensitive :: "string \<Rightarrow> string \<Rightarrow> bool" where
  "containsInsensitive haystack needle = contains_sub (to_lower haystack) (to_lower needle)"

definition no_user_id :: error where
  "no_user_id = validation_error ''User ID cannot be empty''"

definition createUser :: "'s client \<Rightarrow> create_user_input \<Rightarrow> ('s, user) act" where
  "createUser c inp = act_bind (cl_create c ''User'' (createUserToJson inp)) (\<lambda>j. act_lift (userFromJson j))"

definition getUser :: "'s client \<Rightarrow> string \<Rightarrow> ('s, user) act" where
  "getUser c i =
     (if i = [] then act_err no_user_id
      else act_bind (cl_read c ''User'' i) (\<lambda>j. act_lift (userFromJson j)))"

definition updateUser :: "'s client \<Rightarrow> string \<Rightarrow> update_user_input \<Rightarrow> ('s, user) act" where
  "updateUser c i inp =
     (if i = [] then act_err no_user_id
      else act_bind (cl_update c ''User'' i (updateUserToJson inp)) (\<lambda>j. act_lift (userFromJson j)))"

definition deleteUser :: "'s client \<Rightarrow> string \<Rightarrow> ('s, bool) act" where
  "deleteUser c i = (if i = [] then act_err no_user_id else cl_remove c ''User'' i)"

definition listUsers :: "'s client \<Rightarrow> list_options \<Rightarrow> ('s, user list) act" where
  "listUsers c opts = act_bind (cl_list c ''User'' opts) (\<lambda>(items, n). act_lift (exn_list userFromJson items))"

text \<open>The loops of the batches; the first error ends a batch.\<close>

fun batch_users :: "('x \<Rightarrow> ('s, 'y) act) \<Rightarrow> 'x list \<Rightarrow> int \<Rightarrow> ('s, int) act" where
  "batch_users f [] n = act_ret n"
| "batch_users f (x # xs) n = act_bind (f x) (\<lambda>_. batch_users f xs (n + 1))"

definition batchCreateUsers :: "'s client \<Rightarrow> create_user_input list \<Rightarrow> ('s, int) act" where
  "batchCreateUsers c inputs = (if inputs = [] then act_ret 0 else batch_users (createUser c) inputs 0)"

definition batchUpdateUsers :: "'s client \<Rightarrow> (string \<times> update_user_input) list \<Rightarrow> ('s, int) act" where
  "batchUpdateUsers c updates =
     (if updates = [] then act_ret 0 else batch_users (\<lambda>(i, d). updateUser c i d) updates 0)"

definition batchDeleteUsers :: "'s client \<Rightarrow> string list \<Rightarrow> ('s, int) act" where
  "batchDeleteUsers c ids = (if ids = [] then act_ret 0 else batch_users (deleteUser c) ids 0)"

definition searchUsers :: "'s client \<Rightarrow> string \<Rightarrow> int \<Rightarrow> ('s, user list) act" where
  "searchUsers c query limit =
     (if query = [] then act_err (validation_error ''search query is required'')
      else act_bind (listUsers c (default_list_options\<lparr>lo_limit := 10000\<rparr>)) (\<lambda>all.
        let matches = filter (\<lambda>u. containsInsensitive (us_username u) query \<or> containsInsensitive (us_email u) query) all
        in act_ret (if limit > 0 then take (nat limit) matches else matches)))"

definition countUsers :: "'s client \<Rightarrow> string option \<Rightarrow> ('s, int) act" where
  "countUsers c role =
     (let opts = default_list_options\<lparr>lo_limit := 1\<rparr>;
          opts = (case role of None \<Rightarrow> opts | Some r \<Rightarrow> opts\<lparr>lo_filter := om_put ''role'' r (lo_filter opts)\<rparr>)
      in act_bind (cl_list c ''User'' opts) (\<lambda>(items, n). act_ret n))"

definition updateManyUsers :: "'s client \<Rightarrow> (string, string) omap \<Rightarrow> update_user_input \<Rightarrow> ('s, int) act" where
  "updateManyUsers c flt updates =
     (if flt = [] then act_err (validation_error ''filter is required for bulk updates'')
      else cl_updateMany c ''User'' (json_map flt) (updateUserToJson updates))"

definition deleteManyUsers :: "'s client \<Rightarrow> (string, string) omap \<Rightarrow> ('s, int) act" where
  "deleteManyUsers c flt =
     (if flt = [] then act_err (validation_error ''filter is required for bulk deletes'')
      else cl_deleteMany c ''User'' (json_map flt))"

section \<open>Passwords\<close>

record 's crypto =
  cy_random :: "nat \<Rightarrow> 's \<Rightarrow> (exn + string) \<times> 's"
  cy_argon2 :: "string \<Rightarrow> string \<Rightarrow> string + string"
  cy_argon2_verify :: "string \<Rightarrow> string \<Rightarrow> bool"
  cy_key :: "exn + string"
  cy_encrypt :: "string \<Rightarrow> string \<Rightarrow> string \<Rightarrow> string \<times> string"
  cy_decrypt :: "string \<Rightarrow> string \<Rightarrow> string \<times> string \<Rightarrow> string option"

definition hash_password :: "'s crypto \<Rightarrow> string \<Rightarrow> ('s, string) proc" where
  "hash_password cy pw =
     proc_bind (cy_random cy 16) (\<lambda>salt.
       proc_lift (case cy_argon2 cy salt pw of
           Inl what \<Rightarrow> Inl (Std_exception (''argon2id_hash_encoded failed: '' @ what))
         | Inr encoded \<Rightarrow> Inr encoded))"

definition verify_password :: "'s crypto \<Rightarrow> string \<Rightarrow> string \<Rightarrow> bool" where
  "verify_password cy pw encoded = (if encoded = [] then False else cy_argon2_verify cy encoded pw)"

text \<open>\<^verbatim>\<open>try { ... } catch (const std::exception& e) { return Error::internal(prefix + e.what()); }\<close>\<close>

definition or_internal :: "string \<Rightarrow> ('s, 'x) proc \<Rightarrow> ('s, 'x) act" where
  "or_internal before m st =
     (case m st of
        (Inr x, st') \<Rightarrow> (Inr (Inr x), st')
      | (Inl (Std_exception what), st') \<Rightarrow> (Inr (Inl (internal_error (before @ what))), st')
      | (Inl Undefined, st') \<Rightarrow> (Inl Undefined, st'))"

text \<open>\<^verbatim>\<open>try { ... } catch (...) {}\<close>\<close>

definition or_nothing :: "('s, 'x) proc \<Rightarrow> ('s, unit) act" where
  "or_nothing m st =
     (case m st of
        (Inl Undefined, st') \<Rightarrow> (Inl Undefined, st')
      | (r, st') \<Rightarrow> (Inr (Inr ()), st'))"

section \<open>Credentials\<close>

record create_credential_input =
  cc_username :: string
  cc_passwordHash :: string
  cc_tenantId :: string
  cc_email :: string

definition credential_data :: "create_credential_input \<Rightarrow> string \<Rightarrow> json" where
  "credential_data inp encoded =
     (let d = jset ''passwordHash'' (JString encoded) (jset ''id'' (JString (cc_username inp)) JNull);
          d = (if cc_tenantId inp \<noteq> [] then jset ''tenantId'' (JString (cc_tenantId inp)) d else d)
      in if cc_email inp \<noteq> [] then jset ''email'' (JString (cc_email inp)) d else d)"

definition setCredential :: "'s client \<Rightarrow> 's crypto \<Rightarrow> create_credential_input \<Rightarrow> ('s, bool) act" where
  "setCredential c cy inp =
     (if \<not> is_valid_username (cc_username inp)
      then act_err (validation_error ''username must be 3-50 characters (alphanumeric, underscore, hyphen)'')
      else if \<not> is_valid_credential_password (cc_passwordHash inp)
      then act_err (validation_error ''password must be 8-128 characters with at least one non-whitespace'')
      else
        act_bind (or_internal ''password hashing failed: '' (hash_password cy (cc_passwordHash inp))) (\<lambda>encoded.
        act_bind (cl_upsert c ''Credential'' ''id'' (JString (cc_username inp)) (credential_data inp encoded)
            (jset ''passwordHash'' (JString encoded) JNull)) (\<lambda>_. act_ret True)))"

definition invalid_credentials :: error where
  "invalid_credentials = unauthorized ''Invalid credentials''"

text \<open>An unknown account costs a hash too.\<close>

definition dummy_refusal :: "'s crypto \<Rightarrow> string \<Rightarrow> ('s, 'x) act" where
  "dummy_refusal cy pw = act_bind (or_nothing (hash_password cy pw)) (\<lambda>_. act_err invalid_credentials)"

definition password_matches :: "'s crypto \<Rightarrow> json \<Rightarrow> string \<Rightarrow> exn + bool" where
  "password_matches cy row pw =
     exn_bind (value_string row ''passwordHash'' []) (\<lambda>stored.
       Inr (stored \<noteq> [] \<and> verify_password cy pw stored))"

definition verifyCredential :: "'s client \<Rightarrow> 's crypto \<Rightarrow> string \<Rightarrow> string \<Rightarrow> ('s, bool) act" where
  "verifyCredential c cy username pw =
     (if username = [] \<or> pw = [] then act_err (validation_error ''username and password are required'')
      else act_bind (act_result (cl_readIncludingSensitive c ''Credential'' username)) (\<lambda>found.
        case found of
          Inl e \<Rightarrow> dummy_refusal cy pw
        | Inr row \<Rightarrow> act_bind (act_lift (password_matches cy row pw)) (\<lambda>ok.
            if ok then act_ret True else act_err invalid_credentials)))"

definition check_identified :: "'s crypto \<Rightarrow> string \<Rightarrow> json \<Rightarrow> string \<Rightarrow> ('s, string) act" where
  "check_identified cy username row pw =
     act_bind (act_lift (password_matches cy row pw)) (\<lambda>ok.
       if ok then act_ret username else act_err invalid_credentials)"

definition verifyCredentialIdentifier :: "'s client \<Rightarrow> 's crypto \<Rightarrow> string \<Rightarrow> string \<Rightarrow> ('s, string) act" where
  "verifyCredentialIdentifier c cy identifier pw =
     (if identifier = [] \<or> pw = [] then act_err (validation_error ''username and password are required'')
      else act_bind (act_result (cl_readIncludingSensitive c ''Credential'' identifier)) (\<lambda>found.
        case found of
          Inr row \<Rightarrow> check_identified cy identifier row pw
        | Inl e \<Rightarrow>
            act_bind (act_result (cl_findByField c ''Credential'' ''email'' (JString identifier))) (\<lambda>by_email.
              case by_email of
                Inl e \<Rightarrow> dummy_refusal cy pw
              | Inr row \<Rightarrow>
                  act_bind (act_lift (value_string row ''id'' [])) (\<lambda>username.
                  act_bind (act_result (cl_readIncludingSensitive c ''Credential'' username)) (\<lambda>again.
                    case again of
                      Inl e \<Rightarrow> dummy_refusal cy pw
                    | Inr row \<Rightarrow> check_identified cy username row pw)))))"

definition getCredentialTenantId :: "'s client \<Rightarrow> string \<Rightarrow> ('s, string) act" where
  "getCredentialTenantId c username =
     act_bind (act_result (cl_read c ''Credential'' username)) (\<lambda>found.
       case found of
         Inl e \<Rightarrow> act_ret ''system''
       | Inr row \<Rightarrow>
           act_bind (act_lift (optional_member get_string row ''tenantId'')) (\<lambda>t.
             act_ret (case t of None \<Rightarrow> ''system'' | Some s \<Rightarrow> if s = [] then ''system'' else s)))"

definition getUserRoleByUsername :: "'s client \<Rightarrow> string \<Rightarrow> ('s, string) act" where
  "getUserRoleByUsername c username =
     act_bind (act_result (cl_findByField c ''User'' ''username'' (JString username))) (\<lambda>found.
       case found of
         Inl e \<Rightarrow> act_ret ''user''
       | Inr row \<Rightarrow>
           act_bind (act_lift (value_string row ''role'' [])) (\<lambda>role.
             act_ret (if role = [] then ''user'' else role)))"

definition deleteCredential :: "'s client \<Rightarrow> string \<Rightarrow> ('s, bool) act" where
  "deleteCredential c username = act_bind (cl_remove c ''Credential'' username) (\<lambda>_. act_ret True)"

section \<open>Secrets\<close>

record sealed_secret =
  se_ciphertext :: string
  se_nonce :: string

text \<open>The tag of 16 bytes is kept behind the ciphertext.\<close>

definition seal_secret :: "'s crypto \<Rightarrow> string \<Rightarrow> ('s, sealed_secret) proc" where
  "seal_secret cy plain =
     proc_bind (cy_random cy 12) (\<lambda>nonce.
     proc_bind (proc_lift (cy_key cy)) (\<lambda>key.
       case cy_encrypt cy key nonce plain of
         (ct, tag) \<Rightarrow> proc_ret \<lparr>se_ciphertext = ct @ tag, se_nonce = nonce\<rparr>))"

definition open_secret :: "'s crypto \<Rightarrow> sealed_secret \<Rightarrow> exn + string" where
  "open_secret cy s =
     (let n = length (se_ciphertext s) in
      if n < 16 then Inl (Std_exception ''ciphertext too short'')
      else exn_bind (cy_key cy) (\<lambda>key.
        case cy_decrypt cy key (se_nonce s) (take (n - 16) (se_ciphertext s), drop (n - 16) (se_ciphertext s)) of
          None \<Rightarrow> Inl (Std_exception ''GCM authentication failed (tampered data or wrong key)'')
        | Some plain \<Rightarrow> Inr plain))"

definition secret_data :: "string \<Rightarrow> sealed_secret \<Rightarrow> json" where
  "secret_data tenant s =
     (let d = jset ''nonce'' (JString (se_nonce s)) (jset ''ciphertext'' (JString (se_ciphertext s)) JNull)
      in if tenant \<noteq> [] then jset ''tenantId'' (JString tenant) d else d)"

definition createEncryptedSecret :: "'s client \<Rightarrow> 's crypto \<Rightarrow> string \<Rightarrow> string \<Rightarrow> ('s, string) act" where
  "createEncryptedSecret c cy tenant plain =
     (if plain = [] then act_err (validation_error ''plaintext is required'')
      else act_bind (or_internal ''encryption failed: '' (seal_secret cy plain)) (\<lambda>s.
        act_bind (cl_create c ''EncryptedSecret'' (secret_data tenant s)) (\<lambda>row.
          act_lift (value_string row ''id'' []))))"

definition revealEncryptedSecret :: "'s client \<Rightarrow> 's crypto \<Rightarrow> string \<Rightarrow> ('s, string) act" where
  "revealEncryptedSecret c cy i =
     act_bind (act_result (cl_readIncludingSensitive c ''EncryptedSecret'' i)) (\<lambda>found.
       case found of
         Inl e \<Rightarrow> act_err (not_found ''Secret not found'')
       | Inr row \<Rightarrow>
           act_bind (act_lift (value_string row ''ciphertext'' [])) (\<lambda>ct.
           act_bind (act_lift (value_string row ''nonce'' [])) (\<lambda>nonce.
             if ct = [] \<or> nonce = [] then act_err (internal_error ''Secret record is missing ciphertext/nonce'')
             else or_internal ''decryption failed: '' (proc_lift (open_secret cy \<lparr>se_ciphertext = ct, se_nonce = nonce\<rparr>)))))"

end
