(* ===== verification/Rpc_Users.thy ===== *)
theory Rpc_Users
  imports Client_Accounts
begin

text \<open>
  The RPC endpoint \<^verbatim>\<open>POST /api/dbal\<close> (\<^verbatim>\<open>src/daemon/handlers/rpc_route_handler.cpp\<close>) and its actions on users
  (\<^verbatim>\<open>src/daemon/rpc_user_actions.cpp\<close>, \<^verbatim>\<open>src/daemon/server_helpers\<close>).  The route in front of it only limits
  the rate of requests per address.  An exception leaves the handler; the framework answers it.
\<close>

section \<open>Values\<close>

definition normalize_role :: "string \<Rightarrow> string" where
  "normalize_role role =
     (let value = to_lower role in
      if value \<in> {''admin'', ''god'', ''supergod'', ''moderator'', ''public''} then value else ''user'')"

text \<open>\<^verbatim>\<open>isMember(k) && v[k].isString()\<close> and the like: the member when it has the type.\<close>

definition jc_member :: "(json \<Rightarrow> 'x option) \<Rightarrow> json \<Rightarrow> string \<Rightarrow> exn + 'x option" where
  "jc_member sel j k = exn_bind (jc_find k j) (\<lambda>v. Inr (Option.bind v sel))"

definition as_text :: "json \<Rightarrow> string option" where
  "as_text j = (case j of JString s \<Rightarrow> Some s | _ \<Rightarrow> None)"

definition as_members :: "json \<Rightarrow> (string \<times> json) list option" where
  "as_members j = (case j of JObject m \<Rightarrow> Some m | _ \<Rightarrow> None)"

definition int_range :: "int \<Rightarrow> bool" where
  "int_range n \<longleftrightarrow> - (2 ^ 31) \<le> n \<and> n < 2 ^ 31"

definition as_int :: "json \<Rightarrow> int option" where
  "as_int j =
     (case j of
        JInt n \<Rightarrow> if int_range n then Some n else None
      | JFloat q \<Rightarrow> if of_int \<lfloor>q\<rfloor> = q \<and> int_range \<lfloor>q\<rfloor> then Some \<lfloor>q\<rfloor> else None
      | _ \<Rightarrow> None)"

text \<open>\<^verbatim>\<open>get(k, "").asString()\<close>\<close>

definition jc_text :: "(rat \<Rightarrow> string) \<Rightarrow> json \<Rightarrow> string \<Rightarrow> exn + string" where
  "jc_text show_real j k =
     exn_bind (jc_find k j) (\<lambda>v. case v of None \<Rightarrow> Inr [] | Some x \<Rightarrow> jc_string show_real x)"

definition texts_of :: "(rat \<Rightarrow> string) \<Rightarrow> (string \<times> json) list \<Rightarrow> exn + (string, string) omap" where
  "texts_of show_real m =
     exn_bind (exn_list (\<lambda>(k, v). exn_bind (jc_string show_real v) (\<lambda>s. Inr (k, s))) m)
       (\<lambda>kvs. Inr (fold (\<lambda>(k, s). om_put k s) kvs []))"

definition list_options_from_json :: "(rat \<Rightarrow> string) \<Rightarrow> json \<Rightarrow> exn + list_options" where
  "list_options_from_json show_real j =
     (if is_null j then Inr default_list_options
      else
        exn_bind (jc_member as_int j ''page'') (\<lambda>page.
        exn_bind (jc_member as_int j ''limit'') (\<lambda>limit.
        exn_bind (jc_member as_members j ''filter'') (\<lambda>flt.
        exn_bind (case flt of None \<Rightarrow> Inr [] | Some m \<Rightarrow> texts_of show_real m) (\<lambda>flt.
        exn_bind (jc_member as_members j ''sort'') (\<lambda>srt.
        exn_bind (case srt of None \<Rightarrow> Inr [] | Some m \<Rightarrow> texts_of show_real m) (\<lambda>srt.
          Inr \<lparr>lo_filter = flt, lo_sort = srt,
               lo_page = (case page of None \<Rightarrow> 1 | Some n \<Rightarrow> n),
               lo_limit = (case limit of None \<Rightarrow> 20 | Some n \<Rightarrow> n)\<rparr>)))))))"

definition given :: "string \<Rightarrow> ('x \<Rightarrow> json) \<Rightarrow> 'x option \<Rightarrow> (string \<times> json) list" where
  "given k f x = (case x of None \<Rightarrow> [] | Some v \<Rightarrow> [(k, f v)])"

definition user_to_json :: "user \<Rightarrow> json" where
  "user_to_json u = jobject (
     [(''id'', JString (us_id u)),
      (''tenantId'', JString (case us_tenantId u of None \<Rightarrow> [] | Some t \<Rightarrow> t)),
      (''username'', JString (us_username u)), (''email'', JString (us_email u)), (''role'', JString (us_role u))] @
     given ''createdAt'' JInt (us_createdAt u) @
     given ''profilePicture'' JString (us_profilePicture u) @
     given ''bio'' JString (us_bio u) @
     [(''isInstanceOwner'', JBool (us_isInstanceOwner u = Some True))] @
     given ''passwordChangeTimestamp'' JInt (us_passwordChangeTimestamp u) @
     [(''firstLogin'', JBool (us_firstLogin u = Some True))])"

definition list_response_value :: "user list \<Rightarrow> list_options \<Rightarrow> json" where
  "list_response_value us opts = jobject
     [(''data'', JArray (map user_to_json us)), (''total'', JInt (int (length us))),
      (''page'', JInt (lo_page opts)), (''limit'', JInt (lo_limit opts)), (''hasMore'', JBool False)]"

section \<open>Actions\<close>

definition rpc_db_error :: "error \<Rightarrow> reply" where
  "rpc_db_error e = message_reply (err_what e) (http_status (err_code e))"

definition tenant_required :: reply where
  "tenant_required = message_reply ''Tenant ID is required'' 400"

text \<open>A call whose error is the answer.\<close>

definition answered :: "('s, 'x) act \<Rightarrow> ('x \<Rightarrow> ('s, reply) proc) \<Rightarrow> ('s, reply) proc" where
  "answered m f = proc_bind m (\<lambda>r. case r of Inl e \<Rightarrow> proc_ret (rpc_db_error e) | Inr x \<Rightarrow> f x)"

text \<open>The user to act on, who has to be of the tenant.\<close>

definition of_tenant :: "'s client \<Rightarrow> string \<Rightarrow> string \<Rightarrow> (user \<Rightarrow> ('s, reply) proc) \<Rightarrow> ('s, reply) proc" where
  "of_tenant c tenant i f =
     answered (getUser c i) (\<lambda>u.
       if us_tenantId u \<noteq> Some tenant then proc_ret (message_reply ''User not found'' 404) else f u)"

definition handle_user_list :: "'s client \<Rightarrow> (rat \<Rightarrow> string) \<Rightarrow> string \<Rightarrow> json \<Rightarrow> ('s, reply) proc" where
  "handle_user_list c show_real tenant options =
     (if tenant = [] then proc_ret tenant_required
      else proc_bind (proc_lift (list_options_from_json show_real options)) (\<lambda>opts.
        let opts = opts\<lparr>lo_filter := om_put ''tenantId'' tenant (lo_filter opts)\<rparr>
        in answered (listUsers c opts) (\<lambda>us. proc_ret (Success (list_response_value us opts)))))"

definition handle_user_read :: "'s client \<Rightarrow> string \<Rightarrow> string \<Rightarrow> ('s, reply) proc" where
  "handle_user_read c tenant i =
     (if tenant = [] then proc_ret tenant_required
      else if i = [] then proc_ret (message_reply ''ID is required for read operations'' 400)
      else of_tenant c tenant i (\<lambda>u. proc_ret (Success (user_to_json u))))"

definition handle_user_create :: "'s client \<Rightarrow> (rat \<Rightarrow> string) \<Rightarrow> string \<Rightarrow> json \<Rightarrow> ('s, reply) proc" where
  "handle_user_create c show_real tenant payload =
     (if tenant = [] then proc_ret tenant_required
      else
        proc_bind (proc_lift (jc_text show_real payload ''username'')) (\<lambda>username.
        proc_bind (proc_lift (jc_text show_real payload ''email'')) (\<lambda>email.
          if username = [] \<or> email = [] then proc_ret (message_reply ''Username and email are required for creation'' 400)
          else proc_bind (proc_lift (jc_member as_text payload ''role'')) (\<lambda>role.
            answered (createUser c
                \<lparr>cu_username = username, cu_email = email,
                 cu_role = (case role of None \<Rightarrow> [] | Some r \<Rightarrow> normalize_role r),
                 cu_profilePicture = None, cu_bio = None, cu_createdAt = None, cu_tenantId = Some tenant,
                 cu_isInstanceOwner = None, cu_passwordChangeTimestamp = None, cu_firstLogin = None\<rparr>)
              (\<lambda>u. proc_ret (Success (user_to_json u)))))))"

definition handle_user_update :: "'s client \<Rightarrow> string \<Rightarrow> string \<Rightarrow> json \<Rightarrow> ('s, reply) proc" where
  "handle_user_update c tenant i payload =
     (if tenant = [] then proc_ret tenant_required
      else if i = [] then proc_ret (message_reply ''ID is required for updates'' 400)
      else of_tenant c tenant i (\<lambda>u.
        proc_bind (proc_lift (jc_member as_text payload ''username'')) (\<lambda>username.
        proc_bind (proc_lift (jc_member as_text payload ''email'')) (\<lambda>email.
        proc_bind (proc_lift (jc_member as_text payload ''role'')) (\<lambda>role.
          if username = None \<and> email = None \<and> role = None
          then proc_ret (message_reply ''At least one update field must be provided'' 400)
          else answered (updateUser c i
              \<lparr>uu_username = username, uu_email = email, uu_role = map_option normalize_role role,
               uu_profilePicture = None, uu_bio = None, uu_tenantId = None, uu_isInstanceOwner = None,
               uu_passwordChangeTimestamp = None, uu_firstLogin = None\<rparr>)
            (\<lambda>u. proc_ret (Success (user_to_json u))))))))"

definition handle_user_delete :: "'s client \<Rightarrow> string \<Rightarrow> string \<Rightarrow> ('s, reply) proc" where
  "handle_user_delete c tenant i =
     (if tenant = [] then proc_ret tenant_required
      else if i = [] then proc_ret (message_reply ''ID is required for delete operations'' 400)
      else of_tenant c tenant i (\<lambda>u.
        answered (deleteUser c i) (\<lambda>b. proc_ret (Success (jobject [(''deleted'', JBool b)])))))"

section \<open>The endpoint\<close>

definition rpc_dispatch ::
    "'s client \<Rightarrow> (rat \<Rightarrow> string) \<Rightarrow> string \<Rightarrow> string \<Rightarrow> string \<Rightarrow> json \<Rightarrow> json \<Rightarrow> ('s, reply) proc" where
  "rpc_dispatch c show_real entity action tenant payload options =
     (if to_lower entity \<noteq> ''user'' then proc_ret (message_reply (''Unsupported entity: '' @ entity) 400)
      else if action = ''list'' then handle_user_list c show_real tenant options
      else proc_bind (proc_lift (jc_text show_real payload ''id'')) (\<lambda>i.
        if (action = ''get'' \<or> action = ''read'') \<and> i = []
        then proc_ret (message_reply ''ID is required for read operations'' 400)
        else if action = ''get'' \<or> action = ''read'' then handle_user_read c tenant i
        else if action = ''create'' then handle_user_create c show_real tenant payload
        else if action = ''update'' then handle_user_update c tenant i payload
        else if action = ''delete'' \<or> action = ''remove'' then handle_user_delete c tenant i
        else proc_ret (message_reply (''Unsupported action: '' @ action) 400)))"

definition jc_get :: "json \<Rightarrow> string \<Rightarrow> json \<Rightarrow> exn + json" where
  "jc_get j k d = exn_bind (jc_find k j) (\<lambda>v. Inr (case v of None \<Rightarrow> d | Some x \<Rightarrow> x))"

definition MAX_RPC_BODY :: nat where
  "MAX_RPC_BODY = 10 * 1024 * 1024"

definition handleRpc ::
    "'s client \<Rightarrow> (rat \<Rightarrow> string) \<Rightarrow> (string \<Rightarrow> string + json) \<Rightarrow> string \<Rightarrow> ('s, reply) proc" where
  "handleRpc c show_real parse body =
     (if length body > MAX_RPC_BODY then proc_ret (Failure ''Request body too large'' 413)
      else
        (case parse body of
           Inl errs \<Rightarrow> proc_ret (message_reply (''Invalid JSON payload: '' @ errs) 400)
         | Inr req \<Rightarrow>
             proc_bind (proc_lift (jc_text show_real req ''entity'')) (\<lambda>entity.
             proc_bind (proc_lift (exn_bind (jc_get req ''method'' (JString [])) (\<lambda>d.
                 exn_bind (jc_get req ''action'' d) (jc_string show_real)))) (\<lambda>action.
               if entity = [] \<or> action = [] then proc_ret (message_reply ''Both entity and action are required'' 400)
               else
                 proc_bind (proc_lift (jc_get req ''payload'' (JObject []))) (\<lambda>payload.
                 proc_bind (proc_lift (jc_get req ''options'' (JObject []))) (\<lambda>options.
                 proc_bind (proc_lift (exn_bind (jc_get payload ''tenantId'' (JString [])) (\<lambda>d.
                     exn_bind (jc_get req ''tenantId'' d) (jc_string show_real)))) (\<lambda>tenant.
                   rpc_dispatch c show_real entity (to_lower action) tenant payload options)))))))"

text \<open>The route: the limiter of mutations by the address of the peer, and no gate.\<close>

definition route_rpc ::
    "'a server_env \<Rightarrow> 'a client \<Rightarrow> (rat \<Rightarrow> string) \<Rightarrow> (string \<Rightarrow> string + json) \<Rightarrow> rest_request \<Rightarrow> 'a server \<Rightarrow> 'a answer" where
  "route_rpc env c show_real parse req =
     limited_mutation env (message_reply ''DBAL client is unavailable'' 503) (rr_peer req) (\<lambda>sv.
       case handleRpc c show_real parse (rr_body req) (sv_world sv) of
         (Inl e, st) \<Rightarrow> Escaped e
       | (Inr r, st) \<Rightarrow> Answer r (sv\<lparr>sv_world := st\<rparr>))"

end
