(* ===== verification/Account_Properties.thy ===== *)
theory Account_Properties
  imports Rpc_Users Table_Client Rest_Gates
begin

text \<open>
  What the operations on accounts promise over a database that keeps its rows: a password that was set is
  the one that is accepted, and a secret that was sealed is revealed; and what the RPC endpoint asks of its
  callers.
\<close>

section \<open>Passwords and secrets\<close>

lemma or_internal_ok: "or_internal w m st = (Inr (Inr x), st') \<longleftrightarrow> m st = (Inr x, st')"
  by (auto simp: or_internal_def split: prod.splits sum.splits exn.splits)

context account_client begin

lemma credential_set:
  assumes "setCredential c cy inp st = (Inr (Inr b), st')" "''passwordHash'' \<in> columns ''Credential''"
  shows "\<exists>salt enc r. cy_argon2 cy salt (cc_passwordHash inp) = Inr enc
     \<and> rows st' ''Credential'' (cc_username inp) = Some r \<and> jget r ''passwordHash'' = Some (JString enc)"
proof -
  have v: "is_valid_username (cc_username inp)" "is_valid_credential_password (cc_passwordHash inp)"
    using assms(1) by (auto simp: setCredential_def act_err_def split: if_splits)
  obtain enc st1 where h: "or_internal ''password hashing failed: '' (hash_password cy (cc_passwordHash inp)) st = (Inr (Inr enc), st1)"
    "act_bind (cl_upsert c ''Credential'' ''id'' (JString (cc_username inp)) (credential_data inp enc)
        (jset ''passwordHash'' (JString enc) JNull)) (\<lambda>_. act_ret True) st1 = (Inr (Inr b), st')"
    using assms(1) v by (auto simp: setCredential_def elim: act_bindE)
  obtain salt where a: "cy_argon2 cy salt (cc_passwordHash inp) = Inr enc"
    using h(1) unfolding or_internal_ok hash_password_def
    by (elim proc_bindE) (auto simp: proc_lift_def split: sum.split_asm)
  obtain row where u: "cl_upsert c ''Credential'' ''id'' (JString (cc_username inp)) (credential_data inp enc)
        (jset ''passwordHash'' (JString enc) JNull) st1 = (Inr (Inr row), st')"
    using h(2) by (auto simp: act_ret_def elim: act_bindE)
  obtain r where r: "rows st' ''Credential'' (cc_username inp) = Some r"
    "\<forall>k \<in> columns ''Credential''. jget r k =
       (case rows st1 ''Credential'' (cc_username inp) of
          None \<Rightarrow> jget (credential_data inp enc) k
        | Some old \<Rightarrow> (case jget (jset ''passwordHash'' (JString enc) JNull) k of Some v \<Rightarrow> Some v | None \<Rightarrow> jget old k))"
    using upsert_row [OF u] by blast
  have "jget (credential_data inp enc) ''passwordHash'' = Some (JString enc)"
    by (simp add: credential_data_def Let_def jget_jset)
  then have "jget r ''passwordHash'' = Some (JString enc)"
    using r(2) assms(2) by (cases "rows st1 ''Credential'' (cc_username inp)") simp_all
  then show ?thesis using a r(1) by blast
qed

lemma credential_checked:
  assumes "rows st ''Credential'' u = Some r" "jget r ''passwordHash'' = Some (JString enc)" "u \<noteq> []" "pw \<noteq> []" "enc \<noteq> []"
  shows "fst (verifyCredential c cy u pw st) = Inr (if cy_argon2_verify cy enc pw then Inr True else Inl invalid_credentials)"
proof -
  obtain st' where "cl_readIncludingSensitive c ''Credential'' u st = (Inr (Inr r), st')"
    using sensitive_row [OF assms(1)] by blast
  then have "act_result (cl_readIncludingSensitive c ''Credential'' u) st = (Inr (Inr (Inr r)), st')"
    by (rule act_result_run)
  moreover have "password_matches cy r pw = Inr (cy_argon2_verify cy enc pw)"
    using assms account_object [OF assms(1)]
    by (simp add: password_matches_def verify_password_def value_string_def value_as_def exn_bind_def)
  ultimately show ?thesis
    using assms(3,4) by (simp add: verifyCredential_def act_bind_def act_lift_def act_ret_def act_err_def)
qed

lemma secret_sealed:
  assumes "createEncryptedSecret c cy tenant clear st = (Inr (Inr i), st')"
    and "{''ciphertext'', ''nonce''} \<subseteq> columns ''EncryptedSecret''"
  shows "\<exists>nonce key ct tag r st0 st1. cy_random cy 12 st0 = (Inr nonce, st1) \<and> cy_key cy = Inr key \<and> cy_encrypt cy key nonce clear = (ct, tag)
     \<and> rows st' ''EncryptedSecret'' i = Some r \<and> jget r ''ciphertext'' = Some (JString (ct @ tag)) \<and> jget r ''nonce'' = Some (JString nonce)"
proof -
  have p: "clear \<noteq> []" using assms(1) by (auto simp: createEncryptedSecret_def act_err_def)
  obtain s st1 where s: "or_internal ''encryption failed: '' (seal_secret cy clear) st = (Inr (Inr s), st1)"
    "act_bind (cl_create c ''EncryptedSecret'' (secret_data tenant s)) (\<lambda>row. act_lift (value_string row ''id'' [])) st1 = (Inr (Inr i), st')"
    using assms(1) p by (auto simp: createEncryptedSecret_def elim: act_bindE)
  obtain nonce st0 key ct tag where n: "cy_random cy 12 st = (Inr nonce, st0)" "cy_key cy = Inr key"
    "cy_encrypt cy key nonce clear = (ct, tag)" "s = \<lparr>se_ciphertext = ct @ tag, se_nonce = nonce\<rparr>"
    using s(1) unfolding or_internal_ok seal_secret_def
    by (elim proc_bindE) (auto simp: proc_lift_def proc_ret_def split: prod.split_asm)
  obtain row st2 where w: "cl_create c ''EncryptedSecret'' (secret_data tenant s) st1 = (Inr (Inr row), st2)"
    "act_lift (value_string row ''id'' []) st2 = (Inr (Inr i), st')"
    using s(2) by (rule act_bindE)
  have st2: "st2 = st'" and vi: "value_string row ''id'' [] = Inr i"
    using w(2) by (auto simp: act_lift_def map_sum_def split: sum.split_asm)
  have noid: "jget (secret_data tenant s) ''id'' = None" by (simp add: secret_data_def Let_def jget_jset)
  obtain j r where r: "jget row ''id'' = Some (JString j)" "is_object row" "rows st' ''EncryptedSecret'' j = Some r"
    "\<forall>k \<in> columns ''EncryptedSecret''. k \<noteq> ''id'' \<longrightarrow> jget r k = jget (secret_data tenant s) k"
    using create_new [OF w(1) noid] unfolding st2 by blast
  have "j = i" using r(1,2) vi by (simp add: value_string_def value_as_def)
  moreover have "jget r ''ciphertext'' = Some (JString (ct @ tag))" "jget r ''nonce'' = Some (JString nonce)"
    using r(4) assms(2) n(4) by (auto simp: secret_data_def Let_def jget_jset)
  ultimately show ?thesis using n r(3) by blast
qed

lemma secret_revealed:
  assumes "rows st ''EncryptedSecret'' i = Some r" "jget r ''ciphertext'' = Some (JString (ct @ tag))" "jget r ''nonce'' = Some (JString nonce)"
    and "nonce \<noteq> []" "length tag = 16" "cy_key cy = Inr key" "cy_decrypt cy key nonce (ct, tag) = Some clear"
  shows "fst (revealEncryptedSecret c cy i st) = Inr (Inr clear)"
proof -
  obtain st' where "cl_readIncludingSensitive c ''EncryptedSecret'' i st = (Inr (Inr r), st')"
    using sensitive_row [OF assms(1)] by blast
  then have "act_result (cl_readIncludingSensitive c ''EncryptedSecret'' i) st = (Inr (Inr (Inr r)), st')"
    by (rule act_result_run)
  moreover have "value_string r ''ciphertext'' [] = Inr (ct @ tag)" "value_string r ''nonce'' [] = Inr nonce"
    using assms(2,3) account_object [OF assms(1)] by (simp_all add: value_string_def value_as_def)
  moreover have "open_secret cy \<lparr>se_ciphertext = ct @ tag, se_nonce = nonce\<rparr> = Inr clear"
    using assms(5-7) by (simp add: open_secret_def exn_bind_def)
  moreover have "ct @ tag \<noteq> []" using assms(5) by auto
  ultimately show ?thesis
    using assms(4) by (auto simp: revealEncryptedSecret_def act_bind_def act_lift_def or_internal_def proc_lift_def)
qed

end

section \<open>Properties\<close>



text \<open>Toy ciphers that keep the laws.\<close>

definition demo_crypto :: "tables crypto" where
  "demo_crypto = \<lparr>cy_random = (\<lambda>n st. (Inr (replicate n CHR ''r''), st)),
     cy_argon2 = (\<lambda>salt p. Inr (CHR ''#'' # p)), cy_argon2_verify = (\<lambda>enc p. enc = CHR ''#'' # p),
     cy_key = Inr ''key'', cy_encrypt = (\<lambda>key nonce p. (rev p, replicate 16 CHR ''t'')),
     cy_decrypt = (\<lambda>key nonce (ct, tag). if tag = replicate 16 CHR ''t'' then Some (rev ct) else None)\<rparr>"

definition demo_credential :: create_credential_input where
  "demo_credential = \<lparr>cc_username = ''alice'', cc_passwordHash = ''password1'', cc_tenantId = [], cc_email = []\<rparr>"

lemma demo_set: "fst (setCredential tables_client demo_crypto demo_credential no_tables) = Inr (Inr True)"
  by code_simp

lemma demo_create_secret: "fst (createEncryptedSecret tables_client demo_crypto ''acme'' ''hush'' no_tables) = Inr (Inr ''1'')"
  by code_simp



section \<open>The RPC endpoint\<close>

lemma jc_fields:
  "jc_text show (JObject m) k = (case map_of m k of None \<Rightarrow> Inr [] | Some x \<Rightarrow> jc_string show x)"
  "jc_get (JObject m) k d = Inr (case map_of m k of None \<Rightarrow> d | Some x \<Rightarrow> x)"
  "jc_member sel (JObject m) k = Inr (Option.bind (map_of m k) sel)"
  by (simp_all add: jc_text_def jc_get_def jc_member_def exn_bind_def)

lemma getUser_run:
  "cl_read c ''User'' i st = (Inr (Inr row), st') \<Longrightarrow> userFromJson row = Inr u \<Longrightarrow> i \<noteq> [] \<Longrightarrow>
   getUser c i st = (Inr (Inr u), st')"
  by (simp add: getUser_def act_bind_def act_lift_def)

text \<open>A user of another tenant is neither shown nor changed.\<close>

lemma rpc_foreign_user:
  assumes "cl_read c ''User'' i st = (Inr (Inr row), st')" "userFromJson row = Inr u" "us_tenantId u \<noteq> Some tenant"
    and "map_of m ''id'' = Some (JString i)" "i \<noteq> []" "tenant \<noteq> []" "to_lower entity = ''user''"
    and "action \<in> {''get'', ''read'', ''update'', ''delete'', ''remove''}"
  shows "rpc_dispatch c show_real entity action tenant (JObject m) opts st = (Inr (message_reply ''User not found'' 404), st')"
proof -
  have "of_tenant c tenant i f st = (Inr (message_reply ''User not found'' 404), st')" for f
    using getUser_run [OF assms(1,2,5)] assms(3) by (simp add: of_tenant_def answered_def proc_bind_def proc_ret_def)
  then show ?thesis
    using assms(4-8)
    by (auto simp: rpc_dispatch_def jc_fields proc_simps handle_user_read_def handle_user_update_def handle_user_delete_def)
qed

definition rpc_create :: "string \<Rightarrow> string \<Rightarrow> string \<Rightarrow> string \<Rightarrow> json" where
  "rpc_create tenant name email role = JObject
     [(''action'', JString ''create''), (''entity'', JString ''user''),
      (''payload'', JObject [(''email'', JString email), (''role'', JString role), (''username'', JString name)]),
      (''tenantId'', JString tenant)]"

definition user_data :: "string \<Rightarrow> string \<Rightarrow> string \<Rightarrow> string \<Rightarrow> json" where
  "user_data tenant name email role = JObject
     [(''email'', JString email), (''role'', JString role), (''tenantId'', JString tenant), (''username'', JString name)]"

lemma rpc_words: "to_lower ''user'' = ''user''" "to_lower ''create'' = ''create''"
  by code_simp+

lemma roles_normal:
  "list_all (\<lambda>r. normalize_role r = r) [''user'', ''moderator'', ''admin'', ''god'', ''supergod'']"
  by code_simp

lemma rpc_create_run:
  assumes "parse body = Inr (rpc_create tenant name email role)" "length body \<le> MAX_RPC_BODY"
    and "tenant \<noteq> []" "name \<noteq> []" "email \<noteq> []" "normalize_role role = role" "role \<noteq> []"
    and "cl_create c ''User'' (user_data tenant name email role) st = (Inr (Inr row), st')" "userFromJson row = Inr u"
  shows "handleRpc c show_real parse body st = (Inr (Success (user_to_json u)), st')"
proof -
  let ?inp = "\<lparr>cu_username = name, cu_email = email, cu_role = role, cu_profilePicture = None, cu_bio = None,
     cu_createdAt = None, cu_tenantId = Some tenant, cu_isInstanceOwner = None, cu_passwordChangeTimestamp = None,
     cu_firstLogin = None\<rparr>"
  have "createUserToJson ?inp = user_data tenant name email role"
    using assms(7) by (simp add: createUserToJson_def put_optional_def user_data_def)
  then have run: "createUser c ?inp st = (Inr (Inr u), st')"
    using assms(8,9) by (simp add: createUser_def act_bind_def act_lift_def)
  have "handle_user_create c show_real tenant (JObject [(''email'', JString email), (''role'', JString role), (''username'', JString name)]) st
      = (Inr (Success (user_to_json u)), st')"
    using assms(3-7) run
    by (simp add: handle_user_create_def jc_fields proc_simps as_text_def answered_def proc_bind_def proc_ret_def)
  then show ?thesis
    using assms(1,2)
    by (simp add: handleRpc_def rpc_create_def jc_fields exn_bind_def proc_simps rpc_dispatch_def rpc_words del: list.map)
qed

text \<open>
  C34: Anyone may create a user with any role over the RPC endpoint: whatever the headers of the request and
  whatever the access rules, a request below the rate limit that names a tenant, a user and a role creates that user
  with that role.
\<close>

theorem rpc_grants_any_role:
  assumes "fst (window_allow (se_now env) (se_later env) (rr_peer req) (sv_mutation sv))" "se_ready env"
    and "parse (rr_body req) = Inr (rpc_create tenant name email role)" "length (rr_body req) \<le> MAX_RPC_BODY"
    and "tenant \<noteq> []" "name \<noteq> []" "email \<noteq> []"
    and "role \<in> {''user'', ''moderator'', ''admin'', ''god'', ''supergod''}"
    and "cl_create c ''User'' (user_data tenant name email role) (sv_world sv) = (Inr (Inr row), st')"
    and "userFromJson row = Inr u"
  shows "\<exists>l. route_rpc env c show_real parse req sv =
     Answer (Success (user_to_json u)) (sv\<lparr>sv_mutation := l, sv_world := st'\<rparr>)"
proof -
  obtain l where l: "window_allow (se_now env) (se_later env) (rr_peer req) (sv_mutation sv) = (True, l)"
    using assms(1) by (cases "window_allow (se_now env) (se_later env) (rr_peer req) (sv_mutation sv)") simp
  have r: "normalize_role role = role" "role \<noteq> []" using assms(8) roles_normal by (auto simp: list_all_iff)
  have "handleRpc c show_real parse (rr_body req) (sv_world sv) = (Inr (Success (user_to_json u)), st')"
  proof (rule rpc_create_run [where role = role and tenant = tenant and name = name and email = email and row = row])
  qed (fact assms r)+
  then show ?thesis using l assms(2) by (auto simp: route_rpc_def limited_mutation_def after_limiter_def)
qed

text \<open>A stranger makes a user with the highest role on a server with access rules.\<close>

definition shelf_client :: "shelf client" where
  "shelf_client = \<lparr>cl_create = (\<lambda>e d (rows, s). let r = jset ''id'' (JString ''1'') d in (Inr (Inr r), ((''1'', r) # rows, s))),
     cl_read = (\<lambda>e i st. (Inr (case map_of (fst st) i of None \<Rightarrow> Inl (not_found e) | Some j \<Rightarrow> Inr j), st)),
     cl_update = (\<lambda>_ _ _. not_offered), cl_remove = (\<lambda>_ _. not_offered), cl_list = (\<lambda>_ _. not_offered),
     cl_upsert = (\<lambda>_ _ _ _ _. not_offered), cl_findByField = (\<lambda>_ _ _. not_offered),
     cl_readIncludingSensitive = (\<lambda>_ _. not_offered), cl_updateMany = (\<lambda>_ _ _. not_offered),
     cl_deleteMany = (\<lambda>_ _. not_offered)\<rparr>"

definition intruder :: user where
  "intruder = \<lparr>us_id = ''1'', us_username = ''mallory'', us_email = ''m@x.org'', us_role = ''supergod'', us_profilePicture = None,
     us_bio = None, us_createdAt = None, us_tenantId = Some ''acme'', us_isInstanceOwner = None,
     us_passwordChangeTimestamp = None, us_firstLogin = None\<rparr>"

lemma intruder_row:
  "userFromJson (jset ''id'' (JString ''1'') (user_data ''acme'' ''mallory'' ''m@x.org'' ''supergod'')) = Inr intruder"
  by code_simp

theorem rpc_grants_any_role_witness:
  "\<exists>l st. route_rpc (demo_server_env None) shelf_client (\<lambda>q. []) (\<lambda>s. Inr (rpc_create ''acme'' ''mallory'' ''m@x.org'' ''supergod''))
     (demo_request Verb_Post) demo_server = Answer (Success (user_to_json intruder)) (demo_server\<lparr>sv_mutation := l, sv_world := st\<rparr>)"
proof -
  let ?d = "user_data ''acme'' ''mallory'' ''m@x.org'' ''supergod''"
  let ?r = "jset ''id'' (JString ''1'') ?d"
  have "\<exists>l. route_rpc (demo_server_env None) shelf_client (\<lambda>q. []) (\<lambda>s. Inr (rpc_create ''acme'' ''mallory'' ''m@x.org'' ''supergod''))
     (demo_request Verb_Post) demo_server = Answer (Success (user_to_json intruder)) (demo_server\<lparr>sv_mutation := l, sv_world := ([(''1'', ?r)], None)\<rparr>)"
  proof (rule rpc_grants_any_role [where role = "''supergod''" and row = ?r])
    show "userFromJson ?r = Inr intruder" by (rule intruder_row)
    show "cl_create shelf_client ''User'' ?d (sv_world demo_server) = (Inr (Inr ?r), ([(''1'', ?r)], None))"
      by (simp add: shelf_client_def demo_server_def initial_server_def Let_def)
  qed (simp_all add: demo_server_env_def demo_server_def initial_server_def env_int_def new_limiter_def window_allow_def
      whole_seconds_def Let_def demo_request_def MAX_RPC_BODY_def)
  then show ?thesis by blast
qed

end
