(* ===== verification/Oidc_Service.thy ===== *)
theory Oidc_Service
  imports Client_Accounts Token_Stores Auth_Jwt Schema_Files
begin

text \<open>
  The OpenID provider (\<^verbatim>\<open>src/oidc/oidc_service.cpp\<close>): the registry of its clients
  (\<^verbatim>\<open>src/oidc/clients\<close>), the authorization request, sessions, and the exchange of codes and refresh
  tokens, over the token stores.  The two clocks and the random tokens are operations on the state, the
  signature of a token is a parameter, and the client is seen twice: by the token stores as an
  \<^typ>\<open>'db adapter\<close>, and by the rest as a \<^typ>\<open>'db client\<close>.
\<close>

section \<open>Clients\<close>

record oauth_client =
  oc_client_id :: string
  oc_client_name :: string
  oc_token_endpoint_auth_method :: string
  oc_grant_types :: "string list"
  oc_response_types :: "string list"
  oc_redirect_uris :: "string list"
  oc_post_logout_redirect_uris :: "string list"
  oc_require_pkce :: bool
  oc_pkce_methods :: "string list"
  oc_scope :: string
  oc_access_token_ttl :: int
  oc_refresh_token_ttl :: int
  oc_id_token_ttl :: int

type_synonym client_config = "(string, oauth_client) omap"

definition isValidRedirectUri :: "oauth_client \<Rightarrow> string \<Rightarrow> bool" where
  "isValidRedirectUri c uri \<longleftrightarrow> uri \<in> set (oc_redirect_uris c)"

definition isValidPostLogoutRedirectUri :: "oauth_client \<Rightarrow> string \<Rightarrow> bool" where
  "isValidPostLogoutRedirectUri c uri \<longleftrightarrow> uri \<in> set (oc_post_logout_redirect_uris c)"

text \<open>The pieces between spaces, the empty ones included.\<close>

fun split_spaces :: "string \<Rightarrow> string list" where
  "split_spaces [] = [[]]"
| "split_spaces (c # s) =
     (case split_spaces s of
        w # ws \<Rightarrow> if c = CHR '' '' then [] # w # ws else (c # w) # ws
      | [] \<Rightarrow> [])"

definition scope_words :: "string \<Rightarrow> string list" where
  "scope_words s = filter (\<lambda>w. w \<noteq> []) (split_spaces s)"

definition scopeContains :: "string \<Rightarrow> string \<Rightarrow> bool" where
  "scopeContains scope token \<longleftrightarrow> token \<in> set (split_spaces scope)"

definition isScopeAllowed :: "oauth_client \<Rightarrow> string \<Rightarrow> bool" where
  "isScopeAllowed c requested \<longleftrightarrow> list_all (\<lambda>r. r \<in> set (scope_words (oc_scope c))) (scope_words requested)"

definition in_quotes :: "string \<Rightarrow> string" where
  "in_quotes s = [CHR 0x27] @ s @ [CHR 0x27]"

definition client_error :: "string \<Rightarrow> string \<Rightarrow> exn" where
  "client_error i what = Std_exception (''Client '' @ in_quotes i @ '': '' @ what)"

definition strings_at :: "json \<Rightarrow> string \<Rightarrow> exn + string list" where
  "strings_at node k = (case jget node k of None \<Rightarrow> Inr [] | Some v \<Rightarrow> get_strings v)"

text \<open>\<^verbatim>\<open>node.at(k).get<std::string>()\<close>\<close>

definition string_at :: "json \<Rightarrow> string \<Rightarrow> exn + string" where
  "string_at node k =
     (if \<not> is_object node then Inl (type_error ''cannot use at() with this type'')
      else case jget node k of
        None \<Rightarrow> Inl (Std_exception (''key '' @ in_quotes k @ '' not found''))
      | Some v \<Rightarrow> get_string v)"

definition load_client :: "json \<Rightarrow> exn + oauth_client" where
  "load_client node =
     exn_bind (string_at node ''client_id'') (\<lambda>i.
     exn_bind (value_string node ''client_name'' i) (\<lambda>name.
     exn_bind (value_string node ''token_endpoint_auth_method'' ''none'') (\<lambda>meth.
       if meth \<noteq> ''none'' then Inl (client_error i ''only token_endpoint_auth_method=none (public clients) is supported in v1'')
       else
         exn_bind (strings_at node ''grant_types'') (\<lambda>grants.
         exn_bind (strings_at node ''response_types'') (\<lambda>responses.
         exn_bind (strings_at node ''redirect_uris'') (\<lambda>redirects.
         exn_bind (strings_at node ''post_logout_redirect_uris'') (\<lambda>logouts.
         exn_bind (value_bool node ''require_pkce'' True) (\<lambda>pkce.
           if \<not> pkce then Inl (client_error i (''require_pkce=false is not supported '' @ em_dash @
               '' PKCE is mandatory for every client in this provider''))
           else
             exn_bind (strings_at node ''pkce_methods'') (\<lambda>methods.
               if methods = [] \<or> list_ex (\<lambda>m. m \<noteq> ''S256'') methods
               then Inl (client_error i (''pkce_methods must be exactly ['' @ [CHR 0x22] @ ''S256'' @ [CHR 0x22] @ ''] '' @ em_dash @
                 '' '' @ in_quotes ''plain'' @ '' is never accepted by this provider''))
               else
                 exn_bind (value_string node ''scope'' ''openid'') (\<lambda>scope.
                 exn_bind (value_int node ''access_token_ttl_seconds'' 900) (\<lambda>access_ttl.
                 exn_bind (value_int node ''refresh_token_ttl_seconds'' 1209600) (\<lambda>refresh_ttl.
                 exn_bind (value_int node ''id_token_ttl_seconds'' 900) (\<lambda>id_ttl.
                   if redirects = [] then Inl (client_error i ''redirect_uris must not be empty'')
                   else Inr \<lparr>oc_client_id = i, oc_client_name = name, oc_token_endpoint_auth_method = meth,
                     oc_grant_types = grants, oc_response_types = responses, oc_redirect_uris = redirects,
                     oc_post_logout_redirect_uris = logouts, oc_require_pkce = pkce, oc_pkce_methods = methods,
                     oc_scope = scope, oc_access_token_ttl = access_ttl, oc_refresh_token_ttl = refresh_ttl,
                     oc_id_token_ttl = id_ttl\<rparr>)))))))))))))"

definition load_config :: "string \<Rightarrow> (exn + json) option \<Rightarrow> exn + client_config" where
  "load_config path content =
     (case content of
        None \<Rightarrow> Inl (Std_exception (''Cannot open OIDC clients config: '' @ path))
      | Some parsed \<Rightarrow> exn_bind parsed (\<lambda>whole.
          case jget whole ''clients'' of
            Some (JArray nodes) \<Rightarrow>
              exn_bind (exn_list load_client nodes) (\<lambda>cs. Inr (fold (\<lambda>c. om_put (oc_client_id c) c) cs []))
          | _ \<Rightarrow> Inl (Std_exception (''OIDC clients config missing '' @ in_quotes ''clients'' @ '' array: '' @ path))))"

section \<open>The service\<close>

text \<open>The requests that wait for a login are kept by the routes, beside the database.\<close>

record authorize_request =
  az_client_id :: string
  az_redirect_uri :: string
  az_scope :: string
  az_state :: string
  az_code_challenge :: string
  az_code_challenge_method :: string
  az_nonce :: "string option"

type_synonym pending_store = "(string, authorize_request \<times> int) omap"

record ('db, 'w) oidc_state =
  os_db :: 'db
  os_world :: 'w
  os_pending :: pending_store
  os_restart :: pending_store

record ('db, 'w) oidc_env =
  oe_ad :: "'db adapter"
  oe_client :: "'db client"
  oe_crypto :: "'db crypto"
  oe_now :: "'w \<Rightarrow> int \<times> 'w"
  oe_steady :: "'w \<Rightarrow> int \<times> 'w"
  oe_random :: "'w \<Rightarrow> string \<times> 'w"
  oe_sha256 :: "string \<Rightarrow> string"
  oe_sign :: "json \<Rightarrow> json \<Rightarrow> exn + string"
  oe_kid :: string
  oe_modulus :: string
  oe_exponent :: string
  oe_public_key :: string
  oe_verify :: "string \<Rightarrow> string \<Rightarrow> string \<Rightarrow> decoded_jwt option"
  oe_clients :: client_config
  oe_issuer :: string
  oe_prefix :: string

type_synonym ('db, 'w, 'x) oidc_op = "(('db, 'w) oidc_state, 'x) act"

definition on_world :: "('w \<Rightarrow> 'x \<times> 'w) \<Rightarrow> ('db, 'w, 'x) oidc_op" where
  "on_world f st = (case f (os_world st) of (x, w) \<Rightarrow> (Inr (Inr x), st\<lparr>os_world := w\<rparr>))"

definition nowUnix :: "('db, 'w) oidc_env \<Rightarrow> ('db, 'w, int) oidc_op" where
  "nowUnix env = on_world (oe_now env)"

definition generate_token :: "('db, 'w) oidc_env \<Rightarrow> ('db, 'w, string) oidc_op" where
  "generate_token env = on_world (oe_random env)"

definition sha256_hex :: "('db, 'w) oidc_env \<Rightarrow> string \<Rightarrow> string" where
  "sha256_hex env s = to_hex (oe_sha256 env s)"

text \<open>Operations of the client and of the token stores.\<close>

definition with_client :: "('db, 'x) act \<Rightarrow> ('db, 'w, 'x) oidc_op" where
  "with_client f st = (case f (os_db st) of (r, db) \<Rightarrow> (r, st\<lparr>os_db := db\<rparr>))"

definition with_store :: "('db \<Rightarrow> 'x result \<times> 'db) \<Rightarrow> ('db, 'w, 'x) oidc_op" where
  "with_store f = with_client (\<lambda>db. case f db of (r, db') \<Rightarrow> (Inr r, db'))"

definition get_client :: "('db, 'w) oidc_env \<Rightarrow> string \<Rightarrow> ('db, 'w, oauth_client) oidc_op" where
  "get_client env i =
     (case map_of (oe_clients env) i of
        None \<Rightarrow> act_err (validation_error ''invalid_client: unknown client_id'')
      | Some c \<Rightarrow> act_ret c)"

definition json_strings :: "string list \<Rightarrow> json" where
  "json_strings ss = JArray (map JString ss)"

definition discoveryDocument :: "('db, 'w) oidc_env \<Rightarrow> json" where
  "discoveryDocument env =
     (let iss = oe_issuer env in jobject
       [(''issuer'', JString iss),
        (''authorization_endpoint'', JString (iss @ ''/oidc/authorize'')),
        (''token_endpoint'', JString (iss @ ''/oidc/token'')),
        (''userinfo_endpoint'', JString (iss @ ''/oidc/userinfo'')),
        (''jwks_uri'', JString (iss @ ''/oidc/jwks.json'')),
        (''end_session_endpoint'', JString (iss @ ''/oidc/logout'')),
        (''response_types_supported'', json_strings [''code'']),
        (''grant_types_supported'', json_strings [''authorization_code'', ''refresh_token'']),
        (''subject_types_supported'', json_strings [''public'']),
        (''id_token_signing_alg_values_supported'', json_strings [''RS256'']),
        (''scopes_supported'', json_strings [''openid'', ''profile'', ''email'', ''offline_access'']),
        (''token_endpoint_auth_methods_supported'', json_strings [''none'']),
        (''code_challenge_methods_supported'', json_strings [''S256''])])"

definition jwks :: "('db, 'w) oidc_env \<Rightarrow> json" where
  "jwks env = jobject [(''keys'', JArray [jobject
     [(''kty'', JString ''RSA''), (''use'', JString ''sig''), (''alg'', JString ''RS256''),
      (''kid'', JString (oe_kid env)), (''n'', JString (oe_modulus env)), (''e'', JString (oe_exponent env))]])]"

definition validateAuthorize ::
    "('db, 'w) oidc_env \<Rightarrow> string \<Rightarrow> string \<Rightarrow> string \<Rightarrow> string \<Rightarrow> string \<Rightarrow> string \<Rightarrow> string \<Rightarrow> string option \<Rightarrow> authorize_request result" where
  "validateAuthorize env client_id redirect response_type scope state challenge meth nonce =
     (case map_of (oe_clients env) client_id of
        None \<Rightarrow> Inl (validation_error ''invalid_client: unknown client_id'')
      | Some c \<Rightarrow>
          if \<not> isValidRedirectUri c redirect
          then Inl (validation_error ''invalid_request: redirect_uri not registered for this client'')
          else if response_type \<noteq> ''code'' then Inl (validation_error ''unsupported_response_type'')
          else if meth \<noteq> ''S256'' then Inl (validation_error ''invalid_request: code_challenge_method must be S256'')
          else if \<not> is_valid_code_challenge_format challenge
          then Inl (validation_error ''invalid_request: malformed code_challenge'')
          else if \<not> isScopeAllowed c scope then Inl (validation_error ''invalid_scope'')
          else Inr \<lparr>az_client_id = client_id, az_redirect_uri = redirect, az_scope = scope, az_state = state,
                  az_code_challenge = challenge, az_code_challenge_method = meth, az_nonce = nonce\<rparr>)"

section \<open>Sessions\<close>

definition session_row :: "string \<Rightarrow> string \<Rightarrow> string \<Rightarrow> int \<Rightarrow> int \<Rightarrow> int \<Rightarrow> json" where
  "session_row user tenant client_id t1 t2 t3 = jobject
     [(''userId'', JString user), (''tenantId'', JString tenant), (''clientId'', JString client_id),
      (''authTime'', JInt t1), (''revokedAt'', JNull), (''expiresAt'', JInt (t2 + 12 * 3600)), (''createdAt'', JInt t3)]"

definition createSession :: "('db, 'w) oidc_env \<Rightarrow> string \<Rightarrow> string \<Rightarrow> string \<Rightarrow> ('db, 'w, string) oidc_op" where
  "createSession env user tenant client_id =
     act_bind (nowUnix env) (\<lambda>t1. act_bind (nowUnix env) (\<lambda>t2. act_bind (nowUnix env) (\<lambda>t3.
     act_bind (with_client (cl_create (oe_client env) ''OidcSession'' (session_row user tenant client_id t1 t2 t3))) (\<lambda>row.
     act_bind (act_lift (value_string row ''id'' [])) (\<lambda>sid.
       if sid = [] then act_err (internal_error ''OidcSession created but no id returned'') else act_ret sid)))))"

definition browser_session_client :: string where
  "browser_session_client = ''__browser_session__''"

definition createBrowserSession :: "('db, 'w) oidc_env \<Rightarrow> string \<Rightarrow> string \<Rightarrow> ('db, 'w, string) oidc_op" where
  "createBrowserSession env user tenant = createSession env user tenant browser_session_client"

definition no_session :: error where
  "no_session = not_found ''no such session''"

definition lookupBrowserSession :: "('db, 'w) oidc_env \<Rightarrow> string \<Rightarrow> ('db, 'w, string \<times> string) oidc_op" where
  "lookupBrowserSession env sid =
     act_bind (act_result (with_client (cl_read (oe_client env) ''OidcSession'' sid))) (\<lambda>found.
       case found of
         Inl e \<Rightarrow> act_err no_session
       | Inr row \<Rightarrow>
           act_bind (act_lift (value_string row ''clientId'' [])) (\<lambda>client_id.
             if client_id \<noteq> browser_session_client then act_err no_session
             else if spent ''revokedAt'' row then act_err (unauthorized ''session revoked'')
             else
               act_bind (act_lift (value_int row ''expiresAt'' 0)) (\<lambda>expires.
               act_bind (nowUnix env) (\<lambda>now.
                 if expires \<le> now then act_err (unauthorized ''session expired'')
                 else
                   act_bind (act_lift (value_string row ''userId'' [])) (\<lambda>user.
                   act_bind (act_lift (value_string row ''tenantId'' [])) (\<lambda>tenant.
                     if user = [] then act_err no_session else act_ret (user, tenant)))))))"

definition revokeBrowserSession :: "('db, 'w) oidc_env \<Rightarrow> string \<Rightarrow> ('db, 'w, bool) oidc_op" where
  "revokeBrowserSession env sid =
     act_bind (nowUnix env) (\<lambda>t.
     act_bind (with_client (cl_update (oe_client env) ''OidcSession'' sid (jobject [(''revokedAt'', JInt t)]))) (\<lambda>_. act_ret True))"

section \<open>Codes\<close>

text \<open>The codes live for a minute.\<close>

definition auth_code_ttl :: int where
  "auth_code_ttl = 60"

definition code_request :: "authorize_request \<Rightarrow> string \<Rightarrow> string \<Rightarrow> auth_code_request" where
  "code_request req user tenant =
     \<lparr>ac_client_id = az_client_id req, ac_user_id = user, ac_tenant_id = tenant, ac_redirect_uri = az_redirect_uri req,
      ac_code_challenge = az_code_challenge req, ac_code_challenge_method = az_code_challenge_method req,
      ac_scope = az_scope req, ac_nonce = az_nonce req\<rparr>"

definition issueCode :: "('db, 'w) oidc_env \<Rightarrow> authorize_request \<Rightarrow> string \<Rightarrow> string \<Rightarrow> ('db, 'w, string) oidc_op" where
  "issueCode env req user tenant =
     act_bind (generate_token env) (\<lambda>raw. act_bind (nowUnix env) (\<lambda>t1. act_bind (nowUnix env) (\<lambda>t2.
       with_store (\<lambda>db. auth_code_issue (oe_ad env) (sha256_hex env) auth_code_ttl raw t1 t2 db (code_request req user tenant)))))"

definition query_separator :: "string \<Rightarrow> string" where
  "query_separator uri = (if CHR ''?'' \<in> set uri then ''&'' else ''?'')"

definition buildAuthorizeRedirect :: "('db, 'w) oidc_env \<Rightarrow> authorize_request \<Rightarrow> string \<Rightarrow> string \<Rightarrow> ('db, 'w, string) oidc_op" where
  "buildAuthorizeRedirect env req user tenant =
     act_bind (issueCode env req user tenant) (\<lambda>code.
       let location = az_redirect_uri req @ query_separator (az_redirect_uri req) @ ''code='' @ code
       in act_ret (if az_state req \<noteq> [] then location @ ''&state='' @ az_state req else location))"

section \<open>Tokens\<close>

definition jwt_header :: "('db, 'w) oidc_env \<Rightarrow> json" where
  "jwt_header env = jobject [(''typ'', JString ''JWT''), (''kid'', JString (oe_kid env)), (''alg'', JString ''RS256'')]"

definition token_claims :: "('db, 'w) oidc_env \<Rightarrow> string \<Rightarrow> string \<Rightarrow> int \<Rightarrow> int \<Rightarrow> string \<Rightarrow> (string \<times> json) list \<Rightarrow> json" where
  "token_claims env subject audience now ttl jti more_claims = jobject
     ([(''iss'', JString (oe_issuer env)), (''sub'', JString subject), (''aud'', JString audience),
       (''iat'', JInt now), (''exp'', JInt (now + ttl)), (''jti'', JString jti)] @ more_claims)"

definition issue_token ::
    "('db, 'w) oidc_env \<Rightarrow> string \<Rightarrow> string \<Rightarrow> int \<Rightarrow> (string \<times> json) list \<Rightarrow> ('db, 'w, string) oidc_op" where
  "issue_token env subject audience ttl more_claims =
     act_bind (nowUnix env) (\<lambda>now. act_bind (generate_token env) (\<lambda>jti.
       act_lift (oe_sign env (jwt_header env) (token_claims env subject audience now ttl jti more_claims))))"

definition id_claims :: "string \<Rightarrow> string \<Rightarrow> int \<Rightarrow> string option \<Rightarrow> (string \<times> json) list" where
  "id_claims sid tenant auth_time nonce =
     [(''sid'', JString sid), (''tenant_id'', JString tenant), (''auth_time'', JInt auth_time)] @
       (case nonce of None \<Rightarrow> [] | Some n \<Rightarrow> [(''nonce'', JString n)])"

definition issueIdToken ::
    "('db, 'w) oidc_env \<Rightarrow> oauth_client \<Rightarrow> string \<Rightarrow> string \<Rightarrow> string \<Rightarrow> string \<Rightarrow> int \<Rightarrow> string option \<Rightarrow> ('db, 'w, string) oidc_op" where
  "issueIdToken env c subject audience sid tenant auth_time nonce =
     issue_token env subject audience (oc_id_token_ttl c) (id_claims sid tenant auth_time nonce)"

definition issueAccessToken ::
    "('db, 'w) oidc_env \<Rightarrow> oauth_client \<Rightarrow> string \<Rightarrow> string \<Rightarrow> string \<Rightarrow> string \<Rightarrow> string \<Rightarrow> ('db, 'w, string) oidc_op" where
  "issueAccessToken env c subject audience tenant scope role =
     issue_token env subject audience (oc_access_token_ttl c)
       [(''tenant_id'', JString tenant), (''scope'', JString scope), (''role'', JString role)]"

record token_response =
  tr_accessToken :: string
  tr_idToken :: string
  tr_refreshToken :: string
  tr_tokenType :: string
  tr_expiresIn :: int
  tr_scope :: string

definition role_claim :: "('db, 'w) oidc_env \<Rightarrow> string \<Rightarrow> ('db, 'w, string) oidc_op" where
  "role_claim env user =
     act_bind (act_result (with_client (getUserRoleByUsername (oe_client env) user))) (\<lambda>r.
       act_ret (case r of Inl e \<Rightarrow> ''user'' | Inr role \<Rightarrow> role))"

definition sign_caught :: "('db, 'w, 'x) oidc_op \<Rightarrow> ('db, 'w, 'x) oidc_op" where
  "sign_caught m st =
     (case m st of
        (Inl (Std_exception what), st') \<Rightarrow> (Inr (Inl (internal_error ''token signing failed'')), st')
      | r \<Rightarrow> r)"

text \<open>The two tokens that both grants issue.\<close>

definition issue_tokens ::
    "('db, 'w) oidc_env \<Rightarrow> oauth_client \<Rightarrow> string \<Rightarrow> string \<Rightarrow> string \<Rightarrow> string \<Rightarrow> string \<Rightarrow> string option \<Rightarrow> ('db, 'w, token_response) oidc_op" where
  "issue_tokens env c user client_id sid tenant scope nonce =
     act_bind (nowUnix env) (\<lambda>auth_time.
     act_bind (role_claim env user) (\<lambda>role.
     sign_caught (
       act_bind (issueIdToken env c user client_id sid tenant auth_time nonce) (\<lambda>id_token.
       act_bind (issueAccessToken env c user client_id tenant scope role) (\<lambda>access_token.
         act_ret \<lparr>tr_accessToken = access_token, tr_idToken = id_token, tr_refreshToken = [], tr_tokenType = ''Bearer'',
           tr_expiresIn = oc_access_token_ttl c, tr_scope = scope\<rparr>)))))"

text \<open>A refresh token that cannot be issued is left out.\<close>

definition add_refresh_token ::
    "('db, 'w) oidc_env \<Rightarrow> oauth_client \<Rightarrow> refresh_token_request \<Rightarrow> token_response \<Rightarrow> ('db, 'w, token_response) oidc_op" where
  "add_refresh_token env c req resp =
     act_bind (generate_token env) (\<lambda>raw.
     act_bind (if rt_family_id req = [] then generate_token env else act_ret []) (\<lambda>fresh.
     act_bind (nowUnix env) (\<lambda>t1. act_bind (nowUnix env) (\<lambda>t2.
     act_bind (act_result (with_store (\<lambda>db.
         refresh_token_issue (oe_ad env) (sha256_hex env) (oc_refresh_token_ttl c) raw fresh t1 t2 db req))) (\<lambda>issued.
       act_ret (case issued of Inl e \<Rightarrow> resp | Inr t \<Rightarrow> resp\<lparr>tr_refreshToken := t\<rparr>))))))"

text \<open>What a redeemed code is worth.\<close>

definition redeemed_tokens :: "('db, 'w) oidc_env \<Rightarrow> oauth_client \<Rightarrow> redeemed_code \<Rightarrow> ('db, 'w, token_response) oidc_op" where
  "redeemed_tokens env c rc =
     act_bind (createSession env (ac_user_id rc) (ac_tenant_id rc) (ac_client_id rc)) (\<lambda>sid.
     act_bind (issue_tokens env c (ac_user_id rc) (ac_client_id rc) sid (ac_tenant_id rc) (ac_scope rc) (ac_nonce rc)) (\<lambda>resp.
       if scopeContains (ac_scope rc) ''offline_access''
       then add_refresh_token env c
         \<lparr>rt_client_id = ac_client_id rc, rt_user_id = ac_user_id rc, rt_tenant_id = ac_tenant_id rc,
          rt_scope = ac_scope rc, rt_family_id = [], rt_parent_id = None\<rparr> resp
       else act_ret resp))"

definition exchangeCode ::
    "('db, 'w) oidc_env \<Rightarrow> string \<Rightarrow> string \<Rightarrow> string \<Rightarrow> string \<Rightarrow> ('db, 'w, token_response) oidc_op" where
  "exchangeCode env code redirect client_id verifier =
     act_bind (get_client env client_id) (\<lambda>c.
     act_bind (nowUnix env) (\<lambda>t1. act_bind (nowUnix env) (\<lambda>t2.
     act_bind (with_client (\<lambda>db. auth_code_redeem (oe_ad env) (sha256_hex env) t1 t2 db code client_id)) (\<lambda>rc.
       if ac_redirect_uri rc \<noteq> redirect then act_err (validation_error ''invalid_grant: redirect_uri mismatch'')
       else if verifier = [] then act_err (validation_error ''invalid_grant: code_verifier required'')
       else if \<not> verify_s256 (oe_sha256 env) verifier (ac_code_challenge rc)
       then act_err (validation_error ''invalid_grant: PKCE verification failed'')
       else
         redeemed_tokens env c rc))))"

definition exchangeRefreshToken :: "('db, 'w) oidc_env \<Rightarrow> string \<Rightarrow> string \<Rightarrow> ('db, 'w, token_response) oidc_op" where
  "exchangeRefreshToken env token client_id =
     act_bind (get_client env client_id) (\<lambda>c.
     act_bind (nowUnix env) (\<lambda>t1. act_bind (nowUnix env) (\<lambda>t2.
     act_bind (with_client (\<lambda>db. refresh_token_rotate (oe_ad env) (sha256_hex env) t1 t2 db token client_id)) (\<lambda>rt.
     act_bind (issue_tokens env c (rr_user_id rt) (rr_client_id rt) [] (rr_tenant_id rt) (rr_scope rt) None) (\<lambda>resp.
       add_refresh_token env c
         \<lparr>rt_client_id = rr_client_id rt, rt_user_id = rr_user_id rt, rt_tenant_id = rr_tenant_id rt,
          rt_scope = rr_scope rt, rt_family_id = rr_family_id rt, rt_parent_id = Some (rr_token_id rt)\<rparr> resp)))))"

definition revokeRefreshToken :: "('db, 'w) oidc_env \<Rightarrow> string \<Rightarrow> ('db, 'w, bool) oidc_op" where
  "revokeRefreshToken env token =
     act_bind (nowUnix env) (\<lambda>t. with_client (\<lambda>db. refresh_token_revoke (oe_ad env) (sha256_hex env) t db token))"

end
