(* ===== verification/Oidc_Routes.thy ===== *)
theory Oidc_Routes
  imports Oidc_Service
begin

text \<open>
  The routes of the OpenID provider (\<^verbatim>\<open>src/daemon/handlers/oidc\<close>): the authorization and token
  endpoints, the login form, user information and logout, and the store of the requests that wait for a
  login.  Of a page only what varies is kept, and the body of a response is kept as the value that is
  printed into it.  An exception leaves the handler; the framework answers it.
\<close>

section \<open>Requests that wait for a login\<close>

text \<open>A point of the steady clock counts nanoseconds.\<close>

definition lapsed :: "int \<Rightarrow> authorize_request \<times> int \<Rightarrow> bool" where
  "lapsed now entry \<longleftrightarrow> now > snd entry"

definition store_request ::
    "('db, 'w) oidc_env \<Rightarrow> int \<Rightarrow> authorize_request \<Rightarrow> pending_store \<Rightarrow> 'w \<Rightarrow> string \<times> pending_store \<times> 'w" where
  "store_request env ttl req entries w =
     (case oe_steady env w of (now, w) \<Rightarrow>
      case oe_random env w of (token, w) \<Rightarrow>
      case oe_steady env w of (later, w) \<Rightarrow>
        (token, om_put token (req, later + ttl * 10 ^ 9) (filter (\<lambda>(k, e). \<not> lapsed now e) entries), w))"

definition take_request ::
    "('db, 'w) oidc_env \<Rightarrow> string \<Rightarrow> pending_store \<Rightarrow> 'w \<Rightarrow> authorize_request option \<times> pending_store \<times> 'w" where
  "take_request env token entries w =
     (case map_of entries token of
        None \<Rightarrow> (None, entries, w)
      | Some e \<Rightarrow>
         (case oe_steady env w of (now, w) \<Rightarrow>
            (if lapsed now e then None else Some (fst e), om_erase token entries, w)))"

definition peek_request ::
    "('db, 'w) oidc_env \<Rightarrow> string \<Rightarrow> pending_store \<Rightarrow> 'w \<Rightarrow> authorize_request option \<times> pending_store \<times> 'w" where
  "peek_request env token entries w =
     (case map_of entries token of
        None \<Rightarrow> (None, entries, w)
      | Some e \<Rightarrow>
         (case oe_steady env w of (now, w) \<Rightarrow>
            if lapsed now e then (None, om_erase token entries, w) else (Some (fst e), entries, w)))"

type_synonym ('db, 'w, 'x) oidc_proc = "(('db, 'w) oidc_state, 'x) proc"

definition on_pending :: "(pending_store \<Rightarrow> 'w \<Rightarrow> 'x \<times> pending_store \<times> 'w) \<Rightarrow> ('db, 'w, 'x) oidc_proc" where
  "on_pending f st =
     (case f (os_pending st) (os_world st) of (x, entries, w) \<Rightarrow> (Inr x, st\<lparr>os_pending := entries, os_world := w\<rparr>))"

definition on_restart :: "(pending_store \<Rightarrow> 'w \<Rightarrow> 'x \<times> pending_store \<times> 'w) \<Rightarrow> ('db, 'w, 'x) oidc_proc" where
  "on_restart f st =
     (case f (os_restart st) (os_world st) of (x, entries, w) \<Rightarrow> (Inr x, st\<lparr>os_restart := entries, os_world := w\<rparr>))"

definition store_pending :: "('db, 'w) oidc_env \<Rightarrow> authorize_request \<Rightarrow> ('db, 'w, string) oidc_proc" where
  "store_pending env req = on_pending (store_request env 300 req)"

definition store_restart :: "('db, 'w) oidc_env \<Rightarrow> authorize_request \<Rightarrow> ('db, 'w, string) oidc_proc" where
  "store_restart env req = on_restart (store_request env 1800 req)"

section \<open>Requests and responses\<close>

record oidc_request =
  oq_post :: bool
  oq_params :: "(string, string) omap"
  oq_cookies :: "(string, string) omap"
  oq_authorization :: string

definition oidc_param :: "oidc_request \<Rightarrow> string \<Rightarrow> string" where
  "oidc_param q k = (case map_of (oq_params q) k of None \<Rightarrow> [] | Some v \<Rightarrow> v)"

definition oidc_cookie :: "oidc_request \<Rightarrow> string \<Rightarrow> string" where
  "oidc_cookie q k = (case map_of (oq_cookies q) k of None \<Rightarrow> [] | Some v \<Rightarrow> v)"

record session_cookie =
  sc_value :: string
  sc_path :: string
  sc_http_only :: bool
  sc_secure :: bool
  sc_max_age :: int

record login_form =
  lf_action :: string
  lf_continuation :: string
  lf_restart :: "string option"
  lf_error :: string
  lf_notice :: string

datatype oidc_body =
    Empty_body
  | Json_body json
  | Text_body string
  | Login_form login_form
  | Unresumable_page string
  | Signed_out_page

record oidc_response =
  or_status :: int
  or_headers :: "(string \<times> string) list"
  or_cookie :: "session_cookie option"
  or_body :: oidc_body

definition oidc_respond :: "int \<Rightarrow> (string \<times> string) list \<Rightarrow> oidc_body \<Rightarrow> oidc_response" where
  "oidc_respond status headers body =
     \<lparr>or_status = status, or_headers = headers, or_cookie = None, or_body = body\<rparr>"

definition found_at :: "string \<Rightarrow> oidc_response" where
  "found_at location = oidc_respond 302 [(''Location'', location)] Empty_body"

definition oauth_error :: "string \<Rightarrow> string \<Rightarrow> oidc_response" where
  "oauth_error err description = oidc_respond 400 []
     (Json_body (jobject [(''error'', JString err), (''error_description'', JString description)]))"

text \<open>Around the first colon that a space follows.\<close>

fun cut_colon :: "string \<Rightarrow> (string \<times> string) option" where
  "cut_colon (c # d # s) =
     (if c = CHR '':'' \<and> d = CHR '' '' then Some ([], s)
      else map_option (\<lambda>(a, b). (c # a, b)) (cut_colon (d # s)))"
| "cut_colon s = None"

definition split_error :: "string \<Rightarrow> string \<times> string" where
  "split_error message = (case cut_colon message of None \<Rightarrow> (''invalid_request'', message) | Some p \<Rightarrow> p)"

definition rejected :: "error \<Rightarrow> oidc_response" where
  "rejected e = (case split_error (err_what e) of (err, desc) \<Rightarrow> oauth_error err desc)"

fun escape_attr_char :: "char \<Rightarrow> string" where
  "escape_attr_char c =
     (if c = CHR ''&'' then ''&amp;''
      else if c = CHR ''<'' then ''&lt;''
      else if c = CHR ''>'' then ''&gt;''
      else if c = CHR 0x22 then ''&quot;''
      else if c = CHR 0x27 then ''&#39;''
      else [c])"

definition html_attr_escape :: "string \<Rightarrow> string" where
  "html_attr_escape s = concat (map escape_attr_char s)"

definition session_cookie_name :: string where
  "session_cookie_name = ''dbal_oidc_sid''"

definition session_cookie_of :: "('db, 'w) oidc_env \<Rightarrow> string \<Rightarrow> int \<Rightarrow> session_cookie" where
  "session_cookie_of env sid max_age =
     \<lparr>sc_value = sid, sc_path = oe_prefix env @ ''/oidc'', sc_http_only = True,
      sc_secure = (take 8 (oe_issuer env) = ''https://''), sc_max_age = max_age\<rparr>"

definition set_session_cookie :: "('db, 'w) oidc_env \<Rightarrow> string \<Rightarrow> oidc_response \<Rightarrow> oidc_response" where
  "set_session_cookie env sid resp = resp\<lparr>or_cookie := Some (session_cookie_of env sid (12 * 3600))\<rparr>"

definition clear_session_cookie :: "('db, 'w) oidc_env \<Rightarrow> oidc_response \<Rightarrow> oidc_response" where
  "clear_session_cookie env resp = resp\<lparr>or_cookie := Some (session_cookie_of env [] 0)\<rparr>"

definition login_page :: "('db, 'w) oidc_env \<Rightarrow> string \<Rightarrow> string \<Rightarrow> string \<Rightarrow> string \<Rightarrow> oidc_response" where
  "login_page env continuation restart err notice = oidc_respond 200 [] (Login_form
     \<lparr>lf_action = oe_prefix env @ ''/oidc/login'', lf_continuation = html_attr_escape continuation,
      lf_restart = (if restart = [] then None else Some (html_attr_escape restart)), lf_error = err, lf_notice = notice\<rparr>)"

section \<open>The provider's endpoints\<close>

definition handleDiscovery :: "('db, 'w) oidc_env \<Rightarrow> oidc_request \<Rightarrow> ('db, 'w, oidc_response) oidc_proc" where
  "handleDiscovery env q = proc_ret (oidc_respond 200 [] (Json_body (discoveryDocument env)))"

definition handleJwks :: "('db, 'w) oidc_env \<Rightarrow> oidc_request \<Rightarrow> ('db, 'w, oidc_response) oidc_proc" where
  "handleJwks env q = proc_ret (oidc_respond 200 [] (Json_body (jwks env)))"

definition requested :: "('db, 'w) oidc_env \<Rightarrow> oidc_request \<Rightarrow> authorize_request result" where
  "requested env q =
     (let nonce = oidc_param q ''nonce'' in
      validateAuthorize env (oidc_param q ''client_id'') (oidc_param q ''redirect_uri'') (oidc_param q ''response_type'')
        (oidc_param q ''scope'') (oidc_param q ''state'') (oidc_param q ''code_challenge'')
        (oidc_param q ''code_challenge_method'') (if nonce = [] then None else Some nonce))"

definition to_login :: "('db, 'w) oidc_env \<Rightarrow> authorize_request \<Rightarrow> ('db, 'w, oidc_response) oidc_proc" where
  "to_login env req =
     proc_bind (store_pending env req) (\<lambda>continuation.
     proc_bind (store_restart env req) (\<lambda>restart.
       proc_ret (found_at (oe_prefix env @ ''/oidc/login?continuation='' @ continuation @ ''&restart='' @ restart))))"

definition handleAuthorize :: "('db, 'w) oidc_env \<Rightarrow> oidc_request \<Rightarrow> ('db, 'w, oidc_response) oidc_proc" where
  "handleAuthorize env q =
     (case requested env q of
        Inl e \<Rightarrow> proc_ret (rejected e)
      | Inr req \<Rightarrow>
          let sid = oidc_cookie q session_cookie_name in
          if sid = [] then to_login env req
          else
            proc_bind (lookupBrowserSession env sid) (\<lambda>session.
              case session of
                Inl e \<Rightarrow> to_login env req
              | Inr (user, tenant) \<Rightarrow>
                  proc_bind (buildAuthorizeRedirect env req user tenant) (\<lambda>location.
                    case location of
                      Inl e \<Rightarrow> to_login env req
                    | Inr l \<Rightarrow> proc_ret (found_at l))))"

definition token_body :: "token_response \<Rightarrow> json" where
  "token_body tok = jobject
     ([(''access_token'', JString (tr_accessToken tok)), (''id_token'', JString (tr_idToken tok)),
       (''token_type'', JString (tr_tokenType tok)), (''expires_in'', JInt (tr_expiresIn tok)),
       (''scope'', JString (tr_scope tok))] @
      (if tr_refreshToken tok = [] then [] else [(''refresh_token'', JString (tr_refreshToken tok))]))"

definition answer_tokens :: "('db, 'w, token_response) oidc_op \<Rightarrow> ('db, 'w, oidc_response) oidc_proc" where
  "answer_tokens m =
     proc_bind m (\<lambda>r. proc_ret
       (case r of
          Inl e \<Rightarrow> rejected e
        | Inr tok \<Rightarrow> oidc_respond 200 [(''Cache-Control'', ''no-store''), (''Pragma'', ''no-cache'')] (Json_body (token_body tok))))"

definition handleToken :: "('db, 'w) oidc_env \<Rightarrow> oidc_request \<Rightarrow> ('db, 'w, oidc_response) oidc_proc" where
  "handleToken env q =
     (let grant_type = oidc_param q ''grant_type''; client_id = oidc_param q ''client_id'' in
      if grant_type = ''authorization_code'' then
        (let code = oidc_param q ''code''; redirect = oidc_param q ''redirect_uri'' in
         if code = [] \<or> redirect = [] \<or> client_id = []
         then proc_ret (oauth_error ''invalid_request'' ''code, redirect_uri, and client_id are required'')
         else answer_tokens (exchangeCode env code redirect client_id (oidc_param q ''code_verifier'')))
      else if grant_type = ''refresh_token'' then
        (let token = oidc_param q ''refresh_token'' in
         if token = [] \<or> client_id = []
         then proc_ret (oauth_error ''invalid_request'' ''refresh_token and client_id are required'')
         else answer_tokens (exchangeRefreshToken env token client_id))
      else proc_ret (oauth_error ''unsupported_grant_type'' ''only authorization_code and refresh_token are supported''))"

definition bearer_claims :: "('db, 'w) oidc_env \<Rightarrow> oidc_request \<Rightarrow> jwt_claims option" where
  "bearer_claims env q =
     (let h = oq_authorization q in
      if length h \<le> 7 \<or> take 7 h \<noteq> ''Bearer '' then None
      else rs_jwt_validate (oe_verify env) (oe_public_key env) (oe_issuer env) (drop 7 h))"

definition handleUserinfo :: "('db, 'w) oidc_env \<Rightarrow> oidc_request \<Rightarrow> ('db, 'w, oidc_response) oidc_proc" where
  "handleUserinfo env q = proc_ret
     (case bearer_claims env q of
        None \<Rightarrow> oidc_respond 401 [(''WWW-Authenticate'', ''Bearer error='' @ [CHR 0x22] @ ''invalid_token'' @ [CHR 0x22])]
          (Json_body (jobject [(''error'', JString ''invalid_token'')]))
      | Some claims \<Rightarrow> oidc_respond 200 [] (Json_body (jobject
          [(''sub'', JString (jc_user_id claims)), (''tenant_id'', JString (jc_tenant_id claims)),
           (''role'', JString (jc_role claims))])))"

definition logout_location :: "('db, 'w) oidc_env \<Rightarrow> oidc_request \<Rightarrow> string option" where
  "logout_location env q =
     (let uri = oidc_param q ''post_logout_redirect_uri''; state = oidc_param q ''state''; client_id = oidc_param q ''client_id'' in
      if uri = [] \<or> client_id = [] then None
      else case map_of (oe_clients env) client_id of
        None \<Rightarrow> None
      | Some c \<Rightarrow>
          if isValidPostLogoutRedirectUri c uri
          then Some (if state = [] then uri else uri @ query_separator uri @ ''state='' @ state)
          else None)"

definition handleLogout :: "('db, 'w) oidc_env \<Rightarrow> oidc_request \<Rightarrow> ('db, 'w, oidc_response) oidc_proc" where
  "handleLogout env q =
     (let sid = oidc_cookie q session_cookie_name;
          token = (if oq_post q then oidc_param q ''refresh_token'' else []) in
      proc_bind (if sid = [] then proc_ret (Inr True) else revokeBrowserSession env sid) (\<lambda>_.
      proc_bind (if token = [] then proc_ret (Inr True) else revokeRefreshToken env token) (\<lambda>_.
        proc_ret (clear_session_cookie env
          (case logout_location env q of
             Some l \<Rightarrow> found_at l
           | None \<Rightarrow> if oq_post q then oidc_respond 204 [] Empty_body else oidc_respond 200 [] Signed_out_page)))))"

section \<open>The login form\<close>

definition missing_text :: string where
  "missing_text =
     ''This sign-in link is missing the token that identifies which '' @
     ''application you were signing in to, and it could not be recovered.''"

definition notice_text :: string where
  "notice_text =
     ''Your sign-in session expired, so we started it again. '' @ ''Please enter your details below.''"

definition lapsed_text :: string where
  "lapsed_text =
     ''Your sign-in session expired and could not be restarted '' @
     ''automatically, because the request that began it has also lapsed.''"

text \<open>The restart token, while it lives, buys a new continuation.\<close>

definition renew :: "('db, 'w) oidc_env \<Rightarrow> string \<Rightarrow> ('db, 'w, string option) oidc_proc" where
  "renew env restart =
     (if restart = [] then proc_ret None
      else
        proc_bind (on_restart (peek_request env restart)) (\<lambda>original.
          case original of
            None \<Rightarrow> proc_ret None
          | Some req \<Rightarrow> proc_bind (store_pending env req) (\<lambda>token. proc_ret (Some token))))"

definition login_get :: "('db, 'w) oidc_env \<Rightarrow> oidc_request \<Rightarrow> ('db, 'w, oidc_response) oidc_proc" where
  "login_get env q =
     (let continuation = oidc_param q ''continuation''; restart = oidc_param q ''restart'' in
      proc_bind (if continuation = [] then renew env restart else proc_ret (Some continuation)) (\<lambda>c. proc_ret
        (if c = None \<or> c = Some [] then oidc_respond 400 [] (Unresumable_page missing_text)
         else login_page env (the c) restart []
           (if oidc_param q ''notice'' = ''session_expired'' then notice_text else []))))"

definition tenant_claim :: "('db, 'w) oidc_env \<Rightarrow> string \<Rightarrow> ('db, 'w, string) oidc_proc" where
  "tenant_claim env user =
     proc_bind (with_client (getCredentialTenantId (oe_client env) user)) (\<lambda>r.
       proc_ret (case r of Inl e \<Rightarrow> ''system'' | Inr t \<Rightarrow> t))"

definition signed_in ::
    "('db, 'w) oidc_env \<Rightarrow> authorize_request \<Rightarrow> string \<Rightarrow> ('db, 'w, oidc_response) oidc_proc" where
  "signed_in env req user =
     proc_bind (tenant_claim env user) (\<lambda>tenant.
     proc_bind (buildAuthorizeRedirect env req user tenant) (\<lambda>location.
       case location of
         Inl e \<Rightarrow> proc_ret (oidc_respond 500 [] (Text_body ''Failed to complete sign-in''))
       | Inr l \<Rightarrow>
           proc_bind (createBrowserSession env user tenant) (\<lambda>session. proc_ret
             (case session of
                Inl e \<Rightarrow> found_at l
              | Inr sid \<Rightarrow> set_session_cookie env sid (found_at l)))))"

definition login_post :: "('db, 'w) oidc_env \<Rightarrow> oidc_request \<Rightarrow> ('db, 'w, oidc_response) oidc_proc" where
  "login_post env q =
     (let restart = oidc_param q ''restart'' in
      proc_bind (on_pending (take_request env (oidc_param q ''continuation''))) (\<lambda>pending.
        case pending of
          None \<Rightarrow>
            proc_bind (renew env restart) (\<lambda>c. proc_ret
              (case c of
                 Some token \<Rightarrow> found_at (oe_prefix env @ ''/oidc/login?continuation='' @ token @ ''&restart='' @ restart @
                   ''&notice=session_expired'')
               | None \<Rightarrow> oidc_respond 400 [] (Unresumable_page lapsed_text)))
        | Some req \<Rightarrow>
            proc_bind (with_client (verifyCredentialIdentifier (oe_client env) (oe_crypto env)
                (oidc_param q ''username'') (oidc_param q ''password''))) (\<lambda>verified.
              case verified of
                Inl e \<Rightarrow>
                  proc_bind (store_pending env req) (\<lambda>token. proc_ret (login_page env token restart ''Invalid username or password'' []))
              | Inr user \<Rightarrow> signed_in env req user)))"

section \<open>The routes\<close>

datatype oidc_route = R_discovery | R_jwks | R_authorize | R_token | R_login | R_userinfo | R_logout

fun oidc_handle :: "('db, 'w) oidc_env \<Rightarrow> oidc_route \<Rightarrow> oidc_request \<Rightarrow> ('db, 'w, oidc_response) oidc_proc" where
  "oidc_handle env R_discovery q = handleDiscovery env q"
| "oidc_handle env R_jwks q = handleJwks env q"
| "oidc_handle env R_authorize q = handleAuthorize env q"
| "oidc_handle env R_token q = handleToken env q"
| "oidc_handle env R_login q = (if oq_post q then login_post env q else login_get env q)"
| "oidc_handle env R_userinfo q = handleUserinfo env q"
| "oidc_handle env R_logout q = handleLogout env q"

end
