(* ===== verification/Oidc_Properties.thy ===== *)
theory Oidc_Properties
  imports Oidc_Routes Token_Lifecycle Table_Client
begin

text \<open>
  What the OpenID provider promises: tokens are issued for a code only to whoever holds what was agreed on
  when the code was asked for, they name the user who signed in, and a session that was ended signs
  nobody in.
\<close>

section \<open>Running the provider\<close>

lemma with_client_Inr:
  "with_client m st = (Inr r, st') \<longleftrightarrow> (\<exists>db. m (os_db st) = (Inr r, db) \<and> st' = st\<lparr>os_db := db\<rparr>)"
  by (auto simp: with_client_def split: prod.splits)

lemma with_store_Inr:
  "with_store f st = (Inr r, st') \<longleftrightarrow> (\<exists>db. f (os_db st) = (r, db) \<and> st' = st\<lparr>os_db := db\<rparr>)"
  by (auto simp: with_store_def with_client_Inr split: prod.splits)

lemma clock_step: "\<exists>t w. nowUnix env st = (Inr (Inr t), st\<lparr>os_world := w\<rparr>)"
  by (auto simp: nowUnix_def on_world_def split: prod.split)

lemma random_step: "\<exists>t w. generate_token env st = (Inr (Inr t), st\<lparr>os_world := w\<rparr>)"
  by (auto simp: generate_token_def on_world_def split: prod.split)

lemma nowUnix_bindE:
  assumes "act_bind (nowUnix env) f st = (Inr (Inr y), st')"
  obtains t w where "f t (st\<lparr>os_world := w\<rparr>) = (Inr (Inr y), st')"
  using assms clock_step [of env st] by (auto simp: act_bind_def)

lemma generate_bindE:
  assumes "act_bind (generate_token env) f st = (Inr (Inr y), st')"
  obtains t w where "f t (st\<lparr>os_world := w\<rparr>) = (Inr (Inr y), st')"
  using assms random_step [of env st] by (auto simp: act_bind_def)

section \<open>Codes\<close>

lemma issueCode_run:
  assumes "issueCode env req user tenant st = (Inr (Inr code), st1)"
  obtains t1 t2 where "auth_code_issue (oe_ad env) (sha256_hex env) auth_code_ttl code t1 t2 (os_db st)
      (code_request req user tenant) = (Inr code, os_db st1)"
proof -
  obtain raw t1 t2 where i: "auth_code_issue (oe_ad env) (sha256_hex env) auth_code_ttl raw t1 t2 (os_db st)
      (code_request req user tenant) = (Inr code, os_db st1)"
    using assms unfolding issueCode_def
    by (auto elim!: generate_bindE nowUnix_bindE simp: with_store_Inr)
  moreover have "raw = code" using i by (auto simp: auth_code_issue_def split: prod.split_asm sum.split_asm)
  ultimately show ?thesis using that by blast
qed

lemma get_client_ok:
  "get_client env i st = (Inr (Inr c), st') \<longleftrightarrow> map_of (oe_clients env) i = Some c \<and> st' = st"
  by (auto simp: get_client_def act_err_def act_ret_def split: option.split)

lemma add_refresh_token_keeps:
  assumes "add_refresh_token env c req resp st = (Inr (Inr resp'), st')"
  shows "tr_idToken resp' = tr_idToken resp \<and> tr_accessToken resp' = tr_accessToken resp"
  using assms unfolding add_refresh_token_def
  by (elim generate_bindE act_bindE nowUnix_bindE) (auto simp: act_ret_def split: sum.split_asm)

lemma issued_code_redeemed:
  assumes "reliable_client (oe_ad env) rows"
    and "filter_mset (\<lambda>r. field_is r (''codeHash'', sha256_hex env code)) (rows (os_db st) ''AuthorizationCode'') = {#}"
    and "issueCode env req user tenant st = (Inr (Inr code), st1)"
    and "os_db st2 = os_db st1"
    and "fst (auth_code_redeem (oe_ad env) (sha256_hex env) t1 t2 (os_db st2) code client_id) = Inr (Inr rc)"
  shows "client_id = az_client_id req \<and> rc = code_request req user tenant"
proof -
  obtain u1 u2 where "auth_code_issue (oe_ad env) (sha256_hex env) auth_code_ttl code u1 u2 (os_db st)
      (code_request req user tenant) = (Inr code, os_db st2)"
    using assms(3,4) issueCode_run by metis
  from reliable_client.issue_redeem [OF assms(1,2) this] assms(5)
  show ?thesis by (simp add: code_request_def split: if_split_asm)
qed

lemma sign_caught_ok [simp]: "sign_caught m st = (Inr (Inr x), st') \<longleftrightarrow> m st = (Inr (Inr x), st')"
  by (auto simp: sign_caught_def split: prod.splits sum.splits exn.splits)

lemma issue_token_signed:
  assumes "issue_token env subject audience ttl more_claims st = (Inr (Inr tok), st')"
  obtains now jti where "oe_sign env (jwt_header env) (token_claims env subject audience now ttl jti more_claims) = Inr tok"
  using assms unfolding issue_token_def
  by (elim nowUnix_bindE generate_bindE) (auto simp: act_lift_def map_sum_def split: sum.split_asm)

lemma issue_tokens_id:
  assumes "issue_tokens env c user client_id sid tenant scope nonce st = (Inr (Inr resp), st')"
  obtains now jti auth_time where "oe_sign env (jwt_header env) (token_claims env user client_id now
      (oc_id_token_ttl c) jti (id_claims sid tenant auth_time nonce)) = Inr (tr_idToken resp)"
proof -
  obtain auth_time st1 st2 where "issueIdToken env c user client_id sid tenant auth_time nonce st1 = (Inr (Inr (tr_idToken resp)), st2)"
    using assms unfolding issue_tokens_def
    by (elim nowUnix_bindE act_bindE) (auto simp: act_ret_def elim!: act_bindE)
  then show ?thesis using that unfolding issueIdToken_def by (elim issue_token_signed) blast
qed

lemma id_claim_values:
  "map (jget (token_claims env subject audience now ttl jti (id_claims sid tenant auth_time nonce)))
      [''iss'', ''sub'', ''aud'', ''tenant_id'', ''nonce''] =
    [Some (JString (oe_issuer env)), Some (JString subject), Some (JString audience), Some (JString tenant),
     map_option JString nonce]"
  by (cases nonce) (simp_all add: token_claims_def id_claims_def jget_jobject)

text \<open>The steps of an exchange that succeeds.\<close>

lemma exchangeCode_run:
  assumes "exchangeCode env code redirect client_id verifier st = (Inr (Inr resp), st')"
  obtains c t1 t2 rc st1 sid st2 resp' st3 where
    "fst (auth_code_redeem (oe_ad env) (sha256_hex env) t1 t2 (os_db st) code client_id) = Inr (Inr rc)"
    "ac_redirect_uri rc = redirect"
    "verify_s256 (oe_sha256 env) verifier (ac_code_challenge rc)"
    "issue_tokens env c (ac_user_id rc) (ac_client_id rc) sid (ac_tenant_id rc) (ac_scope rc) (ac_nonce rc) st2
       = (Inr (Inr resp'), st3)"
    "tr_idToken resp = tr_idToken resp'"
    "tr_accessToken resp = tr_accessToken resp'"
proof -
  obtain c where run: "act_bind (nowUnix env) (\<lambda>t1. act_bind (nowUnix env) (\<lambda>t2.
      act_bind (with_client (\<lambda>db. auth_code_redeem (oe_ad env) (sha256_hex env) t1 t2 db code client_id)) (\<lambda>rc.
        if ac_redirect_uri rc \<noteq> redirect then act_err (validation_error ''invalid_grant: redirect_uri mismatch'')
        else if verifier = [] then act_err (validation_error ''invalid_grant: code_verifier required'')
        else if \<not> verify_s256 (oe_sha256 env) verifier (ac_code_challenge rc)
        then act_err (validation_error ''invalid_grant: PKCE verification failed'')
        else redeemed_tokens env c rc))) st = (Inr (Inr resp), st')"
    using assms unfolding exchangeCode_def by (rule act_bindE) (auto simp: get_client_ok)
  then obtain t1 t2 rc db st1 where r:
      "auth_code_redeem (oe_ad env) (sha256_hex env) t1 t2 (os_db st) code client_id = (Inr (Inr rc), db)"
      "ac_redirect_uri rc = redirect" "verify_s256 (oe_sha256 env) verifier (ac_code_challenge rc)"
      "redeemed_tokens env c rc st1 = (Inr (Inr resp), st')"
    by (elim nowUnix_bindE act_bindE) (auto simp: with_client_Inr act_err_def split: if_split_asm)
  from r(4) obtain sid st2 resp' st3 where
      "issue_tokens env c (ac_user_id rc) (ac_client_id rc) sid (ac_tenant_id rc) (ac_scope rc) (ac_nonce rc) st2
        = (Inr (Inr resp'), st3)"
      "tr_idToken resp = tr_idToken resp'" "tr_accessToken resp = tr_accessToken resp'"
    unfolding redeemed_tokens_def by (elim act_bindE) (auto dest: add_refresh_token_keeps simp: act_ret_def split: if_split_asm)
  moreover have "fst (auth_code_redeem (oe_ad env) (sha256_hex env) t1 t2 (os_db st) code client_id) = Inr (Inr rc)"
    using r(1) by simp
  ultimately show ?thesis using that r(2,3) by blast
qed


text \<open>
  The identity token that a code is exchanged for is signed over claims that name the user who signed in,
  the client that asked, and the nonce of its request.
\<close>

theorem id_token_names_user:
  assumes "reliable_client (oe_ad env) rows"
    and "filter_mset (\<lambda>r. field_is r (''codeHash'', sha256_hex env code)) (rows (os_db st) ''AuthorizationCode'') = {#}"
    and "issueCode env req user tenant st = (Inr (Inr code), st1)"
    and "os_db st2 = os_db st1"
    and "exchangeCode env code redirect client_id verifier st2 = (Inr (Inr resp), st3)"
  shows "\<exists>claims. oe_sign env (jwt_header env) claims = Inr (tr_idToken resp) \<and>
    map (jget claims) [''iss'', ''sub'', ''aud'', ''tenant_id'', ''nonce''] =
      [Some (JString (oe_issuer env)), Some (JString user), Some (JString (az_client_id req)),
       Some (JString tenant), map_option JString (az_nonce req)]"
  using assms(5)
proof (rule exchangeCode_run)
  fix c :: oauth_client and t1 t2 :: int and rc :: redeemed_code and sid :: string
    and st4 st5 :: "('a, 'b) oidc_state" and resp' :: token_response
  assume "fst (auth_code_redeem (oe_ad env) (sha256_hex env) t1 t2 (os_db st2) code client_id) = Inr (Inr rc)"
  then have rc: "rc = code_request req user tenant" using issued_code_redeemed [OF assms(1-4)] by blast
  assume same: "tr_idToken resp = tr_idToken resp'"
  assume "issue_tokens env c (ac_user_id rc) (ac_client_id rc) sid (ac_tenant_id rc) (ac_scope rc) (ac_nonce rc) st4
      = (Inr (Inr resp'), st5)"
  then obtain now jti auth_time where signed: "oe_sign env (jwt_header env) (token_claims env (ac_user_id rc) (ac_client_id rc) now
      (oc_id_token_ttl c) jti (id_claims sid (ac_tenant_id rc) auth_time (ac_nonce rc))) = Inr (tr_idToken resp')"
    by (rule issue_tokens_id)
  let ?claims = "token_claims env (ac_user_id rc) (ac_client_id rc) now (oc_id_token_ttl c) jti
    (id_claims sid (ac_tenant_id rc) auth_time (ac_nonce rc))"
  have named: "map (jget ?claims) [''iss'', ''sub'', ''aud'', ''tenant_id'', ''nonce''] =
      [Some (JString (oe_issuer env)), Some (JString user), Some (JString (az_client_id req)),
       Some (JString tenant), map_option JString (az_nonce req)]"
    unfolding id_claim_values by (simp add: rc code_request_def)
  show ?thesis unfolding same by (rule exI [of _ ?claims], rule conjI [OF signed named])
qed

section \<open>Sessions\<close>

context keyed_client begin

lemma session_ended:
  assumes "revokeBrowserSession env sid st = (Inr r, st')" "oe_client env = c"
    and "rows (os_db st) ''OidcSession'' sid = Some row" "{''clientId'', ''revokedAt''} \<subseteq> columns ''OidcSession''"
  shows "\<exists>row' t. rows (os_db st') ''OidcSession'' sid = Some row' \<and> jget row' ''clientId'' = jget row ''clientId''
    \<and> jget row' ''revokedAt'' = Some (JInt t)"
proof -
  obtain t w where t: "nowUnix env st = (Inr (Inr t), st\<lparr>os_world := w\<rparr>)" using clock_step [of env st] by blast
  have d: "is_object (jobject [(''revokedAt'', JInt t)])" by simp
  obtain row' db where u: "cl_update c ''OidcSession'' sid (jobject [(''revokedAt'', JInt t)]) (os_db st) = (Inr (Inr row'), db)"
      "rows db = (rows (os_db st))(''OidcSession'' := (rows (os_db st) ''OidcSession'')(sid \<mapsto> row'))"
      "\<forall>k \<in> columns ''OidcSession''. jget row' k =
         (case jget (jobject [(''revokedAt'', JInt t)]) k of Some v \<Rightarrow> Some v | None \<Rightarrow> jget row k)"
    using update_row [OF assms(3) d] by blast
  have "os_db st' = db"
    using assms(1,2) u(1) by (auto simp: revokeBrowserSession_def act_bind_def t with_client_def act_ret_def)
  moreover have "jget row' ''clientId'' = jget row ''clientId''" "jget row' ''revokedAt'' = Some (JInt t)"
    using u(3) assms(4) by (simp_all add: jget_jobject)
  ultimately show ?thesis using u(2) by auto
qed

lemma ended_not_found:
  assumes "rows (os_db st) ''OidcSession'' sid = Some row" "oe_client env = c"
    and "jget row ''clientId'' = Some (JString client_id)" "jget row ''revokedAt'' = Some (JInt t)"
  shows "\<exists>e st'. lookupBrowserSession env sid st = (Inr (Inl e), st')"
proof -
  obtain db where "cl_read c ''OidcSession'' sid (os_db st) = (Inr (Inr row), db)" using read_row [OF assms(1)] by blast
  then show ?thesis using assms rows_object [OF assms(1)]
    by (simp add: lookupBrowserSession_def act_bind_def act_result_def with_client_def act_lift_def value_string_def
        value_as_def exn_bind_def spent_def act_err_def)
qed

end


section \<open>A provider at work\<close>

definition row_client :: "table_db client" where
  "row_client = \<lparr>cl_create = (\<lambda>e d db. case table_create db e d of (r, db') \<Rightarrow> (Inr r, db')),
     cl_read = (\<lambda>_ _. not_offered), cl_update = (\<lambda>_ _ _. not_offered), cl_remove = (\<lambda>_ _. not_offered),
     cl_list = (\<lambda>_ _. not_offered), cl_upsert = (\<lambda>_ _ _ _ _. not_offered), cl_findByField = (\<lambda>_ _ _. not_offered),
     cl_readIncludingSensitive = (\<lambda>_ _. not_offered), cl_updateMany = (\<lambda>_ _ _. not_offered),
     cl_deleteMany = (\<lambda>_ _. not_offered)\<rparr>"

definition web_client :: oauth_client where
  "web_client = \<lparr>oc_client_id = ''web'', oc_client_name = ''web'', oc_token_endpoint_auth_method = ''none'', oc_grant_types = [],
     oc_response_types = [], oc_redirect_uris = [''https://x/cb''], oc_post_logout_redirect_uris = [], oc_require_pkce = True,
     oc_pkce_methods = [''S256''], oc_scope = ''openid'', oc_access_token_ttl = 900, oc_refresh_token_ttl = 900,
     oc_id_token_ttl = 900\<rparr>"

definition demo_provider :: "'db adapter \<Rightarrow> 'db client \<Rightarrow> ('db, nat) oidc_env" where
  "demo_provider ad c = \<lparr>oe_ad = ad, oe_client = c,
     oe_crypto = \<lparr>cy_random = (\<lambda>n db. (Inr [], db)), cy_argon2 = (\<lambda>salt pw. Inr pw), cy_argon2_verify = (=),
       cy_key = Inr [], cy_encrypt = (\<lambda>k n s. (s, [])), cy_decrypt = (\<lambda>k n c. Some (fst c))\<rparr>,
     oe_now = (\<lambda>w. (0, w)), oe_steady = (\<lambda>w. (0, w)), oe_random = (\<lambda>w. (nat_digits w, Suc w)), oe_sha256 = id,
     oe_sign = (\<lambda>h claims. Inr ''signed''), oe_kid = ''k'', oe_modulus = [], oe_exponent = [], oe_public_key = [],
     oe_verify = (\<lambda>k i t. None), oe_clients = [(''web'', web_client)], oe_issuer = ''https://id'', oe_prefix = []\<rparr>"

definition demo_verifier :: string where
  "demo_verifier = replicate 43 (CHR ''a'')"

definition demo_authorize :: authorize_request where
  "demo_authorize = \<lparr>az_client_id = ''web'', az_redirect_uri = ''https://x/cb'', az_scope = ''openid'', az_state = [],
     az_code_challenge = derive_s256_challenge id demo_verifier, az_code_challenge_method = ''S256'', az_nonce = Some ''n''\<rparr>"

definition fresh_provider :: "'db \<Rightarrow> ('db, nat) oidc_state" where
  "fresh_provider db = \<lparr>os_db = db, os_world = 0, os_pending = [], os_restart = []\<rparr>"

abbreviation row_provider :: "(table_db, nat) oidc_env" where
  "row_provider \<equiv> demo_provider table_adapter row_client"

abbreviation issued_state :: "(table_db, nat) oidc_state" where
  "issued_state \<equiv> snd (issueCode row_provider demo_authorize ''u'' ''t'' (fresh_provider (\<lambda>_. [])))"

abbreviation exchange_answer where
  "exchange_answer \<equiv> exchangeCode row_provider ''0'' ''https://x/cb'' ''web'' demo_verifier issued_state"

definition demo_tokens :: token_response where
  "demo_tokens = \<lparr>tr_accessToken = ''signed'', tr_idToken = ''signed'', tr_refreshToken = [], tr_tokenType = ''Bearer'',
     tr_expiresIn = 900, tr_scope = ''openid''\<rparr>"

lemmas provider_steps = issueCode_def generate_token_def nowUnix_def on_world_def with_store_def with_client_def
  act_bind_def act_ret_def act_lift_def act_result_def demo_provider_def fresh_provider_def

lemma first_token: "nat_digits 0 = ''0''"
  by code_simp

lemma demo_issued: "issueCode row_provider demo_authorize ''u'' ''t'' (fresh_provider (\<lambda>_. [])) = (Inr (Inr ''0''), issued_state)"
  by (simp add: provider_steps auth_code_issue_def create_entity_def table_adapter_def table_create_def first_token)

lemma demo_row: "auth_code_issue table_adapter (sha256_hex row_provider) 60 ''0'' 0 0 (\<lambda>_. [])
    (code_request demo_authorize ''u'' ''t'') = (Inr ''0'', os_db issued_state)"
  by (simp add: provider_steps auth_code_issue_def create_entity_def table_adapter_def table_create_def first_token
      auth_code_ttl_def sha256_hex_def)

lemma demo_redeemed:
  "\<exists>db. auth_code_redeem table_adapter (sha256_hex row_provider) 0 0 (os_db issued_state) ''0'' ''web'' =
     (Inr (Inr (code_request demo_authorize ''u'' ''t'')), db)"
proof -
  have "fst (auth_code_redeem table_adapter (sha256_hex row_provider) 0 0 (os_db issued_state) ''0'' ''web'') =
      Inr (Inr (code_request demo_authorize ''u'' ''t''))"
    using table.issue_redeem [OF _ demo_row, of 0 0 "''web''"]
    by (simp add: table_view_def code_request_def demo_authorize_def)
  then show ?thesis by (metis prod.collapse)
qed

lemma demo_verified: "verify_s256 id demo_verifier (az_code_challenge demo_authorize)"
proof -
  have "is_valid_code_verifier_format demo_verifier" by code_simp
  then show ?thesis by (simp add: verify_s256_def demo_authorize_def timing_safe_equal_iff)
qed

lemma demo_session: "\<exists>st' i. createSession row_provider user tenant client_id st = (Inr (Inr i), st')"
proof -
  have "nat_digits n \<noteq> []" for n using nat_digits_nonempty by blast
  then show ?thesis
    by (simp add: createSession_def provider_steps row_client_def table_create_def value_string_def value_as_def exn_bind_def
        jget_with_id)
qed

lemma demo_issue_tokens: "\<exists>st' resp. issue_tokens row_provider c user client_id sid tenant scope nonce st = (Inr (Inr resp), st')"
  by (simp add: issue_tokens_def issueIdToken_def issueAccessToken_def issue_token_def role_claim_def getUserRoleByUsername_def
      sign_caught_def provider_steps row_client_def not_offered_def)

lemma demo_redeemed_tokens:
  "\<exists>st' resp. redeemed_tokens row_provider c (code_request demo_authorize user tenant) st = (Inr (Inr resp), st')"
proof -
  let ?rc = "code_request demo_authorize user tenant"
  obtain i st1 where 1: "createSession row_provider (ac_user_id ?rc) (ac_tenant_id ?rc) (ac_client_id ?rc) st = (Inr (Inr i), st1)"
    using demo_session by blast
  obtain resp st2 where 2: "issue_tokens row_provider c (ac_user_id ?rc) (ac_client_id ?rc) i (ac_tenant_id ?rc)
      (ac_scope ?rc) (ac_nonce ?rc) st1 = (Inr (Inr resp), st2)"
    using demo_issue_tokens by blast
  have "\<not> scopeContains (ac_scope ?rc) ''offline_access''"
    by (simp add: code_request_def demo_authorize_def scopeContains_def)
  then show ?thesis
    by (simp add: redeemed_tokens_def act_bind_def 1 2 act_ret_def)
qed

lemma demo_exchanged: "\<exists>st' resp. exchange_answer = (Inr (Inr resp), st')"
proof -
  obtain db where db: "auth_code_redeem table_adapter (sha256_hex row_provider) 0 0 (os_db issued_state) ''0'' ''web'' =
      (Inr (Inr (code_request demo_authorize ''u'' ''t'')), db)"
    using demo_redeemed by blast
  have clock: "nowUnix row_provider st = (Inr (Inr 0), st)" for st :: "(table_db, nat) oidc_state"
    by (simp add: nowUnix_def on_world_def demo_provider_def)
  have env: "oe_ad row_provider = table_adapter" "oe_sha256 row_provider = id" "oe_clients row_provider = [(''web'', web_client)]"
    by (simp_all add: demo_provider_def)
  have "demo_verifier \<noteq> []" by (simp add: demo_verifier_def)
  moreover have "ac_redirect_uri (code_request demo_authorize ''u'' ''t'') = ''https://x/cb''"
      "ac_code_challenge (code_request demo_authorize ''u'' ''t'') = az_code_challenge demo_authorize"
    by (simp_all add: code_request_def demo_authorize_def)
  ultimately have "exchange_answer =
      redeemed_tokens row_provider web_client (code_request demo_authorize ''u'' ''t'') (issued_state\<lparr>os_db := db\<rparr>)"
    by (simp add: exchangeCode_def get_client_def env act_bind_def act_ret_def clock with_client_def db demo_verified)
  then show ?thesis using demo_redeemed_tokens by simp
qed


theorem id_token_names_user_witness:
  "\<exists>claims. map (jget claims) [''iss'', ''sub'', ''aud'', ''tenant_id'', ''nonce''] =
      [Some (JString ''https://id''), Some (JString ''u''), Some (JString ''web''), Some (JString ''t''), Some (JString ''n'')]"
proof -
  obtain st' resp where "exchange_answer = (Inr (Inr resp), st')" using demo_exchanged by blast
  from id_token_names_user [OF _ _ demo_issued refl this] show ?thesis
    using table.reliable_client_axioms
    by (auto simp: demo_provider_def fresh_provider_def table_view_def demo_authorize_def)
qed

text \<open>A browser that signs out.\<close>

definition no_adapter :: "'db adapter" where
  "no_adapter = \<lparr>ad_create = (\<lambda>db e d. (Inl (internal_error []), db)), ad_list = (\<lambda>db e f n. Inl (internal_error [])),
     ad_update = (\<lambda>db e i d. (Inl (internal_error []), db))\<rparr>"

abbreviation table_provider :: "(tables, nat) oidc_env" where
  "table_provider \<equiv> demo_provider no_adapter tables_client"

definition demo_session_row :: "(string \<times> json) list" where
  "demo_session_row = [(''clientId'', JString browser_session_client), (''expiresAt'', JInt 9), (''revokedAt'', JNull),
     (''userId'', JString ''u'')]"

definition session_state :: "(tables, nat) oidc_state" where
  "session_state = fresh_provider (tables_put ''OidcSession'' ''s'' demo_session_row no_tables)"

definition browser_request :: "(string \<times> string) list \<Rightarrow> oidc_request" where
  "browser_request params = \<lparr>oq_post = False, oq_params = params, oq_cookies = [(session_cookie_name, ''s'')],
     oq_authorization = []\<rparr>"

definition authorize_params :: "(string \<times> string) list" where
  "authorize_params = [(''client_id'', ''web''), (''redirect_uri'', ''https://x/cb''), (''response_type'', ''code''),
     (''scope'', ''openid''), (''code_challenge'', demo_verifier), (''code_challenge_method'', ''S256'')]"

lemma demo_requested: "requested table_provider (browser_request authorize_params) = Inr
    \<lparr>az_client_id = ''web'', az_redirect_uri = ''https://x/cb'', az_scope = ''openid'', az_state = [],
     az_code_challenge = demo_verifier, az_code_challenge_method = ''S256'', az_nonce = None\<rparr>"
proof -
  have "is_valid_code_challenge_format demo_verifier" by code_simp
  then show ?thesis
    by (simp add: requested_def Let_def oidc_param_def browser_request_def authorize_params_def validateAuthorize_def
        demo_provider_def web_client_def isValidRedirectUri_def isScopeAllowed_def scope_words_def)
qed


end
