(* ===== verification/Spec2Isabelle.thy ===== *)
theory Spec2Isabelle
  imports Entity_Properties Auth_Jwt Security_Limits Token_Lifecycle Bql_Roundtrip Blob_Isolation
    Workflow_Properties Workflow_Uuid Sql_Where Redis_Properties Cache_Redis Cache_Config Rest_Gates
    Sql_Properties Sql_Literals Sqlite_Properties Sql_Migration
    Remote_Properties Blob_Files_Properties Search_Properties Seed_Properties Account_Properties
    Oidc_Properties
begin

text \<open>
  A verification of the core of the DBAL daemon.

  The program (C++, \<^verbatim>\<open>src/libraries/dbal/production\<close>; paths below are relative to it) is a
  database abstraction layer that runs as an HTTP daemon.  Requests enter through the routes
  (\<^verbatim>\<open>src/daemon\<close>), which authenticate them (\<^verbatim>\<open>src/auth\<close>, \<^verbatim>\<open>src/security\<close>), call a client
  (\<^verbatim>\<open>src/client_entity_ops.cpp\<close>) or the entity functions (\<^verbatim>\<open>src/entities\<close>), and reach a store:
  the one in memory (\<^verbatim>\<open>src/store\<close>) or an adapter for an external database
  (\<^verbatim>\<open>src/adapters\<close>), possibly behind a cache (\<^verbatim>\<open>src/cache\<close>).  Beside the records stand the blob
  storage (\<^verbatim>\<open>src/blob\<close>), the single-use credentials of OIDC, CAS and SAML (\<^verbatim>\<open>src/oidc\<close>,
  \<^verbatim>\<open>src/cas\<close>, \<^verbatim>\<open>src/saml\<close>), the workflow engine that reacts to writes (\<^verbatim>\<open>src/workflow\<close>), and the
  reader of the script language BQL (\<^verbatim>\<open>src/bql\<close>).

  Conventions.  A C++ \<^verbatim>\<open>std::string\<close> is a list of bytes.  An \<^verbatim>\<open>int\<close> that may overflow goes through
  \<open>checked\<close>, where \<open>None\<close> is the undefined behaviour; unsigned arithmetic is on words.  A
  function that returns \<^verbatim>\<open>Result<T>\<close> returns \<open>error + 'a\<close>; one that may throw returns a sum with
  the exception on the left.  State is passed explicitly.  A mutex makes an operation one
  step, and runs are sequences of such steps.  Clocks, random words and the identifiers
  drawn from them are arguments.

  Shared theories.
  \<^item> \<open>Dbal_Prelude\<close>: strings, characters, maps of the C++ library as association lists in key
    order, number parsing, the lemma collections.  \<open>Dbal_Errors\<close>: error codes, HTTP status
    (\<^verbatim>\<open>include/dbal/core\<close>).  \<open>Cpp_Sort\<close>: \<^verbatim>\<open>std::sort\<close> as any function that satisfies its
    documented contract, and the page slices.  \<open>Cpp_Regex\<close>: \<^verbatim>\<open>std::regex_match\<close> by
    derivatives, proved equal to the language of the pattern.  \<open>Json_Value\<close>: JSON values and
    the exceptions of \<^verbatim>\<open>nlohmann::json\<close>.

  Entities (\<^verbatim>\<open>src/entities\<close>, \<^verbatim>\<open>src/store\<close>, \<^verbatim>\<open>src/validation\<close>).
  \<^item> \<open>Entity_Store\<close>: \<^verbatim>\<open>InMemoryStore\<close> as a record of maps, indexes and counters.
    \<open>Entity_Validation\<close>: every validator.  \<open>Entity_Pages\<close>, \<open>Entity_Sessions\<close>, \<open>Entity_Packages\<close>,
    \<open>Entity_Workflows\<close>, \<open>Entity_Components\<close>: each handler in full, its partial writes on a
    late failure included, with its invariant.  \<open>Component_Forest\<close>, \<open>Component_Invariant\<close>,
    \<open>Component_Walks\<close>: the forest of page components; its walks take fuel, for which the
    number of components is enough (one more for a tree), as the invariant shows.
    \<open>Store_Machine\<close>: all operations as one step relation, the reachable stores, transactions.
    \<open>Entity_Properties\<close>: the properties.

  Credentials (\<^verbatim>\<open>src/security\<close>, \<^verbatim>\<open>src/oidc\<close>, \<^verbatim>\<open>src/cas\<close>, \<^verbatim>\<open>src/saml\<close>).
  \<^item> \<open>Entity_Client\<close>: the entity client over an adapter; what the token stores rely on is the
    locale \<open>entity_client\<close>.  \<open>Token_Stores\<close>: codes, refresh tokens, tickets, assertions.
    \<open>Token_Lifecycle\<close>: single use over any sequence of operations.
  \<^item> \<open>Base64\<close>, \<open>Auth_Jwt\<close>: the codecs with their 32-bit accumulator, the JWT validators and PKCE.
    \<open>Security_Limits\<close>: rate limiter, nonce store, backoff.

  Workflows (\<^verbatim>\<open>src/workflow\<close>, \<^verbatim>\<open>include/workflow\<close>).
  \<^item> \<open>Workflow_Order\<close>: the ordering loop, a \<open>partial_function\<close> that is proved to return.
    \<open>Workflow_Context\<close>: variables, templates, comparisons.  \<open>Workflow_Engine\<close>: steps and
    executor.  \<open>Workflow_Loader\<close>: rebuilding a workflow from rows, dispatch, the trigger cache.
    \<open>Workflow_Properties\<close>, \<open>Workflow_Uuid\<close>: the properties.

  Databases (\<^verbatim>\<open>src/adapters\<close>, \<^verbatim>\<open>src/cache\<close>).
  \<^item> \<open>Sql_Where\<close>: the builder of conditions, refined by a tree of conditions with its meaning on
    rows.
  \<^item> \<open>Sql_Statements\<close>, \<open>Sql_Adapter\<close>: the relational adapter, its statements and values, over the two
    functions that run a statement; an operation is a state function that may throw.
    \<open>Sql_Drivers\<close>: PostgreSQL, MySQL and the bridge to Prisma.  \<open>Sql_Properties\<close>: which value meets
    which column, what leaves the server, what a transaction is worth.  \<open>Sql_Literals\<close>: how MySQL
    reads the values, and what a column gives back.
  \<^item> \<open>Schema_Files\<close>: reading the entity schemas from their files.  \<open>Sqlite_Adapter\<close>,
    \<open>Sqlite_Properties\<close>: the adapter for SQLite, which builds its own statements and has a
    database that can be rolled back.  \<open>Sql_Migration\<close>: creating tables and adding what they lack,
    refined by a plan computed from what the server reports.
  \<^item> \<open>Remote_Calls\<close>: what the adapters over HTTP share: requests, and a compensating transaction.
    \<open>Elastic_Adapter\<close>, \<open>Surreal_Adapter\<close>, \<open>Supabase_Adapter\<close>: the three adapters; the service behind
    them is a function from a request and its state to an answer.  \<open>Remote_Properties\<close>: the pages of a
    list, lost writes, texts that come back.
  \<^item> \<open>Search_Adapter\<close>, \<open>Search_Properties\<close>: the layer that mirrors records into a search index, and
    that it changes nothing else.
  \<^item> \<open>Redis_Adapter\<close>, \<open>Redis_Properties\<close>: the Redis adapter and the compensating
    transactions, over a server given by its commands (\<open>redis_server\<close>).
  \<^item> \<open>Cache_Adapter\<close>: the caching adapter, its keys, its configuration.  \<open>Cache_Coherence\<close>: the
    argument that it answers like the adapter, over the interfaces \<open>record_adapter\<close> and
    \<open>cache_server\<close>.  \<open>Cache_Redis\<close>: the instance on the Redis adapter.  \<open>Cache_Config\<close>: which
    cache addresses are accepted.

  The REST interface (\<^verbatim>\<open>src/daemon\<close>, \<^verbatim>\<open>src/auth\<close>, the access rules of \<^verbatim>\<open>src/core\<close>).
  \<^item> \<open>Rest_Requests\<close>: paths, the conversions between the two JSON libraries, the options of a
    list.  \<open>Rest_Handlers\<close>: the handlers of single records, lists, searches, bulk and batch
    requests, over any adapter; a handler yields an \<open>outcome\<close>, whose state is unknown
    (\<open>None\<close>) after the adapter threw.  \<open>Rest_Queries\<close>: the named procedures.
  \<^item> \<open>Access_Control\<close>: the access rules as read from the schemas, the gates, the limiter.
    \<open>Rest_Routes\<close>: the routes, composed of gate, limiter and handler, with the workflow events
    that writes raise.  \<open>Rest_Properties\<close>: tenants and transactions.  \<open>Rest_Gates\<close>: who gets past
    the gates, and past which routes there are none.

  Blobs (\<^verbatim>\<open>src/blob\<close>, \<^verbatim>\<open>src/daemon/handlers/blob_route_handler.cpp\<close>).
  \<^item> \<open>Blob_Memory\<close>: the storage in memory, with the interface as a record and a locale.
    \<open>Blob_Routes\<close>: the routes, over any storage.  \<open>Blob_Isolation\<close>: the properties.
  \<^item> \<open>Blob_Files\<close>, \<open>Blob_Files_Properties\<close>: the storage on files, over a map from paths to nodes that
    follows POSIX without symbolic links, failing devices, limits on names and zero bytes.

  Callers of the client (\<^verbatim>\<open>src/client_*_ops.cpp\<close>, \<^verbatim>\<open>src/daemon/actions\<close>, the RPC files of
  \<^verbatim>\<open>src/daemon\<close>).
  \<^item> \<open>Client_Calls\<close>: the client as its callers see it, and the locales \<open>keyed_client\<close> and
    \<open>account_client\<close> of a database that keeps its rows.  \<open>Table_Client\<close>: tables as maps, which give both.
  \<^item> \<open>Seed_Loader\<close>: files, documents and records of seeds, and their fingerprints.
    \<open>Seed_Properties\<close>: what a second load does to rows that an operator has changed.
  \<^item> \<open>Client_Accounts\<close>: users, credentials and encrypted secrets, with the wrappers of the cryptography.
    \<open>Rpc_Users\<close>: the RPC endpoint.  \<open>Account_Properties\<close>: passwords and secrets that come back, and whom
    the endpoint obeys.
  \<^item> \<open>Oidc_Service\<close>: the OpenID provider (\<^verbatim>\<open>src/oidc\<close>), its clients, sessions, codes and tokens, with the
    clocks and the random tokens as operations on a state.  \<open>Oidc_Routes\<close>: its endpoints and the login form
    (\<^verbatim>\<open>src/daemon/handlers/oidc\<close>), with the store of the requests that wait for a login.
    \<open>Oidc_Properties\<close>: what a code is exchanged for and to whom, and what a logout ends.

  BQL (\<^verbatim>\<open>src/bql\<close>).
  \<^item> \<open>Bql_Lexer\<close>, \<open>Bql_Parser\<close>: tokens, sentences, scripts.  \<open>Bql_Roundtrip\<close>: the grammar of the
    sentences, and that the parser reads what the grammar writes.

  Parameters.  Code outside the repository is an argument of the definitions: the servers
  behind the adapters, digests and signatures (OpenSSL, jwt-cpp), the texts of JSON values
  (\<^verbatim>\<open>nlohmann\<close>'s \<^verbatim>\<open>dump\<close> and \<^verbatim>\<open>parse\<close>, jsoncpp), \<^verbatim>\<open>std::sort\<close>, \<^verbatim>\<open>std::hash\<close>, \<^verbatim>\<open>strtod\<close>.  Where a
  property relies on their documented behaviour, it is a hypothesis with a concrete instance
  in the property's example.

  Not modelled.  MongoDB is a translation to BSON around its driver, and the operations of the
  Cassandra adapter are stubs.  Blobs on S3 are signed requests to a service that answers in XML.  The
  services of CAS and SAML are XML and signatures of xmlsec around the token stores.
  The routes of administration, CAS and SAML, the HTTP server with its sockets and threads, the choice
  of the adapter and start-up are wiring; the older builders, generators and loaders of
  \<^verbatim>\<open>src/core\<close> and \<^verbatim>\<open>src/adapters/sql\<close> have no callers.
\<close>

end
